(* ===== verification/Prelude.thy ===== *)
theory Prelude imports Main "HOL-Library.AList" "HOL-Library.Sublist" begin

text \<open>
  What every component shares: Go's \<open>error\<close> values, the loops that return at the first
  error, Go maps as association lists, and the locales that state the two contracts the
  fleet code relies on over and over: a validator that accepts exactly the good values,
  and an override that a more specific level applies to a more general one.
\<close>

named_theorems check_simps \<open>when a validator accepts\<close>
named_theorems dict_simps \<open>lookups after updates of a Go map\<close>

section \<open>Errors\<close>

text \<open>
  An \<open>error\<close> built by \<open>fmt.Errorf\<close> is kept as its format string and arguments; the error
  behind a \<open>%w\<close> verb, or printed by \<open>%v\<close> as the last argument, is kept as the inner one. \<open>Ext\<close> is an error that comes from outside the program
  (a dial, a remote command, the operating system), with its message. \<open>Panic\<close> is no error value: it
  is the program dying at that point, which callers cannot catch.
\<close>

datatype arg = Str string | Num int

datatype goerr =
    Ext string
  | Errorf string "arg list"
  | Wrapf string "arg list" goerr
  | Panic string

type_synonym 'a res = "goerr + 'a"

text \<open>The innermost error of a chain of messages.\<close>

primrec root_cause :: "goerr \<Rightarrow> goerr" where
  "root_cause (Ext m) = Ext m"
| "root_cause (Errorf f as) = Errorf f as"
| "root_cause (Wrapf f as e) = root_cause e"
| "root_cause (Panic m) = Panic m"

text \<open>The UTF-8 bytes of the dash some messages contain.\<close>

definition em_dash :: string where
  "em_dash = [CHR 0xE2, CHR 0x80, CHR 0x94]"

section \<open>Loops over checks\<close>

text \<open>
  A function that returns only an \<open>error\<close> is an optional error. \<open>firstErr\<close> is a \<open>for\<close> loop
  that returns at the first element whose check fails, \<open>andThen\<close> is the
  \<open>if err := ...; err != nil { return err }\<close> sequence.
\<close>

primrec firstErr :: "('a \<Rightarrow> goerr option) \<Rightarrow> 'a list \<Rightarrow> goerr option" where
  "firstErr f [] = None"
| "firstErr f (x # xs) = (case f x of Some e \<Rightarrow> Some e | None \<Rightarrow> firstErr f xs)"

definition andThen :: "goerr option \<Rightarrow> goerr option \<Rightarrow> goerr option" where
  "andThen a b = (case a of Some e \<Rightarrow> Some e | None \<Rightarrow> b)"

lemma firstErr_None [check_simps]: "firstErr f xs = None \<longleftrightarrow> (\<forall>x \<in> set xs. f x = None)"
  by (induction xs) (auto split: option.splits)

lemma firstErr_Some:
  "firstErr f xs = Some e \<longleftrightarrow>
    (\<exists>ys x zs. xs = ys @ x # zs \<and> f x = Some e \<and> (\<forall>y \<in> set ys. f y = None))"
proof (induction xs)
  case Nil
  show ?case by simp
next
  case (Cons a xs)
  show ?case
  proof (cases "f a")
    case None
    show ?thesis
    proof
      assume "firstErr f (a # xs) = Some e"
      with None Cons.IH obtain ys x zs where
        "xs = ys @ x # zs" "f x = Some e" "\<forall>y \<in> set ys. f y = None" by auto
      with None have "a # xs = (a # ys) @ x # zs \<and> f x = Some e \<and> (\<forall>y \<in> set (a # ys). f y = None)"
        by simp
      then show "\<exists>ys x zs. a # xs = ys @ x # zs \<and> f x = Some e \<and> (\<forall>y \<in> set ys. f y = None)"
        by blast
    next
      assume "\<exists>ys x zs. a # xs = ys @ x # zs \<and> f x = Some e \<and> (\<forall>y \<in> set ys. f y = None)"
      then obtain ys x zs where *: "a # xs = ys @ x # zs" "f x = Some e" "\<forall>y \<in> set ys. f y = None"
        by blast
      then show "firstErr f (a # xs) = Some e"
        using None Cons.IH by (cases ys) auto
    qed
  next
    case (Some e')
    show ?thesis
    proof
      assume "firstErr f (a # xs) = Some e"
      with Some have "a # xs = [] @ a # xs \<and> f a = Some e \<and> (\<forall>y \<in> set []. f y = None)" by simp
      then show "\<exists>ys x zs. a # xs = ys @ x # zs \<and> f x = Some e \<and> (\<forall>y \<in> set ys. f y = None)"
        by blast
    next
      assume "\<exists>ys x zs. a # xs = ys @ x # zs \<and> f x = Some e \<and> (\<forall>y \<in> set ys. f y = None)"
      with Some show "firstErr f (a # xs) = Some e" by (auto simp: Cons_eq_append_conv)
    qed
  qed
qed

lemma firstErr_append:
  "firstErr f (xs @ ys) = andThen (firstErr f xs) (firstErr f ys)"
  by (induction xs) (auto simp: andThen_def split: option.splits)

lemma andThen_None [check_simps]: "andThen a b = None \<longleftrightarrow> a = None \<and> b = None"
  by (auto simp: andThen_def split: option.splits)

lemma andThen_simps [simp]:
  "andThen None b = b" "andThen (Some e) b = Some e"
  by (simp_all add: andThen_def)

lemma if_Some_None [check_simps]:
  "(if c then Some e else r) = None \<longleftrightarrow> \<not> c \<and> r = None"
  by simp

subsection \<open>The contract of a validator\<close>

locale validator =
  fixes check :: "'a \<Rightarrow> goerr option"
    and good :: "'a \<Rightarrow> bool"
  assumes check_good: "check x = None \<longleftrightarrow> good x"
begin

lemma all_checked: "firstErr check xs = None \<longleftrightarrow> (\<forall>x \<in> set xs. good x)"
  by (simp add: firstErr_None check_good)

lemma rejected: "check x = Some e \<Longrightarrow> \<not> good x"
  using check_good [of x] by simp

lemma first_bad:
  assumes "firstErr check xs = Some e"
  shows "\<exists>ys x zs. xs = ys @ x # zs \<and> check x = Some e \<and> \<not> good x \<and> (\<forall>y \<in> set ys. good y)"
  using assms by (force simp: firstErr_Some check_good [symmetric])

end

section \<open>Overrides\<close>

text \<open>
  The fleet file resolves every setting as host over group over global: a level that
  leaves the setting at its zero value inherits the more general one.
\<close>

locale override =
  fixes over :: "'a \<Rightarrow> 'b \<Rightarrow> 'a"
    and unset :: "'b \<Rightarrow> bool"
    and val :: "'b \<Rightarrow> 'a"
  assumes over_unset: "unset b \<Longrightarrow> over a b = a"
    and over_set: "\<not> unset b \<Longrightarrow> over a b = val b"
begin

lemma three_levels:
  "over (over g r) h = (if \<not> unset h then val h else if \<not> unset r then val r else g)"
  by (simp add: over_unset over_set)

lemma idem: "over (over a b) b = over a b"
  by (cases "unset b") (simp_all add: over_unset over_set)

end

definition over_string :: "string \<Rightarrow> string \<Rightarrow> string" where
  "over_string a b = (if b \<noteq> '''' then b else a)"

definition over_option :: "'a \<Rightarrow> 'a option \<Rightarrow> 'a" where
  "over_option a b = (case b of None \<Rightarrow> a | Some x \<Rightarrow> x)"

interpretation ovs: override over_string "\<lambda>b. b = ''''" "\<lambda>b. b"
  by unfold_locales (simp_all add: over_string_def)

interpretation ovo: override over_option "\<lambda>b. b = None" the
  by unfold_locales (auto simp: over_option_def split: option.splits)

section \<open>Go maps\<close>

text \<open>
  A Go map is an association list with distinct keys: the list order is the order in
  which one run of the program iterates over it (Go leaves it open, so statements about
  every list are statements about every order). \<open>mget\<close> reads, \<open>mput\<close> writes, \<open>mcopy\<close> is
  \<open>maps.Copy\<close>.
\<close>

type_synonym 'v dict = "(string \<times> 'v) list"

definition mget :: "'v dict \<Rightarrow> string \<Rightarrow> 'v option" where
  "mget m k = map_of m k"

definition mput :: "'v dict \<Rightarrow> string \<Rightarrow> 'v \<Rightarrow> 'v dict" where
  "mput m k v = AList.update k v m"

definition mcopy :: "'v dict \<Rightarrow> 'v dict \<Rightarrow> 'v dict" where
  "mcopy dst src = fold (\<lambda>(k, v) m. mput m k v) src dst"

definition keys :: "'v dict \<Rightarrow> string list" where
  "keys m = map fst m"

definition dict_ok :: "'v dict \<Rightarrow> bool" where
  "dict_ok m \<longleftrightarrow> distinct (keys m)"

lemma mget_Nil [simp]: "mget [] k = None"
  by (simp add: mget_def)

lemma mget_mput [dict_simps]: "mget (mput m k v) k' = (if k' = k then Some v else mget m k')"
  by (simp add: mget_def mput_def update_conv')

lemma mget_Cons: "mget ((a, v) # m) k = (if a = k then Some v else mget m k)"
  by (simp add: mget_def)

lemma dict_ok_Nil [simp]: "dict_ok []"
  by (simp add: dict_ok_def keys_def)

lemma dict_ok_mput [dict_simps]: "dict_ok m \<Longrightarrow> dict_ok (mput m k v)"
  by (simp add: dict_ok_def keys_def mput_def distinct_update)

lemma mget_in: "mget m k = Some v \<Longrightarrow> (k, v) \<in> set m"
  by (induction m) (auto simp: mget_Cons split: if_splits prod.splits)

lemma mget_fold_mput:
  "dict_ok src \<Longrightarrow>
   mget (fold (\<lambda>(k, v) m. mput m k v) src dst) k =
     (case mget src k of Some v \<Rightarrow> Some v | None \<Rightarrow> mget dst k)"
proof (induction src arbitrary: dst)
  case Nil
  show ?case by simp
next
  case (Cons p src)
  obtain a v where p: "p = (a, v)" by (cases p)
  have ok: "dict_ok src" and a: "mget src a = None"
    using Cons.prems by (auto simp: p dict_ok_def keys_def mget_def map_of_eq_None_iff)
  show ?case
    using Cons.IH [OF ok, of "mput dst a v"] a
    by (auto simp: p mget_mput mget_Cons split: option.splits)
qed

lemma mget_mcopy [dict_simps]:
  "dict_ok src \<Longrightarrow>
   mget (mcopy dst src) k = (case mget src k of Some v \<Rightarrow> Some v | None \<Rightarrow> mget dst k)"
  by (simp add: mcopy_def mget_fold_mput)

lemma dict_ok_mcopy [dict_simps]: "dict_ok dst \<Longrightarrow> dict_ok (mcopy dst src)"
  unfolding mcopy_def
  by (induction src arbitrary: dst) (auto simp: dict_ok_mput)

text \<open>What a client of a map may rely on: reading after a write and after a copy.\<close>

locale dictionary =
  fixes empty :: "'m"
    and get :: "'m \<Rightarrow> string \<Rightarrow> 'v option"
    and put :: "'m \<Rightarrow> string \<Rightarrow> 'v \<Rightarrow> 'm"
    and copy :: "'m \<Rightarrow> 'm \<Rightarrow> 'm"
    and wf :: "'m \<Rightarrow> bool"
  assumes get_empty: "get empty k = None"
    and wf_empty: "wf empty"
    and get_put: "get (put m k v) k' = (if k' = k then Some v else get m k')"
    and wf_put: "wf m \<Longrightarrow> wf (put m k v)"
    and get_copy: "wf src \<Longrightarrow> get (copy dst src) k = (case get src k of Some v \<Rightarrow> Some v | None \<Rightarrow> get dst k)"
    and wf_copy: "wf dst \<Longrightarrow> wf (copy dst src)"
begin

lemma clone_get: "wf src \<Longrightarrow> get (copy empty src) k = get src k"
  by (simp add: get_copy get_empty split: option.splits)

text \<open>A clone overlaid by a second map: the overlay wins per key, nothing else changes.\<close>

lemma overlay_get:
  "wf dst \<Longrightarrow> wf src \<Longrightarrow>
   get (copy (copy empty dst) src) k = (case get src k of Some v \<Rightarrow> Some v | None \<Rightarrow> get dst k)"
  by (simp add: get_copy get_empty split: option.splits)

lemma overlay_wf: "wf (copy (copy empty dst) src)"
  by (simp add: wf_copy wf_empty)

end

interpretation dict: dictionary "[]" mget mput mcopy dict_ok
  by unfold_locales (simp_all add: dict_simps)

section \<open>Lists\<close>

lemma distinct_concat_disjoint:
  "distinct (xs @ ys) \<longleftrightarrow> distinct xs \<and> distinct ys \<and> (\<forall>x \<in> set xs. x \<notin> set ys)"
  by auto

lemma find_Some_first:
  "List.find P xs = Some x \<longleftrightarrow>
    (\<exists>ys zs. xs = ys @ x # zs \<and> P x \<and> (\<forall>y \<in> set ys. \<not> P y))"
proof (induction xs)
  case Nil
  show ?case by simp
next
  case (Cons a xs)
  show ?case
  proof (cases "P a")
    case True
    show ?thesis
    proof
      assume "List.find P (a # xs) = Some x"
      with True have "a # xs = [] @ x # xs \<and> P x \<and> (\<forall>y \<in> set []. \<not> P y)" by simp
      then show "\<exists>ys zs. a # xs = ys @ x # zs \<and> P x \<and> (\<forall>y \<in> set ys. \<not> P y)" by blast
    next
      assume "\<exists>ys zs. a # xs = ys @ x # zs \<and> P x \<and> (\<forall>y \<in> set ys. \<not> P y)"
      with True show "List.find P (a # xs) = Some x" by (auto simp: Cons_eq_append_conv)
    qed
  next
    case False
    show ?thesis
    proof
      assume "List.find P (a # xs) = Some x"
      with False Cons.IH obtain ys zs where "xs = ys @ x # zs" "P x" "\<forall>y \<in> set ys. \<not> P y" by auto
      with False have "a # xs = (a # ys) @ x # zs \<and> P x \<and> (\<forall>y \<in> set (a # ys). \<not> P y)" by simp
      then show "\<exists>ys zs. a # xs = ys @ x # zs \<and> P x \<and> (\<forall>y \<in> set ys. \<not> P y)" by blast
    next
      assume "\<exists>ys zs. a # xs = ys @ x # zs \<and> P x \<and> (\<forall>y \<in> set ys. \<not> P y)"
      then obtain ys zs where *: "a # xs = ys @ x # zs" "P x" "\<forall>y \<in> set ys. \<not> P y" by blast
      then show "List.find P (a # xs) = Some x"
        using False Cons.IH by (cases ys) auto
    qed
  qed
qed

end
