(* ===== verification/GoStrings.thy ===== *)
theory GoStrings imports Prelude begin

text \<open>
  The parts of Go's \<open>strings\<close> and \<open>strconv\<close> packages the program uses, on byte strings.
  A Go string is a byte sequence, and so is a HOL \<open>string\<close>. White space is Go's
  \<open>unicode.IsSpace\<close> on ASCII: the two Latin-1 and the wide Unicode spaces are outside
  the model (the fleet files, addresses and command outputs it is used on are ASCII).
\<close>

named_theorems str_simps \<open>facts on the string functions\<close>

section \<open>Trimming and splitting\<close>

definition is_space :: "char \<Rightarrow> bool" where
  "is_space c \<longleftrightarrow> c \<in> {CHR 0x09, CHR 0x0A, CHR 0x0B, CHR 0x0C, CHR 0x0D, CHR '' ''}"

definition trimSpace :: "string \<Rightarrow> string" where
  "trimSpace s = rev (dropWhile is_space (rev (dropWhile is_space s)))"

lemma trimSpace_Nil [simp]: "trimSpace [] = []"
  by (simp add: trimSpace_def)

lemma dropWhile_rev_stable:
  assumes "\<not> P (hd ys)" "ys \<noteq> []"
  shows "hd (rev (dropWhile P (rev ys))) = hd ys \<and> rev (dropWhile P (rev ys)) \<noteq> []"
proof -
  obtain y zs where ys: "ys = y # zs" using assms(2) by (cases ys) auto
  with assms(1) have "\<not> P y" by simp
  then have "dropWhile P (rev zs @ [y]) = dropWhile P (rev zs) @ [y]"
    by (induction "rev zs" rule: rev_induct) (auto simp: dropWhile_append)
  then show ?thesis by (simp add: ys)
qed

lemma hd_dropWhile_not: "dropWhile P xs \<noteq> [] \<Longrightarrow> \<not> P (hd (dropWhile P xs))"
  by (rule hd_dropWhile)

lemma dropWhile_idle: "xs = [] \<or> \<not> P (hd xs) \<Longrightarrow> dropWhile P xs = xs"
  by (cases xs) auto

lemma trimSpace_first: "trimSpace s \<noteq> [] \<Longrightarrow> \<not> is_space (hd (trimSpace s))"
proof -
  assume ne: "trimSpace s \<noteq> []"
  let ?d = "dropWhile is_space s"
  have "?d \<noteq> []"
  proof
    assume "?d = []"
    then have "trimSpace s = []" unfolding trimSpace_def by (simp only:) simp
    with ne show False by simp
  qed
  then have "\<not> is_space (hd ?d)" by (rule hd_dropWhile)
  then have "hd (rev (dropWhile is_space (rev ?d))) = hd ?d"
    using dropWhile_rev_stable [of is_space ?d] \<open>?d \<noteq> []\<close> by blast
  then show ?thesis
    using \<open>\<not> is_space (hd ?d)\<close> by (simp only: trimSpace_def) simp
qed

lemma trimSpace_last: "trimSpace s \<noteq> [] \<Longrightarrow> \<not> is_space (last (trimSpace s))"
proof -
  assume ne: "trimSpace s \<noteq> []"
  let ?e = "dropWhile is_space (rev (dropWhile is_space s))"
  have e: "trimSpace s = rev ?e" by (simp only: trimSpace_def)
  with ne have "?e \<noteq> []" by (simp only: rev_is_Nil_conv) simp
  then have "\<not> is_space (hd ?e)" by (rule hd_dropWhile)
  moreover have "last (trimSpace s) = hd ?e" by (simp only: e last_rev)
  ultimately show ?thesis by simp
qed

text \<open>Trimming twice is trimming once: the trimmed text has no white space at its ends.\<close>

lemma trimSpace_idem [str_simps]: "trimSpace (trimSpace s) = trimSpace s"
proof -
  let ?t = "trimSpace s"
  have "dropWhile is_space ?t = ?t"
    using trimSpace_first by (auto intro: dropWhile_idle)
  moreover have "dropWhile is_space (rev ?t) = rev ?t"
    using trimSpace_last by (auto intro!: dropWhile_idle simp: hd_rev)
  ultimately show ?thesis by (simp add: trimSpace_def)
qed

lemma trimSpace_idle:
  "s = [] \<or> (\<not> is_space (hd s) \<and> \<not> is_space (last s)) \<Longrightarrow> trimSpace s = s"
  by (auto simp: trimSpace_def dropWhile_idle hd_rev)

text \<open>\<open>strings.Split\<close> (and \<open>SplitSeq\<close>) on one separator byte: always at least one part.\<close>

fun splitOn :: "char \<Rightarrow> string \<Rightarrow> string list" where
  "splitOn c [] = [[]]"
| "splitOn c (x # xs) =
     (if x = c then [] # splitOn c xs
      else (case splitOn c xs of [] \<Rightarrow> [[x]] | p # ps \<Rightarrow> (x # p) # ps))"

definition joinWith :: "string \<Rightarrow> string list \<Rightarrow> string" where
  "joinWith sep ps = (case ps of [] \<Rightarrow> [] | p # qs \<Rightarrow> p @ concat (map (\<lambda>q. sep @ q) qs))"

lemma splitOn_ne [simp]: "splitOn c s \<noteq> []"
  by (induction c s rule: splitOn.induct) (auto split: list.splits)

lemma joinWith_splitOn [str_simps]: "joinWith [c] (splitOn c s) = s"
proof (induction c s rule: splitOn.induct)
  case (1 c)
  show ?case by (simp add: joinWith_def)
next
  case (2 c x xs)
  then show ?case
    by (cases "splitOn c xs") (auto simp: joinWith_def)
qed

lemma splitOn_no_sep: "p \<in> set (splitOn c s) \<Longrightarrow> c \<notin> set p"
proof (induction c s arbitrary: p rule: splitOn.induct)
  case (1 c)
  then show ?case by simp
next
  case (2 c x xs)
  then show ?case by (cases "splitOn c xs") (auto split: if_splits)
qed

lemma splitOn_single: "c \<notin> set s \<Longrightarrow> splitOn c s = [s]"
  by (induction s) auto

lemma splitOn_append: "c \<notin> set p \<Longrightarrow> splitOn c (p @ c # s) = p # splitOn c s"
  by (induction p) auto

text \<open>\<open>strings.FieldsFunc\<close>: the maximal runs of bytes that are no separators.\<close>

fun fieldsAcc :: "(char \<Rightarrow> bool) \<Rightarrow> string \<Rightarrow> string \<Rightarrow> string list" where
  "fieldsAcc P acc [] = (if acc = [] then [] else [rev acc])"
| "fieldsAcc P acc (x # xs) =
     (if P x then (if acc = [] then [] else [rev acc]) @ fieldsAcc P [] xs
      else fieldsAcc P (x # acc) xs)"

definition fieldsFunc :: "(char \<Rightarrow> bool) \<Rightarrow> string \<Rightarrow> string list" where
  "fieldsFunc P s = fieldsAcc P [] s"

definition goFields :: "string \<Rightarrow> string list" where
  "goFields s = fieldsFunc is_space s"

lemma fieldsAcc_parts:
  "\<forall>c \<in> set acc. \<not> P c \<Longrightarrow> f \<in> set (fieldsAcc P acc s) \<Longrightarrow> f \<noteq> [] \<and> (\<forall>c \<in> set f. \<not> P c)"
proof (induction s arbitrary: acc)
  case Nil
  then show ?case by (simp split: if_splits)
next
  case (Cons x s)
  show ?case
  proof (cases "P x")
    case True
    with Cons.prems have "f = rev acc \<and> acc \<noteq> [] \<or> f \<in> set (fieldsAcc P [] s)"
      by (simp split: if_splits)
    then show ?thesis using Cons.IH [of "[]"] Cons.prems(1) by auto
  next
    case False
    with Cons.prems show ?thesis by (intro Cons.IH [of "x # acc"]) auto
  qed
qed

lemma fieldsFunc_parts:
  "f \<in> set (fieldsFunc P s) \<Longrightarrow> f \<noteq> [] \<and> (\<forall>c \<in> set f. \<not> P c)"
  unfolding fieldsFunc_def by (rule fieldsAcc_parts [of "[]"]) auto

lemma goFields_parts: "f \<in> set (goFields s) \<Longrightarrow> f \<noteq> [] \<and> (\<forall>c \<in> set f. \<not> is_space c)"
  unfolding goFields_def by (rule fieldsFunc_parts)

lemma fieldsAcc_run:
  "\<forall>c \<in> set w. \<not> P c \<Longrightarrow> fieldsAcc P acc (w @ s) = fieldsAcc P (rev w @ acc) s"
  by (induction w arbitrary: acc) auto

section \<open>Prefixes and substrings\<close>

definition hasPrefix :: "string \<Rightarrow> string \<Rightarrow> bool" where
  "hasPrefix s p \<longleftrightarrow> take (length p) s = p"

definition cutPrefix :: "string \<Rightarrow> string \<Rightarrow> string option" where
  "cutPrefix s p = (if hasPrefix s p then Some (drop (length p) s) else None)"

definition trimPrefix :: "string \<Rightarrow> string \<Rightarrow> string" where
  "trimPrefix s p = (if hasPrefix s p then drop (length p) s else s)"

definition hasSuffix :: "string \<Rightarrow> string \<Rightarrow> bool" where
  "hasSuffix s p \<longleftrightarrow> hasPrefix (rev s) (rev p)"

definition trimSuffix :: "string \<Rightarrow> string \<Rightarrow> string" where
  "trimSuffix s p = (if hasSuffix s p then take (length s - length p) s else s)"

fun containsStr :: "string \<Rightarrow> string \<Rightarrow> bool" where
  "containsStr [] sub = (sub = [])"
| "containsStr (x # xs) sub = (hasPrefix (x # xs) sub \<or> containsStr xs sub)"

definition containsAny :: "string \<Rightarrow> string \<Rightarrow> bool" where
  "containsAny s cs \<longleftrightarrow> (\<exists>c \<in> set s. c \<in> set cs)"

definition trimChars :: "string \<Rightarrow> string \<Rightarrow> string" where
  "trimChars s cs = rev (dropWhile (\<lambda>c. c \<in> set cs) (rev (dropWhile (\<lambda>c. c \<in> set cs) s)))"

text \<open>\<open>strings.ReplaceAll\<close> with a non-empty pattern.\<close>

function replaceAll :: "string \<Rightarrow> string \<Rightarrow> string \<Rightarrow> string" where
  "replaceAll s old new =
     (if s = [] \<or> old = [] then s
      else if hasPrefix s old then new @ replaceAll (drop (length old) s) old new
      else hd s # replaceAll (tl s) old new)"
  by pat_completeness auto
termination
  by (relation "measure (\<lambda>(s, _, _). length s)") auto

declare replaceAll.simps [simp del]

lemma hasPrefix_append [simp]: "hasPrefix (p @ s) p"
  by (simp add: hasPrefix_def)

lemma hasPrefix_iff: "hasPrefix s p \<longleftrightarrow> (\<exists>r. s = p @ r)"
  by (metis append_take_drop_id append_eq_conv_conj hasPrefix_def)

lemma cutPrefix_append [simp]: "cutPrefix (p @ s) p = Some s"
  by (simp add: cutPrefix_def)

lemma trimPrefix_append [simp]: "trimPrefix (p @ s) p = s"
  by (simp add: trimPrefix_def)

lemma cutPrefix_Some: "cutPrefix s p = Some r \<longleftrightarrow> s = p @ r"
  by (auto simp: cutPrefix_def hasPrefix_iff)

lemma containsStr_char: "containsStr s [c] \<longleftrightarrow> c \<in> set s"
  by (induction s) (auto simp: hasPrefix_def)

lemma replaceAll_char: "replaceAll s [a] new = concat (map (\<lambda>c. if c = a then new else [c]) s)"
proof (induction s)
  case Nil
  show ?case by (simp add: replaceAll.simps)
next
  case (Cons x xs)
  then show ?case by (subst replaceAll.simps) (auto simp: hasPrefix_def)
qed

section \<open>Decimal numbers\<close>

definition digit_char :: "nat \<Rightarrow> char" where
  "digit_char d = char_of (48 + d)"

fun itoa_nat :: "nat \<Rightarrow> string" where
  "itoa_nat n = (if n < 10 then [digit_char n] else itoa_nat (n div 10) @ [digit_char (n mod 10)])"

declare itoa_nat.simps [simp del]

definition itoa :: "int \<Rightarrow> string" where
  "itoa i = (if i < 0 then ''-'' @ itoa_nat (nat (- i)) else itoa_nat (nat i))"

definition is_digit :: "char \<Rightarrow> bool" where
  "is_digit c \<longleftrightarrow> 48 \<le> (of_char c :: nat) \<and> (of_char c :: nat) \<le> 57"

definition digit_val :: "char \<Rightarrow> nat" where
  "digit_val c = of_char c - 48"

definition dec_val :: "string \<Rightarrow> nat" where
  "dec_val s = foldl (\<lambda>n c. 10 * n + digit_val c) 0 s"

text \<open>\<open>strconv.Atoi\<close>: an optional sign, digits only, and the result in the range of \<open>int\<close> (64 bits).\<close>

definition atoi_digits :: "string \<Rightarrow> nat option" where
  "atoi_digits s = (if s \<noteq> [] \<and> list_all is_digit s then Some (dec_val s) else None)"

definition atoi :: "string \<Rightarrow> int option" where
  "atoi s =
     (case s of
        [] \<Rightarrow> None
      | c # r \<Rightarrow>
          (let neg = (c = CHR ''-''); d = (if c = CHR ''-'' \<or> c = CHR ''+'' then r else s)
           in case atoi_digits d of
                None \<Rightarrow> None
              | Some n \<Rightarrow>
                  (let v = (if neg then - int n else int n)
                   in if - (2 ^ 63) \<le> v \<and> v < 2 ^ 63 then Some v else None)))"

text \<open>The value of \<open>strconv.Atoi\<close> where the error is dropped: 0, or the end of the range.\<close>

definition atoiVal :: "string \<Rightarrow> int" where
  "atoiVal s = (case s of [] \<Rightarrow> 0
   | c # r \<Rightarrow> (case atoi_digits (if c = CHR ''-'' \<or> c = CHR ''+'' then r else s) of None \<Rightarrow> 0
     | Some n \<Rightarrow> if c = CHR ''-'' then max (- (2 ^ 63)) (- int n) else min (2 ^ 63 - 1) (int n)))"

text \<open>\<open>strings.ToLower\<close> and \<open>strings.ToUpper\<close> on ASCII letters; other text is left as it is.\<close>

definition lowerChar :: "char \<Rightarrow> char" where
  "lowerChar c = (let n = (of_char c :: nat) in if 65 \<le> n \<and> n \<le> 90 then char_of (n + 32) else c)"

definition toLower :: "string \<Rightarrow> string" where
  "toLower s = map lowerChar s"

definition upperChar :: "char \<Rightarrow> char" where
  "upperChar c = (let n = (of_char c :: nat) in if 97 \<le> n \<and> n \<le> 122 then char_of (n - 32) else c)"

definition toUpper :: "string \<Rightarrow> string" where
  "toUpper s = map upperChar s"

lemma of_char_digit: "d < 10 \<Longrightarrow> (of_char (digit_char d) :: nat) = 48 + d"
  by (simp add: digit_char_def)

lemma digit_val_char: "d < 10 \<Longrightarrow> digit_val (digit_char d) = d"
  by (simp add: digit_val_def of_char_digit)

lemma is_digit_char: "d < 10 \<Longrightarrow> is_digit (digit_char d)"
  by (simp add: is_digit_def of_char_digit)

lemma dec_val_snoc: "dec_val (s @ [c]) = 10 * dec_val s + digit_val c"
  by (simp add: dec_val_def)

lemma itoa_nat_digits: "itoa_nat n \<noteq> [] \<and> list_all is_digit (itoa_nat n) \<and> dec_val (itoa_nat n) = n"
proof (induction n rule: itoa_nat.induct)
  case (1 n)
  show ?case
  proof (cases "n < 10")
    case True
    then show ?thesis
      by (subst (1 2 3) itoa_nat.simps) (simp add: is_digit_char dec_val_def digit_val_char)
  next
    case False
    with 1 have IH: "itoa_nat (n div 10) \<noteq> []" "list_all is_digit (itoa_nat (n div 10))"
      "dec_val (itoa_nat (n div 10)) = n div 10" by auto
    from False have "itoa_nat n = itoa_nat (n div 10) @ [digit_char (n mod 10)]"
      by (subst itoa_nat.simps) simp
    with IH show ?thesis
      by (simp add: dec_val_snoc digit_val_char is_digit_char)
  qed
qed

text \<open>Printing and reading a number back, for every value a Go \<open>int\<close> can hold.\<close>

lemma atoi_itoa:
  assumes "- (2 ^ 63) \<le> i" "i < 2 ^ 63"
  shows "atoi (itoa i) = Some i"
proof (cases "i < 0")
  case True
  let ?n = "nat (- i)"
  have "atoi_digits (itoa_nat ?n) = Some ?n"
    using itoa_nat_digits [of ?n] by (simp add: atoi_digits_def)
  with True assms show ?thesis by (simp add: itoa_def atoi_def)
next
  case False
  let ?n = "nat i"
  have d: "atoi_digits (itoa_nat ?n) = Some ?n"
    using itoa_nat_digits [of ?n] by (simp add: atoi_digits_def)
  obtain c r where cr: "itoa_nat ?n = c # r" using itoa_nat_digits [of ?n] by (cases "itoa_nat ?n") auto
  then have "is_digit c" using itoa_nat_digits [of ?n] by simp
  then have "c \<noteq> CHR ''-''" "c \<noteq> CHR ''+''" by (auto simp: is_digit_def)
  with False assms cr d show ?thesis by (simp add: itoa_def atoi_def)
qed

lemma itoa_inj: "itoa i = itoa j \<Longrightarrow> - (2 ^ 63) \<le> i \<Longrightarrow> i < 2 ^ 63 \<Longrightarrow> - (2 ^ 63) \<le> j \<Longrightarrow> j < 2 ^ 63 \<Longrightarrow> i = j"
  by (metis atoi_itoa option.inject)

section \<open>Fields and separated lists\<close>

lemma splitOn_joinWith: "ps \<noteq> [] \<Longrightarrow> (\<forall>p \<in> set ps. c \<notin> set p) \<Longrightarrow> splitOn c (joinWith [c] ps) = ps"
proof (induction ps)
  case (Cons p ps)
  show ?case
  proof (cases ps)
    case Nil
    with Cons.prems show ?thesis by (simp add: joinWith_def splitOn_single)
  next
    case (Cons q qs)
    then have "joinWith [c] (p # ps) = p @ c # joinWith [c] ps" by (simp add: joinWith_def)
    moreover have "splitOn c (joinWith [c] ps) = ps"
      using Cons.IH Cons.prems Cons by simp
    ultimately show ?thesis using Cons.prems by (simp add: splitOn_append)
  qed
qed simp

lemma goFields_cons:
  assumes "w \<noteq> []" "\<forall>c \<in> set w. \<not> is_space c" "is_space s"
  shows "goFields (w @ s # r) = w # goFields r"
  using assms by (simp add: goFields_def fieldsFunc_def fieldsAcc_run)

lemma goFields_skip: "is_space s \<Longrightarrow> goFields (s # r) = goFields r"
  by (simp add: goFields_def fieldsFunc_def)

lemma goFields_word: "w \<noteq> [] \<Longrightarrow> \<forall>c \<in> set w. \<not> is_space c \<Longrightarrow> goFields w = [w]"
  using fieldsAcc_run [of w is_space "[]" "[]"] by (simp add: goFields_def fieldsFunc_def)

section \<open>Evaluating \<open>itoa\<close> on numerals\<close>

lemma digit_char_table:
  "digit_char 0 = CHR ''0''" "digit_char (Suc 0) = CHR ''1''" "digit_char 1 = CHR ''1''" "digit_char 2 = CHR ''2''"
  "digit_char 3 = CHR ''3''" "digit_char 4 = CHR ''4''" "digit_char 5 = CHR ''5''" "digit_char 6 = CHR ''6''"
  "digit_char 7 = CHR ''7''" "digit_char 8 = CHR ''8''" "digit_char 9 = CHR ''9''"
  by (simp_all add: digit_char_def char_of_def bit_0)

lemma itoa_nat_small: "n < 10 \<Longrightarrow> itoa_nat n = [digit_char n]"
  by (simp add: itoa_nat.simps)

lemma itoa_nat_big: "\<not> n < 10 \<Longrightarrow> itoa_nat n = itoa_nat (n div 10) @ [digit_char (n mod 10)]"
  by (subst itoa_nat.simps) simp

lemmas itoa_eval = itoa_def itoa_nat_small itoa_nat_big digit_char_table

section \<open>Paths\<close>

text \<open>
  The functions of \<open>path/filepath\<close> the program uses, on Unix: \<open>Clean\<close>, \<open>Join\<close>, \<open>Base\<close>, \<open>Dir\<close> and
  \<open>IsAbs\<close>. They work on the text alone.
\<close>

fun cleanStep :: "bool \<Rightarrow> string list \<Rightarrow> string \<Rightarrow> string list" where
  "cleanStep rooted done' c =
     (if c = '''' \<or> c = ''.'' then done'
      else if c = ''..'' then
        (if done' \<noteq> [] \<and> last done' \<noteq> ''..'' then butlast done' else if rooted then done' else done' @ [c])
      else done' @ [c])"

definition pathClean :: "string \<Rightarrow> string" where
  "pathClean p =
     (if p = '''' then ''.''
      else let rooted = hasPrefix p ''/'';
               out = (if rooted then ''/'' else '''') @ joinWith ''/'' (foldl (cleanStep rooted) [] (splitOn CHR ''/'' p))
           in if out = '''' then ''.'' else out)"

definition pathJoin :: "string list \<Rightarrow> string" where
  "pathJoin es = (let xs = filter (\<lambda>e. e \<noteq> '''') es in if xs = [] then '''' else pathClean (joinWith ''/'' xs))"

definition pathBase :: "string \<Rightarrow> string" where
  "pathBase p =
     (if p = '''' then ''.''
      else let q = rev (dropWhile (\<lambda>c. c = CHR ''/'') (rev p))
           in if q = '''' then ''/'' else last (splitOn CHR ''/'' q))"

definition pathDir :: "string \<Rightarrow> string" where
  "pathDir p = pathClean (rev (dropWhile (\<lambda>c. c \<noteq> CHR ''/'') (rev p)))"

definition isAbs :: "string \<Rightarrow> bool" where
  "isAbs p \<longleftrightarrow> hasPrefix p ''/''"

text \<open>A cleaned rooted path has no \<open>.\<close>, no \<open>..\<close> and no empty component.\<close>

definition plain_part :: "string \<Rightarrow> bool" where
  "plain_part c \<longleftrightarrow> c \<noteq> '''' \<and> c \<noteq> ''.'' \<and> c \<noteq> ''..''"

lemma cleanStep_plain: "list_all plain_part ps \<Longrightarrow> list_all plain_part (cleanStep True ps c)"
  by (auto simp: plain_part_def list_all_iff dest: in_set_butlastD)

lemma foldl_clean_plain: "list_all plain_part ps \<Longrightarrow> list_all plain_part (foldl (cleanStep True) ps cs)"
proof (induction cs arbitrary: ps)
  case (Cons c cs)
  then show ?case using cleanStep_plain [OF Cons.prems, of c] by simp
qed simp

lemma pathClean_abs: "isAbs p \<Longrightarrow> isAbs (pathClean p)"
  by (auto simp: isAbs_def pathClean_def hasPrefix_def Let_def)

end
