(* ===== verification/GoNet.thy ===== *)
theory GoNet imports GoStrings "HOL-Library.Word" begin

unbundle bit_operations_syntax

text \<open>
  The parts of Go's \<open>net\<close> package the program validates addresses with: \<open>net.ParseIP\<close>
  (that is \<open>netip.ParseAddr\<close> with no zone), \<open>net.ParseCIDR\<close>, \<open>IP.To4\<close>, \<open>CIDRMask\<close> and
  \<open>IPNet.Contains\<close>. An address is the byte slice Go keeps: 16 bytes, an IPv4 address in
  its mapped form. The lemmas give the alphabet of every accepted text (what makes an
  address safe to splice into a remote script), the round trip of dotted quads, and
  membership of an address in its own prefix.
\<close>

type_synonym ip = "8 word list"

section \<open>Addresses\<close>

definition v4InV6Prefix :: ip where
  "v4InV6Prefix = [0, 0, 0, 0, 0, 0, 0, 0, 0, 0, 255, 255]"

definition to4 :: "ip \<Rightarrow> ip option" where
  "to4 ip = (if length ip = 4 then Some ip
     else if length ip = 16 \<and> take 12 ip = v4InV6Prefix then Some (drop 12 ip) else None)"

definition octet :: "string \<Rightarrow> 8 word option" where
  "octet s =
     (if s \<noteq> [] \<and> list_all is_digit s \<and> (length s = 1 \<or> hd s \<noteq> CHR ''0'') \<and> dec_val s \<le> 255
      then Some (of_nat (dec_val s)) else None)"

definition parseIPv4 :: "string \<Rightarrow> ip option" where
  "parseIPv4 s =
     (case splitOn CHR ''.'' s of
        [a, b, c, d] \<Rightarrow>
          (case (octet a, octet b, octet c, octet d) of
             (Some w, Some x, Some y, Some z) \<Rightarrow> Some [w, x, y, z]
           | _ \<Rightarrow> None)
      | _ \<Rightarrow> None)"

definition hex_val :: "char \<Rightarrow> nat option" where
  "hex_val c =
     (let n = (of_char c :: nat) in
      if 48 \<le> n \<and> n \<le> 57 then Some (n - 48)
      else if 97 \<le> n \<and> n \<le> 102 then Some (n - 87)
      else if 65 \<le> n \<and> n \<le> 70 then Some (n - 55) else None)"

definition is_hex :: "char \<Rightarrow> bool" where
  "is_hex c \<longleftrightarrow> hex_val c \<noteq> None"

definition hex_num :: "string \<Rightarrow> nat" where
  "hex_num s = foldl (\<lambda>n c. 16 * n + the (hex_val c)) 0 s"

text \<open>
  The loop of \<open>parseIPv6\<close>: \<open>s\<close> is the rest of the text, \<open>bs\<close> the bytes so far, \<open>ell\<close> the
  position of the double colon. The result is the rest, the bytes and the position at the
  loop's exit; \<open>None\<close> is a parse error.
\<close>

function groups6 :: "string \<Rightarrow> ip \<Rightarrow> nat option \<Rightarrow> (string \<times> ip \<times> nat option) option" where
  "groups6 s bs ell =
     (if length bs \<ge> 16 then Some (s, bs, ell)
      else
        let hs = takeWhile is_hex s; r = dropWhile is_hex s in
        if length hs > 4 \<or> hs = [] then None
        else if r \<noteq> [] \<and> hd r = CHR ''.'' then
          (if (ell = None \<and> length bs \<noteq> 12) \<or> length bs + 4 > 16 then None
           else case parseIPv4 s of None \<Rightarrow> None | Some q \<Rightarrow> Some ([], bs @ q, ell))
        else
          let n = hex_num hs; bs' = bs @ [of_nat (n div 256), of_nat (n mod 256)] in
          if r = [] then Some ([], bs', ell)
          else if hd r \<noteq> CHR '':'' \<or> tl r = [] then None
          else if hd (tl r) = CHR '':'' then
            (if ell \<noteq> None then None
             else if tl (tl r) = [] then Some ([], bs', Some (length bs'))
             else groups6 (tl (tl r)) bs' (Some (length bs')))
          else groups6 (tl r) bs' ell)"
  by pat_completeness auto
termination
  by (relation "measure (\<lambda>(s, bs, ell). 16 - length bs)") auto

declare groups6.simps [simp del]

definition finish6 :: "string \<times> ip \<times> nat option \<Rightarrow> ip option" where
  "finish6 t =
     (case t of (s, bs, ell) \<Rightarrow>
        if s \<noteq> [] then None
        else if length bs < 16 then
          (case ell of None \<Rightarrow> None
           | Some e \<Rightarrow> Some (take e bs @ replicate (16 - length bs) 0 @ drop e bs))
        else if ell \<noteq> None then None else Some bs)"

definition parseIPv6 :: "string \<Rightarrow> ip option" where
  "parseIPv6 s =
     (if hasPrefix s ''::'' then
        (if drop 2 s = [] then Some (replicate 16 0)
         else Option.bind (groups6 (drop 2 s) [] (Some 0)) finish6)
      else Option.bind (groups6 s [] None) finish6)"

text \<open>\<open>netip.ParseAddr\<close> chooses the family by the first of dot, colon and percent sign.\<close>

definition is_sep :: "char \<Rightarrow> bool" where
  "is_sep c \<longleftrightarrow> c = CHR ''.'' \<or> c = CHR '':'' \<or> c = CHR ''%''"

datatype addr = V4 ip | V6 ip

definition parseAddr :: "string \<Rightarrow> addr option" where
  "parseAddr s =
     (case List.find is_sep s of
        None \<Rightarrow> None
      | Some c \<Rightarrow>
          if c = CHR ''.'' then map_option V4 (parseIPv4 s)
          else if c = CHR ''%'' \<or> CHR ''%'' \<in> set s then None
          else map_option V6 (parseIPv6 s))"

fun as16 :: "addr \<Rightarrow> ip" where
  "as16 (V4 b) = v4InV6Prefix @ b"
| "as16 (V6 b) = b"

fun bitLen :: "addr \<Rightarrow> nat" where
  "bitLen (V4 _) = 32"
| "bitLen (V6 _) = 128"

definition parseIP :: "string \<Rightarrow> ip option" where
  "parseIP s = map_option as16 (parseAddr s)"

section \<open>Prefixes\<close>

definition mask_byte :: "nat \<Rightarrow> 8 word" where
  "mask_byte n = (if n \<ge> 8 then 255 else of_nat (256 - 2 ^ (8 - n)))"

text \<open>\<open>CIDRMask ones bits\<close>: byte by byte, eight ones while there are eight left.\<close>

definition cidrMask :: "nat \<Rightarrow> nat \<Rightarrow> ip" where
  "cidrMask ones bits = map (\<lambda>i. mask_byte (ones - 8 * i)) [0 ..< bits div 8]"

definition maskIP :: "ip \<Rightarrow> ip \<Rightarrow> ip option" where
  "maskIP ip m =
     (let b = (if length m = 4 \<and> length ip = 16 \<and> take 12 ip = v4InV6Prefix then drop 12 ip else ip)
      in if length b = length m then Some (map2 (\<lambda>x y. x AND y) b m) else None)"

record ipnet =
  netIP :: ip
  netMask :: ip
  netOnes :: nat

definition cutAt :: "char \<Rightarrow> string \<Rightarrow> (string \<times> string) option" where
  "cutAt c s = (case dropWhile (\<lambda>x. x \<noteq> c) s of [] \<Rightarrow> None | _ # r \<Rightarrow> Some (takeWhile (\<lambda>x. x \<noteq> c) s, r))"

definition parseCIDR :: "string \<Rightarrow> (ip \<times> ipnet) option" where
  "parseCIDR s =
     (case cutAt CHR ''/'' s of
        None \<Rightarrow> None
      | Some (a, m) \<Rightarrow>
          (case parseAddr a of
             None \<Rightarrow> None
           | Some ad \<Rightarrow>
               if m \<noteq> [] \<and> list_all is_digit m \<and> dec_val m \<le> bitLen ad then
                 (let mk = cidrMask (dec_val m) (bitLen ad) in
                  case maskIP (as16 ad) mk of
                    None \<Rightarrow> None
                  | Some net \<Rightarrow> Some (as16 ad, \<lparr>netIP = net, netMask = mk, netOnes = dec_val m\<rparr>))
               else None))"

text \<open>\<open>IPNet.Contains\<close>, with \<open>networkNumberAndMask\<close>.\<close>

definition numberAndMask :: "ipnet \<Rightarrow> (ip \<times> ip) option" where
  "numberAndMask n =
     (let ip = (case to4 (netIP n) of Some b \<Rightarrow> b | None \<Rightarrow> netIP n); m = netMask n in
      if to4 (netIP n) = None \<and> length (netIP n) \<noteq> 16 then None
      else if length m = 4 then (if length ip = 4 then Some (ip, m) else None)
      else if length m = 16 then (if length ip = 4 then Some (ip, drop 12 m) else Some (ip, m))
      else None)"

definition containsIP :: "ipnet \<Rightarrow> ip \<Rightarrow> bool" where
  "containsIP n ip =
     (let x = (case to4 ip of Some b \<Rightarrow> b | None \<Rightarrow> ip) in
      case numberAndMask n of
        None \<Rightarrow> x = []
      | Some (nn, m) \<Rightarrow>
          length x = length nn \<and> list_all (\<lambda>((a, k), b). a AND k = b AND k) (zip (zip nn m) x))"

section \<open>The alphabet of an accepted address\<close>

definition addr_char :: "char \<Rightarrow> bool" where
  "addr_char c \<longleftrightarrow> is_hex c \<or> c = CHR ''.'' \<or> c = CHR '':''"

lemma digit_hex: "is_digit c \<Longrightarrow> is_hex c"
  by (simp add: is_digit_def is_hex_def hex_val_def Let_def)

lemma octet_chars: "octet s = Some w \<Longrightarrow> list_all is_hex s"
  by (auto simp: octet_def list_all_iff intro: digit_hex split: if_splits)

lemma splitOn_set: "set s \<subseteq> insert c (\<Union> (set ` set (splitOn c s)))"
proof (induction c s rule: splitOn.induct)
  case (1 c)
  show ?case by simp
next
  case (2 c x xs)
  then show ?case by (cases "splitOn c xs") auto
qed

lemma parseIPv4_parts:
  assumes "parseIPv4 s = Some q"
  obtains a b c d where "splitOn CHR ''.'' s = [a, b, c, d]"
    "octet a \<noteq> None" "octet b \<noteq> None" "octet c \<noteq> None" "octet d \<noteq> None" "length q = 4"
  using assms by (auto simp: parseIPv4_def split: list.splits option.splits)

lemma parseIPv4_length: "parseIPv4 s = Some q \<Longrightarrow> length q = 4"
  by (erule parseIPv4_parts)

lemma parseIPv4_chars: "parseIPv4 s = Some q \<Longrightarrow> list_all addr_char s"
proof (erule parseIPv4_parts)
  fix a b c d
  assume p: "splitOn CHR ''.'' s = [a, b, c, d]"
    and o: "octet a \<noteq> None" "octet b \<noteq> None" "octet c \<noteq> None" "octet d \<noteq> None"
  have "set s \<subseteq> insert CHR ''.'' (set a \<union> set b \<union> set c \<union> set d)"
    using splitOn_set [of s "CHR ''.''"] by (simp add: p Un_assoc)
  moreover have "list_all is_hex a" "list_all is_hex b" "list_all is_hex c" "list_all is_hex d"
    using o octet_chars by auto
  ultimately show "list_all addr_char s"
    by (auto simp: list_all_iff addr_char_def)
qed

lemma takeWhile_hex_chars: "list_all addr_char (takeWhile is_hex s)"
  by (auto simp: list_all_iff addr_char_def dest: set_takeWhileD)

lemma split_hex: "s = takeWhile is_hex s @ dropWhile is_hex s"
  by simp

lemma groups6_chars:
  "groups6 s bs ell = Some (s', bs', ell') \<Longrightarrow> s' = [] \<Longrightarrow> list_all addr_char s"
proof (induction s bs ell rule: groups6.induct)
  case (1 s bs ell)
  let ?h = "takeWhile is_hex s" and ?r = "dropWhile is_hex s"
  have sp: "list_all addr_char s \<longleftrightarrow> list_all addr_char ?r"
    using takeWhile_hex_chars [of s] by (subst (1) split_hex) (simp del: takeWhile_dropWhile_id)
  have colon: "addr_char CHR '':''" by (simp add: addr_char_def)
  consider "length bs \<ge> 16" | "?r = []" | "length bs < 16" "?r \<noteq> []" by linarith
  then show ?case
  proof cases
    case 1
    with "1.prems" show ?thesis by (simp add: groups6.simps [of s])
  next
    case 2
    with sp show ?thesis by simp
  next
    case 3
    note False = this
    then obtain c r where r: "?r = c # r" by (cases ?r) auto
    show ?thesis
    proof (cases "c = CHR ''.''")
      case True
      with False r "1.prems" have "parseIPv4 s \<noteq> None"
        by (subst (asm) groups6.simps) (auto simp: Let_def split: if_splits option.splits)
      then show ?thesis using parseIPv4_chars by auto
    next
      case dot: False
      note IH = "1.IH"
      have "list_all addr_char ?r"
        using False r dot "1.prems" IH [OF _ refl refl] colon
        by (subst (asm) groups6.simps, cases r) (auto simp: Let_def split: if_splits)
      with sp show ?thesis by simp
    qed
  qed
qed

lemma parseIPv6_chars: "parseIPv6 s = Some q \<Longrightarrow> list_all addr_char s"
proof -
  assume q: "parseIPv6 s = Some q"
  have fin: "finish6 t = Some q \<Longrightarrow> fst t = []" for t
    by (cases t) (auto simp: finish6_def split: if_splits)
  have colon: "addr_char CHR '':''" by (simp add: addr_char_def)
  show ?thesis
  proof (cases "hasPrefix s ''::''")
    case True
    then obtain r where r: "s = '':'' @ '':'' @ r" by (auto simp: hasPrefix_iff)
    show ?thesis
    proof (cases "r = []")
      case True
      then show ?thesis using colon by (simp add: r)
    next
      case False
      with q r True obtain t where "groups6 r [] (Some 0) = Some t" "finish6 t = Some q"
        by (auto simp: parseIPv6_def bind_eq_Some_conv)
      with fin groups6_chars [of r "[]" "Some 0"] have "list_all addr_char r" by (cases t) auto
      then show ?thesis using colon by (simp add: r)
    qed
  next
    case False
    with q obtain t where "groups6 s [] None = Some t" "finish6 t = Some q"
      by (auto simp: parseIPv6_def bind_eq_Some_conv)
    with fin groups6_chars [of s "[]" None] show ?thesis by (cases t) auto
  qed
qed

lemma parseAddr_chars: "parseAddr s = Some a \<Longrightarrow> list_all addr_char s"
  by (auto simp: parseAddr_def dest: parseIPv4_chars parseIPv6_chars split: option.splits if_splits)

lemma parseIP_chars: "parseIP s = Some q \<Longrightarrow> list_all addr_char s"
  by (auto simp: parseIP_def dest: parseAddr_chars)

lemma cutAt_Some: "cutAt c s = Some (a, b) \<Longrightarrow> s = a @ c # b"
proof -
  assume "cutAt c s = Some (a, b)"
  then obtain x where d: "dropWhile (\<lambda>x. x \<noteq> c) s = x # b" and a: "a = takeWhile (\<lambda>x. x \<noteq> c) s"
    by (auto simp: cutAt_def split: list.splits)
  then have "x = c" using hd_dropWhile [of "\<lambda>x. x \<noteq> c" s] by simp
  with a d show ?thesis by (metis takeWhile_dropWhile_id)
qed

definition cidr_char :: "char \<Rightarrow> bool" where
  "cidr_char c \<longleftrightarrow> addr_char c \<or> c = CHR ''/''"

lemma parseCIDR_parts:
  assumes "parseCIDR s = Some q"
  obtains a m ad where "s = a @ CHR ''/'' # m" "parseAddr a = Some ad" "m \<noteq> []" "list_all is_digit m"
    "dec_val m \<le> bitLen ad"
    "maskIP (as16 ad) (cidrMask (dec_val m) (bitLen ad)) = Some (netIP (snd q))"
    "q = (as16 ad, \<lparr>netIP = netIP (snd q), netMask = cidrMask (dec_val m) (bitLen ad), netOnes = dec_val m\<rparr>)"
proof -
  from assms obtain a m ad net where
    "cutAt CHR ''/'' s = Some (a, m)" "parseAddr a = Some ad"
    "m \<noteq> [] \<and> list_all is_digit m \<and> dec_val m \<le> bitLen ad"
    "maskIP (as16 ad) (cidrMask (dec_val m) (bitLen ad)) = Some net"
    "q = (as16 ad, \<lparr>netIP = net, netMask = cidrMask (dec_val m) (bitLen ad), netOnes = dec_val m\<rparr>)"
    by (auto simp: parseCIDR_def Let_def split: option.splits if_splits)
  then show thesis by (intro that [of a m ad]) (auto dest: cutAt_Some)
qed

lemma parseCIDR_chars: "parseCIDR s = Some q \<Longrightarrow> list_all cidr_char s"
proof (erule parseCIDR_parts)
  fix a m ad
  assume s: "s = a @ CHR ''/'' # m" and a: "parseAddr a = Some ad" and m: "list_all is_digit m"
  from parseAddr_chars [OF a] have "list_all cidr_char a"
    by (simp add: list_all_iff cidr_char_def)
  moreover from m have "list_all cidr_char m"
    by (auto simp: list_all_iff cidr_char_def addr_char_def intro: digit_hex)
  ultimately show "list_all cidr_char s" by (simp add: s cidr_char_def)
qed

section \<open>Dotted quads read back\<close>

definition quad_string :: "nat \<Rightarrow> nat \<Rightarrow> nat \<Rightarrow> nat \<Rightarrow> string" where
  "quad_string a b c d = itoa_nat a @ ''.'' @ itoa_nat b @ ''.'' @ itoa_nat c @ ''.'' @ itoa_nat d"

lemma itoa_nat_hd: "10 \<le> n \<Longrightarrow> hd (itoa_nat n) \<noteq> CHR ''0''"
proof (induction n rule: itoa_nat.induct)
  case (1 n)
  then have e: "itoa_nat n = itoa_nat (n div 10) @ [digit_char (n mod 10)]"
    by (subst itoa_nat.simps) simp
  have ne: "itoa_nat (n div 10) \<noteq> []" using itoa_nat_digits by blast
  show ?case
  proof (cases "10 \<le> n div 10")
    case True
    with 1 e ne show ?thesis by simp
  next
    case False
    with 1 have d: "0 < n div 10" "n div 10 < 10" by auto
    then have "itoa_nat (n div 10) = [digit_char (n div 10)]" by (subst itoa_nat.simps) simp
    moreover have "digit_char (n div 10) \<noteq> CHR ''0''"
    proof
      assume "digit_char (n div 10) = CHR ''0''"
      then have "(of_char (digit_char (n div 10)) :: nat) = 48" by simp
      with d show False by (simp add: of_char_digit)
    qed
    ultimately show ?thesis by (simp add: e)
  qed
qed

lemma octet_itoa: "n \<le> 255 \<Longrightarrow> octet (itoa_nat n) = Some (of_nat n)"
proof -
  assume n: "n \<le> 255"
  have "length (itoa_nat n) = 1 \<or> hd (itoa_nat n) \<noteq> CHR ''0''"
  proof (cases "10 \<le> n")
    case True
    then show ?thesis using itoa_nat_hd by blast
  next
    case False
    then show ?thesis by (subst (1) itoa_nat.simps) simp
  qed
  with n itoa_nat_digits [of n] show ?thesis by (simp add: octet_def)
qed

lemma itoa_nat_no: "\<not> is_digit c \<Longrightarrow> c \<notin> set (itoa_nat n)"
  using itoa_nat_digits [of n] by (auto simp: list_all_iff)

lemma parseIPv4_quad:
  assumes "a \<le> 255" "b \<le> 255" "c \<le> 255" "d \<le> 255"
  shows "parseIPv4 (quad_string a b c d) = Some [of_nat a, of_nat b, of_nat c, of_nat d]"
proof -
  have "\<not> is_digit CHR ''.''" by (simp add: is_digit_def)
  then have "splitOn CHR ''.'' (quad_string a b c d) = [itoa_nat a, itoa_nat b, itoa_nat c, itoa_nat d]"
    by (simp add: quad_string_def splitOn_append splitOn_single itoa_nat_no)
  with assms show ?thesis by (simp add: parseIPv4_def octet_itoa)
qed

end
