(* ===== verification/GoFmt.thy ===== *)
theory GoFmt imports GoStrings begin

text \<open>
  \<open>fmt.Sprintf\<close> for the verbs the program uses (\<open>%s\<close>, \<open>%d\<close>, \<open>%v\<close>, \<open>%q\<close>, \<open>%w\<close> and their
  indexed forms \<open>%[n]s\<close>, and \<open>%%\<close>), so that a remote script that is kept as a format and its
  arguments can be turned into the text a node receives.
\<close>

definition show_arg :: "arg \<Rightarrow> string" where
  "show_arg a = (case a of Str s \<Rightarrow> s | Num i \<Rightarrow> itoa i)"

text \<open>\<open>strconv.Quote\<close> on text without other control characters than the newline and the tab.\<close>

definition quote_char :: "char \<Rightarrow> string" where
  "quote_char c =
     (if c = CHR 0x22 then [CHR 0x5C, CHR 0x22] else if c = CHR 0x5C then [CHR 0x5C, CHR 0x5C]
      else if c = CHR 0x0A then [CHR 0x5C, CHR ''n''] else if c = CHR 0x09 then [CHR 0x5C, CHR ''t'']
      else [c])"

definition quote_str :: "string \<Rightarrow> string" where
  "quote_str s = [CHR 0x22] @ concat (map quote_char s) @ [CHR 0x22]"

definition verb :: "char \<Rightarrow> arg list \<Rightarrow> nat \<Rightarrow> string" where
  "verb c as n =
     (if n < length as then (if c = CHR ''q'' then quote_str (show_arg (as ! n)) else show_arg (as ! n))
      else ''%!'' @ [c] @ ''(MISSING)'')"

fun fmtFrom :: "string \<Rightarrow> arg list \<Rightarrow> nat \<Rightarrow> string" where
  "fmtFrom [] as n = []"
| "fmtFrom [c] as n = [c]"
| "fmtFrom (c # d # cs) as n =
     (if c \<noteq> CHR ''%'' then c # fmtFrom (d # cs) as n
      else if d = CHR ''%'' then CHR ''%'' # fmtFrom cs as n
      else if d = CHR ''['' then
        (case cs of
           k # b # v # rest \<Rightarrow>
             if is_digit k \<and> k \<noteq> CHR ''0'' \<and> b = CHR '']'' then verb v as (digit_val k - 1) @ fmtFrom rest as (digit_val k)
             else ''%!'' @ fmtFrom cs as n
         | _ \<Rightarrow> ''%!'' @ fmtFrom cs as n)
      else verb d as n @ fmtFrom cs as (n + 1))"

definition sprintf :: "string \<Rightarrow> arg list \<Rightarrow> string" where
  "sprintf f as = fmtFrom f as 0"

lemma sprintf_plain: "CHR ''%'' \<notin> set f \<Longrightarrow> sprintf f as = f"
proof -
  have "CHR ''%'' \<notin> set f \<Longrightarrow> fmtFrom f as n = f" for n
    by (induction f as n rule: fmtFrom.induct) auto
  then show "CHR ''%'' \<notin> set f \<Longrightarrow> sprintf f as = f" by (simp add: sprintf_def)
qed

lemma fmtFrom_lit: "CHR ''%'' \<notin> set s \<Longrightarrow> fmtFrom (s @ CHR ''%'' # t) as n = s @ fmtFrom (CHR ''%'' # t) as n"
proof (induction s)
  case (Cons c s)
  obtain d u where "s @ CHR ''%'' # t = d # u" by (cases s) auto
  moreover have "c \<noteq> CHR ''%''" using Cons.prems by auto
  ultimately show ?case using Cons by simp
qed simp

lemma fmtFrom_verb: "c \<noteq> CHR ''%'' \<Longrightarrow> c \<noteq> CHR ''['' \<Longrightarrow>
    fmtFrom (CHR ''%'' # c # cs) as n = verb c as n @ fmtFrom cs as (n + 1)"
  by simp

end
