(* ===== verification/GoJson.thy ===== *)
theory GoJson imports GoFmt begin

text \<open>
  JSON values and the text \<open>encoding/json\<close> gives them: strings escaped byte by byte (text is
  UTF-8 without the two separators JavaScript has of its own), objects in the order of their
  fields, fields marked \<open>omitempty\<close> left out when they hold their zero value. A float is kept as
  the text it is printed as.
\<close>

datatype json =
    JNull | JBool bool | JNum int | JFloat string | JStr string
  | JArr "json list" | JObj "(string \<times> json) list"

definition hexDigit :: "nat \<Rightarrow> char" where
  "hexDigit n = (if n < 10 then char_of (48 + n) else char_of (87 + n))"

definition jsonChar :: "char \<Rightarrow> string" where
  "jsonChar c = (let n = (of_char c :: nat); bs = CHR 0x5C in
     if n = 34 \<or> n = 92 then [bs, c]
     else if n = 8 then [bs, CHR ''b''] else if n = 12 then [bs, CHR ''f'']
     else if n = 10 then [bs, CHR ''n''] else if n = 13 then [bs, CHR ''r''] else if n = 9 then [bs, CHR ''t'']
     else if n < 32 \<or> n = 60 \<or> n = 62 \<or> n = 38 then [bs, CHR ''u'', CHR ''0'', CHR ''0'', hexDigit (n div 16), hexDigit (n mod 16)]
     else [c])"

definition jsonStr :: "string \<Rightarrow> string" where
  "jsonStr s = [CHR 0x22] @ concat (map jsonChar s) @ [CHR 0x22]"

definition commas :: "string list \<Rightarrow> string" where
  "commas xs = joinWith '','' xs"

fun jsonText :: "json \<Rightarrow> string" where
  "jsonText JNull = ''null''"
| "jsonText (JBool b) = (if b then ''true'' else ''false'')"
| "jsonText (JNum i) = itoa i"
| "jsonText (JFloat s) = s"
| "jsonText (JStr s) = jsonStr s"
| "jsonText (JArr js) = ''['' @ commas (map jsonText js) @ '']''"
| "jsonText (JObj fs) = ''{'' @ commas (map (\<lambda>(k, v). jsonStr k @ '':'' @ jsonText v) fs) @ ''}''"

section \<open>Structs\<close>

text \<open>A struct is written with all its fields, a field that is left out as \<open>None\<close>.\<close>

definition jobj :: "(string \<times> json option) list \<Rightarrow> json" where
  "jobj fs = JObj (List.map_filter (\<lambda>(k, v). map_option (Pair k) v) fs)"

definition jS :: "string \<Rightarrow> json option" where
  "jS s = Some (JStr s)"

definition jI :: "int \<Rightarrow> json option" where
  "jI i = Some (JNum i)"

definition jB :: "bool \<Rightarrow> json option" where
  "jB b = Some (JBool b)"

definition jA :: "json list \<Rightarrow> json option" where
  "jA js = Some (JArr js)"

text \<open>With \<open>omitempty\<close>.\<close>

definition eS :: "string \<Rightarrow> json option" where
  "eS s = (if s = '''' then None else Some (JStr s))"

definition eI :: "int \<Rightarrow> json option" where
  "eI i = (if i = 0 then None else Some (JNum i))"

definition eB :: "bool \<Rightarrow> json option" where
  "eB b = (if b then Some (JBool b) else None)"

definition eA :: "json list \<Rightarrow> json option" where
  "eA js = (if js = [] then None else Some (JArr js))"

section \<open>Reading a decoded value\<close>

definition jfield :: "string \<Rightarrow> json \<Rightarrow> json" where
  "jfield k j = (case j of JObj fs \<Rightarrow> (case map_of fs k of Some v \<Rightarrow> v | None \<Rightarrow> JNull) | _ \<Rightarrow> JNull)"

definition jlist :: "json \<Rightarrow> json list" where
  "jlist j = (case j of JArr js \<Rightarrow> js | _ \<Rightarrow> [])"

definition jtext :: "json \<Rightarrow> string" where
  "jtext j = (case j of JStr s \<Rightarrow> s | _ \<Rightarrow> '''')"

definition jint :: "json \<Rightarrow> int" where
  "jint j = (case j of JNum i \<Rightarrow> i | _ \<Rightarrow> 0)"

definition jbool :: "json \<Rightarrow> bool" where
  "jbool j = (case j of JBool b \<Rightarrow> b | _ \<Rightarrow> False)"


end
