(* ===== verification/Remote.thy ===== *)
theory Remote imports GoJson begin

text \<open>
  How the program acts on the world. Its operations are programs of type \<open>'a prog\<close>: a
  result, or a request to the outside (an SSH dial, a remote script, a cloud API call, a
  DNS lookup, a pause) and what the program does with the answer. Nothing is assumed of
  the answers, so a statement about all runs of a program is a statement about every
  behaviour of the nodes, the network and the cloud providers. \<open>runs p t r\<close> is one run
  with its trace of requests and answers; \<open>feed\<close> replays a program on given answers.
\<close>

named_theorems prog_simps \<open>unfolding one step of a program\<close>
named_theorems prog_intros \<open>requests stay inside a set\<close>

section \<open>Requests, answers and programs\<close>

text \<open>An open SSH session is known by the parameters it was dialled with.\<close>

record conn =
  cHost :: string
  cUser :: string
  cPort :: int
  cKey :: string

definition demo_conn :: conn where
  "demo_conn = \<lparr>cHost = ''10.0.0.1'', cUser = ''sdkops'', cPort = 22, cKey = ''''\<rparr>"

text \<open>
  A remote script is a literal, or the format string and arguments of the \<open>fmt.Sprintf\<close>
  that builds it.
\<close>

datatype script = Raw string | Fmt string "arg list"

primrec render :: "script \<Rightarrow> string" where
  "render (Raw s) = s"
| "render (Fmt f as) = sprintf f as"

record vps =
  vId :: string
  vName :: string
  vLabel :: string
  vIP :: string

record vpsConfig =
  vcLabel :: string
  vcPlan :: string
  vcLocation :: string
  vcTemplate :: string
  vcHostname :: string
  vcSSHKeyIDs :: "string list"

text \<open>
  A client of a cloud provider: its name, the API key (the region for AWS, the key and the
  region for Civo) and the project.
\<close>

record provider =
  pvName :: string
  pvKey :: string
  pvRegion :: string
  pvProject :: int

text \<open>A node as the operator's \<open>config.yaml\<close> registers it (\<open>cmd/sdk-ops/config.go\<close>).\<close>

record nodeConfig =
  ncIP :: string
  ncUser :: string
  ncKey :: string
  ncPort :: int
  ncMode :: string
  ncRole :: string
  ncArch :: string
  ncHostname :: string

text \<open>
  What a service template is rendered with: a Go map of values of any type (\<open>RFloat\<close> as it
  prints), with the profile of the template among its sources.
\<close>

datatype rval =
    RNil | RStr string | RInt int | RBool bool | RFloat string
  | RStrs "string list" | RInts "int list" | RPoolers "(string \<times> string) list"

type_synonym rdata = "rval dict"

type_synonym files = "(string \<times> string) list"

text \<open>A deployed resource as the operator's \<open>state.yaml\<close> tracks it (\<open>cmd/sdk-ops/state.go\<close>).\<close>

record resource =
  rsID :: string
  rsType :: string
  rsName :: string
  rsNode :: string
  rsVersion :: string
  rsRuntime :: string
  rsStatus :: string
  rsCreated :: string
  rsUpdated :: string
  rsMeta :: "string dict"

text \<open>
  A directory as \<open>filepath.Walk\<close> meets it (a file with whether it is executable and its
  content, a directory with its mode), and an entry of the archive that an upload sends.
\<close>

datatype fnode = FNode string bool string | DNode string nat "fnode list"

record tarEntry =
  teName :: string
  teMode :: nat
  teContent :: string

text \<open>An S3 store (\<open>deploy/backup.go\<close>).\<close>

record s3Config =
  s3Endpoint :: string
  s3Region :: string
  s3Bucket :: string
  s3AccessKey :: string
  s3SecretKey :: string
  s3Path :: string

text \<open>
  How an SSH client proves itself, which host keys it takes, and the configuration it dials
  with (\<open>ssh/client.go\<close>). Signers are opaque texts.
\<close>

datatype authMethod = Password string | PublicKeys "string list"

datatype hostPolicy = AcceptAny | KnownHosts string

record sshConfig =
  scUser :: string
  scAuth :: "authMethod list"
  scHostKeys :: hostPolicy
  scTimeout :: int
  scAddr :: string

datatype req =
    Dial conn
  | Close conn
  | Exec conn script
  | ExecIn conn script string
  | Sleep nat
  | SleepNs int
  | CloudClient provider
  | CreateVPS provider vpsConfig
  | GetVPS provider string
  | ListVPS provider
  | DeleteVPS provider string
  | SyncFirewall provider "string list" "string list"
  | LookupTXT string
  | HttpGet string
  | Sched "nat list"
  | Getenv string
  | ReadFile string
  | WriteFile string string
  | MkDir string
  | RemoveFile string
  | LocalExec string "string list"
  | LoadConfig
  | SaveConfig "nodeConfig list"
  | Now
  | MapOrder nat
  | IsTerminal
  | Scanln
  | LoadCreds string
  | MkTemp string
  | OpenRoot string
  | ReadIn string string
  | RemoveAll string
  | Profiles string
  | RenderDir string string rdata
  | Bcrypt string
  | Unmarshal string
  | PullImage string
  | ExecDir conn script files
  | Pty conn script
  | Stat string
  | LoadState
  | SaveState "resource list"
  | SaveCreds "string dict"
  | LocalRun "string list" string string "string list"
  | LookPath string
  | ReadDir string
  | Walk string
  | ExecTar conn script "tarEntry list"
  | RandInt nat
  | PutObject s3Config string string
  | OpenWrite string string
  | Getwd
  | HttpDo string string "(string \<times> string) list" string
  | Vendor provider string "json list"
  | SendMail string string string string "string list" string
  | WriteMode string nat string
  | LocalIn string string "string list" string
  | Library string "string list"
  | DialSSH sshConfig

text \<open>
  An answer carries an error or a payload; each request reads the fields it needs
  (\<open>aTime\<close>: the seconds the call took, \<open>aPick\<close>: the choice of the scheduler or of a map
  iteration, or the status of an HTTP answer, \<open>aList\<close>: lines, names, or the error that broke off
  the body of an HTTP answer, \<open>aFiles\<close> and \<open>aProfs\<close>: a rendered directory and the profiles of a
  template, \<open>aTree\<close>: a local directory, \<open>aJson\<close>: the value a vendor's package returns, field by
  field). \<open>aSess\<close> is the error of opening the session that a remote command needs, before anything
  runs, or of building an HTTP request.
\<close>

record answer =
  aErr :: "string option"
  aSess :: "string option"
  aOut :: string
  aList :: "string list"
  aVps :: "vps list"
  aNodes :: "nodeConfig list"
  aTime :: nat
  aPick :: nat
  aFiles :: files
  aProfs :: "rdata dict"
  aRes :: "resource list"
  aTree :: "fnode list"
  aJson :: json

definition ok_out :: "string \<Rightarrow> answer" where
  "ok_out s = \<lparr>aErr = None, aSess = None, aOut = s, aList = [], aVps = [], aNodes = [], aTime = 0, aPick = 0,
     aFiles = [], aProfs = [], aRes = [], aTree = [], aJson = JNull\<rparr>"

definition failed :: "string \<Rightarrow> answer" where
  "failed e = \<lparr>aErr = Some e, aSess = None, aOut = '''', aList = [], aVps = [], aNodes = [], aTime = 0, aPick = 0,
     aFiles = [], aProfs = [], aRes = [], aTree = [], aJson = JNull\<rparr>"

datatype 'a prog = Ret 'a | Do req "answer \<Rightarrow> 'a prog"

primrec bind :: "'a prog \<Rightarrow> ('a \<Rightarrow> 'b prog) \<Rightarrow> 'b prog" where
  "bind (Ret x) f = f x"
| "bind (Do q k) f = Do q (\<lambda>a. bind (k a) f)"

lemma bind_Ret [simp]: "bind p Ret = p"
  by (induction p) simp_all

lemma bind_bind [simp]: "bind (bind p f) g = bind p (\<lambda>x. bind (f x) g)"
  by (induction p) simp_all

text \<open>The \<open>(value, error)\<close> results of Go: \<open>tryP\<close> returns early on an error, wrapping it.\<close>

definition fail :: "goerr \<Rightarrow> 'a res prog" where
  "fail e = Ret (Inl e)"

definition okP :: "unit res prog" where
  "okP = Ret (Inr ())"

text \<open>No caller wraps a panic.\<close>

definition wrapErr :: "(goerr \<Rightarrow> goerr) \<Rightarrow> goerr \<Rightarrow> goerr" where
  "wrapErr w e = (case e of Panic m \<Rightarrow> Panic m | _ \<Rightarrow> w e)"

lemma wrapErr_id [simp]: "wrapErr id e = e"
  by (cases e) (simp_all add: wrapErr_def)

lemma wrapErr_Panic [simp]: "wrapErr w (Panic m) = Panic m"
  by (simp add: wrapErr_def)

definition tryP :: "(goerr \<Rightarrow> goerr) \<Rightarrow> 'a res prog \<Rightarrow> ('a \<Rightarrow> 'b res prog) \<Rightarrow> 'b res prog" where
  "tryP w p f = bind p (\<lambda>r. case r of Inl e \<Rightarrow> fail (wrapErr w e) | Inr x \<Rightarrow> f x)"

primrec eachP :: "('a \<Rightarrow> unit res prog) \<Rightarrow> 'a list \<Rightarrow> unit res prog" where
  "eachP f [] = okP"
| "eachP f (x # xs) = tryP id (f x) (\<lambda>_. eachP f xs)"

lemma eachP_cong [fundef_cong]: "xs = ys \<Longrightarrow> (\<And>x. x \<in> set ys \<Longrightarrow> f x = g x) \<Longrightarrow> eachP f xs = eachP g ys"
  by (induction ys arbitrary: xs) auto

text \<open>A \<open>defer closeConn(c)\<close>: the session is closed whatever the body returns.\<close>

definition deferReq :: "req \<Rightarrow> 'a prog \<Rightarrow> 'a prog" where
  "deferReq q p = bind p (\<lambda>r. Do q (\<lambda>_. Ret r))"

definition deferClose :: "conn \<Rightarrow> 'a prog \<Rightarrow> 'a prog" where
  "deferClose c p = bind p (\<lambda>r. Do (Close c) (\<lambda>_. Ret r))"

section \<open>Runs\<close>

type_synonym trace = "(req \<times> answer) list"

fun runs :: "'a prog \<Rightarrow> trace \<Rightarrow> 'a \<Rightarrow> bool" where
  "runs (Ret x) t r = (t = [] \<and> x = r)"
| "runs (Do q k) [] r = False"
| "runs (Do q k) ((q', a) # t) r = (q' = q \<and> runs (k a) t r)"

fun feed :: "'a prog \<Rightarrow> answer list \<Rightarrow> (req list \<times> 'a option)" where
  "feed (Ret x) as = ([], Some x)"
| "feed (Do q k) [] = ([q], None)"
| "feed (Do q k) (a # as) = (case feed (k a) as of (qs, r) \<Rightarrow> (q # qs, r))"

lemma runs_Do: "runs (Do q k) t r \<longleftrightarrow> (\<exists>a u. t = (q, a) # u \<and> runs (k a) u r)"
  by (cases t) auto

lemma runs_bind:
  "runs (bind p f) t r \<longleftrightarrow> (\<exists>u v x. t = u @ v \<and> runs p u x \<and> runs (f x) v r)"
proof (induction p arbitrary: t)
  case (Ret x)
  show ?case by auto
next
  case (Do q k)
  show ?case
  proof
    assume "runs (bind (Do q k) f) t r"
    then obtain a u where t: "t = (q, a) # u" and "runs (bind (k a) f) u r" by (auto simp: runs_Do)
    with Do [of "k a"] obtain u1 v x where "u = u1 @ v" "runs (k a) u1 x" "runs (f x) v r" by auto
    with t have "t = ((q, a) # u1) @ v \<and> runs (Do q k) ((q, a) # u1) x \<and> runs (f x) v r" by simp
    then show "\<exists>u v x. t = u @ v \<and> runs (Do q k) u x \<and> runs (f x) v r" by blast
  next
    assume "\<exists>u v x. t = u @ v \<and> runs (Do q k) u x \<and> runs (f x) v r"
    then obtain a u v x where "t = ((q, a) # u) @ v" "runs (k a) u x" "runs (f x) v r"
      by (auto simp: runs_Do)
    with Do [of "k a"] show "runs (bind (Do q k) f) t r" by auto
  qed
qed

text \<open>\<open>feed\<close> and \<open>runs\<close> agree: a replay that finishes is a run.\<close>

lemma feed_runs: "feed p as = (qs, Some r) \<Longrightarrow> runs p (zip qs as) r \<and> length qs \<le> length as"
proof (induction p as arbitrary: qs rule: feed.induct)
  case (3 q k a as)
  then show ?case by (auto split: prod.splits)
qed auto

text \<open>Requests whose answer is used as it comes, or not at all.\<close>

definition getenv :: "string \<Rightarrow> string prog" where
  "getenv k = Do (Getenv k) (\<lambda>a. Ret (aOut a))"

definition nowP :: "string prog" where
  "nowP = Do Now (\<lambda>a. Ret (aOut a))"

definition sleepP :: "nat \<Rightarrow> unit prog" where
  "sleepP n = Do (Sleep n) (\<lambda>_. Ret ())"

definition readFile :: "string \<Rightarrow> string res prog" where
  "readFile p = Do (ReadFile p) (\<lambda>a. case aErr a of None \<Rightarrow> Ret (Inr (aOut a)) | Some m \<Rightarrow> fail (Ext m))"

definition writeFile :: "string \<Rightarrow> string \<Rightarrow> unit res prog" where
  "writeFile p s = Do (WriteFile p s) (\<lambda>a. case aErr a of None \<Rightarrow> okP | Some m \<Rightarrow> fail (Ext m))"

text \<open>
  A request that only fails or succeeds, and the order in which Go visits the entries of a
  map: any order, chosen entry by entry.
\<close>

definition callP :: "req \<Rightarrow> unit res prog" where
  "callP q = Do q (\<lambda>a. case aErr a of None \<Rightarrow> okP | Some m \<Rightarrow> fail (Ext m))"

definition askP :: "req \<Rightarrow> answer res prog" where
  "askP q = Do q (\<lambda>a. case aErr a of None \<Rightarrow> Ret (Inr a) | Some m \<Rightarrow> fail (Ext m))"

fun mapOrderAcc :: "nat \<Rightarrow> 'a list \<Rightarrow> 'a list \<Rightarrow> 'a list prog" where
  "mapOrderAcc n [] acc = Ret (rev acc)"
| "mapOrderAcc 0 xs acc = Ret (rev acc @ xs)"
| "mapOrderAcc (Suc n) (x # xs) acc = Do (MapOrder n) (\<lambda>a.
     let i = aPick a mod Suc (length xs)
     in mapOrderAcc n (take i (x # xs) @ drop (Suc i) (x # xs)) ((x # xs) ! i # acc))"

definition mapOrder :: "'a list \<Rightarrow> 'a list prog" where
  "mapOrder xs = mapOrderAcc (length xs) xs []"

section \<open>Which requests a program can make\<close>

primrec allreq :: "(req \<Rightarrow> bool) \<Rightarrow> 'a prog \<Rightarrow> bool" where
  "allreq P (Ret x) = True"
| "allreq P (Do q k) = (P q \<and> (\<forall>a. allreq P (k a)))"

text \<open>Every result a program can return.\<close>

primrec results :: "('a \<Rightarrow> bool) \<Rightarrow> 'a prog \<Rightarrow> bool" where
  "results R (Ret x) = R x"
| "results R (Do q k) = (\<forall>a. results R (k a))"

lemma allreq_runs: "allreq P p \<Longrightarrow> runs p t r \<Longrightarrow> (q, a) \<in> set t \<Longrightarrow> P q"
  by (induction p t r rule: runs.induct) auto

lemma results_runs: "results R p \<Longrightarrow> runs p t r \<Longrightarrow> R r"
  by (induction p t r rule: runs.induct) auto

lemma allreq_mono: "allreq P p \<Longrightarrow> (\<And>q. P q \<Longrightarrow> Q q) \<Longrightarrow> allreq Q p"
  by (induction p) auto

lemma results_mono: "results R p \<Longrightarrow> (\<And>x. R x \<Longrightarrow> S x) \<Longrightarrow> results S p"
  by (induction p) auto

lemma allreq_bind: "allreq P (bind p f) \<longleftrightarrow> allreq P p \<and> results (\<lambda>x. allreq P (f x)) p"
  by (induction p) auto

lemma allreq_bindI [prog_intros]: "allreq P p \<Longrightarrow> (\<And>x. allreq P (f x)) \<Longrightarrow> allreq P (bind p f)"
  by (induction p) auto

lemma results_bind: "results R (bind p f) \<longleftrightarrow> results (\<lambda>x. results R (f x)) p"
  by (induction p) auto

lemma results_True [simp]: "results (\<lambda>x. True) p"
  by (induction p) auto

lemma results_bindI: "results S p \<Longrightarrow> (\<And>x. S x \<Longrightarrow> results R (f x)) \<Longrightarrow> results R (bind p f)"
  by (induction p) auto

lemma allreq_fail [prog_intros, simp]: "allreq P (fail e)"
  by (simp add: fail_def)

lemma allreq_okP [prog_intros, simp]: "allreq P okP"
  by (simp add: okP_def)

lemma allreq_tryP [prog_intros]: "allreq P p \<Longrightarrow> (\<And>x. allreq P (f x)) \<Longrightarrow> allreq P (tryP w p f)"
  unfolding tryP_def by (rule allreq_bindI) (auto split: sum.splits)

lemma allreq_eachP [prog_intros]: "(\<And>x. x \<in> set xs \<Longrightarrow> allreq P (f x)) \<Longrightarrow> allreq P (eachP f xs)"
  by (induction xs) (auto intro: allreq_tryP)

lemma allreq_deferClose [prog_intros]:
  "P (Close c) \<Longrightarrow> allreq P p \<Longrightarrow> allreq P (deferClose c p)"
  unfolding deferClose_def by (rule allreq_bindI) auto

lemma allreq_basic [prog_intros]:
  "P (Getenv k) \<Longrightarrow> allreq P (getenv k)"
  "P Now \<Longrightarrow> allreq P nowP"
  "P (Sleep n) \<Longrightarrow> allreq P (sleepP n)"
  "P (ReadFile f) \<Longrightarrow> allreq P (readFile f)"
  "P (WriteFile f s) \<Longrightarrow> allreq P (writeFile f s)"
  by (auto simp: getenv_def nowP_def sleepP_def readFile_def writeFile_def split: option.splits)

lemma runs_fail [simp]: "runs (fail e) t r \<longleftrightarrow> t = [] \<and> r = Inl e"
  by (auto simp: fail_def)

lemma runs_okP [simp]: "runs okP t r \<longleftrightarrow> t = [] \<and> r = Inr ()"
  by (auto simp: okP_def)

lemma runs_tryP:
  "runs (tryP w p f) t r \<longleftrightarrow>
    (\<exists>e. runs p t (Inl e) \<and> r = Inl (wrapErr w e)) \<or>
    (\<exists>u v x. t = u @ v \<and> runs p u (Inr x) \<and> runs (f x) v r)"
  (is "?l \<longleftrightarrow> ?a \<or> ?b")
proof
  assume ?l
  then obtain u v x where t: "t = u @ v" "runs p u x"
    "runs (case x of Inl e \<Rightarrow> fail (wrapErr w e) | Inr y \<Rightarrow> f y) v r"
    by (auto simp: tryP_def runs_bind)
  show "?a \<or> ?b"
  proof (cases x)
    case (Inl e)
    with t have "runs p t (Inl e) \<and> r = Inl (wrapErr w e)" by simp
    then show ?thesis by blast
  next
    case (Inr y)
    with t show ?thesis by auto
  qed
next
  assume "?a \<or> ?b"
  then show ?l
  proof
    assume ?a
    then obtain e where e: "runs p t (Inl e)" "r = Inl (wrapErr w e)" by blast
    then have "t = t @ [] \<and> runs p t (Inl e) \<and> runs (fail (wrapErr w e)) [] r" by simp
    then show ?l unfolding tryP_def runs_bind
      by (intro exI [of _ t] exI [of _ "[]"] exI [of _ "Inl e"]) simp
  next
    assume ?b
    then obtain u v x where "t = u @ v" "runs p u (Inr x)" "runs (f x) v r" by blast
    then show ?l unfolding tryP_def runs_bind
      by (intro exI [of _ u] exI [of _ v] exI [of _ "Inr x"]) simp
  qed
qed

lemma runs_eachP_Cons:
  "runs (eachP f (x # xs)) t r \<longleftrightarrow>
    (\<exists>e. runs (f x) t (Inl e) \<and> r = Inl e) \<or>
    (\<exists>u v. t = u @ v \<and> runs (f x) u (Inr ()) \<and> runs (eachP f xs) v r)"
  by (auto simp: runs_tryP)

lemma runs_deferClose:
  "runs (deferClose c p) t r \<longleftrightarrow> (\<exists>u a. t = u @ [(Close c, a)] \<and> runs p u r)"
  by (auto simp: deferClose_def runs_bind runs_Do)

lemma tryP_fail [prog_simps]: "tryP w (fail e) f = fail (wrapErr w e)"
  by (simp add: tryP_def fail_def)

lemma tryP_Inr [prog_simps]: "tryP w (Ret (Inr x)) f = f x"
  by (simp add: tryP_def)

lemma tryP_okP [prog_simps]: "tryP w okP f = f ()"
  by (simp add: tryP_def okP_def)

section \<open>Sessions and remote commands\<close>

text \<open>
  \<open>ssh.Run\<close>, \<open>ssh.RunWithStdin\<close> and \<open>ssh.RunStream\<close> (\<open>ssh/client.go\<close>): the output comes
  back even when the command fails; a streamed command has none.
\<close>

definition runResult :: "script \<Rightarrow> answer \<Rightarrow> string \<times> goerr option" where
  "runResult s a = (case aSess a of
       Some m \<Rightarrow> ('''', Some (Wrapf ''session: %w'' [] (Ext m)))
     | None \<Rightarrow> (aOut a, case aErr a of None \<Rightarrow> None
         | Some m \<Rightarrow> Some (Wrapf ''run %q: %w\<newline>output: %s'' [Str (render s), Str (aOut a)] (Ext m))))"

definition sshRun :: "conn \<Rightarrow> script \<Rightarrow> (string \<times> goerr option) prog" where
  "sshRun c s = Do (Exec c s) (\<lambda>a. Ret (runResult s a))"

definition sshRunWithStdin :: "conn \<Rightarrow> script \<Rightarrow> string \<Rightarrow> (string \<times> goerr option) prog" where
  "sshRunWithStdin c s stdin = Do (ExecIn c s stdin) (\<lambda>a. Ret (case aSess a of
       Some m \<Rightarrow> ('''', Some (Wrapf ''session: %w'' [] (Ext m)))
     | None \<Rightarrow> (aOut a, case aErr a of None \<Rightarrow> None
         | Some m \<Rightarrow> Some (Wrapf ''run: %w\<newline>output: %s'' [Str (aOut a)] (Ext m)))))"

definition sshRunStream :: "conn \<Rightarrow> script \<Rightarrow> unit res prog" where
  "sshRunStream c s = Do (Exec c s) (\<lambda>a. case aSess a of
       Some m \<Rightarrow> fail (Wrapf ''session: %w'' [] (Ext m))
     | None \<Rightarrow> (case aErr a of None \<Rightarrow> okP | Some m \<Rightarrow> fail (Wrapf ''run: %w'' [] (Ext m))))"

text \<open>A command whose error the caller ignores.\<close>

definition execP :: "conn \<Rightarrow> script \<Rightarrow> unit prog" where
  "execP c s = bind (sshRun c s) (\<lambda>_. Ret ())"

text \<open>
  The common use: the error decides, and the caller wraps it, some with the output. \<open>runU\<close>
  is the same where the output is only printed.
\<close>

definition runE :: "conn \<Rightarrow> script \<Rightarrow> (string \<Rightarrow> goerr \<Rightarrow> goerr) \<Rightarrow> string res prog" where
  "runE c s w = bind (sshRun c s) (\<lambda>(out, e). case e of None \<Rightarrow> Ret (Inr out) | Some e' \<Rightarrow> fail (w out e'))"

definition runU :: "conn \<Rightarrow> script \<Rightarrow> (string \<Rightarrow> goerr \<Rightarrow> goerr) \<Rightarrow> unit res prog" where
  "runU c s w = bind (sshRun c s) (\<lambda>(out, e). case e of None \<Rightarrow> okP | Some e' \<Rightarrow> fail (w out e'))"

text \<open>The two shapes of wrapping: \<open>"msg: %w"\<close>, and the same with the output after it.\<close>

definition wrapE :: "string \<Rightarrow> arg list \<Rightarrow> string \<Rightarrow> goerr \<Rightarrow> goerr" where
  "wrapE f as out e = Wrapf f as e"

definition wrapO :: "string \<Rightarrow> arg list \<Rightarrow> string \<Rightarrow> goerr \<Rightarrow> goerr" where
  "wrapO f as out e = Wrapf f (as @ [Str out]) e"

definition connectSSH :: "conn \<Rightarrow> conn res prog" where
  "connectSSH c = Do (Dial c) (\<lambda>a. case aErr a of None \<Rightarrow> Ret (Inr c) | Some m \<Rightarrow> fail (Ext m))"

lemma allreq_sshRun [prog_intros]: "P (Exec c s) \<Longrightarrow> allreq P (sshRun c s)"
  by (simp add: sshRun_def)

lemma allreq_runE [prog_intros]: "P (Exec c s) \<Longrightarrow> allreq P (runE c s w)"
  unfolding runE_def by (rule allreq_bindI) (auto intro: prog_intros split: option.splits prod.splits)

lemma allreq_runU [prog_intros]: "P (Exec c s) \<Longrightarrow> allreq P (runU c s w)"
  unfolding runU_def by (rule allreq_bindI) (auto intro: prog_intros split: option.splits prod.splits)

lemma allreq_connectSSH [prog_intros]: "P (Dial c) \<Longrightarrow> allreq P (connectSSH c)"
  by (simp add: connectSSH_def split: option.splits)

lemma runs_sshRun: "runs (sshRun c s) t r \<longleftrightarrow> (\<exists>a. t = [(Exec c s, a)] \<and> r = runResult s a)"
  by (auto simp: sshRun_def runs_Do)

lemma runs_runE:
  "runs (runE c s w) t r \<longleftrightarrow>
    (\<exists>a. t = [(Exec c s, a)] \<and>
      r = (case runResult s a of (out, None) \<Rightarrow> Inr out | (out, Some e) \<Rightarrow> Inl (w out e)))"
  by (auto simp: runE_def sshRun_def runs_Do split: option.splits prod.splits)

lemma runs_runU:
  "runs (runU c s w) t r \<longleftrightarrow>
    (\<exists>a. t = [(Exec c s, a)] \<and>
      r = (case runResult s a of (out, None) \<Rightarrow> Inr () | (out, Some e) \<Rightarrow> Inl (w out e)))"
  by (auto simp: runU_def sshRun_def runs_Do split: option.splits prod.splits)

lemma runResult_ok: "runResult s (ok_out x) = (x, None)"
  by (simp add: runResult_def ok_out_def)

lemma runResult_failed: "snd (runResult s (failed e)) \<noteq> None"
  by (simp add: runResult_def failed_def)

lemma allreq_sshRunWithStdin [prog_intros]: "P (ExecIn c s i) \<Longrightarrow> allreq P (sshRunWithStdin c s i)"
  by (simp add: sshRunWithStdin_def)

lemma allreq_sshRunStream [prog_intros]: "P (Exec c s) \<Longrightarrow> allreq P (sshRunStream c s)"
  by (auto simp: sshRunStream_def split: option.splits)

lemma allreq_execP [prog_intros]: "P (Exec c s) \<Longrightarrow> allreq P (execP c s)"
  unfolding execP_def by (rule allreq_bindI) (auto intro: prog_intros)

lemma runs_connectSSH:
  "runs (connectSSH c) t r \<longleftrightarrow>
    (\<exists>a. t = [(Dial c, a)] \<and> r = (case aErr a of None \<Rightarrow> Inr c | Some m \<Rightarrow> Inl (Ext m)))"
  by (auto simp: connectSSH_def runs_Do split: option.splits)

text \<open>Whatever the world answers, a program runs to its end.\<close>

lemma runs_total: "\<exists>t r. runs p t r \<and> snd ` set t \<subseteq> {a}"
proof (induction p)
  case (Ret x)
  have "runs (Ret x) [] x \<and> snd ` set [] \<subseteq> {a}" by simp
  then show ?case by blast
next
  case (Do q k)
  obtain t r where "runs (k a) t r" "snd ` set t \<subseteq> {a}" using Do [of "k a"] by auto
  then have "runs (Do q k) ((q, a) # t) r \<and> snd ` set ((q, a) # t) \<subseteq> {a}" by auto
  then show ?case by blast
qed

section \<open>Runs of the small programs\<close>

lemma runs_execP: "runs (execP c s) t r \<longleftrightarrow> (\<exists>a. t = [(Exec c s, a)])"
  by (auto simp: execP_def runs_bind runs_sshRun) (metis surj_pair)

lemma runs_getenv: "runs (getenv k) t r \<longleftrightarrow> (\<exists>a. t = [(Getenv k, a)] \<and> r = aOut a)"
  by (auto simp: getenv_def runs_Do)

lemma runs_sleepP: "runs (sleepP n) t r \<longleftrightarrow> (\<exists>a. t = [(Sleep n, a)])"
  by (auto simp: sleepP_def runs_Do)

lemma runs_nowP: "runs nowP t r \<longleftrightarrow> (\<exists>a. t = [(Now, a)] \<and> r = aOut a)"
  by (auto simp: nowP_def runs_Do)

lemmas runs_small = runs_execP runs_getenv runs_sleepP runs_nowP runs_sshRun runs_connectSSH runs_runE runs_runU

text \<open>How often a run makes a request.\<close>

definition reqs :: "(req \<times> answer) list \<Rightarrow> req list" where
  "reqs t = map fst t"

lemma reqs_simps [simp]: "reqs [] = []" "reqs (x # t) = fst x # reqs t" "reqs (t @ u) = reqs t @ reqs u"
  by (simp_all add: reqs_def)

end
