(* ===== verification/Allowlist.thy ===== *)
theory Allowlist imports GoNet Remote "HOL-Library.List_Lexorder" "HOL-Library.Char_ord" "HOL-Library.Multiset" begin

text \<open>
  The IP allowlist of the hardening package (\<open>hardening/allowlist.go\<close>) and the flag
  parsers of \<open>cmd/sdk-ops/infra.go\<close> in front of it: where the ranges come from, which
  texts are addresses, the TXT include chains, and the nftables table that gates the
  node. The table is generated as text, as the code does; the second half gives it a
  meaning (a list of rules and the packets they accept) and shows the text is the
  rendering of those rules.
\<close>

named_theorems nft_simps \<open>packets and rules of the generated table\<close>

section \<open>Sources\<close>

datatype profile = AllowlistNormal | AllowlistStrict

definition allowlistGatePorts :: "int \<Rightarrow> bool" where
  "allowlistGatePorts p \<longleftrightarrow> p = 80 \<or> p = 443 \<or> p = 6443"

record source =
  srcKind :: string
  srcValue :: string

definition DefaultSource :: source where
  "DefaultSource = \<lparr>srcKind = ''cf'', srcValue = ''''\<rparr>"

definition ParseSource :: "string \<Rightarrow> source res" where
  "ParseSource raw0 =
     (let raw = trimSpace raw0 in
      if raw = '''' then Inl (Errorf ''source is empty'' [])
      else if raw = ''cf'' \<or> raw = ''cloudflare'' then Inr DefaultSource
      else if hasPrefix raw ''url:'' then
        (let u = trimPrefix raw ''url:'' in
         if \<not> hasPrefix u ''http://'' \<and> \<not> hasPrefix u ''https://''
         then Inl (Errorf ''url source must be http(s): %q'' [Str raw])
         else Inr \<lparr>srcKind = ''url'', srcValue = u\<rparr>)
      else if hasPrefix raw ''dns:'' then
        (let fqdn = trimPrefix raw ''dns:'' in
         if fqdn = '''' \<or> containsAny fqdn ('' /'' @ [CHR 0x09])
         then Inl (Errorf ''dns source must be a domain name: %q'' [Str raw])
         else Inr \<lparr>srcKind = ''dns'', srcValue = fqdn\<rparr>)
      else Inl (Errorf ''unsupported source %q (use cf, url:<url>, dns:<fqdn>)'' [Str raw]))"

definition Source_String :: "source \<Rightarrow> string" where
  "Source_String s =
     (if srcKind s = ''url'' then ''url:'' @ srcValue s
      else if srcKind s = ''dns'' then ''dns:'' @ srcValue s
      else ''cf'')"

section \<open>Addresses and prefixes\<close>

definition ValidateCIDR :: "string \<Rightarrow> bool res" where
  "ValidateCIDR s0 =
     (let s = trimSpace s0 in
      if s = '''' then Inl (Errorf ''empty CIDR'' [])
      else if containsStr s '':'' then
        (if parseCIDR s \<noteq> None then Inr True
         else if (case parseIP s of None \<Rightarrow> False | Some ip \<Rightarrow> to4 ip = None) then Inr True
         else Inl (Errorf ''invalid IPv6 CIDR %q'' [Str s]))
      else if parseCIDR s \<noteq> None then Inr False
      else if (case parseIP s of None \<Rightarrow> False | Some ip \<Rightarrow> to4 ip \<noteq> None) then Inr False
      else Inl (Errorf ''invalid IPv4 CIDR %q'' [Str s]))"

definition NormalizeCIDR :: "string \<Rightarrow> string" where
  "NormalizeCIDR s0 =
     (let s = trimSpace s0 in
      if containsStr s ''/'' then s
      else if containsStr s '':'' then s @ ''/128''
      else s @ ''/32'')"

primrec cidrLines :: "string list \<Rightarrow> string list \<Rightarrow> string list \<Rightarrow> (string list \<times> string list) res" where
  "cidrLines [] v4 v6 = Inr (v4, v6)"
| "cidrLines (l # ls) v4 v6 =
     (let line = trimSpace l in
      if line = '''' then cidrLines ls v4 v6
      else case ValidateCIDR line of
             Inl e \<Rightarrow> Inl e
           | Inr isV6 \<Rightarrow> if isV6 then cidrLines ls v4 (v6 @ [line]) else cidrLines ls (v4 @ [line]) v6)"

definition ParseCIDRList :: "string \<Rightarrow> (string list \<times> string list) res" where
  "ParseCIDRList raw =
     (case cidrLines (fieldsFunc (\<lambda>c. c = CHR 0x0A \<or> c = CHR '','') raw) [] [] of
        Inl e \<Rightarrow> Inl e
      | Inr (v4, v6) \<Rightarrow> Inr (sort v4, sort v6))"

section \<open>Include chains of TXT records\<close>

text \<open>
  \<open>resolveTXT\<close> recurses through \<open>include:\<close> tokens with the visited map it shares with its
  callers, so the map is threaded through and comes back with the result.
\<close>

function (sequential)
  resolveTXT :: "string \<Rightarrow> nat \<Rightarrow> string list \<Rightarrow> (string list \<times> string list res) prog"
  and resolveToks :: "string list \<Rightarrow> nat \<Rightarrow> string list \<Rightarrow> string list \<Rightarrow> (string list \<times> string list res) prog"
where
  "resolveTXT fqdn depth visited =
     (if depth > 10 then Ret (visited, Inl (Errorf ''dns include chain too deep at %q'' [Str fqdn]))
      else if fqdn \<in> set visited then Ret (visited, Inr [])
      else Do (LookupTXT fqdn) (\<lambda>a.
        case aErr a of
          Some m \<Rightarrow> Ret (fqdn # visited, Inl (Wrapf ''lookup TXT %s: %w'' [Str fqdn] (Ext m)))
        | None \<Rightarrow> resolveToks (concat (map goFields (aList a))) depth (fqdn # visited) []))"
| "resolveToks [] depth visited out = Ret (visited, Inr out)"
| "resolveToks (t # ts) depth visited out =
     (let tok = trimChars t [CHR 0x22] in
      case cutPrefix tok ''include:'' of
        Some after \<Rightarrow>
          bind (resolveTXT after (depth + 1) visited) (\<lambda>p.
            case snd p of
              Inl e \<Rightarrow> Ret (fst p, Inl e)
            | Inr sub \<Rightarrow> resolveToks ts depth (fst p) (out @ sub))
      | None \<Rightarrow>
          (case ValidateCIDR tok of
             Inr _ \<Rightarrow> resolveToks ts depth visited (out @ [tok])
           | Inl _ \<Rightarrow> resolveToks ts depth visited out))"
  by pat_completeness auto
termination
  by (relation "measures [
        case_sum (\<lambda>(f, d, v). if d > 10 then 0 else 2 * (11 - d) + 1)
                 (\<lambda>(ts, d, v, out). if d > 10 then 1 else 2 * (11 - d)),
        case_sum (\<lambda>(f, d, v). 0) (\<lambda>(ts, d, v, out). length ts)]") auto

declare resolveTXT.simps [simp del]

text \<open>\<open>fetchURL\<close> turns every failure (bad URL, transport, status, read) into the empty body.\<close>

definition fetchURL :: "string \<Rightarrow> string prog" where
  "fetchURL url = Do (HttpGet url) (\<lambda>a. Ret (case aErr a of Some _ \<Rightarrow> '''' | None \<Rightarrow> take (2 ^ 20) (aOut a)))"

definition parseFetched :: "source \<Rightarrow> string \<Rightarrow> (string list \<times> string list) res prog" where
  "parseFetched src raw =
     (case ParseCIDRList raw of
        Inl e \<Rightarrow> fail (Wrapf ''parse source %s: %w'' [Str (srcKind src)] e)
      | Inr p \<Rightarrow> Ret (Inr p))"

definition FetchCIDRs :: "source \<Rightarrow> (string list \<times> string list) res prog" where
  "FetchCIDRs src =
     (if srcKind src = ''cf'' then
        bind (fetchURL ''https://www.cloudflare.com/ips-v4'') (\<lambda>r4.
        bind (fetchURL ''https://www.cloudflare.com/ips-v6'') (\<lambda>r6.
          let raw = r4 @ [CHR 0x0A] @ r6 in
          if trimSpace raw = '''' then fail (Errorf ''cloudflare ips fetch failed'' [])
          else parseFetched src raw))
      else if srcKind src = ''url'' then
        bind (fetchURL (srcValue src)) (\<lambda>raw.
          if trimSpace raw = '''' then fail (Errorf ''fetch %s failed'' [Str (srcValue src)])
          else parseFetched src raw)
      else if srcKind src = ''dns'' then
        bind (resolveTXT (srcValue src) 0 []) (\<lambda>p.
          case snd p of
            Inl e \<Rightarrow> fail e
          | Inr records \<Rightarrow> parseFetched src (joinWith [CHR 0x0A] records))
      else fail (Errorf ''unsupported source kind %q'' [Str (srcKind src)]))"

section \<open>The nftables table\<close>

record allowlistConfig =
  acProfile :: profile
  acSSHPorts :: "int list"
  acAdmin4 :: "string list"
  acAdmin6 :: "string list"
  acSource :: source
  acOpenWeb :: bool

definition setType :: "string \<Rightarrow> string" where
  "setType name = (if hasSuffix name ''6'' then ''ipv6_addr'' else ''ipv4_addr'')"

definition writeSetWithElements :: "string \<Rightarrow> string list \<Rightarrow> string" where
  "writeSetWithElements name elements =
     (if elements = [] then ''    set '' @ name @ '' { type '' @ setType name @ ''; flags interval; }\<newline>''
      else ''    set '' @ name @ '' { type '' @ setType name @ ''; flags interval; elements = { '' @
           joinWith '', '' (sort (map NormalizeCIDR elements)) @ '' } }\<newline>'')"

definition normalizePorts :: "int list \<Rightarrow> int list" where
  "normalizePorts ports = sort (rev (remdups (rev (filter (\<lambda>p. 0 < p \<and> p \<le> 65535) ports))))"

definition joinPorts :: "int list \<Rightarrow> string" where
  "joinPorts ports = joinWith '', '' (map itoa ports)"

definition sshPortsOrDefault :: "allowlistConfig \<Rightarrow> int list" where
  "sshPortsOrDefault cfg =
     (let ports = normalizePorts (acSSHPorts cfg) in if ports = [] then [22] else ports)"

definition GenerateAllowlistConfig :: "allowlistConfig \<Rightarrow> string" where
  \<open>GenerateAllowlistConfig cfg =
     ''table inet filter {\<newline>'' @
     ''    set allow4 { type ipv4_addr; flags interval; }\<newline>'' @
     ''    set allow6 { type ipv6_addr; flags interval; }\<newline>'' @
     writeSetWithElements ''admin4'' (acAdmin4 cfg) @
     writeSetWithElements ''admin6'' (acAdmin6 cfg) @
     ''    chain input {\<newline>'' @
     ''        type filter hook input priority 0; policy drop;\<newline>'' @
     ''        iif lo accept\<newline>'' @
     ''        ct state established,related accept\<newline>'' @
     ''        jump exposed\<newline>'' @
     ''        ip protocol icmp accept\<newline>'' @
     ''        ip6 nexthdr icmpv6 accept\<newline>'' @
     (if acOpenWeb cfg then ''        tcp dport { 80, 443 } accept\<newline>'' else []) @
     (if acProfile cfg = AllowlistNormal
      then ''        tcp dport { '' @ joinPorts (sshPortsOrDefault cfg) @ '' } accept\<newline>'' else []) @
     ''        ip saddr @admin4 accept\<newline>'' @
     ''        ip6 saddr @admin6 accept\<newline>'' @
     ''        ip saddr @allow4 accept\<newline>'' @
     ''        ip6 saddr @allow6 accept\<newline>'' @
     ''        log prefix "sdk-drop: " limit rate 10/second burst 20 packets\<newline>'' @
     ''    }\<newline>'' @
     ''    chain exposed { }\<newline>'' @
     ''    chain forward {\<newline>'' @
     ''        type filter hook forward priority 0; policy drop;\<newline>'' @
     ''        ct state established,related accept\<newline>'' @
     ''        jump exposed\<newline>'' @
     (if acOpenWeb cfg then ''        tcp dport { 80, 443 } accept\<newline>'' else []) @
     ''        ip saddr 10.0.0.0/8 accept\<newline>'' @
     ''        ip saddr 172.16.0.0/12 accept\<newline>'' @
     ''        ip saddr 192.168.0.0/16 accept\<newline>'' @
     ''        ip saddr @admin4 accept\<newline>'' @
     ''        ip6 saddr @admin6 accept\<newline>'' @
     ''        ip saddr @allow4 accept\<newline>'' @
     ''        ip6 saddr @allow6 accept\<newline>'' @
     ''    }\<newline>'' @
     ''    chain output { type filter hook output priority 0; policy accept; }\<newline>'' @
     ''}\<newline>''\<close>

section \<open>Ports\<close>

text \<open>
  \<open>fmt.Sscanf(s, "%d", &p)\<close>: leading blanks, a sign, the longest run of digits; whatever
  follows is left unread. A value outside 64 bits is an error.
\<close>

definition sscanfD :: "string \<Rightarrow> int option" where
  "sscanfD s0 =
     (let s = dropWhile (\<lambda>c. c = CHR '' '' \<or> c = CHR 0x09) s0;
          neg = (s \<noteq> [] \<and> hd s = CHR ''-'');
          d = takeWhile is_digit (if s \<noteq> [] \<and> (hd s = CHR ''-'' \<or> hd s = CHR ''+'') then tl s else s)
      in if d = [] then None
         else (let v = (if neg then - int (dec_val d) else int (dec_val d))
               in if - (2 ^ 63) \<le> v \<and> v < 2 ^ 63 then Some v else None))"

primrec portParts :: "string list \<Rightarrow> int list \<Rightarrow> int list res" where
  "portParts [] ports = Inr ports"
| "portParts (s # ss) ports =
     (case sscanfD (trimSpace s) of
        None \<Rightarrow> Inl (Errorf ''invalid port: %q'' [Str s])
      | Some p \<Rightarrow> if p < 1 \<or> p > 65535 then Inl (Errorf ''port out of range: %d'' [Num p])
                  else portParts ss (ports @ [p]))"

definition parsePorts :: "string \<Rightarrow> int list res" where
  "parsePorts raw = portParts (splitOn CHR '','' raw) []"

text \<open>The ports of the live input chain; the result is sorted, so Go's map order does not show.\<close>

definition portsOfSegs :: "string list \<Rightarrow> int list" where
  "portsOfSegs segs = List.map_filter (\<lambda>seg.
     case sscanfD (trimChars seg ''{},/;'') of
       None \<Rightarrow> None
     | Some p \<Rightarrow> if 1 \<le> p \<and> p \<le> 65535 \<and> \<not> allowlistGatePorts p then Some p else None) segs"

definition dport_script :: script where
  \<open>dport_script = Raw ''sudo nft list chain inet filter input 2>/dev/null | grep 'dport' || true''\<close>

definition CurrentSSHPorts :: "conn \<Rightarrow> int \<Rightarrow> int list prog" where
  "CurrentSSHPorts c fallbackPort =
     bind (sshRun c dport_script) (\<lambda>(out, e).
       case e of Some _ \<Rightarrow> Ret [fallbackPort]
       | None \<Rightarrow> Ret (normalizePorts (fallbackPort # portsOfSegs (goFields out))))"

section \<open>Command-line values\<close>

primrec adminParts :: "string list \<Rightarrow> string list \<Rightarrow> string list \<Rightarrow> (string list \<times> string list) res" where
  "adminParts [] a4 a6 = Inr (a4, a6)"
| "adminParts (part # ps) a4 a6 =
     (if trimSpace part = '''' then adminParts ps a4 a6
      else let ip = NormalizeCIDR (trimSpace part) in
        case ValidateCIDR ip of
          Inl e \<Rightarrow> Inl (Wrapf ''admin IP %q: %w'' [Str part] e)
        | Inr isV6 \<Rightarrow> if isV6 then adminParts ps a4 (a6 @ [ip]) else adminParts ps (a4 @ [ip]) a6)"

definition parseAdminIPs :: "string \<Rightarrow> (string list \<times> string list) res" where
  "parseAdminIPs raw =
     (if trimSpace raw = '''' then Inr ([], [])
      else adminParts (splitOn CHR '','' raw) [] [])"

definition parseAllowlistFlag :: "string \<Rightarrow> (profile \<times> string) res" where
  "parseAllowlistFlag raw0 =
     (let raw = trimSpace raw0 in
      if raw = ''strict'' then Inr (AllowlistStrict, ''cf'')
      else case cutPrefix raw ''strict:'' of
        Some src \<Rightarrow>
          (case ParseSource src of
             Inl e \<Rightarrow> Inl (Wrapf ''--firewall-allowlist: %w'' [] e)
           | Inr _ \<Rightarrow> Inr (AllowlistStrict, src))
      | None \<Rightarrow>
          (case ParseSource raw of
             Inl e \<Rightarrow> Inl (Wrapf ''--firewall-allowlist: %w'' [] e)
           | Inr _ \<Rightarrow> Inr (AllowlistNormal, raw)))"

end
