(* ===== verification/AllowlistProps.thy ===== *)
theory AllowlistProps imports Allowlist begin

text \<open>
  What the allowlist component guarantees: which texts it accepts as addresses and what
  characters they can hold, how lists of ranges are split, that TXT include chains look
  every name up at most once, and what the generated nftables table lets in.
\<close>

section \<open>Sources\<close>

lemma no_space_trim: "\<not> (\<exists>c \<in> set s. is_space c) \<Longrightarrow> trimSpace s = s"
  by (rule trimSpace_idle) (cases s; auto)

lemma ParseSource_trim: "ParseSource (trimSpace raw) = ParseSource raw"
  by (simp add: ParseSource_def trimSpace_idem)

lemma Source_String_cases:
  assumes "ParseSource raw = Inr s"
  shows "s = DefaultSource \<or> Source_String s = trimSpace raw"
proof -
  have u: "hasPrefix (trimSpace raw) p \<Longrightarrow> p @ trimPrefix (trimSpace raw) p = trimSpace raw" for p
    by (auto simp: hasPrefix_iff)
  show ?thesis
    using assms u [of "''url:''"] u [of "''dns:''"]
    by (auto simp: ParseSource_def Source_String_def Let_def split: if_splits)
qed

text \<open>The line written to the node's sources file reads back as the same source.\<close>

theorem source_roundtrip:
  assumes "ParseSource raw = Inr s"
  shows "ParseSource (Source_String s) = Inr s"
proof -
  have "ParseSource (Source_String DefaultSource) = Inr DefaultSource" by code_simp
  with Source_String_cases [OF assms] assms ParseSource_trim show ?thesis by metis
qed

lemma source_roundtrip_witness:
  "ParseSource '' url:https://x.org/l '' = Inr \<lparr>srcKind = ''url'', srcValue = ''https://x.org/l''\<rparr>
   \<and> ParseSource ''url:https://x.org/l'' = Inr \<lparr>srcKind = ''url'', srcValue = ''https://x.org/l''\<rparr>"
proof -
  have h: "ParseSource '' url:https://x.org/l '' = Inr \<lparr>srcKind = ''url'', srcValue = ''https://x.org/l''\<rparr>"
    by code_simp
  show ?thesis using source_roundtrip [OF h] h by (simp add: Source_String_def)
qed

section \<open>Addresses\<close>

lemma ValidateCIDR_cases:
  "ValidateCIDR s = Inr v \<Longrightarrow>
    (parseCIDR (trimSpace s) \<noteq> None \<or> parseIP (trimSpace s) \<noteq> None) \<and>
    v = (CHR '':'' \<in> set (trimSpace s)) \<and> trimSpace s \<noteq> ''''"
  by (auto simp: ValidateCIDR_def Let_def containsStr_char split: if_splits option.splits)

lemma ValidateCIDR_trim [simp]: "ValidateCIDR (trimSpace s) = ValidateCIDR s"
  by (simp add: ValidateCIDR_def trimSpace_idem)

lemma accepted_chars:
  assumes "ValidateCIDR s = Inr v"
  shows "list_all cidr_char (trimSpace s) \<and> v = (CHR '':'' \<in> set (trimSpace s))"
proof -
  from ValidateCIDR_cases [OF assms]
  have "parseCIDR (trimSpace s) \<noteq> None \<or> parseIP (trimSpace s) \<noteq> None" by blast
  then have "list_all cidr_char (trimSpace s)"
    by (auto dest!: parseCIDR_chars parseIP_chars simp: list_all_iff cidr_char_def)
  with ValidateCIDR_cases [OF assms] show ?thesis by simp
qed

text \<open>
  An address the program accepts holds nothing but hexadecimal digits, dots, colons
  and slashes once trimmed, so splicing it into a remote script adds no shell syntax; and
  the reported family is IPv6 exactly when a colon occurs.
\<close>

theorem ValidateCIDR_alphabet:
  assumes "ValidateCIDR s = Inr v"
  shows "list_all cidr_char (trimSpace s) \<and> v = (CHR '':'' \<in> set (trimSpace s))"
  using assms by (rule accepted_chars)

lemma ValidateCIDR_alphabet_witness:
  "ValidateCIDR '' 10.0.0.0/8 '' = Inr False \<and> list_all cidr_char ''10.0.0.0/8''"
proof -
  have h: "ValidateCIDR '' 10.0.0.0/8 '' = Inr False" by code_simp
  have t: "trimSpace '' 10.0.0.0/8 '' = ''10.0.0.0/8''" by code_simp
  from ValidateCIDR_alphabet [OF h] show ?thesis unfolding t using h by blast
qed

section \<open>Lists of ranges\<close>

abbreviation rangeLines :: "string \<Rightarrow> string list" where
  "rangeLines raw \<equiv> filter (\<lambda>l. l \<noteq> '''')
     (map trimSpace (fieldsFunc (\<lambda>c. c = CHR 0x0A \<or> c = CHR '','') raw))"

lemma cidrLines_ok:
  "cidrLines ls v4 v6 = Inr (w4, w6) \<longleftrightarrow>
    (\<forall>l \<in> set (filter (\<lambda>l. l \<noteq> '''') (map trimSpace ls)). \<exists>b. ValidateCIDR l = Inr b) \<and>
    w4 = v4 @ filter (\<lambda>l. ValidateCIDR l = Inr False) (filter (\<lambda>l. l \<noteq> '''') (map trimSpace ls)) \<and>
    w6 = v6 @ filter (\<lambda>l. ValidateCIDR l = Inr True) (filter (\<lambda>l. l \<noteq> '''') (map trimSpace ls))"
proof (induction ls arbitrary: v4 v6)
  case Nil
  show ?case by auto
next
  case (Cons l ls)
  show ?case
  proof (cases "trimSpace l = ''''")
    case True
    then show ?thesis by (simp add: Let_def Cons.IH)
  next
    case ne: False
    show ?thesis
    proof (cases "ValidateCIDR l")
      case (Inl e)
      with ne show ?thesis by (auto simp: Let_def)
    next
      case (Inr b)
      with ne show ?thesis by (cases b) (auto simp: Let_def Cons.IH)
    qed
  qed
qed

lemma filters_cover:
  assumes "mset (filter P xs) + mset (filter Q xs) = mset xs"
  shows "\<forall>x \<in> set xs. P x \<or> Q x"
proof -
  have "set_mset (mset (filter P xs) + mset (filter Q xs)) = set_mset (mset xs)"
    by (simp only: assms)
  then have "set (filter P xs) \<union> set (filter Q xs) = set xs" by simp
  then show ?thesis by auto
qed

lemma sort_iff: "(v :: string list) = sort xs \<longleftrightarrow> mset v = mset xs \<and> sorted v"
  by (auto intro: properties_for_sort [symmetric])

lemma filter_split_count:
  assumes "\<forall>l \<in> set xs. \<exists>b. f l = Inr (b :: bool)"
  shows "mset (filter (\<lambda>l. f l = Inr False) xs) + mset (filter (\<lambda>l. f l = Inr True) xs) = mset xs"
  using assms
proof (induction xs)
  case (Cons x xs)
  then obtain b where "f x = Inr b" by auto
  with Cons show ?case by (cases b) auto
qed simp

text \<open>
  A range list is accepted exactly when every non-blank entry is a valid prefix; then
  each entry lands in the list of its family, nothing is lost or invented, and both lists
  are sorted.
\<close>

theorem ParseCIDRList_split:
  "ParseCIDRList raw = Inr (v4, v6) \<longleftrightarrow>
    mset v4 = mset (filter (\<lambda>l. ValidateCIDR l = Inr False) (rangeLines raw)) \<and>
    mset v6 = mset (filter (\<lambda>l. ValidateCIDR l = Inr True) (rangeLines raw)) \<and>
    mset v4 + mset v6 = mset (rangeLines raw) \<and> sorted v4 \<and> sorted v6"
  (is "?l \<longleftrightarrow> ?r")
proof -
  let ?ls = "rangeLines raw"
  let ?f4 = "filter (\<lambda>l. ValidateCIDR l = Inr False) ?ls"
  let ?f6 = "filter (\<lambda>l. ValidateCIDR l = Inr True) ?ls"
  have "?l \<longleftrightarrow> (\<exists>w4 w6. cidrLines (fieldsFunc (\<lambda>c. c = CHR 0x0A \<or> c = CHR '','') raw) [] [] = Inr (w4, w6)
      \<and> v4 = sort w4 \<and> v6 = sort w6)"
    by (auto simp: ParseCIDRList_def split: sum.splits)
  then have eq: "?l \<longleftrightarrow> (\<forall>l \<in> set ?ls. \<exists>b. ValidateCIDR l = Inr b) \<and> v4 = sort ?f4 \<and> v6 = sort ?f6"
    unfolding cidrLines_ok append_Nil by blast
  have all: "(\<forall>l \<in> set ?ls. \<exists>b. ValidateCIDR l = Inr b) \<longleftrightarrow> mset ?f4 + mset ?f6 = mset ?ls"
  proof
    assume "\<forall>l \<in> set ?ls. \<exists>b. ValidateCIDR l = Inr b"
    then show "mset ?f4 + mset ?f6 = mset ?ls" by (rule filter_split_count)
  next
    assume "mset ?f4 + mset ?f6 = mset ?ls"
    then have "\<forall>l \<in> set ?ls. ValidateCIDR l = Inr False \<or> ValidateCIDR l = Inr True"
      by (rule filters_cover)
    then show "\<forall>l \<in> set ?ls. \<exists>b. ValidateCIDR l = Inr b" by blast
  qed
  have "(\<forall>l \<in> set ?ls. \<exists>b. ValidateCIDR l = Inr b) \<longleftrightarrow> mset v4 + mset v6 = mset ?ls"
    if "mset v4 = mset ?f4" "mset v6 = mset ?f6"
    unfolding that by (rule all)
  then show ?thesis unfolding eq sort_iff by blast
qed

section \<open>Include chains\<close>

definition lookups :: "trace \<Rightarrow> string list" where
  "lookups t = List.map_filter (\<lambda>(q, a). case q of LookupTXT n \<Rightarrow> Some n | _ \<Rightarrow> None) t"

lemma lookups_Nil [simp]: "lookups [] = []"
  by (simp add: lookups_def map_filter_simps)

lemma lookups_append [simp]: "lookups (t @ u) = lookups t @ lookups u"
  by (simp add: lookups_def map_filter_def)

lemma lookups_LookupTXT [simp]: "lookups ((LookupTXT n, a) # t) = n # lookups t"
  by (simp add: lookups_def map_filter_simps)

definition once :: "string list \<Rightarrow> trace \<Rightarrow> string list \<Rightarrow> bool" where
  "once V t V' \<longleftrightarrow> distinct (lookups t) \<and> set (lookups t) \<inter> set V = {} \<and> set V' = set V \<union> set (lookups t)"

definition valid_tokens :: "string list res \<Rightarrow> bool" where
  "valid_tokens r = (case r of Inl _ \<Rightarrow> True | Inr out \<Rightarrow> (\<forall>x \<in> set out. \<exists>b. ValidateCIDR x = Inr b))"

lemma once_Nil [simp]: "once V [] V"
  by (simp add: once_def)

lemma once_append: "once V t V1 \<Longrightarrow> once V1 u V2 \<Longrightarrow> once V (t @ u) V2"
  by (auto simp: once_def)

lemma resolve_once:
  "runs (resolveTXT fqdn depth V) t p \<Longrightarrow> once V t (fst p) \<and> valid_tokens (snd p)"
  "runs (resolveToks ts depth V out) t p \<Longrightarrow> valid_tokens (Inr out) \<Longrightarrow> once V t (fst p) \<and> valid_tokens (snd p)"
proof (induction fqdn depth V and ts depth V out arbitrary: t p and t p rule: resolveTXT_resolveToks.induct)
  case (1 fqdn depth V)
  show ?case
  proof (cases "depth > 10 \<or> fqdn \<in> set V")
    case True
    with "1.prems" show ?thesis
      by (auto simp: resolveTXT.simps valid_tokens_def split: if_splits)
  next
    case False
    with "1.prems" obtain a u where t: "t = (LookupTXT fqdn, a) # u" and
      u: "runs (case aErr a of
          Some m \<Rightarrow> Ret (fqdn # V, Inl (Wrapf ''lookup TXT %s: %w'' [Str fqdn] (Ext m)))
        | None \<Rightarrow> resolveToks (concat (map goFields (aList a))) depth (fqdn # V) []) u p"
      by (auto simp: resolveTXT.simps runs_Do)
    show ?thesis
    proof (cases "aErr a")
      case (Some m)
      with u t False show ?thesis by (auto simp: once_def valid_tokens_def)
    next
      case None
      with u have "runs (resolveToks (concat (map goFields (aList a))) depth (fqdn # V) []) u p" by simp
      from "1.IH" [OF _ _ None this] False have "once (fqdn # V) u (fst p)" "valid_tokens (snd p)"
        by (auto simp: valid_tokens_def)
      with t False show ?thesis by (auto simp: once_def)
    qed
  qed
next
  case (2 depth V out)
  then show ?case by auto
next
  case (3 tk ts depth V out)
  let ?tok = "trimChars tk [CHR 0x22]"
  show ?case
  proof (cases "cutPrefix ?tok ''include:''")
    case None
    show ?thesis
    proof (cases "ValidateCIDR ?tok")
      case (Inl e)
      with None "3.prems" have "runs (resolveToks ts depth V out) t p" by (simp add: Let_def)
      from "3.IH"(1) [OF refl None Inl this "3.prems"(2)] show ?thesis .
    next
      case (Inr b)
      with None "3.prems" have r: "runs (resolveToks ts depth V (out @ [?tok])) t p" by (simp add: Let_def)
      from "3.prems"(2) Inr have "valid_tokens (Inr (out @ [?tok]))" by (auto simp: valid_tokens_def)
      from "3.IH"(2) [OF refl None Inr r this] show ?thesis .
    qed
  next
    case (Some after)
    with "3.prems" obtain u v q where t: "t = u @ v" and
      u: "runs (resolveTXT after (depth + 1) V) u q" and
      v: "runs (case snd q of Inl e \<Rightarrow> Ret (fst q, Inl e)
            | Inr sub \<Rightarrow> resolveToks ts depth (fst q) (out @ sub)) v p"
      by (auto simp: Let_def runs_bind)
    from "3.IH"(3) [OF refl Some u] have q: "once V u (fst q)" "valid_tokens (snd q)" by auto
    show ?thesis
    proof (cases "snd q")
      case (Inl e)
      with v q t show ?thesis by (auto simp: valid_tokens_def)
    next
      case (Inr sub)
      with v have "runs (resolveToks ts depth (fst q) (out @ sub)) v p" by simp
      moreover from q Inr "3.prems"(2) have "valid_tokens (Inr (out @ sub))" by (auto simp: valid_tokens_def)
      ultimately have "once (fst q) v (fst p) \<and> valid_tokens (snd p)"
        using "3.IH"(4) [OF refl Some Inr] by (cases q) auto
      with q t show ?thesis by (auto intro: once_append)
    qed
  qed
qed

text \<open>
  Resolving a DNS source never asks for the same name twice, whatever the records say
  (include cycles stop), and every range it returns is a valid prefix.
\<close>

theorem resolveTXT_no_repeat:
  assumes "runs (resolveTXT fqdn 0 []) t (visited, r)"
  shows "distinct (lookups t) \<and> set visited = set (lookups t) \<and> valid_tokens r"
  using resolve_once(1) [OF assms] by (auto simp: once_def)

definition txt_answer :: "string list \<Rightarrow> answer" where
  "txt_answer rs = (ok_out '''')\<lparr>aList := rs\<rparr>"

lemma resolveTXT_no_repeat_witness:
  "runs (resolveTXT ''a'' 0 []) [(LookupTXT ''a'', txt_answer [''include:a 10.0.0.0/8''])] ([''a''], Inr [''10.0.0.0/8''])
   \<and> distinct (lookups [(LookupTXT ''a'', txt_answer [''include:a 10.0.0.0/8''])])"
proof -
  have f: "concat (map goFields [''include:a 10.0.0.0/8'']) = [''include:a'', ''10.0.0.0/8'']" by code_simp
  have i: "cutPrefix (trimChars ''include:a'' [CHR 0x22]) ''include:'' = Some ''a''" by code_simp
  have n: "cutPrefix (trimChars ''10.0.0.0/8'' [CHR 0x22]) ''include:'' = None" by code_simp
  have q: "trimChars ''10.0.0.0/8'' [CHR 0x22] = ''10.0.0.0/8''" by code_simp
  have c: "ValidateCIDR ''10.0.0.0/8'' = Inr False" by code_simp
  have "resolveToks [''include:a'', ''10.0.0.0/8''] 0 [''a''] [] = Ret ([''a''], Inr [''10.0.0.0/8''])"
    by (simp add: Let_def i resolveTXT.simps n) (simp add: q c)
  then have h: "runs (resolveTXT ''a'' 0 []) [(LookupTXT ''a'', txt_answer [''include:a 10.0.0.0/8''])]
      ([''a''], Inr [''10.0.0.0/8''])"
    using f by (simp add: resolveTXT.simps txt_answer_def ok_out_def)
  from resolveTXT_no_repeat [OF h] h show ?thesis by blast
qed

section \<open>What may be spliced into a script\<close>

text \<open>
  When a value may be spliced into a remote shell script. \<open>word_char\<close> holds the characters
  that no POSIX shell gives a meaning to inside a word or a here-document, \<open>plain\<close> the texts
  made of them, and a request is \<open>clean\<close> when every text argument of its script is plain.
  The literals of the program's own scripts are not restricted.
\<close>

definition word_char :: "char \<Rightarrow> bool" where
  "word_char c \<longleftrightarrow> is_digit c \<or> (CHR ''a'' \<le> c \<and> c \<le> CHR ''z'') \<or> (CHR ''A'' \<le> c \<and> c \<le> CHR ''Z'') \<or>
     c \<in> set ''.:/,_-@ ''"

definition plain :: "string \<Rightarrow> bool" where
  "plain s \<longleftrightarrow> list_all word_char s"

primrec clean_arg :: "arg \<Rightarrow> bool" where
  "clean_arg (Str s) = plain s"
| "clean_arg (Num i) = True"

primrec clean_script :: "script \<Rightarrow> bool" where
  "clean_script (Raw s) = True"
| "clean_script (Fmt f as) = list_all clean_arg as"

fun clean_req :: "req \<Rightarrow> bool" where
  "clean_req (Exec c s) = clean_script s"
| "clean_req (ExecIn c s i) = clean_script s"
| "clean_req q = True"

lemma plain_simps [simp]:
  "plain []" "plain (c # s) \<longleftrightarrow> word_char c \<and> plain s" "plain (s @ t) \<longleftrightarrow> plain s \<and> plain t"
  by (simp_all add: plain_def)

lemma hex_word: "is_hex c \<Longrightarrow> word_char c"
  by (auto simp: is_hex_def hex_val_def word_char_def less_eq_char_def is_digit_def Let_def split: if_splits)

lemma cidr_word: "cidr_char c \<Longrightarrow> word_char c"
  by (auto simp: cidr_char_def addr_char_def hex_word) (auto simp: word_char_def)

lemma plain_address: "ValidateCIDR s = Inr v \<Longrightarrow> plain (trimSpace s)"
  using accepted_chars [of s v] cidr_word by (auto simp: plain_def list_all_iff)

end
