(* ===== verification/AllowlistTable.thy ===== *)
theory AllowlistTable imports AllowlistProps begin

text \<open>
  The meaning of the generated nftables table. A chain is a list of rules; the abstract
  table of a configuration is read off its profile, ports and \<open>OpenWeb\<close>. The generated
  text is the rendering of that table, and the packets the input chain lets in are
  exactly those the profile promises.
\<close>

section \<open>Rules and packets\<close>

datatype nrule =
    IifLo
  | CtEstablished
  | JumpExposed
  | Icmp4
  | Icmp6
  | TcpDport "int list"
  | SaddrSet bool string
  | SaddrNet string
  | LogDrop

fun renderRule :: "nrule \<Rightarrow> string" where
  \<open>renderRule IifLo = ''iif lo accept''\<close>
| \<open>renderRule CtEstablished = ''ct state established,related accept''\<close>
| \<open>renderRule JumpExposed = ''jump exposed''\<close>
| \<open>renderRule Icmp4 = ''ip protocol icmp accept''\<close>
| \<open>renderRule Icmp6 = ''ip6 nexthdr icmpv6 accept''\<close>
| \<open>renderRule (TcpDport ps) = ''tcp dport { '' @ joinPorts ps @ '' } accept''\<close>
| \<open>renderRule (SaddrSet v6 n) = (if v6 then ''ip6'' else ''ip'') @ '' saddr @'' @ n @ '' accept''\<close>
| \<open>renderRule (SaddrNet n) = ''ip saddr '' @ n @ '' accept''\<close>
| \<open>renderRule LogDrop = ''log prefix "sdk-drop: " limit rate 10/second burst 20 packets''\<close>

text \<open>
  A packet is what the rules look at; \<open>pkFrom\<close> says in which named sets and networks its
  source address is.
\<close>

record packet =
  pkLo :: bool
  pkEstablished :: bool
  pkIcmp4 :: bool
  pkIcmp6 :: bool
  pkTcpDport :: "int option"
  pkFrom :: "string \<Rightarrow> bool"

datatype verdict = Accept | Drop

text \<open>The \<open>exposed\<close> chain is filled later; what it decides of a packet is a parameter.\<close>

type_synonym subchain = "packet \<Rightarrow> verdict option"

fun ruleVerdict :: "subchain \<Rightarrow> packet \<Rightarrow> nrule \<Rightarrow> verdict option" where
  "ruleVerdict ex pk IifLo = (if pkLo pk then Some Accept else None)"
| "ruleVerdict ex pk CtEstablished = (if pkEstablished pk then Some Accept else None)"
| "ruleVerdict ex pk JumpExposed = ex pk"
| "ruleVerdict ex pk Icmp4 = (if pkIcmp4 pk then Some Accept else None)"
| "ruleVerdict ex pk Icmp6 = (if pkIcmp6 pk then Some Accept else None)"
| "ruleVerdict ex pk (TcpDport ps) =
     (case pkTcpDport pk of Some p \<Rightarrow> if p \<in> set ps then Some Accept else None | None \<Rightarrow> None)"
| "ruleVerdict ex pk (SaddrSet v6 n) = (if pkFrom pk n then Some Accept else None)"
| "ruleVerdict ex pk (SaddrNet n) = (if pkFrom pk n then Some Accept else None)"
| "ruleVerdict ex pk LogDrop = None"

primrec chainVerdict :: "subchain \<Rightarrow> nrule list \<Rightarrow> packet \<Rightarrow> verdict" where
  "chainVerdict ex [] pk = Drop"
| "chainVerdict ex (r # rs) pk = (case ruleVerdict ex pk r of Some v \<Rightarrow> v | None \<Rightarrow> chainVerdict ex rs pk)"

definition sourceSets :: "nrule list" where
  "sourceSets = [SaddrSet False ''admin4'', SaddrSet True ''admin6'', SaddrSet False ''allow4'', SaddrSet True ''allow6'']"

definition inputRules :: "allowlistConfig \<Rightarrow> nrule list" where
  "inputRules cfg =
     [IifLo, CtEstablished, JumpExposed, Icmp4, Icmp6] @
     (if acOpenWeb cfg then [TcpDport [80, 443]] else []) @
     (if acProfile cfg = AllowlistNormal then [TcpDport (sshPortsOrDefault cfg)] else []) @
     sourceSets @ [LogDrop]"

definition forwardRules :: "allowlistConfig \<Rightarrow> nrule list" where
  "forwardRules cfg =
     [CtEstablished, JumpExposed] @
     (if acOpenWeb cfg then [TcpDport [80, 443]] else []) @
     [SaddrNet ''10.0.0.0/8'', SaddrNet ''172.16.0.0/12'', SaddrNet ''192.168.0.0/16''] @ sourceSets"

definition renderRules :: "nrule list \<Rightarrow> string" where
  "renderRules rs = concat (map (\<lambda>r. ''        '' @ renderRule r @ ''\<newline>'') rs)"

definition renderTable :: "allowlistConfig \<Rightarrow> string" where
  "renderTable cfg =
     ''table inet filter {\<newline>'' @
     ''    set allow4 { type ipv4_addr; flags interval; }\<newline>'' @
     ''    set allow6 { type ipv6_addr; flags interval; }\<newline>'' @
     writeSetWithElements ''admin4'' (acAdmin4 cfg) @
     writeSetWithElements ''admin6'' (acAdmin6 cfg) @
     ''    chain input {\<newline>        type filter hook input priority 0; policy drop;\<newline>'' @
     renderRules (inputRules cfg) @
     ''    }\<newline>    chain exposed { }\<newline>'' @
     ''    chain forward {\<newline>        type filter hook forward priority 0; policy drop;\<newline>'' @
     renderRules (forwardRules cfg) @
     ''    }\<newline>    chain output { type filter hook output priority 0; policy accept; }\<newline>}\<newline>''"

lemma renderRules_append [nft_simps]: "renderRules (rs @ qs) = renderRules rs @ renderRules qs"
  by (simp add: renderRules_def)

lemma web_ports_text: "joinPorts [80, 443] = ''80, 443''"
  by code_simp


section \<open>What the input chain lets in\<close>

lemma chainVerdict_append [nft_simps]:
  "chainVerdict ex (rs @ qs) pk =
     (case List.find (\<lambda>r. ruleVerdict ex pk r \<noteq> None) rs of
        Some r \<Rightarrow> the (ruleVerdict ex pk r)
      | None \<Rightarrow> chainVerdict ex qs pk)"
  by (induction rs) (auto split: option.splits)

definition fresh_packet :: "packet \<Rightarrow> bool" where
  "fresh_packet pk \<longleftrightarrow> \<not> pkLo pk \<and> \<not> pkEstablished pk \<and> \<not> pkIcmp4 pk \<and> \<not> pkIcmp6 pk"

definition from_sets :: "packet \<Rightarrow> bool" where
  "from_sets pk \<longleftrightarrow> pkFrom pk ''admin4'' \<or> pkFrom pk ''admin6'' \<or> pkFrom pk ''allow4'' \<or> pkFrom pk ''allow6''"

definition to_port :: "packet \<Rightarrow> int list \<Rightarrow> bool" where
  "to_port pk ps \<longleftrightarrow> (case pkTcpDport pk of Some p \<Rightarrow> p \<in> set ps | None \<Rightarrow> False)"

text \<open>
  A new packet from the network that the exposed chain does not decide is let in
  exactly when its source is in an admin or allow set, or it is for a web port of a host
  with open web ports, or, in the normal profile only, for an SSH port. The strict
  profile gates SSH too.
\<close>

theorem input_gate:
  assumes "fresh_packet pk" "ex pk = None"
  shows "chainVerdict ex (inputRules cfg) pk = Accept \<longleftrightarrow>
    from_sets pk \<or> (acOpenWeb cfg \<and> to_port pk [80, 443]) \<or>
    (acProfile cfg = AllowlistNormal \<and> to_port pk (sshPortsOrDefault cfg))"
  using assms
  by (auto simp: inputRules_def sourceSets_def fresh_packet_def from_sets_def to_port_def
      split: option.splits)

definition outside_packet :: "int \<Rightarrow> packet" where
  "outside_packet p = \<lparr>pkLo = False, pkEstablished = False, pkIcmp4 = False, pkIcmp6 = False,
     pkTcpDport = Some p, pkFrom = (\<lambda>_. False)\<rparr>"

definition strict_cfg :: allowlistConfig where
  "strict_cfg = \<lparr>acProfile = AllowlistStrict, acSSHPorts = [22], acAdmin4 = [''203.0.113.10''], acAdmin6 = [],
     acSource = DefaultSource, acOpenWeb = False\<rparr>"

lemma input_gate_witness:
  "fresh_packet (outside_packet 22) \<and>
   chainVerdict (\<lambda>_. None) (inputRules strict_cfg) (outside_packet 22) \<noteq> Accept"
proof -
  have h: "fresh_packet (outside_packet 22)" by (simp add: fresh_packet_def outside_packet_def)
  have "\<not> from_sets (outside_packet 22)" "acProfile strict_cfg \<noteq> AllowlistNormal" "\<not> acOpenWeb strict_cfg"
    by (simp_all add: from_sets_def outside_packet_def strict_cfg_def)
  with input_gate [OF h, of "\<lambda>_. None" strict_cfg] h show ?thesis by blast
qed

section \<open>The SSH ports kept open\<close>

lemma set_normalizePorts [simp]: "set (normalizePorts ps) = {p \<in> set ps. 0 < p \<and> p \<le> 65535}"
  by (auto simp: normalizePorts_def)

lemma distinct_normalizePorts: "distinct (normalizePorts ps)" "sorted (normalizePorts ps)"
  by (simp_all add: normalizePorts_def)

text \<open>
  Whatever the node answers, the ports taken over into the new table are valid,
  distinct, ascending port numbers and include the port the operator is connected
  through, so installing the normal profile does not cut the running access path.
\<close>

theorem CurrentSSHPorts_keeps_access:
  assumes "1 \<le> port" "port \<le> 65535"
  shows "results (\<lambda>ps. port \<in> set ps \<and> distinct ps \<and> sorted ps \<and> (\<forall>p \<in> set ps. 1 \<le> p \<and> p \<le> 65535))
    (CurrentSSHPorts c port)"
  using assms
  by (auto simp: CurrentSSHPorts_def sshRun_def distinct_normalizePorts split: option.splits prod.splits)

lemma CurrentSSHPorts_keeps_access_witness:
  "results (\<lambda>ps. (22::int) \<in> set ps \<and> distinct ps \<and> sorted ps \<and> (\<forall>p \<in> set ps. 1 \<le> p \<and> p \<le> 65535))
    (CurrentSSHPorts \<lparr>cHost = ''192.0.2.1'', cUser = ''root'', cPort = 22, cKey = ''''\<rparr> 22)"
  by (rule CurrentSSHPorts_keeps_access) simp_all

text \<open>
  A rule that opens one port for one peer also has a \<open>dport\<close>, so its port counts as an
  SSH port, and so does the first number of its source address.
\<close>

definition peer_rule_line :: string where
  "peer_rule_line = ''ip saddr 10.0.0.5/32 tcp dport 2379 accept''"

text \<open>
  On a node whose input chain holds a peer rule for one address and port 2379, the
  normal profile opens port 2379 (and port 10, the first octet of the peer's address) to
  every source.
\<close>

theorem peer_port_becomes_public:
  "runs (CurrentSSHPorts c 22) [(Exec c dport_script, ok_out peer_rule_line)] [10, 22, 2379] \<and>
   chainVerdict (\<lambda>_. None)
     (inputRules (strict_cfg\<lparr>acProfile := AllowlistNormal, acSSHPorts := [10, 22, 2379]\<rparr>))
     (outside_packet 2379) = Accept"
proof
  have "normalizePorts (22 # portsOfSegs (goFields peer_rule_line)) = [10, 22, 2379]"
    by code_simp
  then show "runs (CurrentSSHPorts c 22) [(Exec c dport_script, ok_out peer_rule_line)] [10, 22, 2379]"
    by (simp add: CurrentSSHPorts_def sshRun_def runResult_ok)
next
  have "sshPortsOrDefault (strict_cfg\<lparr>acProfile := AllowlistNormal, acSSHPorts := [10, 22, 2379]\<rparr>) = [10, 22, 2379]"
    by code_simp
  then show "chainVerdict (\<lambda>_. None)
     (inputRules (strict_cfg\<lparr>acProfile := AllowlistNormal, acSSHPorts := [10, 22, 2379]\<rparr>))
     (outside_packet 2379) = Accept"
    by (simp add: inputRules_def sourceSets_def outside_packet_def strict_cfg_def)
qed

section \<open>Command-line values\<close>

lemma portParts_ok:
  "portParts ss acc = Inr ps \<Longrightarrow> (\<forall>p \<in> set acc. 1 \<le> p \<and> p \<le> 65535) \<Longrightarrow>
   length ps = length acc + length ss \<and> (\<forall>p \<in> set ps. 1 \<le> p \<and> p \<le> 65535)"
proof (induction ss arbitrary: acc)
  case (Cons s ss)
  obtain p where "sscanfD (trimSpace s) = Some p" "1 \<le> p" "p \<le> 65535" "portParts ss (acc @ [p]) = Inr ps"
    using Cons.prems(1) by (cases "sscanfD (trimSpace s)") (simp_all split: if_splits)
  note p = this(2,3,4)
  from Cons.IH [OF p(3)] Cons.prems(2) p(1,2) show ?case by auto
qed simp

text \<open>A list of ports gives one port per entry, each in the range of a TCP port.\<close>

theorem parsePorts_range:
  assumes "parsePorts raw = Inr ps"
  shows "length ps = length (splitOn CHR '','' raw) \<and> (\<forall>p \<in> set ps. 1 \<le> p \<and> p \<le> 65535)"
  using portParts_ok [of "splitOn CHR '','' raw" "[]" ps] assms by (simp add: parsePorts_def)

lemma parsePorts_range_witness:
  "parsePorts ''8080, 9090'' = Inr [8080, 9090] \<and> length [8080, 9090 :: int] = length (splitOn CHR '','' ''8080, 9090'')"
proof -
  have h: "parsePorts ''8080, 9090'' = Inr [8080, 9090]" by code_simp
  from parsePorts_range [OF h] h show ?thesis by blast
qed

lemma NormalizeCIDR_slash: "CHR ''/'' \<in> set (NormalizeCIDR s)"
  by (auto simp: NormalizeCIDR_def Let_def containsStr_char)

lemma adminParts_ok:
  "adminParts ps a4 a6 = Inr (b4, b6) \<Longrightarrow>
   (\<forall>x \<in> set a4. CHR ''/'' \<in> set x \<and> ValidateCIDR x = Inr False) \<Longrightarrow>
   (\<forall>x \<in> set a6. CHR ''/'' \<in> set x \<and> ValidateCIDR x = Inr True) \<Longrightarrow>
   (\<forall>x \<in> set b4. CHR ''/'' \<in> set x \<and> ValidateCIDR x = Inr False) \<and>
   (\<forall>x \<in> set b6. CHR ''/'' \<in> set x \<and> ValidateCIDR x = Inr True)"
proof (induction ps arbitrary: a4 a6)
  case (Cons p ps)
  show ?case
  proof (cases "trimSpace p = ''''")
    case True
    with Cons.prems(1) have "adminParts ps a4 a6 = Inr (b4, b6)" by simp
    from Cons.IH [OF this Cons.prems(2,3)] show ?thesis .
  next
    case False
    let ?ip = "NormalizeCIDR (trimSpace p)"
    obtain b where b: "ValidateCIDR ?ip = Inr b"
      using False Cons.prems(1) by (cases "ValidateCIDR ?ip") (simp_all add: Let_def)
    show ?thesis
    proof (cases b)
      case True
      with b False Cons.prems(1) have "adminParts ps a4 (a6 @ [?ip]) = Inr (b4, b6)" by (simp add: Let_def)
      from Cons.IH [OF this] Cons.prems b True NormalizeCIDR_slash [of "trimSpace p"] show ?thesis by auto
    next
      case False
      with b \<open>trimSpace p \<noteq> ''''\<close> Cons.prems(1) have "adminParts ps (a4 @ [?ip]) a6 = Inr (b4, b6)"
        by (simp add: Let_def)
      from Cons.IH [OF this] Cons.prems b False NormalizeCIDR_slash [of "trimSpace p"] show ?thesis by auto
    qed
  qed
qed simp

text \<open>
  Every admin entry is an explicit prefix (a bare address in an interval set may not
  match), valid, and in the list of its family.
\<close>

theorem parseAdminIPs_prefixes:
  assumes "parseAdminIPs raw = Inr (a4, a6)"
  shows "(\<forall>x \<in> set a4. CHR ''/'' \<in> set x \<and> ValidateCIDR x = Inr False) \<and>
    (\<forall>x \<in> set a6. CHR ''/'' \<in> set x \<and> ValidateCIDR x = Inr True)"
  using assms adminParts_ok [of "splitOn CHR '','' raw" "[]" "[]" a4 a6]
  by (auto simp: parseAdminIPs_def split: if_splits)

lemma parseAdminIPs_prefixes_witness:
  "parseAdminIPs ''203.0.113.10,2001:db8::1'' = Inr ([''203.0.113.10/32''], [''2001:db8::1/128'']) \<and>
   ValidateCIDR ''203.0.113.10/32'' = Inr False"
proof -
  have h: "parseAdminIPs ''203.0.113.10,2001:db8::1'' = Inr ([''203.0.113.10/32''], [''2001:db8::1/128''])"
    by code_simp
  from parseAdminIPs_prefixes [OF h] h show ?thesis by simp
qed

text \<open>
  The allowlist flag of a host picks the strict profile exactly for \<open>strict\<close> and the
  \<open>strict:\<close> prefix, and the source it leaves is one the installer can parse.
\<close>

theorem parseAllowlistFlag_ok:
  assumes "parseAllowlistFlag raw = Inr (prof, src)"
  shows "(\<exists>s. ParseSource src = Inr s) \<and>
    (prof = AllowlistStrict \<longleftrightarrow> trimSpace raw = ''strict'' \<or> hasPrefix (trimSpace raw) ''strict:'')"
proof -
  have cf: "\<exists>s. ParseSource ''cf'' = Inr s" by (rule exI [of _ DefaultSource]) code_simp
  show ?thesis
    using assms cf
    by (auto simp: parseAllowlistFlag_def Let_def cutPrefix_def split: if_splits sum.splits)
qed

lemma parseAllowlistFlag_ok_witness:
  "parseAllowlistFlag ''strict:dns:nets.example.org'' = Inr (AllowlistStrict, ''dns:nets.example.org'') \<and>
   (\<exists>s. ParseSource ''dns:nets.example.org'' = Inr s)"
proof -
  have h: "parseAllowlistFlag ''strict:dns:nets.example.org'' = Inr (AllowlistStrict, ''dns:nets.example.org'')"
    by code_simp
  from parseAllowlistFlag_ok [OF h] h show ?thesis by blast
qed

end
