(* ===== verification/FleetTypes.thy ===== *)
theory FleetTypes imports Prelude begin

text \<open>
  The fleet file: one record per Go struct of \<open>cmd/sdk-ops/provision.go\<close>, in the order of
  the source, and the flags of \<open>infra init\<close> (\<open>cmd/sdk-ops/infra.go\<close>). A pointer field is
  an \<open>option\<close>, a map with string keys a \<open>dict\<close>, and a field keeps its Go name behind a
  prefix for its struct (\<open>h\<close> for hosts, \<open>pf\<close> for the file).
\<close>

record BackupSchedule =
  bsFull :: string
  bsDiff :: string
  bsIncr :: string

record ServiceConfig =
  scProfile :: string
  scReplicas :: int
  scSeeds :: int
  scServerTags :: "string list"
  scClientAdvertise :: string
  scCentral :: bool
  scMode :: string
  scBackupMode :: string
  scRestore :: bool
  scPooler :: bool
  scRecreate :: bool
  scBackup :: "BackupSchedule option"

type_synonym ProvisionServices = "ServiceConfig dict"

record SecurityConfig =
  secEnabled :: bool
  secThreshold :: int

record Fail2banConfig =
  fbSSHBantime :: int
  fbRecidiveBantime :: int
  fbMaxRetry :: int

record SwapConfig =
  swEnabled :: "bool option"
  swSizeMB :: int

record DNS01Config =
  dnsProvider :: string
  dnsAPIToken :: string

record SSLConfig =
  sslEmail :: string
  sslStaging :: bool
  sslDNS01 :: "DNS01Config option"

record TraefikDomain =
  tdDomain :: string
  tdService :: string
  tdPort :: int
  tdContainerPort :: int
  tdWildcard :: bool

record TraefikConfig =
  tcEnabled :: bool
  tcDomains :: "TraefikDomain list"

record TelegramConfig =
  tgEnabled :: bool
  tgAPIKey :: string
  tgChatID :: string

record ProvisionPeer =
  peFrom :: string
  peTo :: string
  pePorts :: "int list"

record DeployStep =
  dsGroup :: string
  dsHost :: string

record VLANHostAssign =
  vaName :: string
  vaIface :: string
  vaIP :: string

record ProvisionVLAN =
  vlName :: string
  vlCIDR :: string
  vlHosts :: "VLANHostAssign list"

record GroupConfig =
  gFirewallAllowlist :: string
  gAdminIPs :: string
  gHTTPSMode :: string
  gSecurity :: "SecurityConfig option"
  gTraefik :: "TraefikConfig option"
  gServices :: "ProvisionServices option"
  gSwap :: "SwapConfig option"
  gTelegram :: "TelegramConfig option"
  gTags :: "string list"

record ProvisionHost =
  hName :: string
  hHost :: string
  hPeerIP :: string
  hGroup :: string
  hUser :: string
  hSSHKey :: string
  hPort :: int
  hProvider :: string
  hPlan :: string
  hLocation :: string
  hTemplate :: string
  hSSHKeyIDs :: string
  hProjectID :: int
  hFirewallAllowlist :: string
  hAdminIPs :: string
  hHTTPSMode :: string
  hSwapSizeMB :: int
  hSecurity :: "SecurityConfig option"
  hTraefik :: "TraefikConfig option"
  hServices :: "ProvisionServices option"
  hTags :: "string list"
  hRole :: string

record ProvisionFile =
  pfMode :: string
  pfAllowModeSwitch :: bool
  pfParallel :: int
  pfFirewallAllowlist :: string
  pfAdminIPs :: string
  pfHTTPSMode :: string
  pfNoTraefik :: bool
  pfHardening :: "bool option"
  pfK3sHA :: bool
  pfK3sIface :: string
  pfK3sDisableTraefik :: bool
  pfGroups :: "GroupConfig dict"
  pfHosts :: "ProvisionHost list"
  pfPeers :: "ProvisionPeer list"
  pfBans :: "string list"
  pfTelegram :: TelegramConfig
  pfSecurity :: SecurityConfig
  pfFail2ban :: Fail2banConfig
  pfSSL :: SSLConfig
  pfTraefik :: TraefikConfig
  pfSwap :: SwapConfig
  pfServices :: ProvisionServices
  pfVLANs :: "ProvisionVLAN list"
  pfDeployOrder :: "DeployStep list"

record resolvedHost =
  rhHost :: ProvisionHost
  rhFirewallAllowlist :: string
  rhAdminIPs :: string
  rhHTTPSMode :: string
  rhSecurity :: SecurityConfig
  rhTraefik :: TraefikConfig
  rhSwap :: SwapConfig
  rhServices :: ProvisionServices
  rhTags :: "string list"

record provisionResult =
  prName :: string
  prHost :: string
  prError :: "goerr option"

record infraFlags =
  ifUser :: string
  ifKey :: string
  ifPort :: int
  ifMode :: string
  ifAirgap :: bool
  ifMonitor :: bool
  ifAuditd :: bool
  ifLynis :: bool
  ifUsg :: bool
  ifLockRoot :: bool
  ifHardSSHPort :: int
  ifLogsURL :: string
  ifAlertsURL :: string
  ifFirewallAllowlist :: string
  ifAdminIPs :: string
  ifNoTraefik :: bool
  ifNoHardening :: bool
  ifProvisionYAML :: string
  ifDisableTraefik :: bool
  ifSecretsEncryption :: bool
  ifProtectKernelDefaults :: bool
  ifAdmissionPlugins :: string
  ifCisPSA :: bool
  ifCisAuditLog :: bool
  ifCisNetPol :: bool
  ifCisSvcAcc :: bool
  ifCisTLSCiphers :: bool
  ifKubeconfig :: string
  ifK3sExtraArgs :: string
  ifMergeConfig :: bool
  ifContextName :: string
  ifProvider :: string
  ifPlan :: string
  ifLocation :: string
  ifTemplate :: string
  ifHostname :: string
  ifSshKeyIDs :: string
  ifApiKey :: string
  ifProjectID :: int

section \<open>Zero values\<close>

text \<open>The zero value Go gives a struct that the YAML file leaves out.\<close>

definition zeroService :: ServiceConfig where
  "zeroService = \<lparr>scProfile = '''', scReplicas = 0, scSeeds = 0, scServerTags = [],
     scClientAdvertise = '''', scCentral = False, scMode = '''', scBackupMode = '''',
     scRestore = False, scPooler = False, scRecreate = False, scBackup = None\<rparr>"

definition zeroSecurity :: SecurityConfig where
  "zeroSecurity = \<lparr>secEnabled = False, secThreshold = 0\<rparr>"

definition zeroGroup :: GroupConfig where
  "zeroGroup = \<lparr>gFirewallAllowlist = '''', gAdminIPs = '''', gHTTPSMode = '''', gSecurity = None,
     gTraefik = None, gServices = None, gSwap = None, gTelegram = None, gTags = []\<rparr>"

definition zeroHost :: ProvisionHost where
  "zeroHost = \<lparr>hName = '''', hHost = '''', hPeerIP = '''', hGroup = '''', hUser = '''', hSSHKey = '''',
     hPort = 0, hProvider = '''', hPlan = '''', hLocation = '''', hTemplate = '''', hSSHKeyIDs = '''',
     hProjectID = 0, hFirewallAllowlist = '''', hAdminIPs = '''', hHTTPSMode = '''', hSwapSizeMB = 0,
     hSecurity = None, hTraefik = None, hServices = None, hTags = [], hRole = ''''\<rparr>"

definition zeroFile :: ProvisionFile where
  "zeroFile = \<lparr>pfMode = '''', pfAllowModeSwitch = False, pfParallel = 0, pfFirewallAllowlist = '''',
     pfAdminIPs = '''', pfHTTPSMode = '''', pfNoTraefik = False, pfHardening = None, pfK3sHA = False,
     pfK3sIface = '''', pfK3sDisableTraefik = False, pfGroups = [], pfHosts = [], pfPeers = [],
     pfBans = [], pfTelegram = \<lparr>tgEnabled = False, tgAPIKey = '''', tgChatID = ''''\<rparr>,
     pfSecurity = zeroSecurity,
     pfFail2ban = \<lparr>fbSSHBantime = 0, fbRecidiveBantime = 0, fbMaxRetry = 0\<rparr>,
     pfSSL = \<lparr>sslEmail = '''', sslStaging = False, sslDNS01 = None\<rparr>,
     pfTraefik = \<lparr>tcEnabled = False, tcDomains = []\<rparr>, pfSwap = \<lparr>swEnabled = None, swSizeMB = 0\<rparr>,
     pfServices = [], pfVLANs = [], pfDeployOrder = []\<rparr>"

definition zeroFlags :: infraFlags where
  "zeroFlags = \<lparr>ifUser = '''', ifKey = '''', ifPort = 0, ifMode = '''', ifAirgap = False,
     ifMonitor = False, ifAuditd = False, ifLynis = False, ifUsg = False, ifLockRoot = False,
     ifHardSSHPort = 0, ifLogsURL = '''', ifAlertsURL = '''', ifFirewallAllowlist = '''',
     ifAdminIPs = '''', ifNoTraefik = False, ifNoHardening = False, ifProvisionYAML = '''',
     ifDisableTraefik = False, ifSecretsEncryption = False, ifProtectKernelDefaults = False,
     ifAdmissionPlugins = '''', ifCisPSA = False, ifCisAuditLog = False, ifCisNetPol = False,
     ifCisSvcAcc = False, ifCisTLSCiphers = False, ifKubeconfig = '''', ifK3sExtraArgs = '''',
     ifMergeConfig = False, ifContextName = '''', ifProvider = '''', ifPlan = '''', ifLocation = '''',
     ifTemplate = '''', ifHostname = '''', ifSshKeyIDs = '''', ifApiKey = '''', ifProjectID = 0\<rparr>"

section \<open>Well-formed fleet files\<close>

text \<open>
  What the YAML decoder gives: maps with distinct keys. Nothing else is assumed of a fleet
  file; the validation of \<open>FleetValidate\<close> is what rules out the rest.
\<close>

definition services_ok :: "ProvisionServices option \<Rightarrow> bool" where
  "services_ok s \<longleftrightarrow> (case s of None \<Rightarrow> True | Some m \<Rightarrow> dict_ok m)"

definition group_ok :: "GroupConfig \<Rightarrow> bool" where
  "group_ok g \<longleftrightarrow> services_ok (gServices g)"

definition host_ok :: "ProvisionHost \<Rightarrow> bool" where
  "host_ok h \<longleftrightarrow> services_ok (hServices h)"

definition file_ok :: "ProvisionFile \<Rightarrow> bool" where
  "file_ok pf \<longleftrightarrow> dict_ok (pfGroups pf) \<and> dict_ok (pfServices pf) \<and>
     list_all (\<lambda>(k, g). group_ok g) (pfGroups pf) \<and> list_all host_ok (pfHosts pf)"

lemma services_ok_simps [simp]:
  "services_ok None" "services_ok (Some m) \<longleftrightarrow> dict_ok m"
  by (simp_all add: services_ok_def)

lemma file_ok_group: "file_ok pf \<Longrightarrow> mget (pfGroups pf) k = Some g \<Longrightarrow> services_ok (gServices g)"
  by (auto simp: file_ok_def mget_def list_all_iff group_ok_def dest: map_of_SomeD)

lemma file_ok_host: "file_ok pf \<Longrightarrow> h \<in> set (pfHosts pf) \<Longrightarrow> services_ok (hServices h)"
  by (auto simp: file_ok_def list_all_iff host_ok_def)

end
