(* ===== verification/FleetResolve.thy ===== *)
theory FleetResolve imports FleetTypes GoStrings begin

text \<open>
  Reading the fleet file (\<open>cmd/sdk-ops/provision.go\<close>): the defaults, the choice of hosts by
  tag, and the merge of the global, group and host levels into one \<open>resolvedHost\<close>. The
  merge promises that the most specific level that sets a value wins, for scalars through
  the locale \<open>override\<close> and for services, key by key, through \<open>dictionary\<close>.
\<close>

section \<open>Defaults\<close>

text \<open>The Go function writes the default into the file it is given; here it returns it.\<close>

definition normalizeProvision :: "ProvisionFile \<Rightarrow> ProvisionFile res" where
  "normalizeProvision pf =
    (if pfHosts pf = [] then Inl (Errorf ''provision file has no hosts'' [])
     else let pf' = (if pfMode pf = '''' then pf\<lparr>pfMode := ''docker''\<rparr> else pf) in
       if pfMode pf' \<noteq> ''k3s'' \<and> pfMode pf' \<noteq> ''docker'' \<and> pfMode pf' \<noteq> ''bare''
       then Inl (Errorf ''invalid mode %q (k3s, docker, bare)'' [Str (pfMode pf')])
       else Inr pf')"

section \<open>Hosts by tag\<close>

definition hostMatchesTags :: "ProvisionHost \<Rightarrow> string list \<Rightarrow> bool" where
  "hostMatchesTags h want = list_ex (\<lambda>t. t \<in> set want) (hTags h)"

definition selectHostsByTags :: "ProvisionHost list \<Rightarrow> string \<Rightarrow> ProvisionHost list" where
  "selectHostsByTags hosts tags =
    (if trimSpace tags = '''' then hosts
     else let want = map trimSpace (splitOn CHR '','' tags) in
       filter (\<lambda>h. hostMatchesTags h want) hosts)"

section \<open>The merge of the three levels\<close>

definition cloneServices :: "ProvisionServices \<Rightarrow> ProvisionServices" where
  "cloneServices s = mcopy [] s"

definition mergeServices :: "ProvisionServices \<Rightarrow> ProvisionServices \<Rightarrow> ProvisionServices" where
  "mergeServices dst src = mcopy (cloneServices dst) src"

definition overServices :: "ProvisionServices \<Rightarrow> ProvisionServices option \<Rightarrow> ProvisionServices" where
  "overServices s o' = (case o' of None \<Rightarrow> s | Some m \<Rightarrow> mergeServices s m)"

definition applyGroup :: "resolvedHost \<Rightarrow> GroupConfig \<Rightarrow> resolvedHost" where
  "applyGroup r g = r\<lparr>
     rhFirewallAllowlist := over_string (rhFirewallAllowlist r) (gFirewallAllowlist g),
     rhAdminIPs := over_string (rhAdminIPs r) (gAdminIPs g),
     rhHTTPSMode := over_string (rhHTTPSMode r) (gHTTPSMode g),
     rhSecurity := over_option (rhSecurity r) (gSecurity g),
     rhTraefik := over_option (rhTraefik r) (gTraefik g),
     rhServices := overServices (rhServices r) (gServices g),
     rhSwap := over_option (rhSwap r) (gSwap g),
     rhTags := rhTags r @ gTags g\<rparr>"

definition applyHost :: "resolvedHost \<Rightarrow> ProvisionHost \<Rightarrow> resolvedHost" where
  "applyHost r h = r\<lparr>
     rhFirewallAllowlist := over_string (rhFirewallAllowlist r) (hFirewallAllowlist h),
     rhAdminIPs := over_string (rhAdminIPs r) (hAdminIPs h),
     rhHTTPSMode := over_string (rhHTTPSMode r) (hHTTPSMode h),
     rhSecurity := over_option (rhSecurity r) (hSecurity h),
     rhTraefik := over_option (rhTraefik r) (hTraefik h),
     rhServices := overServices (rhServices r) (hServices h),
     rhSwap := (if hSwapSizeMB h > 0 then (rhSwap r)\<lparr>swSizeMB := hSwapSizeMB h\<rparr> else rhSwap r),
     rhTags := rhTags r @ hTags h\<rparr>"

definition resolveHostConfig :: "ProvisionFile \<Rightarrow> ProvisionHost \<Rightarrow> resolvedHost" where
  "resolveHostConfig pf h =
    (let r = \<lparr>rhHost = h, rhFirewallAllowlist = pfFirewallAllowlist pf, rhAdminIPs = pfAdminIPs pf,
              rhHTTPSMode = pfHTTPSMode pf, rhSecurity = pfSecurity pf, rhTraefik = pfTraefik pf,
              rhSwap = pfSwap pf, rhServices = cloneServices (pfServices pf), rhTags = []\<rparr>;
         r' = (case mget (pfGroups pf) (hGroup h) of Some g \<Rightarrow> applyGroup r g | None \<Rightarrow> r)
     in applyHost r' h)"

section \<open>Lemmas\<close>

lemma hostMatchesTags_iff: "hostMatchesTags h want \<longleftrightarrow> (\<exists>t \<in> set (hTags h). t \<in> set want)"
  by (simp add: hostMatchesTags_def list_ex_iff)

lemma mget_cloneServices [dict_simps]: "dict_ok s \<Longrightarrow> mget (cloneServices s) k = mget s k"
  unfolding cloneServices_def by (rule dict.clone_get)

lemma dict_ok_cloneServices [dict_simps, simp]: "dict_ok (cloneServices s)"
  by (simp add: cloneServices_def dict.wf_copy dict.wf_empty)

lemma mget_mergeServices [dict_simps]:
  "dict_ok dst \<Longrightarrow> dict_ok src \<Longrightarrow>
   mget (mergeServices dst src) k = (case mget src k of Some v \<Rightarrow> Some v | None \<Rightarrow> mget dst k)"
  unfolding mergeServices_def cloneServices_def by (rule dict.overlay_get)

lemma dict_ok_mergeServices [dict_simps, simp]: "dict_ok (mergeServices dst src)"
  unfolding mergeServices_def cloneServices_def by (rule dict.overlay_wf)

lemma dict_ok_overServices [dict_simps, simp]: "dict_ok s \<Longrightarrow> dict_ok (overServices s m)"
  by (simp add: overServices_def split: option.splits)

definition svc_at :: "ProvisionServices option \<Rightarrow> string \<Rightarrow> ServiceConfig option" where
  "svc_at s k = (case s of None \<Rightarrow> None | Some m \<Rightarrow> mget m k)"

lemma mget_overServices [dict_simps]:
  "dict_ok s \<Longrightarrow> services_ok m \<Longrightarrow>
   mget (overServices s m) k = (case svc_at m k of Some v \<Rightarrow> Some v | None \<Rightarrow> mget s k)"
  by (cases m) (simp_all add: overServices_def svc_at_def mget_mergeServices)

text \<open>The level of a setting that a host without a group, or with an unknown one, inherits.\<close>

definition group_of :: "ProvisionFile \<Rightarrow> ProvisionHost \<Rightarrow> GroupConfig" where
  "group_of pf h = (case mget (pfGroups pf) (hGroup h) of Some g \<Rightarrow> g | None \<Rightarrow> zeroGroup)"

lemma applyGroup_zero: "applyGroup r zeroGroup = r"
  by (simp add: applyGroup_def zeroGroup_def over_string_def over_option_def overServices_def)

lemma resolveHostConfig_levels:
  "resolveHostConfig pf h =
     applyHost (applyGroup \<lparr>rhHost = h, rhFirewallAllowlist = pfFirewallAllowlist pf,
       rhAdminIPs = pfAdminIPs pf, rhHTTPSMode = pfHTTPSMode pf, rhSecurity = pfSecurity pf,
       rhTraefik = pfTraefik pf, rhSwap = pfSwap pf, rhServices = cloneServices (pfServices pf),
       rhTags = []\<rparr> (group_of pf h)) h"
  by (simp add: resolveHostConfig_def group_of_def Let_def applyGroup_zero split: option.splits)

lemma services_ok_group_of: "file_ok pf \<Longrightarrow> services_ok (gServices (group_of pf h))"
  by (auto simp: group_of_def zeroGroup_def dest: file_ok_group split: option.splits)

lemma dict_ok_resolved [simp]: "dict_ok (rhServices (resolveHostConfig pf h))"
  by (simp add: resolveHostConfig_levels applyHost_def applyGroup_def)

lemma rhHost_resolved [simp]: "rhHost (resolveHostConfig pf h) = h"
  by (simp add: resolveHostConfig_levels applyHost_def applyGroup_def)

lemma resolved_service:
  assumes "file_ok pf" "h \<in> set (pfHosts pf)"
  shows "mget (rhServices (resolveHostConfig pf h)) k =
    (case svc_at (hServices h) k of Some v \<Rightarrow> Some v
     | None \<Rightarrow> (case svc_at (gServices (group_of pf h)) k of Some v \<Rightarrow> Some v
                | None \<Rightarrow> mget (pfServices pf) k))"
  using assms services_ok_group_of [of pf h] file_ok_host [of pf h]
  by (simp add: resolveHostConfig_levels applyHost_def applyGroup_def mget_overServices
      mget_cloneServices file_ok_def split: option.splits)

section \<open>Properties\<close>

text \<open>
  C2: precedence. The effective configuration of a host takes every scalar setting from the
  host when the host sets it, else from its group when the group sets it, else from the
  globals; a service is taken whole from the most specific level that declares it; and the
  tags of the group come before those of the host.
\<close>

theorem resolveHostConfig_precedence:
  assumes "file_ok pf" "h \<in> set (pfHosts pf)"
  shows "let r = resolveHostConfig pf h; g = group_of pf h in
    rhFirewallAllowlist r = (if hFirewallAllowlist h \<noteq> '''' then hFirewallAllowlist h
      else if gFirewallAllowlist g \<noteq> '''' then gFirewallAllowlist g else pfFirewallAllowlist pf) \<and>
    rhAdminIPs r = (if hAdminIPs h \<noteq> '''' then hAdminIPs h
      else if gAdminIPs g \<noteq> '''' then gAdminIPs g else pfAdminIPs pf) \<and>
    rhHTTPSMode r = (if hHTTPSMode h \<noteq> '''' then hHTTPSMode h
      else if gHTTPSMode g \<noteq> '''' then gHTTPSMode g else pfHTTPSMode pf) \<and>
    rhSecurity r = (case hSecurity h of Some s \<Rightarrow> s
      | None \<Rightarrow> (case gSecurity g of Some s \<Rightarrow> s | None \<Rightarrow> pfSecurity pf)) \<and>
    rhTraefik r = (case hTraefik h of Some s \<Rightarrow> s
      | None \<Rightarrow> (case gTraefik g of Some s \<Rightarrow> s | None \<Rightarrow> pfTraefik pf)) \<and>
    swSizeMB (rhSwap r) = (if hSwapSizeMB h > 0 then hSwapSizeMB h
      else swSizeMB (case gSwap g of Some s \<Rightarrow> s | None \<Rightarrow> pfSwap pf)) \<and>
    swEnabled (rhSwap r) = swEnabled (case gSwap g of Some s \<Rightarrow> s | None \<Rightarrow> pfSwap pf) \<and>
    (\<forall>k. mget (rhServices r) k = (case svc_at (hServices h) k of Some v \<Rightarrow> Some v
      | None \<Rightarrow> (case svc_at (gServices g) k of Some v \<Rightarrow> Some v
                 | None \<Rightarrow> mget (pfServices pf) k))) \<and>
    rhTags r = gTags g @ hTags h"
proof -
  have "mget (rhServices (resolveHostConfig pf h)) k = (case svc_at (hServices h) k of Some v \<Rightarrow> Some v
      | None \<Rightarrow> (case svc_at (gServices (group_of pf h)) k of Some v \<Rightarrow> Some v
                 | None \<Rightarrow> mget (pfServices pf) k))" for k
    by (rule resolved_service [OF assms])
  then show ?thesis
    by (simp add: resolveHostConfig_levels applyHost_def applyGroup_def Let_def
        ovs.three_levels ovo.three_levels over_option_def split: option.splits)
qed

definition demo_group :: GroupConfig where
  "demo_group = zeroGroup\<lparr>gHTTPSMode := ''cf'', gServices := Some [(''nats'', zeroService\<lparr>scReplicas := 3\<rparr>)],
     gTags := [''edge'']\<rparr>"

definition demo_host :: ProvisionHost where
  "demo_host = zeroHost\<lparr>hName := ''n1'', hHost := ''10.0.0.1'', hGroup := ''g'', hSwapSizeMB := 512,
     hTags := [''a'']\<rparr>"

definition demo_file :: ProvisionFile where
  "demo_file = zeroFile\<lparr>pfMode := ''docker'', pfHTTPSMode := ''all'', pfGroups := [(''g'', demo_group)],
     pfHosts := [demo_host]\<rparr>"

lemma resolveHostConfig_precedence_witness:
  "file_ok demo_file \<and> rhHTTPSMode (resolveHostConfig demo_file demo_host) = ''cf''"
proof -
  have *: "file_ok demo_file" "demo_host \<in> set (pfHosts demo_file)"
    by (simp_all add: file_ok_def demo_file_def demo_host_def demo_group_def zeroFile_def
        zeroHost_def zeroGroup_def host_ok_def group_ok_def dict_ok_def keys_def)
  have "hHTTPSMode demo_host = ''''" "gHTTPSMode (group_of demo_file demo_host) = ''cf''"
    by (simp_all add: demo_host_def demo_file_def demo_group_def zeroHost_def zeroFile_def
        zeroGroup_def group_of_def mget_def)
  with resolveHostConfig_precedence [OF *] have "rhHTTPSMode (resolveHostConfig demo_file demo_host) = ''cf''"
    by (simp add: Let_def)
  with * show ?thesis by simp
qed

end
