(* ===== verification/FleetValidate.thy ===== *)
theory FleetValidate imports FleetResolve Allowlist begin

text \<open>
  The validation of a fleet file before anything is touched (\<open>validateProvision\<close> and the
  functions it calls, \<open>cmd/sdk-ops/provision.go\<close>). Each loop is written as the code has it,
  with its first-error exit and its maps; the section after the definitions states what
  each check accepts, and the theorems at the end what a validated fleet is.
\<close>

section \<open>Hosts\<close>

definition validateHost :: "ProvisionFile \<Rightarrow> ProvisionHost \<Rightarrow> goerr option" where
  "validateHost pf h =
    (if hName h = '''' then Some (Errorf ''every host needs name and host'' [])
     else if hHost h = '''' \<and> hProvider h = '''' then Some (Errorf ''every host needs name and host'' [])
     else if hHost h \<noteq> '''' \<and> parseIP (trimSpace (hHost h)) = None
       then Some (Errorf ''host %q host %q is not a valid IP'' [Str (hName h), Str (hHost h)])
     else case (if hPeerIP h = '''' then Inr False else ValidateCIDR (trimSpace (hPeerIP h))) of
       Inl e \<Rightarrow> Some (Wrapf ''host %q peer_ip %q is not a valid IP: %v'' [Str (hName h), Str (hPeerIP h)] e)
     | Inr _ \<Rightarrow>
       (if hGroup h \<noteq> '''' \<and> mget (pfGroups pf) (hGroup h) = None
        then Some (Errorf ''host %q references unknown group %q'' [Str (hName h), Str (hGroup h)])
        else None))"

definition hostPeerName :: "ProvisionHost \<Rightarrow> string" where
  "hostPeerName h =
    (let peerIP = hHost h;
         peerIP = (if peerIP = '''' then hName h else peerIP)
     in if hPeerIP h \<noteq> '''' then trimSpace (hPeerIP h) else peerIP)"

primrec hostsLoop :: "ProvisionFile \<Rightarrow> ProvisionHost list \<Rightarrow> string dict \<Rightarrow> string dict res" where
  "hostsLoop pf [] names = Inr names"
| "hostsLoop pf (h # hs) names =
    (case validateHost pf h of Some e \<Rightarrow> Inl e
     | None \<Rightarrow> hostsLoop pf hs (mput names (hName h) (hostPeerName h)))"

definition validateHosts :: "ProvisionFile \<Rightarrow> string dict res" where
  "validateHosts pf = hostsLoop pf (pfHosts pf) []"

section \<open>Roles and replicas\<close>

primrec roleLoop :: "ProvisionHost list \<Rightarrow> nat \<Rightarrow> bool \<Rightarrow> (nat \<times> bool) res" where
  "roleLoop [] servers declared = Inr (servers, declared)"
| "roleLoop (h # hs) servers declared =
    (if hRole h = '''' then roleLoop hs servers declared
     else if hRole h = ''server'' then roleLoop hs (servers + 1) True
     else if hRole h = ''agent'' then roleLoop hs servers True
     else Inl (Errorf ''host %q role %q is invalid (server|agent)'' [Str (hName h), Str (hRole h)]))"

definition validateK3sRoles :: "ProvisionFile \<Rightarrow> goerr option" where
  "validateK3sRoles pf =
    (case roleLoop (pfHosts pf) 0 False of Inl e \<Rightarrow> Some e
     | Inr (servers, declared) \<Rightarrow>
       (if \<not> declared then None
        else if pfMode pf \<noteq> ''k3s'' then Some (Errorf ''roles (server|agent) are only supported in k3s mode'' [])
        else if servers = 0 then Some (Errorf ''roles declared without a server: one host needs role: server'' [])
        else if servers > 1 \<and> \<not> pfK3sHA pf
          then Some (Errorf (''%d servers declared without k3s_ha '' @ em_dash @ '' set k3s_ha: true for an HA control plane'')
                 [Num (int servers)])
        else None))"

text \<open>\<open>isServiceVariant\<close> of \<open>services_pg.go\<close>: some service is the base or one of its variants.\<close>

definition isServiceVariant :: "ProvisionServices \<Rightarrow> string \<Rightarrow> bool" where
  "isServiceVariant svcs base = list_ex (\<lambda>name. name = base \<or> hasPrefix name (base @ ''-'')) (keys svcs)"

definition natsNodeCount :: "ProvisionFile \<Rightarrow> nat" where
  "natsNodeCount pf =
     length (filter (\<lambda>h. isServiceVariant (rhServices (resolveHostConfig pf h)) ''nats'') (pfHosts pf))"

definition validateReplicas :: "nat \<Rightarrow> string \<Rightarrow> string \<times> ServiceConfig \<Rightarrow> goerr option" where
  "validateReplicas nodeCount host entry =
    (case entry of (name, svc) \<Rightarrow>
      if scReplicas svc < 0
        then Some (Errorf ''host %q service %q replicas must be >= 0 (0 = default)'' [Str host, Str name])
      else if scReplicas svc \<le> 1 then None
      else if nodeCount = 1 \<and> scReplicas svc > 9
        then Some (Errorf ''host %q service %q replicas %d exceeds the single-VPS container cap (9)''
                     [Str host, Str name, Num (scReplicas svc)])
      else if nodeCount > 1 \<and> scReplicas svc > int nodeCount
        then Some (Errorf ''host %q service %q replicas %d exceeds the %d NATS nodes''
                     [Str host, Str name, Num (scReplicas svc), Num (int nodeCount)])
      else None)"

definition validateServiceReplicas :: "ProvisionFile \<Rightarrow> goerr option" where
  "validateServiceReplicas pf =
    (let nodeCount = natsNodeCount pf in
     firstErr (\<lambda>h. firstErr (validateReplicas nodeCount (hName h)) (rhServices (resolveHostConfig pf h)))
       (pfHosts pf))"

section \<open>VLANs\<close>

primrec vlanAssigns :: "string list \<Rightarrow> ProvisionVLAN \<Rightarrow> ipnet \<Rightarrow> VLANHostAssign list \<Rightarrow> string dict \<Rightarrow> string dict res" where
  "vlanAssigns hosts v net [] seen = Inr seen"
| "vlanAssigns hosts v net (a # as) seen =
    (if vaName a \<notin> set hosts
       then Inl (Errorf ''vlan %q references unknown host %q'' [Str (vlName v), Str (vaName a)])
     else if vaIface a = ''''
       then Inl (Errorf ''vlan %q host %q needs an iface'' [Str (vlName v), Str (vaName a)])
     else case parseIP (trimSpace (vaIP a)) of
       None \<Rightarrow> Inl (Errorf ''vlan %q host %q ip %q is not a valid IP'' [Str (vlName v), Str (vaName a), Str (vaIP a)])
     | Some addr \<Rightarrow>
       (if \<not> containsIP net addr
        then Inl (Errorf ''vlan %q host %q ip %q is outside %q''
                   [Str (vlName v), Str (vaName a), Str (vaIP a), Str (vlCIDR v)])
        else let key = vaName a @ '':'' @ vlName v in
          case mget seen (vaIP a) of
            Some prev \<Rightarrow> Inl (Errorf ''vlan ip %q already assigned to %s (also on %s)'' [Str (vaIP a), Str prev, Str key])
          | None \<Rightarrow> vlanAssigns hosts v net as (mput seen (vaIP a) key)))"

primrec vlanLoop :: "string list \<Rightarrow> ProvisionVLAN list \<Rightarrow> string dict \<Rightarrow> goerr option" where
  "vlanLoop hosts [] seen = None"
| "vlanLoop hosts (v # vs) seen =
    (if vlName v = '''' then Some (Errorf ''every vlan needs a name'' [])
     else case parseCIDR (vlCIDR v) of
       None \<Rightarrow> Some (Errorf ''vlan %q cidr %q is not a valid CIDR: %v''
                 [Str (vlName v), Str (vlCIDR v), Str (''invalid CIDR address: '' @ vlCIDR v)])
     | Some (_, net) \<Rightarrow>
       (case vlanAssigns hosts v net (vlHosts v) seen of Inl e \<Rightarrow> Some e
        | Inr seen' \<Rightarrow> vlanLoop hosts vs seen'))"

definition validateVLANs :: "ProvisionFile \<Rightarrow> goerr option" where
  "validateVLANs pf = vlanLoop (map hName (pfHosts pf)) (pfVLANs pf) []"

definition vlansForHost :: "ProvisionFile \<Rightarrow> string \<Rightarrow> ProvisionVLAN list" where
  "vlansForHost pf hostName = filter (\<lambda>v. list_ex (\<lambda>a. vaName a = hostName) (vlHosts v)) (pfVLANs pf)"

section \<open>Peers, deploy order, bans and Telegram\<close>

text \<open>A read of a Go map of strings: a missing key reads as the empty string.\<close>

definition mstr :: "string dict \<Rightarrow> string \<Rightarrow> string" where
  "mstr m k = (case mget m k of Some v \<Rightarrow> v | None \<Rightarrow> '''')"

definition validatePeer :: "string dict \<Rightarrow> ProvisionPeer \<Rightarrow> goerr option" where
  "validatePeer names peer =
    (if mstr names (peFrom peer) = '''' then Some (Errorf ''peer from %q not found in hosts'' [Str (peFrom peer)])
     else if mstr names (peTo peer) = '''' then Some (Errorf ''peer to %q not found in hosts'' [Str (peTo peer)])
     else if pePorts peer = [] then Some (Errorf ''peer %s -> %s has no ports'' [Str (peFrom peer), Str (peTo peer)])
     else None)"

definition validatePeers :: "ProvisionFile \<Rightarrow> string dict \<Rightarrow> goerr option" where
  "validatePeers pf names = firstErr (validatePeer names) (pfPeers pf)"

definition validateStep :: "ProvisionFile \<Rightarrow> string dict \<Rightarrow> DeployStep \<Rightarrow> goerr option" where
  "validateStep pf names step =
    (if dsGroup step \<noteq> '''' then
       (if mget (pfGroups pf) (dsGroup step) = None
        then Some (Errorf ''deploy_order references unknown group %q'' [Str (dsGroup step)]) else None)
     else if dsHost step \<noteq> '''' then
       (if mstr names (dsHost step) = ''''
        then Some (Errorf ''deploy_order references unknown host %q'' [Str (dsHost step)]) else None)
     else Some (Errorf ''deploy_order step needs group or host'' []))"

definition validateDeployOrder :: "ProvisionFile \<Rightarrow> string dict \<Rightarrow> goerr option" where
  "validateDeployOrder pf names = firstErr (validateStep pf names) (pfDeployOrder pf)"

definition validateBan :: "string \<Rightarrow> goerr option" where
  "validateBan b = (case ValidateCIDR (trimSpace b) of Inr _ \<Rightarrow> None
     | Inl e \<Rightarrow> Some (Wrapf ''bans entry %q is not a valid IP/CIDR: %v'' [Str b] e))"

definition validateBansAndTelegram :: "ProvisionFile \<Rightarrow> goerr option" where
  "validateBansAndTelegram pf =
    (case firstErr validateBan (pfBans pf) of Some e \<Rightarrow> Some e
     | None \<Rightarrow>
       (if tgEnabled (pfTelegram pf) \<and> (tgAPIKey (pfTelegram pf) = '''' \<or> tgChatID (pfTelegram pf) = '''')
        then Some (Errorf ''telegram.enabled requires api_key and chat_id'' []) else None))"

section \<open>Traefik and HTTPS\<close>

definition validateDNS01Token :: "DNS01Config option \<Rightarrow> goerr option" where
  "validateDNS01Token dns01 =
    (case dns01 of None \<Rightarrow> None
     | Some d \<Rightarrow> if dnsProvider d \<noteq> '''' \<and> dnsAPIToken d = ''''
                 then Some (Errorf ''ssl.dns01 requires api_token'' []) else None)"

definition validateTraefikDomain :: "TraefikDomain \<Rightarrow> string \<Rightarrow> DNS01Config option \<Rightarrow> goerr option" where
  "validateTraefikDomain d where' dns01 =
    (if tdDomain d = '''' \<or> tdPort d \<le> 0
       then Some (Errorf ''traefik domain needs domain and port (%s)'' [Str where'])
     else if \<not> tdWildcard d then None
     else case dns01 of
       None \<Rightarrow> Some (Errorf ''traefik wildcard domain %q requires ssl.dns01 (wildcard certificates cannot be issued over HTTP)'' [Str (tdDomain d)])
     | Some c \<Rightarrow>
       (if dnsProvider c = ''''
          then Some (Errorf ''traefik wildcard domain %q requires ssl.dns01 (wildcard certificates cannot be issued over HTTP)'' [Str (tdDomain d)])
        else if dnsProvider c \<noteq> ''cloudflare'' \<and> dnsProvider c \<noteq> ''bunny''
          then Some (Errorf ''ssl.dns01 provider %q not supported (cloudflare, bunny)'' [Str (dnsProvider c)])
        else None))"

definition hasAnyTraefikDomains :: "ProvisionFile \<Rightarrow> bool" where
  "hasAnyTraefikDomains pf =
    (if tcDomains (pfTraefik pf) \<noteq> [] then True
     else list_ex (\<lambda>(_, g). case gTraefik g of None \<Rightarrow> False | Some t \<Rightarrow> tcDomains t \<noteq> []) (pfGroups pf))"

definition traefikLists :: "ProvisionFile \<Rightarrow> (TraefikDomain list \<times> string) list" where
  "traefikLists pf =
     (tcDomains (pfTraefik pf), ''global'') #
     concat (map (\<lambda>(name, g). case gTraefik g of None \<Rightarrow> []
                    | Some t \<Rightarrow> [(tcDomains t, ''group '' @ name)]) (pfGroups pf)) @
     concat (map (\<lambda>h. case hTraefik h of None \<Rightarrow> []
                    | Some t \<Rightarrow> [(tcDomains t, ''host '' @ hName h)]) (pfHosts pf))"

definition validateTraefikDomains :: "ProvisionFile \<Rightarrow> goerr option" where
  "validateTraefikDomains pf =
    (if tcDomains (pfTraefik pf) = [] \<and> \<not> hasAnyTraefikDomains pf then None
     else if sslEmail (pfSSL pf) = ''''
       then Some (Errorf ''traefik domains require ssl.email (Let's Encrypt contact)'' [])
     else andThen
       (firstErr (\<lambda>(domains, where'). firstErr (\<lambda>d. validateTraefikDomain d where' (sslDNS01 (pfSSL pf))) domains)
          (traefikLists pf))
       (validateDNS01Token (sslDNS01 (pfSSL pf))))"

definition checkMode :: "string \<Rightarrow> string \<Rightarrow> goerr option" where
  "checkMode mode where' =
    (if mode = '''' \<or> mode = ''cf'' \<or> mode = ''all'' then None
     else Some (Errorf ''https_mode %q invalid (%s): use cf or all'' [Str mode, Str where']))"

definition validateHTTPSMode :: "ProvisionFile \<Rightarrow> goerr option" where
  "validateHTTPSMode pf =
     andThen (checkMode (pfHTTPSMode pf) ''global'')
       (andThen (firstErr (\<lambda>(name, g). checkMode (gHTTPSMode g) (''group '' @ name)) (pfGroups pf))
                (firstErr (\<lambda>h. checkMode (hHTTPSMode h) (''host '' @ hName h)) (pfHosts pf)))"

section \<open>The whole validation\<close>

definition validateProvision :: "ProvisionFile \<Rightarrow> string dict res" where
  "validateProvision pf =
    (case validateHosts pf of Inl e \<Rightarrow> Inl e
     | Inr names \<Rightarrow>
       (case andThen (validatePeers pf names)
              (andThen (validateBansAndTelegram pf)
              (andThen (validateTraefikDomains pf)
              (andThen (validateHTTPSMode pf)
              (andThen (validateDeployOrder pf names)
              (andThen (validateVLANs pf)
              (andThen (validateServiceReplicas pf)
                (validateK3sRoles pf))))))) of
          Some e \<Rightarrow> Inl e
        | None \<Rightarrow> Inr names))"

end
