(* ===== verification/FleetValidateProps.thy ===== *)
theory FleetValidateProps imports FleetValidate AllowlistProps begin

text \<open>
  What the validation of \<open>FleetValidate\<close> accepts: one predicate per section of the fleet
  file, each tied to its check through the locale \<open>validator\<close>, and \<open>fleet_good\<close>, the whole
  contract that the provisioning relies on.
\<close>

section \<open>Hosts and the peer map\<close>

definition host_good :: "ProvisionFile \<Rightarrow> ProvisionHost \<Rightarrow> bool" where
  "host_good pf h \<longleftrightarrow> hName h \<noteq> '''' \<and> (hHost h = '''' \<longrightarrow> hProvider h \<noteq> '''') \<and>
     (hHost h \<noteq> '''' \<longrightarrow> parseIP (trimSpace (hHost h)) \<noteq> None) \<and>
     (hPeerIP h \<noteq> '''' \<longrightarrow> (\<exists>b. ValidateCIDR (trimSpace (hPeerIP h)) = Inr b)) \<and>
     (hGroup h \<noteq> '''' \<longrightarrow> mget (pfGroups pf) (hGroup h) \<noteq> None)"

interpretation hostv: validator "validateHost pf" "host_good pf" for pf
  by unfold_locales (auto simp: validateHost_def host_good_def split: sum.splits if_splits)

definition peerNames :: "ProvisionHost list \<Rightarrow> string dict" where
  "peerNames hs = fold (\<lambda>h m. mput m (hName h) (hostPeerName h)) hs []"

lemma hostsLoop_iff:
  "hostsLoop pf hs m = Inr m' \<longleftrightarrow>
    firstErr (validateHost pf) hs = None \<and> m' = fold (\<lambda>h m. mput m (hName h) (hostPeerName h)) hs m"
  by (induction hs arbitrary: m) (auto split: option.splits)

lemma validateHosts_iff:
  "validateHosts pf = Inr names \<longleftrightarrow> (\<forall>h \<in> set (pfHosts pf). host_good pf h) \<and> names = peerNames (pfHosts pf)"
  by (simp add: validateHosts_def hostsLoop_iff peerNames_def hostv.all_checked)

lemma mget_peerNames:
  "mget (peerNames hs) n = map_option hostPeerName (List.find (\<lambda>h. hName h = n) (rev hs))"
  unfolding peerNames_def
  by (induction hs rule: rev_induct) (auto simp: dict_simps)

lemma ValidateCIDR_ne: "ValidateCIDR s = Inr b \<Longrightarrow> trimSpace s \<noteq> []"
  by (cases "trimSpace s = []") (simp_all add: ValidateCIDR_def)

lemma hostPeerName_ne: "host_good pf h \<Longrightarrow> hostPeerName h \<noteq> ''''"
  by (auto simp: hostPeerName_def host_good_def Let_def dest: ValidateCIDR_ne)

lemma peer_known:
  assumes "\<forall>h \<in> set hs. host_good pf h"
  shows "mstr (peerNames hs) n = '''' \<longleftrightarrow> n \<notin> hName ` set hs"
proof (cases "List.find (\<lambda>h. hName h = n) (rev hs)")
  case None
  then have "n \<notin> hName ` set hs" by (auto simp: find_None_iff)
  with None show ?thesis by (simp add: mstr_def mget_peerNames)
next
  case (Some h)
  then obtain ys zs where "rev hs = ys @ h # zs" "hName h = n" by (auto simp: find_Some_first)
  then have "h \<in> set (rev hs)" and n: "hName h = n" by simp_all
  then have h: "h \<in> set hs" "hName h = n" by simp_all
  with assms have "hostPeerName h \<noteq> ''''" using hostPeerName_ne by blast
  with Some h show ?thesis by (auto simp: mstr_def mget_peerNames)
qed

section \<open>The other sections\<close>

definition peer_good :: "ProvisionFile \<Rightarrow> ProvisionPeer \<Rightarrow> bool" where
  "peer_good pf p \<longleftrightarrow> peFrom p \<in> hName ` set (pfHosts pf) \<and> peTo p \<in> hName ` set (pfHosts pf) \<and> pePorts p \<noteq> []"

definition step_good :: "ProvisionFile \<Rightarrow> DeployStep \<Rightarrow> bool" where
  "step_good pf s \<longleftrightarrow>
     (if dsGroup s \<noteq> '''' then mget (pfGroups pf) (dsGroup s) \<noteq> None
      else dsHost s \<noteq> '''' \<and> dsHost s \<in> hName ` set (pfHosts pf))"

definition ban_good :: "string \<Rightarrow> bool" where
  "ban_good b \<longleftrightarrow> (\<exists>v6. ValidateCIDR (trimSpace b) = Inr v6)"

interpretation banv: validator validateBan ban_good
  by unfold_locales (auto simp: validateBan_def ban_good_def split: sum.splits)

definition telegram_good :: "TelegramConfig \<Rightarrow> bool" where
  "telegram_good t \<longleftrightarrow> (tgEnabled t \<longrightarrow> tgAPIKey t \<noteq> '''' \<and> tgChatID t \<noteq> '''')"

definition domain_good :: "DNS01Config option \<Rightarrow> TraefikDomain \<Rightarrow> bool" where
  "domain_good dns d \<longleftrightarrow> tdDomain d \<noteq> '''' \<and> tdPort d > 0 \<and>
     (tdWildcard d \<longrightarrow> (\<exists>c. dns = Some c \<and> (dnsProvider c = ''cloudflare'' \<or> dnsProvider c = ''bunny'')))"

interpretation domv: validator "\<lambda>d. validateTraefikDomain d w dns" "domain_good dns" for w dns
  by unfold_locales (auto simp: validateTraefikDomain_def domain_good_def split: option.splits if_splits)

definition traefik_good :: "ProvisionFile \<Rightarrow> bool" where
  "traefik_good pf \<longleftrightarrow> hasAnyTraefikDomains pf \<longrightarrow>
     sslEmail (pfSSL pf) \<noteq> '''' \<and>
     (\<forall>l \<in> set (traefikLists pf). \<forall>d \<in> set (fst l). domain_good (sslDNS01 (pfSSL pf)) d) \<and>
     (\<forall>c. sslDNS01 (pfSSL pf) = Some c \<and> dnsProvider c \<noteq> '''' \<longrightarrow> dnsAPIToken c \<noteq> '''')"

lemma validateTraefikDomains_None: "validateTraefikDomains pf = None \<longleftrightarrow> traefik_good pf"
proof -
  have "tcDomains (pfTraefik pf) = [] \<and> \<not> hasAnyTraefikDomains pf \<longleftrightarrow> \<not> hasAnyTraefikDomains pf"
    by (auto simp: hasAnyTraefikDomains_def)
  moreover have "validateDNS01Token dns = None \<longleftrightarrow>
      (\<forall>c. dns = Some c \<and> dnsProvider c \<noteq> '''' \<longrightarrow> dnsAPIToken c \<noteq> '''')" for dns
    by (auto simp: validateDNS01Token_def split: option.splits)
  moreover have "firstErr (\<lambda>(domains, w). firstErr (\<lambda>d. validateTraefikDomain d w dns) domains) ls = None \<longleftrightarrow>
      (\<forall>l \<in> set ls. \<forall>d \<in> set (fst l). domain_good dns d)" for dns ls
    by (auto simp: firstErr_None domv.check_good)
  ultimately show ?thesis
    by (simp add: validateTraefikDomains_def traefik_good_def andThen_None)
qed

definition mode_good :: "string \<Rightarrow> bool" where
  "mode_good m \<longleftrightarrow> m \<in> {'''', ''cf'', ''all''}"

interpretation modev: validator "\<lambda>m. checkMode m w" mode_good for w
  by unfold_locales (auto simp: checkMode_def mode_good_def)

definition https_good :: "ProvisionFile \<Rightarrow> bool" where
  "https_good pf \<longleftrightarrow> mode_good (pfHTTPSMode pf) \<and> (\<forall>g \<in> set (pfGroups pf). mode_good (gHTTPSMode (snd g))) \<and>
     (\<forall>h \<in> set (pfHosts pf). mode_good (hHTTPSMode h))"

lemma validateHTTPSMode_None: "validateHTTPSMode pf = None \<longleftrightarrow> https_good pf"
  by (auto simp: validateHTTPSMode_def https_good_def andThen_None firstErr_None modev.check_good)

subsection \<open>VLANs\<close>

definition assign_good :: "string list \<Rightarrow> ipnet \<Rightarrow> VLANHostAssign \<Rightarrow> bool" where
  "assign_good hosts net a \<longleftrightarrow> vaName a \<in> set hosts \<and> vaIface a \<noteq> '''' \<and>
     (\<exists>addr. parseIP (trimSpace (vaIP a)) = Some addr \<and> containsIP net addr)"

definition vlan_good :: "string list \<Rightarrow> ProvisionVLAN \<Rightarrow> bool" where
  "vlan_good hosts v \<longleftrightarrow> vlName v \<noteq> '''' \<and>
     (\<exists>ip net. parseCIDR (vlCIDR v) = Some (ip, net) \<and> (\<forall>a \<in> set (vlHosts v). assign_good hosts net a))"

definition vlanIPs :: "ProvisionVLAN list \<Rightarrow> string list" where
  "vlanIPs vs = concat (map (\<lambda>v. map vaIP (vlHosts v)) vs)"

definition vlans_good :: "ProvisionFile \<Rightarrow> bool" where
  "vlans_good pf \<longleftrightarrow> (\<forall>v \<in> set (pfVLANs pf). vlan_good (map hName (pfHosts pf)) v) \<and> distinct (vlanIPs (pfVLANs pf))"

definition taken :: "string dict \<Rightarrow> string set" where
  "taken seen = {ip. mget seen ip \<noteq> None}"

lemma taken_simps [simp]: "taken [] = {}" "taken (mput seen k v) = insert k (taken seen)"
  by (auto simp: taken_def dict_simps)

lemma vlanAssigns_taken:
  "vlanAssigns hosts v net as seen = Inr seen' \<Longrightarrow> taken seen' = set (map vaIP as) \<union> taken seen"
  by (induction as arbitrary: seen) (auto simp: Let_def split: if_splits option.splits)

lemma vlanAssigns_iff:
  "(\<exists>seen'. vlanAssigns hosts v net as seen = Inr seen') \<longleftrightarrow>
    (\<forall>a \<in> set as. assign_good hosts net a) \<and> distinct (map vaIP as) \<and> (\<forall>ip \<in> set (map vaIP as). ip \<notin> taken seen)"
proof (induction as arbitrary: seen)
  case Nil
  show ?case by simp
next
  case (Cons a as)
  show ?case
  proof (cases "assign_good hosts net a \<and> vaIP a \<notin> taken seen")
    case True
    then have e: "vlanAssigns hosts v net (a # as) seen =
        vlanAssigns hosts v net as (mput seen (vaIP a) (vaName a @ '':'' @ vlName v))"
      by (auto simp: assign_good_def taken_def Let_def)
    show ?thesis unfolding e Cons.IH using True by (auto simp: image_iff)
  next
    case False
    then show ?thesis
      by (auto simp: assign_good_def taken_def Let_def split: option.splits if_splits)
  qed
qed

lemma vlanLoop_None:
  "vlanLoop hosts vs seen = None \<longleftrightarrow>
    (\<forall>v \<in> set vs. vlan_good hosts v) \<and> distinct (vlanIPs vs) \<and> (\<forall>ip \<in> set (vlanIPs vs). ip \<notin> taken seen)"
proof (induction vs arbitrary: seen)
  case Nil
  show ?case by (simp add: vlanIPs_def)
next
  case (Cons v vs)
  have ips: "vlanIPs (v # vs) = map vaIP (vlHosts v) @ vlanIPs vs" by (simp add: vlanIPs_def)
  show ?case
  proof (cases "vlName v = '''' \<or> parseCIDR (vlCIDR v) = None")
    case True
    then show ?thesis by (auto simp: vlan_good_def)
  next
    case False
    then obtain ip net where p: "parseCIDR (vlCIDR v) = Some (ip, net)" "vlName v \<noteq> ''''" by auto
    then have g: "vlan_good hosts v \<longleftrightarrow> (\<forall>a \<in> set (vlHosts v). assign_good hosts net a)"
      by (simp add: vlan_good_def)
    show ?thesis
    proof (cases "vlanAssigns hosts v net (vlHosts v) seen")
      case (Inl e)
      then have "\<not> (\<exists>s. vlanAssigns hosts v net (vlHosts v) seen = Inr s)" by simp
      then have "\<not> (vlan_good hosts v \<and> distinct (map vaIP (vlHosts v)) \<and>
          (\<forall>ip \<in> set (map vaIP (vlHosts v)). ip \<notin> taken seen))"
        unfolding g vlanAssigns_iff by blast
      then show ?thesis using p Inl by (simp add: ips) blast
    next
      case (Inr s)
      then have "vlan_good hosts v \<and> distinct (map vaIP (vlHosts v)) \<and>
          (\<forall>ip \<in> set (map vaIP (vlHosts v)). ip \<notin> taken seen)"
        unfolding g using vlanAssigns_iff [of hosts v net "vlHosts v" seen] by blast
      then show ?thesis using p Inr vlanAssigns_taken [OF Inr] Cons.IH [of s]
        by (simp add: ips) blast
    qed
  qed
qed

lemma validateVLANs_None: "validateVLANs pf = None \<longleftrightarrow> vlans_good pf"
  by (simp add: validateVLANs_def vlans_good_def vlanLoop_None)

subsection \<open>Replicas and roles\<close>

definition replicas_good :: "nat \<Rightarrow> ServiceConfig \<Rightarrow> bool" where
  "replicas_good n svc \<longleftrightarrow> scReplicas svc \<ge> 0 \<and>
     (scReplicas svc > 1 \<longrightarrow> (n = 1 \<longrightarrow> scReplicas svc \<le> 9) \<and> (n > 1 \<longrightarrow> scReplicas svc \<le> int n))"

interpretation repv: validator "validateReplicas n host" "\<lambda>e. replicas_good n (snd e)" for n host
  by unfold_locales (auto simp: validateReplicas_def replicas_good_def split: prod.splits if_splits)

lemma validateServiceReplicas_None:
  "validateServiceReplicas pf = None \<longleftrightarrow>
    (\<forall>h \<in> set (pfHosts pf). \<forall>e \<in> set (rhServices (resolveHostConfig pf h)). replicas_good (natsNodeCount pf) (snd e))"
  by (simp add: validateServiceReplicas_def firstErr_None repv.check_good)

definition servers_of :: "ProvisionHost list \<Rightarrow> ProvisionHost list" where
  "servers_of hs = filter (\<lambda>h. hRole h = ''server'') hs"

lemma roleLoop_iff:
  "roleLoop hs n d = Inr r \<longleftrightarrow>
    (\<forall>h \<in> set hs. hRole h \<in> {'''', ''server'', ''agent''}) \<and>
    r = (n + length (servers_of hs), d \<or> (\<exists>h \<in> set hs. hRole h \<noteq> ''''))"
proof (induction hs arbitrary: n d)
  case Nil
  show ?case by (auto simp: servers_of_def)
next
  case (Cons h hs)
  consider "hRole h = ''''" | "hRole h = ''server''" | "hRole h = ''agent''"
    | "hRole h \<notin> {'''', ''server'', ''agent''}" by blast
  then show ?case by cases (auto simp: Cons.IH servers_of_def)
qed

definition roles_good :: "ProvisionFile \<Rightarrow> bool" where
  "roles_good pf \<longleftrightarrow> (\<forall>h \<in> set (pfHosts pf). hRole h \<in> {'''', ''server'', ''agent''}) \<and>
     ((\<exists>h \<in> set (pfHosts pf). hRole h \<noteq> '''') \<longrightarrow>
       pfMode pf = ''k3s'' \<and> servers_of (pfHosts pf) \<noteq> [] \<and>
       (length (servers_of (pfHosts pf)) > 1 \<longrightarrow> pfK3sHA pf))"

lemma validateK3sRoles_None: "validateK3sRoles pf = None \<longleftrightarrow> roles_good pf"
proof (cases "roleLoop (pfHosts pf) 0 False")
  case (Inl e)
  then have "\<not> (\<exists>r. roleLoop (pfHosts pf) 0 False = Inr r)" by simp
  then have "\<not> (\<forall>h \<in> set (pfHosts pf). hRole h \<in> {'''', ''server'', ''agent''})"
    unfolding roleLoop_iff by blast
  with Inl show ?thesis unfolding validateK3sRoles_def roles_good_def by simp
next
  case (Inr r)
  with roleLoop_iff [THEN iffD1, OF Inr] show ?thesis
    by (auto simp: validateK3sRoles_def roles_good_def)
qed

section \<open>The contract of a validated fleet\<close>

definition fleet_good :: "ProvisionFile \<Rightarrow> bool" where
  "fleet_good pf \<longleftrightarrow>
     (\<forall>h \<in> set (pfHosts pf). host_good pf h) \<and>
     (\<forall>p \<in> set (pfPeers pf). peer_good pf p) \<and>
     (\<forall>b \<in> set (pfBans pf). ban_good b) \<and> telegram_good (pfTelegram pf) \<and>
     traefik_good pf \<and> https_good pf \<and>
     (\<forall>s \<in> set (pfDeployOrder pf). step_good pf s) \<and>
     vlans_good pf \<and>
     (\<forall>h \<in> set (pfHosts pf). \<forall>e \<in> set (rhServices (resolveHostConfig pf h)). replicas_good (natsNodeCount pf) (snd e)) \<and>
     roles_good pf"

lemma validateBansAndTelegram_None:
  "validateBansAndTelegram pf = None \<longleftrightarrow> (\<forall>b \<in> set (pfBans pf). ban_good b) \<and> telegram_good (pfTelegram pf)"
  by (auto simp: validateBansAndTelegram_def telegram_good_def banv.all_checked [symmetric] split: option.splits)

lemma validatePeers_None:
  assumes "\<forall>h \<in> set (pfHosts pf). host_good pf h"
  shows "validatePeers pf (peerNames (pfHosts pf)) = None \<longleftrightarrow> (\<forall>p \<in> set (pfPeers pf). peer_good pf p)"
  by (auto simp: validatePeers_def firstErr_None validatePeer_def peer_good_def peer_known [OF assms])

lemma validateDeployOrder_None:
  assumes "\<forall>h \<in> set (pfHosts pf). host_good pf h"
  shows "validateDeployOrder pf (peerNames (pfHosts pf)) = None \<longleftrightarrow> (\<forall>s \<in> set (pfDeployOrder pf). step_good pf s)"
proof -
  have "validateStep pf (peerNames (pfHosts pf)) s = None \<longleftrightarrow> step_good pf s" for s
    by (simp add: validateStep_def step_good_def peer_known [OF assms])
  then show ?thesis by (simp add: validateDeployOrder_def firstErr_None)
qed

lemma validateProvision_iff:
  "validateProvision pf = Inr names \<longleftrightarrow> fleet_good pf \<and> names = peerNames (pfHosts pf)"
proof (cases "validateHosts pf")
  case (Inl e)
  then have "\<not> (\<exists>n. validateHosts pf = Inr n)" by simp
  then have "\<not> (\<forall>h \<in> set (pfHosts pf). host_good pf h)" unfolding validateHosts_iff by blast
  with Inl show ?thesis unfolding validateProvision_def fleet_good_def by simp
next
  case (Inr n)
  with validateHosts_iff have n: "n = peerNames (pfHosts pf)" and g: "\<forall>h \<in> set (pfHosts pf). host_good pf h"
    by blast+
  define rest where "rest = andThen (validatePeers pf n)
    (andThen (validateBansAndTelegram pf) (andThen (validateTraefikDomains pf)
    (andThen (validateHTTPSMode pf) (andThen (validateDeployOrder pf n) (andThen (validateVLANs pf)
    (andThen (validateServiceReplicas pf) (validateK3sRoles pf)))))))"
  have "rest = None \<longleftrightarrow> fleet_good pf"
    unfolding rest_def n fleet_good_def
    by (simp add: g validatePeers_None [OF g] validateDeployOrder_None [OF g]
        validateBansAndTelegram_None validateTraefikDomains_None validateHTTPSMode_None
        validateVLANs_None validateServiceReplicas_None validateK3sRoles_None andThen_None)
  moreover have "validateProvision pf = (case rest of Some e \<Rightarrow> Inl e | None \<Rightarrow> Inr n)"
    by (simp add: validateProvision_def Inr rest_def)
  ultimately show ?thesis using n by (cases rest) auto
qed

text \<open>
  C1: the validation is exact. It accepts a fleet file exactly when every section is well
  formed (\<open>fleet_good\<close>), and the map it then returns is the one of the peer addresses.
\<close>

theorem validateProvision_exact:
  "validateProvision pf = Inr names \<longleftrightarrow> fleet_good pf \<and> names = peerNames (pfHosts pf)"
  by (rule validateProvision_iff)

text \<open>The peer addresses of a validated fleet.\<close>

lemma fleet_good_host: "fleet_good pf \<Longrightarrow> h \<in> set (pfHosts pf) \<Longrightarrow> host_good pf h"
  by (simp add: fleet_good_def)

lemma set_trimSpace: "c \<in> set s \<Longrightarrow> \<not> is_space c \<Longrightarrow> c \<in> set (trimSpace s)"
proof -
  assume "c \<in> set s" and n: "\<not> is_space c"
  then have "c \<in> set (dropWhile is_space s)"
    by (metis (full_types) UnE set_append set_takeWhileD takeWhile_dropWhile_id)
  then have "c \<in> set (rev (dropWhile is_space s))" by simp
  with n have "c \<in> set (dropWhile is_space (rev (dropWhile is_space s)))"
    by (metis (full_types) UnE set_append set_takeWhileD takeWhile_dropWhile_id)
  then show ?thesis by (simp add: trimSpace_def)
qed

definition shell_safe :: "string \<Rightarrow> bool" where
  "shell_safe s \<longleftrightarrow> list_all (\<lambda>c. cidr_char c \<or> is_space c) s"

lemma shell_safe_trim: "list_all cidr_char (trimSpace s) \<Longrightarrow> shell_safe s"
  using set_trimSpace by (auto simp: shell_safe_def list_all_iff)

lemma host_good_safe: "host_good pf h \<Longrightarrow> shell_safe (hHost h)"
proof (cases "hHost h = ''''")
  case False
  assume "host_good pf h"
  with False obtain ip where "parseIP (trimSpace (hHost h)) = Some ip" by (auto simp: host_good_def)
  then have "list_all cidr_char (trimSpace (hHost h))"
    by (auto dest!: parseIP_chars simp: list_all_iff cidr_char_def)
  then show ?thesis by (rule shell_safe_trim)
qed (simp add: shell_safe_def)

lemma peer_ip_safe: "host_good pf h \<Longrightarrow> hPeerIP h \<noteq> '''' \<Longrightarrow> shell_safe (trimSpace (hPeerIP h))"
proof -
  assume "host_good pf h" "hPeerIP h \<noteq> ''''"
  then obtain b where v: "ValidateCIDR (trimSpace (hPeerIP h)) = Inr b" by (auto simp: host_good_def)
  then have "parseCIDR (trimSpace (hPeerIP h)) \<noteq> None \<or> parseIP (trimSpace (hPeerIP h)) \<noteq> None"
    using ValidateCIDR_cases [OF v] by (simp add: trimSpace_idem)
  then have "list_all cidr_char (trimSpace (hPeerIP h))"
    by (auto dest!: parseCIDR_chars parseIP_chars simp: list_all_iff cidr_char_def)
  then show ?thesis by (simp add: shell_safe_def list_all_iff)
qed


lemma parseIP_demo: "parseIP ''10.0.0.1'' \<noteq> None"
  by code_simp

lemma demo_file_accepted: "validateProvision demo_file = Inr [(''n1'', ''10.0.0.1'')]"
  by code_simp


text \<open>
  A gap. When neither the globals nor a group lists a domain, the domains of the hosts
  are not looked at: a host may ask for a wildcard certificate without a contact address
  and without a DNS provider, and the file is accepted.
\<close>

theorem host_domains_unchecked:
  assumes "tcDomains (pfTraefik pf) = []"
    and "list_all (\<lambda>(_, g). gTraefik g = None) (pfGroups pf)"
  shows "validateTraefikDomains (pf\<lparr>pfHosts := hs\<rparr>) = None"
  using assms
  by (auto simp: validateTraefikDomains_def hasAnyTraefikDomains_def list_ex_iff list_all_iff)

definition wild_domain :: TraefikDomain where
  "wild_domain = \<lparr>tdDomain = ''example.com'', tdService = '''', tdPort = 0, tdContainerPort = 0, tdWildcard = True\<rparr>"

definition wild_host :: ProvisionHost where
  "wild_host = demo_host\<lparr>hTraefik := Some \<lparr>tcEnabled = True, tcDomains = [wild_domain]\<rparr>\<rparr>"

lemma host_domains_unchecked_witness:
  "validateTraefikDomains (demo_file\<lparr>pfHosts := [wild_host]\<rparr>) = None \<and>
   \<not> domain_good (sslDNS01 (pfSSL demo_file)) wild_domain \<and> sslEmail (pfSSL demo_file) = ''''"
proof -
  have "tcDomains (pfTraefik demo_file) = []" "list_all (\<lambda>(_, g). gTraefik g = None) (pfGroups demo_file)"
    by (simp_all add: demo_file_def zeroFile_def demo_group_def zeroGroup_def)
  from host_domains_unchecked [OF this, of "[wild_host]"] show ?thesis
    by (simp add: domain_good_def wild_domain_def demo_file_def zeroFile_def)
qed

text \<open>
  A gap. The uniqueness of VLAN addresses compares the text, not the address: the same
  address, once with a trailing blank, passes for two hosts of one VLAN.
\<close>

definition twin_vlan :: ProvisionVLAN where
  "twin_vlan = \<lparr>vlName = ''lan'', vlCIDR = ''10.0.0.0/24'', vlHosts =
     [\<lparr>vaName = ''n1'', vaIface = ''eth1'', vaIP = ''10.0.0.5''\<rparr>,
      \<lparr>vaName = ''n2'', vaIface = ''eth1'', vaIP = ''10.0.0.5 ''\<rparr>]\<rparr>"

definition twin_file :: ProvisionFile where
  "twin_file = demo_file\<lparr>pfHosts := [demo_host\<lparr>hGroup := ''''\<rparr>, demo_host\<lparr>hName := ''n2'', hGroup := ''''\<rparr>], pfVLANs := [twin_vlan]\<rparr>"

theorem vlan_address_twice:
  "validateProvision twin_file = Inr [(''n1'', ''10.0.0.1''), (''n2'', ''10.0.0.1'')] \<and>
   map (\<lambda>a. parseIP (trimSpace (vaIP a))) (vlHosts twin_vlan) =
     replicate 2 (parseIP ''10.0.0.5'') \<and> parseIP ''10.0.0.5'' \<noteq> None"
  by code_simp

section \<open>Resolved hosts are well typed\<close>

text \<open>
  The values of a host after resolution, at the type the later phases rely on: options with a
  fixed set of values hold one of them, the address parses, the services are a map.
\<close>

definition typed_host :: "resolvedHost \<Rightarrow> bool" where
  "typed_host r \<longleftrightarrow> rhHTTPSMode r \<in> {'''', ''cf'', ''all''} \<and> hRole (rhHost r) \<in> {'''', ''server'', ''agent''} \<and>
     (hHost (rhHost r) = '''' \<longrightarrow> hProvider (rhHost r) \<noteq> '''') \<and>
     (hHost (rhHost r) \<noteq> '''' \<longrightarrow> parseIP (trimSpace (hHost (rhHost r))) \<noteq> None) \<and>
     dict_ok (rhServices r) \<and> (\<forall>e \<in> set (rhServices r). 0 \<le> scReplicas (snd e))"

text \<open>
  C3: type preservation. Every host of a validated fleet resolves to a well-typed
  configuration, whatever its group and the globals contribute to it.
\<close>

theorem validated_hosts_typed:
  assumes "validateProvision pf = Inr names" "h \<in> set (pfHosts pf)"
  shows "typed_host (resolveHostConfig pf h)"
proof -
  have g: "fleet_good pf" using assms(1) by (simp add: validateProvision_iff)
  have group: "mode_good (gHTTPSMode (group_of pf h))"
  proof (cases "mget (pfGroups pf) (hGroup h)")
    case None
    then show ?thesis by (simp add: group_of_def zeroGroup_def mode_good_def)
  next
    case (Some x)
    from mget_in [OF this] g show ?thesis
      unfolding fleet_good_def https_good_def by (auto simp: group_of_def Some)
  qed
  have "mode_good (rhHTTPSMode (resolveHostConfig pf h))"
    using g group assms(2) unfolding fleet_good_def https_good_def
    by (simp add: resolveHostConfig_levels applyHost_def applyGroup_def over_string_def)
  moreover have "hRole h \<in> {'''', ''server'', ''agent''}"
    using g assms(2) unfolding fleet_good_def roles_good_def by blast
  moreover have "host_good pf h" using g assms(2) by (rule fleet_good_host)
  moreover have "\<forall>e \<in> set (rhServices (resolveHostConfig pf h)). 0 \<le> scReplicas (snd e)"
    using g assms(2) unfolding fleet_good_def replicas_good_def by blast
  ultimately show ?thesis unfolding typed_host_def mode_good_def host_good_def by simp
qed

lemma validated_hosts_typed_witness:
  "validateProvision demo_file = Inr [(''n1'', ''10.0.0.1'')] \<and> typed_host (resolveHostConfig demo_file demo_host)"
proof -
  have "demo_host \<in> set (pfHosts demo_file)" by (simp add: demo_file_def zeroFile_def)
  with validated_hosts_typed [OF demo_file_accepted] demo_file_accepted show ?thesis by blast
qed

end
