(* ===== verification/HardeningOps.thy ===== *)
theory HardeningOps imports Remote Allowlist begin

text \<open>
  The hardening of a node (\<open>hardening/\<close>: \<open>apply.go\<close>, \<open>steps.go\<close>, \<open>swap.go\<close>, \<open>peer.go\<close>,
  \<open>firewall.go\<close>, \<open>firewall_ban.go\<close>): every step as the remote script it sends, text for
  text, and the operation around it with its guards and its error. \<open>applyHardening\<close> is
  \<open>hardening.Apply\<close>, which goes on to the next step whatever a step returns.
\<close>

section \<open>Configuration\<close>

record hardConfig =
  hcUser :: string
  hcSSHPort :: int
  hcEnableMonitor :: bool
  hcLockRoot :: bool
  hcEnableAuditd :: bool
  hcEnableLynis :: bool
  hcEnableUSG :: bool
  hcAdminIPs :: string

definition hardDefaultConfig :: hardConfig where
  "hardDefaultConfig = \<lparr>hcUser = ''sdkops'', hcSSHPort = 0, hcEnableMonitor = False, hcLockRoot = False,
     hcEnableAuditd = False, hcEnableLynis = False, hcEnableUSG = False, hcAdminIPs = ''''\<rparr>"

definition MigrateSSH :: "hardConfig \<Rightarrow> bool" where
  "MigrateSSH c \<longleftrightarrow> hcSSHPort c > 0 \<and> hcSSHPort c \<noteq> 22"

section \<open>Swap\<close>

definition applySwapScript :: string where
  \<open>applySwapScript =
''
MEM_MB=$(free -m | awk '/^Mem:/{print $2}')
FREE_MB=$(df -m / | awk 'NR==2{print $4}')

# bottom-up: 0.5x base, +0.5x per 10GB free, cap 2x (4 half-units)
STEPS=$((FREE_MB / 10240))
MULT_HALF=$((1 + STEPS))
[ "$MULT_HALF" -gt 4 ] && MULT_HALF=4
SWAP_MB=$((MEM_MB * MULT_HALF / 2))

if [ "$SWAP_MB" -lt 256 ]; then
  echo "swap: skipped (computed ${SWAP_MB}M too small)"
  exit 0
fi

CUR_MB=0
[ -f /swapfile ] && CUR_MB=$(( $(stat -c%s /swapfile) / 1024 / 1024 ))

if [ "$CUR_MB" -ne "$SWAP_MB" ]; then
  sudo swapoff /swapfile 2>/dev/null || true
  sudo rm -f /swapfile
  sudo fallocate -l ${SWAP_MB}M /swapfile 2>/dev/null || sudo dd if=/dev/zero of=/swapfile bs=1M count=${SWAP_MB} 2>/dev/null
  sudo chmod 600 /swapfile
  sudo mkswap /swapfile 2>/dev/null
fi
sudo swapon /swapfile 2>/dev/null || true
sudo grep -q '^/swapfile' /etc/fstab || echo '/swapfile none swap sw 0 0' | sudo tee -a /etc/fstab > /dev/null
echo "swap: OK (${SWAP_MB}M = ${MULT_HALF}/2x of ${MEM_MB}M RAM, ${FREE_MB}M free disk)"
''\<close>

definition ApplySwap :: "conn \<Rightarrow> unit res prog" where
  "ApplySwap c = sshRunStream c (Raw applySwapScript)"

definition RemoveSwap :: "conn \<Rightarrow> unit res prog" where
  \<open>RemoveSwap c = runU c (Raw (''
sudo swapoff /swapfile 2>/dev/null || true
sudo rm -f /swapfile
sudo sed -i '/^'' @ [CHR 0x5C] @ ''/swapfile/d' /etc/fstab 2>/dev/null || true
echo "swap removed"
''))
     (wrapE ''swap remove: %w'' [])\<close>

definition SwapStatus :: "conn \<Rightarrow> string res prog" where
  \<open>SwapStatus c = runE c (Raw ''
free -m | awk '/^Swap/{print "swap active: " $2 "M total, " $3 "M used"}'
ls -la /swapfile 2>/dev/null | awk '{print "swapfile: " $5 " bytes"}'
grep '^/swapfile' /etc/fstab 2>/dev/null && echo "fstab: persistent" || echo "fstab: not configured"
'')
     (wrapE ''swap status: %w'' [])\<close>

definition setupSwap :: "conn \<Rightarrow> hardConfig \<Rightarrow> unit res prog" where
  "setupSwap c cfg = ApplySwap c"

section \<open>The hardening steps\<close>

definition installPackages :: "conn \<Rightarrow> hardConfig \<Rightarrow> unit res prog" where
  \<open>installPackages c cfg = sshRunStream c (Raw (''
for i in $(seq 1 30); do
    if ! sudo fuser /var/lib/dpkg/lock-frontend /var/lib/apt/lists/lock 2>/dev/null; then
        break
    fi
    sleep 3
done
# apt prefers AAAA records; on a host with IPv4 but a broken IPv6 path the
# repo connect fails instead of falling back '' @ [CHR 0xE2, CHR 0x80, CHR 0x94] @ '' force IPv4 when v4 exists.
if ip -4 addr show | grep -q 'inet '; then
    echo 'Acquire::ForceIPv4 "true";' | sudo tee /etc/apt/apt.conf.d/99force-ipv4 >/dev/null 2>&1 || true
fi
DEBIAN_FRONTEND=noninteractive sudo apt-get update -qq 2>&1 | tail -1
DEBIAN_FRONTEND=noninteractive sudo apt-get install -y -qq nftables fail2ban unattended-upgrades htop iotop net-tools 2>&1
''))\<close>

definition createUserScript :: string where
  \<open>createUserScript =
''
if ! id "%[1]s" &>/dev/null; then
    sudo useradd -m -s /bin/bash -G sudo "%[1]s"
fi
# Heal a pre-existing account (cloud images may ship one with a nologin shell):
# without a login shell every post-hardening SSH session dies with "This
# account is currently not available." and the fleet locks itself out.
if [ "$(getent passwd %[1]s | cut -d: -f7)" != "/bin/bash" ]; then
    sudo usermod -s /bin/bash "%[1]s"
fi
if ! sudo test -s /etc/sudoers.d/%[1]s; then
    echo "%[1]s ALL=(ALL) NOPASSWD:ALL" | sudo tee /etc/sudoers.d/%[1]s > /dev/null
    sudo chmod 0440 /etc/sudoers.d/%[1]s
fi
''\<close>

definition createUser :: "conn \<Rightarrow> hardConfig \<Rightarrow> unit res prog" where
  \<open>createUser c cfg =
     runU c (Fmt (createUserScript @ (if hcLockRoot cfg then ''sudo passwd -l root 2>/dev/null || true
'' else ''''))
               [Str (hcUser cfg)])
       (wrapO ''create user: %w
%s'' [])\<close>

definition kernelTuning :: "conn \<Rightarrow> hardConfig \<Rightarrow> unit res prog" where
  \<open>kernelTuning c cfg = runU c (Raw (''
# Small VPS: keep etcd/k3s off swap as long as possible (a swapped-out etcd
# stalls fdatasync, loses its lease and the k3s supervisor exits).
if ! sudo grep -q '^vm.swappiness' /etc/sysctl.d/99-sdk-ops.conf 2>/dev/null; then
  echo 'vm.swappiness = 10' | sudo tee -a /etc/sysctl.d/99-sdk-ops.conf >/dev/null
fi
sudo sysctl -w vm.swappiness=10 >/dev/null 2>&1 || true
for kv in '' @ [CHR 0x5C] @ ''
  "net.ipv4.tcp_syncookies=1" '' @ [CHR 0x5C] @ ''
  "net.ipv4.conf.all.rp_filter=1" '' @ [CHR 0x5C] @ ''
  "net.ipv4.conf.default.rp_filter=1" '' @ [CHR 0x5C] @ ''
  "net.ipv4.conf.all.accept_source_route=0" '' @ [CHR 0x5C] @ ''
  "net.ipv6.conf.all.accept_source_route=0" '' @ [CHR 0x5C] @ ''
  "net.ipv4.conf.all.accept_redirects=0" '' @ [CHR 0x5C] @ ''
  "net.ipv6.conf.all.accept_redirects=0" '' @ [CHR 0x5C] @ ''
  "net.ipv4.conf.all.send_redirects=0" '' @ [CHR 0x5C] @ ''
  "net.ipv4.conf.default.send_redirects=0" '' @ [CHR 0x5C] @ ''
  "kernel.yama.ptrace_scope=1"; do
    key="${kv%%=*}"
    sudo grep -q "^${key}" /etc/sysctl.conf || echo "$kv" | sudo tee -a /etc/sysctl.conf > /dev/null
done
sudo sysctl -p
''))
     (wrapE ''kernel tuning: %w'' [])\<close>

definition ignoreList :: "string \<Rightarrow> string" where
  "ignoreList admin =
     foldl (\<lambda>acc ip0. let ip = trimSpace ip0 in if ip \<noteq> '''' then acc @ '' '' @ ip else acc)
       ''127.0.0.1/8 ::1'' (splitOn CHR '','' admin)"

definition fail2banAndUpgrades :: "conn \<Rightarrow> hardConfig \<Rightarrow> unit res prog" where
  \<open>fail2banAndUpgrades c cfg =
     (let sshPort = (if MigrateSSH cfg then hcSSHPort cfg else 22) in
      runU c (Fmt ''
sudo tee /etc/fail2ban/jail.local > /dev/null << 'F2B'
[DEFAULT]
bantime = 3600
findtime = 600
maxretry = 5
ignoreip = %s
[sshd]
enabled = true
port = %d
logpath = %%(sshd_log)s
backend = %%(sshd_backend)s
F2B
sudo systemctl restart fail2ban
echo "fail2ban: OK"

sudo tee /etc/apt/apt.conf.d/20auto-upgrades > /dev/null << 'UP'
APT::Periodic::Update-Package-Lists "1";
APT::Periodic::Download-Upgradeable-Packages "1";
APT::Periodic::AutocleanInterval "7";
APT::Periodic::Unattended-Upgrade "1";
UP
echo "unattended-upgrades: OK"
''
                [Str (ignoreList (hcAdminIPs cfg)), Num sshPort])
        (wrapE ''fail2ban: %w'' []))\<close>

definition sshHardening :: "conn \<Rightarrow> hardConfig \<Rightarrow> unit res prog" where
  \<open>sshHardening c cfg =
     runU c (Fmt ((''
sudo cp /etc/ssh/sshd_config /etc/ssh/sshd_config.bak 2>/dev/null

# Harden SSH (CIS Level 1)
sudo sed -i 's/^#'' @ [CHR 0x5C] @ ''?PermitRootLogin.*/PermitRootLogin no/' /etc/ssh/sshd_config
sudo sed -i 's/^#PasswordAuthentication yes/PasswordAuthentication no/' /etc/ssh/sshd_config
sudo sed -i 's/^PasswordAuthentication yes/PasswordAuthentication no/' /etc/ssh/sshd_config
sudo sed -i 's/^#MaxAuthTries.*/MaxAuthTries 3/' /etc/ssh/sshd_config
sudo grep -q '^MaxAuthTries' /etc/ssh/sshd_config || echo 'MaxAuthTries 3' | sudo tee -a /etc/ssh/sshd_config > /dev/null
sudo sed -i 's/^#PermitEmptyPasswords.*/PermitEmptyPasswords no/' /etc/ssh/sshd_config
sudo grep -q '^PermitEmptyPasswords' /etc/ssh/sshd_config || echo 'PermitEmptyPasswords no' | sudo tee -a /etc/ssh/sshd_config > /dev/null

# Copy SSH key to new user
sudo mkdir -p /home/%s/.ssh
sudo cp /root/.ssh/authorized_keys /home/%s/.ssh/ 2>/dev/null || true
sudo chown -R %s:%s /home/%s/.ssh
'') @
       (if MigrateSSH cfg then ''
# Add new SSH port %d while keeping port 22
echo "Port %d" | sudo tee -a /etc/ssh/sshd_config > /dev/null
echo "SSH port %d added (port 22 kept)"
''
        else ''
echo "SSH port 22 (unchanged)"
'') @
       ''
# Restart SSH
if systemctl list-units --type=service 2>/dev/null | grep -q sshd.service; then
    sudo systemctl restart sshd
else
    sudo systemctl restart ssh
fi
'')
       (replicate 5 (Str (hcUser cfg)) @ (if MigrateSSH cfg then replicate 3 (Num (hcSSHPort cfg)) else [])))
     (wrapE ''ssh: %w'' [])\<close>

definition removeUnusedServices :: "conn \<Rightarrow> hardConfig \<Rightarrow> unit res prog" where
  \<open>removeUnusedServices c cfg = sshRunStream c (Raw ''
for svc in telnet ftp rsh rpcbind avahi-daemon cups; do
    sudo systemctl disable --now "$svc" 2>/dev/null || true
done
for pkg in telnet ftp rsh-client rpcbind avahi-daemon cups; do
    sudo apt-get remove -y -qq "$pkg" 2>/dev/null || true
done
echo "unused-services: OK"
'')\<close>

definition openPorts :: "hardConfig \<Rightarrow> string" where
  \<open>openPorts cfg =
     (if MigrateSSH cfg
      then ''22, '' @ itoa (hcSSHPort cfg) @ '', 80, 443, 6443'' @ (if hcEnableMonitor cfg then '', 9100'' else '''')
      else if hcEnableMonitor cfg then ''22, 80, 443, 6443, 9100'' else ''22, 80, 443, 6443'')\<close>

definition nftablesScript :: string where
  \<open>nftablesScript =
''
sudo tee /etc/nftables.conf > /dev/null << 'NFT'
#!/usr/sbin/nft -f
table inet filter {
    chain input {
        type filter hook input priority 0; policy drop;
        iif lo accept
        ct state established,related accept
        tcp dport { %s } accept
        ip protocol icmp accept
        ip6 nexthdr icmpv6 accept
    }
    chain forward { type filter hook forward priority 0; policy accept; }
    chain output { type filter hook output priority 0; policy accept; }
}
NFT
sudo systemctl enable nftables && sudo systemctl restart nftables && echo "nftables: OK (ports %s)"
''\<close>

definition nftablesFirewall :: "conn \<Rightarrow> hardConfig \<Rightarrow> unit res prog" where
  \<open>nftablesFirewall c cfg =
     runU c (Fmt nftablesScript [Str (openPorts cfg), Str (openPorts cfg)])
       (wrapE ''nftables: %w'' [])\<close>

definition installAuditd :: "conn \<Rightarrow> hardConfig \<Rightarrow> unit res prog" where
  \<open>installAuditd c cfg = (if \<not> hcEnableAuditd cfg then okP
     else sshRunStream c (Raw ''
if ! command -v auditd &>/dev/null; then
    sudo apt-get install -y -qq auditd audispd-plugins 2>&1 | tail -1
fi
sudo systemctl enable auditd 2>/dev/null || true
sudo systemctl start auditd 2>/dev/null || true
echo "auditd: OK"
''))\<close>

definition installLynis :: "conn \<Rightarrow> hardConfig \<Rightarrow> unit res prog" where
  \<open>installLynis c cfg = (if \<not> hcEnableLynis cfg then okP
     else sshRunStream c (Raw ''
if ! command -v lynis &>/dev/null; then
    sudo apt-get install -y -qq lynis 2>&1 | tail -1
fi
echo "lynis: OK"
''))\<close>

definition installUSG :: "conn \<Rightarrow> hardConfig \<Rightarrow> unit res prog" where
  \<open>installUSG c cfg = (if \<not> hcEnableUSG cfg then okP
     else sshRunStream c (Raw ''
if ! command -v usg &>/dev/null; then
    sudo apt-get install -y -qq ubuntu-advantage-tools 2>&1 | tail -1
    sudo pro enable usg 2>&1 | tail -1
    sudo apt-get install -y -qq usg 2>&1 | tail -1
fi
echo "usg: OK"
''))\<close>

definition nodeExporterScript :: string where
  \<open>nodeExporterScript =
''
NODE_EXPORTER_VER="1.8.2"
if command -v node_exporter &>/dev/null; then
    echo "node_exporter already installed"
    exit 0
fi
cd /tmp
curl -fsSLO "https://github.com/prometheus/node_exporter/releases/download/v${NODE_EXPORTER_VER}/node_exporter-${NODE_EXPORTER_VER}.linux-amd64.tar.gz"
tar xzf "node_exporter-${NODE_EXPORTER_VER}.linux-amd64.tar.gz"
sudo cp "node_exporter-${NODE_EXPORTER_VER}.linux-amd64/node_exporter" /usr/local/bin/
rm -rf "node_exporter-${NODE_EXPORTER_VER}.linux-amd64" "node_exporter-${NODE_EXPORTER_VER}.linux-amd64.tar.gz"

sudo tee /etc/systemd/system/node_exporter.service > /dev/null << 'SERVICE'
[Unit]
Description=Prometheus Node Exporter
After=network.target

[Service]
Type=simple
ExecStart=/usr/local/bin/node_exporter --web.listen-address=:9100
Restart=always

[Install]
WantedBy=multi-user.target
SERVICE

sudo systemctl daemon-reload
sudo systemctl enable node_exporter
sudo systemctl start node_exporter
echo "node_exporter: OK (port 9100)"
''\<close>

definition installNodeExporter :: "conn \<Rightarrow> hardConfig \<Rightarrow> unit res prog" where
  \<open>installNodeExporter c cfg = (if \<not> hcEnableMonitor cfg then okP
     else runU c (Raw nodeExporterScript) (wrapE ''node_exporter: %w'' []))\<close>

section \<open>Applying the steps\<close>

definition hardeningSteps :: "(conn \<Rightarrow> hardConfig \<Rightarrow> unit res prog) list" where
  "hardeningSteps =
     [setupSwap, installPackages, createUser, kernelTuning, removeUnusedServices, fail2banAndUpgrades,
      sshHardening, nftablesFirewall, installAuditd, installLynis, installUSG, installNodeExporter]"

primrec runSteps :: "(conn \<Rightarrow> hardConfig \<Rightarrow> unit res prog) list \<Rightarrow> conn \<Rightarrow> hardConfig \<Rightarrow> unit res prog" where
  "runSteps [] c cfg = okP"
| "runSteps (f # fs) c cfg = bind (f c cfg) (\<lambda>_. runSteps fs c cfg)"

definition applyHardening :: "conn \<Rightarrow> hardConfig \<Rightarrow> unit res prog" where
  "applyHardening c cfg = runSteps hardeningSteps c cfg"

section \<open>Single rules of the firewall\<close>

definition PeerProto :: "int \<Rightarrow> string" where
  "PeerProto port = (if port = 8472 then ''udp'' else ''tcp'')"

definition peerScript :: string where
  \<open>peerScript =
''if ! sudo nft list table inet filter >/dev/null 2>&1; then
  echo "peer expose: nftables table missing" >&2
  exit 1
fi
HANDLES=$(sudo nft --handle list chain inet filter input 2>/dev/null '' @
[CHR 0x5C] @
''
  | grep -E "dport %[1]d([^0-9]|$)" | grep -F "%[3]s" '' @
[CHR 0x5C] @
''
  | grep -oE 'handle [0-9]+' | awk '{print $2}')
for h in $HANDLES; do
  sudo nft delete rule inet filter input handle $h 2>/dev/null || true
done
sudo nft add rule inet filter input %[4]s dport %[1]d %[3]s accept
sudo nft list table inet filter | sudo tee /etc/nftables.conf > /dev/null
echo "peer %[1]d/%[4]s open for %[2]s (direct)"
''\<close>

definition ExposePeerPortDirect :: "conn \<Rightarrow> int \<Rightarrow> string \<Rightarrow> string \<Rightarrow> unit res prog" where
  \<open>ExposePeerPortDirect c port proto ip0 =
     (let ip = trimSpace ip0;
          fam = (if containsStr ip '':'' then ''ip6'' else ''ip'');
          go = (\<lambda>addr. let saddr = fam @ '' saddr '' @ addr in
            runU c (Fmt peerScript [Num port, Str ip, Str saddr, Str proto])
              (wrapO ''peer expose direct %d: %w
%s'' [Num port]))
      in if parseCIDR ip = None then
           (if parseIP ip = None then fail (Errorf ''peer expose: %q is not a valid IP or CIDR'' [Str ip])
            else go (ip @ (if fam = ''ip'' then ''/32'' else ''/128'')))
         else go ip)\<close>

definition firewallOpenScript :: string where
  \<open>firewallOpenScript =
''
sudo nft add table inet filter 2>/dev/null || true
sudo nft add chain inet filter input '{ type filter hook input priority 0; policy accept; }' 2>/dev/null || true
CURRENT=$(sudo nft list chain inet filter input 2>/dev/null || echo "")
'' @
[CHR 0x09] @
''if echo "$CURRENT" | grep -q "dport %[1]d"; then
    echo "port %[1]d/%[2]s already open"
    exit 0
fi
sudo nft add rule inet filter input %[2]s dport %[1]d accept
sudo nft list table inet filter | sudo tee /etc/nftables.conf >/dev/null 2>&1 || true
echo "port %[1]d/%[2]s opened"
''\<close>

definition FirewallOpen :: "conn \<Rightarrow> int \<Rightarrow> string \<Rightarrow> unit res prog" where
  \<open>FirewallOpen c port proto = runU c (Fmt firewallOpenScript [Num port, Str proto])
     (wrapO ''firewall open %d: %w
%s'' [Num port])\<close>

definition firewallCloseScript :: string where
  \<open>firewallCloseScript =
''
if ! sudo nft list table inet filter >/dev/null 2>&1; then
    echo "firewall not configured (no inet filter table)"
    exit 0
fi
RULES=$(sudo nft --handle list chain inet filter input 2>/dev/null | grep "dport %[1]d" | grep -o 'handle [0-9]*' | awk '{print $2}')
if [ -z "$RULES" ]; then
    echo "port %[1]d/%[2]s not found in firewall"
    exit 0
fi
for h in $RULES; do
    sudo nft delete rule inet filter input handle $h 2>/dev/null || true
done
sudo nft list table inet filter | sudo tee /etc/nftables.conf >/dev/null 2>&1 || true
echo "port %[1]d/%[2]s closed"
''\<close>

definition FirewallClose :: "conn \<Rightarrow> int \<Rightarrow> string \<Rightarrow> unit res prog" where
  \<open>FirewallClose c port proto = runU c (Fmt firewallCloseScript [Num port, Str proto])
     (wrapO ''firewall close %d: %w
%s'' [Num port])\<close>

definition FirewallList :: "conn \<Rightarrow> string res prog" where
  \<open>FirewallList c = runE c (Raw ''sudo nft list table inet filter 2>/dev/null || echo "no nftables rules found"'')
     (wrapE ''firewall list: %w'' [])\<close>

definition Fail2banBan :: "conn \<Rightarrow> string \<Rightarrow> unit res prog" where
  \<open>Fail2banBan c ip0 =
     (let ip = trimSpace ip0 in
      case ValidateCIDR ip of
        Inl e \<Rightarrow> fail (Wrapf ''ban requires a literal IP/CIDR: %w'' [] e)
      | Inr _ \<Rightarrow>
          runU c (Fmt ''
if ! command -v fail2ban-client >/dev/null 2>&1; then
  echo "fail2ban not installed (run infra init first)" >&2
  exit 1
fi
sudo fail2ban-client set sshd banip %[1]s 2>&1 | tail -1
echo "banned %[1]s"
'' [Str ip])
            (wrapO ''fail2ban ban %s: %w
%s'' [Str ip]))\<close>

definition Fail2banUnban :: "conn \<Rightarrow> string \<Rightarrow> unit res prog" where
  \<open>Fail2banUnban c ip0 =
     (let ip = trimSpace ip0 in
      case ValidateCIDR ip of
        Inl e \<Rightarrow> fail (Wrapf ''unban requires a literal IP/CIDR: %w'' [] e)
      | Inr _ \<Rightarrow>
          runU c (Fmt ''
if ! command -v fail2ban-client >/dev/null 2>&1; then
  echo "fail2ban not installed (run infra init first)" >&2
  exit 1
fi
sudo fail2ban-client unban %[1]s 2>&1 | tail -1
echo "unbanned %[1]s"
'' [Str ip])
            (wrapO ''fail2ban unban %s: %w
%s'' [Str ip]))\<close>

definition Fail2banBans :: "conn \<Rightarrow> string res prog" where
  \<open>Fail2banBans c = runE c (Raw ''sudo fail2ban-client status sshd 2>/dev/null | grep "Banned IP" || echo "no bans"'')
     (wrapE ''fail2ban status: %w'' [])\<close>

end
