(* ===== verification/AllowlistOps.thy ===== *)
theory AllowlistOps imports Remote Allowlist begin

text \<open>
  The allowlist on the node (\<open>hardening/allowlist_remote.go\<close>): installing it behind an armed
  rollback, committing, refreshing and removing it, the permanent admin addresses, and the
  registry of exposed ports with the rules each scope stands for.
\<close>

section \<open>The scripts of the install\<close>

definition allowlistUpdaterScript :: string where
  \<open>allowlistUpdaterScript =
''#!/usr/bin/env bash
# sdk-ops firewall allowlist updater (managed by sdk-ops infra firewall)
# Fetches provider IP ranges and updates the nftables allow4/allow6 sets.
# Fail-open: never empties the sets when fetching or validation fails.
set -u

SOURCES_FILE=/etc/sdk-ops/firewall/sources
STATE_FILE=/etc/sdk-ops/firewall/state
LOG_FILE=/var/log/sdk-ops-allowlist.log
ADMIN4_FILE=/etc/sdk-ops/firewall/admin4.elements
ADMIN6_FILE=/etc/sdk-ops/firewall/admin6.elements
NOTIFY_ENV=/etc/sdk-ops/firewall/notify.env
MIN_CIDRS=4
MAX_DEPTH=10

log() { echo "[$(date -u +%FT%TZ)] $*" >> "$LOG_FILE"; }

# Optional Telegram alerting (configured via provision YAML -> notify.env)
[ -f "$NOTIFY_ENV" ] && . "$NOTIFY_ENV"
notify() {
  [ -n "${TELEGRAM_API_KEY:-}" ] && [ -n "${TELEGRAM_CHAT_ID:-}" ] || return 0
  curl -fsS --connect-timeout 5 --max-time 10 "https://api.telegram.org/bot$TELEGRAM_API_KEY/sendMessage" '' @
[CHR 0x5C] @
''
    --data-urlencode "chat_id=$TELEGRAM_CHAT_ID" '' @
[CHR 0x5C] @
''
    --data-urlencode "text=$1" >/dev/null 2>&1 || true
}

cidr4() {
  grep -Eq '^((25[0-5]|2[0-4][0-9]|1[0-9]{2}|[1-9]?[0-9])'' @
[CHR 0x5C] @
''.){3}(25[0-5]|2[0-4][0-9]|1[0-9]{2}|[1-9]?[0-9])(/(3[0-2]|[12]?[0-9]))?$' <<< "$1"
}

cidr6() {
  [[ "$1" == *:* ]] && grep -Eq '^[0-9a-fA-F:.]+(/[0-9]{1,3})?$' <<< "$1"
}

fetch_url() { curl -fsSL --connect-timeout 10 --max-time 30 "$1" 2>/dev/null; }

fetch_cf() {
  fetch_url https://www.cloudflare.com/ips-v4
  echo
  fetch_url https://www.cloudflare.com/ips-v6
}

declare -A VISITED
resolve_txt() {
  local fqdn=$1 depth=${2:-0}
  [ "$depth" -gt "$MAX_DEPTH" ] && return 1
  [ -n "${VISITED[$fqdn]:-}" ] && return 0
  VISITED[$fqdn]=1
  local recs tok
  recs=$(dig +short TXT "$fqdn" 2>/dev/null) || return 1
  for tok in $recs; do
    tok=${tok//'' @
[CHR 0x5C] @
''"/}
    case "$tok" in
      include:*) resolve_txt "${tok#include:}" "$((depth+1))" || return 1 ;;
      *) echo "$tok" ;;
    esac
  done
}

gather() {
  local line
  while IFS= read -r line; do
    [ -z "$line" ] && continue
    case "$line" in
      cf) fetch_cf ;;
      url:*) fetch_url "${line#url:}" ;;
      dns:*) resolve_txt "${line#dns:}" 0 ;;
      *) continue ;;
    esac
  done < "$SOURCES_FILE"
}

# self_heal_admin restores admin sets from the files written at install time.
# The daily refresh never touches admin sets, but if they ever disappear this
# brings the operator bootstrap entries back before applying provider ranges.
self_heal_admin() {
  local v4 v6
  if [ -f "$ADMIN4_FILE" ]; then
    v4=$(tr '' @
[CHR 0x27, CHR 0x5C] @
''n' ' ' < "$ADMIN4_FILE" | sed 's/  */ /g; s/^ //; s/ $//')
    [ -n "$v4" ] && {
      if ! sudo nft list set inet filter admin4 2>/dev/null | grep -q 'elements'; then
        sudo nft add element inet filter admin4 { $v4 } 2>/dev/null && log "self-heal: admin4 restored ($v4)"
      fi
    }
  fi
  if [ -f "$ADMIN6_FILE" ]; then
    v6=$(tr '' @
[CHR 0x27, CHR 0x5C] @
''n' ' ' < "$ADMIN6_FILE" | sed 's/  */ /g; s/^ //; s/ $//')
    [ -n "$v6" ] && {
      if ! sudo nft list set inet filter admin6 2>/dev/null | grep -q 'elements'; then
        sudo nft add element inet filter admin6 { $v6 } 2>/dev/null && log "self-heal: admin6 restored ($v6)"
      fi
    }
  fi
}

update() {
  local tmp4 tmp6 fw line n4 n6
  tmp4=$(mktemp); tmp6=$(mktemp); fw=$(mktemp)
  while IFS= read -r line; do
    case "$line" in
      *:*:*|*::*) cidr6 "$line" && echo "$line" >> "$tmp6" ;;
      *) cidr4 "$line" && echo "$line" >> "$tmp4" ;;
    esac
  done < <(gather | tr '[:space:]' '' @
[CHR 0x27, CHR 0x5C] @
''n' | sed '/^$/d' | sort -u)

  n4=$(wc -l < "$tmp4"); n6=$(wc -l < "$tmp6")
  if [ $((n4 + n6)) -lt "$MIN_CIDRS" ]; then
    log "ABORT: too few CIDRs (v4=$n4 v6=$n6, need >= $MIN_CIDRS)"
    notify "sdk-ops $(hostname): allowlist refresh ABORTED '' @
[CHR 0xE2, CHR 0x80, CHR 0x94] @
'' too few CIDRs (v4=$n4 v6=$n6)"
    rm -f "$tmp4" "$tmp6" "$fw"
    exit 1
  fi

  {
    echo "flush set inet filter allow4"
    [ "$n4" -gt 0 ] && echo "add element inet filter allow4 { $(paste -sd, "$tmp4") }"
    echo "flush set inet filter allow6"
    [ "$n6" -gt 0 ] && echo "add element inet filter allow6 { $(paste -sd, "$tmp6") }"
  } > "$fw"

  if ! sudo nft -c -f "$fw" 2>/dev/null; then
    log "ABORT: nft parse failed"
    notify "sdk-ops $(hostname): allowlist refresh ABORTED '' @
[CHR 0xE2, CHR 0x80, CHR 0x94] @
'' nft parse failed"
    rm -f "$tmp4" "$tmp6" "$fw"
    exit 1
  fi
  if ! sudo nft -f "$fw" 2>/dev/null; then
    log "ABORT: nft apply failed"
    notify "sdk-ops $(hostname): allowlist refresh ABORTED '' @
[CHR 0xE2, CHR 0x80, CHR 0x94] @
'' nft apply failed"
    rm -f "$tmp4" "$tmp6" "$fw"
    exit 1
  fi

  sudo sh -c 'nft list table inet filter > /etc/nftables.conf' 2>/dev/null || true
  printf 'last_sync=%s'' @
[CHR 0x5C] @
''ncount_v4=%d'' @
[CHR 0x5C] @
''ncount_v6=%d'' @
[CHR 0x5C] @
''n' "$(date -u +%FT%TZ)" "$n4" "$n6" > "$STATE_FILE"
  log "updated v4=$n4 v6=$n6"
  echo "allowlist updated: v4=$n4 v6=$n6"
  rm -f "$tmp4" "$tmp6" "$fw"
}

self_heal_admin
update
''\<close>

definition installScript :: string where
  \<open>installScript =
''
set -e
sudo mkdir -p /etc/sdk-ops/firewall /opt/sdk-ops/firewall

# snapshot the current live table so the auto-rollback can restore it
sudo sh -c 'nft list table inet filter > /etc/sdk-ops/firewall/rollback.nft' 2>/dev/null || true

# keep the pre-feature config so allowlist remove can restore it
if [ -f /etc/nftables.conf ] && [ ! -f /etc/sdk-ops/firewall/nftables.conf.bak ]; then
  sudo cp /etc/nftables.conf /etc/sdk-ops/firewall/nftables.conf.bak
fi

sudo tee %[3]s > /dev/null << 'SRCEOF'
%[2]s
SRCEOF

sudo tee %[4]s > /dev/null << 'ADMIN4EOF'
%[6]s
ADMIN4EOF

sudo tee %[5]s > /dev/null << 'ADMIN6EOF'
%[7]s
ADMIN6EOF

sudo tee %[8]s > /dev/null << 'CONFEOF'
%[1]s
CONFEOF

# validate, then apply (flushing only our own table, never Docker tables)
sudo nft -c -f %[8]s || { echo "allowlist: config check failed" >&2; exit 1; }
sudo nft flush table inet filter 2>/dev/null || true
sudo nft -f %[8]s || {
  echo "allowlist: apply failed, rolling back" >&2
  sudo nft -f /etc/sdk-ops/firewall/rollback.nft 2>/dev/null || true
  exit 1
}
sudo cp %[8]s /etc/nftables.conf

# arm auto-rollback: if the CLI does not commit within 30s, restore previous state
sudo systemctl reset-failed sdk-ops-fw-rollback 2>/dev/null || true
sudo rm -f /tmp/sdk-ops-fw-commit
sudo systemd-run --on-active=30 --unit=sdk-ops-fw-rollback /bin/sh -c 'test -e /tmp/sdk-ops-fw-commit && exit 0; nft -f /etc/sdk-ops/firewall/rollback.nft 2>/dev/null || true' 2>/dev/null || true

sudo tee /opt/sdk-ops/firewall/allowlist.sh > /dev/null << 'SCRIPTEOF'
%[9]s
SCRIPTEOF
sudo chown sdkops:sdkops /opt/sdk-ops/firewall/allowlist.sh
sudo chmod 0750 /opt/sdk-ops/firewall/allowlist.sh

sudo tee /etc/systemd/system/sdk-ops-allowlist.service > /dev/null << 'SERVICEEOF'
[Unit]
Description=sdk-ops firewall allowlist updater
After=network-online.target
Wants=network-online.target

[Service]
Type=oneshot
User=sdkops
ExecStart=/opt/sdk-ops/firewall/allowlist.sh
SERVICEEOF
sudo tee /etc/systemd/system/sdk-ops-allowlist.timer > /dev/null << 'TIMEREOF'
[Unit]
Description=sdk-ops firewall allowlist refresh timer

[Timer]
OnCalendar=daily
Persistent=true
RandomizedDelaySec=300

[Install]
WantedBy=timers.target
TIMEREOF
sudo touch /var/log/sdk-ops-allowlist.log 2>/dev/null || true
sudo chown sdkops:sdkops /var/log/sdk-ops-allowlist.log 2>/dev/null || true
sudo usermod -aG systemd-journal sdkops 2>/dev/null || true
sudo systemctl daemon-reload
sudo systemctl enable nftables 2>/dev/null || true
sudo systemctl enable --now sdk-ops-allowlist.timer 2>/dev/null
echo "allowlist: config applied, rollback armed, timer enabled"
''\<close>

section \<open>Exposed ports\<close>

datatype scope = ScopeAdmin | ScopeGlobal | ScopeTraefik | ScopeIPs | ScopeOther string

definition scopeOf :: "string \<Rightarrow> scope" where
  "scopeOf s = (if s = ''admin'' then ScopeAdmin else if s = ''global'' then ScopeGlobal
     else if s = ''traefik'' then ScopeTraefik else if s = ''ips'' then ScopeIPs else ScopeOther s)"

primrec scopeName :: "scope \<Rightarrow> string" where
  "scopeName ScopeAdmin = ''admin''"
| "scopeName ScopeGlobal = ''global''"
| "scopeName ScopeTraefik = ''traefik''"
| "scopeName ScopeIPs = ''ips''"
| "scopeName (ScopeOther s) = s"

definition portsRegistryPath :: string where
  "portsRegistryPath = ''/etc/sdk-ops/firewall/ports.yaml''"

primrec exposeIPs :: "string list \<Rightarrow> string list \<Rightarrow> string list \<Rightarrow> (string list \<times> string list) res" where
  "exposeIPs [] v4s v6s = Inr (v4s, v6s)"
| "exposeIPs (raw # raws) v4s v6s =
     (let ip = NormalizeCIDR (trimSpace raw) in
      case ValidateCIDR ip of
        Inl e \<Rightarrow> Inl (Wrapf ''invalid IP %q: %w'' [Str raw] e)
      | Inr isV6 \<Rightarrow> if isV6 then exposeIPs raws v4s (v6s @ [ip]) else exposeIPs raws (v4s @ [ip]) v6s)"

text \<open>The rules of a scope, and the address field of its registry line.\<close>

definition buildExposeRules :: "int \<Rightarrow> string \<Rightarrow> scope \<Rightarrow> string list \<Rightarrow> (string \<times> string) res" where
  \<open>buildExposeRules port proto sc ips =
     (let protoExpr = proto @ '' dport'' in
      case sc of
        ScopeAdmin \<Rightarrow> Inr (sprintf ''sudo nft add rule inet filter exposed %[1]s %[2]d ip saddr @admin4 accept
sudo nft add rule inet filter exposed %[1]s %[2]d ip6 saddr @admin6 accept
sudo nft add rule inet filter exposed %[1]s %[2]d drop'' [Str protoExpr, Num port], '''')
      | ScopeGlobal \<Rightarrow> Inr (sprintf ''sudo nft add rule inet filter exposed %[1]s %[2]d accept'' [Str protoExpr, Num port], '''')
      | ScopeTraefik \<Rightarrow> Inr ('''', '''')
      | ScopeIPs \<Rightarrow>
          (if ips = [] then Inl (Errorf ''ips scope requires at least one IP via --ips'' [])
           else case exposeIPs ips [] [] of
             Inl e \<Rightarrow> Inl e
           | Inr (v4s, v6s) \<Rightarrow>
               Inr (concat (map (\<lambda>ip. sprintf ''sudo nft add rule inet filter exposed %s %d ip saddr %s accept
'' [Str protoExpr, Num port, Str ip]) v4s) @
                    concat (map (\<lambda>ip. sprintf ''sudo nft add rule inet filter exposed %s %d ip6 saddr %s accept
'' [Str protoExpr, Num port, Str ip]) v6s) @
                    sprintf ''sudo nft add rule inet filter exposed %s %d drop'' [Str protoExpr, Num port],
                    joinWith '','' (v4s @ v6s)))
      | ScopeOther s \<Rightarrow> Inl (Errorf ''unknown scope %q (admin, global, ips, traefik)'' [Str s]))\<close>

definition peerCriticalPorts :: "int list" where
  "peerCriticalPorts = [8472, 2379, 2380, 10250]"

definition validateAllowlistPort :: "int \<Rightarrow> goerr option" where
  \<open>validateAllowlistPort port =
     (if port \<in> set peerCriticalPorts
      then Some (Errorf ''port %d is a cluster peer port handled by the fleet direct rules - do not expose it via the allowlist'' [Num port])
      else None)\<close>

definition exposeScript :: string where
  \<open>exposeScript =
''
if ! sudo nft list table inet filter 2>/dev/null | grep -q 'set admin4'; then
  echo "allowlist: not installed" >&2
  exit 1
fi
# self-heal the exposed chain (older configs may lack it)
sudo nft add chain inet filter exposed { } 2>/dev/null || true
if ! sudo nft list chain inet filter input 2>/dev/null | grep -q 'jump exposed'; then
  sudo nft insert rule inet filter input jump exposed
fi
if ! sudo nft list chain inet filter forward 2>/dev/null | grep -q 'jump exposed'; then
  sudo nft insert rule inet filter forward jump exposed
fi
# chain dedup: drop existing rules for this port first (the registry sed
# below dedups the file, but the live chain would otherwise accumulate
# duplicate sets on every re-expose)
HANDLES=$(sudo nft --handle list chain inet filter exposed 2>/dev/null | grep -E "dport %[2]d([^0-9]|$)" | grep -oE 'handle [0-9]+' | awk '{print $2}')
for h in $HANDLES; do
  sudo nft delete rule inet filter exposed handle $h 2>/dev/null || true
done
%[3]s
# dedup: one registry line per port/proto/scope, keep the freshest
sudo sed -i "/^%[2]d %[4]s %[5]s /d" %[1]s 2>/dev/null || true
echo "%[2]d %[4]s %[5]s %[6]s %[7]s" | sudo tee -a %[1]s > /dev/null
sudo nft list table inet filter | sudo tee /etc/nftables.conf > /dev/null
echo "port %[2]d/%[4]s exposed (%[5]s)"
''\<close>

definition AllowlistExposePort :: "conn \<Rightarrow> int \<Rightarrow> string \<Rightarrow> scope \<Rightarrow> string list \<Rightarrow> unit res prog" where
  \<open>AllowlistExposePort c port proto sc ips =
     (if port < 1 \<or> port > 65535 then fail (Errorf ''port out of range: %d'' [Num port])
      else case validateAllowlistPort port of
        Some e \<Rightarrow> fail e
      | None \<Rightarrow>
        (if proto \<noteq> ''tcp'' \<and> proto \<noteq> ''udp'' then fail (Errorf ''proto must be tcp or udp'' [])
         else case buildExposeRules port proto sc ips of
           Inl e \<Rightarrow> fail e
         | Inr (rules, ipsField) \<Rightarrow>
             bind nowP (\<lambda>now.
             runU c (Fmt exposeScript [Str portsRegistryPath, Num port, Str rules, Str proto,
                       Str (scopeName sc), Str ipsField, Str now])
               (wrapO ''allowlist expose %d: %w
%s'' [Num port]))))\<close>

definition AllowlistInstalled :: "conn \<Rightarrow> bool prog" where
  \<open>AllowlistInstalled c =
     bind (sshRun c (Raw (''if [ -f /etc/systemd/system/sdk-ops-allowlist.timer ] || sudo test -f '' @
        portsRegistryPath @ ''; then echo yes; else echo no; fi''))) (\<lambda>(out, e).
       Ret (e = None \<and> trimSpace out = ''yes''))\<close>

definition unexposeScript :: string where
  \<open>unexposeScript =
''
HANDLES=$(sudo nft --handle list chain inet filter exposed 2>/dev/null | grep -E "dport %[1]d([^0-9]|$)" | grep -oE 'handle [0-9]+' | awk '{print $2}')
for h in $HANDLES; do
  sudo nft delete rule inet filter exposed handle $h 2>/dev/null || true
done
sudo sed -i '/^%[1]d /d' %[2]s 2>/dev/null || true
sudo nft list table inet filter | sudo tee /etc/nftables.conf > /dev/null
echo "port %[1]d unexposed"
''\<close>

definition AllowlistUnexposePort :: "conn \<Rightarrow> int \<Rightarrow> unit res prog" where
  \<open>AllowlistUnexposePort c port =
     runU c (Fmt unexposeScript [Num port, Str portsRegistryPath])
       (wrapO ''allowlist unexpose %d: %w
%s'' [Num port])\<close>

definition AllowlistPorts :: "conn \<Rightarrow> string res prog" where
  \<open>AllowlistPorts c =
     runE c (Raw (''sudo cat '' @ portsRegistryPath @ '' 2>/dev/null || echo "no exposed ports"''))
       (wrapE ''allowlist ports: %w'' [])\<close>

text \<open>One registry line read back: its port, protocol, scope and addresses.\<close>

definition registryLine :: "string \<Rightarrow> (int \<times> string \<times> scope \<times> string list) option" where
  "registryLine line =
     (let fs = goFields line in
      if length fs < 3 then None
      else case sscanfD (fs ! 0) of
        None \<Rightarrow> None
      | Some port \<Rightarrow>
          if port = 0 then None
          else Some (port, fs ! 1, scopeOf (fs ! 2),
                     if length fs > 3 \<and> fs ! 3 \<noteq> '''' then splitOn CHR '','' (fs ! 3) else []))"

primrec reapplyLines :: "conn \<Rightarrow> string list \<Rightarrow> unit prog" where
  "reapplyLines c [] = Ret ()"
| "reapplyLines c (l # ls) =
     (case registryLine l of
        None \<Rightarrow> reapplyLines c ls
      | Some (port, proto, sc, ips) \<Rightarrow>
          bind (AllowlistExposePort c port proto sc ips) (\<lambda>_. reapplyLines c ls))"

definition reapplyPortRegistry :: "conn \<Rightarrow> unit prog" where
  \<open>reapplyPortRegistry c =
     bind (sshRun c (Raw (''sudo cat '' @ portsRegistryPath @ '' 2>/dev/null || true''))) (\<lambda>(out, e).
       if e \<noteq> None \<or> trimSpace out = '''' then Ret ()
       else reapplyLines c (splitOn CHR 0x0A out))\<close>

section \<open>The allowlist itself\<close>

definition seed_script :: script where
  \<open>seed_script = Raw ''sudo /opt/sdk-ops/firewall/allowlist.sh''\<close>

definition install_script :: "allowlistConfig \<Rightarrow> script" where
  \<open>install_script cfg =
     Fmt installScript [Str (GenerateAllowlistConfig cfg), Str (Source_String (acSource cfg)),
       Str ''/etc/sdk-ops/firewall/sources'', Str ''/etc/sdk-ops/firewall/admin4.elements'',
       Str ''/etc/sdk-ops/firewall/admin6.elements'',
       Str (joinWith ''\<newline>'' (acAdmin4 cfg)), Str (joinWith ''\<newline>'' (acAdmin6 cfg)),
       Str ''/etc/sdk-ops/firewall/nftables.conf'', Str allowlistUpdaterScript]\<close>

definition InstallAllowlist :: "conn \<Rightarrow> allowlistConfig \<Rightarrow> unit res prog" where
  \<open>InstallAllowlist c cfg =
     tryP id (runE c (install_script cfg) (wrapO ''allowlist install: %w
%s'' [])) (\<lambda>_.
     tryP id (runE c seed_script (wrapO ''allowlist seed: %w
%s'' [])) (\<lambda>_.
     bind (reapplyPortRegistry c) (\<lambda>_. okP)))\<close>

definition commit_script :: script where
  \<open>commit_script = Raw ''touch /tmp/sdk-ops-fw-commit && sudo systemctl stop sdk-ops-fw-rollback.timer sdk-ops-fw-rollback.service 2>/dev/null || true; echo committed''\<close>

definition CommitAllowlist :: "conn \<Rightarrow> unit res prog" where
  \<open>CommitAllowlist c = runU c commit_script (wrapE ''allowlist commit: %w'' [])\<close>

definition RefreshAllowlist :: "conn \<Rightarrow> unit res prog" where
  \<open>RefreshAllowlist c = runU c seed_script (wrapO ''allowlist refresh: %w
%s'' [])\<close>

definition AllowlistStatus :: "conn \<Rightarrow> string res prog" where
  \<open>AllowlistStatus c = runE c (Raw ''
echo "=== allowlist state ==="
cat /etc/sdk-ops/firewall/state 2>/dev/null || echo "no state (allowlist not installed?)"
echo ""
echo "=== recent updates ==="
tail -5 /var/log/sdk-ops-allowlist.log 2>/dev/null || true
echo ""
echo "=== timer ==="
systemctl list-timers sdk-ops-allowlist.timer --no-pager 2>/dev/null | grep -v '^$' || echo "timer not found"
echo ""
echo "=== live admin4 set ==="
sudo nft list set inet filter admin4 2>/dev/null || echo "set admin4 not found"
echo "=== live admin6 set ==="
sudo nft list set inet filter admin6 2>/dev/null || echo "set admin6 not found"
echo "=== live allow4 set ==="
sudo nft list set inet filter allow4 2>/dev/null || echo "set allow4 not found"
echo "=== live allow6 set ==="
sudo nft list set inet filter allow6 2>/dev/null || echo "set allow6 not found"
'') (wrapE ''allowlist status: %w'' [])\<close>

definition RemoveAllowlist :: "conn \<Rightarrow> unit res prog" where
  \<open>RemoveAllowlist c = runU c (Raw ''
set -e
sudo systemctl stop sdk-ops-allowlist.timer sdk-ops-fw-rollback.timer 2>/dev/null || true
sudo systemctl disable sdk-ops-allowlist.timer 2>/dev/null || true
sudo rm -f /etc/systemd/system/sdk-ops-allowlist.service /etc/systemd/system/sdk-ops-allowlist.timer
sudo rm -f /tmp/sdk-ops-fw-commit
sudo systemctl daemon-reload
if [ -f /etc/sdk-ops/firewall/nftables.conf.bak ]; then
  sudo nft flush table inet filter 2>/dev/null || true
  if sudo nft -c -f /etc/sdk-ops/firewall/nftables.conf.bak; then
    sudo nft -f /etc/sdk-ops/firewall/nftables.conf.bak
    sudo cp /etc/sdk-ops/firewall/nftables.conf.bak /etc/nftables.conf
  else
    echo "allowlist: backup restore failed, keeping current rules" >&2
  fi
else
  echo "allowlist: no backup found, leaving current nftables rules intact" >&2
fi
sudo rm -rf /etc/sdk-ops/firewall /opt/sdk-ops/firewall
sudo systemctl restart nftables 2>/dev/null || true
echo "allowlist removed"
'') (wrapO ''allowlist remove: %w
%s'' [])\<close>

definition adminSet :: "bool \<Rightarrow> string \<times> string" where
  "adminSet isV6 = (if isV6 then (''admin6'', ''/etc/sdk-ops/firewall/admin6.elements'')
                    else (''admin4'', ''/etc/sdk-ops/firewall/admin4.elements''))"

definition AllowlistAdminAdd :: "conn \<Rightarrow> string \<Rightarrow> unit res prog" where
  \<open>AllowlistAdminAdd c ip0 =
     (let ip = NormalizeCIDR ip0 in
      case ValidateCIDR ip of
        Inl e \<Rightarrow> fail e
      | Inr isV6 \<Rightarrow>
          (case adminSet isV6 of (st, elemFile) \<Rightarrow>
             runU c (Fmt ''
if ! sudo nft list table inet filter 2>/dev/null | grep -q 'set %[1]s'; then
  echo "allowlist: not installed (no %[1]s set)" >&2
  exit 1
fi
sudo nft add element inet filter %[1]s { %[2]s }
if ! grep -q '^%[2]s$' %[3]s 2>/dev/null; then echo %[2]s >> %[3]s; fi
sudo nft list table inet filter | sudo tee /etc/nftables.conf >/dev/null
echo "admin IP %[2]s added to %[1]s"
'' [Str st, Str ip, Str elemFile])
               (wrapO ''allowlist admin add: %w
%s'' [])))\<close>

definition AllowlistAdminRemove :: "conn \<Rightarrow> string \<Rightarrow> unit res prog" where
  \<open>AllowlistAdminRemove c ip0 =
     (let ip = NormalizeCIDR ip0 in
      case ValidateCIDR ip of
        Inl e \<Rightarrow> fail e
      | Inr isV6 \<Rightarrow>
          (case adminSet isV6 of (st, elemFile) \<Rightarrow>
             runU c (Fmt ''
if ! sudo nft list table inet filter 2>/dev/null | grep -q 'set %[1]s'; then
  echo "allowlist: not installed (no %[1]s set)" >&2
  exit 1
fi
sudo nft delete element inet filter %[1]s { %[2]s } 2>/dev/null || echo "admin IP %[2]s not present in %[1]s"
sed -i '/^%[2]s$/d' %[3]s 2>/dev/null || true
sudo nft list table inet filter | sudo tee /etc/nftables.conf >/dev/null
echo "done"
'' [Str st, Str ip, Str elemFile])
               (wrapO ''allowlist admin remove: %w
%s'' [])))\<close>

definition AllowlistSources :: "conn \<Rightarrow> string res prog" where
  \<open>AllowlistSources c =
     bind (runE c (Raw ''cat /etc/sdk-ops/firewall/sources 2>/dev/null || echo ""'') (wrapE ''allowlist sources: %w'' [])) (\<lambda>r.
       case r of Inl e \<Rightarrow> fail e | Inr out \<Rightarrow> Ret (Inr (trimSpace out)))\<close>

end
