(* ===== verification/AllowlistOpsProps.thy ===== *)
theory AllowlistOpsProps imports AllowlistOps AllowlistProps begin

text \<open>
  What exposing a port does: which requests it can make at all, that the rules of an
  explicit list admit exactly the listed addresses and end in a drop, and that the registry
  line it leaves on the node reads back as the same rules.
\<close>

section \<open>Normalised addresses\<close>

lemma trimSpace_Normalize [simp]: "trimSpace (NormalizeCIDR s) = NormalizeCIDR s"
proof (cases "containsStr (trimSpace s) ''/''")
  case True
  then show ?thesis by (simp add: NormalizeCIDR_def trimSpace_idem)
next
  case False
  have e: "trimSpace (trimSpace s @ m) = trimSpace s @ m" if "m = ''/128'' \<or> m = ''/32''" for m
  proof (cases "trimSpace s = []")
    case True
    moreover have "trimSpace ''/128'' = ''/128''" "trimSpace ''/32'' = ''/32''" by code_simp+
    ultimately show ?thesis using that by (elim disjE) simp_all
  next
    case False
    have "\<not> is_space (hd (trimSpace s @ m))" using False trimSpace_first by auto
    moreover have "\<not> is_space (last (trimSpace s @ m))" using that by (auto simp: is_space_def)
    ultimately show ?thesis by (intro trimSpace_idle) auto
  qed
  show ?thesis using False e by (auto simp: NormalizeCIDR_def Let_def)
qed

lemma NormalizeCIDR_idem [simp]: "NormalizeCIDR (NormalizeCIDR s) = NormalizeCIDR s"
proof -
  have "containsStr (NormalizeCIDR s) ''/''"
    by (auto simp: NormalizeCIDR_def Let_def containsStr_char)
  then show ?thesis by (subst NormalizeCIDR_def) (simp add: Let_def)
qed

definition norm_ip :: "string \<Rightarrow> string" where
  "norm_ip raw = NormalizeCIDR (trimSpace raw)"

lemma norm_ip_idem [simp]: "norm_ip (norm_ip raw) = norm_ip raw"
  by (simp add: norm_ip_def)

lemma norm_ip_chars: "ValidateCIDR (norm_ip raw) = Inr v \<Longrightarrow> list_all cidr_char (norm_ip raw) \<and> norm_ip raw \<noteq> []"
  using accepted_chars [of "norm_ip raw" v] ValidateCIDR_cases [of "norm_ip raw" v] by (simp add: norm_ip_def)

lemma norm_ip_plain: "ValidateCIDR (norm_ip raw) = Inr v \<Longrightarrow> plain (norm_ip raw)"
  using plain_address [of "norm_ip raw" v] by (simp add: norm_ip_def)

lemma exposeIPs_iff:
  "exposeIPs raws a b = Inr (v4s, v6s) \<longleftrightarrow>
    (\<forall>raw \<in> set raws. \<exists>v. ValidateCIDR (norm_ip raw) = Inr v) \<and>
    v4s = a @ filter (\<lambda>ip. ValidateCIDR ip = Inr False) (map norm_ip raws) \<and>
    v6s = b @ filter (\<lambda>ip. ValidateCIDR ip = Inr True) (map norm_ip raws)"
proof (induction raws arbitrary: a b)
  case (Cons raw raws)
  show ?case
  proof (cases "ValidateCIDR (norm_ip raw)")
    case (Inl e)
    then show ?thesis by (simp add: norm_ip_def Let_def)
  next
    case (Inr v)
    then have "exposeIPs (raw # raws) a b =
        (if v then exposeIPs raws a (b @ [norm_ip raw]) else exposeIPs raws (a @ [norm_ip raw]) b)"
      by (simp add: norm_ip_def Let_def)
    with Inr show ?thesis by (cases v) (auto simp: Cons.IH)
  qed
qed auto

section \<open>What an exposed port admits\<close>

text \<open>
  A rule of the \<open>exposed\<close> chain as nftables reads it: from a prefix of one family, from an
  admin set, from anywhere, or a drop. A packet is its family and its source address; the
  admin sets are whatever the node holds.
\<close>

datatype xrule = XFrom bool string | XAdmin bool | XAll | XDrop

type_synonym packet = "bool \<times> ip"

definition in_prefix :: "string \<Rightarrow> ip \<Rightarrow> bool" where
  "in_prefix p src = (case parseCIDR p of None \<Rightarrow> False | Some (_, net) \<Rightarrow> containsIP net src)"

primrec xmatch :: "(packet \<Rightarrow> bool) \<Rightarrow> packet \<Rightarrow> xrule \<Rightarrow> bool" where
  "xmatch adm pkt (XFrom v6 p) = (fst pkt = v6 \<and> in_prefix p (snd pkt))"
| "xmatch adm pkt (XAdmin v6) = (fst pkt = v6 \<and> adm pkt)"
| "xmatch adm pkt XAll = True"
| "xmatch adm pkt XDrop = True"

text \<open>The first rule that matches decides; after the last one the chain returns (\<open>None\<close>).\<close>

primrec verdict :: "(packet \<Rightarrow> bool) \<Rightarrow> packet \<Rightarrow> xrule list \<Rightarrow> bool option" where
  "verdict adm pkt [] = None"
| "verdict adm pkt (r # rs) = (if xmatch adm pkt r then Some (r \<noteq> XDrop) else verdict adm pkt rs)"

primrec ruleText :: "xrule \<Rightarrow> string" where
  "ruleText (XFrom v6 p) = (if v6 then ''ip6 saddr '' else ''ip saddr '') @ p @ '' accept''"
| "ruleText (XAdmin v6) = (if v6 then ''ip6 saddr @admin6 accept'' else ''ip saddr @admin4 accept'')"
| "ruleText XAll = ''accept''"
| "ruleText XDrop = ''drop''"

definition ruleLine :: "int \<Rightarrow> string \<Rightarrow> xrule \<Rightarrow> string" where
  "ruleLine port proto r = ''sudo nft add rule inet filter exposed '' @ proto @ '' dport '' @ itoa port @ '' '' @ ruleText r"

definition exposeTable :: "scope \<Rightarrow> string list \<Rightarrow> xrule list" where
  "exposeTable sc ips = (case sc of
      ScopeAdmin \<Rightarrow> [XAdmin False, XAdmin True, XDrop]
    | ScopeGlobal \<Rightarrow> [XAll]
    | ScopeTraefik \<Rightarrow> []
    | ScopeIPs \<Rightarrow> map (XFrom False) (filter (\<lambda>ip. ValidateCIDR ip = Inr False) (map norm_ip ips)) @
                  map (XFrom True) (filter (\<lambda>ip. ValidateCIDR ip = Inr True) (map norm_ip ips)) @ [XDrop]
    | ScopeOther s \<Rightarrow> [])"

definition renderRules :: "int \<Rightarrow> string \<Rightarrow> xrule list \<Rightarrow> string" where
  "renderRules port proto rs = joinWith ''\<newline>'' (map (ruleLine port proto) rs)"

lemma verdict_append:
  "verdict adm pkt (xs @ ys) = (case verdict adm pkt xs of Some b \<Rightarrow> Some b | None \<Rightarrow> verdict adm pkt ys)"
  by (induction xs) auto

lemma verdict_froms:
  "verdict adm pkt (map (XFrom v6) ps) =
     (if fst pkt = v6 \<and> (\<exists>p \<in> set ps. in_prefix p (snd pkt)) then Some True else None)"
  by (induction ps) auto

lemma joinWith_snoc: "joinWith s (xs @ [y]) = concat (map (\<lambda>x. x @ s) xs) @ y"
proof (induction xs)
  case Nil
  show ?case by (simp add: joinWith_def)
next
  case (Cons x xs)
  have "joinWith s (x # (xs @ [y])) = x @ s @ joinWith s (xs @ [y])"
    by (cases xs) (simp_all add: joinWith_def)
  with Cons show ?case by simp
qed

lemma joinWith_append2:
  "concat (map (\<lambda>x. f x @ s) xs) @ concat (map (\<lambda>x. g x @ s) ys) @ z = joinWith s (map f xs @ map g ys @ [z])"
  using joinWith_snoc [of s "map f xs @ map g ys" z] by (simp add: comp_def)

definition addRule :: string where
  "addRule = ''sudo nft add rule inet filter exposed ''"

lemma addRule_plain: "CHR ''%'' \<notin> set addRule"
  by (simp add: addRule_def)

lemma rule_lines:
  "sprintf ''sudo nft add rule inet filter exposed %s %d ip saddr %s accept\<newline>'' [Str (proto @ '' dport''), Num port, Str ip]
     = ruleLine port proto (XFrom False ip) @ ''\<newline>''" (is ?from4)
  "sprintf ''sudo nft add rule inet filter exposed %s %d ip6 saddr %s accept\<newline>'' [Str (proto @ '' dport''), Num port, Str ip]
     = ruleLine port proto (XFrom True ip) @ ''\<newline>''" (is ?from6)
  "sprintf ''sudo nft add rule inet filter exposed %s %d drop'' [Str (proto @ '' dport''), Num port]
     = ruleLine port proto XDrop" (is ?drop)
  "sprintf ''sudo nft add rule inet filter exposed %[1]s %[2]d accept'' [Str (proto @ '' dport''), Num port]
     = ruleLine port proto XAll" (is ?all)
  "sprintf ''sudo nft add rule inet filter exposed %[1]s %[2]d ip saddr @admin4 accept\<newline>sudo nft add rule inet filter exposed %[1]s %[2]d ip6 saddr @admin6 accept\<newline>sudo nft add rule inet filter exposed %[1]s %[2]d drop''
      [Str (proto @ '' dport''), Num port]
     = renderRules port proto [XAdmin False, XAdmin True, XDrop]" (is ?admin)
proof -
  have line: "ruleLine port proto r = addRule @ proto @ '' dport '' @ itoa port @ '' '' @ ruleText r" for r
    by (simp add: ruleLine_def addRule_def)
  note fmt = sprintf_def fmtFrom_lit addRule_plain verb_def show_arg_def line is_digit_def digit_val_def
  have "sprintf (addRule @ CHR ''%'' # ''s %d ip saddr %s accept\<newline>'') [Str (proto @ '' dport''), Num port, Str ip]
     = ruleLine port proto (XFrom False ip) @ ''\<newline>''" by (simp add: fmt)
  then show ?from4 by (simp add: addRule_def)
  have "sprintf (addRule @ CHR ''%'' # ''s %d ip6 saddr %s accept\<newline>'') [Str (proto @ '' dport''), Num port, Str ip]
     = ruleLine port proto (XFrom True ip) @ ''\<newline>''" by (simp add: fmt)
  then show ?from6 by (simp add: addRule_def)
  have "sprintf (addRule @ CHR ''%'' # ''s %d drop'') [Str (proto @ '' dport''), Num port]
     = ruleLine port proto XDrop" by (simp add: fmt)
  then show ?drop by (simp add: addRule_def)
  have "sprintf (addRule @ CHR ''%'' # ''[1]s %[2]d accept'') [Str (proto @ '' dport''), Num port]
     = ruleLine port proto XAll" by (simp add: fmt)
  then show ?all by (simp add: addRule_def)
  have step: "fmtFrom (CHR 0x0A # addRule @ CHR ''%'' # t) as n = CHR 0x0A # addRule @ fmtFrom (CHR ''%'' # t) as n" for t as n
    using fmtFrom_lit [of "CHR 0x0A # addRule" t as n] addRule_plain by simp
  have "sprintf (addRule @ CHR ''%'' # ''[1]s %[2]d ip saddr @admin4 accept'' @ CHR 0x0A # addRule @ CHR ''%'' #
      ''[1]s %[2]d ip6 saddr @admin6 accept'' @ CHR 0x0A # addRule @ CHR ''%'' # ''[1]s %[2]d drop'') [Str (proto @ '' dport''), Num port]
     = renderRules port proto [XAdmin False, XAdmin True, XDrop]"
    by (simp add: fmt step renderRules_def joinWith_def)
  then show ?admin by (simp add: addRule_def)
qed

lemma buildExposeRules_ips:
  "buildExposeRules port proto ScopeIPs ips = Inr (rules, field) \<longleftrightarrow>
    ips \<noteq> [] \<and> (\<exists>v4s v6s. exposeIPs ips [] [] = Inr (v4s, v6s) \<and> field = joinWith '','' (v4s @ v6s) \<and>
      rules = concat (map (\<lambda>ip. ruleLine port proto (XFrom False ip) @ ''\<newline>'') v4s) @
        concat (map (\<lambda>ip. ruleLine port proto (XFrom True ip) @ ''\<newline>'') v6s) @ ruleLine port proto XDrop)"
  unfolding buildExposeRules_def Let_def rule_lines by (auto split: sum.splits)

lemma buildExposeRules_text:
  assumes "buildExposeRules port proto sc ips = Inr (rules, field)"
  shows "rules = renderRules port proto (exposeTable sc ips)"
proof (cases sc)
  case ScopeIPs
  with assms obtain v4s v6s where e: "exposeIPs ips [] [] = Inr (v4s, v6s)" "ips \<noteq> []"
    and r: "rules = concat (map (\<lambda>ip. ruleLine port proto (XFrom False ip) @ ''\<newline>'') v4s) @
      concat (map (\<lambda>ip. ruleLine port proto (XFrom True ip) @ ''\<newline>'') v6s) @ ruleLine port proto XDrop"
    by (auto simp: buildExposeRules_ips)
  from e(1) have "exposeTable sc ips = map (XFrom False) v4s @ map (XFrom True) v6s @ [XDrop]"
    by (simp add: exposeTable_def ScopeIPs exposeIPs_iff)
  then show ?thesis
    unfolding r joinWith_append2 renderRules_def by (simp add: comp_def)
qed (use assms in \<open>auto simp: buildExposeRules_def Let_def rule_lines exposeTable_def renderRules_def joinWith_def\<close>)

text \<open>
  C19: an exposed port admits exactly who it was opened for. The script holds the rendering
  of a rule table that accepts a packet, for an address list, when its source lies in a
  listed prefix of its own family and drops every other one; for the admin scope it follows
  the admin sets, and for the global scope it accepts all.
\<close>

theorem exposed_port_admits:
  assumes "buildExposeRules port proto sc ips = Inr (rules, field)"
  shows "rules = renderRules port proto (exposeTable sc ips) \<and>
    (sc = ScopeIPs \<longrightarrow> verdict adm (v6, src) (exposeTable sc ips) =
       Some (\<exists>raw \<in> set ips. ValidateCIDR (norm_ip raw) = Inr v6 \<and> in_prefix (norm_ip raw) src)) \<and>
    (sc = ScopeAdmin \<longrightarrow> verdict adm (v6, src) (exposeTable sc ips) = Some (adm (v6, src))) \<and>
    (sc = ScopeGlobal \<longrightarrow> verdict adm (v6, src) (exposeTable sc ips) = Some True)"
proof (intro conjI impI)
  show "rules = renderRules port proto (exposeTable sc ips)"
    using assms by (rule buildExposeRules_text)
  show "verdict adm (v6, src) (exposeTable sc ips) =
      Some (\<exists>raw \<in> set ips. ValidateCIDR (norm_ip raw) = Inr v6 \<and> in_prefix (norm_ip raw) src)" if "sc = ScopeIPs"
    using that by (cases v6) (auto simp: exposeTable_def verdict_append verdict_froms)
  show "verdict adm (v6, src) (exposeTable sc ips) = Some (adm (v6, src))" if "sc = ScopeAdmin"
    using that by (cases v6) (auto simp: exposeTable_def)
  show "verdict adm (v6, src) (exposeTable sc ips) = Some True" if "sc = ScopeGlobal"
    using that by (simp add: exposeTable_def)
qed

lemma exposed_port_admits_witness:
  "buildExposeRules 6000 ''tcp'' ScopeIPs [''10.0.0.1''] =
     Inr (renderRules 6000 ''tcp'' (exposeTable ScopeIPs [''10.0.0.1'']), ''10.0.0.1/32'') \<and>
   verdict (\<lambda>_. False) (False, [10, 0, 0, 1]) (exposeTable ScopeIPs [''10.0.0.1'']) = Some True \<and>
   verdict (\<lambda>_. False) (False, [10, 0, 0, 2]) (exposeTable ScopeIPs [''10.0.0.1'']) = Some False"
proof -
  have "NormalizeCIDR (trimSpace ''10.0.0.1'') = ''10.0.0.1/32''" by code_simp
  moreover have v: "ValidateCIDR ''10.0.0.1/32'' = Inr False" by code_simp
  ultimately have n: "norm_ip ''10.0.0.1'' = ''10.0.0.1/32''" "exposeIPs [''10.0.0.1''] [] [] = Inr ([''10.0.0.1/32''], [])"
    by (simp_all add: norm_ip_def)
  then have "buildExposeRules 6000 ''tcp'' ScopeIPs [''10.0.0.1''] =
     Inr (ruleLine 6000 ''tcp'' (XFrom False ''10.0.0.1/32'') @ ''\<newline>'' @ ruleLine 6000 ''tcp'' XDrop, ''10.0.0.1/32'')"
    using rule_lines(1,3) [of "''tcp''" 6000] by (simp add: buildExposeRules_def joinWith_def)
  with buildExposeRules_text have h: "buildExposeRules 6000 ''tcp'' ScopeIPs [''10.0.0.1''] =
     Inr (renderRules 6000 ''tcp'' (exposeTable ScopeIPs [''10.0.0.1'']), ''10.0.0.1/32'')" by metis
  have "ValidateCIDR (norm_ip ''10.0.0.1'') = Inr False" "in_prefix (norm_ip ''10.0.0.1'') [10, 0, 0, 1]"
    "\<not> in_prefix (norm_ip ''10.0.0.1'') [10, 0, 0, 2]"
    using v unfolding n by (simp, code_simp, code_simp)
  with exposed_port_admits [OF h, of "\<lambda>_. False" False "[10, 0, 0, 1]"]
    exposed_port_admits [OF h, of "\<lambda>_. False" False "[10, 0, 0, 2]"] h show ?thesis by simp
qed

section \<open>The registry\<close>

text \<open>The line the expose script appends to the registry.\<close>

definition registryText :: "int \<Rightarrow> string \<Rightarrow> scope \<Rightarrow> string \<Rightarrow> string \<Rightarrow> string" where
  "registryText port proto sc field now =
     itoa port @ '' '' @ proto @ '' '' @ scopeName sc @ '' '' @ field @ '' '' @ now"

lemma sscanfD_itoa: "0 \<le> i \<Longrightarrow> i < 2 ^ 63 \<Longrightarrow> sscanfD (itoa i) = Some i"
proof -
  assume i: "0 \<le> i" "i < 2 ^ 63"
  let ?s = "itoa_nat (nat i)"
  have d: "?s \<noteq> []" "list_all is_digit ?s" "dec_val ?s = nat i"
    using itoa_nat_digits by blast+
  then have h: "is_digit (hd ?s)" by (cases ?s) auto
  then have "dropWhile (\<lambda>c. c = CHR '' '' \<or> c = CHR 0x09) ?s = ?s"
    by (intro dropWhile_idle) (auto simp: is_digit_def)
  moreover have "hd ?s \<noteq> CHR ''-''" "hd ?s \<noteq> CHR ''+''" using h by (auto simp: is_digit_def)
  moreover have "takeWhile is_digit ?s = ?s" using d(2) by (simp add: list_all_iff)
  ultimately show ?thesis using i d by (simp add: sscanfD_def itoa_def Let_def del: takeWhile_eq_all_conv)
qed

lemma itoa_word: "0 \<le> i \<Longrightarrow> itoa i \<noteq> [] \<and> (\<forall>c \<in> set (itoa i). \<not> is_space c)"
  using itoa_nat_digits [of "nat i"] by (auto simp: itoa_def list_all_iff is_digit_def is_space_def)

lemma cidr_no_space: "cidr_char c \<Longrightarrow> \<not> is_space c \<and> c \<noteq> CHR '',''"
  by (auto simp: cidr_char_def addr_char_def is_space_def is_hex_def hex_val_def Let_def)

lemma joinWith_chars: "c \<in> set (joinWith s ps) \<Longrightarrow> c \<in> set s \<or> (\<exists>p \<in> set ps. c \<in> set p)"
  by (cases ps) (auto simp: joinWith_def split: if_splits)

definition known_scope :: "scope \<Rightarrow> bool" where
  "known_scope sc \<longleftrightarrow> (\<forall>s. sc \<noteq> ScopeOther s)"

lemma registryLine_text:
  assumes "1 \<le> port" "port \<le> 65535" "proto = ''tcp'' \<or> proto = ''udp''" "known_scope sc"
    and now: "now \<noteq> ''''" "\<forall>c \<in> set now. \<not> is_space c"
    and field: "\<forall>c \<in> set field. \<not> is_space c"
  shows "registryLine (registryText port proto sc field now) =
    Some (port, proto, sc, splitOn CHR '','' (if field = '''' then now else field))"
proof -
  let ?rest = "if field = '''' then [now] else [field, now]"
  have sp: "is_space CHR '' ''" by (simp add: is_space_def)
  have p: "proto \<noteq> []" "\<forall>c \<in> set proto. \<not> is_space c" using assms(3) by (auto simp: is_space_def)
  have s: "scopeName sc \<noteq> []" "\<forall>c \<in> set (scopeName sc). \<not> is_space c" "scopeOf (scopeName sc) = sc"
    using assms(4) by (cases sc; auto simp: known_scope_def is_space_def scopeOf_def)+
  have tail: "goFields (field @ CHR '' '' # now) = ?rest"
    using field now sp by (auto simp: goFields_skip goFields_cons goFields_word)
  have "goFields (registryText port proto sc field now) = itoa port # proto # scopeName sc # ?rest"
    using itoa_word [of port] assms(1) p s sp tail
    by (simp add: registryText_def goFields_cons)
  then show ?thesis
    using s(3) assms(1,2) now(1) by (simp add: registryLine_def Let_def sscanfD_itoa)
qed

lemma exposed_addresses:
  assumes "exposeIPs ips [] [] = Inr (v4s, v6s)"
  shows "v4s = filter (\<lambda>ip. ValidateCIDR ip = Inr False) (map norm_ip ips)"
    "v6s = filter (\<lambda>ip. ValidateCIDR ip = Inr True) (map norm_ip ips)"
    "\<forall>raw \<in> set ips. \<exists>v. ValidateCIDR (norm_ip raw) = Inr v"
  using assms by (simp_all add: exposeIPs_iff)

lemma exposed_normal:
  assumes "exposeIPs ips [] [] = Inr (v4s, v6s)" "x \<in> set (v4s @ v6s)"
  shows "norm_ip x = x" "\<exists>v. ValidateCIDR x = Inr v" "list_all cidr_char x" "x \<noteq> []"
proof -
  obtain raw where "x = norm_ip raw" "raw \<in> set ips" using assms(2) by (auto simp: exposed_addresses [OF assms(1)])
  with exposed_addresses(3) [OF assms(1)] norm_ip_chars [of raw]
  show "norm_ip x = x" "\<exists>v. ValidateCIDR x = Inr v" "list_all cidr_char x" "x \<noteq> []" by auto
qed

lemma exposed_any:
  assumes "exposeIPs ips [] [] = Inr (v4s, v6s)" "ips \<noteq> []"
  shows "v4s @ v6s \<noteq> []"
proof -
  obtain raw where raw: "raw \<in> set ips" using assms(2) by (cases ips) auto
  with exposed_addresses(3) [OF assms(1)] obtain v where "ValidateCIDR (norm_ip raw) = Inr v" by blast
  with raw show ?thesis by (cases v) (auto simp: exposed_addresses [OF assms(1)] filter_empty_conv)
qed

text \<open>The accepted addresses, read again, are accepted as they are.\<close>

lemma exposed_again:
  assumes e: "exposeIPs ips [] [] = Inr (v4s, v6s)"
  shows "exposeIPs (v4s @ v6s) [] [] = Inr (v4s, v6s)"
proof -
  have "map norm_ip (v4s @ v6s) = v4s @ v6s" using exposed_normal(1) [OF e] by (intro map_idI)
  moreover have "filter (\<lambda>ip. ValidateCIDR ip = Inr False) (v4s @ v6s) = v4s"
      "filter (\<lambda>ip. ValidateCIDR ip = Inr True) (v4s @ v6s) = v6s"
    by (auto simp: exposed_addresses [OF e] filter_empty_conv)
  ultimately show ?thesis using exposed_normal(1,2) [OF e] unfolding exposeIPs_iff by simp
qed

text \<open>The field of the registry line is one word, which splits into the addresses again.\<close>

lemma exposed_field:
  assumes e: "exposeIPs ips [] [] = Inr (v4s, v6s)" and ne: "ips \<noteq> []"
    and f: "field = joinWith '','' (v4s @ v6s)"
  shows "field \<noteq> ''''" "\<forall>c \<in> set field. \<not> is_space c" "splitOn CHR '','' field = v4s @ v6s"
proof -
  have nosep: "\<forall>p \<in> set (v4s @ v6s). \<forall>c \<in> set p. \<not> is_space c \<and> c \<noteq> CHR '',''"
    using exposed_normal(3) [OF e] cidr_no_space by (force simp: list_all_iff)
  show "\<forall>c \<in> set field. \<not> is_space c"
  proof
    fix c assume "c \<in> set field"
    then have "c = CHR '','' \<or> (\<exists>p \<in> set (v4s @ v6s). c \<in> set p)" unfolding f using joinWith_chars by fastforce
    moreover have "\<not> is_space CHR '',''" by (simp add: is_space_def)
    ultimately show "\<not> is_space c" using nosep by blast
  qed
  show "field \<noteq> ''''"
    unfolding f using exposed_any [OF e ne] exposed_normal(4) [OF e] by (cases "v4s @ v6s") (auto simp: joinWith_def)
  show "splitOn CHR '','' field = v4s @ v6s"
    unfolding f by (rule splitOn_joinWith [OF exposed_any [OF e ne]]) (use nosep in auto)
qed



section \<open>Who may be exposed at all\<close>

lemma plain_concat: "plain (concat xs) \<longleftrightarrow> (\<forall>x \<in> set xs. plain x)"
  by (induction xs) auto

lemma plain_joinWith: "plain s \<Longrightarrow> (\<forall>p \<in> set ps. plain p) \<Longrightarrow> plain (joinWith s ps)"
  by (cases ps) (auto simp: joinWith_def plain_concat)

lemma buildExposeRules_field:
  assumes "buildExposeRules port proto sc ips = Inr (rules, field)"
  shows "plain field"
proof (cases "sc = ScopeIPs")
  case True
  with assms obtain v4s v6s where e: "exposeIPs ips [] [] = Inr (v4s, v6s)" and f: "field = joinWith '','' (v4s @ v6s)"
    by (auto simp: buildExposeRules_ips)
  from e have "\<forall>p \<in> set (v4s @ v6s). plain p" using norm_ip_plain by (auto simp: exposeIPs_iff)
  moreover have "plain '',''" by (simp add: word_char_def)
  ultimately show ?thesis unfolding f by (rule plain_joinWith [rotated])
qed (use assms in \<open>cases sc; auto simp: buildExposeRules_def\<close>)

lemma expose_trace:
  assumes "runs (AllowlistExposePort c port proto sc ips) t r" "t \<noteq> []"
  shows "1 \<le> port \<and> port \<le> 65535 \<and> port \<notin> set peerCriticalPorts \<and> (proto = ''tcp'' \<or> proto = ''udp'') \<and>
    (\<exists>rules field a b. buildExposeRules port proto sc ips = Inr (rules, field) \<and>
      t = [(Now, a), (Exec c (Fmt exposeScript [Str portsRegistryPath, Num port, Str rules, Str proto,
             Str (scopeName sc), Str field, Str (aOut a)]), b)])"
proof -
  define go where "go = (case buildExposeRules port proto sc ips of
      Inl e \<Rightarrow> fail e
    | Inr (rules, ipsField) \<Rightarrow>
        bind nowP (\<lambda>now. runU c (Fmt exposeScript [Str portsRegistryPath, Num port, Str rules, Str proto,
                  Str (scopeName sc), Str ipsField, Str now])
          (wrapO ''allowlist expose %d: %w\<newline>%s'' [Num port])))"
  have g: "AllowlistExposePort c port proto sc ips =
      (if port < 1 \<or> port > 65535 then fail (Errorf ''port out of range: %d'' [Num port])
       else case validateAllowlistPort port of Some e \<Rightarrow> fail e
       | None \<Rightarrow> (if proto \<noteq> ''tcp'' \<and> proto \<noteq> ''udp'' then fail (Errorf ''proto must be tcp or udp'' []) else go))"
    unfolding AllowlistExposePort_def go_def ..
  have r: "\<not> (port < 1 \<or> port > 65535)" by (rule notI) (use assms in \<open>simp add: g\<close>)
  then have v: "validateAllowlistPort port = None"
    by (rule_tac ccontr) (use assms in \<open>auto simp: g\<close>)
  have pr: "proto = ''tcp'' \<or> proto = ''udp''"
    by (rule ccontr) (use assms r v in \<open>simp add: g\<close>)
  from assms r v pr have ok: "1 \<le> port" "port \<le> 65535" "port \<notin> set peerCriticalPorts" "proto = ''tcp'' \<or> proto = ''udp''"
    and run: "runs go t r"
    by (simp_all add: g validateAllowlistPort_def split: if_splits)
  from run assms(2) obtain rules field where b: "buildExposeRules port proto sc ips = Inr (rules, field)"
    by (auto simp: go_def split: sum.splits)
  with run have "\<exists>a b. t = [(Now, a), (Exec c (Fmt exposeScript [Str portsRegistryPath, Num port, Str rules, Str proto,
             Str (scopeName sc), Str field, Str (aOut a)]), b)]"
    by (auto simp: go_def nowP_def runs_Do runs_runU)
  with ok b show ?thesis by blast
qed

text \<open>
  The port gate. Exposing a port sends nothing unless the port is a TCP or UDP port that
  the cluster peers do not own and the scope is a known one, and what it then sends is one
  script with the rules of the scope; addresses reach it only as plain text.
\<close>

theorem expose_gate:
  assumes "runs (AllowlistExposePort c port proto sc ips) t r" "t \<noteq> []"
  shows "1 \<le> port \<and> port \<le> 65535 \<and> port \<notin> set peerCriticalPorts \<and> (proto = ''tcp'' \<or> proto = ''udp'') \<and>
    (\<exists>field a b. plain field \<and>
      t = [(Now, a), (Exec c (Fmt exposeScript [Str portsRegistryPath, Num port,
             Str (renderRules port proto (exposeTable sc ips)), Str proto,
             Str (scopeName sc), Str field, Str (aOut a)]), b)])"
  using expose_trace [OF assms] buildExposeRules_field buildExposeRules_text by metis

lemma expose_gate_witness:
  "\<exists>t r. runs (AllowlistExposePort demo_conn 6000 ''tcp'' ScopeTraefik []) t r \<and> t \<noteq> [] \<and>
     (\<exists>field a b. plain field \<and>
      t = [(Now, a), (Exec demo_conn (Fmt exposeScript [Str portsRegistryPath, Num 6000,
             Str (renderRules 6000 ''tcp'' (exposeTable ScopeTraefik [])), Str ''tcp'',
             Str (scopeName ScopeTraefik), Str field, Str (aOut a)]), b)])"
proof -
  let ?p = "AllowlistExposePort demo_conn 6000 ''tcp'' ScopeTraefik []"
  obtain t r where t: "runs ?p t r" using runs_total [of ?p "ok_out ''''"] by (elim exE conjE)
  have b: "buildExposeRules 6000 ''tcp'' ScopeTraefik [] = Inr ('''', '''')"
    unfolding buildExposeRules_def Let_def scope.case by (rule refl)
  have "?p \<noteq> Ret x" for x
    unfolding AllowlistExposePort_def b by (simp add: validateAllowlistPort_def peerCriticalPorts_def nowP_def)
  then have n: "t \<noteq> []" using t by (cases ?p) auto
  note g = expose_gate [OF t n, THEN conjunct2, THEN conjunct2, THEN conjunct2, THEN conjunct2]
  show ?thesis by (intro exI [of _ t] exI [of _ r] conjI t n g)
qed

end
