(* ===== verification/HardeningProps.thy ===== *)
theory HardeningProps imports HardeningOps AllowlistOpsProps begin

text \<open>
  Two promises of the node operations: no address reaches a remote script unless it is plain
  text, and the hardening runs every one of its steps, the firewall with the SSH port among
  them, whatever a step before it returned.
\<close>

section \<open>Only plain text is spliced in\<close>

lemma plain_parse: "parseCIDR s \<noteq> None \<or> parseIP s \<noteq> None \<Longrightarrow> plain s"
  by (auto dest!: parseCIDR_chars parseIP_chars simp: plain_def list_all_iff cidr_word cidr_char_def)

lemmas plain_eval = word_char_def is_digit_def

lemma clean_runU: "list_all clean_arg as \<Longrightarrow> allreq clean_req (runU c (Fmt f as) w)"
  by (rule allreq_runU) simp

lemma clean_expose_direct:
  assumes p: "plain proto"
  shows "allreq clean_req (ExposePeerPortDirect c port proto ip)"
proof -
  let ?ip = "trimSpace ip"
  let ?fam = "if containsStr ?ip '':'' then ''ip6'' else ''ip''"
  have go: "allreq clean_req (runU c (Fmt peerScript [Num port, Str ?ip, Str (?fam @ '' saddr '' @ ?ip @ m), Str proto]) w)"
    if "plain ?ip" "plain m" for m w
    using that by (intro clean_runU) (simp add: p plain_eval)
  consider "parseCIDR ?ip = None" "parseIP ?ip = None" | "plain ?ip" using plain_parse by blast
  then show ?thesis
  proof cases
    case 1
    then show ?thesis by (simp add: ExposePeerPortDirect_def Let_def)
  next
    case 2
    then show ?thesis
      using go [of "[]"] go [of "''/32''"] go [of "''/128''"]
      by (auto simp: ExposePeerPortDirect_def Let_def plain_eval)
  qed
qed

lemma clean_admin:
  "allreq clean_req (AllowlistAdminAdd c ip)" "allreq clean_req (AllowlistAdminRemove c ip)"
proof -
  have "ValidateCIDR (NormalizeCIDR ip) = Inr v \<Longrightarrow> plain (NormalizeCIDR ip)" for v
    using plain_address [of "NormalizeCIDR ip" v] by simp
  then show "allreq clean_req (AllowlistAdminAdd c ip)" "allreq clean_req (AllowlistAdminRemove c ip)"
    by (auto simp: AllowlistAdminAdd_def AllowlistAdminRemove_def Let_def adminSet_def
        intro!: clean_runU simp: plain_eval split: sum.splits)
qed

lemma clean_bans:
  "allreq clean_req (Fail2banBan c ip)" "allreq clean_req (Fail2banUnban c ip)"
proof -
  have "ValidateCIDR (trimSpace ip) = Inr v \<Longrightarrow> plain (trimSpace ip)" for v
    using plain_address [of "trimSpace ip" v] by (simp add: trimSpace_idem)
  then show "allreq clean_req (Fail2banBan c ip)" "allreq clean_req (Fail2banUnban c ip)"
    unfolding Fail2banBan_def Fail2banUnban_def Let_def
    by (cases "ValidateCIDR (trimSpace ip)"; auto intro!: clean_runU)+
qed

text \<open>
  No injection through the node operations. Whatever text is given as the address, the
  operations that ban it, open a port for it or make it an admin address send only scripts
  whose text arguments are plain: no quote, blank line, variable or separator gets through.
\<close>

theorem address_operations_clean:
  "allreq clean_req (Fail2banBan c ip) \<and> allreq clean_req (Fail2banUnban c ip) \<and>
   allreq clean_req (ExposePeerPortDirect c port (PeerProto port) ip) \<and>
   allreq clean_req (AllowlistAdminAdd c ip) \<and> allreq clean_req (AllowlistAdminRemove c ip) \<and>
   allreq clean_req (AllowlistUnexposePort c port)"
  by (auto simp: clean_bans clean_admin PeerProto_def AllowlistUnexposePort_def portsRegistryPath_def plain_eval
      intro!: clean_expose_direct clean_runU)

section \<open>Every step of the hardening runs\<close>

lemma runs_runSteps:
  "runs (runSteps fs c cfg) t r \<longleftrightarrow>
    r = Inr () \<and> (\<exists>ts. t = concat ts \<and> list_all2 (\<lambda>f u. \<exists>x. runs (f c cfg) u x) fs ts)"
proof (induction fs arbitrary: t)
  case Nil
  show ?case by auto
next
  case (Cons f fs)
  show ?case
  proof
    assume "runs (runSteps (f # fs) c cfg) t r"
    then obtain u v x where "t = u @ v" "runs (f c cfg) u x" "runs (runSteps fs c cfg) v r"
      by (auto simp: runs_bind)
    with Cons.IH obtain ts where "r = Inr ()" "v = concat ts"
      "list_all2 (\<lambda>f u. \<exists>x. runs (f c cfg) u x) fs ts" by blast
    with \<open>t = u @ v\<close> \<open>runs (f c cfg) u x\<close> have "t = concat (u # ts) \<and>
      list_all2 (\<lambda>f u. \<exists>x. runs (f c cfg) u x) (f # fs) (u # ts)" by auto
    with \<open>r = Inr ()\<close> show "r = Inr () \<and>
      (\<exists>ts. t = concat ts \<and> list_all2 (\<lambda>f u. \<exists>x. runs (f c cfg) u x) (f # fs) ts)" by blast
  next
    assume "r = Inr () \<and> (\<exists>ts. t = concat ts \<and> list_all2 (\<lambda>f u. \<exists>x. runs (f c cfg) u x) (f # fs) ts)"
    then obtain u ts x where "r = Inr ()" "t = u @ concat ts" "runs (f c cfg) u x"
      "list_all2 (\<lambda>f u. \<exists>x. runs (f c cfg) u x) fs ts"
      by (auto simp: list_all2_Cons1)
    with Cons.IH show "runs (runSteps (f # fs) c cfg) t r"
      by (simp add: runs_bind) blast
  qed
qed

definition sshPorts :: "hardConfig \<Rightarrow> int list" where
  "sshPorts cfg = (if MigrateSSH cfg then [22, hcSSHPort cfg] else [22])"

lemma openPorts_list:
  "openPorts cfg = joinWith '', '' (map itoa (sshPorts cfg @ [80, 443, 6443] @ (if hcEnableMonitor cfg then [9100] else [])))"
  by (simp add: openPorts_def sshPorts_def joinWith_def itoa_eval)

lemma nftables_step: "runs (nftablesFirewall c cfg) u x \<Longrightarrow>
    \<exists>a. u = [(Exec c (Fmt nftablesScript [Str (openPorts cfg), Str (openPorts cfg)]), a)]"
  by (auto simp: nftablesFirewall_def runs_runU)

text \<open>
  C27: a failing step does not stop the hardening. Every run of it performs its twelve steps
  once each and in order, whatever they return, reports no error, and loads the firewall
  that drops everything but the listed ports, among them port 22 and, when SSH is being
  moved, the new SSH port, so the session that follows can still get in.
\<close>

theorem hardening_runs_every_step:
  assumes "runs (applyHardening c cfg) t r"
  shows "r = Inr () \<and>
    (\<exists>ts. t = concat ts \<and> list_all2 (\<lambda>f u. \<exists>x. runs (f c cfg) u x) hardeningSteps ts) \<and>
    (\<exists>a ps. (Exec c (Fmt nftablesScript [Str (joinWith '', '' (map itoa ps)), Str (joinWith '', '' (map itoa ps))]), a) \<in> set t \<and>
       set (sshPorts cfg) \<subseteq> set ps)"
proof -
  from assms obtain ts where r: "r = Inr ()" and t: "t = concat ts"
    and l: "list_all2 (\<lambda>f u. \<exists>x. runs (f c cfg) u x) hardeningSteps ts"
    by (auto simp: applyHardening_def runs_runSteps)
  from l have len: "length ts = 12" by (auto simp: hardeningSteps_def dest: list_all2_lengthD)
  from list_all2_nthD2 [OF l, of 7] len have "\<exists>x. runs (nftablesFirewall c cfg) (ts ! 7) x"
    by (simp add: hardeningSteps_def)
  then obtain a where "ts ! 7 = [(Exec c (Fmt nftablesScript [Str (openPorts cfg), Str (openPorts cfg)]), a)]"
    using nftables_step by blast
  moreover have "ts ! 7 \<in> set ts" using len by simp
  ultimately have "(Exec c (Fmt nftablesScript [Str (openPorts cfg), Str (openPorts cfg)]), a) \<in> set t"
    by (metis UN_I list.set_intros(1) set_concat t)
  then have "\<exists>a ps. (Exec c (Fmt nftablesScript [Str (joinWith '', '' (map itoa ps)), Str (joinWith '', '' (map itoa ps))]), a) \<in> set t \<and>
       set (sshPorts cfg) \<subseteq> set ps"
    unfolding openPorts_list
    by (intro exI [of _ a] exI [of _ "sshPorts cfg @ [80, 443, 6443] @ (if hcEnableMonitor cfg then [9100] else [])"] conjI)
      (assumption, auto)
  with r t l show ?thesis by blast
qed

lemma hardening_runs_every_step_witness:
  "\<exists>t. runs (applyHardening demo_conn hardDefaultConfig) t (Inr ()) \<and> snd ` set t \<subseteq> {failed ''lost''} \<and>
     (\<exists>a ps. (Exec demo_conn (Fmt nftablesScript [Str (joinWith '', '' (map itoa ps)), Str (joinWith '', '' (map itoa ps))]), a) \<in> set t)"
proof -
  obtain t r where t: "runs (applyHardening demo_conn hardDefaultConfig) t r" "snd ` set t \<subseteq> {failed ''lost''}"
    using runs_total [of "applyHardening demo_conn hardDefaultConfig" "failed ''lost''"] by (elim exE conjE)
  note h = hardening_runs_every_step [OF t(1)]
  have "r = Inr ()" using h by (rule conjunct1)
  moreover obtain a ps where "(Exec demo_conn (Fmt nftablesScript [Str (joinWith '', '' (map itoa ps)), Str (joinWith '', '' (map itoa ps))]), a) \<in> set t"
    using h [THEN conjunct2, THEN conjunct2] by (elim exE conjE)
  ultimately show ?thesis using t by (intro exI [of _ t] conjI exI [of _ a] exI [of _ ps]) simp_all
qed

end
