(* ===== verification/WatchOps.thy ===== *)
theory WatchOps imports Remote Allowlist begin

text \<open>
  The watchdogs and cron-like phases a provisioned node runs by itself (\<open>hardening/\<close>:
  \<open>state_watch.go\<close>, \<open>security_watch.go\<close>, \<open>traefik_watch.go\<close>, \<open>logrotate.go\<close>,
  \<open>fail2ban_jail.go\<close>): the scripts they install and the operations that install, remove and
  query them.
\<close>

section \<open>Firewall state\<close>

definition stateWatchScript :: string where
  \<open>stateWatchScript =
''#!/bin/bash
# sdk-ops firewall state watchdog '' @
[CHR 0xE2, CHR 0x80, CHR 0x94] @
'' keeps the allowlist tables intact
# Runs every 5 minutes; repairs and notifies ONLY with evidence.
LOG=/var/log/sdk-ops-state.log
STATE_FILE=/etc/sdk-ops/firewall/state
ADMIN4=/etc/sdk-ops/firewall/admin4.elements
ADMIN6=/etc/sdk-ops/firewall/admin6.elements
ALLOWLIST=/opt/sdk-ops/firewall/allowlist.sh
TABLE="inet filter"
STALE_AFTER=90000

[ -f /etc/sdk-ops/firewall/notify.env ] && . /etc/sdk-ops/firewall/notify.env

log() { echo "[$(date -u +%FT%TZ)] $*" >> "$LOG"; }

notify() {
  [ -n "${TELEGRAM_API_KEY:-}" ] && [ -n "${TELEGRAM_CHAT_ID:-}" ] || return 0
  curl -fsS --connect-timeout 5 --max-time 10 "https://api.telegram.org/bot$TELEGRAM_API_KEY/sendMessage"     --data-urlencode "chat_id=$TELEGRAM_CHAT_ID"     --data-urlencode "text=$1" >/dev/null 2>&1 || true
}

set_exists() { sudo nft list set "$TABLE" "$1" >/dev/null 2>&1; }

REASON=""

# 1. The four allowlist sets must exist.
for S in allow4 allow6 admin4 admin6; do
  if ! set_exists "$S"; then
    REASON="${REASON} set $S missing"
  fi
done

# 2. Every admin element must still be present (operator egress IPs).
for F in "$ADMIN4" "$ADMIN6"; do
  [ -f "$F" ] || continue
  S=admin4
  echo "$F" | grep -q 6 && S=admin6
  while read -r e; do
    [ -z "$e" ] && continue
    BARE=${e%%/*}
    if ! sudo nft get element "$TABLE" "$S" "{ $BARE }" >/dev/null 2>&1; then
      REASON="${REASON} admin element $e missing from $S"
    fi
  done < "$F"
done

# 3. The state file must be fresh (allowlist.sh must have run recently).
if [ ! -f "$STATE_FILE" ]; then
  REASON="${REASON} state file missing"
else
  LAST=$(stat -c %Y "$STATE_FILE" 2>/dev/null || echo 0)
  NOW=$(date +%s)
  if [ $((NOW - LAST)) -gt "$STALE_AFTER" ]; then
    REASON="${REASON} state file stale ($(date -u -d @$LAST +%FT%TZ 2>/dev/null))"
  fi
fi

# 4. The exposed chain must cover every registry entry (ports.yaml). This
# catches lost rules (e.g. an unexpose that matched a sibling port) that the
# sets never diverge on.
REGISTRY=/etc/sdk-ops/firewall/ports.yaml
MISSING_EXPOSED=""
if [ -f "$REGISTRY" ]; then
  while read -r port proto scope rest; do
    [ -z "$port" ] && continue
    case "$port" in *[!0-9]*) continue ;; esac
    if ! sudo nft list chain "$TABLE" exposed 2>/dev/null | grep -qE "dport $port([^0-9]|'' @
[CHR 0x5C] @
''$)"; then
      REASON="${REASON} exposed $port missing"
      MISSING_EXPOSED="$MISSING_EXPOSED $port"
    fi
  done < "$REGISTRY"
fi

if [ -z "$REASON" ]; then
  log "ok"
  exit 0
fi

log "diverged: $REASON"

# Notify cooldown: same divergence alerts at most once per hour.
NOTIFY_STATE=/etc/sdk-ops/firewall/state-notify
HASH=$(echo "$REASON" | md5sum | cut -d' ' -f1)
NOW=$(date +%s)
LAST=0
[ -f "$NOTIFY_STATE" ] && LAST=$(grep "^$HASH " "$NOTIFY_STATE" 2>/dev/null | awk '{print $2}' | tail -1)
[ -z "$LAST" ] && LAST=0
COOLDOWN=3600

# Repair: recreate missing sets first (allowlist.sh only flushes existing
# sets), then re-run the refresh which also self-heals admin4/admin6.
for S in allow4 allow6 admin4 admin6; do
  if ! set_exists "$S"; then
    case "$S" in
      allow4|admin4) TYPE=ipv4_addr ;;
      allow6|admin6) TYPE=ipv6_addr ;;
    esac
    sudo nft add set "$TABLE" "$S" "{ type $TYPE; flags interval; }" >/dev/null 2>&1       && log "recreated set $S" || log "FAILED to create set $S"
  fi
done

if [ -x "$ALLOWLIST" ] && sudo "$ALLOWLIST" >/dev/null 2>&1; then
  STILL=""
  for S in allow4 allow6 admin4 admin6; do
    set_exists "$S" || STILL="${STILL} $S still missing"
  done
  for F in "$ADMIN4" "$ADMIN6"; do
    [ -f "$F" ] || continue
    S=admin4
    echo "$F" | grep -q 6 && S=admin6
    while read -r e; do
      [ -z "$e" ] && continue
      BARE=${e%%/*}
      if ! sudo nft get element "$TABLE" "$S" "{ $BARE }" >/dev/null 2>&1; then
        STILL="${STILL} $e still missing from $S"
      fi
    done < "$F"
  done
  # Re-apply missing exposed rules from the registry (the chain and the
  # registry can diverge without any set changing).
  for p in $MISSING_EXPOSED; do
    if line=$(grep -E "^$p " "$REGISTRY" | tail -1); then
      set -- $line
      P=$1; PR=$2; SC=$3; IPS=${4:-}
      case "$SC" in
        admin)
          sudo nft add rule "$TABLE" exposed $PR dport $P ip saddr @admin4 accept >/dev/null 2>&1
          sudo nft add rule "$TABLE" exposed $PR dport $P ip6 saddr @admin6 accept >/dev/null 2>&1
          sudo nft add rule "$TABLE" exposed $PR dport $P drop >/dev/null 2>&1 ;;
        global)
          sudo nft add rule "$TABLE" exposed $PR dport $P accept >/dev/null 2>&1 ;;
        ips)
          IFS=',' read -ra IPARR <<< "$IPS"
          for ip in "${IPARR[@]}"; do
            case "$ip" in
              *:*) sudo nft add rule "$TABLE" exposed $PR dport $P ip6 saddr $ip accept >/dev/null 2>&1 ;;
              *)   sudo nft add rule "$TABLE" exposed $PR dport $P ip saddr $ip accept >/dev/null 2>&1 ;;
            esac
          done
          sudo nft add rule "$TABLE" exposed $PR dport $P drop >/dev/null 2>&1 ;;
      esac
      log "restored exposed rule $P ($SC)"
    fi
  done
  if [ -n "$MISSING_EXPOSED" ]; then
    sudo sh -c 'nft list table inet filter > /etc/nftables.conf' 2>/dev/null || true
    STILL_EXPOSED=""
    for p in $MISSING_EXPOSED; do
      sudo nft list chain "$TABLE" exposed 2>/dev/null | grep -qE "dport $p([^0-9]|'' @
[CHR 0x5C] @
''$)" || STILL_EXPOSED="$STILL_EXPOSED $p"
    done
    [ -n "$STILL_EXPOSED" ] && STILL="${STILL} exposed still missing:$STILL_EXPOSED"
  fi
  if [ $((NOW - LAST)) -lt "$COOLDOWN" ]; then
    log "repair done but notify suppressed (cooldown): $STILL"
  elif [ -z "$STILL" ]; then
    notify "[OK] $(hostname): allowlist repaired '' @
[CHR 0xE2, CHR 0x80, CHR 0x94] @
'' $REASON"
    log "repaired: re-ran allowlist.sh ($REASON)"
    echo "$HASH $NOW" | sudo tee -a "$NOTIFY_STATE" > /dev/null 2>&1 || true
  else
    notify "[ALERT] $(hostname): allowlist repair incomplete '' @
[CHR 0xE2, CHR 0x80, CHR 0x94] @
'' $STILL"
    log "repair INCOMPLETE: $STILL"
    echo "$HASH $NOW" | sudo tee -a "$NOTIFY_STATE" > /dev/null 2>&1 || true
  fi
else
  if [ $((NOW - LAST)) -ge "$COOLDOWN" ]; then
    notify "[ALERT] $(hostname): allowlist repair FAILED '' @
[CHR 0xE2, CHR 0x80, CHR 0x94] @
'' $REASON"
    echo "$HASH $NOW" | sudo tee -a "$NOTIFY_STATE" > /dev/null 2>&1 || true
  else
    log "repair failed but notify suppressed (cooldown): $REASON"
  fi
  log "repair FAILED: $REASON"
fi
''\<close>

definition InstallStateWatch :: "conn \<Rightarrow> unit res prog" where
  \<open>InstallStateWatch c =
     runU c (Raw (''
sudo mkdir -p /opt/sdk-ops/firewall
sudo tee /opt/sdk-ops/firewall/state_watch.sh > /dev/null << 'SCRIPTEOF'
'' @ stateWatchScript @ ''
SCRIPTEOF
sudo chown sdkops:sdkops /opt/sdk-ops/firewall/state_watch.sh
sudo chmod 0750 /opt/sdk-ops/firewall/state_watch.sh
sudo tee /etc/systemd/system/sdk-ops-state.service > /dev/null << 'SERVICEEOF'
[Unit]
Description=sdk-ops firewall state watchdog

[Service]
Type=oneshot
User=sdkops
ExecStart=/opt/sdk-ops/firewall/state_watch.sh
SERVICEEOF
sudo tee /etc/systemd/system/sdk-ops-state.timer > /dev/null << 'TIMEREOF'
[Unit]
Description=sdk-ops firewall state watch timer (every 5 min)

[Timer]
OnCalendar=*:0/5
Persistent=true

[Install]
WantedBy=timers.target
TIMEREOF
sudo touch /var/log/sdk-ops-state.log 2>/dev/null || true
sudo chown sdkops:sdkops /var/log/sdk-ops-state.log 2>/dev/null || true
sudo usermod -aG systemd-journal sdkops 2>/dev/null || true
sudo systemctl daemon-reload
sudo systemctl enable --now sdk-ops-state.timer 2>/dev/null
echo "state watch: installed (every 5 min)"
''))
       (wrapO ''state watch install: %w
%s'' [])\<close>

definition RemoveStateWatch :: "conn \<Rightarrow> unit res prog" where
  \<open>RemoveStateWatch c = runU c (Raw ''
sudo systemctl stop sdk-ops-state.timer 2>/dev/null || true
sudo systemctl disable sdk-ops-state.timer 2>/dev/null || true
sudo rm -f /etc/systemd/system/sdk-ops-state.service /etc/systemd/system/sdk-ops-state.timer
sudo rm -f /opt/sdk-ops/firewall/state_watch.sh
sudo systemctl daemon-reload
echo "state watch removed"
'') (wrapE ''state watch remove: %w'' [])\<close>

definition trimmed :: "string res prog \<Rightarrow> string res prog" where
  "trimmed p = bind p (\<lambda>r. case r of Inl e \<Rightarrow> fail e | Inr out \<Rightarrow> Ret (Inr (trimSpace out)))"

definition StateWatchStatus :: "conn \<Rightarrow> string res prog" where
  \<open>StateWatchStatus c = trimmed (runE c (Raw ''
systemctl list-timers sdk-ops-state.timer --no-pager 2>/dev/null | grep sdk-ops-state || echo "timer not installed"
tail -2 /var/log/sdk-ops-state.log 2>/dev/null || echo "no events logged"
'') (wrapE ''state watch status: %w'' []))\<close>

section \<open>Brute force attempts\<close>

record securityWatchConfig =
  swcEnabled :: bool
  swcThreshold :: int

definition securityWatchScript :: string where
  \<open>securityWatchScript =
''#!/bin/bash
# sdk-ops security watch '' @
[CHR 0xE2, CHR 0x80, CHR 0x94] @
'' brute force notifications, ALL ports, ranked
# Runs every 5 minutes. Notifies ONCE per window and ONLY when there were
# attempts. Sources: sshd journald (port 22) + kernel firewall drops
# (every other port, prefix "sdk-drop:"). Reported ordered by attempt count.
LOG=/var/log/sdk-ops-security.log
WINDOW=5
TOP=10

[ -f /etc/sdk-ops/firewall/notify.env ] && . /etc/sdk-ops/firewall/notify.env

log() { echo "[$(date -u +%FT%TZ)] $*" >> "$LOG"; }

notify() {
  [ -n "${TELEGRAM_API_KEY:-}" ] && [ -n "${TELEGRAM_CHAT_ID:-}" ] || return 0
  curl -fsS --connect-timeout 5 --max-time 10 "https://api.telegram.org/bot$TELEGRAM_API_KEY/sendMessage" '' @
[CHR 0x5C] @
''
    --data-urlencode "chat_id=$TELEGRAM_CHAT_ID" '' @
[CHR 0x5C] @
''
    --data-urlencode "text=$1" >/dev/null 2>&1 || true
}

OUT_S=$(journalctl -u ssh.service -u sshd.service --since "${WINDOW} minutes ago" --no-pager -o short-iso 2>/dev/null)
OUT_K=$(journalctl -k --since "${WINDOW} minutes ago" --no-pager -o short-iso 2>/dev/null | grep "sdk-drop:")
[ -z "$OUT_S" ] && [ -z "$OUT_K" ] && exit 0

declare -A CNT
declare -A PORTS

# 1. sshd attempts -> port 22
while IFS= read -r ip; do
  [ -z "$ip" ] && continue
  CNT[$ip]=$(( ${CNT[$ip]:-0} + 1 ))
  PORTS[$ip]="${PORTS[$ip]} 22"
done < <(echo "$OUT_S" | grep -oE 'Failed (password|publickey) for [^ ]+ from [0-9a-fA-F:.]+|Invalid user [^ ]+ from [0-9a-fA-F:.]+' | grep -oE '[0-9a-fA-F:.]+$')

# 2. firewall drops -> every other port (kernel log, prefix sdk-drop:)
while IFS= read -r line; do
  ip=$(echo "$line" | grep -oE 'SRC=[0-9a-fA-F:.]+' | cut -d= -f2)
  dpt=$(echo "$line" | grep -oE 'DPT=[0-9]+' | cut -d= -f2)
  [ -z "$ip" ] && continue
  [ -z "$dpt" ] && dpt=0
  CNT[$ip]=$(( ${CNT[$ip]:-0} + 1 ))
  PORTS[$ip]="${PORTS[$ip]} $dpt"
done < <(echo "$OUT_K")

[ ${#CNT[@]} -eq 0 ] && exit 0

TOTAL=0
for ip in "${!CNT[@]}"; do TOTAL=$((TOTAL + CNT[$ip])); done
NUNIQ=${#CNT[@]}

if [ "$NUNIQ" -gt 50 ] || [ "$TOTAL" -gt 100 ]; then
  notify "[WARN] DDoS $(hostname): $NUNIQ unique IPs, $TOTAL attempts in ${WINDOW}min"
  log "DDoS: $NUNIQ IPs, $TOTAL attempts"
fi

ALLPORTS=$(for ip in "${!CNT[@]}"; do echo ${PORTS[$ip]}; done | tr ' ' '' @
[CHR 0x27, CHR 0x5C] @
''n' | grep -E '^[0-9]+$' | sort -n -u | paste -sd,)
TOPIPS=$(for ip in "${!CNT[@]}"; do echo "${CNT[$ip]} $ip"; done | sort -rn | head -n "$TOP" | awk '{print $2}')

MSG="'' @
[CHR 0xF0, CHR 0x9F, CHR 0x94, CHR 0x90] @
'' $(hostname): $NUNIQ IPs / $TOTAL attempts in ${WINDOW}min '' @
[CHR 0xE2, CHR 0x80, CHR 0x94] @
'' ports: $ALLPORTS"
for ip in $TOPIPS; do
  PB=$(echo ${PORTS[$ip]} | tr ' ' '' @
[CHR 0x27, CHR 0x5C] @
''n' | grep -E '^[0-9]+$' | sort -n | uniq -c | sort -rn | awk '{printf "%s'' @
[CHR 0xC3, CHR 0x97] @
''%s ", $2, $1}' | sed 's/ $//')
  PROV=$(curl -fsS --max-time 5 "http://ip-api.com/line/$ip?fields=org" 2>/dev/null | tr -d '' @
[CHR 0x27, CHR 0x5C] @
''r')
  [ -z "$PROV" ] && PROV="unknown"
  MSG="$MSG
$ip '' @
[CHR 0xE2, CHR 0x80, CHR 0x94] @
'' ${CNT[$ip]} attempts ($PB) '' @
[CHR 0xE2, CHR 0x80, CHR 0x94] @
'' $PROV"
done

notify "$MSG"
log "notified: $NUNIQ IPs, $TOTAL attempts, top: $TOPIPS, ports: $ALLPORTS"
''\<close>

definition InstallSecurityWatch :: "conn \<Rightarrow> securityWatchConfig \<Rightarrow> unit res prog" where
  \<open>InstallSecurityWatch c cfg =
     (let threshold = (if swcThreshold cfg \<le> 0 then 5 else swcThreshold cfg) in
      runU c (Fmt ''
sudo mkdir -p /etc/sdk-ops/security /opt/sdk-ops/security
sudo tee /opt/sdk-ops/security/watch.sh > /dev/null << 'SCRIPTEOF'
%[1]s
SCRIPTEOF
sudo chown sdkops:sdkops /opt/sdk-ops/security/watch.sh
sudo chmod 0750 /opt/sdk-ops/security/watch.sh
echo 'SECURITY_THRESHOLD=%[2]d' | sudo tee /etc/sdk-ops/security/env > /dev/null
sudo tee /etc/systemd/system/sdk-ops-security.service > /dev/null << 'SERVICEEOF'
[Unit]
Description=sdk-ops SSH brute force watcher

[Service]
Type=oneshot
User=sdkops
EnvironmentFile=/etc/sdk-ops/security/env
ExecStart=/opt/sdk-ops/security/watch.sh
SERVICEEOF
sudo tee /etc/systemd/system/sdk-ops-security.timer > /dev/null << 'TIMEREOF'
[Unit]
Description=sdk-ops security watch timer (every 5 min)

[Timer]
OnCalendar=*:0/5
Persistent=true

[Install]
WantedBy=timers.target
TIMEREOF
sudo touch /var/log/sdk-ops-security.log 2>/dev/null || true
sudo chown sdkops:sdkops /var/log/sdk-ops-security.log 2>/dev/null || true
sudo usermod -aG systemd-journal sdkops 2>/dev/null || true
sudo systemctl daemon-reload
sudo systemctl enable --now sdk-ops-security.timer 2>/dev/null
echo "security watch: installed (threshold %[2]d, every 5 min)"
'' [Str securityWatchScript, Num threshold])
        (wrapO ''security watch install: %w
%s'' []))\<close>

definition RemoveSecurityWatch :: "conn \<Rightarrow> unit res prog" where
  \<open>RemoveSecurityWatch c = runU c (Raw ''
sudo systemctl stop sdk-ops-security.timer 2>/dev/null || true
sudo systemctl disable sdk-ops-security.timer 2>/dev/null || true
sudo rm -f /etc/systemd/system/sdk-ops-security.service /etc/systemd/system/sdk-ops-security.timer
sudo rm -rf /opt/sdk-ops/security /etc/sdk-ops/security
sudo systemctl daemon-reload
echo "security watch removed"
'') (wrapE ''security watch remove: %w'' [])\<close>

definition SecurityWatchStatus :: "conn \<Rightarrow> string res prog" where
  \<open>SecurityWatchStatus c = trimmed (runE c (Raw ''
systemctl list-timers sdk-ops-security.timer --no-pager 2>/dev/null | grep sdk-ops-security || echo "timer not installed"
tail -3 /var/log/sdk-ops-security.log 2>/dev/null || echo "no events logged"
'') (wrapE ''security watch status: %w'' []))\<close>

section \<open>The reverse proxy\<close>

definition traefikWatchScript :: string where
  \<open>traefikWatchScript =
''#!/bin/bash
# sdk-ops traefik watchdog '' @
[CHR 0xE2, CHR 0x80, CHR 0x94] @
'' keeps the reverse proxy alive
# Runs every 5 minutes. Docker's restart policy covers crashes; this covers
# stopped containers, a vanished container (recreated from the stored install
# template), missing config and broken acme.json permissions.
LOG=/var/log/sdk-ops-traefik.log
CFG=/etc/traefik/traefik.yml
ACME=/opt/traefik/acme.json
INSTALL=/opt/sdk-ops/traefik/install.sh

[ -f /etc/sdk-ops/firewall/notify.env ] && . /etc/sdk-ops/firewall/notify.env

log() { echo "[$(date -u +%FT%TZ)] $*" >> "$LOG"; }

notify() {
  [ -n "${TELEGRAM_API_KEY:-}" ] && [ -n "${TELEGRAM_CHAT_ID:-}" ] || return 0
  curl -fsS --connect-timeout 5 --max-time 10 "https://api.telegram.org/bot$TELEGRAM_API_KEY/sendMessage" '' @
[CHR 0x5C] @
''
    --data-urlencode "chat_id=$TELEGRAM_CHAT_ID" '' @
[CHR 0x5C] @
''
    --data-urlencode "text=$1" >/dev/null 2>&1 || true
}

if ! docker ps -a --format '{{.Names}}' 2>/dev/null | grep -qx 'traefik'; then
  if [ -x "$INSTALL" ]; then
    if sudo bash "$INSTALL" >/dev/null 2>&1; then
      log "container recreated from template"
    else
      log "recreate FAILED"
      notify "'' @
[CHR 0xF0, CHR 0x9F, CHR 0x9A, CHR 0xA8] @
'' $(hostname): traefik recreate FAILED '' @
[CHR 0xE2, CHR 0x80, CHR 0x94] @
'' run sdk-ops infra provision"
    fi
  else
    log "container missing and no install template"
    notify "'' @
[CHR 0xF0, CHR 0x9F, CHR 0x9A, CHR 0xA8] @
'' $(hostname): traefik container missing '' @
[CHR 0xE2, CHR 0x80, CHR 0x94] @
'' run sdk-ops infra provision"
  fi
  exit 0
fi

if ! docker ps --format '{{.Names}}' 2>/dev/null | grep -qx 'traefik'; then
  sudo docker start traefik >/dev/null 2>&1 && log "container restarted" || log "start FAILED"
  exit 0
fi

if [ ! -f "$CFG" ]; then
  log "config missing: $CFG"
  notify "'' @
[CHR 0xF0, CHR 0x9F, CHR 0x9A, CHR 0xA8] @
'' $(hostname): traefik config missing '' @
[CHR 0xE2, CHR 0x80, CHR 0x94] @
'' run sdk-ops infra provision"
  exit 0
fi

if [ -f "$ACME" ]; then
  P=$(stat -c %a "$ACME" 2>/dev/null || echo 0)
  if [ "$P" != "600" ]; then
    sudo chmod 600 "$ACME" && log "acme.json perms fixed ($P -> 600)"
  fi
fi

log "ok"
''\<close>

definition InstallTraefikWatch :: "conn \<Rightarrow> unit res prog" where
  \<open>InstallTraefikWatch c =
     runU c (Raw (''
sudo mkdir -p /opt/sdk-ops/traefik
sudo tee /opt/sdk-ops/traefik/watch.sh > /dev/null << 'SCRIPTEOF'
'' @ traefikWatchScript @ ''
SCRIPTEOF
sudo chown sdkops:sdkops /opt/sdk-ops/traefik/watch.sh
sudo chmod 0750 /opt/sdk-ops/traefik/watch.sh
sudo tee /etc/systemd/system/sdk-ops-traefik.service > /dev/null << 'SERVICEEOF'
[Unit]
Description=sdk-ops traefik watchdog

[Service]
Type=oneshot
User=sdkops
ExecStart=/opt/sdk-ops/traefik/watch.sh
SERVICEEOF
sudo tee /etc/systemd/system/sdk-ops-traefik.timer > /dev/null << 'TIMEREOF'
[Unit]
Description=sdk-ops traefik watch timer (every 5 min)

[Timer]
OnCalendar=*:0/5
Persistent=true

[Install]
WantedBy=timers.target
TIMEREOF
sudo touch /var/log/sdk-ops-traefik.log 2>/dev/null || true
sudo chown sdkops:sdkops /var/log/sdk-ops-traefik.log 2>/dev/null || true
sudo systemctl daemon-reload
sudo systemctl enable --now sdk-ops-traefik.timer 2>/dev/null
echo "traefik watch: installed (every 5 min)"
''))
       (wrapO ''traefik watch install: %w
%s'' [])\<close>

definition RemoveTraefikWatch :: "conn \<Rightarrow> unit res prog" where
  \<open>RemoveTraefikWatch c = runU c (Raw ''
sudo systemctl stop sdk-ops-traefik.timer 2>/dev/null || true
sudo systemctl disable sdk-ops-traefik.timer 2>/dev/null || true
sudo rm -f /etc/systemd/system/sdk-ops-traefik.service /etc/systemd/system/sdk-ops-traefik.timer
sudo rm -rf /opt/sdk-ops/traefik
sudo systemctl daemon-reload
echo "traefik watch removed"
'') (wrapE ''traefik watch remove: %w'' [])\<close>

definition TraefikWatchStatus :: "conn \<Rightarrow> string res prog" where
  \<open>TraefikWatchStatus c = trimmed (runE c (Raw ''
systemctl list-timers sdk-ops-traefik.timer --no-pager 2>/dev/null | grep sdk-ops-traefik || echo "timer not installed"
tail -2 /var/log/sdk-ops-traefik.log 2>/dev/null || echo "no events logged"
'') (wrapE ''traefik watch status: %w'' []))\<close>

section \<open>Log rotation\<close>

definition logRotationConfig :: string where
  \<open>logRotationConfig =
''/var/log/sdk-ops-*.log {
    monthly
    maxsize 100M
    rotate 4
    compress
    missingok
    notifempty
    copytruncate
    su root root
}
''\<close>

definition InstallLogRotation :: "conn \<Rightarrow> unit res prog" where
  \<open>InstallLogRotation c =
     runU c (Raw (''
sudo tee /etc/logrotate.d/sdk-ops > /dev/null << 'ROTATEEOF'
'' @ logRotationConfig @ ''ROTATEEOF
sudo chmod 0644 /etc/logrotate.d/sdk-ops
echo "logrotate: sdk-ops config installed (monthly / 100M, keep 4)"
''))
       (wrapO ''logrotate install: %w
%s'' [])\<close>

definition RemoveLogRotation :: "conn \<Rightarrow> unit res prog" where
  \<open>RemoveLogRotation c = runU c (Raw ''
sudo rm -f /etc/logrotate.d/sdk-ops
echo "logrotate: sdk-ops config removed"
'') (wrapO ''logrotate remove: %w
%s'' [])\<close>

section \<open>The fail2ban jail\<close>

record fail2banJailConfig =
  fjSSHBantime :: int
  fjRecidiveBantime :: int
  fjMaxRetry :: int
  fjIgnoreIPs :: "string list"

definition jailFormat :: string where
  \<open>jailFormat =
''# Defaults: every jail inherits the operator admin IPs so a shared
# NAT can never lock the operator out (applies to recidive too).
[DEFAULT]
ignoreip = %s

[sshd]
enabled = true
port = 22
logpath = %%(sshd_log)s
backend = %%(sshd_backend)s
maxretry = %d
findtime = 600
bantime = %d

# Repeat offenders: 3 bans within 24h get a longer all-ports ban.
[recidive]
enabled = true
logpath = /var/log/fail2ban.log
banaction = %%(banaction_allports)s
bantime = %d
findtime = 86400
maxretry = 3
''\<close>

definition Fail2banJailScript :: "fail2banJailConfig \<Rightarrow> string" where
  \<open>Fail2banJailScript cfg =
     (let sshdBantime = (if fjSSHBantime cfg \<le> 0 then 3600 else fjSSHBantime cfg);
          recidiveBantime = (if fjRecidiveBantime cfg \<le> 0 then 82800 else fjRecidiveBantime cfg);
          maxRetry = (if fjMaxRetry cfg \<le> 0 then 5 else fjMaxRetry cfg);
          ignore = ''127.0.0.1/8 ::1'' @
            (if fjIgnoreIPs cfg \<noteq> [] then '' '' @ joinWith '' '' (fjIgnoreIPs cfg) else '''')
      in sprintf jailFormat [Str ignore, Num maxRetry, Num sshdBantime, Num recidiveBantime])\<close>

definition trimNewlines :: "string \<Rightarrow> string" where
  "trimNewlines s = rev (dropWhile (\<lambda>c. c = CHR 0x0D \<or> c = CHR 0x0A) (rev s))"

definition jail_read :: script where
  \<open>jail_read = Raw ''sudo cat /etc/fail2ban/jail.local 2>/dev/null || true''\<close>

definition InstallFail2banJail :: "conn \<Rightarrow> fail2banJailConfig \<Rightarrow> unit res prog" where
  \<open>InstallFail2banJail c cfg =
     (let content = Fail2banJailScript cfg in
      tryP id (runE c jail_read (wrapE ''fail2ban jail read: %w'' [])) (\<lambda>out.
        if trimNewlines out = trimNewlines content then okP
        else runU c (Fmt ''
cat > /tmp/jail.local << 'EOF'
%s
EOF
sudo cp /tmp/jail.local /etc/fail2ban/jail.local
sudo chmod 0644 /etc/fail2ban/jail.local
sudo fail2ban-client reload >/dev/null 2>&1 || sudo systemctl reload fail2ban 2>/dev/null || true
echo "fail2ban: jail.local updated and reloaded"
'' [Str content])
               (wrapE ''fail2ban jail install: %w'' [])))\<close>

end
