(* ===== verification/Keyed.thy ===== *)
theory Keyed imports Prelude begin

text \<open>
  The two files the operator's machine keeps, \<open>config.yaml\<close> and \<open>state.yaml\<close>, are lists of
  records that the program searches by a key: it updates the first record of that key, or
  appends a new one. The locale \<open>keyed\<close> states what an update must respect and what the
  store then guarantees.
\<close>

fun updateFirst :: "('a \<Rightarrow> bool) \<Rightarrow> ('a \<Rightarrow> 'a) \<Rightarrow> 'a list \<Rightarrow> 'a list" where
  "updateFirst P f [] = []"
| "updateFirst P f (x # xs) = (if P x then f x # xs else x # updateFirst P f xs)"

definition upsert :: "('a \<Rightarrow> bool) \<Rightarrow> ('a \<Rightarrow> 'a) \<Rightarrow> 'a \<Rightarrow> 'a list \<Rightarrow> 'a list" where
  "upsert P f new xs = (if list_ex P xs then updateFirst P f xs else xs @ [new])"

lemma updateFirst_none: "\<not> list_ex P xs \<Longrightarrow> updateFirst P f xs = xs"
  by (induction xs) auto

lemma map_updateFirst: "(\<And>x. P x \<Longrightarrow> g (f x) = g x) \<Longrightarrow> map g (updateFirst P f xs) = map g xs"
  by (induction xs) auto

lemma find_updateFirst:
  assumes "\<And>x. P x \<Longrightarrow> P (f x)"
  shows "List.find P (updateFirst P f xs) = map_option f (List.find P xs)"
  using assms by (induction xs) auto

lemma find_updateFirst_other:
  assumes "\<And>x. P x \<Longrightarrow> \<not> Q x \<and> \<not> Q (f x)"
  shows "List.find Q (updateFirst P f xs) = List.find Q xs"
  using assms by (induction xs) auto

lemma find_append: "List.find P (xs @ ys) = (case List.find P xs of Some x \<Rightarrow> Some x | None \<Rightarrow> List.find P ys)"
  by (induction xs) auto

lemma find_list_ex: "List.find P xs = None \<longleftrightarrow> \<not> list_ex P xs"
  by (induction xs) auto

locale keyed =
  fixes key :: "'a \<Rightarrow> 'k"
    and upd :: "'k \<Rightarrow> 'p \<Rightarrow> 'a \<Rightarrow> 'a"
    and new :: "'k \<Rightarrow> 'p \<Rightarrow> 'a"
    and put :: "'k \<Rightarrow> 'p \<Rightarrow> 'a list \<Rightarrow> 'a list"
  assumes key_upd: "key (upd k p x) = key x"
    and key_new: "key (new k p) = k"
    and put_def: "put k p xs = upsert (\<lambda>x. key x = k) (upd k p) (new k p) xs"
begin

lemma keys_put:
  "map key (put k p xs) = (if k \<in> key ` set xs then map key xs else map key xs @ [k])"
proof (cases "list_ex (\<lambda>x. key x = k) xs")
  case True
  then have "k \<in> key ` set xs" by (auto simp: list_ex_iff)
  with True show ?thesis by (simp add: put_def upsert_def map_updateFirst key_upd)
next
  case False
  then have "k \<notin> key ` set xs" by (auto simp: list_ex_iff)
  with False show ?thesis by (simp add: put_def upsert_def key_new)
qed

lemma distinct_put: "distinct (map key xs) \<Longrightarrow> distinct (map key (put k p xs))"
  by (simp add: keys_put)

lemma put_lookup:
  "List.find (\<lambda>x. key x = k) (put k p xs) =
     (case List.find (\<lambda>x. key x = k) xs of Some x \<Rightarrow> Some (upd k p x) | None \<Rightarrow> Some (new k p))"
proof (cases "List.find (\<lambda>x. key x = k) xs")
  case None
  then have "\<not> list_ex (\<lambda>x. key x = k) xs" unfolding find_list_ex .
  with None show ?thesis by (simp add: put_def upsert_def key_new find_append)
next
  case (Some x)
  then have "list_ex (\<lambda>x. key x = k) xs" using find_list_ex [of "\<lambda>x. key x = k" xs] by auto
  with Some show ?thesis by (simp add: put_def upsert_def key_upd find_updateFirst)
qed

lemma put_other:
  assumes "k' \<noteq> k"
  shows "List.find (\<lambda>x. key x = k') (put k p xs) = List.find (\<lambda>x. key x = k') xs"
proof -
  have "List.find (\<lambda>x. key x = k') (updateFirst (\<lambda>x. key x = k) (upd k p) xs) = List.find (\<lambda>x. key x = k') xs"
    using assms by (intro find_updateFirst_other) (auto simp: key_upd)
  then show ?thesis using assms by (simp add: put_def upsert_def key_new find_append split: option.splits)
qed

lemma put_length: "length xs \<le> length (put k p xs) \<and> length (put k p xs) \<le> Suc (length xs)"
proof -
  have "length (put k p xs) = length (map key (put k p xs))" by simp
  then show ?thesis unfolding keys_put by (auto split: if_splits)
qed

end

end
