(* ===== verification/ClusterOps.thy ===== *)
theory ClusterOps imports Remote begin

text \<open>
  What is installed on a node besides the hardening: Docker (\<open>docker/install.go\<close>), k3s with
  its storage and network tuning, its kubeconfig and its CIS phases (\<open>k3s/install.go\<close>,
  \<open>k3s/join.go\<close>, \<open>k3s/helm.go\<close>), and the hooks of a phase (\<open>hooks/hooks.go\<close>).
\<close>

section \<open>Docker\<close>

definition dockerScript :: string where
  \<open>dockerScript =
''#!/bin/bash
set -euo pipefail

echo "=== sdk-ops: Install Docker ==="
if command -v docker &>/dev/null; then
    echo "Docker already installed, skipping"
    exit 0
fi

# The provider mirror (mirror.<provider>) can hang '' @
[CHR 0xE2, CHR 0x80, CHR 0x94] @
'' switch to the official
# Ubuntu/Debian archives first (provider-agnostic), so the apt (docker-ce)
# resolves during the install.
sudo sed -i -E 's|https?://mirror[^/ ]*/ubuntu|http://archive.ubuntu.com/ubuntu|g' /etc/apt/sources.list.d/*.sources /etc/apt/sources.list 2>/dev/null || true
sudo sed -i -E 's|mirror'' @
[CHR 0x5C] @
''+file://[^ ]*debian-security[^ ]*|http://deb.debian.org/debian-security|g' /etc/apt/sources.list.d/*.sources 2>/dev/null || true
sudo sed -i -E 's|mirror'' @
[CHR 0x5C] @
''+file://[^ ]*debian[^ ]*|http://deb.debian.org/debian|g' /etc/apt/sources.list.d/*.sources 2>/dev/null || true
# The ForceIPv6 breaks v4-only hosts (the apt would try the unreachable v6):
# remove it ALWAYS, re-add only on v4-less hosts.
sudo rm -f /etc/apt/apt.conf.d/99force-ipv6 2>/dev/null || true
if ! ip -4 addr show | grep -q 'inet '; then
  echo 'Acquire::ForceIPv6 "true";' | sudo tee /etc/apt/apt.conf.d/99force-ipv6 >/dev/null 2>&1 || true
fi
# Hosts with IPv4 but a broken/absent IPv6 path: apt prefers the AAAA records
# and fails the repo connect ("Unable to connect") instead of falling back.
# Force IPv4 for the dependency install whenever a v4 address exists.
if ip -4 addr show | grep -q 'inet '; then
  echo 'Acquire::ForceIPv4 "true";' | sudo tee /etc/apt/apt.conf.d/99force-ipv4 >/dev/null 2>&1 || true
fi
sudo apt-get update >/dev/null 2>&1 || true

curl -fsSL https://get.docker.com | sudo sh
sudo usermod -aG docker $(whoami) 2>/dev/null || true

echo "=== sdk-ops: Enable Docker service ==="
sudo systemctl enable docker
sudo systemctl start docker

docker --version
docker compose version 2>/dev/null || true
echo "=== sdk-ops: Docker installed ==="
''\<close>

definition natScript :: string where
  \<open>natScript =
''
sudo modprobe iptable_nat ip6table_nat 2>/dev/null || true
if ! sudo nft list table ip nat 2>/dev/null | grep -q 'chain DOCKER'; then
  echo "  -> docker networking: recreating nat chains (restarting docker)..."
  sudo systemctl restart docker
  sleep 3
fi
echo "docker networking: OK"
''\<close>

definition EnsureNetworking :: "conn \<Rightarrow> unit res prog" where
  \<open>EnsureNetworking c = runU c (Raw natScript) (wrapO ''docker networking: %w
%s'' [])\<close>

definition dockerInstall :: "conn \<Rightarrow> unit res prog" where
  \<open>dockerInstall c =
     tryP id (runE c (Raw dockerScript) (wrapO ''docker install failed: %w
output: %s'' [])) (\<lambda>_. EnsureNetworking c)\<close>

definition dockerCheck :: "conn \<Rightarrow> string res prog" where
  \<open>dockerCheck c =
     (let checks = [(''docker --version 2>/dev/null && echo 'docker: OK' || echo 'docker: MISSING'' @ [CHR 0x27]),
        (''docker compose version 2>/dev/null && echo 'compose: OK' || echo 'compose: MISSING'' @ [CHR 0x27]),
        (''systemctl is-active docker --quiet && echo 'docker-daemon: OK' || echo 'docker-daemon: MISSING'' @ [CHR 0x27])]
      in runE c (Raw (concat (map (\<lambda>s. s @ ''; '') checks))) (wrapE ''docker check: %w'' []))\<close>

section \<open>k3s\<close>

record installConfig =
  icPublicIP :: string
  icExtraArgs :: string
  icK3sVersion :: string
  icK3sChannel :: string
  icLocalPath :: string
  icContext :: string
  icMerge :: bool
  icDisableTraefik :: bool
  icSecretsEncryption :: bool
  icProtectKernelDefaults :: bool
  icAdmissionPlugins :: string
  icCISPSA :: bool
  icCISAuditLog :: bool
  icCISNetPol :: bool
  icCISSvcAcc :: bool
  icCISTLSCiphers :: bool
  icSkipDownload :: bool

definition DefaultInstallConfig :: "string \<Rightarrow> installConfig" where
  \<open>DefaultInstallConfig ip = \<lparr>icPublicIP = ip, icExtraArgs = '''', icK3sVersion = '''',
     icK3sChannel = ''stable'', icLocalPath = ''./kubeconfig'', icContext = ''default'', icMerge = False,
     icDisableTraefik = False, icSecretsEncryption = False, icProtectKernelDefaults = False,
     icAdmissionPlugins = '''', icCISPSA = False, icCISAuditLog = False, icCISNetPol = False,
     icCISSvcAcc = False, icCISTLSCiphers = False, icSkipDownload = False\<rparr>\<close>

definition EnsureStorageDiscardOff :: "conn \<Rightarrow> unit res prog" where
  \<open>EnsureStorageDiscardOff c = runU c (Raw (''SUDO=""; [ "$(id -u)" != "0" ] && SUDO="sudo"
if findmnt -no OPTIONS / | grep -q discard; then
  $SUDO mount -o remount,nodiscard / 2>/dev/null || true
  $SUDO sed -i -E '/[[:space:]]'' @ [CHR 0x5C] @ ''/[[:space:]]/ s/discard,?//' /etc/fstab 2>/dev/null || true
  $SUDO systemctl enable --now fstrim.timer >/dev/null 2>&1 || true
  echo "storage: root remounted without discard (periodic fstrim enabled)"
else
  echo "storage: no discard option, nothing to do"
fi''))
     (wrapE ''storage discard fix: %w'' [])\<close>

definition offloadScript :: string where
  \<open>offloadScript =
''SUDO=""; [ "$(id -u)" != "0" ] && SUDO="sudo"
$SUDO tee /etc/udev/rules.d/99-sdk-ops-offloads.rules >/dev/null <<'EOF'
# Disable TX checksum offload on the vxlan (flannel.1) and the underlay NIC:
# virtio-net does not complete the inner vxlan checksum, corrupting cross-node
# pod-to-pod traffic (receivers drop it silently). Managed by sdk-ops.
ACTION=="add", SUBSYSTEM=="net", KERNEL=="flannel.1", RUN+="/usr/sbin/ethtool -K flannel.1 tx off"
ACTION=="add", SUBSYSTEM=="net", KERNEL=="%[1]s", RUN+="/usr/sbin/ethtool -K %[1]s tx off"
EOF
$SUDO udevadm control --reload-rules 2>/dev/null || true
for i in $(seq 1 10); do ip link show flannel.1 >/dev/null 2>&1 && break; sleep 3; done
$SUDO ethtool -K flannel.1 tx off >/dev/null 2>&1 || true
$SUDO ethtool -K %[1]s tx off >/dev/null 2>&1 || true
if $SUDO ethtool -k flannel.1 2>/dev/null | grep -q 'tx-checksumming: on'; then
  echo "net: WARN flannel.1 tx offloads are still ON (re-created after the fix?)"
else
  echo "net: tx offloads off (flannel.1 + %[1]s, udev-persistent)"
fi''\<close>

definition EnsureNetOffloadsOff :: "conn \<Rightarrow> string \<Rightarrow> unit res prog" where
  \<open>EnsureNetOffloadsOff c iface0 =
     (let iface = (if iface0 = '''' then ''ens19'' else iface0) in
      runU c (Fmt offloadScript [Str iface]) (wrapE ''net offload fix: %w'' []))\<close>

definition buildExtraArgs :: "installConfig \<Rightarrow> string" where
  \<open>buildExtraArgs cfg =
     (let a = icExtraArgs cfg;
          a = (if icDisableTraefik cfg then trimSpace (a @ '' --disable traefik'') else a);
          a = (if icSecretsEncryption cfg then trimSpace (a @ '' --secrets-encryption'') else a);
          a = (if icProtectKernelDefaults cfg then trimSpace (a @ '' --protect-kernel-defaults'') else a);
          a = (if icAdmissionPlugins cfg \<noteq> ''''
               then trimSpace (a @ '' --kube-apiserver-arg enable-admission-plugins='' @ icAdmissionPlugins cfg) else a)
      in if icCISTLSCiphers cfg
         then trimSpace (a @ '' --kubelet-arg tls-cipher-suites='' @ ''TLS_ECDHE_ECDSA_WITH_AES_256_GCM_SHA384,TLS_ECDHE_RSA_WITH_AES_256_GCM_SHA384,TLS_ECDHE_ECDSA_WITH_AES_128_GCM_SHA256,TLS_ECDHE_RSA_WITH_AES_128_GCM_SHA256,TLS_ECDHE_ECDSA_WITH_CHACHA20_POLY1305,TLS_ECDHE_RSA_WITH_CHACHA20_POLY1305'')
         else a)\<close>

definition buildEnvVars :: "installConfig \<Rightarrow> string" where
  \<open>buildEnvVars cfg =
     (if icK3sChannel cfg \<noteq> '''' then ''INSTALL_K3S_CHANNEL='' @ icK3sChannel cfg @ '' '' else '''') @
     (if icK3sVersion cfg \<noteq> '''' then ''INSTALL_K3S_VERSION='' @ icK3sVersion cfg @ '' '' else '''') @
     (if icSkipDownload cfg then ''INSTALL_K3S_SKIP_DOWNLOAD=true '' else '''')\<close>

definition buildInstallCmd :: "installConfig \<Rightarrow> script" where
  \<open>buildInstallCmd cfg =
     (let extraArgs = buildExtraArgs cfg;
          serverFlags = ''--tls-san '' @ icPublicIP cfg;
          serverFlags = (if extraArgs \<noteq> '''' then serverFlags @ '' '' @ extraArgs else serverFlags)
      in Fmt ''SUDO=""; [ "$(id -u)" != "0" ] && SUDO="sudo"; curl -sfL https://get.k3s.io | $SUDO env %sINSTALL_K3S_EXEC="server %s" sh -'' [Str (buildEnvVars cfg), Str serverFlags])\<close>

definition waitForK3s :: "conn \<Rightarrow> unit res prog" where
  \<open>waitForK3s c = runU c (Raw ''for i in $(seq 1 60); do
  if sudo kubectl --kubeconfig /etc/rancher/k3s/k3s.yaml get nodes 2>/dev/null | grep -q Ready; then
    echo "k3s ready"
    exit 0
  fi
  sleep 2
done
echo "k3s not ready after 120s"
exit 1'')
     (wrapE ''k3s not ready: %w'' [])\<close>

definition fetchKubeconfig :: "conn \<Rightarrow> string \<Rightarrow> (string \<times> string) res prog" where
  \<open>fetchKubeconfig c publicIP =
     tryP id (runE c (Raw ''sudo cat /etc/rancher/k3s/k3s.yaml'') (wrapE ''fetch kubeconfig: %w'' [])) (\<lambda>kc.
       let kc = replaceAll kc ''127.0.0.1'' publicIP;
           kc = replaceAll kc ''localhost'' publicIP
       in tryP id (runE c (Raw ''sudo cat /var/lib/rancher/k3s/server/token'') (wrapE ''fetch token: %w'' []))
            (\<lambda>token. Ret (Inr (kc, trimSpace token))))\<close>

text \<open>The kubeconfig goes to a file of the operator's machine; failures are only logged.\<close>

definition saveKubeconfig :: "string \<Rightarrow> string \<Rightarrow> installConfig \<Rightarrow> unit prog" where
  \<open>saveKubeconfig kc token cfg =
     (if icMerge cfg then
        Do (MkDir ''/tmp'') (\<lambda>_.
        bind (readFile ''/tmp/sdk-ops-kubeconfig'') (\<lambda>existing.
        let kc' = (case existing of
              Inr old \<Rightarrow> if old \<noteq> [] then old @ ''\<newline>'' @ kc else kc
            | Inl _ \<Rightarrow> kc)
        in bind (writeFile ''/tmp/sdk-ops-kubeconfig'' kc') (\<lambda>_. Ret ())))
      else bind (writeFile (icLocalPath cfg) kc) (\<lambda>_. Ret ()))\<close>

definition applyCISPSA :: "conn \<Rightarrow> string \<Rightarrow> unit prog" where
  \<open>applyCISPSA c kcmd = execP c (Fmt ''
%s label --overwrite namespace default pod-security.kubernetes.io/enforce=restricted 2>/dev/null || true
%s label --overwrite namespace default pod-security.kubernetes.io/audit=restricted 2>/dev/null || true
%s label --overwrite namespace default pod-security.kubernetes.io/warn=restricted 2>/dev/null || true
echo "psa: OK"
'' [Str kcmd, Str kcmd, Str kcmd])\<close>

definition auditPolicy :: string where
  \<open>auditPolicy = ''apiVersion: audit.k8s.io/v1
kind: Policy
metadata:
  creationTimestamp: null
rules:
- level: Metadata
  resources:
  - resources: ["secrets"]
- level: RequestResponse
  resources:
  - resources: ["configmaps"]
- level: Metadata
  omitStages:
  - RequestReceived
''\<close>

definition applyCISAuditLog :: "conn \<Rightarrow> string \<Rightarrow> unit prog" where
  \<open>applyCISAuditLog c kcmd = execP c (Fmt ''
sudo mkdir -p /var/lib/rancher/k3s/server/logs
cat > /tmp/audit-policy.yaml << 'POLICY'
%s
POLICY
sudo mv /tmp/audit-policy.yaml /var/lib/rancher/k3s/server/logs/audit-policy.yaml
sudo chmod 600 /var/lib/rancher/k3s/server/logs/audit-policy.yaml
sudo sed -i 's|^ExecStart=.*|& --audit-log-path=/var/lib/rancher/k3s/server/logs/audit.log --audit-policy-file=/var/lib/rancher/k3s/server/logs/audit-policy.yaml --audit-log-maxage=30 --audit-log-maxbackup=10 --audit-log-maxsize=100|' /etc/systemd/system/k3s.service 2>/dev/null || true
sudo systemctl daemon-reload
sudo systemctl restart k3s
echo "audit-log: OK"
'' [Str auditPolicy])\<close>

definition applyCISNetPol :: "conn \<Rightarrow> string \<Rightarrow> unit prog" where
  \<open>applyCISNetPol c kcmd = execP c (Fmt ''
%s apply -f - << 'EOF'
apiVersion: networking.k8s.io/v1
kind: NetworkPolicy
metadata:
  name: default-deny-all
  namespace: default
spec:
  podSelector: {}
  policyTypes:
  - Ingress
  - Egress
EOF
echo "netpol: OK"
'' [Str kcmd])\<close>

definition applyCISSvcAcc :: "conn \<Rightarrow> string \<Rightarrow> unit prog" where
  \<open>applyCISSvcAcc c kcmd = execP c (Fmt ''
%s patch serviceaccount default -n default -p '{"automountServiceAccountToken": false}' 2>/dev/null || true
echo "svcacc: OK"
'' [Str kcmd])\<close>

definition postInstallCIS :: "conn \<Rightarrow> installConfig \<Rightarrow> unit prog" where
  \<open>postInstallCIS c cfg =
     (let kcmd = ''sudo kubectl --kubeconfig /etc/rancher/k3s/k3s.yaml'';
          phase = (\<lambda>on f k. if on then bind (f c kcmd) (\<lambda>_. k) else k)
      in phase (icCISPSA cfg) applyCISPSA
          (phase (icCISAuditLog cfg) applyCISAuditLog
          (phase (icCISNetPol cfg) applyCISNetPol
          (phase (icCISSvcAcc cfg) applyCISSvcAcc (Ret ())))))\<close>

definition k3sInstall :: "conn \<Rightarrow> installConfig \<Rightarrow> unit res prog" where
  \<open>k3sInstall c cfg =
     tryP id (EnsureStorageDiscardOff c) (\<lambda>_.
     tryP id (runE c (buildInstallCmd cfg) (wrapO ''k3s install failed: %w
output: %s'' [])) (\<lambda>_.
     tryP id (waitForK3s c) (\<lambda>_.
     tryP id (fetchKubeconfig c (icPublicIP cfg)) (\<lambda>(kc, token).
     bind (saveKubeconfig kc token cfg) (\<lambda>_.
     bind (postInstallCIS c cfg) (\<lambda>_. okP))))))\<close>

definition k3sCheck :: "conn \<Rightarrow> string res prog" where
  \<open>k3sCheck c =
     (let checks = [(''k3s --version 2>/dev/null && echo 'k3s: OK' || echo 'k3s: MISSING'' @ [CHR 0x27]),
        (''sudo systemctl is-active k3s --quiet && echo 'k3s-service: OK' || echo 'k3s-service: MISSING'' @ [CHR 0x27]),
        (''sudo kubectl --kubeconfig /etc/rancher/k3s/k3s.yaml get nodes 2>/dev/null | grep -q Ready && echo 'k3s-ready: OK' || echo 'k3s-ready: PENDING'' @ [CHR 0x27]),
        (''sudo ls /etc/rancher/k3s/k3s.yaml 2>/dev/null && echo 'kubeconfig: OK' || echo 'kubeconfig: MISSING'' @ [CHR 0x27]),
        (''sudo test -f /var/lib/rancher/k3s/server/token && echo 'token: OK' || echo 'token: MISSING'' @ [CHR 0x27])]
      in runE c (Raw (joinWith ''; '' checks)) (wrapE ''k3s check: %w'' []))\<close>

record joinConfig =
  jcServerIP :: string
  jcToken :: string
  jcServerUser :: string
  jcExtraArgs :: string
  jcK3sVersion :: string
  jcK3sChannel :: string

text \<open>The session to the server is \<open>None\<close> for Go's nil client.\<close>

definition k3sJoin :: "conn \<Rightarrow> conn option \<Rightarrow> joinConfig \<Rightarrow> unit res prog" where
  \<open>k3sJoin agent server cfg =
     (let install = (\<lambda>token.
        if token = '''' then fail (Errorf ''token is required (provide --token or ensure SSH access to server)'' [])
        else let env = ''K3S_URL=https://'' @ jcServerIP cfg @ '':6443 K3S_TOKEN='' @ token;
                 env = (if jcK3sChannel cfg \<noteq> '''' then ''INSTALL_K3S_CHANNEL='' @ jcK3sChannel cfg @ '' '' @ env else env);
                 env = (if jcK3sVersion cfg \<noteq> '''' then ''INSTALL_K3S_VERSION='' @ jcK3sVersion cfg @ '' '' @ env else env)
          in runU agent (Fmt ''SUDO=""; [ "$(id -u)" != "0" ] && SUDO="sudo"; curl -sfL https://get.k3s.io | $SUDO env %s INSTALL_K3S_EXEC="agent %s" sh -'' [Str env, Str (jcExtraArgs cfg)])
               (wrapO ''join failed: %w
output: %s'' []))
      in case server of
           Some sc \<Rightarrow>
             if jcToken cfg = '''' then
               tryP id (runE sc (Raw ''cat /var/lib/rancher/k3s/server/token'') (wrapE ''fetch token from server: %w'' []))
                 (\<lambda>out. install (trimSpace out))
             else install (jcToken cfg)
         | None \<Rightarrow> install (jcToken cfg))\<close>

definition helmScript :: string where
  \<open>helmScript =
''WANT=%q
if command -v helm >/dev/null 2>&1 && helm version --short 2>/dev/null | grep -q "$WANT"; then
  echo "helm: $WANT already installed"
  exit 0
fi
case "$(uname -m)" in
  x86_64|amd64)   HARCH=amd64 ;;
  aarch64|arm64)  HARCH=arm64 ;;
  *) echo "helm: unsupported arch $(uname -m)"; exit 1 ;;
esac
URL="https://get.helm.sh/helm-${WANT}-linux-${HARCH}.tar.gz"
if command -v curl >/dev/null 2>&1; then
  curl -fsSL "$URL" -o /tmp/helm.tgz || { echo "helm: download failed"; exit 1; }
elif command -v wget >/dev/null 2>&1; then
  wget -qO /tmp/helm.tgz "$URL" || { echo "helm: download failed"; exit 1; }
else
  echo "helm: curl or wget required"; exit 1
fi
SUDO=""
[ "$(id -u)" != "0" ] && SUDO="sudo"
tar -xzf /tmp/helm.tgz -C /tmp
${SUDO} install -m 0755 "/tmp/linux-${HARCH}/helm" /usr/local/bin/helm
rm -rf /tmp/helm.tgz "/tmp/linux-${HARCH}"
echo "helm: installed ${WANT}"''\<close>

definition helmEnsureScript :: "string \<Rightarrow> script" where
  "helmEnsureScript version = Fmt helmScript [Str version]"

definition EnsureHelmOn :: "conn \<Rightarrow> string \<Rightarrow> unit res prog" where
  \<open>EnsureHelmOn c version0 =
     (let version = (if version0 = '''' then ''v3.15.4'' else version0) in
      runU c (helmEnsureScript version) (wrapE ''helm ensure: %w'' []))\<close>

section \<open>Hooks\<close>

text \<open>
  The variables are a Go map, given in the order one run iterates over it. A failing hook
  stops a \<open>pre-\<close> phase and is only reported in the others.
\<close>

definition baseName :: "string \<Rightarrow> string" where
  "baseName p = last (splitOn CHR ''/'' p)"

definition hookEnv :: "string \<Rightarrow> string dict \<Rightarrow> string" where
  "hookEnv phase vars = ''SDK_OPS_PHASE='' @ phase @
     concat (map (\<lambda>(k, v). '' SDK_OPS_'' @ k @ ''='' @ v) vars)"

primrec runHooks :: "conn \<Rightarrow> string \<Rightarrow> string dict \<Rightarrow> string list \<Rightarrow> unit res prog" where
  "runHooks c phase vars [] = okP"
| "runHooks c phase vars (s # ss) =
     bind (sshRun c (Fmt ''sudo -E %s %s'' [Str (hookEnv phase vars), Str s])) (\<lambda>(out, e).
       case e of
         Some err \<Rightarrow> if hasPrefix phase ''pre-'' then fail (Wrapf ''pre-hook %s failed: %w'' [Str (baseName s)] err)
                     else runHooks c phase vars ss
       | None \<Rightarrow> runHooks c phase vars ss)"

definition hooksRun :: "conn \<Rightarrow> string \<Rightarrow> string dict \<Rightarrow> unit res prog" where
  \<open>hooksRun c phase vars =
     (let hookDir = ''/opt/sdk-ops/hooks/'' @ phase in
      bind (sshRun c (Fmt ''test -d %s && find %s -maxdepth 1 -type f -executable 2>/dev/null | sort || true'' [Str hookDir, Str hookDir])) (\<lambda>(out, e).
        if e \<noteq> None \<or> trimSpace out = '''' then okP
        else runHooks c phase vars (goFields (trimSpace out))))\<close>

definition InitHooksDir :: "conn \<Rightarrow> unit res prog" where
  \<open>InitHooksDir c =
     eachP (\<lambda>s. runU c (Raw s) (wrapE ''init hooks dir: %w'' []))
       [''sudo mkdir -p /opt/sdk-ops/hooks/{pre-init,post-init,pre-join,post-join,pre-deploy,post-deploy,pre-remove,post-remove}'',
        ''sudo chown -R $(whoami) /opt/sdk-ops/hooks 2>/dev/null || true'']\<close>

end
