(* ===== verification/ProxyOps.thy ===== *)
theory ProxyOps imports Remote Allowlist begin

text \<open>
  What \<open>deploy/\<close> installs on a node during the provisioning: the Traefik reverse proxy with
  its container template (\<open>proxy_traefik.go\<close>), log shipping (\<open>logging.go\<close>) and alerting
  (\<open>alerting.go\<close>).
\<close>

section \<open>Traefik\<close>

record proxyConfig =
  pcDomain :: string
  pcEmail :: string
  pcTargetPort :: int
  pcStaging :: bool
  pcEnv :: "string list"

definition emptyProxyConfig :: proxyConfig where
  "emptyProxyConfig = \<lparr>pcDomain = '''', pcEmail = '''', pcTargetPort = 0, pcStaging = False, pcEnv = []\<rparr>"

definition hasIPv4 :: "conn \<Rightarrow> bool prog" where
  \<open>hasIPv4 c = bind (sshRun c (Raw (''ip -4 addr show 2>/dev/null | awk '/inet / && $2 !~ /^127'' @ [CHR 0x5C] @ ''./ && $2 !~ /^10'' @ [CHR 0x5C] @ ''./ && $2 !~ /^172'' @ [CHR 0x5C] @ ''.(1[6-9]|2[0-9]|3[01])'' @ [CHR 0x5C] @ ''./ && $2 !~ /^192'' @ [CHR 0x5C] @ ''.168'' @ [CHR 0x5C] @ ''./' | wc -l''))) (\<lambda>(out, e).
     Ret (e = None \<and> trimSpace out \<noteq> ''0'' \<and> trimSpace out \<noteq> ''''))\<close>

definition envArgs :: "string list \<Rightarrow> string" where
  "envArgs es = concat (map (\<lambda>e. '' -e '' @ e) es)"

definition traefikRun :: "string \<Rightarrow> string list \<Rightarrow> string" where
  \<open>traefikRun netArgs es = sprintf ''sudo docker run -d --entrypoint traefik --name traefik --restart unless-stopped %s%s -v /etc/traefik:/etc/traefik:ro -v /opt/traefik:/opt/traefik traefik:v3.2 --configFile=/etc/traefik/traefik.yml'' [Str netArgs, Str (envArgs es)]\<close>

text \<open>The name of an environment entry: \<open>strings.Cut\<close> at the first equals sign.\<close>

definition envName :: "string \<Rightarrow> string" where
  "envName e = takeWhile (\<lambda>c. c \<noteq> CHR ''='') e"

definition envCheck :: "string list \<Rightarrow> string" where
  \<open>envCheck es = ''ENVS_OK=1'' @ concat (map (\<lambda>e. sprintf (''
if ! docker inspect traefik --format '{{range .Config.Env}}{{.}}{{"'' @ [CHR 0x5C] @ ''n"}}{{end}}' | grep -q '^%s='; then ENVS_OK=0; fi'') [Str (envName e)]) es)\<close>

definition containerFormat :: string where
  \<open>containerFormat =
''
if docker inspect traefik >/dev/null 2>&1; then
  %s
  if [ "$ENVS_OK" != "1" ]; then
    echo "traefik: recreating container (missing env)"
    sudo docker rm -f traefik >/dev/null 2>&1 || true
    %s
  else
    echo "traefik: container already running"
  fi
else
  %s
fi
''\<close>

definition appYmlFormat :: string where
  \<open>appYmlFormat =
''
sudo tee /etc/traefik/conf.d/app.yml > /dev/null << 'APPEOF'
http:
  routers:
    app:
      rule: "Host('' @
[CHR 0x5C] @
''x60%s'' @
[CHR 0x5C] @
''x60)"
      service: app
      entryPoints:
        - websecure
      tls:
        certResolver: letsencrypt
  services:
    app:
      loadBalancer:
        servers:
          - url: "http://localhost:%d"
APPEOF
''\<close>

definition traefikFormat :: string where
  \<open>traefikFormat =
''
set -e
sudo mkdir -p /etc/traefik/conf.d /opt/traefik /srv/traefik-404

# 404 responder for unknown hosts. It is only wired on websecure (443):
# a router on :80 would swallow the ACME challenges and certificates could
# never renew. The responder binds 0.0.0.0 so bridge-mode Traefik reaches it
# via the docker gateway and host-network Traefik via localhost.
sudo tee /srv/traefik-404/server.py > /dev/null << 'PYEOF'
from http.server import BaseHTTPRequestHandler, HTTPServer

PAGE = """<!doctype html>
<html lang="en">
<head>
<meta charset="utf-8">
<meta name="viewport" content="width=device-width,initial-scale=1">
<title>404 '' @
[CHR 0xE2, CHR 0x80, CHR 0x94] @
'' Not Found</title>
<style>
  html,body{margin:0;min-height:100vh}
  body{display:flex;align-items:center;justify-content:center;background:#0b1220;color:#e5e7eb;
       font-family:-apple-system,BlinkMacSystemFont,"Segoe UI",Roboto,"Helvetica Neue",Arial,sans-serif}
  .wrap{text-align:center;padding:2rem}
  h1{font-size:4.5rem;line-height:1;margin:0;font-weight:700;letter-spacing:.02em}
  p{margin:.75rem 0 0;color:#94a3b8;font-size:1.125rem}
</style>
</head>
<body>
<div class="wrap">
  <h1>404</h1>
  <p>Page not found</p>
</div>
</body>
</html>"""

class H(BaseHTTPRequestHandler):
    def do_GET(self):
        body = PAGE.encode()
        self.send_response(404)
        self.send_header("Content-Type", "text/html; charset=utf-8")
        self.send_header("Content-Length", str(len(body)))
        self.end_headers()
        self.wfile.write(body)

    def log_message(self, *args):
        pass

HTTPServer(("0.0.0.0", 18080), H).serve_forever()
PYEOF

sudo tee /etc/systemd/system/traefik-404.service > /dev/null << 'UNITEOF'
[Unit]
Description=Traefik 404 responder (websecure catch-all)

[Service]
Type=simple
ExecStart=/usr/bin/python3 -u /srv/traefik-404/server.py
Restart=always
RestartSec=2

[Install]
WantedBy=multi-user.target
UNITEOF
sudo systemctl daemon-reload
sudo systemctl enable --now traefik-404

# Catch-all on websecure ONLY (the :80 router was removed '' @
[CHR 0xE2, CHR 0x80, CHR 0x94] @
'' it broke ACME).
sudo tee /etc/traefik/conf.d/00-catchall.yml > /dev/null << 'EOF'
http:
  routers:
    catchall:
      rule: "HostRegexp('' @
[CHR 0x5C] @
''x60.+'' @
[CHR 0x5C] @
''x60)"
      priority: 1
      entryPoints:
        - websecure
      tls: {}
      service: notfound
  services:
    notfound:
      loadBalancer:
        servers:
          - url: "%s"
EOF

sudo tee /etc/traefik/traefik.yml > /dev/null << 'EOF'
global:
  sendAnonymousUsage: false
api:
  dashboard: false
entryPoints:
  web:
    address: ":80"
  websecure:
    address: ":443"
providers:
  file:
    directory: /etc/traefik/conf.d
    watch: true
EOF

%s

# Stored creation template: the traefik watchdog re-runs it when the
# container is missing (docker's restart policy covers crashes only).
sudo mkdir -p /opt/sdk-ops/traefik
sudo tee /opt/sdk-ops/traefik/install.sh > /dev/null << 'INSTALLEOF'
#!/bin/bash
set -e
%s
sudo docker network create sdk-ops-net >/dev/null 2>&1 || true
NET=$(docker inspect traefik --format '{{.HostConfig.NetworkMode}}' 2>/dev/null || echo host)
if [ "$NET" != "host" ]; then
  sudo docker network connect sdk-ops-net traefik >/dev/null 2>&1 || true
fi
INSTALLEOF
sudo chown sdkops:sdkops /opt/sdk-ops/traefik/install.sh 2>/dev/null || true
sudo chmod 0750 /opt/sdk-ops/traefik/install.sh

# Shared network so bridge-mode Traefik resolves service names (docker DNS).
sudo docker network create sdk-ops-net >/dev/null 2>&1 || true
NET=$(docker inspect traefik --format '{{.HostConfig.NetworkMode}}' 2>/dev/null || echo host)
if [ "$NET" != "host" ]; then
  sudo docker network connect sdk-ops-net traefik >/dev/null 2>&1 || true
fi
%s
echo "Traefik ready%s"
''\<close>

definition baseTraefikScript :: "conn \<Rightarrow> proxyConfig \<Rightarrow> script prog" where
  \<open>baseTraefikScript c cfg = bind (hasIPv4 c) (\<lambda>v4.
     let netArgs = (if v4 then ''-p 80:80 -p 443:443'' else ''--network host'');
         catchallTarget = (if v4 then ''http://172.17.0.1:18080'' else ''http://127.0.0.1:18080'');
         runCmd = traefikRun netArgs (pcEnv cfg);
         containerScript = sprintf containerFormat [Str (envCheck (pcEnv cfg)), Str runCmd, Str runCmd];
         appYml = (if pcDomain cfg \<noteq> '''' then sprintf appYmlFormat [Str (pcDomain cfg), Num (pcTargetPort cfg)] else '''');
         summary = (if pcDomain cfg \<noteq> '''' then '' for '' @ pcDomain cfg else '''')
     in Ret (Fmt traefikFormat [Str catchallTarget, Str containerScript, Str runCmd, Str appYml, Str summary]))\<close>

definition traefikInstall :: "conn \<Rightarrow> proxyConfig \<Rightarrow> unit res prog" where
  \<open>traefikInstall c cfg =
     (let cfg' = cfg\<lparr>pcTargetPort := (if pcTargetPort cfg = 0 then 8080 else pcTargetPort cfg)\<rparr> in
      bind (baseTraefikScript c cfg') (\<lambda>s. runU c s (wrapO ''traefik install: %w
%s'' [])))\<close>

definition createFormat :: string where
  \<open>createFormat =
''#!/bin/bash
set -e
%s
sudo docker network create sdk-ops-net >/dev/null 2>&1 || true
NET=$(docker inspect traefik --format '{{.HostConfig.NetworkMode}}' 2>/dev/null || echo host)
if [ "$NET" != "host" ]; then
  sudo docker network connect sdk-ops-net traefik >/dev/null 2>&1 || true
fi
''\<close>

definition TraefikCreateScript :: "conn \<Rightarrow> proxyConfig \<Rightarrow> string res prog" where
  "TraefikCreateScript c cfg = bind (hasIPv4 c) (\<lambda>v4.
     let netArgs = (if v4 then ''-p 80:80 -p 443:443'' else ''--network host'')
     in Ret (Inr (sprintf createFormat [Str (traefikRun netArgs (pcEnv cfg))])))"

definition traefikUpdateTargetPort :: "conn \<Rightarrow> string \<Rightarrow> int \<Rightarrow> unit res prog" where
  \<open>traefikUpdateTargetPort c domain port =
     (let appYml = sprintf (''http:
  routers:
    app:
      rule: "Host('' @ [CHR 0x5C] @ ''x60%s'' @ [CHR 0x5C] @ ''x60)"
      service: app
      entryPoints:
        - websecure
      tls:
        certResolver: letsencrypt
  services:
    app:
      loadBalancer:
        servers:
          - url: "http://localhost:%d"
'') [Str domain, Num port] in
      runU c (Fmt ''
cat > /etc/traefik/conf.d/app.yml << 'EOF'
%s
EOF
docker restart traefik 2>/dev/null || true
echo "Traefik updated to port %d"
'' [Str appYml, Num port]) (wrapO ''traefik update: %w
%s'' []))\<close>

definition traefikStatus :: "conn \<Rightarrow> (string \<times> goerr option) prog" where
  \<open>traefikStatus c = sshRun c (Raw (joinWith ''; ''
     [(''docker ps --filter name=traefik --format '{{.Image}} {{.Status}}' 2>/dev/null || echo 'not running'' @ [CHR 0x27]),
      (''cat /etc/traefik/traefik.yml 2>/dev/null | head -3 || echo 'no config'' @ [CHR 0x27])]))\<close>

definition traefikRemove :: "conn \<Rightarrow> goerr option prog" where
  \<open>traefikRemove c = bind (sshRun c (Raw (joinWith ''; ''
     [''docker rm -f traefik 2>/dev/null || true'', ''rm -rf /etc/traefik'', ''rm -rf /opt/traefik'', (''echo 'Traefik removed'' @ [CHR 0x27])])))
     (\<lambda>(out, e). Ret e)\<close>

section \<open>Log shipping\<close>

record promtailConfig =
  pmLokiURL :: string
  pmNodeName :: string
  pmPort :: int

definition promtailFormat :: string where
  \<open>promtailFormat =
''
PROMTAIL_VER="3.0.0"
if command -v promtail &>/dev/null; then
    echo "Promtail already installed"
    exit 0
fi
cd /tmp
curl -fsSLO "https://github.com/grafana/loki/releases/download/v${PROMTAIL_VER}/promtail-linux-amd64.zip"
apt-get install -y -qq unzip 2>/dev/null || true
unzip -o promtail-linux-amd64.zip 2>/dev/null
mv promtail-linux-amd64 /usr/local/bin/promtail 2>/dev/null || true
rm -f promtail-linux-amd64.zip

mkdir -p /etc/promtail
cat > /etc/promtail/promtail.yaml << 'CONFIG'
server:
  http_listen_port: %d
  grpc_listen_port: 0

positions:
  filename: /var/log/promtail-positions.yaml

clients:
  - url: %s/loki/api/v1/push

scrape_configs:
  - job_name: system
    static_configs:
      - targets: [localhost]
        labels:
          job: varlogs
          __path__: /var/log/*.log
          host: %s
  - job_name: journal
    journal:
      path: /var/log/journal
      labels:
        job: systemd-journal
        host: %s
CONFIG

cat > /etc/systemd/system/promtail.service << 'SERVICE'
[Unit]
Description=Promtail log shipper
After=network.target

[Service]
Type=simple
ExecStart=/usr/local/bin/promtail -config.file=/etc/promtail/promtail.yaml
Restart=always

[Install]
WantedBy=multi-user.target
SERVICE

systemctl daemon-reload
systemctl enable promtail
systemctl restart promtail
echo "Promtail installed -> %s (port %d)"
''\<close>

definition InstallPromtail :: "conn \<Rightarrow> promtailConfig \<Rightarrow> unit res prog" where
  \<open>InstallPromtail c cfg =
     (let nodeName = (if pmNodeName cfg = '''' then ''node'' else pmNodeName cfg);
          lokiURL = pmLokiURL cfg;
          port = (if pmPort cfg = 0 then 9080 else pmPort cfg)
      in if lokiURL = '''' then fail (Errorf ''loki URL is required'' [])
         else runU c (Fmt promtailFormat [Num port, Str lokiURL, Str nodeName, Str nodeName, Str lokiURL, Num port])
                (wrapO ''promtail install: %w
%s'' []))\<close>

definition UninstallPromtail :: "conn \<Rightarrow> unit res prog" where
  \<open>UninstallPromtail c = runU c (Raw ''
systemctl stop promtail 2>/dev/null || true
systemctl disable promtail 2>/dev/null || true
rm -f /usr/local/bin/promtail
rm -rf /etc/promtail
rm -f /etc/systemd/system/promtail.service
systemctl daemon-reload
echo "Promtail removed"
'') (wrapO ''promtail remove: %w
%s'' [])\<close>

section \<open>Alerting\<close>

record alertmanagerConfig =
  amSlackWebhookURL :: string
  amEmail :: string
  amTelegramToken :: string
  amTelegramChatID :: string

definition HasReceiver :: "alertmanagerConfig \<Rightarrow> bool" where
  "HasReceiver c \<longleftrightarrow> amSlackWebhookURL c \<noteq> '''' \<or> amEmail c \<noteq> '''' \<or> (amTelegramToken c \<noteq> '''' \<and> amTelegramChatID c \<noteq> '''')"

definition parseInt64 :: "string \<Rightarrow> int" where
  "parseInt64 s = (case sscanfD s of Some n \<Rightarrow> n | None \<Rightarrow> 0)"

definition alertConfig :: "alertmanagerConfig \<Rightarrow> string" where
  \<open>alertConfig cfg =
     ''route:
  group_by: ['alertname']
  group_wait: 10s
  group_interval: 5m
  repeat_interval: 1h
  receiver: 'default'

receivers:
  - name: 'default'
'' @
     (if amSlackWebhookURL cfg \<noteq> '''' then sprintf ''
    slack_configs:
      - api_url: %q
        channel: '#alerts'
        send_resolved: true
        title: '{{ .GroupLabels.alertname }}'
        text: '{{ .CommonAnnotations.description }}'
'' [Str (amSlackWebhookURL cfg)] else '''') @
     (if amEmail cfg \<noteq> '''' then sprintf ''
    email_configs:
      - to: %q
        send_resolved: true
'' [Str (amEmail cfg)] else '''') @
     (if amTelegramToken cfg \<noteq> '''' \<and> amTelegramChatID cfg \<noteq> ''''
      then sprintf ''
    telegram_configs:
      - bot_token: %q
        chat_id: %d
        send_resolved: true
        parse_mode: 'HTML'
'' [Str (amTelegramToken cfg), Num (parseInt64 (amTelegramChatID cfg))] else '''')\<close>

definition alertBinaryScript :: string where
  \<open>alertBinaryScript =
''
AM_VER="0.27.0"
if command -v alertmanager &>/dev/null; then
    echo "Alertmanager already installed"
    exit 0
fi
cd /tmp
curl -fsSLO "https://github.com/prometheus/alertmanager/releases/download/v${AM_VER}/alertmanager-${AM_VER}.linux-amd64.tar.gz"
tar xzf "alertmanager-${AM_VER}.linux-amd64.tar.gz"
cp "alertmanager-${AM_VER}.linux-amd64/alertmanager" /usr/local/bin/
cp "alertmanager-${AM_VER}.linux-amd64/amtool" /usr/local/bin/
rm -rf "alertmanager-${AM_VER}.linux-amd64" "alertmanager-${AM_VER}.linux-amd64.tar.gz"
mkdir -p /etc/alertmanager /var/lib/alertmanager
echo "Alertmanager binary installed"
''\<close>

definition alertServiceFormat :: string where
  \<open>alertServiceFormat =
''
cat > /etc/alertmanager/alertmanager.yml << 'CONFIG'
%s
CONFIG

cat > /etc/systemd/system/alertmanager.service << 'SERVICE'
[Unit]
Description=Prometheus Alertmanager
After=network.target

[Service]
Type=simple
ExecStart=/usr/local/bin/alertmanager --config.file=/etc/alertmanager/alertmanager.yml --storage.path=/var/lib/alertmanager
Restart=always

[Install]
WantedBy=multi-user.target
SERVICE

systemctl daemon-reload
systemctl enable alertmanager
systemctl restart alertmanager
echo "Alertmanager configured and started"
''\<close>

definition InstallAlertmanager :: "conn \<Rightarrow> alertmanagerConfig \<Rightarrow> unit res prog" where
  \<open>InstallAlertmanager c cfg =
     runU c (Raw (alertBinaryScript @ sprintf alertServiceFormat [Str (alertConfig cfg)]))
       (wrapO ''alertmanager install: %w
%s'' [])\<close>

definition UninstallAlertmanager :: "conn \<Rightarrow> unit res prog" where
  \<open>UninstallAlertmanager c = runU c (Raw ''
systemctl stop alertmanager 2>/dev/null || true
systemctl disable alertmanager 2>/dev/null || true
rm -f /usr/local/bin/alertmanager /usr/local/bin/amtool
rm -rf /etc/alertmanager /var/lib/alertmanager
rm -f /etc/systemd/system/alertmanager.service
systemctl daemon-reload
echo "Alertmanager removed"
'') (wrapO ''alertmanager remove: %w
%s'' [])\<close>

end
