(* ===== verification/InfraInit.thy ===== *)
theory InfraInit imports Keyed FleetTypes FleetValidate HardeningOps AllowlistOps ClusterOps ProxyOps begin

text \<open>
  Initialising one node (\<open>cmd/sdk-ops/infra.go\<close>, with the node registry of
  \<open>cmd/sdk-ops/config.go\<close>): the session, the hardening and the reconnection after it, the
  install of the mode, and the phases that follow: marker, registration, hooks, proxy and
  allowlist. A dereference of a nil pointer is a \<open>Panic\<close>.
\<close>

section \<open>Sessions\<close>

definition sshClient :: "string \<Rightarrow> string \<Rightarrow> int \<Rightarrow> infraFlags \<Rightarrow> conn" where
  "sshClient ip user port f = \<lparr>cHost = ip, cUser = user, cPort = port, cKey = ifKey f\<rparr>"

definition infraConnect :: "string \<Rightarrow> infraFlags \<Rightarrow> conn res prog" where
  "infraConnect node f =
     tryP (Wrapf ''ssh: %w'' []) (connectSSH (sshClient node (ifUser f) (ifPort f) f)) (\<lambda>c. Ret (Inr c))"

section \<open>The node registry\<close>

definition zeroNode :: nodeConfig where
  "zeroNode = \<lparr>ncIP = '''', ncUser = '''', ncKey = '''', ncPort = 0, ncMode = '''', ncRole = '''', ncArch = '''', ncHostname = ''''\<rparr>"

definition registerNode :: "string \<Rightarrow> infraFlags \<times> hardConfig \<times> string \<Rightarrow> nodeConfig list \<Rightarrow> nodeConfig list" where
  "registerNode ip p nodes = (case p of (f, hc, arch) \<Rightarrow>
     upsert (\<lambda>n. ncIP n = ip) (\<lambda>n. n\<lparr>ncRole := ''server'', ncArch := arch\<rparr>)
       (zeroNode\<lparr>ncIP := ip, ncUser := hcUser hc, ncKey := ifKey f, ncPort := hcSSHPort hc,
                 ncMode := ifMode f, ncRole := ''server'', ncArch := arch\<rparr>) nodes)"

text \<open>The error of \<open>loadConfig\<close> is dropped and its nil result dereferenced.\<close>

definition registerInitNode :: "string \<Rightarrow> infraFlags \<Rightarrow> hardConfig \<Rightarrow> string \<Rightarrow> unit res prog" where
  "registerInitNode ip f hc arch =
     Do LoadConfig (\<lambda>a. case aErr a of
       Some m \<Rightarrow> fail (Panic ''registerInitNode: nil configuration'')
     | None \<Rightarrow> Do (SaveConfig (registerNode ip (f, hc, arch) (aNodes a))) (\<lambda>_. okP))"

section \<open>Hardening and reconnecting\<close>

text \<open>
  \<open>yamlHostPort\<close> reads the port of the host from the file of \<open>--provision-yaml\<close>, 0 without
  one. \<open>decode\<close> is the YAML decoder.
\<close>

definition yamlHostPort :: "(string \<Rightarrow> string + ProvisionFile) \<Rightarrow> string \<Rightarrow> string \<Rightarrow> int prog" where
  "yamlHostPort decode path ip =
     (if path = '''' \<or> ip = '''' then Ret 0
      else bind (readFile path) (\<lambda>r. Ret (case r of Inl e \<Rightarrow> 0
        | Inr text \<Rightarrow> (case decode text of Inl m \<Rightarrow> 0
           | Inr pf \<Rightarrow> (case List.find (\<lambda>h. hHost h = ip) (pfHosts pf) of Some h \<Rightarrow> hPort h | None \<Rightarrow> 0)))))"

definition infraHardConfig :: "string \<Rightarrow> infraFlags \<Rightarrow> int \<Rightarrow> hardConfig" where
  "infraHardConfig ip f yamlPort =
     hardDefaultConfig\<lparr>
       hcUser := (if ifUser f \<noteq> ''root'' then ifUser f else hcUser hardDefaultConfig),
       hcEnableMonitor := ifMonitor f, hcEnableAuditd := ifAuditd f, hcEnableLynis := ifLynis f,
       hcEnableUSG := ifUsg f, hcLockRoot := ifLockRoot f, hcAdminIPs := ifAdminIPs f,
       hcSSHPort := (if ifHardSSHPort f > 0 then ifHardSSHPort f
                     else if yamlPort > 0 \<and> yamlPort \<noteq> ifPort f then yamlPort else 0)\<rparr>"

definition applyInfraHardening :: "conn \<Rightarrow> string \<Rightarrow> infraFlags \<Rightarrow> int prog \<Rightarrow> hardConfig prog" where
  "applyInfraHardening c ip f yamlPort =
     (if ifNoHardening f
      then Ret (hardDefaultConfig\<lparr>hcUser := ifUser f\<rparr>)
      else bind (if ifHardSSHPort f > 0 then Ret 0 else yamlPort) (\<lambda>p.
        let cfg = infraHardConfig ip f p in bind (applyHardening c cfg) (\<lambda>_. Ret cfg)))"

primrec reconnectLoop :: "nat \<Rightarrow> conn \<Rightarrow> infraFlags \<Rightarrow> conn res prog" where
  "reconnectLoop 0 c f = fail (Errorf ''reconnect: exceeded retries'' [])"
| "reconnectLoop (Suc n) c f =
     bind (connectSSH c) (\<lambda>r. case r of
       Inr c' \<Rightarrow> Ret (Inr c')
     | Inl e \<Rightarrow>
         if n = 0 then
           bind (getenv ''HOME'') (\<lambda>home.
             let keyDisplay = (if ifKey f = '''' then home @ ''/.ssh/id_ed25519'' else ifKey f) in
             fail (Wrapf ''reconnect: %w\<newline>(try: ssh %s@%s -p %d -i %s)''
               [Str (cUser c), Str (cHost c), Num (cPort c), Str keyDisplay] e))
         else bind (sleepP 3) (\<lambda>_. reconnectLoop n c f))"

definition reconnectAfterHardening :: "string \<Rightarrow> infraFlags \<Rightarrow> hardConfig \<Rightarrow> conn res prog" where
  "reconnectAfterHardening ip f hc =
     (let port = (if MigrateSSH hc then hcSSHPort hc else ifPort f)
      in reconnectLoop 10 (sshClient ip (hcUser hc) port f) f)"

section \<open>The allowlist phase\<close>

text \<open>The session that verifies is a new one; the commit runs on it.\<close>

definition installAndVerifyAllowlist :: "conn \<Rightarrow> string \<Rightarrow> infraFlags \<Rightarrow> allowlistConfig \<Rightarrow> unit res prog" where
  "installAndVerifyAllowlist c node f cfg =
     tryP id (InstallAllowlist c cfg) (\<lambda>_.
     tryP (Wrapf ''new SSH connection failed after %s: %w\<newline>  The node will restore the previous firewall automatically within 30s'' [])
       (connectSSH (sshClient node (ifUser f) (ifPort f) f)) (\<lambda>v.
     deferClose v (CommitAllowlist v)))"

definition installAllowlistOnNode :: "conn \<Rightarrow> string \<Rightarrow> infraFlags \<Rightarrow> profile \<Rightarrow> string \<Rightarrow> unit res prog" where
  \<open>installAllowlistOnNode c node f prof sourceRaw =
     (case ParseSource sourceRaw of Inl e \<Rightarrow> fail e
      | Inr src \<Rightarrow>
        tryP id (FetchCIDRs src) (\<lambda>(v4, v6).
        if length v4 + length v6 < 4
        then fail (Errorf ''source %q returned too few ranges (%d v4, %d v6)''
                    [Str sourceRaw, Num (int (length v4)), Num (int (length v6))])
        else case parseAdminIPs (ifAdminIPs f) of Inl e \<Rightarrow> fail e
          | Inr (admin4, admin6) \<Rightarrow>
            (if prof = AllowlistStrict \<and> admin4 = [] \<and> admin6 = []
             then fail (Errorf ''strict allowlist requires explicit admin IPs (admin_ips in the provision YAML or --admin-ips)'' [])
             else bind (CurrentSSHPorts c (ifPort f)) (\<lambda>ports.
               installAndVerifyAllowlist c node f
                 \<lparr>acProfile = prof, acSSHPorts = ports, acAdmin4 = admin4, acAdmin6 = admin6,
                  acSource = src, acOpenWeb = False\<rparr>))))\<close>

definition installAllowlistPhase :: "conn \<Rightarrow> string \<Rightarrow> infraFlags \<Rightarrow> unit res prog" where
  "installAllowlistPhase c ip f =
     (case parseAllowlistFlag (ifFirewallAllowlist f) of Inl e \<Rightarrow> fail e
      | Inr (prof, sourceRaw) \<Rightarrow>
          tryP (Wrapf ''allowlist: %w'' []) (installAllowlistOnNode c ip f prof sourceRaw) (\<lambda>_. okP))"

section \<open>After the install\<close>

definition normalizeProvisionMode :: "string \<Rightarrow> string" where
  "normalizeProvisionMode m = (if m = '''' then ''bare'' else m)"

definition marker_script :: "string \<Rightarrow> script" where
  \<open>marker_script mode = Raw (''sudo mkdir -p /opt/sdk-ops/services /opt/sdk-ops/backups /opt/sdk-ops/logs && echo "sdk-ops-init mode='' @ normalizeProvisionMode mode @
     ''" | sudo tee /opt/sdk-ops/.version > /dev/null'')\<close>

definition createSDKOpsStructure :: "conn \<Rightarrow> string \<Rightarrow> unit prog" where
  \<open>createSDKOpsStructure c mode =
     bind (execP c (marker_script mode)) (\<lambda>_.
     execP c (Raw ''id sdkops >/dev/null 2>&1 || sudo useradd -r -m -d /home/sdkops -s /usr/sbin/nologin sdkops''))\<close>

definition installTraefikPhase :: "conn \<Rightarrow> unit res prog" where
  "installTraefikPhase c =
     tryP (Wrapf ''traefik needs docker: %w'' []) (dockerInstall c) (\<lambda>_.
     tryP id (EnsureNetworking c) (\<lambda>_.
     traefikInstall c emptyProxyConfig))"

definition runInfraInitPostInstall :: "conn \<Rightarrow> string \<Rightarrow> infraFlags \<Rightarrow> hardConfig \<Rightarrow> unit res prog" where
  \<open>runInfraInitPostInstall c ip f0 hc =
     (let f = f0\<lparr>ifUser := hcUser hc, ifPort := (if hcSSHPort hc > 0 then hcSSHPort hc else ifPort f0)\<rparr> in
      tryP (Wrapf ''promtail: %w'' [])
        (if ifLogsURL f \<noteq> '''' then InstallPromtail c \<lparr>pmLokiURL = ifLogsURL f, pmNodeName = ip, pmPort = 0\<rparr> else okP) (\<lambda>_.
      tryP (Wrapf ''alertmanager: %w'' [])
        (if ifAlertsURL f \<noteq> '''' then InstallAlertmanager c \<lparr>amSlackWebhookURL = ifAlertsURL f, amEmail = '''',
            amTelegramToken = '''', amTelegramChatID = ''''\<rparr> else okP) (\<lambda>_.
      bind (createSDKOpsStructure c (ifMode f)) (\<lambda>_.
      bind (sshRun c (Raw ''uname -m'')) (\<lambda>(archOut, _).
      tryP id (registerInitNode ip f hc (trimSpace archOut)) (\<lambda>_.
      bind (hooksRun c ''post-init'' [(''IP'', ip), (''USER'', hcUser hc), (''MODE'', ifMode f),
              (''PORT'', itoa (hcSSHPort hc))]) (\<lambda>_.
      tryP id (if ifMode f \<noteq> ''k3s'' \<and> \<not> ifNoTraefik f then installTraefikPhase c else okP) (\<lambda>_.
      if ifFirewallAllowlist f \<noteq> '''' \<and> \<not> ifNoHardening f then installAllowlistPhase c ip f else okP))))))))\<close>

section \<open>The modes\<close>

definition downloadK3sBinary :: "string \<Rightarrow> string \<Rightarrow> string \<Rightarrow> unit res prog" where
  \<open>downloadK3sBinary localFile version arch =
     (let suffix = (if containsStr arch ''aarch64'' \<or> containsStr arch ''arm64'' then ''linux-arm64'' else ''linux-amd64'');
          url = (if version = ''latest'' then ''https://github.com/k3s-io/k3s/releases/latest/download/k3s-'' @ suffix
                 else ''https://github.com/k3s-io/k3s/releases/'' @ version @ ''/download/k3s-'' @ suffix)
      in Do (LocalExec ''curl'' [''-sfLo'', localFile, url]) (\<lambda>a. case aErr a of
           Some m \<Rightarrow> fail (Wrapf ''download k3s binary: %w\<newline>%s'' [Str (aOut a)] (Ext m))
         | None \<Rightarrow> Do (LocalExec ''chmod'' [''0600'', localFile]) (\<lambda>b. case aErr b of
             Some m \<Rightarrow> fail (Wrapf ''chmod binary: %w'' [] (Ext m)) | None \<Rightarrow> okP)))\<close>

definition uploadBinaryToRemote :: "conn \<Rightarrow> string \<Rightarrow> unit res prog" where
  \<open>uploadBinaryToRemote c localFile =
     tryP (Wrapf ''read k3s binary: %w'' []) (readFile localFile) (\<lambda>data.
     Do (ExecIn c (Raw ''sudo sh -c 'cat > /usr/local/bin/k3s' && sudo chmod +x /usr/local/bin/k3s'') data) (\<lambda>a.
       case aSess a of Some m \<Rightarrow> fail (Wrapf ''ssh session: %w'' [] (Ext m))
       | None \<Rightarrow> (case aErr a of None \<Rightarrow> okP
           | Some m \<Rightarrow> fail (Wrapf ''upload binary: %w\<newline>%s'' [Str (aOut a)] (Ext m)))))\<close>

definition runInfraInitAirgap :: "conn \<Rightarrow> string \<Rightarrow> unit res prog" where
  "runInfraInitAirgap c ip =
     bind (sshRun c (Raw ''uname -m'')) (\<lambda>(archOut, _).
     bind (sshRun c (Raw ''k3s --version 2>/dev/null || true'')) (\<lambda>_.
     let localFile = ''/tmp/k3s-'' @ ip in
     tryP id (downloadK3sBinary localFile ''latest'' (trimSpace archOut)) (\<lambda>_.
     bind (uploadBinaryToRemote c localFile) (\<lambda>r.
     Do (RemoveFile localFile) (\<lambda>_. Ret r)))))"

definition k3sInstallConfigOf :: "string \<Rightarrow> infraFlags \<Rightarrow> installConfig" where
  "k3sInstallConfigOf ip f =
     (DefaultInstallConfig ip)\<lparr>icLocalPath := ifKubeconfig f, icContext := ifContextName f, icMerge := ifMergeConfig f,
       icDisableTraefik := ifDisableTraefik f, icSecretsEncryption := ifSecretsEncryption f,
       icProtectKernelDefaults := ifProtectKernelDefaults f, icAdmissionPlugins := ifAdmissionPlugins f,
       icCISPSA := ifCisPSA f, icCISAuditLog := ifCisAuditLog f, icCISNetPol := ifCisNetPol f,
       icCISSvcAcc := ifCisSvcAcc f, icCISTLSCiphers := ifCisTLSCiphers f, icSkipDownload := ifAirgap f,
       icExtraArgs := trimSpace ('''' @ '' '' @ ifK3sExtraArgs f)\<rparr>"

definition runInfraInitK3s :: "conn \<Rightarrow> string \<Rightarrow> infraFlags \<Rightarrow> hardConfig \<Rightarrow> unit res prog" where
  "runInfraInitK3s c ip f hc =
     tryP id (dockerInstall c) (\<lambda>_.
     tryP id (if ifAirgap f then runInfraInitAirgap c ip else okP) (\<lambda>_.
     tryP id (k3sInstall c (k3sInstallConfigOf ip f)) (\<lambda>_.
     runInfraInitPostInstall c ip f hc)))"

definition runInfraInitDocker :: "conn \<Rightarrow> string \<Rightarrow> infraFlags \<Rightarrow> hardConfig \<Rightarrow> unit res prog" where
  "runInfraInitDocker c ip f hc = tryP id (dockerInstall c) (\<lambda>_. runInfraInitPostInstall c ip f hc)"

definition runInfraInitBare :: "conn \<Rightarrow> string \<Rightarrow> infraFlags \<Rightarrow> hardConfig \<Rightarrow> unit res prog" where
  "runInfraInitBare c ip f hc = runInfraInitPostInstall c ip f hc"

definition initMode :: "conn \<Rightarrow> string \<Rightarrow> infraFlags \<Rightarrow> hardConfig \<Rightarrow> unit res prog" where
  "initMode c ip f hc =
     (if ifMode f = ''k3s'' then runInfraInitK3s c ip f hc
      else if ifMode f = ''docker'' then runInfraInitDocker c ip f hc
      else runInfraInitBare c ip f hc)"

text \<open>
  The first \<open>defer\<close> closes the variable \<open>conn\<close>, which by then holds the second session, or
  nil when the reconnection failed. On success both defers close the second session.
\<close>

definition runInfraInitSSH :: "string \<Rightarrow> infraFlags \<Rightarrow> int prog \<Rightarrow> unit res prog" where
  "runInfraInitSSH ip f yamlPort =
     tryP (Wrapf ''ssh connect: %w'' []) (connectSSH (sshClient ip (ifUser f) (ifPort f) f)) (\<lambda>c.
     bind (applyInfraHardening c ip f yamlPort) (\<lambda>hc.
     Do (Close c) (\<lambda>_.
     bind (reconnectAfterHardening ip f hc) (\<lambda>r. case r of
       Inl e \<Rightarrow> fail (Panic ''runInfraInitSSH: close of a nil session'')
     | Inr c2 \<Rightarrow> deferClose c2 (deferClose c2 (initMode c2 ip f hc))))))"

end
