(* ===== verification/FleetCluster.thy ===== *)
theory FleetCluster imports InfraInit begin

text \<open>
  The k3s cluster of a fleet (\<open>cmd/sdk-ops/provision.go\<close>): which user a host is reached as,
  the role of each host, the configuration file every member gets before its install, and
  the join phase that turns the hosts of a fleet into one cluster.
\<close>

section \<open>Reaching a host\<close>

text \<open>The port of the phases that test \<open>port == 0\<close>, and that of \<open>hostPort\<close>, which tests \<open>port > 0\<close>.\<close>

definition portOr22 :: "ProvisionHost \<Rightarrow> int" where
  "portOr22 h = (if hPort h = 0 then 22 else hPort h)"

definition hostPort :: "ProvisionHost \<Rightarrow> int" where
  "hostPort h = (if hPort h > 0 then hPort h else 22)"

text \<open>An open session that only shows that the user can log in.\<close>

definition probe :: "ProvisionHost \<Rightarrow> string \<Rightarrow> bool prog" where
  "probe h u =
     bind (infraConnect (hHost h) (zeroFlags\<lparr>ifUser := u, ifKey := hSSHKey h, ifPort := hostPort h, ifNoHardening := True\<rparr>))
       (\<lambda>r. case r of Inl e \<Rightarrow> Ret False | Inr c \<Rightarrow> Do (Close c) (\<lambda>_. Ret True))"

definition fleetUser :: "ProvisionHost \<Rightarrow> string prog" where
  "fleetUser h =
     (if hUser h = '''' \<or> hUser h = ''sdkops'' then Ret ''sdkops''
      else bind (probe h ''sdkops'') (\<lambda>ok.
        if ok then Ret ''sdkops''
        else bind (probe h (hUser h)) (\<lambda>ok. Ret (if ok then hUser h else ''sdkops''))))"

definition noHardening :: "ProvisionFile \<Rightarrow> bool" where
  "noHardening pf = (pfHardening pf = Some False)"

definition hostInfraFlags :: "ProvisionFile \<Rightarrow> ProvisionHost \<Rightarrow> int \<Rightarrow> infraFlags prog" where
  "hostInfraFlags pf h port =
     bind (fleetUser h) (\<lambda>user. Ret (zeroFlags\<lparr>ifUser := user, ifKey := hSSHKey h, ifPort := port,
       ifMode := pfMode pf, ifNoHardening := noHardening pf\<rparr>))"

text \<open>The flags of the cluster sessions: the user of the host, no mode.\<close>

definition clusterFlags :: "ProvisionHost \<Rightarrow> infraFlags prog" where
  "clusterFlags h =
     bind (fleetUser h) (\<lambda>user. Ret (zeroFlags\<lparr>ifUser := user, ifKey := hSSHKey h, ifPort := hostPort h,
       ifNoHardening := True\<rparr>))"

text \<open>Connect, close at the end whatever happens: \<open>infraConnect\<close> and \<open>defer closeConn\<close>.\<close>

definition withConn :: "string \<Rightarrow> infraFlags \<Rightarrow> (goerr \<Rightarrow> goerr) \<Rightarrow> (conn \<Rightarrow> 'a res prog) \<Rightarrow> 'a res prog" where
  "withConn node f w body = tryP w (infraConnect node f) (\<lambda>c. deferClose c (body c))"

section \<open>Roles\<close>

definition peerOrHost :: "ProvisionHost \<Rightarrow> string" where
  "peerOrHost h = (if hPeerIP h = '''' then hHost h else hPeerIP h)"

definition k3sHAServerHost :: "ProvisionFile \<Rightarrow> ProvisionHost option" where
  "k3sHAServerHost pf =
     (if pfMode pf \<noteq> ''k3s'' \<or> \<not> pfK3sHA pf then None
      else case pfHosts pf of [] \<Rightarrow> None | h # hs \<Rightarrow> Some h)"

definition k3sRolesDeclared :: "ProvisionFile \<Rightarrow> bool" where
  "k3sRolesDeclared pf = (if pfMode pf \<noteq> ''k3s'' then False else list_ex (\<lambda>h. hRole h \<noteq> '''') (pfHosts pf))"

definition k3sRoleOf :: "ProvisionFile \<Rightarrow> string \<Rightarrow> string" where
  "k3sRoleOf pf name =
     (if \<not> k3sRolesDeclared pf then ''''
      else case List.find (\<lambda>h. hName h = name) (pfHosts pf) of
        Some h \<Rightarrow> if hRole h \<noteq> '''' then hRole h else ''agent''
      | None \<Rightarrow> '''')"

definition k3sFirstServerHost :: "ProvisionFile \<Rightarrow> ProvisionHost option" where
  "k3sFirstServerHost pf =
     (case List.find (\<lambda>h. hRole h = ''server'') (pfHosts pf) of
        Some h \<Rightarrow> Some h | None \<Rightarrow> k3sHAServerHost pf)"

definition k3sServerArgs :: "ProvisionHost \<Rightarrow> ProvisionFile \<Rightarrow> bool \<Rightarrow> string" where
  \<open>k3sServerArgs h pf clusterInit =
     (let ip = peerOrHost h;
          init = (if clusterInit then ''--cluster-init '' else '''');
          args = sprintf ''%s--node-ip %s --advertise-address %s --tls-san %s --tls-san %s'' [Str init, Str ip, Str ip, Str ip, Str (hHost h)]
      in if pfK3sIface pf \<noteq> '''' then trimSpace (args @ sprintf '' --flannel-iface %s'' [Str (pfK3sIface pf)]) else args)\<close>

section \<open>The configuration file of a member\<close>

definition k3sConfigYAML :: "ProvisionHost \<Rightarrow> ProvisionFile \<Rightarrow> bool \<Rightarrow> string" where
  \<open>k3sConfigYAML h pf clusterInit =
     (let ip = peerOrHost h in
      (if clusterInit then ''cluster-init: true
'' else '''') @
      sprintf ''node-ip: %s
'' [Str ip] @
      sprintf ''advertise-address: %s
'' [Str ip] @
      sprintf ''tls-san:
  - "%s"
  - "%s"
'' [Str ip, Str (hHost h)] @
      (if pfK3sIface pf \<noteq> '''' then sprintf ''flannel-iface: %s
'' [Str (pfK3sIface pf)] else '''') @
      (if pfK3sDisableTraefik pf then ''disable:
  - traefik
'' else ''''))\<close>

definition k3sConfigScript :: "ProvisionHost \<Rightarrow> ProvisionFile \<Rightarrow> bool \<Rightarrow> script" where
  \<open>k3sConfigScript h pf clusterInit = Fmt (''sudo mkdir -p /etc/rancher/k3s
sudo tee /etc/rancher/k3s/config.yaml >/dev/null <<'YAML'
%sYAML
'') [Str (k3sConfigYAML h pf clusterInit)]\<close>

definition writeK3sConfigYAML :: "conn \<Rightarrow> ProvisionHost \<Rightarrow> ProvisionFile \<Rightarrow> bool \<Rightarrow> unit res prog" where
  "writeK3sConfigYAML c h pf clusterInit = runU c (k3sConfigScript h pf clusterInit) (\<lambda>_ e. e)"

text \<open>
  The flags a host is initialised with. The host that boots the cluster gets its
  configuration file first, if it can be reached; every other member starts as a docker
  node that the join phase turns into a member.
\<close>

definition k3sBoots :: "ProvisionFile \<Rightarrow> ProvisionHost \<Rightarrow> bool" where
  "k3sBoots pf h =
     (let role = k3sRoleOf pf (hName h) in
      case k3sFirstServerHost pf of
        Some first \<Rightarrow> hName first = hName h \<and> (role = ''server'' \<or> role = '''')
      | None \<Rightarrow> False)"

definition applyK3sTopology :: "infraFlags \<Rightarrow> ProvisionFile \<Rightarrow> ProvisionHost \<Rightarrow> infraFlags prog" where
  "applyK3sTopology f pf h =
     (if pfMode pf \<noteq> ''k3s'' then Ret f
      else let role = k3sRoleOf pf (hName h) in
        if k3sBoots pf h then
          bind (infraConnect (hHost h) f) (\<lambda>r. case r of
            Inl e \<Rightarrow> Ret f
          | Inr c \<Rightarrow> bind (writeK3sConfigYAML c h pf (pfK3sHA pf)) (\<lambda>_. Do (Close c) (\<lambda>_. Ret f)))
        else if role = ''server'' \<or> role = ''agent'' \<or> pfK3sHA pf then
          Ret (f\<lparr>ifMode := ''docker'', ifDisableTraefik := pfK3sDisableTraefik pf\<rparr>)
        else Ret f)"

section \<open>Waiting\<close>

primrec pollReady :: "nat \<Rightarrow> conn \<Rightarrow> script \<Rightarrow> (string \<Rightarrow> bool) \<Rightarrow> goerr \<Rightarrow> unit res prog" where
  "pollReady 0 c s done e = fail e"
| "pollReady (Suc n) c s done e =
     bind (sshRun c s) (\<lambda>(out, err).
       if err = None \<and> done (trimSpace out) then okP
       else bind (sleepP 5) (\<lambda>_. pollReady n c s done e))"

definition waitForK3sNode :: "conn \<Rightarrow> unit res prog" where
  \<open>waitForK3sNode c = pollReady 60 c (Raw ''sudo k3s kubectl get nodes 2>/dev/null | grep -c Ready || true'')
     (\<lambda>out. out \<noteq> '''' \<and> out \<noteq> ''0'') (Errorf ''k3s node did not become Ready'' [])\<close>

definition waitForK3sAgent :: "conn \<Rightarrow> unit res prog" where
  \<open>waitForK3sAgent c = pollReady 60 c (Raw ''systemctl is-active k3s-agent 2>/dev/null || true'')
     (\<lambda>out. out = ''active'') (Errorf ''k3s agent did not become active'' [])\<close>

definition fleet_ready_script :: script where
  \<open>fleet_ready_script = Raw ''sudo k3s kubectl get nodes --no-headers 2>/dev/null | grep -c Ready || true''\<close>

primrec fleetReadyLoop :: "nat \<Rightarrow> conn \<Rightarrow> nat \<Rightarrow> string \<Rightarrow> unit res prog" where
  "fleetReadyLoop 0 c want ready = fail (Errorf ''k3s cluster incomplete: %s/%d nodes Ready'' [Str ready, Num (int want)])"
| "fleetReadyLoop (Suc n) c want ready =
     bind (sshRun c fleet_ready_script) (\<lambda>(out, e). case e of
       Some err \<Rightarrow> fail err
     | None \<Rightarrow>
         if trimSpace out = itoa (int want) then okP
         else bind (sleepP 10) (\<lambda>_. fleetReadyLoop n c want (trimSpace out)))"

definition waitForFleetReady :: "conn \<Rightarrow> nat \<Rightarrow> unit res prog" where
  "waitForFleetReady c want = fleetReadyLoop 12 c want ''''"

definition settle_script :: script where
  \<open>settle_script = Raw (''K="sudo k3s kubectl"
$K -n kube-system wait --for=condition=Available deploy/coredns --timeout=240s >/dev/null 2>&1 || true
if $K -n kube-system get deploy metrics-server >/dev/null 2>&1; then
  $K -n kube-system wait --for=condition=Available deploy/metrics-server --timeout=240s >/dev/null 2>&1 || true
fi
if $K -n kube-system get deploy traefik >/dev/null 2>&1; then
  $K -n kube-system wait --for=condition=Available deploy/traefik --timeout=300s >/dev/null 2>&1 || true
fi
echo "cluster settle: addons available (best-effort)"'')\<close>

text \<open>Best effort: its outcome never fails the run.\<close>

definition waitForClusterSettle :: "ProvisionHost list \<Rightarrow> unit prog" where
  "waitForClusterSettle hosts =
     (case hosts of [] \<Rightarrow> Ret ()
      | h # hs \<Rightarrow> bind (clusterFlags h) (\<lambda>f.
          bind (infraConnect (hHost h) f) (\<lambda>r. case r of
            Inl e \<Rightarrow> Ret ()
          | Inr c \<Rightarrow> bind (execP c settle_script) (\<lambda>_. Do (Close c) (\<lambda>_. Ret ())))))"

section \<open>Joining\<close>

definition token_script :: script where
  \<open>token_script = Raw ''sudo cat /var/lib/rancher/k3s/server/token''\<close>

definition ready_script :: script where
  \<open>ready_script = Raw (''sudo k3s kubectl get nodes --no-headers -o wide 2>/dev/null | awk '$2=="Ready"{print $6}'' @ [CHR 0x27])\<close>

definition k3sReadyNodeIPs :: "conn \<Rightarrow> string list prog" where
  \<open>k3sReadyNodeIPs c = bind (sshRun c ready_script) (\<lambda>(out, e).
     Ret (if e \<noteq> None then [] else goFields (trimSpace out)))\<close>

definition server_join_script :: "string \<Rightarrow> string \<Rightarrow> script" where
  \<open>server_join_script token serverIP = Fmt (''SUDO=""; [ "$(id -u)" != "0" ] && SUDO="sudo"; curl -sfL https://get.k3s.io | $SUDO env K3S_TOKEN=%s INSTALL_K3S_EXEC="server --server https://%s:6443" sh -'') [Str token, Str serverIP]\<close>

definition k3sJoinServer :: "ProvisionHost \<Rightarrow> ProvisionHost \<Rightarrow> string \<Rightarrow> ProvisionFile \<Rightarrow> unit res prog" where
  "k3sJoinServer h server token pf =
     bind (clusterFlags h) (\<lambda>f.
     withConn (hHost h) f (Wrapf ''ssh to joiner %s: %w'' [Str (hName h)]) (\<lambda>c.
       tryP (Wrapf ''k3s storage tuning on %s: %w'' [Str (hName h)]) (EnsureStorageDiscardOff c) (\<lambda>_.
       tryP (Wrapf ''k3s config.yaml on %s: %w'' [Str (hName h)]) (writeK3sConfigYAML c h pf False) (\<lambda>_.
       tryP id (runU c (server_join_script token (hPeerIP server)) (wrapE ''k3s HA join %s: %w'' [Str (hName h)])) (\<lambda>_.
       waitForK3sNode c)))))"

definition agentArgs :: "ProvisionHost \<Rightarrow> ProvisionFile \<Rightarrow> string" where
  \<open>agentArgs h pf = sprintf ''--node-ip %s'' [Str (peerOrHost h)] @
     (if pfK3sIface pf \<noteq> '''' then sprintf '' --flannel-iface %s'' [Str (pfK3sIface pf)] else '''')\<close>

definition k3sJoinAgent :: "ProvisionHost \<Rightarrow> ProvisionHost \<Rightarrow> string \<Rightarrow> ProvisionFile \<Rightarrow> unit res prog" where
  "k3sJoinAgent h server token pf =
     bind (clusterFlags h) (\<lambda>f.
     withConn (hHost h) f (Wrapf ''ssh to joiner %s: %w'' [Str (hName h)]) (\<lambda>c.
       tryP (Wrapf ''k3s storage tuning on %s: %w'' [Str (hName h)]) (EnsureStorageDiscardOff c) (\<lambda>_.
       tryP (Wrapf ''k3s agent join %s: %w'' [Str (hName h)])
         (k3sJoin c None \<lparr>jcServerIP = hPeerIP server, jcToken = token, jcServerUser = '''',
            jcExtraArgs = agentArgs h pf, jcK3sVersion = '''', jcK3sChannel = ''''\<rparr>) (\<lambda>_.
       waitForK3sAgent c))))"

definition k3sJoinFleetHost :: "ProvisionHost \<Rightarrow> ProvisionHost \<Rightarrow> string \<Rightarrow> ProvisionFile \<Rightarrow> string list \<Rightarrow> unit res prog" where
  "k3sJoinFleetHost h server token pf readyIPs =
     (if peerOrHost h \<in> set readyIPs then okP
      else if k3sRoleOf pf (hName h) = ''agent'' then k3sJoinAgent h server token pf
      else k3sJoinServer h server token pf)"

definition netTuning :: "ProvisionFile \<Rightarrow> ProvisionHost \<Rightarrow> unit res prog" where
  "netTuning pf h =
     bind (clusterFlags h) (\<lambda>f.
     tryP (Wrapf ''net tuning %s: %w'' [Str (hName h)]) (infraConnect (hHost h) f) (\<lambda>c.
     bind (EnsureNetOffloadsOff c (pfK3sIface pf)) (\<lambda>r.
     Do (Close c) (\<lambda>_. case r of
       Inl e \<Rightarrow> fail (Wrapf ''net tuning %s: %w'' [Str (hName h)] e) | Inr _ \<Rightarrow> okP))))"

definition k3sClusterJoin :: "ProvisionFile \<Rightarrow> ProvisionHost list \<Rightarrow> unit res prog" where
  "k3sClusterJoin pf hosts =
     (if \<not> pfK3sHA pf \<and> \<not> k3sRolesDeclared pf then okP
      else case k3sFirstServerHost pf of None \<Rightarrow> okP
      | Some server \<Rightarrow>
        bind (clusterFlags server) (\<lambda>f.
        withConn (hHost server) f (Wrapf ''ssh to k3s server: %w'' []) (\<lambda>sc.
          bind (sshRun sc token_script) (\<lambda>(out, e). case e of
            Some err \<Rightarrow> fail (Wrapf ''k3s token: %w'' [] err)
          | None \<Rightarrow>
            if trimSpace out = '''' then fail (Errorf ''k3s token: %!w(<nil>)'' [])
            else let token = trimSpace out in
              tryP (Wrapf ''k3s config.yaml on server: %w'' []) (writeK3sConfigYAML sc server pf (pfK3sHA pf)) (\<lambda>_.
              bind (k3sReadyNodeIPs sc) (\<lambda>readyIPs.
              tryP id (eachP (\<lambda>h. if hName h = hName server then okP
                                  else k3sJoinFleetHost h server token pf readyIPs) hosts) (\<lambda>_.
              tryP id (waitForFleetReady sc (length hosts)) (\<lambda>_.
              eachP (netTuning pf) hosts))))))))"

end
