(* ===== verification/ServiceTopology.thy ===== *)
theory ServiceTopology imports FleetCluster FleetResolve "HOL-Library.List_Lexorder" "HOL-Library.Char_ord" begin

text \<open>
  Which hosts of a fleet run a service and how they reach each other
  (\<open>cmd/sdk-ops/services.go\<close>, \<open>services_pg.go\<close>, \<open>services_nats.go\<close>): the members of the
  databases, the mesh of the message servers, the order of the deployments, and the small
  functions on names, addresses and lists they share.
\<close>

section \<open>Names, lists and addresses\<close>

text \<open>\<open>safeName\<close>: at most 64 of the characters of the pattern, and at least one.\<close>

definition safe_char :: "char \<Rightarrow> bool" where
  "safe_char c \<longleftrightarrow>
     (let n = of_char c :: nat in
      (of_char CHR ''a'' \<le> n \<and> n \<le> of_char CHR ''z'') \<or> (of_char CHR ''A'' \<le> n \<and> n \<le> of_char CHR ''Z'') \<or>
      is_digit c \<or> c = CHR ''.'' \<or> c = CHR ''_'' \<or> c = CHR ''-'')"

definition safeName :: "string \<Rightarrow> goerr option" where
  "safeName s =
     (if s = '''' \<or> length s > 64 \<or> \<not> list_all safe_char s
      then Some (Errorf ''invalid name %q (allowed: a-zA-Z0-9._-)'' [Str s]) else None)"

definition splitCsv :: "string \<Rightarrow> string list" where
  "splitCsv s = filter (\<lambda>p. p \<noteq> '''') (map trimSpace (splitOn CHR '','' s))"

definition jsonTags :: "string list \<Rightarrow> string" where
  "jsonTags tags =
     (if tags = [] then ''''
      else ''['' @ joinWith '','' (map (\<lambda>t. [CHR 0x22] @ t @ [CHR 0x22]) tags) @ '']'')"

definition orDefault :: "string \<Rightarrow> string \<Rightarrow> string" where
  "orDefault v d = (if v = '''' then d else v)"

definition bareS3Host :: "string \<Rightarrow> string" where
  "bareS3Host v = trimSuffix (trimPrefix (trimPrefix v ''https://'') ''http://'') ''/''"

definition urlHost :: "string \<Rightarrow> string" where
  "urlHost ip = (if containsStr ip '':'' \<and> \<not> hasPrefix ip ''['' then ''['' @ ip @ '']'' else ip)"

definition isPrivateIP :: "string \<Rightarrow> bool" where
  "isPrivateIP ip =
     (if hasPrefix ip ''10.'' \<or> hasPrefix ip ''192.168.'' then True
      else if hasPrefix ip ''172.'' then
        (case splitOn CHR ''.'' ip of
           [a, b, c, d] \<Rightarrow> (case atoi b of Some n \<Rightarrow> 16 \<le> n \<and> n \<le> 31 | None \<Rightarrow> False)
         | _ \<Rightarrow> False)
      else False)"

definition cadenceTimer :: "string \<Rightarrow> string" where
  "cadenceTimer cadence =
     (if cadence = ''5min'' then ''OnUnitActiveSec=5min''
      else if cadence = ''15min'' then ''OnUnitActiveSec=15min''
      else if cadence = ''hourly'' then ''OnUnitActiveSec=1h''
      else if cadence = ''daily'' then ''OnCalendar=*-*-* 00:15:00''
      else if cadence = ''weekly'' then ''OnCalendar=Mon *-*-* 00:15:00''
      else ''OnUnitActiveSec='' @ cadence)"

section \<open>The members of a service\<close>

definition servicesOf :: "ProvisionFile \<Rightarrow> ProvisionHost \<Rightarrow> ProvisionServices" where
  "servicesOf pf h = rhServices (resolveHostConfig pf h)"

definition pgNodes :: "ProvisionFile \<Rightarrow> ProvisionHost list" where
  "pgNodes pf = filter (\<lambda>h. mget (servicesOf pf h) ''pgsql-cluster'' \<noteq> None) (pfHosts pf)"

definition etcdNodes :: "ProvisionFile \<Rightarrow> ProvisionHost list" where
  "etcdNodes pf = filter (\<lambda>h. let svcs = servicesOf pf h in
     mget svcs ''etcd'' \<noteq> None \<or> isServiceVariant svcs ''etcd'') (pfHosts pf)"

definition poolerHostName :: "ProvisionFile \<Rightarrow> string" where
  "poolerHostName pf = (case pgNodes pf of [] \<Rightarrow> '''' | n # ns \<Rightarrow> hName n)"

definition poolerNode :: "ProvisionFile \<Rightarrow> ProvisionHost \<Rightarrow> ServiceConfig \<Rightarrow> bool" where
  "poolerNode pf h cfg =
     (if scPooler cfg then hName h = poolerHostName pf
      else list_ex (\<lambda>n. hName n = hName h) (pgNodes pf))"

definition pgPrimaryNode :: "ProvisionFile \<Rightarrow> ProvisionHost" where
  "pgPrimaryNode pf = (case pgNodes pf of [] \<Rightarrow> zeroHost | n # ns \<Rightarrow> n)"

definition pgRecreateWanted :: "ProvisionFile \<Rightarrow> bool" where
  "pgRecreateWanted pf = list_ex (\<lambda>n. case mget (servicesOf pf n) ''pgsql-cluster'' of
     Some cfg \<Rightarrow> scRecreate cfg | None \<Rightarrow> False) (pfHosts pf)"

definition hostPeerIP :: "ProvisionFile \<Rightarrow> string \<Rightarrow> string" where
  "hostPeerIP pf name =
     (case List.find (\<lambda>h. hName h = name) (pfHosts pf) of
        Some h \<Rightarrow> if hPeerIP h \<noteq> '''' then hPeerIP h else hHost h
      | None \<Rightarrow> '''')"

section \<open>The mesh of the message servers\<close>

definition runsNats :: "ProvisionFile \<Rightarrow> ProvisionHost \<Rightarrow> bool" where
  "runsNats pf h = isServiceVariant (servicesOf pf h) ''nats''"

definition peerRouteIP :: "ProvisionHost \<Rightarrow> ProvisionHost \<Rightarrow> string" where
  "peerRouteIP a b =
     (if hPeerIP a = '''' \<or> hPeerIP b = '''' then hHost b
      else if isPrivateIP (hPeerIP a) = isPrivateIP (hPeerIP b) then hPeerIP b
      else hHost b)"

definition natsPeers :: "ProvisionFile \<Rightarrow> ProvisionHost \<Rightarrow> ProvisionHost list" where
  "natsPeers pf h = filter (\<lambda>other. hName other \<noteq> hName h \<and> runsNats pf other) (pfHosts pf)"

definition meshAdvertise :: "ProvisionFile \<Rightarrow> ProvisionHost \<Rightarrow> string" where
  "meshAdvertise pf h =
     (let allPrivate = hPeerIP h \<noteq> '''' \<and> isPrivateIP (hPeerIP h) \<and>
            list_all (\<lambda>other. hPeerIP other \<noteq> '''' \<and> isPrivateIP (hPeerIP other)) (natsPeers pf h)
      in if allPrivate then hPeerIP h else hHost h)"

definition natsSeedRoutes :: "ProvisionFile \<Rightarrow> ProvisionHost \<Rightarrow> int \<Rightarrow> string list" where
  "natsSeedRoutes pf h seeds =
     map (peerRouteIP h) (take (nat (if seeds \<le> 0 then 3 else seeds)) (natsPeers pf h))"

definition singleVPSRoutes :: "int \<Rightarrow> string list" where
  "singleVPSRoutes replicas = map (\<lambda>i. ''nats-'' @ itoa i) [1..replicas - 1]"

definition natsTopology :: "ProvisionFile \<Rightarrow> ProvisionHost \<Rightarrow> ServiceConfig \<Rightarrow> int \<times> int \<times> bool \<times> string list \<times> int list" where
  "natsTopology pf h cfg =
     (let nodeCount = int (length (filter (runsNats pf) (pfHosts pf)));
          replicas = (if scReplicas cfg \<le> 0 then nodeCount else scReplicas cfg);
          singleVPS = (replicas > 1 \<and> nodeCount = 1);
          routes = (if singleVPS then singleVPSRoutes replicas else natsSeedRoutes pf h (scSeeds cfg))
      in (replicas, nodeCount, singleVPS, routes, if singleVPS then [0..replicas - 1] else []))"

section \<open>The order of the deployments\<close>

definition serviceOrder :: "string list" where
  "serviceOrder = [''etcd'', ''etcd-bare'', ''etcd-cluster'', ''pgsql-cluster'', ''pgsql-cnpg'',
     ''nats'', ''nats-bare'', ''nats-cluster'', ''df'', ''df-bare'', ''df-cluster'', ''valkey-cluster'',
     ''crowdsec-bare'', ''crowdsec-dockerized'', ''crowdsec-cluster'', ''libsql'']"

definition orderedServiceNames :: "ProvisionServices \<Rightarrow> string list" where
  "orderedServiceNames services =
     (let out = filter (\<lambda>name. mget services name \<noteq> None) serviceOrder
      in out @ sort (filter (\<lambda>name. name \<notin> set out) (keys services)))"

end
