(* ===== verification/ServiceRender.thy ===== *)
theory ServiceRender imports ServiceTopology begin

text \<open>
  What the service templates are rendered with (\<open>cmd/sdk-ops/services.go\<close>,
  \<open>services_pg.go\<close>, \<open>services_nats_single.go\<close>): one builder per template family, the dispatch
  between them, and the files of the several-containers-on-one-host mode. The rendering
  itself is \<open>text/template\<close> over the embedded files: a request whose answer is the rendered
  directory.
\<close>

section \<open>Fields of the render data\<close>

text \<open>A field is a value at hand or an environment variable with a default (\<open>envOr\<close>).\<close>

datatype rsrc = Val rval | EnvOr string string | EnvVar string

definition envOr :: "string \<Rightarrow> string \<Rightarrow> string prog" where
  "envOr key d = bind (getenv key) (\<lambda>v. Ret (if v \<noteq> '''' then v else d))"

definition source :: "rsrc \<Rightarrow> rval prog" where
  "source s = (case s of Val v \<Rightarrow> Ret v
     | EnvOr k d \<Rightarrow> bind (envOr k d) (\<lambda>v. Ret (RStr v))
     | EnvVar k \<Rightarrow> bind (getenv k) (\<lambda>v. Ret (RStr v)))"

primrec fields :: "(string \<times> rsrc) list \<Rightarrow> rdata prog" where
  "fields [] = Ret []"
| "fields (x # xs) = bind (source (snd x)) (\<lambda>v. bind (fields xs) (\<lambda>d. Ret ((fst x, v) # d)))"

definition prof :: "rdata \<Rightarrow> string \<Rightarrow> rsrc" where
  "prof p k = Val (case mget p k of None \<Rightarrow> RNil | Some v \<Rightarrow> v)"

text \<open>\<open>fmt.Sprint\<close> of a profile value.\<close>

definition showVal :: "rval \<Rightarrow> string" where
  "showVal v = (case v of RNil \<Rightarrow> ''<nil>'' | RStr s \<Rightarrow> s | RInt i \<Rightarrow> itoa i
     | RBool b \<Rightarrow> if b then ''true'' else ''false'' | RFloat s \<Rightarrow> s
     | RStrs ss \<Rightarrow> ''['' @ joinWith '' '' ss @ '']'' | RInts is \<Rightarrow> ''['' @ joinWith '' '' (map itoa is) @ '']''
     | RPoolers ps \<Rightarrow> ''['' @ joinWith '' '' (map (\<lambda>(i, d). ''map[Database:'' @ d @ '' IP:'' @ i @ '']'') ps) @ '']'')"

definition sprof :: "rdata \<Rightarrow> string \<Rightarrow> string" where
  "sprof p k = showVal (case mget p k of None \<Rightarrow> RNil | Some v \<Rightarrow> v)"

definition yes :: rsrc where "yes = Val (RBool True)"

definition s3PrefixOr :: "string \<Rightarrow> string \<Rightarrow> string prog" where
  "s3PrefixOr envKey d = envOr envKey d"

definition hasS3 :: "bool prog" where
  "hasS3 = bind (getenv ''S3_BUCKET'') (\<lambda>b.
     if b = '''' then Ret False else bind (getenv ''S3_ENDPOINT'') (\<lambda>e. Ret (e \<noteq> '''')))"

section \<open>The builders\<close>

definition libsqlRenderData :: "rdata \<Rightarrow> rdata res prog" where
  "libsqlRenderData p = bind (fields [
     (''SQLD_MEM'', prof p ''SQLD_MEM''), (''SQLD_CPUS'', prof p ''SQLD_CPUS''),
     (''ETCD_MEM'', prof p ''ETCD_MEM''), (''ETCD_CPUS'', prof p ''ETCD_CPUS''),
     (''CONTROLLER_MEM'', prof p ''CONTROLLER_MEM''), (''CONTROLLER_CPUS'', prof p ''CONTROLLER_CPUS''),
     (''ROUTER_MEM'', prof p ''ROUTER_MEM''), (''ROUTER_CPUS'', prof p ''ROUTER_CPUS''),
     (''REPLICAS'', prof p ''REPLICAS''),
     (''LIBSQL_HTTP'', EnvOr ''LIBSQL_HTTP'' ''8080''),
     (''LIBSQL_REPLICA_HTTP'', EnvOr ''LIBSQL_REPLICA_HTTP'' ''8081''),
     (''LIBSQL_REPLICA2_HTTP'', EnvOr ''LIBSQL_REPLICA2_HTTP'' ''8082''),
     (''LIBSQL_HTTP_TLS'', EnvOr ''LIBSQL_HTTP_TLS'' ''8443''),
     (''CONTROLLER_PORT'', EnvOr ''CONTROLLER_PORT'' ''9090''),
     (''Provision'', yes)]) (\<lambda>d. Ret (Inr d))"

definition dfRenderData :: "rdata \<Rightarrow> rdata res prog" where
  "dfRenderData p = bind (fields [
     (''DF_MEM'', prof p ''DF_MEM''), (''DF_CPUS'', prof p ''DF_CPUS''),
     (''HAPROXY_MEM'', prof p ''HAPROXY_MEM''), (''HAPROXY_CPUS'', prof p ''HAPROXY_CPUS''),
     (''DF_PASSWORD'', EnvOr ''DF_PASSWORD'' ''dragonfly''),
     (''DF_PORT'', EnvOr ''DF_PORT'' ''6379''),
     (''DF_REPLICA_PORT'', EnvOr ''DF_REPLICA_PORT'' ''6380''),
     (''Provision'', yes)]) (\<lambda>d. Ret (Inr d))"

definition natsClusterRenderData :: "rdata \<Rightarrow> rdata res prog" where
  "natsClusterRenderData p = bind (fields [
     (''Namespace'', EnvOr ''NATS_K8S_NAMESPACE'' ''nats''), (''Release'', EnvOr ''NATS_K8S_RELEASE'' ''nats''),
     (''Tag'', EnvOr ''NATS_K8S_TAG'' ''2.14-alpine''), (''Replicas'', EnvOr ''NATS_K8S_REPLICAS'' ''3''),
     (''Cpu'', prof p ''cpu''), (''Mem'', prof p ''mem''), (''JSStorage'', prof p ''js_storage''),
     (''StorageClass'', EnvOr ''NATS_K8S_STORAGE_CLASS'' ''local-path''),
     (''MaxPayload'', prof p ''max_payload''),
     (''NatsBox'', EnvOr ''NATS_K8S_NATS_BOX'' ''true''),
     (''HelmVersion'', EnvOr ''NATS_K8S_HELM_VERSION'' ''v3.15.4''),
     (''Nack'', EnvOr ''NATS_K8S_NACK'' ''true''), (''NackTag'', EnvOr ''NATS_K8S_NACK_TAG'' ''0.24.0''),
     (''NackControlLoop'', EnvOr ''NATS_K8S_NACK_CONTROL_LOOP'' ''false''),
     (''CliVersion'', EnvOr ''NATS_CLI_VERSION'' ''0.4.0''), (''Provision'', yes)]) (\<lambda>d. Ret (Inr d))"

definition dfClusterRenderData :: "rdata \<Rightarrow> rdata res prog" where
  "dfClusterRenderData p =
     bind (fields [
       (''Namespace'', EnvOr ''DF_K8S_NAMESPACE'' ''df''), (''Name'', EnvOr ''DF_K8S_NAME'' ''df''),
       (''Tag'', EnvOr ''DF_K8S_TAG'' ''v1.30.1''), (''Replicas'', EnvOr ''DF_K8S_REPLICAS'' ''3''),
       (''CPU'', prof p ''cpu''), (''Mem'', prof p ''mem''),
       (''DFPassword'', EnvOr ''DF_PASSWORD'' ''dragonfly'')]) (\<lambda>d1.
     bind hasS3 (\<lambda>s3.
     bind (envOr ''S3_BUCKET'' '''') (\<lambda>bucket.
     bind (s3PrefixOr ''DF_S3_PREFIX'' ''df'') (\<lambda>prefix.
     bind (envOr ''S3_ENDPOINT'' '''') (\<lambda>endpoint.
     bind (fields [
       (''S3Snapshot'', Val (RBool s3)), (''S3Bucket'', Val (RStr bucket)), (''S3Prefix'', Val (RStr prefix)),
       (''S3Endpoint'', Val (RStr (bareS3Host endpoint))),
       (''S3Region'', EnvOr ''S3_REGION'' ''us-east-005''),
       (''S3AccessKey'', EnvOr ''S3_ACCESS_KEY'' ''''), (''S3SecretKey'', EnvOr ''S3_SECRET_KEY'' ''''),
       (''SnapshotCron'', EnvOr ''DF_K8S_SNAPSHOT_CRON'' ''0 */6 * * *''),
       (''OperatorTag'', EnvOr ''DF_K8S_OPERATOR_TAG'' ''v1.1.4''),
       (''OperatorManifest'', EnvOr ''DF_K8S_OPERATOR_MANIFEST''
          ''https://raw.githubusercontent.com/dragonflydb/dragonfly-operator/v1.1.4/manifests/dragonfly-operator.yaml''),
       (''Provision'', yes)]) (\<lambda>d2. Ret (Inr (d1 @ d2))))))))"

definition valkeyClusterRenderData :: "rdata \<Rightarrow> rdata res prog" where
  "valkeyClusterRenderData p =
     bind (envOr ''VK_K8S_MAX_MEMORY'' '''') (\<lambda>m0.
     let m1 = (if m0 = '''' then (case mget p ''MaxMemory'' of Some (RStr v) \<Rightarrow> v | _ \<Rightarrow> m0) else m0);
         maxMem = (if m1 = '''' then ''256mb'' else m1) in
     bind (fields [
       (''Namespace'', EnvOr ''VK_K8S_NAMESPACE'' ''valkey''), (''Name'', EnvOr ''VK_K8S_NAME'' ''valkey''),
       (''Tag'', EnvOr ''VK_K8S_TAG'' ''8.1.3''), (''Nodes'', EnvOr ''VK_K8S_NODES'' ''6''),
       (''ReplicasPerPrimary'', EnvOr ''VK_K8S_CLUSTER_REPLICAS'' ''1''),
       (''CPU'', prof p ''CPU''), (''Mem'', prof p ''Mem''), (''MaxMemory'', Val (RStr maxMem)),
       (''Password'', EnvOr ''VK_PASSWORD'' ''valkey'')]) (\<lambda>d. Ret (Inr d)))"

definition pgsqlCNPGRenderData :: "rdata \<Rightarrow> rdata res prog" where
  "pgsqlCNPGRenderData p =
     bind hasS3 (\<lambda>backup.
     bind (fields [
       (''Namespace'', EnvOr ''PG_K8S_NAMESPACE'' ''pg''), (''Name'', EnvOr ''PG_K8S_NAME'' ''pg''),
       (''Instances'', EnvOr ''PG_K8S_INSTANCES'' ''3''),
       (''StorageClass'', EnvOr ''PG_K8S_STORAGE_CLASS'' ''local-path''),
       (''StorageSize'', prof p ''StorageSize''), (''CPU'', prof p ''CPU''), (''Cpus'', prof p ''Cpus''),
       (''Mem'', prof p ''Mem''), (''MemLimit'', prof p ''MemLimit''), (''MaxConnections'', prof p ''MaxConnections''),
       (''BackupEnabled'', Val (RBool backup)), (''S3Bucket'', EnvOr ''S3_BUCKET'' '''')]) (\<lambda>d1.
     bind (s3PrefixOr ''PG_S3_PREFIX'' ''pg'') (\<lambda>prefix.
     bind (envOr ''S3_ENDPOINT'' '''') (\<lambda>endpoint.
     bind (fields [
       (''S3Prefix'', Val (RStr prefix)), (''S3Endpoint'', Val (RStr (bareS3Host endpoint))),
       (''RetentionPolicy'', EnvOr ''PG_K8S_RETENTION'' ''7d''),
       (''OperatorManifest'', EnvOr ''PG_K8S_OPERATOR_MANIFEST''
          ''https://github.com/cloudnative-pg/cloudnative-pg/releases/download/v1.30.0/cnpg-1.30.0.yaml'')])
       (\<lambda>d2. Ret (Inr (d1 @ d2)))))))"

definition etcdClusterRenderData :: "rdata \<Rightarrow> rdata res prog" where
  "etcdClusterRenderData p = bind (fields [
     (''Namespace'', EnvOr ''ETCD_K8S_NAMESPACE'' ''etcd''), (''Release'', EnvOr ''ETCD_K8S_RELEASE'' ''etcd''),
     (''Tag'', EnvOr ''ETCD_K8S_TAG'' ''3.5.15''), (''Replicas'', EnvOr ''ETCD_K8S_REPLICAS'' ''3''),
     (''CPU'', prof p ''cpu''), (''Mem'', prof p ''mem''), (''Storage'', prof p ''storage''),
     (''HelmVersion'', EnvOr ''ETCD_K8S_HELM_VERSION'' ''v3.15.4''), (''Provision'', yes)]) (\<lambda>d. Ret (Inr d))"

definition crowdsecClusterRenderData :: "rdata \<Rightarrow> rdata res prog" where
  "crowdsecClusterRenderData p =
     bind (fields [
       (''Namespace'', EnvOr ''CS_K8S_NAMESPACE'' ''crowdsec''), (''Release'', EnvOr ''CS_K8S_RELEASE'' ''crowdsec''),
       (''Bouncer'', EnvOr ''CS_K8S_BOUNCER'' ''traefik-bouncer''),
       (''PluginVersion'', EnvOr ''CS_K8S_PLUGIN_VERSION'' ''v1.4.5''),
       (''HelmVersion'', EnvOr ''CS_K8S_HELM_VERSION'' ''v3.15.4''),
       (''StorageClass'', EnvOr ''CS_K8S_STORAGE_CLASS'' ''local-path''),
       (''LapiNodePort'', EnvOr ''CS_K8S_LAPI_NODEPORT'' ''''),
       (''ClientCIDR'', EnvOr ''CS_K8S_CLIENT_CIDR'' ''10.0.0.0/8''),
       (''LapiCPU'', EnvOr ''CS_K8S_LAPI_CPU'' (sprof p ''lapi_cpu'')),
       (''LapiCPULimit'', EnvOr ''CS_K8S_LAPI_CPU_LIMIT'' (sprof p ''lapi_cpu_limit'')),
       (''LapiMem'', EnvOr ''CS_K8S_LAPI_MEM'' (sprof p ''lapi_mem'')),
       (''LapiMemLimit'', EnvOr ''CS_K8S_LAPI_MEM_LIMIT'' (sprof p ''lapi_mem_limit'')),
       (''LapiStorage'', prof p ''lapi_storage''),
       (''AgentCPU'', EnvOr ''CS_K8S_AGENT_CPU'' (sprof p ''agent_cpu'')),
       (''AgentCPULimit'', EnvOr ''CS_K8S_AGENT_CPU_LIMIT'' (sprof p ''agent_cpu_limit'')),
       (''AgentMem'', EnvOr ''CS_K8S_AGENT_MEM'' (sprof p ''agent_mem'')),
       (''AgentMemLimit'', EnvOr ''CS_K8S_AGENT_MEM_LIMIT'' (sprof p ''agent_mem_limit'')),
       (''AppSecCPU'', EnvOr ''CS_K8S_APPSEC_CPU'' ''100m''),
       (''AppSecCPULimit'', EnvOr ''CS_K8S_APPSEC_CPU_LIMIT'' ''500m''),
       (''AppSecMem'', EnvOr ''CS_K8S_APPSEC_MEM'' ''128Mi''),
       (''AppSecMemLimit'', EnvOr ''CS_K8S_APPSEC_MEM_LIMIT'' ''256Mi''),
       (''AppSecEnabled'', Val (RBool (sprof p ''appsec'' = ''true''))),
       (''PodCIDR'', EnvOr ''CS_K8S_POD_CIDR'' ''10.42.0.0/16'')]) (\<lambda>d.
     bind (envOr ''CS_K8S_TRUSTED_CIDRS'' ''10.0.0.0/8,10.42.0.0/16'') (\<lambda>trusted.
     Ret (Inr (d @ [(''TrustedCIDRs'', RStrs (splitCsv trusted)), (''Provision'', RBool True)]))))"

definition crowdsecBareRenderData :: "ProvisionHost \<Rightarrow> rdata \<Rightarrow> rdata res prog" where
  "crowdsecBareRenderData h p =
     bind (getenv ''CS_LAPI_URL'') (\<lambda>lapiURL.
     bind (fields [
       (''CSVersion'', EnvOr ''CS_VERSION'' ''1.8.1''), (''BouncerVersion'', EnvOr ''CS_BOUNCER_VERSION'' ''0.0.36''),
       (''BouncerName'', EnvOr ''CS_BOUNCER_NAME'' (hName h)),
       (''Collections'', EnvOr ''CS_COLLECTIONS'' (sprof p ''collections'')),
       (''LapiListen'', EnvOr ''CS_LAPI_LISTEN'' ''127.0.0.1:8080''), (''LapiURL'', Val (RStr lapiURL)),
       (''Client'', Val (RBool (lapiURL \<noteq> ''''))), (''MemLimit'', Val (RStr (sprof p ''mem_limit''))),
       (''CpuQuota'', Val (RStr (sprof p ''cpu_quota''))), (''Provision'', yes)]) (\<lambda>d. Ret (Inr d)))"

definition crowdsecDockerizedRenderData :: "ProvisionHost \<Rightarrow> rdata \<Rightarrow> ServiceConfig \<Rightarrow> rdata res prog" where
  "crowdsecDockerizedRenderData h p cfg =
     bind (getenv ''CS_LAPI_URL'') (\<lambda>lapiURL.
     bind (fields [
       (''ImageTag'', EnvOr ''CS_IMAGE_TAG'' ''v1.8.1''), (''PluginVersion'', EnvOr ''CS_PLUGIN_VERSION'' ''v1.7.1''),
       (''BouncerName'', EnvOr ''CS_BOUNCER_NAME'' (hName h)),
       (''Collections'', EnvOr ''CS_COLLECTIONS'' (sprof p ''collections'')),
       (''MemLimit'', Val (RStr (sprof p ''mem_limit''))), (''Cpus'', Val (RStr (sprof p ''cpus''))),
       (''LapiURL'', Val (RStr lapiURL)), (''Client'', Val (RBool (lapiURL \<noteq> ''''))),
       (''Central'', Val (RBool (scCentral cfg))), (''PeerIP'', Val (RStr (hPeerIP h))),
       (''AppSec'', Val (RBool (sprof p ''appsec'' = ''true'')))]) (\<lambda>d.
     bind (envOr ''CS_TRUSTED_CIDRS'' ''10.0.0.0/8,172.16.0.0/12,192.168.0.0/16,127.0.0.1'') (\<lambda>trusted.
     Ret (Inr (d @ [(''TrustedCIDRs'', RStrs (splitCsv trusted)), (''Provision'', RBool True)])))))"

text \<open>An empty password is refused before any hashing; the hash is salted, so it is the world's.\<close>

definition bcryptHash :: "string \<Rightarrow> string res prog" where
  "bcryptHash pass =
     (if pass = '''' then fail (Errorf (''empty password '' @ em_dash @ '' set NATS_*_PASSWORD in the environment'') [])
      else tryP (Wrapf ''bcrypt: %w'' []) (askP (Bcrypt pass)) (\<lambda>a. Ret (Inr (aOut a))))"

definition appPublishBase :: "string list" where
  "appPublishBase = [''demo'', ''demo.>'', ''events.>'', ''links.>'', ''nats-rpc.>'', ''nats-pull.>'',
     ''$KV.>'', ''$JS.API.>'', ''$JSC.API.>'', ''$JS.SNAPSHOT.>'', ''$JS.ACK.>'', ''_INBOX.>'']"

definition appSubscribeBase :: "string list" where
  "appSubscribeBase = [''demo.>'', ''events.>'', ''links.>'', ''nats-rpc.>'', ''nats-pull.>'', ''$KV.>'', ''_INBOX.>'']"

definition natsRenderData :: "ProvisionFile \<Rightarrow> ProvisionHost \<Rightarrow> rdata \<Rightarrow> ServiceConfig \<Rightarrow> rdata res prog" where
  "natsRenderData pf h p cfg =
     bind (envOr ''NATS_CLUSTER_NAME'' ''nla'') (\<lambda>cluster.
     case natsTopology pf h cfg of (replicas, nodeCount, singleVPS, routes, containers) \<Rightarrow>
     bind (getenv ''NATS_APP_PASSWORD'') (\<lambda>app. tryP id (bcryptHash app) (\<lambda>appHash.
     bind (getenv ''NATS_SVC_PASSWORD'') (\<lambda>svc. tryP id (bcryptHash svc) (\<lambda>svcHash.
     bind (getenv ''NATS_SYS_PASSWORD'') (\<lambda>sys. tryP id (bcryptHash sys) (\<lambda>sysHash.
     bind (getenv ''NATS_APP_PUBLISH'') (\<lambda>pub.
     bind (getenv ''NATS_APP_SUBSCRIBE'') (\<lambda>sub.
     bind (fields [
       (''ServerName'', Val (RStr (hName h))), (''Advertise'', Val (RStr (meshAdvertise pf h))),
       (''Routes'', Val (RStrs routes)), (''ClusterName'', Val (RStr cluster)),
       (''MaxConnections'', prof p ''max_connections''), (''MaxFileStore'', prof p ''max_file_store''),
       (''MaxMemoryStore'', prof p ''max_memory_store''), (''MemLimit'', prof p ''mem_limit''),
       (''Cpus'', prof p ''cpus''), (''JSKey'', EnvVar ''NATS_JS_KEY''),
       (''AppPasswordHash'', Val (RStr appHash)), (''SvcPasswordHash'', Val (RStr svcHash)),
       (''SysPasswordHash'', Val (RStr sysHash)), (''ServerTags'', Val (RStr (jsonTags (scServerTags cfg)))),
       (''ClientAdvertise'', Val (RStr (scClientAdvertise cfg))),
       (''AppPublishAllow'', Val (RStr (jsonTags (appPublishBase @ splitCsv pub)))),
       (''AppSubscribeAllow'', Val (RStr (jsonTags (appSubscribeBase @ splitCsv sub)))),
       (''Replicas'', Val (RInt replicas)), (''NodeCount'', Val (RInt nodeCount)),
       (''SingleVPS'', Val (RBool singleVPS)), (''Containers'', Val (RInts containers))])
       (\<lambda>d. Ret (Inr d)))))))))))"

text \<open>The etcd members in the order of the fleet file; the last host of the name of \<open>h\<close> is its member.\<close>

definition etcdPairs :: "ProvisionHost list \<Rightarrow> string list" where
  "etcdPairs nodes = map (\<lambda>(i, n). sprintf ''etcd%d=http://%s:2380'' [Num (int i), Str (urlHost (peerOrHost n))])
     (enumerate 0 nodes)"

definition etcdMember :: "ProvisionHost list \<Rightarrow> string \<Rightarrow> nat" where
  "etcdMember nodes name = foldl (\<lambda>m (i, n). if hName n = name then i else m) 0 (enumerate 0 nodes)"

definition etcdRenderData :: "ProvisionFile \<Rightarrow> ProvisionHost \<Rightarrow> rdata \<Rightarrow> rdata res prog" where
  "etcdRenderData pf h p =
     (let nodes = etcdNodes pf in
      if nodes = [] then fail (Errorf ''etcd: no hosts declare services: etcd'' [])
      else bind (fields [
        (''EtcdName'', Val (RStr (''etcd'' @ itoa (int (etcdMember nodes (hName h)))))),
        (''EtcdIP'', Val (RStr (urlHost (peerOrHost h)))),
        (''InitialCluster'', Val (RStr (joinWith '','' (etcdPairs nodes)))),
        (''MemLimit'', prof p ''mem_limit''), (''Cpus'', prof p ''cpus'')]) (\<lambda>d. Ret (Inr d)))"

definition pgS3Region :: "string prog" where
  "pgS3Region = envOr ''S3_REGION'' ''us-east-005''"

definition dockerBridge :: string where
  "dockerBridge = ''172.17.0.1''"

definition etcdEndpoints :: "ProvisionFile \<Rightarrow> ProvisionHost \<Rightarrow> string list" where
  "etcdEndpoints pf h = map (\<lambda>n. urlHost (if hName n = hName h then dockerBridge else peerOrHost n) @ '':2379'') (etcdNodes pf)"

definition poolerTargets :: "ProvisionFile \<Rightarrow> ProvisionHost \<Rightarrow> (string \<times> string) list" where
  "poolerTargets pf h = map (\<lambda>n. (if hName n = hName h then dockerBridge else peerOrHost n, ''postgres'')) (pgNodes pf)"

definition pgRenderData :: "ProvisionFile \<Rightarrow> ProvisionHost \<Rightarrow> rdata \<Rightarrow> ServiceConfig \<Rightarrow> rdata res prog" where
  "pgRenderData pf h p cfg =
     (if pgNodes pf = [] then fail (Errorf ''pgsql-cluster: no hosts declare services: pgsql-cluster'' [])
      else bind (fields [
        (''Scope'', Val (RStr ''pgsql-cluster'')), (''NodeName'', Val (RStr (''pg-'' @ hName h))),
        (''NodeIP'', Val (RStr (urlHost (peerOrHost h)))),
        (''EtcdHosts'', Val (RStr (joinWith '','' (etcdEndpoints pf h)))),
        (''MaxConnections'', prof p ''max_connections''), (''MemLimit'', prof p ''mem_limit''),
        (''Cpus'', prof p ''cpus''), (''IsPooler'', Val (RBool (poolerNode pf h cfg))),
        (''PoolerIPs'', Val (RPoolers (poolerTargets pf h))),
        (''BackupMode'', Val (RStr (orDefault (scBackupMode cfg) ''leader''))),
        (''Mode'', Val (RStr (orDefault (scMode cfg) ''cluster''))),
        (''Restore'', Val (RBool (scRestore cfg))), (''Stanza'', Val (RStr ''main'')),
        (''PGSuperUser'', EnvVar ''PG_SUPERUSER''), (''PGAppPassword'', EnvVar ''PG_APP_PASSWORD''),
        (''PGReplicatorPassword'', EnvVar ''PG_REPLICATOR_PASSWORD''),
        (''PGRewindPassword'', EnvVar ''PG_REWIND_PASSWORD''), (''S3Endpoint'', EnvVar ''S3_ENDPOINT''),
        (''S3Region'', EnvOr ''S3_REGION'' ''us-east-005''), (''S3Bucket'', EnvVar ''S3_BUCKET''),
        (''S3AccessKey'', EnvVar ''S3_ACCESS_KEY''), (''S3SecretKey'', EnvVar ''S3_SECRET_KEY''),
        (''S3Prefix'', EnvVar ''S3_PREFIX''), (''PGCipherPass'', EnvVar ''PG_CIPHER_PASS'')]) (\<lambda>d. Ret (Inr d)))"

text \<open>
  The placement zone cuts the name without its trailing digits off the \<^emph>\<open>end\<close> of the name
  (\<open>strings.TrimSuffix\<close>), where it stands at the beginning.
\<close>

definition trimRightDigits :: "string \<Rightarrow> string" where
  "trimRightDigits s = rev (dropWhile is_digit (rev s))"

definition yugaZone :: "string \<Rightarrow> string" where
  "yugaZone name = ''rack'' @ trimSuffix name (trimRightDigits name)"

definition yugabyteRenderData :: "ProvisionHost \<Rightarrow> rdata \<Rightarrow> rdata res prog" where
  "yugabyteRenderData h p =
     bind (envOr ''YB_ZONE'' (yugaZone (hName h))) (\<lambda>zone.
     bind (fields [(''YbCpus'', prof p ''yb_cpus''), (''YbMem'', prof p ''yb_mem''), (''YbShards'', prof p ''yb_shards''),
       (''YbZone'', Val (RStr zone)), (''Provision'', yes)]) (\<lambda>d. Ret (Inr d)))"

section \<open>The dispatch\<close>

text \<open>The rules in their order: an exact directory or the prefix of a family.\<close>

datatype rmatch = Exact string | Prefix string

definition matches :: "rmatch \<Rightarrow> string \<Rightarrow> bool" where
  "matches m dirName = (case m of Exact s \<Rightarrow> dirName = s | Prefix s \<Rightarrow> hasPrefix dirName s)"

type_synonym builder = "ProvisionFile \<Rightarrow> ProvisionHost \<Rightarrow> rdata \<Rightarrow> ServiceConfig \<Rightarrow> rdata res prog"

definition profOnly :: "(rdata \<Rightarrow> rdata res prog) \<Rightarrow> builder" where
  "profOnly fn = (\<lambda>pf h p cfg. fn p)"

definition lightBuild :: builder where
  "lightBuild pf h p cfg = bind (fields [(''MemLimit'', prof p ''mem_limit''), (''Cpus'', prof p ''cpus''), (''Provision'', yes)])
     (\<lambda>d. Ret (Inr d))"

definition renderRules :: "(rmatch \<times> builder) list" where
  "renderRules = [
     (Prefix ''nats-cluster'', profOnly natsClusterRenderData),
     (Prefix ''nats-bare'', natsRenderData),
     (Exact ''df-cluster'', profOnly dfClusterRenderData),
     (Exact ''df-bare'', profOnly dfRenderData),
     (Exact ''valkey-cluster'', profOnly valkeyClusterRenderData),
     (Exact ''pgsql-cnpg'', profOnly pgsqlCNPGRenderData),
     (Exact ''etcd-cluster'', profOnly etcdClusterRenderData),
     (Exact ''crowdsec-cluster'', profOnly crowdsecClusterRenderData),
     (Exact ''crowdsec-bare'', \<lambda>pf h p cfg. crowdsecBareRenderData h p),
     (Exact ''crowdsec-dockerized'', \<lambda>pf h p cfg. crowdsecDockerizedRenderData h p cfg),
     (Exact ''etcd-bare'', \<lambda>pf h p cfg. etcdRenderData pf h p),
     (Prefix ''nats'', natsRenderData),
     (Exact ''etcd'', \<lambda>pf h p cfg. etcdRenderData pf h p),
     (Exact ''pgsql-cluster'', pgRenderData),
     (Prefix ''pgsql'', lightBuild),
     (Prefix ''yuga'', \<lambda>pf h p cfg. yugabyteRenderData h p),
     (Prefix ''libsql'', profOnly libsqlRenderData),
     (Prefix ''df'', profOnly dfRenderData)]"

definition buildRenderData :: "ProvisionFile \<Rightarrow> ProvisionHost \<Rightarrow> string \<Rightarrow> string \<Rightarrow> ServiceConfig \<Rightarrow> rdata res prog" where
  "buildRenderData pf h dirName profile0 cfg =
     (if dirName = ''yuga-bare'' \<or> dirName = ''pgsql-bare''
      then Ret (Inr [(''MemLimit'', RStr ''512m''), (''Cpus'', RStr ''1''), (''Provision'', RBool True)])
      else tryP id (askP (Profiles dirName)) (\<lambda>a.
        let profile = orDefault profile0 ''lite'' in
        case mget (aProfs a) profile of
          None \<Rightarrow> bind (mapOrder (keys (aProfs a))) (\<lambda>names.
            fail (Errorf ''unknown profile %q (available: %s)'' [Str profile, Str (joinWith '', '' names)]))
        | Some p \<Rightarrow>
            (case List.find (\<lambda>(m, b). matches m dirName) renderRules of
               Some (m, build) \<Rightarrow> build pf h p cfg
             | None \<Rightarrow> fail (Errorf ''no render builder for template %q'' [Str dirName]))))"

end
