(* ===== verification/ServiceOps.thy ===== *)
theory ServiceOps imports ServiceRender begin

text \<open>
  Deploying services on a node (\<open>cmd/sdk-ops/services.go\<close>, \<open>services_pg.go\<close>,
  \<open>services_nats.go\<close>, \<open>services_nats_single.go\<close>): removing the stale ones, rendering, deciding
  whether to recreate, uploading, wiring certificates, secrets and timers, starting, waiting
  and exposing the ports. The rendered directory is the list of its files; a local file
  system failure on it is the failure of opening it.
\<close>

section \<open>Removing stale services\<close>

record serviceUninstall =
  suUnits :: "string list"
  suScript :: "string list"

definition serviceUninstalls :: "serviceUninstall dict" where
  \<open>serviceUninstalls = [
     (''pgsql-bare'', \<lparr>suUnits = [''postgresql''], suScript = [''sudo pg_ctlcluster 18 main stop 2>/dev/null || sudo systemctl stop postgresql 2>/dev/null || true'']\<rparr>),
     (''nats-bare'', \<lparr>suUnits = [''nats-server''], suScript = []\<rparr>),
     (''df-bare'', \<lparr>suUnits = [''dragonfly-primary'', ''dragonfly-replica-1'', ''dragonfly-replica-2'', ''haproxy''], suScript = []\<rparr>),
     (''etcd-bare'', \<lparr>suUnits = [''etcd''], suScript = []\<rparr>),
     (''crowdsec-bare'', \<lparr>suUnits = [''crowdsec-firewall-bouncer'', ''crowdsec''], suScript = []\<rparr>),
     (''crowdsec-dockerized'', \<lparr>suUnits = [], suScript = [''sudo docker rm -f crowdsec 2>/dev/null || true'', ''sudo rm -f /etc/traefik/conf.d/01-crowdsec.yml 2>/dev/null || true'']\<rparr>),
     (''yuga-cluster'', \<lparr>suUnits = [], suScript = [''helm uninstall yb-demo -n yb-demo 2>/dev/null || true'', ''sudo k3s kubectl delete ns yb-demo --force --grace-period=0 2>/dev/null || true'']\<rparr>),
     (''nats-cluster'', \<lparr>suUnits = [], suScript = [''sudo /usr/local/bin/helm uninstall nats -n nats 2>/dev/null || true'', ''sudo k3s kubectl delete ns nats --force --grace-period=0 2>/dev/null || true'']\<rparr>),
     (''nats'', \<lparr>suUnits = [''nats-validate.timer'', ''nats-validate.service'', ''nats-backup.timer'', ''nats-backup.service''], suScript = []\<rparr>),
     (''etcd-cluster'', \<lparr>suUnits = [], suScript = [''sudo /usr/local/bin/helm uninstall etcd -n etcd 2>/dev/null || true'', ''sudo k3s kubectl delete ns etcd --force --grace-period=0 2>/dev/null || true'']\<rparr>),
     (''df-cluster'', \<lparr>suUnits = [], suScript = [''sudo k3s kubectl delete dragonfly df -n df --force --grace-period=0 2>/dev/null || true'', ''sudo k3s kubectl delete ns df --force --grace-period=0 2>/dev/null || true'']\<rparr>),
     (''valkey-cluster'', \<lparr>suUnits = [], suScript = [''sudo k3s kubectl delete ns valkey --force --grace-period=0 2>/dev/null || true'']\<rparr>),
     (''crowdsec-cluster'', \<lparr>suUnits = [], suScript = [''sudo k3s kubectl delete helmchartconfig traefik -n kube-system --ignore-not-found 2>/dev/null || true'', ''sudo /usr/local/bin/helm uninstall crowdsec -n crowdsec 2>/dev/null || true'', ''sudo k3s kubectl delete ns crowdsec --force --grace-period=0 2>/dev/null || true'']\<rparr>),
     (''pgsql-cnpg'', \<lparr>suUnits = [], suScript = [''sudo k3s kubectl delete cluster pg -n pg --ignore-not-found 2>/dev/null || true'', ''sudo k3s kubectl delete ns pg --force --grace-period=0 2>/dev/null || true'']\<rparr>),
     (''yuga-docker'', \<lparr>suUnits = [], suScript = [''sudo pkill -f yugabyted 2>/dev/null || true; sudo pkill -f yb-master 2>/dev/null || true; sudo pkill -f yb-tserver 2>/dev/null || true'']\<rparr>),
     (''yuga-bare'', \<lparr>suUnits = [], suScript = [''sudo pkill -f yugabyted 2>/dev/null || true; sudo pkill -f yb-master 2>/dev/null || true; sudo pkill -f yb-tserver 2>/dev/null || true'']\<rparr>)]\<close>

definition serviceDir :: "string \<Rightarrow> string" where
  \<open>serviceDir name = ''/opt/sdk-ops/services/'' @ name\<close>

primrec execAll :: "conn \<Rightarrow> script list \<Rightarrow> unit prog" where
  "execAll c [] = Ret ()"
| "execAll c (s # ss) = bind (execP c s) (\<lambda>_. execAll c ss)"

definition remove_script :: "string \<Rightarrow> script" where
  \<open>remove_script name = Raw (''sudo rm -rf '' @ serviceDir name @ '' 2>/dev/null || true'')\<close>

definition uninstall_scripts :: "string \<Rightarrow> script list" where
  \<open>uninstall_scripts name = (case mget serviceUninstalls name of None \<Rightarrow> []
     | Some u \<Rightarrow> map (\<lambda>unit. Fmt ''sudo systemctl disable --now %s 2>/dev/null || true'' [Str unit]) (suUnits u) @ map Raw (suScript u))\<close>

definition uninstallService :: "conn \<Rightarrow> string \<Rightarrow> unit prog" where
  \<open>uninstallService c name =
     bind (sshRun c (Fmt ''test -f %s/docker-compose.yml'' [Str (serviceDir name)])) (\<lambda>(out, e).
     bind (if e = None then execP c (Fmt ''cd %s && sudo docker compose down -v 2>/dev/null || true'' [Str (serviceDir name)]) else Ret ()) (\<lambda>_.
     bind (execAll c (uninstall_scripts name)) (\<lambda>_.
     execP c (remove_script name))))\<close>

definition list_script :: script where
  \<open>list_script = Raw ((''ls /opt/sdk-ops/services 2>/dev/null | tr '' @ [CHR 0x27, CHR 0x5C] @ ''n' ' ' || true''))\<close>

primrec cleanupEach :: "conn \<Rightarrow> ProvisionServices \<Rightarrow> string list \<Rightarrow> unit prog" where
  "cleanupEach c desired [] = Ret ()"
| "cleanupEach c desired (name # ns) =
     (if mget desired name \<noteq> None then cleanupEach c desired ns
      else if name = ''libsql'' \<or> hasPrefix name ''libsql'' then cleanupEach c desired ns
      else bind (uninstallService c name) (\<lambda>_. cleanupEach c desired ns))"

definition cleanupStaleServices :: "conn \<Rightarrow> ProvisionServices \<Rightarrow> unit prog" where
  "cleanupStaleServices c desired =
     bind (sshRun c list_script) (\<lambda>(out, e).
       if e \<noteq> None \<or> trimSpace out = '''' then Ret ()
       else cleanupEach c desired (goFields (trimSpace out)))"

section \<open>Secrets of a service\<close>

definition shq :: "string \<Rightarrow> string" where
  \<open>shq v = replaceAll v [CHR 0x27] ([CHR 0x27, CHR 0x5C, CHR 0x27, CHR 0x27])\<close>

definition envLine :: "string \<Rightarrow> string \<Rightarrow> string" where
  \<open>envLine k v = sprintf ((''%s='%s'' @ [CHR 0x27])) [Str k, Str (shq v)]\<close>

primrec envLines :: "string list \<Rightarrow> string list prog" where
  "envLines [] = Ret []"
| "envLines (k # ks) = bind (getenv k) (\<lambda>v. bind (envLines ks) (\<lambda>ls.
     Ret (if v = '''' then ls else envLine k v # ls)))"

definition prefixLine :: "string \<Rightarrow> string \<Rightarrow> string list prog" where
  "prefixLine envKey d =
     bind hasS3 (\<lambda>s3. if s3 then bind (s3PrefixOr envKey d) (\<lambda>p. Ret [envLine ''S3_PREFIX'' p]) else Ret [])"

definition s3Keys :: "string list" where
  "s3Keys = [''S3_BUCKET'', ''S3_ENDPOINT'', ''S3_ACCESS_KEY'', ''S3_SECRET_KEY'']"

definition env_script :: "string \<Rightarrow> string \<Rightarrow> string list \<Rightarrow> script" where
  \<open>env_script mark svcDir lines = Fmt (''umask 077; cat > %s/.env <<'' @ [CHR 0x27] @ mark @ [CHR 0x27] @ ''
%s
'' @ mark) [Str svcDir, Str (joinWith ''
'' lines)]\<close>

definition wireCNPGOn :: "conn \<Rightarrow> string \<Rightarrow> unit res prog" where
  "wireCNPGOn c svcDir =
     bind (envLines s3Keys) (\<lambda>l1. bind (prefixLine ''PG_S3_PREFIX'' ''pg'') (\<lambda>l2.
     if l1 @ l2 = [] then okP
     else runU c (env_script ''SDKOPS_CNPG_ENV'' svcDir (l1 @ l2)) (wrapE ''write pgsql-cnpg .env: %w'' [])))"

definition wireValkeyOn :: "conn \<Rightarrow> string \<Rightarrow> unit res prog" where
  "wireValkeyOn c svcDir =
     bind (envOr ''VK_PASSWORD'' ''valkey'') (\<lambda>pw.
     bind (envLines s3Keys) (\<lambda>l1. bind (prefixLine ''VK_S3_PREFIX'' ''valkey'') (\<lambda>l2.
     runU c (env_script ''SDKOPS_VK_ENV'' svcDir (envLine ''VK_PASSWORD'' pw # l1 @ l2))
       (wrapE ''write valkey-cluster .env: %w'' []))))"

definition wirePGDockerOn :: "conn \<Rightarrow> string \<Rightarrow> unit res prog" where
  "wirePGDockerOn c svcDir =
     bind (envOr ''PG_USER'' ''dev'') (\<lambda>user.
     bind (envOr ''PG_PASSWORD'' ''devpass'') (\<lambda>pw.
     bind (envOr ''PG_DATABASE'' ''postgres'') (\<lambda>db.
     bind (envOr ''REPLICATOR_PASSWORD'' ''replicatorpass'') (\<lambda>rp.
     bind (envLines [''S3_ENDPOINT'', ''S3_BUCKET'', ''S3_KEY'', ''S3_SECRET'', ''S3_REGION'']) (\<lambda>l1.
     runU c (env_script ''SDKOPS_PG_ENV'' svcDir
       ([envLine ''PG_USER'' user, envLine ''PG_PASSWORD'' pw, envLine ''PG_DATABASE'' db,
         envLine ''REPLICATOR_PASSWORD'' rp] @ l1)) (wrapE ''write pgsql-docker .env: %w'' []))))))"

definition wireDFOn :: "conn \<Rightarrow> string \<Rightarrow> unit res prog" where
  "wireDFOn c svcDir =
     bind (envOr ''DF_PASSWORD'' ''dragonfly'') (\<lambda>pw.
     bind (envLines s3Keys) (\<lambda>l1. bind (prefixLine ''DF_S3_PREFIX'' ''df'') (\<lambda>l2.
     runU c (env_script ''SDKOPS_DF_ENV'' svcDir (envLine ''DF_PASSWORD'' pw # l1 @ l2))
       (wrapE ''write df-cluster .env: %w'' []))))"

text \<open>The suffix of the variables of one host: upper case, hyphens and dots to underscores.\<close>

definition hostSuffix :: "string \<Rightarrow> string" where
  "hostSuffix name = map (\<lambda>c. upperChar (if c = CHR ''-'' \<or> c = CHR ''.'' then CHR ''_'' else c)) name"

primrec envHostLines :: "string \<Rightarrow> string list \<Rightarrow> string list prog" where
  "envHostLines sfx [] = Ret []"
| "envHostLines sfx (k # ks) =
     bind (getenv (k @ ''_'' @ sfx)) (\<lambda>v1.
     bind (if v1 \<noteq> '''' then Ret v1 else getenv k) (\<lambda>v.
     bind (envHostLines sfx ks) (\<lambda>ls. Ret (if v = '''' then ls else envLine k v # ls))))"

definition wireCrowdsecClientEnvOn :: "conn \<Rightarrow> string \<Rightarrow> string \<Rightarrow> unit res prog" where
  "wireCrowdsecClientEnvOn c svcDir nodeName =
     bind (envHostLines (hostSuffix nodeName) [''CS_LAPI_URL'', ''CS_LAPI_USER'', ''CS_LAPI_PASSWORD'', ''CS_BOUNCER_KEY''])
       (\<lambda>lines. if lines = [] then okP
        else runU c (env_script ''SDKOPS_CS_ENV'' svcDir lines) (wrapE ''write crowdsec .env: %w'' []))"

section \<open>Files to and on the node\<close>

definition upload_script :: "string \<Rightarrow> script" where
  \<open>upload_script dir = Fmt ''sudo mkdir -p %s && sudo tar xf - -C %s && (id sdkops >/dev/null 2>&1 && sudo chown -R sdkops:sdkops %s || true)'' [Str dir, Str dir, Str dir]\<close>

definition uploadDir :: "conn \<Rightarrow> string \<Rightarrow> files \<Rightarrow> string \<Rightarrow> unit res prog" where
  "uploadDir c localDir fs remoteDir =
     tryP id (callP (OpenRoot localDir)) (\<lambda>_.
     case List.find (\<lambda>(rel, _). containsStr rel ''..'') fs of
       Some (rel, _) \<Rightarrow> fail (Errorf ''invalid path %q'' [Str rel])
     | None \<Rightarrow> Do (ExecDir c (upload_script remoteDir) fs) (\<lambda>a. case aSess a of
         Some m \<Rightarrow> fail (Wrapf ''upload %s -> %s: %w'' [Str localDir, Str remoteDir] (Wrapf ''session: %w'' [] (Ext m)))
       | None \<Rightarrow> (case aErr a of None \<Rightarrow> okP
           | Some m \<Rightarrow> fail (Wrapf ''upload %s -> %s: %w'' [Str localDir, Str remoteDir] (Ext m)))))"

definition writeRemoteFile :: "conn \<Rightarrow> string \<Rightarrow> string \<Rightarrow> unit res prog" where
  "writeRemoteFile c path content =
     bind (sshRunWithStdin c (Raw (''sudo tee '' @ path @ '' >/dev/null'')) content) (\<lambda>(out, e). case e of
       Some err \<Rightarrow> fail (Wrapf ''write %s: %w'' [Str path] err)
     | None \<Rightarrow> runU c (Raw (''sudo chmod 0600 '' @ path)) (\<lambda>_ e. e))"

section \<open>Timers\<close>

definition timerFormat :: string where
  \<open>timerFormat = ''set -e
sudo tee /etc/systemd/system/%[1]s.service > /dev/null << 'UNIT'
[Unit]
Description=sdk-ops %[1]s
After=docker.service
[Service]
Type=oneshot
User=sdkops
WorkingDirectory=%[3]s
ExecStart=/bin/bash -c 'cd %[3]s && %[4]s'
UNIT
sudo tee /etc/systemd/system/%[1]s.timer > /dev/null << 'UNIT'
[Unit]
Description=%[1]s timer
[Timer]
OnBootSec=2min
%[2]s
Persistent=true
[Install]
WantedBy=timers.target
UNIT
sudo systemctl daemon-reload
sudo systemctl enable --now %[1]s.timer >/dev/null 2>&1
''\<close>

definition installTimer :: "conn \<Rightarrow> string \<Rightarrow> string \<Rightarrow> string \<Rightarrow> string \<Rightarrow> unit res prog" where
  "installTimer c name cadence svcDir cmd =
     runU c (Fmt timerFormat [Str name, Str (cadenceTimer cadence), Str svcDir, Str cmd]) (\<lambda>_ e. e)"

definition installPGTimers :: "conn \<Rightarrow> string \<Rightarrow> BackupSchedule option \<Rightarrow> unit res prog" where
  "installPGTimers c svcDir b =
     (let full = (case b of None \<Rightarrow> ''daily'' | Some b \<Rightarrow> orDefault (bsFull b) ''daily'');
          diff = (case b of None \<Rightarrow> '''' | Some b \<Rightarrow> bsDiff b);
          incr = (case b of None \<Rightarrow> ''hourly'' | Some b \<Rightarrow> orDefault (bsIncr b) ''hourly'') in
      tryP id (installTimer c ''pgx-validate'' ''5min'' svcDir ''bash validate.sh'') (\<lambda>_.
      tryP id (installTimer c ''pgx-backup-full'' full svcDir ''bash backup.sh full'') (\<lambda>_.
      tryP id (if diff \<noteq> '''' then installTimer c ''pgx-backup-diff'' diff svcDir ''bash backup.sh diff'' else okP) (\<lambda>_.
      installTimer c ''pgx-backup-incr'' incr svcDir ''bash backup.sh incr''))))"

definition wireEtcdOn :: "conn \<Rightarrow> string \<Rightarrow> string \<Rightarrow> unit res prog" where
  "wireEtcdOn c svcDir nodeName =
     (case safeName nodeName of Some e \<Rightarrow> fail e
      | None \<Rightarrow> installTimer c ''etcd-validate'' ''5min'' svcDir ''bash validate.sh'')"

section \<open>The PostgreSQL cluster\<close>

definition pg_wipe_script :: script where
  \<open>pg_wipe_script = Raw (''set -e
logger -t sdk-ops-pg "recreate: wiping the postgres service (containers + data + DCS keys + networks)"
for c in $(docker ps -aq --filter name=pg- 2>/dev/null); do
  docker rm -f "$c" >/dev/null 2>&1 || true
done
docker network rm $(docker network ls -q --filter name=pg- 2>/dev/null) >/dev/null 2>&1 || true
sudo rm -rf /opt/sdk-ops/services/postgres/data /opt/sdk-ops/services/postgres/run
sudo mkdir -p /opt/sdk-ops/services/postgres/run /opt/sdk-ops/services/postgres/data/patroni/data
sudo chown -R 70:70 /opt/sdk-ops/services/postgres/run /opt/sdk-ops/services/postgres/data/patroni
sudo chmod 0700 /opt/sdk-ops/services/postgres/data/patroni/data
# DCS keys (etcd v2 keyspace) - Patroni leadership/state. --max-time: the
# wave-1 etcd has NO quorum yet (single member) - a write would hang forever.
curl -s --max-time 5 -X DELETE 'http://127.0.0.1:2379/v2/keys/service/pg?recursive=true' >/dev/null 2>&1 || true
'')\<close>

definition wipe :: "conn \<Rightarrow> unit res prog" where
  "wipe c = runU c pg_wipe_script (\<lambda>_ e. e)"

definition wipeHost :: "ProvisionFile \<Rightarrow> ProvisionHost \<Rightarrow> unit res prog" where
  "wipeHost pf n =
     (let f = zeroFlags\<lparr>ifUser := orDefault (hUser n) ''sdkops'', ifKey := hSSHKey n, ifPort := portOr22 n, ifMode := pfMode pf\<rparr> in
      tryP (Wrapf ''cleanPGState %s: %w'' [Str (hName n)]) (infraConnect (hHost n) f) (\<lambda>pc.
      bind (wipe pc) (\<lambda>r. Do (Close pc) (\<lambda>_. case r of
        Inl e \<Rightarrow> fail (Wrapf ''cleanPGState %s: %w'' [Str (hName n)] e) | Inr _ \<Rightarrow> okP))))"

definition cleanPGState :: "conn \<Rightarrow> ProvisionFile \<Rightarrow> ProvisionHost \<Rightarrow> unit res prog" where
  "cleanPGState c pf h =
     (case safeName (hName h) of Some e \<Rightarrow> fail e
      | None \<Rightarrow> tryP id (wipe c) (\<lambda>_.
          eachP (wipeHost pf) (filter (\<lambda>n. hName n \<noteq> hName h) (pfHosts pf))))"

definition readCert :: "string \<Rightarrow> string \<Rightarrow> string prog" where
  "readCert dir rel = Do (ReadIn dir rel) (\<lambda>a. Ret (if aErr a = None then aOut a else ''''))"

definition pgCertsFormat :: string where
  \<open>pgCertsFormat = ''set -e
sudo mkdir -p %[1]s/../ssl
sudo tee %[1]s/../ssl/ca.pem > /dev/null << 'CERTEOF'
%[2]s
CERTEOF
sudo tee %[1]s/../ssl/server.crt > /dev/null << 'CERTEOF'
%[3]s
CERTEOF
sudo tee %[1]s/../ssl/server.key > /dev/null << 'CERTEOF'
%[4]s
CERTEOF
sudo chmod 600 %[1]s/../ssl/server.key
sudo chown -R 70:70 %[1]s/../ssl
''\<close>

definition uploadPGCerts :: "conn \<Rightarrow> string \<Rightarrow> string \<Rightarrow> unit res prog" where
  "uploadPGCerts c svcDir nodeName =
     bind (getenv ''PG_CERT_DIR'') (\<lambda>certDir.
     if certDir = '''' then okP
     else tryP (Wrapf ''open cert store %s: %w'' [Str certDir]) (callP (OpenRoot certDir)) (\<lambda>_.
       bind (readCert certDir ''ca.pem'') (\<lambda>ca.
       bind (readCert certDir (''server/'' @ nodeName @ ''.pem'')) (\<lambda>crt.
       bind (readCert certDir (''server/'' @ nodeName @ ''.key'')) (\<lambda>key.
       if ca = '''' \<or> crt = '''' \<or> key = ''''
       then fail (Errorf ''pg certs missing in %s (ca/server/%s.{pem,key})'' [Str certDir, Str nodeName])
       else runU c (Fmt pgCertsFormat [Str svcDir, Str ca, Str crt, Str key]) (\<lambda>_ e. e))))))"

definition pgEnvFormat :: string where
  \<open>pgEnvFormat = ''PG_STANZA=main
PG_SUPERUSER=%s
PG_APP_PASSWORD=%s
PG_REPLICATOR_PASSWORD=%s
S3_ENDPOINT=%s
S3_BUCKET=%s
S3_PREFIX=%s
S3_ACCESS_KEY=%s
S3_SECRET_KEY=%s
PG_CIPHER_PASS=%s
''\<close>

definition pgEnvScriptFormat :: string where
  \<open>pgEnvScriptFormat = ''sudo tee %s/.env > /dev/null << 'ENVEOF'
%s
ENVEOF
id sdkops >/dev/null 2>&1 && sudo chown sdkops:sdkops %s/.env || true
sudo chmod 600 %s/.env
''\<close>

definition writePGEnv :: "conn \<Rightarrow> string \<Rightarrow> unit res prog" where
  "writePGEnv c svcDir =
     bind (getenv ''PG_SUPERUSER'') (\<lambda>su. bind (getenv ''PG_APP_PASSWORD'') (\<lambda>ap.
     bind (getenv ''PG_REPLICATOR_PASSWORD'') (\<lambda>rp. bind (getenv ''S3_ENDPOINT'') (\<lambda>ep.
     bind (getenv ''S3_BUCKET'') (\<lambda>bu. bind (getenv ''S3_PREFIX'') (\<lambda>pr.
     bind (getenv ''S3_ACCESS_KEY'') (\<lambda>ak. bind (getenv ''S3_SECRET_KEY'') (\<lambda>sk.
     bind (getenv ''PG_CIPHER_PASS'') (\<lambda>cp.
     runU c (Fmt pgEnvScriptFormat [Str svcDir,
       Str (sprintf pgEnvFormat [Str su, Str ap, Str rp, Str ep, Str bu, Str pr, Str ak, Str sk, Str cp]),
       Str svcDir, Str svcDir]) (\<lambda>_ e. e))))))))))"

definition pgHostFormat :: string where
  \<open>pgHostFormat = (''set -e
logger -t sdk-ops-pg "wire: host setup (pgxbs + pgbackrest 2.59 + symlinks + nft bridge fixes)"
# The provider mirror (mirror.<provider>) can hang on any addressing -
# always switch to the official Ubuntu/Debian archives (provider-agnostic:
# any provider) and force the apt over IPv6 ONLY on v4-less hosts (a v4-only
# host has no v6 route - the ForceIPv6 would break the apt entirely).
sudo sed -i -E 's|https?://mirror[^/ ]*/ubuntu|http://archive.ubuntu.com/ubuntu|g' /etc/apt/sources.list.d/*.sources /etc/apt/sources.list 2>/dev/null || true
sudo sed -i -E 's|mirror'' @ [CHR 0x5C] @ ''+file://[^ ]*debian-security[^ ]*|http://deb.debian.org/debian-security|g' /etc/apt/sources.list.d/*.sources 2>/dev/null || true
sudo sed -i -E 's|mirror'' @ [CHR 0x5C] @ ''+file://[^ ]*debian[^ ]*|http://deb.debian.org/debian|g' /etc/apt/sources.list.d/*.sources 2>/dev/null || true
# The ForceIPv6 breaks v4-only hosts (the apt would try the unreachable v6):
# remove it ALWAYS, re-add only on v4-less hosts.
sudo rm -f /etc/apt/apt.conf.d/99force-ipv6 2>/dev/null || true
if ! ip -4 addr show | grep -q 'inet '; then
  echo 'Acquire::ForceIPv6 "true";' | sudo tee /etc/apt/apt.conf.d/99force-ipv6 >/dev/null 2>&1 || true
fi
sudo apt-get update >/dev/null 2>&1 || true
# pgxbs user (uid 70 = the container postgres uid - can read the data files);
# the useradd warns/errors when the uid is outside the system range - tolerate it.
id pgxbs >/dev/null 2>&1 || (sudo useradd -u 70 -o -m -d /home/pgxbs -s /bin/bash pgxbs 2>/dev/null || true)
# psql client for the host-side validation/suite (the wrapper alone errors).
sudo apt-get install -y postgresql-client >/dev/null 2>&1 || true
# pgbackrest 2.59 (PGDG - the apt 2.50 does not support postgres 18; the
# host-side restore requires 2.59 - pinned to the exact stable).
if ! pgbackrest version 2>/dev/null | grep -q '^pgBackRest 2'' @ [CHR 0x5C] @ ''.59'; then
  sudo apt-get install -y postgresql-common >/dev/null 2>&1 || true
  sudo /usr/share/postgresql-common/pgdg/apt.postgresql.org.sh -y >/dev/null 2>&1 || true
  sudo apt-get install -y pgbackrest >/dev/null 2>&1 || true
fi
# data symlink (the DB reports /var/lib/postgresql/data; the files live in the volume)
sudo mkdir -p /var/lib/postgresql
[ -e /var/lib/postgresql/data ] || sudo ln -sfn /opt/sdk-ops/services/postgres/data/patroni/data /var/lib/postgresql/data
sudo mkdir -p /etc/pgbackrest
# socket symlink (the host-side pgbackrest connects via /var/run/postgresql)
sudo rm -rf /var/run/postgresql
sudo ln -sfn /opt/sdk-ops/services/postgres/run /var/run/postgresql
# pgbackrest spool/buffer must be writable by the pgxbs user (the restore lock).
sudo rm -rf /tmp/pgbackrest && sudo mkdir -p /tmp/pgbackrest && sudo chmod 777 /tmp/pgbackrest
# socket dir for the postgres (the container runs as uid 70)
sudo mkdir -p /opt/sdk-ops/services/postgres/run /opt/sdk-ops/services/postgres/data/patroni/data
sudo chown -R 70:70 /opt/sdk-ops/services/postgres/run /opt/sdk-ops/services/postgres/data/patroni
sudo chmod 0700 /opt/sdk-ops/services/postgres/data/patroni/data
# nft bridge fixes: the peer drop in the forward chain blocks the containers'
# outbound to the PG/etcd/PgDog ports - the containers must reach the peers.
# IPv4 (docker bridge 172.16.0.0/12) + IPv6 (the docker ULA fd00::/8). # go-check:ignore-ip
# The 443 egress lets the containers reach the S3 (pgbackrest archive + backup).
for port in 5432 6432 2379 2380 8008 443; do
  sudo nft list chain inet filter forward 2>/dev/null | grep -q "dport $port" || '' @ [CHR 0x5C] @ ''
    sudo nft insert rule inet filter forward ip saddr 172.16.0.0/12 tcp dport $port accept 2>/dev/null || true # go-check:ignore-ip (docker bridge RFC1918)
  sudo nft list chain inet filter input 2>/dev/null | grep -q "dport $port" || '' @ [CHR 0x5C] @ ''
    sudo nft insert rule inet filter input tcp dport $port ip saddr 172.16.0.0/12 accept 2>/dev/null || true # go-check:ignore-ip (docker bridge RFC1918)
  sudo nft list chain inet filter forward 2>/dev/null | grep -q "ip6 saddr %[1]s tcp dport $port" || '' @ [CHR 0x5C] @ ''
    sudo nft insert rule inet filter forward ip6 saddr %[1]s tcp dport $port accept 2>/dev/null || true # go-check:ignore-ip (docker ULA v6)
  sudo nft list chain inet filter input 2>/dev/null | grep -q "ip6 saddr %[1]s tcp dport $port" || '' @ [CHR 0x5C] @ ''
    sudo nft insert rule inet filter input ip6 saddr %[1]s tcp dport $port accept 2>/dev/null || true # go-check:ignore-ip (docker ULA v6)
done
'')\<close>

definition setupPGHost :: "conn \<Rightarrow> unit res prog" where
  "setupPGHost c = runU c (Fmt pgHostFormat [Str ''fd00::/8'']) (\<lambda>_ e. e)"

definition pgReadableFormat :: string where
  \<open>pgReadableFormat = ''set -e
logger -t sdk-ops-pg "wiring: configs readable (chmod 0644 + ssl chown)"
for f in patroni.yml pgdog.toml users.toml pgbackrest.conf post-bootstrap.sh; do
  [ -f %s/$f ] && sudo chmod 0644 %s/$f || true
done
sudo chown -R 70:70 %s/../ssl 2>/dev/null || true
''\<close>

definition makePGConfigsReadable :: "conn \<Rightarrow> string \<Rightarrow> unit res prog" where
  "makePGConfigsReadable c svcDir = runU c (Fmt pgReadableFormat [Str svcDir, Str svcDir, Str svcDir]) (\<lambda>_ e. e)"

definition pgBackrestFormat :: string where
  \<open>pgBackrestFormat = ''[main]
pg1-path=%[1]s
pg1-user=dev

[global]
repo1-type=s3
repo1-s3-endpoint=%[2]s
repo1-s3-region=%[3]s
repo1-s3-bucket=%[4]s
repo1-s3-key=%[5]s
repo1-s3-key-secret=%[6]s
repo1-s3-uri-style=path
repo1-path=/%[7]s
repo1-retention-full=2
repo1-retention-diff=4
repo1-cipher-type=aes-256-cbc
repo1-cipher-pass=%[8]s
repo1-bundle=y
repo1-block=y
buffer-path=/tmp
spool-path=/tmp

[global:archive-get]
compress-level=1
''\<close>

definition pgLocalConfFormat :: string where
  \<open>pgLocalConfFormat = ''sudo tee /etc/pgbackrest/pgbackrest.local.conf > /dev/null << 'CONFEOF'
%[1]s
CONFEOF
sudo tee /etc/pgbackrest/pgbackrest.conf > /dev/null << 'CONFEOF'
%[2]s
CONFEOF
sudo chown pgxbs:pgxbs /etc/pgbackrest/pgbackrest.local.conf /etc/pgbackrest/pgbackrest.conf && sudo chmod 600 /etc/pgbackrest/pgbackrest.local.conf /etc/pgbackrest/pgbackrest.conf
''\<close>

text \<open>The environment of one configuration, in the order its \<open>Sprintf\<close> reads it.\<close>

definition pgBackrestConf :: "string \<Rightarrow> string prog" where
  "pgBackrestConf path =
     bind (getenv ''S3_ENDPOINT'') (\<lambda>ep. bind pgS3Region (\<lambda>re. bind (getenv ''S3_BUCKET'') (\<lambda>bu.
     bind (getenv ''S3_ACCESS_KEY'') (\<lambda>ak. bind (getenv ''S3_SECRET_KEY'') (\<lambda>sk.
     bind (getenv ''S3_PREFIX'') (\<lambda>pr. bind (getenv ''PG_CIPHER_PASS'') (\<lambda>cp.
     Ret (sprintf pgBackrestFormat [Str path, Str ep, Str re, Str bu, Str ak, Str sk, Str pr, Str cp]))))))))"

definition writePGLocalConf :: "conn \<Rightarrow> unit res prog" where
  "writePGLocalConf c =
     bind (pgBackrestConf ''/var/lib/postgresql/data'') (\<lambda>backupConf.
     bind (pgBackrestConf ''/opt/sdk-ops/services/postgres/data/patroni/data'') (\<lambda>restoreConf.
     runU c (Fmt pgLocalConfFormat [Str restoreConf, Str backupConf]) (\<lambda>_ e. e)))"

definition pg_present_script :: script where
  \<open>pg_present_script = Raw (''test -f /opt/sdk-ops/services/postgres/data/patroni/data/PG_VERSION && echo present || echo missing'')\<close>

definition pg_repo_script :: script where
  \<open>pg_repo_script = Raw (''sudo -u pgxbs pgbackrest --config=/etc/pgbackrest/pgbackrest.local.conf --stanza=main info 2>/dev/null | grep -q 'full backup' && echo repo-ok || echo repo-empty'')\<close>

definition pg_restore_script :: "string \<Rightarrow> script" where
  \<open>pg_restore_script svcDir = Raw (''cd '' @ svcDir @ '' && bash restore.sh --type=immediate'')\<close>

definition pgRestoreIfEmpty :: "conn \<Rightarrow> string \<Rightarrow> unit res prog" where
  "pgRestoreIfEmpty c svcDir =
     bind (sshRun c pg_present_script) (\<lambda>(out, _).
     if containsStr out ''present'' then okP
     else bind (sshRun c pg_repo_script) (\<lambda>(out, _).
       if \<not> containsStr out ''repo-ok'' then okP
       else runU c (pg_restore_script svcDir) (\<lambda>_ e. e)))"

definition pgdogImage :: string where
  \<open>pgdogImage = ''ghcr.io/pgdogdev/pgdog:v0.1.52''\<close>

definition shipPGDogImage :: "conn \<Rightarrow> string \<Rightarrow> string \<Rightarrow> unit res prog" where
  \<open>shipPGDogImage c nodeName tmpDir =
     tryP (Wrapf ''pgdog image pull (operator side): %w'' []) (askP (PullImage pgdogImage)) (\<lambda>img.
     tryP (Wrapf ''pgdog image save (operator side): %w'' []) (callP (WriteFile (tmpDir @ ''/pgdog.tar'') (aOut img))) (\<lambda>_.
     tryP id (callP (OpenRoot tmpDir)) (\<lambda>_.
     tryP id (askP (ReadIn tmpDir ''pgdog.tar'')) (\<lambda>d.
     bind (sshRunWithStdin c (Raw ''sudo mkdir -p /tmp/sdk-ops-images && sudo tee /tmp/sdk-ops-images/pgdog.tar >/dev/null'') (aOut d)) (\<lambda>(o1, e1). case e1 of
       Some err \<Rightarrow> fail (Wrapf ''pgdog image ship to %s: %w'' [Str nodeName] err)
     | None \<Rightarrow>
         bind (sshRun c (Raw (''sudo docker load -i /tmp/sdk-ops-images/pgdog.tar >/dev/null 2>&1 && sudo rm -f /tmp/sdk-ops-images/pgdog.tar && docker image inspect '' @ pgdogImage @ '' >/dev/null 2>&1 && echo loaded || echo load-failed''))) (\<lambda>(out, e).
         if e \<noteq> None \<or> \<not> containsStr out ''loaded''
         then fail (Errorf ''pgdog image load on %s: %s'' [Str nodeName, Str out])
         else bind (execP c (Raw ''logger -t sdk-ops-pg "pgdog image shipped from the operator (IPv6-only fallback)"'')) (\<lambda>_. okP)))))))\<close>

definition ensurePGDogImage :: "conn \<Rightarrow> string \<Rightarrow> unit res prog" where
  \<open>ensurePGDogImage c nodeName =
     bind (sshRun c (Raw (''docker image inspect '' @ pgdogImage @ '' >/dev/null 2>&1 && echo yes || echo no''))) (\<lambda>(out, _).
     if containsStr out ''yes'' then okP
     else bind (sshRun c (Raw (''docker pull '' @ pgdogImage @ '' >/dev/null 2>&1''))) (\<lambda>(_, e).
       if e = None then bind (execP c (Raw ''logger -t sdk-ops-pg "pgdog image pulled directly"'')) (\<lambda>_. okP)
       else tryP id (askP (MkTemp ''sdk-ops-pgdog-'')) (\<lambda>a.
         deferReq (RemoveAll (aOut a)) (shipPGDogImage c nodeName (aOut a)))))\<close>

definition wirePGOn :: "conn \<Rightarrow> string \<Rightarrow> string \<Rightarrow> ServiceConfig \<Rightarrow> ProvisionFile \<Rightarrow> ProvisionHost \<Rightarrow> unit res prog" where
  "wirePGOn c svcDir nodeName cfg pf h =
     (case safeName nodeName of Some e \<Rightarrow> fail e
      | None \<Rightarrow>
        tryP id (if (scRecreate cfg \<or> pgRecreateWanted pf) \<and> hName (pgPrimaryNode pf) = hName h
                 then cleanPGState c pf h else okP) (\<lambda>_.
        tryP id (uploadPGCerts c svcDir nodeName) (\<lambda>_.
        tryP id (writePGEnv c svcDir) (\<lambda>_.
        tryP id (setupPGHost c) (\<lambda>_.
        tryP id (makePGConfigsReadable c svcDir) (\<lambda>_.
        tryP id (writePGLocalConf c) (\<lambda>_.
        tryP id (if scRestore cfg \<and> hName (pgPrimaryNode pf) = hName h then pgRestoreIfEmpty c svcDir else okP) (\<lambda>_.
        tryP id (ensurePGDogImage c nodeName) (\<lambda>_.
        installPGTimers c svcDir (scBackup cfg))))))))))"

definition pgReadyFormat :: string where
  \<open>pgReadyFormat = (''set -e
# The Patroni needs the etcd QUORUM: a single etcd member blocks the
# linearizable reads and the patroni waits forever. The next waves' etcds
# complete the 2/3 - wait for it (up to 10 min).
for i in $(seq 1 120); do
  if curl -fsS --max-time 3 "http://127.0.0.1:2379/v2/machines" >/dev/null 2>&1 '' @ [CHR 0x5C] @ ''
     && [ "$(curl -s --max-time 3 'http://127.0.0.1:2379/v2/machines' 2>/dev/null | grep -oE 'http://[^,]+' | wc -l | tr -d ' ')" -ge 2 ]; then
    echo "etcd quorum ready"
    break
  fi
  echo "waiting for the etcd quorum ($i/120)..."
  sleep 5
done
for i in $(seq 1 60); do
  if curl -fsS --max-time 3 http://127.0.0.1:8008/primary >/dev/null 2>&1; then
    set -a; . /opt/sdk-ops/services/postgres/.env 2>/dev/null || true; set +a
    PGPASSWORD="$PG_SUPERUSER" psql -U postgres -h 127.0.0.1 -c 'CHECKPOINT' >/dev/null 2>&1 || true
    echo "primary ready (checkpointed)"
    exit 0
  fi
  echo "waiting for the primary recovery ($i/60)..."
  sleep 5
done
echo "ERROR: primary %s not read-write after 300s" >&2
exit 1
'')\<close>

definition waitPGPrimaryReady :: "conn \<Rightarrow> string \<Rightarrow> unit res prog" where
  "waitPGPrimaryReady c nodeName =
     runU c (Fmt pgReadyFormat [Str (''pg-pg-'' @ nodeName @ ''-patroni-1'')]) (\<lambda>_ e. e)"

definition waitServiceUp :: "conn \<Rightarrow> string \<Rightarrow> ProvisionFile \<Rightarrow> ProvisionHost \<Rightarrow> unit res prog" where
  "waitServiceUp c name pf h =
     (if name \<noteq> ''pgsql-cluster'' then okP
      else if hName (pgPrimaryNode pf) \<noteq> hName h then okP
      else waitPGPrimaryReady c (hName h))"

section \<open>NATS\<close>

definition natsCertCopies :: "string \<Rightarrow> (string \<times> string) list" where
  "natsCertCopies nodeName = [
     (''ca.pem'', ''ca.pem''), (''server/'' @ nodeName @ ''.pem'', ''server.pem''),
     (''server/'' @ nodeName @ ''.key'', ''server.key''),
     (''client/app-cert.pem'', ''app-cert.pem''), (''client/app-key.pem'', ''app-key.pem''),
     (''client/sys-cert.pem'', ''sys-cert.pem''), (''client/sys-key.pem'', ''sys-key.pem''),
     (''client/svc-cert.pem'', ''svc-cert.pem''), (''client/svc-key.pem'', ''svc-key.pem'')]"

primrec copyCerts :: "string \<Rightarrow> string \<Rightarrow> (string \<times> string) list \<Rightarrow> files res prog" where
  "copyCerts certDir stage [] = Ret (Inr [])"
| "copyCerts certDir stage (x # xs) =
     tryP (Wrapf ''cert %s: %w'' [Str (fst x)]) (askP (ReadIn certDir (fst x))) (\<lambda>a.
     tryP (Wrapf ''cert %s: %w'' [Str (snd x)]) (callP (WriteFile (stage @ ''/'' @ snd x) (aOut a))) (\<lambda>_.
     tryP id (copyCerts certDir stage xs) (\<lambda>fs. Ret (Inr ((snd x, aOut a) # fs)))))"

definition uploadNATSCerts :: "conn \<Rightarrow> string \<Rightarrow> string \<Rightarrow> unit res prog" where
  "uploadNATSCerts c svcDir nodeName =
     bind (getenv ''NATS_CERT_DIR'') (\<lambda>certDir.
     if certDir = '''' then fail (Errorf ''NATS_CERT_DIR not set'' [])
     else tryP id (askP (MkTemp ''sdk-ops-nats-certs-'')) (\<lambda>a.
       deferReq (RemoveAll (aOut a))
        (tryP id (callP (OpenRoot certDir)) (\<lambda>_.
         tryP id (callP (OpenRoot (aOut a))) (\<lambda>_.
         bind (mapOrder (natsCertCopies nodeName)) (\<lambda>copies.
         tryP id (copyCerts certDir (aOut a) copies) (\<lambda>fs.
         uploadDir c (aOut a) (sort_key fst fs) (svcDir @ ''/certs''))))))))"

definition uploadNATSKeys :: "conn \<Rightarrow> string \<Rightarrow> unit res prog" where
  "uploadNATSKeys c svcDir =
     bind (getenv ''NATS_SENDER_NK'') (\<lambda>sender.
     bind (getenv ''NATS_RECIPIENT_PUB'') (\<lambda>recipientPub.
     if sender = '''' \<or> recipientPub = '''' then fail (Errorf ''NATS_SENDER_NK / NATS_RECIPIENT_PUB not set'' [])
     else tryP id (askP (MkTemp ''sdk-ops-nats-keys-'')) (\<lambda>a.
       deferReq (RemoveAll (aOut a))
        (tryP (Wrapf ''sender key: %w'' []) (readFile sender) (\<lambda>sData.
         tryP id (writeFile (aOut a @ ''/backup-sender.nk'') sData) (\<lambda>_.
         tryP (Wrapf ''recipient pub: %w'' []) (readFile recipientPub) (\<lambda>rData.
         tryP id (writeFile (aOut a @ ''/backup-recipient.pub'') rData) (\<lambda>_.
         uploadDir c (aOut a) [(''backup-recipient.pub'', rData), (''backup-sender.nk'', sData)] svcDir))))))))"

definition writeNATSEnv :: "conn \<Rightarrow> string \<Rightarrow> unit res prog" where
  \<open>writeNATSEnv c svcDir =
     bind (getenv ''NATS_APP_PASSWORD'') (\<lambda>pw. bind (getenv ''S3_BUCKET'') (\<lambda>bu.
     bind (getenv ''S3_ENDPOINT'') (\<lambda>ep. bind (getenv ''S3_ACCESS_KEY'') (\<lambda>ak.
     bind (getenv ''S3_SECRET_KEY'') (\<lambda>sk. bind (getenv ''S3_PREFIX'') (\<lambda>pr.
     writeRemoteFile c (svcDir @ ''/.env'') (joinWith ''
'' [
       ''NATS_URL=tls://127.0.0.1:4222'', ''NATS_USER=app'', ''NATS_PASSWORD='' @ pw, ''NATS_SEAL_SENDER_NK='' @ svcDir @ ''/backup-sender.nk'', ''NATS_SEAL_RECIPIENT_PUB='' @ svcDir @ ''/backup-recipient.pub'',
       ''S3_BUCKET='' @ bu, ''S3_ENDPOINT='' @ ep, ''S3_ACCESS_KEY='' @ ak, ''S3_SECRET_KEY='' @ sk,
       ''S3_PREFIX='' @ orDefault pr ''nats''] @ ''
'')))))))\<close>

definition s3cfgFormat :: string where
  \<open>s3cfgFormat = ''[default]
access_key = %s
secret_key = %s
host_base = %s
host_bucket = %%(bucket)s.%s
use_https = True
''\<close>

definition writeS3Cfg :: "conn \<Rightarrow> unit res prog" where
  \<open>writeS3Cfg c =
     bind (getenv ''S3_ENDPOINT'') (\<lambda>ep0.
     if ep0 = '''' then fail (Errorf ''S3_ENDPOINT not set'' [])
     else let ep = bareS3Host ep0 in
       bind (getenv ''S3_ACCESS_KEY'') (\<lambda>ak. bind (getenv ''S3_SECRET_KEY'') (\<lambda>sk.
       bind (sshRunWithStdin c (Raw ''sudo tee /home/sdkops/.s3cfg >/dev/null && sudo chown sdkops:sdkops /home/sdkops/.s3cfg && sudo chmod 0600 /home/sdkops/.s3cfg'') (sprintf s3cfgFormat [Str ak, Str sk, Str ep, Str ep])) (\<lambda>(_, e).
         case e of None \<Rightarrow> okP | Some err \<Rightarrow> fail err))))\<close>

definition natsCliFormat :: string where
  \<open>natsCliFormat = ''set -e
sudo apt-get install -y -qq s3cmd >/dev/null 2>&1 || true
sudo curl -sL -o /tmp/nats.zip %q
python3 -m zipfile -e /tmp/nats.zip /tmp/
sudo install -m 0755 /tmp/nats-0.4.0-linux-amd64/nats %s/nats
sudo chown sdkops:sdkops %s/nats
sudo rm -f /tmp/nats.zip''\<close>

definition installNATSClI :: "conn \<Rightarrow> string \<Rightarrow> unit res prog" where
  \<open>installNATSClI c svcDir = runU c (Fmt natsCliFormat [Str ''https://github.com/nats-io/natscli/releases/download/v0.4.0/nats-0.4.0-linux-amd64.zip'', Str svcDir, Str svcDir]) (\<lambda>_ e. e)\<close>

definition natsUnits :: "string \<Rightarrow> (string \<times> string) list" where
  \<open>natsUnits svcDir = [
     (''nats-validate.service'', sprintf (''[Unit]
Description=NATS cluster node validate
[Service]
Type=oneshot
User=sdkops
ExecStart=/bin/bash %s/validate.sh
'') [Str svcDir]),
     (''nats-validate.timer'', ''[Unit]
Description=NATS validate timer
[Timer]
OnCalendar=*:0/5
Persistent=true
[Install]
WantedBy=timers.target
''),
     (''nats-backup.service'', sprintf (''[Unit]
Description=NATS cluster node backup (seal -> S3)
[Service]
Type=oneshot
User=sdkops
ExecStart=/bin/bash %s/backup-cron.sh
'') [Str svcDir]),
     (''nats-backup.timer'', ''[Unit]
Description=NATS backup timer
[Timer]
OnCalendar=*-*-* 00:15:00
Persistent=true
[Install]
WantedBy=timers.target
'')]\<close>

definition installNATSTimers :: "conn \<Rightarrow> string \<Rightarrow> unit res prog" where
  \<open>installNATSTimers c svcDir =
     bind (mapOrder (natsUnits svcDir)) (\<lambda>units.
     tryP id (eachP (\<lambda>(u, body). writeRemoteFile c (''/etc/systemd/system/'' @ u) body) units) (\<lambda>_.
     runU c (Raw ''sudo systemctl daemon-reload && sudo systemctl enable --now nats-validate.timer nats-backup.timer'') (\<lambda>_ e. e)))\<close>

definition wireNATSOn :: "conn \<Rightarrow> string \<Rightarrow> string \<Rightarrow> unit res prog" where
  "wireNATSOn c svcDir nodeName =
     (case safeName nodeName of Some e \<Rightarrow> fail e
      | None \<Rightarrow>
        tryP id (uploadNATSCerts c svcDir nodeName) (\<lambda>_.
        tryP id (uploadNATSKeys c svcDir) (\<lambda>_.
        tryP id (writeNATSEnv c svcDir) (\<lambda>_.
        tryP id (writeS3Cfg c) (\<lambda>_.
        tryP id (installNATSClI c svcDir) (\<lambda>_.
        installNATSTimers c svcDir))))))"

text \<open>Several containers on one host: their configurations and the compose file replace the template's.\<close>

definition natsAuthFormat :: string where
  \<open>natsAuthFormat = ''system_account: SYS
authorization {
  timeout: "2s"
  users: [
    {
      user: "app"
      password: "%s"
      permissions: {
        publish: { allow: %s }
        subscribe: { allow: %s }
      }
    }
    {
      user: "svc"
      password: "%s"
      permissions: {
        publish: {
          allow: ["svc.>"]
          deny: ["svc.secret"]
        }
        subscribe: {
          allow: ["svc.>", "_INBOX.>"]
          deny: ["svc.audit.>"]
        }
      }
    }
  ]
}
accounts {
  SYS: {
    users: [
      { user: "sys", password: "%s" }
    ]
  }
}
''\<close>

definition strOf :: "rdata \<Rightarrow> string \<Rightarrow> string" where
  "strOf d k = (case mget d k of Some (RStr s) \<Rightarrow> s | _ \<Rightarrow> '''')"

definition natsAuthBlock :: "rdata \<Rightarrow> string" where
  "natsAuthBlock d = sprintf natsAuthFormat [Str (strOf d ''AppPasswordHash''), Str (strOf d ''AppPublishAllow''),
     Str (strOf d ''AppSubscribeAllow''), Str (strOf d ''SvcPasswordHash''), Str (strOf d ''SysPasswordHash'')]"

definition natsConfFormat :: string where
  \<open>natsConfFormat = ''server_name: %s-%d
listen: 0.0.0.0:%d
http: 127.0.0.1:%d
max_connections: %v
max_payload: 1MB
max_pending: 100MB

tls {
  cert_file: "/certs/server.pem"
  key_file:  "/certs/server.key"
  ca_file:   "/certs/ca.pem"
  timeout: 2
  verify: true
  handshake_first: true
}

jetstream {
  store_dir: /data
  max_memory_store: %v
  max_file_store: %v
  sync_interval: 120s
  key: $JS_KEY
}

cluster {
  name: %s
  listen: 0.0.0.0:%d
  routes: [
%s
  ]
  tls {
    cert_file: "/certs/server.pem"
    key_file:  "/certs/server.key"
    ca_file:   "/certs/ca.pem"
  }
}

%s
''\<close>

definition natsConf :: "rdata \<Rightarrow> int \<Rightarrow> string \<Rightarrow> int \<Rightarrow> string" where
  \<open>natsConf d replicas hostName i =
     sprintf natsConfFormat [Str hostName, Num i, Num (4222 + i), Num (8222 + i),
       Str (sprof d ''MaxConnections''), Str (sprof d ''MaxMemoryStore''), Str (sprof d ''MaxFileStore''),
       Str (orDefault (strOf d ''ClusterName'') ''nla''), Num (6222 + i),
       Str (joinWith ''
'' (map (\<lambda>j. sprintf ''    nats://nats-%d:6222'' [Num j]) (filter (\<lambda>j. j \<noteq> i) [0..replicas - 1]))),
       Str (natsAuthBlock d)]\<close>

definition composeFormat :: string where
  \<open>composeFormat = ''  nats-%d:
    image: nats:2.14-alpine
    restart: unless-stopped
    container_name: nats-%d
    command: ["-c", "/etc/nats/nats-%d.conf"]
    environment:
      - JS_KEY=%v
    volumes:
      - ./nats-%d.conf:/etc/nats/nats-%d.conf:ro
      - ./certs:/certs:ro
      - nats-data-%d:/data
    ports:
      - "%d:%d"
      - "%d:%d"
      - "%d:%d"
    mem_limit: %v
    cpus: %v
    networks: [nats-net]
''\<close>

definition natsCompose :: "rdata \<Rightarrow> int \<Rightarrow> string" where
  \<open>natsCompose d replicas =
     ''name: nats-single
services:
'' @
     concat (map (\<lambda>i. sprintf composeFormat [Num i, Num i, Num i, Str (sprof d ''JSKey''), Num i, Num i, Num i,
       Num (4222 + i), Num (4222 + i), Num (6222 + i), Num (6222 + i), Num (8222 + i), Num (8222 + i),
       Str (sprof d ''MemLimit''), Str (sprof d ''Cpus'')]) [0..replicas - 1]) @
     ''networks:
  nats-net:
volumes:
'' @
     concat (map (\<lambda>i. sprintf (''  nats-data-%d:
'') [Num i]) [0..replicas - 1])\<close>

primrec writeFiles :: "string \<Rightarrow> files \<Rightarrow> files \<Rightarrow> files res prog" where
  "writeFiles dir [] fs = Ret (Inr fs)"
| "writeFiles dir (x # xs) fs =
     tryP id (callP (WriteFile (dir @ ''/'' @ fst x) (snd x))) (\<lambda>_. writeFiles dir xs (mput fs (fst x) (snd x)))"

definition singleVPSFiles :: "rdata \<Rightarrow> int \<Rightarrow> string \<Rightarrow> files" where
  "singleVPSFiles d replicas hostName =
     map (\<lambda>i. (''nats-'' @ itoa i @ ''.conf'', natsConf d replicas hostName i)) [0..replicas - 1] @
     [(''docker-compose.yml'', natsCompose d replicas)]"

definition writeSingleVPSSetup :: "string \<Rightarrow> rdata \<Rightarrow> int \<Rightarrow> string \<Rightarrow> files \<Rightarrow> files res prog" where
  "writeSingleVPSSetup dir d replicas hostName fs = writeFiles dir (singleVPSFiles d replicas hostName) fs"

definition maybeWriteSingleVPS :: "string \<Rightarrow> rdata \<Rightarrow> string \<Rightarrow> string \<Rightarrow> files \<Rightarrow> files res prog" where
  "maybeWriteSingleVPS dir d name hostName fs =
     (if name \<noteq> ''nats'' \<or> mget d ''SingleVPS'' \<noteq> Some (RBool True) then Ret (Inr fs)
      else let replicas = (case mget d ''Replicas'' of Some (RInt n) \<Rightarrow> n | _ \<Rightarrow> 0) in
        writeSingleVPSSetup dir d (if replicas < 1 then 3 else replicas) hostName fs)"

end
