(* ===== verification/ServiceDeploy.thy ===== *)
theory ServiceDeploy imports ServiceOps begin

text \<open>
  The deployment of the services of a host (\<open>cmd/sdk-ops/services.go\<close>): the template of a
  service, its wiring, the decision to recreate, start and exposure of its ports, the queue
  of a host, and the dry run of a whole fleet. What the operator is told is not modelled.
\<close>

section \<open>Templates and wiring\<close>

text \<open>
  The directory of each template of \<open>templates.Templates\<close> (\<open>templates/templates.go\<close>); the
  ones that are kept as strings have none.
\<close>

definition templateDirs :: "string dict" where
  "templateDirs =
     map (\<lambda>n. (n, '''')) [''html'', ''node'', ''wordpress'', ''go'', ''nextjs'', ''python-fastapi'', ''django''] @
     map (\<lambda>n. (n, n)) [''pgsql-docker'', ''df-dockerized'', ''libsql-dockerized'', ''nats-dockerized'', ''etcd'',
       ''pgsql-bare'', ''pgsql-cluster'', ''yuga-docker'', ''yuga-bare'', ''yuga-cluster'', ''nats-cluster'', ''nats-bare'',
       ''df-cluster'', ''df-bare'', ''valkey-cluster'', ''pgsql-cnpg'', ''etcd-cluster'', ''etcd-bare'',
       ''crowdsec-cluster'', ''crowdsec-bare'', ''crowdsec-dockerized'']"

definition resolveServiceTemplate :: "string \<Rightarrow> string option" where
  "resolveServiceTemplate name =
     (case mget templateDirs name of Some d \<Rightarrow> Some d | None \<Rightarrow> mget templateDirs (name @ ''-dockerized''))"

definition wireService :: "conn \<Rightarrow> string \<Rightarrow> string \<Rightarrow> string \<Rightarrow> ServiceConfig \<Rightarrow> ProvisionFile \<Rightarrow> ProvisionHost \<Rightarrow> unit res prog" where
  "wireService c svcDir nodeName name cfg pf h =
     (if name = ''nats'' \<or> name = ''nats-bare'' then wireNATSOn c svcDir nodeName
      else if name = ''etcd'' then wireEtcdOn c svcDir nodeName
      else if name = ''pgsql-cluster'' then wirePGOn c svcDir nodeName cfg pf h
      else if name = ''pgsql-cnpg'' then wireCNPGOn c svcDir
      else if name = ''valkey-cluster'' then wireValkeyOn c svcDir
      else if name = ''df-cluster'' \<or> name = ''df-dockerized'' then wireDFOn c svcDir
      else if name = ''pgsql-docker'' then wirePGDockerOn c svcDir
      else if name = ''crowdsec-bare'' \<or> name = ''crowdsec-dockerized'' then wireCrowdsecClientEnvOn c svcDir nodeName
      else okP)"

section \<open>Whether the configuration changed\<close>

definition cfgFiles :: "string list dict" where
  "cfgFiles = [
     (''nats'', [''nats.conf'', ''nats-0.conf'']), (''etcd'', [''docker-compose.yml'']),
     (''pgsql-cluster'', [''patroni.yml'', ''pgdog.toml'', ''docker-compose.yml'', ''pgbackrest.conf'']),
     (''nats-bare'', [''nats.conf'']), (''etcd-bare'', [''etcd.conf.yml'']), (''nats-cluster'', [''values.yaml'']),
     (''etcd-cluster'', [''values.yaml'']), (''df-cluster'', [''dragonfly.yaml''])]"

definition deployed_script :: "string \<Rightarrow> string \<Rightarrow> script" where
  "deployed_script svcDir f = Raw (''sudo cat '' @ svcDir @ ''/'' @ f @ '' 2>/dev/null || true'')"

definition running_script :: "string \<Rightarrow> script" where
  "running_script name = Raw (''sudo docker ps -q -f name='' @ name @ '' 2>/dev/null | head -1'')"

primrec diffFiles :: "conn \<Rightarrow> string \<Rightarrow> files \<Rightarrow> string list \<Rightarrow> bool res prog" where
  "diffFiles c svcDir fs [] = Ret (Inr False)"
| "diffFiles c svcDir fs (f # rest) =
     (case mget fs f of None \<Rightarrow> diffFiles c svcDir fs rest
      | Some rendered \<Rightarrow>
          tryP id (runE c (deployed_script svcDir f) (\<lambda>_ e. e)) (\<lambda>remote.
            if trimSpace remote \<noteq> trimSpace rendered then Ret (Inr True) else diffFiles c svcDir fs rest))"

definition serviceConfigChanged :: "conn \<Rightarrow> string \<Rightarrow> files \<Rightarrow> string \<Rightarrow> string \<Rightarrow> bool res prog" where
  "serviceConfigChanged c renderDir fs svcDir name =
     (case mget cfgFiles name of None \<Rightarrow> Ret (Inr False)
      | Some cfgs \<Rightarrow>
        tryP id (callP (OpenRoot renderDir)) (\<lambda>_.
        tryP id (diffFiles c svcDir fs cfgs) (\<lambda>changed.
          if changed then Ret (Inr True)
          else bind (sshRun c (running_script name)) (\<lambda>(out, _). Ret (Inr (trimSpace out = ''''))))))"

section \<open>Exposing the ports\<close>

text \<open>Who may reach the ports of a service: the administrators and the hosts that are peers of this one.\<close>

definition exposedTo :: "ProvisionFile \<Rightarrow> ProvisionHost \<Rightarrow> string list" where
  "exposedTo pf h =
     splitCsv (rhAdminIPs (resolveHostConfig pf h)) @
     filter (\<lambda>ip. ip \<noteq> '''') (map (\<lambda>p. hostPeerIP pf (peFrom p)) (filter (\<lambda>p. peTo p = hName h) (pfPeers pf)))"

definition exposeOne :: "conn \<Rightarrow> string list \<Rightarrow> string \<Rightarrow> unit res prog" where
  "exposeOne c ips p =
     (case atoi (trimSpace (takeWhile (\<lambda>x. x \<noteq> CHR '':'') p)) of
        None \<Rightarrow> fail (Wrapf ''bad port %q: %w'' [Str p] (Ext ''strconv.Atoi: parsing''))
      | Some n \<Rightarrow> tryP (Wrapf ''expose %d: %w'' [Num n]) (AllowlistExposePort c n ''tcp'' ScopeIPs ips) (\<lambda>_. okP))"

definition exposeServicePorts :: "conn \<Rightarrow> string \<Rightarrow> files \<Rightarrow> ProvisionFile \<Rightarrow> ProvisionHost \<Rightarrow> unit res prog" where
  "exposeServicePorts c renderDir fs pf h =
     (if noHardening pf then okP
      else tryP id (callP (OpenRoot renderDir)) (\<lambda>_.
        case mget fs ''service.yaml'' of
          None \<Rightarrow> fail (Ext ''open service.yaml'')
        | Some text \<Rightarrow>
          tryP id (askP (Unmarshal text)) (\<lambda>ports.
          let ips = exposedTo pf h in
          if ips = [] then fail (Errorf ''no operator or peer IPs to expose %s service ports'' [Str (hName h)])
          else eachP (exposeOne c ips) (aList ports))))"

section \<open>Starting\<close>

definition init_script :: "string \<Rightarrow> script" where
  \<open>init_script svcDir = Fmt ''cd %s && sudo bash init.sh'' [Str svcDir]\<close>

definition deployViaInit :: "conn \<Rightarrow> string \<Rightarrow> ProvisionFile \<Rightarrow> ProvisionHost \<Rightarrow> string \<Rightarrow> files \<Rightarrow> string \<Rightarrow> unit res prog" where
  "deployViaInit c name pf h renderDir fs svcDir =
     tryP id (runU c (init_script svcDir) (wrapE ''init %s: %w'' [Str name])) (\<lambda>_.
     tryP id (waitServiceUp c name pf h) (\<lambda>_.
     exposeServicePorts c renderDir fs pf h))"

definition deployNativeService :: "conn \<Rightarrow> string \<Rightarrow> ProvisionFile \<Rightarrow> ProvisionHost \<Rightarrow> string \<Rightarrow> unit res prog" where
  "deployNativeService c name pf h svcDir =
     tryP id (runU c (init_script svcDir) (wrapE ''native init %s: %w'' [Str name])) (\<lambda>_.
     waitServiceUp c name pf h)"

definition up_script :: "string \<Rightarrow> bool \<Rightarrow> script" where
  \<open>up_script svcDir recreate = Raw (''cd '' @ svcDir @ '' && sudo docker compose up -d'' @
     (if recreate then '' --force-recreate'' else ''''))\<close>

definition deployFromRender :: "conn \<Rightarrow> ProvisionFile \<Rightarrow> ProvisionHost \<Rightarrow> string \<Rightarrow> string \<Rightarrow> files \<Rightarrow> string \<Rightarrow> bool \<Rightarrow> unit res prog" where
  "deployFromRender c pf h name renderDir fs svcDir recreate =
     (if mget fs ''docker-compose.yml'' = None then deployNativeService c name pf h svcDir
      else if mget fs ''init.sh'' \<noteq> None then deployViaInit c name pf h renderDir fs svcDir
      else tryP id (runU c (up_script svcDir recreate) (\<lambda>_ e. e)) (\<lambda>_.
        tryP id (waitServiceUp c name pf h) (\<lambda>_.
        exposeServicePorts c renderDir fs pf h)))"

text \<open>The decision to recreate is taken before the upload, which overwrites what it compares with.\<close>

definition deployServiceOn :: "conn \<Rightarrow> ProvisionFile \<Rightarrow> ProvisionHost \<Rightarrow> string \<Rightarrow> ServiceConfig \<Rightarrow> unit res prog" where
  \<open>deployServiceOn c pf h name cfg =
     (case resolveServiceTemplate name of
        None \<Rightarrow> fail (Errorf ''no template for service %q (available: nats, df, libsql, pg, etcd, postgres)'' [Str name])
      | Some dirName \<Rightarrow>
        tryP id (buildRenderData pf h dirName (scProfile cfg) cfg) (\<lambda>d.
        tryP id (askP (MkTemp (''sdk-ops-svc-'' @ name @ ''-''))) (\<lambda>tmp.
        let renderDir = aOut tmp; svcDir = serviceDir name in
        deferReq (RemoveAll renderDir)
         (tryP id (askP (RenderDir dirName renderDir d)) (\<lambda>rendered.
          tryP id (maybeWriteSingleVPS renderDir d name (hName h) (aFiles rendered)) (\<lambda>fs.
          tryP id (runU c (Raw (''sudo mkdir -p '' @ svcDir)) (\<lambda>_ e. e)) (\<lambda>_.
          tryP id (serviceConfigChanged c renderDir fs svcDir name) (\<lambda>recreate.
          tryP id (uploadDir c renderDir fs svcDir) (\<lambda>_.
          tryP id (wireService c svcDir (hName h) name cfg pf h) (\<lambda>_.
          deployFromRender c pf h name renderDir fs svcDir recreate))))))))))\<close>

section \<open>The queue of a host\<close>

text \<open>The pause in nanoseconds, an \<open>int64\<close> whose product wraps.\<close>

definition settleNanos :: "string \<Rightarrow> int" where
  "settleNanos v =
     (if v = '''' then 10 * 10 ^ 9
      else case atoi v of None \<Rightarrow> 10 * 10 ^ 9
        | Some n \<Rightarrow> if n < 0 then 10 * 10 ^ 9 else signed_take_bit 63 (n * 10 ^ 9))"

definition serviceSettleDelay :: "int prog" where
  "serviceSettleDelay = bind (getenv ''SDKOPS_SERVICE_SETTLE'') (\<lambda>v. Ret (settleNanos v))"

definition pause :: "int \<Rightarrow> unit res prog" where
  "pause ns = (if ns > 0 then Do (SleepNs ns) (\<lambda>_. okP) else okP)"

definition deployNamed :: "conn \<Rightarrow> ProvisionFile \<Rightarrow> ProvisionHost \<Rightarrow> ProvisionServices \<Rightarrow> string \<Rightarrow> unit res prog" where
  "deployNamed c pf h svcs name =
     tryP (Wrapf ''services %s on %s: %w'' [Str name, Str (hName h)])
       (deployServiceOn c pf h name (case mget svcs name of Some cfg \<Rightarrow> cfg | None \<Rightarrow> zeroService)) (\<lambda>_. okP)"

definition applyServicesOn :: "ProvisionFile \<Rightarrow> ProvisionHost \<Rightarrow> unit res prog" where
  "applyServicesOn pf h =
     (let svcs = servicesOf pf h in
      if svcs = [] then okP
      else bind (hostInfraFlags pf h (portOr22 h)) (\<lambda>f.
        withConn (hHost h) f (Wrapf ''services: connect %s: %w'' [Str (hName h)]) (\<lambda>c.
        bind (cleanupStaleServices c svcs) (\<lambda>_.
        bind serviceSettleDelay (\<lambda>settle.
        eachP (\<lambda>name. tryP id (deployNamed c pf h svcs name) (\<lambda>_. pause settle)) (orderedServiceNames svcs))))))"

section \<open>The dry run\<close>

definition checkRenderService :: "ProvisionFile \<Rightarrow> ProvisionHost \<Rightarrow> string \<Rightarrow> ServiceConfig \<Rightarrow> unit res prog" where
  "checkRenderService pf h name cfg =
     (case resolveServiceTemplate name of
        None \<Rightarrow> fail (Errorf ''[check] %s: no template for service %q'' [Str (hName h), Str name])
      | Some dirName \<Rightarrow>
        tryP (Wrapf ''[check] %s/%s: %w'' [Str (hName h), Str name])
          (buildRenderData pf h dirName (scProfile cfg) cfg) (\<lambda>d.
        tryP id (askP (MkTemp ''sdk-ops-check-'')) (\<lambda>tmp.
        tryP (Wrapf ''[check] %s/%s render: %w'' [Str (hName h), Str name])
          (bind (callP (RenderDir dirName (aOut tmp) d)) (\<lambda>r. Do (RemoveAll (aOut tmp)) (\<lambda>_. Ret r))) (\<lambda>_. okP))))"

definition requiredSecrets :: "string list" where
  "requiredSecrets = [''NATS_APP_PASSWORD'', ''NATS_SVC_PASSWORD'', ''NATS_SYS_PASSWORD'', ''NATS_JS_KEY'',
     ''NATS_CERT_DIR'', ''NATS_SENDER_NK'', ''NATS_RECIPIENT_PUB'',
     ''S3_BUCKET'', ''S3_ENDPOINT'', ''S3_ACCESS_KEY'', ''S3_SECRET_KEY'']"

primrec missingOf :: "string list \<Rightarrow> string list prog" where
  "missingOf [] = Ret []"
| "missingOf (k # ks) = bind (getenv k) (\<lambda>v. bind (missingOf ks) (\<lambda>ms. Ret (if v = '''' then k # ms else ms)))"

definition missingEnvSecrets :: "string list prog" where
  "missingEnvSecrets = missingOf requiredSecrets"

text \<open>
  Reading the fleet file: \<open>decode\<close> is the YAML decoder, \<open>path\<close> the cleaned path. The checks
  that the provisioning makes come first here too.
\<close>

definition loadFleet :: "(string \<Rightarrow> string + ProvisionFile) \<Rightarrow> string \<Rightarrow> ProvisionFile res prog" where
  "loadFleet decode path =
     tryP (Wrapf ''read provision file: %w'' []) (readFile path) (\<lambda>text.
       case decode text of Inl m \<Rightarrow> fail (Wrapf ''parse provision file: %w'' [] (Ext m))
       | Inr pf \<Rightarrow> Ret (Inr pf))"

definition checkHost :: "ProvisionFile \<Rightarrow> ProvisionHost \<Rightarrow> unit res prog" where
  "checkHost pf h =
     bind (mapOrder (servicesOf pf h)) (\<lambda>svcs. eachP (\<lambda>(name, cfg). checkRenderService pf h name cfg) svcs)"

definition runProvisionCheck :: "(string \<Rightarrow> string + ProvisionFile) \<Rightarrow> string \<Rightarrow> string \<Rightarrow> unit res prog" where
  "runProvisionCheck decode path tags =
     tryP id (loadFleet decode path) (\<lambda>pf0.
     case normalizeProvision pf0 of Inl e \<Rightarrow> fail e
     | Inr pf \<Rightarrow>
       (case validateProvision pf of Inl e \<Rightarrow> fail e
        | Inr names \<Rightarrow>
          let hosts = selectHostsByTags (pfHosts pf) tags in
          if hosts = [] then fail (Errorf ''no hosts match the given tags'' [])
          else tryP id (eachP (checkHost pf) hosts) (\<lambda>_.
            bind missingEnvSecrets (\<lambda>_. okP))))"

end
