(* ===== verification/FleetPhases.thy ===== *)
theory FleetPhases imports ServiceDeploy WatchOps begin

text \<open>
  The phases a provisioning applies once the hosts are initialised
  (\<open>cmd/sdk-ops/provision.go\<close>): tuning, watchdogs, private network, reverse proxy routes and
  services host by host, and the peers, bans and alerts of the fleet.
\<close>

text \<open>The common shape: flags with the user of the host, a session, the body, the close.\<close>

definition onHost :: "ProvisionFile \<Rightarrow> ProvisionHost \<Rightarrow> (goerr \<Rightarrow> goerr) \<Rightarrow> (conn \<Rightarrow> unit res prog) \<Rightarrow> unit res prog" where
  "onHost pf h w body = bind (hostInfraFlags pf h (portOr22 h)) (\<lambda>f. withConn (hHost h) f w body)"

section \<open>Tuning and watchdogs\<close>

definition kubeletPeers :: "ProvisionHost \<Rightarrow> string list" where
  \<open>kubeletPeers h = (if hPeerIP h \<noteq> '''' then [hPeerIP h] else []) @ (if hHost h \<noteq> '''' then [hHost h] else []) @ [''10.42.0.0/16'']\<close>

primrec ignoreAll :: "'a res prog list \<Rightarrow> unit res prog" where
  "ignoreAll [] = okP"
| "ignoreAll (p # ps) = bind p (\<lambda>_. ignoreAll ps)"

definition installHostTuningOn :: "ProvisionFile \<Rightarrow> ProvisionHost \<Rightarrow> unit res prog" where
  "installHostTuningOn pf h = onHost pf h (Wrapf ''host tuning: connect %s: %w'' [Str (hName h)]) (\<lambda>c.
     tryP id (EnsureStorageDiscardOff c) (\<lambda>_.
     if pfMode pf \<noteq> ''k3s'' then okP
     else tryP id (EnsureNetOffloadsOff c (pfK3sIface pf)) (\<lambda>_.
          tryP id (EnsureHelmOn c '''') (\<lambda>_.
          ignoreAll (map (\<lambda>ip. ExposePeerPortDirect c 10250 ''tcp'' ip) (kubeletPeers h))))))"

definition installStateWatchOn :: "ProvisionFile \<Rightarrow> ProvisionHost \<Rightarrow> unit res prog" where
  "installStateWatchOn pf h = onHost pf h (Wrapf ''state watch: connect %s: %w'' [Str (hName h)]) InstallStateWatch"

definition installTraefikWatchOn :: "ProvisionFile \<Rightarrow> ProvisionHost \<Rightarrow> unit res prog" where
  "installTraefikWatchOn pf h = onHost pf h (Wrapf ''traefik watch: connect %s: %w'' [Str (hName h)]) InstallTraefikWatch"

definition installLogRotationOn :: "ProvisionFile \<Rightarrow> ProvisionHost \<Rightarrow> unit res prog" where
  "installLogRotationOn pf h = onHost pf h (Wrapf ''logrotate: connect %s: %w'' [Str (hName h)]) InstallLogRotation"

definition installFail2banJailOn :: "ProvisionFile \<Rightarrow> ProvisionHost \<Rightarrow> unit res prog" where
  "installFail2banJailOn pf h = onHost pf h (Wrapf ''fail2ban: connect %s: %w'' [Str (hName h)]) (\<lambda>c.
     InstallFail2banJail c \<lparr>fjSSHBantime = fbSSHBantime (pfFail2ban pf), fjRecidiveBantime = fbRecidiveBantime (pfFail2ban pf),
       fjMaxRetry = fbMaxRetry (pfFail2ban pf),
       fjIgnoreIPs = map NormalizeCIDR (splitCsv (rhAdminIPs (resolveHostConfig pf h)))\<rparr>)"

definition installSecurityOn :: "ProvisionFile \<Rightarrow> ProvisionHost \<Rightarrow> int \<Rightarrow> unit res prog" where
  "installSecurityOn pf h threshold = onHost pf h (Wrapf ''security: connect %s: %w'' [Str (hName h)]) (\<lambda>c.
     InstallSecurityWatch c \<lparr>swcEnabled = True, swcThreshold = threshold\<rparr>)"

definition applyWatchdogPhasesOn :: "ProvisionFile \<Rightarrow> ProvisionHost \<Rightarrow> unit res prog" where
  "applyWatchdogPhasesOn pf h =
     tryP id (installHostTuningOn pf h) (\<lambda>_.
     let r = resolveHostConfig pf h in
     tryP id (if secEnabled (rhSecurity r) then installSecurityOn pf h (secThreshold (rhSecurity r)) else okP) (\<lambda>_.
     tryP id (installFail2banJailOn pf h) (\<lambda>_.
     tryP id (installStateWatchOn pf h) (\<lambda>_.
     tryP id (installLogRotationOn pf h) (\<lambda>_.
     if \<not> pfNoTraefik pf then installTraefikWatchOn pf h else okP)))))"

section \<open>The private network\<close>

definition vlanFormat :: string where
  \<open>vlanFormat = ''
set -e
if ! ip link show %s >/dev/null 2>&1; then
  echo "vlan %s: iface %s does not exist on %s" >&2
  exit 1
fi
sudo ip link set %s up 2>/dev/null || true
if ! ip -4 addr show dev %s 2>/dev/null | grep -q "%s"; then
  sudo ip addr replace %s dev %s
  echo "vlan %s: %s assigned on %s"
else
  echo "vlan %s: %s already on %s"
fi
NETPLAN=/etc/netplan/99-sdk-ops-vlan.yaml
TMP=$(mktemp)
cat > "$TMP" << NETPLANEOF
network:
  version: 2
  ethernets:
    %s:
      addresses:
        - %s
NETPLANEOF
sudo cp "$TMP" "$NETPLAN" && rm -f "$TMP"
sudo chmod 0600 "$NETPLAN"
echo "vlan %s: netplan drop-in persisted"
''\<close>

definition applyVLANOn :: "ProvisionFile \<Rightarrow> ProvisionHost \<Rightarrow> string \<Rightarrow> string \<Rightarrow> string \<Rightarrow> string \<Rightarrow> unit res prog" where
  "applyVLANOn pf h vlanName iface ip cidr =
     (case parseCIDR cidr of
        None \<Rightarrow> fail (Wrapf ''vlan %q: %w'' [Str vlanName] (Ext (''invalid CIDR address: '' @ cidr)))
      | Some (_, net) \<Rightarrow>
        let addr = ip @ ''/'' @ itoa (int (netOnes net)) in
        bind (hostInfraFlags pf h (portOr22 h)) (\<lambda>f.
        withConn (hHost h) f (Wrapf ''vlan %q: connect %s: %w'' [Str vlanName, Str (hName h)]) (\<lambda>c.
        tryP (Wrapf ''vlan %q: connect %s: %w'' [Str vlanName, Str (hName h)]) (infraConnect (hHost h) f) (\<lambda>c2.
        Do (Close c2) (\<lambda>_.
        runU c (Fmt vlanFormat [Str iface, Str vlanName, Str iface, Str (hName h), Str iface, Str iface, Str addr,
             Str addr, Str iface, Str vlanName, Str addr, Str iface, Str vlanName, Str addr, Str iface, Str iface,
             Str addr, Str vlanName])
          (wrapO ''vlan %q on %s: %w
%s'' [Str vlanName, Str (hName h)]))))))"

definition hostAssign :: "ProvisionHost \<Rightarrow> ProvisionVLAN \<Rightarrow> VLANHostAssign option" where
  "hostAssign h v = List.find (\<lambda>a. vaName a = hName h) (vlHosts v)"

definition applyVLANsOn :: "ProvisionFile \<Rightarrow> ProvisionHost \<Rightarrow> unit res prog" where
  "applyVLANsOn pf h = eachP (\<lambda>v. case hostAssign h v of None \<Rightarrow> okP
     | Some a \<Rightarrow> applyVLANOn pf h (vlName v) (vaIface a) (vaIP a) (vlCIDR v)) (vlansForHost pf (hName h))"

section \<open>The reverse proxy\<close>

definition routerName :: "string \<Rightarrow> string" where
  "routerName domain = replaceAll domain ''*'' ''wildcard''"

definition dnsEnvName :: "DNS01Config \<Rightarrow> string" where
  "dnsEnvName d = (if dnsProvider d = ''bunny'' then ''BUNNY_API_KEY'' else ''CF_DNS_API_TOKEN'')"

definition dns01Env :: "SSLConfig \<Rightarrow> string list" where
  "dns01Env ssl = (case sslDNS01 ssl of None \<Rightarrow> []
     | Some d \<Rightarrow> if dnsAPIToken d = '''' then [] else [dnsEnvName d @ ''='' @ dnsAPIToken d])"

definition apexOf :: "string \<Rightarrow> string" where
  "apexOf domain = trimPrefix domain ''*.''"

definition traefikRule :: "TraefikDomain \<Rightarrow> string" where
  \<open>traefikRule d = (if tdWildcard d
     then sprintf ((''HostRegexp('' @ [CHR 0x60] @ ''^[a-z0-9-]+'' @ [CHR 0x5C] @ ''.%s$'' @ [CHR 0x60] @ '')'')) [Str (replaceAll (apexOf (tdDomain d)) ''.'' (([CHR 0x5C, CHR 0x5C] @ ''.'')))]
     else sprintf (''Host('' @ [CHR 0x60] @ ''%s'' @ [CHR 0x60] @ '')'') [Str (tdDomain d)])\<close>

definition traefikTLS :: "TraefikDomain \<Rightarrow> string" where
  \<open>traefikTLS d = (if tdWildcard d
     then sprintf (''tls:
        certResolver: letsencrypt
        domains:
          - main: %s
            sans:
              - "*.%s"'') [Str (apexOf (tdDomain d)), Str (apexOf (tdDomain d))]
     else ''tls:
        certResolver: letsencrypt'')\<close>

definition traefikTarget :: "TraefikDomain \<Rightarrow> bool \<Rightarrow> string" where
  \<open>traefikTarget d hostNet = (if hostNet then sprintf ''http://localhost:%d'' [Num (tdPort d)]
     else sprintf ''http://%s:%d'' [Str (tdService d), Num (if tdContainerPort d = 0 then 80 else tdContainerPort d)])\<close>

definition traefikRouterConfig :: "TraefikDomain \<Rightarrow> bool \<Rightarrow> string \<times> string \<times> string" where
  "traefikRouterConfig d hostNet = (traefikRule d, traefikTLS d, traefikTarget d hostNet)"

definition routerFormat :: string where
  \<open>routerFormat = ''http:
  routers:
    %[1]s:
      rule: "%[2]s"
      service: %[1]s
      entryPoints:
        - websecure
      %[3]s
  services:
    %[1]s:
      loadBalancer:
        servers:
          - url: "%[4]s"
''\<close>

definition routerScriptFormat :: string where
  \<open>routerScriptFormat = ''
sudo tee /etc/traefik/conf.d/%[1]s.yml > /dev/null << 'ROUTEREOF'
%[2]s
ROUTEREOF
''\<close>

definition router_script :: "bool \<Rightarrow> TraefikDomain \<Rightarrow> script" where
  "router_script hostNet d =
     (case traefikRouterConfig d hostNet of (rule, tls, target) \<Rightarrow>
      Fmt routerScriptFormat [Str (replaceAll (tdDomain d) ''.'' ''_''),
        Str (sprintf routerFormat [Str (routerName (tdDomain d)), Str rule, Str tls, Str target])])"

definition acmeFormat :: string where
  \<open>acmeFormat = ''sudo tee /etc/traefik/traefik.yml > /dev/null << 'EOF'
global:
  sendAnonymousUsage: false
api:
  dashboard: false
entryPoints:
  web:
    address: ":80"
  websecure:
    address: ":443"
certificatesResolvers:
  letsencrypt:
    acme:
      email: %[1]s
      storage: /opt/traefik/acme.json
      caServer: %[2]s
%[3]s
providers:
  file:
    directory: /etc/traefik/conf.d
    watch: true
EOF
echo "letsencrypt: configured (%[1]s)"''\<close>

definition acme_script :: "SSLConfig \<Rightarrow> script" where
  \<open>acme_script ssl =
     (let caServer = (if sslStaging ssl then ''https://acme-staging-v02.api.letsencrypt.org/directory'' else ''https://acme-v02.api.letsencrypt.org/directory'');
          challenge = (case sslDNS01 ssl of
            Some d \<Rightarrow> if dnsProvider d \<noteq> '''' then sprintf (''      dnsChallenge:
        provider: %s
        resolvers:
          - "1.1.1.1:53"
          - "8.8.8.8:53"'') [Str (dnsProvider d)] else ''      httpChallenge:
        entryPoint: web''
          | None \<Rightarrow> ''      httpChallenge:
        entryPoint: web'')
      in Fmt acmeFormat [Str (sslEmail ssl), Str caServer, Str challenge])\<close>

definition traefikEnvFormat :: string where
  \<open>traefikEnvFormat = (''
if docker inspect traefik >/dev/null 2>&1 && ! docker inspect traefik --format '{{range .Config.Env}}{{.}}{{"'' @ [CHR 0x5C] @ ''n"}}{{end}}' | grep -q '^%[1]s='; then
  echo "traefik: adding %[1]s (recreate)"
  CMD=$(docker inspect traefik --format '{{.Config.Image}}')
  NET=$(docker inspect traefik --format '{{.HostConfig.NetworkMode}}')
  ARGS=""
  if [ "$NET" = "host" ]; then ARGS="--network host"; else ARGS="-p 80:80 -p 443:443"; fi
  VOLS=$(docker inspect traefik --format '{{range .Mounts}}-v {{.Source}}:{{.Destination}}{{if .RW}}:ro{{end}} {{end}}' | sed 's/:ro :/: /g')
  sudo docker rm -f traefik >/dev/null 2>&1 || true
  sudo docker run -d --name traefik --restart unless-stopped $ARGS -e %[1]s='%[2]s' $VOLS $CMD >/dev/null
  echo "traefik: recreated with %[1]s"
else
  echo "traefik: env %[1]s already set"
fi
'')\<close>

definition ensureTraefikEnv :: "conn \<Rightarrow> string \<Rightarrow> string \<Rightarrow> unit res prog" where
  "ensureTraefikEnv c envName0 value =
     runU c (Fmt traefikEnvFormat [Str envName0, Str value]) (wrapO ''ensure traefik env: %w
%s'' [])"

definition traefikTemplateFormat :: string where
  \<open>traefikTemplateFormat = ''sudo mkdir -p /opt/sdk-ops/traefik
cat > /tmp/traefik-install.sh << 'EOF'
%s
EOF
sudo cp /tmp/traefik-install.sh /opt/sdk-ops/traefik/install.sh
id sdkops >/dev/null 2>&1 && sudo chown sdkops:sdkops /opt/sdk-ops/traefik/install.sh
sudo chmod 0750 /opt/sdk-ops/traefik/install.sh
echo "traefik install template persisted"
''\<close>

definition ensureTraefikTemplate :: "conn \<Rightarrow> SSLConfig \<Rightarrow> unit res prog" where
  "ensureTraefikTemplate c ssl =
     tryP (Wrapf ''traefik template: %w'' []) (TraefikCreateScript c (emptyProxyConfig\<lparr>pcEnv := dns01Env ssl\<rparr>)) (\<lambda>script.
     runU c (Fmt traefikTemplateFormat [Str script]) (wrapO ''ensure traefik template: %w
%s'' []))"

definition netmode_script :: script where
  \<open>netmode_script = Raw (''docker inspect traefik --format '{{.HostConfig.NetworkMode}}' 2>/dev/null || echo host'')\<close>

definition applyTraefikDomainsOn :: "conn \<Rightarrow> SSLConfig \<Rightarrow> TraefikConfig \<Rightarrow> unit res prog" where
  "applyTraefikDomainsOn c ssl traefik =
     tryP id (runE c netmode_script (wrapE ''traefik network mode: %w'' [])) (\<lambda>out.
     let hostNet = (trimSpace out = ''host'') in
     tryP (Wrapf ''traefik 404 port 18080: %w'' [])
       (if \<not> hostNet then AllowlistExposePort c 18080 ''tcp'' ScopeIPs [''172.16.0.0/12''] else okP) (\<lambda>_.
     tryP id (ensureTraefikTemplate c ssl) (\<lambda>_.
     tryP id (eachP (\<lambda>d. runU c (router_script hostNet d) (wrapE ''traefik router %s: %w'' [Str (tdDomain d)])) (tcDomains traefik)) (\<lambda>_.
     tryP id (runU c (acme_script ssl) (wrapE ''traefik letsencrypt: %w'' [])) (\<lambda>_.
     case sslDNS01 ssl of None \<Rightarrow> okP
     | Some d \<Rightarrow> if dnsAPIToken d = '''' then okP
         else tryP (Wrapf ''traefik dns01 env: %w'' []) (ensureTraefikEnv c (dnsEnvName d) (dnsAPIToken d)) (\<lambda>_. okP))))))"

section \<open>The phases of one host\<close>

definition applyTraefikOn :: "ProvisionFile \<Rightarrow> ProvisionHost \<Rightarrow> unit res prog" where
  "applyTraefikOn pf h =
     (let r = resolveHostConfig pf h in
      if tcDomains (rhTraefik r) = [] then okP
      else onHost pf h (Wrapf ''traefik: connect %s: %w'' [Str (hName h)]) (\<lambda>c. applyTraefikDomainsOn c (pfSSL pf) (rhTraefik r)))"

definition applyPerHostPhaseOn :: "ProvisionFile \<Rightarrow> ProvisionHost \<Rightarrow> unit res prog" where
  "applyPerHostPhaseOn pf h =
     tryP id (applyWatchdogPhasesOn pf h) (\<lambda>_.
     tryP id (applyVLANsOn pf h) (\<lambda>_.
     tryP id (applyTraefikOn pf h) (\<lambda>_.
     applyServicesOn pf h)))"

definition fleetEtcdOn :: "ProvisionFile \<Rightarrow> ProvisionHost \<Rightarrow> unit res prog" where
  "fleetEtcdOn pf h =
     (case mget (servicesOf pf h) ''etcd'' of None \<Rightarrow> okP
      | Some cfg \<Rightarrow>
        bind (hostInfraFlags pf h (portOr22 h)) (\<lambda>f.
        tryP (Wrapf ''fleet etcd: connect %s: %w'' [Str (hName h)]) (infraConnect (hHost h) f) (\<lambda>c.
        bind (deployServiceOn c pf h ''etcd'' cfg) (\<lambda>r.
        Do (Close c) (\<lambda>_. case r of
          Inl e \<Rightarrow> fail (Wrapf ''fleet etcd %s: %w'' [Str (hName h)] e) | Inr _ \<Rightarrow> okP)))))"

definition applyFleetEtcd :: "ProvisionFile \<Rightarrow> unit res prog" where
  "applyFleetEtcd pf = eachP (fleetEtcdOn pf) (pfHosts pf)"

definition applyPerHostPhases :: "ProvisionFile \<Rightarrow> unit res prog" where
  "applyPerHostPhases pf = tryP id (applyFleetEtcd pf) (\<lambda>_. eachP (applyPerHostPhaseOn pf) (pfHosts pf))"

section \<open>The phases of the fleet\<close>

definition findProvisionHost :: "ProvisionHost list \<Rightarrow> string \<Rightarrow> ProvisionHost res" where
  "findProvisionHost hosts name =
     (case List.find (\<lambda>h. hName h = name) hosts of Some h \<Rightarrow> Inr h
      | None \<Rightarrow> Inl (Errorf ''host %q not found'' [Str name]))"

definition openPeerPort :: "conn \<Rightarrow> ProvisionPeer \<Rightarrow> string \<Rightarrow> int \<Rightarrow> unit res prog" where
  "openPeerPort c peer fromIP p =
     bind (AllowlistUnexposePort c p) (\<lambda>_.
     tryP (Wrapf ''peer %s -> %s port %d: %w'' [Str (peFrom peer), Str (peTo peer), Num p])
       (ExposePeerPortDirect c p (PeerProto p) fromIP) (\<lambda>_. okP))"

definition applyProvisionPeer :: "ProvisionFile \<Rightarrow> string dict \<Rightarrow> ProvisionPeer \<Rightarrow> unit res prog" where
  "applyProvisionPeer pf names peer =
     (case findProvisionHost (pfHosts pf) (peTo peer) of Inl e \<Rightarrow> fail e
      | Inr toHost \<Rightarrow>
        let fromIP = mstr names (peFrom peer) in
        onHost pf toHost (Wrapf ''peer %s: connect %s: %w'' [Str (peFrom peer), Str (peTo peer)]) (\<lambda>c.
        if noHardening pf then okP else eachP (openPeerPort c peer fromIP) (pePorts peer)))"

definition applyProvisionPeers :: "ProvisionFile \<Rightarrow> string dict \<Rightarrow> unit res prog" where
  "applyProvisionPeers pf names = eachP (applyProvisionPeer pf names) (pfPeers pf)"

text \<open>The sessions of the bans stay open until the last host is done (a \<open>defer\<close> in the loop).\<close>

primrec banHosts :: "ProvisionFile \<Rightarrow> ProvisionHost list \<Rightarrow> unit res prog" where
  "banHosts pf [] = okP"
| "banHosts pf (h # hs) =
     bind (hostInfraFlags pf h (portOr22 h)) (\<lambda>f.
     withConn (hHost h) f (Wrapf ''bans: connect %s: %w'' [Str (hName h)]) (\<lambda>c.
     tryP id (eachP (Fail2banBan c) (pfBans pf)) (\<lambda>_. banHosts pf hs)))"

definition applyProvisionBans :: "ProvisionFile \<Rightarrow> unit res prog" where
  "applyProvisionBans pf = banHosts pf (pfHosts pf)"

definition telegramFormat :: string where
  \<open>telegramFormat = ''sudo tee /etc/sdk-ops/firewall/notify.env > /dev/null << 'EOF'
export TELEGRAM_API_KEY=%s
export TELEGRAM_CHAT_ID=%s
EOF
EOF
sudo chown sdkops:sdkops /etc/sdk-ops/firewall/notify.env 2>/dev/null || true
sudo chmod 0600 /etc/sdk-ops/firewall/notify.env
echo "telegram: %s configured"''\<close>

definition applyTelegramNotify :: "ProvisionFile \<Rightarrow> unit res prog" where
  "applyTelegramNotify pf = eachP (\<lambda>h. onHost pf h (Wrapf ''telegram: connect %s: %w'' [Str (hName h)]) (\<lambda>c.
     runU c (Fmt telegramFormat [Str (tgAPIKey (pfTelegram pf)), Str (tgChatID (pfTelegram pf)), Str (hName h)])
       (wrapE ''telegram: %s: %w'' [Str (hName h)]))) (pfHosts pf)"

definition applyProvisionPhases :: "ProvisionFile \<Rightarrow> string dict \<Rightarrow> unit res prog" where
  "applyProvisionPhases pf names =
     tryP id (applyProvisionPeers pf names) (\<lambda>_.
     tryP id (if pfBans pf \<noteq> [] then applyProvisionBans pf else okP) (\<lambda>_.
     tryP id (if tgEnabled (pfTelegram pf) then applyTelegramNotify pf else okP) (\<lambda>_.
     applyPerHostPhases pf)))"

end
