(* ===== verification/CloudVPS.thy ===== *)
theory CloudVPS imports FleetTypes Remote begin

text \<open>
  The cloud providers as the provisioning uses them (\<open>cmd/sdk-ops/infra.go\<close>,
  \<open>cmd/sdk-ops/provision.go\<close>): which client a name selects and where its key comes from,
  the creation of the servers of a fleet with the wait for their address, and the deletion.
  The calls of a client are requests.
\<close>

section \<open>The client of a provider\<close>

text \<open>
  The key that is given, else the one of the environment, else the one of the credentials
  file, whose read errors are ignored.
\<close>

definition savedKey :: "string \<Rightarrow> string prog" where
  "savedKey field = Do (LoadCreds field) (\<lambda>a. Ret (case aErr a of None \<Rightarrow> aOut a | Some m \<Rightarrow> ''''))"

definition apiKeyFrom :: "string \<Rightarrow> string \<Rightarrow> string \<Rightarrow> string prog" where
  "apiKeyFrom key env field =
     (if key \<noteq> '''' then Ret key
      else bind (getenv env) (\<lambda>k. if k \<noteq> '''' then Ret k else savedKey field))"

definition clientWithKey :: "string \<Rightarrow> string \<Rightarrow> string \<Rightarrow> string \<Rightarrow> int \<Rightarrow> provider res prog" where
  "clientWithKey name key env field project =
     bind (apiKeyFrom key env field) (\<lambda>k.
       if k = '''' then fail (Errorf (env @ '' required for '' @ name) [])
       else Ret (Inr \<lparr>pvName = name, pvKey = k, pvRegion = '''', pvProject = project\<rparr>))"

definition newCubePathProvider :: "string \<Rightarrow> int \<Rightarrow> provider res prog" where
  "newCubePathProvider key project = clientWithKey ''cubepath'' key ''CUBEPATH_API_KEY'' ''CubePathAPIKey'' project"

definition newHetznerProvider :: "string \<Rightarrow> provider res prog" where
  "newHetznerProvider key = clientWithKey ''hetzner'' key ''HETZNER_API_TOKEN'' ''HetznerAPIToken'' 0"

definition newDigitalOceanProvider :: "string \<Rightarrow> provider res prog" where
  "newDigitalOceanProvider key = clientWithKey ''digitalocean'' key ''DIGITALOCEAN_TOKEN'' ''DigitalOceanToken'' 0"

definition newVultrProvider :: "string \<Rightarrow> provider res prog" where
  "newVultrProvider key = clientWithKey ''vultr'' key ''VULTR_API_KEY'' ''VultrAPIKey'' 0"

definition newAWSProvider :: "provider res prog" where
  "newAWSProvider =
     bind (apiKeyFrom '''' ''AWS_REGION'' ''AWSRegion'') (\<lambda>r.
     let p = \<lparr>pvName = ''aws'', pvKey = '''', pvRegion = (if r = '''' then ''us-east-1'' else r), pvProject = 0\<rparr>
     in tryP (Wrapf ''aws config: %w'' []) (callP (CloudClient p)) (\<lambda>_. Ret (Inr p)))"

definition newCivoProvider :: "string \<Rightarrow> string \<Rightarrow> provider res prog" where
  "newCivoProvider key region =
     tryP id (clientWithKey ''civo'' key ''CIVO_API_KEY'' ''CivoAPIKey'' 0) (\<lambda>p0.
     let p = p0\<lparr>pvRegion := (if region = '''' then ''LON1'' else region)\<rparr>
     in tryP id (callP (CloudClient p)) (\<lambda>_. Ret (Inr p)))"

definition getInfraProvider :: "string \<Rightarrow> string \<Rightarrow> string \<Rightarrow> int \<Rightarrow> provider res prog" where
  "getInfraProvider name key location project =
     (if name = ''cubepath'' then newCubePathProvider key project
      else if name = ''hetzner'' then newHetznerProvider key
      else if name = ''digitalocean'' then newDigitalOceanProvider key
      else if name = ''vultr'' then newVultrProvider key
      else if name = ''aws'' then newAWSProvider
      else if name = ''civo'' then newCivoProvider key location
      else fail (Errorf ''unsupported provider: %s (supported: cubepath, hetzner, digitalocean, vultr, aws, civo)'' [Str name]))"

text \<open>Only the Vultr client implements \<open>CloudFirewall\<close>.\<close>

definition syncCloudFirewall :: "string \<Rightarrow> string list \<Rightarrow> string list \<Rightarrow> unit res prog" where
  "syncCloudFirewall name v4 v6 =
     tryP id (getInfraProvider name '''' '''' 0) (\<lambda>p.
       if pvName p = ''vultr'' then callP (SyncFirewall p v4 v6) else okP)"

section \<open>Creating the servers of a fleet\<close>

text \<open>
  The wait ends after five minutes. \<open>elapsed\<close> counts the seconds since it began: what the
  call took and the pause of ten seconds, which may last longer.
\<close>

definition vpsReady :: "answer \<Rightarrow> string option" where
  "vpsReady a = (case aErr a of Some m \<Rightarrow> None
     | None \<Rightarrow> (case aVps a of [] \<Rightarrow> None
        | v # vs \<Rightarrow> if trimSpace (vIP v) \<noteq> '''' then Some (trimSpace (vIP v)) else None))"

function vpsWaitLoop :: "nat \<Rightarrow> provider \<Rightarrow> string \<Rightarrow> string \<Rightarrow> string res prog" where
  "vpsWaitLoop elapsed p id' name =
     (if elapsed < 300
      then Do (GetVPS p id') (\<lambda>a. case vpsReady a of
         Some ip \<Rightarrow> Ret (Inr ip)
       | None \<Rightarrow> Do (Sleep 10) (\<lambda>b. vpsWaitLoop (elapsed + aTime a + 10 + aTime b) p id' name))
      else fail (Errorf ''host %s: timed out waiting for VPS IP'' [Str name]))"
  by pat_completeness auto
termination
  by (relation "measure (\<lambda>(elapsed, _). 300 - elapsed)") auto

declare vpsWaitLoop.simps [simp del]

definition waitForVPSIP :: "provider \<Rightarrow> string \<Rightarrow> string \<Rightarrow> string res prog" where
  "waitForVPSIP p id' name = vpsWaitLoop 0 p id' name"

definition keyIDs :: "string \<Rightarrow> string list" where
  "keyIDs s = (if s = '''' then [] else filter (\<lambda>x. x \<noteq> '''') (map trimSpace (splitOn CHR '','' s)))"

definition vpsConfigOf :: "ProvisionHost \<Rightarrow> vpsConfig" where
  "vpsConfigOf h = \<lparr>vcLabel = hName h, vcPlan = hPlan h, vcLocation = hLocation h, vcTemplate = hTemplate h,
     vcHostname = hName h, vcSSHKeyIDs = keyIDs (hSSHKeyIDs h)\<rparr>"

definition needsVPS :: "ProvisionHost \<Rightarrow> bool" where
  "needsVPS h \<longleftrightarrow> hProvider h \<noteq> '''' \<and> hHost h = ''''"

text \<open>A nil server with a nil error is dereferenced.\<close>

definition createdId :: "answer \<Rightarrow> string res" where
  "createdId a = (case aErr a of Some m \<Rightarrow> Inl (Ext m)
     | None \<Rightarrow> (case aVps a of [] \<Rightarrow> Inl (Panic ''nil VPS'') | v # vs \<Rightarrow> Inr (vId v)))"

definition createVPSFor :: "ProvisionHost \<Rightarrow> string res prog" where
  "createVPSFor h =
     tryP (Wrapf ''host %s: %w'' [Str (hName h)]) (getInfraProvider (hProvider h) '''' (hLocation h) (hProjectID h)) (\<lambda>p.
     tryP (Wrapf ''host %s create vps: %w'' [Str (hName h)]) (Do (CreateVPS p (vpsConfigOf h)) (\<lambda>a. Ret (createdId a))) (\<lambda>i.
     waitForVPSIP p i (hName h)))"

definition withIP :: "string \<Rightarrow> ProvisionHost \<Rightarrow> ProvisionHost" where
  "withIP ip h = h\<lparr>hHost := ip, hPeerIP := (if hPeerIP h = '''' then ip else hPeerIP h)\<rparr>"

text \<open>The hosts as the loop leaves them; an error ends the program.\<close>

primrec ensureTopologyVPS :: "ProvisionHost list \<Rightarrow> ProvisionHost list res prog" where
  "ensureTopologyVPS [] = Ret (Inr [])"
| "ensureTopologyVPS (h # hs) =
     tryP id (if needsVPS h then tryP id (createVPSFor h) (\<lambda>ip. Ret (Inr (withIP ip h))) else Ret (Inr h)) (\<lambda>h'.
     tryP id (ensureTopologyVPS hs) (\<lambda>hs'. Ret (Inr (h' # hs'))))"

section \<open>Deleting them\<close>

definition deleteProviderVPS :: "provider \<Rightarrow> string \<Rightarrow> unit res prog" where
  "deleteProviderVPS p label =
     tryP (Wrapf ''list vps: %w'' []) (askP (ListVPS p)) (\<lambda>a.
       case List.find (\<lambda>v. vName v = label \<or> vLabel v = label) (aVps a) of
         None \<Rightarrow> okP
       | Some v \<Rightarrow> tryP (Wrapf ''delete vps %s: %w'' [Str label]) (callP (DeleteVPS p (vId v))) (\<lambda>_. okP))"

end
