(* ===== verification/Wave.thy ===== *)
theory Wave imports Remote "HOL-Library.Multiset" "HOL-Library.Sublist" begin

text \<open>
  Programs that run at the same time. A wave is the pattern of \<open>provisionWave\<close>
  (\<open>cmd/sdk-ops/provision.go\<close>): one goroutine per host, started in order, at most
  \<open>parallel\<close> of them alive. Which live goroutine makes the next request is the scheduler's
  choice, a request \<open>Sched\<close> like any other, so a run of a wave is any interleaving the
  semaphore admits. A goroutine that panics takes the whole process down.
\<close>

section \<open>The interleaving\<close>

primrec finished :: "'a prog \<Rightarrow> bool" where
  "finished (Ret x) = True"
| "finished (Do q k) = False"

definition unfinished :: "'a prog list \<Rightarrow> nat list" where
  "unfinished ps = filter (\<lambda>i. \<not> finished (ps ! i)) [0..<length ps]"

text \<open>The goroutines that hold a slot of the semaphore: the first \<open>n\<close> that have not finished.\<close>

definition live :: "nat \<Rightarrow> 'a prog list \<Rightarrow> nat list" where
  "live n ps = take n (unfinished ps)"

definition pick :: "nat list \<Rightarrow> answer \<Rightarrow> nat" where
  "pick is a = is ! (aPick a mod length is)"

fun crash :: "'a res prog list \<Rightarrow> goerr option" where
  "crash [] = None"
| "crash (Ret (Inl e) # ps) = Some e"
| "crash (p # ps) = crash ps"

fun outcomes :: "'a res prog list \<Rightarrow> 'a list" where
  "outcomes [] = []"
| "outcomes (Ret (Inr x) # ps) = x # outcomes ps"
| "outcomes (p # ps) = outcomes ps"

definition subprog :: "('a prog \<times> 'a prog) set" where
  "subprog = {(p, p'). \<exists>q k a. p' = Do q k \<and> p = k a}"

lemma wf_subprog: "wf subprog"
proof (rule wfUNIVI)
  fix P :: "'a prog \<Rightarrow> bool" and p
  assume *: "\<forall>x. (\<forall>y. (y, x) \<in> subprog \<longrightarrow> P y) \<longrightarrow> P x"
  show "P p"
  proof (induction p)
    case (Ret x)
    show ?case using * by (auto simp: subprog_def)
  next
    case (Do q k)
    then have "\<forall>y. (y, Do q k) \<in> subprog \<longrightarrow> P y" by (auto simp: subprog_def)
    with * show ?case by blast
  qed
qed

lemma mult_update:
  assumes "i < length ps" "(p, ps ! i) \<in> r"
  shows "(mset (ps[i := p]), mset ps) \<in> mult r"
proof -
  have "mset (ps[i := p]) = add_mset p (mset ps - {#ps ! i#})" using assms(1) by (rule mset_update)
  moreover have "mset ps = add_mset (ps ! i) (mset ps - {#ps ! i#})" using assms(1) by simp
  ultimately have "(mset (ps[i := p]), mset ps) \<in> mult1 r"
    using assms(2) unfolding mult1_def by force
  then show ?thesis unfolding mult_def by simp
qed

lemma pick_live: "live n ps \<noteq> [] \<Longrightarrow> pick (live n ps) a \<in> set (live n ps)"
  unfolding pick_def by (rule nth_mem) simp

lemma in_live: "i \<in> set (live n ps) \<Longrightarrow> i < length ps \<and> \<not> finished (ps ! i)"
  unfolding live_def unfinished_def by (drule in_set_takeD) simp

function (sequential) waveP :: "nat \<Rightarrow> 'a res prog list \<Rightarrow> 'a list res prog" where
  "waveP n ps =
     (if crash ps \<noteq> None then Ret (Inl (the (crash ps)))
      else if live n ps = [] then Ret (Inr (outcomes ps))
      else Do (Sched (live n ps)) (\<lambda>s.
        case ps ! pick (live n ps) s of
          Do q k \<Rightarrow> Do q (\<lambda>a. waveP n (ps[pick (live n ps) s := k a]))
        | Ret x \<Rightarrow> Ret (Inr (outcomes ps))))"
  by pat_completeness auto
termination
proof (relation "inv_image (mult subprog) (\<lambda>(n, ps). mset ps)")
  show "wf (inv_image (mult subprog) (\<lambda>(n, ps). mset ps))"
    by (intro wf_inv_image wf_mult wf_subprog)
next
  fix n and ps :: "'a res prog list" and s a q k
  assume "live n ps \<noteq> []" and k: "ps ! pick (live n ps) s = Do q k"
  then have "pick (live n ps) s < length ps" using pick_live in_live by blast
  moreover have "(k a, ps ! pick (live n ps) s) \<in> subprog" using k by (auto simp: subprog_def)
  ultimately show "((n, ps[pick (live n ps) s := k a]), n, ps) \<in> inv_image (mult subprog) (\<lambda>(n, ps). mset ps)"
    by (simp add: mult_update)
qed

declare waveP.simps [simp del]

section \<open>What a run of a wave is made of\<close>

lemma live_empty: "0 < n \<Longrightarrow> live n ps = [] \<longleftrightarrow> (\<forall>p \<in> set ps. finished p)"
  by (auto simp: live_def unfinished_def filter_empty_conv set_conv_nth)

lemma outcomes_finished:
  "crash ps = None \<Longrightarrow> \<forall>p \<in> set ps. finished p \<Longrightarrow> ps = map (\<lambda>x. Ret (Inr x)) (outcomes ps)"
  by (induction ps rule: crash.induct) auto

lemma crash_at: "crash ps = Some e \<Longrightarrow> \<exists>i < length ps. ps ! i = Ret (Inl e)"
proof (induction ps rule: crash.induct)
  case (2 e' ps)
  then show ?case by auto
qed (force simp: nth_Cons')+

text \<open>One step of a wave: the scheduler picks a live goroutine, which makes its next request.\<close>

lemma wave_step:
  assumes "runs (waveP n ps) t r" "crash ps = None" "live n ps \<noteq> []"
  shows "\<exists>s q k a t'. t = (Sched (live n ps), s) # (q, a) # t' \<and> ps ! pick (live n ps) s = Do q k \<and>
    runs (waveP n (ps[pick (live n ps) s := k a])) t' r"
proof -
  from assms obtain s t1 where t: "t = (Sched (live n ps), s) # t1"
    and r: "runs (case ps ! pick (live n ps) s of
          Do q k \<Rightarrow> Do q (\<lambda>a. waveP n (ps[pick (live n ps) s := k a]))
        | Ret x \<Rightarrow> Ret (Inr (outcomes ps))) t1 r"
    by (subst (asm) waveP.simps) (auto simp: runs_Do)
  have "\<not> finished (ps ! pick (live n ps) s)" using pick_live [OF assms(3)] in_live by blast
  then obtain q k where q: "ps ! pick (live n ps) s = Do q k" by (cases "ps ! pick (live n ps) s") auto
  with r obtain a t' where "t1 = (q, a) # t'" "runs (waveP n (ps[pick (live n ps) s := k a])) t' r"
    by (auto simp: runs_Do)
  with t q show ?thesis by blast
qed

lemma waveP_crash: "crash ps = Some e \<Longrightarrow> waveP n ps = Ret (Inl e)"
  by (subst waveP.simps) simp

lemma waveP_end: "crash ps = None \<Longrightarrow> live n ps = [] \<Longrightarrow> waveP n ps = Ret (Inr (outcomes ps))"
  by (subst waveP.simps) simp

text \<open>Induction over the steps of a run.\<close>

lemma wave_induct [consumes 1, case_names crash fin step]:
  assumes "runs (waveP n ps) t r"
    and crash: "\<And>ps e. crash ps = Some e \<Longrightarrow> P ps [] (Inl e)"
    and fin: "\<And>ps. crash ps = None \<Longrightarrow> live n ps = [] \<Longrightarrow> P ps [] (Inr (outcomes ps))"
    and step: "\<And>ps s q k a t r. \<lbrakk>crash ps = None; live n ps \<noteq> [];
       pick (live n ps) s < length ps; ps ! pick (live n ps) s = Do q k;
       runs (waveP n (ps[pick (live n ps) s := k a])) t r; P (ps[pick (live n ps) s := k a]) t r\<rbrakk>
       \<Longrightarrow> P ps ((Sched (live n ps), s) # (q, a) # t) r"
  shows "P ps t r"
proof -
  have "m = n \<Longrightarrow> runs (waveP m ps) t r \<Longrightarrow> P ps t r" for m
  proof (induction m ps arbitrary: t rule: waveP.induct)
  case (1 m ps)
  from 1(2,3) have m: "m = n" and run: "runs (waveP n ps) t r" by simp_all
  show ?case
  proof (cases "crash ps")
    case (Some e)
    with run have "t = []" "r = Inl e" by (auto simp: waveP_crash)
    with crash [OF Some] show ?thesis by simp
  next
    case c: None
    show ?thesis
    proof (cases "live n ps = []")
      case True
      with run c have "t = []" "r = Inr (outcomes ps)" by (auto simp: waveP_end)
      with fin [OF c True] show ?thesis by simp
    next
      case l: False
      obtain s q k a t' where st: "t = (Sched (live n ps), s) # (q, a) # t'"
        "ps ! pick (live n ps) s = Do q k" "runs (waveP n (ps[pick (live n ps) s := k a])) t' r"
        using wave_step [OF run c l] by (elim exE conjE)
      have i: "pick (live n ps) s < length ps" using l pick_live in_live by blast
      have "P (ps[pick (live n ps) s := k a]) t' r"
        using 1(1) [of s q k a t'] c l st(2,3) m by simp
      with step [OF c l i st(2,3)] st(1) show ?thesis by simp
    qed
  qed
  qed
  with assms(1) show ?thesis by simp
qed

text \<open>\<open>parts ps t ts rs\<close>: the goroutines of a wave ran with traces \<open>ts\<close> and results \<open>rs\<close>.\<close>

definition parts :: "'a res prog list \<Rightarrow> trace \<Rightarrow> trace list \<Rightarrow> 'a list \<Rightarrow> bool" where
  "parts ps t ts rs \<longleftrightarrow> length ts = length ps \<and> length rs = length ps \<and>
     (\<forall>i < length ps. runs (ps ! i) (ts ! i) (Inr (rs ! i)) \<and> subseq (ts ! i) t)"

lemma parts_step:
  assumes "parts (ps[i := k a]) t ts rs" "i < length ps" "ps ! i = Do q k"
  shows "parts ps (x # (q, a) # t) (ts[i := (q, a) # ts ! i]) rs"
  unfolding parts_def
proof (intro conjI allI impI)
  fix j assume j: "j < length ps"
  have p: "runs (ps[i := k a] ! j) (ts ! j) (Inr (rs ! j))" "subseq (ts ! j) t" "length ts = length ps"
    using assms(1) j by (auto simp: parts_def)
  show "runs (ps ! j) (ts[i := (q, a) # ts ! i] ! j) (Inr (rs ! j))"
    using p assms(2,3) j by (cases "j = i") auto
  show "subseq (ts[i := (q, a) # ts ! i] ! j) (x # (q, a) # t)"
    using p assms(2,3) j by (cases "j = i") auto
qed (use assms(1) in \<open>auto simp: parts_def\<close>)

lemma parts_finished: "parts (map (\<lambda>x. Ret (Inr x)) rs) [] (map (\<lambda>_. []) rs) rs"
  by (simp add: parts_def)

lemma wave_parts:
  assumes "runs (waveP n ps) t r" "0 < n"
  shows "r = Inr rs \<Longrightarrow> \<exists>ts. parts ps t ts rs"
  using assms(1)
proof (induction rule: wave_induct)
  case (fin ps)
  then have f: "\<forall>p \<in> set ps. finished p" and rs: "rs = outcomes ps" using assms(2) by (simp_all add: live_empty)
  have ps: "ps = map (\<lambda>x. Ret (Inr x)) rs" unfolding rs by (rule outcomes_finished [OF fin(1) f])
  show ?case using parts_finished [of rs] unfolding ps [symmetric] by (rule exI)
next
  case (step ps s q k a t r)
  then obtain ts where "parts (ps[pick (live n ps) s := k a]) t ts rs" by blast
  from parts_step [OF this step(3,4)] show ?case by (rule exI)
qed simp

text \<open>A wave fails only by a panic of one of its goroutines.\<close>

lemma wave_panic:
  "runs (waveP n ps) t r \<Longrightarrow> r = Inl e \<Longrightarrow> \<exists>i < length ps. \<exists>u. runs (ps ! i) u (Inl e) \<and> subseq u t"
proof (induction rule: wave_induct)
  case (crash ps e')
  then obtain i where "i < length ps" "runs (ps ! i) [] (Inl e) \<and> subseq [] []" using crash_at by fastforce
  then show ?case by blast
next
  case (step ps s q k a t r)
  let ?i = "pick (live n ps) s"
  obtain j u where j: "j < length ps" "runs (ps[?i := k a] ! j) u (Inl e)" "subseq u t" using step(6,7) by auto
  have "\<exists>u'. runs (ps ! j) u' (Inl e) \<and> subseq u' ((Sched (live n ps), s) # (q, a) # t)"
  proof (cases "j = ?i")
    case True
    with j step(3,4) have "runs (ps ! j) ((q, a) # u) (Inl e) \<and> subseq ((q, a) # u) ((Sched (live n ps), s) # (q, a) # t)"
      by auto
    then show ?thesis by blast
  next
    case False
    with j have "runs (ps ! j) u (Inl e) \<and> subseq u ((Sched (live n ps), s) # (q, a) # t)" by auto
    then show ?thesis by blast
  qed
  with j(1) show ?case by blast
qed simp

text \<open>The semaphore: never more than \<open>n\<close> goroutines are candidates for the next request.\<close>

lemma live_bound: "length (live n ps) \<le> n \<and> distinct (live n ps)"
  by (simp add: live_def unfinished_def)

definition no_sched :: "trace \<Rightarrow> trace" where
  "no_sched t = filter (\<lambda>x. \<forall>is. fst x \<noteq> Sched is) t"

definition sched_free :: "req \<Rightarrow> bool" where
  "sched_free q \<longleftrightarrow> (\<forall>is. q \<noteq> Sched is)"

lemma no_sched_simps [simp]:
  "no_sched [] = []" "no_sched ((Sched is, s) # t) = no_sched t"
  "sched_free q \<Longrightarrow> no_sched ((q, a) # t) = (q, a) # no_sched t"
  "no_sched (t @ u) = no_sched t @ no_sched u"
  by (auto simp: no_sched_def sched_free_def)

lemma unfinished_hd:
  assumes "unfinished ps \<noteq> []" "j < hd (unfinished ps)"
  shows "finished (ps ! j)"
proof (rule ccontr)
  assume n: "\<not> finished (ps ! j)"
  let ?u = "unfinished ps"
  have "hd ?u \<in> set ?u" using assms(1) by simp
  then have "hd ?u < length ps" by (simp add: unfinished_def)
  with assms(2) n have "j \<in> set ?u" by (simp add: unfinished_def)
  moreover have "sorted ?u" by (simp add: unfinished_def sorted_wrt_filter)
  ultimately have "hd ?u \<le> j" using assms(1) by (cases ?u) auto
  with assms(2) show False by simp
qed

lemma concat_update:
  assumes "i < length ts" "\<forall>j < i. ts ! j = []"
  shows "concat (ts[i := x # ts ! i]) = x # concat ts"
proof -
  have e: "concat (take i ts) = []" using assms by (auto simp: concat_eq_Nil_conv in_set_conv_nth)
  have t: "ts = take i ts @ ts ! i # drop (Suc i) ts" using assms(1) by (rule id_take_nth_drop)
  have "concat ts = concat (take i ts @ ts ! i # drop (Suc i) ts)" using t by metis
  then have "concat ts = ts ! i @ concat (drop (Suc i) ts)" using e by simp
  moreover have "ts[i := x # ts ! i] = take i ts @ (x # ts ! i) # drop (Suc i) ts"
    using assms(1) by (rule upd_conv_take_nth_drop)
  ultimately show ?thesis using e by simp
qed

text \<open>With one slot the goroutines run one after the other, in order.\<close>

lemma wave_sequential:
  assumes "runs (waveP 1 ps) t r" "\<forall>p \<in> set ps. allreq sched_free p"
  shows "r = Inr rs \<Longrightarrow> \<exists>ts. parts ps t ts rs \<and> no_sched t = concat ts"
  using assms
proof (induction rule: wave_induct)
  case (fin ps)
  then have f: "\<forall>p \<in> set ps. finished p" and rs: "rs = outcomes ps"
    using live_empty [of 1 ps] by simp_all
  have ps: "ps = map (\<lambda>x. Ret (Inr x)) rs" unfolding rs by (rule outcomes_finished [OF fin(1) f])
  have "parts ps [] (map (\<lambda>_. []) rs) rs" using parts_finished [of rs] unfolding ps [symmetric] .
  moreover have "no_sched [] = concat (map (\<lambda>_. []) rs)" by simp
  ultimately show ?case by blast
next
  case (step ps s q k a t r)
  let ?i = "pick (live 1 ps) s"
  have i: "?i = hd (unfinished ps)" "unfinished ps \<noteq> []"
    using step(2) by (cases "unfinished ps"; simp add: live_def pick_def)+
  have "allreq sched_free (ps ! ?i)" using step(3,8) by simp
  then have q: "sched_free q" and ka: "allreq sched_free (k a)" using step(4) by simp_all
  then have "\<forall>p \<in> set (ps[?i := k a]). allreq sched_free p" using step(8) set_update_subset_insert [of ps ?i "k a"] by blast
  with step(6,7) obtain ts where p: "parts (ps[?i := k a]) t ts rs" and c: "no_sched t = concat ts" by blast
  have len: "length ts = length ps" using p by (simp add: parts_def)
  have "ts ! j = []" if j: "j < ?i" for j
  proof -
    have "finished (ps[?i := k a] ! j)" using unfinished_hd [of ps j] i j by simp
    moreover have "runs (ps[?i := k a] ! j) (ts ! j) (Inr (rs ! j))"
      using p less_trans [OF j step(3)] unfolding parts_def length_list_update by blast
    ultimately show ?thesis by (cases "ps[?i := k a] ! j") auto
  qed
  then have "concat (ts[?i := (q, a) # ts ! ?i]) = (q, a) # concat ts"
    using step(3) len by (intro concat_update) simp_all
  with c q have "no_sched ((Sched (live 1 ps), s) # (q, a) # t) = concat (ts[?i := (q, a) # ts ! ?i])" by simp
  with parts_step [OF p step(3,4)] show ?case by blast
qed simp

end
