(* ===== verification/FleetProvision.thy ===== *)
theory FleetProvision imports FleetPhases FleetResolve CloudVPS Wave begin

text \<open>
  The provisioning of a fleet (\<open>cmd/sdk-ops/provision.go\<close>): what a host is initialised with,
  whether it already is, the waves of parallel initialisations, and the whole command, from
  the fleet file to the last phase. The YAML decoder is the parameter \<open>decode\<close>.
\<close>

section \<open>Whether a host is initialised\<close>

definition readMarker :: "conn \<Rightarrow> string option prog" where
  "readMarker c = bind (sshRun c (Raw ''cat /opt/sdk-ops/.version 2>/dev/null || echo MISSING'')) (\<lambda>(out, e).
     Ret (if e = None then Some (trimSpace out) else None))"

fun firstMode :: "string list \<Rightarrow> string" where
  "firstMode [] = ''''"
| "firstMode (f # fs) = (case cutPrefix f ''mode='' of Some m \<Rightarrow> m | None \<Rightarrow> firstMode fs)"

definition parseInitMarkerMode :: "string \<Rightarrow> string" where
  "parseInitMarkerMode text = firstMode (goFields text)"

definition markerState :: "string option \<Rightarrow> bool \<times> string" where
  "markerState m = (case m of None \<Rightarrow> (False, '''')
     | Some t \<Rightarrow> if t = '''' \<or> t = ''MISSING'' then (False, '''') else (True, parseInitMarkerMode t))"

definition markerOn :: "conn \<Rightarrow> (bool \<times> string) prog" where
  "markerOn c = deferClose c (bind (readMarker c) (\<lambda>m. Ret (markerState m)))"

text \<open>The user that the hardening creates is tried first, then the one of the flags.\<close>

definition hostInitState :: "ProvisionHost \<Rightarrow> infraFlags \<Rightarrow> (bool \<times> string) prog" where
  "hostInitState h f =
     (let own = bind (infraConnect (hHost h) f) (\<lambda>r. case r of
                  Inl e \<Rightarrow> Ret (False, '''') | Inr c \<Rightarrow> markerOn c)
      in if ifUser f \<noteq> ''sdkops''
         then bind (infraConnect (hHost h) (f\<lparr>ifUser := ''sdkops''\<rparr>)) (\<lambda>r. case r of
                Inl e \<Rightarrow> own | Inr c \<Rightarrow> markerOn c)
         else own)"

datatype decision = Proceed | ForceInit string | Refuse string

definition modeSwitchDecision :: "string \<Rightarrow> string \<Rightarrow> bool \<Rightarrow> decision" where
  "modeSwitchDecision installed requested allow =
     (if installed = '''' \<or> installed = requested then Proceed
      else if allow then ForceInit (sprintf ''mode change %s -> %s acknowledged: running the full %s init (old-mode leftovers are NOT removed)'' [Str installed, Str requested, Str requested])
      else Refuse (sprintf ''refusing mode change %s -> %s without allow_mode_switch (node initialized as %q): migrate manually (infra uninstall %s on the node, then re-provision) or set allow_mode_switch: true at the top of the fleet YAML'' [Str installed, Str requested, Str installed, Str installed]))"

section \<open>One host\<close>

definition swapFormat :: string where
  \<open>swapFormat =
''
CUR_MB=0
[ -f /swapfile ] && CUR_MB=$(( $(stat -c%%s /swapfile) / 1024 / 1024 ))
if [ "$CUR_MB" -ne %d ]; then
  sudo swapoff /swapfile 2>/dev/null || true
  sudo rm -f /swapfile
  sudo fallocate -l %dM /swapfile 2>/dev/null || sudo dd if=/dev/zero of=/swapfile bs=1M count=%d 2>/dev/null
  sudo chmod 600 /swapfile
  sudo mkswap /swapfile 2>/dev/null
fi
sudo swapon /swapfile 2>/dev/null || true
sudo grep -q '^/swapfile' /etc/fstab || echo '/swapfile none swap sw 0 0' | sudo tee -a /etc/fstab > /dev/null
echo "swap: OK (%dM override)"
''\<close>
definition applySwapSize :: "conn \<Rightarrow> int \<Rightarrow> unit res prog" where
  "applySwapSize c mb = runU c (Fmt swapFormat [Num mb, Num mb, Num mb, Num mb]) (wrapE ''swap override: %w'' [])"

text \<open>Every error of a host becomes its result; a panic does not.\<close>

definition hostResult :: "ProvisionHost \<Rightarrow> unit res \<Rightarrow> provisionResult res" where
  "hostResult h r = (case r of
       Inl (Panic m) \<Rightarrow> Inl (Panic m)
     | Inl e \<Rightarrow> Inr \<lparr>prName = hName h, prHost = hHost h, prError = Some e\<rparr>
     | Inr _ \<Rightarrow> Inr \<lparr>prName = hName h, prHost = hHost h, prError = None\<rparr>)"

definition hostFlags :: "ProvisionFile \<Rightarrow> ProvisionHost \<Rightarrow> string \<Rightarrow> infraFlags" where
  "hostFlags pf h user =
     (let r = resolveHostConfig pf h in
      zeroFlags\<lparr>ifUser := user, ifKey := hSSHKey h, ifPort := portOr22 h, ifMode := pfMode pf,
        ifFirewallAllowlist := rhFirewallAllowlist r, ifAdminIPs := rhAdminIPs r,
        ifNoTraefik := pfNoTraefik pf, ifNoHardening := noHardening pf\<rparr>)"

definition initIfNeeded :: "ProvisionFile \<Rightarrow> ProvisionHost \<Rightarrow> infraFlags \<Rightarrow> bool \<times> string \<Rightarrow> unit res prog" where
  "initIfNeeded pf h f state =
     (if \<not> fst state then runInfraInitSSH (hHost h) f (Ret 0)
      else case modeSwitchDecision (snd state) (normalizeProvisionMode (pfMode pf)) (pfAllowModeSwitch pf) of
        Proceed \<Rightarrow> okP
      | ForceInit notice \<Rightarrow> runInfraInitSSH (hHost h) f (Ret 0)
      | Refuse notice \<Rightarrow> fail (Errorf ''host %s: %s'' [Str (hName h), Str notice]))"

definition swapOverride :: "ProvisionFile \<Rightarrow> ProvisionHost \<Rightarrow> infraFlags \<Rightarrow> unit res prog" where
  "swapOverride pf h f =
     (let mb = swSizeMB (rhSwap (resolveHostConfig pf h)) in
      if mb > 0 then withConn (hHost h) f id (\<lambda>c. applySwapSize c mb) else okP)"

definition provisionHost :: "ProvisionFile \<Rightarrow> ProvisionHost \<Rightarrow> provisionResult res prog" where
  "provisionHost pf h =
     bind (fleetUser h) (\<lambda>user.
     bind (applyK3sTopology (hostFlags pf h user) pf h) (\<lambda>f.
     bind (hostInitState h f) (\<lambda>state.
     bind (tryP id (initIfNeeded pf h f state) (\<lambda>_. swapOverride pf h f)) (\<lambda>r.
     Ret (hostResult h r)))))"

section \<open>Waves\<close>

definition provisionWave :: "ProvisionFile \<Rightarrow> ProvisionHost list \<Rightarrow> nat \<Rightarrow> provisionResult list res prog" where
  "provisionWave pf hosts par = waveP par (map (provisionHost pf) hosts)"

fun groupWave :: "string \<Rightarrow> ProvisionHost list \<Rightarrow> string list \<Rightarrow> ProvisionHost list \<times> string list" where
  "groupWave g [] done' = ([], done')"
| "groupWave g (h # hs) done' =
     (if hGroup h = g \<and> hName h \<notin> set done'
      then (case groupWave g hs (hName h # done') of (w, d) \<Rightarrow> (h # w, d))
      else groupWave g hs done')"

text \<open>The host of a step is the last one of that name.\<close>

definition stepWave :: "ProvisionHost list \<Rightarrow> DeployStep \<Rightarrow> string list \<Rightarrow> ProvisionHost list \<times> string list" where
  "stepWave hosts step done' =
     (if dsGroup step \<noteq> '''' then groupWave (dsGroup step) hosts done'
      else if dsHost step \<noteq> '''' then
        (case List.find (\<lambda>h. hName h = dsHost step) (rev hosts) of
           None \<Rightarrow> ([], done')
         | Some h \<Rightarrow> if hName h \<in> set done' then ([], done') else ([h], hName h # done'))
      else ([], done'))"

fun waves :: "ProvisionHost list \<Rightarrow> DeployStep list \<Rightarrow> string list \<Rightarrow> ProvisionHost list list" where
  "waves hosts [] done' = []"
| "waves hosts (s # ss) done' =
     (case stepWave hosts s done' of (w, d) \<Rightarrow>
        if w = [] then waves hosts ss d else w # waves hosts ss d)"

primrec runWaves :: "ProvisionFile \<Rightarrow> nat \<Rightarrow> ProvisionHost list list \<Rightarrow> provisionResult list res prog" where
  "runWaves pf par [] = Ret (Inr [])"
| "runWaves pf par (w # ws) =
     tryP id (provisionWave pf w par) (\<lambda>rs. tryP id (runWaves pf par ws) (\<lambda>rs'. Ret (Inr (rs @ rs'))))"

definition provisionHosts :: "ProvisionFile \<Rightarrow> ProvisionHost list \<Rightarrow> nat \<Rightarrow> provisionResult list res prog" where
  "provisionHosts pf hosts par =
     (if pfDeployOrder pf = [] then provisionWave pf hosts par
      else runWaves pf par (waves hosts (pfDeployOrder pf) []))"

definition countProvisionFailures :: "provisionResult list \<Rightarrow> nat" where
  "countProvisionFailures rs = length (filter (\<lambda>r. prError r \<noteq> None) rs)"

section \<open>The command\<close>

text \<open>
  Without tags the selected hosts are the slice of the fleet itself, so the addresses of
  created servers reach it; with tags they are copies.
\<close>

definition withHosts :: "ProvisionFile \<Rightarrow> string \<Rightarrow> ProvisionHost list \<Rightarrow> ProvisionFile" where
  "withHosts pf tags hosts = (if trimSpace tags = '''' then pf\<lparr>pfHosts := hosts\<rparr> else pf)"

definition parallelOf :: "ProvisionFile \<Rightarrow> nat" where
  "parallelOf pf = (if pfParallel pf \<le> 0 then 1 else nat (pfParallel pf))"

definition clusterPhase :: "ProvisionFile \<Rightarrow> string dict \<Rightarrow> ProvisionHost list \<Rightarrow> unit res prog" where
  "clusterPhase pf names hosts =
     (if pfMode pf = ''k3s'' then
        tryP (Wrapf ''peers before k3s join: %w'' []) (applyProvisionPeers pf names) (\<lambda>_.
        tryP (Wrapf ''k3s join: %w'' []) (k3sClusterJoin pf hosts) (\<lambda>_.
        bind (waitForClusterSettle hosts) (\<lambda>_. okP)))
      else okP)"

definition provisionFleet :: "ProvisionFile \<Rightarrow> string dict \<Rightarrow> ProvisionHost list \<Rightarrow> unit res prog" where
  "provisionFleet pf names hosts =
     tryP id (provisionHosts pf hosts (parallelOf pf)) (\<lambda>rs.
     let failed = countProvisionFailures rs in
     if failed > 0 then fail (Errorf ''%d/%d hosts failed to provision'' [Num (int failed), Num (int (length rs))])
     else tryP id (clusterPhase pf names hosts) (\<lambda>_.
          applyProvisionPhases pf names))"

definition runProvision :: "(string \<Rightarrow> string + ProvisionFile) \<Rightarrow> string \<Rightarrow> string \<Rightarrow> unit res prog" where
  "runProvision decode path tags =
     tryP id (loadFleet decode path) (\<lambda>pf0.
     case normalizeProvision pf0 of Inl e \<Rightarrow> fail e
     | Inr pf \<Rightarrow>
       (case validateProvision pf of Inl e \<Rightarrow> fail e
        | Inr names \<Rightarrow>
          let hosts = selectHostsByTags (pfHosts pf) tags in
          if hosts = [] then fail (Errorf ''no hosts match the given tags'' [])
          else tryP id (ensureTopologyVPS hosts) (\<lambda>hosts'.
            provisionFleet (withHosts pf tags hosts') names hosts')))"

end
