(* ===== verification/Registry.thy ===== *)
theory Registry imports InfraInit Wave begin

text \<open>
  What the operator's machine remembers: the registered nodes (\<open>cmd/sdk-ops/config.go\<close>), how
  a command finds the user, key and port of a node (\<open>cmd/sdk-ops/node.go\<close>), the resources
  of \<open>state.yaml\<close> (\<open>cmd/sdk-ops/state.go\<close>) and the local SSH keys (\<open>cmd/sdk-ops/key.go\<close>).
  Every command reads a whole file, changes it and writes it back.
\<close>

section \<open>The registered nodes\<close>

definition loadNodes :: "nodeConfig list res prog" where
  "loadNodes = Do LoadConfig (\<lambda>a. case aErr a of None \<Rightarrow> Ret (Inr (aNodes a)) | Some m \<Rightarrow> fail (Ext m))"

definition saveNodes :: "nodeConfig list \<Rightarrow> unit res prog" where
  "saveNodes ns = callP (SaveConfig ns)"

definition lookupNode :: "string \<Rightarrow> nodeConfig option prog" where
  "lookupNode ip = bind loadNodes (\<lambda>r. Ret (case r of Inl e \<Rightarrow> None | Inr ns \<Rightarrow> List.find (\<lambda>n. ncIP n = ip) ns))"

definition configInit :: "unit res prog" where
  "configInit = tryP id loadNodes saveNodes"

definition addNode :: "string \<Rightarrow> string \<times> string \<times> int \<times> string \<Rightarrow> nodeConfig list \<Rightarrow> nodeConfig list" where
  "addNode ip p ns = (case p of (user, key, port, mode) \<Rightarrow>
     upsert (\<lambda>n. ncIP n = ip) (\<lambda>n. n\<lparr>ncUser := user, ncKey := key, ncPort := port, ncMode := mode\<rparr>)
       (zeroNode\<lparr>ncIP := ip, ncUser := user, ncKey := key, ncPort := port, ncMode := mode\<rparr>) ns)"

definition configAddNode :: "string \<Rightarrow> string \<Rightarrow> string \<Rightarrow> int \<Rightarrow> string \<Rightarrow> unit res prog" where
  "configAddNode ip user key port mode =
     tryP id loadNodes (\<lambda>ns. saveNodes (addNode ip (user, key, port, mode) ns))"

definition configRemoveNode :: "string \<Rightarrow> unit res prog" where
  "configRemoveNode ip =
     tryP id loadNodes (\<lambda>ns.
       if list_ex (\<lambda>n. ncIP n = ip) ns then saveNodes (filter (\<lambda>n. ncIP n \<noteq> ip) ns) else okP)"

text \<open>The credentials that \<open>set-credentials\<close> writes: field and environment variable.\<close>

definition credFields :: "string dict" where
  "credFields = [(''CubePathAPIKey'', ''CUBEPATH_API_KEY''), (''HetznerAPIToken'', ''HETZNER_API_TOKEN''),
     (''DigitalOceanToken'', ''DIGITALOCEAN_TOKEN''), (''VultrAPIKey'', ''VULTR_API_KEY''), (''BunnyAPIKey'', ''BUNNY_API_KEY''),
     (''CivoAPIKey'', ''CIVO_API_KEY''), (''AWSRegion'', ''AWS_REGION''), (''AWSProfile'', ''AWS_PROFILE'')]"

primrec envAll :: "string dict \<Rightarrow> string dict prog" where
  "envAll [] = Ret []"
| "envAll (p # ps) = bind (getenv (snd p)) (\<lambda>v. bind (envAll ps) (\<lambda>vs. Ret ((fst p, v) # vs)))"

definition setCredentials :: "unit res prog" where
  "setCredentials = bind (envAll credFields) (\<lambda>c. callP (SaveCreds c))"

section \<open>Reaching a registered node\<close>

definition orInt :: "int \<Rightarrow> int \<Rightarrow> int" where
  "orInt p q = (if p = 0 then q else p)"

definition fromRegistry :: "nodeConfig option \<Rightarrow> string \<Rightarrow> string \<Rightarrow> int \<Rightarrow> string \<times> string \<times> int" where
  "fromRegistry n user key port =
     (case n of None \<Rightarrow> (over_string ''root'' user, key, orInt port 22)
      | Some n \<Rightarrow> (over_string (over_string ''root'' (ncUser n)) user, over_string (ncKey n) key,
                  orInt (orInt port (ncPort n)) 22))"

text \<open>A registered key whose file is gone is dropped. The path is not cleaned here.\<close>

definition keyFile :: "string \<Rightarrow> string prog" where
  "keyFile key = (case cutPrefix key ''~/'' of None \<Rightarrow> Ret key
     | Some rest \<Rightarrow> bind (getenv ''HOME'') (\<lambda>home. Ret (home @ ''/'' @ rest)))"

definition existingKey :: "string \<Rightarrow> string prog" where
  "existingKey key =
     (if key = '''' then Ret ''''
      else bind (keyFile key) (\<lambda>path. bind (callP (Stat path)) (\<lambda>r. Ret (case r of Inl e \<Rightarrow> '''' | Inr _ \<Rightarrow> key))))"

definition nodeFlagsWithConfig :: "string \<Rightarrow> string \<Rightarrow> string \<Rightarrow> int \<Rightarrow> (string \<times> string \<times> int) prog" where
  "nodeFlagsWithConfig ip user key port =
     bind (lookupNode ip) (\<lambda>n. case fromRegistry n user key port of (u, k, p) \<Rightarrow>
     bind (existingKey k) (\<lambda>k'. Ret (u, k', p)))"

text \<open>The nodes a sync or a status visits: the one that is named, or all the registered ones.\<close>

definition nodeTarget :: "nodeConfig \<Rightarrow> conn" where
  "nodeTarget n = \<lparr>cHost = ncIP n, cUser = over_string ''root'' (ncUser n), cPort = orInt (ncPort n) 22, cKey = ncKey n\<rparr>"

definition nodeTargets :: "nodeConfig list \<Rightarrow> string \<Rightarrow> string \<Rightarrow> string \<Rightarrow> int \<Rightarrow> conn list prog" where
  "nodeTargets ns node user key port =
     (if node = '''' then Ret (map nodeTarget ns)
      else bind (lookupNode node) (\<lambda>n. case fromRegistry n user key port of (u, k, p) \<Rightarrow>
        Ret [\<lparr>cHost = node, cUser = u, cPort = p, cKey = k\<rparr>]))"

definition filterExecNodes :: "nodeConfig list \<Rightarrow> bool \<Rightarrow> bool \<Rightarrow> bool \<Rightarrow> nodeConfig list" where
  "filterExecNodes ns runAll runServers runAgents =
     filter (\<lambda>n. runAll \<or> (runServers \<and> runAgents) \<or> (runServers \<and> ncRole n = ''server'') \<or>
       (runAgents \<and> ncRole n = ''agent'')) ns"

text \<open>The goroutines of a parallel command; its errors are printed, never returned.\<close>

definition execOne :: "string \<Rightarrow> nodeConfig \<Rightarrow> goerr option res prog" where
  "execOne command n =
     bind (tryP (Wrapf ''[%s] ssh: %w'' [Str (ncIP n)])
       (connectSSH \<lparr>cHost = ncIP n, cUser = ncUser n, cPort = ncPort n, cKey = ncKey n\<rparr>) (\<lambda>c.
       deferClose c (runU c (Raw command) (wrapO ''[%s] %w\<newline>%s'' [Str (ncIP n)]))))
     (\<lambda>r. Ret (Inr (case r of Inl e \<Rightarrow> Some e | Inr _ \<Rightarrow> None)))"

definition execOnNodes :: "nodeConfig list \<Rightarrow> string \<Rightarrow> unit res prog" where
  "execOnNodes ns command = tryP id (waveP (length ns) (map (execOne command) ns)) (\<lambda>_. okP)"

definition execRunAll :: "string \<Rightarrow> bool \<Rightarrow> bool \<Rightarrow> bool \<Rightarrow> unit res prog" where
  "execRunAll command runAll runServers runAgents =
     tryP (Wrapf ''load config: %w'' []) loadNodes (\<lambda>ns.
     if ns = [] then fail (Errorf ''no nodes registered'' [])
     else let sel = filterExecNodes ns runAll runServers runAgents in
       if sel = [] then fail (Errorf ''no matching nodes found'' []) else execOnNodes sel command)"

definition firewalledNode :: "string \<Rightarrow> string prog" where
  "firewalledNode node =
     (if node \<noteq> '''' then Ret node
      else bind loadNodes (\<lambda>r. Ret (case r of Inr (n # ns) \<Rightarrow> ncIP n | _ \<Rightarrow> '''')))"

section \<open>The tracked resources\<close>

definition resourceID :: "string \<Rightarrow> string \<Rightarrow> string \<Rightarrow> string" where
  "resourceID node type name = sprintf ''%s/%s/%s'' [Str node, Str type, Str name]"

text \<open>What a record brings besides its key.\<close>

record resourceInfo =
  riType :: string
  riName :: string
  riNode :: string
  riVersion :: string
  riRuntime :: string
  riStatus :: string
  riMeta :: "string dict option"
  riNow :: string

definition refreshResource :: "resourceInfo \<Rightarrow> resource \<Rightarrow> resource" where
  "refreshResource i r = r\<lparr>rsVersion := riVersion i, rsRuntime := riRuntime i, rsStatus := riStatus i,
     rsUpdated := riNow i, rsMeta := over_option (rsMeta r) (riMeta i)\<rparr>"

definition newResource :: "string \<Rightarrow> resourceInfo \<Rightarrow> resource" where
  "newResource k i = \<lparr>rsID = k, rsType = riType i, rsName = riName i, rsNode = riNode i, rsVersion = riVersion i,
     rsRuntime = riRuntime i, rsStatus = riStatus i, rsCreated = riNow i, rsUpdated = riNow i,
     rsMeta = over_option [] (riMeta i)\<rparr>"

definition recordResource :: "string \<Rightarrow> resourceInfo \<Rightarrow> resource list \<Rightarrow> resource list" where
  "recordResource k i rs = upsert (\<lambda>r. rsID r = k) (refreshResource i) (newResource k i) rs"

text \<open>A state that cannot be read is left alone; a write that fails is only logged.\<close>

definition stateRecord :: "string \<Rightarrow> string \<Rightarrow> string \<Rightarrow> string \<Rightarrow> string \<Rightarrow> string \<Rightarrow> string dict option \<Rightarrow> unit prog" where
  "stateRecord type name node version runtime status meta =
     Do LoadState (\<lambda>a. if aErr a \<noteq> None then Ret () else bind nowP (\<lambda>now.
       Do (SaveState (recordResource (resourceID node type name)
         \<lparr>riType = type, riName = name, riNode = node, riVersion = version, riRuntime = runtime,
          riStatus = status, riMeta = meta, riNow = now\<rparr> (aRes a))) (\<lambda>_. Ret ())))"

definition ListServices :: "conn \<Rightarrow> string list res prog" where
  \<open>ListServices c = tryP id (runE c (Raw ''ls -1 /opt/sdk-ops/services/ 2>/dev/null || echo ""'') (\<lambda>_ e. e)) (\<lambda>out.
     Ret (Inr (if trimSpace out = '''' then [] else splitOn CHR 0x0A (trimSpace out))))\<close>

definition statusFormat :: string where
  \<open>statusFormat =
''
CUR=$(readlink -f /opt/sdk-ops/services/%[1]s/current 2>/dev/null || echo "none")
echo "dir:$CUR"
if docker ps --format='{{.Names}}' 2>/dev/null | grep -q %[1]s; then echo "type:docker"
elif KUBECONFIG=/etc/rancher/k3s/k3s.yaml kubectl get deploy -l app=%[1]s 2>/dev/null | grep -q .; then echo "type:k3s"
elif systemctl is-active %[1]s 2>/dev/null | grep -q active; then echo "type:systemd"
else echo "type:unknown"
fi''\<close>
text \<open>The output comes back with the error, which the callers here drop.\<close>

definition ServiceStatus :: "conn \<Rightarrow> string \<Rightarrow> (string \<times> goerr option) prog" where
  "ServiceStatus c name = sshRun c (Fmt statusFormat [Str name])"

definition syncStatus :: "string \<Rightarrow> string" where
  "syncStatus s = (if s = '''' \<or> containsStr s ''running'' \<or> containsStr s ''type:'' then ''ok'' else ''error'')"

text \<open>
  The sync of one node. The nodes are visited in parallel under a mutex (\<open>StatusCommands\<close>).
\<close>

primrec syncServices :: "conn \<Rightarrow> string \<Rightarrow> string \<Rightarrow> string list \<Rightarrow> nat prog" where
  "syncServices c ip runtime [] = Ret 0"
| "syncServices c ip runtime (svc # svcs) =
     bind (ServiceStatus c svc) (\<lambda>(s, _).
     bind (stateRecord ''service'' svc ip ''synced'' runtime (syncStatus s) None) (\<lambda>_.
     bind (syncServices c ip runtime svcs) (\<lambda>n. Ret (Suc n))))"

definition stateSyncServices :: "conn \<Rightarrow> string \<Rightarrow> string \<Rightarrow> string \<Rightarrow> nat prog" where
  "stateSyncServices c ip dockerOK k3sOK =
     bind (ListServices c) (\<lambda>r. syncServices c ip (if k3sOK \<noteq> '''' then k3sOK else dockerOK)
       (case r of Inl e \<Rightarrow> [] | Inr svcs \<Rightarrow> svcs))"

primrec syncDatabases :: "string \<Rightarrow> string list \<Rightarrow> nat prog" where
  "syncDatabases ip [] = Ret 0"
| "syncDatabases ip (line # lines) =
     (case goFields (trimSpace line) of
        name # img # rest \<Rightarrow>
          bind (stateRecord ''database'' name ip ''synced'' ''docker'' ''ok'' (Some [(''image'', img)])) (\<lambda>_.
          bind (syncDatabases ip lines) (\<lambda>n. Ret (Suc n)))
      | _ \<Rightarrow> syncDatabases ip lines)"

definition stateSyncDatabases :: "conn \<Rightarrow> string \<Rightarrow> nat prog" where
  \<open>stateSyncDatabases c ip =
     bind (sshRun c (Raw ''docker ps --format '{{.Names}} {{.Image}}' 2>/dev/null | grep -E '(postgres|mysql|redis|mongo)' || true'')) (\<lambda>(out, _). syncDatabases ip (splitOn CHR 0x0A out))\<close>

definition syncSingleNode :: "conn \<Rightarrow> nat prog" where
  \<open>syncSingleNode target =
     bind (connectSSH target) (\<lambda>r. case r of Inl e \<Rightarrow> Ret 0
     | Inr c \<Rightarrow> deferClose c (
         bind (sshRun c (Raw (''command -v docker && docker --version 2>/dev/null | head -1 || echo '' @ [CHR 0x27, CHR 0x27]))) (\<lambda>(docker, _).
         bind (sshRun c (Raw (''command -v k3s && k3s --version 2>/dev/null | head -1 || echo '' @ [CHR 0x27, CHR 0x27]))) (\<lambda>(k3s, _).
         bind (stateSyncServices c (cHost target) (if docker \<noteq> '''' then ''docker'' else '''') (if k3s \<noteq> '''' then ''k3s'' else '''')) (\<lambda>n.
         bind (stateSyncDatabases c (cHost target)) (\<lambda>m. Ret (n + m)))))))\<close>

section \<open>Local keys\<close>

definition validateKeyType :: "string \<Rightarrow> bool" where
  "validateKeyType t \<longleftrightarrow> t \<in> {''ed25519'', ''rsa'', ''ecdsa'', ''ecdsa-sk'', ''ed25519-sk'', ''dsa''}"

fun lastIdx :: "string \<Rightarrow> string \<Rightarrow> nat \<Rightarrow> nat option" where
  "lastIdx s sep 0 = (if take (length sep) s = sep then Some 0 else None)"
| "lastIdx s sep (Suc i) = (if take (length sep) (drop (Suc i) s) = sep then Some (Suc i) else lastIdx s sep i)"

definition splitAtLast :: "string \<Rightarrow> string \<Rightarrow> string list" where
  "splitAtLast s sep =
     (if length s < length sep then [s]
      else case lastIdx s sep (length s - length sep) of None \<Rightarrow> [s]
        | Some i \<Rightarrow> [take i s, drop (i + length sep) s])"

text \<open>What \<open>key list\<close> shows beside a key, from the text of its public half.\<close>

definition keyInfo :: "string \<Rightarrow> string" where
  "keyInfo pub = (if pub = '''' then ''no public key''
     else let parts = splitAtLast pub '' '' in if length parts \<ge> 3 then parts ! 2 else ''no public key'')"

section \<open>The stores keep their keys\<close>

interpretation regnodes: keyed ncIP
  "\<lambda>ip p n. case p of (f :: infraFlags, hc :: hardConfig, arch) \<Rightarrow> n\<lparr>ncRole := ''server'', ncArch := arch\<rparr>"
  "\<lambda>ip p. case p of (f, hc, arch) \<Rightarrow> zeroNode\<lparr>ncIP := ip, ncUser := hcUser hc, ncKey := ifKey f, ncPort := hcSSHPort hc,
     ncMode := ifMode f, ncRole := ''server'', ncArch := arch\<rparr>"
  registerNode
  by unfold_locales (auto simp: registerNode_def zeroNode_def split: prod.splits)

interpretation addnodes: keyed ncIP
  "\<lambda>ip p n. case p of (user, key, port, mode) \<Rightarrow> n\<lparr>ncUser := user, ncKey := key, ncPort := port, ncMode := mode\<rparr>"
  "\<lambda>ip p. case p of (user, key, port, mode) \<Rightarrow>
     zeroNode\<lparr>ncIP := ip, ncUser := user, ncKey := key, ncPort := port, ncMode := mode\<rparr>"
  addNode
  by unfold_locales (auto simp: addNode_def zeroNode_def split: prod.splits)

interpretation resources: keyed rsID "\<lambda>k. refreshResource" newResource recordResource
  by unfold_locales (auto simp: recordResource_def refreshResource_def newResource_def)

end
