(* ===== verification/InfraCommands.thy ===== *)
theory InfraCommands imports FleetProvision Registry begin

text \<open>
  The commands on single nodes (\<open>cmd/sdk-ops/infra.go\<close>, \<open>cmd/sdk-ops/uninstall.go\<close>,
  \<open>cmd/sdk-ops/firewall_precheck.go\<close>): init with its fleet phases, the allowlist install, the
  join of an agent, adoption, readiness, removal and uninstall, and the destruction of a fleet
  (\<open>cmd/sdk-ops/provision.go\<close>). The YAML decoder is the parameter \<open>decode\<close>.
\<close>

section \<open>Init\<close>

definition installAllowlistOn :: "ProvisionFile \<Rightarrow> ProvisionHost \<Rightarrow> unit res prog" where
  "installAllowlistOn pf h =
     (let r = resolveHostConfig pf h; w = Wrapf ''allowlist %s: %w'' [Str (hName h)] in
      case parseAllowlistFlag (rhFirewallAllowlist r) of Inl e \<Rightarrow> fail (w e)
      | Inr (pr, sourceRaw) \<Rightarrow>
       (case ParseSource sourceRaw of Inl e \<Rightarrow> fail (w e)
        | Inr src \<Rightarrow>
         (case parseAdminIPs (rhAdminIPs r) of Inl e \<Rightarrow> fail (w e)
          | Inr (admin4, admin6) \<Rightarrow>
            let f = zeroFlags\<lparr>ifUser := over_string ''sdkops'' (hUser h), ifKey := hSSHKey h, ifPort := portOr22 h, ifMode := pfMode pf\<rparr> in
            withConn (hHost h) f w (\<lambda>c.
            bind (CurrentSSHPorts c (portOr22 h)) (\<lambda>ports.
            installAndVerifyAllowlist c (hHost h) f
              \<lparr>acProfile = pr, acSSHPorts = ports, acAdmin4 = admin4, acAdmin6 = admin6,
               acSource = src, acOpenWeb = (rhHTTPSMode r = ''all'')\<rparr>)))))"

definition applyInitFleetPhases :: "(string \<Rightarrow> string + ProvisionFile) \<Rightarrow> string \<Rightarrow> infraFlags \<Rightarrow> unit res prog" where
  "applyInitFleetPhases decode ip f =
     (let w = Wrapf ''init --provision-yaml: %w'' [] in
      if ifProvisionYAML f = '''' then okP
      else tryP w (readFile (ifProvisionYAML f)) (\<lambda>text.
        case decode text of Inl m \<Rightarrow> fail (w (Ext m))
        | Inr pf \<Rightarrow>
         (case validateProvision pf of Inl e \<Rightarrow> fail (w e)
          | Inr names \<Rightarrow>
           (case List.find (\<lambda>h. hHost h = ip) (pfHosts pf) of
              None \<Rightarrow> fail (Errorf ''init --provision-yaml: host %s not found in the fleet YAML'' [Str ip])
            | Some h \<Rightarrow>
              tryP w (if rhFirewallAllowlist (resolveHostConfig pf h) \<noteq> '''' then installAllowlistOn pf h else okP) (\<lambda>_.
              tryP w (applyPerHostPhaseOn pf h) (\<lambda>_. okP))))))"

definition initVPSConfig :: "infraFlags \<Rightarrow> vpsConfig" where
  "initVPSConfig f = \<lparr>vcLabel = ifHostname f, vcPlan = ifPlan f, vcLocation = ifLocation f, vcTemplate = ifTemplate f,
     vcHostname = ifHostname f, vcSSHKeyIDs = keyIDs (ifSshKeyIDs f)\<rparr>"

text \<open>The address of the created server is used as the provider returns it, without waiting.\<close>

definition initAddress :: "string \<Rightarrow> infraFlags \<Rightarrow> string res prog" where
  "initAddress ip f =
     (if ifProvider f = '''' then Ret (Inr ip)
      else tryP id (getInfraProvider (ifProvider f) (ifApiKey f) (ifLocation f) (ifProjectID f)) (\<lambda>p.
        Do (CreateVPS p (initVPSConfig f)) (\<lambda>a. case aErr a of
          Some m \<Rightarrow> fail (Wrapf ''create vps: %w'' [] (Ext m))
        | None \<Rightarrow> (case aVps a of [] \<Rightarrow> fail (Panic ''nil VPS'') | v # vs \<Rightarrow> Ret (Inr (vIP v))))))"

definition runInfraInit :: "(string \<Rightarrow> string + ProvisionFile) \<Rightarrow> string \<Rightarrow> infraFlags \<Rightarrow> unit res prog" where
  "runInfraInit decode ip0 f =
     tryP id (initAddress ip0 f) (\<lambda>ip.
     tryP id (runInfraInitSSH ip f (yamlHostPort decode (ifProvisionYAML f) ip)) (\<lambda>_.
     applyInitFleetPhases decode ip f))"

section \<open>The allowlist command\<close>

record allowlistFlags =
  awNode :: string
  awSource :: string
  awCloudFirewall :: string
  awYes :: bool
  awAdminIPs :: string
  awOpenWeb :: bool

definition runAllowlistInstall :: "infraFlags \<Rightarrow> profile \<Rightarrow> allowlistFlags \<Rightarrow> unit res prog" where
  \<open>runAllowlistInstall f pr aw =
     (if awNode aw = '''' then fail (Errorf ''no node specified. Use --node or register one'' [])
      else if pr = AllowlistStrict \<and> \<not> awYes aw then fail (Errorf ''cf-strict restricts ALL inbound traffic, INCLUDING SSH, to the allowlist. You can be locked out if your public IP changes or the refresh fails. Re-run with --yes to confirm'' [])
      else case parseAdminIPs (awAdminIPs aw) of Inl e \<Rightarrow> fail e
      | Inr (admin4, admin6) \<Rightarrow>
        if pr = AllowlistStrict \<and> length admin4 + length admin6 = 0 then fail (Errorf ''cf-strict requires explicit admin IPs (--admin-ips "ip1,ip2") so you are never locked out'' [])
        else withConn (awNode aw) f id (\<lambda>c.
          case ParseSource (awSource aw) of Inl e \<Rightarrow> fail e
          | Inr src \<Rightarrow>
            tryP id (FetchCIDRs src) (\<lambda>(v4, v6).
            if length v4 + length v6 < 4
            then fail (Errorf ''source %q returned too few ranges (%d v4, %d v6)''
                        [Str (awSource aw), Num (int (length v4)), Num (int (length v6))])
            else bind (CurrentSSHPorts c (ifPort f)) (\<lambda>ports.
              tryP id (installAndVerifyAllowlist c (awNode aw) f
                \<lparr>acProfile = pr, acSSHPorts = ports, acAdmin4 = admin4, acAdmin6 = admin6,
                 acSource = src, acOpenWeb = awOpenWeb aw\<rparr>) (\<lambda>_.
              tryP id (if awCloudFirewall aw \<noteq> '''' then syncCloudFirewall (awCloudFirewall aw) v4 v6 else okP) (\<lambda>_.
              tryP id (AllowlistStatus c) (\<lambda>_. okP)))))))\<close>

definition onNode :: "string \<Rightarrow> infraFlags \<Rightarrow> (conn \<Rightarrow> unit res prog) \<Rightarrow> unit res prog" where
  "onNode node0 f fn =
     bind (firewalledNode node0) (\<lambda>node.
       if node = '''' then fail (Errorf ''no node specified. Use --node or register one'' []) else withConn node f id fn)"

section \<open>Joining an agent\<close>

definition joinedNode :: "string \<Rightarrow> infraFlags \<times> string \<Rightarrow> nodeConfig list \<Rightarrow> nodeConfig list" where
  "joinedNode ip p ns = (case p of (f, arch) \<Rightarrow>
     upsert (\<lambda>n. ncIP n = ip) (\<lambda>n. n\<lparr>ncRole := ''agent'', ncArch := arch\<rparr>)
       (zeroNode\<lparr>ncIP := ip, ncUser := ifUser f, ncKey := ifKey f, ncPort := ifPort f, ncMode := ifMode f,
                 ncRole := ''agent'', ncArch := arch\<rparr>) ns)"

definition afterJoin :: "conn \<Rightarrow> string \<Rightarrow> string \<Rightarrow> infraFlags \<Rightarrow> unit res prog" where
  "afterJoin ac serverIP agentIP f =
     bind (sshRun ac (Raw ''uname -m'')) (\<lambda>(archOut, _).
     Do LoadConfig (\<lambda>a. case aErr a of
       Some m \<Rightarrow> fail (Panic ''runInfraJoin: nil configuration'')
     | None \<Rightarrow> Do (SaveConfig (joinedNode agentIP (f, trimSpace archOut) (aNodes a))) (\<lambda>_.
         bind (hooksRun ac ''post-join'' [(''IP'', agentIP), (''SERVER_IP'', serverIP), (''USER'', ifUser f),
                 (''MODE'', ifMode f), (''ROLE'', ''agent'')]) (\<lambda>_. okP))))"

text \<open>Without a token the server must be reachable; with one it may be down.\<close>

definition joinServerConn :: "string \<Rightarrow> string \<Rightarrow> string \<Rightarrow> infraFlags \<Rightarrow> conn option res prog" where
  "joinServerConn serverIP user token f =
     bind (connectSSH (sshClient serverIP user (ifPort f) f)) (\<lambda>r. case r of
       Inr sc \<Rightarrow> Ret (Inr (Some sc))
     | Inl e \<Rightarrow> if token = '''' then fail (Wrapf ''need --token (cannot SSH to server): %w'' [] e) else Ret (Inr None))"

definition runInfraJoin :: "string \<Rightarrow> string \<Rightarrow> string \<Rightarrow> string \<Rightarrow> infraFlags \<Rightarrow> unit res prog" where
  "runInfraJoin serverIP agentIP serverUser token f =
     tryP (Wrapf ''ssh connect to agent: %w'' []) (connectSSH (sshClient agentIP (ifUser f) (ifPort f) f)) (\<lambda>ac.
     deferClose ac (
     tryP id (joinServerConn serverIP (over_string (ifUser f) serverUser) token f) (\<lambda>server.
     let body = tryP id (k3sJoin ac server \<lparr>jcServerIP = serverIP, jcToken = token, jcServerUser = '''',
                    jcExtraArgs = '''', jcK3sVersion = '''', jcK3sChannel = ''''\<rparr>) (\<lambda>_. afterJoin ac serverIP agentIP f)
     in case server of None \<Rightarrow> body | Some sc \<Rightarrow> deferClose sc body)))"

section \<open>Readiness\<close>

definition nodes_script :: script where
  \<open>nodes_script = Raw (''sudo kubectl --kubeconfig /etc/rancher/k3s/k3s.yaml get nodes --no-headers 2>/dev/null | awk '{print $2}'' @ [CHR 0x27])\<close>

definition pods_script :: script where
  \<open>pods_script = Raw (''sudo kubectl --kubeconfig /etc/rancher/k3s/k3s.yaml get pods -n kube-system --no-headers 2>/dev/null | awk '{print $1, $3}'' @ [CHR 0x27])\<close>

definition runInfraReady :: "string \<Rightarrow> infraFlags \<Rightarrow> unit res prog" where
  \<open>runInfraReady ip f =
     tryP (Wrapf ''ssh connect: %w'' []) (connectSSH (sshClient ip (ifUser f) (ifPort f) f)) (\<lambda>c.
     deferClose c (
     tryP (Wrapf ''k3s check failed: %w'' []) (k3sCheck c) (\<lambda>_.
     bind (sshRun c nodes_script) (\<lambda>(out, _).
     if trimSpace out = '''' then fail (Errorf ''no nodes found'' [])
     else bind (sshRun c pods_script) (\<lambda>_.
       if list_all (\<lambda>s. s = ''Ready'') (splitOn CHR 0x0A (trimSpace out)) then okP
       else fail (Errorf ''cluster not ready: some nodes are not Ready'' []))))))\<close>

section \<open>Adopting a node\<close>

record nodeAdoptInfo =
  naHostname :: string
  naOsInfo :: string
  naArch :: string
  naHasDocker :: bool
  naHasK3s :: bool
  naContainers :: nat
  naServices :: "string list"

definition installed :: "string \<Rightarrow> bool" where
  "installed v \<longleftrightarrow> \<not> containsStr v ''not-installed'' \<and> v \<noteq> ''''"

definition hardeningCheck :: "conn \<Rightarrow> string res prog" where
  \<open>hardeningCheck c =
     (let checks = [(''sudo systemctl is-active nftables --quiet && echo 'nftables: OK' || echo 'nftables: MISSING'' @ [CHR 0x27]), ''if sudo nft list table inet filter 2>/dev/null | grep -q 'set allow4'; then echo 'allowlist: installed'; sudo nft list table inet filter 2>/dev/null | grep -q 'ip saddr @allow4 accept' && echo 'allowlist-gate4: OK' || echo 'allowlist-gate4: MISSING'; sudo nft list table inet filter 2>/dev/null | grep -q 'ip6 saddr @allow6 accept' && echo 'allowlist-gate6: OK' || echo 'allowlist-gate6: MISSING'; else echo 'allowlist: not installed'; sudo nft list table inet filter 2>/dev/null | grep -q 'tcp dport 6443' && echo 'nftables-6443: OK' || echo 'nftables-6443: MISSING'; sudo nft list table inet filter 2>/dev/null | grep -q 'tcp dport 22' && echo 'nftables-22: OK' || echo 'nftables-22: MISSING'; fi'', (''sudo systemctl is-active fail2ban --quiet && echo 'fail2ban: OK' || echo 'fail2ban: MISSING'' @ [CHR 0x27]), (''sudo systemctl is-active ssh 2>/dev/null || sudo systemctl is-active sshd --quiet && echo 'sshd: OK' || echo 'sshd: MISSING'' @ [CHR 0x27]), (''sudo grep -q '^PasswordAuthentication no' /etc/ssh/sshd_config && echo 'pw-auth: OK' || echo 'pw-auth: FAIL'' @ [CHR 0x27]), (''sudo grep -q '^PermitRootLogin no' /etc/ssh/sshd_config && echo 'root-login: OK' || echo 'root-login: FAIL'' @ [CHR 0x27]), (''sudo grep -q '^MaxAuthTries 3' /etc/ssh/sshd_config && echo 'max-auth-tries: OK' || echo 'max-auth-tries: FAIL'' @ [CHR 0x27]), (''sudo systemctl is-active auditd --quiet 2>/dev/null && echo 'auditd: OK' || echo 'auditd: MISSING'' @ [CHR 0x27]), (''command -v lynis &>/dev/null && echo 'lynis: OK' || echo 'lynis: MISSING'' @ [CHR 0x27]), (''command -v usg &>/dev/null && echo 'usg: OK' || echo 'usg: MISSING'' @ [CHR 0x27])]
      in runE c (Raw (concat (map (\<lambda>s. s @ ''; '') checks))) (wrapE ''check: %w'' []))\<close>

definition collectNodeInfo :: "conn \<Rightarrow> nodeAdoptInfo prog" where
  \<open>collectNodeInfo c =
     bind (sshRun c (Raw (''hostname 2>/dev/null | tr -d '
'' @ [CHR 0x27]))) (\<lambda>(hostname, _).
     bind (sshRun c (Raw ''(. /etc/os-release 2>/dev/null && echo "$ID $VERSION_ID") || echo "unknown"'')) (\<lambda>(os, _).
     bind (sshRun c (Raw (''uname -m 2>/dev/null | tr -d '
'' @ [CHR 0x27]))) (\<lambda>(arch, _).
     bind (sshRun c (Raw ''docker --version 2>/dev/null || echo "not-installed"'')) (\<lambda>(docker, _).
     bind (sshRun c (Raw ''k3s --version 2>/dev/null | head -1 || echo "not-installed"'')) (\<lambda>(k3s, _).
     bind (sshRun c (Raw ''docker ps --format '{{.Names}}' 2>/dev/null | head -20 || true'')) (\<lambda>(containers, _).
     bind (ListServices c) (\<lambda>services.
     bind (hardeningCheck c) (\<lambda>_.
     Ret \<lparr>naHostname = trimSpace hostname, naOsInfo = trimSpace os, naArch = arch,
       naHasDocker = installed (trimSpace docker), naHasK3s = installed (trimSpace k3s),
       naContainers = length (filter (\<lambda>l. trimSpace l \<noteq> '''') (splitOn CHR 0x0A (trimSpace containers))),
       naServices = (case services of Inl e \<Rightarrow> [] | Inr s \<Rightarrow> s)\<rparr>))))))))\<close>

definition resolveAdoptMode :: "nodeAdoptInfo \<Rightarrow> string \<Rightarrow> string" where
  "resolveAdoptMode info mode =
     (if mode \<noteq> '''' then mode
      else if naHasK3s info then ''k3s'' else if naHasDocker info then ''docker'' else ''bare'')"

definition promptAdoptConfirmation :: "bool prog" where
  "promptAdoptConfirmation = Do Scanln (\<lambda>a. Ret (aOut a \<noteq> ''n'' \<and> aOut a \<noteq> ''N'' \<and> aOut a \<noteq> ''no''))"

definition adoptedNode :: "string \<Rightarrow> infraFlags \<times> string \<times> nodeAdoptInfo \<Rightarrow> nodeConfig list \<Rightarrow> nodeConfig list" where
  "adoptedNode ip p ns = (case p of (f, mode, info) \<Rightarrow>
     upsert (\<lambda>n. ncIP n = ip)
       (\<lambda>n. n\<lparr>ncMode := mode, ncHostname := naHostname info, ncArch := naArch info,
              ncUser := (if ncUser n = '''' then ifUser f else ncUser n)\<rparr>)
       \<lparr>ncIP = ip, ncUser = ifUser f, ncKey = ifKey f, ncPort = ifPort f, ncMode = mode, ncRole = ''server'',
        ncArch = naArch info, ncHostname = naHostname info\<rparr> ns)"

definition registerAdoptedNode :: "string \<Rightarrow> infraFlags \<Rightarrow> string \<Rightarrow> nodeAdoptInfo \<Rightarrow> unit res prog" where
  "registerAdoptedNode ip f mode info =
     tryP (Wrapf ''load config: %w'' []) loadNodes (\<lambda>ns.
     tryP (Wrapf ''save config: %w'' []) (saveNodes (adoptedNode ip (f, mode, info) ns)) (\<lambda>_. okP))"

primrec recordServices :: "conn \<Rightarrow> string \<Rightarrow> string \<Rightarrow> string list \<Rightarrow> unit prog" where
  "recordServices c ip mode [] = Ret ()"
| "recordServices c ip mode (svc # svcs) =
     bind (ServiceStatus c svc) (\<lambda>(s, _).
     bind (stateRecord ''service'' svc ip ''adopted'' mode
       (if s \<noteq> '''' \<and> \<not> containsStr s ''running'' \<and> \<not> containsStr s ''type:'' then ''unknown'' else ''ok'') None) (\<lambda>_.
     recordServices c ip mode svcs))"

definition syncAdoptedState :: "conn \<Rightarrow> string \<Rightarrow> string \<Rightarrow> nodeAdoptInfo \<Rightarrow> unit prog" where
  "syncAdoptedState c ip mode info = (if naHasDocker info then recordServices c ip mode (naServices info) else Ret ())"

definition runInfraAdopt :: "string \<Rightarrow> infraFlags \<Rightarrow> bool \<Rightarrow> string \<Rightarrow> unit res prog" where
  "runInfraAdopt ip f forced adoptMode =
     tryP (Wrapf ''ssh %s: %w'' [Str ip]) (connectSSH (sshClient ip (ifUser f) (ifPort f) f)) (\<lambda>c.
     deferClose c (
     bind (collectNodeInfo c) (\<lambda>info.
     let mode = resolveAdoptMode info adoptMode in
     bind (if forced then Ret True else promptAdoptConfirmation) (\<lambda>go.
     if \<not> go then okP
     else tryP id (registerAdoptedNode ip f mode info) (\<lambda>_.
       bind (syncAdoptedState c ip mode info) (\<lambda>_. okP))))))"

interpretation joined: keyed ncIP
  "\<lambda>ip p n. case p of (f :: infraFlags, arch) \<Rightarrow> n\<lparr>ncRole := ''agent'', ncArch := arch\<rparr>"
  "\<lambda>ip p. case p of (f, arch) \<Rightarrow> zeroNode\<lparr>ncIP := ip, ncUser := ifUser f, ncKey := ifKey f, ncPort := ifPort f,
     ncMode := ifMode f, ncRole := ''agent'', ncArch := arch\<rparr>"
  joinedNode
  by unfold_locales (auto simp: joinedNode_def zeroNode_def split: prod.splits)

interpretation adopted: keyed ncIP
  "\<lambda>ip p n. case p of (f :: infraFlags, mode, info :: nodeAdoptInfo) \<Rightarrow>
     n\<lparr>ncMode := mode, ncHostname := naHostname info, ncArch := naArch info,
       ncUser := (if ncUser n = [] then ifUser f else ncUser n)\<rparr>"
  "\<lambda>ip p. case p of (f, mode, info) \<Rightarrow>
     \<lparr>ncIP = ip, ncUser = ifUser f, ncKey = ifKey f, ncPort = ifPort f, ncMode = mode, ncRole = ''server'',
      ncArch = naArch info, ncHostname = naHostname info\<rparr>"
  adoptedNode
  by unfold_locales (auto simp: adoptedNode_def split: prod.splits)

section \<open>Removal\<close>

definition removeScripts :: "string list" where
  "removeScripts = [''k3s-uninstall.sh'', ''/usr/local/bin/k3s-killall.sh'']"

definition runInfraRemoveComponents :: "conn \<Rightarrow> string \<Rightarrow> infraFlags \<Rightarrow> unit prog" where
  \<open>runInfraRemoveComponents c ip f =
     bind (hooksRun c ''pre-remove'' [(''IP'', ip), (''USER'', ifUser f)]) (\<lambda>_.
     bind (execAll c (map (\<lambda>s. Fmt ''test -f %s && %s || true'' [Str s, Str s]) removeScripts @
       [Raw ''apt-get remove -y docker-ce docker-ce-cli containerd.io docker-compose-plugin 2>/dev/null || true'', Raw ''rm -rf /opt/sdk-ops'', Raw ''rm -f /etc/sudoers.d/sdk-ops''])) (\<lambda>_.
     bind (hooksRun c ''post-remove'' [(''IP'', ip), (''USER'', ifUser f)]) (\<lambda>_. Ret ())))\<close>

definition installed_script :: script where
  \<open>installed_script = Raw (''command -v k3s && echo 'k3s: yes' || echo 'k3s: no'; command -v docker && echo 'docker: yes' || echo 'docker: no'' @ [CHR 0x27])\<close>

definition runInfraRemove :: "string \<Rightarrow> infraFlags \<Rightarrow> unit res prog" where
  "runInfraRemove ip f =
     tryP (Wrapf ''ssh connect: %w'' []) (connectSSH (sshClient ip (ifUser f) (ifPort f) f)) (\<lambda>c.
     deferClose c (
     tryP id (runU c installed_script (wrapE ''check installed: %w'' [])) (\<lambda>_.
     Do IsTerminal (\<lambda>t. if aOut t \<noteq> ''yes'' then okP
     else Do Scanln (\<lambda>a. if aOut a \<noteq> ''y'' \<and> aOut a \<noteq> ''Y'' \<and> aOut a \<noteq> ''yes'' then okP
       else bind (runInfraRemoveComponents c ip f) (\<lambda>_. okP))))))"

definition runUninstallScript :: "conn \<Rightarrow> string \<Rightarrow> unit res prog" where
  \<open>runUninstallScript c s = runU c (Raw s) (wrapO ''uninstall: %w
%s'' [])\<close>

definition uninstallOne :: "conn \<Rightarrow> string \<Rightarrow> unit res prog" where
  \<open>uninstallOne c component =
     (if component = ''docker'' then runUninstallScript c ''
sudo systemctl stop docker docker.socket 2>/dev/null || true
sudo systemctl disable docker docker.socket 2>/dev/null || true
DEBIAN_FRONTEND=noninteractive sudo apt-get remove -y -qq docker-ce docker-ce-cli containerd.io docker-buildx-plugin docker-compose-plugin docker-compose-v2 2>/dev/null || true
echo "docker uninstalled (containers/images remain in /var/lib/docker)"
''
      else if component = ''traefik'' then runUninstallScript c ''
sudo docker rm -f traefik 2>/dev/null || true
sudo rm -rf /etc/traefik /opt/traefik /srv/traefik-404
sudo systemctl stop traefik-404 2>/dev/null || true
sudo systemctl disable traefik-404 2>/dev/null || true
sudo rm -f /etc/systemd/system/traefik-404.service
sudo systemctl daemon-reload
echo "traefik uninstalled"
''
      else if component = ''allowlist'' then RemoveAllowlist c
      else if component = ''swap'' then RemoveSwap c
      else if component = ''fail2ban'' then runUninstallScript c ''
sudo systemctl stop fail2ban 2>/dev/null || true
sudo systemctl disable fail2ban 2>/dev/null || true
DEBIAN_FRONTEND=noninteractive sudo apt-get remove -y -qq fail2ban 2>/dev/null || true
echo "fail2ban uninstalled"
''
      else if component = ''node-exporter'' \<or> component = ''node_exporter'' \<or> component = ''monitor'' then runUninstallScript c ''
sudo systemctl stop node_exporter 2>/dev/null || true
sudo systemctl disable node_exporter 2>/dev/null || true
sudo rm -f /etc/systemd/system/node_exporter.service /usr/local/bin/node_exporter
sudo systemctl daemon-reload
echo "node_exporter uninstalled"
''
      else if component = ''k3s'' then runUninstallScript c ''
sudo /usr/local/bin/k3s-uninstall.sh 2>/dev/null || true
sudo /usr/local/bin/k3s-agent-uninstall.sh 2>/dev/null || true
echo "k3s removed (server or agent uninstaller)"''
      else if component = ''security'' then RemoveSecurityWatch c
      else fail (Errorf ''unknown component %q (docker|traefik|allowlist|swap|fail2ban|node-exporter|k3s|security|all)'' [Str component]))\<close>

text \<open>The name that an error quotes is the one given, before \<open>ToLower\<close>.\<close>

definition uninstallComponent :: "conn \<Rightarrow> string \<Rightarrow> unit res prog" where
  "uninstallComponent c component =
     (let name = toLower component in
      if name = ''all'' then eachP (uninstallOne c)
        [''security'', ''allowlist'', ''traefik'', ''swap'', ''node-exporter'', ''fail2ban'', ''docker'', ''k3s'']
      else if name \<in> {''docker'', ''traefik'', ''allowlist'', ''swap'', ''fail2ban'', ''node-exporter'', ''node_exporter'',
                      ''monitor'', ''k3s'', ''security''} then uninstallOne c name
      else uninstallOne c component)"

section \<open>Prerequisites of an operation\<close>

definition precheckNode :: "conn \<Rightarrow> string \<Rightarrow> infraFlags \<Rightarrow> bool \<Rightarrow> unit res prog" where
  \<open>precheckNode c node f needDocker =
     bind (sshRun c (Raw ''systemctl is-active nftables'')) (\<lambda>(active, _).
     tryP id (if trimSpace active \<noteq> ''active''
       then runU c (Raw ''sudo systemctl enable --now nftables 2>/dev/null || true'') (wrapE ''precheck nftables: %w'' []) else okP) (\<lambda>_.
     bind (sshRun c (Raw ''sudo nft list table inet filter 2>/dev/null | grep -q 'set admin4' && echo yes || echo no'')) (\<lambda>(sets, _).
     tryP (Wrapf ''precheck allowlist: %w'' []) (if trimSpace sets \<noteq> ''yes''
       then installAllowlistOnNode c node f AllowlistNormal ''cf'' else okP) (\<lambda>_.
     if \<not> needDocker then okP
     else bind (sshRun c (Raw ''command -v docker >/dev/null 2>&1 && echo yes || echo no'')) (\<lambda>(docker, _).
       if trimSpace docker \<noteq> ''yes'' then tryP (Wrapf ''precheck docker: %w'' []) (dockerInstall c) (\<lambda>_. okP) else okP)))))\<close>

section \<open>Destroying a fleet\<close>

text \<open>The flags of the removal carry no port.\<close>

definition destroyFlags :: "ProvisionFile \<Rightarrow> ProvisionHost \<Rightarrow> infraFlags" where
  "destroyFlags pf h = zeroFlags\<lparr>ifUser := hUser h, ifKey := hSSHKey h, ifMode := pfMode pf\<rparr>"

definition catchErr :: "unit res prog \<Rightarrow> unit res prog" where
  "catchErr p = bind p (\<lambda>r. case r of Inl (Panic m) \<Rightarrow> fail (Panic m) | _ \<Rightarrow> okP)"

definition destroyHost :: "ProvisionFile \<Rightarrow> ProvisionHost \<Rightarrow> unit res prog" where
  "destroyHost pf h =
     (if hProvider h = '''' then okP
      else tryP id (if hHost h \<noteq> '''' then catchErr (runInfraRemove (hHost h) (destroyFlags pf h)) else okP) (\<lambda>_.
        tryP (Wrapf ''host %s: %w'' [Str (hName h)]) (getInfraProvider (hProvider h) '''' (hLocation h) (hProjectID h)) (\<lambda>p.
        deleteProviderVPS p (hName h))))"

definition runDestroy :: "(string \<Rightarrow> string + ProvisionFile) \<Rightarrow> string \<Rightarrow> unit res prog" where
  "runDestroy decode path =
     tryP id (loadFleet decode path) (\<lambda>pf.
     case validateProvision pf of Inl e \<Rightarrow> fail e
     | Inr names \<Rightarrow> eachP (destroyHost pf) (pfHosts pf))"

end
