(* ===== verification/OpsCommands.thy ===== *)
theory OpsCommands imports InfraCommands begin

text \<open>
  The cron stack of the nodes (\<open>cmd/sdk-ops/ops.go\<close>) and the swap commands
  (\<open>cmd/sdk-ops/swap.go\<close>): five managed components, each with its script, units and log;
  apply rewrites a script only when its text differs. The table of components is a Go map,
  so the order of a run over all of them is open. What is printed is not modelled, so the
  errors of single hosts and components disappear here as they do in the program.
\<close>

section \<open>The components\<close>

record opsComponent =
  ocScriptPath :: string
  ocTemplate :: string
  ocUnits :: "string list"
  ocLogFile :: string
  ocTimer :: string
  ocService :: string
  ocRequiresYAML :: bool
  ocInstall :: "conn \<Rightarrow> ProvisionFile option \<Rightarrow> ProvisionHost \<Rightarrow> unit res prog"
  ocRemove :: "conn \<Rightarrow> unit res prog"

text \<open>\<open>resolveHostConfig\<close> dereferences the fleet, which is nil without a fleet file.\<close>

definition withFleet :: "ProvisionFile option \<Rightarrow> (ProvisionFile \<Rightarrow> unit res prog) \<Rightarrow> unit res prog" where
  "withFleet pf body = (case pf of None \<Rightarrow> fail (Panic ''resolveHostConfig: nil fleet'') | Some p \<Rightarrow> body p)"

definition opsComponents :: "opsComponent dict" where
  "opsComponents = [
     (''allowlist'', \<lparr>ocScriptPath = ''/opt/sdk-ops/firewall/allowlist.sh'', ocTemplate = allowlistUpdaterScript,
        ocUnits = [''sdk-ops-allowlist.service'', ''sdk-ops-allowlist.timer''], ocLogFile = ''/var/log/sdk-ops-allowlist.log'',
        ocTimer = ''sdk-ops-allowlist.timer'', ocService = ''sdk-ops-allowlist.service'', ocRequiresYAML = True,
        ocInstall = (\<lambda>c pf h. withFleet pf (\<lambda>p. installAllowlistOn p h)), ocRemove = RemoveAllowlist\<rparr>),
     (''security'', \<lparr>ocScriptPath = ''/opt/sdk-ops/security/watch.sh'', ocTemplate = securityWatchScript,
        ocUnits = [''sdk-ops-security.service'', ''sdk-ops-security.timer''], ocLogFile = ''/var/log/sdk-ops-security.log'',
        ocTimer = ''sdk-ops-security.timer'', ocService = ''sdk-ops-security.service'', ocRequiresYAML = False,
        ocInstall = (\<lambda>c pf h. withFleet pf (\<lambda>p. let r = resolveHostConfig p h in
          InstallSecurityWatch c \<lparr>swcEnabled = secEnabled (rhSecurity r), swcThreshold = secThreshold (rhSecurity r)\<rparr>)),
        ocRemove = RemoveSecurityWatch\<rparr>),
     (''state'', \<lparr>ocScriptPath = ''/opt/sdk-ops/firewall/state_watch.sh'', ocTemplate = stateWatchScript,
        ocUnits = [''sdk-ops-state.service'', ''sdk-ops-state.timer''], ocLogFile = ''/var/log/sdk-ops-state.log'',
        ocTimer = ''sdk-ops-state.timer'', ocService = ''sdk-ops-state.service'', ocRequiresYAML = False,
        ocInstall = (\<lambda>c pf h. InstallStateWatch c), ocRemove = RemoveStateWatch\<rparr>),
     (''traefik'', \<lparr>ocScriptPath = ''/opt/sdk-ops/traefik/watch.sh'', ocTemplate = traefikWatchScript,
        ocUnits = [''sdk-ops-traefik.service'', ''sdk-ops-traefik.timer''], ocLogFile = ''/var/log/sdk-ops-traefik.log'',
        ocTimer = ''sdk-ops-traefik.timer'', ocService = ''sdk-ops-traefik.service'', ocRequiresYAML = False,
        ocInstall = (\<lambda>c pf h. InstallTraefikWatch c), ocRemove = RemoveTraefikWatch\<rparr>),
     (''logrotate'', \<lparr>ocScriptPath = ''/etc/logrotate.d/sdk-ops'', ocTemplate = logRotationConfig,
        ocUnits = [], ocLogFile = ''/etc/logrotate.d/sdk-ops'', ocTimer = '''', ocService = '''', ocRequiresYAML = False,
        ocInstall = (\<lambda>c pf h. InstallLogRotation c), ocRemove = RemoveLogRotation\<rparr>)]"

definition trimEOL :: "string \<Rightarrow> string" where
  "trimEOL s = rev (dropWhile (\<lambda>c. c = CHR 0x0D \<or> c = CHR 0x0A) (rev s))"

definition scriptNeedsUpdate :: "string \<Rightarrow> string \<Rightarrow> bool" where
  "scriptNeedsUpdate remote template \<longleftrightarrow> trimEOL remote \<noteq> trimEOL template"

primrec knownParts :: "string list \<Rightarrow> string list res" where
  "knownParts [] = Inr []"
| "knownParts (p # ps) =
     (if mget opsComponents (trimSpace p) = None
      then Inl (Errorf ''unknown component %q (allowlist, security, state, traefik, logrotate)'' [Str (trimSpace p)])
      else case knownParts ps of Inl e \<Rightarrow> Inl e | Inr ns \<Rightarrow> Inr (trimSpace p # ns))"

definition parseOpsComponents :: "string \<Rightarrow> string list res prog" where
  "parseOpsComponents raw =
     (if trimSpace raw = '''' then bind (mapOrder (keys opsComponents)) (\<lambda>ns. Ret (Inr ns))
      else Ret (knownParts (splitOn CHR '','' raw)))"

section \<open>Where a command works\<close>

definition opsTargets :: "ProvisionFile option \<Rightarrow> string \<Rightarrow> infraFlags \<Rightarrow> (ProvisionHost list \<times> ProvisionFile option) res" where
  "opsTargets pf node f =
     (case pf of
        Some p \<Rightarrow>
          if node = '''' then Inr (pfHosts p, pf)
          else (case List.find (\<lambda>h. hHost h = node) (pfHosts p) of
            Some h \<Rightarrow> Inr ([h], pf)
          | None \<Rightarrow> Inl (Errorf ''node %s not found in the fleet YAML'' [Str node]))
      | None \<Rightarrow>
          if node = '''' then Inl (Errorf ''need --provision-yaml or --node'' [])
          else Inr ([zeroHost\<lparr>hName := node, hHost := node, hUser := ifUser f, hSSHKey := ifKey f, hPort := ifPort f\<rparr>], None))"

definition opsConnect :: "ProvisionHost \<Rightarrow> infraFlags \<Rightarrow> conn res prog" where
  "opsConnect h f = infraConnect (hHost h) (f\<lparr>ifUser := over_string (ifUser f) (hUser h),
     ifKey := over_string (ifKey f) (hSSHKey h), ifPort := orInt (hPort h) (ifPort f)\<rparr>)"

definition loadOpsProvision :: "(string \<Rightarrow> string + ProvisionFile) \<Rightarrow> string \<Rightarrow> ProvisionFile option res prog" where
  "loadOpsProvision decode path =
     (let w = Wrapf ''ops --provision-yaml: %w'' [] in
      if path = '''' then Ret (Inr None)
      else tryP w (readFile path) (\<lambda>text.
        case decode text of Inl m \<Rightarrow> fail (w (Ext m))
        | Inr pf \<Rightarrow> (case validateProvision pf of Inl e \<Rightarrow> fail (w e) | Inr names \<Rightarrow> Ret (Inr (Some pf)))))"

text \<open>
  The shape of the commands: load the fleet, resolve the targets, work on every host that
  can be reached. An error of a host is printed; only a panic ends the loop. The session is
  closed at the end of the body, not by a \<open>defer\<close>.
\<close>

definition onTarget :: "infraFlags \<Rightarrow> (conn \<Rightarrow> unit res prog) \<Rightarrow> ProvisionHost \<Rightarrow> unit res prog" where
  "onTarget f body h = bind (opsConnect h f) (\<lambda>r. case r of
     Inl e \<Rightarrow> okP | Inr c \<Rightarrow> tryP id (body c) (\<lambda>_. Do (Close c) (\<lambda>_. okP)))"

definition onTargets :: "(string \<Rightarrow> string + ProvisionFile) \<Rightarrow> string \<Rightarrow> string \<Rightarrow> infraFlags \<Rightarrow>
    (conn \<Rightarrow> ProvisionFile option \<Rightarrow> ProvisionHost \<Rightarrow> unit res prog) \<Rightarrow> unit res prog" where
  "onTargets decode path node f body =
     tryP id (loadOpsProvision decode path) (\<lambda>pf0.
     case opsTargets pf0 node f of Inl e \<Rightarrow> fail e
     | Inr (hosts, pf) \<Rightarrow> eachP (\<lambda>h. onTarget f (\<lambda>c. body c pf h) h) hosts)"

section \<open>The commands\<close>

definition cat_script :: "opsComponent \<Rightarrow> script" where
  "cat_script k = Raw (''cat '' @ ocScriptPath k @ '' 2>/dev/null || true'')"

definition stopUnits :: "conn \<Rightarrow> opsComponent \<Rightarrow> unit prog" where
  "stopUnits c k = (if ocUnits k = [] then Ret ()
     else execP c (Raw (''sudo systemctl stop '' @ joinWith '' '' (ocUnits k) @ '' 2>/dev/null || true'')))"

definition applyComponent :: "conn \<Rightarrow> ProvisionFile option \<Rightarrow> ProvisionHost \<Rightarrow> opsComponent \<Rightarrow> unit res prog" where
  "applyComponent c pf h k =
     (if ocRequiresYAML k \<and> pf = None then okP
      else bind (sshRun c (cat_script k)) (\<lambda>(remote, _).
        if \<not> scriptNeedsUpdate remote (ocTemplate k) then okP
        else bind (stopUnits c k) (\<lambda>_. catchErr (ocInstall k c pf h))))"

definition opsApplyOn :: "string list \<Rightarrow> conn \<Rightarrow> ProvisionFile option \<Rightarrow> ProvisionHost \<Rightarrow> unit res prog" where
  "opsApplyOn want c pf h =
     eachP (\<lambda>n. case mget opsComponents n of None \<Rightarrow> okP | Some k \<Rightarrow> applyComponent c pf h k) want"

text \<open>The components are parsed after the fleet is loaded and before the targets are resolved.\<close>

definition opsApply :: "(string \<Rightarrow> string + ProvisionFile) \<Rightarrow> string \<Rightarrow> string \<Rightarrow> string \<Rightarrow> infraFlags \<Rightarrow> unit res prog" where
  "opsApply decode path node components f =
     tryP id (loadOpsProvision decode path) (\<lambda>pf0.
     tryP id (parseOpsComponents components) (\<lambda>want.
     case opsTargets pf0 node f of Inl e \<Rightarrow> fail e
     | Inr (hosts, pf) \<Rightarrow> eachP (\<lambda>h. onTarget f (\<lambda>c. opsApplyOn want c pf h) h) hosts))"

definition run_script :: "opsComponent \<Rightarrow> script" where
  "run_script k = Raw (''sudo systemctl start '' @ ocService k @ '' 2>&1; sudo systemctl is-active '' @ ocService k @ '' 2>/dev/null || true'')"

definition enable_script :: "bool \<Rightarrow> opsComponent \<Rightarrow> script" where
  "enable_script on k = Raw (''sudo systemctl '' @ (if on then ''enable'' else ''disable'') @ '' --now '' @ ocTimer k @
     '' 2>&1; systemctl is-active '' @ ocTimer k @ '' 2>/dev/null || true'')"

definition knownComponent :: "string \<Rightarrow> opsComponent res prog" where
  "knownComponent name = (case mget opsComponents name of Some k \<Rightarrow> Ret (Inr k)
     | None \<Rightarrow> fail (Errorf ''unknown component %q'' [Str name]))"

definition opsRun :: "(string \<Rightarrow> string + ProvisionFile) \<Rightarrow> string \<Rightarrow> string \<Rightarrow> string \<Rightarrow> infraFlags \<Rightarrow> unit res prog" where
  "opsRun decode path node name f =
     tryP id (knownComponent name) (\<lambda>k.
     if ocService k = '''' then fail (Errorf ''component %q has no service to run'' [Str name])
     else onTargets decode path node f (\<lambda>c pf h. bind (execP c (run_script k)) (\<lambda>_. okP)))"

definition opsEnable :: "bool \<Rightarrow> (string \<Rightarrow> string + ProvisionFile) \<Rightarrow> string \<Rightarrow> string \<Rightarrow> string \<Rightarrow> infraFlags \<Rightarrow> unit res prog" where
  "opsEnable on decode path node name f =
     tryP id (knownComponent name) (\<lambda>k.
     if ocTimer k = '''' then fail (Errorf ''component %q has no timer'' [Str name])
     else onTargets decode path node f (\<lambda>c pf h. bind (execP c (enable_script on k)) (\<lambda>_. okP)))"

definition opsRemove :: "(string \<Rightarrow> string + ProvisionFile) \<Rightarrow> string \<Rightarrow> string \<Rightarrow> string \<Rightarrow> infraFlags \<Rightarrow> unit res prog" where
  "opsRemove decode path node name f =
     tryP id (knownComponent name) (\<lambda>k.
     onTargets decode path node f (\<lambda>c pf h. bind (stopUnits c k) (\<lambda>_. catchErr (ocRemove k c))))"

section \<open>Swap\<close>

definition swapUpdate :: "conn \<Rightarrow> unit res prog" where
  "swapUpdate c = tryP id (RemoveSwap c) (\<lambda>_. ApplySwap c)"

definition runSwapSimple :: "string \<Rightarrow> infraFlags \<Rightarrow> (conn \<Rightarrow> unit res prog) \<Rightarrow> unit res prog" where
  "runSwapSimple node f fn = onNode node f fn"

end
