(* ===== verification/RunLemmas.thy ===== *)
theory RunLemmas imports Remote "HOL-Library.Sublist" begin

text \<open>
  Taking the runs of composed programs apart: a successful run of a sequence is a
  concatenation of successful runs of its parts, and the trace of a part is a contiguous
  piece of the whole trace.
\<close>

lemma find_member: "List.find P xs = Some x \<Longrightarrow> x \<in> set xs \<and> P x"
  by (auto simp: find_Some_first)

lemma run_tryP_ok:
  assumes "runs (tryP w p f) t (Inr y)"
  obtains u v x where "t = u @ v" "runs p u (Inr x)" "runs (f x) v (Inr y)"
  using assms unfolding runs_tryP by blast

lemma run_then_ok:
  fixes p :: "unit res prog"
  assumes "runs (tryP w p f) t (Inr y)"
  obtains u v where "t = u @ v" "runs p u (Inr ())" "runs (f ()) v (Inr y)"
  using assms unfolding runs_tryP by auto

lemma run_bind:
  assumes "runs (bind p f) t r"
  obtains u v x where "t = u @ v" "runs p u x" "runs (f x) v r"
  using assms unfolding runs_bind by blast

lemma run_ssh:
  assumes "runs (bind (sshRun c s) (\<lambda>(out, e). f out e)) t r"
  obtains a out e v where "t = (Exec c s, a) # v" "runResult s a = (out, e)" "runs (f out e) v r"
proof -
  from assms obtain u v x where u: "t = u @ v" "runs (sshRun c s) u x" "runs (case x of (out, e) \<Rightarrow> f out e) v r"
    by (rule run_bind)
  from u(2) obtain a where a: "u = [(Exec c s, a)]" "x = runResult s a" by (auto simp: runs_sshRun)
  obtain out e where x: "x = (out, e)" by fastforce
  show ?thesis
  proof (rule that)
    show "t = (Exec c s, a) # v" using u(1) a(1) by simp
    show "runResult s a = (out, e)" using a(2) x by simp
    show "runs (f out e) v r" using u(3) x by simp
  qed
qed

lemma sublist_parts: "sublist w v \<Longrightarrow> sublist w (u @ v @ z)"
proof -
  assume "sublist w v"
  then obtain x y where "v = x @ w @ y" by (auto simp: sublist_def)
  then have "u @ v @ z = (u @ x) @ w @ (y @ z)" by simp
  then show ?thesis unfolding sublist_def by blast
qed

lemma run_eachP_ok:
  "runs (eachP f xs) t (Inr ()) \<Longrightarrow> x \<in> set xs \<Longrightarrow> \<exists>u. runs (f x) u (Inr ()) \<and> sublist u t"
proof (induction xs arbitrary: t)
  case (Cons a xs)
  from Cons.prems(1) obtain u v where t: "t = u @ v" "runs (f a) u (Inr ())" "runs (eachP f xs) v (Inr ())"
    by (auto elim: run_tryP_ok)
  show ?case
  proof (cases "x = a")
    case True
    with t have "runs (f x) u (Inr ()) \<and> sublist u t" by simp
    then show ?thesis by blast
  next
    case False
    with Cons.prems(2) Cons.IH [OF t(3)] obtain w where "runs (f x) w (Inr ())" "sublist w v" by auto
    moreover have "sublist w t" using sublist_parts [of w v u "[]"] t(1) \<open>sublist w v\<close> by simp
    ultimately show ?thesis by blast
  qed
qed simp

lemma sublist_mem: "sublist u t \<Longrightarrow> x \<in> set u \<Longrightarrow> x \<in> set t"
  by (auto simp: sublist_def)

text \<open>Every request of a run was made by one of the parts, in a run of that part.\<close>

lemma tryP_mem:
  assumes "runs (tryP w p f) t r" "x \<in> set t"
  obtains (fst) u s where "runs p u s" "x \<in> set u" "set u \<subseteq> set t"
  | (snd) y u s where "runs (f y) u s" "x \<in> set u" "set u \<subseteq> set t"
  using assms unfolding runs_tryP by auto

lemma bind_mem:
  assumes "runs (bind p f) t r" "x \<in> set t"
  obtains (fst) u s where "runs p u s" "x \<in> set u" "set u \<subseteq> set t"
  | (snd) y u s where "runs (f y) u s" "x \<in> set u" "set u \<subseteq> set t"
  using assms unfolding runs_bind by auto

lemma eachP_mem:
  "runs (eachP f xs) t r \<Longrightarrow> x \<in> set t \<Longrightarrow> \<exists>y \<in> set xs. \<exists>u s. runs (f y) u s \<and> x \<in> set u \<and> set u \<subseteq> set t"
proof (induction xs arbitrary: t r)
  case (Cons a xs)
  from Cons.prems have "runs (tryP id (f a) (\<lambda>_. eachP f xs)) t r" by simp
  from this Cons.prems(2) show ?case
  proof (cases rule: tryP_mem)
    case fst
    then show ?thesis by (meson list.set_intros(1))
  next
    case (snd y u s)
    from Cons.IH [OF snd(1,2)] snd(3) show ?thesis by (meson list.set_intros(2) order_trans)
  qed
qed (simp add: okP_def)

text \<open>A request that a program never makes is not in its runs.\<close>

lemma never_runs: "allreq P p \<Longrightarrow> \<not> P q \<Longrightarrow> runs p t r \<Longrightarrow> (q, a) \<notin> set t"
  using allreq_runs [of P p t r q a] by argo

lemma allreq_callP [prog_intros]: "P q \<Longrightarrow> allreq P (callP q)"
  by (simp add: callP_def split: option.splits)

lemma allreq_askP [prog_intros]: "P q \<Longrightarrow> allreq P (askP q)"
  by (simp add: askP_def split: option.splits)

lemma allreq_mapOrder [prog_intros]: "(\<And>n. P (MapOrder n)) \<Longrightarrow> allreq P (mapOrder xs)"
proof -
  assume P: "\<And>n. P (MapOrder n)"
  have "allreq P (mapOrderAcc n xs acc)" for n acc
    by (induction n xs acc rule: mapOrderAcc.induct) (auto simp: P Let_def)
  then show ?thesis by (simp add: mapOrder_def)
qed

text \<open>The length of the longest run of a program that makes boundedly many requests.\<close>

primrec bounded :: "nat \<Rightarrow> 'a prog \<Rightarrow> bool" where
  "bounded n (Ret x) = True"
| "bounded n (Do q k) = (case n of 0 \<Rightarrow> False | Suc m \<Rightarrow> \<forall>a. bounded m (k a))"

lemma bounded_mono: "bounded n p \<Longrightarrow> n \<le> m \<Longrightarrow> bounded m p"
proof (induction p arbitrary: n m)
  case (Do q k)
  from Do.prems obtain n' m' where nm: "n = Suc n'" "m = Suc m'" "n' \<le> m'" by (cases n; cases m) auto
  have "bounded m' (k a)" for a using Do.IH [of "k a" n' m'] Do.prems(1) nm by simp
  then show ?case using nm by simp
qed simp

lemma bounded_bind:
  assumes "\<And>x. bounded m (f x)"
  shows "bounded n p \<Longrightarrow> bounded (n + m) (bind p f)"
proof (induction p arbitrary: n)
  case (Ret x)
  show ?case using bounded_mono [OF assms, of "n + m" x] by simp
next
  case (Do q k)
  from Do.prems obtain n' where n: "n = Suc n'" by (cases n) auto
  have "bounded (n' + m) (bind (k a) f)" for a using Do.IH [of "k a" n'] Do.prems n by simp
  then show ?case using n by simp
qed

lemma bounded_runs: "bounded n p \<Longrightarrow> runs p t r \<Longrightarrow> length t \<le> n"
proof (induction p t r arbitrary: n rule: runs.induct)
  case (3 q k q' a t r)
  then obtain m where m: "n = Suc m" by (cases n) auto
  with 3 have "length t \<le> m" by simp
  with m show ?case by simp
qed auto

lemma bounded_basic [simp]: "bounded n (Ret x)" "bounded n (fail e)" "bounded n okP"
  by (simp_all add: fail_def okP_def)

text \<open>Introduction rules for the branches of a program.\<close>

lemma allreq_if: "allreq P p \<Longrightarrow> allreq P q \<Longrightarrow> allreq P (if b then p else q)"
  by simp

lemma allreq_prod: "(\<And>x y. allreq P (f x y)) \<Longrightarrow> allreq P (case z of (x, y) \<Rightarrow> f x y)"
  by (simp split: prod.splits)

lemma allreq_option: "allreq P p \<Longrightarrow> (\<And>x. allreq P (f x)) \<Longrightarrow> allreq P (case z of None \<Rightarrow> p | Some x \<Rightarrow> f x)"
  by (simp split: option.splits)

lemma allreq_sum: "(\<And>e. allreq P (f e)) \<Longrightarrow> (\<And>x. allreq P (g x)) \<Longrightarrow> allreq P (case z of Inl e \<Rightarrow> f e | Inr x \<Rightarrow> g x)"
  by (simp split: sum.splits)

lemma allreq_Do: "P q \<Longrightarrow> (\<And>a. allreq P (k a)) \<Longrightarrow> allreq P (Do q k)"
  by simp

lemma allreq_Ret: "allreq P (Ret x)"
  by simp

lemma allreq_deferReq: "P q \<Longrightarrow> allreq P p \<Longrightarrow> allreq P (deferReq q p)"
  unfolding deferReq_def by (rule allreq_bindI) auto

lemmas allreq_branches = allreq_if allreq_prod allreq_option allreq_sum allreq_Do allreq_Ret allreq_fail allreq_okP allreq_deferReq

section \<open>The run in which every answer is the same\<close>

text \<open>Used to exhibit runs: \<open>steady a p\<close> is the result of \<open>p\<close> and \<open>calls a p\<close> its requests when all answers are \<open>a\<close>.\<close>

primrec steady :: "answer \<Rightarrow> 'a prog \<Rightarrow> 'a" where
  "steady a (Ret x) = x"
| "steady a (Do q k) = steady a (k a)"

primrec calls :: "answer \<Rightarrow> 'a prog \<Rightarrow> req list" where
  "calls a (Ret x) = []"
| "calls a (Do q k) = q # calls a (k a)"

lemma steady_runs: "runs p (map (\<lambda>q. (q, a)) (calls a p)) (steady a p)"
  by (induction p) auto

named_theorems steady_simps \<open>computing with constant answers\<close>

lemma steady_bind [steady_simps]: "steady a (bind p f) = steady a (f (steady a p))"
  by (induction p) auto

lemma calls_bind [steady_simps]: "calls a (bind p f) = calls a p @ calls a (f (steady a p))"
  by (induction p) auto

lemma steady_tryP [steady_simps]:
  "steady a (tryP w p f) = (case steady a p of Inl e \<Rightarrow> Inl (wrapErr w e) | Inr x \<Rightarrow> steady a (f x))"
  by (simp add: tryP_def steady_bind fail_def split: sum.splits)

lemma calls_tryP [steady_simps]:
  "calls a (tryP w p f) = calls a p @ (case steady a p of Inl e \<Rightarrow> [] | Inr x \<Rightarrow> calls a (f x))"
  by (simp add: tryP_def calls_bind fail_def split: sum.splits)

lemma steady_small [steady_simps]:
  "steady a (sshRun c s) = runResult s a" "steady a (fail e) = Inl e" "steady a okP = Inr ()"
  "steady a nowP = aOut a" "steady a (getenv k) = aOut a" "steady a (execP c s) = ()"
  by (simp_all add: sshRun_def fail_def okP_def nowP_def getenv_def)

lemma calls_small [steady_simps]:
  "calls a (sshRun c s) = [Exec c s]" "calls a (fail e) = []" "calls a okP = []"
  "calls a nowP = [Now]" "calls a (getenv k) = [Getenv k]" "calls a (execP c s) = [Exec c s]"
  by (simp_all add: sshRun_def fail_def okP_def nowP_def getenv_def execP_def calls_bind split: prod.splits)

lemma steady_ok [steady_simps]:
  "steady (ok_out x) (runE c s w) = Inr x" "steady (ok_out x) (runU c s w) = Inr ()"
  "steady (ok_out x) (connectSSH c) = Inr c" "steady (ok_out x) (readFile f) = Inr x"
  "steady (ok_out x) (sshRunStream c s) = Inr ()" "steady (ok_out x) (writeFile f d) = Inr ()"
  by (simp_all add: runE_def runU_def connectSSH_def readFile_def writeFile_def sshRunStream_def steady_simps runResult_ok)
    (simp_all add: ok_out_def steady_simps)

lemma steady_close [steady_simps]:
  "steady a (deferClose c p) = steady a p" "calls a (deferClose c p) = calls a p @ [Close c]"
  by (simp_all add: deferClose_def steady_simps)

lemma calls_in_bind: "q \<in> set (calls a (f (steady a p))) \<Longrightarrow> q \<in> set (calls a (bind p f))"
  by (simp add: calls_bind)

lemma calls_in_tryP: "steady a p = Inr x \<Longrightarrow> q \<in> set (calls a (f x)) \<Longrightarrow> q \<in> set (calls a (tryP w p f))"
  by (simp add: calls_tryP)

lemma calls_in_close: "q \<in> set (calls a p) \<Longrightarrow> q \<in> set (calls a (deferClose c p))"
  by (simp add: steady_close)

lemma calls_first: "q \<in> set (calls a p) \<Longrightarrow> q \<in> set (calls a (bind p f))"
  by (simp add: calls_bind)

end
