(* ===== verification/ClusterProps.thy ===== *)
theory ClusterProps imports OpsCommands FleetValidateProps RunLemmas begin

text \<open>
  The k3s cluster of a fleet: one host boots it and all others start as docker nodes, the
  join reports success only for a complete cluster, and a second provisioning of the same
  fleet is refused by the markers the first one left.
\<close>

section \<open>The host that boots\<close>

lemma find_distinct_name:
  "distinct (map hName hs) \<Longrightarrow> h \<in> set hs \<Longrightarrow> List.find (\<lambda>x. hName x = hName h) hs = Some h"
  by (induction hs) (auto simp: image_iff)

lemma roles_declared: "pfMode pf = ''k3s'' \<Longrightarrow> k3sRolesDeclared pf \<longleftrightarrow> (\<exists>h \<in> set (pfHosts pf). hRole h \<noteq> '''')"
  by (simp add: k3sRolesDeclared_def list_ex_iff)

lemma role_of_member:
  assumes "pfMode pf = ''k3s''" "distinct (map hName (pfHosts pf))" "h \<in> set (pfHosts pf)"
  shows "k3sRoleOf pf (hName h) =
    (if k3sRolesDeclared pf then (if hRole h \<noteq> '''' then hRole h else ''agent'') else '''')"
  by (simp add: k3sRoleOf_def find_distinct_name [OF assms(2,3)])

lemma first_server:
  assumes "roles_good pf" "pfMode pf = ''k3s''" "pfHosts pf \<noteq> []" "k3sRolesDeclared pf \<or> pfK3sHA pf"
  obtains s where "k3sFirstServerHost pf = Some s" "s \<in> set (pfHosts pf)"
    "hRole s = ''server'' \<or> \<not> k3sRolesDeclared pf"
proof (cases "List.find (\<lambda>h. hRole h = ''server'') (pfHosts pf)")
  case (Some s)
  then have "k3sFirstServerHost pf = Some s" by (simp add: k3sFirstServerHost_def)
  with find_member [OF Some] that show ?thesis by blast
next
  case None
  then have no: "\<forall>h \<in> set (pfHosts pf). hRole h \<noteq> ''server''" by (auto simp: find_None_iff)
  then have "servers_of (pfHosts pf) = []" by (simp add: servers_of_def)
  with assms(1,2) have nd: "\<not> k3sRolesDeclared pf" by (auto simp: roles_good_def roles_declared)
  with assms obtain s hs where "pfHosts pf = s # hs" by (cases "pfHosts pf") auto
  with None nd assms have "k3sFirstServerHost pf = Some s" "s \<in> set (pfHosts pf)"
    by (auto simp: k3sFirstServerHost_def k3sHAServerHost_def)
  with nd that show ?thesis by blast
qed

lemma others_are_docker:
  assumes "roles_good pf" "pfMode pf = ''k3s''" "distinct (map hName (pfHosts pf))"
    "k3sRolesDeclared pf \<or> pfK3sHA pf" "h \<in> set (pfHosts pf)" "\<not> k3sBoots pf h"
  shows "applyK3sTopology f pf h = Ret (f\<lparr>ifMode := ''docker'', ifDisableTraefik := pfK3sDisableTraefik pf\<rparr>)"
proof -
  have "hRole h \<in> {'''', ''server'', ''agent''}" using assms(1,5) by (simp add: roles_good_def)
  then have "k3sRoleOf pf (hName h) \<in> {''server'', ''agent''} \<or> pfK3sHA pf"
    using assms(4) role_of_member [OF assms(2,3,5)] by auto
  with assms(2,6) show ?thesis by (auto simp: applyK3sTopology_def Let_def)
qed


definition k3s_demo :: ProvisionFile where
  "k3s_demo = demo_file\<lparr>pfMode := ''k3s'', pfHosts :=
     [demo_host\<lparr>hGroup := '''', hRole := ''agent''\<rparr>, demo_host\<lparr>hName := ''n2'', hGroup := '''', hRole := ''server''\<rparr>]\<rparr>"

lemma k3s_demo_accepted: "validateProvision k3s_demo = Inr [(''n1'', ''10.0.0.1''), (''n2'', ''10.0.0.1'')]"
  by code_simp

lemma k3s_demo_shape:
  "pfMode k3s_demo = ''k3s''" "distinct (map hName (pfHosts k3s_demo))" "pfHosts k3s_demo \<noteq> []"
  "k3sRolesDeclared k3s_demo"
  by (simp_all add: k3s_demo_def k3sRolesDeclared_def demo_host_def demo_file_def zeroFile_def zeroHost_def)


section \<open>The join\<close>

lemma fleet_ready_ok:
  "runs (fleetReadyLoop n c want ready) t (Inr ()) \<Longrightarrow>
   \<exists>a. (Exec c fleet_ready_script, a) \<in> set t \<and> snd (runResult fleet_ready_script a) = None \<and>
     trimSpace (fst (runResult fleet_ready_script a)) = itoa (int want)"
proof (induction n arbitrary: t ready)
  case (Suc n)
  from Suc.prems obtain a out e v where t: "t = (Exec c fleet_ready_script, a) # v" and o: "runResult fleet_ready_script a = (out, e)"
    and v: "runs (case e of Some err \<Rightarrow> fail err
     | None \<Rightarrow> if trimSpace out = itoa (int want) then okP
         else bind (sleepP 10) (\<lambda>_. fleetReadyLoop n c want (trimSpace out))) v (Inr ())"
    unfolding fleetReadyLoop.simps by (rule run_ssh)
  from v have e: "e = None" by (cases e) auto
  show ?case
  proof (cases "trimSpace out = itoa (int want)")
    case True
    with t o e show ?thesis by auto
  next
    case False
    with v o e obtain w where "v = w" "\<exists>u b. v = (Sleep 10, b) # u \<and> runs (fleetReadyLoop n c want (trimSpace out)) u (Inr ())"
      by (auto simp: runs_bind runs_sleepP)
    then obtain u b where u: "v = (Sleep 10, b) # u" "runs (fleetReadyLoop n c want (trimSpace out)) u (Inr ())" by blast
    from Suc.IH [OF u(2)] show ?thesis unfolding t u(1) by auto
  qed
qed simp

text \<open>The join of the members, once the booting server has given its token.\<close>

definition joinMembers :: "ProvisionFile \<Rightarrow> ProvisionHost list \<Rightarrow> ProvisionHost \<Rightarrow> conn \<Rightarrow> string \<Rightarrow> unit res prog" where
  "joinMembers pf hosts server sc token =
     tryP (Wrapf ''k3s config.yaml on server: %w'' []) (writeK3sConfigYAML sc server pf (pfK3sHA pf)) (\<lambda>_.
     bind (k3sReadyNodeIPs sc) (\<lambda>readyIPs.
     tryP id (eachP (\<lambda>h. if hName h = hName server then okP
                         else k3sJoinFleetHost h server token pf readyIPs) hosts) (\<lambda>_.
     tryP id (waitForFleetReady sc (length hosts)) (\<lambda>_.
     eachP (netTuning pf) hosts))))"

definition withToken :: "conn \<Rightarrow> (string \<Rightarrow> unit res prog) \<Rightarrow> unit res prog" where
  "withToken sc k = bind (sshRun sc token_script) (\<lambda>(out, e). case e of
       Some err \<Rightarrow> fail (Wrapf ''k3s token: %w'' [] err)
     | None \<Rightarrow> if trimSpace out = '''' then fail (Errorf ''k3s token: %!w(<nil>)'' [])
              else k (trimSpace out))"

lemma k3sClusterJoin_parts:
  assumes "pfK3sHA pf \<or> k3sRolesDeclared pf" "k3sFirstServerHost pf = Some server"
  shows "k3sClusterJoin pf hosts = bind (clusterFlags server) (\<lambda>f. withConn (hHost server) f (Wrapf ''ssh to k3s server: %w'' [])
     (\<lambda>sc. withToken sc (joinMembers pf hosts server sc)))"
proof -
  have c: "(\<not> pfK3sHA pf \<and> \<not> k3sRolesDeclared pf) = False" using assms(1) by blast
  show ?thesis
    unfolding k3sClusterJoin_def withToken_def joinMembers_def Let_def c if_False assms(2) option.case ..
qed

lemma withToken_ok:
  assumes "runs (withToken sc k) t (Inr ())"
  obtains a token u where "t = (Exec sc token_script, a) # u" "token \<noteq> ''''" "runs (k token) u (Inr ())"
proof -
  from assms obtain a out e u where t: "t = (Exec sc token_script, a) # u"
    and b: "runs (case e of Some err \<Rightarrow> fail (Wrapf ''k3s token: %w'' [] err)
          | None \<Rightarrow> if trimSpace out = '''' then fail (Errorf ''k3s token: %!w(<nil>)'' [])
                   else k (trimSpace out)) u (Inr ())"
    unfolding withToken_def by (rule run_ssh)
  from b have "trimSpace out \<noteq> ''''" "runs (k (trimSpace out)) u (Inr ())"
    by (auto split: option.splits if_splits)
  with t show ?thesis by (rule that)
qed

lemma join_reaches_members:
  assumes "runs (k3sClusterJoin pf hosts) t (Inr ())"
    and "pfK3sHA pf \<or> k3sRolesDeclared pf" "k3sFirstServerHost pf = Some server"
  obtains sc token x u y where "t = x @ u @ y" "token \<noteq> ''''" "runs (joinMembers pf hosts server sc token) u (Inr ())"
proof -
  from assms(1) obtain f x v where t: "t = x @ v"
    and b: "runs (withConn (hHost server) f (Wrapf ''ssh to k3s server: %w'' []) (\<lambda>sc. withToken sc (joinMembers pf hosts server sc))) v (Inr ())"
    unfolding k3sClusterJoin_parts [OF assms(2,3)] by (rule run_bind)
  from b obtain sc y w z where v: "v = y @ w @ [z]" and k: "runs (withToken sc (joinMembers pf hosts server sc)) w (Inr ())"
    unfolding withConn_def by (elim run_tryP_ok) (auto simp: runs_deferClose)
  from k obtain a token u where w: "w = (Exec sc token_script, a) # u" and tok: "token \<noteq> ''''"
    and r: "runs (joinMembers pf hosts server sc token) u (Inr ())" by (rule withToken_ok)
  have "t = (x @ y @ [(Exec sc token_script, a)]) @ u @ [z]" by (simp add: t v w)
  from that [OF this tok r] show ?thesis .
qed

lemma joinMembers_ok:
  assumes "runs (joinMembers pf hosts server sc token) t (Inr ())"
  obtains ready x u y w where "t = x @ u @ y"
    "runs (eachP (\<lambda>h. if hName h = hName server then okP else k3sJoinFleetHost h server token pf ready) hosts) u (Inr ())"
    "sublist w y" "runs (waitForFleetReady sc (length hosts)) w (Inr ())"
proof -
  let ?join = "\<lambda>ready. eachP (\<lambda>h. if hName h = hName server then okP else k3sJoinFleetHost h server token pf ready) hosts"
  let ?wait = "tryP id (waitForFleetReady sc (length hosts)) (\<lambda>_. eachP (netTuning pf) hosts)"
  from assms obtain a b where t: "t = a @ b"
    and r: "runs (bind (k3sReadyNodeIPs sc) (\<lambda>ready. tryP id (?join ready) (\<lambda>_. ?wait))) b (Inr ())"
    unfolding joinMembers_def by (rule run_then_ok)
  from r obtain ready c d where b: "b = c @ d" and k: "runs (tryP id (?join ready) (\<lambda>_. ?wait)) d (Inr ())" by (rule run_bind)
  from k obtain u y where d: "d = u @ y" and j: "runs (?join ready) u (Inr ())" and w: "runs ?wait y (Inr ())" by (rule run_then_ok)
  from w obtain w' v where y: "y = w' @ v" and w': "runs (waitForFleetReady sc (length hosts)) w' (Inr ())" by (rule run_then_ok)
  have "t = (a @ c) @ u @ y" by (simp add: t b d)
  moreover have "sublist w' y" by (simp add: y)
  ultimately show ?thesis using that j w' by blast
qed


definition demo_member :: ProvisionHost where
  "demo_member = demo_host\<lparr>hName := ''n2'', hGroup := '''', hRole := ''server''\<rparr>"

definition demo_join_run :: trace where
  "demo_join_run = (let c = \<lparr>cHost = ''10.0.0.1'', cUser = ''sdkops'', cPort = 22, cKey = ''''\<rparr> in
     [(Dial c, ok_out ''''), (Exec c token_script, ok_out ''K10token''),
      (Exec c (k3sConfigScript demo_member k3s_demo False), ok_out ''''),
      (Exec c ready_script, ok_out ''''), (Exec c fleet_ready_script, ok_out ''1''),
      (Dial c, ok_out ''''), (Exec c (Fmt offloadScript [Str ''ens19'']), ok_out ''''), (Close c, ok_out ''''), (Close c, ok_out '''')])"

lemma demo_join_facts:
  "k3sFirstServerHost k3s_demo = Some demo_member" "pfK3sHA k3s_demo = False" "pfK3sIface k3s_demo = ''''"
  "clusterFlags demo_member = Ret (zeroFlags\<lparr>ifUser := ''sdkops'', ifPort := 22, ifNoHardening := True\<rparr>)"
  "hHost demo_member = ''10.0.0.1''" "hName demo_member = ''n2''"
  by (simp_all add: k3s_demo_def k3sFirstServerHost_def demo_member_def demo_host_def zeroHost_def demo_file_def zeroFile_def
     clusterFlags_def fleetUser_def hostPort_def zeroFlags_def)

lemma trimSpace_K10: "trimSpace ''K10token'' = ''K10token''" "trimSpace ''1'' = ''1''" 
  by code_simp+

lemma demo_join_run_ok: "runs (k3sClusterJoin k3s_demo [demo_member]) demo_join_run (Inr ())"
  unfolding k3sClusterJoin_def
  by (simp add: demo_join_facts k3s_demo_shape demo_join_run_def Let_def withConn_def infraConnect_def tryP_def
     connectSSH_def sshClient_def zeroFlags_def ok_out_def deferClose_def sshRun_def runResult_def trimSpace_K10
     writeK3sConfigYAML_def runU_def okP_def k3sReadyNodeIPs_def waitForFleetReady_def itoa_eval numeral_eq_Suc
     netTuning_def EnsureNetOffloadsOff_def)


section \<open>The marker of an initialised node\<close>

text \<open>What the initialisation writes into \<open>/opt/sdk-ops/.version\<close>.\<close>

definition markerText :: "string \<Rightarrow> string" where
  "markerText mode = ''sdk-ops-init mode='' @ normalizeProvisionMode mode"

lemma marker_script_text:
  \<open>marker_script mode = Raw (''sudo mkdir -p /opt/sdk-ops/services /opt/sdk-ops/backups /opt/sdk-ops/logs && echo "'' @ markerText mode @
     ''" | sudo tee /opt/sdk-ops/.version > /dev/null'')\<close>
  by (simp add: marker_script_def markerText_def)

lemma marker_fields:
  assumes "\<forall>c \<in> set m. \<not> is_space c"
  shows "goFields (''sdk-ops-init mode='' @ m) = [''sdk-ops-init'', ''mode='' @ m]"
proof -
  have w: "\<forall>c \<in> set ''sdk-ops-init''. \<not> is_space c" "\<forall>c \<in> set (''mode='' @ m). \<not> is_space c"
    using assms by (auto simp: is_space_def)
  have "''sdk-ops-init mode='' @ m = ''sdk-ops-init'' @ CHR '' '' # (''mode='' @ m)" by simp
  moreover have "goFields (''sdk-ops-init'' @ CHR '' '' # (''mode='' @ m)) = ''sdk-ops-init'' # goFields (''mode='' @ m)"
    by (rule goFields_cons) (use w(1) in \<open>simp_all add: is_space_def\<close>)
  moreover have "goFields (''mode='' @ m) = [''mode='' @ m]"
    using w(2) by (intro goFields_word) simp_all
  ultimately show ?thesis by simp
qed

lemma marker_read:
  assumes "\<forall>c \<in> set mode. \<not> is_space c"
  shows "markerState (Some (markerText mode)) = (True, normalizeProvisionMode mode)"
proof -
  have "\<forall>c \<in> set (normalizeProvisionMode mode). \<not> is_space c"
    using assms by (auto simp: normalizeProvisionMode_def is_space_def)
  note f = marker_fields [OF this]
  have "parseInitMarkerMode (markerText mode) = normalizeProvisionMode mode"
    unfolding parseInitMarkerMode_def markerText_def f by (simp add: cutPrefix_def hasPrefix_def)
  moreover have "markerText mode \<noteq> []" "markerText mode \<noteq> ''MISSING''" by (simp_all add: markerText_def)
  ultimately show ?thesis by (simp add: markerState_def)
qed



text \<open>
  A fleet with roles or \<open>k3s_ha\<close> cannot be provisioned again. Every host but the booting one
  is stamped as a docker node by its first initialisation, and the second run, which compares
  that stamp with the mode of the fleet, refuses it as a change of mode, unless the file allows
  one, in which case the whole initialisation runs again.
\<close>

theorem reapply_refuses_members:
  assumes "validateProvision pf = Inr names" "pfMode pf = ''k3s''" "distinct (map hName (pfHosts pf))"
    "k3sRolesDeclared pf \<or> pfK3sHA pf" "h \<in> set (pfHosts pf)" "\<not> k3sBoots pf h"
  shows "\<exists>f'. applyK3sTopology f pf h = Ret f' \<and>
    (let stamped = markerState (Some (markerText (ifMode f'))) in
     if pfAllowModeSwitch pf then initIfNeeded pf h f' stamped = runInfraInitSSH (hHost h) f' (Ret 0)
     else \<exists>e. initIfNeeded pf h f' stamped = fail e)"
proof -
  have good: "roles_good pf" using assms(1) validateProvision_iff by (simp add: fleet_good_def)
  have "\<forall>c \<in> set ''docker''. \<not> is_space c" by (simp add: is_space_def)
  note m = marker_read [OF this]
  show ?thesis
    using others_are_docker [OF good assms(2,3,4,5,6), of f] m assms(2)
    by (auto simp: initIfNeeded_def modeSwitchDecision_def normalizeProvisionMode_def Let_def)
qed

lemma reapply_refuses_members_witness:
  "\<exists>f' e. applyK3sTopology zeroFlags k3s_demo (hd (pfHosts k3s_demo)) = Ret f' \<and>
     initIfNeeded k3s_demo (hd (pfHosts k3s_demo)) f' (markerState (Some (markerText (ifMode f')))) = fail e"
proof -
  let ?h = "hd (pfHosts k3s_demo)"
  have h: "?h \<in> set (pfHosts k3s_demo)" using k3s_demo_shape(3) by simp
  have nb: "\<not> k3sBoots k3s_demo ?h"
    by (simp add: k3sBoots_def demo_join_facts) (simp add: k3s_demo_def demo_host_def zeroHost_def)
  have na: "pfAllowModeSwitch k3s_demo = False" by (simp add: k3s_demo_def demo_file_def zeroFile_def)
  show ?thesis
    using reapply_refuses_members [OF k3s_demo_accepted k3s_demo_shape(1,2) disjI1 [OF k3s_demo_shape(4)] h nb, of zeroFlags]
    unfolding na Let_def if_False by blast
qed

end
