(* ===== verification/ProvisionProps.thy ===== *)
theory ProvisionProps imports OpsCommands RunLemmas begin

text \<open>
  Provisioning a fleet: which hosts the deploy order initialises and when, what the parallel
  waves guarantee, what two initialisations running at once do to the node registry, and how
  long the program waits for servers, sessions and clusters.
\<close>

section \<open>The deploy order\<close>

text \<open>The hosts a step of the deploy order names.\<close>

definition picks :: "DeployStep \<Rightarrow> ProvisionHost \<Rightarrow> bool" where
  "picks s h \<longleftrightarrow> (if dsGroup s \<noteq> '''' then hGroup h = dsGroup s else dsHost s \<noteq> '''' \<and> hName h = dsHost s)"

text \<open>What a wave may add to the hosts \<open>d\<close> that are done.\<close>

definition wave_of :: "(ProvisionHost \<Rightarrow> bool) \<Rightarrow> ProvisionHost list \<Rightarrow> string list \<Rightarrow> ProvisionHost list \<times> string list \<Rightarrow> bool" where
  "wave_of P hs d wd = (case wd of (w, d') \<Rightarrow>
     set w \<subseteq> set hs \<and> distinct (map hName w) \<and> hName ` set w \<inter> set d = {} \<and>
     set d' = set d \<union> hName ` set w \<and> set d \<union> hName ` set w = set d \<union> hName ` {h \<in> set hs. P h})"

lemma groupWave_spec: "wave_of (\<lambda>h. hGroup h = g) hs d (groupWave g hs d)"
proof (induction g hs d rule: groupWave.induct)
  case (2 g h hs d)
  show ?case
  proof (cases "hGroup h = g \<and> hName h \<notin> set d")
    case True
    obtain w d' where g: "groupWave g hs (hName h # d) = (w, d')" by fastforce
    from 2(1) [OF True] g True show ?thesis by (auto simp: wave_of_def)
  next
    case False
    from 2(2) [OF False] False show ?thesis
      by (cases "groupWave g hs d") (auto simp: wave_of_def)
  qed
qed (simp add: wave_of_def)

lemma stepWave_spec: "wave_of (picks s) hs d (stepWave hs s d)"
proof (cases "dsGroup s = ''''")
  case False
  then have "picks s = (\<lambda>h. hGroup h = dsGroup s)" by (auto simp: picks_def)
  then show ?thesis using groupWave_spec [of "dsGroup s" hs d] False by (simp add: stepWave_def)
next
  case g: True
  show ?thesis
  proof (cases "List.find (\<lambda>h. hName h = dsHost s) (rev hs)")
    case None
    then have "{h \<in> set hs. hName h = dsHost s} = {}" by (auto simp: find_None_iff)
    with None g show ?thesis by (auto simp: stepWave_def wave_of_def picks_def)
  next
    case (Some h)
    then have "hName h = dsHost s \<and> h \<in> set (rev hs)" using find_member [OF Some] by simp
  then have h: "hName h = dsHost s" "h \<in> set hs" by simp_all
    with Some g show ?thesis by (auto simp: stepWave_def wave_of_def picks_def)
  qed
qed

lemma waves_spec:
  "set (concat (waves hs ss d)) \<subseteq> set hs \<and> distinct (map hName (concat (waves hs ss d))) \<and>
   hName ` set (concat (waves hs ss d)) \<inter> set d = {} \<and> [] \<notin> set (waves hs ss d) \<and>
   set d \<union> hName ` set (concat (waves hs ss d)) = set d \<union> hName ` {h \<in> set hs. \<exists>s \<in> set ss. picks s h}"
proof (induction ss arbitrary: d)
  case (Cons s ss)
  obtain w d' where s: "stepWave hs s d = (w, d')" by fastforce
  have sp: "set w \<subseteq> set hs" "distinct (map hName w)" "hName ` set w \<inter> set d = {}"
    "set d' = set d \<union> hName ` set w" "set d \<union> hName ` set w = set d \<union> hName ` {h \<in> set hs. picks s h}"
    using stepWave_spec [of s hs d] by (auto simp: wave_of_def s)
  let ?r = "concat (waves hs ss d')"
  have c: "concat (waves hs (s # ss) d) = w @ ?r" by (simp add: s)
  have ih: "set ?r \<subseteq> set hs" "distinct (map hName ?r)" "hName ` set ?r \<inter> set d' = {}" "[] \<notin> set (waves hs ss d')"
    "set d' \<union> hName ` set ?r = set d' \<union> hName ` {h \<in> set hs. \<exists>s \<in> set ss. picks s h}"
    using Cons.IH [of d'] by simp_all
  have all: "hName ` {h \<in> set hs. \<exists>x \<in> set (s # ss). picks x h} =
      hName ` {h \<in> set hs. picks s h} \<union> hName ` {h \<in> set hs. \<exists>x \<in> set ss. picks x h}" by auto
  have "set d \<union> hName ` set (w @ ?r) = set d' \<union> hName ` set ?r" using sp(4) by auto
  also have "\<dots> = set d \<union> hName ` {h \<in> set hs. \<exists>x \<in> set (s # ss). picks x h}"
    unfolding ih(5) all using sp(4,5) by blast
  finally have e: "set d \<union> hName ` set (w @ ?r) = set d \<union> hName ` {h \<in> set hs. \<exists>x \<in> set (s # ss). picks x h}" .
  have disj: "hName ` set w \<inter> hName ` set ?r = {}" "hName ` set (w @ ?r) \<inter> set d = {}"
    using ih(3) sp(3,4) by auto
  have ne: "[] \<notin> set (waves hs (s # ss) d)" using ih(4) by (simp add: s)
  show ?case unfolding c using sp(1,2) ih(1,2) disj e ne by (auto simp: distinct_append)
qed simp

text \<open>
  C23: the deploy order. The waves it yields initialise no host name twice, never an empty
  wave, and exactly the selected hosts that some step names; a host that no step names is
  never initialised, although the later phases run on it all the same.
\<close>

theorem deploy_order_exact:
  "set (concat (waves hosts steps [])) \<subseteq> set hosts \<and>
   distinct (map hName (concat (waves hosts steps []))) \<and> [] \<notin> set (waves hosts steps []) \<and>
   hName ` set (concat (waves hosts steps [])) = hName ` {h \<in> set hosts. \<exists>s \<in> set steps. picks s h}"
  using waves_spec [of hosts steps "[]"] by simp

section \<open>Parallel waves\<close>

lemma hostResult_name: "hostResult h r = Inr x \<Longrightarrow> prName x = hName h \<and> prHost x = hHost h"
  by (auto simp: hostResult_def split: sum.splits goerr.splits)

lemma provisionHost_result: "runs (provisionHost pf h) t (Inr x) \<Longrightarrow> prName x = hName h \<and> prHost x = hHost h"
  unfolding provisionHost_def by (elim run_bind) (auto dest: hostResult_name)

text \<open>
  C16: a wave is its hosts. However the goroutines of a wave interleave, when it ends each
  host has been provisioned by a complete run of its own, whose requests occur in the wave
  in that order, the results stand in the order of the hosts, and a host fails the wave's
  process only by a panic.
\<close>

theorem wave_runs_every_host:
  assumes "runs (provisionWave pf hosts n) t (Inr rs)" "0 < n"
  shows "map prName rs = map hName hosts \<and>
    (\<exists>ts. length ts = length hosts \<and>
      (\<forall>i < length hosts. runs (provisionHost pf (hosts ! i)) (ts ! i) (Inr (rs ! i)) \<and> subseq (ts ! i) t))"
proof -
  obtain ts where p: "parts (map (provisionHost pf) hosts) t ts rs"
    using wave_parts [OF assms(1) [unfolded provisionWave_def] assms(2) refl] by blast
  have i: "i < length hosts \<Longrightarrow> runs (provisionHost pf (hosts ! i)) (ts ! i) (Inr (rs ! i)) \<and> subseq (ts ! i) t" for i
    using p by (simp add: parts_def)
  have l: "length rs = length hosts" "length ts = length hosts" using p by (simp_all add: parts_def)
  have n: "prName (rs ! k) = hName (hosts ! k)" if "k < length hosts" for k
    using provisionHost_result [OF conjunct1 [OF i [OF that]]] by simp
  have "map prName rs = map hName hosts"
  proof (rule nth_equalityI)
    fix k assume "k < length (map prName rs)"
    with l n show "map prName rs ! k = map hName hosts ! k" by simp
  qed (simp add: l)
  with l i show ?thesis by blast
qed

lemma wave_one: "runs p t (Inr x) \<Longrightarrow> 0 < n \<Longrightarrow> \<exists>u. runs (waveP n [p]) u (Inr [x])"
proof (induction p arbitrary: t)
  case (Ret y)
  then have y: "y = Inr x" by simp
  have "waveP n [Ret (Inr x)] = Ret (Inr [x])" by (subst waveP.simps) (simp add: live_def unfinished_def)
  then show ?case unfolding y by (intro exI [of _ "[]"]) simp
next
  case (Do q k)
  obtain a v where t: "t = (q, a) # v" "runs (k a) v (Inr x)" using Do.prems(1) by (auto simp: runs_Do)
  obtain u where u: "runs (waveP n [k a]) u (Inr [x])" using Do.IH [OF _ t(2) Do.prems(2)] by blast
  have l: "live n [Do q k] = [0]" using Do.prems(2) by (cases n) (simp_all add: live_def unfinished_def)
  let ?s = "ok_out ''''"
  have "waveP n [Do q k] = Do (Sched [0]) (\<lambda>s. Do q (\<lambda>a. waveP n [k a]))"
    by (subst waveP.simps) (simp add: l pick_def)
  then have "runs (waveP n [Do q k]) ((Sched [0], ?s) # (q, a) # u) (Inr [x])" using u by simp
  then show ?case by blast
qed

definition demo_dial :: "req \<times> answer" where
  "demo_dial = (Dial \<lparr>cHost = ''10.0.0.1'', cUser = ''sdkops'', cPort = 22, cKey = ''''\<rparr>, failed ''connection refused'')"

lemma demo_host_run:
  "\<exists>e. runs (provisionHost demo_file demo_host) [demo_dial, demo_dial] (Inr \<lparr>prName = ''n1'', prHost = ''10.0.0.1'', prError = Some e\<rparr>)"
proof -
  have s: "hUser demo_host = ''''" "pfMode demo_file = ''docker''" "hHost demo_host = ''10.0.0.1''" "hName demo_host = ''n1''"
    "hPort demo_host = 0" "hSSHKey demo_host = ''''"
    by (simp_all add: demo_host_def demo_file_def zeroHost_def zeroFile_def)
  show ?thesis
    by (intro exI [of _ "Wrapf ''ssh connect: %w'' [] (Ext ''connection refused'')"])
      (simp add: provisionHost_def fleetUser_def s applyK3sTopology_def hostInitState_def hostFlags_def zeroFlags_def
        infraConnect_def tryP_def connectSSH_def sshClient_def portOr22_def demo_dial_def failed_def fail_def Let_def
        initIfNeeded_def runInfraInitSSH_def hostResult_def wrapErr_def)
qed

lemma wave_runs_every_host_witness:
  "\<exists>t rs. runs (provisionWave demo_file [demo_host] 2) t (Inr rs) \<and> map prName rs = [''n1'']"
proof -
  obtain e where "runs (provisionHost demo_file demo_host) [demo_dial, demo_dial]
      (Inr \<lparr>prName = ''n1'', prHost = ''10.0.0.1'', prError = Some e\<rparr>)"
    using demo_host_run by blast
  from wave_one [OF this, of 2] obtain t rs where r: "runs (provisionWave demo_file [demo_host] 2) t (Inr rs)"
    unfolding provisionWave_def by auto
  have "hName demo_host = ''n1''" by (simp add: demo_host_def)
  with wave_runs_every_host [OF r] have "map prName rs = [''n1'']" by simp
  with r show ?thesis by (intro exI [of _ t] exI [of _ rs] conjI)
qed

section \<open>The node registry under parallel initialisations\<close>

text \<open>
  The registry file behind the answers of a run: a read returns what the last write left.
  \<open>cfg_final\<close> is the content after the run.
\<close>

fun cfg_consistent :: "nodeConfig list \<Rightarrow> trace \<Rightarrow> bool" where
  "cfg_consistent ns [] = True"
| "cfg_consistent ns ((LoadConfig, a) # t) = (aErr a = None \<and> aNodes a = ns \<and> cfg_consistent ns t)"
| "cfg_consistent ns ((SaveConfig m, a) # t) = (aErr a = None \<and> cfg_consistent m t)"
| "cfg_consistent ns (x # t) = cfg_consistent ns t"

fun cfg_final :: "nodeConfig list \<Rightarrow> trace \<Rightarrow> nodeConfig list" where
  "cfg_final ns [] = ns"
| "cfg_final ns ((SaveConfig m, a) # t) = cfg_final m t"
| "cfg_final ns (x # t) = cfg_final ns t"

lemma cfg_no_sched: "cfg_consistent ns (no_sched t) = cfg_consistent ns t \<and> cfg_final ns (no_sched t) = cfg_final ns t"
proof (induction t arbitrary: ns)
  case (Cons x t)
  obtain q a where "x = (q, a)" by fastforce
  with Cons show ?case by (cases q) (auto simp: no_sched_def)
qed (simp add: no_sched_def)

lemma cfg_append:
  "cfg_consistent ns (u @ v) \<longleftrightarrow> cfg_consistent ns u \<and> cfg_consistent (cfg_final ns u) v"
  "cfg_final ns (u @ v) = cfg_final (cfg_final ns u) v"
proof (induction u arbitrary: ns)
  case (Cons x u)
  obtain q a where "x = (q, a)" by fastforce
  { case 1 with Cons \<open>x = (q, a)\<close> show ?case by (cases q) auto }
  { case 2 with Cons \<open>x = (q, a)\<close> show ?case by (cases q) auto }
qed simp_all

text \<open>A registration: address, flags, hardening configuration and architecture.\<close>

type_synonym registration = "string \<times> infraFlags \<times> hardConfig \<times> string"

definition register :: "registration \<Rightarrow> unit res prog" where
  "register x = (case x of (ip, f, hc, arch) \<Rightarrow> registerInitNode ip f hc arch)"

definition registered :: "registration list \<Rightarrow> nodeConfig list \<Rightarrow> nodeConfig list" where
  "registered xs ns = fold (\<lambda>(ip, p). registerNode ip p) xs ns"

lemma register_run:
  assumes "runs (register x) t (Inr ())" "cfg_consistent ns t"
  shows "cfg_final ns t = registered [x] ns"
proof -
  obtain ip f hc arch where x: "x = (ip, f, hc, arch)" by (cases x)
  from assms show ?thesis
    by (auto simp: register_def x registerInitNode_def runs_Do registered_def split: option.splits)
qed

lemma registers_run:
  "length ts = length xs \<Longrightarrow> (\<forall>i < length xs. runs (register (xs ! i)) (ts ! i) (Inr ())) \<Longrightarrow>
   cfg_consistent ns (concat ts) \<Longrightarrow> cfg_final ns (concat ts) = registered xs ns"
proof (induction ts xs arbitrary: ns rule: list_induct2)
  case (Cons t ts x xs)
  have x: "runs (register x) t (Inr ())" and xs: "\<forall>i < length xs. runs (register (xs ! i)) (ts ! i) (Inr ())"
    using Cons.prems(1) by (auto simp: All_less_Suc2)
  have c: "cfg_consistent ns t" "cfg_consistent (cfg_final ns t) (concat ts)"
    using Cons.prems(2) by (simp_all add: cfg_append)
  show ?case using Cons.IH [OF xs c(2)] register_run [OF x c(1)] by (simp add: cfg_append registered_def)
qed (simp add: registered_def)

lemma register_sched_free: "allreq sched_free (register x)"
  by (auto simp: register_def registerInitNode_def sched_free_def split: prod.splits option.splits)

text \<open>
  C17: one at a time the registrations are all kept. With \<open>parallel: 1\<close> the registry file ends,
  whatever else happens, as if the nodes had been registered one after the other: all of them
  are in it, and no node that was there before is lost.
\<close>

theorem registry_sequential:
  assumes "runs (waveP 1 (map register xs)) t (Inr rs)" "cfg_consistent ns t"
  shows "cfg_final ns t = registered xs ns \<and>
    fst ` set xs \<union> ncIP ` set ns \<subseteq> ncIP ` set (cfg_final ns t)"
proof -
  have "\<forall>p \<in> set (map register xs). allreq sched_free p" by (simp add: register_sched_free)
  from wave_sequential [OF assms(1) this refl] obtain ts where p: "parts (map register xs) t ts rs"
    and c: "no_sched t = concat ts" by blast
  have "cfg_final ns (concat ts) = registered xs ns"
    using p assms(2) cfg_no_sched [of ns t] by (intro registers_run) (auto simp: parts_def c)
  then have e: "cfg_final ns t = registered xs ns" using cfg_no_sched [of ns t] by (simp add: c)
  have "fst ` set xs \<union> ncIP ` set ns \<subseteq> ncIP ` set (registered xs ns)"
  proof (induction xs arbitrary: ns)
    case (Cons x xs)
    obtain ip q where x: "x = (ip, q)" by (rule prod.exhaust)
    have "ncIP ` set (registerNode ip q ns) = insert ip (ncIP ` set ns)"
      using regnodes.keys_put [of ip q ns] by (metis insert_absorb list.set_map set_append list.simps(15) Un_insert_right empty_set sup_bot_right)
    with Cons.IH [of "registerNode ip q ns"] show ?case by (auto simp: x registered_def)
  qed (simp add: registered_def)
  with e show ?thesis by simp
qed

definition demo_regs :: "registration list" where
  "demo_regs = [(''10.0.0.1'', zeroFlags, hardDefaultConfig, ''x86_64''), (''10.0.0.2'', zeroFlags, hardDefaultConfig, ''x86_64'')]"

definition demo_load :: "nodeConfig list \<Rightarrow> answer" where
  "demo_load ns = (ok_out '''')\<lparr>aNodes := ns\<rparr>"

definition reg_of :: "registration \<Rightarrow> nodeConfig list \<Rightarrow> nodeConfig list" where
  "reg_of x ns = registered [x] ns"

lemma register_Do:
  "register x = Do LoadConfig (\<lambda>a. case aErr a of
       Some m \<Rightarrow> fail (Panic ''registerInitNode: nil configuration'')
     | None \<Rightarrow> Do (SaveConfig (reg_of x (aNodes a))) (\<lambda>_. okP))"
  by (cases x) (auto simp: register_def registerInitNode_def reg_of_def registered_def fun_eq_iff split: option.splits)

definition sched_pick :: "nat list \<Rightarrow> nat \<Rightarrow> req \<times> answer" where
  "sched_pick is i = (Sched is, (ok_out '''')\<lparr>aPick := i\<rparr>)"

text \<open>Both read, then both write.\<close>

definition race_run :: "registration \<Rightarrow> registration \<Rightarrow> trace" where
  "race_run x y =
     [sched_pick [0, 1] 0, (LoadConfig, demo_load []), sched_pick [0, 1] 1, (LoadConfig, demo_load []),
      sched_pick [0, 1] 0, (SaveConfig (reg_of x []), ok_out ''''),
      sched_pick [1] 0, (SaveConfig (reg_of y []), ok_out '''')]"

text \<open>And one after the other.\<close>

definition seq_run :: "registration \<Rightarrow> registration \<Rightarrow> trace" where
  "seq_run x y =
     [sched_pick [0] 0, (LoadConfig, demo_load []), sched_pick [0] 0, (SaveConfig (reg_of x []), ok_out ''''),
      sched_pick [1] 0, (LoadConfig, demo_load (reg_of x [])),
      sched_pick [1] 0, (SaveConfig (reg_of y (reg_of x [])), ok_out '''')]"

lemmas wave_eval = waveP.simps live_def unfinished_def pick_def upt_conv_Cons sched_pick_def demo_load_def ok_out_def

lemma race_run_ok: "runs (waveP 2 [register x, register y]) (race_run x y) (Inr [(), ()])"
  by (simp add: race_run_def register_Do wave_eval okP_def numeral_2_eq_2)

lemma seq_run_ok: "runs (waveP 1 [register x, register y]) (seq_run x y) (Inr [(), ()])"
  by (simp add: seq_run_def register_Do wave_eval okP_def)

lemma reg_of_ips:
  "map ncIP (reg_of x []) = [fst x]" "fst x \<noteq> fst y \<Longrightarrow> map ncIP (reg_of y (reg_of x [])) = [fst x, fst y]"
proof -
  obtain a p b q where x: "x = (a, p)" "y = (b, q)" by (cases x, cases y)
  show "map ncIP (reg_of x []) = [fst x]" using regnodes.keys_put [of a p "[]"] by (simp add: x reg_of_def registered_def)
  then have s: "map ncIP (registerNode a p []) = [a]" by (simp add: x reg_of_def registered_def)
  then have "ncIP ` set (registerNode a p []) = {a}" by (metis list.set_map list.simps(15) empty_set)
  with s show "fst x \<noteq> fst y \<Longrightarrow> map ncIP (reg_of y (reg_of x [])) = [fst x, fst y]"
    using regnodes.keys_put [of b q "registerNode a p []"] by (simp add: x reg_of_def registered_def)
qed

lemma registry_sequential_witness:
  "map ncIP (cfg_final [] (seq_run (demo_regs ! 0) (demo_regs ! 1))) = [''10.0.0.1'', ''10.0.0.2'']"
proof -
  let ?x = "demo_regs ! 0" and ?y = "demo_regs ! 1"
  have r: "runs (waveP 1 (map register [?x, ?y])) (seq_run ?x ?y) (Inr [(), ()])" using seq_run_ok [of ?x ?y] by simp
  have c: "cfg_consistent [] (seq_run ?x ?y)" by (simp add: seq_run_def sched_pick_def demo_load_def ok_out_def)
  have "registered [?x, ?y] [] = reg_of ?y (reg_of ?x [])" by (simp add: reg_of_def registered_def)
  with registry_sequential [OF r c] have e: "cfg_final [] (seq_run ?x ?y) = reg_of ?y (reg_of ?x [])" by simp
  have "fst ?x = ''10.0.0.1''" "fst ?y = ''10.0.0.2''" by (simp_all add: demo_regs_def)
  with reg_of_ips(2) [of ?x ?y] show ?thesis unfolding e by simp
qed

text \<open>
  The registry race. Two initialisations of one parallel wave can lose a node: both read
  the registry, both write it back, and the file ends with the second node only.
\<close>

theorem registry_race:
  "\<exists>t. runs (waveP 2 [register x, register y]) t (Inr [(), ()]) \<and> cfg_consistent [] t \<and>
     map ncIP (cfg_final [] t) = [fst y]"
proof (intro exI [of _ "race_run x y"] conjI)
  show "runs (waveP 2 [register x, register y]) (race_run x y) (Inr [(), ()])" by (rule race_run_ok)
  show "cfg_consistent [] (race_run x y)" by (simp add: race_run_def sched_pick_def demo_load_def ok_out_def)
  show "map ncIP (cfg_final [] (race_run x y)) = [fst y]" by (simp add: race_run_def sched_pick_def reg_of_ips)
qed

section \<open>The stores of the operator\<close>



section \<open>Waiting comes to an end\<close>

lemma bounded_sshRun: "bounded (Suc 0) (sshRun c s)"
  by (simp add: sshRun_def)

lemma bounded_step:
  assumes "\<And>x. bounded n (f x)"
  shows "bounded (Suc n) (bind (sshRun c s) f)"
  using assms bounded_bind [of n f 1 "sshRun c s"] by (simp add: bounded_sshRun)

lemma bounded_pollReady: "bounded (2 * n) (pollReady n c s done' e)"
proof (induction n)
  case (Suc n)
  have k: "bounded (Suc (2 * n)) (case x of (out, err) \<Rightarrow>
       if err = None \<and> done' (trimSpace out) then okP else bind (sleepP 5) (\<lambda>_. pollReady n c s done' e))" for x
    using Suc by (auto simp: sleepP_def split: prod.splits)
  have "2 * Suc n = Suc (Suc (2 * n))" by simp
  then show ?case using bounded_step [OF k, of c s] by simp
qed simp

lemma bounded_fleetReady: "bounded (2 * n) (fleetReadyLoop n c want r)"
proof (induction n arbitrary: r)
  case (Suc n)
  have k: "bounded (Suc (2 * n)) (case x of (out, e) \<Rightarrow> (case e of Some err \<Rightarrow> fail err
     | None \<Rightarrow> if trimSpace out = itoa (int want) then okP
         else bind (sleepP 10) (\<lambda>_. fleetReadyLoop n c want (trimSpace out))))" for x
    using Suc by (auto simp: sleepP_def split: prod.splits option.splits)
  have "2 * Suc n = Suc (Suc (2 * n))" by simp
  then show ?case using bounded_step [OF k, of c fleet_ready_script] by simp
qed simp

lemma bounded_reconnect: "bounded (2 * n) (reconnectLoop n c f)"
proof (induction n)
  case (Suc n)
  then show ?case by (auto simp: connectSSH_def getenv_def sleepP_def fail_def Let_def split: option.splits)
qed simp

lemma bounded_vpsWait: "bounded (2 * ((309 - elapsed) div 10)) (vpsWaitLoop elapsed p i name)"
proof (induction elapsed p i name rule: vpsWaitLoop.induct)
  case (1 elapsed p i name)
  show ?case
  proof (cases "elapsed < 300")
    case True
    have k: "bounded (2 * ((309 - elapsed) div 10) - 2) (vpsWaitLoop (elapsed + aTime a + 10 + aTime b) p i name)"
      if "vpsReady a = None" for a b :: answer
    proof -
      have "2 * ((309 - (elapsed + aTime a + 10 + aTime b)) div 10) \<le> 2 * ((309 - elapsed) div 10) - 2"
      proof -
        have "(309 - (elapsed + aTime a + 10 + aTime b)) div 10 \<le> (309 - elapsed - 10) div 10" by (intro div_le_mono) simp
        also have "\<dots> = (309 - elapsed) div 10 - 1" using True by (simp add: div_if)
        finally have "2 * ((309 - (elapsed + aTime a + 10 + aTime b)) div 10) \<le> 2 * ((309 - elapsed) div 10 - 1)"
          by (rule mult_le_mono2)
        then show ?thesis unfolding diff_mult_distrib2 by simp
      qed
      with 1 [OF True that, of b] show ?thesis by (rule bounded_mono)
    qed
    have p: "2 * ((309 - elapsed) div 10) = Suc (Suc (2 * ((309 - elapsed) div 10) - 2))"
      using True by (simp add: div_if)
    show ?thesis
      by (subst p, subst vpsWaitLoop.simps) (use True k in \<open>auto split: option.splits\<close>)
  next
    case False
    then show ?thesis by (subst vpsWaitLoop.simps) simp
  qed
qed


text \<open>The seconds a request takes.\<close>

fun spent :: "req \<times> answer \<Rightarrow> nat" where
  "spent (Sleep n, a) = n + aTime a"
| "spent (q, a) = aTime a"

lemma vpsWait_run:
  "runs (vpsWaitLoop elapsed p i name) t r \<Longrightarrow>
   (case r of
      Inr ip \<Rightarrow> ip \<noteq> '''' \<and> (\<exists>u a. t = u @ [(GetVPS p i, a)] \<and> vpsReady a = Some ip)
    | Inl e \<Rightarrow> 300 \<le> elapsed + sum_list (map spent t) \<and> (\<forall>a. (GetVPS p i, a) \<in> set t \<longrightarrow> vpsReady a = None))"
proof (induction elapsed p i name arbitrary: t rule: vpsWaitLoop.induct)
  case (1 elapsed p i name)
  show ?case
  proof (cases "elapsed < 300")
    case True
    with 1(2) obtain a v where t: "t = (GetVPS p i, a) # v" and v: "runs (case vpsReady a of
         Some ip \<Rightarrow> Ret (Inr ip)
       | None \<Rightarrow> Do (Sleep 10) (\<lambda>b. vpsWaitLoop (elapsed + aTime a + 10 + aTime b) p i name)) v r"
      by (subst (asm) vpsWaitLoop.simps) (auto simp: runs_Do)
    show ?thesis
    proof (cases "vpsReady a")
      case (Some ip)
      then have "ip \<noteq> ''''" by (auto simp: vpsReady_def split: option.splits list.splits if_splits)
      with Some v t show ?thesis by auto
    next
      case None
      with v obtain b w where w: "v = (Sleep 10, b) # w"
        "runs (vpsWaitLoop (elapsed + aTime a + 10 + aTime b) p i name) w r" by (auto simp: runs_Do)
      from 1(1) [OF True None w(2)] None show ?thesis unfolding t w(1) by (auto split: sum.splits)
    qed
  next
    case False
    with 1(2) show ?thesis by (subst (asm) vpsWaitLoop.simps) (auto simp: runs_fail)
  qed
qed


definition demo_provider :: provider where
  "demo_provider = \<lparr>pvName = ''vultr'', pvKey = ''k'', pvRegion = '''', pvProject = 0\<rparr>"

definition demo_vps_answer :: answer where
  "demo_vps_answer = (ok_out '''')\<lparr>aVps := [\<lparr>vId = ''7'', vName = ''n1'', vLabel = ''n1'', vIP = ''10.0.0.9''\<rparr>]\<rparr>"


end
