(* ===== verification/OperatorProps.thy ===== *)
theory OperatorProps imports OpsCommands RunLemmas begin

text \<open>
  What the commands of the operator may and may not do: the destruction of a fleet deletes
  only servers that carry the name of one of its hosts, and never reaches the nodes; the
  update of the cron stack leaves identical scripts alone; and three slips of the program.
\<close>

section \<open>Destroying a fleet\<close>

fun not_delete :: "req \<Rightarrow> bool" where
  "not_delete (DeleteVPS p i) = False"
| "not_delete q = True"

fun port_zero :: "req \<Rightarrow> bool" where
  "port_zero (Dial c) = (cPort c = 0)"
| "port_zero q = True"

text \<open>The requests of everything but the final deletion, for both predicates at once.\<close>

definition calm :: "(req \<Rightarrow> bool) \<Rightarrow> bool" where
  "calm P \<longleftrightarrow> (\<forall>c. P (Close c)) \<and> (\<forall>c s. P (Exec c s)) \<and> P IsTerminal \<and> P Scanln \<and> (\<forall>k. P (Getenv k)) \<and>
     (\<forall>k. P (LoadCreds k)) \<and> (\<forall>p. P (CloudClient p)) \<and> (\<forall>p. P (ListVPS p)) \<and> (\<forall>f. P (ReadFile f))"

lemma calm_preds: "calm not_delete" "calm port_zero"
  by (simp_all add: calm_def)

lemma calm_hooks: "calm P \<Longrightarrow> allreq P (hooksRun c phase vars)"
proof -
  assume P: "calm P"
  have "allreq P (runHooks c phase vars ss)" for ss
    by (induction ss) (auto intro!: prog_intros simp: P [unfolded calm_def] split: prod.splits option.splits)
  then show ?thesis unfolding hooksRun_def Let_def
    by (auto intro!: prog_intros simp: P [unfolded calm_def] split: prod.splits)
qed

lemma calm_execAll: "calm P \<Longrightarrow> allreq P (execAll c ss)"
  by (induction ss) (auto intro!: prog_intros simp: calm_def)

lemma calm_remove:
  assumes "calm P" "P (Dial (sshClient ip (ifUser f) (ifPort f) f))"
  shows "allreq P (runInfraRemove ip f)"
proof -
  have c: "allreq P (runInfraRemoveComponents c ip f)" for c
    unfolding runInfraRemoveComponents_def
    by (intro allreq_bindI calm_hooks calm_execAll assms(1)) simp
  show ?thesis unfolding runInfraRemove_def
    by (intro allreq_tryP allreq_deferClose allreq_connectSSH allreq_runU)
      (use assms c in \<open>auto simp: calm_def intro!: allreq_bindI\<close>)
qed

lemma calm_client:
  assumes "calm P"
  shows "allreq P (getInfraProvider name key loc proj)"
proof -
  have k: "allreq P (apiKeyFrom k e f)" for k e f
    using assms by (auto simp: apiKeyFrom_def savedKey_def calm_def intro!: prog_intros)
  have w: "allreq P (clientWithKey n k e f j)" for n k e f j
    unfolding clientWithKey_def by (auto intro!: allreq_bindI k)
  show ?thesis
    using assms unfolding getInfraProvider_def newCubePathProvider_def newHetznerProvider_def newDigitalOceanProvider_def
      newVultrProvider_def newAWSProvider_def newCivoProvider_def
    by (auto intro!: prog_intros w k simp: Let_def calm_def)
qed

lemma calm_load: "calm P \<Longrightarrow> allreq P (loadFleet decode path)"
  unfolding loadFleet_def by (auto intro!: prog_intros simp: calm_def split: sum.splits)

lemma allreq_catchErr: "allreq P p \<Longrightarrow> allreq P (catchErr p)"
  unfolding catchErr_def by (rule allreq_bindI) (auto split: sum.splits goerr.splits)

text \<open>The servers a listing shows under a name.\<close>

definition listed_as :: "trace \<Rightarrow> provider \<Rightarrow> string \<Rightarrow> string \<Rightarrow> bool" where
  "listed_as t p i name \<longleftrightarrow> (\<exists>b v. (ListVPS p, b) \<in> set t \<and> v \<in> set (aVps b) \<and> vId v = i \<and> (vName v = name \<or> vLabel v = name))"

lemma delete_listed:
  assumes "runs (deleteProviderVPS p label) t r" "(DeleteVPS p' i, a) \<in> set t"
  shows "p' = p \<and> listed_as t p i label"
proof -
  from assms obtain b v where t: "t = (ListVPS p, b) # v"
    and v: "runs (case List.find (\<lambda>v. vName v = label \<or> vLabel v = label) (aVps b) of
         None \<Rightarrow> okP
       | Some v \<Rightarrow> tryP (Wrapf ''delete vps %s: %w'' [Str label]) (callP (DeleteVPS p (vId v))) (\<lambda>_. okP)) v r"
    unfolding deleteProviderVPS_def runs_tryP by (auto simp: askP_def runs_Do split: option.splits)
  with assms(2) obtain w where w: "List.find (\<lambda>v. vName v = label \<or> vLabel v = label) (aVps b) = Some w"
    by (cases "List.find (\<lambda>v. vName v = label \<or> vLabel v = label) (aVps b)") auto
  with v have "\<exists>c. v = [(DeleteVPS p (vId w), c)]"
    by (auto simp: runs_tryP callP_def runs_Do split: option.splits)
  with assms(2) t have "p' = p" "i = vId w" by auto
  with t find_member [OF w] show ?thesis by (auto simp: listed_as_def)
qed

lemma destroyHost_deletes:
  assumes "runs (destroyHost pf h) t r" "(DeleteVPS p i, a) \<in> set t"
  shows "hProvider h \<noteq> '''' \<and> listed_as t p i (hName h)"
proof -
  let ?u = "if hHost h \<noteq> '''' then catchErr (runInfraRemove (hHost h) (destroyFlags pf h)) else okP"
  have h: "hProvider h \<noteq> ''''" using assms by (auto simp: destroyHost_def)
  have u: "allreq not_delete ?u"
    by (auto intro!: allreq_catchErr calm_remove calm_preds)
  have g: "allreq not_delete (getInfraProvider x y z w)" for x y z w by (intro calm_client calm_preds)
  have mono: "listed_as s p i n \<Longrightarrow> set s \<subseteq> set t' \<Longrightarrow> listed_as t' p i n" for s t' n by (auto simp: listed_as_def)
  from assms(1) h have "runs (tryP id ?u (\<lambda>_.
        tryP (Wrapf ''host %s: %w'' [Str (hName h)]) (getInfraProvider (hProvider h) '''' (hLocation h) (hProjectID h)) (\<lambda>p.
        deleteProviderVPS p (hName h)))) t r" by (simp add: destroyHost_def)
  from this assms(2) have "listed_as t p i (hName h)"
  proof (cases rule: tryP_mem)
    case (fst v s)
    with allreq_runs [OF u] show ?thesis by fastforce
  next
    case (snd y v s)
    from snd(1,2) show ?thesis
    proof (cases rule: tryP_mem)
      case (fst v' s')
      with allreq_runs [OF g] show ?thesis by fastforce
    next
      case s: (snd q v' s')
      from delete_listed [OF s(1,2)] s(3) snd(3) mono [of v' "hName h" t] show ?thesis by blast
    qed
  qed
  with h show ?thesis by blast
qed

lemma runDestroy_deletes:
  assumes "runs (runDestroy decode path) t r" "(DeleteVPS p i, a) \<in> set t"
  obtains src pf names h where "decode src = Inr pf" "ReadFile path \<in> fst ` set t" "validateProvision pf = Inr names"
    "h \<in> set (pfHosts pf)" "hProvider h \<noteq> ''''" "listed_as t p i (hName h)"
proof -
  have ld: "(DeleteVPS p i, a) \<notin> set u" if "runs (loadFleet decode path) u s" for u s
    using allreq_runs [OF calm_load [OF calm_preds(1)] that, of "DeleteVPS p i" a] by auto
  from assms obtain u v pf where t: "t = u @ v" and u: "runs (loadFleet decode path) u (Inr pf)"
    and v: "runs (case validateProvision pf of Inl e \<Rightarrow> fail e | Inr names \<Rightarrow> eachP (destroyHost pf) (pfHosts pf)) v r"
    unfolding runDestroy_def runs_tryP using ld by blast
  from u obtain src where src: "decode src = Inr pf" "ReadFile path \<in> fst ` set u"
    by (auto simp: loadFleet_def runs_tryP readFile_def runs_Do split: option.splits sum.splits)
  from assms(2) t ld [OF u] have d: "(DeleteVPS p i, a) \<in> set v" by auto
  with v obtain names where n: "validateProvision pf = Inr names" "runs (eachP (destroyHost pf) (pfHosts pf)) v r"
    by (cases "validateProvision pf") (auto simp: fail_def)
  from eachP_mem [OF n(2) d] obtain h w s where h: "h \<in> set (pfHosts pf)" "runs (destroyHost pf h) w s"
    "(DeleteVPS p i, a) \<in> set w" "set w \<subseteq> set v" by blast
  from destroyHost_deletes [OF h(2,3)] h(4) t have "hProvider h \<noteq> ''''" "listed_as t p i (hName h)"
    by (auto simp: listed_as_def)
  moreover have "ReadFile path \<in> fst ` set t" using src(2) t by auto
  ultimately show ?thesis using that src(1) n(1) h(1) by blast
qed

text \<open>
  C30: destroy deletes only its own. A server is deleted only if the provider listed it, in this
  run, under the name of a host of the fleet file that declares a provider; servers of other
  names are never deleted, whatever the listing shows.
\<close>

theorem destroy_deletes_only_own:
  assumes "runs (runDestroy decode path) t r" "(DeleteVPS p i, a) \<in> set t"
  shows "\<exists>src pf. decode src = Inr pf \<and> (ReadFile path) \<in> fst ` set t \<and>
    (\<exists>h \<in> set (pfHosts pf). hProvider h \<noteq> '''' \<and> listed_as t p i (hName h))"
  by (rule runDestroy_deletes [OF assms]) blast

text \<open>
  Destroy never uninstalls. Every session that the command tries to open before it deletes
  a server is dialled at port 0, since the flags it passes carry no port; so the uninstall on
  the node cannot take place.
\<close>

theorem destroy_dials_port_zero: "allreq port_zero (runDestroy decode path)"
proof -
  have h: "allreq port_zero (destroyHost pf h)" for pf h
  proof -
    have d: "port_zero (Dial (sshClient (hHost h) (ifUser (destroyFlags pf h)) (ifPort (destroyFlags pf h)) (destroyFlags pf h)))"
      by (simp add: sshClient_def destroyFlags_def zeroFlags_def)
    have del: "allreq port_zero (deleteProviderVPS p n)" for p n
      unfolding deleteProviderVPS_def by (auto intro!: prog_intros allreq_askP allreq_callP split: option.splits)
    show ?thesis unfolding destroyHost_def
      by (auto intro!: allreq_tryP allreq_catchErr calm_remove calm_client calm_preds d del)
  qed
  show ?thesis unfolding runDestroy_def
    by (auto intro!: allreq_tryP allreq_eachP calm_load calm_preds h split: sum.splits)
qed

definition cloud_file :: ProvisionFile where
  "cloud_file = demo_file\<lparr>pfHosts := [demo_host\<lparr>hGroup := '''', hHost := '''', hProvider := ''vultr''\<rparr>]\<rparr>"

lemma cloud_file_accepted: "\<exists>names. validateProvision cloud_file = Inr names"
proof -
  have "(case validateProvision cloud_file of Inr n \<Rightarrow> True | Inl e \<Rightarrow> False)" by code_simp
  then show ?thesis by (auto split: sum.splits)
qed

definition demo_vultr :: provider where
  "demo_vultr = \<lparr>pvName = ''vultr'', pvKey = ''k'', pvRegion = '''', pvProject = 0\<rparr>"

definition demo_listing :: answer where
  "demo_listing = (ok_out '''')\<lparr>aVps := [\<lparr>vId = ''7'', vName = ''n1'', vLabel = '''', vIP = ''10.0.0.9''\<rparr>]\<rparr>"

definition demo_destroy_run :: trace where
  "demo_destroy_run = [(ReadFile ''fleet.yaml'', ok_out ''''), (Getenv ''VULTR_API_KEY'', ok_out ''k''),
     (ListVPS demo_vultr, demo_listing), (DeleteVPS demo_vultr ''7'', ok_out '''')]"

lemma demo_destroy_run_ok: "runs (runDestroy (\<lambda>s. Inr cloud_file) ''fleet.yaml'') demo_destroy_run (Inr ())"
proof -
  obtain names where n: "validateProvision cloud_file = Inr names" using cloud_file_accepted by blast
  have h: "pfHosts cloud_file = [demo_host\<lparr>hGroup := '''', hHost := '''', hProvider := ''vultr''\<rparr>]"
    by (simp add: cloud_file_def)
  have s: "hName demo_host = ''n1''" "hLocation demo_host = ''''" "hProjectID demo_host = 0"
    by (simp_all add: demo_host_def zeroHost_def)
  show ?thesis
    by (simp add: runDestroy_def loadFleet_def readFile_def tryP_def n h destroyHost_def s getInfraProvider_def
        newVultrProvider_def clientWithKey_def apiKeyFrom_def getenv_def deleteProviderVPS_def askP_def callP_def
        demo_destroy_run_def demo_vultr_def demo_listing_def ok_out_def okP_def)
qed

lemma destroy_deletes_only_own_witness:
  "\<exists>h. h \<in> set (pfHosts cloud_file) \<and> hProvider h \<noteq> '''' \<and> listed_as demo_destroy_run demo_vultr ''7'' (hName h)"
proof -
  have d: "(DeleteVPS demo_vultr ''7'', ok_out '''') \<in> set demo_destroy_run" by (simp add: demo_destroy_run_def)
  show ?thesis using destroy_deletes_only_own [OF demo_destroy_run_ok d] by auto
qed

section \<open>The cron stack\<close>

definition stop_script :: "opsComponent \<Rightarrow> script" where
  "stop_script k = Raw (''sudo systemctl stop '' @ joinWith '' '' (ocUnits k) @ '' 2>/dev/null || true'')"

lemma stopUnits_sends:
  "runs (stopUnits c k) t r \<Longrightarrow> ocUnits k = [] \<or> (\<exists>b. t = [(Exec c (stop_script k), b)])"
  unfolding stopUnits_def stop_script_def [symmetric] by (auto simp: runs_execP split: if_splits)

text \<open>
  Ops apply is idempotent. Where the installed script equals the template up to trailing
  line ends, the component is only read: no unit is stopped, nothing is installed. Otherwise
  its units are stopped before anything else is sent.
\<close>

theorem ops_apply_skips_identical:
  assumes "runs (applyComponent c pf h k) ((Exec c (cat_script k), a) # t) r"
  shows "(if scriptNeedsUpdate (fst (runResult (cat_script k) a)) (ocTemplate k)
     then ocUnits k = [] \<or> (\<exists>b u. t = (Exec c (stop_script k), b) # u)
     else t = [] \<and> r = Inr ())"
proof -
  have y: "\<not> (ocRequiresYAML k \<and> pf = None)" using assms by (cases pf) (auto simp: applyComponent_def split: if_splits)
  have e: "applyComponent c pf h k = bind (sshRun c (cat_script k)) (\<lambda>(remote, x).
        if \<not> scriptNeedsUpdate remote (ocTemplate k) then okP
        else bind (stopUnits c k) (\<lambda>_. catchErr (ocInstall k c pf h)))"
    using y unfolding applyComponent_def by (cases pf) simp_all
  from assms [unfolded e] obtain a' out x v where s: "(Exec c (cat_script k), a) # t = (Exec c (cat_script k), a') # v"
    "runResult (cat_script k) a' = (out, x)"
    "runs (if \<not> scriptNeedsUpdate out (ocTemplate k) then okP
        else bind (stopUnits c k) (\<lambda>_. catchErr (ocInstall k c pf h))) v r" by (rule run_ssh)
  show ?thesis
  proof (cases "scriptNeedsUpdate out (ocTemplate k)")
    case False
    with s show ?thesis by auto
  next
    case True
    with s have "runs (bind (stopUnits c k) (\<lambda>_. catchErr (ocInstall k c pf h))) t r" by auto
    then obtain u w z where tu: "t = u @ w" and st: "runs (stopUnits c k) u z" by (rule run_bind)
    from stopUnits_sends [OF st] have "ocUnits k = [] \<or> (\<exists>b. t = (Exec c (stop_script k), b) # w)"
      unfolding tu by auto
    moreover from True s have "scriptNeedsUpdate (fst (runResult (cat_script k) a)) (ocTemplate k)" by auto
    ultimately show ?thesis by auto
  qed
qed

lemma trimEOL_Nil: "trimEOL s = [] \<longleftrightarrow> (\<forall>c \<in> set s. c = CHR 0x0D \<or> c = CHR 0x0A)"
  by (simp add: trimEOL_def dropWhile_eq_Nil_conv)

definition plain_component :: opsComponent where
  "plain_component = \<lparr>ocScriptPath = ''/opt/x'', ocTemplate = ''#!/bin/sh\<newline>'', ocUnits = [''x.timer''], ocLogFile = '''',
     ocTimer = ''x.timer'', ocService = '''', ocRequiresYAML = False, ocInstall = (\<lambda>c pf h. okP), ocRemove = (\<lambda>c. okP)\<rparr>"

lemma ops_apply_skips_identical_witness:
  "\<not> scriptNeedsUpdate ''#!/bin/sh'' (ocTemplate plain_component) \<and>
   (\<exists>t. runs (applyComponent demo_conn None demo_host plain_component) ((Exec demo_conn (cat_script plain_component), ok_out ''#!/bin/sh'') # t) (Inr ()) \<and> t = [])"
proof -
  have n: "\<not> scriptNeedsUpdate ''#!/bin/sh'' (ocTemplate plain_component)" by code_simp
  have y: "\<not> ocRequiresYAML plain_component" by (simp add: plain_component_def)
  have r: "runs (applyComponent demo_conn None demo_host plain_component) [(Exec demo_conn (cat_script plain_component), ok_out ''#!/bin/sh'')] (Inr ())"
    using n y by (simp add: applyComponent_def sshRun_def runResult_ok)
  from ops_apply_skips_identical [OF r] n have "([] :: trace) = []" by (simp add: runResult_ok)
  with r n show ?thesis by (intro conjI exI [of _ "[]"])
qed

text \<open>
  Ops apply on a single node. Without a fleet file an outdated security watch takes the
  whole command down: its install resolves the configuration of a fleet that is nil.
\<close>

definition security :: opsComponent where
  "security = the (mget opsComponents ''security'')"

theorem ops_apply_panics_without_fleet:
  assumes "scriptNeedsUpdate (fst (runResult (cat_script security) a)) (ocTemplate security)"
    and "runs (applyComponent c None h security) ((Exec c (cat_script security), a) # t) r"
  shows "mget opsComponents ''security'' = Some security \<and> (\<exists>m. r = Inl (Panic m))"
proof -
  have k: "mget opsComponents ''security'' = Some security" "ocRequiresYAML security = False"
    "ocInstall security c None h = fail (Panic ''resolveHostConfig: nil fleet'')"
    by (simp_all add: security_def opsComponents_def mget_def withFleet_def)
  have e: "applyComponent c None h security = bind (sshRun c (cat_script security)) (\<lambda>(remote, x).
        if \<not> scriptNeedsUpdate remote (ocTemplate security) then okP
        else bind (stopUnits c security) (\<lambda>_. catchErr (fail (Panic ''resolveHostConfig: nil fleet''))))"
    unfolding applyComponent_def k(2,3) by simp
  from assms(2) [unfolded e] obtain a' out x v where s: "(Exec c (cat_script security), a) # t = (Exec c (cat_script security), a') # v"
    "runResult (cat_script security) a' = (out, x)"
    "runs (if \<not> scriptNeedsUpdate out (ocTemplate security) then okP
        else bind (stopUnits c security) (\<lambda>_. catchErr (fail (Panic ''resolveHostConfig: nil fleet'')))) v r" by (rule run_ssh)
  then have "runs (bind (stopUnits c security) (\<lambda>_. catchErr (fail (Panic ''resolveHostConfig: nil fleet'')))) v r"
    using assms(1) by auto
  then have "\<exists>m. r = Inl (Panic m)"
    unfolding runs_bind by (auto simp: catchErr_def runs_bind)
  with k(1) show ?thesis by blast
qed

definition demo_stop :: script where
  "demo_stop = Raw (''sudo systemctl stop '' @ joinWith '' '' (ocUnits security) @ '' 2>/dev/null || true'')"

lemma ops_apply_panics_without_fleet_witness:
  "\<exists>m r. runs (applyComponent demo_conn None demo_host security)
     [(Exec demo_conn (cat_script security), ok_out ''''), (Exec demo_conn demo_stop, ok_out '''')] r \<and> r = Inl (Panic m)"
proof -
  have k: "ocRequiresYAML security = False" "ocUnits security \<noteq> []" "ocTemplate security = securityWatchScript"
    "ocInstall security demo_conn None demo_host = fail (Panic ''resolveHostConfig: nil fleet'')"
    by (simp_all add: security_def opsComponents_def mget_def withFleet_def)
  have "CHR ''#'' \<in> set securityWatchScript" by (simp add: securityWatchScript_def)
  then have "trimEOL securityWatchScript \<noteq> []" unfolding trimEOL_Nil by (auto intro!: bexI [of _ "CHR ''#''"])
  then have n: "scriptNeedsUpdate (fst (runResult (cat_script security) (ok_out ''''))) (ocTemplate security)"
    by (simp add: scriptNeedsUpdate_def runResult_ok k trimEOL_def)
  let ?t = "[(Exec demo_conn (cat_script security), ok_out ''''), (Exec demo_conn demo_stop, ok_out '''')]"
  have r: "runs (applyComponent demo_conn None demo_host security) ?t (Inl (Panic ''resolveHostConfig: nil fleet''))"
    using n by (simp add: applyComponent_def k sshRun_def runResult_ok stopUnits_def execP_def demo_stop_def catchErr_def fail_def)
  from ops_apply_panics_without_fleet [OF n r] r show ?thesis by blast
qed

section \<open>Slips\<close>

fun keeps_cloudflare :: "req \<Rightarrow> bool" where
  "keeps_cloudflare (SaveCreds c) = (mget c ''CloudflareAPIToken'' \<noteq> None)"
| "keeps_cloudflare q = True"

text \<open>
  \<open>config set-credentials\<close> replaces the credentials file by the variables of the
  environment, and the token of Cloudflare is not among them: a saved one is lost.
\<close>

theorem set_credentials_forgets_cloudflare:
  "\<exists>t c a. runs setCredentials t (Inr ()) \<and> (SaveCreds c, a) \<in> set t \<and> \<not> keeps_cloudflare (SaveCreds c) \<and>
     (Getenv ''CF_API_TOKEN'') \<notin> fst ` set t"
proof -
  let ?e = "map (\<lambda>p. (Getenv (snd p), ok_out ''x'')) credFields"
  let ?c = "map (\<lambda>p. (fst p, ''x'')) credFields"
  have "runs setCredentials (?e @ [(SaveCreds ?c, ok_out '''')]) (Inr ())"
    by (simp add: setCredentials_def credFields_def getenv_def callP_def ok_out_def okP_def)
  moreover have "\<not> keeps_cloudflare (SaveCreds ?c)" by (simp add: credFields_def mget_def)
  moreover have "(Getenv ''CF_API_TOKEN'') \<notin> fst ` set (?e @ [(SaveCreds ?c, ok_out '''')])" by (simp add: credFields_def)
  ultimately show ?thesis by (intro exI conjI) auto
qed

text \<open>
  \<open>key list\<close> never shows the comment of a public key: it looks for a third part of a text
  that it has cut once.
\<close>

theorem key_list_shows_no_comment: "keyInfo pub = ''no public key''"
  by (auto simp: keyInfo_def Let_def splitAtLast_def split: option.splits)

end
