(* ===== verification/DeployUpload.thy ===== *)
theory DeployUpload imports Remote Allowlist begin

text \<open>
  How a service reaches a node (\<open>deploy/upload.go\<close>): the files of its directory that an
  upload takes, the version it gets, the links \<open>current\<close> and \<open>previous\<close>, rollback, and the
  compose file of a service that is built as an image.
\<close>

section \<open>The archive\<close>

text \<open>
  The patterns of the only caller have no wildcard, so a pattern matches exactly itself
  (\<open>filepath.Match\<close>).
\<close>

record uploadConfig =
  ucService :: string
  ucSource :: string
  ucFiles :: "string list"
  ucExclude :: "string list"

datatype skip = Keep | Skip | SkipDir

definition shouldSkipFile :: "uploadConfig \<Rightarrow> string \<Rightarrow> bool \<Rightarrow> skip" where
  "shouldSkipFile cfg rel isDir =
     (if rel = ''.'' then Skip
      else if hasPrefix rel ''.'' then (if isDir then SkipDir else Skip)
      else if rel \<in> set (ucExclude cfg) then (if isDir then SkipDir else Skip)
      else if ucFiles cfg \<noteq> [] then
        (if \<exists>f \<in> set (ucFiles cfg). rel = f \<or> hasPrefix rel (f @ ''/'') then Keep else Skip)
      else Keep)"

definition relPath :: "string \<Rightarrow> string \<Rightarrow> string" where
  "relPath dir name = (if dir = '''' then name else dir @ ''/'' @ name)"

text \<open>
  The walk of a directory, entry by entry; \<open>SkipDir\<close> leaves a directory out with all it holds,
  \<open>Skip\<close> leaves out the entry alone. Executables get mode 755, other files 644.
\<close>

fun tarNode :: "uploadConfig \<Rightarrow> string \<Rightarrow> fnode \<Rightarrow> tarEntry list" where
  "tarNode cfg dir (FNode name exe content) =
     (let rel = relPath dir name in
      if shouldSkipFile cfg rel False = Keep
      then [\<lparr>teName = rel, teMode = (if exe then 493 else 420), teContent = content\<rparr>] else [])"
| "tarNode cfg dir (DNode name mode kids) =
     (let rel = relPath dir name; sub = concat (map (tarNode cfg rel) kids) in
      case shouldSkipFile cfg rel True of
        SkipDir \<Rightarrow> []
      | Skip \<Rightarrow> sub
      | Keep \<Rightarrow> \<lparr>teName = rel @ ''/'', teMode = mode, teContent = ''''\<rparr> # sub)"

definition createTarArchive :: "uploadConfig \<Rightarrow> tarEntry list res prog" where
  \<open>createTarArchive cfg = Do (Walk (ucSource cfg)) (\<lambda>a. case aErr a of
       Some m \<Rightarrow> fail (Wrapf ''walk source: %w'' [] (Ext m))
     | None \<Rightarrow> Ret (Inr (concat (map (tarNode cfg '''') (aTree a)))))\<close>

section \<open>Versions\<close>

definition serviceRoot :: "string \<Rightarrow> string" where
  "serviceRoot name = ''/opt/sdk-ops/services/'' @ name"

definition version_script :: "string \<Rightarrow> script" where
  \<open>version_script dir = Fmt (''
'' @ [CHR 0x09, CHR 0x09] @ ''ls -d %s/v* 2>/dev/null | sed 's/.*v//' | sort -n | tail -1
'' @ [CHR 0x09]) [Str dir]\<close>

definition versionAfter :: "string \<Rightarrow> string" where
  "versionAfter out = (case sscanfD (trimSpace out) of None \<Rightarrow> ''1'' | Some n \<Rightarrow> itoa (n + 1))"

definition nextVersion :: "conn \<Rightarrow> string \<Rightarrow> string prog" where
  "nextVersion c dir = bind (sshRun c (version_script dir)) (\<lambda>(out, e).
     Ret (if e \<noteq> None \<or> trimSpace out = '''' then ''1'' else versionAfter out))"

record deployResult =
  drVersion :: string
  drPath :: string

definition extract_script :: "string \<Rightarrow> script" where
  \<open>extract_script dir = Fmt ''sudo mkdir -p %s && sudo tar xzf - -C %s && sudo chown -R $(whoami) %s'' [Str dir, Str dir, Str dir]\<close>

text \<open>The links of a service: \<open>previous\<close> is pointed at the link \<open>current\<close> itself.\<close>

definition link_script :: "string \<Rightarrow> string \<Rightarrow> script" where
  \<open>link_script root dir = Fmt ''sudo ln -sfn %s %s/previous 2>/dev/null; sudo ln -sfn %s %s/current; echo "deployed"'' [Str (root @ ''/current''), Str root, Str dir, Str root]\<close>

text \<open>A session that cannot be opened, and a command that fails, whose output is kept.\<close>

definition pipeTar :: "conn \<Rightarrow> script \<Rightarrow> tarEntry list \<Rightarrow> unit res prog" where
  \<open>pipeTar c s es = Do (ExecTar c s es) (\<lambda>a. case aSess a of
       Some m \<Rightarrow> fail (Wrapf ''ssh session: %w'' [] (Ext m))
     | None \<Rightarrow> (case aErr a of None \<Rightarrow> okP
         | Some m \<Rightarrow> fail (Wrapf ''extract failed: %w
%s'' [Str (aOut a)] (Ext m))))\<close>

definition UploadAndDeploy :: "conn \<Rightarrow> uploadConfig \<Rightarrow> deployResult res prog" where
  \<open>UploadAndDeploy c cfg =
     (let root = serviceRoot (ucService cfg) in
      bind (execP c (Fmt ''sudo mkdir -p %s'' [Str root])) (\<lambda>_.
      bind (execP c (Raw ''sudo chown -R $(whoami) /opt/sdk-ops 2>/dev/null || true'')) (\<lambda>_.
      bind (nextVersion c root) (\<lambda>v.
      let dir = sprintf ''%s/v%s'' [Str root, Str v] in
      tryP id (createTarArchive cfg) (\<lambda>es.
      tryP id (pipeTar c (extract_script dir) es) (\<lambda>_.
      bind (execP c (link_script root dir)) (\<lambda>_.
      Ret (Inr \<lparr>drVersion = v, drPath = dir\<rparr>))))))))\<close>

section \<open>Rollback\<close>

definition rollbackToFormat :: string where
  \<open>rollbackToFormat =
''
TARGET="%s"
CURRENT=$(sudo readlink -f %s/current 2>/dev/null || echo "")
if [ ! -d "$TARGET" ]; then
'' @
[CHR 0x09] @
''echo "version-not-found"
'' @
[CHR 0x09] @
''exit 0
fi
sudo ln -sfn "$TARGET" %s/current
sudo ln -sfn "$CURRENT" %s/previous
echo "rolled-back to $(basename $TARGET)"
''\<close>
definition rollbackFormat :: string where
  \<open>rollbackFormat =
''
CURRENT=$(sudo readlink -f %s/current 2>/dev/null || echo "")
PREVIOUS=$(sudo readlink -f %s/previous 2>/dev/null || echo "")
if [ -z "$PREVIOUS" ] || [ ! -d "$PREVIOUS" ]; then
'' @
[CHR 0x09] @
''echo "no-previous"
'' @
[CHR 0x09] @
''exit 0
fi
sudo ln -sfn "$PREVIOUS" %s/current
sudo ln -sfn "$CURRENT" %s/previous
echo "rolled-back to $(basename $PREVIOUS)"
''\<close>

definition rollback_script :: "string \<Rightarrow> string \<Rightarrow> script" where
  "rollback_script name target =
     (let d = serviceRoot name in
      if target \<noteq> '''' then Fmt rollbackToFormat [Str (d @ ''/'' @ target), Str d, Str d, Str d]
      else Fmt rollbackFormat [Str d, Str d, Str d, Str d])"

definition Rollback :: "conn \<Rightarrow> string \<Rightarrow> string \<Rightarrow> unit res prog" where
  \<open>Rollback c name target =
     tryP id (runE c (rollback_script name target) (wrapO ''rollback exec: %w
%s'' [])) (\<lambda>out.
       if trimSpace out = ''no-previous'' then fail (Errorf ''no previous version to rollback to for %s'' [Str name])
       else if trimSpace out = ''version-not-found'' then fail (Errorf ''version %s not found for %s'' [Str target, Str name])
       else okP)\<close>

definition DiffVersions :: "conn \<Rightarrow> string \<Rightarrow> string \<Rightarrow> string \<Rightarrow> string res prog" where
  \<open>DiffVersions c name a b =
     runE c (Fmt ''diff -rq "%s" "%s" 2>/dev/null || true'' [Str (serviceRoot name @ ''/'' @ a), Str (serviceRoot name @ ''/'' @ b)]) (wrapE ''diff versions: %w'' [])\<close>

definition ListVersions :: "conn \<Rightarrow> string \<Rightarrow> string list res prog" where
  \<open>ListVersions c name =
     tryP id (runE c (Fmt ''ls -d /opt/sdk-ops/services/%s/v* 2>/dev/null | sed 's/.*v/v/' | sort -t'v' -k2 -n'' [Str name]) (\<lambda>_ e. e)) (\<lambda>out.
     Ret (Inr (if trimSpace out = '''' then [] else splitOn CHR 0x0A (trimSpace out))))\<close>

section \<open>Images\<close>

record registryConfig =
  rgServer :: string
  rgUsername :: string
  rgPassword :: string

definition bad_chars :: string where
  "bad_chars = '' '' @ [CHR 0x09, CHR 0x0A, CHR 0x0D] @ '';|&''"

definition registryValid :: "registryConfig \<Rightarrow> bool" where
  "registryValid r \<longleftrightarrow> rgServer r \<noteq> '''' \<and> \<not> containsAny (rgServer r) bad_chars \<and>
     rgUsername r \<noteq> '''' \<and> \<not> containsAny (rgUsername r) bad_chars \<and> rgPassword r \<noteq> ''''"

definition DefaultRegistry :: "registryConfig prog" where
  "DefaultRegistry = bind (getenv ''REGISTRY_SERVER'') (\<lambda>s. bind (getenv ''REGISTRY_USER'') (\<lambda>u.
     bind (getenv ''REGISTRY_PASS'') (\<lambda>p. Ret \<lparr>rgServer = s, rgUsername = u, rgPassword = p\<rparr>)))"

definition composeServiceFormat :: string where
  \<open>composeServiceFormat =
''services:
  %[1]s:
    image: %[2]s
    ports:
      - "%[3]d:%[3]d"
    working_dir: /app
''\<close>
definition composeDBFormat :: string where
  \<open>composeDBFormat =
''    volumes:
      - ./service.yaml:/app/service.yaml
    depends_on:
      %[1]s-db:
        condition: service_healthy
    restart: unless-stopped

  %[1]s-db:
    image: postgres:17-alpine
    environment:
      POSTGRES_USER: %[1]s
      POSTGRES_PASSWORD: %[1]s
      POSTGRES_DB: %[1]s
    healthcheck:
      test: ["CMD-SHELL", "pg_isready -U %[1]s"]
      interval: 5s
      timeout: 5s
      retries: 5
    restart: unless-stopped
''\<close>

definition GenerateCompose :: "string \<Rightarrow> string \<Rightarrow> int \<Rightarrow> bool \<Rightarrow> string" where
  \<open>GenerateCompose img name port hasDB =
     sprintf composeServiceFormat [Str name, Str img, Num (if port = 0 then 8080 else port)] @
     (if hasDB then sprintf composeDBFormat [Str name] else ''    restart: unless-stopped
'')\<close>

definition UploadImage :: "conn \<Rightarrow> string \<Rightarrow> string \<Rightarrow> string \<Rightarrow> string res prog" where
  \<open>UploadImage c name version img =
     (let path = sprintf ''/opt/sdk-ops/services/%s/v%s/image.tar.gz'' [Str name, Str version] in
      Do (ExecIn c (Fmt (''sudo tee %s > /dev/null && sudo docker load < %s && echo 'image_loaded'' @ [CHR 0x27]) [Str path, Str path]) img) (\<lambda>a. case aSess a of
        Some m \<Rightarrow> fail (Wrapf ''session: %w'' [] (Ext m))
      | None \<Rightarrow> (case aErr a of None \<Rightarrow> Ret (Inr path)
          | Some m \<Rightarrow> fail (Wrapf ''upload/load image: %w
%s'' [Str (aOut a)] (Ext m)))))\<close>

end
