(* ===== verification/DeployRun.thy ===== *)
theory DeployRun imports DeployUpload ProxyOps begin

text \<open>
  Running a deployed service on a node: the detected runtime and the health check
  (\<open>deploy/run.go\<close>), blue/green (\<open>deploy/bluegreen.go\<close>) with the three reverse proxies
  (\<open>deploy/proxy*.go\<close>), and the bare, swarm and k3s runtimes (\<open>deploy/*_runtime.go\<close>).
\<close>

text \<open>An interactive command: the session, its terminal, the command.\<close>

definition runPTY :: "conn \<Rightarrow> script \<Rightarrow> unit res prog" where
  "runPTY c s = Do (Pty c s) (\<lambda>a. case aSess a of
       Some m \<Rightarrow> fail (Wrapf ''session: %w'' [] (Ext m))
     | None \<Rightarrow> (case aList a of m # ms \<Rightarrow> fail (Wrapf ''pty: %w'' [] (Ext m))
        | [] \<Rightarrow> (case aErr a of None \<Rightarrow> okP | Some m \<Rightarrow> fail (Ext m))))"

section \<open>The detected runtime\<close>

record runConfig =
  rcName :: string
  rcType :: string
  rcImage :: string
  rcPort :: int
  rcReplicas :: int
  rcEnvFile :: string
  rcHealthURL :: string
  rcHealthTimeout :: int

definition runNamed :: "string \<Rightarrow> runConfig" where
  "runNamed name = \<lparr>rcName = name, rcType = '''', rcImage = '''', rcPort = 0, rcReplicas = 0, rcEnvFile = '''',
     rcHealthURL = '''', rcHealthTimeout = 0\<rparr>"

definition has_compose :: "string \<Rightarrow> script" where
  \<open>has_compose dir = Fmt ''test -f "%s/docker-compose.yml" -o -f "%s/docker-compose.yaml" && echo yes || echo no'' [Str dir, Str dir]\<close>

definition detectRuntime :: "conn \<Rightarrow> string \<Rightarrow> string \<Rightarrow> string prog" where
  \<open>detectRuntime c dir preferred =
     (if preferred \<noteq> '''' then Ret preferred
      else bind (sshRun c (has_compose dir)) (\<lambda>(compose, _).
        bind (sshRun c (Fmt ''ls "%s/sdk-ops-"*"-amd64" 2>/dev/null | head -1 || echo "no"'' [Str dir])) (\<lambda>(binary, _).
        bind (sshRun c (Raw ''command -v docker && echo yes || echo no'')) (\<lambda>(docker, _).
        bind (sshRun c (Raw ''command -v k3s && echo yes || echo no'')) (\<lambda>(k3s, _).
        Ret (if containsStr compose ''yes'' \<and> containsStr docker ''yes'' then ''docker''
             else if containsStr k3s ''yes'' then ''k3s''
             else if trimSpace binary \<noteq> ''no'' then ''systemd''
             else if containsStr docker ''yes'' then ''docker'' else ''systemd''))))))\<close>

definition projectName :: "string \<Rightarrow> string" where
  "projectName dir =
     (let parts = splitOn CHR ''/'' (trimSuffix dir ''/'') in
      if last parts = ''current'' \<and> length parts \<ge> 2 then parts ! (length parts - 2) else last parts)"

definition buildAndRun :: "conn \<Rightarrow> string \<Rightarrow> unit res prog" where
  \<open>buildAndRun c dir =
     bind (sshRun c (Fmt ''test -f "%s/Dockerfile" && echo yes || echo no'' [Str dir])) (\<lambda>(out, _).
     if trimSpace out \<noteq> ''yes'' then okP
     else tryP (Wrapf ''docker build: %w'' []) (sshRunStream c (Fmt ''cd %s && sudo docker build -t %s .'' [Str dir, Str (sprintf ''%s:latest'' [Str (pathBase dir)])])) (\<lambda>_. okP))\<close>

definition compose_up_script :: "string \<Rightarrow> script" where
  \<open>compose_up_script dir = Fmt ''cd %s && sudo bash -c 'for c in $(docker ps -aq --filter name=%s- 2>/dev/null); do docker rm -f $c >/dev/null 2>&1; done' && sudo docker compose pull && sudo docker compose up -d --remove-orphans'' [Str dir, Str (projectName dir)]\<close>

definition runDockerCompose :: "conn \<Rightarrow> string \<Rightarrow> unit res prog" where
  \<open>runDockerCompose c dir =
     tryP id (runE c (has_compose dir) (wrapE ''check compose file on remote: %w'' [])) (\<lambda>out.
     if trimSpace out \<noteq> ''yes'' then buildAndRun c dir
     else tryP (Wrapf ''docker compose: %w'' []) (sshRunStream c (compose_up_script dir)) (\<lambda>_. okP))\<close>

definition kubectl_file :: "conn \<Rightarrow> string \<Rightarrow> unit res prog" where
  \<open>kubectl_file c f =
     (if pathBase f \<in> {''docker-compose.yml'', ''docker-compose.yaml'', ''service.yaml''} then okP
      else runU c (Fmt ''KUBECONFIG=%s kubectl apply -f %s'' [Str ''/etc/rancher/k3s/k3s.yaml'', Str f]) (wrapO ''kubectl apply %s: %w
%s'' [Str f]))\<close>

definition runKubectl :: "conn \<Rightarrow> string \<Rightarrow> unit res prog" where
  \<open>runKubectl c dir =
     bind (sshRun c (Fmt ''ls %s/*.yaml %s/*.yml 2>/dev/null | head -5'' [Str dir, Str dir])) (\<lambda>(out, _).
     if trimSpace out = '''' then okP else eachP (kubectl_file c) (goFields out))\<close>

definition systemdUnitFormat :: string where
  \<open>systemdUnitFormat =
''[Unit]
Description=%s
After=network.target

[Service]
Type=simple
WorkingDirectory=%s
ExecStart=%s
Restart=always
RestartSec=5
StandardOutput=journal
StandardError=journal

[Install]
WantedBy=multi-user.target
''\<close>
definition systemdScriptFormat :: string where
  \<open>systemdScriptFormat =
''sudo bash -c 'cat > /etc/systemd/system/%s.service << "EOF"
%s
EOF'
sudo systemctl daemon-reload
sudo systemctl enable %s 2>/dev/null
sudo systemctl restart %s
echo "systemd_ok"
''\<close>

definition runSystemd :: "conn \<Rightarrow> string \<Rightarrow> string \<Rightarrow> unit res prog" where
  \<open>runSystemd c name dir =
     bind (sshRun c (Fmt ''F=$(ls "%s/sdk-ops-%s-amd64" 2>/dev/null); if [ -n "$F" ]; then echo "$F"; else ls "%s/run.sh" "%s/%s" 2>/dev/null | head -1 || echo "none"; fi'' [Str dir, Str name, Str dir, Str dir, Str name])) (\<lambda>(out, _).
     let path = trimSpace out;
         start = (if containsStr path ''run.sh'' then sprintf ''%s/run.sh'' [Str dir] else path) in
     if path = ''none'' \<or> path = '''' then okP
     else runU c (Fmt systemdScriptFormat [Str name, Str (sprintf systemdUnitFormat [Str name, Str dir, Str start]), Str name, Str name])
            (wrapO ''systemd: %w
%s'' []))\<close>

definition currentDir :: "string \<Rightarrow> string" where
  "currentDir name = serviceRoot name @ ''/current''"

definition RunService :: "conn \<Rightarrow> runConfig \<Rightarrow> unit res prog" where
  "RunService c cfg =
     bind (detectRuntime c (currentDir (rcName cfg)) (rcType cfg)) (\<lambda>rt.
       if rt = ''docker'' then runDockerCompose c (currentDir (rcName cfg))
       else if rt = ''k3s'' then runKubectl c (currentDir (rcName cfg))
       else runSystemd c (rcName cfg) (currentDir (rcName cfg)))"

definition followFormat :: string where
  \<open>followFormat =
''
if docker ps --format '{{.Names}}' 2>/dev/null | grep -q %[1]s; then
  docker logs -f --tail %[2]d $(docker ps --format '{{.Names}}' | grep %[1]s | head -1)
elif systemctl is-active %[1]s 2>/dev/null; then
  journalctl -u %[1]s -f -n %[2]d
else
  echo "No logs"
fi''\<close>
definition logsFormat :: string where
  \<open>logsFormat =
''
if docker ps --format '{{.Names}}' 2>/dev/null | grep -q %[1]s; then
  docker logs --tail %[2]d $(docker ps --format '{{.Names}}' | grep %[1]s | head -1)
elif systemctl is-active %[1]s 2>/dev/null; then
  journalctl -u %[1]s -n %[2]d --no-pager
else
  echo "No logs"
fi''\<close>

definition ServiceLogs :: "conn \<Rightarrow> string \<Rightarrow> int \<Rightarrow> bool \<Rightarrow> unit res prog" where
  "ServiceLogs c name n follow =
     (if follow then runPTY c (Fmt followFormat [Str name, Num n])
      else runU c (Fmt logsFormat [Str name, Num n]) (\<lambda>_ e. e))"

definition healthURLFormat :: string where
  \<open>healthURLFormat =
''
TIMEOUT=%d
INTERVAL=3
ELAPSED=0
while [ $ELAPSED -lt $TIMEOUT ]; do
'' @
[CHR 0x09] @
''code=$(timeout 5 curl -s -o /dev/null -w '%%{http_code}' '%s' 2>/dev/null)
'' @
[CHR 0x09] @
''if [ "$code" = "200" ]; then
'' @
[CHR 0x09, CHR 0x09] @
''echo "healthy"
'' @
[CHR 0x09, CHR 0x09] @
''exit 0
'' @
[CHR 0x09] @
''fi
'' @
[CHR 0x09] @
''sleep $INTERVAL
'' @
[CHR 0x09] @
''ELAPSED=$((ELAPSED + INTERVAL))
done
echo "unhealthy after ${TIMEOUT}s"
exit 1
''\<close>
definition healthFormat :: string where
  \<open>healthFormat =
''
TIMEOUT=%d
INTERVAL=3
ELAPSED=0
for PORT in 18081 8080 3000; do
'' @
[CHR 0x09] @
''timeout 2 bash -c "curl -s -o /dev/null -w '%%{http_code}' http://localhost:'' @
[CHR 0x5C] @
''$PORT/healthz 2>/dev/null | grep -q 200" 2>/dev/null && echo "healthy (port '' @
[CHR 0x5C] @
''$PORT/healthz)" && exit 0
'' @
[CHR 0x09] @
''timeout 2 bash -c "curl -s -o /dev/null -w '%%{http_code}' http://localhost:'' @
[CHR 0x5C] @
''$PORT/health 2>/dev/null | grep -q 200" 2>/dev/null && echo "healthy (port '' @
[CHR 0x5C] @
''$PORT/health)" && exit 0
done
while [ $ELAPSED -lt $TIMEOUT ]; do
'' @
[CHR 0x09] @
''CONTAINER=$(docker ps --format '{{.Names}}' 2>/dev/null | grep '%s' | head -1)
'' @
[CHR 0x09] @
''if [ -n "$CONTAINER" ]; then
'' @
[CHR 0x09, CHR 0x09] @
''STATUS=$(docker inspect "$CONTAINER" --format='{{.State.Status}}' 2>/dev/null)
'' @
[CHR 0x09, CHR 0x09] @
''if [ "$STATUS" = "running" ]; then
'' @
[CHR 0x09, CHR 0x09, CHR 0x09] @
''echo "healthy (docker: $CONTAINER)"
'' @
[CHR 0x09, CHR 0x09, CHR 0x09] @
''exit 0
'' @
[CHR 0x09, CHR 0x09] @
''fi
'' @
[CHR 0x09] @
''fi
'' @
[CHR 0x09] @
''KUBECONFIG=/etc/rancher/k3s/k3s.yaml kubectl get pods -l app='%s' 2>/dev/null | awk 'NR>1 && $3 == "Running" {found=1} END {if(found) print "healthy (k8s)"; else exit 1}' && exit 0
'' @
[CHR 0x09] @
''sleep $INTERVAL
'' @
[CHR 0x09] @
''ELAPSED=$((ELAPSED + INTERVAL))
done
echo "unhealthy after ${TIMEOUT}s"
exit 1
''\<close>

definition health_script :: "string \<Rightarrow> int \<Rightarrow> string \<Rightarrow> script" where
  "health_script name timeout url =
     (if url \<noteq> '''' then Fmt healthURLFormat [Num timeout, Str url]
      else Fmt healthFormat [Num timeout, Str name, Str name])"

definition HealthCheck :: "conn \<Rightarrow> string \<Rightarrow> int \<Rightarrow> string \<Rightarrow> unit res prog" where
  \<open>HealthCheck c name timeout url =
     runU c (health_script name timeout url) (\<lambda>out e. Errorf ''health check failed: %s'' [Str (trimSpace out)])\<close>

section \<open>The reverse proxies\<close>

definition caddyFormat :: string where
  \<open>caddyFormat =
''
CADDY_VER="2.8.4"
if command -v caddy &>/dev/null; then
    echo "Caddy already installed"
else
    apt-get install -y -qq debian-keyring debian-archive-keyring apt-transport-https 2>/dev/null
    curl -fsSL https://dl.cloudsmith.io/public/caddy/stable/gpg.key | gpg --dearmor -o /usr/share/keyrings/caddy-stable-archive-keyring.gpg 2>/dev/null
    echo "deb [signed-by=/usr/share/keyrings/caddy-stable-archive-keyring.gpg] https://dl.cloudsmith.io/public/caddy/stable/deb/debian any-version main" > /etc/apt/sources.list.d/caddy-stable.list
    apt-get update -qq && apt-get install -y -qq caddy 2>/dev/null || (
        cd /tmp
        curl -fsSLO "https://github.com/caddyserver/caddy/releases/download/v${CADDY_VER}/caddy_${CADDY_VER}_linux_amd64.tar.gz"
        tar xzf "caddy_${CADDY_VER}_linux_amd64.tar.gz"
        mv caddy /usr/local/bin/
    )
fi

mkdir -p /etc/caddy
cat > /etc/caddy/Caddyfile << 'CADDYFILE'
%s {
    %s
    reverse_proxy localhost:%d
}
CADDYFILE

systemctl enable caddy 2>/dev/null || true
systemctl restart caddy 2>/dev/null || caddy start --config /etc/caddy/Caddyfile
echo "Caddy configured for %s (-> :%d)"
''\<close>
definition caddyStaging :: string where
  \<open>caddyStaging =
''tls %s {
    issuer acme {
        dir https://acme-staging-v02.api.letsencrypt.org/directory
    }
}''\<close>
definition caddyUpdateFormat :: string where
  \<open>caddyUpdateFormat =
''
Caddyfile="/etc/caddy/Caddyfile"
if [ -f "$Caddyfile" ]; then
    sed -i "s/reverse_proxy localhost:[0-9]*/reverse_proxy localhost:%d/" "$Caddyfile"
    systemctl reload caddy 2>/dev/null || caddy reload --config "$Caddyfile" 2>/dev/null || true
    echo "Caddy updated to port %d"
fi
''\<close>

definition targetPort :: "proxyConfig \<Rightarrow> int" where
  "targetPort cfg = (if pcTargetPort cfg = 0 then 8080 else pcTargetPort cfg)"

definition caddyInstall :: "conn \<Rightarrow> proxyConfig \<Rightarrow> unit res prog" where
  \<open>caddyInstall c cfg =
     (let tls = (if pcStaging cfg then sprintf caddyStaging [Str (pcEmail cfg)] else sprintf ''tls %s'' [Str (pcEmail cfg)])
      in runU c (Fmt caddyFormat [Str (pcDomain cfg), Str tls, Num (targetPort cfg), Str (pcDomain cfg), Num (targetPort cfg)])
           (wrapO ''caddy install: %w
%s'' []))\<close>

definition caddyUpdateTargetPort :: "conn \<Rightarrow> string \<Rightarrow> int \<Rightarrow> unit res prog" where
  \<open>caddyUpdateTargetPort c domain port = runU c (Fmt caddyUpdateFormat [Num port, Num port]) (wrapO ''caddy update: %w
%s'' [])\<close>

definition caddyStatus :: "conn \<Rightarrow> (string \<times> goerr option) prog" where
  \<open>caddyStatus c = sshRun c (Raw (joinWith ''; '' [(''caddy version 2>/dev/null || echo 'not installed'' @ [CHR 0x27]), (''systemctl is-active caddy 2>/dev/null || caddy --config /etc/caddy/CaddyFILE 2>/dev/null; echo 'running' || echo 'stopped'' @ [CHR 0x27])]))\<close>

definition caddyRemove :: "conn \<Rightarrow> goerr option prog" where
  \<open>caddyRemove c = bind (sshRun c (Raw (joinWith ''; '' [''systemctl stop caddy 2>/dev/null || true'', ''caddy stop 2>/dev/null || true'', ''apt-get remove -y caddy 2>/dev/null || true'', ''rm -f /usr/local/bin/caddy'', ''rm -rf /etc/caddy'', ''rm -rf /var/lib/caddy'', (''echo 'Caddy removed'' @ [CHR 0x27])])))
     (\<lambda>(_, e). Ret e)\<close>

definition nginxFormat :: string where
  \<open>nginxFormat =
''
apt-get install -y -qq nginx 2>/dev/null || true

cat > /etc/nginx/sites-available/app << 'NGINXCONF'
server {
    listen 80;
    server_name %s;

    location / {
        proxy_pass http://localhost:%d;
        proxy_set_header Host $host;
        proxy_set_header X-Real-IP $remote_addr;
        proxy_set_header X-Forwarded-For $proxy_add_x_forwarded_for;
        proxy_set_header X-Forwarded-Proto $scheme;
    }
}
NGINXCONF

ln -sf /etc/nginx/sites-available/app /etc/nginx/sites-enabled/ 2>/dev/null || true
rm -f /etc/nginx/sites-enabled/default
nginx -t 2>/dev/null && systemctl restart nginx || true

echo "Nginx configured for %s (-> :%d)"
''\<close>
definition nginxUpdateFormat :: string where
  \<open>nginxUpdateFormat =
''cat > /etc/nginx/sites-available/app << 'NGINXCONF'
server {
    listen 80;
    server_name %s;
    location / {
        proxy_pass http://localhost:%d;
        proxy_set_header Host $host;
        proxy_set_header X-Real-IP $remote_addr;
        proxy_set_header X-Forwarded-For $proxy_add_x_forwarded_for;
        proxy_set_header X-Forwarded-Proto $scheme;
    }
}
NGINXCONF
nginx -t 2>/dev/null && systemctl reload nginx || true
echo "Nginx updated to port %d"
''\<close>

definition nginxInstall :: "conn \<Rightarrow> proxyConfig \<Rightarrow> unit res prog" where
  \<open>nginxInstall c cfg =
     runU c (Fmt nginxFormat [Str (pcDomain cfg), Num (targetPort cfg), Str (pcDomain cfg), Num (targetPort cfg)])
       (wrapO ''nginx install: %w
%s'' [])\<close>

definition nginxUpdateTargetPort :: "conn \<Rightarrow> string \<Rightarrow> int \<Rightarrow> unit res prog" where
  \<open>nginxUpdateTargetPort c domain port =
     runU c (Fmt nginxUpdateFormat [Str domain, Num port, Num port]) (wrapO ''nginx update: %w
%s'' [])\<close>

definition nginxStatus :: "conn \<Rightarrow> (string \<times> goerr option) prog" where
  \<open>nginxStatus c = sshRun c (Raw (joinWith ''; '' [(''nginx -v 2>&1 || echo 'not installed'' @ [CHR 0x27]), (''systemctl is-active nginx 2>/dev/null || echo 'stopped'' @ [CHR 0x27])]))\<close>

definition nginxRemove :: "conn \<Rightarrow> goerr option prog" where
  \<open>nginxRemove c = bind (sshRun c (Raw (joinWith ''; '' [''rm -f /etc/nginx/sites-available/app'', ''rm -f /etc/nginx/sites-enabled/app'', ''systemctl reload nginx 2>/dev/null || true'', (''echo 'Nginx app config removed'' @ [CHR 0x27])]))) (\<lambda>(_, e). Ret e)\<close>

datatype proxyType = ProxyCaddy | ProxyTraefik | ProxyNginx

definition DetectProxy :: "conn \<Rightarrow> proxyType option prog" where
  \<open>DetectProxy c = bind (sshRun c (Raw ''if command -v caddy >/dev/null 2>&1; then echo 'caddy'; elif command -v traefik >/dev/null 2>&1; then echo 'traefik'; elif command -v nginx >/dev/null 2>&1; then echo 'nginx'; else echo 'none'; fi'')) (\<lambda>(out, _).
     Ret (if trimSpace out = ''caddy'' then Some ProxyCaddy
          else if trimSpace out = ''traefik'' then Some ProxyTraefik
          else if trimSpace out = ''nginx'' then Some ProxyNginx else None))\<close>

text \<open>The dispatch of the interface \<open>Proxy\<close>.\<close>

fun proxyUpdate :: "proxyType \<Rightarrow> conn \<Rightarrow> string \<Rightarrow> int \<Rightarrow> unit res prog" where
  "proxyUpdate ProxyCaddy = caddyUpdateTargetPort"
| "proxyUpdate ProxyTraefik = traefikUpdateTargetPort"
| "proxyUpdate ProxyNginx = nginxUpdateTargetPort"

fun proxyInstall :: "proxyType \<Rightarrow> conn \<Rightarrow> proxyConfig \<Rightarrow> unit res prog" where
  "proxyInstall ProxyCaddy = caddyInstall"
| "proxyInstall ProxyTraefik = traefikInstall"
| "proxyInstall ProxyNginx = nginxInstall"

fun proxyStatus :: "proxyType \<Rightarrow> conn \<Rightarrow> (string \<times> goerr option) prog" where
  "proxyStatus ProxyCaddy = caddyStatus"
| "proxyStatus ProxyTraefik = traefikStatus"
| "proxyStatus ProxyNginx = nginxStatus"

fun proxyRemove :: "proxyType \<Rightarrow> conn \<Rightarrow> goerr option prog" where
  "proxyRemove ProxyCaddy = caddyRemove"
| "proxyRemove ProxyTraefik = traefikRemove"
| "proxyRemove ProxyNginx = nginxRemove"

section \<open>Blue/green\<close>

definition portLine :: "string \<Rightarrow> int option" where
  "portLine out =
     (let parts = splitOn CHR '':'' out in
      if out \<noteq> '''' \<and> out \<noteq> ''0'' \<and> length parts > 1 then atoi (last parts) else None)"

definition getCurrentPort :: "conn \<Rightarrow> string \<Rightarrow> int prog" where
  \<open>getCurrentPort c name =
     bind (sshRun c (Fmt ''sudo docker compose -f /opt/sdk-ops/services/%s/current/docker-compose.yml port app 2>/dev/null || echo "0"'' [Str name])) (\<lambda>(out, _). case portLine (trimSpace out) of
       Some p \<Rightarrow> Ret p
     | None \<Rightarrow> bind (sshRun c (Raw (''grep -oP 'reverse_proxy localhost:'' @ [CHR 0x5C] @ ''K'' @ [CHR 0x5C] @ ''d+' /etc/caddy/Caddyfile 2>/dev/null || echo "8080"''))) (\<lambda>(caddy, _).
         Ret (case atoi (trimSpace caddy) of Some p \<Rightarrow> p | None \<Rightarrow> 8080)))\<close>

definition getAppDomains :: "conn \<Rightarrow> string \<Rightarrow> string list prog" where
  \<open>getAppDomains c name = bind (sshRun c (Raw (''grep -oP '^[a-zA-Z0-9.-]+'' @ [CHR 0x5C] @ ''.[a-zA-Z]{2,}' /etc/caddy/Caddyfile 2>/dev/null | head -1 || echo ""''))) (\<lambda>(out, _).
     Ret (if trimSpace out \<noteq> '''' then [trimSpace out] else [name @ ''.local'']))\<close>

definition greenCompose :: string where
  \<open>greenCompose =
''
services:
  app:
    extends:
      file: docker-compose.yml
      service: app
    ports:
      - "%d:%d"
''\<close>

definition green_up :: "string \<Rightarrow> script" where
  \<open>green_up dir = Fmt ''cd %s && sudo docker compose -f docker-compose.green.yml up -d 2>&1'' [Str dir]\<close>

definition green_down :: "string \<Rightarrow> script" where
  \<open>green_down dir = Fmt ''cd %s && sudo docker compose -f docker-compose.green.yml down 2>&1 || true'' [Str dir]\<close>

definition blue_down :: "string \<Rightarrow> script" where
  \<open>blue_down dir = Fmt ''cd %s && sudo docker compose down 2>&1 || true'' [Str dir]\<close>

definition greenPath :: "string \<Rightarrow> string" where
  "greenPath dir = dir @ ''/docker-compose.green.yml''"

definition startGreenContainer :: "conn \<Rightarrow> string \<Rightarrow> int \<Rightarrow> unit res prog" where
  \<open>startGreenContainer c dir port =
     bind (execP c (Fmt ''cat > %s << 'EOF'
%s
EOF'' [Str (greenPath dir), Str (sprintf greenCompose [Num port, Num port])])) (\<lambda>_.
     bind (sshRun c (green_up dir)) (\<lambda>(_, e). case e of
       None \<Rightarrow> okP
     | Some e \<Rightarrow> bind (execP c (green_down dir)) (\<lambda>_. fail (Wrapf ''green start failed: %w'' [] e))))\<close>

definition green_health :: "int \<Rightarrow> script" where
  \<open>green_health port = Fmt (''curl -sf http://localhost:%d/health 2>/dev/null || echo 'fail'' @ [CHR 0x27]) [Num port]\<close>

primrec greenProbe :: "nat \<Rightarrow> conn \<Rightarrow> int \<Rightarrow> bool prog" where
  "greenProbe 0 c port = Ret False"
| "greenProbe (Suc n) c port =
     bind (sshRun c (green_health port)) (\<lambda>(out, _).
       if trimSpace out \<noteq> ''fail'' then Ret True
       else bind (execP c (Raw ''sleep 2'')) (\<lambda>_. greenProbe n c port))"

definition healthCheckGreen :: "conn \<Rightarrow> int \<Rightarrow> string \<Rightarrow> unit res prog" where
  \<open>healthCheckGreen c port dir =
     bind (greenProbe 15 c port) (\<lambda>ok. if ok then okP
       else bind (execP c (green_down dir)) (\<lambda>_. fail (Errorf ''green health check failed'' [])))\<close>

primrec updateDomains :: "proxyType \<Rightarrow> conn \<Rightarrow> int \<Rightarrow> string list \<Rightarrow> unit prog" where
  "updateDomains p c port [] = Ret ()"
| "updateDomains p c port (d # ds) = bind (proxyUpdate p c d port) (\<lambda>_. updateDomains p c port ds)"

definition link_current :: "string \<Rightarrow> string \<Rightarrow> script" where
  \<open>link_current dir root = Fmt ''ln -sfn %s %s/current'' [Str dir, Str root]\<close>

definition switchToGreen :: "conn \<Rightarrow> string \<Rightarrow> string \<Rightarrow> string \<Rightarrow> int \<Rightarrow> unit res prog" where
  \<open>switchToGreen c name root dir port =
     bind (DetectProxy c) (\<lambda>p.
     bind (case p of None \<Rightarrow> Ret () | Some p \<Rightarrow> bind (getAppDomains c name) (updateDomains p c port)) (\<lambda>_.
     bind (execP c (blue_down dir)) (\<lambda>_.
     bind (execP c (Fmt ''rm -f %s'' [Str (greenPath dir)])) (\<lambda>_.
     bind (execP c (link_current dir root)) (\<lambda>_. okP)))))\<close>

definition greenPortOf :: "int \<Rightarrow> int" where
  "greenPortOf p = (if p + 1 < 1024 then 8080 else p + 1)"

definition DeployBlueGreen :: "conn \<Rightarrow> string \<Rightarrow> string \<Rightarrow> string \<Rightarrow> unit res prog" where
  "DeployBlueGreen c name root version =
     (let dir = root @ ''/'' @ version in
      bind (getCurrentPort c name) (\<lambda>p.
      tryP id (startGreenContainer c dir (greenPortOf p)) (\<lambda>_.
      tryP id (healthCheckGreen c (greenPortOf p) dir) (\<lambda>_.
      switchToGreen c name root dir (greenPortOf p)))))"

section \<open>The other runtimes\<close>

definition bareUnitFormat :: string where
  \<open>bareUnitFormat =
''[Unit]
Description=sdk-ops %s
After=network.target

[Service]
Type=simple
ExecStart=%s
Restart=always
RestartSec=5
WorkingDirectory=%s

[Install]
WantedBy=multi-user.target
''\<close>
definition bareScriptFormat :: string where
  \<open>bareScriptFormat =
''
cat > /etc/systemd/system/%s.service << 'EOF'
%s
EOF
systemctl daemon-reload
systemctl enable --now %s.service 2>/dev/null
systemctl restart %s.service 2>/dev/null
echo "ok"''\<close>

primrec firstExecutable :: "conn \<Rightarrow> string \<Rightarrow> string list \<Rightarrow> string prog" where
  "firstExecutable c dir [] = Ret ''''"
| "firstExecutable c dir (f # fs) =
     bind (sshRun c (Fmt ''stat -c '%%A' %s/%s 2>/dev/null || stat -f '%%Sp' %s/%s 2>/dev/null'' [Str dir, Str f, Str dir, Str f])) (\<lambda>(mode, _).
       if containsStr mode ''x'' then Ret (pathJoin [dir, f]) else firstExecutable c dir fs)"

definition DeployBare :: "conn \<Rightarrow> string \<Rightarrow> string \<Rightarrow> unit res prog" where
  \<open>DeployBare c name dir =
     bind (sshRun c (Fmt ''ls -1 %s/ | head -5'' [Str dir])) (\<lambda>(out, _).
     bind (firstExecutable c dir (goFields out)) (\<lambda>binary.
     if binary = '''' then okP
     else let unit = sprintf ''sdk-ops-%s'' [Str name] in
       tryP id (runE c (Fmt bareScriptFormat [Str unit, Str (sprintf bareUnitFormat [Str name, Str binary, Str dir]), Str unit, Str unit])
                  (wrapE ''systemd install: %w'' [])) (\<lambda>out2.
       if \<not> containsStr out2 ''ok'' then fail (Errorf ''systemd install failed: %s'' [Str (trimSpace out2)]) else okP)))\<close>

definition DeploySwarm :: "conn \<Rightarrow> string \<Rightarrow> string \<Rightarrow> string \<Rightarrow> unit res prog" where
  \<open>DeploySwarm c name dir img =
     (if img = '''' then fail (Errorf ''image required for swarm deploy'' [])
      else bind (sshRun c (Raw ''docker info --format '{{.Swarm.LocalNodeState}}' 2>/dev/null || echo inactive'')) (\<lambda>(state, _).
        tryP id (if trimSpace state \<noteq> ''active'' then runU c (Raw ''docker swarm init --advertise-addr eth0 2>/dev/null || true'') (wrapE ''swarm init: %w'' []) else okP) (\<lambda>_.
        let compose = sprintf ''%s/docker-compose.yml'' [Str dir] in
        bind (sshRun c (Fmt ''test -f %s && echo yes || echo no'' [Str compose])) (\<lambda>(has, _).
        if trimSpace has \<noteq> ''yes'' then fail (Errorf ''docker-compose.yml not found in %s'' [Str dir])
        else runU c (Fmt ''docker stack deploy -c %s %s --with-registry-auth 2>&1'' [Str compose, Str name]) (wrapO ''stack deploy: %w
%s'' [])))))\<close>

definition RemoveSwarmStack :: "conn \<Rightarrow> string \<Rightarrow> unit res prog" where
  \<open>RemoveSwarmStack c name = runU c (Fmt ''docker stack rm %s 2>&1 || true'' [Str name]) (wrapE ''stack rm: %w'' [])\<close>

definition k8sRuntimeTmpl :: string where
  \<open>k8sRuntimeTmpl =
''apiVersion: apps/v1
kind: Deployment
metadata:
  name: %s
  labels:
    app: %s
spec:
  replicas: 1
  selector:
    matchLabels:
      app: %s
  template:
    metadata:
      labels:
        app: %s
    spec:
      containers:
      - name: %s
        image: %s
        ports:
        - containerPort: %d
---
apiVersion: v1
kind: Service
metadata:
  name: %s
spec:
  selector:
    app: %s
  ports:
  - port: 80
    targetPort: %d
---
apiVersion: networking.k8s.io/v1
kind: Ingress
metadata:
  name: %s
  annotations:
    kubernetes.io/ingress.class: traefik
spec:
  rules:
  - host: %s
    http:
      paths:
      - path: /
        pathType: Prefix
        backend:
          service:
            name: %s
            port:
              number: 80
''\<close>

definition DeployK3s :: "conn \<Rightarrow> string \<Rightarrow> string \<Rightarrow> string \<Rightarrow> int \<Rightarrow> unit res prog" where
  \<open>DeployK3s c name img domain port0 =
     (let port = (if port0 = 0 then 8080 else port0);
          yaml = sprintf k8sRuntimeTmpl [Str name, Str name, Str name, Str name, Str name, Str img, Num port,
                   Str name, Str name, Num port, Str name, Str domain, Str name];
          tmp = sprintf ''/tmp/sdk-k8s-%s.yaml'' [Str name] in
      Do (ExecIn c (Fmt ''cat > %s && kubectl apply -f %s && rm -f %s'' [Str tmp, Str tmp, Str tmp]) yaml) (\<lambda>a. case aSess a of
        Some m \<Rightarrow> fail (Wrapf ''ssh session: %w'' [] (Ext m))
      | None \<Rightarrow> (case aErr a of None \<Rightarrow> okP | Some m \<Rightarrow> fail (Wrapf ''k3s deploy: %w
%s'' [Str (aOut a)] (Ext m)))))\<close>

text \<open>One line of the \<open>service.yaml\<close>: each prefix is tried, and the last value wins, the image excepted.\<close>

record k8sMeta =
  kmDomain :: string
  kmPort :: int
  kmImage :: string

text \<open>\<open>fmt.Sscanf(line, "port: %d", &p)\<close>: the space of the format needs one in the line.\<close>

definition afterSpace :: "string \<Rightarrow> string option" where
  "afterSpace s = (if s \<noteq> '''' \<and> is_space (hd s) then Some (dropWhile is_space s) else None)"

definition scanPrefixD :: "string \<Rightarrow> string \<Rightarrow> int \<Rightarrow> int" where
  "scanPrefixD pre line old =
     (case cutPrefix line pre of None \<Rightarrow> old
      | Some rest \<Rightarrow> (case afterSpace rest of None \<Rightarrow> old
          | Some s \<Rightarrow> (case sscanfD s of None \<Rightarrow> old | Some n \<Rightarrow> n)))"

definition k8sLine :: "k8sMeta \<Rightarrow> string \<Rightarrow> k8sMeta" where
  "k8sLine m raw =
     (let line = trimSpace raw;
          m = (case cutPrefix line ''domain:'' of Some d \<Rightarrow> m\<lparr>kmDomain := trimSpace d\<rparr> | None \<Rightarrow> m);
          m = m\<lparr>kmPort := scanPrefixD ''port:'' line (kmPort m)\<rparr>;
          m = (if hasPrefix line ''ports:'' then m\<lparr>kmPort := (case sscanfD (last (splitOn CHR '':'' line)) of None \<Rightarrow> kmPort m | Some n \<Rightarrow> n)\<rparr> else m)
      in case cutPrefix line ''image:'' of
           Some i \<Rightarrow> if kmImage m = '''' then m\<lparr>kmImage := trimSpace i\<rparr> else m
         | None \<Rightarrow> m)"

definition DeployK3sFromCompose :: "conn \<Rightarrow> string \<Rightarrow> string \<Rightarrow> string \<Rightarrow> unit res prog" where
  \<open>DeployK3sFromCompose c name dir img =
     bind (sshRun c (Fmt ''cat %s 2>/dev/null || true'' [Str (pathJoin [dir, ''service.yaml''])])) (\<lambda>(out, e).
     let m0 = \<lparr>kmDomain = '''', kmPort = 8080, kmImage = img\<rparr>;
         m = (if e = None then foldl k8sLine m0 (splitOn CHR 0x0A out) else m0)
     in DeployK3s c name (if kmImage m = '''' then sprintf ''%s:latest'' [Str name] else kmImage m) (kmDomain m) (kmPort m))\<close>

end
