(* ===== verification/DeployBuild.thy ===== *)
theory DeployBuild imports DeployUpload begin

text \<open>
  Building a service as an image on the operator's machine (\<open>deploy/builder*.go\<close>,
  \<open>BuildAndPushImage\<close> of \<open>deploy/upload.go\<close>): which builder a directory asks for, and the
  local commands of each. What the commands print is not modelled.
\<close>

section \<open>Local commands and files\<close>

text \<open>A \<open>Stat\<close> answers with \<open>dir\<close> for a directory, or with the text of the system's error.\<close>

definition runLocal :: "string list \<Rightarrow> string \<Rightarrow> string \<Rightarrow> string list \<Rightarrow> string \<Rightarrow> unit res prog" where
  "runLocal env dir program as msg = tryP (Wrapf msg []) (callP (LocalRun env dir program as)) (\<lambda>_. okP)"

definition fileExists :: "string \<Rightarrow> bool prog" where
  "fileExists p = Do (Stat p) (\<lambda>a. Ret (aErr a = None))"

definition isNotExist :: "string \<Rightarrow> bool" where
  "isNotExist m \<longleftrightarrow> hasSuffix m ''no such file or directory''"

primrec anyExists :: "string \<Rightarrow> string list \<Rightarrow> bool prog" where
  "anyExists dir [] = Ret False"
| "anyExists dir (f # fs) = bind (fileExists (pathJoin [dir, f])) (\<lambda>b. if b then Ret True else anyExists dir fs)"

section \<open>Which builder\<close>

datatype builder = DockerfileBuilder | NixpacksBuilder | PackBuilder

definition builderName :: "builder \<Rightarrow> string" where
  "builderName b = (case b of DockerfileBuilder \<Rightarrow> ''dockerfile'' | NixpacksBuilder \<Rightarrow> ''nixpacks'' | PackBuilder \<Rightarrow> ''pack'')"

definition NewBuilder :: "string \<Rightarrow> builder" where
  "NewBuilder b = (if b = ''nixpacks'' then NixpacksBuilder else if b = ''pack'' then PackBuilder else DockerfileBuilder)"

definition indicators :: "builder \<Rightarrow> string list" where
  "indicators b = (case b of
     DockerfileBuilder \<Rightarrow> [''Dockerfile'', ''main.go'']
   | NixpacksBuilder \<Rightarrow> [''package.json'', ''index.js'', ''server.js'', ''app.js'', ''requirements.txt'', ''setup.py'', ''main.py'',
       ''app.py'', ''Gemfile'', ''main.rb'', ''Cargo.toml'', ''go.mod'', ''main.go'', ''composer.json'', ''index.html'', ''Procfile'']
   | PackBuilder \<Rightarrow> [''project.toml'', ''buildpack.yml'', ''package.json'', ''Gemfile'', ''requirements.txt'', ''go.mod'', ''main.go'',
       ''composer.json'', ''Procfile''])"

definition detects :: "builder \<Rightarrow> string \<Rightarrow> bool prog" where
  "detects b dir = anyExists dir (indicators b)"

primrec detectFirst :: "string \<Rightarrow> builder list \<Rightarrow> string prog" where
  "detectFirst dir [] = Ret ''dockerfile''"
| "detectFirst dir (b # bs) = bind (detects b dir) (\<lambda>yes. if yes then Ret (builderName b) else detectFirst dir bs)"

definition DetectBuilder :: "string \<Rightarrow> string prog" where
  "DetectBuilder dir = bind (fileExists (pathJoin [dir, ''docker-compose.yml''])) (\<lambda>compose.
     if compose then Ret '''' else detectFirst dir [NixpacksBuilder, PackBuilder, DockerfileBuilder])"

section \<open>Dockerfile\<close>

definition imageTag :: "registryConfig \<Rightarrow> string \<Rightarrow> string" where
  \<open>imageTag reg name = sprintf ''%s/%s:v1.0.0'' [Str (rgServer reg), Str name]\<close>

definition latestTag :: "registryConfig \<Rightarrow> string \<Rightarrow> string" where
  \<open>latestTag reg name = sprintf ''%s/%s:latest'' [Str (rgServer reg), Str name]\<close>

definition registryLogin :: "registryConfig \<Rightarrow> unit res prog" where
  \<open>registryLogin reg = runLocal [] '''' ''docker'' [''login'', rgServer reg, ''-u'', rgUsername reg, ''-p'', rgPassword reg] ''docker login: %w''\<close>

definition goBuild :: "string \<Rightarrow> string \<Rightarrow> unit res prog" where
  \<open>goBuild dir binary = runLocal [''GOOS=linux'', ''GOARCH=amd64'', ''CGO_ENABLED=0''] dir ''go''
     [''build'', ''-a'', ''-o'', binary, ''-ldflags=-s -w'', ''.''] ''go build: %w''\<close>

definition buildxPush :: "string \<Rightarrow> string \<Rightarrow> registryConfig \<Rightarrow> string \<Rightarrow> string \<Rightarrow> unit res prog" where
  \<open>buildxPush dir name reg tag dockerfile = bind nowP (\<lambda>stamp.
     runLocal [] '''' ''docker'' [''buildx'', ''build'', ''--platform'', ''linux/amd64'', ''--build-arg'', ''CACHEBUST='' @ stamp,
       ''-f'', dockerfile, ''-t'', tag, ''-t'', latestTag reg name, ''--push'', dir] ''docker buildx: %w'')\<close>

definition buildAndPush :: "string \<Rightarrow> string \<Rightarrow> registryConfig \<Rightarrow> string \<Rightarrow> string \<Rightarrow> string res prog" where
  "buildAndPush dir name reg tag dockerfile =
     tryP id (registryLogin reg) (\<lambda>_. tryP id (buildxPush dir name reg tag dockerfile) (\<lambda>_. Ret (Inr tag)))"

definition goDockerfile :: string where
  \<open>goDockerfile =
''FROM debian:stable-slim
RUN apt-get update -qq && apt-get install -y -qq ca-certificates && rm -rf /var/lib/apt/lists/*
ARG CACHEBUST=1
COPY %s /app
EXPOSE 8080
CMD ["/app"]
''\<close>

text \<open>The two deferred removals run in reverse order.\<close>

definition goImage :: "string \<Rightarrow> string \<Rightarrow> registryConfig \<Rightarrow> string res prog" where
  \<open>goImage dir name reg =
     (let binaryName = sprintf ''sdk-ops-%s-amd64'' [Str name];
          binary = pathJoin [dir, binaryName];
          dockerfile = pathJoin [dir, ''Dockerfile.deploy'']
      in tryP id (goBuild dir binary) (\<lambda>_.
         tryP (Wrapf ''write Dockerfile: %w'' []) (writeFile dockerfile (sprintf goDockerfile [Str binaryName])) (\<lambda>_.
         deferReq (RemoveFile dockerfile) (deferReq (RemoveFile binary)
           (buildAndPush dir name reg (imageTag reg name) dockerfile)))))\<close>

definition dockerfileBuild :: "string \<Rightarrow> string \<Rightarrow> registryConfig \<Rightarrow> string res prog" where
  \<open>dockerfileBuild dir name reg =
     bind (fileExists (pathJoin [dir, ''Dockerfile''])) (\<lambda>has.
     if has then buildAndPush dir name reg (imageTag reg name) (pathJoin [dir, ''Dockerfile''])
     else Do (Stat (pathJoin [dir, ''main.go''])) (\<lambda>a.
       case aErr a of Some m \<Rightarrow> if isNotExist m then fail (Errorf ''no Dockerfile or main.go found in %s'' [Str dir]) else goImage dir name reg
       | None \<Rightarrow> goImage dir name reg))\<close>

definition packBuild :: "string \<Rightarrow> string \<Rightarrow> registryConfig \<Rightarrow> string res prog" where
  \<open>packBuild dir name reg =
     tryP (\<lambda>_. Errorf ''pack CLI not found. Install with: brew install buildpacks/tap/pack'' []) (callP (LookPath ''pack'')) (\<lambda>_.
     tryP id (registryLogin reg) (\<lambda>_.
     tryP id (runLocal [] '''' ''pack'' [''build'', imageTag reg name, ''--builder'', ''heroku/builder:24'', ''--platform'', ''linux/amd64'',
                ''--publish'', ''--path'', dir] ''pack build: %w'') (\<lambda>_.
     Ret (Inr (imageTag reg name)))))\<close>

text \<open>A missing \<open>nixpacks\<close> is tried through \<open>npx\<close>, and installed when that fails too.\<close>

definition ensureNixpacks :: "unit res prog" where
  \<open>ensureNixpacks = Do (LookPath ''nixpacks'') (\<lambda>a. if aErr a = None then okP
     else Do (LocalRun [] '''' ''npx'' [''nixpacks'', ''--version'']) (\<lambda>b. if aErr b = None then okP
       else runLocal [] '''' ''npm'' [''install'', ''-g'', ''nixpacks''] ''install nixpacks failed: %w''))\<close>

definition nixpacksBuild :: "string \<Rightarrow> string \<Rightarrow> registryConfig \<Rightarrow> string res prog" where
  \<open>nixpacksBuild dir name reg =
     tryP id ensureNixpacks (\<lambda>_.
     tryP id (registryLogin reg) (\<lambda>_.
     tryP id (runLocal [] dir ''nixpacks'' [''build'', dir, ''--name'', imageTag reg name, ''--tags'', imageTag reg name, latestTag reg name,
                ''--platform'', ''linux/amd64'', ''--push''] ''nixpacks build: %w'') (\<lambda>_.
     Ret (Inr (imageTag reg name)))))\<close>

definition builderBuild :: "builder \<Rightarrow> string \<Rightarrow> string \<Rightarrow> registryConfig \<Rightarrow> string res prog" where
  "builderBuild b = (case b of DockerfileBuilder \<Rightarrow> dockerfileBuild | NixpacksBuilder \<Rightarrow> nixpacksBuild | PackBuilder \<Rightarrow> packBuild)"

definition BuildImage :: "string \<Rightarrow> string \<Rightarrow> registryConfig \<Rightarrow> string \<Rightarrow> string res prog" where
  \<open>BuildImage dir name reg b = Do (Stat dir) (\<lambda>a.
     if aErr a \<noteq> None \<or> aOut a \<noteq> ''dir'' then fail (Errorf ''directory %s not found'' [Str dir])
     else tryP (Wrapf ''%s build: %w'' [Str b]) (builderBuild (NewBuilder b) dir name reg) (\<lambda>ref. Ret (Inr ref)))\<close>

text \<open>The older path for Go services, which cleans up only after a push that succeeded.\<close>

definition healthzDockerfile :: string where
  \<open>healthzDockerfile =
''FROM debian:stable-slim
RUN apt-get update -qq && apt-get install -y -qq ca-certificates && rm -rf /var/lib/apt/lists/*
ARG CACHEBUST=1
COPY %s /healthz-svc
EXPOSE 8080
CMD ["/healthz-svc"]
''\<close>

definition BuildAndPushImage :: "string \<Rightarrow> string \<Rightarrow> registryConfig \<Rightarrow> string res prog" where
  \<open>BuildAndPushImage dir name reg =
     (let binaryName = sprintf ''sdk-ops-%s-amd64'' [Str name];
          binary = pathJoin [dir, binaryName];
          dockerfile = pathJoin [dir, ''Dockerfile.deploy''];
          tag = sprintf ''%s/%s:v1.0.0'' [Str (rgServer reg), Str name];
          go = tryP id (goBuild dir binary) (\<lambda>_.
            tryP (Wrapf ''write Dockerfile: %w'' []) (writeFile dockerfile (sprintf healthzDockerfile [Str binaryName])) (\<lambda>_.
            tryP id (registryLogin reg) (\<lambda>_.
            tryP id (buildxPush dir name reg tag dockerfile) (\<lambda>_.
            Do (RemoveFile dockerfile) (\<lambda>_. Do (RemoveFile binary) (\<lambda>_. Ret (Inr tag)))))))
      in Do (Stat (pathJoin [dir, ''main.go''])) (\<lambda>a. case aErr a of
           Some m \<Rightarrow> if isNotExist m then fail (Errorf ''no main.go in %s'' [Str dir]) else go
         | None \<Rightarrow> go))\<close>

end
