(* ===== verification/Databases.thy ===== *)
theory Databases imports DeployUpload InfraCommands begin

text \<open>
  Databases on a node (\<open>deploy/database.go\<close>, \<open>cmd/sdk-ops/db.go\<close>), the rotation of their
  passwords and of service variables (\<open>deploy/rotate.go\<close>), and backups
  (\<open>deploy/backup.go\<close>, \<open>cmd/sdk-ops/backup.go\<close>).
\<close>

section \<open>Databases\<close>

record dbConfig =
  dbType :: string
  dbName :: string
  dbVersion :: string
  dbPort :: int
  dbNetwork :: string
  dbUser :: string
  dbPass :: string

record dbResult =
  dsConn :: string
  dsContainer :: string
  dsImage :: string
  dsInternal :: int
  dsExposed :: int
  dsUser :: string
  dsPass :: string
  dsDatabase :: string

definition imageName :: "string \<Rightarrow> string" where
  "imageName t = (if t = ''mongodb'' then ''mongo'' else t)"

definition latestVersion :: "string \<Rightarrow> string" where
  "latestVersion t = (if t = ''postgres'' then ''17-alpine'' else if t = ''mysql'' then ''8.0''
     else if t = ''redis'' then ''7-alpine'' else if t = ''mongodb'' then ''7'' else ''latest'')"

definition portFlag :: "int \<Rightarrow> int \<Rightarrow> string" where
  \<open>portFlag port internal = (if port > 0 then sprintf ''-p %d:%d'' [Num port, Num internal] else '''')\<close>

definition alnum :: string where
  \<open>alnum = ''abcdefghijklmnopqrstuvwxyzABCDEFGHIJKLMNOPQRSTUVWXYZ0123456789''\<close>

text \<open>Each character is drawn on its own, a draw that fails ends the generation.\<close>

primrec drawPassword :: "nat \<Rightarrow> string \<Rightarrow> string res prog" where
  "drawPassword 0 acc = Ret (Inr (rev acc))"
| "drawPassword (Suc n) acc = Do (RandInt (length alnum)) (\<lambda>a. case aErr a of
     Some m \<Rightarrow> fail (Ext m) | None \<Rightarrow> drawPassword n (alnum ! (aPick a mod length alnum) # acc))"

definition genPassword :: "string res prog" where
  "genPassword = drawPassword 24 ''''"

definition dbImage :: "dbConfig \<Rightarrow> string" where
  \<open>dbImage cfg = sprintf ''%s:%s'' [Str (imageName (dbType cfg)), Str (dbVersion cfg)]\<close>

definition provisionPostgres :: "conn \<Rightarrow> dbConfig \<Rightarrow> string \<Rightarrow> dbResult prog" where
  \<open>provisionPostgres c cfg name =
     (let db = replaceAll (dbName cfg) ''-'' ''_'' in
      bind (execP c (Fmt ''docker rm -f %s 2>/dev/null && docker run -d --name %s -e POSTGRES_USER=%s -e POSTGRES_PASSWORD=%s -e POSTGRES_DB=%s --restart unless-stopped %s %s'' [Str name, Str name, Str (dbUser cfg), Str (dbPass cfg), Str db, Str (portFlag (dbPort cfg) 5432), Str (dbImage cfg)])) (\<lambda>_.
      Ret \<lparr>dsConn = (if dbPort cfg > 0 then sprintf ''postgres://%s:%s@localhost:%d/%s'' [Str (dbUser cfg), Str (dbPass cfg), Num (dbPort cfg), Str db]
                       else sprintf ''postgres://%s:%s@%s:5432/%s'' [Str (dbUser cfg), Str (dbPass cfg), Str name, Str db]),
           dsContainer = name, dsImage = dbImage cfg, dsInternal = 5432, dsExposed = dbPort cfg,
           dsUser = dbUser cfg, dsPass = dbPass cfg, dsDatabase = db\<rparr>))\<close>

definition provisionMySQL :: "conn \<Rightarrow> dbConfig \<Rightarrow> string \<Rightarrow> dbResult prog" where
  \<open>provisionMySQL c cfg name =
     bind (execP c (Fmt ''docker rm -f %s 2>/dev/null && docker run -d --name %s -e MYSQL_ROOT_PASSWORD=%s -e MYSQL_USER=%s -e MYSQL_PASSWORD=%s -e MYSQL_DATABASE=%s --restart unless-stopped %s %s'' [Str name, Str name, Str (dbPass cfg), Str (dbUser cfg), Str (dbPass cfg), Str (dbName cfg),
                                  Str (portFlag (dbPort cfg) 3306), Str (dbImage cfg)])) (\<lambda>_.
     Ret \<lparr>dsConn = (if dbPort cfg > 0 then sprintf ''mysql://%s:%s@localhost:%d/%s'' [Str (dbUser cfg), Str (dbPass cfg), Num (dbPort cfg), Str (dbName cfg)]
                      else sprintf ''mysql://%s:%s@%s:3306/%s'' [Str (dbUser cfg), Str (dbPass cfg), Str name, Str (dbName cfg)]),
          dsContainer = name, dsImage = dbImage cfg, dsInternal = 3306, dsExposed = dbPort cfg,
          dsUser = dbUser cfg, dsPass = dbPass cfg, dsDatabase = dbName cfg\<rparr>)\<close>

definition provisionRedis :: "conn \<Rightarrow> dbConfig \<Rightarrow> string \<Rightarrow> dbResult prog" where
  \<open>provisionRedis c cfg name =
     (let flag = (if dbPass cfg \<noteq> '''' then sprintf ''redis-server --requirepass %s'' [Str (dbPass cfg)] else '''') in
      bind (execP c (Fmt ''docker rm -f %s 2>/dev/null && docker run -d --name %s --restart unless-stopped %s %s %s'' [Str name, Str name, Str (portFlag (dbPort cfg) 6379), Str (dbImage cfg), Str flag])) (\<lambda>_.
      Ret \<lparr>dsConn = (if dbPort cfg > 0 then sprintf ''redis://:%s@localhost:%d/0'' [Str (dbPass cfg), Num (dbPort cfg)]
                       else sprintf ''redis://:%s@%s:6379/0'' [Str (dbPass cfg), Str name]),
           dsContainer = name, dsImage = dbImage cfg, dsInternal = 6379, dsExposed = dbPort cfg,
           dsUser = '''', dsPass = dbPass cfg, dsDatabase = ''''\<rparr>))\<close>

definition provisionMongoDB :: "conn \<Rightarrow> dbConfig \<Rightarrow> string \<Rightarrow> dbResult prog" where
  \<open>provisionMongoDB c cfg name =
     bind (execP c (Fmt ''docker rm -f %s 2>/dev/null && docker run -d --name %s -e MONGO_INITDB_ROOT_USERNAME=%s -e MONGO_INITDB_ROOT_PASSWORD=%s -e MONGO_INITDB_DATABASE=%s --restart unless-stopped %s %s'' [Str name, Str name, Str (dbUser cfg), Str (dbPass cfg), Str (dbName cfg),
                                  Str (portFlag (dbPort cfg) 27017), Str (dbImage cfg)])) (\<lambda>_.
     Ret \<lparr>dsConn = (if dbPort cfg > 0 then sprintf ''mongodb://%s:%s@localhost:%d/%s'' [Str (dbUser cfg), Str (dbPass cfg), Num (dbPort cfg), Str (dbName cfg)]
                      else sprintf ''mongodb://%s:%s@%s:27017/%s'' [Str (dbUser cfg), Str (dbPass cfg), Str name, Str (dbName cfg)]),
          dsContainer = name, dsImage = dbImage cfg, dsInternal = 27017, dsExposed = dbPort cfg,
          dsUser = dbUser cfg, dsPass = dbPass cfg, dsDatabase = dbName cfg\<rparr>)\<close>

definition dbDefaults :: "dbConfig \<Rightarrow> dbConfig" where
  "dbDefaults cfg =
     (let cfg = cfg\<lparr>dbName := (if dbName cfg = '''' then dbType cfg else dbName cfg)\<rparr> in
      cfg\<lparr>dbUser := (if dbUser cfg = '''' then dbName cfg else dbUser cfg)\<rparr>)"

definition provisionType :: "string \<Rightarrow> (conn \<Rightarrow> dbConfig \<Rightarrow> string \<Rightarrow> dbResult prog) option" where
  "provisionType t = (if t = ''postgres'' then Some provisionPostgres else if t = ''mysql'' then Some provisionMySQL
     else if t = ''redis'' then Some provisionRedis else if t = ''mongodb'' then Some provisionMongoDB else None)"

definition ProvisionDatabase :: "conn \<Rightarrow> dbConfig \<Rightarrow> dbResult res prog" where
  \<open>ProvisionDatabase c cfg0 =
     (let cfg = dbDefaults cfg0 in
      tryP (Wrapf ''generate password: %w'' []) (if dbPass cfg = '''' then genPassword else Ret (Inr (dbPass cfg))) (\<lambda>pass.
      let cfg = cfg\<lparr>dbPass := pass, dbVersion := (if dbVersion cfg = '''' then latestVersion (dbType cfg) else dbVersion cfg)\<rparr>;
          name = sprintf ''sdk-db-%s'' [Str (dbName cfg)]
      in bind (execP c (Fmt ''docker pull %s:%s 2>/dev/null || true'' [Str (imageName (dbType cfg)), Str (dbVersion cfg)])) (\<lambda>_.
         case provisionType (dbType cfg) of
           None \<Rightarrow> fail (Errorf ''unsupported database type: %s'' [Str (dbType cfg)])
         | Some f \<Rightarrow> bind (f c cfg name) (\<lambda>r. Ret (Inr r)))))\<close>

definition RemoveDatabase :: "conn \<Rightarrow> string \<Rightarrow> unit res prog" where
  \<open>RemoveDatabase c name =
     tryP id (runE c (Fmt ''docker rm -f %s 2>/dev/null && echo "removed" || echo "not-found"'' [Str (sprintf ''sdk-db-%s'' [Str name])]) (wrapE ''remove database: %w'' [])) (\<lambda>out.
       if containsStr out ''not-found'' then fail (Errorf ''database %s not found'' [Str name]) else okP)\<close>

definition ListDatabases :: "conn \<Rightarrow> string list res prog" where
  \<open>ListDatabases c = tryP id (runE c (Raw ''docker ps --format '{{.Names}}' --filter name=sdk-db- 2>/dev/null || true'') (\<lambda>_ e. e)) (\<lambda>out.
     Ret (Inr (if trimSpace out = '''' then [] else splitOn CHR 0x0A (trimSpace out))))\<close>

section \<open>The db commands\<close>

definition nodeFromConfig :: "(string \<times> string \<times> string \<times> int) prog" where
  "nodeFromConfig = bind loadNodes (\<lambda>r. Ret (case r of
       Inr (n # ns) \<Rightarrow> (ncIP n, ncUser n, ncKey n, ncPort n) | _ \<Rightarrow> ('''', '''', '''', 0)))"

definition dbExposeScope :: "bool \<Rightarrow> string \<Rightarrow> (scope \<times> string list) res" where
  \<open>dbExposeScope all ips =
     (if all \<and> ips \<noteq> '''' then Inl (Errorf ''--db-global and --db-ips are mutually exclusive'' [])
      else if all then Inr (ScopeGlobal, [])
      else if ips \<noteq> '''' then Inr (ScopeIPs, map trimSpace (splitOn CHR '','' ips))
      else Inr (ScopeAdmin, []))\<close>

text \<open>The node a command works on: the one that is named, or the first that is registered.\<close>

definition dbTarget :: "string \<Rightarrow> string \<Rightarrow> string \<Rightarrow> int \<Rightarrow> goerr \<Rightarrow> conn res prog" where
  "dbTarget node user key port e =
     (if node \<noteq> '''' then Ret (Inr \<lparr>cHost = node, cUser = user, cPort = port, cKey = key\<rparr>)
      else bind nodeFromConfig (\<lambda>(nip, nu, nk, np).
        if nip = '''' then fail e
        else Ret (Inr \<lparr>cHost = nip, cUser = over_string nu user, cPort = orInt port np, cKey = over_string nk key\<rparr>)))"

record dbFlags =
  dfType :: string
  dfName :: string
  dfVersion :: string
  dfExposePort :: int
  dfGlobal :: bool
  dfIPs :: string
  dfNode :: string
  dfDbUser :: string
  dfDbPass :: string
  dfUser :: string
  dfKey :: string
  dfPort :: int

definition exposeDatabase :: "conn \<Rightarrow> dbFlags \<Rightarrow> int \<Rightarrow> unit res prog" where
  \<open>exposeDatabase c f port =
     (if port > 0 then
        (case dbExposeScope (dfGlobal f) (dfIPs f) of Inl e \<Rightarrow> fail e
         | Inr (sc, ips) \<Rightarrow> tryP (Wrapf ''firewall expose %d: %w'' [Num port]) (AllowlistExposePort c port ''tcp'' sc ips) (\<lambda>_. okP))
      else okP)\<close>

definition dbCreate :: "dbFlags \<Rightarrow> unit res prog" where
  \<open>dbCreate f =
     tryP id (dbTarget (dfNode f) (dfUser f) (dfKey f) (dfPort f) (Errorf ''no nodes registered. Use --node <ip>'' [])) (\<lambda>target.
     tryP (Wrapf ''ssh connect: %w'' []) (connectSSH target) (\<lambda>c.
     deferClose c (
     tryP id (precheckNode c (cHost target) (zeroFlags\<lparr>ifUser := cUser target, ifKey := cKey target, ifPort := cPort target\<rparr>) True) (\<lambda>_.
     tryP (Wrapf ''provision database: %w'' []) (ProvisionDatabase c \<lparr>dbType = dfType f, dbName = dfName f, dbVersion = dfVersion f,
         dbPort = dfExposePort f, dbNetwork = '''', dbUser = dfDbUser f, dbPass = dfDbPass f\<rparr>) (\<lambda>r.
     tryP id (exposeDatabase c f (dsExposed r)) (\<lambda>_.
     bind (stateRecord ''database'' (dsContainer r) (cHost target) (dsImage r) ''docker'' ''ok''
             (Some [(''type'', dfType f), (''port'', itoa (dsExposed r)), (''connstr'', dsConn r)])) (\<lambda>_. okP)))))))\<close>

definition dbTarget22 :: "dbFlags \<Rightarrow> conn res prog" where
  \<open>dbTarget22 f = tryP id (dbTarget (dfNode f) (dfUser f) (dfKey f) (dfPort f) (Errorf ''no nodes registered'' [])) (\<lambda>t.
     Ret (Inr (t\<lparr>cPort := orInt (cPort t) 22\<rparr>)))\<close>

definition dbList :: "dbFlags \<Rightarrow> string list res prog" where
  \<open>dbList f = tryP id (dbTarget22 f) (\<lambda>t. tryP (Wrapf ''ssh connect: %w'' []) (connectSSH t) (\<lambda>c. deferClose c (ListDatabases c)))\<close>

definition dbRemove :: "dbFlags \<Rightarrow> string \<Rightarrow> unit res prog" where
  \<open>dbRemove f name = tryP id (dbTarget22 f) (\<lambda>t. tryP (Wrapf ''ssh connect: %w'' []) (connectSSH t) (\<lambda>c. deferClose c (RemoveDatabase c name)))\<close>

section \<open>Rotation\<close>

definition rotateScript :: "string \<Rightarrow> string \<Rightarrow> string \<Rightarrow> script option" where
  \<open>rotateScript t name pass =
     (if t = ''postgres'' then Some (Fmt (''DB_USER=$(docker exec %s printenv POSTGRES_USER 2>/dev/null || echo postgres) && for i in 1 2 3; do echo "SELECT 1;" | docker exec -i %s psql -h localhost -U "$DB_USER" 2>/dev/null && break; sleep 2; done && PASS='%s' && echo "ALTER USER '' @ [CHR 0x5C] @ ''"$DB_USER'' @ [CHR 0x5C] @ ''" WITH PASSWORD '"'"'$PASS'"'"';" | docker exec -i %s psql -h localhost -U "$DB_USER" 2>&1'') [Str name, Str name, Str pass, Str name])
      else if t = ''mysql'' then Some (Fmt ''ROOT_PASS=$(docker exec %s printenv MYSQL_ROOT_PASSWORD 2>/dev/null) && DB_USER=$(docker exec %s printenv MYSQL_USER 2>/dev/null || echo root) && echo "ALTER USER '$DB_USER'@'%%' IDENTIFIED BY '%s'; FLUSH PRIVILEGES;" | docker exec -i %s mysql -u root -p"$ROOT_PASS" 2>&1'' [Str name, Str name, Str pass, Str name])
      else if t = ''mongodb'' then Some (Fmt ''docker exec %s mongosh --quiet --eval 'db.changeUserPassword("%s", "%s")' 2>&1'' [Str name, Str name, Str pass])
      else if t = ''redis'' then Some (Fmt ''docker exec %s redis-cli CONFIG SET requirepass '%s' 2>&1'' [Str name, Str pass]) else None)\<close>

definition RotateDBPassword :: "conn \<Rightarrow> string \<Rightarrow> string \<Rightarrow> string \<Rightarrow> string res prog" where
  \<open>RotateDBPassword c t name new =
     tryP (Wrapf ''generate password: %w'' []) (if new = '''' then genPassword else Ret (Inr new)) (\<lambda>pass.
     case rotateScript t name pass of None \<Rightarrow> fail (Errorf ''unsupported database type: %s'' [Str t])
     | Some s \<Rightarrow> tryP id (runE c s (\<lambda>out e. Wrapf ''rotate password on %s: %w
%s'' [Str name, Str (trimSpace out)] e)) (\<lambda>_. Ret (Inr pass)))\<close>

definition rotateCheckFormat :: string where
  \<open>rotateCheckFormat =
''
SERVICE_DIR="/opt/sdk-ops/services/%s/current"
if [ ! -d "$SERVICE_DIR" ]; then
  echo "error: service directory not found"
  exit 1
fi
''\<close>
definition rotateEnvFormat :: string where
  \<open>rotateEnvFormat =
''
# Update env in docker-compose.yml if exists
COMPOSE_FILE="$SERVICE_DIR/docker-compose.yml"
if [ -f "$COMPOSE_FILE" ]; then
  if grep -q '%s:' "$COMPOSE_FILE" 2>/dev/null; then
    sed -i 's|%s=.*|%s=%s|g' "$COMPOSE_FILE"
    echo "Updated env in docker-compose.yml"
  else
    echo "ok: key not found in compose (maybe set at runtime)"
  fi
fi

# Update env in service.yaml if exists
SVC_YAML="$SERVICE_DIR/service.yaml"
if [ -f "$SVC_YAML" ]; then
  if grep -q '%s:' "$SVC_YAML" 2>/dev/null; then
    sed -i 's|%s:.*|%s: %s|g' "$SVC_YAML"
    echo "Updated env in service.yaml"
  fi
fi

# Restart service
if docker ps --format='{{.Names}}' 2>/dev/null | grep -q '%s'; then
  COMPOSE_DIR=$(dirname "$COMPOSE_FILE")
  cd "$COMPOSE_DIR" && docker compose up -d --remove-orphans 2>&1 | tail -1
fi

echo "done"
''\<close>

text \<open>The error of a draw is dropped and its nil result dereferenced.\<close>

primrec drawEnvValue :: "nat \<Rightarrow> string \<Rightarrow> string res prog" where
  "drawEnvValue 0 acc = Ret (Inr (rev acc))"
| "drawEnvValue (Suc n) acc = Do (RandInt (length alnum)) (\<lambda>a. case aErr a of
     Some m \<Rightarrow> fail (Panic ''randomEnvValue: nil Int'')
   | None \<Rightarrow> drawEnvValue n (alnum ! (aPick a mod length alnum) # acc))"

text \<open>Two formats, one script.\<close>

definition rotate_env_script :: "string \<Rightarrow> string \<Rightarrow> string \<Rightarrow> script" where
  "rotate_env_script service key v = Fmt (rotateCheckFormat @ rotateEnvFormat)
     [Str service, Str key, Str key, Str key, Str v, Str key, Str key, Str key, Str v, Str service]"

definition RotateServiceEnv :: "conn \<Rightarrow> string \<Rightarrow> string \<Rightarrow> string \<Rightarrow> unit res prog" where
  \<open>RotateServiceEnv c service key v0 =
     tryP id (if v0 = '''' then drawEnvValue 32 '''' else Ret (Inr v0)) (\<lambda>v.
     runU c (rotate_env_script service key v) (\<lambda>out e. Wrapf ''rotate env: %w
%s'' [Str (trimSpace out)] e))\<close>

section \<open>Backups\<close>

text \<open>Downloading: the file on the node is read into a local one, then removed.\<close>

definition download :: "conn \<Rightarrow> string \<Rightarrow> string \<Rightarrow> string \<Rightarrow> string \<Rightarrow> string res prog" where
  \<open>download c remote local wrapRead wrapWrite =
     tryP id (runE c (Fmt ''cat %s'' [Str remote]) (wrapE wrapRead [])) (\<lambda>bytes.
     tryP (Wrapf wrapWrite []) (writeFile local bytes) (\<lambda>_.
     bind (execP c (Fmt ''rm -f %s'' [Str remote])) (\<lambda>_. Ret (Inr local))))\<close>

definition BackupServices :: "conn \<Rightarrow> string \<Rightarrow> string res prog" where
  \<open>BackupServices c dest =
     bind nowP (\<lambda>stamp.
     let file = sprintf ''sdk-ops-backup-%s.tar.gz'' [Str stamp]; remote = sprintf ''/tmp/%s'' [Str file] in
     bind (sshRun c (Raw ''ls -A /opt/sdk-ops/services 2>/dev/null | head -1 || echo "empty"'')) (\<lambda>(check, _).
     if trimSpace check = ''empty'' then fail (Errorf ''no services to backup'' [])
     else bind (sshRun c (Fmt ''tar czf %s -C /opt/sdk-ops services/ 2>/dev/null && echo "ok" || echo "fail"'' [Str remote])) (\<lambda>(out, e).
       if e \<noteq> None \<or> trimSpace out \<noteq> ''ok'' then fail (Errorf ''backup create failed: %s'' [Str (trimSpace out)])
       else download c remote (sprintf ''%s/%s'' [Str dest, Str file]) ''download backup: %w'' ''write backup: %w'')))\<close>

definition dumpScript :: "string \<Rightarrow> string \<Rightarrow> string \<Rightarrow> string \<Rightarrow> script option" where
  \<open>dumpScript t db name remote =
     (if t = ''postgres'' then Some (Fmt ''docker exec %s sh -c 'pg_dump -U postgres %s' | gzip > %s 2>/dev/null && echo "ok" || echo "fail"'' [Str name, Str db, Str remote])
      else if t = ''mysql'' then Some (Fmt ''docker exec %s sh -c 'mysqldump --all-databases' 2>/dev/null | gzip > %s 2>/dev/null && echo "ok" || echo "fail"'' [Str name, Str remote])
      else if t = ''mongodb'' then Some (Fmt ''docker exec %s sh -c 'mongodump --archive' 2>/dev/null | gzip > %s 2>/dev/null && echo "ok" || echo "fail"'' [Str name, Str remote])
      else if t = ''redis'' then Some (Fmt ''docker exec %s sh -c 'echo "SAVE" | redis-cli && cp /data/dump.rdb /tmp/dump.rdb' 2>/dev/null && gzip -c /tmp/dump.rdb > %s && echo "ok" || echo "fail"'' [Str name, Str remote]) else None)\<close>

definition BackupDatabase :: "conn \<Rightarrow> string \<Rightarrow> string \<Rightarrow> string \<Rightarrow> string \<Rightarrow> string res prog" where
  \<open>BackupDatabase c t db name dest =
     bind nowP (\<lambda>stamp.
     let file = sprintf ''db-%s-%s-%s.sql.gz'' [Str name, Str t, Str stamp]; remote = sprintf ''/tmp/%s'' [Str file] in
     case dumpScript t db name remote of None \<Rightarrow> fail (Errorf ''unsupported database type: %s'' [Str t])
     | Some s \<Rightarrow> bind (sshRun c s) (\<lambda>(out, e).
       if e \<noteq> None \<or> trimSpace out \<noteq> ''ok'' then fail (Errorf ''database backup failed: %s'' [Str (trimSpace out)])
       else download c remote (sprintf ''%s/%s'' [Str dest, Str file]) ''download db backup: %w'' ''write db backup: %w''))\<close>

definition s3Key :: "s3Config \<Rightarrow> string \<Rightarrow> string" where
  \<open>s3Key cfg path = (if s3Path cfg \<noteq> '''' then sprintf ''%s/%s'' [Str (trimPrefix (s3Path cfg) ''/''), Str path] else path)\<close>

text \<open>The configuration of the SDK and the transfer are the vendor's; the file is opened between them.\<close>

definition UploadToS3 :: "string \<Rightarrow> s3Config \<Rightarrow> unit res prog" where
  \<open>UploadToS3 path cfg =
     tryP (Wrapf ''open file: %w'' []) (readFile (pathClean path)) (\<lambda>bytes.
     tryP (Wrapf ''s3 upload: %w'' []) (callP (PutObject cfg (s3Key cfg path) bytes)) (\<lambda>_. okP))\<close>

definition cronField :: "string \<Rightarrow> string" where
  "cronField f =
     (let f = (if hasPrefix f ''*/'' then ''0/'' @ drop 2 f else f) in
      if length f = 1 \<and> f \<noteq> ''*'' then ''0'' @ f else f)"

definition cronToSystemdCalendar :: "string \<Rightarrow> string" where
  \<open>cronToSystemdCalendar expr =
     (case goFields expr of
        minute # hour # day # month # weekday # rest \<Rightarrow>
          sprintf ''%s-%s-%s %s:%s:00'' [Str weekday, Str month, Str day, Str (cronField hour), Str (cronField minute)]
      | _ \<Rightarrow> ''daily'')\<close>

definition backupCommand :: "string \<Rightarrow> string \<Rightarrow> string \<Rightarrow> string \<Rightarrow> string" where
  \<open>backupCommand t db name stamp =
     (if t = ''services'' then sprintf ''tar czf /tmp/sdk-ops-backup-%s.tar.gz -C /opt/sdk-ops services/'' [Str stamp]
      else if t = ''postgres'' then sprintf ''docker exec %s pg_dump -U postgres %s | gzip > /tmp/db-%s-%s.sql.gz'' [Str name, Str db, Str name, Str stamp]
      else if t = ''mysql'' then sprintf ''docker exec %s mysqldump --all-databases | gzip > /tmp/db-%s-%s.sql.gz'' [Str name, Str name, Str stamp]
      else if t = ''mongodb'' then sprintf ''docker exec %s mongodump --archive | gzip > /tmp/db-%s-%s.archive.gz'' [Str name, Str name, Str stamp]
      else if t = ''redis'' then sprintf ''docker exec %s sh -c 'redis-cli SAVE && cp /data/dump.rdb /tmp/dump.rdb' && gzip -c /tmp/dump.rdb > /tmp/db-%s-%s.rdb.gz'' [Str name, Str name, Str stamp] else '''')\<close>

definition backupServiceFormat :: string where
  \<open>backupServiceFormat =
''[Unit]
Description=sdk-ops backup - %s
After=docker.service
Requires=docker.service

[Service]
Type=oneshot
ExecStart=/bin/bash -c '%s && %s'
''\<close>
definition backupTimerFormat :: string where
  \<open>backupTimerFormat =
''[Unit]
Description=sdk-ops backup timer - %s

[Timer]
OnCalendar=%s
Persistent=true

[Install]
WantedBy=timers.target
''\<close>
definition backupInstallFormat :: string where
  \<open>backupInstallFormat =
''
mkdir -p /opt/sdk-ops/backups
cat > /etc/systemd/system/%s.service << 'SERVICEEOF'
%s
SERVICEEOF
cat > /etc/systemd/system/%s.timer << 'TIMEREOF'
%s
TIMEREOF
systemctl daemon-reload
systemctl enable --now %s.timer 2>/dev/null
systemctl restart %s.timer 2>/dev/null
echo "ok"
''\<close>

text \<open>The store is not used, and the stamp is the one of the installation.\<close>

definition ScheduleBackup :: "conn \<Rightarrow> string \<Rightarrow> string \<Rightarrow> string \<Rightarrow> string \<Rightarrow> s3Config option \<Rightarrow> unit res prog" where
  \<open>ScheduleBackup c t db name cron s3 =
     bind nowP (\<lambda>stamp.
     let unit = sprintf ''sdk-ops-backup-%s'' [Str t];
         service = sprintf backupServiceFormat [Str unit, Str (backupCommand t db name stamp), Str ''ls -t /tmp/sdk-ops-backup-*.tar.gz /tmp/db-*.sql.gz /tmp/db-*.archive.gz /tmp/db-*.rdb.gz 2>/dev/null | tail -n +8 | xargs -r rm -f''];
         timer = sprintf backupTimerFormat [Str unit, Str (cronToSystemdCalendar cron)] in
     tryP id (runE c (Fmt backupInstallFormat [Str unit, Str service, Str unit, Str timer, Str unit, Str unit]) (wrapE ''schedule install: %w'' [])) (\<lambda>out.
       if \<not> containsStr out ''ok'' then fail (Errorf ''schedule install failed: %s'' [Str (trimSpace out)]) else okP))\<close>

text \<open>A script that fails to say ok is reported with a nil error behind the \<open>%w\<close>.\<close>

definition UnscheduleBackup :: "conn \<Rightarrow> string \<Rightarrow> unit res prog" where
  \<open>UnscheduleBackup c t =
     (let unit = sprintf ''sdk-ops-backup-%s'' [Str t] in
      bind (sshRun c (Fmt ''
systemctl stop %s.timer 2>/dev/null || true
systemctl disable %s.timer 2>/dev/null || true
rm -f /etc/systemd/system/%s.service /etc/systemd/system/%s.timer
systemctl daemon-reload
echo "ok"
'' [Str unit, Str unit, Str unit, Str unit])) (\<lambda>(out, e). case e of
        Some e' \<Rightarrow> fail (Wrapf ''unschedule: %w'' [] e')
      | None \<Rightarrow> if \<not> containsStr out ''ok'' then fail (Errorf ''unschedule: %!w(<nil>)'' []) else okP))\<close>

definition ListBackupSchedules :: "conn \<Rightarrow> string list res prog" where
  \<open>ListBackupSchedules c = tryP id (runE c (Raw ''systemctl list-timers --all --no-pager 2>/dev/null | grep "sdk-ops-backup" || echo ""'') (\<lambda>_ e. e)) (\<lambda>out.
     Ret (Inr (if trimSpace out = '''' then [] else splitOn CHR 0x0A (trimSpace out))))\<close>

definition S3ConfigFromEnv :: "s3Config prog" where
  "S3ConfigFromEnv = bind (getenv ''SDK_OPS_S3_ENDPOINT'') (\<lambda>e. bind (getenv ''SDK_OPS_S3_REGION'') (\<lambda>r.
     bind (getenv ''SDK_OPS_S3_BUCKET'') (\<lambda>b. bind (getenv ''SDK_OPS_S3_ACCESS_KEY'') (\<lambda>a.
     bind (getenv ''SDK_OPS_S3_SECRET_KEY'') (\<lambda>s. bind (getenv ''SDK_OPS_S3_PATH'') (\<lambda>p.
     Ret \<lparr>s3Endpoint = e, s3Region = r, s3Bucket = b, s3AccessKey = a, s3SecretKey = s, s3Path = p\<rparr>))))))"

definition restore_script :: script where
  \<open>restore_script = Raw ''sudo tar xzf - -C / && echo "restore_ok"''\<close>

definition RestoreServices :: "conn \<Rightarrow> string \<Rightarrow> unit res prog" where
  \<open>RestoreServices c path =
     tryP (Wrapf ''read backup: %w'' []) (readFile (pathClean path)) (\<lambda>bytes.
     Do (ExecIn c restore_script bytes) (\<lambda>a. case aSess a of
       Some m \<Rightarrow> fail (Wrapf ''session: %w'' [] (Ext m))
     | None \<Rightarrow> (case aErr a of Some m \<Rightarrow> fail (Wrapf ''restore failed: %w
%s'' [Str (aOut a)] (Ext m))
         | None \<Rightarrow> bind (execP c (Raw (''for d in /opt/sdk-ops/services/*/; do
'' @ [CHR 0x09, CHR 0x09] @ ''[ -d "$d/current" ] && (cd "$d/current" && docker compose up -d 2>/dev/null || true)
'' @ [CHR 0x09] @ ''done''))) (\<lambda>_. okP))))\<close>

section \<open>The backup commands\<close>

definition onBackupNode :: "conn \<Rightarrow> (conn \<Rightarrow> 'a res prog) \<Rightarrow> 'a res prog" where
  "onBackupNode target body = tryP (Wrapf ''ssh: %w'' []) (connectSSH target) (\<lambda>c. deferClose c (body c))"

definition toS3 :: "string \<Rightarrow> unit res prog" where
  "toS3 path = bind S3ConfigFromEnv (\<lambda>s3.
     if s3Bucket s3 \<noteq> '''' then tryP (Wrapf ''s3 upload: %w'' []) (UploadToS3 path s3) (\<lambda>_. okP) else okP)"

definition backupCreate :: "conn \<Rightarrow> unit res prog" where
  "backupCreate target = onBackupNode target (\<lambda>c. tryP id (BackupServices c ''.'') toS3)"

definition backupDB :: "conn \<Rightarrow> string \<Rightarrow> string \<Rightarrow> string \<Rightarrow> unit res prog" where
  "backupDB target t name db =
     (if cHost target = '''' then fail (Errorf ''--node is required'' [])
      else onBackupNode target (\<lambda>c. tryP id (BackupDatabase c t db name ''.'') toS3))"

definition backupTypes :: "string list" where
  "backupTypes = [''services'', ''postgres'', ''mysql'', ''mongodb'', ''redis'']"

definition validBackupType :: "string \<Rightarrow> unit res prog" where
  "validBackupType t = (if t \<in> set backupTypes then okP
     else fail (Errorf ''invalid backup type: %s (valid: services, postgres, mysql, mongodb, redis)'' [Str t]))"

definition backupSchedule :: "conn \<Rightarrow> string \<Rightarrow> string \<Rightarrow> string \<Rightarrow> string \<Rightarrow> unit res prog" where
  "backupSchedule target t db name cron0 =
     tryP id (validBackupType t) (\<lambda>_.
     let cron = (if cron0 = '''' then ''0 3 * * *'' else cron0) in
     if cHost target = '''' then fail (Errorf ''--node is required'' [])
     else onBackupNode target (\<lambda>c.
       bind S3ConfigFromEnv (\<lambda>env. let s3 = (if s3Bucket env \<noteq> '''' then Some env else None) in
       tryP id (ScheduleBackup c t db name cron s3) (\<lambda>_.
       bind (stateRecord ''backup_schedule'' t (cHost target) cron '''' ''active''
               (Some [(''db_name'', db), (''container'', name), (''s3_bucket'', case s3 of None \<Rightarrow> '''' | Some s \<Rightarrow> s3Bucket s)])) (\<lambda>_. okP)))))"

definition backupUnschedule :: "conn \<Rightarrow> string \<Rightarrow> unit res prog" where
  "backupUnschedule target t =
     tryP id (validBackupType t) (\<lambda>_.
     if cHost target = '''' then fail (Errorf ''--node is required'' []) else onBackupNode target (\<lambda>c. UnscheduleBackup c t))"

definition backupListSchedules :: "conn \<Rightarrow> string list res prog" where
  "backupListSchedules target =
     (if cHost target = '''' then fail (Errorf ''--node is required'' []) else onBackupNode target ListBackupSchedules)"

definition backupRestore :: "conn \<Rightarrow> string \<Rightarrow> unit res prog" where
  "backupRestore target path = onBackupNode target (\<lambda>c. RestoreServices c path)"

end
