(* ===== verification/DeployPush.thy ===== *)
theory DeployPush imports DeployRun DeployBuild Databases begin

text \<open>
  The commands \<open>deploy\<close> and \<open>service\<close> (\<open>cmd/sdk-ops/deploy.go\<close>): where the source comes from,
  its secrets (\<open>secrets/secrets.go\<close>), the image, what \<open>service.yaml\<close> says, the deployment on
  one node or on all, and the commands on deployed services.
\<close>

section \<open>The source\<close>

record deployFlags =
  dpNode :: string
  dpName :: string
  dpUser :: string
  dpKey :: string
  dpPort :: int
  dpSopsKey :: string
  dpAll :: bool
  dpBuilder :: string
  dpZero :: bool
  dpRuntime :: string
  dpDomain :: string
  dpGlobal :: bool

definition resolveDeployNode :: "deployFlags \<Rightarrow> deployFlags prog" where
  "resolveDeployNode f =
     (if dpNode f = '''' then Ret f
      else bind (lookupNode (dpNode f)) (\<lambda>n. Ret (case n of None \<Rightarrow> f
        | Some n \<Rightarrow> f\<lparr>dpUser := over_string (ncUser n) (dpUser f), dpKey := over_string (ncKey n) (dpKey f),
                     dpPort := orInt (dpPort f) (ncPort n)\<rparr>)))"

text \<open>
  The directory of a clone is the one it holds when it holds nothing else. The temporary
  directory is returned for its removal, but not when the clone fails.
\<close>

definition cloneArgs :: "string \<Rightarrow> string \<Rightarrow> string \<Rightarrow> string list" where
  "cloneArgs url branch tmp = [''clone'', ''--depth=1''] @ (if branch \<noteq> '''' then [''--branch'', branch] else []) @ [url, tmp]"

definition resolveSourceDir :: "string \<Rightarrow> string \<Rightarrow> string \<Rightarrow> string \<Rightarrow> (string \<times> string option) res prog" where
  \<open>resolveSourceDir arg url branch key =
     (if url = '''' then Ret (Inr (arg, None))
      else tryP (Wrapf ''create temp dir: %w'' []) (askP (MkTemp ''sdk-deploy-'')) (\<lambda>a.
        let tmp = aOut a;
            env = (if key \<noteq> '''' then [sprintf ''GIT_SSH_COMMAND=ssh -i %s -o StrictHostKeyChecking=no'' [Str key]] else []) in
        tryP (Wrapf ''git clone: %w'' []) (callP (LocalRun env '''' ''git'' (cloneArgs url branch tmp))) (\<lambda>_.
        Do (ReadDir tmp) (\<lambda>b. Ret (Inr (case aFiles b of
            [(n, kind)] \<Rightarrow> if kind = ''dir'' then pathJoin [tmp, n] else tmp
          | _ \<Rightarrow> tmp, Some tmp))))))\<close>

definition sanitizeSourceDir :: "string \<Rightarrow> string prog" where
  "sanitizeSourceDir dir =
     (if isAbs dir then Ret (pathClean dir)
      else Do Getwd (\<lambda>a. Ret (if aErr a \<noteq> None then '''' else pathClean (pathJoin [aOut a, dir]))))"

definition resolveServiceName :: "string \<Rightarrow> string \<Rightarrow> string" where
  "resolveServiceName name dir = (if name \<noteq> '''' then name else last (splitOn CHR ''/'' (trimSuffix dir ''/'')))"

section \<open>Secrets\<close>

definition EncryptFile :: "string \<Rightarrow> string \<Rightarrow> unit res prog" where
  \<open>EncryptFile path key = runLocal [] '''' ''sops'' [''--encrypt'', ''--age'', key, ''--in-place'', pathClean path] ''sops encrypt: %w''\<close>

definition DecryptFile :: "string \<Rightarrow> string res prog" where
  \<open>DecryptFile path = tryP (Wrapf ''sops decrypt: %w'' []) (askP (LocalRun [] '''' ''sops'' [''--decrypt'', pathClean path])) (\<lambda>a. Ret (Inr (aOut a)))\<close>

definition sopsText :: "string \<Rightarrow> bool" where
  "sopsText s \<longleftrightarrow> s \<noteq> '''' \<and> (hd s = CHR 0x7B \<or> take 5 s = ''sops:'')"

definition FileIsEncrypted :: "string \<Rightarrow> bool prog" where
  "FileIsEncrypted path = bind (readFile (pathClean path)) (\<lambda>r. Ret (case r of Inl e \<Rightarrow> False | Inr s \<Rightarrow> sopsText s))"

definition DecryptFileInPlace :: "string \<Rightarrow> unit res prog" where
  \<open>DecryptFileInPlace path = runLocal [] '''' ''sops'' [''--decrypt'', ''--in-place'', pathClean path] ''sops decrypt in-place: %w''\<close>

text \<open>Whether the file was decrypted here, so that it is encrypted again at the end.\<close>

definition decryptSecretsIfNeeded :: "string \<Rightarrow> string \<Rightarrow> bool res prog" where
  \<open>decryptSecretsIfNeeded path key =
     (if key = '''' then Ret (Inr False)
      else bind (FileIsEncrypted path) (\<lambda>enc.
        if \<not> enc then Ret (Inr False)
        else tryP (Wrapf ''decrypt: %w'' []) (DecryptFileInPlace path) (\<lambda>_. Ret (Inr True))))\<close>

definition reencrypting :: "bool \<Rightarrow> string \<Rightarrow> string \<Rightarrow> 'a prog \<Rightarrow> 'a prog" where
  "reencrypting on path key p = (if on then bind p (\<lambda>r. bind (EncryptFile path key) (\<lambda>_. Ret r)) else p)"

section \<open>The image\<close>

definition pushImage :: "string \<Rightarrow> string \<Rightarrow> string \<Rightarrow> registryConfig \<Rightarrow> string res prog" where
  "pushImage dir name builder reg =
     (let built = (\<lambda>b. bind (BuildImage dir name reg b) (\<lambda>r. Ret (case r of
            Inl (Panic m) \<Rightarrow> Inl (Panic m) | Inl e \<Rightarrow> Inr '''' | Inr ref \<Rightarrow> Inr ref)))
      in if builder \<noteq> '''' then built builder
         else bind (DetectBuilder dir) (\<lambda>b. if b = '''' then Ret (Inr '''') else built b))"

definition ensureDockerOnNode :: "conn \<Rightarrow> registryConfig \<Rightarrow> unit prog" where
  \<open>ensureDockerOnNode target reg = bind (connectSSH target) (\<lambda>r. case r of Inl e \<Rightarrow> Ret ()
     | Inr c \<Rightarrow> deferClose c (
         bind (sshRun c (Raw (''command -v docker || echo 'no-docker'' @ [CHR 0x27]))) (\<lambda>(out, _).
         bind (if trimSpace out = ''no-docker'' then bind (dockerInstall c) (\<lambda>_. Ret ()) else Ret ()) (\<lambda>_.
         if rgUsername reg \<noteq> '''' \<and> rgPassword reg \<noteq> ''''
         then bind (sshRunWithStdin c (Fmt ''sudo docker login %s -u %s --password-stdin 2>/dev/null || true'' [Str (rgServer reg), Str (rgUsername reg)]) (rgPassword reg @ [CHR 0x0A])) (\<lambda>_. Ret ())
         else Ret ()))))\<close>

section \<open>What service.yaml says\<close>

text \<open>A port of the program text: \<open>Port:\<close>, spaces, digits.\<close>

definition re_space :: "char \<Rightarrow> bool" where
  "re_space c \<longleftrightarrow> c \<in> {CHR '' '', CHR 0x09, CHR 0x0A, CHR 0x0C, CHR 0x0D}"

fun portMatch :: "string \<Rightarrow> string option" where
  "portMatch [] = None"
| "portMatch (c # cs) = (case cutPrefix (c # cs) ''Port:'' of None \<Rightarrow> portMatch cs
     | Some r \<Rightarrow> (let d = takeWhile is_digit (dropWhile re_space r) in if d \<noteq> [] then Some d else portMatch cs))"

definition parsePortFromMain :: "string \<Rightarrow> int prog" where
  "parsePortFromMain dir = bind (readFile (pathJoin [dir, ''main.go''])) (\<lambda>r. Ret (case r of
       Inl e \<Rightarrow> 0
     | Inr s \<Rightarrow> (case portMatch s of None \<Rightarrow> 0
         | Some d \<Rightarrow> (case atoi d of Some p \<Rightarrow> if p > 0 then p else 0 | None \<Rightarrow> 0))))"

text \<open>\<open>Sscanf\<close> with \<open>%s\<close>: the next word after at least one space.\<close>

definition scanPrefixS :: "string \<Rightarrow> string \<Rightarrow> string \<Rightarrow> string" where
  "scanPrefixS pre line old =
     (case cutPrefix line pre of None \<Rightarrow> old
      | Some rest \<Rightarrow> (case afterSpace rest of None \<Rightarrow> old
          | Some s \<Rightarrow> (case goFields s of [] \<Rightarrow> old | w # ws \<Rightarrow> w)))"

definition parseHealthURLField :: "string \<Rightarrow> string" where
  "parseHealthURLField line = (case goFields line of [] \<Rightarrow> '''' | [a] \<Rightarrow> a | a # b # ws \<Rightarrow> b)"

definition buildHealthURL :: "string \<Rightarrow> int \<Rightarrow> string" where
  \<open>buildHealthURL val port =
     (if val = '''' \<or> hasPrefix val ''#'' \<or> val = ''path:'' \<or> val = ''url:'' then ''''
      else if hasPrefix val ''/'' then sprintf ''http://localhost:%d%s'' [Num (if port = 0 then 8080 else port), Str val]
      else val)\<close>

text \<open>The fields read so far, and whether the lines belong to the section \<open>health\<close>.\<close>

record yamlState =
  ysPort :: int
  ysURL :: string
  ysTimeout :: int
  ysInHealth :: bool

definition handleHealthSectionLine :: "yamlState \<Rightarrow> string \<Rightarrow> yamlState" where
  "handleHealthSectionLine s line =
     (if line = '''' \<or> \<not> hasPrefix line ''-'' \<and> \<not> hasPrefix line ''#'' \<and> containsStr line '':''
      then
        (let s = (if hasPrefix line ''path:'' \<or> hasPrefix line ''url:''
                  then (let u = buildHealthURL (parseHealthURLField line) (ysPort s) in if u \<noteq> '''' then s\<lparr>ysURL := u\<rparr> else s)
                  else s)
         in s\<lparr>ysTimeout := scanPrefixD ''interval:'' line (ysTimeout s), ysInHealth := True\<rparr>)
      else s\<lparr>ysInHealth := \<not> (\<not> hasPrefix line '' '' \<and> \<not> hasPrefix line [CHR 0x09] \<and> line \<noteq> '''')\<rparr>)"

definition parseYamlFlatHealthField :: "yamlState \<Rightarrow> string \<Rightarrow> yamlState" where
  "parseYamlFlatHealthField s line =
     s\<lparr>ysURL := scanPrefixS ''health_url:'' line (ysURL s), ysTimeout := scanPrefixD ''health_timeout:'' line (ysTimeout s)\<rparr>"

definition yamlLine :: "yamlState \<Rightarrow> string \<Rightarrow> yamlState" where
  "yamlLine s0 raw =
     (let line = trimSpace raw;
          s = s0\<lparr>ysPort := scanPrefixD ''port:'' line (ysPort s0)\<rparr>
      in if line = ''health:'' then s\<lparr>ysInHealth := True\<rparr>
         else (let s = (if ysInHealth s then handleHealthSectionLine s line else s)
               in if ysInHealth s then s else parseYamlFlatHealthField s line))"

definition parseServiceYamlLines :: "string \<Rightarrow> int \<Rightarrow> yamlState" where
  "parseServiceYamlLines data port =
     foldl yamlLine \<lparr>ysPort = port, ysURL = '''', ysTimeout = 30, ysInHealth = False\<rparr> (splitOn CHR 0x0A data)"

definition readServiceYamlData :: "string \<Rightarrow> (bool \<times> string) option prog" where
  "readServiceYamlData path = bind (readFile (pathClean path)) (\<lambda>r. Ret (case r of Inl e \<Rightarrow> None
     | Inr s \<Rightarrow> Some (containsStr s ''database:'' \<and> containsStr s ''url:'', s)))"

record appConfig =
  apPort :: int
  apURL :: string
  apTimeout :: int
  apHasDB :: bool

definition parseServiceConfig :: "string \<Rightarrow> string \<Rightarrow> appConfig prog" where
  "parseServiceConfig path dir =
     bind (readServiceYamlData path) (\<lambda>d.
     bind (parsePortFromMain dir) (\<lambda>p.
     let a = (case d of None \<Rightarrow> \<lparr>apPort = 8080, apURL = '''', apTimeout = 30, apHasDB = False\<rparr>
        | Some (db, text') \<Rightarrow>
            if text' = '''' then \<lparr>apPort = 8080, apURL = '''', apTimeout = 30, apHasDB = db\<rparr>
            else (let s = parseServiceYamlLines text' 8080 in
                  \<lparr>apPort = ysPort s, apURL = ysURL s, apTimeout = ysTimeout s, apHasDB = db\<rparr>))
     in Ret (if p > 0 then a\<lparr>apPort := p\<rparr> else a)))"

record serviceMeta =
  smInit :: string
  smPorts :: "int list"

text \<open>The published port of an entry \<open>- "8080:80"\<close>.\<close>

definition publishedPort :: "string \<Rightarrow> int option" where
  "publishedPort line =
     (let clean = trimChars (trimPrefix line ''-'') [CHR 0x22, CHR 0x27, CHR '' ''];
          h = takeWhile (\<lambda>c. c \<noteq> CHR '':'') clean
      in if CHR '':'' \<in> set clean \<and> h \<noteq> ''''
         then (case atoi (trimSpace h) of Some p \<Rightarrow> if p > 0 \<and> p \<le> 65535 then Some p else None | None \<Rightarrow> None)
         else None)"

definition metaLine :: "serviceMeta \<times> bool \<Rightarrow> string \<Rightarrow> serviceMeta \<times> bool" where
  "metaLine st raw =
     (case st of (m, inPorts) \<Rightarrow>
      let line = trimSpace raw in
      case cutPrefix line ''init:'' of
        Some cmd \<Rightarrow> (m\<lparr>smInit := trimSpace cmd\<rparr>, inPorts)
      | None \<Rightarrow>
          if hasPrefix line ''ports:'' then (m, True)
          else if \<not> inPorts then (m, False)
          else if line = '''' \<or> \<not> hasPrefix line ''-'' then (m, False)
          else (case publishedPort line of None \<Rightarrow> m | Some p \<Rightarrow> m\<lparr>smPorts := smPorts m @ [p]\<rparr>, True))"

definition metaOf :: "string \<Rightarrow> serviceMeta" where
  "metaOf data = fst (foldl metaLine (\<lparr>smInit = '''', smPorts = []\<rparr>, False) (splitOn CHR 0x0A data))"

definition parseServiceMeta :: "string \<Rightarrow> serviceMeta prog" where
  "parseServiceMeta path = bind (readFile (pathClean path)) (\<lambda>r. Ret (case r of
     Inl e \<Rightarrow> \<lparr>smInit = '''', smPorts = []\<rparr> | Inr s \<Rightarrow> metaOf s))"

definition normalizeHealthURL :: "string \<Rightarrow> int \<Rightarrow> int list \<Rightarrow> string" where
  \<open>normalizeHealthURL url port published =
     (if published \<noteq> [] \<and> hasPrefix url ''http://localhost:''
      then (let path = trimPrefix url ''http://localhost:'';
                path = (if CHR ''/'' \<in> set path then dropWhile (\<lambda>c. c \<noteq> CHR ''/'') path else ''/'')
            in sprintf ''http://localhost:%d%s'' [Num (hd published), Str path])
      else if url \<noteq> '''' \<and> \<not> hasPrefix url ''http://'' \<and> \<not> hasPrefix url ''https://''
      then sprintf ''http://localhost:%d%s'' [Num (if published \<noteq> [] then hd published else port), Str url]
      else url)\<close>

text \<open>The message of the request tells which of its steps failed: the root, the open, the write or the close.\<close>

definition writeFileSafe :: "string \<Rightarrow> string \<Rightarrow> unit res prog" where
  \<open>writeFileSafe path data =
     (if \<not> isAbs path then fail (Errorf ''path must be absolute: %s'' [Str path]) else callP (OpenWrite path data))\<close>

definition generateComposeAndServiceYaml :: "string \<Rightarrow> string \<Rightarrow> appConfig \<Rightarrow> string \<Rightarrow> string \<Rightarrow> unit res prog" where
  \<open>generateComposeAndServiceYaml ref name a dir path =
     tryP (Wrapf ''write compose: %w'' []) (writeFile (pathJoin [dir, ''docker-compose.yml'']) (GenerateCompose ref name (apPort a) (apHasDB a))) (\<lambda>_.
     if \<not> apHasDB a then okP
     else bind (readFile (pathClean path)) (\<lambda>r. case r of Inl e \<Rightarrow> okP
       | Inr s \<Rightarrow> let s = replaceAll s ''@localhost:'' (sprintf ''@%s-db:'' [Str name]);
                     s = replaceAll s ''@127.0.0.1:'' (sprintf ''@%s-db:'' [Str name])
                 in bind (writeFileSafe (pathJoin [dir, ''service.yaml'']) s) (\<lambda>_. okP)))\<close>

section \<open>One node\<close>

definition colorYellow :: string where
  "colorYellow = [CHR 0x1B] @ ''[33m''"

definition colorReset :: string where
  "colorReset = [CHR 0x1B] @ ''[0m''"

definition runTemplateInit :: "conn \<Rightarrow> string \<Rightarrow> serviceMeta \<Rightarrow> unit res prog" where
  \<open>runTemplateInit c name m =
     (if smInit m = '''' then okP else runU c (Fmt (''cd /opt/sdk-ops/services/%s/current && sudo bash -c '%s'' @ [CHR 0x27]) [Str name, Str (smInit m)]) (wrapE ''service init: %w'' []))\<close>

definition applyDeployPortPolicy :: "conn \<Rightarrow> serviceMeta \<Rightarrow> bool \<Rightarrow> unit res prog" where
  \<open>applyDeployPortPolicy c m all =
     eachP (\<lambda>p. tryP (Wrapf ''firewall expose %d: %w'' [Num p]) (AllowlistExposePort c p ''tcp'' (if all then ScopeGlobal else ScopeAdmin) []) (\<lambda>_. okP)) (smPorts m)\<close>

definition runServiceWithHealthCheck :: "conn \<Rightarrow> string \<Rightarrow> string \<Rightarrow> int \<Rightarrow> string \<Rightarrow> unit res prog" where
  \<open>runServiceWithHealthCheck c name url timeout nip =
     (let cfg = (runNamed name)\<lparr>rcHealthURL := url, rcHealthTimeout := timeout\<rparr> in
      tryP (Wrapf ''deploy failed: %w'' []) (RunService c cfg) (\<lambda>_.
      bind (HealthCheck c name timeout url) (\<lambda>h. case h of Inr _ \<Rightarrow> okP
      | Inl e \<Rightarrow> bind (Rollback c name '''') (\<lambda>rb. case rb of
          Inl e2 \<Rightarrow> fail (Wrapf ''health: %v
rollback also failed: %v'' [] e)
        | Inr _ \<Rightarrow> bind (RunService c cfg) (\<lambda>_. fail (Wrapf ''health check failed on %s: %v'' [Str nip] e))))))\<close>

definition defaultDeploy :: "conn \<Rightarrow> string \<Rightarrow> string \<Rightarrow> int \<Rightarrow> deployResult \<Rightarrow> bool \<Rightarrow> string \<Rightarrow> unit res prog" where
  \<open>defaultDeploy c name url timeout r zero nip =
     (if zero then tryP (Wrapf ''blue/green: %w'' []) (DeployBlueGreen c name (sprintf ''/opt/sdk-ops/services/%s'' [Str name]) (drVersion r)) (\<lambda>_. okP)
      else runServiceWithHealthCheck c name url timeout nip)\<close>

definition runtimeDir :: "string \<Rightarrow> deployResult \<Rightarrow> string" where
  \<open>runtimeDir name r = sprintf ''/opt/sdk-ops/services/%s/%s'' [Str name, Str (drVersion r)]\<close>

definition deployRuntimeOnNode :: "conn \<Rightarrow> string \<Rightarrow> deployResult \<Rightarrow> string \<Rightarrow> string \<Rightarrow> int \<Rightarrow> string \<Rightarrow> bool \<Rightarrow> string \<Rightarrow> unit res prog" where
  \<open>deployRuntimeOnNode c name r mode url timeout ref zero nip =
     (if mode = ''k3s'' then tryP (Wrapf ''k3s deploy: %w'' []) (DeployK3sFromCompose c name (runtimeDir name r) ref) (\<lambda>_. okP)
      else if mode = ''swarm'' then tryP (Wrapf ''swarm deploy: %w'' []) (DeploySwarm c name (runtimeDir name r) ref) (\<lambda>_. okP)
      else if mode = ''bare'' then tryP (Wrapf ''bare deploy: %w'' []) (DeployBare c name (runtimeDir name r)) (\<lambda>_. okP)
      else defaultDeploy c name url timeout r zero nip)\<close>

definition uploadExcludes :: "string list" where
  "uploadExcludes = [''.git'', ''node_modules'', ''.env'', ''.DS_Store'', ''.dockerignore'']"

definition uploadOf :: "string \<Rightarrow> string \<Rightarrow> uploadConfig" where
  "uploadOf name dir = \<lparr>ucService = name, ucSource = dir, ucFiles = [], ucExclude = uploadExcludes\<rparr>"

definition recordedRuntime :: "conn \<Rightarrow> string \<Rightarrow> string prog" where
  \<open>recordedRuntime c mode =
     (if mode \<noteq> '''' then Ret mode
      else bind (sshRun c (Raw ''command -v k3s && echo k3s || (command -v docker && echo docker) || echo systemd'')) (\<lambda>(out, _). Ret (if out \<noteq> '''' then trimSpace out else mode)))\<close>

definition deployToOne :: "conn \<Rightarrow> deployFlags \<Rightarrow> string \<Rightarrow> appConfig \<Rightarrow> string \<Rightarrow> unit res prog" where
  \<open>deployToOne target f dir a ref =
     (let name = dpName f; nip = cHost target in
      tryP (Wrapf ''cannot connect to %s: %w
  %sSuggestion: check that the server is reachable and port %d is open%s'' [Str nip, Str colorYellow, Num (cPort target), Str colorReset]) (connectSSH target) (\<lambda>c.
      deferClose c (
      bind (hooksRun c ''pre-deploy'' [(''APP'', name), (''NODE'', nip)]) (\<lambda>_.
      tryP (Wrapf ''upload: %w'' []) (UploadAndDeploy c (uploadOf name dir)) (\<lambda>r.
      bind (parseServiceMeta (pathJoin [dir, ''service.yaml''])) (\<lambda>m.
      let url = normalizeHealthURL (apURL a) (apPort a) (smPorts m) in
      tryP id (deployRuntimeOnNode c name r (dpRuntime f) url (apTimeout a) ref (dpZero f) nip) (\<lambda>_.
      tryP id (runTemplateInit c name m) (\<lambda>_.
      tryP id (applyDeployPortPolicy c m (dpGlobal f)) (\<lambda>_.
      bind (hooksRun c ''post-deploy'' [(''APP'', name), (''NODE'', nip), (''VERSION'', drVersion r)]) (\<lambda>_.
      bind (recordedRuntime c (dpRuntime f)) (\<lambda>rt.
      bind (stateRecord ''service'' name nip (drVersion r) rt ''ok'' (Some [(''port'', itoa (apPort a))])) (\<lambda>_. okP))))))))))))\<close>

section \<open>All nodes, and the command\<close>

definition nodeConn :: "nodeConfig \<Rightarrow> conn" where
  "nodeConn n = \<lparr>cHost = ncIP n, cUser = ncUser n, cPort = ncPort n, cKey = ncKey n\<rparr>"

text \<open>The errors of the nodes are printed, never returned.\<close>

definition deployGoroutine :: "deployFlags \<Rightarrow> string \<Rightarrow> appConfig \<Rightarrow> string \<Rightarrow> nodeConfig \<Rightarrow> goerr option res prog" where
  "deployGoroutine f dir a ref n = bind (deployToOne (nodeConn n) f dir a ref) (\<lambda>r. Ret (case r of
     Inl (Panic m) \<Rightarrow> Inl (Panic m) | Inl e \<Rightarrow> Inr (Some e) | Inr _ \<Rightarrow> Inr None))"

definition deployToAllNodes :: "deployFlags \<Rightarrow> nodeConfig list \<Rightarrow> string \<Rightarrow> appConfig \<Rightarrow> string \<Rightarrow> unit res prog" where
  "deployToAllNodes f ns dir a ref = tryP id (waveP (length ns) (map (deployGoroutine f dir a ref) ns)) (\<lambda>_. okP)"

definition firstNodeFlags :: "deployFlags \<Rightarrow> nodeConfig list res \<Rightarrow> deployFlags res" where
  \<open>firstNodeFlags f cfg =
     (if dpNode f \<noteq> '''' \<or> dpAll f then Inr f
      else case cfg of Inl e \<Rightarrow> Inl (Wrapf ''load config: %w'' [] e)
      | Inr [] \<Rightarrow> Inl (Errorf ''no nodes registered. Use --node <ip> or --all'' [])
      | Inr (n # ns) \<Rightarrow> Inr (f\<lparr>dpNode := ncIP n, dpUser := ncUser n, dpKey := ncKey n, dpPort := ncPort n\<rparr>))\<close>

definition flagsConn :: "deployFlags \<Rightarrow> conn" where
  "flagsConn f = \<lparr>cHost = dpNode f, cUser = dpUser f, cPort = dpPort f, cKey = dpKey f\<rparr>"

definition deployBuilt :: "deployFlags \<Rightarrow> nodeConfig list res \<Rightarrow> string \<Rightarrow> string \<Rightarrow> unit res prog" where
  \<open>deployBuilt f cfg dir path =
     bind DefaultRegistry (\<lambda>reg.
     tryP id (pushImage dir (dpName f) (dpBuilder f) reg) (\<lambda>ref.
     bind (if ref \<noteq> '''' then ensureDockerOnNode (flagsConn f) reg else Ret ()) (\<lambda>_.
     bind (parseServiceConfig path dir) (\<lambda>a.
     tryP id (if ref \<noteq> '''' then generateComposeAndServiceYaml ref (dpName f) a dir path else okP) (\<lambda>_.
     if dpAll f then
       (case cfg of Inl e \<Rightarrow> fail (Wrapf ''load config: %w'' [] e)
        | Inr ns \<Rightarrow> if ns = [] then fail (Errorf ''no nodes registered'' []) else deployToAllNodes f ns dir a ref)
     else deployToOne (flagsConn f) f dir a ref)))))\<close>

definition pushFrom :: "deployFlags \<Rightarrow> string \<Rightarrow> unit res prog" where
  \<open>pushFrom f0 src0 =
     (if src0 = '''' then fail (Errorf ''provide a directory or use --git <url>'' [])
      else bind (sanitizeSourceDir src0) (\<lambda>dir.
        bind (resolveDeployNode f0) (\<lambda>f1.
        bind loadNodes (\<lambda>cfg.
        case firstNodeFlags f1 cfg of Inl e \<Rightarrow> fail e
        | Inr f2 \<Rightarrow>
          let f = f2\<lparr>dpName := resolveServiceName (dpName f2) dir\<rparr>; path = pathJoin [dir, ''service.yaml''] in
          tryP id (decryptSecretsIfNeeded path (dpSopsKey f)) (\<lambda>dec.
          reencrypting dec path (dpSopsKey f) (deployBuilt f cfg dir path))))))\<close>

definition runDeployPush :: "deployFlags \<Rightarrow> string \<Rightarrow> string \<Rightarrow> string \<Rightarrow> string \<Rightarrow> unit res prog" where
  "runDeployPush f arg url branch sshKey =
     tryP id (resolveSourceDir arg url branch sshKey) (\<lambda>(src0, tmp). case tmp of
       None \<Rightarrow> pushFrom f src0 | Some t \<Rightarrow> deferReq (RemoveAll t) (pushFrom f src0))"

section \<open>Commands on deployed services\<close>

text \<open>A command without a node ends the program. A flag that is set wins over the registered value.\<close>

definition getNodeFlags :: "string \<Rightarrow> string \<Rightarrow> string \<Rightarrow> int \<Rightarrow> conn res prog" where
  "getNodeFlags node user key port =
     bind (if node \<noteq> '''' then Ret \<lparr>cHost = node, cUser = user, cPort = port, cKey = key\<rparr>
           else bind loadNodes (\<lambda>r. Ret (case r of
             Inr (n # ns) \<Rightarrow> \<lparr>cHost = ncIP n, cUser = over_string (ncUser n) user, cPort = orInt port (ncPort n), cKey = over_string (ncKey n) key\<rparr>
           | _ \<Rightarrow> \<lparr>cHost = '''', cUser = user, cPort = port, cKey = key\<rparr>))) (\<lambda>t.
     if cHost t = '''' then fail (Panic ''exit 1'')
     else Ret (Inr (t\<lparr>cUser := over_string ''root'' (cUser t), cPort := orInt (cPort t) 22\<rparr>)))"

definition connectNode :: "conn \<Rightarrow> conn res prog" where
  \<open>connectNode t = tryP (Wrapf ''ssh %s: %w'' [Str (cHost t)]) (connectSSH t) (\<lambda>c. Ret (Inr c))\<close>

definition onService :: "conn \<Rightarrow> (conn \<Rightarrow> 'a res prog) \<Rightarrow> 'a res prog" where
  "onService t body = tryP id (connectNode t) (\<lambda>c. deferClose c (body c))"

definition name_char :: "char \<Rightarrow> bool" where
  "name_char c \<longleftrightarrow> is_digit c \<or> c = CHR ''-'' \<or> (97 \<le> (of_char c :: nat) \<and> (of_char c :: nat) \<le> 122)"

definition serviceScriptPath :: "string \<Rightarrow> string \<Rightarrow> string res" where
  \<open>serviceScriptPath name kind =
     (if name = '''' \<or> \<not> list_all name_char name then Inl (Errorf ''invalid service name %q'' [Str name])
      else let dir = serviceRoot name in
        if kind = ''validate'' then Inr (dir @ ''/validate.sh'')
        else if kind = ''test'' then Inr (dir @ ''/test/test.sh'')
        else if kind = ''backup'' \<or> kind = ''restore'' then Inr (dir @ ''/'' @ kind @ ''-s3.sh'')
        else Inl (Errorf ''unknown script kind %q (validate, test, backup, restore)'' [Str kind]))\<close>

definition runNodeScript :: "conn \<Rightarrow> string \<Rightarrow> string \<Rightarrow> string \<Rightarrow> string \<Rightarrow> unit res prog" where
  \<open>runNodeScript t name label path extra =
     onService t (\<lambda>c. bind nowP (\<lambda>t0.
       bind (sshRun c (Fmt ''sudo bash %s%s'' [Str path, Str extra])) (\<lambda>(_, e).
       bind nowP (\<lambda>elapsed. case e of None \<Rightarrow> okP | Some e' \<Rightarrow> fail (Wrapf ''%s %s FAILED after %s: %w'' [Str name, Str label, Str elapsed] e')))))\<close>

definition runServiceScript :: "conn \<Rightarrow> string \<Rightarrow> string \<Rightarrow> unit res prog" where
  "runServiceScript t name kind =
     (case serviceScriptPath name kind of Inl e \<Rightarrow> fail e | Inr path \<Rightarrow> runNodeScript t name kind path '''')"

definition runServiceDR :: "conn \<Rightarrow> string \<Rightarrow> string \<Rightarrow> bool \<Rightarrow> unit res prog" where
  \<open>runServiceDR t name action agreed =
     (if action \<noteq> ''backup'' \<and> action \<noteq> ''restore'' then fail (Errorf ''dr action must be backup or restore (got %q)'' [Str action])
      else case serviceScriptPath name action of Inl e \<Rightarrow> fail e
      | Inr path \<Rightarrow>
          if action = ''restore'' \<and> \<not> agreed then fail (Errorf ''restore is destructive: the service data is replaced by the S3 dump, re-run with --yes'' [])
          else runNodeScript t name (''dr '' @ action) path (if action = ''restore'' then '' --yes'' else ''''))\<close>

definition statusAll :: "conn \<Rightarrow> unit res prog" where
  "statusAll c = tryP id (ListServices c) (eachP (\<lambda>s. bind (ServiceStatus c s) (\<lambda>_. okP)))"

definition runServiceStatus :: "conn \<Rightarrow> string \<Rightarrow> unit res prog" where
  "runServiceStatus t name = onService t (\<lambda>c.
     if name \<noteq> '''' then bind (ServiceStatus c name) (\<lambda>(_, e). case e of None \<Rightarrow> okP | Some e' \<Rightarrow> fail e') else statusAll c)"

definition runServiceLogs :: "conn \<Rightarrow> string \<Rightarrow> int \<Rightarrow> bool \<Rightarrow> unit res prog" where
  "runServiceLogs t name n follow = onService t (\<lambda>c. ServiceLogs c name n follow)"

definition runServiceRestart :: "conn \<Rightarrow> string \<Rightarrow> unit res prog" where
  "runServiceRestart t name = onService t (\<lambda>c. RunService c (runNamed name))"

definition diffTarget :: "string list \<Rightarrow> string \<Rightarrow> string" where
  "diffTarget vs version = (if version \<noteq> '''' then version else vs ! (length vs - 2))"

definition runServiceRollback :: "conn \<Rightarrow> string \<Rightarrow> string \<Rightarrow> bool \<Rightarrow> unit res prog" where
  \<open>runServiceRollback t name version diff = onService t (\<lambda>c.
     if diff then
       tryP (Wrapf ''list versions: %w'' []) (ListVersions c name) (\<lambda>vs.
         if length vs < 2 then okP
         else tryP (Wrapf ''diff: %w'' []) (DiffVersions c name (last vs) (diffTarget vs version)) (\<lambda>_. okP))
     else Rollback c name version)\<close>

definition runServiceVersions :: "conn \<Rightarrow> string \<Rightarrow> string list res prog" where
  "runServiceVersions t name = onService t (\<lambda>c. ListVersions c name)"

definition rotateTypes :: "string list" where
  "rotateTypes = [''postgres'', ''mysql'', ''redis'', ''mongodb'']"

definition serviceRotateDB :: "conn \<Rightarrow> string \<Rightarrow> string \<Rightarrow> string \<Rightarrow> unit res prog" where
  \<open>serviceRotateDB t name type new = onService t (\<lambda>c.
     if type \<notin> set rotateTypes then fail (Errorf ''unsupported db type: %s (use: postgres, mysql, redis, mongodb)'' [Str type])
     else tryP (Wrapf ''rotate db: %w'' []) (RotateDBPassword c type name new) (\<lambda>pass.
       bind (stateRecord ''database'' name (cHost t) type ''docker'' ''ok'' (Some [(''password'', pass)])) (\<lambda>_. okP)))\<close>

definition serviceRotateEnv :: "conn \<Rightarrow> string \<Rightarrow> string \<Rightarrow> string \<Rightarrow> unit res prog" where
  \<open>serviceRotateEnv t name key v =
     (if key = '''' then fail (Errorf ''--name is required (env var name)'' [])
      else onService t (\<lambda>c. tryP (Wrapf ''rotate env: %w'' []) (RotateServiceEnv c name key v) (\<lambda>_. okP)))\<close>

definition deployEncrypt :: "string \<Rightarrow> string \<Rightarrow> unit res prog" where
  "deployEncrypt path key = (if key = '''' then fail (Errorf ''--age-key is required'' []) else EncryptFile path key)"

end
