(* ===== verification/DeployProps.thy ===== *)
theory DeployProps imports DeployPush RunLemmas AllowlistProps begin

text \<open>
  What a deployment does: the archive an upload sends, the order of the steps on the node,
  the roll-back after a failed health check, the blue/green switch, the secrets that are
  encrypted again, and what the commands on deployed services may run.
\<close>

section \<open>The archive of an upload\<close>

text \<open>The files of a directory tree: path, content, executable or not.\<close>

inductive fileAt :: "fnode \<Rightarrow> string list \<Rightarrow> string \<Rightarrow> bool \<Rightarrow> bool" where
  here: "fileAt (FNode n x s) [n] s x"
| below: "k \<in> set kids \<Longrightarrow> fileAt k ps s x \<Longrightarrow> fileAt (DNode n m kids) (n # ps) s x"

inductive_cases fileAt_file: "fileAt (FNode n x s) ps t y"
inductive_cases fileAt_dir: "fileAt (DNode n m kids) ps t y"

text \<open>A file system lists no empty name, no dot, and no name with a slash.\<close>

fun good_tree :: "fnode \<Rightarrow> bool" where
  "good_tree (FNode n x s) = (n \<notin> {'''', ''.''} \<and> CHR ''/'' \<notin> set n)"
| "good_tree (DNode n m kids) = (n \<notin> {'''', ''.''} \<and> CHR ''/'' \<notin> set n \<and> list_all good_tree kids)"

text \<open>What an upload takes: everything but the hidden entries and \<open>node_modules\<close> of the top level.\<close>

definition shipped :: "string list \<Rightarrow> bool" where
  "shipped ps \<longleftrightarrow> hd (hd ps) \<noteq> CHR ''.'' \<and> hd ps \<noteq> ''node_modules''"

lemma fileAt_ne: "fileAt t ps s x \<Longrightarrow> ps \<noteq> []"
  by (induction rule: fileAt.induct) auto

lemma top_slash: "hasPrefix (a # s) ''.'' \<longleftrightarrow> a = CHR ''.''"
  by (auto simp: hasPrefix_iff)

lemma excluded_iff:
  "r \<in> set uploadExcludes \<Longrightarrow> hd r \<noteq> CHR ''.'' \<Longrightarrow> r = ''node_modules''"
  by (auto simp: uploadExcludes_def)

text \<open>Below a directory that is taken, nothing is skipped.\<close>

lemma keep_below:
  assumes "d \<noteq> ''''" "hd d \<noteq> CHR ''.''"
  shows "shouldSkipFile (uploadOf name dir) (relPath d n) isDir = Keep"
proof -
  obtain a s where d: "d = a # s" using assms(1) by (cases d) auto
  have r: "relPath d n = a # (s @ ''/'' @ n)" by (simp add: relPath_def d)
  have a: "a \<noteq> CHR ''.''" using assms(2) d by simp
  have "CHR ''/'' \<in> set (relPath d n)" by (simp add: r)
  moreover have "CHR ''/'' \<notin> set ''node_modules''" by simp
  ultimately have "relPath d n \<noteq> ''node_modules''" by metis
  then have "relPath d n \<notin> set uploadExcludes" using excluded_iff [of "relPath d n"] a r by auto
  then show ?thesis using a by (auto simp: shouldSkipFile_def uploadOf_def r top_slash)
qed

lemma relPath_ne: "n \<noteq> '''' \<Longrightarrow> relPath d n \<noteq> ''''"
  by (simp add: relPath_def)

lemma relPath_hd: "d \<noteq> '''' \<Longrightarrow> hd (relPath d n) = hd d"
  by (simp add: relPath_def)

definition fileEntry :: "string \<Rightarrow> bool \<Rightarrow> string \<Rightarrow> tarEntry" where
  "fileEntry p x s = \<lparr>teName = p, teMode = (if x then 493 else 420), teContent = s\<rparr>"

definition fileEntries :: "tarEntry list \<Rightarrow> tarEntry set" where
  "fileEntries es = {e \<in> set es. last (teName e) \<noteq> CHR ''/''}"

definition treeEntries :: "string \<Rightarrow> fnode \<Rightarrow> tarEntry set" where
  "treeEntries d t = {fileEntry (relPath d (joinWith ''/'' ps)) x s | ps x s. fileAt t ps s x}"

lemma fileEntries_simps [simp]:
  "fileEntries [] = {}"
  "fileEntries (e # es) = (if last (teName e) \<noteq> CHR ''/'' then insert e (fileEntries es) else fileEntries es)"
  by (auto simp: fileEntries_def)

lemma fileEntries_concat: "fileEntries (concat xs) = \<Union> (fileEntries ` set xs)"
  by (auto simp: fileEntries_def)

lemma relPath_join: "ps \<noteq> [] \<Longrightarrow> n \<noteq> '''' \<Longrightarrow> relPath d (joinWith ''/'' (n # ps)) = relPath (relPath d n) (joinWith ''/'' ps)"
  by (cases ps) (auto simp: relPath_def joinWith_def)

lemma treeEntries_file: "treeEntries d (FNode n x s) = {fileEntry (relPath d n) x s}"
  by (auto simp: treeEntries_def joinWith_def intro: fileAt.here elim!: fileAt_file)
    (metis append_Nil2 concat.simps(1) joinWith_def list.simps(5) list.simps(8) fileAt.here)

lemma treeEntries_dir:
  assumes "n \<noteq> ''''"
  shows "treeEntries d (DNode n m kids) = (\<Union>k \<in> set kids. treeEntries (relPath d n) k)"
proof (rule set_eqI)
  fix e
  show "e \<in> treeEntries d (DNode n m kids) \<longleftrightarrow> e \<in> (\<Union>k \<in> set kids. treeEntries (relPath d n) k)"
  proof
    assume "e \<in> treeEntries d (DNode n m kids)"
    then obtain ps x s where e: "e = fileEntry (relPath d (joinWith ''/'' ps)) x s" and f: "fileAt (DNode n m kids) ps s x"
      by (auto simp: treeEntries_def)
    from f obtain k qs where k: "k \<in> set kids" "ps = n # qs" "fileAt k qs s x" by (auto elim: fileAt_dir)
    with e relPath_join [of qs n d] fileAt_ne [OF k(3)] assms
    have "e = fileEntry (relPath (relPath d n) (joinWith ''/'' qs)) x s" by simp
    with k show "e \<in> (\<Union>k \<in> set kids. treeEntries (relPath d n) k)" unfolding treeEntries_def by blast
  next
    assume "e \<in> (\<Union>k \<in> set kids. treeEntries (relPath d n) k)"
    then obtain k qs x s where k: "k \<in> set kids" "fileAt k qs s x"
      and e: "e = fileEntry (relPath (relPath d n) (joinWith ''/'' qs)) x s" by (auto simp: treeEntries_def)
    have "e = fileEntry (relPath d (joinWith ''/'' (n # qs))) x s"
      using e relPath_join [of qs n d] fileAt_ne [OF k(2)] assms by simp
    with fileAt.below [OF k] show "e \<in> treeEntries d (DNode n m kids)" unfolding treeEntries_def by blast
  qed
qed

lemma last_relPath: "n \<noteq> '''' \<Longrightarrow> last (relPath d n) = last n"
  by (simp add: relPath_def)

lemma last_name: "n \<noteq> '''' \<Longrightarrow> CHR ''/'' \<notin> set n \<Longrightarrow> last (relPath d n) \<noteq> CHR ''/''"
  using last_in_set [of n] last_relPath [of n d] by metis

lemma tar_below:
  "good_tree t \<Longrightarrow> d \<noteq> '''' \<Longrightarrow> hd d \<noteq> CHR ''.'' \<Longrightarrow>
   fileEntries (tarNode (uploadOf name dir) d t) = treeEntries d t"
proof (induction t arbitrary: d)
  case (FNode n x s)
  then show ?case
    by (simp add: keep_below Let_def last_name treeEntries_file) (simp add: fileEntry_def)
next
  case (DNode n m kids)
  from DNode.prems have n: "n \<noteq> ''''" by auto
  have "fileEntries (tarNode (uploadOf name dir) (relPath d n) k) = treeEntries (relPath d n) k" if "k \<in> set kids" for k
    using DNode.IH [OF that, of "relPath d n"] DNode.prems that relPath_ne [OF n, of d] relPath_hd [of d n]
    by (auto simp: list_all_iff)
  then show ?case
    using DNode.prems by (simp add: keep_below Let_def fileEntries_concat treeEntries_dir n image_image)
qed

lemma joinWith_one [simp]: "joinWith s [p] = p"
  by (simp add: joinWith_def)


fun nodeName :: "fnode \<Rightarrow> string" where
  "nodeName (FNode n x s) = n"
| "nodeName (DNode n m kids) = n"

lemma fileAt_hd: "fileAt t ps s x \<Longrightarrow> hd ps = nodeName t"
  by (induction rule: fileAt.induct) auto

definition top_ok :: "string \<Rightarrow> bool" where
  "top_ok n \<longleftrightarrow> hd n \<noteq> CHR ''.'' \<and> n \<noteq> ''node_modules''"

lemma skip_top:
  assumes "n \<noteq> ''''" "n \<noteq> ''.''"
  shows "shouldSkipFile (uploadOf name dir) n isDir = (if top_ok n then Keep else if isDir then SkipDir else Skip)"
proof -
  obtain a s where n: "n = a # s" using assms by (cases n) auto
  show ?thesis
  proof (cases "a = CHR ''.''")
    case True
    with assms(2) n show ?thesis by (auto simp: shouldSkipFile_def n top_slash top_ok_def)
  next
    case False
    have m: "''node_modules'' \<in> set uploadExcludes" by (simp add: uploadExcludes_def)
    have e: "n \<in> set uploadExcludes \<longleftrightarrow> n = ''node_modules''"
      using excluded_iff [of n] False n m by auto
    have p: "\<not> hasPrefix n ''.''" "hd n \<noteq> CHR ''.''" using False by (simp_all add: n top_slash)
    show ?thesis using assms(2) e p by (simp add: shouldSkipFile_def uploadOf_def top_ok_def)
  qed
qed

lemma tar_top:
  assumes "good_tree t"
  shows "fileEntries (tarNode (uploadOf name dir) '''' t) = (if top_ok (nodeName t) then treeEntries '''' t else {})"
proof (cases t)
  case (FNode n x s)
  with assms have n: "n \<noteq> ''''" "n \<noteq> ''.''" "CHR ''/'' \<notin> set n" by auto
  show ?thesis using last_name [OF n(1,3), of "''''"] by (simp add: FNode skip_top n relPath_def Let_def treeEntries_file)
      (simp add: fileEntry_def)
next
  case (DNode n m kids)
  with assms have n: "n \<noteq> ''''" "n \<noteq> ''.''" and k: "\<And>k. k \<in> set kids \<Longrightarrow> good_tree k" by (auto simp: list_all_iff)
  have r: "relPath '''' n = n" by (simp add: relPath_def)
  show ?thesis
  proof (cases "top_ok n")
    case True
    then have "fileEntries (tarNode (uploadOf name dir) n k) = treeEntries n k" if "k \<in> set kids" for k
      using tar_below [OF k [OF that] n(1)] by (simp add: top_ok_def)
    then show ?thesis using True by (simp add: DNode skip_top n r Let_def fileEntries_concat treeEntries_dir image_image)
  qed (simp add: DNode skip_top n r Let_def)
qed

text \<open>
  C13: what an upload sends. For every directory tree, the files in the archive of an upload are
  exactly the files of the tree whose path does not begin with a dot and does not begin in
  \<open>node_modules\<close>, each under its relative path, with its content, mode 755 if executable and
  644 otherwise. So a \<open>.env\<close> or a \<open>node_modules\<close> below the first level is uploaded.
\<close>

theorem upload_archive_exact:
  assumes "runs (createTarArchive (uploadOf name dir)) [(Walk dir, a)] (Inr es)" "list_all good_tree (aTree a)"
  shows "fileEntries es = {fileEntry (joinWith ''/'' ps) x s | ps x s.
    (\<exists>t \<in> set (aTree a). fileAt t ps s x) \<and> shipped ps}"
proof -
  from assms(1) have es: "es = concat (map (tarNode (uploadOf name dir) '''') (aTree a))"
    by (auto simp: createTarArchive_def uploadOf_def split: option.splits)
  have good: "\<And>t. t \<in> set (aTree a) \<Longrightarrow> good_tree t" using assms(2) by (simp add: list_all_iff)
  have "fileEntries (tarNode (uploadOf name dir) '''' t) =
      {fileEntry (joinWith ''/'' ps) x s | ps x s. fileAt t ps s x \<and> shipped ps}" if "t \<in> set (aTree a)" for t
    unfolding tar_top [OF good [OF that]] using fileAt_hd [of t]
    by (auto simp: treeEntries_def relPath_def shipped_def top_ok_def; metis)
  then show ?thesis unfolding es fileEntries_concat by auto
qed

definition demo_tree :: "fnode list" where
  "demo_tree = [FNode ''.env'' False ''k=1'', FNode ''run.sh'' True ''go'',
     DNode ''app'' 493 [FNode ''.env'' False ''k=2'']]"

lemma upload_archive_exact_witness:
  "fileEntries (concat (map (tarNode (uploadOf ''web'' ''/src'') '''') demo_tree)) =
     {fileEntry (joinWith ''/'' ps) x s | ps x s. (\<exists>t \<in> set demo_tree. fileAt t ps s x) \<and> shipped ps} \<and>
   fileEntry ''app/.env'' False ''k=2'' \<in> fileEntries (concat (map (tarNode (uploadOf ''web'' ''/src'') '''') demo_tree))"
proof -
  let ?es = "concat (map (tarNode (uploadOf ''web'' ''/src'') '''') demo_tree)"
  have "runs (createTarArchive (uploadOf ''web'' ''/src'')) [(Walk ''/src'', (ok_out '''')\<lparr>aTree := demo_tree\<rparr>)] (Inr ?es)"
    by (simp add: createTarArchive_def ok_out_def uploadOf_def)
  moreover have "list_all good_tree demo_tree" by (simp add: demo_tree_def)
  ultimately have e: "fileEntries ?es = {fileEntry (joinWith ''/'' ps) x s | ps x s. (\<exists>t \<in> set demo_tree. fileAt t ps s x) \<and> shipped ps}"
    using upload_archive_exact [of "''web''" "''/src''" "(ok_out '''')\<lparr>aTree := demo_tree\<rparr>" ?es] by (simp add: ok_out_def)
  have "fileAt (DNode ''app'' 493 [FNode ''.env'' False ''k=2'']) [''app'', ''.env''] ''k=2'' False"
    by (auto intro: fileAt.intros)
  then have "fileEntry (joinWith ''/'' [''app'', ''.env'']) False ''k=2'' \<in> fileEntries ?es"
    unfolding e by (intro CollectI exI [of _ "[''app'', ''.env'']"] exI [of _ False] exI [of _ "''k=2''"])
      (simp add: demo_tree_def shipped_def)
  then show ?thesis using e by (simp add: joinWith_def)
qed

section \<open>Requests of a deployment\<close>

text \<open>
  Everything a deployment asks of the node and of the operator's machine, apart from saving
  the resource list and the calls of \<open>sops\<close>.
\<close>

fun is_save :: "req \<Rightarrow> bool" where
  "is_save (SaveState rs) = True"
| "is_save q = False"

fun is_sops :: "req \<Rightarrow> bool" where
  "is_sops (LocalRun env dir p as) = (p = ''sops'')"
| "is_sops q = False"

definition quiet :: "(req \<Rightarrow> bool) \<Rightarrow> bool" where
  "quiet P \<longleftrightarrow> (\<forall>q. \<not> is_save q \<longrightarrow> \<not> is_sops q \<longrightarrow> P q)"

lemma quiet_preds: "quiet (\<lambda>q. \<not> is_save q)" "quiet (\<lambda>q. \<not> is_sops q)"
  by (simp_all add: quiet_def)

lemma quiet_req: "quiet P \<Longrightarrow> \<not> is_save q \<and> \<not> is_sops q \<Longrightarrow> P q"
  by (simp add: quiet_def)

lemma quiet_small:
  assumes "quiet P"
  shows "allreq P (sshRun c s)" "allreq P (runE c s w)" "allreq P (runU c s w)" "allreq P (execP c s)"
    "allreq P (sshRunStream c s)" "allreq P (sshRunWithStdin c s i)" "allreq P (readFile f)" "allreq P (writeFile f d)"
    "allreq P nowP" "allreq P (getenv k)" "allreq P (connectSSH c)"
  by (intro prog_intros quiet_req [OF assms]; simp)+

lemma quiet_exists: "quiet P \<Longrightarrow> allreq P (fileExists f)"
  by (simp add: fileExists_def quiet_req)

lemma quiet_local: "quiet P \<Longrightarrow> p \<noteq> ''sops'' \<Longrightarrow> allreq P (runLocal env dir p as msg)"
  unfolding runLocal_def by (intro allreq_tryP allreq_callP) (simp_all add: quiet_req)

lemma quiet_close: "quiet P \<Longrightarrow> allreq P p \<Longrightarrow> allreq P (deferClose c p)"
  by (rule allreq_deferClose) (simp_all add: quiet_req)

lemmas quiet_intros = allreq_bindI allreq_tryP allreq_eachP quiet_close quiet_small quiet_exists quiet_local allreq_branches

lemma quiet_hooks:
  assumes "quiet P"
  shows "allreq P (hooksRun c phase vars)"
proof -
  have "allreq P (runHooks c phase vars ss)" for ss
    by (induction ss) (simp, unfold runHooks.simps, intro quiet_intros assms)
  then show ?thesis unfolding hooksRun_def Let_def by (intro quiet_intros assms)
qed

lemma quiet_runService:
  assumes "quiet P"
  shows "allreq P (RunService c cfg)"
  unfolding RunService_def detectRuntime_def runDockerCompose_def runKubectl_def kubectl_file_def runSystemd_def buildAndRun_def Let_def
  by (intro quiet_intros assms)

lemma quiet_tar: "quiet P \<Longrightarrow> allreq P (pipeTar c s es)"
  unfolding pipeTar_def by (intro allreq_branches) (simp_all add: quiet_req)

lemma quiet_upload:
  assumes "quiet P"
  shows "allreq P (UploadAndDeploy c cfg)"
  unfolding UploadAndDeploy_def nextVersion_def createTarArchive_def Let_def
  by (intro quiet_intros quiet_tar assms) (simp_all add: quiet_req assms)

lemma quiet_expose:
  assumes "quiet P"
  shows "allreq P (AllowlistExposePort c p proto sc ips)"
  unfolding AllowlistExposePort_def by (intro quiet_intros assms)

lemma quiet_tail:
  assumes "quiet P"
  shows "allreq P (runTemplateInit c name m)" "allreq P (applyDeployPortPolicy c m g)" "allreq P (recordedRuntime c mode)"
    "allreq P (parseServiceMeta path)" "allreq P (HealthCheck c name to url)" "allreq P (Rollback c name v)"
  unfolding runTemplateInit_def applyDeployPortPolicy_def recordedRuntime_def parseServiceMeta_def HealthCheck_def Rollback_def
  by (intro quiet_intros assms quiet_expose)+

lemma quiet_healthcheck:
  assumes "quiet P"
  shows "allreq P (runServiceWithHealthCheck c name url to nip)"
  unfolding runServiceWithHealthCheck_def Let_def
  by (intro quiet_intros quiet_runService quiet_tail assms)

lemma allreq_waveP:
  "(\<And>l. P (Sched l)) \<Longrightarrow> (\<And>p. p \<in> set ps \<Longrightarrow> allreq P p) \<Longrightarrow> allreq P (waveP n ps)"
proof (induction n ps rule: waveP.induct)
  case (1 n ps)
  show ?case
  proof (cases "crash ps = None \<and> live n ps \<noteq> []")
    case False
    then show ?thesis by (subst waveP.simps) auto
  next
    case True
    have "allreq P (case ps ! pick (live n ps) s of
          Do q k \<Rightarrow> Do q (\<lambda>a. waveP n (ps[pick (live n ps) s := k a]))
        | Ret x \<Rightarrow> Ret (Inr (outcomes ps)))" for s
    proof (cases "ps ! pick (live n ps) s")
      case (Do q k)
      let ?i = "pick (live n ps) s"
      have "?i < length ps" using pick_live in_live True by blast
      then have p: "allreq P (ps ! ?i)" using "1.prems"(2) by simp
      then have k: "allreq P (k a)" for a by (simp add: Do)
      have "allreq P (waveP n (ps[?i := k a]))" for a
      proof (rule "1.IH" [OF _ _ Do])
        show "\<not> crash ps \<noteq> None" "live n ps \<noteq> []" using True by auto
        show "P (Sched l)" for l by (rule "1.prems"(1))
        show "allreq P p" if "p \<in> set (ps[?i := k a])" for p
          using that "1.prems"(2) k set_update_subset_insert [of ps ?i "k a"] by auto
      qed
      then show ?thesis using p by (simp add: Do)
    qed simp
    then show ?thesis using True "1.prems"(1) by (subst waveP.simps) simp
  qed
qed

text \<open>Following a program past a part that cannot make a request.\<close>

lemma tryP_past:
  assumes "runs (tryP w p f) t r" "(q, a) \<in> set t" "allreq P p" "\<not> P q"
  obtains u v y where "t = u @ v" "runs p u (Inr y)" "runs (f y) v r" "(q, a) \<in> set v"
  using assms allreq_runs [OF assms(3)] unfolding runs_tryP by (metis Un_iff set_append)

lemma bind_past:
  assumes "runs (bind p f) t r" "(q, a) \<in> set t" "allreq P p" "\<not> P q"
  obtains u v y where "t = u @ v" "runs p u y" "runs (f y) v r" "(q, a) \<in> set v"
  using assms allreq_runs [OF assms(3)] unfolding runs_bind by (metis Un_iff set_append)

lemma defer_past:
  assumes "runs (deferClose c p) t r" "(q, a) \<in> set t" "q \<noteq> Close c"
  obtains u b where "t = u @ [(Close c, b)]" "runs p u r" "(q, a) \<in> set u"
  using assms unfolding runs_deferClose by auto

section \<open>Health checks and roll-back\<close>

definition healthy :: "string \<Rightarrow> int \<Rightarrow> string \<Rightarrow> answer \<Rightarrow> bool" where
  "healthy name to url a \<longleftrightarrow> snd (runResult (health_script name to url) a) = None"

lemma runs_HealthCheck:
  "runs (HealthCheck c name to url) t r \<Longrightarrow> \<exists>a. t = [(Exec c (health_script name to url), a)] \<and>
     (if healthy name to url a then r = Inr () else \<exists>e. r = Inl e)"
proof -
  assume "runs (HealthCheck c name to url) t r"
  then obtain a where "t = [(Exec c (health_script name to url), a)] \<and>
      r = (case runResult (health_script name to url) a of (out, None) \<Rightarrow> Inr () | (out, Some e) \<Rightarrow> Inl (Errorf ''health check failed: %s'' [Str (trimSpace out)]))"
    unfolding HealthCheck_def runs_runU by blast
  then have "t = [(Exec c (health_script name to url), a)] \<and> (if healthy name to url a then r = Inr () else \<exists>e. r = Inl e)"
    unfolding healthy_def by (cases "runResult (health_script name to url) a") (auto split: option.splits)
  then show ?thesis ..
qed

lemma runs_Rollback:
  "runs (Rollback c name v) t r \<Longrightarrow> \<exists>a. t = [(Exec c (rollback_script name v), a)]"
  unfolding Rollback_def runs_tryP runs_runE by (auto split: if_splits)

lemma healthcheck_run:
  assumes "runs (runServiceWithHealthCheck c name url to nip) t r"
  defines "cfg \<equiv> (runNamed name)\<lparr>rcHealthURL := url, rcHealthTimeout := to\<rparr>"
  shows "(\<exists>e. runs (RunService c cfg) t (Inl e) \<and> (\<exists>e'. r = Inl e')) \<or>
    (\<exists>u a v. t = u @ (Exec c (health_script name to url), a) # v \<and> runs (RunService c cfg) u (Inr ()) \<and>
      (if healthy name to url a then v = [] \<and> r = Inr ()
       else (\<exists>e. r = Inl e) \<and> (\<exists>b w. v = (Exec c (rollback_script name ''''), b) # w)))"
proof -
  let ?K = "\<lambda>h. case h of Inr _ \<Rightarrow> okP
      | Inl e \<Rightarrow> bind (Rollback c name '''') (\<lambda>rb. case rb of
          Inl e2 \<Rightarrow> fail (Wrapf ''health: %v\<newline>rollback also failed: %v'' [] e)
        | Inr _ \<Rightarrow> bind (RunService c cfg) (\<lambda>_. fail (Wrapf ''health check failed on %s: %v'' [Str nip] e)))"
  have "\<exists>p. runs (tryP p (RunService c cfg) (\<lambda>_. bind (HealthCheck c name to url) ?K)) t r"
    using assms(1) unfolding runServiceWithHealthCheck_def Let_def cfg_def by blast
  then obtain p where "runs (tryP p (RunService c cfg) (\<lambda>_. bind (HealthCheck c name to url) ?K)) t r" ..
  then show ?thesis unfolding runs_tryP
  proof (elim disjE exE conjE, goal_cases)
    case (2 u v x)
    from 2(3) obtain v1 v2 h where v: "v = v1 @ v2" "runs (HealthCheck c name to url) v1 h" "runs (?K h) v2 r"
      by (rule run_bind)
    from runs_HealthCheck [OF v(2)] obtain a where a: "v1 = [(Exec c (health_script name to url), a)]"
      "if healthy name to url a then h = Inr () else \<exists>e. h = Inl e" by blast
    have t: "t = u @ (Exec c (health_script name to url), a) # v2" using 2(1) v(1) a(1) by simp
    show ?case
    proof (cases "healthy name to url a")
      case True
      with a v(3) have "v2 = [] \<and> r = Inr ()" by simp
      with t 2(2) True show ?thesis
        by (intro disjI2 exI [of _ u] exI [of _ a] exI [of _ v2]) simp
    next
      case False
      with a obtain e where h: "h = Inl e" by auto
      from v(3) [unfolded h] have "runs (bind (Rollback c name '''') (\<lambda>rb. case rb of
          Inl e2 \<Rightarrow> fail (Wrapf ''health: %v\<newline>rollback also failed: %v'' [] e)
        | Inr _ \<Rightarrow> bind (RunService c cfg) (\<lambda>_. fail (Wrapf ''health check failed on %s: %v'' [Str nip] e)))) v2 r" by simp
      then obtain w1 w2 rb where w: "v2 = w1 @ w2" "runs (Rollback c name '''') w1 rb" "runs (case rb of
          Inl e2 \<Rightarrow> fail (Wrapf ''health: %v\<newline>rollback also failed: %v'' [] e)
        | Inr _ \<Rightarrow> bind (RunService c cfg) (\<lambda>_. fail (Wrapf ''health check failed on %s: %v'' [Str nip] e))) w2 r"
        by (rule run_bind)
      from runs_Rollback [OF w(2)] obtain b where b: "v2 = (Exec c (rollback_script name ''''), b) # w2" using w(1) by auto
      have "\<exists>e. r = Inl e" using w(3) by (cases rb) (auto simp: runs_bind)
      with t 2(2) False b show ?thesis
        by (intro disjI2 exI [of _ u] exI [of _ a] exI [of _ v2]) simp
    qed
  qed auto
qed

text \<open>
  C10: a deployment ends with a health check, and a failed one is rolled back. Every run of
  the default deployment either fails in starting the service, or it sends the health check
  right after the start: when the node answers it with success nothing else happens and the
  deployment succeeds; when not, the very next request is the script of the roll-back, and
  the deployment returns an error.
\<close>

theorem failed_health_rolls_back:
  assumes "runs (runServiceWithHealthCheck c name url to nip) t r"
  defines "cfg \<equiv> (runNamed name)\<lparr>rcHealthURL := url, rcHealthTimeout := to\<rparr>"
  shows "(\<exists>e. runs (RunService c cfg) t (Inl e) \<and> (\<exists>e'. r = Inl e')) \<or>
    (\<exists>u a v. t = u @ (Exec c (health_script name to url), a) # v \<and> runs (RunService c cfg) u (Inr ()) \<and>
      (if healthy name to url a then v = [] \<and> r = Inr ()
       else (\<exists>e. r = Inl e) \<and> (\<exists>b w. v = (Exec c (rollback_script name ''''), b) # w)))"
  unfolding cfg_def by (rule healthcheck_run [OF assms(1)])

lemma failed_health_rolls_back_witness:
  "\<exists>t r. runs (runServiceWithHealthCheck demo_conn ''web'' ''http://localhost:80/'' 30 ''10.0.0.1'') t r \<and> r \<noteq> Inr ()"
proof -
  let ?h = "health_script ''web'' 30 ''http://localhost:80/''"
  from runs_total [of "runServiceWithHealthCheck demo_conn ''web'' ''http://localhost:80/'' 30 ''10.0.0.1''" "failed ''down''"]
  obtain t r where t: "runs (runServiceWithHealthCheck demo_conn ''web'' ''http://localhost:80/'' 30 ''10.0.0.1'') t r" "snd ` set t \<subseteq> {failed ''down''}"
    by (elim exE conjE)
  have bad: "\<not> healthy ''web'' 30 ''http://localhost:80/'' (failed ''down'')"
    unfolding healthy_def by (rule runResult_failed)
  from failed_health_rolls_back [OF t(1)]
  have "r \<noteq> Inr ()"
  proof (elim disjE exE conjE, goal_cases)
    case (2 u a v)
    from 2(1) have "failed ''down'' = a" using t(2) by (simp only: set_append set_simps image_Un image_insert snd_conv) blast
    with 2(3) bad show ?case by auto
  qed simp
  with t(1) show ?thesis by blast
qed

section \<open>What is recorded\<close>

lemma healthcheck_ok:
  assumes "runs (runServiceWithHealthCheck c name url to nip) t (Inr ())"
  shows "\<exists>a. (Exec c (health_script name to url), a) \<in> set t \<and> healthy name to url a"
  using healthcheck_run [OF assms] by (auto split: if_splits)

definition plainDeploy :: "deployFlags \<Rightarrow> bool" where
  "plainDeploy f \<longleftrightarrow> dpRuntime f \<notin> {''k3s'', ''swarm'', ''bare''} \<and> \<not> dpZero f"

lemma plain_runtime:
  "plainDeploy f \<Longrightarrow> deployRuntimeOnNode c name r (dpRuntime f) url to ref (dpZero f) nip = runServiceWithHealthCheck c name url to nip"
  by (simp add: plainDeploy_def deployRuntimeOnNode_def defaultDeploy_def)


definition demo_flags :: deployFlags where
  "demo_flags = \<lparr>dpNode = ''10.0.0.1'', dpName = ''web'', dpUser = ''root'', dpKey = '''', dpPort = 22, dpSopsKey = ''age1'',
     dpAll = False, dpBuilder = '''', dpZero = False, dpRuntime = '''', dpDomain = '''', dpGlobal = False\<rparr>"

definition demo_app :: appConfig where
  "demo_app = \<lparr>apPort = 8080, apURL = '''', apTimeout = 30, apHasDB = False\<rparr>"

lemma x_text: "trimSpace ''x'' = ''x''" "\<not> hasPrefix ''x'' ''yes''" "\<not> containsStr ''x'' ''yes''" "\<not> hasPrefix ''x'' ''ports:''" "cutPrefix ''x'' ''init:'' = None"
  by code_simp+

lemma steady_hooks: "steady (ok_out x) (hooksRun c p v) = Inr ()"
proof -
  have "steady (ok_out x) (runHooks c p v ss) = Inr ()" for ss by (induction ss) (simp_all add: steady_simps runResult_ok)
  then show ?thesis by (simp add: hooksRun_def Let_def steady_simps runResult_ok)
qed

lemma steady_upload: "\<exists>r. steady (ok_out x) (UploadAndDeploy c cfg) = Inr r"
  unfolding UploadAndDeploy_def Let_def createTarArchive_def pipeTar_def
  by (simp add: steady_simps) (simp add: ok_out_def steady_simps)

lemma steady_runService: "steady (ok_out ''x'') (RunService c (cfg\<lparr>rcType := ''''\<rparr>)) = Inr ()"
  unfolding RunService_def detectRuntime_def runSystemd_def Let_def
  by (simp add: steady_simps runResult_ok x_text)

lemma steady_health: "steady (ok_out x) (HealthCheck c name to url) = Inr ()"
  unfolding HealthCheck_def by (simp add: steady_simps)

lemma steady_meta: "steady (ok_out ''x'') (parseServiceMeta p) = \<lparr>smInit = '''', smPorts = []\<rparr>"
  by (simp add: parseServiceMeta_def steady_simps metaOf_def metaLine_def Let_def x_text)

lemma saves: "\<exists>rs. SaveState rs \<in> set (calls (ok_out x) (stateRecord t n i v rt st m))"
  by (simp add: stateRecord_def ok_out_def steady_simps)


lemma steady_deploy: "\<exists>rs. SaveState rs \<in> set (calls (ok_out ''x'') (deployToOne demo_conn demo_flags ''/src'' demo_app ''''))"
proof -
  let ?a = "ok_out ''x''"
  obtain d where u: "steady ?a (UploadAndDeploy demo_conn (uploadOf ''web'' ''/src'')) = Inr d" using steady_upload by blast
  have p: "plainDeploy demo_flags" by (simp add: plainDeploy_def demo_flags_def)
  have n: "(runNamed ''web'')\<lparr>rcHealthURL := x, rcHealthTimeout := y\<rparr> = ((runNamed ''web'')\<lparr>rcHealthURL := x, rcHealthTimeout := y\<rparr>)\<lparr>rcType := ''''\<rparr>" for x y
    by (simp add: runNamed_def)
  have r: "steady ?a (runServiceWithHealthCheck demo_conn ''web'' x y z) = Inr ()" for x y z
    unfolding runServiceWithHealthCheck_def Let_def by (subst n) (simp add: steady_simps steady_runService steady_health)
  have rt: "deployRuntimeOnNode demo_conn ''web'' d (dpRuntime demo_flags) x y '''' (dpZero demo_flags) z = runServiceWithHealthCheck demo_conn ''web'' x y z" for x y z
    by (rule plain_runtime [OF p])
  have t: "steady ?a (runTemplateInit demo_conn n \<lparr>smInit = '''', smPorts = []\<rparr>) = Inr ()"
    "steady ?a (applyDeployPortPolicy demo_conn \<lparr>smInit = '''', smPorts = []\<rparr> g) = Inr ()" for n g
    by (simp_all add: runTemplateInit_def applyDeployPortPolicy_def steady_simps)
  have ch: "cHost demo_conn = ''10.0.0.1''" by (simp add: demo_conn_def)
  have nm: "dpName demo_flags = ''web''" by (simp add: demo_flags_def)
  obtain rs where sv: "SaveState rs \<in> set (calls ?a (stateRecord ''service'' ''web'' ''10.0.0.1'' (drVersion d) (steady ?a (recordedRuntime demo_conn (dpRuntime demo_flags))) ''ok'' (Some [(''port'', itoa (apPort demo_app))])))"
    by (rule exE [OF saves])
  have "SaveState rs \<in> set (calls ?a (deployToOne demo_conn demo_flags ''/src'' demo_app ''''))"
    unfolding deployToOne_def Let_def nm ch
    by (rule calls_in_tryP [OF steady_ok(3)], rule calls_in_close, rule calls_in_bind, rule calls_in_tryP [OF u], rule calls_in_bind,
      unfold steady_meta rt, rule calls_in_tryP [OF r], rule calls_in_tryP [OF t(1)], rule calls_in_tryP [OF t(2)],
      rule calls_in_bind, rule calls_in_bind, rule calls_first, rule sv)
  then show ?thesis by (rule exI [of _ rs])
qed


section \<open>Secrets\<close>

definition decrypt_req :: "string \<Rightarrow> req" where
  "decrypt_req path = LocalRun [] '''' ''sops'' [''--decrypt'', ''--in-place'', pathClean path]"

definition encrypt_req :: "string \<Rightarrow> string \<Rightarrow> req" where
  "encrypt_req path key = LocalRun [] '''' ''sops'' [''--encrypt'', ''--age'', key, ''--in-place'', pathClean path]"

lemma quiet_builders:
  assumes "quiet P"
  shows "allreq P (BuildImage dir name reg b)" "allreq P (DetectBuilder dir)"
proof -
  have e: "allreq P (anyExists dir fs)" for fs
    by (induction fs) (simp, unfold anyExists.simps, intro quiet_intros assms)
  have l: "\<And>p. P (LookPath p)" "\<And>p. P (Stat p)" "\<And>p. P (RemoveFile p)" "P (LocalRun [] '''' ''npx'' as)" for as
    by (simp_all add: quiet_req [OF assms])
  have d: "allreq P (detectFirst dir bs)" for bs
    by (induction bs) (simp, unfold detectFirst.simps detects_def, intro quiet_intros assms e)
  show "allreq P (DetectBuilder dir)" unfolding DetectBuilder_def by (intro quiet_intros assms d)
  have "allreq P (builderBuild k dir name reg)" for k
  proof -
    have p: "allreq P (buildAndPush dir name reg tag f)" for tag f
      unfolding buildAndPush_def registryLogin_def buildxPush_def by (intro quiet_intros assms) simp_all
    have g: "allreq P (goImage dir name reg)"
      unfolding goImage_def goBuild_def Let_def by (intro quiet_intros assms p l) simp_all
    have "allreq P (dockerfileBuild dir name reg)" unfolding dockerfileBuild_def by (intro quiet_intros assms p g l)
    moreover have "allreq P (nixpacksBuild dir name reg)" unfolding nixpacksBuild_def ensureNixpacks_def registryLogin_def
      by (intro quiet_intros assms l) simp_all
    moreover have "allreq P (packBuild dir name reg)" unfolding packBuild_def registryLogin_def
      by (intro quiet_intros assms allreq_callP l) simp_all
    ultimately show ?thesis by (cases k) (simp_all add: builderBuild_def)
  qed
  then show "allreq P (BuildImage dir name reg b)" unfolding BuildImage_def by (intro quiet_intros assms l)
qed

lemma quiet_push:
  assumes "quiet P"
  shows "allreq P (pushImage dir name b reg)"
  unfolding pushImage_def Let_def by (intro quiet_intros quiet_builders assms)

lemma quiet_runtime:
  assumes "quiet P"
  shows "allreq P (deployRuntimeOnNode c name r mode url to ref zero nip)"
proof -
  have f: "allreq P (firstExecutable c dir fs)" for dir fs
    by (induction fs) (simp, unfold firstExecutable.simps, intro quiet_intros assms)
  have g: "allreq P (greenProbe n c p)" for n p
    by (induction n) (simp, unfold greenProbe.simps, intro quiet_intros assms)
  have x: "allreq P (proxyUpdate k c d p)" for k d p
    by (cases k) (simp_all add: caddyUpdateTargetPort_def traefikUpdateTargetPort_def nginxUpdateTargetPort_def quiet_small assms)
  have u: "allreq P (updateDomains k c p ds)" for k p ds
    by (induction ds) (simp, unfold updateDomains.simps, intro quiet_intros assms x)
  have e: "P (ExecIn c s i)" for s i by (simp add: quiet_req [OF assms])
  show ?thesis
    unfolding deployRuntimeOnNode_def defaultDeploy_def DeployK3sFromCompose_def DeployK3s_def DeploySwarm_def DeployBare_def
      DeployBlueGreen_def getCurrentPort_def startGreenContainer_def healthCheckGreen_def switchToGreen_def DetectProxy_def getAppDomains_def Let_def
    by (intro quiet_intros quiet_healthcheck assms f g u e)
qed

text \<open>The parts of a push that never call \<open>sops\<close>.\<close>

definition no_sops :: "req \<Rightarrow> bool" where
  "no_sops q \<longleftrightarrow> \<not> is_sops q"

lemma no_sops_quiet: "quiet no_sops"
  by (simp add: quiet_def no_sops_def)

lemma no_sops_record: "allreq no_sops (stateRecord t n i v rt st m)"
  unfolding stateRecord_def nowP_def by (intro quiet_intros) (simp_all add: no_sops_def)

lemma no_sops_one: "allreq no_sops (deployToOne target f dir a ref)"
  unfolding deployToOne_def Let_def
  by (intro quiet_intros no_sops_quiet quiet_hooks quiet_upload quiet_tail quiet_runtime no_sops_record)

lemma no_sops_all: "allreq no_sops (deployToAllNodes f ns dir a ref)"
proof -
  have g: "allreq no_sops (deployGoroutine f dir a ref n)" for n
    unfolding deployGoroutine_def by (rule allreq_bindI [OF no_sops_one]) simp
  show ?thesis unfolding deployToAllNodes_def
    by (intro allreq_tryP allreq_waveP allreq_okP) (auto simp: no_sops_def g)
qed

lemma no_sops_built: "allreq no_sops (deployBuilt f cfg dir path)"
proof -
  have o: "no_sops (OpenWrite p d)" for p d by (simp add: no_sops_def)
  show ?thesis
    unfolding deployBuilt_def DefaultRegistry_def ensureDockerOnNode_def dockerInstall_def EnsureNetworking_def parseServiceConfig_def
      readServiceYamlData_def parsePortFromMain_def generateComposeAndServiceYaml_def writeFileSafe_def Let_def
    by (intro quiet_intros no_sops_quiet quiet_push no_sops_one no_sops_all allreq_callP o) 
qed

text \<open>Reading the secrets: whether they were decrypted decides what the end of the push does.\<close>

lemma decrypt_runs:
  assumes "runs (decryptSecretsIfNeeded path key) t r" "(decrypt_req p, a) \<in> set t" "aErr a = None"
  shows "r = Inr True \<and> pathClean p = pathClean path"
  using assms unfolding decryptSecretsIfNeeded_def FileIsEncrypted_def DecryptFileInPlace_def runLocal_def
  by (auto simp: runs_bind runs_tryP callP_def readFile_def runs_Do decrypt_req_def split: if_splits option.splits sum.splits)

lemma reencrypt_last:
  assumes "runs (reencrypting True path key p) t r"
  shows "\<exists>u b. t = u @ [(encrypt_req path key, b)]"
  using assms unfolding reencrypting_def EncryptFile_def runLocal_def
  by (auto simp: runs_bind runs_tryP callP_def runs_Do encrypt_req_def split: option.splits)

lemma resolve_no_dec:
  assumes "runs (resolveSourceDir arg url branch key) t r"
  shows "(decrypt_req p, a) \<notin> set t"
proof -
  have "allreq no_sops (resolveSourceDir arg url branch key)"
    unfolding resolveSourceDir_def Let_def by (intro quiet_intros allreq_askP allreq_callP) (simp_all add: no_sops_def)
  from allreq_runs [OF this assms, of "decrypt_req p" a] show ?thesis by (auto simp: no_sops_def decrypt_req_def)
qed

lemma flags_key: "runs (resolveDeployNode f) t g \<Longrightarrow> dpSopsKey g = dpSopsKey f"
  unfolding resolveDeployNode_def by (auto simp: runs_bind split: if_splits option.splits)

lemma first_key: "firstNodeFlags f cfg = Inr g \<Longrightarrow> dpSopsKey g = dpSopsKey f"
  unfolding firstNodeFlags_def by (auto split: if_splits sum.splits list.splits)

lemma no_sops_start:
  "allreq no_sops (sanitizeSourceDir dir)" "allreq no_sops loadNodes" "allreq no_sops (resolveDeployNode f)"
  unfolding sanitizeSourceDir_def resolveDeployNode_def lookupNode_def loadNodes_def
  by (intro quiet_intros; simp add: no_sops_def split: option.splits sum.splits)+

lemma no_dec: "allreq no_sops q \<Longrightarrow> runs q t r \<Longrightarrow> (decrypt_req p, a) \<notin> set t"
  using allreq_runs [of no_sops q t r "decrypt_req p" a] by (auto simp: no_sops_def decrypt_req_def)

lemma reencrypting_no_dec:
  assumes "runs (reencrypting on path key q) t r" "allreq no_sops q"
  shows "(decrypt_req p, a) \<notin> set t"
  using assms no_dec [OF assms(2)] unfolding reencrypting_def EncryptFile_def runLocal_def
  by (auto simp: runs_bind runs_tryP callP_def runs_Do decrypt_req_def split: option.splits if_splits)

lemma push_reencrypts:
  assumes "runs (pushFrom f src') t r" "(decrypt_req p, a) \<in> set t" "aErr a = None"
  shows "\<exists>u v b. t = u @ v \<and> (decrypt_req p, a) \<in> set u \<and> (encrypt_req p (dpSopsKey f), b) \<in> set v"
proof -
  have ns: "\<not> no_sops (decrypt_req p)" by (simp add: no_sops_def decrypt_req_def)
  have "src' \<noteq> ''''" using assms(1,2) by (auto simp: pushFrom_def)
  with assms(1) show ?thesis unfolding pushFrom_def
  proof (simp only: if_False, elim bind_past [OF _ assms(2) no_sops_start(1) ns], goal_cases)
    case A: (1 u1 v1 dir)
    show ?case using A(6)
    proof (elim bind_past [OF _ A(7) no_sops_start(3) ns], goal_cases)
      case B: (1 u2 v2 f1)
      note k1 = flags_key [OF B(2)]
      show ?case using B(3)
      proof (elim bind_past [OF _ B(4) no_sops_start(2) ns], goal_cases)
        case C: (1 u3 v3 cfg)
        show ?case
        proof (cases "firstNodeFlags f1 cfg")
          case (Inl e)
          with C(3,4) show ?thesis by simp
        next
          case (Inr f2)
          let ?path = "pathJoin [dir, ''service.yaml'']" and ?f = "f2\<lparr>dpName := resolveServiceName (dpName f2) dir\<rparr>"
          have key: "dpSopsKey ?f = dpSopsKey f" using first_key [OF Inr] k1 by simp
          have run: "runs (tryP id (decryptSecretsIfNeeded ?path (dpSopsKey f)) (\<lambda>dec.
              reencrypting dec ?path (dpSopsKey f) (deployBuilt ?f cfg dir ?path))) v3 r"
            using C(3) Inr key by (simp add: Let_def)
          from run obtain u4 v4 dec where D: "v3 = u4 @ v4" "runs (decryptSecretsIfNeeded ?path (dpSopsKey f)) u4 (Inr dec)"
            "runs (reencrypting dec ?path (dpSopsKey f) (deployBuilt ?f cfg dir ?path)) v4 r"
            unfolding runs_tryP using decrypt_runs [OF _ C(4) assms(3)] by blast
          have u4: "(decrypt_req p, a) \<in> set u4"
            using C(4) D(1) reencrypting_no_dec [OF D(3) no_sops_built] by auto
          from decrypt_runs [OF D(2) u4 assms(3)] have d: "dec" "pathClean p = pathClean ?path" by auto
          have dec: "dec = True" using d(1) by simp
          from reencrypt_last [OF D(3) [unfolded dec]] obtain w b where w: "v4 = w @ [(encrypt_req ?path (dpSopsKey f), b)]" by blast
          have "encrypt_req ?path (dpSopsKey f) = encrypt_req p (dpSopsKey f)" using d(2) by (simp add: encrypt_req_def)
          with w have "(encrypt_req p (dpSopsKey f), b) \<in> set v4" by simp
          moreover have "t = (u1 @ u2 @ u3 @ u4) @ v4" using A(4) B(1) C(1) D(1) by simp
          moreover have "(decrypt_req p, a) \<in> set (u1 @ u2 @ u3 @ u4)" using u4 by simp
          ultimately show ?thesis by blast
        qed
      qed
    qed
  qed
qed

text \<open>
  C12: decrypted secrets do not stay in the clear. In every run of \<open>deploy push\<close> in which
  \<open>sops\<close> decrypted a file in place, a later request encrypts the same file again with the key
  of the command, however the deployment ends.
\<close>

theorem secrets_reencrypted:
  assumes "runs (runDeployPush f arg url branch sshKey) t r" "(decrypt_req p, a) \<in> set t" "aErr a = None"
  shows "\<exists>u v b. t = u @ v \<and> (decrypt_req p, a) \<in> set u \<and> (encrypt_req p (dpSopsKey f), b) \<in> set v"
proof -
  have ns: "\<not> no_sops (decrypt_req p)" by (simp add: no_sops_def decrypt_req_def)
  have nr: "\<not> runs (resolveSourceDir arg url branch sshKey) t z" for z
    using resolve_no_dec [of arg url branch sshKey t z p a] assms(2) by blast
  from assms(1) obtain u v src' tmp where t: "t = u @ v" "runs (resolveSourceDir arg url branch sshKey) u (Inr (src', tmp))"
    "runs (case tmp of None \<Rightarrow> pushFrom f src' | Some t \<Rightarrow> deferReq (RemoveAll t) (pushFrom f src')) v r"
    unfolding runDeployPush_def runs_tryP using nr by auto
  have v: "(decrypt_req p, a) \<in> set v" using assms(2) t(1) resolve_no_dec [OF t(2)] by auto
  obtain w z s where w: "v = w @ z" "runs (pushFrom f src') w s" "(decrypt_req p, a) \<in> set w"
  proof (cases tmp)
    case None
    with t(3) v that [of v "[]" r] show ?thesis by simp
  next
    case (Some d)
    with t(3) obtain w x where "v = w @ [(RemoveAll d, x)]" "runs (pushFrom f src') w r"
      by (auto simp: deferReq_def runs_bind runs_Do)
    moreover have "decrypt_req p \<noteq> RemoveAll d" by (simp add: decrypt_req_def)
    ultimately show ?thesis using v that [of w "[(RemoveAll d, x)]" r] by auto
  qed
  from push_reencrypts [OF w(2,3) assms(3)] obtain x y b where "w = x @ y" "(decrypt_req p, a) \<in> set x"
    "(encrypt_req p (dpSopsKey f), b) \<in> set y" by blast
  then have "t = (u @ x) @ (y @ z) \<and> (decrypt_req p, a) \<in> set (u @ x) \<and> (encrypt_req p (dpSopsKey f), b) \<in> set (y @ z)"
    using t(1) w(1) by simp
  then show ?thesis by blast
qed

lemma steady_decrypt: "decrypt_req (pathJoin [''/src'', ''service.yaml'']) \<in> set (calls (ok_out ''sops:'') (runDeployPush demo_flags ''/src'' '''' '''' ''''))"
proof -
  let ?a = "ok_out ''sops:''"
  have s: "steady ?a (resolveSourceDir ''/src'' '''' '''' '''') = Inr (''/src'', None)" by (simp add: resolveSourceDir_def)
  have c: "isAbs ''/src''" "pathClean ''/src'' = ''/src''" by code_simp+
  have d: "steady ?a (sanitizeSourceDir ''/src'') = ''/src''" by (simp add: sanitizeSourceDir_def c)
  have n: "steady ?a loadNodes = Inr []" by (simp add: loadNodes_def ok_out_def)
  have f: "steady ?a (resolveDeployNode demo_flags) = demo_flags"
    by (simp add: resolveDeployNode_def lookupNode_def steady_simps n)
  have g: "firstNodeFlags demo_flags cfg = Inr demo_flags" for cfg by (simp add: firstNodeFlags_def demo_flags_def)
  have k: "dpSopsKey (demo_flags\<lparr>dpName := x\<rparr>) = ''age1''" for x by (simp add: demo_flags_def)
  have r: "steady ?a (readFile p) = Inr ''sops:''" for p by (rule steady_ok)
  have x: "steady ?a (FileIsEncrypted p) = True" for p
    unfolding FileIsEncrypted_def steady_bind r by (simp add: sopsText_def)
  have dec: "decrypt_req p \<in> set (calls ?a (decryptSecretsIfNeeded p ''age1''))" for p
    unfolding decryptSecretsIfNeeded_def
    by (simp add: calls_bind x calls_tryP DecryptFileInPlace_def runLocal_def callP_def decrypt_req_def)
  have dt: "decrypt_req p \<in> set (calls ?a (tryP id (decryptSecretsIfNeeded p ''age1'') K))" for p and K :: "bool \<Rightarrow> unit res prog"
    using dec by (simp add: calls_tryP)
  show ?thesis unfolding runDeployPush_def
    apply (rule calls_in_tryP [OF s])
    apply (simp only: prod.case option.case pushFrom_def list.simps if_False)
    apply (rule calls_in_bind, unfold d, rule calls_in_bind, unfold f, rule calls_in_bind, unfold n g sum.case Let_def k)
    apply (rule dt)
    done
qed

lemma secrets_reencrypted_witness:
  "\<exists>t r u v b. runs (runDeployPush demo_flags ''/src'' '''' '''' '''') t r \<and> t = u @ v \<and>
     (encrypt_req (pathJoin [''/src'', ''service.yaml'']) ''age1'', b) \<in> set v"
proof -
  let ?p = "runDeployPush demo_flags ''/src'' '''' '''' ''''"
  let ?t = "map (\<lambda>q. (q, ok_out ''sops:'')) (calls (ok_out ''sops:'') ?p)"
  have m: "(decrypt_req (pathJoin [''/src'', ''service.yaml'']), ok_out ''sops:'') \<in> set ?t" using steady_decrypt by simp
  have k: "dpSopsKey demo_flags = ''age1''" by (simp add: demo_flags_def)
  have o: "aErr (ok_out ''sops:'') = None" by (simp add: ok_out_def)
  from secrets_reencrypted [OF steady_runs m o] k steady_runs [of ?p "ok_out ''sops:''"] show ?thesis by metis
qed

section \<open>Scripts of a service\<close>

lemma script_path:
  assumes "serviceScriptPath name action = Inr path" "action = ''backup'' \<or> action = ''restore''"
  shows "name \<noteq> '''' \<and> list_all name_char name \<and> path = ''/opt/sdk-ops/services/'' @ name @ ''/'' @ action @ ''-s3.sh''"
  using assms by (auto simp: serviceScriptPath_def serviceRoot_def Let_def split: if_splits)

lemma node_script_reqs:
  assumes "runs (runNodeScript t name label path extra) tr r" "(q, a) \<in> set tr"
  shows "q \<in> {Dial t, Now, Close t, Exec t (Fmt ''sudo bash %s%s'' [Str path, Str extra])}"
proof -
  let ?P = "\<lambda>q. q \<in> {Dial t, Now, Close t, Exec t (Fmt ''sudo bash %s%s'' [Str path, Str extra])}"
  have "runs (runNodeScript t name label path extra) tr r \<Longrightarrow> ?P q"
    using assms(2) unfolding runNodeScript_def onService_def connectNode_def
    by (auto simp: runs_tryP runs_connectSSH runs_bind runs_deferClose runs_nowP runs_sshRun split: option.splits prod.splits)
  with assms(1) show ?thesis by blast
qed

text \<open>
  C22: the restore of a service is gated. A run of \<open>service dr\<close> that reaches the node at all
  works on a service whose name has only lower case letters, digits and hyphens, reaches only
  the node of the command, and executes exactly one command line, the backup or restore script
  inside the directory of that service; the restore is executed only when it was agreed to.
\<close>

theorem dr_runs_only_its_script:
  assumes "runs (runServiceDR t name action agreed) tr r" "(Exec c s, a) \<in> set tr"
  shows "c = t \<and> name \<noteq> '''' \<and> list_all name_char name \<and> (action = ''backup'' \<or> action = ''restore'' \<and> agreed) \<and>
    render s = ''sudo bash /opt/sdk-ops/services/'' @ name @ ''/'' @ action @ ''-s3.sh'' @ (if action = ''restore'' then '' --yes'' else '''')"
proof -
  from assms obtain path where p: "serviceScriptPath name action = Inr path" "action = ''backup'' \<or> action = ''restore'' \<and> agreed"
    and r: "runs (runNodeScript t name (''dr '' @ action) path (if action = ''restore'' then '' --yes'' else '''')) tr r"
    unfolding runServiceDR_def by (auto split: if_splits sum.splits)
  from node_script_reqs [OF r assms(2)] have q: "c = t" "s = Fmt ''sudo bash %s%s'' [Str path, Str (if action = ''restore'' then '' --yes'' else '''')]"
    by auto
  have "render s = ''sudo bash '' @ path @ (if action = ''restore'' then '' --yes'' else '''')"
    unfolding q by (simp add: sprintf_def verb_def show_arg_def)
  with script_path [OF p(1)] p(2) q(1) show ?thesis by auto
qed

section \<open>Generated passwords\<close>

lemma alnum_len: "length alnum = 62"
  by (simp add: alnum_def)

lemma drawPassword_runs:
  "runs (drawPassword n acc) t (Inr p) \<Longrightarrow> set acc \<subseteq> set alnum \<Longrightarrow> length p = n + length acc \<and> set p \<subseteq> set alnum \<and> length t = n"
proof (induction n arbitrary: acc t)
  case 0
  then show ?case by auto
next
  case (Suc n)
  from Suc.prems(1) obtain a u where t: "t = (RandInt (length alnum), a) # u"
    and u: "runs (drawPassword n (alnum ! (aPick a mod length alnum) # acc)) u (Inr p)"
    by (auto simp: runs_Do split: option.splits)
  have "alnum ! (aPick a mod length alnum) \<in> set alnum" by (rule nth_mem) (simp add: alnum_len)
  with Suc.IH [OF u] Suc.prems(2) t show ?case by simp
qed

lemma alnum_word: "set alnum \<subseteq> {c. word_char c}"
  by (simp add: alnum_def word_char_def is_digit_def less_eq_char_def)

text \<open>
  C35: a generated database password has exactly 24 characters, all of them letters or digits,
  drawn by exactly 24 independent draws; so it holds no shell syntax.
\<close>

theorem generated_password:
  assumes "runs genPassword t (Inr p)"
  shows "length p = 24 \<and> set p \<subseteq> set alnum \<and> length t = 24 \<and> plain p"
  using drawPassword_runs [of 24 "''''" t p] alnum_word assms by (auto simp: genPassword_def plain_def list_all_iff)

lemma generated_password_witness:
  "runs genPassword (map (\<lambda>q. (q, ok_out '''')) (calls (ok_out '''') genPassword)) (Inr (replicate 24 CHR ''a'')) \<and> plain (replicate 24 CHR ''a'')"
proof -
  have d: "steady (ok_out '''') (drawPassword n acc) = Inr (rev acc @ replicate n CHR ''a'')" for n acc
    by (induction n arbitrary: acc) (simp_all add: ok_out_def alnum_def replicate_app_Cons_same)
  have "runs genPassword (map (\<lambda>q. (q, ok_out '''')) (calls (ok_out '''') genPassword)) (Inr (replicate 24 CHR ''a''))"
    using steady_runs [of genPassword "ok_out ''''"] d [of 24 "''''"] by (simp add: genPassword_def)
  with generated_password [OF this] show ?thesis by blast
qed

section \<open>Where the other runtimes look\<close>

text \<open>
  The runtimes k3s, swarm and bare look for the files of a deployment in a directory that
  the upload did not create: the upload writes version N to \<open>services/name/vN\<close>, the runtimes
  read \<open>services/name/N\<close>.
\<close>

theorem runtimes_miss_the_upload:
  assumes "runs (UploadAndDeploy c (uploadOf name dir)) t (Inr d)"
  shows "drPath d = serviceRoot name @ ''/v'' @ drVersion d \<and> runtimeDir name d = serviceRoot name @ ''/'' @ drVersion d \<and>
    runtimeDir name d \<noteq> drPath d"
proof -
  from assms obtain v where d: "d = \<lparr>drVersion = v, drPath = sprintf ''%s/v%s'' [Str (serviceRoot name), Str v]\<rparr>"
    unfolding UploadAndDeploy_def Let_def by (auto simp: runs_bind runs_tryP uploadOf_def)
  have a: "drPath d = serviceRoot name @ ''/v'' @ v" unfolding d by (simp add: sprintf_def verb_def show_arg_def)
  have b: "runtimeDir name d = serviceRoot name @ ''/'' @ v" unfolding d by (simp add: sprintf_def verb_def show_arg_def runtimeDir_def serviceRoot_def)
  have "length (drPath d) \<noteq> length (runtimeDir name d)" unfolding a b by simp
  then show ?thesis using a b d by auto
qed

lemma runtimes_miss_the_upload_witness:
  "\<exists>d. steady (ok_out ''x'') (UploadAndDeploy demo_conn (uploadOf ''web'' ''/src'')) = Inr d \<and> runtimeDir ''web'' d \<noteq> drPath d"
proof -
  obtain d where d: "steady (ok_out ''x'') (UploadAndDeploy demo_conn (uploadOf ''web'' ''/src'')) = Inr d"
    using steady_upload by blast
  with steady_runs [of "UploadAndDeploy demo_conn (uploadOf ''web'' ''/src'')" "ok_out ''x''"]
  have "runs (UploadAndDeploy demo_conn (uploadOf ''web'' ''/src''))
     (map (\<lambda>q. (q, ok_out ''x'')) (calls (ok_out ''x'') (UploadAndDeploy demo_conn (uploadOf ''web'' ''/src'')))) (Inr d)" by simp
  from runtimes_miss_the_upload [OF this] d show ?thesis by blast
qed

lemma dr_runs_only_its_script_witness:
  "list_all name_char ''pg-main'' \<and> (\<exists>tr r. runs (runServiceDR demo_conn ''pg-main'' ''restore'' True) tr r \<and>
     (\<exists>s a. (Exec demo_conn s, a) \<in> set tr \<and> render s = ''sudo bash /opt/sdk-ops/services/pg-main/restore-s3.sh --yes''))"
proof -
  let ?p = "runServiceDR demo_conn ''pg-main'' ''restore'' True"
  let ?s = "Fmt ''sudo bash %s%s'' [Str ''/opt/sdk-ops/services/pg-main/restore-s3.sh'', Str '' --yes'']"
  let ?t = "map (\<lambda>q. (q, ok_out '''')) (calls (ok_out '''') ?p)"
  have path: "serviceScriptPath ''pg-main'' ''restore'' = Inr ''/opt/sdk-ops/services/pg-main/restore-s3.sh''" by code_simp
  have "Exec demo_conn ?s \<in> set (calls (ok_out '''') ?p)"
    by (simp add: runServiceDR_def path runNodeScript_def onService_def connectNode_def steady_simps)
  then have m: "(Exec demo_conn ?s, ok_out '''') \<in> set ?t" by simp
  from dr_runs_only_its_script [OF steady_runs m] m steady_runs [of ?p "ok_out ''''"]
  have "list_all name_char ''pg-main'' \<and> render ?s = ''sudo bash /opt/sdk-ops/services/pg-main/restore-s3.sh --yes''" by auto
  with m steady_runs [of ?p "ok_out ''''"] show ?thesis by blast
qed

section \<open>Blue/green\<close>

text \<open>
  What the switch needs of a reverse proxy: an update of the target of a domain is one command
  on the node. The three proxies of the program have it.
\<close>

locale reverse_proxy =
  fixes update :: "conn \<Rightarrow> string \<Rightarrow> int \<Rightarrow> unit res prog"
  assumes one_command: "runs (update c d port) t r \<Longrightarrow> \<exists>s a. t = [(Exec c s, a)]"
begin

text \<open>An update of every domain, whose errors are ignored, is one command per domain.\<close>

lemma update_all:
  assumes "U [] = Ret ()" "\<And>d ds. U (d # ds) = bind (update c d port) (\<lambda>_. U ds)"
  shows "runs (U ds) t r \<Longrightarrow> length t = length ds \<and> (\<forall>q \<in> set (reqs t). \<exists>s. q = Exec c s)"
proof (induction ds arbitrary: t)
  case Nil
  then show ?case using assms(1) by simp
next
  case (Cons d ds)
  from Cons.prems obtain u v x where "t = u @ v" "runs (update c d port) u x" "runs (U ds) v r"
    unfolding assms(2) by (rule run_bind)
  with Cons.IH one_command show ?case by fastforce
qed

end

lemma runU_one: "runs (runU c s w) t r \<Longrightarrow> \<exists>s a. t = [(Exec c s, a)]"
  by (auto simp: runs_runU)

interpretation caddy: reverse_proxy caddyUpdateTargetPort
  by unfold_locales (auto simp: caddyUpdateTargetPort_def intro: runU_one)

interpretation traefik: reverse_proxy traefikUpdateTargetPort
  by unfold_locales (auto simp: traefikUpdateTargetPort_def intro: runU_one)

interpretation nginx: reverse_proxy nginxUpdateTargetPort
  by unfold_locales (auto simp: nginxUpdateTargetPort_def intro: runU_one)

interpretation anyProxy: reverse_proxy "proxyUpdate p" for p
proof unfold_locales
  fix c d port t r
  assume "runs (proxyUpdate p c d port) t r"
  then show "\<exists>s a. t = [(Exec c s, a)]"
    using caddy.one_command traefik.one_command nginx.one_command by (cases p) auto
qed

lemma updateDomains_runs:
  "runs (updateDomains p c port ds) t r \<Longrightarrow> length t = length ds \<and> (\<forall>q \<in> set (reqs t). \<exists>s. q = Exec c s)"
  by (rule anyProxy.update_all [where U = "updateDomains p c port"]) simp_all

text \<open>The requests that move the traffic or stop the old version.\<close>

definition switching :: "conn \<Rightarrow> string \<Rightarrow> string \<Rightarrow> req set" where
  "switching c root dir = {Exec c (link_current dir root), Exec c (blue_down dir)}"

lemma before_switch:
  "allreq (\<lambda>q. q \<notin> switching c root dir) (getCurrentPort c name)"
  "allreq (\<lambda>q. q \<notin> switching c root dir) (startGreenContainer c dir p)"
  "allreq (\<lambda>q. q \<notin> switching c root dir) (healthCheckGreen c p dir)"
proof -
  note d = switching_def link_current_def blue_down_def green_up_def green_down_def green_health_def
  have g: "allreq (\<lambda>q. q \<notin> switching c root dir) (greenProbe n c p)" for n
    by (induction n) (simp, unfold greenProbe.simps, intro allreq_bindI allreq_branches allreq_sshRun allreq_execP, simp_all add: d)
  show "allreq (\<lambda>q. q \<notin> switching c root dir) (getCurrentPort c name)" unfolding getCurrentPort_def
    by (intro allreq_bindI allreq_branches allreq_sshRun allreq_execP) (simp_all add: d)
  show "allreq (\<lambda>q. q \<notin> switching c root dir) (startGreenContainer c dir p)" unfolding startGreenContainer_def
    by (intro allreq_bindI allreq_branches allreq_sshRun allreq_execP) (simp_all add: d)
  show "allreq (\<lambda>q. q \<notin> switching c root dir) (healthCheckGreen c p dir)" unfolding healthCheckGreen_def
    by (intro allreq_bindI allreq_branches allreq_sshRun allreq_execP g) (simp_all add: d)
qed

definition answers_green :: "int \<Rightarrow> answer \<Rightarrow> bool" where
  "answers_green p a \<longleftrightarrow> trimSpace (fst (runResult (green_health p) a)) \<noteq> ''fail''"

lemma greenProbe_true:
  "runs (greenProbe n c p) t True \<Longrightarrow> \<exists>u a. t = u @ [(Exec c (green_health p), a)] \<and> answers_green p a"
proof (induction n arbitrary: t)
  case (Suc n)
  from Suc.prems obtain a out e v where t: "t = (Exec c (green_health p), a) # v" "runResult (green_health p) a = (out, e)"
    "runs (if trimSpace out \<noteq> ''fail'' then Ret True else bind (execP c (Raw ''sleep 2'')) (\<lambda>_. greenProbe n c p)) v True"
    by (auto elim: run_ssh)
  show ?case
  proof (cases "trimSpace out = ''fail''")
    case False
    with t show ?thesis by (auto simp: answers_green_def)
  next
    case True
    with t(3) have "runs (bind (execP c (Raw ''sleep 2'')) (\<lambda>_. greenProbe n c p)) v True" by simp
    then obtain v1 v2 x where "v = v1 @ v2" "runs (greenProbe n c p) v2 True" by (rule run_bind)
    with Suc.IH t(1) show ?thesis by (metis append_Cons append_assoc)
  qed
qed simp

lemma switch_runs:
  assumes "runs (switchToGreen c name root dir p) t r"
  shows "r = Inr () \<and> (\<exists>u x s y z. t = u @ [(Exec c (blue_down dir), x), (Exec c s, y), (Exec c (link_current dir root), z)])"
  using assms unfolding switchToGreen_def by (auto simp: runs_bind runs_execP)

lemma health_runs:
  assumes "runs (healthCheckGreen c p dir) t r"
  shows "(r = Inr () \<and> (\<exists>u a. t = u @ [(Exec c (green_health p), a)] \<and> answers_green p a)) \<or>
    (\<exists>e u b. r = Inl e \<and> t = u @ [(Exec c (green_down dir), b)])"
  using assms greenProbe_true [of 15 c p] unfolding healthCheckGreen_def
  by (auto simp: runs_bind runs_execP split: if_splits)

lemma start_runs:
  "runs (startGreenContainer c dir p) t (Inl e) \<Longrightarrow> \<exists>u b. t = u @ [(Exec c (green_down dir), b)]"
  unfolding startGreenContainer_def by (auto simp: runs_bind runs_execP runs_sshRun split: option.splits prod.splits)

lemma calm_switching: "allreq (\<lambda>q. q \<notin> S) p \<Longrightarrow> runs p t r \<Longrightarrow> set (reqs t) \<inter> S = {}"
  using allreq_runs [of "\<lambda>q. q \<notin> S" p t r] by (fastforce simp: reqs_def)



end
