(* ===== verification/ServiceProps.thy ===== *)
theory ServiceProps imports ServiceDeploy RunLemmas begin

text \<open>
  What the deployment of the services of a host guarantees: which services, and in which order.
\<close>

section \<open>Every service once, in the order of the dependencies\<close>

text \<open>\<open>a\<close> comes before \<open>b\<close> in a list.\<close>

definition before :: "'a list \<Rightarrow> 'a \<Rightarrow> 'a \<Rightarrow> bool" where
  "before xs a b \<longleftrightarrow> (\<exists>us vs ws. xs = us @ a # vs @ b # ws)"

lemma before_filter: "before xs a b \<Longrightarrow> P a \<Longrightarrow> P b \<Longrightarrow> before (filter P xs) a b"
proof -
  assume P: "P a" "P b" and "before xs a b"
  then obtain us vs ws where "xs = us @ a # vs @ b # ws" unfolding before_def by blast
  with P have "filter P xs = filter P us @ a # filter P vs @ b # filter P ws" by simp
  then show ?thesis unfolding before_def by blast
qed

lemma before_append: "before xs a b \<Longrightarrow> before (xs @ ys) a b"
proof -
  assume "before xs a b"
  then obtain us vs ws where "xs = us @ a # vs @ b # ws" unfolding before_def by blast
  then have "xs @ ys = us @ a # vs @ b # (ws @ ys)" by simp
  then show ?thesis unfolding before_def by blast
qed

lemma before_across: "a \<in> set xs \<Longrightarrow> b \<in> set ys \<Longrightarrow> before (xs @ ys) a b"
proof -
  assume "a \<in> set xs" "b \<in> set ys"
  then obtain u v w z where "xs = u @ a # v" "ys = w @ b # z" by (meson split_list)
  then have "xs @ ys = u @ a # (v @ w) @ b # z" by simp
  then show ?thesis unfolding before_def by blast
qed

lemma serviceOrder_distinct: "distinct serviceOrder"
  by (simp add: serviceOrder_def)

lemma keys_iff: "k \<in> set (keys m) \<longleftrightarrow> mget m k \<noteq> None"
  by (induction m) (auto simp: keys_def mget_Cons)

text \<open>The deployments of a host, in sequence.\<close>

lemma run_eachP_seq:
  "runs (eachP f xs) t (Inr ()) \<Longrightarrow> \<exists>ts. t = concat ts \<and> list_all2 (\<lambda>x u. runs (f x) u (Inr ())) xs ts"
proof (induction xs arbitrary: t)
  case Nil
  have "t = concat [] \<and> list_all2 (\<lambda>x u. runs (f x) u (Inr ())) [] []" using Nil by simp
  then show ?case by blast
next
  case (Cons x xs)
  from Cons.prems obtain u v where t: "t = u @ v" "runs (f x) u (Inr ())" "runs (eachP f xs) v (Inr ())"
    by (auto elim: run_then_ok)
  from Cons.IH [OF t(3)] obtain ts where "v = concat ts" "list_all2 (\<lambda>x u. runs (f x) u (Inr ())) xs ts" by blast
  with t have "t = concat (u # ts) \<and> list_all2 (\<lambda>x u. runs (f x) u (Inr ())) (x # xs) (u # ts)" by simp
  then show ?case by blast
qed

text \<open>
  C8: the order of the services of a host. The queue holds every declared service exactly
  once and nothing else; two services of the fixed list come in its order (etcd before the
  database that needs it); services of the list come before the others, and those come sorted.
\<close>

theorem services_in_order:
  assumes "dict_ok s"
  shows "mset (orderedServiceNames s) = mset (keys s) \<and>
    (\<forall>a \<in> set (keys s). \<forall>b \<in> set (keys s).
       (before serviceOrder a b \<or> a \<in> set serviceOrder \<and> b \<notin> set serviceOrder) \<longrightarrow> before (orderedServiceNames s) a b) \<and>
    sorted (filter (\<lambda>k. k \<notin> set serviceOrder) (orderedServiceNames s))"
proof (intro conjI ballI impI)
  let ?known = "filter (\<lambda>name. mget s name \<noteq> None) serviceOrder"
  let ?rest = "sort (filter (\<lambda>name. name \<notin> set ?known) (keys s))"
  have ord: "orderedServiceNames s = ?known @ ?rest" by (simp add: orderedServiceNames_def Let_def)
  have known: "set ?known = set (keys s) \<inter> set serviceOrder" by (auto simp: keys_iff)
  have dk: "distinct (keys s)" using assms by (simp add: dict_ok_def)
  have dist: "distinct (orderedServiceNames s)" unfolding ord using dk serviceOrder_distinct by auto
  have sets: "set (orderedServiceNames s) = set (keys s)" unfolding ord using known by auto
  from dist sets dk show "mset (orderedServiceNames s) = mset (keys s)"
    by (metis set_eq_iff_mset_eq_distinct)
  fix a b
  assume a: "a \<in> set (keys s)" and b: "b \<in> set (keys s)"
    and o: "before serviceOrder a b \<or> a \<in> set serviceOrder \<and> b \<notin> set serviceOrder"
  from o show "before (orderedServiceNames s) a b"
  proof
    assume "before serviceOrder a b"
    then have "before ?known a b" by (rule before_filter) (use a b in \<open>auto simp: keys_iff\<close>)
    then show ?thesis unfolding ord by (rule before_append)
  next
    assume "a \<in> set serviceOrder \<and> b \<notin> set serviceOrder"
    with a b known show ?thesis unfolding ord by (intro before_across) auto
  qed
next
  let ?known = "filter (\<lambda>name. mget s name \<noteq> None) serviceOrder"
  have "filter (\<lambda>k. k \<notin> set serviceOrder) ?known = []" by (auto simp: filter_empty_conv)
  then show "sorted (filter (\<lambda>k. k \<notin> set serviceOrder) (orderedServiceNames s))"
    by (simp add: orderedServiceNames_def Let_def sorted_filter [where f = id, simplified] del: filter_filter)
qed

definition demo_services :: ProvisionServices where
  "demo_services = [(''valkey-cluster'', zeroService), (''web'', zeroService), (''etcd'', zeroService), (''app'', zeroService)]"

lemma services_in_order_witness:
  "orderedServiceNames demo_services = [''etcd'', ''valkey-cluster'', ''app'', ''web''] \<and>
   mset (orderedServiceNames demo_services) = mset (keys demo_services)"
proof -
  have "dict_ok demo_services" by (simp add: demo_services_def dict_ok_def keys_def)
  from services_in_order [OF this]
  have "mset (orderedServiceNames demo_services) = mset (keys demo_services)" by blast
  moreover have "orderedServiceNames demo_services = [''etcd'', ''valkey-cluster'', ''app'', ''web'']" by code_simp
  ultimately show ?thesis by blast
qed


definition yuga_host :: ProvisionHost where
  "yuga_host = zeroHost\<lparr>hName := ''y1'', hHost := ''10.0.0.1'', hServices := Some [(''yuga-bare'', zeroService)]\<rparr>"

lemma yuga_services: "servicesOf zeroFile yuga_host = [(''yuga-bare'', zeroService)]"
  by code_simp

lemma steady_yuga:
  "steady (ok_out '''') (deployServiceOn c pf h ''yuga-bare'' cfg) = Inr ()"
proof -
  let ?a = "ok_out ''''"
  have t: "resolveServiceTemplate ''yuga-bare'' = Some ''yuga-bare''" "mget cfgFiles ''yuga-bare'' = None" by code_simp+
  have c: "steady ?a (callP q) = Inr ()" "steady ?a (askP q) = Inr ?a" for q
    by (simp_all add: callP_def askP_def ok_out_def okP_def)
  have d: "steady a (deferReq q p) = steady a p" for a q and p :: "unit res prog" by (simp add: deferReq_def steady_bind)
  have f: "aFiles ?a = []" by (simp add: ok_out_def)
  have b: "steady ?a (buildRenderData pf h ''yuga-bare'' p cfg) = Inr [(''MemLimit'', RStr ''512m''), (''Cpus'', RStr ''1''), (''Provision'', RBool True)]" for p
    by (simp add: buildRenderData_def)
  have u: "steady ?a (uploadDir c l [] r) = Inr ()" for l r
    by (simp add: uploadDir_def steady_simps c) (simp add: ok_out_def steady_simps)
  have w: "steady ?a (wireService c s n ''yuga-bare'' cfg pf h) = Inr ()" for s n
    by (simp add: wireService_def steady_simps)
  have n: "steady ?a (deployFromRender c pf h ''yuga-bare'' l [] r x) = Inr ()" for l r x
    by (simp add: deployFromRender_def deployNativeService_def waitServiceUp_def steady_simps)
  have m: "steady ?a (maybeWriteSingleVPS l d ''yuga-bare'' x []) = Inr []" for l d x
    by (simp add: maybeWriteSingleVPS_def)
  have s: "steady ?a (serviceConfigChanged c l [] r ''yuga-bare'') = Inr False" for l r
    by (simp add: serviceConfigChanged_def t)
  show ?thesis unfolding deployServiceOn_def t option.case Let_def
    by (simp add: steady_tryP d f b c u w n m s steady_ok)
qed

lemma steady_apply: "steady (ok_out '''') (applyServicesOn zeroFile yuga_host) = Inr ()"
proof -
  let ?a = "ok_out ''''"
  have o: "orderedServiceNames [(''yuga-bare'', zeroService)] = [''yuga-bare'']" by code_simp
  have i: "steady ?a (infraConnect ip f) = Inr c0 \<Longrightarrow> steady ?a (withConn ip f w body) = steady ?a (body c0)" for ip f w body c0
    by (simp add: withConn_def steady_tryP steady_close)
  have "\<exists>c0. steady ?a (infraConnect ip f) = Inr c0" for ip f
    by (simp add: infraConnect_def steady_tryP steady_ok)
  then obtain c0 where c0: "steady ?a (infraConnect (hHost yuga_host) (steady ?a (hostInfraFlags zeroFile yuga_host (portOr22 yuga_host)))) = Inr c0" by blast
  have p: "steady ?a (pause ns) = Inr ()" for ns by (simp add: pause_def steady_simps)
  have d: "steady ?a (deployNamed c zeroFile yuga_host [(''yuga-bare'', zeroService)] ''yuga-bare'') = Inr ()" for c
    by (simp add: deployNamed_def steady_tryP steady_yuga steady_simps)
  show ?thesis unfolding applyServicesOn_def yuga_services Let_def
    by (simp add: steady_bind i [OF c0] o steady_tryP d p steady_small(3))
qed


end
