(* ===== verification/ClusterCommands.thy ===== *)
theory ClusterCommands imports DeployRun ClusterOps Registry begin

text \<open>
  The commands on a running k3s cluster (\<open>cmd/sdk-ops/cluster.go\<close>): each opens one session to
  a server node and runs kubectl, helm or k3s there. What they print is not modelled.
\<close>

section \<open>The server node\<close>

text \<open>The node of the command, or the first registered one in a k3s mode, or the first; without any the program exits.\<close>

definition k3sNode :: "nodeConfig \<Rightarrow> bool" where
  "k3sNode n \<longleftrightarrow> ncMode n = ''k3s'' \<or> hasPrefix (ncMode n) ''k3s''"

definition nodeSession :: "nodeConfig \<Rightarrow> conn" where
  "nodeSession n = \<lparr>cHost = ncIP n, cUser = ncUser n, cPort = ncPort n, cKey = ncKey n\<rparr>"

definition clusterNode :: "nodeConfig list \<Rightarrow> conn \<Rightarrow> conn" where
  "clusterNode ns t =
     (let t' = (case List.find k3sNode ns of Some n \<Rightarrow> nodeSession n | None \<Rightarrow> t)
      in if cHost t' = '''' \<and> ns \<noteq> [] then nodeSession (hd ns) else t')"

definition getClusterFlags :: "conn \<Rightarrow> conn res prog" where
  "getClusterFlags flags =
     bind (if cHost flags \<noteq> '''' then Ret flags
           else bind loadNodes (\<lambda>r. Ret (case r of Inl e \<Rightarrow> flags | Inr ns \<Rightarrow> clusterNode ns flags))) (\<lambda>t.
     if cHost t = '''' then fail (Panic ''exit 1'')
     else Ret (Inr (t\<lparr>cUser := (if cUser t = '''' then ''root'' else cUser t), cPort := (if cPort t = 0 then 22 else cPort t)\<rparr>)))"

definition onServer :: "conn \<Rightarrow> (conn \<Rightarrow> 'a res prog) \<Rightarrow> 'a res prog" where
  \<open>onServer t body = tryP (Wrapf ''ssh %s: %w'' [Str (cHost t)]) (connectSSH t) (\<lambda>c. deferClose c (body c))\<close>

definition kubectlCmd :: "string \<Rightarrow> script" where
  \<open>kubectlCmd k = Fmt ''sudo KUBECONFIG=/etc/rancher/k3s/k3s.yaml kubectl %s'' [Str k]\<close>

definition k3sExec :: "conn \<Rightarrow> string \<Rightarrow> unit res prog" where
  \<open>k3sExec t k = onServer t (\<lambda>c.
     bind (sshRun c (Raw (''command -v k3s || echo 'no-k3s'' @ [CHR 0x27]))) (\<lambda>(out, _).
     tryP (Wrapf ''auto-install k3s: %w'' []) (if trimSpace out = ''no-k3s'' then k3sInstall c (DefaultInstallConfig (cHost t)) else okP) (\<lambda>_.
     runU c (kubectlCmd k) (wrapO ''kubectl error: %w
%s'' []))))\<close>

definition k3sExecPTY :: "conn \<Rightarrow> string \<Rightarrow> unit res prog" where
  "k3sExecPTY t k = onServer t (\<lambda>c. runPTY c (kubectlCmd k))"

text \<open>A command resolves its node first.\<close>

definition onCluster :: "conn \<Rightarrow> (conn \<Rightarrow> 'a res prog) \<Rightarrow> 'a res prog" where
  "onCluster flags body = tryP id (getClusterFlags flags) body"

section \<open>kubectl\<close>

definition nsFlag :: "string \<Rightarrow> string" where
  \<open>nsFlag ns = (if ns \<noteq> '''' then sprintf '' --namespace=%s'' [Str ns] else '''')\<close>

definition runClusterKubectl :: "string \<Rightarrow> conn \<Rightarrow> string list \<Rightarrow> unit res prog" where
  "runClusterKubectl args flags rest = onCluster flags (\<lambda>t.
     k3sExec t (if rest \<noteq> [] then args @ '' '' @ joinWith '' '' rest else args))"

definition runClusterTop :: "conn \<Rightarrow> unit res prog" where
  \<open>runClusterTop flags = onCluster flags (\<lambda>t.
     tryP id (k3sExec t ''top nodes'') (\<lambda>_. k3sExec t ''top pods --all-namespaces''))\<close>

definition logsArgs :: "string \<Rightarrow> string \<Rightarrow> int \<Rightarrow> bool \<Rightarrow> string" where
  \<open>logsArgs pod ns n follow = sprintf ''logs --tail=%d'' [Num n] @ nsFlag ns @ (if follow then '' -f'' else '''') @ '' '' @ pod\<close>

definition runClusterLogs :: "string \<Rightarrow> string \<Rightarrow> int \<Rightarrow> bool \<Rightarrow> conn \<Rightarrow> unit res prog" where
  "runClusterLogs pod ns n follow flags = onCluster flags (\<lambda>t.
     if follow then k3sExecPTY t (logsArgs pod ns n follow) else k3sExec t (logsArgs pod ns n follow))"

definition runClusterExec :: "string \<Rightarrow> string list \<Rightarrow> string \<Rightarrow> conn \<Rightarrow> unit res prog" where
  "runClusterExec pod args ns flags = onCluster flags (\<lambda>t.
     k3sExecPTY t (''exec -it'' @ nsFlag ns @ '' '' @ pod @ '' -- '' @ joinWith '' '' args))"

definition runClusterScale :: "string \<Rightarrow> int \<Rightarrow> string \<Rightarrow> conn \<Rightarrow> unit res prog" where
  \<open>runClusterScale resource replicas ns flags =
     (if replicas < 0 then fail (Errorf ''--replicas is required'' [])
      else onCluster flags (\<lambda>t. k3sExec t (sprintf ''scale --replicas=%d %s'' [Num replicas, Str resource] @ nsFlag ns)))\<close>

definition runClusterApply :: "string \<Rightarrow> conn \<Rightarrow> unit res prog" where
  \<open>runClusterApply file flags = onCluster flags (\<lambda>t. k3sExec t (sprintf ''apply -f %s'' [Str file]))\<close>

definition runClusterDelete :: "string \<Rightarrow> string \<Rightarrow> string \<Rightarrow> conn \<Rightarrow> unit res prog" where
  \<open>runClusterDelete resource name ns flags = onCluster flags (\<lambda>t. k3sExec t (sprintf ''delete %s %s'' [Str resource, Str name] @ nsFlag ns))\<close>

definition runClusterDescribe :: "string \<Rightarrow> string \<Rightarrow> string \<Rightarrow> conn \<Rightarrow> unit res prog" where
  \<open>runClusterDescribe resource name ns flags = onCluster flags (\<lambda>t. k3sExec t (sprintf ''describe %s %s'' [Str resource, Str name] @ nsFlag ns))\<close>

definition runClusterEvents :: "string \<Rightarrow> string \<Rightarrow> conn \<Rightarrow> unit res prog" where
  \<open>runClusterEvents ns type' flags = onCluster flags (\<lambda>t.
     k3sExec t (''get events'' @ (if ns \<noteq> '''' then nsFlag ns else '' --all-namespaces'') @
       (if type' \<noteq> '''' then sprintf '' --field-selector type=%s'' [Str type'] else '''')))\<close>

text \<open>
  Cordon, uncordon and drain name their node; label passes its whole command as the operation
  and no node.
\<close>

definition runClusterNodeOp :: "string \<Rightarrow> string \<Rightarrow> conn \<Rightarrow> unit res prog" where
  \<open>runClusterNodeOp op node flags = onCluster flags (\<lambda>t.
     k3sExec t (if op = ''label'' then op @ '' '' @ node else sprintf ''%s %s'' [Str op, Str node]))\<close>

definition clusterLabel :: "string \<Rightarrow> string \<Rightarrow> conn \<Rightarrow> unit res prog" where
  \<open>clusterLabel node label flags = runClusterNodeOp (sprintf ''label node %s %s'' [Str node, Str label]) '''' flags\<close>

definition runClusterGet :: "string \<Rightarrow> string \<Rightarrow> string \<Rightarrow> string \<Rightarrow> conn \<Rightarrow> unit res prog" where
  \<open>runClusterGet type' name ns format flags = onCluster flags (\<lambda>t.
     k3sExec t (sprintf ''get %s %s -o %s'' [Str type', Str name, Str format] @ nsFlag ns))\<close>

section \<open>The k3s server\<close>

definition runClusterToken :: "conn \<Rightarrow> string res prog" where
  \<open>runClusterToken flags = onCluster flags (\<lambda>t. onServer t (\<lambda>c. runE c (Raw ''sudo cat /var/lib/rancher/k3s/server/token'') (wrapE ''token: %w'' [])))\<close>

definition runClusterRestart :: "conn \<Rightarrow> unit res prog" where
  \<open>runClusterRestart flags = onCluster flags (\<lambda>t. onServer t (\<lambda>c. runU c (Raw (''sudo systemctl restart k3s && echo 'k3s restarted'' @ [CHR 0x27])) (wrapO ''restart: %w
%s'' [])))\<close>

definition upgradeCmd :: "string \<Rightarrow> string" where
  \<open>upgradeCmd version =
     (let base = ''curl -sfL https://get.k3s.io | sudo sh -'' in
      if version \<noteq> '''' then sprintf ''INSTALL_K3S_VERSION=%s %s'' [Str version, Str base] else base)\<close>

definition runClusterUpgrade :: "string \<Rightarrow> conn \<Rightarrow> unit res prog" where
  \<open>runClusterUpgrade version flags = onCluster flags (\<lambda>t. onServer t (\<lambda>c. runU c (Raw (upgradeCmd version)) (wrapO ''upgrade: %w
%s'' [])))\<close>

definition runClusterEtcdSnapshot :: "conn \<Rightarrow> unit res prog" where
  \<open>runClusterEtcdSnapshot flags = onCluster flags (\<lambda>t. onServer t (\<lambda>c. runU c (Raw (''sudo k3s etcd-snapshot save && echo 'etcd-snapshot: OK' || echo 'etcd-snapshot: FAIL'' @ [CHR 0x27])) (wrapO ''etcd-snapshot: %w
%s'' [])))\<close>

definition runClusterCertRotate :: "conn \<Rightarrow> unit res prog" where
  \<open>runClusterCertRotate flags = onCluster flags (\<lambda>t. onServer t (\<lambda>c. runU c (Raw (''sudo k3s certificate rotate && sudo systemctl restart k3s && echo 'cert-rotate: OK'' @ [CHR 0x27])) (wrapO ''cert-rotate: %w
%s'' [])))\<close>

definition etcdRestoreFormat :: string where
  \<open>etcdRestoreFormat = ''
sudo systemctl stop k3s
sudo k3s server --cluster-reset --cluster-reset-restore-path=%s 2>&1
sudo systemctl start k3s
echo "etcd-restore: OK"
''\<close>

definition runClusterEtcdRestore :: "string \<Rightarrow> conn \<Rightarrow> unit res prog" where
  \<open>runClusterEtcdRestore snapshot flags = onCluster flags (\<lambda>t. onServer t (\<lambda>c. runU c (Fmt etcdRestoreFormat [Str snapshot]) (wrapO ''etcd-restore: %w
%s'' [])))\<close>

section \<open>helm\<close>

text \<open>The result of helm itself is never an error.\<close>

definition runClusterHelm :: "string \<Rightarrow> conn \<Rightarrow> unit res prog" where
  \<open>runClusterHelm args flags = onCluster flags (\<lambda>t. onServer t (\<lambda>c.
     bind (sshRun c (Raw (''command -v helm || echo 'no-helm'' @ [CHR 0x27]))) (\<lambda>(out, _).
     tryP id (if trimSpace out = ''no-helm'' then runU c (Raw ''curl -fsSL https://raw.githubusercontent.com/helm/helm/main/scripts/get-helm-3 | sudo bash 2>&1 | tail -1'') (wrapO ''helm install: %w
%s'' []) else okP) (\<lambda>_.
     bind (sshRun c (Fmt ''sudo KUBECONFIG=/etc/rancher/k3s/k3s.yaml helm %s 2>&1 || true'' [Str args])) (\<lambda>_. okP)))))\<close>

definition helmRepoAdd :: "string \<Rightarrow> string \<Rightarrow> conn \<Rightarrow> unit res prog" where
  \<open>helmRepoAdd name url flags = runClusterHelm (sprintf ''repo add %s %s'' [Str name, Str url]) flags\<close>

definition helmInstall :: "string \<Rightarrow> string \<Rightarrow> string \<Rightarrow> conn \<Rightarrow> unit res prog" where
  \<open>helmInstall name chart ns flags = runClusterHelm (sprintf ''install %s %s'' [Str name, Str chart] @ nsFlag ns) flags\<close>

definition helmUpgrade :: "string \<Rightarrow> string \<Rightarrow> string \<Rightarrow> conn \<Rightarrow> unit res prog" where
  \<open>helmUpgrade name chart ns flags = runClusterHelm (sprintf ''upgrade %s %s'' [Str name, Str chart] @ nsFlag ns) flags\<close>

definition helmRepoList :: "conn \<Rightarrow> unit res prog" where
  \<open>helmRepoList = runClusterHelm ''repo list''\<close>

definition helmList :: "string \<Rightarrow> conn \<Rightarrow> unit res prog" where
  \<open>helmList ns = runClusterHelm (''list'' @ nsFlag ns)\<close>

section \<open>Sessions on a node\<close>

definition node_ip_script :: "string \<Rightarrow> script" where
  \<open>node_ip_script name = Fmt ''sudo KUBECONFIG=/etc/rancher/k3s/k3s.yaml kubectl get node %s -o jsonpath='{.status.addresses[?(@.type=="InternalIP")].address}' 2>/dev/null || echo "not-found"'' [Str name]\<close>

definition firstWord :: "string \<Rightarrow> string" where
  "firstWord s = takeWhile (\<lambda>c. c \<notin> {CHR '' '', CHR 0x09, CHR 0x0A}) s"

text \<open>The node is dialled with the user, key and port of the server.\<close>

definition runClusterNodeSSH :: "string \<Rightarrow> conn \<Rightarrow> unit res prog" where
  \<open>runClusterNodeSSH name flags = onCluster flags (\<lambda>t. onServer t (\<lambda>c.
     bind (sshRun c (node_ip_script name)) (\<lambda>(out, _).
     let ip = trimSpace out in
     if ip = '''' \<or> hasPrefix ip ''not-found'' then fail (Errorf ''node %s not found or has no InternalIP'' [Str name])
     else let node = t\<lparr>cHost := firstWord ip\<rparr> in
       onServer node (\<lambda>nc. runPTY nc (Raw ''bash -l'')))))\<close>

definition runClusterPortForward :: "string \<Rightarrow> string \<Rightarrow> string \<Rightarrow> conn \<Rightarrow> unit res prog" where
  \<open>runClusterPortForward pod mapping ns flags = onCluster flags (\<lambda>t. onServer t (\<lambda>c.
     runPTY c (kubectlCmd (sprintf ''port-forward %s %s'' [Str pod, Str mapping] @ (if ns \<noteq> '''' then sprintf '' -n %s'' [Str ns] else '''')))))\<close>

end
