(* ===== verification/FirewallCommands.thy ===== *)
theory FirewallCommands imports InfraCommands DeployRun Databases begin

text \<open>
  The remaining commands on one node: its firewall, bans and allowlist
  (\<open>cmd/sdk-ops/infra.go\<close>), the TLS certificate of a domain (\<open>deploy/tls.go\<close>), log shipping,
  alert rules (\<open>deploy/alerting.go\<close>), backup, the reverse proxy and the status report.
\<close>

section \<open>The node of a command\<close>

text \<open>
  The commands open their session in three ways: on the node given or the first registered
  one, with either message when there is none, or on an address that must be given.
\<close>

definition sshTo :: "string \<Rightarrow> infraFlags \<Rightarrow> (conn \<Rightarrow> 'a res prog) \<Rightarrow> 'a res prog" where
  "sshTo node f fn =
     tryP (Wrapf ''ssh: %w'' []) (connectSSH (sshClient node (ifUser f) (ifPort f) f)) (\<lambda>c. deferClose c (fn c))"

definition onFirewalled :: "string \<Rightarrow> infraFlags \<Rightarrow> (conn \<Rightarrow> unit res prog) \<Rightarrow> unit res prog" where
  "onFirewalled node0 f fn = bind (firewalledNode node0) (\<lambda>node.
     if node = '''' then fail (Errorf ''no node specified. Use --node or register one'' []) else sshTo node f fn)"

definition onFirstNode :: "string \<Rightarrow> infraFlags \<Rightarrow> (conn \<Rightarrow> unit res prog) \<Rightarrow> unit res prog" where
  "onFirstNode node0 f fn =
     bind (if node0 \<noteq> '''' then Ret node0
           else bind loadNodes (\<lambda>r. Ret (case r of Inr (n # ns) \<Rightarrow> ncIP n | _ \<Rightarrow> ''''))) (\<lambda>node.
     if node = '''' then fail (Errorf ''no node specified'' []) else sshTo node f fn)"

section \<open>Ports and bans\<close>

definition firewallBan :: "string \<Rightarrow> infraFlags \<Rightarrow> string \<Rightarrow> unit res prog" where
  "firewallBan node f ip = onNode node f (\<lambda>c. Fail2banBan c ip)"

definition firewallUnban :: "string \<Rightarrow> infraFlags \<Rightarrow> string \<Rightarrow> unit res prog" where
  "firewallUnban node f ip = onNode node f (\<lambda>c. Fail2banUnban c ip)"

definition firewallBans :: "string \<Rightarrow> infraFlags \<Rightarrow> unit res prog" where
  "firewallBans node f = onNode node f (\<lambda>c. tryP id (Fail2banBans c) (\<lambda>_. okP))"

text \<open>The ports are parsed before anything is dialled.\<close>

definition firewallOpen :: "string \<Rightarrow> infraFlags \<Rightarrow> string \<Rightarrow> string \<Rightarrow> unit res prog" where
  "firewallOpen node f proto raw = (case parsePorts raw of
     Inl e \<Rightarrow> fail e | Inr ports \<Rightarrow> onFirewalled node f (\<lambda>c. eachP (\<lambda>p. FirewallOpen c p proto) ports))"

definition firewallClose :: "string \<Rightarrow> infraFlags \<Rightarrow> string \<Rightarrow> string \<Rightarrow> unit res prog" where
  "firewallClose node f proto raw = (case parsePorts raw of
     Inl e \<Rightarrow> fail e | Inr ports \<Rightarrow> onFirewalled node f (\<lambda>c. eachP (\<lambda>p. FirewallClose c p proto) ports))"

definition firewallList :: "string \<Rightarrow> infraFlags \<Rightarrow> unit res prog" where
  "firewallList node f = onFirewalled node f (\<lambda>c. tryP id (FirewallList c) (\<lambda>_. okP))"

section \<open>The allowlist\<close>

definition allowlistPeerAdd :: "string \<Rightarrow> infraFlags \<Rightarrow> string \<Rightarrow> string \<Rightarrow> string \<Rightarrow> unit res prog" where
  \<open>allowlistPeerAdd node f proto ports ip = (case parsePorts ports of
     Inl e \<Rightarrow> fail e
   | Inr ps \<Rightarrow>
       if length ps = 0 then fail (Errorf ''--ports is required (e.g. "43453,3434")'' [])
       else onNode node f (\<lambda>c. eachP (\<lambda>p. AllowlistExposePort c p proto ScopeIPs [ip]) ps))\<close>

definition allowlistPeers :: "string \<Rightarrow> infraFlags \<Rightarrow> unit res prog" where
  "allowlistPeers node f = onNode node f (\<lambda>c. tryP id (AllowlistPorts c) (\<lambda>_. okP))"

definition allowlistRefresh :: "string \<Rightarrow> infraFlags \<Rightarrow> unit res prog" where
  "allowlistRefresh node f = onNode node f RefreshAllowlist"

definition allowlistStatus :: "string \<Rightarrow> infraFlags \<Rightarrow> unit res prog" where
  "allowlistStatus node f = onNode node f (\<lambda>c. tryP id (AllowlistStatus c) (\<lambda>_. okP))"

definition allowlistRemove :: "string \<Rightarrow> infraFlags \<Rightarrow> unit res prog" where
  "allowlistRemove node f = onNode node f RemoveAllowlist"

definition allowlistExpose :: "string \<Rightarrow> infraFlags \<Rightarrow> string \<Rightarrow> bool \<Rightarrow> string \<Rightarrow> string \<Rightarrow> string \<Rightarrow> unit res prog" where
  "allowlistExpose node f scope global proto ips raw = (case parsePorts raw of
     Inl e \<Rightarrow> fail e
   | Inr ports \<Rightarrow>
       if global \<and> ips \<noteq> '''' then fail (Errorf ''--global and --ips are mutually exclusive'' [])
       else let sc = (if ips \<noteq> '''' then ScopeIPs else if global then ScopeGlobal else scopeOf scope);
                ipList = (if ips \<noteq> '''' then map trimSpace (splitOn CHR '','' ips) else [])
            in onNode node f (\<lambda>c.
                 bind (firewalledNode node) (\<lambda>n.
                 tryP id (precheckNode c n f False) (\<lambda>_. AllowlistExposePort c (hd ports) proto sc ipList))))"

definition allowlistUnexpose :: "string \<Rightarrow> infraFlags \<Rightarrow> string \<Rightarrow> unit res prog" where
  "allowlistUnexpose node f raw = (case parsePorts raw of
     Inl e \<Rightarrow> fail e | Inr ports \<Rightarrow> onNode node f (\<lambda>c. AllowlistUnexposePort c (hd ports)))"

definition allowlistPortsCmd :: "string \<Rightarrow> infraFlags \<Rightarrow> unit res prog" where
  "allowlistPortsCmd node f = onNode node f (\<lambda>c. tryP id (AllowlistPorts c) (\<lambda>_. okP))"

definition allowlistAdminMod :: "string \<Rightarrow> infraFlags \<Rightarrow> bool \<Rightarrow> string \<Rightarrow> unit res prog" where
  "allowlistAdminMod node f add ip = onNode node f (\<lambda>c. if add then AllowlistAdminAdd c ip else AllowlistAdminRemove c ip)"

section \<open>Backup\<close>

definition infraBackup :: "infraFlags \<Rightarrow> string \<Rightarrow> unit res prog" where
  "infraBackup f ip = sshTo ip f (\<lambda>c. tryP id (BackupServices c ''.'') (\<lambda>_. okP))"

definition infraRestore :: "infraFlags \<Rightarrow> string \<Rightarrow> string \<Rightarrow> unit res prog" where
  "infraRestore f ip file = sshTo ip f (\<lambda>c. tryP id (RestoreServices c file) (\<lambda>_. okP))"

section \<open>TLS of a domain\<close>

text \<open>\<open>certProvider\<close> is a string type in the code; these are its constants.\<close>

type_synonym certProvider = string

definition CertLetsEncrypt :: certProvider where
  "CertLetsEncrypt = ''letsencrypt''"

definition CertCloudflare :: certProvider where
  "CertCloudflare = ''cloudflare''"

definition CertManual :: certProvider where
  "CertManual = ''manual''"

record certConfig =
  ctDomain :: string
  ctEmail :: string
  ctProvider :: certProvider
  ctCertFile :: string
  ctKeyFile :: string
  ctTargetPort :: int
  ctStaging :: bool
  ctRuntime :: string

definition stagingFormat :: string where
  \<open>stagingFormat =
''tls %s {
    issuer acme {
        ca https://acme-staging-v02.api.letsencrypt.org/directory
    }
}''\<close>

definition caddyCertFormat :: string where
  \<open>caddyCertFormat =
''
CADDY_VER="2.8.4"
if ! command -v caddy &>/dev/null; then
    apt-get install -y -qq debian-keyring debian-archive-keyring apt-transport-https 2>/dev/null
    curl -fsSL https://dl.cloudsmith.io/public/caddy/stable/gpg.key | gpg --dearmor -o /usr/share/keyrings/caddy-stable-archive-keyring.gpg 2>/dev/null
    echo "deb [signed-by=/usr/share/keyrings/caddy-stable-archive-keyring.gpg] https://dl.cloudsmith.io/public/caddy/stable/deb/debian any-version main" > /etc/apt/sources.list.d/caddy-stable.list
    apt-get update -qq && apt-get install -y -qq caddy 2>/dev/null || (
        cd /tmp
        curl -fsSLO "https://github.com/caddyserver/caddy/releases/download/v${CADDY_VER}/caddy_${CADDY_VER}_linux_amd64.tar.gz"
        tar xzf "caddy_${CADDY_VER}_linux_amd64.tar.gz"
        mv caddy /usr/local/bin/
    )
fi

mkdir -p /etc/caddy
cat > /etc/caddy/Caddyfile << 'CADDYFILE'
%s {
    %s
    reverse_proxy localhost:%d
}
CADDYFILE

systemctl enable caddy 2>/dev/null || true
systemctl restart caddy 2>/dev/null || caddy start --config /etc/caddy/Caddyfile
echo "Caddy configured for %s (-> :%d)"
''\<close>

definition caddyTls :: "certConfig \<Rightarrow> string" where
  "caddyTls cfg = (if ctStaging cfg then sprintf stagingFormat [Str (ctEmail cfg)] else sprintf ''tls %s'' [Str (ctEmail cfg)])"

definition installCertCaddy :: "conn \<Rightarrow> certConfig \<Rightarrow> unit res prog" where
  "installCertCaddy c cfg =
     (let port = (if ctTargetPort cfg = 0 then 8080 else ctTargetPort cfg)
      in runU c (Fmt caddyCertFormat [Str (ctDomain cfg), Str (caddyTls cfg), Num port, Str (ctDomain cfg), Num port])
           (wrapO ''caddy install: %w
%s'' []))"

definition traefikCertFormat :: string where
  \<open>traefikCertFormat =
''
mkdir -p /var/lib/rancher/k3s/server/manifests

cat > /var/lib/rancher/k3s/server/manifests/traefik-cert-%s.yaml << 'EOF'
apiVersion: cert-manager.io/v1
kind: Certificate
metadata:
  name: %s-tls
  namespace: default
spec:
  secretName: %s-tls
  issuerRef:
    name: letsencrypt-%s
    kind: ClusterIssuer
  commonName: %s
  dnsNames:
  - %s
EOF

kubectl apply -f /var/lib/rancher/k3s/server/manifests/traefik-cert-%s.yaml 2>/dev/null
echo "Traefik certificate configured for %s"
''\<close>

definition issuerFormat :: string where
  \<open>issuerFormat =
''
cat << 'EOF' | kubectl apply -f -
apiVersion: cert-manager.io/v1
kind: ClusterIssuer
metadata:
  name: letsencrypt-%s
spec:
  acme:
    email: %s
    server: https://acme-v02.api.letsencrypt.org/directory
    privateKeySecretRef:
      name: letsencrypt-%s-account-key
    solvers:
    - http01:
        ingress:
          class: traefik
EOF
''\<close>

text \<open>The operator is installed once; the issuer it looks for is not the one it creates.\<close>

definition crd_script :: script where
  "crd_script = Raw ''kubectl get crd certificates.cert-manager.io 2>/dev/null || echo missing''"

definition certManager_script :: script where
  "certManager_script = Raw ''kubectl apply -f https://github.com/cert-manager/cert-manager/releases/download/v1.16.3/cert-manager.yaml''"

definition findIssuer_script :: script where
  "findIssuer_script = Raw (''kubectl get clusterissuer letsencrypt-prod 2>/dev/null || echo 'missing'' @ [CHR 0x27])"

definition installCertTraefik :: "conn \<Rightarrow> certConfig \<Rightarrow> unit res prog" where
  "installCertTraefik c cfg0 =
     (let cfg = (if ctEmail cfg0 = '''' then cfg0\<lparr>ctEmail := ''admin@'' @ ctDomain cfg0\<rparr> else cfg0);
          d = Str (ctDomain cfg)
      in bind (sshRun c crd_script) (\<lambda>(crd, _).
         bind (if containsStr crd ''missing'' then bind (execP c certManager_script) (\<lambda>_. sleepP 20) else Ret ()) (\<lambda>_.
         bind (sshRun c findIssuer_script) (\<lambda>(issuer, _).
         tryP id (if containsStr issuer ''missing''
                  then runU c (Fmt issuerFormat [d, Str (ctEmail cfg), d]) (wrapE ''create cluster issuer: %w'' []) else okP) (\<lambda>_.
         runU c (Fmt traefikCertFormat [d, d, d, d, d, d, d, d]) (wrapO ''traefik cert: %w
%s'' []))))))"

definition installCertLetsEncrypt :: "conn \<Rightarrow> certConfig \<Rightarrow> unit res prog" where
  "installCertLetsEncrypt c cfg =
     (if ctRuntime cfg = ''k3s'' \<or> ctRuntime cfg = '''' then installCertTraefik c cfg else installCertCaddy c cfg)"

definition uploadCertFile :: "conn \<Rightarrow> string \<Rightarrow> string \<Rightarrow> unit res prog" where
  "uploadCertFile c data remotePath =
     Do (ExecIn c (Fmt (''sudo mkdir -p /etc/ssl/certs && sudo sh -c 'cat > %s'' @ [CHR 0x27]) [Str remotePath]) data) (\<lambda>a.
       case aSess a of Some m \<Rightarrow> fail (Wrapf ''ssh session: %w'' [] (Ext m))
       | None \<Rightarrow> (case aErr a of None \<Rightarrow> okP | Some m \<Rightarrow> fail (Wrapf ''upload: %w
%s'' [Str (aOut a)] (Ext m))))"

definition installCertManual :: "conn \<Rightarrow> certConfig \<Rightarrow> unit res prog" where
  "installCertManual c cfg =
     (if ctCertFile cfg = '''' \<or> ctKeyFile cfg = '''' then fail (Errorf ''--cert-file and --key-file are required for manual cert'' [])
      else tryP (Wrapf ''read cert file: %w'' []) (readFile (ctCertFile cfg)) (\<lambda>cert.
           tryP (Wrapf ''read key file: %w'' []) (readFile (ctKeyFile cfg)) (\<lambda>key.
           tryP (Wrapf ''upload cert: %w'' []) (uploadCertFile c cert (sprintf ''/etc/ssl/certs/%s.crt'' [Str (ctDomain cfg)])) (\<lambda>_.
           tryP (Wrapf ''upload key: %w'' []) (uploadCertFile c key (sprintf ''/etc/ssl/certs/%s.key'' [Str (ctDomain cfg)])) (\<lambda>_. okP)))))"

definition annotateScript :: string where
  \<open>annotateScript =
''
kubectl annotate ingress --all kubernetes.io/ingress.class=traefik 2>/dev/null || true
echo "  -> Marked ingresses for Traefik with Cloudflare proxy"
''\<close>

definition installCertCloudflare :: "conn \<Rightarrow> certConfig \<Rightarrow> unit res prog" where
  "installCertCloudflare c cfg =
     (if ctRuntime cfg = ''k3s'' \<or> ctRuntime cfg = '''' then runU c (Raw annotateScript) (wrapE ''cloudflare config: %w'' []) else okP)"

definition InstallCert :: "conn \<Rightarrow> certConfig \<Rightarrow> unit res prog" where
  "InstallCert c cfg =
     (if ctProvider cfg = CertLetsEncrypt then installCertLetsEncrypt c cfg
      else if ctProvider cfg = CertManual then installCertManual c cfg
      else if ctProvider cfg = CertCloudflare then installCertCloudflare c cfg
      else fail (Errorf ''unknown cert provider: %s'' [Str (ctProvider cfg)]))"

definition certInfoFormat :: string where
  \<open>certInfoFormat =
''
echo "=== Cert info for %s ==="
CADDY_DATA="/var/lib/caddy/.local/share/caddy/certificates"
if [ -d "$CADDY_DATA" ]; then
    find "$CADDY_DATA" -name "*.pem" 2>/dev/null | head -5
    for cert in $(find "$CADDY_DATA" -name "%s" -type d 2>/dev/null); do
        ls -la "$cert/"
        openssl x509 -in "$cert/%s.crt" -noout -text 2>/dev/null | grep -E "Not Before|Not After|Subject:" || true
    done
else
    echo "No Caddy certificates directory found"
    caddy cert-info 2>/dev/null || echo "Check /etc/caddy/Caddyfile"
fi
''\<close>

definition GetCertInfo :: "conn \<Rightarrow> string \<Rightarrow> string res prog" where
  "GetCertInfo c domain = runE c (Fmt certInfoFormat [Str domain, Str domain, Str domain]) (wrapE ''cert info: %w'' [])"

definition uninstallCaddyScript :: string where
  \<open>uninstallCaddyScript =
''
systemctl stop caddy 2>/dev/null || true
caddy stop 2>/dev/null || true
apt-get remove -y caddy 2>/dev/null || true
rm -f /usr/local/bin/caddy
rm -rf /etc/caddy
rm -rf /var/lib/caddy
echo "Caddy removed"
''\<close>

definition UninstallCaddy :: "conn \<Rightarrow> unit res prog" where
  "UninstallCaddy c = runU c (Raw uninstallCaddyScript) (wrapO ''caddy remove: %w
%s'' [])"

text \<open>The two commands.\<close>

definition certProviderOf :: "string \<Rightarrow> certProvider" where
  "certProviderOf p = (if p = ''cloudflare'' then CertCloudflare else if p = ''manual'' then CertManual else CertLetsEncrypt)"

definition certInstall :: "string \<Rightarrow> infraFlags \<Rightarrow> certConfig \<Rightarrow> unit res prog" where
  "certInstall node f cfg =
     (if ctDomain cfg = '''' then fail (Errorf ''--domain is required'' [])
      else if ctEmail cfg = '''' then fail (Errorf ''--email is required'' [])
      else onFirstNode node f (\<lambda>c. InstallCert c (cfg\<lparr>ctProvider := certProviderOf (ctProvider cfg)\<rparr>)))"

definition certInfo :: "string \<Rightarrow> infraFlags \<Rightarrow> string \<Rightarrow> unit res prog" where
  "certInfo node f domain =
     (if domain = '''' then fail (Errorf ''--domain is required'' [])
      else onFirstNode node f (\<lambda>c. tryP id (GetCertInfo c domain) (\<lambda>_. okP)))"

section \<open>Logs and alerts\<close>

definition logsInstall :: "string \<Rightarrow> infraFlags \<Rightarrow> promtailConfig \<Rightarrow> unit res prog" where
  "logsInstall node f cfg =
     (if pmLokiURL cfg = '''' then fail (Errorf ''--loki URL is required'' [])
      else onFirstNode node f (\<lambda>c. InstallPromtail c cfg))"

definition logsRemove :: "string \<Rightarrow> infraFlags \<Rightarrow> unit res prog" where
  "logsRemove node f = onFirstNode node f UninstallPromtail"

definition alertsInstall :: "string \<Rightarrow> infraFlags \<Rightarrow> alertmanagerConfig \<Rightarrow> unit res prog" where
  "alertsInstall node f cfg =
     (if amSlackWebhookURL cfg = '''' \<and> amEmail cfg = '''' \<and> (amTelegramToken cfg = '''' \<or> amTelegramChatID cfg = '''')
      then fail (Errorf ''need --slack, --email, or --bot-token+--chat-id'' [])
      else onFirstNode node f (\<lambda>c. InstallAlertmanager c cfg))"

definition alertsRemove :: "string \<Rightarrow> infraFlags \<Rightarrow> unit res prog" where
  "alertsRemove node f = onFirstNode node f UninstallAlertmanager"

definition ruleFormat :: string where
  \<open>ruleFormat =
''
mkdir -p /etc/alertmanager/rules
cat > /etc/alertmanager/rules/custom.yml << 'RULE'
%s
RULE

killall -HUP alertmanager 2>/dev/null || systemctl reload alertmanager 2>/dev/null || true
echo "Alert rule installed: %s"
''\<close>

definition InstallAlertRule :: "conn \<Rightarrow> string \<Rightarrow> unit res prog" where
  "InstallAlertRule c ruleFilePath =
     tryP (Wrapf ''read rule file: %w'' []) (readFile (pathClean ruleFilePath)) (\<lambda>data.
     runU c (Fmt ruleFormat [Str data, Str (pathBase ruleFilePath)]) (wrapO ''install rule: %w
%s'' []))"

definition alertsRuleAdd :: "string \<Rightarrow> infraFlags \<Rightarrow> string \<Rightarrow> unit res prog" where
  "alertsRuleAdd node f path = onFirstNode node f (\<lambda>c. InstallAlertRule c path)"

section \<open>The reverse proxy\<close>

definition NewProxy :: "string \<Rightarrow> proxyType" where
  "NewProxy p = (if p = ''traefik'' then ProxyTraefik else if p = ''nginx'' then ProxyNginx else ProxyCaddy)"

definition proxySession :: "conn \<Rightarrow> (conn \<Rightarrow> unit res prog) \<Rightarrow> unit res prog" where
  "proxySession t fn = tryP (Wrapf ''ssh connect: %w'' []) (connectSSH t) (\<lambda>c. deferClose c (fn c))"

definition proxySet :: "string \<Rightarrow> conn \<Rightarrow> string \<Rightarrow> string \<Rightarrow> unit res prog" where
  "proxySet backend t domain email =
     (if backend = '''' then fail (Errorf ''--backend is required (caddy, traefik, nginx)'' [])
      else if cHost t = '''' then fail (Errorf ''--node is required'' [])
      else if domain = '''' then fail (Errorf ''--domain is required'' [])
      else proxySession t (\<lambda>c. proxyInstall (NewProxy backend) c
             (emptyProxyConfig\<lparr>pcDomain := domain, pcEmail := email, pcTargetPort := 8080\<rparr>)))"

definition proxyStatusCmd :: "conn \<Rightarrow> unit res prog" where
  "proxyStatusCmd t =
     (if cHost t = '''' then fail (Errorf ''--node is required'' [])
      else proxySession t (\<lambda>c. bind (DetectProxy c) (\<lambda>d. case d of
        None \<Rightarrow> okP | Some p \<Rightarrow> bind (proxyStatus p c) (\<lambda>_. okP))))"

section \<open>The status report\<close>

definition sysInfo :: string where
  \<open>sysInfo =
''echo "Hostname: $(hostname)"
echo "Kernel:   $(uname -r)"
echo "Uptime:   $(uptime -p)"
echo "CPU:      $(nproc) cores, load: $(uptime | awk -F'load average:' '{print $2}')"
echo "Memory:   $(free -h | awk '/^Mem:/ {print $3 "/" $2}')"
echo "Disk:     $(df -h / | awk 'NR==2 {print $3 "/" $2}')"''\<close>

text \<open>A failing check is reported, it does not end the command.\<close>

definition runInfraStatus :: "string \<Rightarrow> infraFlags \<Rightarrow> unit res prog" where
  "runInfraStatus ip f =
     tryP (Wrapf ''ssh connect: %w'' []) (connectSSH (sshClient ip (ifUser f) (ifPort f) f)) (\<lambda>c.
     deferClose c (
     tryP id (runE c (Raw sysInfo) (wrapE ''system info: %w'' [])) (\<lambda>_.
     bind (hardeningCheck c) (\<lambda>_. bind (dockerCheck c) (\<lambda>_. bind (k3sCheck c) (\<lambda>_. okP))))))"

end
