(* ===== verification/ComposeFiles.thy ===== *)
theory ComposeFiles imports Remote GoNet "HOL-Library.Char_ord" "HOL-Library.List_Lexorder" begin

text \<open>
  The editor of docker-compose files (\<open>compose/compose.go\<close>) and its commands
  (\<open>cmd/sdk-ops/compose.go\<close>): each edit reads the file, changes one service and writes it back.
  The YAML decoder and encoder are the parameters \<open>dec\<close> and \<open>enc\<close>; a service whose body is
  null in the file is a nil pointer, which the code dereferences.
\<close>

record composeService =
  svImage :: string
  svBuild :: string
  svPorts :: "string list"
  svEnvironment :: "string dict"
  svVolumes :: "string list"
  svDependsOn :: "string list"
  svRestart :: string

type_synonym composeServices = "composeService option dict"

text \<open>The named volumes are kept as the decoder gives them.\<close>

record composeFile =
  cfServices :: composeServices
  cfVolumes :: "string dict"

type_synonym yamlDec = "string \<Rightarrow> string + composeFile"
type_synonym yamlEnc = "composeFile \<Rightarrow> string + string"

definition zeroService :: composeService where
  "zeroService = \<lparr>svImage = '''', svBuild = '''', svPorts = [], svEnvironment = [], svVolumes = [], svDependsOn = [], svRestart = ''''\<rparr>"

definition composeRead :: "yamlDec \<Rightarrow> string \<Rightarrow> composeFile res prog" where
  "composeRead dec path =
     tryP (Wrapf ''read %s: %w'' [Str path]) (readFile (pathClean path)) (\<lambda>data.
     case dec data of Inl m \<Rightarrow> fail (Wrapf ''parse %s: %w'' [Str path] (Ext m)) | Inr f \<Rightarrow> Ret (Inr f))"

definition composeWrite :: "yamlEnc \<Rightarrow> string \<Rightarrow> composeFile \<Rightarrow> unit res prog" where
  "composeWrite enc path f = (case enc f of
     Inl m \<Rightarrow> fail (Wrapf ''marshal: %w'' [] (Ext m))
   | Inr data \<Rightarrow> tryP (Wrapf ''write %s: %w'' [Str path]) (writeFile (pathClean path) data) (\<lambda>_. okP))"

definition composeInit :: "yamlEnc \<Rightarrow> string \<Rightarrow> string \<Rightarrow> unit res prog" where
  "composeInit enc path name =
     composeWrite enc path \<lparr>cfServices = [(if name = '''' then ''app'' else name,
       Some (zeroService\<lparr>svImage := ''nginx:alpine'', svPorts := [''8080:80''], svRestart := ''unless-stopped''\<rparr>))], cfVolumes = []\<rparr>"

section \<open>The edits of a file\<close>

definition mdel :: "'v dict \<Rightarrow> string \<Rightarrow> 'v dict" where
  "mdel m k = filter (\<lambda>(k', _). k' \<noteq> k) m"

definition newService :: "string \<Rightarrow> int \<Rightarrow> composeService" where
  "newService img port = zeroService\<lparr>svImage := img, svRestart := ''unless-stopped'',
     svPorts := (if port > 0 then [sprintf ''%d:%d'' [Num port, Num port]] else [])\<rparr>"

definition withService :: "string \<Rightarrow> string \<Rightarrow> int \<Rightarrow> composeFile \<Rightarrow> composeFile res" where
  "withService name img port f =
     (if mget (cfServices f) name \<noteq> None then Inl (Errorf ''service %q already exists'' [Str name])
      else Inr (f\<lparr>cfServices := mput (cfServices f) name (Some (newService img port))\<rparr>))"

definition withoutService :: "string \<Rightarrow> composeFile \<Rightarrow> composeFile res" where
  "withoutService name f =
     (if mget (cfServices f) name = None then Inl (Errorf ''service %q not found'' [Str name])
      else Inr (f\<lparr>cfServices := mdel (cfServices f) name\<rparr>))"

definition editService :: "string \<Rightarrow> (composeService \<Rightarrow> composeService) \<Rightarrow> composeFile \<Rightarrow> composeFile res" where
  "editService name g f = (case mget (cfServices f) name of
     None \<Rightarrow> Inl (Errorf ''service %q not found'' [Str name])
   | Some None \<Rightarrow> Inl (Panic ''nil service'')
   | Some (Some s) \<Rightarrow> Inr (f\<lparr>cfServices := mput (cfServices f) name (Some (g s))\<rparr>))"

definition setEnvVar :: "string \<Rightarrow> string \<Rightarrow> composeService \<Rightarrow> composeService" where
  "setEnvVar k v s = s\<lparr>svEnvironment := mput (svEnvironment s) k v\<rparr>"

definition unsetEnvVar :: "string \<Rightarrow> composeService \<Rightarrow> composeService" where
  "unsetEnvVar k s = s\<lparr>svEnvironment := mdel (svEnvironment s) k\<rparr>"

text \<open>Read, change, write.\<close>

definition edit :: "yamlDec \<Rightarrow> yamlEnc \<Rightarrow> string \<Rightarrow> (composeFile \<Rightarrow> composeFile res) \<Rightarrow> unit res prog" where
  "edit dec enc path change = tryP id (composeRead dec path) (\<lambda>f.
     case change f of Inl e \<Rightarrow> fail e | Inr g \<Rightarrow> composeWrite enc path g)"

definition AddService :: "yamlDec \<Rightarrow> yamlEnc \<Rightarrow> string \<Rightarrow> string \<Rightarrow> string \<Rightarrow> int \<Rightarrow> unit res prog" where
  "AddService dec enc path name img port = edit dec enc path (withService name img port)"

definition RemoveService :: "yamlDec \<Rightarrow> yamlEnc \<Rightarrow> string \<Rightarrow> string \<Rightarrow> unit res prog" where
  "RemoveService dec enc path name = edit dec enc path (withoutService name)"

definition SetEnv :: "yamlDec \<Rightarrow> yamlEnc \<Rightarrow> string \<Rightarrow> string \<Rightarrow> string \<Rightarrow> string \<Rightarrow> unit res prog" where
  "SetEnv dec enc path service k v = edit dec enc path (editService service (setEnvVar k v))"

definition UnsetEnv :: "yamlDec \<Rightarrow> yamlEnc \<Rightarrow> string \<Rightarrow> string \<Rightarrow> string \<Rightarrow> unit res prog" where
  "UnsetEnv dec enc path service k = edit dec enc path (editService service (unsetEnvVar k))"

definition composeServiceNames :: "yamlDec \<Rightarrow> string \<Rightarrow> string list res prog" where
  "composeServiceNames dec path = tryP id (composeRead dec path) (\<lambda>f. Ret (Inr (sort (keys (cfServices f)))))"

text \<open>The first bad service in the order of the map iteration decides the message.\<close>

definition checkService :: "string \<times> composeService option \<Rightarrow> goerr option" where
  "checkService x = (case snd x of
     None \<Rightarrow> Some (Panic ''nil service'')
   | Some s \<Rightarrow> if svImage s = '''' \<and> svBuild s = '''' then Some (Errorf ''service %q: must have image or build'' [Str (fst x)]) else None)"

definition composeValidate :: "yamlDec \<Rightarrow> string \<Rightarrow> unit res prog" where
  "composeValidate dec path =
     tryP (Wrapf ''read: %w'' []) (readFile (pathClean path)) (\<lambda>data.
     case dec data of Inl m \<Rightarrow> fail (Wrapf ''invalid YAML: %w'' [] (Ext m))
     | Inr f \<Rightarrow> if cfServices f = [] then fail (Errorf ''no services defined'' [])
       else bind (mapOrder (cfServices f)) (\<lambda>ss. case firstErr checkService ss of None \<Rightarrow> okP | Some e \<Rightarrow> fail e))"

section \<open>The commands\<close>

definition composeInitCmd :: "yamlEnc \<Rightarrow> string \<Rightarrow> string \<Rightarrow> unit res prog" where
  "composeInitCmd enc path name =
     composeInit enc (if hasSuffix path ''.yml'' \<or> hasSuffix path ''.yaml'' then path else path @ ''/docker-compose.yml'') name"

definition composeAddCmd :: "yamlDec \<Rightarrow> yamlEnc \<Rightarrow> string \<Rightarrow> string \<Rightarrow> string \<Rightarrow> int \<Rightarrow> unit res prog" where
  "composeAddCmd dec enc path name img port =
     (if img = '''' then fail (Errorf ''--image is required'' []) else AddService dec enc path name img port)"

definition composeEnvSetCmd :: "yamlDec \<Rightarrow> yamlEnc \<Rightarrow> string \<Rightarrow> string \<Rightarrow> string \<Rightarrow> unit res prog" where
  "composeEnvSetCmd dec enc path service kv = (case cutAt CHR ''='' kv of
     None \<Rightarrow> fail (Errorf ''format: KEY=value'' [])
   | Some (k, v) \<Rightarrow> SetEnv dec enc path service k v)"

definition composeValidateCmd :: "yamlDec \<Rightarrow> string \<Rightarrow> unit res prog" where
  "composeValidateCmd dec path = tryP (Wrapf ''validation failed: %w'' []) (composeValidate dec path) (\<lambda>_. okP)"

section \<open>What the edits do\<close>

lemma mget_mdel [dict_simps]: "mget (mdel m k) k' = (if k' = k then None else mget m k')"
  by (induction m) (auto simp: mdel_def mget_def)

lemma dict_ok_mdel [dict_simps]: "dict_ok m \<Longrightarrow> dict_ok (mdel m k)"
  by (auto simp: dict_ok_def keys_def mdel_def distinct_map_filter)

lemma mput_fresh: "mget m k = None \<Longrightarrow> mput m k v = m @ [(k, v)]"
  by (induction m) (auto simp: mget_def mput_def split: if_splits)

lemma mdel_fresh: "mget m k = None \<Longrightarrow> mdel m k = m"
  by (induction m) (auto simp: mget_def mdel_def split: if_splits)

text \<open>Removing the service just added gives the file back.\<close>

lemma added_removed:
  assumes "withService name img port f = Inr g"
  shows "withoutService name g = Inr f"
proof -
  from assms have n: "mget (cfServices f) name = None"
    and g: "g = f\<lparr>cfServices := mput (cfServices f) name (Some (newService img port))\<rparr>"
    by (auto simp: withService_def split: if_splits)
  have "mdel (mput (cfServices f) name (Some (newService img port))) name = cfServices f"
    using n mdel_fresh [OF n] by (simp add: mput_fresh mdel_def)
  then show ?thesis by (simp add: withoutService_def g mget_mput)
qed

text \<open>A successful edit reads the file once and writes it once.\<close>

lemma edit_runs:
  assumes "runs (edit dec enc path change) t (Inr ())"
  shows "\<exists>a b f g s. t = [(ReadFile (pathClean path), a), (WriteFile (pathClean path) s, b)] \<and>
           dec (aOut a) = Inr f \<and> change f = Inr g \<and> enc g = Inr s"
  using assms unfolding edit_def composeRead_def composeWrite_def readFile_def writeFile_def tryP_def fail_def okP_def
  by (auto simp: runs_bind runs_Do split: option.splits sum.splits)

lemma edit_requests:
  "allreq (\<lambda>q. q = ReadFile (pathClean path) \<or> (\<exists>s. q = WriteFile (pathClean path) s)) (edit dec enc path change)"
  unfolding edit_def composeRead_def composeWrite_def
  by (intro allreq_tryP allreq_basic) (auto split: sum.splits intro!: allreq_tryP allreq_basic)


definition demo_compose :: composeFile where
  "demo_compose = \<lparr>cfServices = [(''db'', Some (newService ''postgres'' 5432))], cfVolumes = []\<rparr>"

definition demo_added :: composeFile where
  "demo_added = demo_compose\<lparr>cfServices := cfServices demo_compose @ [(''web'', Some (newService ''nginx'' 80))]\<rparr>"

definition demo_enc :: yamlEnc where
  "demo_enc f = (if f = demo_compose then Inr ''db'' else if f = demo_added then Inr ''db, web'' else Inl ''unknown'')"

definition demo_dec :: yamlDec where
  "demo_dec s = (if s = ''db'' then Inr demo_compose else if s = ''db, web'' then Inr demo_added else Inl ''unknown'')"

lemma demo_codec:
  "demo_enc demo_compose = Inr ''db''" "demo_enc demo_added = Inr ''db, web''"
  "demo_dec ''db'' = Inr demo_compose" "demo_dec ''db, web'' = Inr demo_added"
  by (simp_all add: demo_enc_def demo_dec_def demo_added_def demo_compose_def)

lemma demo_edits: "withService ''web'' ''nginx'' 80 demo_compose = Inr demo_added" "withoutService ''web'' demo_added = Inr demo_compose"
proof -
  show add: "withService ''web'' ''nginx'' 80 demo_compose = Inr demo_added"
    by (simp add: withService_def demo_compose_def demo_added_def mget_def mput_def)
  show "withoutService ''web'' demo_added = Inr demo_compose" by (rule added_removed [OF add])
qed

lemma clean_demo: "pathClean ''c.yml'' = ''c.yml''"
  by code_simp

lemmas edit_eval = edit_def composeRead_def composeWrite_def readFile_def writeFile_def tryP_def okP_def ok_out_def clean_demo
  demo_codec demo_edits

lemma demo_add: "runs (AddService demo_dec demo_enc ''c.yml'' ''web'' ''nginx'' 80)
    [(ReadFile ''c.yml'', ok_out ''db''), (WriteFile ''c.yml'' ''db, web'', ok_out '''')] (Inr ())"
  by (simp add: AddService_def edit_eval)

lemma demo_remove: "runs (RemoveService demo_dec demo_enc ''c.yml'' ''web'')
    [(ReadFile ''c.yml'', ok_out ''db, web''), (WriteFile ''c.yml'' ''db'', ok_out '''')] (Inr ())"
  by (simp add: RemoveService_def edit_eval)


end
