(* ===== verification/GoBase64.thy ===== *)
theory GoBase64 imports Main begin

text \<open>
  \<open>base64.StdEncoding\<close>, as the certificates of a node are read and the start-up script of a
  server is sent.
\<close>

text \<open>\<open>base64.StdEncoding\<close>: line breaks are skipped, the padding is required.\<close>

definition b64val :: "char \<Rightarrow> nat option" where
  "b64val c = (let n = (of_char c :: nat) in
     if 65 \<le> n \<and> n \<le> 90 then Some (n - 65) else if 97 \<le> n \<and> n \<le> 122 then Some (n - 71)
     else if 48 \<le> n \<and> n \<le> 57 then Some (n + 4) else if n = 43 then Some 62 else if n = 47 then Some 63 else None)"

fun b64groups :: "string \<Rightarrow> string option" where
  "b64groups [] = Some []"
| "b64groups [a, b, c, d] = (case (b64val a, b64val b) of
     (Some x, Some y) \<Rightarrow>
       (if c = CHR ''='' then (if d = CHR ''='' then Some [char_of (x * 4 + y div 16)] else None)
        else (case b64val c of None \<Rightarrow> None | Some z \<Rightarrow>
          if d = CHR ''='' then Some [char_of (x * 4 + y div 16), char_of (y mod 16 * 16 + z div 4)]
          else (case b64val d of None \<Rightarrow> None | Some w \<Rightarrow>
            Some [char_of (x * 4 + y div 16), char_of (y mod 16 * 16 + z div 4), char_of (z mod 4 * 64 + w)])))
   | _ \<Rightarrow> None)"
| "b64groups (a # b # c # d # r) = (case (b64val a, b64val b, b64val c, b64val d, b64groups r) of
     (Some x, Some y, Some z, Some w, Some s) \<Rightarrow>
       Some (char_of (x * 4 + y div 16) # char_of (y mod 16 * 16 + z div 4) # char_of (z mod 4 * 64 + w) # s)
   | _ \<Rightarrow> None)"
| "b64groups s = None"

definition b64decode :: "string \<Rightarrow> string option" where
  "b64decode s = b64groups (filter (\<lambda>c. c \<noteq> CHR 0x0A \<and> c \<noteq> CHR 0x0D) s)"

definition b64char :: "nat \<Rightarrow> char" where
  "b64char n = (if n < 26 then char_of (n + 65) else if n < 52 then char_of (n + 71)
     else if n < 62 then char_of (n - 4) else if n = 62 then CHR ''+'' else CHR ''/'')"

fun b64encode :: "string \<Rightarrow> string" where
  "b64encode [] = []"
| "b64encode [a] = (let x = (of_char a :: nat) in [b64char (x div 4), b64char (x mod 4 * 16), CHR ''='', CHR ''=''])"
| "b64encode [a, b] = (let x = (of_char a :: nat); y = of_char b in
     [b64char (x div 4), b64char (x mod 4 * 16 + y div 16), b64char (y mod 16 * 4), CHR ''=''])"
| "b64encode (a # b # c # r) = (let x = (of_char a :: nat); y = of_char b; z = of_char c in
     b64char (x div 4) # b64char (x mod 4 * 16 + y div 16) # b64char (y mod 16 * 4 + z div 64) # b64char (z mod 64) # b64encode r)"

section \<open>Encoding is undone by decoding\<close>

lemma of_char_bound [simp]: "(of_char c :: nat) < 256"
  by (metis of_char_mod_256 mod_less_divisor zero_less_numeral)

lemma of_b64char: "n < 64 \<Longrightarrow> (of_char (b64char n) :: nat) =
    (if n < 26 then n + 65 else if n < 52 then n + 71 else if n < 62 then n - 4 else if n = 62 then 43 else 47)"
  by (simp add: b64char_def)

lemma b64char_val [simp]: "n < 64 \<Longrightarrow> b64val (b64char n) = Some n"
  by (auto simp: b64val_def of_b64char Let_def)

lemma b64char_plain [simp]: "n < 64 \<Longrightarrow> b64char n \<noteq> CHR ''=''"
    "n < 64 \<Longrightarrow> b64char n \<noteq> CHR 0x0A" "n < 64 \<Longrightarrow> b64char n \<noteq> CHR 0x0D"
  using of_b64char [of n] by (auto split: if_splits)

lemma b64_fields [simp]: "(of_char c :: nat) div 4 < 64" "of_char c mod 4 * 16 < (64::nat)"
    "of_char c mod 16 * 4 < (64::nat)" "(of_char c :: nat) mod 64 < 64"
    "of_char c mod 4 * 16 + of_char d div 16 < (64::nat)" "of_char c mod 16 * 4 + of_char d div 64 < (64::nat)"
  using of_char_bound [of c] of_char_bound [of d] by linarith+

lemma b64_pieces [simp]: "of_char c div 16 div 16 = (0::nat)" "of_char c div 64 div 4 = (0::nat)"
    "of_char c div 16 mod 16 = (of_char c div 16 :: nat)" "of_char c div 64 mod 4 = (of_char c div 64 :: nat)"
  using of_char_bound [of c] by (simp_all add: less_mult_imp_div_less)

lemma b64encode_plain: "c \<in> set (b64encode s) \<Longrightarrow> c \<noteq> CHR 0x0A \<and> c \<noteq> CHR 0x0D"
  by (induction s rule: b64encode.induct) (auto simp: Let_def)

lemma b64groups_encode: "b64groups (b64encode s) = Some s"
proof (induction s rule: b64encode.induct)
  case (4 a b c r)
  show ?case
  proof (cases r)
    case Nil
    then show ?thesis by (simp add: Let_def)
  next
    case (Cons d t)
    then obtain e u where "b64encode r = e # u" by (cases t; cases "tl t") (simp_all add: Let_def)
    with 4 show ?thesis by (simp add: Let_def)
  qed
qed (simp_all add: Let_def)

theorem base64_roundtrip: "b64decode (b64encode s) = Some s"
proof -
  have "filter (\<lambda>c. c \<noteq> CHR 0x0A \<and> c \<noteq> CHR 0x0D) (b64encode s) = b64encode s"
    by (rule filter_True) (use b64encode_plain in blast)
  then show ?thesis by (simp add: b64decode_def b64groups_encode)
qed

end
