(* ===== verification/CertSync.thy ===== *)
theory CertSync imports OpsCommands GoNet GoJson GoBase64 begin

text \<open>
  Let's Encrypt certificates of a node: the commands that install the sync
  (\<open>cmd/sdk-ops/certs.go\<close>, \<open>hardening/cert_renew.go\<close>) and the worker that copies the certificates
  Traefik issued to the services that use them (\<open>cmd/sdk-ops/renew.go\<close>). The decoders of the JSON
  files are the parameters \<open>acmeDec\<close> and \<open>cfgDec\<close>; the log file the worker appends to is not modelled.
\<close>

section \<open>Domains\<close>

text \<open>The regular expression \<open>certDomainRe\<close>: at least two labels of letters, digits and inner hyphens.\<close>

definition alnum_char :: "char \<Rightarrow> bool" where
  "alnum_char c = (let n = (of_char c :: nat) in 48 \<le> n \<and> n \<le> 57 \<or> 65 \<le> n \<and> n \<le> 90 \<or> 97 \<le> n \<and> n \<le> 122)"

definition domainLabel :: "string \<Rightarrow> bool" where
  "domainLabel l \<longleftrightarrow> l \<noteq> '''' \<and> alnum_char (hd l) \<and> alnum_char (last l) \<and> list_all (\<lambda>c. alnum_char c \<or> c = CHR ''-'') l"

definition certDomainRe :: "string \<Rightarrow> bool" where
  "certDomainRe s = (let ls = splitOn CHR ''.'' s in 2 \<le> length ls \<and> list_all domainLabel ls)"

definition splitCertServices :: "string \<Rightarrow> string list" where
  "splitCertServices raw = filter (\<lambda>t. t \<noteq> '''') (map (\<lambda>s. toLower (trimSpace s)) (splitOn CHR '','' raw))"

section \<open>The worker\<close>

record certSyncConfig =
  csDomain :: string
  csStore :: string
  csACMEJSON :: string
  csServices :: "string list"

record acmeCert =
  acMain :: string
  acCertificate :: string
  acKeyData :: string

type_synonym acmeDecoder = "string \<Rightarrow> string + acmeCert list"
type_synonym configDecoder = "string \<Rightarrow> string + certSyncConfig"

definition extractTraefikCert :: "acmeDecoder \<Rightarrow> string \<Rightarrow> string \<Rightarrow> (string \<times> string) option res prog" where
  \<open>extractTraefikCert acmeDec acmeJSON domain =
     tryP id (readFile (pathClean acmeJSON)) (\<lambda>data.
     case acmeDec data of Inl m \<Rightarrow> fail (Wrapf ''parse acme.json: %w'' [] (Ext m))
     | Inr certs \<Rightarrow> (case List.find (\<lambda>c. acMain c = domain) certs of None \<Rightarrow> Ret (Inr None)
       | Some c \<Rightarrow> (case b64decode (acCertificate c) of None \<Rightarrow> fail (Wrapf ''decode cert: %w'' [] (Ext ''illegal base64 data''))
         | Some cert \<Rightarrow> (case b64decode (acKeyData c) of None \<Rightarrow> fail (Wrapf ''decode key: %w'' [] (Ext ''illegal base64 data''))
           | Some k \<Rightarrow> Ret (Inr (Some (cert, k)))))))\<close>

text \<open>The lines of a command's output; a byte above 127 becomes the two bytes of its rune.\<close>

definition runeOf :: "char \<Rightarrow> string" where
  "runeOf c = (let n = (of_char c :: nat) in if n < 128 then [c] else [char_of (192 + n div 64), char_of (128 + n mod 64)])"

fun splitLinesFrom :: "string \<Rightarrow> string \<Rightarrow> string list" where
  "splitLinesFrom cur [] = (if cur \<noteq> '''' then [cur] else [])"
| "splitLinesFrom cur (c # s) =
     (if c = CHR 0x0A then (if cur \<noteq> '''' then cur # splitLinesFrom '''' s else splitLinesFrom '''' s)
      else splitLinesFrom (cur @ runeOf c) s)"

definition splitLines :: "string \<Rightarrow> string list" where
  "splitLines b = splitLinesFrom '''' b"

definition hex_char :: "char \<Rightarrow> bool" where
  "hex_char c = (let n = (of_char c :: nat) in 48 \<le> n \<and> n \<le> 57 \<or> 97 \<le> n \<and> n \<le> 102)"

definition containerIDRe :: "string \<Rightarrow> bool" where
  "containerIDRe s \<longleftrightarrow> 12 \<le> length s \<and> length s \<le> 64 \<and> list_all hex_char s"

definition quietly :: "req \<Rightarrow> unit prog" where
  "quietly q = Do q (\<lambda>_. Ret ())"

definition copyPEM :: "string \<Rightarrow> string \<Rightarrow> unit prog" where
  "copyPEM dst src = Do (OpenRoot (pathDir dst)) (\<lambda>a. if aErr a \<noteq> None then Ret ()
     else Do (ReadFile (pathClean src)) (\<lambda>b. if aErr b \<noteq> None then Ret () else quietly (OpenWrite dst (aOut b))))"

definition killReq :: "string \<Rightarrow> req" where
  "killReq c = LocalRun [] '''' ''docker'' [''kill'', ''-s'', ''HUP'', c]"

definition psReq :: req where
  "psReq = LocalRun [] '''' ''docker'' [''ps'', ''-q'', ''--filter'', ''name=nats'']"

definition hupAll :: "string \<Rightarrow> unit prog" where
  "hupAll out = fold (\<lambda>c p. bind p (\<lambda>_. if containerIDRe c then quietly (killReq c) else Ret ())) (splitLines out) (Ret ())"

definition refreshNats :: "string \<Rightarrow> unit prog" where
  \<open>refreshNats store = Do (Stat ''/opt/sdk-ops/nats/certs'') (\<lambda>a. if aErr a \<noteq> None \<or> aOut a \<noteq> ''dir'' then Ret ()
     else bind (copyPEM ''/opt/sdk-ops/nats/certs/server.pem'' (pathJoin [store, ''fullchain.pem''])) (\<lambda>_.
          bind (copyPEM ''/opt/sdk-ops/nats/certs/server.key'' (pathJoin [store, ''privkey.pem''])) (\<lambda>_.
          Do psReq (\<lambda>b. if aErr b \<noteq> None then Ret () else hupAll (aOut b)))))\<close>

definition refreshTraefik :: "string \<Rightarrow> string \<Rightarrow> unit prog" where
  \<open>refreshTraefik store domain = (let dir = ''/opt/traefik/certs/'' @ domain in
     bind (quietly (MkDir dir)) (\<lambda>_.
     bind (copyPEM (pathJoin [dir, ''fullchain.pem'']) (pathJoin [store, ''fullchain.pem''])) (\<lambda>_.
     bind (copyPEM (pathJoin [dir, ''privkey.pem'']) (pathJoin [store, ''privkey.pem''])) (\<lambda>_.
     quietly (LocalRun [] '''' ''docker'' [''restart'', ''traefik''])))))\<close>

primrec refreshEach :: "string \<Rightarrow> string \<Rightarrow> string list \<Rightarrow> unit prog" where
  "refreshEach store domain [] = Ret ()"
| "refreshEach store domain (s # ss) =
     bind (if s = ''nats'' then refreshNats store else if s = ''traefik'' then refreshTraefik store domain else Ret ())
       (\<lambda>_. refreshEach store domain ss)"

definition refreshServices :: "string \<Rightarrow> string \<Rightarrow> string list \<Rightarrow> unit prog" where
  "refreshServices store domain services = (if \<not> certDomainRe domain then Ret () else refreshEach store domain services)"

definition storeCert :: "certSyncConfig \<Rightarrow> string \<Rightarrow> string \<Rightarrow> unit res prog" where
  "storeCert cfg fullchain k =
     bind (quietly (WriteFile (pathJoin [csStore cfg, ''fullchain.pem'']) fullchain)) (\<lambda>_.
     bind (quietly (WriteFile (pathJoin [csStore cfg, ''cert.pem'']) fullchain)) (\<lambda>_.
     bind (quietly (WriteFile (pathJoin [csStore cfg, ''privkey.pem'']) k)) (\<lambda>_.
     bind (refreshServices (csStore cfg) (csDomain cfg) (csServices cfg)) (\<lambda>_. okP))))"

definition syncCert :: "acmeDecoder \<Rightarrow> certSyncConfig \<Rightarrow> unit res prog" where
  \<open>syncCert acmeDec cfg =
     (if \<not> certDomainRe (csDomain cfg) then fail (Errorf ''invalid domain %q in config'' [Str (csDomain cfg)])
      else tryP id (callP (MkDir (pathClean (csStore cfg)))) (\<lambda>_.
        tryP id (extractTraefikCert acmeDec (csACMEJSON cfg) (csDomain cfg)) (\<lambda>r. case r of
          None \<Rightarrow> okP
        | Some (fullchain, k) \<Rightarrow>
            Do (ReadFile (pathJoin [csStore cfg, ''fullchain.pem''])) (\<lambda>a.
            if (if aErr a = None then aOut a else '''') = fullchain then okP
            else storeCert cfg fullchain k))))\<close>

definition loadSyncConfig :: "configDecoder \<Rightarrow> string \<Rightarrow> certSyncConfig res prog" where
  \<open>loadSyncConfig cfgDec path = tryP id (readFile (pathClean path)) (\<lambda>data.
     case cfgDec data of Inl m \<Rightarrow> fail (Wrapf ''parse config: %w'' [] (Ext m)) | Inr c \<Rightarrow> Ret (Inr c))\<close>

text \<open>With \<open>--all\<close> a configuration that fails is logged and the next one is synced.\<close>

primrec syncEach :: "acmeDecoder \<Rightarrow> configDecoder \<Rightarrow> string list \<Rightarrow> unit prog" where
  "syncEach acmeDec cfgDec [] = Ret ()"
| "syncEach acmeDec cfgDec (f # fs) =
     bind (loadSyncConfig cfgDec f) (\<lambda>r. case r of
       Inl e \<Rightarrow> syncEach acmeDec cfgDec fs
     | Inr cfg \<Rightarrow> bind (syncCert acmeDec cfg) (\<lambda>_. syncEach acmeDec cfgDec fs))"

definition certsSync :: "acmeDecoder \<Rightarrow> configDecoder \<Rightarrow> bool \<Rightarrow> string \<Rightarrow> unit res prog" where
  \<open>certsSync acmeDec cfgDec syncAll configPath =
     (if syncAll then tryP id (askP (ReadDir ''/etc/sdk-ops/certs/*.json'')) (\<lambda>a. bind (syncEach acmeDec cfgDec (aList a)) (\<lambda>_. okP))
      else if configPath = '''' then fail (Errorf ''--config or --all is required'' [])
      else tryP id (loadSyncConfig cfgDec configPath) (\<lambda>cfg. syncCert acmeDec cfg))\<close>

section \<open>The timer\<close>

definition removeRenewScript :: string where
  \<open>removeRenewScript =
''
sudo systemctl stop sdk-ops-certs.timer sdk-ops-certs.service 2>/dev/null || true
sudo systemctl disable sdk-ops-certs.timer 2>/dev/null || true
sudo rm -f /etc/systemd/system/sdk-ops-certs.service /etc/systemd/system/sdk-ops-certs.timer
sudo rm -rf /opt/sdk-ops/certs /etc/sdk-ops/certs
sudo systemctl daemon-reload
echo "cert renewal removed"
''\<close>

definition RemoveCertRenew :: "conn \<Rightarrow> unit res prog" where
  \<open>RemoveCertRenew c = runU c (Raw removeRenewScript) (wrapE ''cert renewal remove: %w'' [])\<close>

definition renewStatusFormat :: string where
  \<open>renewStatusFormat =
''
ACT=$(systemctl is-active sdk-ops-certs.timer 2>/dev/null || echo inactive)
LAST=$(systemctl show -p LastTriggerUSec --value sdk-ops-certs.timer 2>/dev/null || echo never)
echo "timer=$ACT last=$LAST"
if [ -f %s/cert.pem ]; then
  openssl x509 -in %s/cert.pem -noout -dates 2>/dev/null || echo "no cert yet"
else
  echo "no cert issued yet"
fi
tail -3 /var/log/sdk-ops-certs.log 2>/dev/null || echo "no log"
''\<close>

definition CertRenewStatus :: "conn \<Rightarrow> string \<Rightarrow> string res prog" where
  \<open>CertRenewStatus c domain =
     (let store = (if domain \<noteq> '''' then ''/etc/sdk-ops/certs/'' @ domain else ''/etc/sdk-ops/certs'')
      in tryP id (runE c (Fmt renewStatusFormat [Str store, Str store]) (wrapE ''cert renewal status: %w'' []))
           (\<lambda>out. Ret (Inr (trimSpace out))))\<close>

section \<open>The commands\<close>

definition certsNode :: "string \<Rightarrow> infraFlags \<Rightarrow> (conn \<Rightarrow> 'a res prog) \<Rightarrow> 'a res prog" where
  \<open>certsNode node f body =
     (if node = '''' then fail (Errorf ''--node is required'' [])
      else tryP id (opsConnect (zeroHost\<lparr>hName := node, hHost := node, hUser := ifUser f, hSSHKey := ifKey f, hPort := ifPort f\<rparr>) f)
        (\<lambda>c. deferClose c (body c)))\<close>

definition certSlug :: "string \<Rightarrow> string" where
  "certSlug domain = replaceAll domain ''.'' ''_''"

definition routerHead :: string where
  \<open>routerHead =
''http:
  routers:
    %s:
      rule: "Host(''\<close>

definition routerTail :: string where
  \<open>routerTail =
[CHR 0x60]\<close>

definition certResolverRouter :: "string \<Rightarrow> string" where
  "certResolverRouter domain =
     sprintf (routerHead @ [CHR 0x60] @ ''%s'' @ [CHR 0x60] @ routerTail) [Str (''acme-'' @ replaceAll domain ''.'' ''-''), Str domain]"

text \<open>
  The directories above the working directory, up to the one with \<open>go.mod\<close>. The walk ends:
  the parent of a directory is shorter, or the directory itself.
\<close>

lemma joinWith_length: "cs \<noteq> [] \<Longrightarrow> length (joinWith ''/'' cs) + 1 = sum_list (map (\<lambda>c. length c + 1) cs)"
proof (induction cs)
  case (Cons c cs)
  then show ?case by (cases cs) (simp_all add: joinWith_def)
qed simp

definition weight :: "string list \<Rightarrow> nat" where
  "weight cs = sum_list (map (\<lambda>c. length c + 1) cs)"

lemma weight_simps [simp]: "weight [] = 0" "weight (c # cs) = length c + 1 + weight cs" "weight (cs @ ds) = weight cs + weight ds"
  by (simp_all add: weight_def)

lemma weight_butlast: "weight (butlast cs) \<le> weight cs"
  by (induction cs) auto

lemma weight_cleanStep: "weight (cleanStep r ps c) \<le> weight ps + (if c = '''' then 0 else length c + 1)"
  using weight_butlast [of ps] by auto

lemma weight_foldl: "weight (foldl (cleanStep r) ps cs) \<le> weight ps + weight (filter (\<lambda>c. c \<noteq> '''') cs)"
proof (induction cs arbitrary: ps)
  case (Cons c cs)
  from Cons.IH [of "cleanStep r ps c"] weight_cleanStep [of r ps c] show ?case by auto
qed simp

lemma splitOn_weight: "weight (splitOn d s) = length s + 1"
  by (induction d s rule: splitOn.induct) (auto split: list.splits)

lemma splitOn_snoc: "splitOn d (s @ [d]) = splitOn d s @ [[]]"
proof (induction s)
  case (Cons x xs)
  then show ?case by (cases "splitOn d xs") auto
qed simp

lemma weight_filter: "weight (filter P cs) \<le> weight cs"
  by (induction cs) auto

lemma joinWith_slash: "length (joinWith ''/'' cs) = weight cs - 1"
  using joinWith_length [of cs] by (cases "cs = []") (auto simp: joinWith_def weight_def)

text \<open>A directory written with a trailing slash gets shorter by cleaning, but for the root.\<close>

lemma pathClean_short:
  assumes "p = q @ ''/''" "p \<noteq> ''/''"
  shows "pathClean p = ''.'' \<or> length (pathClean p) < length p"
proof -
  let ?cs = "foldl (cleanStep (hasPrefix p ''/'')) [] (splitOn CHR ''/'' p)"
  have w: "weight ?cs \<le> weight (filter (\<lambda>c. c \<noteq> '''') (splitOn CHR ''/'' q))"
    using weight_foldl [of "hasPrefix p ''/''" "[]" "splitOn CHR ''/'' p"] assms(1) by (simp add: splitOn_snoc)
  show ?thesis
  proof (cases "hasPrefix p ''/''")
    case True
    with assms obtain r where q: "q = CHR ''/'' # r" by (cases q) (auto simp: hasPrefix_def)
    have "weight ?cs \<le> length r + 1"
      using w weight_filter [of "\<lambda>c. c \<noteq> ''''" "splitOn CHR ''/'' r"] splitOn_weight [of "CHR ''/''" r] by (simp add: q)
    then show ?thesis using True assms q by (simp add: pathClean_def Let_def joinWith_slash)
  next
    case False
    have "weight ?cs \<le> length q + 1"
      using w weight_filter [of "\<lambda>c. c \<noteq> ''''" "splitOn CHR ''/'' q"] splitOn_weight [of "CHR ''/''" q] by simp
    then show ?thesis using False assms by (auto simp: pathClean_def Let_def joinWith_slash)
  qed
qed

definition upMeasure :: "string \<Rightarrow> nat" where
  "upMeasure d = (if d = ''.'' then 0 else length d + 1)"

lemma pathDir_shorter:
  assumes "pathDir d \<noteq> d"
  shows "upMeasure (pathDir d) < upMeasure d"
proof -
  define p where "p = rev (dropWhile (\<lambda>c. c \<noteq> CHR ''/'') (rev d))"
  define r where "r = rev (takeWhile (\<lambda>c. c \<noteq> CHR ''/'') (rev d))"
  have d: "d = p @ r" by (simp add: p_def r_def flip: rev_append)
  have pd: "pathDir d = pathClean p" by (simp add: pathDir_def p_def)
  consider "p = ''''" | "p = ''/''" | q where "p = q @ ''/''" "p \<noteq> ''/''"
  proof (cases "p = ''''")
    case False
    then have "last p = CHR ''/''"
      unfolding p_def using hd_dropWhile [of "\<lambda>c. c \<noteq> CHR ''/''" "rev d"] by (simp add: last_rev)
    with False have "p = butlast p @ ''/''" by (metis append_butlast_last_id)
    with that show thesis by blast
  qed (use that in blast)
  then show ?thesis
  proof cases
    case 1
    then have *: "pathDir d = ''.''" by (simp add: pd pathClean_def)
    with assms show ?thesis by (simp add: upMeasure_def)
  next
    case 2
    then have *: "pathDir d = ''/''" by (simp add: pd pathClean_def hasPrefix_def joinWith_def)
    with assms d 2 show ?thesis by (cases r) (auto simp: upMeasure_def)
  next
    case 3
    then have "d \<noteq> ''.''" using d by (cases q) auto
    moreover have "length p \<le> length d" using d by simp
    ultimately show ?thesis using pathClean_short [OF 3] unfolding pd upMeasure_def by auto
  qed
qed

function findRootFrom :: "string \<Rightarrow> string res prog" where
  \<open>findRootFrom dir = Do (Stat (pathJoin [dir, ''go.mod''])) (\<lambda>a.
     if aErr a = None then Ret (Inr dir)
     else if pathDir dir = dir then fail (Errorf (''go.mod not found '' @ em_dash @ '' run `certs issue` from inside the sdk-ops repository'') [])
     else findRootFrom (pathDir dir))\<close>
  by auto
termination by (relation "measure upMeasure") (auto intro: pathDir_shorter)

declare findRootFrom.simps [simp del]

definition findRepoRoot :: "string res prog" where
  "findRepoRoot = tryP id (askP Getwd) (\<lambda>a. findRootFrom (aOut a))"

definition crossCompileWorker :: "string res prog" where
  \<open>crossCompileWorker =
     tryP id findRepoRoot (\<lambda>root.
     tryP (Wrapf ''cross-compile worker: %w'' []) (askP (LocalRun [''GOOS=linux'', ''GOARCH=amd64'', ''CGO_ENABLED=0''] root ''go''
            [''build'', ''-trimpath'', ''-o'', ''/dev/stdout'', ''./cmd/sdk-ops/''])) (\<lambda>b.
     tryP id (askP (MkTemp '''')) (\<lambda>t.
     Do (OpenWrite (aOut t) (aOut b)) (\<lambda>w. case aErr w of
       None \<Rightarrow> Ret (Inr (aOut t))
     | Some m \<Rightarrow> Do (RemoveFile (aOut t)) (\<lambda>_. fail (Ext m))))))\<close>

text \<open>The configuration as \<open>json.MarshalIndent\<close> prints it.\<close>

definition jsonField :: "string \<Rightarrow> string \<Rightarrow> string" where
  "jsonField k v = ''  '' @ jsonStr k @ '': '' @ v"

definition jsonLines :: "string list \<Rightarrow> string" where
  "jsonLines xs = joinWith ('','' @ [CHR 0x0A]) xs"

definition configJSON :: "certSyncConfig \<Rightarrow> string" where
  "configJSON cfg = (let nl = [CHR 0x0A]; ss = csServices cfg in
     ''{'' @ nl @ jsonLines [jsonField ''domain'' (jsonStr (csDomain cfg)), jsonField ''store'' (jsonStr (csStore cfg)),
       jsonField ''acme_json'' (jsonStr (csACMEJSON cfg)),
       jsonField ''services'' (if ss = [] then ''null''
         else ''['' @ nl @ jsonLines (map (\<lambda>s. ''    '' @ jsonStr s) ss) @ nl @ ''  ]'')] @ nl @ ''}'')"

definition certConfigOf :: "string \<Rightarrow> string \<Rightarrow> certSyncConfig" where
  "certConfigOf domain services = \<lparr>csDomain = domain, csStore = ''/etc/sdk-ops/certs/'' @ domain,
     csACMEJSON = ''/opt/traefik/acme.json'', csServices = splitCertServices services\<rparr>"

definition writeConfig_script :: "string \<Rightarrow> string \<Rightarrow> script" where
  \<open>writeConfig_script domain services = (let cfg = certConfigOf domain services in Raw (
     ''sudo mkdir -p '' @ csStore cfg @ [CHR 0x0A] @ ''sudo tee /etc/sdk-ops/certs/'' @ domain @ ''.json > /dev/null << 'CFGEOF'
'' @ configJSON cfg @ ''
CFGEOF
'' @
     ''sudo chmod 600 /etc/sdk-ops/certs/'' @ domain @ ''.json
''))\<close>

definition unitsFormat :: string where
  \<open>unitsFormat =
''
sudo tee /etc/traefik/conf.d/acme-%s.yml > /dev/null << 'ROUTEREOF'
%sROUTEREOF
sudo tee /etc/systemd/system/sdk-ops-certs.service > /dev/null << 'SERVICEEOF'
[Unit]
Description=sdk-ops Let's Encrypt cert sync (Traefik acme.json)

[Service]
Type=oneshot
User=root
ExecStart=/opt/sdk-ops/certs/sdk-ops certs sync --all
SERVICEEOF
sudo tee /etc/systemd/system/sdk-ops-certs.timer > /dev/null << 'TIMEREOF'
[Unit]
Description=sdk-ops cert sync timer (daily)

[Timer]
OnCalendar=*-*-* 04:17:00
Persistent=true

[Install]
WantedBy=timers.target
TIMEREOF
sudo systemctl daemon-reload
sudo systemctl enable --now sdk-ops-certs.timer 2>/dev/null
echo "units + traefik router installed"
''\<close>

primrec awaitCert :: "nat \<Rightarrow> conn \<Rightarrow> string \<Rightarrow> unit prog" where
  "awaitCert 0 c domain = Ret ()"
| "awaitCert (Suc n) c domain =
     bind (execP c (Raw ''sudo systemctl start sdk-ops-certs.service 2>&1 || true'')) (\<lambda>_.
     bind (sshRun c (Fmt ''test -f /etc/sdk-ops/certs/%s/cert.pem && echo yes || echo no'' [Str domain])) (\<lambda>(has, _).
     if containsStr has ''yes'' then Ret () else bind (sleepP 10) (\<lambda>_. awaitCert n c domain)))"

definition certsIssue :: "string \<Rightarrow> infraFlags \<Rightarrow> string \<Rightarrow> string \<Rightarrow> unit res prog" where
  \<open>certsIssue node f domain services =
     (if \<not> certDomainRe domain then fail (Errorf ''invalid --domain %q'' [Str domain])
      else certsNode node f (\<lambda>c.
        tryP id crossCompileWorker (\<lambda>binPath. deferReq (RemoveFile binPath) (
        tryP (Wrapf ''read worker binary: %w'' []) (readFile (pathClean binPath)) (\<lambda>bin.
        bind (sshRunWithStdin c (Raw ''sudo mkdir -p /opt/sdk-ops/certs && sudo tee /opt/sdk-ops/certs/sdk-ops > /dev/null && sudo chmod 0750 /opt/sdk-ops/certs/sdk-ops'') bin) (\<lambda>(out, e). case e of
          Some e' \<Rightarrow> fail (Wrapf ''upload worker: %w
%s'' [Str out] e')
        | None \<Rightarrow>
          tryP id (runU c (writeConfig_script domain services) (wrapO ''write config: %w
%s'' [])) (\<lambda>_.
          tryP id (runU c (Fmt unitsFormat [Str domain, Str (certResolverRouter domain)]) (wrapO ''install units: %w
%s'' [])) (\<lambda>_.
          bind (awaitCert 12 c domain) (\<lambda>_.
          bind (execP c (Raw ''tail -3 /var/log/sdk-ops-certs.log 2>/dev/null'')) (\<lambda>_.
          tryP id (CertRenewStatus c domain) (\<lambda>_. okP)))))))))))\<close>

primrec refreshBash :: "string \<Rightarrow> string list \<Rightarrow> string" where
  "refreshBash domain [] = []"
| \<open>refreshBash domain (s # ss) =
     (if s = ''nats'' then ''if [ -d /opt/sdk-ops/nats/certs ]; then
'' @ ''  cp '' @ ''/etc/sdk-ops/certs/'' @ domain @ ''/fullchain.pem /opt/sdk-ops/nats/certs/server.pem
'' @ ''  cp '' @ ''/etc/sdk-ops/certs/'' @ domain @ ''/privkey.pem /opt/sdk-ops/nats/certs/server.key
'' @
        ''  for c in $(sudo docker ps -q --filter name=nats 2>/dev/null); do sudo docker kill -s HUP "$c" 2>/dev/null || true; done
'' @ ''fi
''
      else if s = ''traefik'' then ''sudo mkdir -p /opt/traefik/certs/'' @ domain @ [CHR 0x0A] @ ''sudo cp /etc/sdk-ops/certs/'' @ domain @ ''/fullchain.pem /opt/traefik/certs/'' @ domain @ ''/fullchain.pem
'' @
        ''sudo cp /etc/sdk-ops/certs/'' @ domain @ ''/privkey.pem /opt/traefik/certs/'' @ domain @ ''/privkey.pem
'' @ ''sudo tee /etc/traefik/conf.d/tls-'' @ certSlug domain @ ''.yml > /dev/null << 'TLSEOF'
'' @
        ''tls:
  certificates:
    - certFile: /opt/traefik/certs/'' @ domain @ ''/fullchain.pem
      keyFile: /opt/traefik/certs/'' @ domain @ ''/privkey.pem
'' @ ''TLSEOF
''
      else []) @ refreshBash domain ss\<close>

definition import_script :: "string \<Rightarrow> string \<Rightarrow> string \<Rightarrow> string \<Rightarrow> script" where
  \<open>import_script domain cert k services = (let store = ''/etc/sdk-ops/certs/'' @ domain in Raw (
     ''sudo mkdir -p '' @ store @ [CHR 0x0A] @ ''sudo tee '' @ store @ ''/fullchain.pem > /dev/null << 'CERTEOF'
'' @ cert @ ''
CERTEOF
'' @ ''sudo tee '' @ store @ ''/privkey.pem > /dev/null << 'KEYEOF'
'' @ k @ ''
KEYEOF
'' @
     ''sudo cp '' @ store @ ''/fullchain.pem '' @ store @ ''/cert.pem
'' @ ''sudo chmod 600 '' @ store @ ''/privkey.pem
'' @
     refreshBash domain (splitCertServices services)))\<close>

definition certsImport :: "string \<Rightarrow> infraFlags \<Rightarrow> string \<Rightarrow> string \<Rightarrow> string \<Rightarrow> string \<Rightarrow> unit res prog" where
  \<open>certsImport node f domain certFile keyPath services =
     (if \<not> certDomainRe domain then fail (Errorf ''invalid --domain %q'' [Str domain])
      else tryP (Wrapf ''read --cert-file: %w'' []) (readFile (pathClean certFile)) (\<lambda>cert.
           tryP (Wrapf ''read --key-file: %w'' []) (readFile (pathClean keyPath)) (\<lambda>k.
           certsNode node f (\<lambda>c. runU c (import_script domain cert k services) (wrapO ''import cert: %w
%s'' [])))))\<close>

definition certsStatus :: "string \<Rightarrow> infraFlags \<Rightarrow> string \<Rightarrow> unit res prog" where
  "certsStatus node f domain = certsNode node f (\<lambda>c. tryP id (CertRenewStatus c domain) (\<lambda>_. okP))"

definition certsLogs :: "string \<Rightarrow> infraFlags \<Rightarrow> int \<Rightarrow> unit res prog" where
  \<open>certsLogs node f n = certsNode node f (\<lambda>c. runU c (Fmt ''sudo tail -n %d /var/log/sdk-ops-certs.log 2>/dev/null || echo "no log"'' [Num n]) (\<lambda>_ e. e))\<close>

definition certsRun :: "string \<Rightarrow> infraFlags \<Rightarrow> unit res prog" where
  \<open>certsRun node f = certsNode node f (\<lambda>c. runU c (Raw ''sudo systemctl start sdk-ops-certs.service 2>&1; tail -5 /var/log/sdk-ops-certs.log 2>/dev/null'') (\<lambda>_ e. e))\<close>

text \<open>The domain to remove is not checked.\<close>

definition removeDomain_script :: "string \<Rightarrow> script" where
  \<open>removeDomain_script d = Raw (''sudo rm -f /etc/sdk-ops/certs/'' @ d @ ''.json
'' @ ''sudo rm -f /etc/traefik/conf.d/acme-'' @ d @ ''.yml
'' @ ''sudo rm -f /etc/traefik/conf.d/tls-'' @ certSlug d @ ''.yml
'' @
     ''sudo rm -f /etc/traefik/conf.d/'' @ certSlug d @ ''.yml
'' @ ''sudo rm -rf /etc/sdk-ops/certs/'' @ d @ [CHR 0x0A] @ ''sudo rm -rf /opt/traefik/certs/'' @ d @ [CHR 0x0A] @ (''echo 'domain removed'' @ [CHR 0x27]))\<close>

definition certsRemove :: "string \<Rightarrow> infraFlags \<Rightarrow> string \<Rightarrow> unit res prog" where
  \<open>certsRemove node f domain = certsNode node f (\<lambda>c.
     if domain \<noteq> '''' then runU c (removeDomain_script domain) (wrapO ''remove domain: %w
%s'' []) else RemoveCertRenew c)\<close>

end
