(* ===== verification/OpsServer.thy ===== *)
theory OpsServer imports DeployRun DeployBuild Databases InfraInit FirewallCommands "HOL-Library.Word" begin

text \<open>
  The library interface of the program (\<open>ops/server.go\<close>): a \<open>Server\<close> keeps its configuration
  and its SSH session between calls, and a \<open>ClusterClient\<close> runs kubectl over it. A method is a
  program that returns its result with the new state of the server. The creation of managed
  clusters, load balancers and DNS records, which only hand on to the provider, is not modelled;
  nor is the option to skip the check of the host key.
\<close>

section \<open>The state\<close>

record serverConfig =
  seHost :: string
  seUser :: string
  seSSHKey :: string
  seSSHPort :: int
  seMode :: string
  seCrowdSec :: bool
  seMonitor :: bool
  seLockRoot :: bool
  seHardSSHPort :: int
  seKubeconfig :: string
  seContext :: string
  seMergeKube :: bool
  seProvider :: "provider option"

record server =
  srCfg :: serverConfig
  srConn :: "conn option"

type_synonym 'a serverOp = "server \<Rightarrow> ('a res \<times> server) prog"

definition newServer :: "serverConfig \<Rightarrow> server" where
  "newServer cfg =
     (let cfg1 = (if seSSHPort cfg = 0 then cfg\<lparr>seSSHPort := 22\<rparr> else cfg);
          cfg2 = (if seUser cfg1 = '''' then cfg1\<lparr>seUser := ''root''\<rparr> else cfg1)
      in \<lparr>srCfg = cfg2, srConn = None\<rparr>)"

definition serverCreateVPS :: "vpsConfig \<Rightarrow> vps serverOp" where
  \<open>serverCreateVPS create s = (case seProvider (srCfg s) of
     None \<Rightarrow> Ret (Inl (Errorf ''no provider configured'' []), s)
   | Some p \<Rightarrow> Do (CreateVPS p create) (\<lambda>a. case aErr a of
       Some m \<Rightarrow> Ret (Inl (Wrapf ''create vps: %w'' [] (Ext m)), s)
     | None \<Rightarrow> (case aVps a of [] \<Rightarrow> Ret (Inl (Panic ''nil VPS''), s)
         | v # _ \<Rightarrow> Ret (Inr v, s\<lparr>srCfg := (srCfg s)\<lparr>seHost := vIP v\<rparr>\<rparr>))))\<close>

text \<open>The provider is asked to delete the server whose identifier is its address.\<close>

definition serverDestroy :: "unit serverOp" where
  \<open>serverDestroy s = (case seProvider (srCfg s) of
     None \<Rightarrow> Ret (Inl (Errorf ''no provider or host to destroy'' []), s)
   | Some p \<Rightarrow> if seHost (srCfg s) = '''' then Ret (Inl (Errorf ''no provider or host to destroy'' []), s)
       else bind (callP (DeleteVPS p (seHost (srCfg s)))) (\<lambda>r. Ret (r, s)))\<close>

section \<open>The session\<close>

definition serverTarget :: "server \<Rightarrow> conn" where
  "serverTarget s = \<lparr>cHost = seHost (srCfg s), cUser = seUser (srCfg s), cPort = seSSHPort (srCfg s), cKey = seSSHKey (srCfg s)\<rparr>"

definition serverConnect :: "conn serverOp" where
  \<open>serverConnect s = (case srConn s of
     Some c \<Rightarrow> Ret (Inr c, s)
   | None \<Rightarrow> bind (connectSSH (serverTarget s)) (\<lambda>r. case r of
       Inl e \<Rightarrow> Ret (Inl (Wrapf ''ssh connect: %w'' [] e), s)
     | Inr c \<Rightarrow> Ret (Inr c, s\<lparr>srConn := Some c\<rparr>)))\<close>

definition serverClose :: "unit serverOp" where
  "serverClose s = (case srConn s of None \<Rightarrow> Ret (Inr (), s) | Some c \<Rightarrow> bind (callP (Close c)) (\<lambda>r. Ret (r, s)))"

text \<open>The methods connect, work, and close the session they used; the state keeps it.\<close>

definition serverSession :: "(goerr \<Rightarrow> 'r) \<Rightarrow> (conn \<Rightarrow> 'r prog) \<Rightarrow> server \<Rightarrow> ('r \<times> server) prog" where
  "serverSession onErr body s = bind (serverConnect s) (\<lambda>(r, s'). case r of
     Inl e \<Rightarrow> Ret (onErr e, s')
   | Inr c \<Rightarrow> bind (deferClose c (body c)) (\<lambda>x. Ret (x, s')))"

section \<open>Provisioning\<close>

definition serverHardConfig :: "serverConfig \<Rightarrow> hardConfig" where
  "serverHardConfig cfg =
     (let h = hardDefaultConfig\<lparr>hcUser := (if seUser cfg \<noteq> ''root'' then seUser cfg else hcUser hardDefaultConfig),
                 hcEnableMonitor := seMonitor cfg, hcLockRoot := seLockRoot cfg\<rparr>
      in if seHardSSHPort cfg > 0 then h\<lparr>hcSSHPort := seHardSSHPort cfg\<rparr> else h)"

primrec serverReconnect :: "nat \<Rightarrow> conn \<Rightarrow> conn res prog" where
  "serverReconnect 0 c = fail (Panic ''no attempt left'')"
| "serverReconnect (Suc n) c = bind (connectSSH c) (\<lambda>r. case r of
     Inr c' \<Rightarrow> Ret (Inr c')
   | Inl e \<Rightarrow> if n = 0 then fail (Wrapf ''reconnect after hardening: %w'' [] e)
             else bind (sleepP 3) (\<lambda>_. serverReconnect n c))"

definition serverHarden :: "conn \<Rightarrow> unit serverOp" where
  "serverHarden c s =
     (let h = serverHardConfig (srCfg s);
          c' = (serverTarget s)\<lparr>cUser := hcUser h, cPort := (if MigrateSSH h then hcSSHPort h else seSSHPort (srCfg s))\<rparr>
      in bind (applyHardening c h) (\<lambda>_.
         Do (Close c) (\<lambda>_.
         bind (serverReconnect 10 c') (\<lambda>r. case r of
           Inl e \<Rightarrow> Ret (Inl e, s\<lparr>srConn := None\<rparr>)
         | Inr d \<Rightarrow> Ret (Inr (), s\<lparr>srConn := Some d\<rparr>)))))"

definition crowdSecScript :: string where
  \<open>crowdSecScript =
''#!/bin/bash
set -euo pipefail
if command -v cscli &>/dev/null; then
    echo "CrowdSec already installed"
    exit 0
fi
curl -fsSL https://install.crowdsec.net | sh
systemctl enable crowdsec
systemctl start crowdsec
echo "CrowdSec installed"
''\<close>

definition installCrowdSec :: "conn \<Rightarrow> unit res prog" where
  \<open>installCrowdSec c = runU c (Raw crowdSecScript) (wrapO ''crowdsec install failed: %w
output: %s'' [])\<close>

definition serverK3sConfig :: "serverConfig \<Rightarrow> installConfig" where
  "serverK3sConfig cfg = (DefaultInstallConfig (seHost cfg))\<lparr>icLocalPath := seKubeconfig cfg,
     icContext := seContext cfg, icMerge := seMergeKube cfg\<rparr>"

definition installRuntime :: "conn \<Rightarrow> serverConfig \<Rightarrow> unit res prog" where
  "installRuntime c cfg =
     tryP id (if seCrowdSec cfg then installCrowdSec c else okP) (\<lambda>_.
     tryP id (if seMode cfg = ''docker'' \<or> seMode cfg = ''k3s'' then dockerInstall c else okP) (\<lambda>_.
     tryP id (if seMode cfg = ''k3s'' then k3sInstall c (serverK3sConfig cfg) else okP) (\<lambda>_. okP)))"

definition directories_script :: script where
  \<open>directories_script = Raw ''mkdir -p /opt/sdk-ops/services /opt/sdk-ops/backups /opt/sdk-ops/logs && echo "sdk-ops-init" > /opt/sdk-ops/.version''\<close>

definition serverProvision :: "unit serverOp" where
  "serverProvision s = bind (serverConnect s) (\<lambda>(r, s1). case r of
     Inl e \<Rightarrow> Ret (Inl e, s1)
   | Inr c \<Rightarrow> bind (serverHarden c s1) (\<lambda>(r, s2). case r of
       Inl e \<Rightarrow> Ret (Inl e, s2)
     | Inr _ \<Rightarrow> (case srConn s2 of None \<Rightarrow> Ret (Inl (Panic ''nil session''), s2)
         | Some d \<Rightarrow> bind (installRuntime d (srCfg s2)) (\<lambda>r. case r of
             Inl e \<Rightarrow> Ret (Inl e, s2)
           | Inr _ \<Rightarrow> bind (execP d directories_script) (\<lambda>_. Ret (Inr (), s2))))))"

section \<open>Status and deployment\<close>

definition orEmpty :: "string res \<Rightarrow> string" where
  "orEmpty r = (case r of Inl e \<Rightarrow> '''' | Inr s \<Rightarrow> s)"

definition serverStatus :: "string serverOp" where
  "serverStatus = serverSession Inl (\<lambda>c.
     tryP id (runE c (Raw sysInfo) (wrapE ''system info: %w'' [])) (\<lambda>out.
     bind (hardeningCheck c) (\<lambda>h. bind (dockerCheck c) (\<lambda>d. bind (k3sCheck c) (\<lambda>k.
     Ret (Inr (out @ orEmpty h @ orEmpty d @ orEmpty k)))))))"

definition serverDeploy :: "string \<Rightarrow> deployResult serverOp" where
  "serverDeploy dir = serverSession Inl (\<lambda>c.
     UploadAndDeploy c \<lparr>ucService = pathBase dir, ucSource = dir, ucFiles = [], ucExclude = []\<rparr>)"

definition pushAfterUpload :: "conn \<Rightarrow> string \<Rightarrow> deployResult \<Rightarrow> deployResult res prog" where
  \<open>pushAfterUpload c name result =
     (let cfg = (runNamed name)\<lparr>rcHealthTimeout := 30\<rparr> in
      tryP id (RunService c cfg) (\<lambda>_.
      bind (HealthCheck c name 30 '''') (\<lambda>h. case h of
        Inr _ \<Rightarrow> Ret (Inr result)
      | Inl e \<Rightarrow> bind (Rollback c name '''') (\<lambda>rb. case rb of
          Inl e2 \<Rightarrow> fail (Wrapf ''health: %v
rollback also failed: %v'' [] e)
        | Inr _ \<Rightarrow> bind (RunService c cfg) (\<lambda>_. fail (Errorf ''health check failed, rolled back'' []))))))\<close>

definition serverDeployPush :: "string \<Rightarrow> string \<Rightarrow> deployResult serverOp" where
  "serverDeployPush dir name = serverSession Inl (\<lambda>c.
     bind DefaultRegistry (\<lambda>reg.
     bind (BuildAndPushImage dir name reg) (\<lambda>_.
     tryP id (UploadAndDeploy c \<lparr>ucService = name, ucSource = dir, ucFiles = [''docker-compose.yml'', ''service.yaml''],
                ucExclude = [''.git'', ''node_modules'', ''.env'']\<rparr>) (\<lambda>result. pushAfterUpload c name result))))"

text \<open>The output comes back even when the command failed.\<close>

type_synonym output_method = "server \<Rightarrow> ((string \<times> goerr option) \<times> server) prog"

definition serverExec :: "string \<Rightarrow> output_method" where
  "serverExec command = serverSession (\<lambda>e. ('''', Some e)) (\<lambda>c. sshRun c (Raw command))"

definition serverBackup :: "string \<Rightarrow> string serverOp" where
  "serverBackup dest = serverSession Inl (\<lambda>c. BackupServices c dest)"

definition serverRestore :: "string \<Rightarrow> unit serverOp" where
  "serverRestore path = serverSession Inl (\<lambda>c. RestoreServices c path)"

section \<open>kubectl\<close>

definition kubectl :: "string \<Rightarrow> output_method" where
  \<open>kubectl args = serverExec (''KUBECONFIG=/etc/rancher/k3s/k3s.yaml kubectl '' @ args)\<close>

definition inNamespace :: "string \<Rightarrow> string" where
  "inNamespace ns = (if ns \<noteq> '''' then ''-n '' @ ns else ''--all-namespaces'')"

datatype kubeList = KPods | KServices | KDeployments | KIngresses | KConfigMaps | KSecrets

primrec kubeResource :: "kubeList \<Rightarrow> string" where
  "kubeResource KPods = ''get pods ''"
| "kubeResource KServices = ''get services ''"
| "kubeResource KDeployments = ''get deployments ''"
| "kubeResource KIngresses = ''get ingress ''"
| "kubeResource KConfigMaps = ''get configmaps ''"
| "kubeResource KSecrets = ''get secrets ''"

definition clusterList :: "kubeList \<Rightarrow> string \<Rightarrow> output_method" where
  "clusterList k ns = kubectl (kubeResource k @ inNamespace ns)"

definition clusterNodes :: "output_method" where
  "clusterNodes = kubectl ''get nodes -o wide''"

definition clusterInfo :: "output_method" where
  "clusterInfo = kubectl ''cluster-info''"

definition clusterVersion :: "output_method" where
  "clusterVersion = kubectl ''version''"

definition clusterTop :: "output_method" where
  "clusterTop s = bind (kubectl ''top nodes'' s) (\<lambda>(nodes, s1).
     bind (kubectl ''top pods --all-namespaces'' s1) (\<lambda>(pods, s2).
     Ret ((fst nodes @ [CHR 0x0A] @ fst pods, None), s2)))"

definition clusterLogs :: "string \<Rightarrow> bool \<Rightarrow> output_method" where
  "clusterLogs pod follow = kubectl (''logs '' @ pod @ (if follow then '' -f'' else ''''))"

definition clusterExec :: "string \<Rightarrow> string list \<Rightarrow> output_method" where
  "clusterExec pod args = kubectl (''exec -it '' @ pod @ '' --'' @ concat (map (\<lambda>a. '' '' @ a) args))"

definition clusterScale :: "string \<Rightarrow> 32 word \<Rightarrow> output_method" where
  "clusterScale res replicas = kubectl (sprintf ''scale --replicas=%d %s'' [Num (sint replicas), Str res])"

definition clusterApply :: "string \<Rightarrow> output_method" where
  "clusterApply file = kubectl (''apply -f '' @ file)"

definition clusterDelete :: "string \<Rightarrow> string \<Rightarrow> output_method" where
  "clusterDelete res name = kubectl (''delete '' @ res @ '' '' @ name)"

definition clusterDescribe :: "string \<Rightarrow> string \<Rightarrow> output_method" where
  "clusterDescribe res name = kubectl (''describe '' @ res @ '' '' @ name)"

section \<open>The session after a method\<close>

text \<open>
  A method on a server without a session dials, works and closes; the closed session stays in
  the state, so the next method works on it and dials nothing.
\<close>

lemma runs_serverSession_fresh:
  assumes "srConn s = None" "runs (serverSession onErr body s) t (r, s')" "aErr (snd (hd t)) = None"
  shows "\<exists>a u x y. t = (Dial (serverTarget s), a) # u @ [(Close (serverTarget s), y)] \<and>
           runs (body (serverTarget s)) u x \<and> r = x \<and> s' = s\<lparr>srConn := Some (serverTarget s)\<rparr>"
  using assms unfolding serverSession_def serverConnect_def connectSSH_def deferClose_def fail_def
  by (auto simp: runs_bind runs_Do split: option.splits)

lemma runs_serverSession_kept:
  assumes "srConn s = Some c" "runs (serverSession onErr body s) t (r, s')"
  shows "\<exists>u x y. t = u @ [(Close c, y)] \<and> runs (body c) u x \<and> r = x \<and> s' = s"
  using assms unfolding serverSession_def serverConnect_def deferClose_def
  by (auto simp: runs_bind runs_Do)

text \<open>Commands one after the other on one server.\<close>

primrec execSeq :: "string list \<Rightarrow> server \<Rightarrow> server prog" where
  "execSeq [] s = Ret s"
| "execSeq (c # cs) s = bind (serverExec c s) (\<lambda>(r, s'). execSeq cs s')"

lemma sshRun_trace: "runs (sshRun c q) t r \<Longrightarrow> \<exists>a. t = [(Exec c q, a)]"
  by (auto simp: sshRun_def runs_Do split: option.splits)

lemma execSeq_kept:
  assumes "srConn s = Some c" "runs (execSeq cs s) t s'"
  shows "map fst t = concat (map (\<lambda>d. [Exec c (Raw d), Close c]) cs) \<and> s' = s"
  using assms
proof (induction cs arbitrary: t)
  case (Cons d ds)
  then obtain u v r s1 where t: "t = u @ v" and u: "runs (serverExec d s) u (r, s1)" and v: "runs (execSeq ds s1) v s'"
    by (auto simp: runs_bind)
  from runs_serverSession_kept [OF Cons.prems(1) u [unfolded serverExec_def]] sshRun_trace
  have "map fst u = [Exec c (Raw d), Close c]" "s1 = s" by fastforce+
  with Cons.IH [OF Cons.prems(1)] t v show ?case by simp
qed simp

text \<open>
  C39: a server dials once, for its first command; the session is closed after that command and
  stays in the state, so every later command is sent over the closed session.
\<close>

lemma commands_on_closed_session:
  assumes "srConn s = None" "runs (execSeq (c # cs) s) t s'" "aErr (snd (hd t)) = None"
  shows "map fst t = [Dial (serverTarget s), Exec (serverTarget s) (Raw c), Close (serverTarget s)]
      @ concat (map (\<lambda>d. [Exec (serverTarget s) (Raw d), Close (serverTarget s)]) cs)
    \<and> srConn s' = Some (serverTarget s)"
proof -
  from assms(2) obtain u v r s1 where t: "t = u @ v" and u: "runs (serverExec c s) u (r, s1)" and v: "runs (execSeq cs s1) v s'"
    by (auto simp: runs_bind)
  have "u \<noteq> []" using u assms(1) by (auto simp: serverExec_def serverSession_def serverConnect_def connectSSH_def)
  with t assms(3) have "aErr (snd (hd u)) = None" by simp
  from runs_serverSession_fresh [OF assms(1) u [unfolded serverExec_def] this] sshRun_trace
  have s1: "map fst u = [Dial (serverTarget s), Exec (serverTarget s) (Raw c), Close (serverTarget s)]"
    "s1 = s\<lparr>srConn := Some (serverTarget s)\<rparr>" by fastforce+
  from execSeq_kept [of s1 "serverTarget s", OF _ v] s1(2) have "map fst v = concat (map (\<lambda>d. [Exec (serverTarget s) (Raw d), Close (serverTarget s)]) cs)"
    "s' = s1" by simp_all
  with s1 t show ?thesis by simp
qed

definition demo_server :: server where
  "demo_server = newServer \<lparr>seHost = ''10.0.0.1'', seUser = '''', seSSHKey = '''', seSSHPort = 0, seMode = ''docker'',
     seCrowdSec = False, seMonitor = False, seLockRoot = False, seHardSSHPort = 0, seKubeconfig = '''', seContext = '''',
     seMergeKube = False, seProvider = None\<rparr>"

definition demo_calls :: trace where
  "demo_calls = [(Dial (serverTarget demo_server), ok_out ''''), (Exec (serverTarget demo_server) (Raw ''uptime''), ok_out ''up''),
     (Close (serverTarget demo_server), ok_out ''''), (Exec (serverTarget demo_server) (Raw ''df''), failed ''session closed''),
     (Close (serverTarget demo_server), failed ''session closed'')]"

lemma demo_calls_run: "runs (execSeq [''uptime'', ''df''] demo_server) demo_calls (demo_server\<lparr>srConn := Some (serverTarget demo_server)\<rparr>)"
  by (simp add: demo_calls_def demo_server_def newServer_def serverExec_def serverSession_def serverConnect_def connectSSH_def
    serverTarget_def sshRun_def deferClose_def ok_out_def failed_def)

lemma commands_on_closed_session_witness:
  "\<exists>t s'. runs (execSeq [''uptime'', ''df''] demo_server) t s' \<and> srConn s' = Some (serverTarget demo_server) \<and>
     t ! 2 = (Close (serverTarget demo_server), ok_out '''') \<and> fst (t ! 3) = Exec (serverTarget demo_server) (Raw ''df'')"
proof (intro exI conjI)
  have "srConn demo_server = None" "aErr (snd (hd demo_calls)) = None"
    by (simp_all add: demo_server_def newServer_def demo_calls_def ok_out_def)
  from commands_on_closed_session [OF this(1) demo_calls_run this(2)]
  show "srConn (demo_server\<lparr>srConn := Some (serverTarget demo_server)\<rparr>) = Some (serverTarget demo_server)" by simp
  show "runs (execSeq [''uptime'', ''df''] demo_server) demo_calls (demo_server\<lparr>srConn := Some (serverTarget demo_server)\<rparr>)"
    by (rule demo_calls_run)
qed (simp_all add: demo_calls_def)

end
