(* ===== verification/Monitor.thy ===== *)
theory Monitor imports Registry Wave GoNet begin

text \<open>
  The health of the nodes: what a node reports about itself (\<open>monitor/stats.go\<close>) and the
  dashboard over all registered nodes (\<open>cmd/sdk-ops/status.go\<close>). The text the dashboard prints
  is not modelled, but for the label of a node and the number of bytes; the percentages of the
  process list are kept as text.
\<close>

section \<open>Statistics of a node\<close>

record nodeStats =
  nsHostname :: string
  nsKernel :: string
  nsUptime :: string
  nsCPU :: string
  nsMemory :: string
  nsDisk :: string
  nsNetIn :: string
  nsNetOut :: string
  nsCPUCores :: int
  nsCPULoad :: string
  nsMemUsed :: string
  nsMemTotal :: string
  nsDiskUsed :: string
  nsDiskSize :: string

definition zeroStats :: nodeStats where
  "zeroStats = \<lparr>nsHostname = '''', nsKernel = '''', nsUptime = '''', nsCPU = '''', nsMemory = '''', nsDisk = '''',
     nsNetIn = '''', nsNetOut = '''', nsCPUCores = 0, nsCPULoad = '''', nsMemUsed = '''', nsMemTotal = '''',
     nsDiskUsed = '''', nsDiskSize = ''''\<rparr>"

record runtimeStatus =
  rtK3sVersion :: string
  rtK3sRunning :: string
  rtDockerVer :: string
  rtDockerOK :: string
  rtPodCount :: string

record nodeProcess =
  npPID :: int
  npCPU :: string
  npMEM :: string
  npCmd :: string
  npUser :: string

text \<open>
  A number of bytes in units of 1024. The quotient of two floats is printed with one digit:
  \<open>float53\<close> rounds to the 53 bits of a float, the division by a power of two is exact, and
  halves are rounded to even.
\<close>

definition roundDiv :: "nat \<Rightarrow> nat \<Rightarrow> nat" where
  "roundDiv a d = (let q = a div d; r = a mod d in if 2 * r > d \<or> (2 * r = d \<and> odd q) then q + 1 else q)"

fun bitLength :: "nat \<Rightarrow> nat" where
  "bitLength n = (if n = 0 then 0 else bitLength (n div 2) + 1)"

declare bitLength.simps [simp del]

definition float53 :: "nat \<Rightarrow> nat" where
  "float53 b = (let k = bitLength b - 53 in if k = 0 then b else roundDiv b (2 ^ k) * 2 ^ k)"

fun unitLoop :: "nat \<Rightarrow> nat \<Rightarrow> nat \<Rightarrow> nat \<times> nat" where
  "unitLoop n dv ex = (if n < 1024 then (dv, ex) else unitLoop (n div 1024) (dv * 1024) (ex + 1))"

declare unitLoop.simps [simp del]

definition formatBytes :: "int \<Rightarrow> string" where
  "formatBytes b =
     (if b < 1024 then sprintf ''%d B'' [Num b]
      else let (dv, ex) = unitLoop (nat b div 1024) 1024 0; t = roundDiv (10 * float53 (nat b)) dv
           in itoa (int (t div 10)) @ ''.'' @ itoa (int (t mod 10)) @ '' '' @ [''KMGTPE'' ! ex] @ ''B'')"

definition setStatPct :: "nodeStats \<Rightarrow> string \<Rightarrow> nodeStats" where
  "setStatPct s val = (case atoi val of None \<Rightarrow> s | Some p \<Rightarrow> s\<lparr>nsMemory := itoa p @ ''%''\<rparr>)"

definition setStatDiskPct :: "nodeStats \<Rightarrow> string \<Rightarrow> nodeStats" where
  "setStatDiskPct s val = (case atoi val of None \<Rightarrow> s | Some p \<Rightarrow> s\<lparr>nsDisk := itoa p @ ''%''\<rparr>)"

definition setStatNet :: "nodeStats \<Rightarrow> string \<Rightarrow> string \<Rightarrow> nodeStats" where
  "setStatNet s key val = (case atoi val of None \<Rightarrow> s
   | Some b \<Rightarrow> if key = ''NET_IN'' then s\<lparr>nsNetIn := formatBytes b\<rparr>
       else if key = ''NET_OUT'' then s\<lparr>nsNetOut := formatBytes b\<rparr> else s)"

definition setStatField :: "nodeStats \<Rightarrow> string \<Rightarrow> string \<Rightarrow> nodeStats" where
  "setStatField s key val =
     (if key = ''HOSTNAME'' then s\<lparr>nsHostname := val\<rparr>
      else if key = ''KERNEL'' then s\<lparr>nsKernel := val\<rparr>
      else if key = ''UPTIME'' then s\<lparr>nsUptime := val\<rparr>
      else if key = ''CPUS'' then s\<lparr>nsCPUCores := atoiVal val\<rparr>
      else if key = ''LOAD'' then s\<lparr>nsCPULoad := val\<rparr>
      else if key = ''MEM_TOTAL'' then s\<lparr>nsMemTotal := val\<rparr>
      else if key = ''MEM_USED'' then s\<lparr>nsMemUsed := val\<rparr>
      else if key = ''MEM_PCT'' then setStatPct s val
      else if key = ''DISK_TOTAL'' then s\<lparr>nsDiskSize := val\<rparr>
      else if key = ''DISK_USED'' then s\<lparr>nsDiskUsed := val\<rparr>
      else if key = ''DISK_PCT'' then setStatDiskPct s val
      else if key = ''NET_IN'' \<or> key = ''NET_OUT'' then setStatNet s key val
      else s)"

text \<open>The \<open>KEY=value\<close> lines of an output, as both parsers walk them.\<close>

definition keyValues :: "string \<Rightarrow> (string \<times> string) list" where
  "keyValues out = List.map_filter (\<lambda>line. case cutAt CHR ''='' (trimSpace line) of
     None \<Rightarrow> None | Some (k, v) \<Rightarrow> Some (trimSpace k, trimSpace v)) (splitOn CHR 0x0A out)"

definition parseStatsOutput :: "string \<Rightarrow> nodeStats" where
  "parseStatsOutput out = foldl (\<lambda>s (k, v). setStatField s k v) zeroStats (keyValues out)"

definition statsScript :: string where
  \<open>statsScript =
''#!/bin/bash
echo "HOSTNAME=$(hostname)"
echo "KERNEL=$(uname -r)"
echo "UPTIME=$(uptime -p | sed 's/up //')"
echo "CPUS=$(nproc)"
echo "LOAD=$(uptime | awk -F'load average:' '{print $2}' | xargs)"
echo "MEM_TOTAL=$(free -h | awk '/^Mem:/ {print $2}')"
echo "MEM_USED=$(free -h | awk '/^Mem:/ {print $3}')"
echo "MEM_PCT=$(free | awk '/^Mem:/ {printf "%.0f", $3/$2 * 100}')"
echo "DISK_TOTAL=$(df -h / | awk 'NR==2 {print $2}')"
echo "DISK_USED=$(df -h / | awk 'NR==2 {print $3}')"
echo "DISK_PCT=$(df -h / | awk 'NR==2 {print $5}' | tr -d '%')"
echo "NET_IN=$(cat /proc/net/dev | awk '/eth0/ {print $2}' || cat /proc/net/dev | awk '/ens/ {print $2}' || echo 0)"
echo "NET_OUT=$(cat /proc/net/dev | awk '/eth0/ {print $10}' || cat /proc/net/dev | awk '/ens/ {print $10}' || echo 0)"
''\<close>

definition GetStats :: "conn \<Rightarrow> nodeStats res prog" where
  \<open>GetStats c = tryP id (runE c (Raw statsScript) (wrapE ''get stats: %w'' [])) (\<lambda>out. Ret (Inr (parseStatsOutput out)))\<close>

definition runtimeScript :: string where
  \<open>runtimeScript =
''
K3S_VER=$(k3s --version 2>/dev/null | head -1 | awk '{print $3}' | sed 's/^v//' || echo "")
K3S_OK=$(systemctl is-active k3s 2>/dev/null || echo "inactive")
DOCKER_VER=$(docker --version 2>/dev/null | awk '{print $3}' | tr -d , || echo "")
DOCKER_OK=$(systemctl is-active docker 2>/dev/null || echo "inactive")
POD_COUNT=$(KUBECONFIG=/etc/rancher/k3s/k3s.yaml kubectl get pods --all-namespaces 2>/dev/null | tail -n +2 | wc -l || echo "0")
echo "K3S_VER=$K3S_VER"
echo "K3S_OK=$K3S_OK"
echo "DOCKER_VER=$DOCKER_VER"
echo "DOCKER_OK=$DOCKER_OK"
echo "POD_COUNT=$POD_COUNT"
''\<close>

definition setRuntimeField :: "runtimeStatus \<Rightarrow> string \<Rightarrow> string \<Rightarrow> runtimeStatus" where
  "setRuntimeField s key val =
     (if key = ''K3S_VER'' then s\<lparr>rtK3sVersion := val\<rparr>
      else if key = ''K3S_OK'' then s\<lparr>rtK3sRunning := val\<rparr>
      else if key = ''DOCKER_VER'' then s\<lparr>rtDockerVer := val\<rparr>
      else if key = ''DOCKER_OK'' then s\<lparr>rtDockerOK := val\<rparr>
      else if key = ''POD_COUNT'' then s\<lparr>rtPodCount := val\<rparr> else s)"

definition parseRuntimeOutput :: "string \<Rightarrow> runtimeStatus" where
  "parseRuntimeOutput out = foldl (\<lambda>s (k, v). setRuntimeField s k v)
     \<lparr>rtK3sVersion = '''', rtK3sRunning = '''', rtDockerVer = '''', rtDockerOK = '''', rtPodCount = ''''\<rparr> (keyValues out)"

definition GetRuntimeStatus :: "conn \<Rightarrow> runtimeStatus prog" where
  "GetRuntimeStatus c = bind (sshRun c (Raw runtimeScript)) (\<lambda>(out, _). Ret (parseRuntimeOutput out))"

text \<open>A line of four fields passes the check of the length and is read at its fifth.\<close>

fun processLine :: "string list \<Rightarrow> nodeProcess option res" where
  "processLine (pid # user # cpu # mem # cmd # _) =
     Inr (Some \<lparr>npPID = atoiVal pid, npCPU = cpu, npMEM = mem, npCmd = take 30 cmd, npUser = user\<rparr>)"
| "processLine [_, _, _, _] = Inl (Panic ''index out of range [4] with length 4'')"
| "processLine _ = Inr None"

primrec processLines :: "string list \<Rightarrow> nodeProcess list res" where
  "processLines [] = Inr []"
| "processLines (l # ls) =
     (let line = trimSpace l in
      if line = '''' then processLines ls
      else (case processLine (splitOn CHR 0x7C line) of
        Inl e \<Rightarrow> Inl e
      | Inr p \<Rightarrow> (case processLines ls of Inl e \<Rightarrow> Inl e
          | Inr ps \<Rightarrow> Inr (case p of None \<Rightarrow> ps | Some x \<Rightarrow> x # ps))))"

definition GetTopProcesses :: "conn \<Rightarrow> int \<Rightarrow> nodeProcess list res prog" where
  \<open>GetTopProcesses c n =
     tryP id (runE c (Fmt (''ps aux --sort=-%%cpu | head -n %d | tail -n +2 | awk '{printf "%%s|%%s|%%s|%%s|%%s'' @ [CHR 0x5C] @ ''n", $2, $1, $3, $4, $11}'' @ [CHR 0x27]) [Num (n + 1)]) (wrapE ''top processes: %w'' [])) (\<lambda>out.
     case processLines (splitOn CHR 0x0A (trimSpace out)) of Inl e \<Rightarrow> fail e | Inr ps \<Rightarrow> Ret (Inr ps))\<close>

section \<open>The dashboard\<close>

record nodeWork =
  nwCfg :: nodeConfig
  nwUser :: string
  nwKey :: string
  nwPort :: int

record statusResult =
  strIP :: string
  strHostname :: string
  strStats :: "nodeStats option"
  strRt :: "runtimeStatus option"
  strServices :: "string list"
  strSvcStatuses :: "string list"
  strAgent :: string
  strErr :: "goerr option"

definition zeroResult :: "string \<Rightarrow> statusResult" where
  "zeroResult ip = \<lparr>strIP = ip, strHostname = '''', strStats = None, strRt = None, strServices = [],
     strSvcStatuses = [], strAgent = '''', strErr = None\<rparr>"

definition orRoot :: "string \<Rightarrow> string" where
  "orRoot u = (if u = '''' then ''root'' else u)"

definition port22 :: "int \<Rightarrow> int" where
  "port22 p = (if p = 0 then 22 else p)"

definition workOf :: "nodeConfig \<Rightarrow> nodeWork" where
  "workOf n = \<lparr>nwCfg = n, nwUser = orRoot (ncUser n), nwKey = ncKey n, nwPort = port22 (ncPort n)\<rparr>"

definition collectStatusNodes :: "nodeConfig list \<Rightarrow> string \<Rightarrow> string \<Rightarrow> string \<Rightarrow> int \<Rightarrow> nodeWork list prog" where
  "collectStatusNodes ns nodeIP user key port =
     (if nodeIP = '''' then Ret (map workOf ns)
      else bind (lookupNode nodeIP) (\<lambda>m.
        let (u, k, p) = (case m of None \<Rightarrow> (user, key, port)
              | Some n \<Rightarrow> (if user = '''' then ncUser n else user, if key = '''' then ncKey n else key,
                           if port = 0 then ncPort n else port))
        in Ret [\<lparr>nwCfg = zeroNode\<lparr>ncIP := nodeIP\<rparr>, nwUser = orRoot u, nwKey = k, nwPort = port22 p\<rparr>]))"

primrec serviceStatuses :: "conn \<Rightarrow> string list \<Rightarrow> string list prog" where
  "serviceStatuses c [] = Ret []"
| "serviceStatuses c (svc # svcs) =
     bind (ServiceStatus c svc) (\<lambda>(s, _).
     bind (serviceStatuses c svcs) (\<lambda>rest.
     Ret ((if containsStr s ''running'' \<or> containsStr s ''type:'' then ''ok'' else ''?'') # rest)))"

definition agent_script :: script where
  \<open>agent_script = Raw (''curl -s --max-time 3 http://localhost:9000/health 2>/dev/null || echo 'unreachable'' @ [CHR 0x27])\<close>

definition agt_script :: script where
  \<open>agt_script = Raw (''curl -s --max-time 3 http://127.0.0.1:44227/system/health 2>/dev/null || echo 'unreachable'' @ [CHR 0x27])\<close>

definition agentHealth :: "conn \<Rightarrow> string prog" where
  "agentHealth c =
     bind (sshRun c agent_script) (\<lambda>(out, _).
     if trimSpace out \<noteq> ''unreachable'' then Ret ''healthy''
     else bind (sshRun c agt_script) (\<lambda>(agt, _). Ret (if trimSpace agt = ''OK'' then ''healthy (agt)'' else ''offline'')))"

definition statusFetchOne :: "nodeWork \<Rightarrow> statusResult prog" where
  \<open>statusFetchOne w =
     (let r = zeroResult (ncIP (nwCfg w));
          t = \<lparr>cHost = ncIP (nwCfg w), cUser = nwUser w, cPort = nwPort w, cKey = nwKey w\<rparr> in
      bind (connectSSH t) (\<lambda>d. case d of
        Inl e \<Rightarrow> Ret (r\<lparr>strErr := Some (Wrapf ''ssh: %w'' [] e)\<rparr>)
      | Inr c \<Rightarrow> deferClose c (
          bind (sshRun c (Raw (''hostname 2>/dev/null | tr -d '
'' @ [CHR 0x27]))) (\<lambda>(h, _).
          let r1 = r\<lparr>strHostname := trimSpace h\<rparr> in
          bind (GetStats c) (\<lambda>g. case g of
            Inl e \<Rightarrow> Ret (r1\<lparr>strErr := Some (Wrapf ''get stats: %w'' [] e)\<rparr>)
          | Inr stats \<Rightarrow>
              bind (GetRuntimeStatus c) (\<lambda>rt.
              bind (ListServices c) (\<lambda>l.
              let services = (case l of Inl e \<Rightarrow> [] | Inr ss \<Rightarrow> ss) in
              bind (serviceStatuses c services) (\<lambda>sts.
              bind (agentHealth c) (\<lambda>agent.
              Ret (r1\<lparr>strStats := Some stats, strRt := Some rt, strServices := services,
                      strSvcStatuses := sts, strAgent := agent\<rparr>))))))))))\<close>

section \<open>Classification\<close>

text \<open>
  The percentages: of the values \<open>parseStatsOutput\<close> can store only integers and the empty
  string reach \<open>strconv.ParseFloat\<close> (\<open>stats_percent\<close> below).
\<close>

definition parsePercent :: "string \<Rightarrow> int" where
  "parsePercent s = (case atoi (trimSpace (trimSuffix s ''%'')) of None \<Rightarrow> 0 | Some v \<Rightarrow> v)"

definition parsePercentStr :: "string \<Rightarrow> int" where
  "parsePercentStr s = (case goFields s of [] \<Rightarrow> 0 | p # _ \<Rightarrow> parsePercent p)"

definition over :: "int \<Rightarrow> nodeStats \<Rightarrow> bool" where
  "over limit s \<longleftrightarrow> parsePercent (nsCPU s) \<ge> limit \<or> parsePercent (nsMemory s) \<ge> limit \<or> parsePercentStr (nsDisk s) \<ge> limit"

text \<open>Whether a node is critical, and whether it is worth a warning.\<close>

definition statusClassifyNode :: "statusResult \<Rightarrow> bool \<times> bool" where
  "statusClassifyNode r =
     (let (crit, warn) = (case strStats r of None \<Rightarrow> (False, False)
            | Some s \<Rightarrow> if over 90 s then (True, False) else if over 70 s then (False, True) else (False, False))
      in (crit \<or> strAgent r = ''offline'', warn))"

definition runtimeLabel :: "runtimeStatus \<Rightarrow> string" where
  "runtimeLabel rt =
     (if rtDockerOK rt = ''yes'' \<and> rtK3sRunning rt = ''yes'' then ''docker+k3s''
      else if rtK3sRunning rt = ''yes'' then ''k3s''
      else if rtDockerOK rt = ''yes'' then ''docker'' else '''')"

record statusCount =
  scServices :: nat
  scHealthy :: nat
  scWarn :: nat
  scCritical :: nat

definition countNode :: "statusCount \<Rightarrow> statusResult \<Rightarrow> statusCount" where
  "countNode n r =
     (let n' = n\<lparr>scServices := scServices n + length (strServices r)\<rparr> in
      if strErr r \<noteq> None then n'\<lparr>scCritical := scCritical n' + 1\<rparr>
      else let (crit, warn) = statusClassifyNode r in
        if crit then n'\<lparr>scCritical := scCritical n' + 1\<rparr>
        else if warn then n'\<lparr>scWarn := scWarn n' + 1\<rparr>
        else n'\<lparr>scHealthy := scHealthy n' + 1\<rparr>)"

definition statusCounts :: "statusResult list \<Rightarrow> statusCount" where
  "statusCounts rs = foldl countNode \<lparr>scServices = 0, scHealthy = 0, scWarn = 0, scCritical = 0\<rparr> rs"

text \<open>
  One goroutine per node, all at once; the channel delivers the results in the order the
  goroutines finish. A critical node makes the program exit with 1.
\<close>

definition statusRunE :: "string \<Rightarrow> string \<Rightarrow> string \<Rightarrow> int \<Rightarrow> unit res prog" where
  \<open>statusRunE nodeIP user key port =
     tryP (Wrapf ''load config: %w'' []) loadNodes (\<lambda>ns.
     bind (collectStatusNodes ns nodeIP user key port) (\<lambda>ws.
     if ws = [] then okP
     else tryP id (waveP (length ws) (map (\<lambda>w. bind (statusFetchOne w) (\<lambda>r. Ret (Inr r))) ws)) (\<lambda>rs.
       bind (mapOrder rs) (\<lambda>rs'.
       if scCritical (statusCounts rs') > 0 then fail (Panic ''exit 1'') else okP))))\<close>

section \<open>What the parser can store\<close>

lemma setStatField_CPU: "nsCPU (setStatField s k v) = nsCPU s"
  by (simp add: setStatField_def setStatPct_def setStatDiskPct_def setStatNet_def split: option.splits)

lemma foldl_keeps: "(\<And>s k v. f (g s k v) = f s) \<Longrightarrow> f (foldl (\<lambda>s (k, v). g s k v) s kvs) = f s"
  by (induction kvs arbitrary: s) auto

lemma parse_CPU: "nsCPU (parseStatsOutput out) = ''''"
  unfolding parseStatsOutput_def by (subst foldl_keeps [of nsCPU, OF setStatField_CPU]) (simp add: zeroStats_def)

definition percentText :: "string \<Rightarrow> bool" where
  "percentText s \<longleftrightarrow> s = '''' \<or> (\<exists>p. s = itoa p @ ''%'' \<and> - (2 ^ 63) \<le> p \<and> p < 2 ^ 63)"

lemma atoi_range: "atoi s = Some p \<Longrightarrow> - (2 ^ 63) \<le> p \<and> p < 2 ^ 63"
  by (auto simp: atoi_def Let_def split: list.splits option.splits if_splits)

lemma percentText_itoa: "atoi v = Some p \<Longrightarrow> percentText (itoa p @ ''%'')"
  unfolding percentText_def using atoi_range by blast

lemma setStatField_other:
  "k \<noteq> ''MEM_PCT'' \<Longrightarrow> nsMemory (setStatField s k v) = nsMemory s"
  "k \<noteq> ''DISK_PCT'' \<Longrightarrow> nsDisk (setStatField s k v) = nsDisk s"
  by (simp_all add: setStatField_def setStatPct_def setStatDiskPct_def setStatNet_def split: option.splits)

lemma setStatField_pct:
  "setStatField s ''MEM_PCT'' v = setStatPct s v" "setStatField s ''DISK_PCT'' v = setStatDiskPct s v"
  by (simp_all add: setStatField_def)

lemma setStatPct_text:
  "percentText (nsMemory s) \<Longrightarrow> percentText (nsMemory (setStatPct s v))"
  "percentText (nsDisk s) \<Longrightarrow> percentText (nsDisk (setStatDiskPct s v))"
  by (auto simp: setStatPct_def setStatDiskPct_def percentText_itoa split: option.splits)

lemma setStatField_percent:
  assumes "percentText (nsMemory s) \<and> percentText (nsDisk s)"
  shows "percentText (nsMemory (setStatField s k v)) \<and> percentText (nsDisk (setStatField s k v))"
proof
  show "percentText (nsMemory (setStatField s k v))"
    using assms setStatPct_text(1) [of s v] by (cases "k = ''MEM_PCT''") (auto simp: setStatField_other setStatField_pct)
  show "percentText (nsDisk (setStatField s k v))"
    using assms setStatPct_text(2) [of s v] by (cases "k = ''DISK_PCT''") (auto simp: setStatField_other setStatField_pct)
qed

lemma stats_percent: "percentText (nsMemory (parseStatsOutput out)) \<and> percentText (nsDisk (parseStatsOutput out))"
proof -
  have "percentText (nsMemory s) \<and> percentText (nsDisk s) \<Longrightarrow>
    percentText (nsMemory (foldl (\<lambda>s (k, v). setStatField s k v) s kvs)) \<and>
    percentText (nsDisk (foldl (\<lambda>s (k, v). setStatField s k v) s kvs))" for s kvs
  proof (induction kvs arbitrary: s)
    case (Cons kv kvs)
    show ?case using Cons.IH [OF setStatField_percent [OF Cons.prems, of "fst kv" "snd kv"]] by (simp add: case_prod_unfold)
  qed simp
  then show ?thesis unfolding parseStatsOutput_def by (simp add: percentText_def zeroStats_def)
qed

section \<open>The unit of a number of bytes\<close>

lemma unitLoop_exact:
  assumes "n = b div dv" "dv = 1024 ^ (ex + 1)" "unitLoop n dv ex = (d, e)" "0 < n"
  shows "d = 1024 ^ (e + 1) \<and> d \<le> b \<and> b < 1024 * d"
  using assms
proof (induction n dv ex rule: unitLoop.induct)
  case (1 n dv ex)
  have dv: "0 < dv" using 1(3) by simp
  show ?case
  proof (cases "n < 1024")
    case True
    then have de: "d = dv" "e = ex" using 1(4) by (auto simp: unitLoop.simps [of n])
    have "dv \<le> b" using 1(2,5) dv by (metis div_less less_irrefl not_le)
    moreover have "b < 1024 * dv" using True 1(2) dv by (simp add: div_less_iff_less_mult mult.commute)
    ultimately show ?thesis using de 1(3) by simp
  next
    case False
    have "n div 1024 = b div (dv * 1024)" using 1(2) by (simp add: div_mult2_eq)
    moreover have "dv * 1024 = 1024 ^ (ex + 1 + 1)" using 1(3) by simp
    moreover have "unitLoop (n div 1024) (dv * 1024) (ex + 1) = (d, e)" using 1(4) False by (simp add: unitLoop.simps [of n])
    moreover have "0 < n div 1024" using False by simp
    ultimately show ?thesis using 1(1) [OF False] by blast
  qed
qed

end
