(* ===== verification/HttpRest.thy ===== *)
theory HttpRest imports GoJson Remote "HOL-Library.Char_ord" "HOL-Library.List_Lexorder" begin

text \<open>
  HTTP as the clients of web services use it: one request with its headers and body, the status
  and the body of the answer, and the value the body is decoded to.
\<close>

section \<open>Requests\<close>

text \<open>
  A request that cannot be built (\<open>aSess\<close>), that fails (\<open>aErr\<close>), or its status (\<open>aPick\<close>) and
  the text of its body. Reading the body may break off: then \<open>aList\<close> holds the error, and the
  text is what came before.
\<close>

record httpAnswer =
  haStatus :: nat
  haBody :: string
  haBroken :: "string option"

definition httpDo :: "(goerr \<Rightarrow> goerr) \<Rightarrow> (goerr \<Rightarrow> goerr) \<Rightarrow> string \<Rightarrow> string \<Rightarrow> (string \<times> string) list \<Rightarrow>
    string \<Rightarrow> httpAnswer res prog" where
  "httpDo built sent meth link hs body = Do (HttpDo meth link hs body) (\<lambda>a.
     case aSess a of Some m \<Rightarrow> fail (built (Ext m))
     | None \<Rightarrow> (case aErr a of Some m \<Rightarrow> fail (sent (Ext m))
       | None \<Rightarrow> Ret (Inr \<lparr>haStatus = aPick a, haBody = aOut a,
           haBroken = (case aList a of [] \<Rightarrow> None | m # ms \<Rightarrow> Some m)\<rparr>)))"

definition readAll :: "httpAnswer \<Rightarrow> string res" where
  "readAll h = (case haBroken h of Some m \<Rightarrow> Inl (Ext m) | None \<Rightarrow> Inr (haBody h))"

definition bodyText :: "json option \<Rightarrow> string" where
  "bodyText body = (case body of None \<Rightarrow> '''' | Some j \<Rightarrow> jsonText j)"

definition boolText :: "bool \<Rightarrow> string" where
  "boolText b = (if b then ''true'' else ''false'')"

text \<open>The decoder of \<open>encoding/json\<close> is a parameter: the Go type and the text give an error or the value.\<close>

type_synonym decoder = "string \<Rightarrow> string \<Rightarrow> string + json"

text \<open>An answer of the status \<open>n\<close>.\<close>

definition http_ok :: "nat \<Rightarrow> string \<Rightarrow> answer" where
  "http_ok n s = (ok_out s)\<lparr>aPick := n\<rparr>"

lemma allreq_httpDo [prog_intros]: "P (HttpDo m link hs b) \<Longrightarrow> allreq P (httpDo w1 w2 m link hs b)"
  by (simp add: httpDo_def split: option.splits)

section \<open>Values of no fixed type\<close>

text \<open>
  How \<open>%v\<close> prints a value decoded into \<open>any\<close>. Every number has become a float: an integer (one
  that a float holds exactly) of seven digits or more is printed with an exponent, without the
  zeros at its end. Maps are printed in the order of their keys.
\<close>

definition dropZeros :: "string \<Rightarrow> string" where
  "dropZeros s = rev (dropWhile (\<lambda>c. c = CHR ''0'') (rev s))"

definition floatText :: "int \<Rightarrow> string" where
  "floatText i = (let s = itoa_nat (nat (abs i)); d = dropZeros s; e = length s - 1 in
     if length s \<le> 6 then itoa i
     else (if i < 0 then ''-'' else '''') @ take 1 d @ (if length d > 1 then ''.'' @ drop 1 d else '''')
       @ ''e+'' @ (if e < 10 then ''0'' else '''') @ itoa_nat e)"

fun goText :: "json \<Rightarrow> string" where
  "goText JNull = ''<nil>''"
| "goText (JBool b) = boolText b"
| "goText (JNum i) = floatText i"
| "goText (JFloat s) = s"
| "goText (JStr s) = s"
| "goText (JArr js) = ''['' @ joinWith '' '' (map goText js) @ '']''"
| "goText (JObj fs) = ''map['' @ joinWith '' '' (map snd (sort_key fst (map (\<lambda>(k, v). (k, k @ '':'' @ goText v)) fs))) @ '']''"

definition fieldText :: "json \<Rightarrow> string \<Rightarrow> string" where
  "fieldText m k = (case jfield k m of JNull \<Rightarrow> '''' | v \<Rightarrow> goText v)"

section \<open>A service with a base address and a header for its key\<close>

record restClient =
  rcBase :: string
  rcAuth :: "string \<times> string"
  rcProject :: int
  rcDec :: decoder

definition restDo :: "restClient \<Rightarrow> string \<Rightarrow> string \<Rightarrow> json option \<Rightarrow> string res prog" where
  "restDo c meth path body =
     tryP id (httpDo (Wrapf ''request: %w'' []) (Wrapf ''do: %w'' []) meth (rcBase c @ path)
         [rcAuth c, (''Content-Type'', ''application/json'')] (bodyText body)) (\<lambda>h.
       case readAll h of Inl e \<Rightarrow> fail (Wrapf ''read: %w'' [] e)
       | Inr resp \<Rightarrow> if haStatus h \<ge> 400 then fail (Errorf ''api error %d: %s'' [Num (int (haStatus h)), Str resp])
           else Ret (Inr resp))"

text \<open>The request, the decoding of its answer, and the errors of both.\<close>

definition restJson :: "restClient \<Rightarrow> (goerr \<Rightarrow> goerr) \<Rightarrow> string \<Rightarrow> string \<Rightarrow> json option \<Rightarrow>
    (string \<Rightarrow> goerr \<Rightarrow> goerr) \<Rightarrow> string \<Rightarrow> json res prog" where
  "restJson c sent meth path body parsed ty =
     tryP sent (restDo c meth path body) (\<lambda>resp. case rcDec c ty resp of
       Inl e \<Rightarrow> fail (parsed resp (Ext e)) | Inr j \<Rightarrow> Ret (Inr j))"

definition parseError :: "string \<Rightarrow> goerr \<Rightarrow> goerr" where
  "parseError resp = Wrapf ''parse: %w'' []"

definition parseErrorBody :: "string \<Rightarrow> string \<Rightarrow> goerr \<Rightarrow> goerr" where
  "parseErrorBody what resp = Wrapf (what @ '': %w
body: %s'') [Str resp]"

section \<open>The packages of the vendors\<close>

text \<open>
  A call of a package that is not part of the repository: its name and arguments (a struct as the
  value of the fields that are set), and an error or the value it returns, field by field. A field
  that is nil reads as its zero value. A nil slice and an empty one are the same argument, and a
  constant of the package is written by its name.
\<close>

definition vendor :: "provider \<Rightarrow> string \<Rightarrow> json list \<Rightarrow> (goerr \<Rightarrow> goerr) \<Rightarrow> json res prog" where
  "vendor p call args w = Do (Vendor p call args) (\<lambda>a.
     case aErr a of Some m \<Rightarrow> fail (w (Ext m)) | None \<Rightarrow> Ret (Inr (aJson a)))"

definition vendorUnit :: "provider \<Rightarrow> string \<Rightarrow> json list \<Rightarrow> (goerr \<Rightarrow> goerr) \<Rightarrow> unit res prog" where
  "vendorUnit p call args w = tryP id (vendor p call args w) (\<lambda>_. okP)"

definition noOptions :: json where
  "noOptions = JObj []"

definition texts :: "string list \<Rightarrow> json" where
  "texts xs = JArr (map JStr xs)"

definition named :: "string \<Rightarrow> json \<Rightarrow> json option" where
  "named k v = Some (JObj [(k, v)])"

definition field :: "json \<Rightarrow> string \<Rightarrow> string" where
  "field j k = jtext (jfield k j)"

definition number :: "json \<Rightarrow> string \<Rightarrow> int" where
  "number j k = jint (jfield k j)"

definition items :: "json \<Rightarrow> string \<Rightarrow> json list" where
  "items j k = jlist (jfield k j)"

section \<open>The types of a provider\<close>

record cloudVPS =
  cvID :: string
  cvName :: string
  cvLabel :: string
  cvIP :: string
  cvIPv6 :: string
  cvStatus :: string
  cvPlan :: string
  cvLocation :: string
  cvTemplate :: string

definition zeroVPS :: cloudVPS where
  "zeroVPS = \<lparr>cvID = '''', cvName = '''', cvLabel = '''', cvIP = '''', cvIPv6 = '''', cvStatus = '''', cvPlan = '''',
     cvLocation = '''', cvTemplate = ''''\<rparr>"

record vpsOrder =
  voLabel :: string
  voPlan :: string
  voLocation :: string
  voTemplate :: string
  voHostname :: string
  voSSHKeyIDs :: "string list"
  voIPv4 :: bool
  voIPv6 :: bool
  voBackups :: bool
  voUser :: string
  voPassword :: string
  voUserData :: string

record k8sOrder =
  koName :: string
  koLabel :: string
  koLocation :: string
  koVersion :: string
  koNodePlan :: string
  koNodeCount :: int
  koAutoScale :: bool
  koMinNodes :: int
  koMaxNodes :: int

record k8sCluster =
  kcID :: string
  kcName :: string
  kcLabel :: string
  kcStatus :: string
  kcLocation :: string
  kcVersion :: string
  kcNodeCount :: int
  kcEndpoint :: string
  kcKubeconfig :: string

definition zeroK8s :: k8sCluster where
  "zeroK8s = \<lparr>kcID = '''', kcName = '''', kcLabel = '''', kcStatus = '''', kcLocation = '''', kcVersion = '''',
     kcNodeCount = 0, kcEndpoint = '''', kcKubeconfig = ''''\<rparr>"

record metalOrder =
  moLabel :: string
  moPlan :: string
  moLocation :: string
  moTemplate :: string
  moHostname :: string
  moSSHKeyIDs :: "string list"
  moPassword :: string
  moUserData :: string
  moIPv4 :: bool
  moIPv6 :: bool
  moBackups :: bool

record bareMetal =
  bmID :: string
  bmName :: string
  bmLabel :: string
  bmIP :: string
  bmStatus :: string
  bmPlan :: string
  bmLocation :: string
  bmTemplate :: string

definition zeroMetal :: bareMetal where
  "zeroMetal = \<lparr>bmID = '''', bmName = '''', bmLabel = '''', bmIP = '''', bmStatus = '''', bmPlan = '''', bmLocation = '''',
     bmTemplate = ''''\<rparr>"

record lbOrder =
  loName :: string
  loLabel :: string
  loLocation :: string
  loPlan :: string
  loVPCID :: string
  loAlgorithm :: string

record loadBalancer =
  lbID :: string
  lbName :: string
  lbLabel :: string
  lbStatus :: string
  lbIP :: string
  lbLocation :: string
  lbPlan :: string

definition zeroLB :: loadBalancer where
  "zeroLB = \<lparr>lbID = '''', lbName = '''', lbLabel = '''', lbStatus = '''', lbIP = '''', lbLocation = '''', lbPlan = ''''\<rparr>"

record dnsZone =
  dzID :: string
  dzName :: string
  dzDNSSec :: bool

record dnsRecord =
  drID :: string
  drType :: string
  drName :: string
  drValue :: string
  drTTL :: int
  drPriority :: int

record k8sAddon =
  kaID :: string
  kaName :: string
  kaSlug :: string
  kaVersion :: string
  kaStatus :: string
  kaInstalled :: bool

record poolOrder =
  poName :: string
  poPlan :: string
  poNodeCount :: int

record nodePool =
  kpID :: string
  kpName :: string
  kpPlan :: string
  kpNodes :: int
  kpStatus :: string

record listenerOrder =
  liPort :: int
  liTargetPort :: int
  liProtocol :: string

record lbListener =
  llID :: string
  llPort :: int
  llTargetPort :: int
  llProtocol :: string

record healthCheck =
  hkProtocol :: string
  hkPort :: int
  hkPath :: string
  hkInterval :: int
  hkTimeout :: int
  hkRetries :: int

record targetOrder =
  toType :: string
  toTargetID :: string
  toTargetPort :: int
  toWeight :: int

record lbTarget =
  ltID :: string
  ltType :: string
  ltTargetID :: string
  ltPort :: int
  ltWeight :: int
  ltStatus :: string

record sshKey =
  skID :: string
  skName :: string
  skFingerprint :: string
  skPublicKey :: string
  skCreated :: string

end
