(* ===== verification/BunnyClient.thy ===== *)
theory BunnyClient imports HttpRest CloudVPS begin

text \<open>
  The client of the Bunny API (\<open>bunny/*.go\<close>): every operation is one HTTP request with the
  key of the account (or of a storage zone or a video library), and what its answer is decoded
  into. A request body is the JSON value of its struct, a decoded answer the JSON value of the
  fields the Go type keeps. The decoder of \<open>encoding/json\<close> is a parameter of the client: the
  Go type and the text give an error or the value. Time is passed as the text it is formatted to.
\<close>

record bunnyClient =
  bcKey :: string
  bcDec :: decoder

section \<open>Requests\<close>

text \<open>A decoder that runs into the broken end of a body reports the read error.\<close>

definition decodeBody :: "bunnyClient \<Rightarrow> string \<Rightarrow> httpAnswer \<Rightarrow> json res" where
  "decodeBody c ty h = (case bcDec c ty (haBody h) of Inr j \<Rightarrow> Inr j
     | Inl e \<Rightarrow> Inl (Ext (case haBroken h of Some m \<Rightarrow> m | None \<Rightarrow> e)))"

text \<open>
  Where the answer goes: nowhere, into a variable of a type, or into a value that is no pointer,
  which the decoder refuses whatever the answer is.
\<close>

datatype dst = NoDst | Into string | NotPointer string

definition decodeInto :: "bunnyClient \<Rightarrow> dst \<Rightarrow> httpAnswer \<Rightarrow> json res" where
  "decodeInto c d h = (case d of NoDst \<Rightarrow> Inr JNull
     | Into ty \<Rightarrow> decodeBody c ty h
     | NotPointer ty \<Rightarrow> (case decodeBody c ''json.RawMessage'' h of Inl e \<Rightarrow> Inl e
         | Inr j \<Rightarrow> Inl (Ext (''json: Unmarshal(non-pointer '' @ ty @ '')''))))"

definition baseURL :: "string \<Rightarrow> string" where
  "baseURL api =
     (if api = ''core'' then ''https://api.bunny.net''
      else if api = ''mc'' then ''https://api.bunny.net/mc''
      else if api = ''logging'' then ''https://logging.bunnycdn.com''
      else if api = ''video'' then ''https://video.bunnycdn.com''
      else if api = ''shield'' then ''https://api.bunny.net/shield''
      else if api = ''storage'' then ''https://storage.bunnycdn.com''
      else ''https://api.bunny.net'')"

definition bunnyHeaders :: "string \<Rightarrow> bool \<Rightarrow> (string \<times> string) list" where
  "bunnyHeaders key hasBody = [(''Accept'', ''application/json'')]
     @ (if key = '''' then [] else [(''AccessKey'', key)])
     @ (if hasBody then [(''Content-Type'', ''application/json'')] else [])"

text \<open>The query of a path is cut off and appended again.\<close>

definition bunnyDo :: "bunnyClient \<Rightarrow> string \<Rightarrow> string \<Rightarrow> string \<Rightarrow> json option \<Rightarrow> dst \<Rightarrow> json res prog" where
  "bunnyDo c meth api path body d =
     (let base = baseURL api;
          query = dropWhile (\<lambda>x. x \<noteq> CHR ''?'') path;
          path = takeWhile (\<lambda>x. x \<noteq> CHR ''?'') path
      in tryP id (httpDo (Wrapf ''bunny: create request: %w'' []) (Wrapf ''bunny: do request: %w'' []) meth
           (base @ path @ query) (bunnyHeaders (bcKey c) (body \<noteq> None)) (bodyText body)) (\<lambda>h.
         if haStatus h < 200 \<or> haStatus h \<ge> 300
         then fail (Errorf ''bunny: api error %d: %s'' [Num (int (haStatus h)), Str (take 4096 (haBody h))])
         else (case decodeInto c d h of
             Inl e \<Rightarrow> fail (Wrapf ''bunny: decode response: %w'' [] e)
           | Inr j \<Rightarrow> Ret (Inr j))))"

text \<open>The video service has a host of its own and may have a key of its own.\<close>

definition streamDo :: "bunnyClient \<Rightarrow> int \<Rightarrow> string \<Rightarrow> string \<Rightarrow> string \<Rightarrow> json option \<Rightarrow> dst \<Rightarrow> json res prog" where
  "streamDo c libID accessKey meth path body d =
     tryP id (httpDo (Wrapf ''stream request: %w'' []) (Wrapf ''stream do: %w'' []) meth
         (sprintf ''https://video.bunnycdn.com/library/%d%s'' [Num libID, Str path])
         (bunnyHeaders (if accessKey \<noteq> '''' then accessKey else bcKey c) (body \<noteq> None)) (bodyText body)) (\<lambda>h.
       if haStatus h < 200 \<or> haStatus h \<ge> 300
       then fail (Errorf ''stream: HTTP %d: %s'' [Num (int (haStatus h)), Str (take 4096 (haBody h))])
       else Ret (decodeInto c d h))"

section \<open>Pull zones\<close>

definition ListPullZones :: "bunnyClient \<Rightarrow> json res prog" where
  \<open>ListPullZones c =
     bunnyDo c ''GET'' ''core'' (''/pullzone'') (None) (Into ''[]PullZone'')\<close>

definition GetPullZone :: "bunnyClient \<Rightarrow> int \<Rightarrow> json res prog" where
  \<open>GetPullZone c zoneID =
     bunnyDo c ''GET'' ''core'' (sprintf ''/pullzone/%d'' [Num zoneID]) (None) (Into ''PullZone'')\<close>

definition CreatePullZone :: "bunnyClient \<Rightarrow> json \<Rightarrow> unit res prog" where
  \<open>CreatePullZone c model =
     tryP id (bunnyDo c ''POST'' ''core'' (''/pullzone'') (Some model) NoDst) (\<lambda>_. okP)\<close>

definition UpdatePullZone :: "bunnyClient \<Rightarrow> int \<Rightarrow> json \<Rightarrow> unit res prog" where
  \<open>UpdatePullZone c zoneID model =
     tryP id (bunnyDo c ''POST'' ''core'' (sprintf ''/pullzone/%d'' [Num zoneID]) (Some model) NoDst) (\<lambda>_. okP)\<close>

definition DeletePullZone :: "bunnyClient \<Rightarrow> int \<Rightarrow> unit res prog" where
  \<open>DeletePullZone c zoneID =
     tryP id (bunnyDo c ''DELETE'' ''core'' (sprintf ''/pullzone/%d'' [Num zoneID]) (None) NoDst) (\<lambda>_. okP)\<close>

definition CountPullZones :: "bunnyClient \<Rightarrow> json res prog" where
  \<open>CountPullZones c =
     tryP id (bunnyDo c ''GET'' ''core'' (''/pullzone/count'') (None) (Into ''PullZoneCount'')) (\<lambda>r. Ret (Inr (jfield ''count'' r)))\<close>

definition AddPullZoneHostname :: "bunnyClient \<Rightarrow> int \<Rightarrow> string \<Rightarrow> unit res prog" where
  \<open>AddPullZoneHostname c zoneID hostname =
     tryP id (bunnyDo c ''POST'' ''core'' (sprintf ''/pullzone/%d/addHostname'' [Num zoneID]) (Some (jobj [(''hostname'', jS hostname)])) NoDst) (\<lambda>_. okP)\<close>

definition RemovePullZoneHostname :: "bunnyClient \<Rightarrow> int \<Rightarrow> string \<Rightarrow> unit res prog" where
  \<open>RemovePullZoneHostname c zoneID hostname =
     tryP id (bunnyDo c ''DELETE'' ''core'' (sprintf ''/pullzone/%d/removeHostname'' [Num zoneID]) (None) (NotPointer ''bunny.RemoveHostnameRequestModel'')) (\<lambda>_. okP)\<close>

definition AddPullZoneCertificate :: "bunnyClient \<Rightarrow> int \<Rightarrow> string \<Rightarrow> string \<Rightarrow> unit res prog" where
  \<open>AddPullZoneCertificate c zoneID cert certKey =
     tryP id (bunnyDo c ''POST'' ''core'' (sprintf ''/pullzone/%d/addCertificate'' [Num zoneID]) (Some (jobj [(''certificate'', jS cert), (''certificateKey'', jS certKey)])) NoDst) (\<lambda>_. okP)\<close>

definition RemovePullZoneCertificate :: "bunnyClient \<Rightarrow> int \<Rightarrow> string \<Rightarrow> unit res prog" where
  \<open>RemovePullZoneCertificate c zoneID hostname =
     tryP id (bunnyDo c ''DELETE'' ''core'' (sprintf ''/pullzone/%d/removeCertificate'' [Num zoneID]) (None) (NotPointer ''bunny.RemoveHostnameRequestModel'')) (\<lambda>_. okP)\<close>

definition AddEdgeRule :: "bunnyClient \<Rightarrow> int \<Rightarrow> json \<Rightarrow> unit res prog" where
  \<open>AddEdgeRule c zoneID model =
     tryP id (bunnyDo c ''POST'' ''core'' (sprintf ''/pullzone/%d/edgerules/addOrUpdate'' [Num zoneID]) (Some model) NoDst) (\<lambda>_. okP)\<close>

definition DeleteEdgeRule :: "bunnyClient \<Rightarrow> int \<Rightarrow> string \<Rightarrow> unit res prog" where
  \<open>DeleteEdgeRule c zoneID ruleID =
     tryP id (bunnyDo c ''DELETE'' ''core'' (sprintf ''/pullzone/%d/edgerules/%s'' [Num zoneID, Str ruleID]) (None) NoDst) (\<lambda>_. okP)\<close>

definition SetEdgeRuleEnabled :: "bunnyClient \<Rightarrow> int \<Rightarrow> string \<Rightarrow> bool \<Rightarrow> unit res prog" where
  \<open>SetEdgeRuleEnabled c zoneID ruleID on =
     tryP id (bunnyDo c ''POST'' ''core'' (sprintf ''/pullzone/%d/edgerules/%s/setEdgeRuleEnabled'' [Num zoneID, Str ruleID]) (Some (jobj [(''enabled'', jB on)])) NoDst) (\<lambda>_. okP)\<close>

definition UpdatePrivateKeyType :: "bunnyClient \<Rightarrow> int \<Rightarrow> string \<Rightarrow> int \<Rightarrow> unit res prog" where
  \<open>UpdatePrivateKeyType c zoneID hostname keyType =
     tryP id (bunnyDo c ''POST'' ''core'' (sprintf ''/pullzone/%d/updatePrivateKeyType'' [Num zoneID]) (Some (jobj [(''hostname'', jS hostname), (''keyType'', jI keyType)])) NoDst) (\<lambda>_. okP)\<close>

definition RequestExternalDnsCertificate :: "bunnyClient \<Rightarrow> string \<Rightarrow> json res prog" where
  \<open>RequestExternalDnsCertificate c hostname =
     bunnyDo c ''POST'' ''core'' (''/pullzone/requestExternalDnsCertificate'') (Some (jobj [(''hostname'', jS hostname)])) (Into ''ExternalDnsCertResponse'')\<close>

definition CompleteExternalDnsCertificate :: "bunnyClient \<Rightarrow> string \<Rightarrow> unit res prog" where
  \<open>CompleteExternalDnsCertificate c hostname =
     tryP id (bunnyDo c ''POST'' ''core'' (''/pullzone/completeExternalDnsCertificate'') (Some (jobj [(''hostname'', jS hostname)])) NoDst) (\<lambda>_. okP)\<close>

definition CheckPullZoneAvailability :: "bunnyClient \<Rightarrow> string \<Rightarrow> json res prog" where
  \<open>CheckPullZoneAvailability c nam =
     tryP id (bunnyDo c ''POST'' ''core'' (''/pullzone/checkavailability'') (Some (jobj [(''name'', jS nam)])) (Into ''ZoneAvailabilityResponse'')) (\<lambda>r. Ret (Inr (jfield ''Available'' r)))\<close>

definition SetForceSSL :: "bunnyClient \<Rightarrow> int \<Rightarrow> string \<Rightarrow> bool \<Rightarrow> unit res prog" where
  \<open>SetForceSSL c zoneID hostname forceSSL =
     tryP id (bunnyDo c ''POST'' ''core'' (sprintf ''/pullzone/%d/setForceSSL'' [Num zoneID]) (Some (jobj [(''hostname'', jS hostname), (''forceSSL'', jB forceSSL)])) NoDst) (\<lambda>_. okP)\<close>

definition AddAllowedReferrer :: "bunnyClient \<Rightarrow> int \<Rightarrow> string \<Rightarrow> string \<Rightarrow> unit res prog" where
  \<open>AddAllowedReferrer c zoneID hostname referrer =
     tryP id (bunnyDo c ''POST'' ''core'' (sprintf ''/pullzone/%d/addAllowedReferrer'' [Num zoneID]) (Some (jobj [(''hostname'', jS hostname), (''referrer'', jS referrer)])) NoDst) (\<lambda>_. okP)\<close>

definition RemoveAllowedReferrer :: "bunnyClient \<Rightarrow> int \<Rightarrow> string \<Rightarrow> string \<Rightarrow> unit res prog" where
  \<open>RemoveAllowedReferrer c zoneID hostname referrer =
     tryP id (bunnyDo c ''POST'' ''core'' (sprintf ''/pullzone/%d/removeAllowedReferrer'' [Num zoneID]) (Some (jobj [(''hostname'', jS hostname), (''referrer'', jS referrer)])) NoDst) (\<lambda>_. okP)\<close>

definition AddBlockedReferrer :: "bunnyClient \<Rightarrow> int \<Rightarrow> string \<Rightarrow> string \<Rightarrow> unit res prog" where
  \<open>AddBlockedReferrer c zoneID hostname referrer =
     tryP id (bunnyDo c ''POST'' ''core'' (sprintf ''/pullzone/%d/addBlockedReferrer'' [Num zoneID]) (Some (jobj [(''hostname'', jS hostname), (''referrer'', jS referrer)])) NoDst) (\<lambda>_. okP)\<close>

definition RemoveBlockedReferrer :: "bunnyClient \<Rightarrow> int \<Rightarrow> string \<Rightarrow> string \<Rightarrow> unit res prog" where
  \<open>RemoveBlockedReferrer c zoneID hostname referrer =
     tryP id (bunnyDo c ''POST'' ''core'' (sprintf ''/pullzone/%d/removeBlockedReferrer'' [Num zoneID]) (Some (jobj [(''hostname'', jS hostname), (''referrer'', jS referrer)])) NoDst) (\<lambda>_. okP)\<close>

definition AddBlockedIP :: "bunnyClient \<Rightarrow> int \<Rightarrow> string \<Rightarrow> unit res prog" where
  \<open>AddBlockedIP c zoneID ip =
     tryP id (bunnyDo c ''POST'' ''core'' (sprintf ''/pullzone/%d/addBlockedIp'' [Num zoneID]) (Some (jobj [(''blockedIp'', jS ip)])) NoDst) (\<lambda>_. okP)\<close>

definition RemoveBlockedIP :: "bunnyClient \<Rightarrow> int \<Rightarrow> string \<Rightarrow> unit res prog" where
  \<open>RemoveBlockedIP c zoneID ip =
     tryP id (bunnyDo c ''POST'' ''core'' (sprintf ''/pullzone/%d/removeBlockedIp'' [Num zoneID]) (Some (jobj [(''blockedIp'', jS ip)])) NoDst) (\<lambda>_. okP)\<close>

section \<open>Storage zones\<close>

definition ListStorageZones :: "bunnyClient \<Rightarrow> json res prog" where
  \<open>ListStorageZones c =
     bunnyDo c ''GET'' ''core'' (''/storagezone'') (None) (Into ''[]StorageZone'')\<close>

definition CreateStorageZone :: "bunnyClient \<Rightarrow> json \<Rightarrow> json res prog" where
  \<open>CreateStorageZone c model =
     bunnyDo c ''POST'' ''core'' (''/storagezone'') (Some model) (Into ''StorageZone'')\<close>

definition GetStorageZone :: "bunnyClient \<Rightarrow> int \<Rightarrow> json res prog" where
  \<open>GetStorageZone c ident =
     bunnyDo c ''GET'' ''core'' (sprintf ''/storagezone/%d'' [Num ident]) (None) (Into ''StorageZone'')\<close>

definition DeleteStorageZone :: "bunnyClient \<Rightarrow> int \<Rightarrow> unit res prog" where
  \<open>DeleteStorageZone c ident =
     tryP id (bunnyDo c ''DELETE'' ''core'' (sprintf ''/storagezone/%d'' [Num ident]) (None) NoDst) (\<lambda>_. okP)\<close>

definition ResetStoragePassword :: "bunnyClient \<Rightarrow> int \<Rightarrow> json res prog" where
  \<open>ResetStoragePassword c ident =
     bunnyDo c ''POST'' ''core'' (sprintf ''/storagezone/%d/resetPassword'' [Num ident]) (None) (Into ''StorageZone'')\<close>

section \<open>DNS\<close>

definition ListDNSZones :: "bunnyClient \<Rightarrow> json res prog" where
  \<open>ListDNSZones c =
     tryP id (bunnyDo c ''GET'' ''core'' (''/dnszone'') (None) (Into ''struct{Items []DNSZone}'')) (\<lambda>r. Ret (Inr (jfield ''Items'' r)))\<close>

definition GetDNSZone :: "bunnyClient \<Rightarrow> int \<Rightarrow> json res prog" where
  \<open>GetDNSZone c zoneID =
     bunnyDo c ''GET'' ''core'' (sprintf ''/dnszone/%d'' [Num zoneID]) (None) (Into ''DNSZone'')\<close>

definition AddDNSZone :: "bunnyClient \<Rightarrow> string \<Rightarrow> unit res prog" where
  \<open>AddDNSZone c domainName =
     tryP id (bunnyDo c ''POST'' ''core'' (''/dnszone'') (Some (jobj [(''domain'', jS domainName)])) NoDst) (\<lambda>_. okP)\<close>

definition DeleteDNSZone :: "bunnyClient \<Rightarrow> int \<Rightarrow> unit res prog" where
  \<open>DeleteDNSZone c zoneID =
     tryP id (bunnyDo c ''DELETE'' ''core'' (sprintf ''/dnszone/%d'' [Num zoneID]) (None) NoDst) (\<lambda>_. okP)\<close>

definition UpdateDNSZone :: "bunnyClient \<Rightarrow> int \<Rightarrow> json \<Rightarrow> unit res prog" where
  \<open>UpdateDNSZone c zoneID model =
     tryP id (bunnyDo c ''POST'' ''core'' (sprintf ''/dnszone/%d'' [Num zoneID]) (Some model) NoDst) (\<lambda>_. okP)\<close>

definition CheckDNSZoneAvailability :: "bunnyClient \<Rightarrow> string \<Rightarrow> json res prog" where
  \<open>CheckDNSZoneAvailability c domainName =
     tryP id (bunnyDo c ''POST'' ''core'' (''/dnszone/checkavailability'') (Some (jobj [(''domain'', jS domainName)])) (Into ''struct{available bool}'')) (\<lambda>r. Ret (Inr (jfield ''available'' r)))\<close>

definition ListDNSRecords :: "bunnyClient \<Rightarrow> int \<Rightarrow> json res prog" where
  \<open>ListDNSRecords c zoneID =
     tryP id (bunnyDo c ''GET'' ''core'' (sprintf ''/dnszone/%d/records'' [Num zoneID]) (None) (Into ''struct{Items []DNSRecord}'')) (\<lambda>r. Ret (Inr (jfield ''Items'' r)))\<close>

definition AddDNSRecord :: "bunnyClient \<Rightarrow> int \<Rightarrow> json \<Rightarrow> json res prog" where
  \<open>AddDNSRecord c zoneID model =
     bunnyDo c ''PUT'' ''core'' (sprintf ''/dnszone/%d/records'' [Num zoneID]) (Some model) (Into ''DNSRecord'')\<close>

definition UpdateDNSRecord :: "bunnyClient \<Rightarrow> int \<Rightarrow> int \<Rightarrow> json \<Rightarrow> unit res prog" where
  \<open>UpdateDNSRecord c zoneID recordID model =
     tryP id (bunnyDo c ''POST'' ''core'' (sprintf ''/dnszone/%d/records/%d'' [Num zoneID, Num recordID]) (Some model) NoDst) (\<lambda>_. okP)\<close>

definition DeleteDNSRecord :: "bunnyClient \<Rightarrow> int \<Rightarrow> int \<Rightarrow> unit res prog" where
  \<open>DeleteDNSRecord c zoneID recordID =
     tryP id (bunnyDo c ''DELETE'' ''core'' (sprintf ''/dnszone/%d/records/%d'' [Num zoneID, Num recordID]) (None) NoDst) (\<lambda>_. okP)\<close>

definition ExportDNSZone :: "bunnyClient \<Rightarrow> int \<Rightarrow> json res prog" where
  \<open>ExportDNSZone c zoneID =
     bunnyDo c ''GET'' ''core'' (sprintf ''/dnszone/%d/export'' [Num zoneID]) (None) (Into ''string'')\<close>

definition ImportDNSRecords :: "bunnyClient \<Rightarrow> int \<Rightarrow> json res prog" where
  \<open>ImportDNSRecords c zoneID =
     bunnyDo c ''POST'' ''core'' (sprintf ''/dnszone/%d/import'' [Num zoneID]) (None) (Into ''DNSZoneImportResult'')\<close>

definition IssueWildcardCert :: "bunnyClient \<Rightarrow> int \<Rightarrow> unit res prog" where
  \<open>IssueWildcardCert c zoneID =
     tryP id (bunnyDo c ''POST'' ''core'' (sprintf ''/dnszone/%d/certificate/issue'' [Num zoneID]) (None) NoDst) (\<lambda>_. okP)\<close>

section \<open>Billing\<close>

definition GetBillingDetails :: "bunnyClient \<Rightarrow> json res prog" where
  \<open>GetBillingDetails c =
     bunnyDo c ''GET'' ''core'' (''/billing'') (None) (Into ''BillingDetails'')\<close>

definition GetBillingSummary :: "bunnyClient \<Rightarrow> json res prog" where
  \<open>GetBillingSummary c =
     bunnyDo c ''GET'' ''core'' (''/billing/summary'') (None) (Into ''[]BillingSummaryItem'')\<close>

definition GetPaymentRequests :: "bunnyClient \<Rightarrow> json res prog" where
  \<open>GetPaymentRequests c =
     bunnyDo c ''GET'' ''core'' (''/billing/payment-requests'') (None) (Into ''[]PaymentRequest'')\<close>

definition GetAffiliateDetails :: "bunnyClient \<Rightarrow> json res prog" where
  \<open>GetAffiliateDetails c =
     bunnyDo c ''GET'' ''core'' (''/billing/affiliate'') (None) (Into ''map[string]any'')\<close>

section \<open>Countries and regions\<close>

definition GetCountryList :: "bunnyClient \<Rightarrow> json res prog" where
  \<open>GetCountryList c =
     bunnyDo c ''GET'' ''core'' (''/country'') (None) (Into ''[]Country'')\<close>

definition GetRegionList :: "bunnyClient \<Rightarrow> json res prog" where
  \<open>GetRegionList c =
     bunnyDo c ''GET'' ''core'' (''/region'') (None) (Into ''[]CDNRegion'')\<close>

definition GetStorageRegions :: "bunnyClient \<Rightarrow> json res prog" where
  \<open>GetStorageRegions c =
     bunnyDo c ''GET'' ''core'' (''/storagezone/regions'') (None) (Into ''[]StorageRegion'')\<close>

definition GetUserAuditLog :: "bunnyClient \<Rightarrow> string \<Rightarrow> json res prog" where
  \<open>GetUserAuditLog c day =
     bunnyDo c ''GET'' ''core'' (sprintf ''/user/audit/%s'' [Str day]) (None) (Into ''UserAuditResponse'')\<close>

section \<open>Shield\<close>

definition ListShieldZoneConfigs :: "bunnyClient \<Rightarrow> json res prog" where
  \<open>ListShieldZoneConfigs c =
     tryP id (bunnyDo c ''GET'' ''shield'' (''/shield-zones'') (None) (Into ''struct{data []ShieldZoneV2}'')) (\<lambda>r. Ret (Inr (jfield ''data'' r)))\<close>

definition GetShieldZoneConfig :: "bunnyClient \<Rightarrow> int \<Rightarrow> json res prog" where
  \<open>GetShieldZoneConfig c ident =
     tryP id (bunnyDo c ''GET'' ''shield'' (sprintf ''/shield-zone/%d'' [Num ident]) (None) (Into ''struct{data ShieldZoneV2}'')) (\<lambda>r. Ret (Inr (jfield ''data'' r)))\<close>

definition GetShieldZoneByPullZone :: "bunnyClient \<Rightarrow> int \<Rightarrow> json res prog" where
  \<open>GetShieldZoneByPullZone c pullZoneID =
     tryP id (bunnyDo c ''GET'' ''shield'' (sprintf ''/shield-zone/get-by-pullzone/%d'' [Num pullZoneID]) (None) (Into ''struct{data ShieldZoneV2}'')) (\<lambda>r. Ret (Inr (jfield ''data'' r)))\<close>

definition GetShieldZonesPullZoneMapping :: "bunnyClient \<Rightarrow> json res prog" where
  \<open>GetShieldZonesPullZoneMapping c =
     tryP id (bunnyDo c ''GET'' ''shield'' (''/shield-zones/pullzone-mapping'') (None) (Into ''GetShieldZonePullzoneMappingResponse'')) (\<lambda>r. Ret (Inr (jfield ''data'' r)))\<close>

definition CreateShieldZoneV2 :: "bunnyClient \<Rightarrow> json \<Rightarrow> json res prog" where
  \<open>CreateShieldZoneV2 c model =
     tryP id (bunnyDo c ''POST'' ''shield'' (''/shield-zone'') (Some model) (Into ''struct{data ShieldZoneV2}'')) (\<lambda>r. Ret (Inr (jfield ''data'' r)))\<close>

definition UpdateShieldZone :: "bunnyClient \<Rightarrow> json \<Rightarrow> json res prog" where
  \<open>UpdateShieldZone c model =
     tryP id (bunnyDo c ''PATCH'' ''shield'' (''/shield-zone'') (Some model) (Into ''struct{data ShieldZoneV2}'')) (\<lambda>r. Ret (Inr (jfield ''data'' r)))\<close>

definition DeleteShieldZone :: "bunnyClient \<Rightarrow> int \<Rightarrow> unit res prog" where
  \<open>DeleteShieldZone c ident =
     tryP id (bunnyDo c ''DELETE'' ''shield'' (sprintf ''/shield-zone/%d'' [Num ident]) (None) NoDst) (\<lambda>_. okP)\<close>

definition GetWAFRules :: "bunnyClient \<Rightarrow> int \<Rightarrow> json res prog" where
  \<open>GetWAFRules c zoneID =
     tryP id (bunnyDo c ''GET'' ''shield'' (sprintf ''/waf/rules/%d'' [Num zoneID]) (None) (Into ''struct{data []WAFRuleV2}'')) (\<lambda>r. Ret (Inr (jfield ''data'' r)))\<close>

definition GetWAFRulesByPlan :: "bunnyClient \<Rightarrow> json res prog" where
  \<open>GetWAFRulesByPlan c =
     tryP id (bunnyDo c ''GET'' ''shield'' (''/waf/rules/plan-segmentation'') (None) (Into ''struct{data []map[string]any}'')) (\<lambda>r. Ret (Inr (jfield ''data'' r)))\<close>

definition GetTriggeredWAFRules :: "bunnyClient \<Rightarrow> int \<Rightarrow> json res prog" where
  \<open>GetTriggeredWAFRules c zoneID =
     tryP id (bunnyDo c ''GET'' ''shield'' (sprintf ''/waf/rules/review-triggered/%d'' [Num zoneID]) (None) (Into ''struct{data []map[string]any}'')) (\<lambda>r. Ret (Inr (jfield ''data'' r)))\<close>

definition UpdateTriggeredWAFRule :: "bunnyClient \<Rightarrow> int \<Rightarrow> string \<Rightarrow> string \<Rightarrow> unit res prog" where
  \<open>UpdateTriggeredWAFRule c zoneID ruleID act =
     tryP id (bunnyDo c ''POST'' ''shield'' (sprintf ''/waf/rules/review-triggered/%d'' [Num zoneID]) (Some (jobj [(''action'', jS act), (''ruleId'', jS ruleID)])) NoDst) (\<lambda>_. okP)\<close>

definition GetTriggeredRuleAIRecommendation :: "bunnyClient \<Rightarrow> int \<Rightarrow> string \<Rightarrow> json res prog" where
  \<open>GetTriggeredRuleAIRecommendation c zoneID ruleID =
     tryP id (bunnyDo c ''GET'' ''shield'' (sprintf ''/waf/rules/review-triggered/ai-recommendation/%d/%s'' [Num zoneID, Str ruleID]) (None) (Into ''struct{data map[string]any}'')) (\<lambda>r. Ret (Inr (jfield ''data'' r)))\<close>

definition GetCustomWAFRules :: "bunnyClient \<Rightarrow> int \<Rightarrow> json res prog" where
  \<open>GetCustomWAFRules c zoneID =
     tryP id (bunnyDo c ''GET'' ''shield'' (sprintf ''/waf/custom-rules/%d'' [Num zoneID]) (None) (Into ''GetCustomWafRulesResponse'')) (\<lambda>r. Ret (Inr (jfield ''data'' r)))\<close>

definition GetCustomWAFRule :: "bunnyClient \<Rightarrow> int \<Rightarrow> json res prog" where
  \<open>GetCustomWAFRule c ruleID =
     tryP id (bunnyDo c ''GET'' ''shield'' (sprintf ''/waf/custom-rule/%d'' [Num ruleID]) (None) (Into ''struct{data CustomWAFRuleV2}'')) (\<lambda>r. Ret (Inr (jfield ''data'' r)))\<close>

definition CreateCustomWAFRuleV2 :: "bunnyClient \<Rightarrow> json \<Rightarrow> json res prog" where
  \<open>CreateCustomWAFRuleV2 c model =
     tryP id (bunnyDo c ''POST'' ''shield'' (''/waf/custom-rule'') (Some model) (Into ''struct{data CustomWAFRuleV2}'')) (\<lambda>r. Ret (Inr (jfield ''data'' r)))\<close>

definition UpdateCustomWAFRule :: "bunnyClient \<Rightarrow> int \<Rightarrow> json \<Rightarrow> json res prog" where
  \<open>UpdateCustomWAFRule c ruleID model =
     tryP id (bunnyDo c ''PUT'' ''shield'' (sprintf ''/waf/custom-rule/%d'' [Num ruleID]) (Some model) (Into ''struct{data CustomWAFRuleV2}'')) (\<lambda>r. Ret (Inr (jfield ''data'' r)))\<close>

definition PatchCustomWAFRule :: "bunnyClient \<Rightarrow> int \<Rightarrow> json \<Rightarrow> json res prog" where
  \<open>PatchCustomWAFRule c ruleID model =
     tryP id (bunnyDo c ''PATCH'' ''shield'' (sprintf ''/waf/custom-rule/%d'' [Num ruleID]) (Some model) (Into ''struct{data CustomWAFRuleV2}'')) (\<lambda>r. Ret (Inr (jfield ''data'' r)))\<close>

definition DeleteCustomWAFRule :: "bunnyClient \<Rightarrow> int \<Rightarrow> unit res prog" where
  \<open>DeleteCustomWAFRule c ruleID =
     tryP id (bunnyDo c ''DELETE'' ''shield'' (sprintf ''/waf/custom-rule/%d'' [Num ruleID]) (None) NoDst) (\<lambda>_. okP)\<close>

definition GetWAFEnumMappings :: "bunnyClient \<Rightarrow> json res prog" where
  \<open>GetWAFEnumMappings c =
     tryP id (bunnyDo c ''GET'' ''shield'' (''/waf/enums'') (None) (Into ''struct{data []map[string]any}'')) (\<lambda>r. Ret (Inr (jfield ''data'' r)))\<close>

definition GetWAFEngineConfig :: "bunnyClient \<Rightarrow> json res prog" where
  \<open>GetWAFEngineConfig c =
     tryP id (bunnyDo c ''GET'' ''shield'' (''/waf/engine-config'') (None) (Into ''struct{data []map[string]any}'')) (\<lambda>r. Ret (Inr (jfield ''data'' r)))\<close>

definition GetRateLimitsForZone :: "bunnyClient \<Rightarrow> int \<Rightarrow> json res prog" where
  \<open>GetRateLimitsForZone c zoneID =
     tryP id (bunnyDo c ''GET'' ''shield'' (sprintf ''/rate-limits/%d'' [Num zoneID]) (None) (Into ''struct{data []RateLimitV2}'')) (\<lambda>r. Ret (Inr (jfield ''data'' r)))\<close>

definition GetRateLimit :: "bunnyClient \<Rightarrow> int \<Rightarrow> json res prog" where
  \<open>GetRateLimit c ident =
     tryP id (bunnyDo c ''GET'' ''shield'' (sprintf ''/rate-limit/%d'' [Num ident]) (None) (Into ''struct{data RateLimitV2}'')) (\<lambda>r. Ret (Inr (jfield ''data'' r)))\<close>

definition CreateRateLimitV2 :: "bunnyClient \<Rightarrow> json \<Rightarrow> json res prog" where
  \<open>CreateRateLimitV2 c model =
     tryP id (bunnyDo c ''POST'' ''shield'' (''/rate-limit'') (Some model) (Into ''struct{data RateLimitV2}'')) (\<lambda>r. Ret (Inr (jfield ''data'' r)))\<close>

definition UpdateRateLimit :: "bunnyClient \<Rightarrow> int \<Rightarrow> json \<Rightarrow> json res prog" where
  \<open>UpdateRateLimit c ident model =
     tryP id (bunnyDo c ''PATCH'' ''shield'' (sprintf ''/rate-limit/%d'' [Num ident]) (Some model) (Into ''struct{data RateLimitV2}'')) (\<lambda>r. Ret (Inr (jfield ''data'' r)))\<close>

definition DeleteRateLimit :: "bunnyClient \<Rightarrow> int \<Rightarrow> unit res prog" where
  \<open>DeleteRateLimit c ident =
     tryP id (bunnyDo c ''DELETE'' ''shield'' (sprintf ''/rate-limit/%d'' [Num ident]) (None) NoDst) (\<lambda>_. okP)\<close>

definition ListAccessLists :: "bunnyClient \<Rightarrow> int \<Rightarrow> json res prog" where
  \<open>ListAccessLists c zoneID =
     tryP id (bunnyDo c ''GET'' ''shield'' (sprintf ''/shield-zone/%d/access-lists'' [Num zoneID]) (None) (Into ''struct{data AccessListDetails}'')) (\<lambda>r. Ret (Inr (jfield ''data'' r)))\<close>

definition CreateCustomAccessList :: "bunnyClient \<Rightarrow> int \<Rightarrow> json \<Rightarrow> json res prog" where
  \<open>CreateCustomAccessList c zoneID model =
     tryP id (bunnyDo c ''POST'' ''shield'' (sprintf ''/shield-zone/%d/access-lists'' [Num zoneID]) (Some model) (Into ''struct{data CustomAccessList}'')) (\<lambda>r. Ret (Inr (jfield ''data'' r)))\<close>

definition GetCustomAccessList :: "bunnyClient \<Rightarrow> int \<Rightarrow> int \<Rightarrow> json res prog" where
  \<open>GetCustomAccessList c zoneID listID =
     tryP id (bunnyDo c ''GET'' ''shield'' (sprintf ''/shield-zone/%d/access-lists/%d'' [Num zoneID, Num listID]) (None) (Into ''struct{data CustomAccessList}'')) (\<lambda>r. Ret (Inr (jfield ''data'' r)))\<close>

definition UpdateCustomAccessList :: "bunnyClient \<Rightarrow> int \<Rightarrow> int \<Rightarrow> json \<Rightarrow> json res prog" where
  \<open>UpdateCustomAccessList c zoneID listID model =
     tryP id (bunnyDo c ''PATCH'' ''shield'' (sprintf ''/shield-zone/%d/access-lists/%d'' [Num zoneID, Num listID]) (Some model) (Into ''struct{data CustomAccessList}'')) (\<lambda>r. Ret (Inr (jfield ''data'' r)))\<close>

definition DeleteCustomAccessList :: "bunnyClient \<Rightarrow> int \<Rightarrow> int \<Rightarrow> unit res prog" where
  \<open>DeleteCustomAccessList c zoneID listID =
     tryP id (bunnyDo c ''DELETE'' ''shield'' (sprintf ''/shield-zone/%d/access-lists/%d'' [Num zoneID, Num listID]) (None) NoDst) (\<lambda>_. okP)\<close>

definition UpdateAccessListConfiguration :: "bunnyClient \<Rightarrow> int \<Rightarrow> int \<Rightarrow> json \<Rightarrow> unit res prog" where
  \<open>UpdateAccessListConfiguration c zoneID cfgID model =
     tryP id (bunnyDo c ''PATCH'' ''shield'' (sprintf ''/shield-zone/%d/access-lists/configurations/%d'' [Num zoneID, Num cfgID]) (Some model) NoDst) (\<lambda>_. okP)\<close>

definition GetAccessListEnums :: "bunnyClient \<Rightarrow> int \<Rightarrow> json res prog" where
  \<open>GetAccessListEnums c zoneID =
     tryP id (bunnyDo c ''GET'' ''shield'' (sprintf ''/shield-zone/%d/access-lists/enums'' [Num zoneID]) (None) (Into ''struct{data []map[string]any}'')) (\<lambda>r. Ret (Inr (jfield ''data'' r)))\<close>

definition GetBotDetectionConfig :: "bunnyClient \<Rightarrow> int \<Rightarrow> json res prog" where
  \<open>GetBotDetectionConfig c zoneID =
     tryP id (bunnyDo c ''GET'' ''shield'' (sprintf ''/shield-zone/%d/bot-detection'' [Num zoneID]) (None) (Into ''struct{data BotDetectionConfigV2}'')) (\<lambda>r. Ret (Inr (jfield ''data'' r)))\<close>

definition UpdateBotDetectionConfig :: "bunnyClient \<Rightarrow> int \<Rightarrow> json \<Rightarrow> unit res prog" where
  \<open>UpdateBotDetectionConfig c zoneID model =
     tryP id (bunnyDo c ''PATCH'' ''shield'' (sprintf ''/shield-zone/%d/bot-detection'' [Num zoneID]) (Some model) NoDst) (\<lambda>_. okP)\<close>

definition ListBotCategorizations :: "bunnyClient \<Rightarrow> int \<Rightarrow> json res prog" where
  \<open>ListBotCategorizations c zoneID =
     tryP id (bunnyDo c ''GET'' ''shield'' (sprintf ''/shield-zone/%d/bot-categorization'' [Num zoneID]) (None) (Into ''struct{data []BotCategorizationGroup}'')) (\<lambda>r. Ret (Inr (jfield ''data'' r)))\<close>

definition SetBotCategorizationAction :: "bunnyClient \<Rightarrow> int \<Rightarrow> int \<Rightarrow> string \<Rightarrow> unit res prog" where
  \<open>SetBotCategorizationAction c zoneID botID act =
     tryP id (bunnyDo c ''PUT'' ''shield'' (sprintf ''/shield-zone/%d/bot-categorization/bots/%d'' [Num zoneID, Num botID]) (Some (jobj [(''action'', jS act)])) NoDst) (\<lambda>_. okP)\<close>

definition SetBotCategoryAction :: "bunnyClient \<Rightarrow> int \<Rightarrow> string \<Rightarrow> string \<Rightarrow> unit res prog" where
  \<open>SetBotCategoryAction c zoneID category act =
     tryP id (bunnyDo c ''PUT'' ''shield'' (sprintf ''/shield-zone/%d/bot-categorization/categories/%s'' [Num zoneID, Str category]) (Some (jobj [(''action'', jS act)])) NoDst) (\<lambda>_. okP)\<close>

definition GetAPIGuardian :: "bunnyClient \<Rightarrow> int \<Rightarrow> json res prog" where
  \<open>GetAPIGuardian c zoneID =
     tryP id (bunnyDo c ''GET'' ''shield'' (sprintf ''/shield-zone/%d/api-guardian'' [Num zoneID]) (None) (Into ''struct{data APIGuardianConfig}'')) (\<lambda>r. Ret (Inr (jfield ''data'' r)))\<close>

definition UpdateAPIGuardian :: "bunnyClient \<Rightarrow> int \<Rightarrow> json \<Rightarrow> unit res prog" where
  \<open>UpdateAPIGuardian c zoneID model =
     tryP id (bunnyDo c ''PATCH'' ''shield'' (sprintf ''/shield-zone/%d/api-guardian'' [Num zoneID]) (Some model) NoDst) (\<lambda>_. okP)\<close>

definition UpdateAPIGuardianEndpoint :: "bunnyClient \<Rightarrow> int \<Rightarrow> int \<Rightarrow> json \<Rightarrow> unit res prog" where
  \<open>UpdateAPIGuardianEndpoint c zoneID endpointID model =
     tryP id (bunnyDo c ''PATCH'' ''shield'' (sprintf ''/shield-zone/%d/api-guardian/endpoint/%d'' [Num zoneID, Num endpointID]) (Some model) NoDst) (\<lambda>_. okP)\<close>

definition UploadOpenAPISpec :: "bunnyClient \<Rightarrow> int \<Rightarrow> string \<Rightarrow> unit res prog" where
  \<open>UploadOpenAPISpec c zoneID specBody =
     tryP id (bunnyDo c ''POST'' ''shield'' (sprintf ''/shield-zone/%d/api-guardian/spec'' [Num zoneID]) (Some (jobj [(''openApiSpec'', jS specBody)])) NoDst) (\<lambda>_. okP)\<close>

definition UpdateOpenAPISpec :: "bunnyClient \<Rightarrow> int \<Rightarrow> string \<Rightarrow> unit res prog" where
  \<open>UpdateOpenAPISpec c zoneID specBody =
     tryP id (bunnyDo c ''PATCH'' ''shield'' (sprintf ''/shield-zone/%d/api-guardian/spec'' [Num zoneID]) (Some (jobj [(''openApiSpec'', jS specBody)])) NoDst) (\<lambda>_. okP)\<close>

definition GetAPIGuardianEnums :: "bunnyClient \<Rightarrow> int \<Rightarrow> json res prog" where
  \<open>GetAPIGuardianEnums c zoneID =
     tryP id (bunnyDo c ''GET'' ''shield'' (sprintf ''/shield-zone/%d/api-guardian/enums'' [Num zoneID]) (None) (Into ''struct{data []map[string]any}'')) (\<lambda>r. Ret (Inr (jfield ''data'' r)))\<close>

definition GetUploadScanning :: "bunnyClient \<Rightarrow> int \<Rightarrow> json res prog" where
  \<open>GetUploadScanning c zoneID =
     tryP id (bunnyDo c ''GET'' ''shield'' (sprintf ''/shield-zone/%d/upload-scanning'' [Num zoneID]) (None) (Into ''struct{data UploadScanningConfig}'')) (\<lambda>r. Ret (Inr (jfield ''data'' r)))\<close>

definition UpdateUploadScanning :: "bunnyClient \<Rightarrow> int \<Rightarrow> json \<Rightarrow> unit res prog" where
  \<open>UpdateUploadScanning c zoneID model =
     tryP id (bunnyDo c ''PATCH'' ''shield'' (sprintf ''/shield-zone/%d/upload-scanning'' [Num zoneID]) (Some model) NoDst) (\<lambda>_. okP)\<close>

definition UploadCustomResponsePage :: "bunnyClient \<Rightarrow> int \<Rightarrow> string \<Rightarrow> string \<Rightarrow> unit res prog" where
  \<open>UploadCustomResponsePage c zoneID pageType body =
     tryP id (bunnyDo c ''PUT'' ''shield'' (sprintf ''/shield-zone/%d/custom-page/%s'' [Num zoneID, Str pageType]) (Some (jobj [(''content'', jS body)])) NoDst) (\<lambda>_. okP)\<close>

definition GetCustomResponsePage :: "bunnyClient \<Rightarrow> int \<Rightarrow> string \<Rightarrow> json res prog" where
  \<open>GetCustomResponsePage c zoneID pageType =
     tryP id (bunnyDo c ''GET'' ''shield'' (sprintf ''/shield-zone/%d/custom-page/%s'' [Num zoneID, Str pageType]) (None) (Into ''struct{data string}'')) (\<lambda>r. Ret (Inr (jfield ''data'' r)))\<close>

definition DeleteCustomResponsePage :: "bunnyClient \<Rightarrow> int \<Rightarrow> string \<Rightarrow> unit res prog" where
  \<open>DeleteCustomResponsePage c zoneID pageType =
     tryP id (bunnyDo c ''DELETE'' ''shield'' (sprintf ''/shield-zone/%d/custom-page/%s'' [Num zoneID, Str pageType]) (None) NoDst) (\<lambda>_. okP)\<close>

definition GetDDoSEnums :: "bunnyClient \<Rightarrow> json res prog" where
  \<open>GetDDoSEnums c =
     tryP id (bunnyDo c ''GET'' ''shield'' (''/ddos/enums'') (None) (Into ''struct{data []map[string]any}'')) (\<lambda>r. Ret (Inr (jfield ''data'' r)))\<close>

definition GetPromotionState :: "bunnyClient \<Rightarrow> json res prog" where
  \<open>GetPromotionState c =
     tryP id (bunnyDo c ''GET'' ''shield'' (''/promo/state'') (None) (Into ''struct{data map[string]any}'')) (\<lambda>r. Ret (Inr (jfield ''data'' r)))\<close>

definition SearchEventLogs :: "bunnyClient \<Rightarrow> int \<Rightarrow> json \<Rightarrow> json res prog" where
  \<open>SearchEventLogs c zoneID model =
     bunnyDo c ''POST'' ''shield'' (sprintf ''/event-logs/%d/search'' [Num zoneID]) (Some model) (Into ''EventLogsSearchResponse'')\<close>

definition ExportEventLogs :: "bunnyClient \<Rightarrow> int \<Rightarrow> json \<Rightarrow> json res prog" where
  \<open>ExportEventLogs c zoneID model =
     tryP id (bunnyDo c ''POST'' ''shield'' (sprintf ''/event-logs/%d/export'' [Num zoneID]) (Some model) (Into ''struct{data string}'')) (\<lambda>r. Ret (Inr (jfield ''data'' r)))\<close>

definition GetShieldZoneMonthlyOverages :: "bunnyClient \<Rightarrow> int \<Rightarrow> json res prog" where
  \<open>GetShieldZoneMonthlyOverages c zoneID =
     tryP id (bunnyDo c ''GET'' ''shield'' (sprintf ''/metrics/overages/%d'' [Num zoneID]) (None) (Into ''struct{data map[string]any}'')) (\<lambda>r. Ret (Inr (jfield ''data'' r)))\<close>

definition GetShieldZoneMetricsOverview :: "bunnyClient \<Rightarrow> int \<Rightarrow> json res prog" where
  \<open>GetShieldZoneMetricsOverview c zoneID =
     tryP id (bunnyDo c ''GET'' ''shield'' (sprintf ''/metrics/overview/%d'' [Num zoneID]) (None) (Into ''struct{data map[string]any}'')) (\<lambda>r. Ret (Inr (jfield ''data'' r)))\<close>

definition GetShieldZoneDetailedMetrics :: "bunnyClient \<Rightarrow> int \<Rightarrow> json res prog" where
  \<open>GetShieldZoneDetailedMetrics c zoneID =
     tryP id (bunnyDo c ''GET'' ''shield'' (sprintf ''/metrics/overview/%d/detailed'' [Num zoneID]) (None) (Into ''struct{data map[string]any}'')) (\<lambda>r. Ret (Inr (jfield ''data'' r)))\<close>

definition GetShieldZoneRateLimitMetrics :: "bunnyClient \<Rightarrow> int \<Rightarrow> json res prog" where
  \<open>GetShieldZoneRateLimitMetrics c zoneID =
     tryP id (bunnyDo c ''GET'' ''shield'' (sprintf ''/metrics/rate-limits/%d'' [Num zoneID]) (None) (Into ''struct{data map[string]any}'')) (\<lambda>r. Ret (Inr (jfield ''data'' r)))\<close>

definition GetRateLimitMetrics :: "bunnyClient \<Rightarrow> int \<Rightarrow> json res prog" where
  \<open>GetRateLimitMetrics c ident =
     tryP id (bunnyDo c ''GET'' ''shield'' (sprintf ''/metrics/rate-limit/%d'' [Num ident]) (None) (Into ''struct{data map[string]any}'')) (\<lambda>r. Ret (Inr (jfield ''data'' r)))\<close>

definition GetWAFRuleMetrics :: "bunnyClient \<Rightarrow> int \<Rightarrow> int \<Rightarrow> json res prog" where
  \<open>GetWAFRuleMetrics c zoneID ruleID =
     tryP id (bunnyDo c ''GET'' ''shield'' (sprintf ''/metrics/shield-zone/%d/waf-rule/%d'' [Num zoneID, Num ruleID]) (None) (Into ''struct{data map[string]any}'')) (\<lambda>r. Ret (Inr (jfield ''data'' r)))\<close>

definition GetShieldZoneBotDetectionMetrics :: "bunnyClient \<Rightarrow> int \<Rightarrow> json res prog" where
  \<open>GetShieldZoneBotDetectionMetrics c zoneID =
     tryP id (bunnyDo c ''GET'' ''shield'' (sprintf ''/metrics/shield-zone/%d/bot-detection'' [Num zoneID]) (None) (Into ''struct{data map[string]any}'')) (\<lambda>r. Ret (Inr (jfield ''data'' r)))\<close>

definition GetShieldZoneUploadScanningMetrics :: "bunnyClient \<Rightarrow> int \<Rightarrow> json res prog" where
  \<open>GetShieldZoneUploadScanningMetrics c zoneID =
     tryP id (bunnyDo c ''GET'' ''shield'' (sprintf ''/metrics/shield-zone/%d/upload-scanning'' [Num zoneID]) (None) (Into ''struct{data map[string]any}'')) (\<lambda>r. Ret (Inr (jfield ''data'' r)))\<close>

definition GetShieldZoneAPIGuardianMetrics :: "bunnyClient \<Rightarrow> int \<Rightarrow> json res prog" where
  \<open>GetShieldZoneAPIGuardianMetrics c zoneID =
     tryP id (bunnyDo c ''GET'' ''shield'' (sprintf ''/metrics/shield-zone/%d/api-guardian'' [Num zoneID]) (None) (Into ''struct{data map[string]any}'')) (\<lambda>r. Ret (Inr (jfield ''data'' r)))\<close>

definition GetAPIGuardianEndpointMetrics :: "bunnyClient \<Rightarrow> int \<Rightarrow> int \<Rightarrow> json res prog" where
  \<open>GetAPIGuardianEndpointMetrics c zoneID endpointID =
     tryP id (bunnyDo c ''GET'' ''shield'' (sprintf ''/metrics/shield-zone/%d/api-guardian/endpoint/%d'' [Num zoneID, Num endpointID]) (None) (Into ''struct{data map[string]any}'')) (\<lambda>r. Ret (Inr (jfield ''data'' r)))\<close>

section \<open>Containers: applications\<close>

definition CreateApp :: "bunnyClient \<Rightarrow> json \<Rightarrow> json res prog" where
  \<open>CreateApp c model =
     bunnyDo c ''POST'' ''mc'' (''/apps'') (Some model) (Into ''AddApplicationResponse'')\<close>

definition GetApp :: "bunnyClient \<Rightarrow> string \<Rightarrow> json res prog" where
  \<open>GetApp c appID =
     bunnyDo c ''GET'' ''mc'' (''/apps/'' @ appID) (None) (Into ''Application'')\<close>

definition UpdateApp :: "bunnyClient \<Rightarrow> string \<Rightarrow> json \<Rightarrow> json res prog" where
  \<open>UpdateApp c appID model =
     bunnyDo c ''PUT'' ''mc'' (''/apps/'' @ appID) (Some model) (Into ''AddApplicationResponse'')\<close>

definition PatchApp :: "bunnyClient \<Rightarrow> string \<Rightarrow> json \<Rightarrow> json res prog" where
  \<open>PatchApp c appID model =
     bunnyDo c ''PATCH'' ''mc'' (''/apps/'' @ appID) (Some model) (Into ''AddApplicationResponse'')\<close>

definition DeleteApp :: "bunnyClient \<Rightarrow> string \<Rightarrow> unit res prog" where
  \<open>DeleteApp c appID =
     tryP id (bunnyDo c ''DELETE'' ''mc'' (''/apps/'' @ appID) (None) NoDst) (\<lambda>_. okP)\<close>

definition DeployApp :: "bunnyClient \<Rightarrow> string \<Rightarrow> unit res prog" where
  \<open>DeployApp c appID =
     tryP id (bunnyDo c ''POST'' ''mc'' (''/apps/'' @ appID @ ''/deploy'') (None) NoDst) (\<lambda>_. okP)\<close>

definition UndeployApp :: "bunnyClient \<Rightarrow> string \<Rightarrow> unit res prog" where
  \<open>UndeployApp c appID =
     tryP id (bunnyDo c ''POST'' ''mc'' (''/apps/'' @ appID @ ''/undeploy'') (None) NoDst) (\<lambda>_. okP)\<close>

definition RestartApp :: "bunnyClient \<Rightarrow> string \<Rightarrow> unit res prog" where
  \<open>RestartApp c appID =
     tryP id (bunnyDo c ''POST'' ''mc'' (''/apps/'' @ appID @ ''/restart'') (None) NoDst) (\<lambda>_. okP)\<close>

definition RecreatePod :: "bunnyClient \<Rightarrow> string \<Rightarrow> string \<Rightarrow> unit res prog" where
  \<open>RecreatePod c appID podID =
     tryP id (bunnyDo c ''POST'' ''mc'' (sprintf ''/apps/%s/pods/%s/recreate'' [Str appID, Str podID]) (None) NoDst) (\<lambda>_. okP)\<close>

definition GetAppOverview :: "bunnyClient \<Rightarrow> string \<Rightarrow> json res prog" where
  \<open>GetAppOverview c appID =
     bunnyDo c ''GET'' ''mc'' (''/apps/'' @ appID @ ''/overview'') (None) (Into ''Overview'')\<close>

definition GetAppUsageSummary :: "bunnyClient \<Rightarrow> string \<Rightarrow> json res prog" where
  \<open>GetAppUsageSummary c appID =
     bunnyDo c ''GET'' ''mc'' (''/apps/'' @ appID @ ''/summary'') (None) (Into ''UsageSummary'')\<close>

definition GetUserLimits :: "bunnyClient \<Rightarrow> json res prog" where
  \<open>GetUserLimits c =
     bunnyDo c ''GET'' ''mc'' (''/limits'') (None) (Into ''UserLimits'')\<close>

definition GetAppAutoscaling :: "bunnyClient \<Rightarrow> string \<Rightarrow> json res prog" where
  \<open>GetAppAutoscaling c appID =
     bunnyDo c ''GET'' ''mc'' (''/apps/'' @ appID @ ''/autoscaling'') (None) (Into ''AutoscalingSettings'')\<close>

definition UpdateAppAutoscaling :: "bunnyClient \<Rightarrow> string \<Rightarrow> json \<Rightarrow> unit res prog" where
  \<open>UpdateAppAutoscaling c appID model =
     tryP id (bunnyDo c ''PUT'' ''mc'' (''/apps/'' @ appID @ ''/autoscaling'') (Some model) NoDst) (\<lambda>_. okP)\<close>

section \<open>Containers: templates\<close>

definition AddContainerTemplate :: "bunnyClient \<Rightarrow> string \<Rightarrow> json \<Rightarrow> json res prog" where
  \<open>AddContainerTemplate c appID model =
     bunnyDo c ''POST'' ''mc'' (sprintf ''/apps/%s/containers'' [Str appID]) (Some model) (Into ''AddApplicationResponse'')\<close>

definition GetContainerTemplate :: "bunnyClient \<Rightarrow> string \<Rightarrow> string \<Rightarrow> json res prog" where
  \<open>GetContainerTemplate c appID containerID =
     bunnyDo c ''GET'' ''mc'' (sprintf ''/apps/%s/containers/%s'' [Str appID, Str containerID]) (None) (Into ''ContainerTemplate'')\<close>

definition PatchContainerTemplate :: "bunnyClient \<Rightarrow> string \<Rightarrow> string \<Rightarrow> json \<Rightarrow> unit res prog" where
  \<open>PatchContainerTemplate c appID containerID model =
     tryP id (bunnyDo c ''PATCH'' ''mc'' (sprintf ''/apps/%s/containers/%s'' [Str appID, Str containerID]) (Some model) NoDst) (\<lambda>_. okP)\<close>

definition DeleteContainerTemplate :: "bunnyClient \<Rightarrow> string \<Rightarrow> string \<Rightarrow> unit res prog" where
  \<open>DeleteContainerTemplate c appID containerID =
     tryP id (bunnyDo c ''DELETE'' ''mc'' (sprintf ''/apps/%s/containers/%s'' [Str appID, Str containerID]) (None) NoDst) (\<lambda>_. okP)\<close>

definition SetContainerEnvVars :: "bunnyClient \<Rightarrow> string \<Rightarrow> string \<Rightarrow> json \<Rightarrow> unit res prog" where
  \<open>SetContainerEnvVars c appID containerID model =
     tryP id (bunnyDo c ''PUT'' ''mc'' (sprintf ''/apps/%s/containers/%s/env'' [Str appID, Str containerID]) (Some (jobj [(''environmentVariables'', Some model)])) NoDst) (\<lambda>_. okP)\<close>

definition GetImageConfig :: "bunnyClient \<Rightarrow> json \<Rightarrow> json res prog" where
  \<open>GetImageConfig c model =
     bunnyDo c ''POST'' ''mc'' (''/registries/image-config'') (Some model) (Into ''ImageConfig'')\<close>

definition GetContainerConfigSuggestions :: "bunnyClient \<Rightarrow> json \<Rightarrow> json res prog" where
  \<open>GetContainerConfigSuggestions c model =
     bunnyDo c ''POST'' ''mc'' (''/registries/config-suggestions'') (Some model) (Into ''ContainerConfigSuggestions'')\<close>

section \<open>Containers: registries\<close>

definition ListContainerRegistries :: "bunnyClient \<Rightarrow> json res prog" where
  \<open>ListContainerRegistries c =
     bunnyDo c ''GET'' ''mc'' (''/registries'') (None) (Into ''ListContainerRegistriesResponse'')\<close>

definition AddContainerRegistry :: "bunnyClient \<Rightarrow> json \<Rightarrow> json res prog" where
  \<open>AddContainerRegistry c model =
     bunnyDo c ''POST'' ''mc'' (''/registries'') (Some model) (Into ''SaveContainerRegistryResult'')\<close>

definition GetContainerRegistry :: "bunnyClient \<Rightarrow> int \<Rightarrow> json res prog" where
  \<open>GetContainerRegistry c registryID =
     bunnyDo c ''GET'' ''mc'' (sprintf ''/registries/%d'' [Num registryID]) (None) (Into ''ContainerRegistry'')\<close>

definition UpdateContainerRegistry :: "bunnyClient \<Rightarrow> int \<Rightarrow> json \<Rightarrow> json res prog" where
  \<open>UpdateContainerRegistry c registryID model =
     bunnyDo c ''PUT'' ''mc'' (sprintf ''/registries/%d'' [Num registryID]) (Some model) (Into ''SaveContainerRegistryResult'')\<close>

definition DeleteContainerRegistry :: "bunnyClient \<Rightarrow> int \<Rightarrow> json res prog" where
  \<open>DeleteContainerRegistry c registryID =
     bunnyDo c ''DELETE'' ''mc'' (sprintf ''/registries/%d'' [Num registryID]) (None) (Into ''RemoveContainerRegistryResult'')\<close>

definition ListContainerImages :: "bunnyClient \<Rightarrow> string \<Rightarrow> json res prog" where
  \<open>ListContainerImages c registryID =
     bunnyDo c ''POST'' ''mc'' (''/registries/images'') (Some (jobj [(''registryId'', jS registryID)])) (Into ''[]ContainerImage'')\<close>

definition ListContainerImageTags :: "bunnyClient \<Rightarrow> string \<Rightarrow> string \<Rightarrow> string \<Rightarrow> json res prog" where
  \<open>ListContainerImageTags c registryID imageName namespace =
     bunnyDo c ''POST'' ''mc'' (''/registries/tags'') (Some (jobj [(''imageName'', jS imageName), (''imageNamespace'', jS namespace), (''registryId'', jS registryID)])) (Into ''[]ContainerImageTag'')\<close>

definition SearchPublicImages :: "bunnyClient \<Rightarrow> json \<Rightarrow> json res prog" where
  \<open>SearchPublicImages c model =
     bunnyDo c ''POST'' ''mc'' (''/registries/public-images/search'') (Some model) (Into ''[]ContainerImage'')\<close>

definition GetImageDigest :: "bunnyClient \<Rightarrow> string \<Rightarrow> string \<Rightarrow> string \<Rightarrow> string \<Rightarrow> json res prog" where
  \<open>GetImageDigest c registryID imageName namespace tag =
     bunnyDo c ''POST'' ''mc'' (''/registries/digest'') (Some (jobj [(''imageName'', jS imageName), (''imageNamespace'', jS namespace), (''registryId'', jS registryID), (''tag'', jS tag)])) (Into ''ImageTagInfo'')\<close>

section \<open>Containers: endpoints\<close>

definition AddEndpoint :: "bunnyClient \<Rightarrow> string \<Rightarrow> string \<Rightarrow> json \<Rightarrow> json res prog" where
  \<open>AddEndpoint c appID containerID model =
     bunnyDo c ''POST'' ''mc'' (sprintf ''/apps/%s/containers/%s/endpoints'' [Str appID, Str containerID]) (Some model) (Into ''SaveEndpointResponse'')\<close>

definition ListEndpoints :: "bunnyClient \<Rightarrow> string \<Rightarrow> json res prog" where
  \<open>ListEndpoints c appID =
     bunnyDo c ''GET'' ''mc'' (sprintf ''/apps/%s/endpoints'' [Str appID]) (None) (Into ''ListEndpointsResponse'')\<close>

definition UpdateEndpoint :: "bunnyClient \<Rightarrow> string \<Rightarrow> string \<Rightarrow> json \<Rightarrow> unit res prog" where
  \<open>UpdateEndpoint c appID endpointID model =
     tryP id (bunnyDo c ''PUT'' ''mc'' (sprintf ''/apps/%s/endpoints/%s'' [Str appID, Str endpointID]) (Some model) NoDst) (\<lambda>_. okP)\<close>

definition DeleteEndpoint :: "bunnyClient \<Rightarrow> string \<Rightarrow> string \<Rightarrow> unit res prog" where
  \<open>DeleteEndpoint c appID endpointID =
     tryP id (bunnyDo c ''DELETE'' ''mc'' (sprintf ''/apps/%s/endpoints/%s'' [Str appID, Str endpointID]) (None) NoDst) (\<lambda>_. okP)\<close>

section \<open>Containers: regions\<close>

definition ListRegions :: "bunnyClient \<Rightarrow> json res prog" where
  \<open>ListRegions c =
     bunnyDo c ''GET'' ''mc'' (''/regions'') (None) (Into ''ListRegionsResponse'')\<close>

definition GetOptimalBaseRegion :: "bunnyClient \<Rightarrow> json res prog" where
  \<open>GetOptimalBaseRegion c =
     bunnyDo c ''GET'' ''mc'' (''/regions/optimal'') (None) (Into ''OptimalBaseRegionResponse'')\<close>

definition GetAppRegionSettings :: "bunnyClient \<Rightarrow> string \<Rightarrow> json res prog" where
  \<open>GetAppRegionSettings c appID =
     bunnyDo c ''GET'' ''mc'' (''/apps/'' @ appID @ ''/region-settings'') (None) (Into ''RegionSettings'')\<close>

definition UpdateAppRegionSettings :: "bunnyClient \<Rightarrow> string \<Rightarrow> json \<Rightarrow> unit res prog" where
  \<open>UpdateAppRegionSettings c appID model =
     tryP id (bunnyDo c ''PUT'' ''mc'' (''/apps/'' @ appID @ ''/region-settings'') (Some model) NoDst) (\<lambda>_. okP)\<close>

definition ListNodes :: "bunnyClient \<Rightarrow> json res prog" where
  \<open>ListNodes c =
     tryP id (bunnyDo c ''GET'' ''mc'' (''/nodes'') (None) (Into ''struct{items []string}'')) (\<lambda>r. Ret (Inr (jfield ''items'' r)))\<close>

definition ListNodesPlain :: "bunnyClient \<Rightarrow> json res prog" where
  \<open>ListNodesPlain c =
     bunnyDo c ''GET'' ''mc'' (''/nodes/plain'') (None) (Into ''[]string'')\<close>

section \<open>Containers: volumes\<close>

definition ListVolumes :: "bunnyClient \<Rightarrow> string \<Rightarrow> json res prog" where
  \<open>ListVolumes c appID =
     bunnyDo c ''GET'' ''mc'' (sprintf ''/apps/%s/volumes'' [Str appID]) (None) (Into ''ListVolumesResponse'')\<close>

definition UpdateVolume :: "bunnyClient \<Rightarrow> string \<Rightarrow> string \<Rightarrow> int \<Rightarrow> unit res prog" where
  \<open>UpdateVolume c appID volumeName sz =
     tryP id (bunnyDo c ''PATCH'' ''mc'' (sprintf ''/apps/%s/volumes/%s'' [Str appID, Str volumeName]) (Some (jobj [(''size'', jI sz)])) NoDst) (\<lambda>_. okP)\<close>

definition DetachVolume :: "bunnyClient \<Rightarrow> string \<Rightarrow> string \<Rightarrow> unit res prog" where
  \<open>DetachVolume c appID volumeID =
     tryP id (bunnyDo c ''POST'' ''mc'' (sprintf ''/apps/%s/volumes/%s/detach'' [Str appID, Str volumeID]) (None) (Into ''DetachVolumeResponse'')) (\<lambda>_. okP)\<close>

definition DeleteVolumeInstance :: "bunnyClient \<Rightarrow> string \<Rightarrow> string \<Rightarrow> string \<Rightarrow> unit res prog" where
  \<open>DeleteVolumeInstance c appID volumeID instanceID =
     tryP id (bunnyDo c ''DELETE'' ''mc'' (sprintf ''/apps/%s/volumes/%s/instances/%s'' [Str appID, Str volumeID, Str instanceID]) (None) NoDst) (\<lambda>_. okP)\<close>

definition DeleteAllVolumeInstances :: "bunnyClient \<Rightarrow> string \<Rightarrow> string \<Rightarrow> unit res prog" where
  \<open>DeleteAllVolumeInstances c appID volumeID =
     tryP id (bunnyDo c ''DELETE'' ''mc'' (sprintf ''/apps/%s/volumes/%s'' [Str appID, Str volumeID]) (None) NoDst) (\<lambda>_. okP)\<close>

definition CreateLogForwarding :: "bunnyClient \<Rightarrow> json \<Rightarrow> unit res prog" where
  \<open>CreateLogForwarding c model =
     tryP id (bunnyDo c ''POST'' ''mc'' (''/log/forwarding'') (Some model) NoDst) (\<lambda>_. okP)\<close>

definition ListLogForwarding :: "bunnyClient \<Rightarrow> json res prog" where
  \<open>ListLogForwarding c =
     bunnyDo c ''GET'' ''mc'' (''/log/forwarding'') (None) (Into ''ListLogForwardingResponse'')\<close>

definition GetLogForwardingConfig :: "bunnyClient \<Rightarrow> string \<Rightarrow> json res prog" where
  \<open>GetLogForwardingConfig c cfgID =
     bunnyDo c ''GET'' ''mc'' (sprintf ''/log/forwarding/%s'' [Str cfgID]) (None) (Into ''LogForwardingConfig'')\<close>

definition UpdateLogForwardingConfig :: "bunnyClient \<Rightarrow> string \<Rightarrow> json \<Rightarrow> unit res prog" where
  \<open>UpdateLogForwardingConfig c cfgID model =
     tryP id (bunnyDo c ''PUT'' ''mc'' (sprintf ''/log/forwarding/%s'' [Str cfgID]) (Some model) NoDst) (\<lambda>_. okP)\<close>

definition DeleteLogForwarding :: "bunnyClient \<Rightarrow> string \<Rightarrow> unit res prog" where
  \<open>DeleteLogForwarding c cfgID =
     tryP id (bunnyDo c ''DELETE'' ''mc'' (sprintf ''/log/forwarding/%s'' [Str cfgID]) (None) NoDst) (\<lambda>_. okP)\<close>

section \<open>Edge scripts\<close>

definition ListEdgeScripts :: "bunnyClient \<Rightarrow> json res prog" where
  \<open>ListEdgeScripts c =
     tryP id (bunnyDo c ''GET'' ''core'' (''/compute/script'') (None) (Into ''ListEdgeScriptsResponse'')) (\<lambda>r. Ret (Inr (jfield ''Items'' r)))\<close>

definition GetEdgeScript :: "bunnyClient \<Rightarrow> int \<Rightarrow> json res prog" where
  \<open>GetEdgeScript c ident =
     bunnyDo c ''GET'' ''core'' (sprintf ''/compute/script/%d'' [Num ident]) (None) (Into ''EdgeScript'')\<close>

definition UpdateEdgeScript :: "bunnyClient \<Rightarrow> int \<Rightarrow> json \<Rightarrow> json res prog" where
  \<open>UpdateEdgeScript c ident model =
     bunnyDo c ''POST'' ''core'' (sprintf ''/compute/script/%d'' [Num ident]) (Some model) (Into ''EdgeScript'')\<close>

definition DeleteEdgeScript :: "bunnyClient \<Rightarrow> int \<Rightarrow> unit res prog" where
  \<open>DeleteEdgeScript c ident =
     tryP id (bunnyDo c ''DELETE'' ''core'' (sprintf ''/compute/script/%d'' [Num ident]) (None) NoDst) (\<lambda>_. okP)\<close>

definition RotateDeploymentKey :: "bunnyClient \<Rightarrow> int \<Rightarrow> unit res prog" where
  \<open>RotateDeploymentKey c ident =
     tryP id (bunnyDo c ''POST'' ''core'' (sprintf ''/compute/script/%d/deploymentKey/rotate'' [Num ident]) (None) NoDst) (\<lambda>_. okP)\<close>

definition GetEdgeScriptCode :: "bunnyClient \<Rightarrow> int \<Rightarrow> json res prog" where
  \<open>GetEdgeScriptCode c ident =
     bunnyDo c ''GET'' ''core'' (sprintf ''/compute/script/%d/code'' [Num ident]) (None) (Into ''EdgeScriptCodeModel'')\<close>

definition SetEdgeScriptCode :: "bunnyClient \<Rightarrow> int \<Rightarrow> string \<Rightarrow> unit res prog" where
  \<open>SetEdgeScriptCode c ident body =
     tryP id (bunnyDo c ''POST'' ''core'' (sprintf ''/compute/script/%d/code'' [Num ident]) (Some (jobj [(''Content'', jS body)])) NoDst) (\<lambda>_. okP)\<close>

definition AddEdgeScriptVariable :: "bunnyClient \<Rightarrow> int \<Rightarrow> string \<Rightarrow> string \<Rightarrow> json res prog" where
  \<open>AddEdgeScriptVariable c ident nam val =
     bunnyDo c ''POST'' ''core'' (sprintf ''/compute/script/%d/variables/add'' [Num ident]) (Some (jobj [(''Name'', jS nam), (''Value'', eS val)])) (Into ''EdgeScriptVariable'')\<close>

definition UpsertEdgeScriptVariable :: "bunnyClient \<Rightarrow> int \<Rightarrow> string \<Rightarrow> string \<Rightarrow> json res prog" where
  \<open>UpsertEdgeScriptVariable c ident nam val =
     bunnyDo c ''PUT'' ''core'' (sprintf ''/compute/script/%d/variables'' [Num ident]) (Some (jobj [(''Name'', jS nam), (''Value'', eS val)])) (Into ''EdgeScriptVariable'')\<close>

definition DeleteEdgeScriptVariable :: "bunnyClient \<Rightarrow> int \<Rightarrow> int \<Rightarrow> unit res prog" where
  \<open>DeleteEdgeScriptVariable c scriptID varID =
     tryP id (bunnyDo c ''DELETE'' ''core'' (sprintf ''/compute/script/%d/variables/%d'' [Num scriptID, Num varID]) (None) NoDst) (\<lambda>_. okP)\<close>

definition AddEdgeScriptSecret :: "bunnyClient \<Rightarrow> int \<Rightarrow> string \<Rightarrow> string \<Rightarrow> json res prog" where
  \<open>AddEdgeScriptSecret c ident nam val =
     bunnyDo c ''POST'' ''core'' (sprintf ''/compute/script/%d/secrets'' [Num ident]) (Some (jobj [(''Name'', jS nam), (''Value'', eS val)])) (Into ''EdgeScriptSecret'')\<close>

definition UpsertEdgeScriptSecret :: "bunnyClient \<Rightarrow> int \<Rightarrow> string \<Rightarrow> string \<Rightarrow> json res prog" where
  \<open>UpsertEdgeScriptSecret c ident nam val =
     bunnyDo c ''PUT'' ''core'' (sprintf ''/compute/script/%d/secrets'' [Num ident]) (Some (jobj [(''Name'', jS nam), (''Value'', eS val)])) (Into ''EdgeScriptSecret'')\<close>

definition ListEdgeScriptSecrets :: "bunnyClient \<Rightarrow> int \<Rightarrow> json res prog" where
  \<open>ListEdgeScriptSecrets c ident =
     tryP id (bunnyDo c ''GET'' ''core'' (sprintf ''/compute/script/%d/secrets'' [Num ident]) (None) (Into ''struct{Secrets []EdgeScriptSecret}'')) (\<lambda>r. Ret (Inr (jfield ''Secrets'' r)))\<close>

definition DeleteEdgeScriptSecret :: "bunnyClient \<Rightarrow> int \<Rightarrow> int \<Rightarrow> unit res prog" where
  \<open>DeleteEdgeScriptSecret c scriptID secretID =
     tryP id (bunnyDo c ''DELETE'' ''core'' (sprintf ''/compute/script/%d/secrets/%d'' [Num scriptID, Num secretID]) (None) NoDst) (\<lambda>_. okP)\<close>

definition GetActiveRelease :: "bunnyClient \<Rightarrow> int \<Rightarrow> json res prog" where
  \<open>GetActiveRelease c ident =
     bunnyDo c ''GET'' ''core'' (sprintf ''/compute/script/%d/releases/active'' [Num ident]) (None) (Into ''EdgeScriptRelease'')\<close>

definition PublishRelease :: "bunnyClient \<Rightarrow> int \<Rightarrow> unit res prog" where
  \<open>PublishRelease c ident =
     tryP id (bunnyDo c ''POST'' ''core'' (sprintf ''/compute/script/%d/publish'' [Num ident]) (None) NoDst) (\<lambda>_. okP)\<close>

definition GetEdgeScriptStatistics :: "bunnyClient \<Rightarrow> int \<Rightarrow> json res prog" where
  \<open>GetEdgeScriptStatistics c ident =
     bunnyDo c ''GET'' ''core'' (sprintf ''/compute/script/%d/statistics'' [Num ident]) (None) (Into ''EdgeScriptStatistics'')\<close>

definition GetEdgeScriptVariable :: "bunnyClient \<Rightarrow> int \<Rightarrow> int \<Rightarrow> json res prog" where
  \<open>GetEdgeScriptVariable c scriptID varID =
     bunnyDo c ''GET'' ''core'' (sprintf ''/compute/script/%d/variables/%d'' [Num scriptID, Num varID]) (None) (Into ''EdgeScriptVariable'')\<close>

definition UpdateEdgeScriptVariable :: "bunnyClient \<Rightarrow> int \<Rightarrow> int \<Rightarrow> string \<Rightarrow> string \<Rightarrow> json res prog" where
  \<open>UpdateEdgeScriptVariable c scriptID varID nam val =
     bunnyDo c ''POST'' ''core'' (sprintf ''/compute/script/%d/variables/%d'' [Num scriptID, Num varID]) (Some (jobj [(''Name'', jS nam), (''Value'', eS val)])) (Into ''EdgeScriptVariable'')\<close>

definition UpdateEdgeScriptSecret :: "bunnyClient \<Rightarrow> int \<Rightarrow> int \<Rightarrow> string \<Rightarrow> string \<Rightarrow> json res prog" where
  \<open>UpdateEdgeScriptSecret c scriptID secretID nam val =
     bunnyDo c ''POST'' ''core'' (sprintf ''/compute/script/%d/secrets/%d'' [Num scriptID, Num secretID]) (Some (jobj [(''Name'', jS nam), (''Value'', eS val)])) (Into ''EdgeScriptSecret'')\<close>

definition ListReleases :: "bunnyClient \<Rightarrow> int \<Rightarrow> json res prog" where
  \<open>ListReleases c ident =
     bunnyDo c ''GET'' ''core'' (sprintf ''/compute/script/%d/releases'' [Num ident]) (None) (Into ''ListReleasesResponse'')\<close>

definition PublishReleaseByUUID :: "bunnyClient \<Rightarrow> int \<Rightarrow> string \<Rightarrow> unit res prog" where
  \<open>PublishReleaseByUUID c ident uuid =
     tryP id (bunnyDo c ''POST'' ''core'' (sprintf ''/compute/script/%d/publish/%s'' [Num ident, Str uuid]) (None) NoDst) (\<lambda>_. okP)\<close>

section \<open>Statistics\<close>

definition GetStatistics :: "bunnyClient \<Rightarrow> json res prog" where
  \<open>GetStatistics c =
     bunnyDo c ''GET'' ''core'' (''/statistics'') (None) (Into ''CDNStatistics'')\<close>

definition GetOriginShieldQueueStatistics :: "bunnyClient \<Rightarrow> int \<Rightarrow> json res prog" where
  \<open>GetOriginShieldQueueStatistics c pullZoneID =
     bunnyDo c ''GET'' ''core'' (sprintf ''/pullzone/%d/originshield/queuestatistics'' [Num pullZoneID]) (None) (Into ''OriginShieldQueueStats'')\<close>

definition GetSafeHopStatistics :: "bunnyClient \<Rightarrow> int \<Rightarrow> json res prog" where
  \<open>GetSafeHopStatistics c pullZoneID =
     bunnyDo c ''GET'' ''core'' (sprintf ''/pullzone/%d/safehop/statistics'' [Num pullZoneID]) (None) (Into ''SafeHopStats'')\<close>

definition GetOptimizerStatistics :: "bunnyClient \<Rightarrow> int \<Rightarrow> json res prog" where
  \<open>GetOptimizerStatistics c pullZoneID =
     bunnyDo c ''GET'' ''core'' (sprintf ''/pullzone/%d/optimizer/statistics'' [Num pullZoneID]) (None) (Into ''OptimizerStats'')\<close>

definition GetDNSZoneStatistics :: "bunnyClient \<Rightarrow> int \<Rightarrow> json res prog" where
  \<open>GetDNSZoneStatistics c zoneID =
     bunnyDo c ''GET'' ''core'' (sprintf ''/dnszone/%d/statistics'' [Num zoneID]) (None) (Into ''map[string]any'')\<close>

definition GetStorageZoneStatistics :: "bunnyClient \<Rightarrow> int \<Rightarrow> json res prog" where
  \<open>GetStorageZoneStatistics c zoneID =
     bunnyDo c ''GET'' ''core'' (sprintf ''/storagezone/%d/statistics'' [Num zoneID]) (None) (Into ''map[string]any'')\<close>

definition GetStorageZoneEgressStatistics :: "bunnyClient \<Rightarrow> int \<Rightarrow> json res prog" where
  \<open>GetStorageZoneEgressStatistics c zoneID =
     bunnyDo c ''GET'' ''core'' (sprintf ''/storagezone/%d/statistics/egress'' [Num zoneID]) (None) (Into ''map[string]any'')\<close>

definition GetVideoLibraryDRMStatistics :: "bunnyClient \<Rightarrow> int \<Rightarrow> json res prog" where
  \<open>GetVideoLibraryDRMStatistics c libID =
     bunnyDo c ''GET'' ''core'' (sprintf ''/videolibrary/%d/drm/statistics'' [Num libID]) (None) (Into ''map[string]any'')\<close>

definition GetVideoLibraryTranscribingStatistics :: "bunnyClient \<Rightarrow> int \<Rightarrow> json res prog" where
  \<open>GetVideoLibraryTranscribingStatistics c libID =
     bunnyDo c ''GET'' ''core'' (sprintf ''/videolibrary/%d/transcribing/statistics'' [Num libID]) (None) (Into ''map[string]any'')\<close>

section \<open>Videos\<close>

definition ListVideoLibraries :: "bunnyClient \<Rightarrow> json res prog" where
  \<open>ListVideoLibraries c =
     bunnyDo c ''GET'' ''core'' (''/videolibrary'') (None) (Into ''[]VideoLibrary'')\<close>

definition CreateVideoLibrary :: "bunnyClient \<Rightarrow> string \<Rightarrow> json res prog" where
  \<open>CreateVideoLibrary c nam =
     bunnyDo c ''POST'' ''core'' (''/videolibrary'') (Some (jobj [(''Name'', jS nam)])) (Into ''VideoLibrary'')\<close>

definition GetVideoLibrary :: "bunnyClient \<Rightarrow> int \<Rightarrow> json res prog" where
  \<open>GetVideoLibrary c ident =
     bunnyDo c ''GET'' ''core'' (sprintf ''/videolibrary/%d'' [Num ident]) (None) (Into ''VideoLibrary'')\<close>

definition DeleteVideoLibrary :: "bunnyClient \<Rightarrow> int \<Rightarrow> unit res prog" where
  \<open>DeleteVideoLibrary c ident =
     tryP id (bunnyDo c ''DELETE'' ''core'' (sprintf ''/videolibrary/%d'' [Num ident]) (None) NoDst) (\<lambda>_. okP)\<close>

definition CreateVideo :: "bunnyClient \<Rightarrow> int \<Rightarrow> string \<Rightarrow> string \<Rightarrow> json res prog" where
  \<open>CreateVideo c libID accessKey ttl =
     streamDo c libID accessKey ''POST'' (''/videos'') (Some (jobj [(''title'', jS ttl)])) (Into ''CreateVideoResponse'')\<close>

definition GetVideo :: "bunnyClient \<Rightarrow> int \<Rightarrow> string \<Rightarrow> string \<Rightarrow> json res prog" where
  \<open>GetVideo c libID accessKey videoID =
     streamDo c libID accessKey ''GET'' (''/videos/'' @ videoID) (None) (Into ''Video'')\<close>

definition DeleteVideo :: "bunnyClient \<Rightarrow> int \<Rightarrow> string \<Rightarrow> string \<Rightarrow> unit res prog" where
  \<open>DeleteVideo c libID accessKey videoID =
     tryP id (streamDo c libID accessKey ''DELETE'' (''/videos/'' @ videoID) (None) NoDst) (\<lambda>_. okP)\<close>

definition FetchVideo :: "bunnyClient \<Rightarrow> int \<Rightarrow> string \<Rightarrow> string \<Rightarrow> json res prog" where
  \<open>FetchVideo c libID accessKey link =
     streamDo c libID accessKey ''POST'' (''/videos/fetch'') (Some (jobj [(''url'', jS link)])) (Into ''Video'')\<close>

definition SetVideoThumbnail :: "bunnyClient \<Rightarrow> int \<Rightarrow> string \<Rightarrow> string \<Rightarrow> string \<Rightarrow> unit res prog" where
  \<open>SetVideoThumbnail c libID accessKey videoID thumbnailURL =
     tryP id (streamDo c libID accessKey ''POST'' (''/videos/'' @ videoID @ ''/thumbnail'') (Some (jobj [(''thumbnailUrl'', jS thumbnailURL)])) NoDst) (\<lambda>_. okP)\<close>

definition ReencodeVideo :: "bunnyClient \<Rightarrow> int \<Rightarrow> string \<Rightarrow> string \<Rightarrow> unit res prog" where
  \<open>ReencodeVideo c libID accessKey videoID =
     tryP id (streamDo c libID accessKey ''POST'' (''/videos/'' @ videoID @ ''/reencode'') (None) NoDst) (\<lambda>_. okP)\<close>

definition ListCollections :: "bunnyClient \<Rightarrow> int \<Rightarrow> string \<Rightarrow> json res prog" where
  \<open>ListCollections c libID accessKey =
     tryP id (streamDo c libID accessKey ''GET'' (''/collections'') (None) (Into ''struct{items []VideoCollection;totalItems int}'')) (\<lambda>r. Ret (Inr (jfield ''items'' r)))\<close>

definition CreateCollection :: "bunnyClient \<Rightarrow> int \<Rightarrow> string \<Rightarrow> string \<Rightarrow> json res prog" where
  \<open>CreateCollection c libID accessKey nam =
     streamDo c libID accessKey ''POST'' (''/collections'') (Some (jobj [(''name'', jS nam)])) (Into ''VideoCollection'')\<close>

definition GetCollection :: "bunnyClient \<Rightarrow> int \<Rightarrow> string \<Rightarrow> int \<Rightarrow> json res prog" where
  \<open>GetCollection c libID accessKey collectionID =
     streamDo c libID accessKey ''GET'' (sprintf ''/collections/%d'' [Num collectionID]) (None) (Into ''VideoCollection'')\<close>

definition UpdateCollection :: "bunnyClient \<Rightarrow> int \<Rightarrow> string \<Rightarrow> int \<Rightarrow> string \<Rightarrow> json res prog" where
  \<open>UpdateCollection c libID accessKey collectionID nam =
     streamDo c libID accessKey ''POST'' (sprintf ''/collections/%d'' [Num collectionID]) (Some (jobj [(''name'', jS nam)])) (Into ''VideoCollection'')\<close>

definition DeleteCollection :: "bunnyClient \<Rightarrow> int \<Rightarrow> string \<Rightarrow> int \<Rightarrow> unit res prog" where
  \<open>DeleteCollection c libID accessKey collectionID =
     tryP id (streamDo c libID accessKey ''DELETE'' (sprintf ''/collections/%d'' [Num collectionID]) (None) NoDst) (\<lambda>_. okP)\<close>

definition UpdateVideo :: "bunnyClient \<Rightarrow> int \<Rightarrow> string \<Rightarrow> string \<Rightarrow> json \<Rightarrow> json res prog" where
  \<open>UpdateVideo c libID accessKey videoID model =
     streamDo c libID accessKey ''POST'' (''/videos/'' @ videoID) (Some model) (Into ''Video'')\<close>

definition GetVideoHeatmap :: "bunnyClient \<Rightarrow> int \<Rightarrow> string \<Rightarrow> string \<Rightarrow> json res prog" where
  \<open>GetVideoHeatmap c libID accessKey videoID =
     streamDo c libID accessKey ''GET'' (''/videos/'' @ videoID @ ''/heatmap'') (None) (Into ''[]map[string]any'')\<close>

definition GetVideoPlayData :: "bunnyClient \<Rightarrow> int \<Rightarrow> string \<Rightarrow> string \<Rightarrow> json res prog" where
  \<open>GetVideoPlayData c libID accessKey videoID =
     streamDo c libID accessKey ''GET'' (''/videos/'' @ videoID @ ''/play'') (None) (Into ''map[string]any'')\<close>

definition GetVideoStatistics :: "bunnyClient \<Rightarrow> int \<Rightarrow> string \<Rightarrow> json res prog" where
  \<open>GetVideoStatistics c libID accessKey =
     streamDo c libID accessKey ''GET'' (''/statistics'') (None) (Into ''map[string]any'')\<close>

definition AddOutputCodec :: "bunnyClient \<Rightarrow> int \<Rightarrow> string \<Rightarrow> string \<Rightarrow> int \<Rightarrow> unit res prog" where
  \<open>AddOutputCodec c libID accessKey videoID outputCodecID =
     tryP id (streamDo c libID accessKey ''PUT'' (sprintf ''/videos/%s/outputs/%d'' [Str videoID, Num outputCodecID]) (None) NoDst) (\<lambda>_. okP)\<close>

definition RepackageVideo :: "bunnyClient \<Rightarrow> int \<Rightarrow> string \<Rightarrow> string \<Rightarrow> unit res prog" where
  \<open>RepackageVideo c libID accessKey videoID =
     tryP id (streamDo c libID accessKey ''POST'' (''/videos/'' @ videoID @ ''/repackage'') (None) NoDst) (\<lambda>_. okP)\<close>

definition GetVideoResolutions :: "bunnyClient \<Rightarrow> int \<Rightarrow> string \<Rightarrow> string \<Rightarrow> json res prog" where
  \<open>GetVideoResolutions c libID accessKey videoID =
     streamDo c libID accessKey ''GET'' (''/videos/'' @ videoID @ ''/resolutions'') (None) (Into ''[]map[string]any'')\<close>

definition GetVideoStorageSize :: "bunnyClient \<Rightarrow> int \<Rightarrow> string \<Rightarrow> string \<Rightarrow> json res prog" where
  \<open>GetVideoStorageSize c libID accessKey videoID =
     streamDo c libID accessKey ''GET'' (''/videos/'' @ videoID @ ''/storage'') (None) (Into ''map[string]any'')\<close>

definition CleanupResolutions :: "bunnyClient \<Rightarrow> int \<Rightarrow> string \<Rightarrow> string \<Rightarrow> unit res prog" where
  \<open>CleanupResolutions c libID accessKey videoID =
     tryP id (streamDo c libID accessKey ''POST'' (''/videos/'' @ videoID @ ''/resolutions/cleanup'') (None) NoDst) (\<lambda>_. okP)\<close>

definition DeleteCaption :: "bunnyClient \<Rightarrow> int \<Rightarrow> string \<Rightarrow> string \<Rightarrow> string \<Rightarrow> unit res prog" where
  \<open>DeleteCaption c libID accessKey videoID srclang =
     tryP id (streamDo c libID accessKey ''DELETE'' (sprintf ''/videos/%s/captions/%s'' [Str videoID, Str srclang]) (None) NoDst) (\<lambda>_. okP)\<close>

definition SmartGenerate :: "bunnyClient \<Rightarrow> int \<Rightarrow> string \<Rightarrow> string \<Rightarrow> json \<Rightarrow> unit res prog" where
  \<open>SmartGenerate c libID accessKey videoID model =
     tryP id (streamDo c libID accessKey ''POST'' (sprintf ''/videos/%s/smart'' [Str videoID]) (Some model) NoDst) (\<lambda>_. okP)\<close>

section \<open>Pull zones: the remaining requests\<close>

text \<open>Without a link the body is a nil pointer, which is written as \<open>null\<close>.\<close>

definition PurgePullZoneCache :: "bunnyClient \<Rightarrow> int \<Rightarrow> string \<Rightarrow> unit res prog" where
  "PurgePullZoneCache c zoneID link =
     tryP id (bunnyDo c ''POST'' ''core'' (sprintf ''/pullzone/%d/purgeCache'' [Num zoneID])
       (Some (if link \<noteq> '''' then jobj [(''url'', eS link)] else JNull)) NoDst) (\<lambda>_. okP)"

definition LoadFreeCertificate :: "bunnyClient \<Rightarrow> string \<Rightarrow> bool \<Rightarrow> unit res prog" where
  "LoadFreeCertificate c hostname useHTTP01 =
     (let q = sprintf ''?hostname=%s&useOnlyHttp01=%s'' [Str hostname, Str (boolText useHTTP01)]
      in tryP id (bunnyDo c ''GET'' ''core'' (''/pullzone/loadFreeCertificate'' @ q) None NoDst) (\<lambda>_. okP))"

definition ResetSecurityKey :: "bunnyClient \<Rightarrow> int \<Rightarrow> string \<Rightarrow> unit res prog" where
  "ResetSecurityKey c zoneID securityKey =
     tryP id (bunnyDo c ''POST'' ''core'' (sprintf ''/pullzone/%d/resetSecurityKey'' [Num zoneID])
       (if securityKey = '''' then None else Some (jobj [(''securityKey'', eS securityKey)])) NoDst) (\<lambda>_. okP)"

section \<open>Files of a storage zone\<close>

definition storageURL :: "string \<Rightarrow> string \<Rightarrow> string" where
  "storageURL zoneName path =
     sprintf ''https://storage.bunnycdn.com/%s/%s'' [Str zoneName, Str (trimPrefix path ''/'')]"

definition ListStorageFiles :: "bunnyClient \<Rightarrow> string \<Rightarrow> string \<Rightarrow> string \<Rightarrow> json list res prog" where
  "ListStorageFiles c zoneName path accessKey =
     tryP id (httpDo (Wrapf ''storage list: %w'' []) (Wrapf ''storage list: %w'' []) ''GET'' (storageURL zoneName path)
         [(''Accept'', ''application/json''), (''AccessKey'', accessKey)] '''') (\<lambda>h.
       if haStatus h \<noteq> 200
       then fail (Errorf ''storage list: HTTP %d: %s'' [Num (int (haStatus h)), Str (take 1024 (haBody h))])
       else (case readAll h of
           Inl e \<Rightarrow> fail (Wrapf ''storage list read: %w'' [] e)
         | Inr body \<Rightarrow> (case bcDec c ''[]StorageFile'' body of
               Inl e \<Rightarrow> fail (Wrapf ''storage list decode: %w'' [] (Ext e))
             | Inr j \<Rightarrow> Ret (Inr (jlist j)))))"

definition UploadStorageFile :: "bunnyClient \<Rightarrow> string \<Rightarrow> string \<Rightarrow> string \<Rightarrow> string \<Rightarrow> string \<Rightarrow> unit res prog" where
  "UploadStorageFile c zoneName path fileName content accessKey =
     (let fullPath = trimSuffix path ''/'' @ ''/'' @ fileName
      in tryP id (httpDo (Wrapf ''storage upload: %w'' []) (Wrapf ''storage upload: %w'' []) ''PUT'' (storageURL zoneName fullPath)
           [(''AccessKey'', accessKey), (''Content-Type'', ''application/octet-stream'')] content) (\<lambda>h.
         if haStatus h \<noteq> 201
         then fail (Errorf ''storage upload: HTTP %d: %s'' [Num (int (haStatus h)), Str (take 1024 (haBody h))])
         else okP))"

definition DownloadStorageFile :: "bunnyClient \<Rightarrow> string \<Rightarrow> string \<Rightarrow> string \<Rightarrow> string res prog" where
  "DownloadStorageFile c zoneName filePath accessKey =
     tryP id (httpDo (Wrapf ''storage download: %w'' []) (Wrapf ''storage download: %w'' []) ''GET'' (storageURL zoneName filePath)
         [(''AccessKey'', accessKey)] '''') (\<lambda>h.
       if haStatus h \<noteq> 200 then fail (Errorf ''storage download: HTTP %d'' [Num (int (haStatus h))])
       else Ret (readAll h))"

definition DeleteStorageFile :: "bunnyClient \<Rightarrow> string \<Rightarrow> string \<Rightarrow> string \<Rightarrow> unit res prog" where
  "DeleteStorageFile c zoneName filePath accessKey =
     tryP id (httpDo (Wrapf ''storage delete: %w'' []) (Wrapf ''storage delete: %w'' []) ''DELETE'' (storageURL zoneName filePath)
         [(''AccessKey'', accessKey)] '''') (\<lambda>h.
       if haStatus h \<noteq> 200 \<and> haStatus h \<noteq> 204
       then fail (Errorf ''storage delete: HTTP %d: %s'' [Num (int (haStatus h)), Str (take 1024 (haBody h))])
       else okP)"

section \<open>Record types of DNS\<close>

definition dnsTypeToName :: "(int \<times> string) list" where
  "dnsTypeToName = [(0, ''A''), (1, ''AAAA''), (2, ''CNAME''), (3, ''TXT''), (4, ''MX''), (5, ''Redirect''),
     (6, ''Flatten''), (7, ''PullZone''), (8, ''SRV''), (9, ''CAA''), (10, ''PTR''), (11, ''Script''),
     (12, ''NS''), (13, ''SVCB''), (14, ''HTTPS''), (15, ''TLSA'')]"

definition nameToDNSType :: "(string \<times> int) list" where
  "nameToDNSType = map (\<lambda>(k, v). (v, k)) dnsTypeToName"

text \<open>Upper case as \<open>strings.ToUpper\<close> has it on ASCII.\<close>

definition parseInt32 :: "string \<Rightarrow> int option" where
  "parseInt32 s = (case atoi s of None \<Rightarrow> None
     | Some n \<Rightarrow> if - (2 ^ 31) \<le> n \<and> n < 2 ^ 31 then Some n else None)"

definition ParseDNSRecordType :: "string \<Rightarrow> int" where
  "ParseDNSRecordType s =
     (case map_of nameToDNSType (toUpper s) of Some t \<Rightarrow> t
      | None \<Rightarrow> (case parseInt32 s of Some n \<Rightarrow> n | None \<Rightarrow> 0))"

definition DNSRecordTypeName :: "int \<Rightarrow> string" where
  "DNSRecordTypeName t = (case map_of dnsTypeToName t of Some n \<Rightarrow> n | None \<Rightarrow> itoa t)"

section \<open>Shield: the remaining requests\<close>

definition ListWAFProfiles :: "bunnyClient \<Rightarrow> json list res prog" where
  "ListWAFProfiles c =
     tryP id (bunnyDo c ''GET'' ''shield'' ''/waf/profiles'' None (Into ''struct{data [][]WAFProfile}'')) (\<lambda>r.
       Ret (Inr (concat (map jlist (jlist (jfield ''data'' r))))))"

definition GetEventLogs :: "bunnyClient \<Rightarrow> int \<Rightarrow> string \<Rightarrow> string \<Rightarrow> json list res prog" where
  "GetEventLogs c zoneID day continuationToken =
     (let path = sprintf ''/event-logs/%d/%s'' [Num zoneID, Str day]
        @ (if continuationToken \<noteq> '''' then ''/'' @ continuationToken else '''')
      in tryP id (bunnyDo c ''GET'' ''shield'' path None (Into ''struct{data []EventRow}'')) (\<lambda>r.
           Ret (Inr (jlist (jfield ''data'' r)))))"

section \<open>Scripts, videos, searches, invoices and logs: the remaining requests\<close>

definition CreateEdgeScript :: "bunnyClient \<Rightarrow> string \<Rightarrow> int \<Rightarrow> json res prog" where
  "CreateEdgeScript c nam kind =
     tryP id (bunnyDo c ''POST'' ''core'' ''/compute/script'' (Some (jobj [(''Name'', jS nam), (''Type'', jI kind)]))
         (Into ''struct{Id int64}'')) (\<lambda>r.
       Ret (Inr (jobj [(''Id'', jI (jint (jfield ''Id'' r))), (''Name'', jS nam), (''Type'', jI kind)])))"

definition GetLibraryAPIKey :: "bunnyClient \<Rightarrow> int \<Rightarrow> string res prog" where
  "GetLibraryAPIKey c libID =
     tryP id (GetVideoLibrary c libID) (\<lambda>lib.
       if jtext (jfield ''ApiKey'' lib) = '''' then fail (Errorf ''library %d has no API key'' [Num libID])
       else Ret (Inr (jtext (jfield ''ApiKey'' lib))))"

definition ListVideos :: "bunnyClient \<Rightarrow> int \<Rightarrow> string \<Rightarrow> int \<Rightarrow> int \<Rightarrow> json list res prog" where
  "ListVideos c libID accessKey page perPage =
     tryP id (streamDo c libID accessKey ''GET'' (sprintf ''/videos?page=%d&itemsPerPage=%d'' [Num page, Num perPage]) None
         (Into ''struct{items []Video;totalItems int}'')) (\<lambda>r. Ret (Inr (jlist (jfield ''items'' r))))"

text \<open>Here the key of the account wins over the key of the library.\<close>

definition AddCaption :: "bunnyClient \<Rightarrow> int \<Rightarrow> string \<Rightarrow> string \<Rightarrow> string \<Rightarrow> string \<Rightarrow> string \<Rightarrow> unit res prog" where
  "AddCaption c libID accessKey videoID srclang lab captions =
     tryP id (httpDo (Wrapf ''add caption request: %w'' []) (Wrapf ''add caption do: %w'' []) ''POST''
         (sprintf ''https://video.bunnycdn.com/library/%d/videos/%s/captions/%s'' [Num libID, Str videoID, Str srclang])
         [(''AccessKey'', if bcKey c \<noteq> '''' then bcKey c else accessKey)] captions) (\<lambda>h.
       if haStatus h < 200 \<or> haStatus h \<ge> 300
       then fail (Errorf ''add caption: HTTP %d: %s'' [Num (int (haStatus h)), Str (take 1024 (haBody h))])
       else okP)"

text \<open>No settings are a nil pointer, written as \<open>null\<close>.\<close>

definition TranscribeVideo :: "bunnyClient \<Rightarrow> int \<Rightarrow> string \<Rightarrow> string \<Rightarrow> bool \<Rightarrow> json option \<Rightarrow> unit res prog" where
  "TranscribeVideo c libID accessKey videoID forced settings =
     tryP id (streamDo c libID accessKey ''POST''
         (sprintf ''/videos/%s/transcribe?force=%s'' [Str videoID, Str (boolText forced)])
         (Some (case settings of None \<Rightarrow> JNull | Some j \<Rightarrow> j)) NoDst) (\<lambda>_. okP)"

definition GlobalSearch :: "bunnyClient \<Rightarrow> string \<Rightarrow> int \<Rightarrow> int \<Rightarrow> json res prog" where
  "GlobalSearch c qry since sz =
     bunnyDo c ''GET'' ''core'' (sprintf ''/search?query=%s&from=%d&size=%d'' [Str qry, Num since, Num sz]) None
       (Into ''SearchResults'')"

definition GetBillingInvoicePDF :: "bunnyClient \<Rightarrow> int \<Rightarrow> string res prog" where
  "GetBillingInvoicePDF c recordID =
     tryP id (httpDo id id ''GET'' (sprintf ''%s/billing/summary/%d/pdf'' [Str (baseURL ''core''), Num recordID])
         [(''AccessKey'', bcKey c)] '''') (\<lambda>h.
       if haStatus h \<noteq> 200 then fail (Errorf ''billing pdf: HTTP %d'' [Num (int (haStatus h))])
       else Ret (readAll h))"

definition keyHeader :: "bunnyClient \<Rightarrow> (string \<times> string) list" where
  "keyHeader c = (if bcKey c \<noteq> '''' then [(''AccessKey'', bcKey c)] else [])"

definition GetOriginErrors :: "bunnyClient \<Rightarrow> int \<Rightarrow> string \<Rightarrow> json list res prog" where
  "GetOriginErrors c pullZoneID day =
     tryP id (httpDo (Wrapf ''origin-errors request: %w'' []) (Wrapf ''origin-errors do: %w'' []) ''GET''
         (sprintf ''https://api.bunny.net/origin-error/%d/%s'' [Num pullZoneID, Str day])
         ([(''Accept'', ''application/json'')] @ keyHeader c) '''') (\<lambda>h.
       if haStatus h \<noteq> 200
       then fail (Errorf ''origin-errors: HTTP %d: %s'' [Num (int (haStatus h)), Str (take 1024 (haBody h))])
       else (case decodeBody c ''struct{data []OriginErrorEntry}'' h of
           Inl e \<Rightarrow> fail (Wrapf ''origin-errors decode: %w'' [] e)
         | Inr j \<Rightarrow> Ret (Inr (jlist (jfield ''data'' j)))))"

definition QueryCDNLogs :: "bunnyClient \<Rightarrow> int \<Rightarrow> string \<Rightarrow> string \<Rightarrow> string \<Rightarrow> int \<Rightarrow> string \<Rightarrow> json res prog" where
  "QueryCDNLogs c pullZoneID since until statuses limit order =
     (let u = sprintf ''%s/v2/pullzones/%d/logs?from=%s&to=%s'' [Str (baseURL ''logging''), Num pullZoneID, Str since, Str until]
        @ (if statuses \<noteq> '''' then ''&status='' @ statuses else '''')
        @ (if limit > 0 then sprintf ''&limit=%d'' [Num limit] else '''')
        @ (if order \<noteq> '''' then ''&order='' @ order else '''')
      in tryP id (httpDo (Wrapf ''cdn logs request: %w'' []) (Wrapf ''cdn logs do: %w'' []) ''GET'' u
           ([(''Accept'', ''application/json'')] @ keyHeader c) '''') (\<lambda>h.
         if haStatus h \<noteq> 200
         then fail (Errorf ''cdn logs: HTTP %d: %s'' [Num (int (haStatus h)), Str (take 1024 (haBody h))])
         else (case decodeBody c ''CDNLogResponse'' h of
             Inl e \<Rightarrow> fail (Wrapf ''cdn logs decode: %w'' [] e)
           | Inr j \<Rightarrow> Ret (Inr j))))"

section \<open>Containers: the remaining requests\<close>

definition ListApps :: "bunnyClient \<Rightarrow> string \<Rightarrow> int \<Rightarrow> json res prog" where
  "ListApps c cursor limit =
     (let q = (if cursor \<noteq> '''' then ''?nextCursor='' @ cursor else '''');
          q = (if limit > 0 then (if q = '''' then ''?limit='' else q @ ''&limit='') @ itoa limit else q)
      in bunnyDo c ''GET'' ''mc'' (''/apps'' @ q) None (Into ''ListApplicationsResponse''))"

definition GetAppStatistics :: "bunnyClient \<Rightarrow> string \<Rightarrow> string \<Rightarrow> string \<Rightarrow> string \<Rightarrow> json res prog" where
  "GetAppStatistics c appID since until granularity =
     bunnyDo c ''GET'' ''mc'' (''/apps/'' @ appID @ ''/statistics?fromDate='' @ since @ ''&granularity='' @ granularity
       @ (if until \<noteq> '''' then ''&toDate='' @ until else '''')) None (Into ''Statistics'')"

record deployOptions =
  boAppName :: string
  boRuntime :: string
  boMin :: int
  boMax :: int
  boRegions :: "string list"
  boImage :: string
  boDigest :: string
  boPort :: int
  boEnv :: "string dict"
  boVolName :: string
  boVolSize :: int
  boVolPath :: string
  boRegistry :: string
  boAnycast :: bool

text \<open>
  The tag is what follows the last colon that is neither at the start nor behind a slash.
  \<open>tagFrom\<close> walks down from an index.
\<close>

fun tagFrom :: "string \<Rightarrow> nat \<Rightarrow> nat option" where
  "tagFrom ref 0 = None"
| "tagFrom ref (Suc i) =
     (if ref ! i = CHR '':'' \<and> i > 0 \<and> ref ! (i - 1) \<noteq> CHR ''/'' then Some i else tagFrom ref i)"

definition splitPath :: "string \<Rightarrow> string list" where
  "splitPath s = splitOn CHR ''/'' s"

definition parseImageRef :: "string \<Rightarrow> string \<times> string \<times> string" where
  "parseImageRef ref =
     (let (tag, repo) = (case tagFrom ref (length ref) of
            Some i \<Rightarrow> (drop (Suc i) ref, take i ref) | None \<Rightarrow> (''latest'', ''''));
          repo = (if repo = '''' then ref else repo);
          parts = splitPath repo; n = length parts
      in if n = 1 then (''library'', parts ! 0, tag)
         else if n = 2 then (parts ! 0, parts ! 1, tag)
         else if n = 3 then (parts ! 1, parts ! 2, tag)
         else (parts ! (n - 2), parts ! (n - 1), tag))"

definition envVar :: "string \<times> string \<Rightarrow> json" where
  "envVar kv = jobj [(''name'', jS (fst kv)), (''value'', eS (snd kv))]"

definition envMapToSlice :: "string dict \<Rightarrow> json list prog" where
  "envMapToSlice env = bind (mapOrder env) (\<lambda>kvs. Ret (map envVar kvs))"

definition anycastEndpoint :: "string \<Rightarrow> int \<Rightarrow> json" where
  "anycastEndpoint nam port =
     jobj [(''displayName'', jS nam), (''anycast'', Some (jobj [(''type'', jS ''iPv4''),
       (''portMappings'', jA [jobj [(''containerPort'', jI port), (''exposedPort'', jI port),
          (''protocols'', jA [JStr ''tcp''])]])]))]"

definition buildEndpoint :: "int \<Rightarrow> bool \<Rightarrow> json" where
  "buildEndpoint port anycast =
     (if anycast then anycastEndpoint ''HTTP-Anycast'' port
      else jobj [(''displayName'', jS ''HTTP''), (''cdn'', Some (jobj [(''isSslEnabled'', eB True),
        (''portMappings'', jA [jobj [(''containerPort'', jI port), (''protocols'', jA [JStr ''tcp''])]])]))])"

definition detectRegistryID :: "string \<Rightarrow> string" where
  "detectRegistryID img = (if length img > 7 \<and> take 8 img = ''ghcr.io/'' then ''1156'' else ''1155'')"

text \<open>The zero options are replaced before the request is built.\<close>

definition deployDefaults :: "deployOptions \<Rightarrow> deployOptions" where
  "deployDefaults opts = opts\<lparr>
     boMin := (if boMin opts = 0 then 1 else boMin opts),
     boMax := (if boMax opts = 0 then 1 else boMax opts),
     boRuntime := (if boRuntime opts = '''' then ''shared'' else boRuntime opts),
     boRegions := (if boRegions opts = [] then [''CO''] else boRegions opts),
     boVolSize := (if boVolName opts \<noteq> '''' \<and> boVolPath opts \<noteq> '''' \<and> boVolSize opts = 0 then 5 else boVolSize opts)\<rparr>"

definition containerRequest :: "deployOptions \<Rightarrow> json list \<Rightarrow> json" where
  "containerRequest opts env =
     (let (namespace, nam, tag) = parseImageRef (boImage opts);
          volume = boVolName opts \<noteq> '''' \<and> boVolPath opts \<noteq> ''''
      in jobj [(''name'', jS ''app''), (''imageName'', jS nam), (''imageNamespace'', jS namespace), (''imageTag'', jS tag),
           (''imageDigest'', eS (boDigest opts)),
           (''imageRegistryId'', jS (if boRegistry opts = '''' then detectRegistryID (boImage opts) else boRegistry opts)),
           (''imagePullPolicy'', jS ''ifNotPresent''), (''environmentVariables'', eA env),
           (''endpoints'', jA [buildEndpoint (boPort opts) (boAnycast opts)]),
           (''volumeMounts'', if volume then jA [jobj [(''name'', jS (boVolName opts)), (''mountPath'', jS (boVolPath opts))]]
              else None)])"

definition applicationRequest :: "deployOptions \<Rightarrow> json list \<Rightarrow> json" where
  "applicationRequest opts env =
     jobj [(''name'', jS (boAppName opts)), (''runtimeType'', jS (boRuntime opts)),
       (''autoScaling'', Some (jobj [(''min'', jI (boMin opts)), (''max'', jI (boMax opts))])),
       (''regionSettings'', Some (jobj [(''allowedRegionIds'', eA (map JStr (boRegions opts))),
          (''requiredRegionIds'', eA (map JStr (boRegions opts)))])),
       (''containerTemplates'', jA [containerRequest opts env]),
       (''volumes'', if boVolName opts \<noteq> '''' \<and> boVolPath opts \<noteq> ''''
          then jA [jobj [(''name'', jS (boVolName opts)), (''size'', jI (boVolSize opts))]] else None)]"

definition DeployFromImage :: "bunnyClient \<Rightarrow> deployOptions \<Rightarrow> json res prog" where
  "DeployFromImage c opts =
     (let opts = deployDefaults opts
      in bind (envMapToSlice (boEnv opts)) (\<lambda>env. CreateApp c (applicationRequest opts env)))"

end
