(* ===== verification/BunnyCommands.thy ===== *)
theory BunnyCommands imports BunnyClient Monitor begin

text \<open>
  The commands of \<open>sdk-ops bunny\<close> (\<open>cmd/sdk-ops/bunny.go\<close>): the flags they share, the client
  and its key, and each command as the requests it makes. What a command prints is not modelled:
  a definition ends with the last request and its error.
\<close>

section \<open>Flags\<close>

text \<open>
  All commands keep their flags in one variable. Registering a flag stores its default there, so
  a command that does not get a flag sees the default of the last registration of the same field.
\<close>

record bunnyFlags =
  bfApiKey :: string
  bfRegion :: string
  bfMinInst :: int
  bfMaxInst :: int
  bfPort :: int
  bfVolumeName :: string
  bfVolumeSize :: int
  bfVolumePath :: string
  bfEnv :: string
  bfRecordType :: string
  bfTTL :: int
  bfPriority :: int
  bfOrigin :: string
  bfHostname :: string
  bfRegistryID :: string
  bfDigest :: string
  bfAnycast :: bool
  bfEndpointPort :: int

definition zeroFlags :: bunnyFlags where
  "zeroFlags = \<lparr>bfApiKey = '''', bfRegion = '''', bfMinInst = 0, bfMaxInst = 0, bfPort = 0, bfVolumeName = '''',
     bfVolumeSize = 0, bfVolumePath = '''', bfEnv = '''', bfRecordType = '''', bfTTL = 0, bfPriority = 0,
     bfOrigin = '''', bfHostname = '''', bfRegistryID = '''', bfDigest = '''', bfAnycast = False, bfEndpointPort = 0\<rparr>"

definition flagsAppCreate :: "bunnyFlags \<Rightarrow> bunnyFlags" where
  "flagsAppCreate f = f\<lparr>bfOrigin := '''', bfPort := 8080, bfRegion := ''CO'', bfMinInst := 1, bfMaxInst := 1,
     bfEnv := '''', bfVolumeName := '''', bfVolumeSize := 5, bfVolumePath := '''', bfRegistryID := '''',
     bfDigest := '''', bfAnycast := False\<rparr>"

definition flagsEndpoint :: "bunnyFlags \<Rightarrow> bunnyFlags" where
  "flagsEndpoint f = f\<lparr>bfEndpointPort := 3000\<rparr>"

definition flagsRecordAdd :: "bunnyFlags \<Rightarrow> bunnyFlags" where
  "flagsRecordAdd f = f\<lparr>bfRecordType := ''A'', bfHostname := ''@'', bfOrigin := '''', bfTTL := 120, bfPriority := 0\<rparr>"

definition flagsPullZoneCreate :: "bunnyFlags \<Rightarrow> bunnyFlags" where
  "flagsPullZoneCreate f = f\<lparr>bfOrigin := ''''\<rparr>"

definition flagsEdgeRule :: "bunnyFlags \<Rightarrow> bunnyFlags" where
  "flagsEdgeRule f = f\<lparr>bfHostname := '''', bfOrigin := ''''\<rparr>"

definition flagsStorageCreate :: "bunnyFlags \<Rightarrow> bunnyFlags" where
  "flagsStorageCreate f = f\<lparr>bfOrigin := ''DE''\<rparr>"

text \<open>The order in which \<open>newBunnyCmd\<close> builds its subcommands.\<close>

definition registeredFlags :: bunnyFlags where
  "registeredFlags = foldl (\<lambda>f g. g f) (zeroFlags\<lparr>bfApiKey := ''''\<rparr>)
     [flagsAppCreate, flagsEndpoint, flagsRecordAdd, flagsPullZoneCreate, flagsEdgeRule, flagsStorageCreate]"

definition regionAliases :: "(string \<times> string) list" where
  "regionAliases =
     [(''bogota'', ''CO''), (''colombia'', ''CO''), (''latam'', ''CO''), (''miami'', ''MI''), (''usa'', ''MI''),
      (''us'', ''MI''), (''na'', ''MI''), (''frankfurt'', ''DE''), (''germany'', ''DE''), (''europe'', ''DE''),
      (''eu'', ''DE''), (''london'', ''UK''), (''uk'', ''UK''), (''tokyo'', ''JP''), (''japan'', ''JP''),
      (''singapore'', ''SG''), (''sg'', ''SG''), (''sydney'', ''SYD''), (''brazil'', ''BR''), (''mexico'', ''MX''),
      (''ny'', ''NY''), (''newyork'', ''NY''), (''la'', ''LA''), (''losangeles'', ''LA''), (''dallas'', ''TX''),
      (''texas'', ''TX''), (''paris'', ''FR''), (''france'', ''FR''), (''spain'', ''ES''), (''italy'', ''IT''),
      (''poland'', ''PL''), (''sweden'', ''SE'')]"

definition resolveRegion :: "string \<Rightarrow> string" where
  "resolveRegion s =
     (if s = '''' then ''CO''
      else (case map_of regionAliases (toLower s) of Some r \<Rightarrow> r | None \<Rightarrow> toUpper s))"

section \<open>The client\<close>

definition bunnyClientOf :: "decoder \<Rightarrow> bunnyFlags \<Rightarrow> bunnyClient res prog" where
  "bunnyClientOf dec f =
     bind (apiKeyFrom (bfApiKey f) ''BUNNY_API_KEY'' ''bunny_api_key'') (\<lambda>key.
       if key = '''' then fail (Panic ''exit 1'') else Ret (Inr \<lparr>bcKey = key, bcDec = dec\<rparr>))"

text \<open>The error of \<open>strconv.ParseInt\<close>, and the two ways the commands read an identifier.\<close>

definition parseIntError :: "string \<Rightarrow> goerr" where
  "parseIntError s = Ext (''strconv.ParseInt: parsing '' @ quote_str s @ '': ''
     @ (case atoi_digits (case s of [] \<Rightarrow> [] | c # r \<Rightarrow> if c = CHR ''-'' \<or> c = CHR ''+'' then r else s) of
          None \<Rightarrow> ''invalid syntax'' | Some n \<Rightarrow> ''value out of range''))"

definition withID :: "string \<Rightarrow> string \<Rightarrow> (int \<Rightarrow> unit res prog) \<Rightarrow> unit res prog" where
  "withID msg s f = (case atoi s of None \<Rightarrow> fail (Wrapf msg [] (parseIntError s)) | Some n \<Rightarrow> f n)"

definition parseInt64 :: "string \<Rightarrow> int" where
  "parseInt64 s = atoiVal s"

definition thenOk :: "'a res prog \<Rightarrow> unit res prog" where
  "thenOk p = tryP id p (\<lambda>_. okP)"

section \<open>Applications\<close>

text \<open>The variables of \<open>--env\<close>: a later key replaces an earlier one.\<close>

definition envEntry :: "string dict \<Rightarrow> string \<Rightarrow> string dict" where
  "envEntry m e =
     (let e = trimSpace e; k = takeWhile (\<lambda>x. x \<noteq> CHR ''='') e; v = dropWhile (\<lambda>x. x \<noteq> CHR ''='') e
      in if e = '''' \<or> v = '''' then m else mput m k (drop 1 v))"

definition createEnv :: "string \<Rightarrow> string dict" where
  "createEnv s = foldl envEntry [] (splitOn CHR '','' s)"

definition createOptions :: "bunnyFlags \<Rightarrow> string \<Rightarrow> deployOptions" where
  "createOptions f nam =
     \<lparr>boAppName = nam, boRuntime = '''', boMin = bfMinInst f, boMax = bfMaxInst f,
      boRegions = [resolveRegion (bfRegion f)], boImage = bfOrigin f, boDigest = bfDigest f, boPort = bfPort f,
      boEnv = createEnv (bfEnv f), boVolName = bfVolumeName f, boVolSize = bfVolumeSize f,
      boVolPath = bfVolumePath f, boRegistry = bfRegistryID f, boAnycast = bfAnycast f\<rparr>"

definition runBunnyAppCreate :: "bunnyFlags \<Rightarrow> string \<Rightarrow> bunnyClient \<Rightarrow> unit res prog" where
  "runBunnyAppCreate f nam c = thenOk (DeployFromImage c (createOptions f nam))"

text \<open>The endpoint goes to the first container of the application; the list of endpoints is only printed.\<close>

definition runBunnyAppEndpointAddAnycast :: "bunnyFlags \<Rightarrow> string \<Rightarrow> bunnyClient \<Rightarrow> unit res prog" where
  "runBunnyAppEndpointAddAnycast f app c =
     (let port = (if bfEndpointPort f = 0 then 3000 else bfEndpointPort f)
      in tryP (Wrapf ''get app: %w'' []) (GetApp c app) (\<lambda>a.
           case jlist (jfield ''containerTemplates'' a) of
             [] \<Rightarrow> fail (Errorf ''no containers in app %s'' [Str app])
           | t # ts \<Rightarrow> tryP id (AddEndpoint c app (jtext (jfield ''id'' t)) (anycastEndpoint ''Anycast-Bench'' port)) (\<lambda>_.
               bind (ListEndpoints c app) (\<lambda>_. okP))))"

definition runBunnyAppStatus :: "string \<Rightarrow> bunnyClient \<Rightarrow> unit res prog" where
  "runBunnyAppStatus app c = tryP id (GetApp c app) (\<lambda>_. bind (GetAppOverview c app) (\<lambda>_. okP))"

definition runBunnyAppOverview :: "string \<Rightarrow> bunnyClient \<Rightarrow> unit res prog" where
  "runBunnyAppOverview app c = tryP id (GetAppOverview c app) (\<lambda>_. bind (GetAppUsageSummary c app) (\<lambda>_. okP))"

section \<open>DNS and pull zones\<close>

definition runBunnyDNSRecordAdd :: "bunnyFlags \<Rightarrow> string \<Rightarrow> bunnyClient \<Rightarrow> unit res prog" where
  "runBunnyDNSRecordAdd f zone c =
     withID ''invalid zone ID: %w'' zone (\<lambda>zoneID.
       let ttl = (if bfTTL f = 0 then 120 else bfTTL f)
       in if bfOrigin f = '''' then fail (Errorf ''--value is required'' [])
          else thenOk (AddDNSRecord c zoneID (jobj
            [(''type'', jI (ParseDNSRecordType (bfRecordType f))), (''name'', jS (bfHostname f)),
             (''value'', jS (bfOrigin f)), (''ttl'', jI ttl),
             (''priority'', if bfPriority f > 0 then jI (bfPriority f) else None)])))"

definition runBunnyDNSRecordDelete :: "string \<Rightarrow> string \<Rightarrow> bunnyClient \<Rightarrow> unit res prog" where
  "runBunnyDNSRecordDelete zone rec c =
     withID ''invalid zone ID: %w'' zone (\<lambda>zoneID.
       withID ''invalid record ID: %w'' rec (\<lambda>recordID. DeleteDNSRecord c zoneID recordID))"

definition runBunnyEdgeRuleAdd :: "bunnyFlags \<Rightarrow> string \<Rightarrow> bunnyClient \<Rightarrow> unit res prog" where
  "runBunnyEdgeRuleAdd f zone c =
     withID ''invalid zone ID: %w'' zone (\<lambda>zoneID. AddEdgeRule c zoneID (jobj
       [(''description'', eS (bfHostname f)), (''enabled'', jB True),
        (''triggers'', jA [jobj [(''type'', jI 0), (''parameter1'', eS ''/*'')]]),
        (''actions'', jA [jobj [(''type'', jI 3), (''parameter1'', eS (bfOrigin f))]])]))"

definition runBunnyPullZoneCreate :: "bunnyFlags \<Rightarrow> string \<Rightarrow> bunnyClient \<Rightarrow> unit res prog" where
  "runBunnyPullZoneCreate f nam c =
     CreatePullZone c (jobj [(''name'', jS nam), (''originUrl'', eS (bfOrigin f))])"

definition runBunnyScriptSetCode :: "string \<Rightarrow> string \<Rightarrow> bunnyClient \<Rightarrow> unit res prog" where
  "runBunnyScriptSetCode ident file c =
     withID ''invalid script ID: %w'' ident (\<lambda>n.
       tryP (Wrapf ''read file: %w'' []) (readFile file) (\<lambda>code. SetEdgeScriptCode c n code))"

section \<open>Storage\<close>

definition runBunnyStorageCreate :: "bunnyFlags \<Rightarrow> string \<Rightarrow> bunnyClient \<Rightarrow> unit res prog" where
  "runBunnyStorageCreate f nam c =
     thenOk (CreateStorageZone c (jobj [(''Name'', jS nam), (''Region'', eS (bfOrigin f))]))"

text \<open>The password of the first zone of that name.\<close>

primrec zonePassword :: "string \<Rightarrow> json list \<Rightarrow> string res" where
  "zonePassword zoneName [] = Inl (Errorf ''zone %q not found'' [Str zoneName])"
| "zonePassword zoneName (z # zs) =
     (if jtext (jfield ''Name'' z) = zoneName
      then (if jtext (jfield ''Password'' z) \<noteq> '''' then Inr (jtext (jfield ''Password'' z))
            else Inl (Errorf ''zone %q has no password'' [Str zoneName]))
      else zonePassword zoneName zs)"

definition getStorageAccessKey :: "bunnyClient \<Rightarrow> string \<Rightarrow> string res prog" where
  "getStorageAccessKey c zoneName =
     tryP id (ListStorageZones c) (\<lambda>zones. Ret (zonePassword zoneName (jlist zones)))"

definition runBunnyFileUpload :: "string \<Rightarrow> string \<Rightarrow> string \<Rightarrow> bunnyClient \<Rightarrow> unit res prog" where
  "runBunnyFileUpload zoneName path file c =
     tryP id (getStorageAccessKey c zoneName) (\<lambda>ak.
       tryP (Wrapf ''read file: %w'' []) (readFile file) (\<lambda>content.
         UploadStorageFile c zoneName path (last (splitOn CHR ''/'' file)) content ak))"

definition runBunnyFileDownload :: "string \<Rightarrow> string \<Rightarrow> string \<Rightarrow> bunnyClient \<Rightarrow> unit res prog" where
  "runBunnyFileDownload zoneName path file c =
     tryP id (getStorageAccessKey c zoneName) (\<lambda>ak.
       tryP id (DownloadStorageFile c zoneName path ak) (\<lambda>content.
         tryP (Wrapf ''write file: %w'' []) (writeFile file content) (\<lambda>_. okP)))"

section \<open>Videos\<close>

definition withLibrary :: "string \<Rightarrow> bunnyClient \<Rightarrow> (int \<Rightarrow> string \<Rightarrow> unit res prog) \<Rightarrow> unit res prog" where
  "withLibrary lib c f =
     (let libID = parseInt64 lib in tryP id (GetLibraryAPIKey c libID) (\<lambda>ak. f libID ak))"

definition runStreamUpdate :: "string \<Rightarrow> string \<Rightarrow> string \<Rightarrow> bunnyClient \<Rightarrow> unit res prog" where
  "runStreamUpdate l v t c = withLibrary l c (\<lambda>n ak. thenOk (UpdateVideo c n ak v (jobj [(''title'', jS t)])))"

definition runStreamResolutions :: "string \<Rightarrow> string \<Rightarrow> bunnyClient \<Rightarrow> unit res prog" where
  "runStreamResolutions l v c = withLibrary l c (\<lambda>n ak. thenOk (GetVideoResolutions c n ak v))"

definition runStreamCreate :: "string \<Rightarrow> string \<Rightarrow> bunnyClient \<Rightarrow> unit res prog" where
  "runStreamCreate l t c = withLibrary l c (\<lambda>n ak. thenOk (CreateVideo c n ak t))"

definition runStreamList :: "string \<Rightarrow> bunnyClient \<Rightarrow> unit res prog" where
  "runStreamList l c = withLibrary l c (\<lambda>n ak. thenOk (ListVideos c n ak 1 100))"

definition runStreamGet :: "string \<Rightarrow> string \<Rightarrow> bunnyClient \<Rightarrow> unit res prog" where
  "runStreamGet l v c = withLibrary l c (\<lambda>n ak. thenOk (GetVideo c n ak v))"

definition runStreamFetch :: "string \<Rightarrow> string \<Rightarrow> bunnyClient \<Rightarrow> unit res prog" where
  "runStreamFetch l u c = withLibrary l c (\<lambda>n ak. thenOk (FetchVideo c n ak u))"

definition runStreamDelete :: "string \<Rightarrow> string \<Rightarrow> bunnyClient \<Rightarrow> unit res prog" where
  "runStreamDelete l v c = withLibrary l c (\<lambda>n ak. DeleteVideo c n ak v)"

definition runStreamUpload :: "string \<Rightarrow> string \<Rightarrow> string \<Rightarrow> bunnyClient \<Rightarrow> unit res prog" where
  "runStreamUpload lib video file c =
     withLibrary lib c (\<lambda>libID ak.
       tryP (Wrapf ''read file: %w'' []) (readFile file) (\<lambda>content.
       tryP id (httpDo (Wrapf ''upload request: %w'' []) (Wrapf ''upload: %w'' []) ''PUT''
           (sprintf ''https://video.bunnycdn.com/library/%d/videos/%s'' [Num libID, Str video])
           [(''AccessKey'', ak), (''Content-Type'', ''application/octet-stream'')] content) (\<lambda>h.
         if haStatus h \<noteq> 200
         then fail (Errorf ''upload: HTTP %d: %s'' [Num (int (haStatus h)), Str (take 1024 (haBody h))])
         else okP)))"

section \<open>The commands\<close>

text \<open>The tree of subcommands. Billing, statistics, countries and regions only report.\<close>

datatype appCommand =
    AppLogs string | AppOverview string | AppAddAnycast string | AppCreate string | AppList | AppStatus string | AppDelete string | AppDeploy string | AppRestart string

primrec runApp :: "bunnyFlags \<Rightarrow> appCommand \<Rightarrow> bunnyClient \<Rightarrow> unit res prog" where
  "runApp f (AppLogs a) c = thenOk (GetAppOverview c a)"
| "runApp f (AppOverview a) c = runBunnyAppOverview a c"
| "runApp f (AppAddAnycast a) c = runBunnyAppEndpointAddAnycast f a c"
| "runApp f (AppCreate a) c = runBunnyAppCreate f a c"
| "runApp f AppList c = thenOk (ListApps c '''' 100)"
| "runApp f (AppStatus a) c = runBunnyAppStatus a c"
| "runApp f (AppDelete a) c = DeleteApp c a"
| "runApp f (AppDeploy a) c = DeployApp c a"
| "runApp f (AppRestart a) c = RestartApp c a"

datatype dnsCommand =
    ZoneList | ZoneAdd string | ZoneDelete string | RecordList string | RecordAdd string | RecordDelete string string

primrec runDNS :: "bunnyFlags \<Rightarrow> dnsCommand \<Rightarrow> bunnyClient \<Rightarrow> unit res prog" where
  "runDNS f ZoneList c = thenOk (ListDNSZones c)"
| "runDNS f (ZoneAdd d) c = AddDNSZone c d"
| "runDNS f (ZoneDelete z) c = withID ''invalid zone ID: %w'' z (DeleteDNSZone c)"
| "runDNS f (RecordList z) c = withID ''invalid zone ID: %w'' z (\<lambda>n. thenOk (ListDNSRecords c n))"
| "runDNS f (RecordAdd z) c = runBunnyDNSRecordAdd f z c"
| "runDNS f (RecordDelete z r) c = runBunnyDNSRecordDelete z r c"

datatype pullZoneCommand =
    RuleAdd string | RuleList string | RuleDelete string string | PullList | PullCreate string | PullDelete string | PullPurge string

primrec runPullZone :: "bunnyFlags \<Rightarrow> pullZoneCommand \<Rightarrow> bunnyClient \<Rightarrow> unit res prog" where
  "runPullZone f (RuleAdd z) c = runBunnyEdgeRuleAdd f z c"
| "runPullZone f (RuleList z) c = withID ''invalid zone ID: %w'' z (\<lambda>n. thenOk (GetPullZone c n))"
| "runPullZone f (RuleDelete z r) c = withID ''invalid zone ID: %w'' z (\<lambda>n. DeleteEdgeRule c n r)"
| "runPullZone f PullList c = thenOk (ListPullZones c)"
| "runPullZone f (PullCreate a) c = runBunnyPullZoneCreate f a c"
| "runPullZone f (PullDelete z) c = withID ''invalid zone ID: %w'' z (DeletePullZone c)"
| "runPullZone f (PullPurge z) c = withID ''invalid zone ID: %w'' z (\<lambda>n. PurgePullZoneCache c n '''')"

datatype scriptCommand =
    ScriptCreate string | ScriptList | ScriptDelete string | ScriptCode string string | ScriptPublish string

primrec runScript :: "scriptCommand \<Rightarrow> bunnyClient \<Rightarrow> unit res prog" where
  "runScript (ScriptCreate a) c = thenOk (CreateEdgeScript c a 0)"
| "runScript ScriptList c = thenOk (ListEdgeScripts c)"
| "runScript (ScriptDelete i) c = withID ''invalid script ID: %w'' i (DeleteEdgeScript c)"
| "runScript (ScriptCode i file) c = runBunnyScriptSetCode i file c"
| "runScript (ScriptPublish i) c = withID ''invalid script ID: %w'' i (PublishRelease c)"

datatype storageCommand =
    StorageList | StorageCreate string | StorageDelete string | FileList string string | FileUpload string string string | FileDownload string string string | FileDelete string string

primrec runStorage :: "bunnyFlags \<Rightarrow> storageCommand \<Rightarrow> bunnyClient \<Rightarrow> unit res prog" where
  "runStorage f StorageList c = thenOk (ListStorageZones c)"
| "runStorage f (StorageCreate a) c = runBunnyStorageCreate f a c"
| "runStorage f (StorageDelete i) c = withID ''invalid id: %w'' i (DeleteStorageZone c)"
| "runStorage f (FileList z p) c = tryP id (getStorageAccessKey c z) (\<lambda>ak. thenOk (ListStorageFiles c z p ak))"
| "runStorage f (FileUpload z p file) c = runBunnyFileUpload z p file c"
| "runStorage f (FileDownload z p file) c = runBunnyFileDownload z p file c"
| "runStorage f (FileDelete z p) c = tryP id (getStorageAccessKey c z) (\<lambda>ak. DeleteStorageFile c z p ak)"

datatype streamCommand =
    StreamStats string | LibraryList | LibraryCreate string | VideoCreate string string | VideoList string | VideoGet string string | VideoUpdate string string string | VideoFetch string string | VideoDelete string string | VideoResolutions string string | VideoUpload string string string | CollectionList string | CollectionCreate string string | CollectionDelete string string

primrec runStream :: "streamCommand \<Rightarrow> bunnyClient \<Rightarrow> unit res prog" where
  "runStream (StreamStats l) c = withLibrary l c (\<lambda>n ak. thenOk (GetVideoStatistics c n ak))"
| "runStream LibraryList c = thenOk (ListVideoLibraries c)"
| "runStream (LibraryCreate a) c = thenOk (CreateVideoLibrary c a)"
| "runStream (VideoCreate l t) c = runStreamCreate l t c"
| "runStream (VideoList l) c = runStreamList l c"
| "runStream (VideoGet l v) c = runStreamGet l v c"
| "runStream (VideoUpdate l v t) c = runStreamUpdate l v t c"
| "runStream (VideoFetch l u) c = runStreamFetch l u c"
| "runStream (VideoDelete l v) c = runStreamDelete l v c"
| "runStream (VideoResolutions l v) c = runStreamResolutions l v c"
| "runStream (VideoUpload l v file) c = runStreamUpload l v file c"
| "runStream (CollectionList l) c = withLibrary l c (\<lambda>n ak. thenOk (ListCollections c n ak))"
| "runStream (CollectionCreate l a) c = withLibrary l c (\<lambda>n ak. thenOk (CreateCollection c n ak a))"
| "runStream (CollectionDelete l i) c = withLibrary l c (\<lambda>n ak. DeleteCollection c n ak (parseInt64 i))"

datatype reportCommand =
    BillingShow | BillingSummary | BillingInvoices | StatsShow | StatsShield string | StatsSafeHop string | StatsOptimizer string | StatsDNS string | StatsStorage string | CountryList | RegionList

primrec runReport :: "reportCommand \<Rightarrow> bunnyClient \<Rightarrow> unit res prog" where
  "runReport BillingShow c = thenOk (GetBillingDetails c)"
| "runReport BillingSummary c = thenOk (GetBillingSummary c)"
| "runReport BillingInvoices c = thenOk (GetPaymentRequests c)"
| "runReport StatsShow c = thenOk (GetStatistics c)"
| "runReport (StatsShield z) c = thenOk (GetOriginShieldQueueStatistics c (parseInt64 z))"
| "runReport (StatsSafeHop z) c = thenOk (GetSafeHopStatistics c (parseInt64 z))"
| "runReport (StatsOptimizer z) c = thenOk (GetOptimizerStatistics c (parseInt64 z))"
| "runReport (StatsDNS z) c = thenOk (GetDNSZoneStatistics c (parseInt64 z))"
| "runReport (StatsStorage z) c = thenOk (GetStorageZoneStatistics c (parseInt64 z))"
| "runReport CountryList c = thenOk (GetCountryList c)"
| "runReport RegionList c = thenOk (GetRegionList c)"

datatype shieldCommand =
    ShieldList | ShieldCreate string | ShieldDelete string | WafList string | WafProfiles | RateList string | ApiGuardian string | BotDetection string

primrec runShield :: "shieldCommand \<Rightarrow> bunnyClient \<Rightarrow> unit res prog" where
  "runShield ShieldList c = thenOk (ListShieldZoneConfigs c)"
| "runShield (ShieldCreate z) c = thenOk (CreateShieldZoneV2 c (jobj [(''pullZoneId'', jI (parseInt64 z))]))"
| "runShield (ShieldDelete z) c = DeleteShieldZone c (parseInt64 z)"
| "runShield (WafList z) c = thenOk (GetWAFRules c (parseInt64 z))"
| "runShield WafProfiles c = thenOk (ListWAFProfiles c)"
| "runShield (RateList z) c = thenOk (GetRateLimitsForZone c (parseInt64 z))"
| "runShield (ApiGuardian z) c = thenOk (GetAPIGuardian c (parseInt64 z))"
| "runShield (BotDetection z) c = thenOk (GetBotDetectionConfig c (parseInt64 z))"

datatype bunnyCommand =
    Login | App appCommand | DNS dnsCommand | PullZone pullZoneCommand | Script scriptCommand
  | Storage storageCommand | Stream streamCommand | Report reportCommand | Shield shieldCommand

primrec bunnyBody :: "bunnyFlags \<Rightarrow> bunnyCommand \<Rightarrow> bunnyClient \<Rightarrow> unit res prog" where
  "bunnyBody f Login c = tryP (Wrapf ''auth failed: %w'' []) (ListDNSZones c) (\<lambda>_. okP)"
| "bunnyBody f (App x) c = runApp f x c"
| "bunnyBody f (DNS x) c = runDNS f x c"
| "bunnyBody f (PullZone x) c = runPullZone f x c"
| "bunnyBody f (Script x) c = runScript x c"
| "bunnyBody f (Storage x) c = runStorage f x c"
| "bunnyBody f (Stream x) c = runStream x c"
| "bunnyBody f (Report x) c = runReport x c"
| "bunnyBody f (Shield x) c = runShield x c"

text \<open>Every command makes its client first.\<close>

definition runBunny :: "decoder \<Rightarrow> bunnyFlags \<Rightarrow> bunnyCommand \<Rightarrow> unit res prog" where
  "runBunny dec f cmd = tryP id (bunnyClientOf dec f) (bunnyBody f cmd)"

end
