(* ===== verification/GoTypes.thy ===== *)
theory GoTypes imports GoJson "HOL-Library.Char_ord" "HOL-Library.List_Lexorder" begin

text \<open>
  What \<open>encoding/json\<close> does with a Go type: which JSON values a type accepts and what it keeps of
  them, and what a value of the type is written as. A value of a type is represented by the JSON
  value with all its fields in their order, a map by its entries in the order of the keys; a nil
  pointer, slice or map is \<open>null\<close>, a number that is zero is \<open>JNum 0\<close>. The keys of an object are
  compared without the case of their letters. An object that names one field twice is decoded as
  if it had the last of the two alone, and a number in a float field is kept as it was parsed:
  merging two values and rounding are not modelled.
\<close>

section \<open>Types\<close>

datatype gotype =
    GString | GBool | GInt nat | GFloat | GAny
  | GSlice gotype | GMap gotype | GPtr gotype | GStruct gofields
and gofields = NoField | Field string bool gotype gofields

text \<open>A struct: the name of each field in JSON, whether it is left out when it is empty, its type.\<close>

definition gstruct :: "(string \<times> bool \<times> gotype) list \<Rightarrow> gotype" where
  "gstruct fs = GStruct (foldr (\<lambda>(n, om, t). Field n om t) fs NoField)"

primrec zeroValue :: "gotype \<Rightarrow> json" and zeroFields :: "gofields \<Rightarrow> (string \<times> json) list" where
  "zeroValue GString = JStr ''''"
| "zeroValue GBool = JBool False"
| "zeroValue (GInt n) = JNum 0"
| "zeroValue GFloat = JNum 0"
| "zeroValue GAny = JNull"
| "zeroValue (GSlice t) = JNull"
| "zeroValue (GMap t) = JNull"
| "zeroValue (GPtr t) = JNull"
| "zeroValue (GStruct fs) = JObj (zeroFields fs)"
| "zeroFields NoField = []"
| "zeroFields (Field n om t fs) = (n, zeroValue t) # zeroFields fs"

section \<open>Decoding\<close>

text \<open>The entries of a map, in the order of their keys; the last entry of a key counts.\<close>

fun putEntry :: "string \<times> json \<Rightarrow> (string \<times> json) list \<Rightarrow> (string \<times> json) list" where
  "putEntry kv [] = [kv]"
| "putEntry kv (x # xs) = (if fst kv < fst x then kv # x # xs else if fst kv = fst x then kv # xs else x # putEntry kv xs)"

definition mapEntries :: "(string \<times> json) list \<Rightarrow> (string \<times> json) list" where
  "mapEntries kvs = fold putEntry kvs []"

definition intFits :: "nat \<Rightarrow> int \<Rightarrow> bool" where
  "intFits n i \<longleftrightarrow> - (2 ^ (n - 1)) \<le> i \<and> i < 2 ^ (n - 1)"

primrec allSome :: "'a option list \<Rightarrow> 'a list option" where
  "allSome [] = Some []"
| "allSome (x # xs) = (case x of None \<Rightarrow> None | Some y \<Rightarrow> map_option (Cons y) (allSome xs))"

definition member :: "string \<Rightarrow> (string \<times> json) list \<Rightarrow> json option" where
  "member n kvs = map_option snd (List.find (\<lambda>kv. toLower (fst kv) = toLower n) (rev kvs))"

primrec decodeAs :: "gotype \<Rightarrow> json \<Rightarrow> json option"
    and decodeFields :: "gofields \<Rightarrow> (string \<times> json) list \<Rightarrow> (string \<times> json) list option" where
  "decodeAs GString = (\<lambda>j. case j of JStr s \<Rightarrow> Some j | JNull \<Rightarrow> Some (JStr '''') | _ \<Rightarrow> None)"
| "decodeAs GBool = (\<lambda>j. case j of JBool b \<Rightarrow> Some j | JNull \<Rightarrow> Some (JBool False) | _ \<Rightarrow> None)"
| "decodeAs (GInt n) = (\<lambda>j. case j of JNum i \<Rightarrow> if intFits n i then Some j else None | JNull \<Rightarrow> Some (JNum 0) | _ \<Rightarrow> None)"
| "decodeAs GFloat = (\<lambda>j. case j of JNum i \<Rightarrow> Some j | JFloat s \<Rightarrow> Some j | JNull \<Rightarrow> Some (JNum 0) | _ \<Rightarrow> None)"
| "decodeAs GAny = Some"
| "decodeAs (GSlice t) = (\<lambda>j. case j of JArr js \<Rightarrow> map_option JArr (allSome (map (decodeAs t) js)) | JNull \<Rightarrow> Some JNull | _ \<Rightarrow> None)"
| "decodeAs (GMap t) = (\<lambda>j. case j of
     JObj kvs \<Rightarrow> map_option (\<lambda>es. JObj (mapEntries es)) (allSome (map (\<lambda>kv. map_option (Pair (fst kv)) (decodeAs t (snd kv))) kvs))
   | JNull \<Rightarrow> Some JNull | _ \<Rightarrow> None)"
| "decodeAs (GPtr t) = (\<lambda>j. if j = JNull then Some JNull else decodeAs t j)"
| "decodeAs (GStruct fs) = (\<lambda>j. case j of JObj kvs \<Rightarrow> map_option JObj (decodeFields fs kvs) | JNull \<Rightarrow> Some (JObj (zeroFields fs)) | _ \<Rightarrow> None)"
| "decodeFields NoField = (\<lambda>kvs. Some [])"
| "decodeFields (Field n om t fs) = (\<lambda>kvs.
     case (case member n kvs of None \<Rightarrow> Some (zeroValue t) | Some v \<Rightarrow> decodeAs t v) of None \<Rightarrow> None
     | Some v \<Rightarrow> map_option (Cons (n, v)) (decodeFields fs kvs))"

text \<open>The values a type has.\<close>

primrec typed :: "gotype \<Rightarrow> json \<Rightarrow> bool" and typedFields :: "gofields \<Rightarrow> (string \<times> json) list \<Rightarrow> bool" where
  "typed GString = (\<lambda>v. \<exists>s. v = JStr s)"
| "typed GBool = (\<lambda>v. \<exists>b. v = JBool b)"
| "typed (GInt n) = (\<lambda>v. \<exists>i. v = JNum i \<and> (intFits n i \<or> i = 0))"
| "typed GFloat = (\<lambda>v. (\<exists>i. v = JNum i) \<or> (\<exists>s. v = JFloat s))"
| "typed GAny = (\<lambda>v. True)"
| "typed (GSlice t) = (\<lambda>v. v = JNull \<or> (\<exists>js. v = JArr js \<and> list_all (typed t) js))"
| "typed (GMap t) = (\<lambda>v. v = JNull \<or> (\<exists>kvs. v = JObj kvs \<and> list_all (\<lambda>kv. typed t (snd kv)) kvs))"
| "typed (GPtr t) = (\<lambda>v. v = JNull \<or> typed t v)"
| "typed (GStruct fs) = (\<lambda>v. \<exists>kvs. v = JObj kvs \<and> typedFields fs kvs)"
| "typedFields NoField = (\<lambda>kvs. kvs = [])"
| "typedFields (Field n om t fs) = (\<lambda>kvs. \<exists>v r. kvs = (n, v) # r \<and> typed t v \<and> typedFields fs r)"

lemma allSome_Some: "allSome xs = Some ys \<longleftrightarrow> xs = map Some ys"
  by (induction xs arbitrary: ys) (auto split: option.splits)

lemma zero_typed: "typed t (zeroValue t)" and zero_typedFields: "typedFields fs (zeroFields fs)"
  by (induction t and fs) auto

lemma allSome_typed:
  assumes "allSome (map f xs) = Some ys" "\<And>x y. f x = Some y \<Longrightarrow> P y"
  shows "list_all P ys"
  using assms(1)
proof (induction xs arbitrary: ys)
  case (Cons x xs)
  then show ?case by (auto split: option.splits intro: assms(2))
qed simp

lemma list_all_putEntry: "P kv \<Longrightarrow> list_all P xs \<Longrightarrow> list_all P (putEntry kv xs)"
  by (induction xs) auto

lemma list_all_mapEntries: "list_all P kvs \<Longrightarrow> list_all P (mapEntries kvs)"
proof -
  have "list_all P kvs \<Longrightarrow> list_all P acc \<Longrightarrow> list_all P (fold putEntry kvs acc)" for acc
    by (induction kvs arbitrary: acc) (auto intro: list_all_putEntry)
  then show "list_all P kvs \<Longrightarrow> list_all P (mapEntries kvs)" by (simp add: mapEntries_def)
qed

theorem decode_typed: "decodeAs t j = Some v \<Longrightarrow> typed t v"
  and decode_typedFields: "decodeFields fs kvs = Some r \<Longrightarrow> typedFields fs r"
proof (induction t and fs arbitrary: j v and kvs r)
  case (GMap t)
  then show ?case
    by (auto split: json.splits intro!: list_all_mapEntries allSome_typed [where P = "\<lambda>kv. typed t (snd kv)"])
next
  case (GSlice t)
  then show ?case by (auto split: json.splits intro!: allSome_typed [where P = "typed t"])
next
  case (GStruct fs)
  then show ?case by (auto split: json.splits simp: zero_typedFields)
next
  case (Field n om t fs)
  from Field.prems obtain v r' where "r = (n, v) # r'" "decodeFields fs kvs = Some r'"
    and v: "(case member n kvs of None \<Rightarrow> Some (zeroValue t) | Some x \<Rightarrow> decodeAs t x) = Some v"
    by (auto split: option.splits)
  moreover from v have "typed t v" using Field.IH(1) by (auto simp: zero_typed split: option.splits)
  ultimately show ?case using Field.IH(2) by simp
qed (auto split: json.splits if_splits)

section \<open>Encoding\<close>

text \<open>What \<open>omitempty\<close> leaves out; a struct is never empty.\<close>

definition isEmpty :: "gotype \<Rightarrow> json \<Rightarrow> bool" where
  "isEmpty t v = (case t of GStruct fs \<Rightarrow> False | GPtr t \<Rightarrow> v = JNull | GAny \<Rightarrow> v = JNull
     | _ \<Rightarrow> v \<in> {JNull, JBool False, JNum 0, JStr '''', JArr [], JObj []})"

definition entriesOf :: "json \<Rightarrow> (string \<times> json) list" where
  "entriesOf v = (case v of JObj kvs \<Rightarrow> kvs | _ \<Rightarrow> [])"

primrec encodeAs :: "gotype \<Rightarrow> json \<Rightarrow> json"
    and encodeFields :: "gofields \<Rightarrow> (string \<times> json) list \<Rightarrow> (string \<times> json) list" where
  "encodeAs GString = id"
| "encodeAs GBool = id"
| "encodeAs (GInt n) = id"
| "encodeAs GFloat = id"
| "encodeAs GAny = id"
| "encodeAs (GSlice t) = (\<lambda>v. case v of JArr js \<Rightarrow> JArr (map (encodeAs t) js) | _ \<Rightarrow> v)"
| "encodeAs (GMap t) = (\<lambda>v. case v of JObj kvs \<Rightarrow> JObj (map (\<lambda>kv. (fst kv, encodeAs t (snd kv))) kvs) | _ \<Rightarrow> v)"
| "encodeAs (GPtr t) = (\<lambda>v. if v = JNull then v else encodeAs t v)"
| "encodeAs (GStruct fs) = (\<lambda>v. JObj (encodeFields fs (entriesOf v)))"
| "encodeFields NoField = (\<lambda>kvs. [])"
| "encodeFields (Field n om t fs) = (\<lambda>kvs. case kvs of [] \<Rightarrow> []
     | kv # r \<Rightarrow> (if om \<and> isEmpty t (snd kv) then [] else [(n, encodeAs t (snd kv))]) @ encodeFields fs r)"

text \<open>
  A type is well formed when no two fields of a struct differ in the case of their letters only.
  A value is canonical when no field that may be left out holds an empty slice or map that is not nil.
\<close>

primrec fieldNames :: "gofields \<Rightarrow> string list" where
  "fieldNames NoField = []"
| "fieldNames (Field n om t fs) = n # fieldNames fs"

primrec wfType :: "gotype \<Rightarrow> bool" and wfFields :: "gofields \<Rightarrow> bool" where
  "wfType GString = True"
| "wfType GBool = True"
| "wfType (GInt n) = (0 < n)"
| "wfType GFloat = True"
| "wfType GAny = True"
| "wfType (GSlice t) = wfType t"
| "wfType (GMap t) = wfType t"
| "wfType (GPtr t) = wfType t"
| "wfType (GStruct fs) = wfFields fs"
| "wfFields NoField = True"
| "wfFields (Field n om t fs) = (toLower n \<notin> set (map toLower (fieldNames fs)) \<and> wfType t \<and> wfFields fs)"

primrec canonical :: "gotype \<Rightarrow> json \<Rightarrow> bool" and canonicalFields :: "gofields \<Rightarrow> (string \<times> json) list \<Rightarrow> bool" where
  "canonical GString = typed GString"
| "canonical GBool = typed GBool"
| "canonical (GInt n) = typed (GInt n)"
| "canonical GFloat = typed GFloat"
| "canonical GAny = (\<lambda>v. True)"
| "canonical (GSlice t) = (\<lambda>v. v = JNull \<or> (\<exists>js. v = JArr js \<and> list_all (canonical t) js))"
| "canonical (GMap t) = (\<lambda>v. v = JNull \<or> (\<exists>kvs. v = JObj kvs \<and> sorted_wrt (<) (map fst kvs) \<and> list_all (\<lambda>kv. canonical t (snd kv)) kvs))"
| "canonical (GPtr t) = (\<lambda>v. v = JNull \<or> canonical t v)"
| "canonical (GStruct fs) = (\<lambda>v. \<exists>kvs. v = JObj kvs \<and> canonicalFields fs kvs)"
| "canonicalFields NoField = (\<lambda>kvs. kvs = [])"
| "canonicalFields (Field n om t fs) = (\<lambda>kvs. \<exists>v r. kvs = (n, v) # r \<and> canonical t v \<and>
     (om \<and> isEmpty t v \<longrightarrow> v = zeroValue t) \<and> canonicalFields fs r)"

section \<open>Round trip\<close>

lemma mapEntries_sorted: "sorted_wrt (<) (map fst kvs) \<Longrightarrow> mapEntries kvs = kvs"
proof (induction kvs rule: rev_induct)
  case (snoc kv kvs)
  have "\<forall>x \<in> set xs. fst x < fst kv \<Longrightarrow> putEntry kv xs = xs @ [kv]" for xs
    by (induction xs) auto
  with snoc show ?case by (simp add: mapEntries_def sorted_wrt_append)
qed (simp add: mapEntries_def)

lemma member_append: "(\<And>k v. (k, v) \<in> set ys \<Longrightarrow> toLower k \<noteq> toLower n) \<Longrightarrow> member n (xs @ ys) = member n xs"
proof (induction ys rule: rev_induct)
  case (snoc y ys)
  have "toLower (fst y) \<noteq> toLower n" using snoc.prems [of "fst y" "snd y"] by simp
  moreover have "member n (xs @ ys) = member n xs" by (rule snoc.IH) (use snoc.prems in auto)
  ultimately show ?case by (simp add: member_def)
qed simp

lemma member_here: "toLower k = toLower n \<Longrightarrow> member n (xs @ [(k, v)]) = Some v"
  by (simp add: member_def)

lemma member_none: "(\<And>k v. (k, v) \<in> set xs \<Longrightarrow> toLower k \<noteq> toLower n) \<Longrightarrow> member n xs = None"
  using member_append [of xs n "[]"] by (simp add: member_def)

lemma encode_keys: "(k, v) \<in> set (encodeFields fs kvs) \<Longrightarrow> k \<in> set (fieldNames fs)"
  by (induction fs arbitrary: kvs rule: gofields.induct [where ?P1.0 = "\<lambda>_. True"]) (auto split: list.splits if_splits)

lemma encode_null: "encodeAs t v = JNull \<Longrightarrow> v = JNull"
  by (induction t rule: gotype.induct [where ?P2.0 = "\<lambda>_. True"]) (auto split: json.splits if_splits)

lemma allSome_map: "(\<And>x. x \<in> set xs \<Longrightarrow> f x = Some (g x)) \<Longrightarrow> allSome (map f xs) = Some (map g xs)"
  by (induction xs) auto

theorem decode_encode: "wfType t \<Longrightarrow> canonical t v \<Longrightarrow> decodeAs t (encodeAs t v) = Some v"
  and decode_encode_fields: "wfFields fs \<Longrightarrow> canonicalFields fs kvs \<Longrightarrow>
    (\<And>k w n. (k, w) \<in> set pre \<Longrightarrow> n \<in> set (fieldNames fs) \<Longrightarrow> toLower k \<noteq> toLower n) \<Longrightarrow>
    decodeFields fs (pre @ encodeFields fs kvs) = Some kvs"
proof (induction t and fs arbitrary: v and kvs pre)
  case (GSlice t)
  then show ?case by (auto simp: list_all_iff comp_def allSome_map [where g = "\<lambda>x. x"])
next
  case (GMap t)
  then show ?case
    by (auto simp: list_all_iff comp_def mapEntries_sorted allSome_map [where g = "\<lambda>x. x"])
next
  case (GPtr t)
  then show ?case using encode_null [of t v] by auto
next
  case (GStruct fs)
  then obtain kvs where "v = JObj kvs" "canonicalFields fs kvs" by auto
  with GStruct.IH [where pre = "[]"] GStruct.prems show ?case by (simp add: entriesOf_def)
next
  case (Field n om t fs)
  from Field.prems(2) obtain x r where kvs: "kvs = (n, x) # r" and x: "canonical t x" "canonicalFields fs r"
    and zero: "om \<and> isEmpty t x \<longrightarrow> x = zeroValue t"
    by auto
  define e where "e = (if om \<and> isEmpty t x then [] else [(n, encodeAs t x)])"
  have new: "toLower n \<notin> toLower ` set (fieldNames fs)" using Field.prems(1) by simp
  have later: "\<And>k w. (k, w) \<in> set (encodeFields fs r) \<Longrightarrow> toLower k \<noteq> toLower n"
    using new encode_keys by (metis imageI)
  have "member n (pre @ e @ encodeFields fs r) = member n (pre @ e)"
    using member_append [of "encodeFields fs r" n "pre @ e"] later by simp
  also have "\<dots> = (if om \<and> isEmpty t x then None else Some (encodeAs t x))"
    using Field.prems(3) by (auto simp: e_def member_here intro!: member_none)
  finally have mine: "(case member n (pre @ e @ encodeFields fs r) of None \<Rightarrow> Some (zeroValue t) | Some v \<Rightarrow> decodeAs t v) = Some x"
    using Field.IH(1) [OF _ x(1)] Field.prems(1) zero by auto
  have "decodeFields fs ((pre @ e) @ encodeFields fs r) = Some r"
  proof (rule Field.IH(2) [OF _ x(2)])
    show "wfFields fs" using Field.prems(1) by simp
    show "toLower k \<noteq> toLower m" if "(k, w) \<in> set (pre @ e)" "m \<in> set (fieldNames fs)" for k w m
      using that Field.prems(3) [of k w m] new by (auto simp: e_def split: if_splits)
  qed
  moreover have "encodeFields (Field n om t fs) kvs = e @ encodeFields fs r" by (simp add: kvs e_def)
  ultimately show ?case using mine by (simp add: kvs del: encodeFields.simps)
qed (auto simp: intFits_def)

end
