(* ===== verification/BunnyTypes.thy ===== *)
theory BunnyTypes imports GoTypes begin

text \<open>
  The Go types of the Bunny API (\<open>bunny/*.go\<close>): for every struct the names its fields have in
  JSON, in the order of the declaration, which of them are left out when they are empty, and
  their types. \<open>ApplicationStatus\<close> and the other named strings and numbers are their
  underlying type. \<open>bunnyTypes\<close> names every type; it holds the unnamed types, too, that an
  answer is decoded into.
\<close>

definition BillingDetailsT :: gotype where
  "BillingDetailsT = gstruct [
    (''Balance'', False, GFloat), (''AvailableBalance'', False, GFloat), (''ThisMonthCharges'', False, GFloat),
    (''MonthlyBandwidthUsed'', False, GInt 64), (''MonthlyChargesEUTraffic'', False, GFloat),
    (''MonthlyChargesUSTraffic'', False, GFloat), (''MonthlyChargesASIATraffic'', False, GFloat),
    (''MonthlyChargesStorage'', False, GFloat), (''MonthlyChargesDNS'', False, GFloat),
    (''MonthlyChargesShield'', False, GFloat), (''MonthlyChargesMagicContainers'', False, GFloat),
    (''MonthlyChargesScripting'', False, GFloat), (''MonthlyChargesOptimizer'', False, GFloat),
    (''MonthlyChargesTranscribe'', False, GFloat), (''MonthlyChargesPremiumEncoding'', False, GFloat),
    (''MonthlyChargesDrm'', False, GFloat), (''MonthlyChargesWebSockets'', False, GFloat),
    (''MonthlyChargesDB'', False, GFloat), (''MonthlyChargesTaxes'', False, GFloat), (''VATRate'', False, GFloat),
    (''BillingEnabled'', False, GBool), (''AutomaticRechargeEnabled'', False, GBool)]"

definition BillingSummaryItemT :: gotype where
  "BillingSummaryItemT = gstruct [
    (''PullZoneId'', False, GInt 64), (''MonthlyUsage'', False, GFloat), (''MonthlyBandwidthUsed'', False, GInt 64)]"

definition PaymentRequestT :: gotype where
  "PaymentRequestT = gstruct [
    (''Id'', False, GInt 64), (''Amount'', False, GFloat), (''Description'', False, GString),
    (''Paid'', False, GBool), (''Date'', False, GString)]"

definition EdgeScriptT :: gotype where
  "EdgeScriptT = gstruct [
    (''Id'', False, GInt 64), (''Name'', False, GString), (''Type'', False, GInt 32),
    (''DateCreated'', True, GString), (''DateModified'', True, GString)]"

definition AddEdgeScriptModelT :: gotype where
  "AddEdgeScriptModelT = gstruct [
    (''Name'', False, GString), (''Type'', False, GInt 32)]"

definition UpdateEdgeScriptModelT :: gotype where
  "UpdateEdgeScriptModelT = gstruct [
    (''Name'', True, GString), (''Content'', True, GPtr GString)]"

definition EdgeScriptCodeModelT :: gotype where
  "EdgeScriptCodeModelT = gstruct [
    (''Content'', True, GString)]"

definition UpdateEdgeScriptCodeModelT :: gotype where
  "UpdateEdgeScriptCodeModelT = gstruct [
    (''Content'', False, GString)]"

definition EdgeScriptVariableT :: gotype where
  "EdgeScriptVariableT = gstruct [
    (''Id'', True, GInt 64), (''Name'', False, GString), (''Value'', True, GString)]"

definition EdgeScriptSecretT :: gotype where
  "EdgeScriptSecretT = gstruct [
    (''Id'', True, GInt 64), (''Name'', False, GString), (''Value'', True, GString)]"

definition EdgeScriptReleaseT :: gotype where
  "EdgeScriptReleaseT = gstruct [
    (''Id'', False, GInt 64), (''Version'', False, GInt 32), (''Status'', False, GInt 32), (''Date'', True, GString)]"

definition EdgeScriptStatisticsT :: gotype where
  "EdgeScriptStatisticsT = gstruct [
    (''requests'', True, GInt 64), (''bandwidth'', True, GInt 64), (''avgCpu'', True, GFloat),
    (''avgMemory'', True, GFloat)]"

definition ListEdgeScriptsResponseT :: gotype where
  "ListEdgeScriptsResponseT = gstruct [
    (''Items'', True, GSlice EdgeScriptT), (''TotalItems'', True, GInt 64)]"

definition ListReleasesResponseT :: gotype where
  "ListReleasesResponseT = gstruct [
    (''Items'', True, GSlice EdgeScriptReleaseT), (''TotalItems'', True, GInt 64)]"

definition CDNLogEntryT :: gotype where
  "CDNLogEntryT = gstruct [
    (''timestamp'', False, GString), (''pullZoneId'', False, GInt 64), (''requestId'', False, GString),
    (''cacheStatus'', False, GString), (''statusCode'', False, GInt 64), (''bytesSent'', False, GInt 64),
    (''remoteIp'', True, GString), (''countryCode'', True, GString), (''edgeLocation'', True, GString),
    (''scheme'', False, GString), (''host'', False, GString), (''path'', False, GString), (''url'', False, GString),
    (''userAgent'', True, GString), (''referer'', True, GString), (''bodyBytesSent'', True, GInt 64),
    (''contentRange'', True, GString), (''authorizationHeader'', True, GString)]"

definition PaginationInfoT :: gotype where
  "PaginationInfoT = gstruct [
    (''offset'', False, GInt 64), (''limit'', False, GInt 64), (''returned'', False, GInt 64),
    (''hasMore'', False, GBool)]"

definition QuerySummaryT :: gotype where
  "QuerySummaryT = gstruct [
    (''pullZoneId'', False, GInt 64), (''from'', False, GString), (''to'', False, GString),
    (''order'', False, GString)]"

definition CDNLogResponseT :: gotype where
  "CDNLogResponseT = gstruct [
    (''data'', False, GSlice CDNLogEntryT), (''pagination'', False, PaginationInfoT),
    (''query'', False, QuerySummaryT)]"

definition ImageConfigRequestT :: gotype where
  "ImageConfigRequestT = gstruct [
    (''registryId'', False, GString), (''imageName'', False, GString), (''imageNamespace'', False, GString),
    (''tag'', True, GString)]"

definition ContainerConfigRequestT :: gotype where
  "ContainerConfigRequestT = gstruct [
    (''registryId'', False, GString), (''imageName'', False, GString), (''imageNamespace'', False, GString),
    (''tag'', True, GString)]"

definition StickySessionSettingsT :: gotype where
  "StickySessionSettingsT = gstruct [
    (''enabled'', False, GBool), (''sessionHeaders'', False, GSlice GString), (''cookieName'', False, GString)]"

definition ContainerPortMappingRequestT :: gotype where
  "ContainerPortMappingRequestT = gstruct [
    (''containerPort'', False, GInt 32), (''exposedPort'', True, GPtr (GInt 32)),
    (''protocols'', True, GSlice GString)]"

definition CDNEndpointRequestT :: gotype where
  "CDNEndpointRequestT = gstruct [
    (''isSslEnabled'', True, GBool), (''stickySessions'', True, GPtr StickySessionSettingsT),
    (''pullZoneId'', True, GPtr (GInt 32)), (''portMappings'', True, GSlice ContainerPortMappingRequestT)]"

definition AnycastEndpointRequestT :: gotype where
  "AnycastEndpointRequestT = gstruct [
    (''type'', False, GString), (''portMappings'', False, GSlice ContainerPortMappingRequestT)]"

definition EndpointRequestT :: gotype where
  "EndpointRequestT = gstruct [
    (''id'', True, GPtr GString), (''displayName'', False, GString), (''cdn'', True, GPtr CDNEndpointRequestT),
    (''anycast'', True, GPtr AnycastEndpointRequestT)]"

definition EnvVarSuggestionT :: gotype where
  "EnvVarSuggestionT = gstruct [
    (''name'', True, GString), (''defaultValue'', True, GPtr GString), (''description'', True, GPtr GString),
    (''required'', True, GBool)]"

definition VolumeSuggestionT :: gotype where
  "VolumeSuggestionT = gstruct [
    (''containerPath'', True, GString), (''suggestedVolumeName'', True, GString)]"

definition ContainerConfigSuggestionsT :: gotype where
  "ContainerConfigSuggestionsT = gstruct [
    (''endpointSuggestions'', True, GSlice EndpointRequestT),
    (''environmentVariablesSuggestions'', True, GSlice EnvVarSuggestionT),
    (''volumeSuggestions'', True, GSlice VolumeSuggestionT)]"

definition DetachVolumeResponseT :: gotype where
  "DetachVolumeResponseT = gstruct [
    (''name'', True, GString)]"

definition CountryT :: gotype where
  "CountryT = gstruct [
    (''Name'', False, GString), (''IsoCode'', False, GString), (''IsEU'', False, GBool),
    (''TaxRate'', False, GFloat)]"

definition CDNRegionT :: gotype where
  "CDNRegionT = gstruct [
    (''Id'', False, GInt 64), (''Name'', False, GString), (''PricePerGigabyte'', False, GFloat),
    (''RegionCode'', False, GString), (''ContinentCode'', False, GString), (''CountryCode'', False, GString)]"

definition StorageRegionT :: gotype where
  "StorageRegionT = gstruct [
    (''Id'', False, GInt 64), (''Name'', False, GString), (''Url'', False, GString)]"

definition UserAuditLogT :: gotype where
  "UserAuditLogT = gstruct [
    (''id'', False, GInt 64), (''action'', False, GString), (''description'', False, GString),
    (''ip'', False, GString), (''date'', False, GString)]"

definition UserAuditResponseT :: gotype where
  "UserAuditResponseT = gstruct [
    (''entries'', False, GSlice UserAuditLogT), (''HasMoreData'', False, GBool),
    (''ContinuationToken'', False, GString)]"

definition SearchResultT :: gotype where
  "SearchResultT = gstruct [
    (''type'', False, GString), (''id'', False, GString), (''name'', False, GString),
    (''description'', False, GString)]"

definition SearchResultsT :: gotype where
  "SearchResultsT = gstruct [
    (''Query'', False, GString), (''Total'', False, GInt 32), (''SearchResults'', False, GSlice SearchResultT)]"

definition OriginErrorEntryT :: gotype where
  "OriginErrorEntryT = gstruct [
    (''Timestamp'', True, GString), (''StatusCode'', True, GInt 64), (''Error'', True, GString),
    (''Path'', True, GString), (''EdgeLocation'', True, GString)]"

definition OriginErrorLogT :: gotype where
  "OriginErrorLogT = gstruct [
    (''Date'', True, GString), (''PullZoneId'', True, GInt 64), (''Entries'', True, GSlice OriginErrorEntryT)]"

definition ExternalDnsCertRequestT :: gotype where
  "ExternalDnsCertRequestT = gstruct [
    (''hostname'', False, GString)]"

definition ExternalDnsCertResponseT :: gotype where
  "ExternalDnsCertResponseT = gstruct [
    (''hostname'', False, GString), (''token'', False, GString), (''verificationHostname'', False, GString)]"

definition PrivateKeyUpdateModelT :: gotype where
  "PrivateKeyUpdateModelT = gstruct [
    (''hostname'', False, GString), (''keyType'', False, GInt 64)]"

definition ForceSSLModelT :: gotype where
  "ForceSSLModelT = gstruct [
    (''hostname'', False, GString), (''forceSSL'', False, GBool)]"

definition ReferrerModelT :: gotype where
  "ReferrerModelT = gstruct [
    (''hostname'', False, GString), (''referrer'', False, GString)]"

definition BlockedIPModelT :: gotype where
  "BlockedIPModelT = gstruct [
    (''blockedIp'', False, GString)]"

definition ResetSecurityKeyModelT :: gotype where
  "ResetSecurityKeyModelT = gstruct [
    (''securityKey'', True, GString)]"

definition ZoneAvailabilityResponseT :: gotype where
  "ZoneAvailabilityResponseT = gstruct [
    (''Available'', False, GBool)]"

definition ShieldResponseT :: gotype where
  "ShieldResponseT = gstruct [
    (''data'', True, GAny), (''error'', True, GString)]"

definition GetShieldZonePullzoneMappingResponseT :: gotype where
  "GetShieldZonePullzoneMappingResponseT = gstruct [
    (''data'', False, GSlice (GMap GAny))]"

definition CustomWAFRuleV2T :: gotype where
  "CustomWAFRuleV2T = gstruct [
    (''id'', False, GInt 64), (''ruleName'', False, GString), (''ruleDescription'', False, GString),
    (''shieldZoneId'', False, GInt 64)]"

definition GetCustomWafRulesResponseT :: gotype where
  "GetCustomWafRulesResponseT = gstruct [
    (''data'', False, GSlice CustomWAFRuleV2T), (''page'', False, GInt 64), (''error'', True, GString)]"

definition CustomAccessListT :: gotype where
  "CustomAccessListT = gstruct [
    (''id'', False, GInt 64), (''name'', False, GString), (''description'', False, GString),
    (''type'', False, GString), (''content'', False, GString)]"

definition EventRowT :: gotype where
  "EventRowT = gstruct [
    (''logId'', False, GString), (''timestamp'', False, GString), (''log'', False, GString),
    (''fields'', False, GMap GAny)]"

definition EventLogsSearchResponseT :: gotype where
  "EventLogsSearchResponseT = gstruct [
    (''rows'', False, GSlice EventRowT), (''groups'', False, GSlice GAny), (''total'', False, GInt 64),
    (''totalPages'', False, GInt 64), (''page'', False, GInt 64)]"

definition ShieldZoneV2T :: gotype where
  "ShieldZoneV2T = gstruct [
    (''shieldZoneId'', False, GInt 64), (''pullZoneId'', False, GInt 64), (''wafEnabled'', False, GBool),
    (''learningMode'', False, GBool), (''wafProfileId'', False, GInt 64)]"

definition CreateShieldZoneRequestT :: gotype where
  "CreateShieldZoneRequestT = gstruct [
    (''pullZoneId'', False, GInt 64)]"

definition RateLimitV2T :: gotype where
  "RateLimitV2T = gstruct [
    (''id'', False, GInt 64), (''shieldZoneId'', False, GInt 64), (''ruleName'', False, GString),
    (''blockedRequests'', False, GInt 64), (''loggedRequests'', False, GInt 64)]"

definition CreateRateLimitRequestT :: gotype where
  "CreateRateLimitRequestT = gstruct [
    (''shieldZoneId'', False, GInt 64), (''ruleName'', False, GString), (''ruleDescription'', False, GString),
    (''ruleConfiguration'', False, GAny)]"

definition WAFRuleV2T :: gotype where
  "WAFRuleV2T = gstruct [
    (''id'', False, GInt 64), (''shieldZoneId'', False, GInt 64), (''ruleName'', False, GString),
    (''actionType'', False, GString), (''enabled'', False, GBool)]"

definition CreateCustomWAFRuleRequestT :: gotype where
  "CreateCustomWAFRuleRequestT = gstruct [
    (''shieldZoneId'', False, GInt 64), (''ruleName'', False, GString), (''ruleDescription'', False, GString),
    (''ruleConfiguration'', False, GAny)]"

definition WAFProfileT :: gotype where
  "WAFProfileT = gstruct [
    (''id'', False, GInt 64), (''name'', False, GString)]"

definition WAFEnumMappingT :: gotype where
  "WAFEnumMappingT = gstruct [
    (''key'', False, GString), (''value'', False, GString)]"

definition WAFEngineConfigT :: gotype where
  "WAFEngineConfigT = gstruct [
    (''version'', False, GString), (''rules'', False, GSlice GAny)]"

definition AccessListDetailsT :: gotype where
  "AccessListDetailsT = gstruct [
    (''listId'', False, GInt 64), (''configurationId'', False, GInt 64), (''name'', False, GString),
    (''isEnabled'', False, GBool)]"

definition CreateCustomAccessListRequestT :: gotype where
  "CreateCustomAccessListRequestT = gstruct [
    (''name'', False, GString), (''description'', False, GString), (''type'', False, GString),
    (''content'', False, GString)]"

definition APIGuardianConfigT :: gotype where
  "APIGuardianConfigT = gstruct [
    (''shieldZoneId'', False, GInt 64), (''isEnabled'', False, GBool), (''executionMode'', False, GString),
    (''bodyLimitAction'', False, GString)]"

definition APIGuardianEndpointT :: gotype where
  "APIGuardianEndpointT = gstruct [
    (''apiGuardianEndpointId'', False, GInt 64), (''requestMethod'', False, GString),
    (''requestPath'', False, GString)]"

definition BotCategorizationEntryT :: gotype where
  "BotCategorizationEntryT = gstruct [
    (''botId'', False, GInt 64), (''userAgentMatch'', False, GString), (''category'', False, GString),
    (''action'', False, GString), (''isVerifiable'', False, GBool)]"

definition BotCategorizationGroupT :: gotype where
  "BotCategorizationGroupT = gstruct [
    (''category'', False, GString), (''categoryAction'', False, GString),
    (''bots'', False, GSlice BotCategorizationEntryT)]"

definition BotCategoryActionT :: gotype where
  "BotCategoryActionT = gstruct [
    (''category'', False, GString), (''action'', False, GString)]"

definition UploadScanningConfigT :: gotype where
  "UploadScanningConfigT = gstruct [
    (''isEnabled'', False, GBool)]"

definition BotDetectionConfigV2T :: gotype where
  "BotDetectionConfigV2T = gstruct [
    (''shieldZoneId'', False, GInt 64), (''executionMode'', False, GString), (''sensitivity'', False, GString)]"

definition CDNStatisticsT :: gotype where
  "CDNStatisticsT = gstruct [
    (''TotalBandwidthUsed'', False, GInt 64), (''TotalOriginTraffic'', False, GInt 64),
    (''TotalRequestsServed'', False, GInt 64), (''CacheHitRate'', False, GFloat),
    (''AverageOriginResponseTime'', False, GFloat), (''GeoTrafficDistribution'', True, GAny),
    (''BandwidthUsedChart'', True, GMap GFloat), (''BandwidthCachedChart'', True, GMap GFloat),
    (''CacheHitRateChart'', True, GMap GFloat), (''RequestsServedChart'', True, GMap GFloat)]"

definition OriginShieldQueueStatsT :: gotype where
  "OriginShieldQueueStatsT = gstruct [
    (''CurrentQueueSize'', True, GInt 64), (''TotalRequests'', True, GInt 64), (''AverageWaitTime'', True, GInt 64)]"

definition SafeHopStatsT :: gotype where
  "SafeHopStatsT = gstruct [
    (''TotalFailovers'', True, GInt 64), (''HealthyOrigins'', True, GInt 64), (''UnhealthyOrigins'', True, GInt 64)]"

definition OptimizerStatsT :: gotype where
  "OptimizerStatsT = gstruct [
    (''TotalSavedBytes'', True, GInt 64), (''TotalImagesOptimized'', True, GInt 64)]"

definition StorageZoneT :: gotype where
  "StorageZoneT = gstruct [
    (''Id'', False, GInt 64), (''UserId'', True, GString), (''Name'', False, GString), (''Password'', True, GString),
    (''ReadOnlyPassword'', True, GString), (''StorageUsed'', True, GInt 64), (''FilesStored'', True, GInt 64),
    (''Region'', True, GString), (''ReplicationRegions'', True, GSlice GString),
    (''StorageHostname'', True, GString), (''ZoneTier'', True, GInt 64)]"

definition StorageZoneRegionT :: gotype where
  "StorageZoneRegionT = gstruct [
    (''Id'', False, GInt 64), (''Name'', False, GString), (''PricePerGB'', True, GFloat)]"

definition AddStorageZoneModelT :: gotype where
  "AddStorageZoneModelT = gstruct [
    (''Name'', False, GString), (''Region'', True, GString)]"

definition StorageFileT :: gotype where
  "StorageFileT = gstruct [
    (''ObjectName'', False, GString), (''Path'', False, GString), (''IsDirectory'', False, GBool),
    (''Size'', False, GInt 64), (''LastChanged'', False, GString), (''ServerId'', False, GInt 64),
    (''UserId'', False, GString), (''ContentType'', False, GString), (''StorageZoneId'', False, GInt 64),
    (''StorageZoneName'', False, GString)]"

definition VideoLibraryT :: gotype where
  "VideoLibraryT = gstruct [
    (''Id'', False, GInt 64), (''Name'', False, GString), (''ApiKey'', True, GString),
    (''DateCreated'', True, GString), (''VideoCount'', True, GInt 64), (''TotalStorage'', True, GInt 64),
    (''EnableTranscribing'', True, GBool)]"

definition AddVideoLibraryModelT :: gotype where
  "AddVideoLibraryModelT = gstruct [
    (''Name'', False, GString)]"

definition VideoT :: gotype where
  "VideoT = gstruct [
    (''id'', False, GString), (''guid'', False, GString), (''title'', False, GString), (''status'', False, GInt 64),
    (''dateCreated'', True, GString), (''dateUploaded'', True, GString), (''length'', True, GInt 64),
    (''framerate'', True, GInt 64), (''width'', True, GInt 64), (''height'', True, GInt 64),
    (''availableResolutions'', True, GString), (''thumbnailCount'', True, GInt 64),
    (''encodeProgress'', True, GInt 64), (''storageSize'', True, GInt 64), (''views'', True, GInt 64)]"

definition CreateVideoResponseT :: gotype where
  "CreateVideoResponseT = gstruct [
    (''guid'', False, GString), (''title'', False, GString), (''status'', False, GInt 64),
    (''videoLibraryId'', False, GInt 64), (''dateCreated'', False, GString), (''uploadUrl'', False, GString)]"

definition VideoCollectionT :: gotype where
  "VideoCollectionT = gstruct [
    (''id'', False, GInt 64), (''videoLibraryId'', False, GInt 64), (''name'', False, GString),
    (''videoCount'', True, GInt 64)]"

definition FetchVideoRequestT :: gotype where
  "FetchVideoRequestT = gstruct [
    (''url'', False, GString)]"

definition ThumbnailRequestT :: gotype where
  "ThumbnailRequestT = gstruct [
    (''thumbnailUrl'', False, GString)]"

definition TranscribeSettingsT :: gotype where
  "TranscribeSettingsT = gstruct [
    (''targetLanguages'', True, GSlice GString), (''generateTitle'', True, GPtr GBool),
    (''generateDescription'', True, GPtr GBool), (''generateChapters'', True, GPtr GBool),
    (''generateMoments'', True, GPtr GBool), (''sourceLanguage'', True, GString)]"

definition SmartGenerateModelT :: gotype where
  "SmartGenerateModelT = gstruct [
    (''generateTitle'', True, GPtr GBool), (''generateDescription'', True, GPtr GBool),
    (''generateChapters'', True, GPtr GBool), (''generateMoments'', True, GPtr GBool),
    (''sourceLanguage'', True, GString)]"

definition ListMetaT :: gotype where
  "ListMetaT = gstruct [
    (''totalItems'', True, GInt 64)]"

definition ValidationErrorT :: gotype where
  "ValidationErrorT = gstruct [
    (''field'', True, GPtr GString), (''message'', False, GString)]"

definition ErrorDetailsT :: gotype where
  "ErrorDetailsT = gstruct [
    (''title'', False, GString), (''status'', False, GInt 32), (''detail'', True, GPtr GString),
    (''errors'', True, GSlice ValidationErrorT)]"

definition AutoscalingSettingsT :: gotype where
  "AutoscalingSettingsT = gstruct [
    (''min'', False, GInt 32), (''max'', False, GInt 32)]"

definition UpdateRegionSettingsRequestT :: gotype where
  "UpdateRegionSettingsRequestT = gstruct [
    (''allowedRegionIds'', True, GSlice GString), (''requiredRegionIds'', True, GSlice GString),
    (''maxAllowedRegions'', True, GPtr (GInt 32)), (''nodeSelectors'', True, GMap GString)]"

definition ContainerEntryPointT :: gotype where
  "ContainerEntryPointT = gstruct [
    (''command'', True, GPtr GString), (''commandArray'', True, GSlice GString), (''arguments'', True, GPtr GString),
    (''argumentsArray'', True, GSlice GString), (''workingDirectory'', True, GPtr GString)]"

definition HTTPGetProbeRequestT :: gotype where
  "HTTPGetProbeRequestT = gstruct [
    (''path'', True, GString), (''portNumber'', True, GInt 32)]"

definition HTTPGetProbeResponseT :: gotype where
  "HTTPGetProbeResponseT = gstruct [
    (''expectedStatusCode'', True, GString)]"

definition HTTPGetProbeT :: gotype where
  "HTTPGetProbeT = gstruct [
    (''request'', True, GPtr HTTPGetProbeRequestT), (''response'', True, GPtr HTTPGetProbeResponseT)]"

definition TCPSocketProbeRequestT :: gotype where
  "TCPSocketProbeRequestT = gstruct [
    (''portNumber'', True, GInt 32)]"

definition TCPSocketProbeT :: gotype where
  "TCPSocketProbeT = gstruct [
    (''request'', True, GPtr TCPSocketProbeRequestT)]"

definition ContainerProbeT :: gotype where
  "ContainerProbeT = gstruct [
    (''initialDelaySeconds'', True, GPtr (GInt 32)), (''periodSeconds'', True, GPtr (GInt 32)),
    (''timeoutSeconds'', True, GPtr (GInt 32)), (''failureThreshold'', True, GPtr (GInt 32)),
    (''successThreshold'', True, GPtr (GInt 32)), (''httpGet'', True, GPtr HTTPGetProbeT),
    (''tcpSocket'', True, GPtr TCPSocketProbeT)]"

definition ContainerProbesT :: gotype where
  "ContainerProbesT = gstruct [
    (''startup'', True, GPtr ContainerProbeT), (''readiness'', True, GPtr ContainerProbeT),
    (''liveness'', True, GPtr ContainerProbeT)]"

definition EnvironmentVariableT :: gotype where
  "EnvironmentVariableT = gstruct [
    (''name'', False, GString), (''value'', True, GString)]"

definition VolumeMountRequestT :: gotype where
  "VolumeMountRequestT = gstruct [
    (''name'', False, GString), (''mountPath'', False, GString)]"

definition ContainerRequestT :: gotype where
  "ContainerRequestT = gstruct [
    (''id'', True, GPtr GString), (''name'', False, GString), (''image'', True, GPtr GString),
    (''imageName'', False, GString), (''imageNamespace'', False, GString), (''imageTag'', False, GString),
    (''imageDigest'', True, GPtr GString), (''imageRegistryId'', False, GString),
    (''imagePullPolicy'', True, GPtr GString), (''entryPoint'', True, GPtr ContainerEntryPointT),
    (''probes'', True, GPtr ContainerProbesT), (''environmentVariables'', True, GSlice EnvironmentVariableT),
    (''endpoints'', True, GSlice EndpointRequestT), (''volumeMounts'', True, GSlice VolumeMountRequestT)]"

definition VolumeRequestT :: gotype where
  "VolumeRequestT = gstruct [
    (''name'', False, GString), (''size'', False, GInt 32)]"

definition AddApplicationRequestT :: gotype where
  "AddApplicationRequestT = gstruct [
    (''name'', False, GString), (''runtimeType'', False, GString),
    (''terminationGracePeriodSeconds'', True, GPtr (GInt 64)), (''autoScaling'', False, AutoscalingSettingsT),
    (''regionSettings'', False, UpdateRegionSettingsRequestT),
    (''containerTemplates'', True, GSlice ContainerRequestT), (''volumes'', True, GSlice VolumeRequestT)]"

definition AddApplicationResponseT :: gotype where
  "AddApplicationResponseT = gstruct [
    (''id'', False, GString)]"

definition DisplayEndpointT :: gotype where
  "DisplayEndpointT = gstruct [
    (''id'', False, GString), (''address'', False, GString), (''type'', False, GString)]"

definition RegionSettingsT :: gotype where
  "RegionSettingsT = gstruct [
    (''allowedRegionIds'', False, GSlice GString), (''requiredRegionIds'', False, GSlice GString),
    (''maxAllowedRegions'', True, GPtr (GInt 32))]"

definition EndpointPortMappingT :: gotype where
  "EndpointPortMappingT = gstruct [
    (''containerPort'', False, GInt 32), (''exposedPort'', False, GInt 32), (''protocols'', False, GSlice GString)]"

definition ContainerEndpointT :: gotype where
  "ContainerEndpointT = gstruct [
    (''id'', False, GString), (''displayName'', False, GString), (''publicHost'', False, GString),
    (''type'', False, GString), (''isSslEnabled'', False, GBool), (''pullZoneId'', False, GString),
    (''portMappings'', False, GSlice EndpointPortMappingT), (''stickySessions'', True, GPtr StickySessionSettingsT)]"

definition ContainerVolumeMountT :: gotype where
  "ContainerVolumeMountT = gstruct [
    (''name'', False, GString), (''mountPath'', False, GString)]"

definition ContainerTemplateT :: gotype where
  "ContainerTemplateT = gstruct [
    (''id'', False, GString), (''name'', False, GString), (''packageId'', False, GString),
    (''image'', False, GString), (''imageName'', False, GString), (''imageNamespace'', False, GString),
    (''imageTag'', False, GString), (''imageRegistryId'', False, GString), (''imageDigest'', False, GString),
    (''imagePullPolicy'', False, GString), (''entryPoint'', False, ContainerEntryPointT),
    (''probes'', False, ContainerProbesT), (''environmentVariables'', False, GSlice EnvironmentVariableT),
    (''endpoints'', False, GSlice ContainerEndpointT), (''volumeMounts'', False, GSlice ContainerVolumeMountT)]"

definition ContainerInstanceT :: gotype where
  "ContainerInstanceT = gstruct [
    (''id'', False, GString), (''templateId'', False, GString), (''podId'', False, GString),
    (''nodeIpAddress'', False, GString)]"

definition VolumeTemplateT :: gotype where
  "VolumeTemplateT = gstruct [
    (''name'', False, GString), (''size'', False, GFloat)]"

definition NetworkLimitsT :: gotype where
  "NetworkLimitsT = gstruct [
    (''ingressBandwidthLimit'', True, GInt 64), (''egressBandwidthLimit'', True, GInt 64)]"

definition ApplicationT :: gotype where
  "ApplicationT = gstruct [
    (''id'', False, GString), (''name'', False, GString), (''displayEndpoint'', True, GPtr DisplayEndpointT),
    (''status'', False, GString), (''runtimeType'', False, GString), (''regionSettings'', False, RegionSettingsT),
    (''containerTemplates'', False, GSlice ContainerTemplateT),
    (''containerInstances'', False, GSlice ContainerInstanceT), (''volumes'', False, GSlice VolumeTemplateT),
    (''autoScaling'', True, GPtr AutoscalingSettingsT), (''networkSettings'', True, GPtr NetworkLimitsT)]"

definition AppListItemT :: gotype where
  "AppListItemT = gstruct [
    (''id'', False, GString), (''name'', False, GString), (''description'', True, GString),
    (''displayEndpoint'', True, GPtr DisplayEndpointT), (''status'', False, GString)]"

definition ListApplicationsResponseT :: gotype where
  "ListApplicationsResponseT = gstruct [
    (''items'', True, GSlice AppListItemT), (''meta'', True, GPtr ListMetaT), (''cursor'', True, GPtr GString)]"

definition PatchApplicationRequestT :: gotype where
  "PatchApplicationRequestT = gstruct [
    (''name'', True, GPtr GString), (''runtimeType'', True, GPtr GString),
    (''autoScaling'', True, GPtr AutoscalingSettingsT),
    (''regionSettings'', True, GPtr UpdateRegionSettingsRequestT),
    (''containerTemplates'', True, GPtr (GSlice ContainerRequestT))]"

definition EndpointInternalIPT :: gotype where
  "EndpointInternalIPT = gstruct [
    (''address'', False, GString), (''region'', False, GString)]"

definition EndpointListItemT :: gotype where
  "EndpointListItemT = gstruct [
    (''id'', False, GString), (''displayName'', False, GString), (''publicHost'', False, GString),
    (''type'', False, GString), (''isSslEnabled'', False, GBool), (''pullZoneId'', False, GString),
    (''portMappings'', False, GSlice EndpointPortMappingT), (''containerName'', False, GString),
    (''containerId'', False, GString), (''stickySessions'', True, GPtr StickySessionSettingsT),
    (''internalIpAddresses'', True, GSlice EndpointInternalIPT),
    (''publicIpAddresses'', True, GSlice EndpointInternalIPT)]"

definition ListEndpointsResponseT :: gotype where
  "ListEndpointsResponseT = gstruct [
    (''items'', True, GSlice EndpointListItemT), (''meta'', True, GPtr ListMetaT), (''cursor'', True, GPtr GString)]"

definition SaveEndpointResponseT :: gotype where
  "SaveEndpointResponseT = gstruct [
    (''id'', False, GString)]"

definition VolumeInstanceT :: gotype where
  "VolumeInstanceT = gstruct [
    (''id'', False, GString), (''attachedPods'', True, GSlice GString),
    (''attachedContainers'', True, GSlice GString), (''region'', False, GString), (''status'', False, GString),
    (''size'', False, GFloat), (''usage'', False, GFloat)]"

definition VolumeInListT :: gotype where
  "VolumeInListT = gstruct [
    (''name'', False, GString), (''id'', False, GString), (''size'', False, GFloat), (''totalUsage'', False, GFloat),
    (''totalInstancesCount'', False, GInt 32), (''attachedInstancesCount'', False, GInt 32),
    (''containersCount'', False, GInt 32), (''volumeInstances'', True, GSlice VolumeInstanceT)]"

definition ListVolumesSummaryT :: gotype where
  "ListVolumesSummaryT = gstruct [
    (''totalPods'', True, GInt 32), (''totalContainers'', True, GInt 32), (''totalStorage'', True, GFloat)]"

definition ListVolumesResponseT :: gotype where
  "ListVolumesResponseT = gstruct [
    (''items'', True, GSlice VolumeInListT), (''meta'', True, GPtr ListMetaT), (''cursor'', True, GPtr GString),
    (''summary'', True, GPtr ListVolumesSummaryT)]"

definition RegionT :: gotype where
  "RegionT = gstruct [
    (''id'', False, GString), (''name'', False, GString), (''group'', False, GString),
    (''hasAnycastSupport'', False, GBool), (''hasCapacity'', False, GBool)]"

definition ListRegionsResponseT :: gotype where
  "ListRegionsResponseT = gstruct [
    (''items'', True, GSlice RegionT), (''meta'', True, GPtr ListMetaT), (''cursor'', True, GPtr GString)]"

definition OptimalBaseRegionResponseT :: gotype where
  "OptimalBaseRegionResponseT = gstruct [
    (''region'', True, GPtr RegionT)]"

definition ContainerRegistryT :: gotype where
  "ContainerRegistryT = gstruct [
    (''id'', False, GInt 64), (''displayName'', False, GString), (''hostName'', False, GString),
    (''userName'', True, GPtr GString), (''firstPasswordSymbols'', True, GPtr GString),
    (''createdAt'', False, GString), (''isPublic'', True, GPtr GBool)]"

definition CredentialsT :: gotype where
  "CredentialsT = gstruct [
    (''userName'', False, GString), (''password'', False, GString)]"

definition ContainerRegistryRequestT :: gotype where
  "ContainerRegistryRequestT = gstruct [
    (''displayName'', False, GString), (''type'', True, GPtr GString),
    (''passwordCredentials'', True, GPtr CredentialsT)]"

definition ListContainerRegistriesResponseT :: gotype where
  "ListContainerRegistriesResponseT = gstruct [
    (''items'', True, GSlice ContainerRegistryT), (''meta'', True, GPtr ListMetaT), (''cursor'', True, GPtr GString)]"

definition SaveContainerRegistryResultT :: gotype where
  "SaveContainerRegistryResultT = gstruct [
    (''id'', True, GPtr (GInt 64)), (''error'', True, GPtr GString), (''status'', False, GString)]"

definition RemoveContainerRegistryResultT :: gotype where
  "RemoveContainerRegistryResultT = gstruct [
    (''status'', False, GString), (''applications'', True, GSlice GString)]"

definition SearchPublicContainerImagesRequestT :: gotype where
  "SearchPublicContainerImagesRequestT = gstruct [
    (''registryId'', False, GString), (''prefix'', False, GString), (''size'', True, GPtr (GInt 32)),
    (''page'', True, GPtr (GInt 32))]"

definition ContainerImageT :: gotype where
  "ContainerImageT = gstruct [
    (''id'', True, GString), (''namespace'', True, GString)]"

definition ContainerImageTagT :: gotype where
  "ContainerImageTagT = gstruct [
    (''name'', True, GString)]"

definition ImageConfigT :: gotype where
  "ImageConfigT = gstruct [
    (''endpointSuggestions'', True, GSlice EndpointRequestT),
    (''volumeSuggestions'', True, GSlice VolumeSuggestionT)]"

definition ImageTagInfoT :: gotype where
  "ImageTagInfoT = gstruct [
    (''imageNamespace'', True, GString), (''image'', True, GString), (''tag'', True, GString),
    (''digest'', True, GString)]"

definition DoubleStatusIndicatorT :: gotype where
  "DoubleStatusIndicatorT = gstruct [
    (''indicator'', True, GFloat), (''statusGrade'', True, GString)]"

definition Int32StatusIndicatorT :: gotype where
  "Int32StatusIndicatorT = gstruct [
    (''indicator'', True, GInt 32), (''statusGrade'', True, GString)]"

definition OverviewContainerT :: gotype where
  "OverviewContainerT = gstruct [
    (''id'', False, GString), (''name'', False, GString), (''cpuUsage'', False, GFloat),
    (''ramUsage'', False, GFloat), (''reason'', True, GString), (''message'', True, GString),
    (''status'', False, GString), (''image'', True, GPtr GString), (''numberOfRestarts'', True, GPtr (GInt 32)),
    (''exitCode'', True, GPtr (GInt 32))]"

definition OverviewPodT :: gotype where
  "OverviewPodT = gstruct [
    (''name'', False, GString), (''status'', False, GString), (''cpuUsage'', False, GFloat),
    (''ramUsage'', False, GFloat), (''containers'', True, GSlice OverviewContainerT)]"

definition OverviewRegionT :: gotype where
  "OverviewRegionT = gstruct [
    (''region'', False, GString), (''isRequired'', False, GBool), (''instances'', False, GInt 32),
    (''status'', False, GString), (''averageCPU'', False, GFloat), (''averageRAM'', False, GFloat),
    (''averageVolumesUsagePercentage'', False, GFloat), (''requests'', False, GFloat),
    (''anycastTraffic'', False, GFloat), (''pods'', True, GSlice OverviewPodT)]"

definition OverviewT :: gotype where
  "OverviewT = gstruct [
    (''targetLatency'', True, GPtr DoubleStatusIndicatorT), (''currentLatency'', True, GPtr DoubleStatusIndicatorT),
    (''activeRegions'', True, GPtr Int32StatusIndicatorT), (''activeInstances'', True, GPtr Int32StatusIndicatorT),
    (''desiredInstances'', True, GInt 32), (''status'', True, GString),
    (''averageCPU'', True, GPtr DoubleStatusIndicatorT), (''averageRAM'', True, GPtr DoubleStatusIndicatorT),
    (''averageVolumesUsage'', True, GPtr DoubleStatusIndicatorT), (''regions'', True, GSlice OverviewRegionT),
    (''averageLatency'', True, GFloat), (''totalVolumeSizeInGb'', True, GFloat), (''monthlyCost'', True, GFloat),
    (''latencyChart'', True, GMap GFloat)]"

definition StatisticsT :: gotype where
  "StatisticsT = gstruct [
    (''latencyChart'', True, GMap GFloat), (''instancesChart'', True, GMap (GPtr (GInt 64))),
    (''cpuUsageChart'', True, GMap GFloat), (''ramUsageChart'', True, GMap GFloat),
    (''trafficChart'', True, GMap GFloat), (''volumesUsageChart'', True, GMap GFloat)]"

definition UsageSummaryT :: gotype where
  "UsageSummaryT = gstruct [
    (''averageLatency'', True, GFloat), (''currentLatency'', True, GFloat), (''totalVolumeSizeInGb'', True, GFloat),
    (''monthlyCost'', True, GFloat), (''latencyChart'', True, GMap GFloat), (''status'', True, GString)]"

definition UserLimitsT :: gotype where
  "UserLimitsT = gstruct [
    (''maxNumberOfApplications'', True, GInt 32), (''existingNumberOfApplications'', True, GInt 32),
    (''maxNumberOfRegionsPerApplication'', True, GPtr (GInt 32)), (''maxNumberOfInstancesPerRegion'', True, GInt 32),
    (''maxNumberOfInstancesPerApplication'', True, GPtr (GInt 32)),
    (''maxNumberOfVolumesPerApplication'', True, GInt 32), (''maxVolumeSize'', True, GPtr (GInt 32))]"

definition LogForwardingConfigT :: gotype where
  "LogForwardingConfigT = gstruct [
    (''id'', True, GString), (''app'', False, GString), (''type'', False, GString), (''endpoint'', False, GString),
    (''port'', False, GInt 32), (''format'', False, GString), (''enabled'', False, GBool),
    (''token'', True, GString), (''createdAt'', True, GString)]"

definition ListLogForwardingResponseT :: gotype where
  "ListLogForwardingResponseT = gstruct [
    (''items'', True, GSlice LogForwardingConfigT)]"

definition DNSZoneT :: gotype where
  "DNSZoneT = gstruct [
    (''Id'', False, GInt 64), (''Domain'', False, GString), (''Status'', True, GPtr GBool),
    (''DateCreated'', True, GPtr GString), (''DateModified'', True, GPtr GString),
    (''Nameservers'', True, GSlice GString), (''HasDnsSec'', True, GBool)]"

definition DNSZoneAddModelT :: gotype where
  "DNSZoneAddModelT = gstruct [
    (''domain'', False, GString)]"

definition UpdateDNSZoneModelT :: gotype where
  "UpdateDNSZoneModelT = gstruct [
    (''loggingEnabled'', True, GPtr GBool), (''loggingIpAnonymizationEnabled'', True, GPtr GBool)]"

definition GeoDNSLocationModelT :: gotype where
  "GeoDNSLocationModelT = gstruct [
    (''CountryCode'', True, GString), (''Country'', True, GString), (''ASN'', True, GInt 64),
    (''OrganizationName'', True, GString), (''City'', True, GPtr GString)]"

definition DNSRecordGeoLocationInfoT :: gotype where
  "DNSRecordGeoLocationInfoT = gstruct [
    (''Country'', True, GString), (''City'', True, GString), (''Latitude'', True, GPtr GFloat),
    (''Longitude'', True, GPtr GFloat)]"

definition DNSRecordEnvVariableT :: gotype where
  "DNSRecordEnvVariableT = gstruct [
    (''Name'', True, GString), (''Value'', True, GString)]"

definition DNSRecordT :: gotype where
  "DNSRecordT = gstruct [
    (''Id'', False, GInt 64), (''Type'', False, GInt 32), (''Name'', False, GString), (''Value'', False, GString),
    (''Ttl'', False, GInt 32), (''Priority'', True, GPtr (GInt 32)), (''Weight'', True, GPtr (GInt 32)),
    (''Port'', True, GPtr (GInt 32)), (''Flags'', True, GPtr (GInt 32)), (''Tag'', True, GPtr GString),
    (''Disabled'', True, GBool), (''Accelerated'', True, GBool), (''AcceleratedPullZoneId'', True, GInt 64),
    (''LinkName'', True, GPtr GString), (''IPGeoLocationInfo'', True, GPtr GeoDNSLocationModelT),
    (''GeolocationInfo'', True, GPtr DNSRecordGeoLocationInfoT), (''MonitorStatus'', True, GInt 32),
    (''MonitorType'', True, GInt 32), (''GeolocationLatitude'', True, GPtr GFloat),
    (''GeolocationLongitude'', True, GPtr GFloat), (''EnviromentalVariables'', True, GSlice DNSRecordEnvVariableT),
    (''LatencyZone'', True, GPtr GString), (''SmartRoutingType'', True, GInt 32), (''Comment'', True, GPtr GString),
    (''AutoSslIssuance'', True, GPtr GBool), (''AccelerationStatus'', True, GInt 32)]"

definition AddDNSRecordModelT :: gotype where
  "AddDNSRecordModelT = gstruct [
    (''type'', False, GInt 32), (''name'', False, GString), (''value'', False, GString), (''ttl'', False, GInt 32),
    (''priority'', True, GPtr (GInt 32)), (''weight'', True, GPtr (GInt 32)), (''port'', True, GPtr (GInt 32)),
    (''flags'', True, GPtr (GInt 32)), (''tag'', True, GPtr GString), (''pullZoneId'', True, GPtr (GInt 64)),
    (''scriptId'', True, GPtr (GInt 64)), (''accelerated'', True, GPtr GBool),
    (''monitorType'', True, GPtr (GInt 32)), (''geolocationLatitude'', True, GPtr GFloat),
    (''geolocationLongitude'', True, GPtr GFloat), (''latencyZone'', True, GPtr GString),
    (''smartRoutingType'', True, GPtr (GInt 32)), (''enviromentalVariables'', True, GSlice DNSRecordEnvVariableT),
    (''comment'', True, GPtr GString), (''autoSslIssuance'', True, GPtr GBool)]"

definition UpdateDNSRecordModelT :: gotype where
  "UpdateDNSRecordModelT = gstruct [
    (''type'', False, GInt 32), (''name'', False, GString), (''value'', False, GString), (''ttl'', False, GInt 32),
    (''priority'', True, GPtr (GInt 32)), (''weight'', True, GPtr (GInt 32)), (''port'', True, GPtr (GInt 32)),
    (''flags'', True, GPtr (GInt 32)), (''tag'', True, GPtr GString), (''disabled'', True, GBool),
    (''pullZoneId'', True, GPtr (GInt 64)), (''scriptId'', True, GPtr (GInt 64)),
    (''accelerated'', True, GPtr GBool), (''monitorType'', True, GPtr (GInt 32)),
    (''geolocationLatitude'', True, GPtr GFloat), (''geolocationLongitude'', True, GPtr GFloat),
    (''latencyZone'', True, GPtr GString), (''smartRoutingType'', True, GPtr (GInt 32)),
    (''enviromentalVariables'', True, GSlice DNSRecordEnvVariableT), (''comment'', True, GPtr GString),
    (''autoSslIssuance'', True, GPtr GBool)]"

definition DNSZoneImportResultT :: gotype where
  "DNSZoneImportResultT = gstruct [
    (''imported'', True, GInt 32), (''failed'', True, GInt 32), (''total'', True, GInt 32)]"

definition HostnameT :: gotype where
  "HostnameT = gstruct [
    (''id'', True, GInt 64), (''value'', True, GString), (''forceSsl'', True, GBool), (''isSystem'', True, GBool)]"

definition PullZoneT :: gotype where
  "PullZoneT = gstruct [
    (''Id'', False, GInt 64), (''Name'', False, GString), (''OriginUrl'', True, GString), (''Type'', True, GInt 32),
    (''StorageZoneId'', True, GInt 64), (''Enabled'', False, GBool), (''Hostnames'', True, GSlice HostnameT),
    (''ConnectionsLimit'', True, GPtr (GInt 64)), (''MonthlyBandwidthLimit'', True, GPtr (GInt 64))]"

definition PullZoneAddModelT :: gotype where
  "PullZoneAddModelT = gstruct [
    (''name'', False, GString), (''originUrl'', True, GString), (''type'', True, GPtr (GInt 32)),
    (''storageZoneId'', True, GPtr (GInt 64))]"

definition PullZoneSettingsModelT :: gotype where
  "PullZoneSettingsModelT = gstruct [
    (''enabled'', True, GPtr GBool), (''cacheExpirationTime'', True, GPtr (GInt 32)),
    (''blockedIps'', True, GSlice GString), (''blockedReferrers'', True, GSlice GString),
    (''allowedReferrers'', True, GSlice GString)]"

definition EdgeRuleTriggerT :: gotype where
  "EdgeRuleTriggerT = gstruct [
    (''type'', False, GInt 32), (''parameter1'', True, GString), (''parameter2'', True, GString)]"

definition EdgeRuleActionT :: gotype where
  "EdgeRuleActionT = gstruct [
    (''type'', False, GInt 32), (''parameter1'', True, GString), (''parameter2'', True, GString)]"

definition EdgeRuleT :: gotype where
  "EdgeRuleT = gstruct [
    (''id'', True, GString), (''description'', True, GString), (''enabled'', False, GBool),
    (''triggers'', True, GSlice EdgeRuleTriggerT), (''actions'', True, GSlice EdgeRuleActionT)]"

definition PullZonePurgeModelT :: gotype where
  "PullZonePurgeModelT = gstruct [
    (''url'', True, GString)]"

definition PullZoneCountT :: gotype where
  "PullZoneCountT = gstruct [
    (''count'', True, GInt 64)]"

definition AddHostnameRequestModelT :: gotype where
  "AddHostnameRequestModelT = gstruct [
    (''hostname'', False, GString)]"

definition RemoveHostnameRequestModelT :: gotype where
  "RemoveHostnameRequestModelT = gstruct [
    (''hostname'', False, GString)]"

section \<open>The table\<close>

text \<open>Every type of the client, and the unnamed ones an answer is decoded into.\<close>

definition bunnyTypes :: "(string \<times> gotype) list" where
  "bunnyTypes = [
    (''BillingDetails'', BillingDetailsT), (''BillingSummaryItem'', BillingSummaryItemT),
    (''PaymentRequest'', PaymentRequestT), (''EdgeScript'', EdgeScriptT),
    (''AddEdgeScriptModel'', AddEdgeScriptModelT), (''UpdateEdgeScriptModel'', UpdateEdgeScriptModelT),
    (''EdgeScriptCodeModel'', EdgeScriptCodeModelT), (''UpdateEdgeScriptCodeModel'', UpdateEdgeScriptCodeModelT),
    (''EdgeScriptVariable'', EdgeScriptVariableT), (''EdgeScriptSecret'', EdgeScriptSecretT),
    (''EdgeScriptRelease'', EdgeScriptReleaseT), (''EdgeScriptStatistics'', EdgeScriptStatisticsT),
    (''ListEdgeScriptsResponse'', ListEdgeScriptsResponseT), (''ListReleasesResponse'', ListReleasesResponseT),
    (''CDNLogEntry'', CDNLogEntryT), (''PaginationInfo'', PaginationInfoT), (''QuerySummary'', QuerySummaryT),
    (''CDNLogResponse'', CDNLogResponseT), (''ImageConfigRequest'', ImageConfigRequestT),
    (''ContainerConfigRequest'', ContainerConfigRequestT), (''StickySessionSettings'', StickySessionSettingsT),
    (''ContainerPortMappingRequest'', ContainerPortMappingRequestT), (''CDNEndpointRequest'', CDNEndpointRequestT),
    (''AnycastEndpointRequest'', AnycastEndpointRequestT), (''EndpointRequest'', EndpointRequestT),
    (''EnvVarSuggestion'', EnvVarSuggestionT), (''VolumeSuggestion'', VolumeSuggestionT),
    (''ContainerConfigSuggestions'', ContainerConfigSuggestionsT), (''DetachVolumeResponse'', DetachVolumeResponseT),
    (''Country'', CountryT), (''CDNRegion'', CDNRegionT), (''StorageRegion'', StorageRegionT),
    (''UserAuditLog'', UserAuditLogT), (''UserAuditResponse'', UserAuditResponseT),
    (''SearchResult'', SearchResultT), (''SearchResults'', SearchResultsT),
    (''OriginErrorEntry'', OriginErrorEntryT), (''OriginErrorLog'', OriginErrorLogT),
    (''ExternalDnsCertRequest'', ExternalDnsCertRequestT), (''ExternalDnsCertResponse'', ExternalDnsCertResponseT),
    (''PrivateKeyUpdateModel'', PrivateKeyUpdateModelT), (''ForceSSLModel'', ForceSSLModelT),
    (''ReferrerModel'', ReferrerModelT), (''BlockedIPModel'', BlockedIPModelT),
    (''ResetSecurityKeyModel'', ResetSecurityKeyModelT), (''ZoneAvailabilityResponse'', ZoneAvailabilityResponseT),
    (''ShieldResponse'', ShieldResponseT),
    (''GetShieldZonePullzoneMappingResponse'', GetShieldZonePullzoneMappingResponseT),
    (''CustomWAFRuleV2'', CustomWAFRuleV2T), (''GetCustomWafRulesResponse'', GetCustomWafRulesResponseT),
    (''CustomAccessList'', CustomAccessListT), (''EventRow'', EventRowT),
    (''EventLogsSearchResponse'', EventLogsSearchResponseT), (''ShieldZoneV2'', ShieldZoneV2T),
    (''CreateShieldZoneRequest'', CreateShieldZoneRequestT), (''RateLimitV2'', RateLimitV2T),
    (''CreateRateLimitRequest'', CreateRateLimitRequestT), (''WAFRuleV2'', WAFRuleV2T),
    (''CreateCustomWAFRuleRequest'', CreateCustomWAFRuleRequestT), (''WAFProfile'', WAFProfileT),
    (''WAFEnumMapping'', WAFEnumMappingT), (''WAFEngineConfig'', WAFEngineConfigT),
    (''AccessListDetails'', AccessListDetailsT), (''CreateCustomAccessListRequest'', CreateCustomAccessListRequestT),
    (''APIGuardianConfig'', APIGuardianConfigT), (''APIGuardianEndpoint'', APIGuardianEndpointT),
    (''BotCategorizationEntry'', BotCategorizationEntryT), (''BotCategorizationGroup'', BotCategorizationGroupT),
    (''BotCategoryAction'', BotCategoryActionT), (''UploadScanningConfig'', UploadScanningConfigT),
    (''BotDetectionConfigV2'', BotDetectionConfigV2T), (''CDNStatistics'', CDNStatisticsT),
    (''OriginShieldQueueStats'', OriginShieldQueueStatsT), (''SafeHopStats'', SafeHopStatsT),
    (''OptimizerStats'', OptimizerStatsT), (''StorageZone'', StorageZoneT),
    (''StorageZoneRegion'', StorageZoneRegionT), (''AddStorageZoneModel'', AddStorageZoneModelT),
    (''StorageFile'', StorageFileT), (''VideoLibrary'', VideoLibraryT),
    (''AddVideoLibraryModel'', AddVideoLibraryModelT), (''Video'', VideoT),
    (''CreateVideoResponse'', CreateVideoResponseT), (''VideoCollection'', VideoCollectionT),
    (''FetchVideoRequest'', FetchVideoRequestT), (''ThumbnailRequest'', ThumbnailRequestT),
    (''TranscribeSettings'', TranscribeSettingsT), (''SmartGenerateModel'', SmartGenerateModelT),
    (''ListMeta'', ListMetaT), (''ValidationError'', ValidationErrorT), (''ErrorDetails'', ErrorDetailsT),
    (''AutoscalingSettings'', AutoscalingSettingsT), (''UpdateRegionSettingsRequest'', UpdateRegionSettingsRequestT),
    (''ContainerEntryPoint'', ContainerEntryPointT), (''HTTPGetProbeRequest'', HTTPGetProbeRequestT),
    (''HTTPGetProbeResponse'', HTTPGetProbeResponseT), (''HTTPGetProbe'', HTTPGetProbeT),
    (''TCPSocketProbeRequest'', TCPSocketProbeRequestT), (''TCPSocketProbe'', TCPSocketProbeT),
    (''ContainerProbe'', ContainerProbeT), (''ContainerProbes'', ContainerProbesT),
    (''EnvironmentVariable'', EnvironmentVariableT), (''VolumeMountRequest'', VolumeMountRequestT),
    (''ContainerRequest'', ContainerRequestT), (''VolumeRequest'', VolumeRequestT),
    (''AddApplicationRequest'', AddApplicationRequestT), (''AddApplicationResponse'', AddApplicationResponseT),
    (''DisplayEndpoint'', DisplayEndpointT), (''RegionSettings'', RegionSettingsT),
    (''EndpointPortMapping'', EndpointPortMappingT), (''ContainerEndpoint'', ContainerEndpointT),
    (''ContainerVolumeMount'', ContainerVolumeMountT), (''ContainerTemplate'', ContainerTemplateT),
    (''ContainerInstance'', ContainerInstanceT), (''VolumeTemplate'', VolumeTemplateT),
    (''NetworkLimits'', NetworkLimitsT), (''Application'', ApplicationT), (''AppListItem'', AppListItemT),
    (''ListApplicationsResponse'', ListApplicationsResponseT),
    (''PatchApplicationRequest'', PatchApplicationRequestT), (''EndpointInternalIP'', EndpointInternalIPT),
    (''EndpointListItem'', EndpointListItemT), (''ListEndpointsResponse'', ListEndpointsResponseT),
    (''SaveEndpointResponse'', SaveEndpointResponseT), (''VolumeInstance'', VolumeInstanceT),
    (''VolumeInList'', VolumeInListT), (''ListVolumesSummary'', ListVolumesSummaryT),
    (''ListVolumesResponse'', ListVolumesResponseT), (''Region'', RegionT),
    (''ListRegionsResponse'', ListRegionsResponseT), (''OptimalBaseRegionResponse'', OptimalBaseRegionResponseT),
    (''ContainerRegistry'', ContainerRegistryT), (''Credentials'', CredentialsT),
    (''ContainerRegistryRequest'', ContainerRegistryRequestT),
    (''ListContainerRegistriesResponse'', ListContainerRegistriesResponseT),
    (''SaveContainerRegistryResult'', SaveContainerRegistryResultT),
    (''RemoveContainerRegistryResult'', RemoveContainerRegistryResultT),
    (''SearchPublicContainerImagesRequest'', SearchPublicContainerImagesRequestT),
    (''ContainerImage'', ContainerImageT), (''ContainerImageTag'', ContainerImageTagT),
    (''ImageConfig'', ImageConfigT), (''ImageTagInfo'', ImageTagInfoT),
    (''DoubleStatusIndicator'', DoubleStatusIndicatorT), (''Int32StatusIndicator'', Int32StatusIndicatorT),
    (''OverviewContainer'', OverviewContainerT), (''OverviewPod'', OverviewPodT),
    (''OverviewRegion'', OverviewRegionT), (''Overview'', OverviewT), (''Statistics'', StatisticsT),
    (''UsageSummary'', UsageSummaryT), (''UserLimits'', UserLimitsT),
    (''LogForwardingConfig'', LogForwardingConfigT), (''ListLogForwardingResponse'', ListLogForwardingResponseT),
    (''DNSZone'', DNSZoneT), (''DNSZoneAddModel'', DNSZoneAddModelT), (''UpdateDNSZoneModel'', UpdateDNSZoneModelT),
    (''GeoDNSLocationModel'', GeoDNSLocationModelT), (''DNSRecordGeoLocationInfo'', DNSRecordGeoLocationInfoT),
    (''DNSRecordEnvVariable'', DNSRecordEnvVariableT), (''DNSRecord'', DNSRecordT),
    (''AddDNSRecordModel'', AddDNSRecordModelT), (''UpdateDNSRecordModel'', UpdateDNSRecordModelT),
    (''DNSZoneImportResult'', DNSZoneImportResultT), (''Hostname'', HostnameT), (''PullZone'', PullZoneT),
    (''PullZoneAddModel'', PullZoneAddModelT), (''PullZoneSettingsModel'', PullZoneSettingsModelT),
    (''EdgeRuleTrigger'', EdgeRuleTriggerT), (''EdgeRuleAction'', EdgeRuleActionT), (''EdgeRule'', EdgeRuleT),
    (''PullZonePurgeModel'', PullZonePurgeModelT), (''PullZoneCount'', PullZoneCountT),
    (''AddHostnameRequestModel'', AddHostnameRequestModelT),
    (''RemoveHostnameRequestModel'', RemoveHostnameRequestModelT),
    (''[]BillingSummaryItem'', GSlice BillingSummaryItemT), (''[]CDNRegion'', GSlice CDNRegionT),
    (''[]ContainerImage'', GSlice ContainerImageT), (''[]ContainerImageTag'', GSlice ContainerImageTagT),
    (''[]Country'', GSlice CountryT), (''[]PaymentRequest'', GSlice PaymentRequestT),
    (''[]PullZone'', GSlice PullZoneT), (''[]StorageRegion'', GSlice StorageRegionT),
    (''[]StorageZone'', GSlice StorageZoneT), (''[]VideoLibrary'', GSlice VideoLibraryT),
    (''[]map[string]any'', GSlice (GMap GAny)), (''[]string'', GSlice GString), (''map[string]any'', GMap GAny),
    (''string'', GString), (''struct{Id int64}'', gstruct [(''Id'', False, GInt 64)]),
    (''struct{Items []DNSRecord}'', gstruct [(''Items'', False, GSlice DNSRecordT)]),
    (''struct{Items []DNSZone}'', gstruct [(''Items'', False, GSlice DNSZoneT)]),
    (''struct{Secrets []EdgeScriptSecret}'', gstruct [(''Secrets'', False, GSlice EdgeScriptSecretT)]),
    (''struct{available bool}'', gstruct [(''available'', False, GBool)]),
    (''struct{data APIGuardianConfig}'', gstruct [(''data'', False, APIGuardianConfigT)]),
    (''struct{data AccessListDetails}'', gstruct [(''data'', False, AccessListDetailsT)]),
    (''struct{data BotDetectionConfigV2}'', gstruct [(''data'', False, BotDetectionConfigV2T)]),
    (''struct{data CustomAccessList}'', gstruct [(''data'', False, CustomAccessListT)]),
    (''struct{data CustomWAFRuleV2}'', gstruct [(''data'', False, CustomWAFRuleV2T)]),
    (''struct{data RateLimitV2}'', gstruct [(''data'', False, RateLimitV2T)]),
    (''struct{data ShieldZoneV2}'', gstruct [(''data'', False, ShieldZoneV2T)]),
    (''struct{data UploadScanningConfig}'', gstruct [(''data'', False, UploadScanningConfigT)]),
    (''struct{data []BotCategorizationGroup}'', gstruct [(''data'', False, GSlice BotCategorizationGroupT)]),
    (''struct{data []EventRow}'', gstruct [(''data'', False, GSlice EventRowT)]),
    (''struct{data []RateLimitV2}'', gstruct [(''data'', False, GSlice RateLimitV2T)]),
    (''struct{data []ShieldZoneV2}'', gstruct [(''data'', False, GSlice ShieldZoneV2T)]),
    (''struct{data []WAFRuleV2}'', gstruct [(''data'', False, GSlice WAFRuleV2T)]),
    (''struct{data [][]WAFProfile}'', gstruct [(''data'', False, GSlice (GSlice WAFProfileT))]),
    (''struct{data []map[string]any}'', gstruct [(''data'', False, GSlice (GMap GAny))]),
    (''struct{data map[string]any}'', gstruct [(''data'', False, GMap GAny)]),
    (''struct{data string}'', gstruct [(''data'', False, GString)]),
    (''struct{items []Video;totalItems int}'', gstruct [(''items'', False, GSlice VideoT), (''totalItems'', False, GInt 64)]),
    (''struct{items []VideoCollection;totalItems int}'', gstruct [(''items'', False, GSlice VideoCollectionT), (''totalItems'', False, GInt 64)]),
    (''struct{items []string}'', gstruct [(''items'', False, GSlice GString)])]"

section \<open>Well-formed types\<close>

text \<open>The names of the fields in small letters.\<close>

lemma lower_table:
  "lowerChar (CHR ''A'') = CHR ''a''"
  "lowerChar (CHR ''B'') = CHR ''b''"
  "lowerChar (CHR ''C'') = CHR ''c''"
  "lowerChar (CHR ''D'') = CHR ''d''"
  "lowerChar (CHR ''E'') = CHR ''e''"
  "lowerChar (CHR ''F'') = CHR ''f''"
  "lowerChar (CHR ''G'') = CHR ''g''"
  "lowerChar (CHR ''H'') = CHR ''h''"
  "lowerChar (CHR ''I'') = CHR ''i''"
  "lowerChar (CHR ''J'') = CHR ''j''"
  "lowerChar (CHR ''K'') = CHR ''k''"
  "lowerChar (CHR ''L'') = CHR ''l''"
  "lowerChar (CHR ''M'') = CHR ''m''"
  "lowerChar (CHR ''N'') = CHR ''n''"
  "lowerChar (CHR ''O'') = CHR ''o''"
  "lowerChar (CHR ''P'') = CHR ''p''"
  "lowerChar (CHR ''Q'') = CHR ''q''"
  "lowerChar (CHR ''R'') = CHR ''r''"
  "lowerChar (CHR ''S'') = CHR ''s''"
  "lowerChar (CHR ''T'') = CHR ''t''"
  "lowerChar (CHR ''U'') = CHR ''u''"
  "lowerChar (CHR ''V'') = CHR ''v''"
  "lowerChar (CHR ''W'') = CHR ''w''"
  "lowerChar (CHR ''X'') = CHR ''x''"
  "lowerChar (CHR ''Y'') = CHR ''y''"
  "lowerChar (CHR ''Z'') = CHR ''z''"
  "lowerChar (CHR ''a'') = CHR ''a''"
  "lowerChar (CHR ''b'') = CHR ''b''"
  "lowerChar (CHR ''c'') = CHR ''c''"
  "lowerChar (CHR ''d'') = CHR ''d''"
  "lowerChar (CHR ''e'') = CHR ''e''"
  "lowerChar (CHR ''f'') = CHR ''f''"
  "lowerChar (CHR ''g'') = CHR ''g''"
  "lowerChar (CHR ''h'') = CHR ''h''"
  "lowerChar (CHR ''i'') = CHR ''i''"
  "lowerChar (CHR ''j'') = CHR ''j''"
  "lowerChar (CHR ''k'') = CHR ''k''"
  "lowerChar (CHR ''l'') = CHR ''l''"
  "lowerChar (CHR ''m'') = CHR ''m''"
  "lowerChar (CHR ''n'') = CHR ''n''"
  "lowerChar (CHR ''o'') = CHR ''o''"
  "lowerChar (CHR ''p'') = CHR ''p''"
  "lowerChar (CHR ''q'') = CHR ''q''"
  "lowerChar (CHR ''r'') = CHR ''r''"
  "lowerChar (CHR ''s'') = CHR ''s''"
  "lowerChar (CHR ''t'') = CHR ''t''"
  "lowerChar (CHR ''u'') = CHR ''u''"
  "lowerChar (CHR ''v'') = CHR ''v''"
  "lowerChar (CHR ''w'') = CHR ''w''"
  "lowerChar (CHR ''x'') = CHR ''x''"
  "lowerChar (CHR ''y'') = CHR ''y''"
  "lowerChar (CHR ''z'') = CHR ''z''"
  "lowerChar (CHR ''0'') = CHR ''0''"
  "lowerChar (CHR ''1'') = CHR ''1''"
  "lowerChar (CHR ''2'') = CHR ''2''"
  "lowerChar (CHR ''3'') = CHR ''3''"
  "lowerChar (CHR ''4'') = CHR ''4''"
  "lowerChar (CHR ''5'') = CHR ''5''"
  "lowerChar (CHR ''6'') = CHR ''6''"
  "lowerChar (CHR ''7'') = CHR ''7''"
  "lowerChar (CHR ''8'') = CHR ''8''"
  "lowerChar (CHR ''9'') = CHR ''9''"
  by (simp_all add: lowerChar_def char_of_def bit_iff_odd)

lemmas type_defs =
    BillingDetailsT_def BillingSummaryItemT_def PaymentRequestT_def EdgeScriptT_def AddEdgeScriptModelT_def
    UpdateEdgeScriptModelT_def EdgeScriptCodeModelT_def UpdateEdgeScriptCodeModelT_def EdgeScriptVariableT_def
    EdgeScriptSecretT_def EdgeScriptReleaseT_def EdgeScriptStatisticsT_def ListEdgeScriptsResponseT_def
    ListReleasesResponseT_def CDNLogEntryT_def PaginationInfoT_def QuerySummaryT_def CDNLogResponseT_def
    ImageConfigRequestT_def ContainerConfigRequestT_def StickySessionSettingsT_def ContainerPortMappingRequestT_def
    CDNEndpointRequestT_def AnycastEndpointRequestT_def EndpointRequestT_def EnvVarSuggestionT_def
    VolumeSuggestionT_def ContainerConfigSuggestionsT_def DetachVolumeResponseT_def CountryT_def CDNRegionT_def
    StorageRegionT_def UserAuditLogT_def UserAuditResponseT_def SearchResultT_def SearchResultsT_def
    OriginErrorEntryT_def OriginErrorLogT_def ExternalDnsCertRequestT_def ExternalDnsCertResponseT_def
    PrivateKeyUpdateModelT_def ForceSSLModelT_def ReferrerModelT_def BlockedIPModelT_def ResetSecurityKeyModelT_def
    ZoneAvailabilityResponseT_def ShieldResponseT_def GetShieldZonePullzoneMappingResponseT_def CustomWAFRuleV2T_def
    GetCustomWafRulesResponseT_def CustomAccessListT_def EventRowT_def EventLogsSearchResponseT_def
    ShieldZoneV2T_def CreateShieldZoneRequestT_def RateLimitV2T_def CreateRateLimitRequestT_def WAFRuleV2T_def
    CreateCustomWAFRuleRequestT_def WAFProfileT_def WAFEnumMappingT_def WAFEngineConfigT_def AccessListDetailsT_def
    CreateCustomAccessListRequestT_def APIGuardianConfigT_def APIGuardianEndpointT_def BotCategorizationEntryT_def
    BotCategorizationGroupT_def BotCategoryActionT_def UploadScanningConfigT_def BotDetectionConfigV2T_def
    CDNStatisticsT_def OriginShieldQueueStatsT_def SafeHopStatsT_def OptimizerStatsT_def StorageZoneT_def
    StorageZoneRegionT_def AddStorageZoneModelT_def StorageFileT_def VideoLibraryT_def AddVideoLibraryModelT_def
    VideoT_def CreateVideoResponseT_def VideoCollectionT_def FetchVideoRequestT_def ThumbnailRequestT_def
    TranscribeSettingsT_def SmartGenerateModelT_def ListMetaT_def ValidationErrorT_def ErrorDetailsT_def
    AutoscalingSettingsT_def UpdateRegionSettingsRequestT_def ContainerEntryPointT_def HTTPGetProbeRequestT_def
    HTTPGetProbeResponseT_def HTTPGetProbeT_def TCPSocketProbeRequestT_def TCPSocketProbeT_def ContainerProbeT_def
    ContainerProbesT_def EnvironmentVariableT_def VolumeMountRequestT_def ContainerRequestT_def VolumeRequestT_def
    AddApplicationRequestT_def AddApplicationResponseT_def DisplayEndpointT_def RegionSettingsT_def
    EndpointPortMappingT_def ContainerEndpointT_def ContainerVolumeMountT_def ContainerTemplateT_def
    ContainerInstanceT_def VolumeTemplateT_def NetworkLimitsT_def ApplicationT_def AppListItemT_def
    ListApplicationsResponseT_def PatchApplicationRequestT_def EndpointInternalIPT_def EndpointListItemT_def
    ListEndpointsResponseT_def SaveEndpointResponseT_def VolumeInstanceT_def VolumeInListT_def
    ListVolumesSummaryT_def ListVolumesResponseT_def RegionT_def ListRegionsResponseT_def
    OptimalBaseRegionResponseT_def ContainerRegistryT_def CredentialsT_def ContainerRegistryRequestT_def
    ListContainerRegistriesResponseT_def SaveContainerRegistryResultT_def RemoveContainerRegistryResultT_def
    SearchPublicContainerImagesRequestT_def ContainerImageT_def ContainerImageTagT_def ImageConfigT_def
    ImageTagInfoT_def DoubleStatusIndicatorT_def Int32StatusIndicatorT_def OverviewContainerT_def OverviewPodT_def
    OverviewRegionT_def OverviewT_def StatisticsT_def UsageSummaryT_def UserLimitsT_def LogForwardingConfigT_def
    ListLogForwardingResponseT_def DNSZoneT_def DNSZoneAddModelT_def UpdateDNSZoneModelT_def
    GeoDNSLocationModelT_def DNSRecordGeoLocationInfoT_def DNSRecordEnvVariableT_def DNSRecordT_def
    AddDNSRecordModelT_def UpdateDNSRecordModelT_def DNSZoneImportResultT_def HostnameT_def PullZoneT_def
    PullZoneAddModelT_def PullZoneSettingsModelT_def EdgeRuleTriggerT_def EdgeRuleActionT_def EdgeRuleT_def
    PullZonePurgeModelT_def PullZoneCountT_def AddHostnameRequestModelT_def RemoveHostnameRequestModelT_def

lemma bunny_types_wf: "list_all (\<lambda>(n, t). wfType t) bunnyTypes"
  by (simp add: bunnyTypes_def type_defs gstruct_def toLower_def lower_table)



end
