(* ===== verification/BunnyProps.thy ===== *)
theory BunnyProps imports BunnyCommands BunnyTypes RunLemmas begin

text \<open>
  What the Bunny commands can ask for, whatever the flags, the answers and the decoder are; with
  the decoder of \<open>encoding/json\<close>, that an answer has the type it is decoded into; and that the
  request of a deployment is the struct the source fills.
\<close>

section \<open>Where requests go\<close>

definition bunnyHosts :: "string list" where
  "bunnyHosts = [''https://api.bunny.net/'', ''https://logging.bunnycdn.com/'', ''https://video.bunnycdn.com/'',
     ''https://storage.bunnycdn.com/'']"

text \<open>The commands that delete something at Bunny.\<close>

fun deleting :: "bunnyCommand \<Rightarrow> bool" where
  "deleting (App (AppDelete a)) = True"
| "deleting (DNS (ZoneDelete z)) = True"
| "deleting (DNS (RecordDelete z r)) = True"
| "deleting (PullZone (RuleDelete z r)) = True"
| "deleting (PullZone (PullDelete z)) = True"
| "deleting (Script (ScriptDelete i)) = True"
| "deleting (Storage (StorageDelete i)) = True"
| "deleting (Storage (FileDelete z p)) = True"
| "deleting (Stream (VideoDelete l v)) = True"
| "deleting (Stream (CollectionDelete l i)) = True"
| "deleting (Shield (ShieldDelete z)) = True"
| "deleting cmd = False"

text \<open>The local side: the key, a file that is sent or written, the order of a map.\<close>

fun bunnyReq :: "bool \<Rightarrow> req \<Rightarrow> bool" where
  "bunnyReq d (HttpDo m link hs body) = (list_ex (hasPrefix link) bunnyHosts \<and> (m = ''DELETE'' \<longrightarrow> d))"
| "bunnyReq d (Getenv k) = (k = ''BUNNY_API_KEY'')"
| "bunnyReq d (LoadCreds k) = (k = ''bunny_api_key'')"
| "bunnyReq d (ReadFile f) = True"
| "bunnyReq d (WriteFile f s) = True"
| "bunnyReq d (MapOrder n) = True"
| "bunnyReq d q = False"

lemma baseURL_path: "list_ex (hasPrefix (baseURL api @ CHR ''/'' # p)) bunnyHosts"
  by (auto simp: baseURL_def bunnyHosts_def hasPrefix_def)

lemma toBunny_do [prog_intros]:
  assumes "hasPrefix path ''/''" "m = ''DELETE'' \<longrightarrow> d"
  shows "allreq (bunnyReq d) (bunnyDo c m api path body ds)"
proof -
  obtain r where r: "path = CHR ''/'' # r" using assms(1) by (cases path) (auto simp: hasPrefix_def)
  show ?thesis unfolding bunnyDo_def Let_def
    by (intro allreq_tryP allreq_httpDo) (use assms(2) in \<open>auto simp: r baseURL_path split: sum.splits\<close>)
qed

lemma toBunny_stream [prog_intros]:
  assumes "m = ''DELETE'' \<longrightarrow> d"
  shows "allreq (bunnyReq d) (streamDo c lib ak m path body ds)"
  unfolding streamDo_def
  by (intro allreq_tryP allreq_httpDo) (use assms in \<open>auto simp: bunnyHosts_def hasPrefix_def sprintf_def split: sum.splits\<close>)

lemma toBunny_client [prog_intros]: "allreq (bunnyReq d) (bunnyClientOf dec f)"
  unfolding bunnyClientOf_def apiKeyFrom_def savedKey_def by (auto intro!: prog_intros)

lemma toBunny_small [prog_intros]:
  "(\<And>n. allreq P (g n)) \<Longrightarrow> allreq P (withID m s g)"
  "allreq P p \<Longrightarrow> allreq P (thenOk p)"
  by (auto simp: withID_def thenOk_def intro!: prog_intros split: option.splits)

lemma hasPrefix_slash [simp]: "hasPrefix (CHR ''/'' # s) ''/''"
  by (simp add: hasPrefix_def)

lemma slash_sprintf [simp]: "sprintf (CHR ''/'' # d # s) as = CHR ''/'' # fmtFrom (d # s) as 0"
  by (simp add: sprintf_def)

lemma toBunny_library [prog_intros]:
  "(\<And>n ak. allreq (bunnyReq d) (g n ak)) \<Longrightarrow> allreq (bunnyReq d) (withLibrary l c g)"
  unfolding withLibrary_def GetLibraryAPIKey_def GetVideoLibrary_def Let_def
  by (auto intro!: prog_intros)

lemma toBunny_App: "allreq (bunnyReq (deleting (App x))) (runApp f x c)"
  by (cases x)
    (auto intro!: prog_intros simp: GetAppOverview_def ListApps_def DeleteApp_def DeployApp_def RestartApp_def
      runBunnyAppOverview_def GetAppUsageSummary_def runBunnyAppEndpointAddAnycast_def Let_def GetApp_def AddEndpoint_def
      ListEndpoints_def runBunnyAppCreate_def DeployFromImage_def envMapToSlice_def CreateApp_def runBunnyAppStatus_def
      split: list.splits)

lemma toBunny_DNS: "allreq (bunnyReq (deleting (DNS x))) (runDNS f x c)"
  by (cases x)
    (auto intro!: prog_intros simp: ListDNSZones_def AddDNSZone_def DeleteDNSZone_def ListDNSRecords_def
      runBunnyDNSRecordAdd_def Let_def AddDNSRecord_def runBunnyDNSRecordDelete_def DeleteDNSRecord_def)

lemma toBunny_PullZone: "allreq (bunnyReq (deleting (PullZone x))) (runPullZone f x c)"
  by (cases x)
    (auto intro!: prog_intros simp: runBunnyEdgeRuleAdd_def AddEdgeRule_def GetPullZone_def DeleteEdgeRule_def
      ListPullZones_def runBunnyPullZoneCreate_def CreatePullZone_def DeletePullZone_def PurgePullZoneCache_def)

lemma toBunny_Script: "allreq (bunnyReq (deleting (Script x))) (runScript x c)"
  by (cases x)
    (auto intro!: prog_intros simp: CreateEdgeScript_def ListEdgeScripts_def DeleteEdgeScript_def
      runBunnyScriptSetCode_def SetEdgeScriptCode_def PublishRelease_def)

lemma storage_hosts: "list_ex (hasPrefix (storageURL z p)) bunnyHosts"
  by (simp add: storageURL_def bunnyHosts_def hasPrefix_def sprintf_def)

lemma toBunny_Storage: "allreq (bunnyReq (deleting (Storage x))) (runStorage f x c)"
  by (cases x)
    (auto intro!: prog_intros simp: ListStorageZones_def runBunnyStorageCreate_def CreateStorageZone_def
      DeleteStorageZone_def getStorageAccessKey_def ListStorageFiles_def runBunnyFileUpload_def UploadStorageFile_def
      runBunnyFileDownload_def DownloadStorageFile_def DeleteStorageFile_def Let_def storage_hosts split: sum.splits)

lemma toBunny_Stream: "allreq (bunnyReq (deleting (Stream x))) (runStream x c)"
  by (cases x)
    (auto intro!: prog_intros simp: GetVideoStatistics_def ListVideoLibraries_def CreateVideoLibrary_def
      runStreamCreate_def CreateVideo_def runStreamList_def ListVideos_def runStreamGet_def GetVideo_def
      runStreamUpdate_def UpdateVideo_def runStreamFetch_def FetchVideo_def runStreamDelete_def DeleteVideo_def
      runStreamResolutions_def GetVideoResolutions_def runStreamUpload_def ListCollections_def CreateCollection_def
      DeleteCollection_def sprintf_def bunnyHosts_def hasPrefix_def)

lemma toBunny_Report: "allreq (bunnyReq False) (runReport x c)"
  by (cases x)
    (auto intro!: prog_intros simp: GetBillingDetails_def GetBillingSummary_def GetPaymentRequests_def GetStatistics_def
      GetOriginShieldQueueStatistics_def GetSafeHopStatistics_def GetOptimizerStatistics_def GetDNSZoneStatistics_def
      GetStorageZoneStatistics_def GetCountryList_def GetRegionList_def)

lemma toBunny_Shield: "allreq (bunnyReq (deleting (Shield x))) (runShield x c)"
  by (cases x)
    (auto intro!: prog_intros simp: ListShieldZoneConfigs_def CreateShieldZoneV2_def DeleteShieldZone_def GetWAFRules_def
      ListWAFProfiles_def GetRateLimitsForZone_def GetAPIGuardian_def GetBotDetectionConfig_def)


section \<open>Record types\<close>

lemma itoa_last: "itoa t \<noteq> [] \<and> is_digit (last (itoa t))"
  using itoa_nat_digits [of "nat (- t)"] itoa_nat_digits [of "nat t"] by (auto simp: itoa_def list_all_iff)

lemma itoa_upper: "toUpper (itoa t) = itoa t"
proof -
  have "upperChar c = c" if "c \<in> set (itoa t)" for c
    using that itoa_nat_digits [of "nat (- t)"] itoa_nat_digits [of "nat t"]
    by (auto simp: itoa_def list_all_iff is_digit_def upperChar_def Let_def split: if_splits)
  then show ?thesis unfolding toUpper_def by (rule map_idI)
qed

lemma no_digit_names: "(n, t) \<in> set nameToDNSType \<Longrightarrow> \<not> is_digit (last n)"
  by (auto simp: nameToDNSType_def dnsTypeToName_def is_digit_def)

lemma itoa_no_name: "map_of nameToDNSType (itoa t) = None"
  using itoa_last [of t] no_digit_names by (metis map_of_SomeD not_None_eq)

lemma dnsTypeToName_dom: "t \<notin> {0..15} \<Longrightarrow> map_of dnsTypeToName t = None"
  by (auto simp: dnsTypeToName_def)

lemma dns_names_back:
  "list_all (\<lambda>t. ParseDNSRecordType (DNSRecordTypeName t) = (if t \<in> {5, 6, 7, 11} then 0 else t)) [0..15]"
  by code_simp

lemma dns_type_roundtrip:
  assumes "- (2 ^ 31) \<le> t" "t < 2 ^ 31"
  shows "ParseDNSRecordType (DNSRecordTypeName t) = (if t \<in> {5, 6, 7, 11} then 0 else t)"
proof (cases "t \<in> {0..15}")
  case True
  then show ?thesis using dns_names_back unfolding list_all_iff by simp
next
  case False
  have "atoi (itoa t) = Some t" by (rule atoi_itoa) (use assms in auto)
  moreover have "t \<notin> {5, 6, 7, 11}" using False by auto
  ultimately show ?thesis using assms False
    by (simp add: DNSRecordTypeName_def dnsTypeToName_dom ParseDNSRecordType_def itoa_upper itoa_no_name parseInt32_def)
qed

lemma dns_type_roundtrip_witness: "ParseDNSRecordType (DNSRecordTypeName 15) = 15 \<and> ParseDNSRecordType (DNSRecordTypeName 5) = 0"
  using dns_type_roundtrip [of 15] dns_type_roundtrip [of 5] by simp

section \<open>Requests that cannot succeed, and flags that are shared\<close>

lemma decodeInto_NotPointer: "\<exists>e. decodeInto c (NotPointer ty) h = Inl e"
  by (cases "decodeBody c ''json.RawMessage'' h") (auto simp: decodeInto_def)

lemma results_tryP: "(\<And>x. results R (f x)) \<Longrightarrow> (\<And>e. R (Inl e)) \<Longrightarrow> results R (tryP w p f)"
  unfolding tryP_def by (rule results_bindI [where S = "\<lambda>_. True"]) (auto simp: fail_def split: sum.splits)

lemma results_NotPointer: "results (\<lambda>r. \<exists>e. r = Inl e) (bunnyDo c m api path body (NotPointer ty))"
proof -
  have "results (\<lambda>r. \<exists>e. r = Inl e) (case decodeInto c (NotPointer ty) h of Inl e \<Rightarrow> fail (w e) | Inr j \<Rightarrow> Ret (Inr j))" for h w
    using decodeInto_NotPointer [of c ty h] by (auto simp: fail_def)
  then show ?thesis unfolding bunnyDo_def Let_def by (intro results_tryP) (simp_all add: fail_def)
qed

lemma hostname_never_removed:
  "results (\<lambda>r. r \<noteq> Inr ()) (RemovePullZoneHostname c zone hostname)"
proof -
  let ?p = "bunnyDo c ''DELETE'' ''core'' (sprintf ''/pullzone/%d/removeHostname'' [Num zone]) None
    (NotPointer ''bunny.RemoveHostnameRequestModel'')"
  have "results (\<lambda>r. \<exists>e. r = Inl e) ?p"
    by (rule results_NotPointer)
  then show ?thesis unfolding RemovePullZoneHostname_def tryP_def
    by (rule results_bindI) (auto simp: fail_def)
qed

lemma record_add_without_value:
  assumes "atoi zone = Some n"
  shows "runBunnyDNSRecordAdd registeredFlags zone c =
    thenOk (AddDNSRecord c n (jobj [(''type'', jI 0), (''name'', jS ''''), (''value'', jS ''DE''), (''ttl'', jI 120), (''priority'', None)]))"
  using assms by (simp add: runBunnyDNSRecordAdd_def withID_def registeredFlags_def flagsAppCreate_def flagsEndpoint_def
    flagsRecordAdd_def flagsPullZoneCreate_def flagsEdgeRule_def flagsStorageCreate_def ParseDNSRecordType_def toUpper_def
    upperChar_def nameToDNSType_def dnsTypeToName_def)

section \<open>What an answer is decoded into\<close>

definition goDecoder :: "(string \<Rightarrow> string + json) \<Rightarrow> (string \<Rightarrow> string) \<Rightarrow> decoder" where
  "goDecoder parse mismatch ty s = (case parse s of Inl e \<Rightarrow> Inl e
     | Inr j \<Rightarrow> (case map_of bunnyTypes ty of None \<Rightarrow> Inr j
         | Some t \<Rightarrow> (case decodeAs t j of None \<Rightarrow> Inl (mismatch ty) | Some v \<Rightarrow> Inr v)))"

lemma goDecoder_typed: "goDecoder parse mismatch ty s = Inr v \<Longrightarrow> map_of bunnyTypes ty = Some t \<Longrightarrow> typed t v"
  by (auto simp: goDecoder_def decode_typed split: sum.splits option.splits)

lemma bunny_answers_typed:
  assumes "bcDec c = goDecoder parse mismatch" "map_of bunnyTypes ty = Some t"
  shows "results (\<lambda>r. \<forall>v. r = Inr v \<longrightarrow> typed t v) (bunnyDo c m api path body (Into ty))"
proof -
  have "typed t v" if "decodeInto c (Into ty) h = Inr v" for h v
    using that goDecoder_typed [OF _ assms(2)] by (auto simp: decodeInto_def decodeBody_def assms(1) split: sum.splits)
  then show ?thesis unfolding bunnyDo_def Let_def
    by (intro results_tryP) (auto simp: fail_def split: sum.splits)
qed

lemma map_of_skip: "k \<noteq> k' \<Longrightarrow> map_of ps k' = r \<Longrightarrow> map_of ((k, v) # ps) k' = r"
  by simp

lemma map_of_here: "map_of ((k, v) # ps) k = Some v"
  by simp

lemma count_type: "map_of bunnyTypes ''PullZoneCount'' = Some PullZoneCountT"
  unfolding bunnyTypes_def by (rule map_of_here | (rule map_of_skip, simp))+

text \<open>A number an operation returns fits its type, whatever the service answers.\<close>

lemma pull_zone_count_fits:
  assumes "bcDec c = goDecoder parse mismatch"
  shows "results (\<lambda>r. \<forall>v. r = Inr v \<longrightarrow> (\<exists>i. v = JNum i \<and> intFits 64 i)) (CountPullZones c)"
  unfolding CountPullZones_def tryP_def
  by (rule results_bindI [OF bunny_answers_typed [OF assms count_type]])
    (auto simp: PullZoneCountT_def gstruct_def jfield_def fail_def intFits_def split: sum.splits)

section \<open>The request of a deployment\<close>

text \<open>The struct a deployment fills, field by field; \<open>null\<close> stands for nil.\<close>

definition nilStr :: "string \<Rightarrow> json" where
  "nilStr s = (if s = '''' then JNull else JStr s)"

definition nilList :: "json list \<Rightarrow> json" where
  "nilList js = (if js = [] then JNull else JArr js)"

definition envValue :: "string \<times> string \<Rightarrow> json" where
  "envValue kv = JObj [(''name'', JStr (fst kv)), (''value'', JStr (snd kv))]"

definition endpointValue :: "int \<Rightarrow> bool \<Rightarrow> json" where
  "endpointValue port anycast = (let ports = (\<lambda>e. JArr [JObj [(''containerPort'', JNum port), (''exposedPort'', e),
       (''protocols'', JArr [JStr ''tcp''])]])
     in if anycast
        then JObj [(''id'', JNull), (''displayName'', JStr ''HTTP-Anycast''), (''cdn'', JNull),
          (''anycast'', JObj [(''type'', JStr ''iPv4''), (''portMappings'', ports (JNum port))])]
        else JObj [(''id'', JNull), (''displayName'', JStr ''HTTP''),
          (''cdn'', JObj [(''isSslEnabled'', JBool True), (''stickySessions'', JNull), (''pullZoneId'', JNull),
             (''portMappings'', ports JNull)]), (''anycast'', JNull)])"

definition containerValue :: "deployOptions \<Rightarrow> (string \<times> string) list \<Rightarrow> json" where
  "containerValue opts env =
     (let (namespace, nam, tag) = parseImageRef (boImage opts)
      in JObj [(''id'', JNull), (''name'', JStr ''app''), (''image'', JNull), (''imageName'', JStr nam),
           (''imageNamespace'', JStr namespace), (''imageTag'', JStr tag), (''imageDigest'', nilStr (boDigest opts)),
           (''imageRegistryId'', JStr (if boRegistry opts = '''' then detectRegistryID (boImage opts) else boRegistry opts)),
           (''imagePullPolicy'', JStr ''ifNotPresent''), (''entryPoint'', JNull), (''probes'', JNull),
           (''environmentVariables'', nilList (map envValue env)),
           (''endpoints'', JArr [endpointValue (boPort opts) (boAnycast opts)]),
           (''volumeMounts'', if boVolName opts \<noteq> '''' \<and> boVolPath opts \<noteq> ''''
              then JArr [JObj [(''name'', JStr (boVolName opts)), (''mountPath'', JStr (boVolPath opts))]] else JNull)])"

definition applicationValue :: "deployOptions \<Rightarrow> (string \<times> string) list \<Rightarrow> json" where
  "applicationValue opts env =
     JObj [(''name'', JStr (boAppName opts)), (''runtimeType'', JStr (boRuntime opts)),
       (''terminationGracePeriodSeconds'', JNull),
       (''autoScaling'', JObj [(''min'', JNum (boMin opts)), (''max'', JNum (boMax opts))]),
       (''regionSettings'', JObj [(''allowedRegionIds'', nilList (map JStr (boRegions opts))),
          (''requiredRegionIds'', nilList (map JStr (boRegions opts))), (''maxAllowedRegions'', JNull), (''nodeSelectors'', JNull)]),
       (''containerTemplates'', JArr [containerValue opts env]),
       (''volumes'', if boVolName opts \<noteq> '''' \<and> boVolPath opts \<noteq> ''''
          then JArr [JObj [(''name'', JStr (boVolName opts)), (''size'', JNum (boVolSize opts))]] else JNull)]"

lemmas request_parts = gstruct_def entriesOf_def isEmpty_def jobj_def List.map_filter_def jS_def jI_def jB_def jA_def eS_def eB_def eA_def
  nilStr_def nilList_def Let_def

lemma env_encodes: "encodeAs EnvironmentVariableT (envValue kv) = envVar kv"
  by (simp add: envValue_def envVar_def EnvironmentVariableT_def request_parts)

lemma endpoint_encodes: "encodeAs EndpointRequestT (endpointValue port anycast) = buildEndpoint port anycast"
  by (simp add: endpointValue_def buildEndpoint_def anycastEndpoint_def EndpointRequestT_def CDNEndpointRequestT_def
    AnycastEndpointRequestT_def ContainerPortMappingRequestT_def request_parts)

lemma container_encodes: "encodeAs ContainerRequestT (containerValue opts env) = containerRequest opts (map envVar env)"
  by (simp add: containerValue_def containerRequest_def ContainerRequestT_def VolumeMountRequestT_def endpoint_encodes env_encodes
    request_parts comp_def split: prod.split)

lemma application_encodes:
  "encodeAs AddApplicationRequestT (applicationValue opts env) = applicationRequest opts (map envVar env)"
  by (simp add: applicationValue_def applicationRequest_def AddApplicationRequestT_def AutoscalingSettingsT_def
    UpdateRegionSettingsRequestT_def VolumeRequestT_def container_encodes request_parts comp_def)

definition request_fits :: "deployOptions \<Rightarrow> bool" where
  "request_fits opts \<longleftrightarrow> intFits 32 (boMin opts) \<and> intFits 32 (boMax opts) \<and> intFits 32 (boPort opts) \<and> intFits 32 (boVolSize opts)"

lemma canonical_strings: "list_all (canonical GString) (map JStr ss)"
  by (simp add: list_all_iff)

lemma canonical_env: "list_all (canonical EnvironmentVariableT) (map envValue env)"
  by (simp add: list_all_iff envValue_def EnvironmentVariableT_def gstruct_def isEmpty_def)

lemma canonical_endpoint: "intFits 32 port \<Longrightarrow> canonical EndpointRequestT (endpointValue port anycast)"
  by (auto simp: endpointValue_def EndpointRequestT_def CDNEndpointRequestT_def AnycastEndpointRequestT_def
    ContainerPortMappingRequestT_def gstruct_def isEmpty_def Let_def)

lemma canonical_container: "request_fits opts \<Longrightarrow> canonical ContainerRequestT (containerValue opts env)"
  using canonical_env [of env]
  by (simp add: containerValue_def ContainerRequestT_def VolumeMountRequestT_def gstruct_def isEmpty_def nilStr_def nilList_def
    canonical_endpoint request_fits_def split: prod.split)

lemma canonical_application: "request_fits opts \<Longrightarrow> canonical AddApplicationRequestT (applicationValue opts env)"
  using canonical_strings [of "boRegions opts"] canonical_container [of opts env]
  by (simp add: applicationValue_def AddApplicationRequestT_def AutoscalingSettingsT_def UpdateRegionSettingsRequestT_def
    VolumeRequestT_def gstruct_def isEmpty_def nilList_def request_fits_def)

text \<open>The body of a deployment is the struct the source fills, and a reader of that struct finds every option in it.\<close>

lemma deployment_request:
  "DeployFromImage c opts = bind (mapOrder (boEnv opts)) (\<lambda>env.
     CreateApp c (encodeAs AddApplicationRequestT (applicationValue (deployDefaults opts) env)))"
  by (simp add: DeployFromImage_def envMapToSlice_def application_encodes Let_def)
    (simp add: deployDefaults_def)

lemma wf_application: "wfType AddApplicationRequestT"
proof -
  have "(''AddApplicationRequest'', AddApplicationRequestT) \<in> set bunnyTypes" by (simp add: bunnyTypes_def)
  with bunny_types_wf show ?thesis by (auto simp: list_all_iff)
qed

lemma deployment_request_read:
  "request_fits opts \<Longrightarrow> decodeAs AddApplicationRequestT (applicationRequest opts (map envVar env)) = Some (applicationValue opts env)"
  using decode_encode [OF wf_application canonical_application] by (simp add: application_encodes)

end
