(* ===== verification/CertProps.thy ===== *)
theory CertProps imports CertSync RunLemmas begin

text \<open>
  The worker that copies a renewed certificate: it looks first, stores the three files of a new
  certificate, and only then touches the services, of which it signals nothing but containers
  named by their hexadecimal identifier.
\<close>

definition certWrites :: "string \<Rightarrow> string \<Rightarrow> string \<Rightarrow> req list" where
  "certWrites store chain k = [WriteFile (pathJoin [store, ''fullchain.pem'']) chain,
     WriteFile (pathJoin [store, ''cert.pem'']) chain, WriteFile (pathJoin [store, ''privkey.pem'']) k]"

text \<open>Looking, and refreshing a service.\<close>

fun lookReq :: "req \<Rightarrow> bool" where
  "lookReq (MkDir d) = True"
| "lookReq (ReadFile f) = True"
| "lookReq q = False"

definition refreshReq :: "req \<Rightarrow> bool" where
  "refreshReq q \<longleftrightarrow> lookReq q \<or> (\<exists>f. q = Stat f \<or> q = OpenRoot f) \<or> (\<exists>f s. q = OpenWrite f s) \<or> q = psReq
     \<or> q = LocalRun [] '''' ''docker'' [''restart'', ''traefik''] \<or> (\<exists>i. containerIDRe i \<and> q = killReq i)"

lemma refresh_look: "lookReq q \<Longrightarrow> refreshReq q"
  by (simp add: refreshReq_def)

lemma allreq_thenDo [prog_intros]: "P q \<Longrightarrow> allreq P (quietly q)"
  by (simp add: quietly_def)

lemma refresh_copy: "allreq refreshReq (copyPEM dst f)"
  by (auto simp: copyPEM_def refreshReq_def quietly_def)

lemma refresh_hup: "allreq refreshReq (hupAll out)"
proof -
  have "allreq refreshReq p \<Longrightarrow> allreq refreshReq (fold (\<lambda>c p. bind p (\<lambda>_. if containerIDRe c then quietly (killReq c) else Ret ())) cs p)" for cs p
  proof (induction cs arbitrary: p)
    case (Cons c cs)
    have "containerIDRe c \<Longrightarrow> refreshReq (killReq c)" by (auto simp: refreshReq_def)
    with Cons.prems have "allreq refreshReq (bind p (\<lambda>_. if containerIDRe c then quietly (killReq c) else Ret ()))"
      by (intro allreq_bindI) (auto intro: allreq_thenDo)
    with Cons.IH show ?case by simp
  qed simp
  then show ?thesis by (simp add: hupAll_def)
qed

lemma refresh_services: "allreq refreshReq (refreshServices store domain ss)"
proof -
  have "allreq refreshReq (refreshNats store)" unfolding refreshNats_def
    by (auto intro!: allreq_bindI refresh_copy refresh_hup simp: refreshReq_def)
  moreover have "allreq refreshReq (refreshTraefik store domain)" unfolding refreshTraefik_def Let_def
    by (auto intro!: prog_intros refresh_copy simp: refreshReq_def)
  ultimately have "allreq refreshReq (refreshEach store domain ss)"
    by (induction ss) (auto intro!: allreq_bindI)
  then show ?thesis by (simp add: refreshServices_def)
qed

lemma look_extract: "allreq lookReq (extractTraefikCert dec f d)"
  unfolding extractTraefikCert_def
  by (auto intro!: prog_intros split: sum.splits option.splits)

lemma runs_quietly: "runs (quietly q) t r \<longleftrightarrow> (\<exists>a. t = [(q, a)])"
  by (auto simp: quietly_def runs_Do)

lemma look_runs: "allreq lookReq p \<Longrightarrow> runs p t r \<Longrightarrow> \<forall>q \<in> fst ` set t. lookReq q"
  using allreq_runs by fastforce

text \<open>What happens once the certificate has been read.\<close>

lemma runs_store:
  assumes "runs (storeCert cfg chain k) t r"
  shows "\<exists>v. map fst t = certWrites (csStore cfg) chain k @ v \<and> (\<forall>q \<in> set v. refreshReq q)"
proof -
  from assms obtain a b c u x where t: "t = (WriteFile (pathJoin [csStore cfg, ''fullchain.pem'']) chain, a) #
      (WriteFile (pathJoin [csStore cfg, ''cert.pem'']) chain, b) # (WriteFile (pathJoin [csStore cfg, ''privkey.pem'']) k, c) # u"
    and u: "runs (refreshServices (csStore cfg) (csDomain cfg) (csServices cfg)) u x"
    by (auto simp: storeCert_def runs_bind runs_quietly)
  have "\<forall>q \<in> set (map fst u). refreshReq q" using allreq_runs [OF refresh_services u] by auto
  with t show ?thesis by (intro exI [of _ "map fst u"]) (simp add: certWrites_def)
qed

text \<open>A run that only looks, or that stores a certificate it did not find there and refreshes after that.\<close>

definition syncedWell :: "certSyncConfig \<Rightarrow> trace \<Rightarrow> bool" where
  "syncedWell cfg t \<longleftrightarrow> (\<forall>q \<in> fst ` set t. lookReq q) \<or>
    (\<exists>chain k u v a. map fst t = u @ certWrites (csStore cfg) chain k @ v \<and>
       (\<forall>q \<in> set u. lookReq q) \<and> (\<forall>q \<in> set v. refreshReq q) \<and>
       (ReadFile (pathJoin [csStore cfg, ''fullchain.pem'']), a) \<in> set t \<and>
       (if aErr a = None then aOut a else '''') \<noteq> chain)"

lemma synced_after: "\<forall>q \<in> fst ` set u. lookReq q \<Longrightarrow> syncedWell cfg v \<Longrightarrow> syncedWell cfg (u @ v)"
proof -
  assume u: "\<forall>q \<in> fst ` set u. lookReq q" and v: "syncedWell cfg v"
  show "syncedWell cfg (u @ v)"
  proof (cases "\<forall>q \<in> fst ` set v. lookReq q")
    case True
    with u show ?thesis by (auto simp: syncedWell_def)
  next
    case False
    with v obtain chain k w x a where w: "map fst v = w @ certWrites (csStore cfg) chain k @ x"
      "\<forall>q \<in> set w. lookReq q" "\<forall>q \<in> set x. refreshReq q"
      "(ReadFile (pathJoin [csStore cfg, ''fullchain.pem'']), a) \<in> set v" "(if aErr a = None then aOut a else '''') \<noteq> chain"
      unfolding syncedWell_def by blast
    then have "map fst (u @ v) = (map fst u @ w) @ certWrites (csStore cfg) chain k @ x" by simp
    moreover have "\<forall>q \<in> set (map fst u @ w). lookReq q" using u w(2) by auto
    ultimately show ?thesis using w(3-) unfolding syncedWell_def
      by (metis (no_types, lifting) Un_iff set_append)
  qed
qed

lemma synced_store:
  assumes "runs (Do (ReadFile (pathJoin [csStore cfg, ''fullchain.pem'']))
    (\<lambda>a. if (if aErr a = None then aOut a else '''') = chain then okP else storeCert cfg chain k)) t r"
  shows "syncedWell cfg t"
proof -
  let ?q = "ReadFile (pathJoin [csStore cfg, ''fullchain.pem''])"
  let ?old = "\<lambda>a. if aErr a = None then aOut a else ''''"
  from assms obtain a u where t: "t = (?q, a) # u" and u: "runs (if ?old a = chain then okP else storeCert cfg chain k) u r"
    unfolding runs_Do by blast
  show ?thesis
  proof (cases "?old a = chain")
    case True
    with u t show ?thesis by (simp add: syncedWell_def)
  next
    case False
    with u have "runs (storeCert cfg chain k) u r" by simp
    then obtain v where "map fst u = certWrites (csStore cfg) chain k @ v" "\<forall>q \<in> set v. refreshReq q"
      using runs_store by blast
    with t have "map fst t = [?q] @ certWrites (csStore cfg) chain k @ v" "\<forall>q \<in> set [?q]. lookReq q"
      "\<forall>q \<in> set v. refreshReq q" "(?q, a) \<in> set t" by simp_all
    with False show ?thesis unfolding syncedWell_def by blast
  qed
qed

text \<open>
  C29: the certificate worker looks before it touches. A run either only looks, or finds a
  certificate that differs from the stored one, writes its three files in order, and only then
  refreshes the services, signalling no container but by its hexadecimal identifier; a domain
  that is no domain stops it before the first request.
\<close>

lemma cert_sync_order:
  assumes "runs (syncCert dec cfg) t r"
  shows "syncedWell cfg t \<and> (certDomainRe (csDomain cfg) \<or> t = [])"
proof (cases "certDomainRe (csDomain cfg)")
  case True
  let ?mk = "callP (MkDir (pathClean (csStore cfg)))" and ?ex = "extractTraefikCert dec (csACMEJSON cfg) (csDomain cfg)"
  have mk: "\<forall>q \<in> fst ` set u. lookReq q" if "runs ?mk u x" for u x
    using that by (auto simp: callP_def runs_Do split: option.splits)
  have ex: "\<forall>q \<in> fst ` set u. lookReq q" if "runs ?ex u x" for u x
    by (rule look_runs [OF look_extract that])
  have all_look: "syncedWell cfg u" if "\<forall>q \<in> fst ` set u. lookReq q" for u
    using that by (simp add: syncedWell_def)
  from assms True show ?thesis unfolding syncCert_def
  proof (auto simp: runs_tryP, goal_cases)
    case (1 e) then show ?case by (intro all_look mk)
  next
    case (2 u w e) then show ?case by (intro synced_after mk all_look ex)
  next
    case (3 u v w x)
    have "syncedWell cfg w"
    proof (cases x)
      case None with 3 show ?thesis by (simp add: syncedWell_def)
    next
      case (Some p) with 3 show ?thesis by (cases p) (auto intro: synced_store)
    qed
    then show ?case unfolding 3(2) by (intro synced_after mk [OF 3(3)] ex [OF 3(4)])
  qed
qed (use assms in \<open>simp add: syncCert_def syncedWell_def\<close>)

section \<open>A run with a new certificate\<close>

definition demo_sync :: certSyncConfig where
  "demo_sync = \<lparr>csDomain = ''a.io'', csStore = ''/s'', csACMEJSON = ''/a.json'', csServices = [''nats'']\<rparr>"

definition demo_acme :: acmeDecoder where
  "demo_acme s = Inr [\<lparr>acMain = ''a.io'', acCertificate = ''QQ=='', acKeyData = ''Qg==''\<rparr>]"

text \<open>The second container the listing names is no identifier.\<close>

definition demo_sync_answers :: "answer list" where
  "demo_sync_answers = [ok_out '''', ok_out '''', failed ''no such file'', ok_out '''', ok_out '''', ok_out '''', ok_out ''dir'',
     ok_out '''', ok_out ''A'', ok_out '''', ok_out '''', ok_out ''B'', ok_out '''',
     ok_out (''0123456789ab'' @ [CHR 0x0A] @ ''-rm''), ok_out '''']"

lemma demo_sync_run: "feed (syncCert demo_acme demo_sync) demo_sync_answers =
    ([MkDir ''/s'', ReadFile ''/a.json'', ReadFile ''/s/fullchain.pem''] @ certWrites ''/s'' ''A'' ''B'' @
     [Stat ''/opt/sdk-ops/nats/certs'', OpenRoot ''/opt/sdk-ops/nats/certs'', ReadFile ''/s/fullchain.pem'',
      OpenWrite ''/opt/sdk-ops/nats/certs/server.pem'' ''A'', OpenRoot ''/opt/sdk-ops/nats/certs'', ReadFile ''/s/privkey.pem'',
      OpenWrite ''/opt/sdk-ops/nats/certs/server.key'' ''B'', psReq, killReq ''0123456789ab''], Some (Inr ()))"
  by code_simp

lemma cert_sync_order_witness:
  "\<exists>t. runs (syncCert demo_acme demo_sync) t (Inr ()) \<and> killReq ''0123456789ab'' \<in> fst ` set t \<and> syncedWell demo_sync t"
proof -
  let ?t = "zip (fst (feed (syncCert demo_acme demo_sync) demo_sync_answers)) demo_sync_answers"
  have "runs (syncCert demo_acme demo_sync) ?t (Inr ())" using feed_runs [OF demo_sync_run] demo_sync_run by simp
  moreover have "killReq ''0123456789ab'' \<in> fst ` set ?t" unfolding demo_sync_run
    by (simp add: demo_sync_answers_def certWrites_def)
  ultimately show ?thesis using cert_sync_order [of demo_acme demo_sync ?t "Inr ()"] by blast
qed

end
