(* ===== verification/CubePath.thy ===== *)
theory CubePath imports HttpRest Allowlist begin

text \<open>
  The client of CubePath (\<open>providers/cubepath/*.go\<close>), written on its own HTTP requests. The body
  of a request is the value of its struct or map (the keys of a map in order), an answer is read
  through the decoder of the client. Time is passed as the text it is formatted to.
\<close>

definition cubePathNew :: "decoder \<Rightarrow> string \<Rightarrow> int \<Rightarrow> restClient" where
  "cubePathNew dec apiKey projectID = \<lparr>rcBase = ''https://api.cubepath.com'', rcAuth = (''X-API-Key'', apiKey),
     rcProject = projectID, rcDec = dec\<rparr>"

text \<open>A call whose answer is not looked at.\<close>

definition restUnit :: "restClient \<Rightarrow> (goerr \<Rightarrow> goerr) \<Rightarrow> string \<Rightarrow> string \<Rightarrow> json option \<Rightarrow> unit res prog" where
  "restUnit c w meth path body = tryP w (restDo c meth path body) (\<lambda>_. okP)"

text \<open>\<open>fmt.Sscanf\<close> leaves zero where there is no number.\<close>

definition cpAtoi :: "string \<Rightarrow> int" where
  "cpAtoi s = (case sscanfD s of Some n \<Rightarrow> n | None \<Rightarrow> 0)"

definition cfgPort :: "json \<Rightarrow> int" where
  "cfgPort r = cpAtoi (fieldText r ''port'')"

text \<open>The key ids that are numbers; a slice that nothing was appended to is nil.\<close>

definition numericIDs :: "string list \<Rightarrow> json" where
  "numericIDs ids = (case List.map_filter atoi ids of [] \<Rightarrow> JNull | ns \<Rightarrow> JArr (map JNum ns))"

section \<open>VPS\<close>

definition floatingIP :: "json list \<Rightarrow> string" where
  "floatingIP ips = (case List.find (\<lambda>ip. jtext (jfield ''address'' ip) \<noteq> '''') ips of
     Some ip \<Rightarrow> jtext (jfield ''address'' ip) | None \<Rightarrow> '''')"

definition listedVPS :: "json \<Rightarrow> cloudVPS" where
  "listedVPS v = zeroVPS\<lparr>cvID := itoa (jint (jfield ''id'' v)), cvName := jtext (jfield ''name'' v),
     cvLabel := jtext (jfield ''label'' v), cvStatus := jtext (jfield ''status'' v),
     cvPlan := jtext (jfield ''plan_name'' (jfield ''plan'' v)),
     cvLocation := jtext (jfield ''location_name'' (jfield ''location'' v)),
     cvTemplate := jtext (jfield ''template_name'' (jfield ''template'' v)),
     cvIP := floatingIP (jlist (jfield ''list'' (jfield ''floating_ips'' v)))\<rparr>"

definition cpListVPS :: "restClient \<Rightarrow> cloudVPS list res prog" where
  "cpListVPS c =
     tryP id (restJson c (Wrapf ''list vps: %w'' []) ''GET'' ''/projects/'' None (\<lambda>_. Wrapf ''parse list: %w'' []) ''[]project'') (\<lambda>projects.
       Ret (Inr (concat (map (\<lambda>p. map listedVPS (jlist (jfield ''vps'' p))) (jlist projects)))))"

definition cpGetVPS :: "restClient \<Rightarrow> string \<Rightarrow> cloudVPS res prog" where
  "cpGetVPS c ident =
     tryP id (cpListVPS c) (\<lambda>vs. case List.find (\<lambda>v. cvID v = ident) vs of
       Some v \<Rightarrow> Ret (Inr v) | None \<Rightarrow> fail (Errorf ''vps %s not found'' [Str ident]))"

definition cpDeleteVPS :: "restClient \<Rightarrow> string \<Rightarrow> unit res prog" where
  "cpDeleteVPS c ident = restUnit c (Wrapf ''delete vps: %w'' []) ''POST'' (''/vps/destroy/'' @ ident) None"

text \<open>Thirty polls, five seconds apart, for the VPS to become active; then it is returned as it is.\<close>

primrec waitActive :: "nat \<Rightarrow> restClient \<Rightarrow> cloudVPS \<Rightarrow> cloudVPS prog" where
  "waitActive 0 c v = Ret v"
| "waitActive (Suc n) c v =
     bind (sleepP 5) (\<lambda>_. bind (cpGetVPS c (cvID v)) (\<lambda>r. case r of
       Inl e \<Rightarrow> waitActive n c v
     | Inr cur \<Rightarrow> if cvStatus cur = ''active'' then Ret (v\<lparr>cvIP := cvIP cur, cvStatus := cvStatus cur\<rparr>)
         else waitActive n c v))"

definition createdVPS :: "json \<Rightarrow> cloudVPS" where
  "createdVPS r = zeroVPS\<lparr>cvID := itoa (jint (jfield ''vps_id'' r)), cvName := jtext (jfield ''name'' r),
     cvLabel := jtext (jfield ''name'' r), cvStatus := jtext (jfield ''status'' r), cvPlan := jtext (jfield ''plan'' r),
     cvLocation := jtext (jfield ''location'' r), cvIP := jtext (jfield ''ipv4_address'' r),
     cvIPv6 := jtext (jfield ''ipv6_address'' r)\<rparr>"

definition vpsBody :: "vpsOrder \<Rightarrow> string \<Rightarrow> string \<Rightarrow> json" where
  "vpsBody cfg label name = jobj [
     (''enable_backups'', jB (voBackups cfg)), (''ipv4'', jB (voIPv4 cfg)), (''ipv6'', jB (voIPv6 cfg)),
     (''label'', jS label), (''location_name'', jS (voLocation cfg)), (''name'', jS name),
     (''password'', jS (voPassword cfg)), (''plan_name'', jS (voPlan cfg)),
     (''ssh_key_ids'', Some (numericIDs (voSSHKeyIDs cfg))), (''template_name'', jS (voTemplate cfg)),
     (''user'', jS (voUser cfg)), (''user_data'', jS (voUserData cfg))]"

definition cpCreateVPS :: "restClient \<Rightarrow> vpsOrder \<Rightarrow> cloudVPS res prog" where
  "cpCreateVPS c cfg =
     bind (if voLabel cfg \<noteq> '''' then Ret (voLabel cfg) else if voHostname cfg \<noteq> '''' then Ret (voHostname cfg)
       else bind nowP (\<lambda>t. Ret (''sdk-ops-'' @ t))) (\<lambda>label.
     bind (if voHostname cfg \<noteq> '''' then Ret (voHostname cfg) else bind nowP (\<lambda>t. Ret (''vps-'' @ t))) (\<lambda>name.
     tryP id (restJson c (Wrapf ''create vps: %w'' []) ''POST'' (sprintf ''/vps/create/%d'' [Num (rcProject c)])
         (Some (vpsBody cfg label name)) (parseErrorBody ''parse response'') ''vps'') (\<lambda>r.
     bind (waitActive 30 c (createdVPS r)) (\<lambda>v. Ret (Inr v)))))"

section \<open>Bare metal\<close>

definition metalOf :: "json \<Rightarrow> bareMetal" where
  "metalOf r = \<lparr>bmID = itoa (jint (jfield ''id'' r)), bmName = jtext (jfield ''hostname'' r),
     bmLabel = jtext (jfield ''label'' r), bmIP = jtext (jfield ''ip_address'' r), bmStatus = jtext (jfield ''status'' r),
     bmPlan = jtext (jfield ''model_name'' r), bmLocation = jtext (jfield ''location_name'' r), bmTemplate = ''''\<rparr>"

definition cpCreateBareMetal :: "restClient \<Rightarrow> metalOrder \<Rightarrow> bareMetal res prog" where
  "cpCreateBareMetal c cfg =
     bind (if moLabel cfg \<noteq> '''' then Ret (moLabel cfg) else if moHostname cfg \<noteq> '''' then Ret (moHostname cfg)
       else bind nowP (\<lambda>t. Ret (''sdk-ops-bm-'' @ t))) (\<lambda>label.
     let name = (if moHostname cfg = '''' then label else moHostname cfg) in
     tryP id (restJson c (Wrapf ''cubepath deploy baremetal: %w'' []) ''POST'' (sprintf ''/baremetal/deploy/%d'' [Num (rcProject c)])
         (Some (jobj [(''hostname'', jS name), (''label'', jS label), (''location_name'', jS (moLocation cfg)),
           (''model_name'', jS (moPlan cfg)), (''os_name'', jS (moTemplate cfg)), (''password'', jS (moPassword cfg)),
           (''ssh_key_ids'', if moSSHKeyIDs cfg = [] then None else Some (numericIDs (moSSHKeyIDs cfg)))]))
         (parseErrorBody ''parse baremetal response'') ''baremetal'') (\<lambda>r.
     Ret (Inr (metalOf r))))"

definition cpDeleteBareMetal :: "restClient \<Rightarrow> string \<Rightarrow> unit res prog" where
  "cpDeleteBareMetal c ident =
     fail (Errorf ''cubepath: bare metal cannot be destroyed via API (physical hardware). Contact support'' [])"

definition cpListBareMetal :: "restClient \<Rightarrow> bareMetal list res prog" where
  "cpListBareMetal c =
     tryP id (restJson c (Wrapf ''cubepath list baremetal: %w'' []) ''GET'' ''/baremetal/'' None (parseErrorBody ''parse baremetal list'') ''[]baremetal'') (\<lambda>r.
       Ret (Inr (map metalOf (jlist r))))"

section \<open>Kubernetes\<close>

definition nodePoolCreate :: "string \<Rightarrow> string \<Rightarrow> int \<Rightarrow> json" where
  "nodePoolCreate name plan n = jobj [(''name'', eS name), (''plan'', jS plan), (''count'', eI n)]"

definition k8sCreateRequest :: "restClient \<Rightarrow> k8sOrder \<Rightarrow> json" where
  "k8sCreateRequest c cfg = jobj [(''name'', jS (koName cfg)), (''location_name'', jS (koLocation cfg)),
     (''version'', eS (koVersion cfg)),
     (''node_pools'', jA [nodePoolCreate (if koLabel cfg \<noteq> '''' then koLabel cfg else ''default'')
        (if koNodePlan cfg = '''' then ''gp.nano'' else koNodePlan cfg) (if koNodeCount cfg < 1 then 1 else koNodeCount cfg)]),
     (''project_id'', jI (rcProject c)), (''ha_control_plane'', eB False),
     (''allocate_ipv4'', eB True), (''allocate_ipv6'', eB True)]"

definition cpCreateK8s :: "restClient \<Rightarrow> k8sOrder \<Rightarrow> k8sCluster res prog" where
  "cpCreateK8s c cfg =
     tryP id (restJson c (Wrapf ''cubepath create k8s: %w'' []) ''POST'' ''/kubernetes/'' (Some (k8sCreateRequest c cfg))
         (parseErrorBody ''parse'') ''map[string]any'') (\<lambda>r.
       Ret (Inr (zeroK8s\<lparr>kcID := fieldText r ''uuid'', kcName := fieldText r ''name'', kcStatus := fieldText r ''status'',
         kcVersion := fieldText r ''version'', kcNodeCount := koNodeCount cfg\<rparr>)))"

definition cpDeleteK8s :: "restClient \<Rightarrow> string \<Rightarrow> unit res prog" where
  "cpDeleteK8s c ident = restUnit c id ''DELETE'' (''/kubernetes/'' @ ident) None"

definition cpListK8s :: "restClient \<Rightarrow> k8sCluster list res prog" where
  "cpListK8s c =
     tryP id (restJson c (Wrapf ''cubepath list k8s: %w'' []) ''GET'' ''/kubernetes/'' None (parseErrorBody ''parse'') ''[]map[string]any'') (\<lambda>rs.
       Ret (Inr (map (\<lambda>r. zeroK8s\<lparr>kcID := fieldText r ''uuid'', kcName := fieldText r ''name'', kcStatus := fieldText r ''status''\<rparr>) (jlist rs))))"

definition cpGetK8s :: "restClient \<Rightarrow> string \<Rightarrow> k8sCluster res prog" where
  "cpGetK8s c ident =
     tryP id (cpListK8s c) (\<lambda>cs. case List.find (\<lambda>cl. kcID cl = ident) cs of
       Some cl \<Rightarrow> Ret (Inr cl) | None \<Rightarrow> fail (Errorf ''k8s %s not found'' [Str ident]))"

definition cpGetKubeconfig :: "restClient \<Rightarrow> string \<Rightarrow> string res prog" where
  "cpGetKubeconfig c ident =
     tryP (Wrapf ''cubepath kubeconfig: %w'' []) (restDo c ''GET'' (''/kubernetes/'' @ ident @ ''/kubeconfig'') None) (\<lambda>s. Ret (Inr s))"

definition cpUpdateK8s :: "restClient \<Rightarrow> string \<Rightarrow> string \<Rightarrow> k8sCluster res prog" where
  "cpUpdateK8s c ident version =
     tryP id (restJson c (Wrapf ''cubepath update k8s: %w'' []) ''PATCH'' (''/kubernetes/'' @ ident)
         (Some (jobj [(''version'', jS version)])) (parseErrorBody ''parse'') ''map[string]any'') (\<lambda>r.
       Ret (Inr (zeroK8s\<lparr>kcID := fieldText r ''uuid'', kcStatus := fieldText r ''status'', kcVersion := fieldText r ''version''\<rparr>)))"

definition cpToggleK8sProtection :: "restClient \<Rightarrow> string \<Rightarrow> k8sCluster res prog" where
  "cpToggleK8sProtection c ident =
     tryP (Wrapf ''cubepath toggle protection: %w'' []) (restDo c ''POST'' (''/kubernetes/'' @ ident @ ''/protection'') None) (\<lambda>_.
       cpGetK8s c ident)"

definition cpListK8sAddons :: "restClient \<Rightarrow> string \<Rightarrow> k8sAddon list res prog" where
  "cpListK8sAddons c ident =
     tryP id (restJson c (Wrapf ''cubepath list addons: %w'' []) ''GET'' (''/kubernetes/'' @ ident @ ''/addons'') None (parseErrorBody ''parse'') ''[]map[string]any'') (\<lambda>rs.
       Ret (Inr (map (\<lambda>r. \<lparr>kaID = fieldText r ''uuid'', kaName = fieldText r ''name'', kaSlug = fieldText r ''slug'',
         kaVersion = fieldText r ''version'', kaStatus = fieldText r ''status'', kaInstalled = (fieldText r ''installed'' = ''true'')\<rparr>) (jlist rs))))"

definition cpListAvailableAddons :: "restClient \<Rightarrow> k8sAddon list res prog" where
  "cpListAvailableAddons c =
     tryP id (restJson c (Wrapf ''cubepath list available addons: %w'' []) ''GET'' ''/kubernetes/addons'' None (parseErrorBody ''parse'') ''[]map[string]any'') (\<lambda>rs.
       Ret (Inr (map (\<lambda>r. \<lparr>kaID = fieldText r ''uuid'', kaName = fieldText r ''name'', kaSlug = fieldText r ''slug'',
         kaVersion = fieldText r ''version'', kaStatus = '''', kaInstalled = False\<rparr>) (jlist rs))))"

definition cpInstallK8sAddon :: "restClient \<Rightarrow> string \<Rightarrow> string \<Rightarrow> unit res prog" where
  "cpInstallK8sAddon c ident slug =
     restUnit c id ''POST'' (sprintf ''/kubernetes/%s/addons/%s/install'' [Str ident, Str slug]) None"

definition cpUninstallK8sAddon :: "restClient \<Rightarrow> string \<Rightarrow> string \<Rightarrow> unit res prog" where
  "cpUninstallK8sAddon c ident addonID =
     restUnit c id ''DELETE'' (sprintf ''/kubernetes/%s/addons/%s'' [Str ident, Str addonID]) None"

definition poolOf :: "json \<Rightarrow> nodePool" where
  "poolOf r = \<lparr>kpID = fieldText r ''uuid'', kpName = fieldText r ''name'', kpPlan = fieldText r ''plan'',
     kpNodes = cpAtoi (fieldText r ''count''), kpStatus = fieldText r ''status''\<rparr>"

definition cpListK8sNodePools :: "restClient \<Rightarrow> string \<Rightarrow> nodePool list res prog" where
  "cpListK8sNodePools c ident =
     tryP id (restJson c (Wrapf ''cubepath list node pools: %w'' []) ''GET'' (''/kubernetes/'' @ ident @ ''/node-pools'') None (parseErrorBody ''parse'') ''[]map[string]any'') (\<lambda>rs.
       Ret (Inr (map poolOf (jlist rs))))"

definition cpCreateK8sNodePool :: "restClient \<Rightarrow> string \<Rightarrow> poolOrder \<Rightarrow> nodePool res prog" where
  "cpCreateK8sNodePool c ident cfg =
     tryP id (restJson c (Wrapf ''cubepath create node pool: %w'' []) ''POST'' (''/kubernetes/'' @ ident @ ''/node-pools'')
         (Some (nodePoolCreate (poName cfg) (poPlan cfg) (poNodeCount cfg))) (parseErrorBody ''parse'') ''map[string]any'') (\<lambda>r.
       Ret (Inr (poolOf r)))"

definition cpScaleK8sNodePool :: "restClient \<Rightarrow> string \<Rightarrow> string \<Rightarrow> int \<Rightarrow> unit res prog" where
  "cpScaleK8sNodePool c ident poolID nodes =
     restUnit c id ''PATCH'' (sprintf ''/kubernetes/%s/node-pools/%s'' [Str ident, Str poolID]) (Some (jobj [(''count'', jI nodes)]))"

definition cpDeleteK8sNodePool :: "restClient \<Rightarrow> string \<Rightarrow> string \<Rightarrow> unit res prog" where
  "cpDeleteK8sNodePool c ident poolID =
     restUnit c id ''DELETE'' (sprintf ''/kubernetes/%s/node-pools/%s'' [Str ident, Str poolID]) None"

definition cpLBOf :: "json \<Rightarrow> loadBalancer" where
  "cpLBOf r = zeroLB\<lparr>lbID := fieldText r ''uuid'', lbName := fieldText r ''name'', lbIP := fieldText r ''ipv4_address''\<rparr>"

definition cpListK8sLBs :: "restClient \<Rightarrow> string \<Rightarrow> loadBalancer list res prog" where
  "cpListK8sLBs c ident =
     tryP id (restJson c (Wrapf ''cubepath list k8s lbs: %w'' []) ''GET'' (''/kubernetes/'' @ ident @ ''/loadbalancers'') None (parseErrorBody ''parse'') ''[]map[string]any'') (\<lambda>rs.
       Ret (Inr (map cpLBOf (jlist rs))))"

section \<open>Load balancers\<close>

definition cpCreateLB :: "restClient \<Rightarrow> lbOrder \<Rightarrow> loadBalancer res prog" where
  "cpCreateLB c cfg =
     tryP id (restJson c (Wrapf ''cubepath create lb: %w'' []) ''POST'' ''/loadbalancer/''
         (Some (jobj [(''name'', eS (loName cfg)), (''label'', eS (loLabel cfg)), (''plan_name'', eS (loPlan cfg)),
           (''location_name'', eS (loLocation cfg)), (''project_id'', jI (rcProject c))])) parseError ''map[string]any'') (\<lambda>r.
       Ret (Inr (cpLBOf r)))"

definition cpDeleteLB :: "restClient \<Rightarrow> string \<Rightarrow> unit res prog" where
  "cpDeleteLB c ident = restUnit c id ''DELETE'' (''/loadbalancer/'' @ ident) None"

definition cpListLB :: "restClient \<Rightarrow> loadBalancer list res prog" where
  "cpListLB c =
     tryP id (restJson c (Wrapf ''cubepath list lb: %w'' []) ''GET'' ''/loadbalancer/'' None parseError ''[]map[string]any'') (\<lambda>rs.
       Ret (Inr (map cpLBOf (jlist rs))))"

definition lbListenerRequest :: "listenerOrder \<Rightarrow> json" where
  "lbListenerRequest cfg = jobj [(''port'', jI (liPort cfg)), (''target_port'', jI (liTargetPort cfg)), (''protocol'', jS (liProtocol cfg))]"

definition cpCreateLBListener :: "restClient \<Rightarrow> string \<Rightarrow> listenerOrder \<Rightarrow> lbListener res prog" where
  "cpCreateLBListener c lb cfg =
     tryP id (restJson c (Wrapf ''cubepath create listener: %w'' []) ''POST'' (''/loadbalancer/'' @ lb @ ''/listeners'')
         (Some (lbListenerRequest cfg)) parseError ''map[string]any'') (\<lambda>r.
       Ret (Inr \<lparr>llID = fieldText r ''uuid'', llPort = liPort cfg, llTargetPort = liTargetPort cfg, llProtocol = liProtocol cfg\<rparr>))"

definition cpUpdateLBListener :: "restClient \<Rightarrow> string \<Rightarrow> string \<Rightarrow> listenerOrder \<Rightarrow> lbListener res prog" where
  "cpUpdateLBListener c lb listenerID cfg =
     tryP id (restJson c (Wrapf ''cubepath update listener: %w'' []) ''PATCH'' (''/loadbalancer/'' @ lb @ ''/listeners/'' @ listenerID)
         (Some (lbListenerRequest cfg)) parseError ''map[string]any'') (\<lambda>r.
       Ret (Inr \<lparr>llID = fieldText r ''uuid'', llPort = 0, llTargetPort = 0, llProtocol = ''''\<rparr>))"

definition cpDeleteLBListener :: "restClient \<Rightarrow> string \<Rightarrow> string \<Rightarrow> unit res prog" where
  "cpDeleteLBListener c lb listenerID = restUnit c id ''DELETE'' (''/loadbalancer/'' @ lb @ ''/listeners/'' @ listenerID) None"

text \<open>The fields of the configuration carry no names of their own.\<close>

definition cpSetLBHealthCheck :: "restClient \<Rightarrow> string \<Rightarrow> string \<Rightarrow> healthCheck \<Rightarrow> unit res prog" where
  "cpSetLBHealthCheck c lb listenerID cfg =
     restUnit c id ''PUT'' (sprintf ''/loadbalancer/%s/listeners/%s/health-check'' [Str lb, Str listenerID])
       (Some (jobj [(''Protocol'', jS (hkProtocol cfg)), (''Port'', jI (hkPort cfg)), (''Path'', jS (hkPath cfg)),
         (''Interval'', jI (hkInterval cfg)), (''Timeout'', jI (hkTimeout cfg)), (''Retries'', jI (hkRetries cfg))]))"

definition cpAddLBTarget :: "restClient \<Rightarrow> string \<Rightarrow> string \<Rightarrow> targetOrder \<Rightarrow> lbTarget res prog" where
  "cpAddLBTarget c lb listenerID cfg =
     tryP id (restJson c (Wrapf ''cubepath add target: %w'' []) ''POST'' (sprintf ''/loadbalancer/%s/listeners/%s/targets'' [Str lb, Str listenerID])
         (Some (jobj [(''type'', jS (toType cfg)), (''target_uuid'', jS (toTargetID cfg)), (''port'', jI (toTargetPort cfg)), (''weight'', eI (toWeight cfg))]))
         parseError ''map[string]any'') (\<lambda>r.
       Ret (Inr \<lparr>ltID = fieldText r ''uuid'', ltType = toType cfg, ltTargetID = toTargetID cfg, ltPort = toTargetPort cfg, ltWeight = 0, ltStatus = ''''\<rparr>))"

definition cpListLBTargets :: "restClient \<Rightarrow> string \<Rightarrow> string \<Rightarrow> lbTarget list res prog" where
  "cpListLBTargets c lb listenerID =
     tryP id (restJson c (Wrapf ''cubepath list targets: %w'' []) ''GET'' (sprintf ''/loadbalancer/%s/listeners/%s/targets'' [Str lb, Str listenerID])
         None parseError ''[]map[string]any'') (\<lambda>rs.
       Ret (Inr (map (\<lambda>r. \<lparr>ltID = fieldText r ''uuid'', ltType = fieldText r ''type'', ltTargetID = fieldText r ''target_uuid'',
         ltPort = cfgPort r, ltWeight = 0, ltStatus = fieldText r ''status''\<rparr>) (jlist rs))))"

definition cpDrainLBTarget :: "restClient \<Rightarrow> string \<Rightarrow> string \<Rightarrow> string \<Rightarrow> unit res prog" where
  "cpDrainLBTarget c lb listenerID targetID =
     restUnit c id ''POST'' (sprintf ''/loadbalancer/%s/listeners/%s/targets/%s/drain'' [Str lb, Str listenerID, Str targetID]) None"

definition cpResizeLB :: "restClient \<Rightarrow> string \<Rightarrow> string \<Rightarrow> loadBalancer res prog" where
  "cpResizeLB c lb plan =
     tryP id (restJson c (Wrapf ''cubepath resize lb: %w'' []) ''POST'' (''/loadbalancer/'' @ lb @ ''/resize'')
         (Some (jobj [(''plan'', jS plan)])) parseError ''map[string]any'') (\<lambda>r.
       Ret (Inr (zeroLB\<lparr>lbID := fieldText r ''uuid'', lbPlan := fieldText r ''plan''\<rparr>)))"

definition cpGetLBMetrics :: "restClient \<Rightarrow> string \<Rightarrow> string res prog" where
  "cpGetLBMetrics c lb =
     tryP (Wrapf ''cubepath lb metrics: %w'' []) (restDo c ''GET'' (''/loadbalancer/'' @ lb @ ''/metrics'') None) (\<lambda>s. Ret (Inr s))"

definition cpToggleLBProtection :: "restClient \<Rightarrow> string \<Rightarrow> loadBalancer res prog" where
  "cpToggleLBProtection c lb =
     tryP (Wrapf ''cubepath toggle lb protection: %w'' []) (restDo c ''POST'' (''/loadbalancer/'' @ lb @ ''/protection'') None) (\<lambda>_.
       Ret (Inr (zeroLB\<lparr>lbID := lb\<rparr>)))"

section \<open>DNS and SSH keys\<close>

definition cpListDNSZones :: "restClient \<Rightarrow> dnsZone list res prog" where
  "cpListDNSZones c =
     tryP id (restJson c (Wrapf ''cubepath list dns zones: %w'' []) ''GET'' ''/dns/zones'' None parseError ''[]map[string]any'') (\<lambda>rs.
       Ret (Inr (map (\<lambda>r. \<lparr>dzID = fieldText r ''uuid'', dzName = fieldText r ''domain'', dzDNSSec = False\<rparr>) (jlist rs))))"

definition cpCreateDNSRecord :: "restClient \<Rightarrow> string \<Rightarrow> dnsRecord \<Rightarrow> unit res prog" where
  "cpCreateDNSRecord c zoneID r =
     restUnit c id ''POST'' (sprintf ''/dns/zones/%s/records'' [Str zoneID])
       (Some (jobj [(''name'', jS (drName r)), (''record_type'', jS (drType r)), (''content'', jS (drValue r)), (''ttl'', eI (drTTL r))]))"

definition cpDeleteDNSRecord :: "restClient \<Rightarrow> string \<Rightarrow> string \<Rightarrow> unit res prog" where
  "cpDeleteDNSRecord c zoneID recordID =
     restUnit c id ''DELETE'' (sprintf ''/dns/zones/%s/records/%s'' [Str zoneID, Str recordID]) None"

definition cpCreateSSHKey :: "restClient \<Rightarrow> string \<Rightarrow> string \<Rightarrow> sshKey res prog" where
  "cpCreateSSHKey c name publicKey =
     tryP id (restJson c (Wrapf ''cubepath create ssh key: %w'' []) ''POST'' ''/sshkey/create''
         (Some (jobj [(''name'', jS name), (''ssh_key'', jS publicKey)])) parseError ''key'') (\<lambda>r.
       Ret (Inr \<lparr>skID = itoa (jint (jfield ''id'' r)), skName = jtext (jfield ''name'' r),
         skFingerprint = jtext (jfield ''fingerprint'' r), skPublicKey = '''', skCreated = ''''\<rparr>))"

definition cpListSSHKeys :: "restClient \<Rightarrow> sshKey list res prog" where
  "cpListSSHKeys c =
     tryP id (restJson c (Wrapf ''cubepath list ssh keys: %w'' []) ''GET'' ''/sshkey/user/sshkeys'' None parseError ''sshkeys'') (\<lambda>r.
       Ret (Inr (map (\<lambda>k. \<lparr>skID = itoa (jint (jfield ''id'' k)), skName = jtext (jfield ''name'' k),
         skFingerprint = jtext (jfield ''fingerprint'' k), skPublicKey = jtext (jfield ''ssh_key'' k), skCreated = ''''\<rparr>)
         (jlist (jfield ''sshkeys'' r)))))"

definition cpDeleteSSHKey :: "restClient \<Rightarrow> string \<Rightarrow> unit res prog" where
  "cpDeleteSSHKey c ident = restUnit c id ''DELETE'' (''/sshkey/'' @ ident) None"

end
