(* ===== verification/Hetzner.thy ===== *)
theory Hetzner imports CubePath begin

text \<open>
  The client of Hetzner (\<open>providers/hetzner/*.go\<close>) where it makes its own HTTP requests: clusters,
  load balancers and zones; and its calls of the vendor's package, for servers and keys. DNS is a
  service of its own with the same kind of requests.
\<close>

definition newRawClient :: "decoder \<Rightarrow> string \<Rightarrow> restClient" where
  "newRawClient dec token = \<lparr>rcBase = ''https://api.hetzner.cloud/v1'', rcAuth = (''Authorization'', ''Bearer '' @ token),
     rcProject = 0, rcDec = dec\<rparr>"

definition dnsClient :: "restClient \<Rightarrow> restClient" where
  "dnsClient c = c\<lparr>rcBase := ''https://dns.hetzner.com/api/v1''\<rparr>"

definition hetznerMissing :: "'a res prog" where
  "hetznerMissing = fail (Errorf ''hetzner: method not available'' [])"

definition hzCreateBareMetal :: "metalOrder \<Rightarrow> bareMetal res prog" where
  \<open>hzCreateBareMetal cfg = fail (Errorf (''hetzner: bare metal not available '' @ [CHR 0xE2, CHR 0x80, CHR 0x94] @ '' use a dedicated CX server type for dedicated VPS'') [])\<close>

definition hzDeleteBareMetal :: "string \<Rightarrow> unit res prog" where
  "hzDeleteBareMetal ident = fail (Errorf ''hetzner: bare metal not available'' [])"

definition hzListBareMetal :: "bareMetal list res prog" where
  "hzListBareMetal = fail (Errorf ''hetzner: bare metal not available'' [])"

section \<open>Kubernetes\<close>

definition hzClusterOf :: "json \<Rightarrow> k8sCluster" where
  "hzClusterOf r = zeroK8s\<lparr>kcID := fieldText r ''id'', kcName := fieldText r ''name'', kcStatus := fieldText r ''status''\<rparr>"

definition hzCreateK8s :: "restClient \<Rightarrow> k8sOrder \<Rightarrow> k8sCluster res prog" where
  "hzCreateK8s c cfg =
     tryP id (restJson c (Wrapf ''hetzner create k8s: %w'' []) ''POST'' ''/kubernetes/clusters''
         (Some (jobj [(''location'', jS (koLocation cfg)), (''name'', jS (koName cfg)), (''networks'', jA []),
           (''nodepools'', jA [jobj [(''count'', jI (koNodeCount cfg)), (''name'', jS ''default''), (''server_type'', jS (koNodePlan cfg))]]),
           (''version'', jS (koVersion cfg))])) parseError ''cluster'') (\<lambda>r.
       Ret (Inr (hzClusterOf (jfield ''cluster'' r))))"

definition hzDeleteK8s :: "restClient \<Rightarrow> string \<Rightarrow> unit res prog" where
  "hzDeleteK8s c ident = restUnit c id ''DELETE'' (''/kubernetes/clusters/'' @ ident) None"

definition hzListK8s :: "restClient \<Rightarrow> k8sCluster list res prog" where
  "hzListK8s c =
     tryP id (restJson c (Wrapf ''hetzner list k8s: %w'' []) ''GET'' ''/kubernetes/clusters'' None parseError ''clusters'') (\<lambda>r.
       Ret (Inr (map hzClusterOf (jlist (jfield ''clusters'' r)))))"

definition hzGetK8s :: "restClient \<Rightarrow> string \<Rightarrow> k8sCluster res prog" where
  "hzGetK8s c ident =
     tryP id (restJson c (Wrapf ''hetzner get k8s: %w'' []) ''GET'' (''/kubernetes/clusters/'' @ ident) None parseError ''cluster'') (\<lambda>r.
       Ret (Inr (hzClusterOf (jfield ''cluster'' r))))"

definition hzGetKubeconfig :: "restClient \<Rightarrow> string \<Rightarrow> string res prog" where
  "hzGetKubeconfig c ident =
     tryP (Wrapf ''hetzner kubeconfig: %w'' []) (restDo c ''GET'' (''/kubernetes/clusters/'' @ ident @ ''/kubeconfig'') None) (\<lambda>s. Ret (Inr s))"

section \<open>Load balancers\<close>

definition hzCreateLB :: "restClient \<Rightarrow> lbOrder \<Rightarrow> loadBalancer res prog" where
  "hzCreateLB c cfg =
     tryP id (restJson c (Wrapf ''hetzner create lb: %w'' []) ''POST'' ''/load_balancers''
         (Some (jobj [(''load_balancer_type'', jS (loPlan cfg)), (''location'', jS (loLocation cfg)), (''name'', jS (loName cfg))]))
         parseError ''load_balancer'') (\<lambda>r. let lb = jfield ''load_balancer'' r in
       Ret (Inr (zeroLB\<lparr>lbID := fieldText lb ''id'', lbName := fieldText lb ''name'', lbIP := fieldText lb ''public_net''\<rparr>)))"

definition hzDeleteLB :: "restClient \<Rightarrow> string \<Rightarrow> unit res prog" where
  "hzDeleteLB c ident = restUnit c id ''DELETE'' (''/load_balancers/'' @ ident) None"

definition hzListLB :: "restClient \<Rightarrow> loadBalancer list res prog" where
  "hzListLB c =
     tryP id (restJson c (Wrapf ''hetzner list lb: %w'' []) ''GET'' ''/load_balancers'' None parseError ''load_balancers'') (\<lambda>r.
       Ret (Inr (map (\<lambda>lb. zeroLB\<lparr>lbID := fieldText lb ''id'', lbName := fieldText lb ''name''\<rparr>) (jlist (jfield ''load_balancers'' r)))))"

section \<open>DNS\<close>

definition hzListDNSZones :: "restClient \<Rightarrow> dnsZone list res prog" where
  "hzListDNSZones c =
     tryP id (restJson (dnsClient c) (Wrapf ''hetzner dns list zones: %w'' []) ''GET'' ''/zones'' None parseError ''zones'') (\<lambda>r.
       Ret (Inr (map (\<lambda>z. \<lparr>dzID = fieldText z ''id'', dzName = fieldText z ''name'', dzDNSSec = False\<rparr>) (jlist (jfield ''zones'' r)))))"

definition hzCreateDNSRecord :: "restClient \<Rightarrow> string \<Rightarrow> dnsRecord \<Rightarrow> unit res prog" where
  "hzCreateDNSRecord c zoneID r =
     restUnit (dnsClient c) id ''POST'' ''/records''
       (Some (jobj [(''name'', jS (drName r)), (''ttl'', jI (drTTL r)), (''type'', jS (drType r)), (''value'', jS (drValue r)),
         (''zone_id'', jS zoneID)]))"

definition hzDeleteDNSRecord :: "restClient \<Rightarrow> string \<Rightarrow> string \<Rightarrow> unit res prog" where
  "hzDeleteDNSRecord c zoneID recordID = restUnit (dnsClient c) id ''DELETE'' (''/records/'' @ recordID) None"

section \<open>Servers and keys\<close>

definition hzAddress :: "json \<Rightarrow> string" where
  "hzAddress server = field (jfield ''IPv4'' (jfield ''PublicNet'' server)) ''IP''"

text \<open>\<open>strconv.ParseInt\<close> of an id; \<open>fmt.Sscanf\<close> where the error is only logged.\<close>

definition scanID :: "string \<Rightarrow> int" where
  "scanID s = (case sscanfD s of Some n \<Rightarrow> n | None \<Rightarrow> 0)"

definition hzCreateVPS :: "provider \<Rightarrow> vpsOrder \<Rightarrow> cloudVPS res prog" where
  "hzCreateVPS p cfg =
     tryP id (vendor p ''Server.Create'' [jobj [(''Name'', jS (voHostname cfg)), (''ServerType'', named ''Name'' (JStr (voPlan cfg))),
         (''Location'', named ''Name'' (JStr (voLocation cfg))), (''Image'', named ''Name'' (JStr (voTemplate cfg))), (''Labels'', named ''label'' (JStr (voLabel cfg))),
         (''UserData'', jS (voUserData cfg)), (''SSHKeys'', jA (map (\<lambda>n. JObj [(''ID'', JNum n)]) (List.map_filter atoi (voSSHKeyIDs cfg))))]]
         (Wrapf ''hetzner create server: %w'' [])) (\<lambda>r. let server = jfield ''Server'' r in
       Ret (Inr (zeroVPS\<lparr>cvID := itoa (number server ''ID''), cvName := field server ''Name'',
         cvLabel := field (jfield ''Labels'' server) ''label'', cvStatus := field server ''Status'',
         cvPlan := voPlan cfg, cvLocation := voLocation cfg, cvIP := hzAddress server\<rparr>)))"

definition hzServer :: "json \<Rightarrow> cloudVPS" where
  "hzServer server = zeroVPS\<lparr>cvID := itoa (number server ''ID''), cvName := field server ''Name'', cvIP := hzAddress server\<rparr>"

definition hzDeleteVPS :: "provider \<Rightarrow> string \<Rightarrow> unit res prog" where
  "hzDeleteVPS p ident =
     vendorUnit p ''Server.DeleteWithResult'' [JObj [(''ID'', JNum (scanID ident))]] (Wrapf ''hetzner delete server: %w'' [])"

definition hzListVPS :: "provider \<Rightarrow> cloudVPS list res prog" where
  "hzListVPS p =
     tryP id (vendor p ''Server.List'' [noOptions] (Wrapf ''hetzner list servers: %w'' [])) (\<lambda>r. Ret (Inr (map hzServer (jlist r))))"

text \<open>The package returns nil for a server it does not find.\<close>

definition hzGetVPS :: "provider \<Rightarrow> string \<Rightarrow> cloudVPS res prog" where
  "hzGetVPS p ident =
     tryP id (vendor p ''Server.GetByID'' [JNum (scanID ident)] (Wrapf ''hetzner get server: %w'' [])) (\<lambda>r.
       if r = JNull then fail (Errorf ''hetzner server %s not found'' [Str ident]) else Ret (Inr (hzServer r)))"

definition fullKey :: "json \<Rightarrow> sshKey" where
  "fullKey k = \<lparr>skID = itoa (number k ''ID''), skName = field k ''Name'', skFingerprint = field k ''Fingerprint'',
     skPublicKey = field k ''PublicKey'', skCreated = ''''\<rparr>"

definition hzCreateSSHKey :: "provider \<Rightarrow> string \<Rightarrow> string \<Rightarrow> sshKey res prog" where
  "hzCreateSSHKey p name publicKey =
     tryP id (vendor p ''SSHKey.Create'' [jobj [(''Name'', jS name), (''PublicKey'', jS publicKey)]]
       (Wrapf ''hetzner create ssh key: %w'' [])) (\<lambda>k. Ret (Inr (fullKey k)))"

definition hzListSSHKeys :: "provider \<Rightarrow> sshKey list res prog" where
  "hzListSSHKeys p =
     tryP id (vendor p ''SSHKey.All'' [] (Wrapf ''hetzner list ssh keys: %w'' [])) (\<lambda>r. Ret (Inr (map fullKey (jlist r))))"

definition hzDeleteSSHKey :: "provider \<Rightarrow> string \<Rightarrow> unit res prog" where
  "hzDeleteSSHKey p ident = vendorUnit p ''SSHKey.Delete'' [JObj [(''ID'', JNum (scanID ident))]] id"

end
