(* ===== verification/DigitalOcean.thy ===== *)
theory DigitalOcean imports Hetzner begin

text \<open>
  The client of DigitalOcean (\<open>providers/digitalocean/*.go\<close>): what it asks of the vendor's package
  and what it makes of the answers.
\<close>

definition doMissing :: "'a res prog" where
  "doMissing = fail (Errorf ''digitalocean: method not available'' [])"

definition doNoMetal :: "'a res prog" where
  "doNoMetal = fail (Errorf ''digitalocean: no bare metal support'' [])"

section \<open>Droplets\<close>

definition doAddress :: "json \<Rightarrow> string" where
  "doAddress d = (case items (jfield ''Networks'' d) ''V4'' of [] \<Rightarrow> '''' | n # ns \<Rightarrow> field n ''IPAddress'')"

definition doCreateVPS :: "provider \<Rightarrow> vpsOrder \<Rightarrow> cloudVPS res prog" where
  "doCreateVPS p cfg =
     tryP id (vendor p ''Droplets.Create'' [jobj [(''Name'', jS (voHostname cfg)), (''Region'', jS (voLocation cfg)),
         (''Size'', jS (voPlan cfg)), (''Image'', named ''Slug'' (JStr (voTemplate cfg))), (''Tags'', Some (texts [voLabel cfg])),
         (''UserData'', jS (voUserData cfg))]] (Wrapf ''do create droplet: %w'' [])) (\<lambda>d.
       Ret (Inr (zeroVPS\<lparr>cvID := itoa (number d ''ID''), cvName := field d ''Name'', cvLabel := voLabel cfg,
         cvStatus := field d ''Status'', cvPlan := voPlan cfg, cvLocation := voLocation cfg, cvIP := doAddress d\<rparr>)))"

definition doDroplet :: "json \<Rightarrow> cloudVPS" where
  "doDroplet d = zeroVPS\<lparr>cvID := itoa (number d ''ID''), cvName := field d ''Name'', cvStatus := field d ''Status'', cvIP := doAddress d\<rparr>"

definition doDeleteVPS :: "provider \<Rightarrow> string \<Rightarrow> unit res prog" where
  "doDeleteVPS p ident = vendorUnit p ''Droplets.Delete'' [JNum (atoiVal ident)] id"

definition doListVPS :: "provider \<Rightarrow> cloudVPS list res prog" where
  "doListVPS p =
     tryP id (vendor p ''Droplets.List'' [noOptions] (Wrapf ''do list droplets: %w'' [])) (\<lambda>r. Ret (Inr (map doDroplet (jlist r))))"

definition doGetVPS :: "provider \<Rightarrow> string \<Rightarrow> cloudVPS res prog" where
  "doGetVPS p ident =
     tryP id (vendor p ''Droplets.Get'' [JNum (atoiVal ident)] (Wrapf ''do get droplet: %w'' [])) (\<lambda>d. Ret (Inr (doDroplet d)))"

section \<open>Kubernetes\<close>

definition clusterStatus :: "json \<Rightarrow> string" where
  "clusterStatus s = (if s = JNull then ''unknown'' else field s ''State'')"

definition doCreateK8s :: "provider \<Rightarrow> k8sOrder \<Rightarrow> k8sCluster res prog" where
  "doCreateK8s p cfg =
     tryP id (vendor p ''Kubernetes.Create'' [jobj [(''Name'', jS (koName cfg)), (''RegionSlug'', jS (koLocation cfg)),
         (''VersionSlug'', jS (koVersion cfg)),
         (''NodePools'', jA [jobj [(''Name'', jS ''default''), (''Size'', jS (koNodePlan cfg)), (''Count'', jI (koNodeCount cfg))]])]]
         (Wrapf ''do create k8s: %w'' [])) (\<lambda>r.
       Ret (Inr (zeroK8s\<lparr>kcID := field r ''ID'', kcName := field r ''Name'', kcStatus := clusterStatus (jfield ''Status'' r),
         kcLocation := koLocation cfg, kcVersion := field r ''VersionSlug'', kcNodeCount := koNodeCount cfg\<rparr>)))"

definition doCluster :: "json \<Rightarrow> k8sCluster" where
  "doCluster r = zeroK8s\<lparr>kcID := field r ''ID'', kcName := field r ''Name'', kcStatus := clusterStatus (jfield ''Status'' r),
     kcVersion := field r ''VersionSlug''\<rparr>"

definition doDeleteK8s :: "provider \<Rightarrow> string \<Rightarrow> unit res prog" where
  "doDeleteK8s p ident = vendorUnit p ''Kubernetes.Delete'' [JStr ident] id"

definition doListK8s :: "provider \<Rightarrow> k8sCluster list res prog" where
  "doListK8s p =
     tryP id (vendor p ''Kubernetes.List'' [noOptions] (Wrapf ''do list k8s: %w'' [])) (\<lambda>r.
       Ret (Inr (map (\<lambda>cl. (doCluster cl)\<lparr>kcNodeCount := sum_list (map (\<lambda>np. number np ''Count'') (items cl ''NodePools''))\<rparr>) (jlist r))))"

definition doGetK8s :: "provider \<Rightarrow> string \<Rightarrow> k8sCluster res prog" where
  "doGetK8s p ident =
     tryP id (vendor p ''Kubernetes.Get'' [JStr ident] (Wrapf ''do get k8s: %w'' [])) (\<lambda>cl. Ret (Inr (doCluster cl)))"

definition doGetKubeconfig :: "provider \<Rightarrow> string \<Rightarrow> string res prog" where
  "doGetKubeconfig p ident =
     tryP id (vendor p ''Kubernetes.GetKubeConfig'' [JStr ident, noOptions] (Wrapf ''do kubeconfig: %w'' [])) (\<lambda>kc.
       Ret (Inr (field kc ''KubeconfigYAML'')))"

section \<open>Load balancers, DNS and keys\<close>

definition doBalancer :: "json \<Rightarrow> loadBalancer" where
  "doBalancer lb = zeroLB\<lparr>lbID := field lb ''ID'', lbName := field lb ''Name'', lbIP := field lb ''IP'', lbStatus := field lb ''Status''\<rparr>"

definition doCreateLB :: "provider \<Rightarrow> lbOrder \<Rightarrow> loadBalancer res prog" where
  "doCreateLB p cfg =
     tryP id (vendor p ''LoadBalancers.Create'' [jobj [(''Name'', jS (loName cfg)), (''Region'', jS (loLocation cfg)),
         (''Algorithm'', jS (loAlgorithm cfg)), (''Tag'', jS (loLabel cfg))]] (Wrapf ''do create lb: %w'' [])) (\<lambda>lb.
       Ret (Inr (doBalancer lb)))"

definition doDeleteLB :: "provider \<Rightarrow> string \<Rightarrow> unit res prog" where
  "doDeleteLB p ident = vendorUnit p ''LoadBalancers.Delete'' [JStr ident] id"

definition doListLB :: "provider \<Rightarrow> loadBalancer list res prog" where
  "doListLB p =
     tryP id (vendor p ''LoadBalancers.List'' [noOptions] (Wrapf ''do list lb: %w'' [])) (\<lambda>r. Ret (Inr (map doBalancer (jlist r))))"

definition doListDNSZones :: "provider \<Rightarrow> dnsZone list res prog" where
  "doListDNSZones p =
     tryP id (vendor p ''Domains.List'' [noOptions] (Wrapf ''do list domains: %w'' [])) (\<lambda>r.
       Ret (Inr (map (\<lambda>d. \<lparr>dzID = field d ''Name'', dzName = field d ''Name'', dzDNSSec = False\<rparr>) (jlist r))))"

definition doCreateDNSRecord :: "provider \<Rightarrow> string \<Rightarrow> dnsRecord \<Rightarrow> unit res prog" where
  "doCreateDNSRecord p zoneID r =
     vendorUnit p ''Domains.CreateRecord'' [JStr zoneID, jobj [(''Type'', jS (drType r)), (''Name'', jS (drName r)),
       (''Data'', jS (drValue r)), (''Priority'', jI (drPriority r)), (''TTL'', jI (drTTL r))]] id"

definition doDeleteDNSRecord :: "provider \<Rightarrow> string \<Rightarrow> string \<Rightarrow> unit res prog" where
  "doDeleteDNSRecord p zoneID recordID =
     vendorUnit p ''Domains.DeleteRecord'' [JStr zoneID, JNum (atoiVal recordID)] id"

definition doCreateSSHKey :: "provider \<Rightarrow> string \<Rightarrow> string \<Rightarrow> sshKey res prog" where
  "doCreateSSHKey p name publicKey =
     tryP id (vendor p ''Keys.Create'' [jobj [(''Name'', jS name), (''PublicKey'', jS publicKey)]]
       (Wrapf ''do create ssh key: %w'' [])) (\<lambda>k. Ret (Inr (fullKey k)))"

definition doListSSHKeys :: "provider \<Rightarrow> sshKey list res prog" where
  "doListSSHKeys p =
     tryP id (vendor p ''Keys.List'' [noOptions] (Wrapf ''do list ssh keys: %w'' [])) (\<lambda>r. Ret (Inr (map fullKey (jlist r))))"

definition doDeleteSSHKey :: "provider \<Rightarrow> string \<Rightarrow> unit res prog" where
  "doDeleteSSHKey p ident = vendorUnit p ''Keys.DeleteByID'' [JNum (scanID ident)] id"

end
