(* ===== verification/AWS.thy ===== *)
theory AWS imports HttpRest GoBase64 begin

text \<open>
  The client of AWS (\<open>providers/aws/*.go\<close>): instances, clusters, load balancers, zones and key
  pairs as it asks the vendor's packages for them. A nil text reads as the empty one, as
  \<open>aws.ToString\<close> does.
\<close>

definition awsMissing :: "'a res prog" where
  "awsMissing = fail (Errorf ''aws: method not available'' [])"

section \<open>Instances\<close>

definition runInput :: "string \<Rightarrow> string \<Rightarrow> string \<Rightarrow> string option \<Rightarrow> json" where
  "runInput template plan hostname userData = jobj [(''ImageId'', jS template), (''InstanceType'', jS plan),
     (''MinCount'', jI 1), (''MaxCount'', jI 1), (''UserData'', map_option JStr userData),
     (''TagSpecifications'', jA [jobj [(''ResourceType'', jS ''ResourceTypeInstance''),
        (''Tags'', jA [jobj [(''Key'', jS ''Name''), (''Value'', jS hostname)]])]])]"

definition awsInstance :: "json \<Rightarrow> cloudVPS" where
  "awsInstance i = zeroVPS\<lparr>cvID := field i ''InstanceId'', cvIP := field i ''PublicIpAddress''\<rparr>"

definition awsCreateVPS :: "provider \<Rightarrow> vpsOrder \<Rightarrow> cloudVPS res prog" where
  "awsCreateVPS p cfg =
     tryP id (vendor p ''RunInstances'' [runInput (voTemplate cfg) (voPlan cfg) (voHostname cfg) (Some (b64encode (voUserData cfg)))]
         (Wrapf ''aws create instance: %w'' [])) (\<lambda>r.
       case items r ''Instances'' of [] \<Rightarrow> fail (Errorf ''aws: no instances created'' [])
       | i # js \<Rightarrow> Ret (Inr ((awsInstance i)\<lparr>cvName := voHostname cfg\<rparr>)))"

definition terminateInput :: "string \<Rightarrow> json" where
  "terminateInput ident = JObj [(''InstanceIds'', texts [ident])]"

definition awsDeleteVPS :: "provider \<Rightarrow> string \<Rightarrow> unit res prog" where
  "awsDeleteVPS p ident = vendorUnit p ''TerminateInstances'' [terminateInput ident] id"

definition reserved :: "json \<Rightarrow> json list" where
  "reserved r = concat (map (\<lambda>v. items v ''Instances'') (items r ''Reservations''))"

definition awsListVPS :: "provider \<Rightarrow> cloudVPS list res prog" where
  "awsListVPS p =
     tryP id (vendor p ''DescribeInstances'' [noOptions] (Wrapf ''aws list instances: %w'' [])) (\<lambda>r.
       Ret (Inr (map awsInstance (reserved r))))"

definition awsGetVPS :: "provider \<Rightarrow> string \<Rightarrow> cloudVPS res prog" where
  "awsGetVPS p ident =
     tryP id (vendor p ''DescribeInstances'' [JObj [(''InstanceIds'', texts [ident])]] (Wrapf ''aws get instance: %w'' [])) (\<lambda>r.
       case items r ''Reservations'' of [] \<Rightarrow> fail (Errorf ''aws instance %s not found'' [Str ident])
       | v # vs \<Rightarrow> (case items v ''Instances'' of [] \<Rightarrow> fail (Errorf ''aws instance %s not found'' [Str ident])
         | i # js \<Rightarrow> Ret (Inr (awsInstance i))))"

section \<open>Bare metal: instances again\<close>

definition awsCreateBareMetal :: "provider \<Rightarrow> metalOrder \<Rightarrow> bareMetal res prog" where
  "awsCreateBareMetal p cfg =
     tryP id (vendor p ''RunInstances'' [runInput (moTemplate cfg) (moPlan cfg) (moHostname cfg) None]
         (Wrapf ''aws create baremetal: %w'' [])) (\<lambda>r.
       case items r ''Instances'' of [] \<Rightarrow> fail (Errorf ''aws: no baremetal instances created'' [])
       | i # js \<Rightarrow> Ret (Inr (zeroMetal\<lparr>bmID := field i ''InstanceId'', bmName := moHostname cfg, bmIP := field i ''PublicIpAddress''\<rparr>)))"

definition awsDeleteBareMetal :: "provider \<Rightarrow> string \<Rightarrow> unit res prog" where
  "awsDeleteBareMetal p ident = vendorUnit p ''TerminateInstances'' [terminateInput ident] id"

definition awsListBareMetal :: "provider \<Rightarrow> bareMetal list res prog" where
  "awsListBareMetal p =
     tryP id (vendor p ''DescribeInstances'' [noOptions] (Wrapf ''aws list baremetal: %w'' [])) (\<lambda>r.
       Ret (Inr (map (\<lambda>i. zeroMetal\<lparr>bmID := field i ''InstanceId'', bmName := field i ''InstanceId'', bmIP := field i ''PublicIpAddress''\<rparr>) (reserved r))))"

section \<open>Kubernetes\<close>

definition awsCluster :: "json \<Rightarrow> k8sCluster" where
  "awsCluster r = (let cl = jfield ''Cluster'' r in
     zeroK8s\<lparr>kcID := field cl ''Name'', kcName := field cl ''Name'', kcStatus := field cl ''Status'', kcVersion := field cl ''Version''\<rparr>)"

definition awsCreateK8s :: "provider \<Rightarrow> k8sOrder \<Rightarrow> k8sCluster res prog" where
  "awsCreateK8s p cfg =
     (if koLabel cfg = '''' then fail (Errorf ''aws eks: set cfg.Label to the EKS role ARN'' [])
      else tryP id (vendor p ''CreateCluster'' [jobj [(''Name'', jS (koName cfg)), (''Version'', jS (koVersion cfg)),
          (''RoleArn'', jS (koLabel cfg)), (''ResourcesVpcConfig'', named ''EndpointPublicAccess'' (JBool True))]]
          (Wrapf ''aws create eks: %w'' [])) (\<lambda>r. Ret (Inr ((awsCluster r)\<lparr>kcLocation := koLocation cfg\<rparr>))))"

definition awsDeleteK8s :: "provider \<Rightarrow> string \<Rightarrow> unit res prog" where
  "awsDeleteK8s p ident = vendorUnit p ''DeleteCluster'' [JObj [(''Name'', JStr ident)]] id"

definition describeCluster :: "provider \<Rightarrow> string \<Rightarrow> (goerr \<Rightarrow> goerr) \<Rightarrow> json res prog" where
  "describeCluster p name w = vendor p ''DescribeCluster'' [JObj [(''Name'', JStr name)]] w"

text \<open>A cluster that cannot be described is left out of the list.\<close>

primrec describeAll :: "provider \<Rightarrow> string list \<Rightarrow> k8sCluster list prog" where
  "describeAll p [] = Ret []"
| "describeAll p (n # ns) = bind (describeCluster p n id) (\<lambda>r. bind (describeAll p ns) (\<lambda>cs.
     Ret (case r of Inl e \<Rightarrow> cs | Inr d \<Rightarrow> awsCluster d # cs)))"

definition awsListK8s :: "provider \<Rightarrow> k8sCluster list res prog" where
  "awsListK8s p =
     tryP id (vendor p ''ListClusters'' [noOptions] (Wrapf ''aws list eks: %w'' [])) (\<lambda>r.
       bind (describeAll p (map jtext (items r ''Clusters''))) (\<lambda>cs. Ret (Inr cs)))"

definition awsGetK8s :: "provider \<Rightarrow> string \<Rightarrow> k8sCluster res prog" where
  "awsGetK8s p ident = tryP id (describeCluster p ident (Wrapf ''aws get eks: %w'' [])) (\<lambda>r. Ret (Inr (awsCluster r)))"

definition kubeconfigFormat :: string where
  \<open>kubeconfigFormat = ''apiVersion: v1
kind: Config
clusters:
- cluster:
    server: %s
    certificate-authority-data: %s
  name: %s
contexts:
- context:
    cluster: %s
    user: aws
  name: %s
current-context: %s
users:
- name: aws
  user:
    exec:
      apiVersion: client.authentication.k8s.io/v1beta1
      command: aws
      args:
      - eks
      - get-token
      - --cluster-name
      - %s
''\<close>

definition awsGetKubeconfig :: "provider \<Rightarrow> string \<Rightarrow> string res prog" where
  "awsGetKubeconfig p ident =
     tryP id (describeCluster p ident (Wrapf ''aws describe eks: %w'' [])) (\<lambda>r. let cl = jfield ''Cluster'' r in
       Ret (Inr (sprintf kubeconfigFormat [Str (field cl ''Endpoint''), Str (field (jfield ''CertificateAuthority'' cl) ''Data''),
         Str ident, Str ident, Str ident, Str ident, Str ident])))"

section \<open>Load balancers\<close>

text \<open>The first load balancer of the answer is read without looking whether there is one.\<close>

definition awsCreateLB :: "provider \<Rightarrow> lbOrder \<Rightarrow> loadBalancer res prog" where
  "awsCreateLB p cfg =
     tryP id (vendor p ''CreateLoadBalancer'' [jobj [(''Name'', jS (loName cfg)), (''Scheme'', jS ''LoadBalancerSchemeEnumInternetFacing''),
         (''Type'', jS ''LoadBalancerTypeEnumApplication''), (''Tags'', jA [jobj [(''Key'', jS ''Name''), (''Value'', jS (loLabel cfg))]])]]
         (Wrapf ''aws create lb: %w'' [])) (\<lambda>r.
       case items r ''LoadBalancers'' of [] \<Rightarrow> fail (Panic ''index out of range'')
       | lb # lbs \<Rightarrow> Ret (Inr (zeroLB\<lparr>lbID := field lb ''LoadBalancerArn'', lbName := loName cfg, lbIP := field lb ''DNSName''\<rparr>)))"

definition awsDeleteLB :: "provider \<Rightarrow> string \<Rightarrow> unit res prog" where
  "awsDeleteLB p ident = vendorUnit p ''DeleteLoadBalancer'' [JObj [(''LoadBalancerArn'', JStr ident)]] id"

definition awsListLB :: "provider \<Rightarrow> loadBalancer list res prog" where
  "awsListLB p =
     tryP id (vendor p ''DescribeLoadBalancers'' [noOptions] (Wrapf ''aws list lb: %w'' [])) (\<lambda>r.
       Ret (Inr (map (\<lambda>lb. zeroLB\<lparr>lbID := field lb ''LoadBalancerArn'', lbName := field lb ''LoadBalancerName'', lbIP := field lb ''DNSName''\<rparr>)
         (items r ''LoadBalancers''))))"

section \<open>DNS\<close>

definition awsListDNSZones :: "provider \<Rightarrow> dnsZone list res prog" where
  "awsListDNSZones p =
     tryP id (vendor p ''ListHostedZones'' [noOptions] (Wrapf ''aws list hosted zones: %w'' [])) (\<lambda>r.
       Ret (Inr (map (\<lambda>z. \<lparr>dzID = field z ''Id'', dzName = field z ''Name'', dzDNSSec = False\<rparr>) (items r ''HostedZones''))))"

definition changeInput :: "string \<Rightarrow> string \<Rightarrow> json \<Rightarrow> json" where
  "changeInput zoneID action recordSet = jobj [(''HostedZoneId'', jS zoneID), (''ChangeBatch'', named ''Changes''
     (JArr [jobj [(''Action'', jS action), (''ResourceRecordSet'', Some recordSet)]]))]"

definition awsCreateDNSRecord :: "provider \<Rightarrow> string \<Rightarrow> dnsRecord \<Rightarrow> unit res prog" where
  "awsCreateDNSRecord p zoneID r =
     vendorUnit p ''ChangeResourceRecordSets'' [changeInput zoneID ''ChangeActionCreate'' (jobj [(''Name'', jS (drName r)), (''Type'', jS (drType r)),
       (''TTL'', jI (if drTTL r = 0 then 300 else drTTL r)), (''ResourceRecords'', jA [jobj [(''Value'', jS (drValue r))]])])] id"

text \<open>The record set to delete is the first one of the name, whatever its type.\<close>

definition sameName :: "string \<Rightarrow> json \<Rightarrow> bool" where
  "sameName recordID r \<longleftrightarrow> trimSuffix (field r ''Name'') ''.'' = trimSuffix recordID ''.''"

definition awsDeleteDNSRecord :: "provider \<Rightarrow> string \<Rightarrow> string \<Rightarrow> unit res prog" where
  "awsDeleteDNSRecord p zoneID recordID =
     tryP id (vendor p ''ListResourceRecordSets'' [jobj [(''HostedZoneId'', jS zoneID), (''MaxItems'', jI 300)]]
         (Wrapf ''aws route53 list records: %w'' [])) (\<lambda>records.
       case List.find (sameName recordID) (items records ''ResourceRecordSets'') of
         None \<Rightarrow> fail (Errorf ''aws route53: record %s not found in zone %s'' [Str recordID, Str zoneID])
       | Some r \<Rightarrow> vendorUnit p ''ChangeResourceRecordSets'' [changeInput zoneID ''ChangeActionDelete'' r]
           (Wrapf ''aws route53 delete record %s: %w'' [Str (trimSuffix (field r ''Name'') ''.'')]))"

section \<open>Keys\<close>

definition awsKey :: "json \<Rightarrow> sshKey" where
  "awsKey k = \<lparr>skID = field k ''KeyPairId'', skName = field k ''KeyName'', skFingerprint = field k ''KeyFingerprint'',
     skPublicKey = '''', skCreated = ''''\<rparr>"

definition awsCreateSSHKey :: "provider \<Rightarrow> string \<Rightarrow> string \<Rightarrow> sshKey res prog" where
  "awsCreateSSHKey p name publicKey =
     tryP id (vendor p ''ImportKeyPair'' [jobj [(''KeyName'', jS name), (''PublicKeyMaterial'', jS publicKey)]]
       (Wrapf ''aws import key pair: %w'' [])) (\<lambda>k. Ret (Inr (awsKey k)))"

definition awsListSSHKeys :: "provider \<Rightarrow> sshKey list res prog" where
  "awsListSSHKeys p =
     tryP id (vendor p ''DescribeKeyPairs'' [noOptions] (Wrapf ''aws list key pairs: %w'' [])) (\<lambda>r.
       Ret (Inr (map awsKey (items r ''KeyPairs''))))"

definition awsDeleteSSHKey :: "provider \<Rightarrow> string \<Rightarrow> unit res prog" where
  "awsDeleteSSHKey p ident = vendorUnit p ''DeleteKeyPair'' [JObj [(''KeyPairId'', JStr ident)]] id"

end
