(* ===== verification/Civo.thy ===== *)
theory Civo imports HttpRest begin

text \<open>
  The client of Civo (\<open>providers/civo/*.go\<close>). A client of the vendor's package works on one
  region; operations on something whose region is not known try five regions in turn, each with a
  client of its own. Listeners and targets of a load balancer are kept in its list of backends,
  which is read, changed and written back.
\<close>

definition civoMissing :: "'a res prog" where
  "civoMissing = fail (Errorf ''civo: method not available'' [])"

definition civoRegions :: "string list" where
  "civoRegions = [''NYC1'', ''LON1'', ''FRA1'', ''MUM1'', ''PHX1'']"

definition regionAlias :: "string \<Rightarrow> string" where
  "regionAlias r = (if r = ''lon'' \<or> r = ''london'' then ''LON1'' else if r = ''nyc'' \<or> r = ''newyork'' then ''NYC1''
     else if r = ''fra'' \<or> r = ''frankfurt'' then ''FRA1'' else r)"

definition withRegion :: "provider \<Rightarrow> string \<Rightarrow> provider res prog" where
  "withRegion p region = (let q = p\<lparr>pvRegion := region\<rparr> in tryP id (callP (CloudClient q)) (\<lambda>_. Ret (Inr q)))"

text \<open>The first region in which the operation succeeds; the error of the last one.\<close>

primrec inRegions :: "provider \<Rightarrow> (provider \<Rightarrow> 'a res prog) \<Rightarrow> string list \<Rightarrow> goerr \<Rightarrow> 'a res prog" where
  "inRegions p f [] lastErr = fail lastErr"
| "inRegions p f (r # rs) lastErr = bind (tryP id (withRegion p r) f) (\<lambda>x. case x of
     Inl e \<Rightarrow> inRegions p f rs e | Inr y \<Rightarrow> Ret (Inr y))"

definition tryRegions :: "provider \<Rightarrow> (provider \<Rightarrow> 'a res prog) \<Rightarrow> 'a res prog" where
  "tryRegions p f = inRegions p f civoRegions (Ext '''')"

text \<open>Lists of all regions, without those that fail.\<close>

primrec overRegions :: "provider \<Rightarrow> (provider \<Rightarrow> 'a list res prog) \<Rightarrow> string list \<Rightarrow> 'a list prog" where
  "overRegions p f [] = Ret []"
| "overRegions p f (r # rs) = bind (tryP id (withRegion p r) f) (\<lambda>x. bind (overRegions p f rs) (\<lambda>ys.
     Ret (case x of Inl e \<Rightarrow> ys | Inr zs \<Rightarrow> zs @ ys)))"

definition fields :: "json \<Rightarrow> (string \<times> json) list" where
  "fields j = (case j of JObj fs \<Rightarrow> fs | _ \<Rightarrow> [])"

definition setFields :: "json \<Rightarrow> (string \<times> json) list \<Rightarrow> json" where
  "setFields j fs = JObj (fs @ filter (\<lambda>(k, v). k \<notin> set (map fst fs)) (fields j))"

section \<open>Instances\<close>

definition imageNames :: "string \<Rightarrow> string list" where
  "imageNames template =
     (if template = ''ubuntu-24'' \<or> template = ''ubuntu24'' \<or> template = ''ubuntu'' then [''ubuntu-24'', ''ubuntu-24-04'']
      else if template = ''ubuntu-22'' \<or> template = ''ubuntu22'' then [''ubuntu-22'', ''ubuntu-22-04'']
      else if template = ''debian-12'' \<or> template = ''debian12'' then [''debian-12''] else [])"

text \<open>The first image of the template, else the first image there is.\<close>

definition osTemplateID :: "provider \<Rightarrow> string \<Rightarrow> string prog" where
  "osTemplateID p template = bind (vendor p ''ListDiskImages'' [] id) (\<lambda>r. Ret (case r of Inl e \<Rightarrow> ''''
     | Inr images \<Rightarrow> (case List.find (\<lambda>i. list_ex (containsStr (field i ''Name'')) (imageNames template)) (jlist images) of
         Some i \<Rightarrow> field i ''ID''
       | None \<Rightarrow> (case jlist images of [] \<Rightarrow> '''' | i # js \<Rightarrow> field i ''ID''))))"

text \<open>A key that is given without a hyphen is taken as no id: the first key of the account is used.\<close>

definition civoKeyID :: "provider \<Rightarrow> string list \<Rightarrow> string prog" where
  "civoKeyID p ids = (case ids of [] \<Rightarrow> Ret ''''
     | i # is \<Rightarrow> if containsStr i ''-'' then Ret i
         else bind (vendor p ''ListSSHKeys'' [] id) (\<lambda>r. Ret (case r of Inl e \<Rightarrow> ''''
           | Inr ks \<Rightarrow> (case jlist ks of [] \<Rightarrow> '''' | k # _ \<Rightarrow> field k ''ID''))))"

text \<open>Thirty polls, five seconds apart, for an active instance with an address.\<close>

primrec civoWait :: "nat \<Rightarrow> provider \<Rightarrow> json \<Rightarrow> json prog" where
  "civoWait 0 p inst = Ret inst"
| "civoWait (Suc n) p inst =
     bind (sleepP 5) (\<lambda>_. bind (vendor p ''GetInstance'' [JStr (field inst ''ID'')] id) (\<lambda>r. case r of
       Inl e \<Rightarrow> civoWait n p inst
     | Inr cur \<Rightarrow> if field cur ''PublicIP'' \<noteq> '''' \<and> field cur ''Status'' = ''ACTIVE'' then Ret cur else civoWait n p inst))"

definition civoInstance :: "json \<Rightarrow> cloudVPS" where
  "civoInstance i = zeroVPS\<lparr>cvID := field i ''ID'', cvName := field i ''Hostname'', cvLabel := field i ''Hostname'',
     cvIP := field i ''PublicIP'', cvIPv6 := field i ''IPv6'', cvStatus := toLower (field i ''Status''),
     cvPlan := field i ''Size'', cvLocation := field i ''Region''\<rparr>"

definition civoCreateVPS :: "provider \<Rightarrow> vpsOrder \<Rightarrow> cloudVPS res prog" where
  "civoCreateVPS p cfg =
     tryP id (vendor p ''NewInstanceConfig'' [] (Wrapf ''civo: new instance config: %w'' [])) (\<lambda>config.
     bind (osTemplateID p (voTemplate cfg)) (\<lambda>template.
     bind (civoKeyID p (voSSHKeyIDs cfg)) (\<lambda>key.
       if template = '''' then fail (Errorf ''civo: no valid template found for %q'' [Str (voTemplate cfg)])
       else tryP id (vendor p ''CreateInstance'' [setFields config
           [(''Hostname'', JStr (if voHostname cfg = '''' then voLabel cfg else voHostname cfg)), (''Size'', JStr (voPlan cfg)),
            (''Region'', JStr (regionAlias (voLocation cfg))), (''TemplateID'', JStr template), (''SSHKeyID'', JStr key)]]
           (Wrapf ''civo: create instance: %w'' [])) (\<lambda>inst.
         bind (civoWait 30 p inst) (\<lambda>i. Ret (Inr ((civoInstance i)\<lparr>cvTemplate := voTemplate cfg\<rparr>)))))))"

definition civoListVPS :: "provider \<Rightarrow> cloudVPS list res prog" where
  "civoListVPS p = bind (overRegions p (\<lambda>q. tryP id (vendor q ''ListAllInstances'' [] id) (\<lambda>r.
     Ret (Inr (map civoInstance (jlist r))))) civoRegions) (\<lambda>vs. Ret (Inr vs))"

definition civoGetVPS :: "provider \<Rightarrow> string \<Rightarrow> cloudVPS res prog" where
  "civoGetVPS p ident =
     tryP (Wrapf ''civo: get instance: %w'' []) (tryRegions p (\<lambda>q. vendor q ''GetInstance'' [JStr ident] id)) (\<lambda>i.
       Ret (Inr (civoInstance i)))"

definition civoDeleteVPS :: "provider \<Rightarrow> string \<Rightarrow> unit res prog" where
  "civoDeleteVPS p ident =
     tryP (Wrapf ''civo: delete instance: %w'' []) (tryRegions p (\<lambda>q. vendorUnit q ''DeleteInstance'' [JStr ident] id)) (\<lambda>_. okP)"

section \<open>Kubernetes\<close>

definition clusterToProvider :: "json \<Rightarrow> k8sCluster" where
  "clusterToProvider cl = zeroK8s\<lparr>kcID := field cl ''ID'', kcName := field cl ''Name'',
     kcStatus := toLower (field cl ''Status''), kcVersion := field cl ''KubernetesVersion''\<rparr>"

definition poolConfig :: "string \<Rightarrow> int \<Rightarrow> json" where
  "poolConfig plan n = jobj [(''Size'', jS plan), (''Count'', jI n)]"

definition civoCreateK8s :: "provider \<Rightarrow> k8sOrder \<Rightarrow> k8sCluster res prog" where
  "civoCreateK8s p cfg =
     tryP id (vendor p ''NewKubernetesClusters'' [jobj [(''Name'', jS (koName cfg)), (''Region'', jS (regionAlias (koLocation cfg))),
         (''Pools'', jA [poolConfig (koNodePlan cfg) (koNodeCount cfg)]), (''KubernetesVersion'', eS (koVersion cfg))]]
         (Wrapf ''civo: create k8s: %w'' [])) (\<lambda>cl. Ret (Inr (clusterToProvider cl)))"

definition civoListK8s :: "provider \<Rightarrow> k8sCluster list res prog" where
  "civoListK8s p =
     tryP id (vendor p ''ListKubernetesClusters'' [] (Wrapf ''civo: list k8s: %w'' [])) (\<lambda>r.
       Ret (Inr (map clusterToProvider (items r ''Items''))))"

definition civoGetK8s :: "provider \<Rightarrow> string \<Rightarrow> k8sCluster res prog" where
  "civoGetK8s p ident =
     tryP id (vendor p ''GetKubernetesCluster'' [JStr ident] (Wrapf ''civo: get k8s: %w'' [])) (\<lambda>cl. Ret (Inr (clusterToProvider cl)))"

definition civoDeleteK8s :: "provider \<Rightarrow> string \<Rightarrow> unit res prog" where
  "civoDeleteK8s p ident =
     tryP (Wrapf ''civo: delete k8s: %w'' []) (tryRegions p (\<lambda>q. vendorUnit q ''DeleteKubernetesCluster'' [JStr ident] id)) (\<lambda>_. okP)"

definition civoGetKubeconfig :: "provider \<Rightarrow> string \<Rightarrow> string res prog" where
  "civoGetKubeconfig p ident =
     tryP (Wrapf ''civo: get kubeconfig: %w'' []) (tryRegions p (\<lambda>q. vendor q ''GetKubernetesCluster'' [JStr ident] id)) (\<lambda>cl.
       if field cl ''KubeConfig'' = '''' then fail (Errorf ''civo: kubeconfig not ready yet'' [])
       else Ret (Inr (field cl ''KubeConfig'')))"

definition civoUpdateK8s :: "provider \<Rightarrow> string \<Rightarrow> string \<Rightarrow> k8sCluster res prog" where
  "civoUpdateK8s p ident version =
     tryP id (vendor p ''UpdateKubernetesCluster'' [JStr ident, jobj [(''KubernetesVersion'', jS version)]]
       (Wrapf ''civo: update k8s: %w'' [])) (\<lambda>cl. Ret (Inr (clusterToProvider cl)))"

definition civoListAvailableAddons :: "provider \<Rightarrow> k8sAddon list res prog" where
  "civoListAvailableAddons p =
     tryP id (vendor p ''ListKubernetesMarketplaceApplications'' [] (Wrapf ''civo: list addons: %w'' [])) (\<lambda>r.
       Ret (Inr (map (\<lambda>a. \<lparr>kaID = field a ''Name'', kaName = field a ''Title'', kaSlug = field a ''Name'',
         kaVersion = '''', kaStatus = '''', kaInstalled = False\<rparr>) (jlist r))))"

definition civoListK8sNodePools :: "provider \<Rightarrow> string \<Rightarrow> nodePool list res prog" where
  "civoListK8sNodePools p ident =
     tryP id (vendor p ''ListKubernetesClusterPools'' [JStr ident] (Wrapf ''civo: list node pools: %w'' [])) (\<lambda>r.
       Ret (Inr (map (\<lambda>np. \<lparr>kpID = field np ''ID'', kpName = field np ''ID'', kpPlan = field np ''Size'',
         kpNodes = number np ''Count'', kpStatus = ''active''\<rparr>) (jlist r))))"

definition civoCreateK8sNodePool :: "provider \<Rightarrow> string \<Rightarrow> poolOrder \<Rightarrow> nodePool res prog" where
  "civoCreateK8sNodePool p ident cfg =
     tryP id (vendor p ''CreateKubernetesClusterPool'' [JStr ident, poolConfig (poPlan cfg) (poNodeCount cfg)]
       (Wrapf ''civo: create node pool: %w'' [])) (\<lambda>r.
       Ret (Inr \<lparr>kpID = field r ''ID'', kpName = field r ''ID'', kpPlan = poPlan cfg, kpNodes = poNodeCount cfg, kpStatus = ''''\<rparr>))"

definition civoScaleK8sNodePool :: "provider \<Rightarrow> string \<Rightarrow> string \<Rightarrow> int \<Rightarrow> unit res prog" where
  "civoScaleK8sNodePool p ident poolID nodes =
     vendorUnit p ''UpdateKubernetesClusterPool'' [JStr ident, JStr poolID, jobj [(''Count'', jI nodes)]]
       (Wrapf ''civo: scale node pool: %w'' [])"

definition civoDeleteK8sNodePool :: "provider \<Rightarrow> string \<Rightarrow> string \<Rightarrow> unit res prog" where
  "civoDeleteK8sNodePool p ident poolID =
     vendorUnit p ''DeleteKubernetesClusterPool'' [JStr ident, JStr poolID] (Wrapf ''civo: delete node pool: %w'' [])"

section \<open>Load balancers\<close>

definition civoBalancer :: "json \<Rightarrow> loadBalancer" where
  "civoBalancer lb = zeroLB\<lparr>lbID := field lb ''ID'', lbName := field lb ''Name'', lbStatus := field lb ''State'', lbIP := field lb ''PublicIP''\<rparr>"

definition civoCreateLB :: "provider \<Rightarrow> lbOrder \<Rightarrow> loadBalancer res prog" where
  "civoCreateLB p cfg =
     tryP id (vendor p ''CreateLoadBalancer'' [jobj [(''Name'', jS (loName cfg)), (''Region'', jS (regionAlias (loLocation cfg))),
         (''Algorithm'', jS (loAlgorithm cfg)), (''Backends'', jA [jobj [(''IP'', jS ''0.0.0.0''), (''Protocol'', jS ''TCP''),
           (''SourcePort'', jI 80), (''TargetPort'', jI 8080)]])]] (Wrapf ''civo: create lb: %w'' [])) (\<lambda>lb.
       Ret (Inr ((civoBalancer lb)\<lparr>lbStatus := (if field lb ''State'' \<noteq> '''' then field lb ''State'' else ''active''),
         lbLocation := loLocation cfg\<rparr>)))"

definition civoListLB :: "provider \<Rightarrow> loadBalancer list res prog" where
  "civoListLB p = bind (overRegions p (\<lambda>q. tryP id (vendor q ''ListLoadBalancers'' [] id) (\<lambda>r.
     Ret (Inr (map civoBalancer (jlist r))))) civoRegions) (\<lambda>lbs. Ret (Inr lbs))"

definition civoDeleteLB :: "provider \<Rightarrow> string \<Rightarrow> unit res prog" where
  "civoDeleteLB p ident = tryRegions p (\<lambda>q. vendorUnit q ''DeleteLoadBalancer'' [JStr ident] id)"

definition civoGetLB :: "provider \<Rightarrow> string \<Rightarrow> loadBalancer res prog" where
  "civoGetLB p ident = tryRegions p (\<lambda>q. tryP id (vendor q ''GetLoadBalancer'' [JStr ident] id) (\<lambda>lb. Ret (Inr (civoBalancer lb))))"

section \<open>Listeners and targets\<close>

definition toPort :: "int \<Rightarrow> int" where
  "toPort n = (if n < 0 \<or> n > 65535 then 0 else n)"

definition civoListenerID :: "string \<Rightarrow> int \<Rightarrow> string" where
  "civoListenerID lb port = lb @ '':'' @ itoa port"

text \<open>The port is what follows the last colon.\<close>

definition parsePort :: "string \<Rightarrow> int" where
  "parsePort ident = (if CHR '':'' \<in> set ident
     then (case atoi (rev (takeWhile (\<lambda>c. c \<noteq> CHR '':'') (rev ident))) of Some p \<Rightarrow> toPort p | None \<Rightarrow> 0)
     else 0)"

definition sourcePort :: "json \<Rightarrow> int" where
  "sourcePort b = number b ''SourcePort''"

definition getBalancer :: "provider \<Rightarrow> string \<Rightarrow> json res prog" where
  "getBalancer p lb = vendor p ''GetLoadBalancer'' [JStr lb] (Wrapf ''civo: get lb: %w'' [])"

text \<open>The update names the region NYC1 whatever the region of its client.\<close>

definition updateLBBackends :: "provider \<Rightarrow> string \<Rightarrow> json list \<Rightarrow> unit res prog" where
  "updateLBBackends p lb backends = tryRegions p (\<lambda>q.
     vendorUnit q ''UpdateLoadBalancer'' [JStr lb, jobj [(''Region'', jS ''NYC1''), (''Backends'', jA backends)]] id)"

definition civoCreateLBListener :: "provider \<Rightarrow> string \<Rightarrow> listenerOrder \<Rightarrow> lbListener res prog" where
  "civoCreateLBListener p lb cfg =
     tryP id (getBalancer p lb) (\<lambda>r. let prot = (if liProtocol cfg \<noteq> '''' then liProtocol cfg else ''TCP'') in
     tryP id (updateLBBackends p lb (items r ''Backends'' @ [jobj [(''Protocol'', jS prot),
         (''SourcePort'', jI (toPort (liPort cfg))), (''TargetPort'', jI (toPort (liTargetPort cfg)))]])) (\<lambda>_.
       Ret (Inr \<lparr>llID = civoListenerID lb (toPort (liPort cfg)), llPort = liPort cfg, llTargetPort = liTargetPort cfg, llProtocol = prot\<rparr>)))"

definition civoDeleteLBListener :: "provider \<Rightarrow> string \<Rightarrow> string \<Rightarrow> unit res prog" where
  "civoDeleteLBListener p lb listenerID =
     tryP id (getBalancer p lb) (\<lambda>r.
       updateLBBackends p lb (filter (\<lambda>b. sourcePort b \<noteq> parsePort listenerID) (items r ''Backends'')))"

definition civoUpdateLBListener :: "provider \<Rightarrow> string \<Rightarrow> string \<Rightarrow> listenerOrder \<Rightarrow> lbListener res prog" where
  "civoUpdateLBListener p lb listenerID cfg =
     tryP id (getBalancer p lb) (\<lambda>r. let prot = (if liProtocol cfg \<noteq> '''' then liProtocol cfg else ''tcp'') in
     tryP id (updateLBBackends p lb (map (\<lambda>b. if sourcePort b = parsePort listenerID
         then setFields b [(''Protocol'', JStr prot), (''SourcePort'', JNum (toPort (liPort cfg))), (''TargetPort'', JNum (toPort (liTargetPort cfg)))]
         else b) (items r ''Backends''))) (\<lambda>_.
       Ret (Inr \<lparr>llID = listenerID, llPort = liPort cfg, llTargetPort = liTargetPort cfg, llProtocol = prot\<rparr>)))"

definition civoTargetID :: "string \<Rightarrow> string \<Rightarrow> string" where
  "civoTargetID lb ip = sprintf ''%s-%s'' [Str lb, Str ip]"

definition civoAddLBTarget :: "provider \<Rightarrow> string \<Rightarrow> string \<Rightarrow> targetOrder \<Rightarrow> lbTarget res prog" where
  "civoAddLBTarget p lb listenerID cfg =
     tryP id (getBalancer p lb) (\<lambda>r.
     tryP id (updateLBBackends p lb (items r ''Backends'' @ [jobj [(''IP'', jS (toTargetID cfg)), (''Protocol'', jS ''tcp''),
         (''SourcePort'', jI (parsePort listenerID)), (''TargetPort'', jI (toPort (toTargetPort cfg)))]])) (\<lambda>_.
       Ret (Inr \<lparr>ltID = civoTargetID lb (toTargetID cfg), ltType = toType cfg, ltTargetID = toTargetID cfg,
         ltPort = toTargetPort cfg, ltWeight = toWeight cfg, ltStatus = ''''\<rparr>)))"

definition civoListLBTargets :: "provider \<Rightarrow> string \<Rightarrow> string \<Rightarrow> lbTarget list res prog" where
  "civoListLBTargets p lb listenerID =
     tryP id (getBalancer p lb) (\<lambda>r. let port = parsePort listenerID in
       Ret (Inr (map (\<lambda>b. \<lparr>ltID = civoTargetID lb (field b ''IP''), ltType = '''', ltTargetID = field b ''IP'',
         ltPort = number b ''TargetPort'', ltWeight = 0, ltStatus = ''''\<rparr>)
         (filter (\<lambda>b. port = 0 \<or> sourcePort b = port) (items r ''Backends'')))))"

text \<open>Draining one target takes away every backend of its listener.\<close>

definition drained :: "string \<Rightarrow> int \<Rightarrow> string \<Rightarrow> json \<Rightarrow> bool" where
  "drained lb port targetID b \<longleftrightarrow> civoTargetID lb (field b ''IP'') = targetID \<or> port \<noteq> 0 \<and> sourcePort b = port"

definition civoDrainLBTarget :: "provider \<Rightarrow> string \<Rightarrow> string \<Rightarrow> string \<Rightarrow> unit res prog" where
  "civoDrainLBTarget p lb listenerID targetID =
     tryP id (getBalancer p lb) (\<lambda>r.
       updateLBBackends p lb (filter (\<lambda>b. \<not> drained lb (parsePort listenerID) targetID b) (items r ''Backends'')))"

section \<open>DNS and keys\<close>

definition civoListDNSZones :: "provider \<Rightarrow> dnsZone list res prog" where
  "civoListDNSZones p =
     tryP id (vendor p ''ListDNSDomains'' [] (Wrapf ''civo: list dns zones: %w'' [])) (\<lambda>r.
       Ret (Inr (map (\<lambda>d. \<lparr>dzID = field d ''ID'', dzName = field d ''Name'', dzDNSSec = False\<rparr>) (jlist r))))"

text \<open>The type of a record as a constant of the package; only lower case is recognised.\<close>

definition civoRecordType :: "string \<Rightarrow> string" where
  "civoRecordType t = (if t = ''a'' then ''DNSRecordTypeA'' else if t = ''cname'' then ''DNSRecordTypeCName''
     else if t = ''mx'' then ''DNSRecordTypeMX'' else if t = ''txt'' then ''DNSRecordTypeTXT''
     else if t = ''ns'' then ''DNSRecordTypeNS'' else if t = ''srv'' then ''DNSRecordTypeSRV'' else ''DNSRecordTypeA'')"

definition civoCreateDNSRecord :: "provider \<Rightarrow> string \<Rightarrow> dnsRecord \<Rightarrow> unit res prog" where
  "civoCreateDNSRecord p zoneID r =
     vendorUnit p ''CreateDNSRecord'' [JStr zoneID, jobj [(''Name'', jS (drName r)), (''Value'', jS (drValue r)), (''TTL'', jI (drTTL r)),
       (''Type'', jS (civoRecordType (drType r))), (''Priority'', if drType r = ''mx'' then jI (drPriority r) else None)]]
       (Wrapf ''civo: create dns record: %w'' [])"

definition civoDeleteDNSRecord :: "provider \<Rightarrow> string \<Rightarrow> string \<Rightarrow> unit res prog" where
  "civoDeleteDNSRecord p zoneID recordID =
     vendorUnit p ''DeleteDNSRecord'' [JObj [(''ID'', JStr recordID)]] (Wrapf ''civo: delete dns record: %w'' [])"

definition civoCreateSSHKey :: "provider \<Rightarrow> string \<Rightarrow> string \<Rightarrow> sshKey res prog" where
  "civoCreateSSHKey p name publicKey =
     tryP id (vendor p ''NewSSHKey'' [JStr name, JStr publicKey] (Wrapf ''civo: create ssh key: %w'' [])) (\<lambda>k.
       Ret (Inr \<lparr>skID = field k ''ID'', skName = name, skFingerprint = '''', skPublicKey = '''', skCreated = ''''\<rparr>))"

definition civoListSSHKeys :: "provider \<Rightarrow> sshKey list res prog" where
  "civoListSSHKeys p =
     tryP id (vendor p ''ListSSHKeys'' [] (Wrapf ''civo: list ssh keys: %w'' [])) (\<lambda>r.
       Ret (Inr (map (\<lambda>k. \<lparr>skID = field k ''ID'', skName = field k ''Name'', skFingerprint = '''',
         skPublicKey = field k ''PublicKey'', skCreated = ''''\<rparr>) (jlist r))))"

definition civoDeleteSSHKey :: "provider \<Rightarrow> string \<Rightarrow> unit res prog" where
  "civoDeleteSSHKey p ident = vendorUnit p ''DeleteSSHKey'' [JStr ident] (Wrapf ''civo: delete ssh key: %w'' [])"

end
