(* ===== verification/Vultr.thy ===== *)
theory Vultr imports HttpRest GoNet begin

text \<open>
  The client of Vultr (\<open>providers/vultr/*.go\<close>): what it asks of the vendor's package, the wait for
  the address of a new instance, and the firewall group that holds the allowlist of the ports 80
  and 443.
\<close>

definition vultrMissing :: "'a res prog" where
  "vultrMissing = fail (Errorf ''vultr: method not available'' [])"

section \<open>Instances\<close>

definition osIDFromTemplate :: "string \<Rightarrow> int" where
  "osIDFromTemplate t = (if t = ''ubuntu-22'' \<or> t = ''ubuntu22'' then 1743
     else if t = ''ubuntu-24'' \<or> t = ''ubuntu24'' then 2284
     else if t = ''ubuntu-26'' \<or> t = ''ubuntu26'' \<or> t = ''ubuntu'' then 2760
     else if t = ''debian-12'' \<or> t = ''debian12'' then 2577 else 2760)"

definition vultrInstance :: "json \<Rightarrow> cloudVPS" where
  "vultrInstance i = zeroVPS\<lparr>cvID := field i ''ID'', cvName := field i ''Label'', cvStatus := field i ''Status'', cvIP := field i ''MainIP''\<rparr>"

definition vultrGetVPS :: "provider \<Rightarrow> string \<Rightarrow> cloudVPS res prog" where
  "vultrGetVPS p ident =
     tryP id (vendor p ''Instance.Get'' [JStr ident] (Wrapf ''vultr get instance: %w'' [])) (\<lambda>i. Ret (Inr (vultrInstance i)))"

definition vultrListVPS :: "provider \<Rightarrow> cloudVPS list res prog" where
  "vultrListVPS p =
     tryP id (vendor p ''Instance.List'' [noOptions] (Wrapf ''vultr list instances: %w'' [])) (\<lambda>r. Ret (Inr (map vultrInstance (jlist r))))"

definition vultrDeleteVPS :: "provider \<Rightarrow> string \<Rightarrow> unit res prog" where
  "vultrDeleteVPS p ident = vendorUnit p ''Instance.Delete'' [JStr ident] id"

text \<open>Thirty polls, five seconds apart, for an address.\<close>

primrec vultrWait :: "nat \<Rightarrow> provider \<Rightarrow> cloudVPS \<Rightarrow> cloudVPS prog" where
  "vultrWait 0 p v = Ret v"
| "vultrWait (Suc n) p v =
     bind (sleepP 5) (\<lambda>_. bind (vultrGetVPS p (cvID v)) (\<lambda>r. case r of
       Inl e \<Rightarrow> vultrWait n p v
     | Inr cur \<Rightarrow> if cvIP cur \<noteq> '''' \<and> cvIP cur \<noteq> ''0.0.0.0'' then Ret (v\<lparr>cvIP := cvIP cur, cvStatus := cvStatus cur\<rparr>)
         else vultrWait n p v))"

definition vultrCreateVPS :: "provider \<Rightarrow> vpsOrder \<Rightarrow> cloudVPS res prog" where
  "vultrCreateVPS p cfg =
     tryP id (vendor p ''Instance.Create'' [jobj [(''Label'', jS (voLabel cfg)), (''Plan'', jS (voPlan cfg)), (''Region'', jS (voLocation cfg)),
         (''Hostname'', jS (voHostname cfg)), (''OsID'', jI (osIDFromTemplate (voTemplate cfg))), (''SSHKeys'', Some (texts (voSSHKeyIDs cfg))),
         (''UserData'', jS (voUserData cfg))]] (Wrapf ''vultr create instance: %w'' [])) (\<lambda>i.
     bind (vultrWait 30 p ((vultrInstance i)\<lparr>cvLabel := voLabel cfg, cvPlan := voPlan cfg, cvLocation := voLocation cfg\<rparr>)) (\<lambda>v.
       Ret (Inr v)))"

section \<open>Kubernetes\<close>

definition vultrCluster :: "json \<Rightarrow> k8sCluster" where
  "vultrCluster cl = zeroK8s\<lparr>kcID := field cl ''ID'', kcName := field cl ''Label'', kcStatus := field cl ''Status'', kcVersion := field cl ''Version''\<rparr>"

definition vultrCreateK8s :: "provider \<Rightarrow> k8sOrder \<Rightarrow> k8sCluster res prog" where
  "vultrCreateK8s p cfg =
     tryP id (vendor p ''Kubernetes.CreateCluster'' [jobj [(''Label'', jS (koName cfg)), (''Region'', jS (koLocation cfg)),
         (''Version'', jS (koVersion cfg)), (''NodePools'', jA [jobj [(''NodeQuantity'', jI (koNodeCount cfg)),
           (''Plan'', jS (koNodePlan cfg)), (''Label'', jS ''default'')]])]] (Wrapf ''vultr create k8s: %w'' [])) (\<lambda>cl.
       Ret (Inr ((vultrCluster cl)\<lparr>kcLocation := koLocation cfg, kcNodeCount := koNodeCount cfg\<rparr>)))"

definition vultrDeleteK8s :: "provider \<Rightarrow> string \<Rightarrow> unit res prog" where
  "vultrDeleteK8s p ident = vendorUnit p ''Kubernetes.DeleteCluster'' [JStr ident] id"

definition vultrListK8s :: "provider \<Rightarrow> k8sCluster list res prog" where
  "vultrListK8s p =
     tryP id (vendor p ''Kubernetes.ListClusters'' [noOptions] (Wrapf ''vultr list k8s: %w'' [])) (\<lambda>r. Ret (Inr (map vultrCluster (jlist r))))"

definition vultrGetK8s :: "provider \<Rightarrow> string \<Rightarrow> k8sCluster res prog" where
  "vultrGetK8s p ident =
     tryP id (vendor p ''Kubernetes.GetCluster'' [JStr ident] (Wrapf ''vultr get k8s: %w'' [])) (\<lambda>cl. Ret (Inr (vultrCluster cl)))"

definition vultrGetKubeconfig :: "provider \<Rightarrow> string \<Rightarrow> string res prog" where
  "vultrGetKubeconfig p ident =
     tryP id (vendor p ''Kubernetes.GetKubeConfig'' [JStr ident] (Wrapf ''vultr kubeconfig: %w'' [])) (\<lambda>kc. Ret (Inr (field kc ''KubeConfig'')))"

text \<open>Only an upgrade that is offered is asked for.\<close>

definition vultrUpdateK8s :: "provider \<Rightarrow> string \<Rightarrow> string \<Rightarrow> k8sCluster res prog" where
  "vultrUpdateK8s p ident version =
     tryP id (vendor p ''Kubernetes.GetUpgrades'' [JStr ident] (Wrapf ''vultr get upgrades: %w'' [])) (\<lambda>r.
       let upgrades = map jtext (jlist r) in
       if version \<notin> set upgrades
       then fail (Errorf ''vultr: version %s not in available upgrades: %v'' [Str version, Str (''['' @ joinWith '' '' upgrades @ '']'')])
       else tryP id (vendorUnit p ''Kubernetes.Upgrade'' [JStr ident, jobj [(''UpgradeVersion'', jS version)]]
           (Wrapf ''vultr upgrade k8s: %w'' [])) (\<lambda>_.
         Ret (Inr (zeroK8s\<lparr>kcID := ident, kcVersion := version, kcStatus := ''upgrading''\<rparr>))))"

definition vultrPool :: "json \<Rightarrow> nodePool" where
  "vultrPool np = \<lparr>kpID = field np ''ID'', kpName = field np ''Label'', kpPlan = field np ''Plan'',
     kpNodes = number np ''NodeQuantity'', kpStatus = field np ''Status''\<rparr>"

definition vultrListK8sNodePools :: "provider \<Rightarrow> string \<Rightarrow> nodePool list res prog" where
  "vultrListK8sNodePools p ident =
     tryP id (vendor p ''Kubernetes.ListNodePools'' [JStr ident, noOptions] (Wrapf ''vultr list node pools: %w'' [])) (\<lambda>r.
       Ret (Inr (map vultrPool (jlist r))))"

definition vultrCreateK8sNodePool :: "provider \<Rightarrow> string \<Rightarrow> poolOrder \<Rightarrow> nodePool res prog" where
  "vultrCreateK8sNodePool p ident cfg =
     tryP id (vendor p ''Kubernetes.CreateNodePool'' [JStr ident, jobj [(''NodeQuantity'', jI (poNodeCount cfg)), (''Plan'', jS (poPlan cfg)),
         (''Label'', jS (poName cfg))]] (Wrapf ''vultr create node pool: %w'' [])) (\<lambda>np. Ret (Inr (vultrPool np)))"

definition vultrScaleK8sNodePool :: "provider \<Rightarrow> string \<Rightarrow> string \<Rightarrow> int \<Rightarrow> unit res prog" where
  "vultrScaleK8sNodePool p ident poolID nodes =
     vendorUnit p ''Kubernetes.UpdateNodePool'' [JStr ident, JStr poolID, jobj [(''NodeQuantity'', jI nodes)]] id"

definition vultrDeleteK8sNodePool :: "provider \<Rightarrow> string \<Rightarrow> string \<Rightarrow> unit res prog" where
  "vultrDeleteK8sNodePool p ident poolID = vendorUnit p ''Kubernetes.DeleteNodePool'' [JStr ident, JStr poolID] id"

section \<open>Bare metal\<close>

definition vultrMetal :: "json \<Rightarrow> bareMetal" where
  "vultrMetal bm = zeroMetal\<lparr>bmID := field bm ''ID'', bmName := field bm ''Label'', bmStatus := field bm ''Status'',
     bmPlan := field bm ''Plan'', bmLocation := field bm ''Region'', bmIP := field bm ''MainIP''\<rparr>"

definition vultrCreateBareMetal :: "provider \<Rightarrow> metalOrder \<Rightarrow> bareMetal res prog" where
  "vultrCreateBareMetal p cfg =
     tryP id (vendor p ''BareMetalServer.Create'' [jobj [(''Region'', jS (moLocation cfg)), (''Plan'', jS (moPlan cfg)),
         (''Label'', jS (if moLabel cfg = '''' then moHostname cfg else moLabel cfg)), (''Hostname'', jS (moHostname cfg)),
         (''ImageID'', jS (moTemplate cfg)), (''UserData'', jS (moUserData cfg))]] (Wrapf ''vultr create baremetal: %w'' [])) (\<lambda>bm.
       Ret (Inr ((vultrMetal bm)\<lparr>bmLabel := moLabel cfg\<rparr>)))"

definition vultrDeleteBareMetal :: "provider \<Rightarrow> string \<Rightarrow> unit res prog" where
  "vultrDeleteBareMetal p ident = vendorUnit p ''BareMetalServer.Delete'' [JStr ident] id"

definition vultrListBareMetal :: "provider \<Rightarrow> bareMetal list res prog" where
  "vultrListBareMetal p =
     tryP id (vendor p ''BareMetalServer.List'' [noOptions] (Wrapf ''vultr list baremetal: %w'' [])) (\<lambda>r. Ret (Inr (map vultrMetal (jlist r))))"

section \<open>Load balancers\<close>

definition vultrBalancer :: "json \<Rightarrow> loadBalancer" where
  "vultrBalancer lb = zeroLB\<lparr>lbID := field lb ''ID'', lbName := field lb ''Label'', lbIP := field lb ''IPV4''\<rparr>"

definition vultrCreateLB :: "provider \<Rightarrow> lbOrder \<Rightarrow> loadBalancer res prog" where
  "vultrCreateLB p cfg =
     tryP id (vendor p ''LoadBalancer.Create'' [jobj [(''Label'', jS (loName cfg)), (''Region'', jS (loLocation cfg)),
         (''BalancingAlgorithm'', jS (if loAlgorithm cfg = '''' \<or> loAlgorithm cfg = ''round_robin'' then ''leastconn'' else loAlgorithm cfg))]]
         (Wrapf ''vultr create lb: %w'' [])) (\<lambda>lb. Ret (Inr (vultrBalancer lb)))"

definition vultrDeleteLB :: "provider \<Rightarrow> string \<Rightarrow> unit res prog" where
  "vultrDeleteLB p ident = vendorUnit p ''LoadBalancer.Delete'' [JStr ident] id"

definition vultrListLB :: "provider \<Rightarrow> loadBalancer list res prog" where
  "vultrListLB p =
     tryP id (vendor p ''LoadBalancer.List'' [noOptions] (Wrapf ''vultr list lb: %w'' [])) (\<lambda>r. Ret (Inr (map vultrBalancer (jlist r))))"

definition vultrListK8sLBs :: "provider \<Rightarrow> string \<Rightarrow> loadBalancer list res prog" where
  "vultrListK8sLBs p ident = vultrListLB p"

definition vultrCreateLBListener :: "provider \<Rightarrow> string \<Rightarrow> listenerOrder \<Rightarrow> lbListener res prog" where
  "vultrCreateLBListener p lb cfg =
     tryP id (vendor p ''LoadBalancer.CreateForwardingRule'' [JStr lb, jobj [(''FrontendProtocol'', jS (liProtocol cfg)),
         (''FrontendPort'', jI (liPort cfg)), (''BackendProtocol'', jS (liProtocol cfg)), (''BackendPort'', jI (liTargetPort cfg))]]
         (Wrapf ''vultr create lb listener: %w'' [])) (\<lambda>r.
       Ret (Inr \<lparr>llID = field r ''RuleID'', llPort = number r ''FrontendPort'', llTargetPort = number r ''BackendPort'',
         llProtocol = field r ''FrontendProtocol''\<rparr>))"

text \<open>A rule is updated by deleting it and creating another.\<close>

definition vultrUpdateLBListener :: "provider \<Rightarrow> string \<Rightarrow> string \<Rightarrow> listenerOrder \<Rightarrow> lbListener res prog" where
  "vultrUpdateLBListener p lb listenerID cfg =
     tryP id (vendorUnit p ''LoadBalancer.DeleteForwardingRule'' [JStr lb, JStr listenerID]
         (Wrapf ''vultr update lb listener (delete): %w'' [])) (\<lambda>_.
       vultrCreateLBListener p lb cfg)"

definition vultrDeleteLBListener :: "provider \<Rightarrow> string \<Rightarrow> string \<Rightarrow> unit res prog" where
  "vultrDeleteLBListener p lb listenerID = vendorUnit p ''LoadBalancer.DeleteForwardingRule'' [JStr lb, JStr listenerID] id"

definition vultrSetLBHealthCheck :: "provider \<Rightarrow> string \<Rightarrow> string \<Rightarrow> healthCheck \<Rightarrow> unit res prog" where
  "vultrSetLBHealthCheck p lb listenerID cfg =
     vendorUnit p ''LoadBalancer.Update'' [JStr lb, JObj [(''HealthCheck'', jobj [(''Protocol'', jS (hkProtocol cfg)), (''Port'', jI (hkPort cfg)),
       (''Path'', jS (hkPath cfg)), (''CheckInterval'', jI (hkInterval cfg)), (''ResponseTimeout'', jI (hkTimeout cfg)),
       (''UnhealthyThreshold'', jI (hkRetries cfg)), (''HealthyThreshold'', jI (hkRetries cfg))])]] (Wrapf ''vultr set lb health check: %w'' [])"

definition vultrAddLBTarget :: "string \<Rightarrow> string \<Rightarrow> targetOrder \<Rightarrow> lbTarget res prog" where
  "vultrAddLBTarget lb listenerID cfg = fail (Errorf ''vultr: LB targets managed via forwarding rules, not per-target'' [])"

definition vultrListLBTargets :: "provider \<Rightarrow> string \<Rightarrow> string \<Rightarrow> lbTarget list res prog" where
  "vultrListLBTargets p lb listenerID =
     tryP id (vendor p ''LoadBalancer.ListForwardingRules'' [JStr lb, noOptions] (Wrapf ''vultr list lb targets: %w'' [])) (\<lambda>rs.
       Ret (Inr (map (\<lambda>r. \<lparr>ltID = field r ''RuleID'', ltType = field r ''FrontendProtocol'', ltTargetID = '''', ltPort = 0,
         ltWeight = 0, ltStatus = ''''\<rparr>) (jlist rs))))"

definition vultrResizeLB :: "string \<Rightarrow> string \<Rightarrow> loadBalancer res prog" where
  "vultrResizeLB lb plan = fail (Errorf ''vultr: LB plan is set at creation and cannot be resized'' [])"

section \<open>DNS and keys\<close>

definition vultrListDNSZones :: "provider \<Rightarrow> dnsZone list res prog" where
  "vultrListDNSZones p =
     tryP id (vendor p ''Domain.List'' [noOptions] (Wrapf ''vultr list domains: %w'' [])) (\<lambda>r.
       Ret (Inr (map (\<lambda>d. \<lparr>dzID = field d ''Domain'', dzName = field d ''Domain'', dzDNSSec = False\<rparr>) (jlist r))))"

definition vultrCreateDNSRecord :: "provider \<Rightarrow> string \<Rightarrow> dnsRecord \<Rightarrow> unit res prog" where
  "vultrCreateDNSRecord p zoneID r =
     vendorUnit p ''DomainRecord.Create'' [JStr zoneID, jobj [(''Type'', jS (drType r)), (''Name'', jS (drName r)),
       (''Data'', jS (drValue r)), (''TTL'', jI (drTTL r))]] id"

definition vultrDeleteDNSRecord :: "provider \<Rightarrow> string \<Rightarrow> string \<Rightarrow> unit res prog" where
  "vultrDeleteDNSRecord p zoneID recordID = vendorUnit p ''DomainRecord.Delete'' [JStr zoneID, JStr recordID] id"

definition vultrKey :: "json \<Rightarrow> sshKey" where
  "vultrKey k = \<lparr>skID = field k ''ID'', skName = field k ''Name'', skFingerprint = '''', skPublicKey = '''', skCreated = ''''\<rparr>"

definition vultrCreateSSHKey :: "provider \<Rightarrow> string \<Rightarrow> string \<Rightarrow> sshKey res prog" where
  "vultrCreateSSHKey p name publicKey =
     tryP id (vendor p ''SSHKey.Create'' [jobj [(''Name'', jS name), (''SSHKey'', jS publicKey)]] (Wrapf ''vultr create ssh key: %w'' [])) (\<lambda>k.
       Ret (Inr (vultrKey k)))"

definition vultrListSSHKeys :: "provider \<Rightarrow> sshKey list res prog" where
  "vultrListSSHKeys p =
     tryP id (vendor p ''SSHKey.List'' [noOptions] (Wrapf ''vultr list ssh keys: %w'' [])) (\<lambda>r. Ret (Inr (map vultrKey (jlist r))))"

definition vultrDeleteSSHKey :: "provider \<Rightarrow> string \<Rightarrow> unit res prog" where
  "vultrDeleteSSHKey p ident = vendorUnit p ''SSHKey.Delete'' [JStr ident] id"

end
