(* ===== verification/VultrFirewall.thy ===== *)
theory VultrFirewall imports Vultr begin

text \<open>
  What only Vultr has: the firewall group that holds the allowlist of the ports 80 and 443
  (\<open>providers/vultr/firewall.go\<close>), with how Go prints an address, and the storages and the content
  network (\<open>block_storage.go\<close>, \<open>object_storage.go\<close>, \<open>cdn.go\<close>).
\<close>

section \<open>An address as text\<close>

text \<open>
  \<open>IP.String\<close>: a dotted quad, or eight groups in hexadecimal with the first longest run of two or
  more zero groups left out.
\<close>

fun hexText :: "nat \<Rightarrow> string" where
  "hexText n = (if n < 16 then [hexDigit n] else hexText (n div 16) @ [hexDigit (n mod 16)])"

fun groups16 :: "ip \<Rightarrow> nat list" where
  "groups16 (a # b # r) = (unat a * 256 + unat b) # groups16 r"
| "groups16 r = []"

definition zeroRun :: "nat list \<Rightarrow> nat \<Rightarrow> nat" where
  "zeroRun gs i = length (takeWhile (\<lambda>g. g = 0) (drop i gs))"

text \<open>Where the run starts and how long it is.\<close>

definition longestRun :: "nat list \<Rightarrow> nat \<times> nat" where
  "longestRun gs = fold (\<lambda>i (s, l). if zeroRun gs i \<ge> 2 \<and> zeroRun gs i > l then (i, zeroRun gs i) else (s, l)) [0 ..< length gs] (0, 0)"

definition colonText :: "nat list \<Rightarrow> string" where
  "colonText gs = joinWith '':'' (map hexText gs)"

definition quadText :: "ip \<Rightarrow> string" where
  "quadText b = joinWith ''.'' (map (\<lambda>x. itoa_nat (unat x)) b)"

definition ipString :: "ip \<Rightarrow> string" where
  "ipString ip = (case to4 ip of Some b \<Rightarrow> quadText b
     | None \<Rightarrow> (let gs = groups16 ip; (s, l) = longestRun gs in
         if l = 0 then colonText gs else colonText (take s gs) @ ''::'' @ colonText (drop (s + l) gs)))"

section \<open>Groups and rules\<close>

record firewallGroup =
  fgID :: string
  fgDescription :: string
  fgCreated :: string
  fgModified :: string
  fgInstances :: int
  fgRules :: int
  fgMaxRules :: int

record firewallRule =
  frID :: int
  frAction :: string
  frIPType :: string
  frProtocol :: string
  frPort :: string
  frSubnet :: string
  frSubnetSize :: int
  frSource :: string
  frNotes :: string

definition firewallGroupOf :: "json \<Rightarrow> firewallGroup" where
  "firewallGroupOf g = \<lparr>fgID = field g ''ID'', fgDescription = field g ''Description'',
     fgCreated = field g ''DateCreated'', fgModified = field g ''DateModified'', fgInstances = number g ''InstanceCount'',
     fgRules = number g ''RuleCount'', fgMaxRules = number g ''MaxRuleCount''\<rparr>"

definition firewallRuleOf :: "json \<Rightarrow> firewallRule" where
  "firewallRuleOf r = \<lparr>frID = number r ''ID'', frAction = field r ''Action'', frIPType = field r ''IPType'',
     frProtocol = field r ''Protocol'', frPort = field r ''Port'', frSubnet = field r ''Subnet'', frSubnetSize = number r ''SubnetSize'',
     frSource = field r ''Source'', frNotes = field r ''Notes''\<rparr>"

definition ListFirewallGroups :: "provider \<Rightarrow> firewallGroup list res prog" where
  "ListFirewallGroups p =
     tryP id (vendor p ''FirewallGroup.List'' [noOptions] (Wrapf ''vultr list firewall groups: %w'' [])) (\<lambda>r.
       Ret (Inr (map firewallGroupOf (jlist r))))"

definition CreateFirewallGroup :: "provider \<Rightarrow> string \<Rightarrow> firewallGroup res prog" where
  "CreateFirewallGroup p desc =
     tryP id (vendor p ''FirewallGroup.Create'' [jobj [(''Description'', jS desc)]] (Wrapf ''vultr create firewall group: %w'' [])) (\<lambda>g.
       Ret (Inr ((firewallGroupOf g)\<lparr>fgCreated := '''', fgModified := '''', fgInstances := 0, fgRules := 0, fgMaxRules := 0\<rparr>)))"

definition DeleteFirewallGroup :: "provider \<Rightarrow> string \<Rightarrow> unit res prog" where
  "DeleteFirewallGroup p ident = vendorUnit p ''FirewallGroup.Delete'' [JStr ident] (Wrapf ''vultr delete firewall group: %w'' [])"

definition ListFirewallRules :: "provider \<Rightarrow> string \<Rightarrow> firewallRule list res prog" where
  "ListFirewallRules p gid =
     tryP id (vendor p ''FirewallRule.List'' [JStr gid, noOptions] (Wrapf ''vultr list firewall rules: %w'' [])) (\<lambda>r.
       Ret (Inr (map firewallRuleOf (jlist r))))"

definition firewallRuleReq :: "string \<Rightarrow> string \<Rightarrow> string \<Rightarrow> int \<Rightarrow> string \<Rightarrow> string \<Rightarrow> string \<Rightarrow> json" where
  "firewallRuleReq ipType protocol subnet size' port notes src = jobj [(''IPType'', jS ipType), (''Protocol'', jS protocol),
     (''Subnet'', jS subnet), (''SubnetSize'', jI size'), (''Port'', jS port), (''Notes'', jS notes), (''Source'', jS src)]"

definition CreateFirewallRule :: "provider \<Rightarrow> string \<Rightarrow> string \<Rightarrow> string \<Rightarrow> string \<Rightarrow> string \<Rightarrow> string \<Rightarrow> string \<Rightarrow> int \<Rightarrow>
    firewallRule res prog" where
  "CreateFirewallRule p gid ipType protocol subnet port notes src size' =
     tryP id (vendor p ''FirewallRule.Create'' [JStr gid, firewallRuleReq ipType protocol subnet size' port notes src]
       (Wrapf ''vultr create firewall rule: %w'' [])) (\<lambda>r. Ret (Inr (firewallRuleOf r)))"

definition DeleteFirewallRule :: "provider \<Rightarrow> string \<Rightarrow> int \<Rightarrow> unit res prog" where
  "DeleteFirewallRule p gid rule = vendorUnit p ''FirewallRule.Delete'' [JStr gid, JNum rule] id"

section \<open>The allowlist\<close>

definition allowlistGroupDescription :: string where
  "allowlistGroupDescription = ''sdk-ops-allowlist''"

definition ensureAllowlistGroup :: "provider \<Rightarrow> string res prog" where
  "ensureAllowlistGroup p =
     tryP id (ListFirewallGroups p) (\<lambda>gs.
       case List.find (\<lambda>g. trimSpace (fgDescription g) = allowlistGroupDescription) gs of
         Some g \<Rightarrow> Ret (Inr (fgID g))
       | None \<Rightarrow> tryP id (CreateFirewallGroup p allowlistGroupDescription) (\<lambda>g. Ret (Inr (fgID g))))"

record entry =
  enSubnet :: string
  enSize :: int
  enIPType :: string

text \<open>A prefix, or an address as the prefix that holds it alone.\<close>

definition parseNet :: "string \<Rightarrow> (ip \<times> ipnet) option" where
  "parseNet cidr = (case parseCIDR cidr of Some x \<Rightarrow> Some x
     | None \<Rightarrow> (case parseIP cidr of None \<Rightarrow> None
       | Some ip \<Rightarrow> (let n = (if to4 ip = None then 128 else 32) in
           Some (ip, \<lparr>netIP = ip, netMask = cidrMask n n, netOnes = n\<rparr>))))"

definition entryOf :: "string \<Rightarrow> entry res" where
  "entryOf cidr = (case parseNet cidr of
     None \<Rightarrow> Inl (Errorf ''vultr firewall: invalid CIDR %q'' [Str cidr])
   | Some (ip, net) \<Rightarrow> Inr \<lparr>enSubnet = ipString (netIP net), enSize = int (netOnes net),
       enIPType = (if to4 ip \<noteq> None then ''v4'' else ''v6'')\<rparr>)"

primrec entriesOf :: "string list \<Rightarrow> entry list res" where
  "entriesOf [] = Inr []"
| "entriesOf (c # cs) = (case entryOf c of Inl e \<Rightarrow> Inl e
     | Inr x \<Rightarrow> (case entriesOf cs of Inl e \<Rightarrow> Inl e | Inr xs \<Rightarrow> Inr (x # xs)))"

definition deleteRules :: "provider \<Rightarrow> string \<Rightarrow> firewallRule list \<Rightarrow> unit res prog" where
  "deleteRules p gid rules = eachP (\<lambda>r. tryP (Wrapf ''vultr delete firewall rule %d: %w'' [Num (frID r)])
     (DeleteFirewallRule p gid (frID r)) (\<lambda>_. okP)) rules"

definition createRules :: "provider \<Rightarrow> string \<Rightarrow> entry list \<Rightarrow> unit res prog" where
  "createRules p gid es = eachP (\<lambda>e. eachP (\<lambda>port.
     tryP (Wrapf ''vultr create firewall rule: %w'' []) (CreateFirewallRule p gid (enIPType e) ''tcp'' (enSubnet e) port
       ''sdk-ops allowlist'' '''' (enSize e)) (\<lambda>_. okP)) [''80'', ''443'']) es"

text \<open>Every rule of the group is deleted before the addresses are looked at.\<close>

definition SyncFirewallAllowlist :: "provider \<Rightarrow> string list \<Rightarrow> string list \<Rightarrow> unit res prog" where
  "SyncFirewallAllowlist p v4 v6 =
     tryP id (ensureAllowlistGroup p) (\<lambda>gid.
     tryP id (ListFirewallRules p gid) (\<lambda>rules.
     tryP id (deleteRules p gid rules) (\<lambda>_.
       case entriesOf (v4 @ v6) of Inl e \<Rightarrow> fail e | Inr es \<Rightarrow> createRules p gid es)))"

section \<open>Block storage, object storage and the content network\<close>

record blockStorage =
  bsID :: string
  bsLabel :: string
  bsSizeGB :: int
  bsRegion :: string
  bsStatus :: string
  bsAttachedTo :: string

definition blockOf :: "json \<Rightarrow> blockStorage" where
  "blockOf b = \<lparr>bsID = field b ''ID'', bsLabel = field b ''Label'', bsSizeGB = number b ''SizeGB'', bsRegion = field b ''Region'',
     bsStatus = field b ''Status'', bsAttachedTo = field b ''AttachedToInstance''\<rparr>"

definition ListBlockStorages :: "provider \<Rightarrow> blockStorage list res prog" where
  "ListBlockStorages p =
     tryP id (vendor p ''BlockStorage.List'' [noOptions] (Wrapf ''vultr block list: %w'' [])) (\<lambda>r. Ret (Inr (map blockOf (jlist r))))"

definition CreateBlockStorage :: "provider \<Rightarrow> string \<Rightarrow> string \<Rightarrow> int \<Rightarrow> blockStorage res prog" where
  "CreateBlockStorage p label region sizeGB =
     tryP id (vendor p ''BlockStorage.Create'' [jobj [(''Label'', jS label), (''Region'', jS region), (''SizeGB'', jI sizeGB)]]
       (Wrapf ''vultr block create: %w'' [])) (\<lambda>b. Ret (Inr ((blockOf b)\<lparr>bsAttachedTo := ''''\<rparr>)))"

definition DeleteBlockStorage :: "provider \<Rightarrow> string \<Rightarrow> unit res prog" where
  "DeleteBlockStorage p ident = vendorUnit p ''BlockStorage.Delete'' [JStr ident] id"

definition AttachBlockStorage :: "provider \<Rightarrow> string \<Rightarrow> string \<Rightarrow> unit res prog" where
  "AttachBlockStorage p ident inst = vendorUnit p ''BlockStorage.Attach'' [JStr ident, JObj [(''InstanceID'', JStr inst)]] id"

definition DetachBlockStorage :: "provider \<Rightarrow> string \<Rightarrow> unit res prog" where
  "DetachBlockStorage p ident = vendorUnit p ''BlockStorage.Detach'' [JStr ident, noOptions] id"

record objectStorage =
  osID :: string
  osClusterID :: int
  osCreated :: string
  osRegion :: string
  osLocation :: string
  osLabel :: string
  osHostname :: string
  osAccessKey :: string
  osSecretKey :: string
  osStatus :: string

definition storageOf :: "json \<Rightarrow> objectStorage" where
  "storageOf s = \<lparr>osID = field s ''ID'', osClusterID = number s ''ObjectStoreClusterID'', osCreated = field s ''DateCreated'',
     osRegion = field s ''Region'', osLocation = field s ''Location'', osLabel = field s ''Label'', osHostname = field s ''S3Hostname'',
     osAccessKey = field s ''S3AccessKey'', osSecretKey = field s ''S3SecretKey'', osStatus = field s ''Status''\<rparr>"

definition ListObjectStorages :: "provider \<Rightarrow> objectStorage list res prog" where
  "ListObjectStorages p =
     tryP id (vendor p ''ObjectStorage.List'' [noOptions] (Wrapf ''vultr list object storage: %w'' [])) (\<lambda>r. Ret (Inr (map storageOf (jlist r))))"

definition CreateObjectStorage :: "provider \<Rightarrow> int \<Rightarrow> objectStorage res prog" where
  "CreateObjectStorage p cluster =
     tryP id (vendor p ''ObjectStorage.Create'' [JObj [(''ClusterID'', JNum cluster)]] (Wrapf ''vultr create object storage: %w'' [])) (\<lambda>s.
       Ret (Inr (storageOf s)))"

definition GetObjectStorage :: "provider \<Rightarrow> string \<Rightarrow> objectStorage res prog" where
  "GetObjectStorage p ident =
     tryP id (vendor p ''ObjectStorage.Get'' [JStr ident] (Wrapf ''vultr get object storage: %w'' [])) (\<lambda>s. Ret (Inr (storageOf s)))"

definition DeleteObjectStorage :: "provider \<Rightarrow> string \<Rightarrow> unit res prog" where
  "DeleteObjectStorage p ident = vendorUnit p ''ObjectStorage.Delete'' [JStr ident] id"

definition RegenerateS3Keys :: "provider \<Rightarrow> string \<Rightarrow> (string \<times> string) res prog" where
  "RegenerateS3Keys p ident =
     tryP id (vendor p ''ObjectStorage.RegenerateKeys'' [JStr ident] (Wrapf ''vultr regenerate s3 keys: %w'' [])) (\<lambda>k.
       Ret (Inr (field k ''S3AccessKey'', field k ''S3SecretKey'')))"

record storageCluster =
  scID :: int
  scRegion :: string
  scHostname :: string
  scDeploy :: string

definition ListObjectStorageClusters :: "provider \<Rightarrow> storageCluster list res prog" where
  "ListObjectStorageClusters p =
     tryP id (vendor p ''ObjectStorage.ListCluster'' [noOptions] (Wrapf ''vultr list object storage clusters: %w'' [])) (\<lambda>r.
       Ret (Inr (map (\<lambda>c. \<lparr>scID = number c ''ID'', scRegion = field c ''Region'', scHostname = field c ''Hostname'',
         scDeploy = field c ''Deploy''\<rparr>) (jlist r))))"

record cdnZone =
  czID :: string
  czLabel :: string
  czOrigin :: string
  czStatus :: string
  czURL :: string

definition cdnZoneOf :: "json \<Rightarrow> cdnZone" where
  "cdnZoneOf z = \<lparr>czID = field z ''ID'', czLabel = field z ''Label'', czOrigin = field z ''OriginDomain'',
     czStatus = field z ''Status'', czURL = field z ''CDNURL''\<rparr>"

definition ListCDNPullZones :: "provider \<Rightarrow> cdnZone list res prog" where
  "ListCDNPullZones p =
     tryP id (vendor p ''CDN.ListPullZones'' [] (Wrapf ''vultr cdn list: %w'' [])) (\<lambda>r. Ret (Inr (map cdnZoneOf (jlist r))))"

definition CreateCDNPullZone :: "provider \<Rightarrow> string \<Rightarrow> string \<Rightarrow> cdnZone res prog" where
  "CreateCDNPullZone p label origin =
     tryP id (vendor p ''CDN.CreatePullZone'' [jobj [(''Label'', jS label), (''OriginDomain'', jS origin)]] (Wrapf ''vultr cdn create: %w'' [])) (\<lambda>z.
       Ret (Inr (cdnZoneOf z)))"

definition DeleteCDNPullZone :: "provider \<Rightarrow> string \<Rightarrow> unit res prog" where
  "DeleteCDNPullZone p ident = vendorUnit p ''CDN.DeletePullZone'' [JStr ident] id"

definition PurgeCDNPullZone :: "provider \<Rightarrow> string \<Rightarrow> unit res prog" where
  "PurgeCDNPullZone p ident = vendorUnit p ''CDN.PurgePullZone'' [JStr ident] id"

end
