(* ===== verification/CloudAPI.thy ===== *)
theory CloudAPI imports CloudVPS DigitalOcean AWS Civo VultrFirewall begin

text \<open>
  The interface every provider implements (\<open>providers/provider.go\<close>), service by service, the
  six providers as implementations of it, and the one a client stands for.
\<close>

record vpsAPI =
  avCreate :: "vpsOrder \<Rightarrow> cloudVPS res prog"
  avDelete :: "string \<Rightarrow> unit res prog"
  avList :: "cloudVPS list res prog"
  avGet :: "string \<Rightarrow> cloudVPS res prog"

record clusterAPI =
  akCreate :: "k8sOrder \<Rightarrow> k8sCluster res prog"
  akDelete :: "string \<Rightarrow> unit res prog"
  akList :: "k8sCluster list res prog"
  akGet :: "string \<Rightarrow> k8sCluster res prog"
  akKubeconfig :: "string \<Rightarrow> string res prog"
  akUpdate :: "string \<Rightarrow> string \<Rightarrow> k8sCluster res prog"
  akProtection :: "string \<Rightarrow> k8sCluster res prog"

record addonAPI =
  aaInstalled :: "string \<Rightarrow> k8sAddon list res prog"
  aaAvailable :: "k8sAddon list res prog"
  aaInstall :: "string \<Rightarrow> string \<Rightarrow> unit res prog"
  aaUninstall :: "string \<Rightarrow> string \<Rightarrow> unit res prog"

record poolAPI =
  apList :: "string \<Rightarrow> nodePool list res prog"
  apCreate :: "string \<Rightarrow> poolOrder \<Rightarrow> nodePool res prog"
  apScale :: "string \<Rightarrow> string \<Rightarrow> int \<Rightarrow> unit res prog"
  apDelete :: "string \<Rightarrow> string \<Rightarrow> unit res prog"
  apLBs :: "string \<Rightarrow> loadBalancer list res prog"

record metalAPI =
  amCreate :: "metalOrder \<Rightarrow> bareMetal res prog"
  amDelete :: "string \<Rightarrow> unit res prog"
  amList :: "bareMetal list res prog"

record balancerAPI =
  abCreate :: "lbOrder \<Rightarrow> loadBalancer res prog"
  abDelete :: "string \<Rightarrow> unit res prog"
  abList :: "loadBalancer list res prog"
  abResize :: "string \<Rightarrow> string \<Rightarrow> loadBalancer res prog"
  abMetrics :: "string \<Rightarrow> string res prog"
  abProtection :: "string \<Rightarrow> loadBalancer res prog"

record listenerAPI =
  alCreate :: "string \<Rightarrow> listenerOrder \<Rightarrow> lbListener res prog"
  alUpdate :: "string \<Rightarrow> string \<Rightarrow> listenerOrder \<Rightarrow> lbListener res prog"
  alDelete :: "string \<Rightarrow> string \<Rightarrow> unit res prog"
  alHealth :: "string \<Rightarrow> string \<Rightarrow> healthCheck \<Rightarrow> unit res prog"
  alAdd :: "string \<Rightarrow> string \<Rightarrow> targetOrder \<Rightarrow> lbTarget res prog"
  alTargets :: "string \<Rightarrow> string \<Rightarrow> lbTarget list res prog"
  alDrain :: "string \<Rightarrow> string \<Rightarrow> string \<Rightarrow> unit res prog"

record zoneAPI =
  azList :: "dnsZone list res prog"
  azCreate :: "string \<Rightarrow> dnsRecord \<Rightarrow> unit res prog"
  azDelete :: "string \<Rightarrow> string \<Rightarrow> unit res prog"

record keyAPI =
  asCreate :: "string \<Rightarrow> string \<Rightarrow> sshKey res prog"
  asList :: "sshKey list res prog"
  asDelete :: "string \<Rightarrow> unit res prog"

record cloudAPI =
  apiVPS :: vpsAPI
  apiK8s :: clusterAPI
  apiAddons :: addonAPI
  apiPools :: poolAPI
  apiMetal :: metalAPI
  apiLB :: balancerAPI
  apiListeners :: listenerAPI
  apiDNS :: zoneAPI
  apiKeys :: keyAPI

section \<open>CubePath\<close>

definition cubeVPS :: "restClient \<Rightarrow> vpsAPI" where
  "cubeVPS c = \<lparr>avCreate = cpCreateVPS c, avDelete = cpDeleteVPS c, avList = cpListVPS c, avGet = cpGetVPS c\<rparr>"

definition cubeK8s :: "restClient \<Rightarrow> clusterAPI" where
  "cubeK8s c = \<lparr>akCreate = cpCreateK8s c, akDelete = cpDeleteK8s c, akList = cpListK8s c, akGet = cpGetK8s c,
     akKubeconfig = cpGetKubeconfig c, akUpdate = cpUpdateK8s c, akProtection = cpToggleK8sProtection c\<rparr>"

definition cubepathAPI :: "restClient \<Rightarrow> cloudAPI" where
  "cubepathAPI c = \<lparr>apiVPS = cubeVPS c, apiK8s = cubeK8s c,
     apiAddons = \<lparr>aaInstalled = cpListK8sAddons c, aaAvailable = cpListAvailableAddons c,
       aaInstall = cpInstallK8sAddon c, aaUninstall = cpUninstallK8sAddon c\<rparr>,
     apiPools = \<lparr>apList = cpListK8sNodePools c, apCreate = cpCreateK8sNodePool c, apScale = cpScaleK8sNodePool c,
       apDelete = cpDeleteK8sNodePool c, apLBs = cpListK8sLBs c\<rparr>,
     apiMetal = \<lparr>amCreate = cpCreateBareMetal c, amDelete = cpDeleteBareMetal c, amList = cpListBareMetal c\<rparr>,
     apiLB = \<lparr>abCreate = cpCreateLB c, abDelete = cpDeleteLB c, abList = cpListLB c, abResize = cpResizeLB c,
       abMetrics = cpGetLBMetrics c, abProtection = cpToggleLBProtection c\<rparr>,
     apiListeners = \<lparr>alCreate = cpCreateLBListener c, alUpdate = cpUpdateLBListener c, alDelete = cpDeleteLBListener c,
       alHealth = cpSetLBHealthCheck c, alAdd = cpAddLBTarget c, alTargets = cpListLBTargets c, alDrain = cpDrainLBTarget c\<rparr>,
     apiDNS = \<lparr>azList = cpListDNSZones c, azCreate = cpCreateDNSRecord c, azDelete = cpDeleteDNSRecord c\<rparr>,
     apiKeys = \<lparr>asCreate = cpCreateSSHKey c, asList = cpListSSHKeys c, asDelete = cpDeleteSSHKey c\<rparr>\<rparr>"

section \<open>Hetzner\<close>

definition hetznerK8s :: "restClient \<Rightarrow> clusterAPI" where
  "hetznerK8s c = \<lparr>akCreate = hzCreateK8s c, akDelete = hzDeleteK8s c, akList = hzListK8s c, akGet = hzGetK8s c,
     akKubeconfig = hzGetKubeconfig c, akUpdate = (\<lambda>_ _. hetznerMissing), akProtection = (\<lambda>_. hetznerMissing)\<rparr>"

definition hetznerAddons :: addonAPI where
  "hetznerAddons = \<lparr>aaInstalled = (\<lambda>_. hetznerMissing), aaAvailable = hetznerMissing,
     aaInstall = (\<lambda>_ _. hetznerMissing), aaUninstall = (\<lambda>_ _. hetznerMissing)\<rparr>"

definition hetznerPools :: poolAPI where
  "hetznerPools = \<lparr>apList = (\<lambda>_. hetznerMissing), apCreate = (\<lambda>_ _. hetznerMissing), apScale = (\<lambda>_ _ _. hetznerMissing),
     apDelete = (\<lambda>_ _. hetznerMissing), apLBs = (\<lambda>_. hetznerMissing)\<rparr>"

definition hetznerListeners :: listenerAPI where
  "hetznerListeners = \<lparr>alCreate = (\<lambda>_ _. hetznerMissing), alUpdate = (\<lambda>_ _ _. hetznerMissing), alDelete = (\<lambda>_ _. hetznerMissing),
     alHealth = (\<lambda>_ _ _. hetznerMissing), alAdd = (\<lambda>_ _ _. hetznerMissing), alTargets = (\<lambda>_ _. hetznerMissing),
     alDrain = (\<lambda>_ _ _. hetznerMissing)\<rparr>"

definition hetznerAPI :: "provider \<Rightarrow> restClient \<Rightarrow> cloudAPI" where
  "hetznerAPI p c = \<lparr>
     apiVPS = \<lparr>avCreate = hzCreateVPS p, avDelete = hzDeleteVPS p, avList = hzListVPS p, avGet = hzGetVPS p\<rparr>,
     apiK8s = hetznerK8s c, apiAddons = hetznerAddons, apiPools = hetznerPools,
     apiMetal = \<lparr>amCreate = hzCreateBareMetal, amDelete = hzDeleteBareMetal, amList = hzListBareMetal\<rparr>,
     apiLB = \<lparr>abCreate = hzCreateLB c, abDelete = hzDeleteLB c, abList = hzListLB c, abResize = (\<lambda>_ _. hetznerMissing),
       abMetrics = (\<lambda>_. hetznerMissing), abProtection = (\<lambda>_. hetznerMissing)\<rparr>,
     apiListeners = hetznerListeners,
     apiDNS = \<lparr>azList = hzListDNSZones c, azCreate = hzCreateDNSRecord c, azDelete = hzDeleteDNSRecord c\<rparr>,
     apiKeys = \<lparr>asCreate = hzCreateSSHKey p, asList = hzListSSHKeys p, asDelete = hzDeleteSSHKey p\<rparr>\<rparr>"

section \<open>DigitalOcean\<close>

definition doK8s :: "provider \<Rightarrow> clusterAPI" where
  "doK8s p = \<lparr>akCreate = doCreateK8s p, akDelete = doDeleteK8s p, akList = doListK8s p, akGet = doGetK8s p,
     akKubeconfig = doGetKubeconfig p, akUpdate = (\<lambda>_ _. doMissing), akProtection = (\<lambda>_. doMissing)\<rparr>"

definition doAddons :: addonAPI where
  "doAddons = \<lparr>aaInstalled = (\<lambda>_. doMissing), aaAvailable = doMissing, aaInstall = (\<lambda>_ _. doMissing), aaUninstall = (\<lambda>_ _. doMissing)\<rparr>"

definition doPools :: poolAPI where
  "doPools = \<lparr>apList = (\<lambda>_. doMissing), apCreate = (\<lambda>_ _. doMissing), apScale = (\<lambda>_ _ _. doMissing),
     apDelete = (\<lambda>_ _. doMissing), apLBs = (\<lambda>_. doMissing)\<rparr>"

definition doListeners :: listenerAPI where
  "doListeners = \<lparr>alCreate = (\<lambda>_ _. doMissing), alUpdate = (\<lambda>_ _ _. doMissing), alDelete = (\<lambda>_ _. doMissing),
     alHealth = (\<lambda>_ _ _. doMissing), alAdd = (\<lambda>_ _ _. doMissing), alTargets = (\<lambda>_ _. doMissing), alDrain = (\<lambda>_ _ _. doMissing)\<rparr>"

definition digitalOceanAPI :: "provider \<Rightarrow> cloudAPI" where
  "digitalOceanAPI p = \<lparr>
     apiVPS = \<lparr>avCreate = doCreateVPS p, avDelete = doDeleteVPS p, avList = doListVPS p, avGet = doGetVPS p\<rparr>,
     apiK8s = doK8s p, apiAddons = doAddons, apiPools = doPools,
     apiMetal = \<lparr>amCreate = (\<lambda>_. doNoMetal), amDelete = (\<lambda>_. doNoMetal), amList = doNoMetal\<rparr>,
     apiLB = \<lparr>abCreate = doCreateLB p, abDelete = doDeleteLB p, abList = doListLB p, abResize = (\<lambda>_ _. doMissing),
       abMetrics = (\<lambda>_. doMissing), abProtection = (\<lambda>_. doMissing)\<rparr>,
     apiListeners = doListeners,
     apiDNS = \<lparr>azList = doListDNSZones p, azCreate = doCreateDNSRecord p, azDelete = doDeleteDNSRecord p\<rparr>,
     apiKeys = \<lparr>asCreate = doCreateSSHKey p, asList = doListSSHKeys p, asDelete = doDeleteSSHKey p\<rparr>\<rparr>"

section \<open>AWS\<close>

definition awsK8s :: "provider \<Rightarrow> clusterAPI" where
  "awsK8s p = \<lparr>akCreate = awsCreateK8s p, akDelete = awsDeleteK8s p, akList = awsListK8s p, akGet = awsGetK8s p,
     akKubeconfig = awsGetKubeconfig p, akUpdate = (\<lambda>_ _. awsMissing), akProtection = (\<lambda>_. awsMissing)\<rparr>"

definition awsAddons :: addonAPI where
  "awsAddons = \<lparr>aaInstalled = (\<lambda>_. awsMissing), aaAvailable = awsMissing, aaInstall = (\<lambda>_ _. awsMissing), aaUninstall = (\<lambda>_ _. awsMissing)\<rparr>"

definition awsPools :: poolAPI where
  "awsPools = \<lparr>apList = (\<lambda>_. awsMissing), apCreate = (\<lambda>_ _. awsMissing), apScale = (\<lambda>_ _ _. awsMissing),
     apDelete = (\<lambda>_ _. awsMissing), apLBs = (\<lambda>_. awsMissing)\<rparr>"

definition awsListeners :: listenerAPI where
  "awsListeners = \<lparr>alCreate = (\<lambda>_ _. awsMissing), alUpdate = (\<lambda>_ _ _. awsMissing), alDelete = (\<lambda>_ _. awsMissing),
     alHealth = (\<lambda>_ _ _. awsMissing), alAdd = (\<lambda>_ _ _. awsMissing), alTargets = (\<lambda>_ _. awsMissing), alDrain = (\<lambda>_ _ _. awsMissing)\<rparr>"

definition awsAPI :: "provider \<Rightarrow> cloudAPI" where
  "awsAPI p = \<lparr>
     apiVPS = \<lparr>avCreate = awsCreateVPS p, avDelete = awsDeleteVPS p, avList = awsListVPS p, avGet = awsGetVPS p\<rparr>,
     apiK8s = awsK8s p, apiAddons = awsAddons, apiPools = awsPools,
     apiMetal = \<lparr>amCreate = awsCreateBareMetal p, amDelete = awsDeleteBareMetal p, amList = awsListBareMetal p\<rparr>,
     apiLB = \<lparr>abCreate = awsCreateLB p, abDelete = awsDeleteLB p, abList = awsListLB p, abResize = (\<lambda>_ _. awsMissing),
       abMetrics = (\<lambda>_. awsMissing), abProtection = (\<lambda>_. awsMissing)\<rparr>,
     apiListeners = awsListeners,
     apiDNS = \<lparr>azList = awsListDNSZones p, azCreate = awsCreateDNSRecord p, azDelete = awsDeleteDNSRecord p\<rparr>,
     apiKeys = \<lparr>asCreate = awsCreateSSHKey p, asList = awsListSSHKeys p, asDelete = awsDeleteSSHKey p\<rparr>\<rparr>"

section \<open>Civo\<close>

definition civoK8s :: "provider \<Rightarrow> clusterAPI" where
  "civoK8s p = \<lparr>akCreate = civoCreateK8s p, akDelete = civoDeleteK8s p, akList = civoListK8s p, akGet = civoGetK8s p,
     akKubeconfig = civoGetKubeconfig p, akUpdate = civoUpdateK8s p, akProtection = (\<lambda>_. civoMissing)\<rparr>"

definition civoAPI :: "provider \<Rightarrow> cloudAPI" where
  "civoAPI p = \<lparr>
     apiVPS = \<lparr>avCreate = civoCreateVPS p, avDelete = civoDeleteVPS p, avList = civoListVPS p, avGet = civoGetVPS p\<rparr>,
     apiK8s = civoK8s p,
     apiAddons = \<lparr>aaInstalled = (\<lambda>_. civoMissing), aaAvailable = civoListAvailableAddons p, aaInstall = (\<lambda>_ _. civoMissing),
       aaUninstall = (\<lambda>_ _. civoMissing)\<rparr>,
     apiPools = \<lparr>apList = civoListK8sNodePools p, apCreate = civoCreateK8sNodePool p, apScale = civoScaleK8sNodePool p,
       apDelete = civoDeleteK8sNodePool p, apLBs = (\<lambda>_. civoMissing)\<rparr>,
     apiMetal = \<lparr>amCreate = (\<lambda>_. civoMissing), amDelete = (\<lambda>_. civoMissing), amList = civoMissing\<rparr>,
     apiLB = \<lparr>abCreate = civoCreateLB p, abDelete = civoDeleteLB p, abList = civoListLB p, abResize = (\<lambda>_ _. civoMissing),
       abMetrics = (\<lambda>_. civoMissing), abProtection = (\<lambda>_. civoMissing)\<rparr>,
     apiListeners = \<lparr>alCreate = civoCreateLBListener p, alUpdate = civoUpdateLBListener p, alDelete = civoDeleteLBListener p,
       alHealth = (\<lambda>_ _ _. civoMissing), alAdd = civoAddLBTarget p, alTargets = civoListLBTargets p, alDrain = civoDrainLBTarget p\<rparr>,
     apiDNS = \<lparr>azList = civoListDNSZones p, azCreate = civoCreateDNSRecord p, azDelete = civoDeleteDNSRecord p\<rparr>,
     apiKeys = \<lparr>asCreate = civoCreateSSHKey p, asList = civoListSSHKeys p, asDelete = civoDeleteSSHKey p\<rparr>\<rparr>"

section \<open>Vultr\<close>

definition vultrK8s :: "provider \<Rightarrow> clusterAPI" where
  "vultrK8s p = \<lparr>akCreate = vultrCreateK8s p, akDelete = vultrDeleteK8s p, akList = vultrListK8s p, akGet = vultrGetK8s p,
     akKubeconfig = vultrGetKubeconfig p, akUpdate = vultrUpdateK8s p, akProtection = (\<lambda>_. vultrMissing)\<rparr>"

definition vultrAPI :: "provider \<Rightarrow> cloudAPI" where
  "vultrAPI p = \<lparr>
     apiVPS = \<lparr>avCreate = vultrCreateVPS p, avDelete = vultrDeleteVPS p, avList = vultrListVPS p, avGet = vultrGetVPS p\<rparr>,
     apiK8s = vultrK8s p,
     apiAddons = \<lparr>aaInstalled = (\<lambda>_. vultrMissing), aaAvailable = vultrMissing, aaInstall = (\<lambda>_ _. vultrMissing),
       aaUninstall = (\<lambda>_ _. vultrMissing)\<rparr>,
     apiPools = \<lparr>apList = vultrListK8sNodePools p, apCreate = vultrCreateK8sNodePool p, apScale = vultrScaleK8sNodePool p,
       apDelete = vultrDeleteK8sNodePool p, apLBs = vultrListK8sLBs p\<rparr>,
     apiMetal = \<lparr>amCreate = vultrCreateBareMetal p, amDelete = vultrDeleteBareMetal p, amList = vultrListBareMetal p\<rparr>,
     apiLB = \<lparr>abCreate = vultrCreateLB p, abDelete = vultrDeleteLB p, abList = vultrListLB p, abResize = vultrResizeLB,
       abMetrics = (\<lambda>_. vultrMissing), abProtection = (\<lambda>_. vultrMissing)\<rparr>,
     apiListeners = \<lparr>alCreate = vultrCreateLBListener p, alUpdate = vultrUpdateLBListener p, alDelete = vultrDeleteLBListener p,
       alHealth = vultrSetLBHealthCheck p, alAdd = vultrAddLBTarget, alTargets = vultrListLBTargets p, alDrain = (\<lambda>_ _ _. vultrMissing)\<rparr>,
     apiDNS = \<lparr>azList = vultrListDNSZones p, azCreate = vultrCreateDNSRecord p, azDelete = vultrDeleteDNSRecord p\<rparr>,
     apiKeys = \<lparr>asCreate = vultrCreateSSHKey p, asList = vultrListSSHKeys p, asDelete = vultrDeleteSSHKey p\<rparr>\<rparr>"

section \<open>The client of a name\<close>

text \<open>The clients are built for these six names only.\<close>

definition cloudOf :: "decoder \<Rightarrow> provider \<Rightarrow> cloudAPI" where
  "cloudOf dec p = (if pvName p = ''cubepath'' then cubepathAPI (cubePathNew dec (pvKey p) (pvProject p))
     else if pvName p = ''hetzner'' then hetznerAPI p (newRawClient dec (pvKey p))
     else if pvName p = ''digitalocean'' then digitalOceanAPI p
     else if pvName p = ''vultr'' then vultrAPI p
     else if pvName p = ''aws'' then awsAPI p
     else civoAPI p)"

end
