(* ===== verification/ProviderCommands.thy ===== *)
theory ProviderCommands imports CloudAPI begin

text \<open>
  The commands on the resources of a cloud provider (\<open>cmd/sdk-ops/provider.go\<close>,
  \<open>cmd/sdk-ops/vultr_cmds.go\<close>) and the export of a resource to Terraform
  (\<open>terraform/export.go\<close>). A command returns what it prints. The flags are shared by all commands
  (\<open>pf\<close>); a flag that a command declares for itself is an argument.
\<close>

record providerFlags =
  pfProvider :: string
  pfPlan :: string
  pfLocation :: string
  pfTemplate :: string
  pfHostname :: string
  pfSSHKeyIDs :: string
  pfAPIKey :: string
  pfProjectID :: int
  pfName :: string
  pfVersion :: string
  pfNodePlan :: string
  pfNodeCount :: int

text \<open>The values of the flags that are not given.\<close>

definition defaultFlags :: providerFlags where
  "defaultFlags = \<lparr>pfProvider = '''', pfPlan = '''', pfLocation = '''', pfTemplate = '''', pfHostname = '''', pfSSHKeyIDs = '''',
     pfAPIKey = '''', pfProjectID = 0, pfName = '''', pfVersion = '''', pfNodePlan = '''', pfNodeCount = 3\<rparr>"

definition getProvider :: "providerFlags \<Rightarrow> provider res prog" where
  "getProvider f =
     (if pfProvider f = ''cubepath'' then newCubePathProvider (pfAPIKey f) (pfProjectID f)
      else if pfProvider f = ''hetzner'' then newHetznerProvider (pfAPIKey f)
      else if pfProvider f = ''digitalocean'' then newDigitalOceanProvider (pfAPIKey f)
      else if pfProvider f = ''vultr'' then newVultrProvider (pfAPIKey f)
      else if pfProvider f = ''aws'' then newAWSProvider
      else if pfProvider f = ''civo'' then newCivoProvider (pfAPIKey f) (pfLocation f)
      else fail (Errorf ''unknown provider: %s (supported: cubepath, hetzner, digitalocean, vultr, aws, civo)'' [Str (pfProvider f)]))"

text \<open>What every command does first; and the text of a list, line by line.\<close>

definition withCloud :: "decoder \<Rightarrow> providerFlags \<Rightarrow> (cloudAPI \<Rightarrow> 'a res prog) \<Rightarrow> 'a res prog" where
  "withCloud dec f body = tryP id (getProvider f) (\<lambda>p. body (cloudOf dec p))"

definition printing :: "'a res prog \<Rightarrow> ('a \<Rightarrow> string) \<Rightarrow> string res prog" where
  "printing p out = tryP id p (\<lambda>x. Ret (Inr (out x)))"

definition silently :: "unit res prog \<Rightarrow> string res prog" where
  "silently p = printing p (\<lambda>_. '''')"

definition lines :: "('a \<Rightarrow> string) \<Rightarrow> 'a list \<Rightarrow> string" where
  "lines f xs = concat (map f xs)"

section \<open>Terraform\<close>

definition sanitizeName :: "string \<Rightarrow> string" where
  "sanitizeName name = toLower (map (\<lambda>c. if c \<in> {CHR ''.'', CHR ''_'', CHR '' ''} then CHR ''-'' else c) name)"

definition attribute :: "string \<Rightarrow> string \<Rightarrow> string" where
  "attribute f v = (if v \<noteq> '''' then sprintf f [Str v] else '''')"

definition ExportVPS :: "string \<Rightarrow> cloudVPS \<Rightarrow> string" where
  \<open>ExportVPS provider v =
     sprintf ''resource "%s_vps" "%s" {
'' [Str provider, Str (sanitizeName (cvName v))] @
     attribute ''  plan     = %q
'' (cvPlan v) @ attribute ''  location = %q
'' (cvLocation v) @
     attribute ''  template = %q
'' (cvTemplate v) @ attribute ''  label    = %q
'' (cvLabel v) @
     sprintf ''  # Import: terraform import %s_vps.%s %s
'' [Str provider, Str (sanitizeName (cvName v)), Str (cvID v)] @
     ''}
''\<close>

definition ExportK8s :: "string \<Rightarrow> k8sCluster \<Rightarrow> string" where
  \<open>ExportK8s provider c =
     sprintf ''resource "%s_kubernetes" "%s" {
'' [Str provider, Str (sanitizeName (kcName c))] @
     attribute ''  version    = %q
'' (kcVersion c) @ attribute ''  location   = %q
'' (kcLocation c) @
     (if kcNodeCount c > 0 then sprintf ''  node_count = %d
'' [Num (kcNodeCount c)] else '''') @
     sprintf ''  # Import: terraform import %s_kubernetes.%s %s
'' [Str provider, Str (sanitizeName (kcName c)), Str (kcID c)] @
     ''}
''\<close>

definition ExportLB :: "string \<Rightarrow> loadBalancer \<Rightarrow> string" where
  \<open>ExportLB provider lb =
     sprintf ''resource "%s_load_balancer" "%s" {
'' [Str provider, Str (sanitizeName (lbName lb))] @
     sprintf ''  # Import: terraform import %s_load_balancer.%s %s
'' [Str provider, Str (sanitizeName (lbName lb)), Str (lbID lb)] @
     ''}
''\<close>

section \<open>Servers\<close>

definition vpsLine :: "cloudVPS \<Rightarrow> string" where
  \<open>vpsLine v = sprintf ''[%s] %s @ %s (%s)
'' [Str (cvID v), Str (cvName v), Str (cvIP v), Str (cvStatus v)]\<close>

definition vpsOrderOf :: "providerFlags \<Rightarrow> bool \<Rightarrow> bool \<Rightarrow> vpsOrder" where
  "vpsOrderOf f ipv4 ipv6 = \<lparr>voLabel = pfHostname f, voPlan = pfPlan f, voLocation = pfLocation f, voTemplate = pfTemplate f,
     voHostname = pfHostname f, voSSHKeyIDs = keyIDs (pfSSHKeyIDs f), voIPv4 = ipv4, voIPv6 = ipv6, voBackups = False,
     voUser = '''', voPassword = '''', voUserData = ''''\<rparr>"

definition providerVPSCreate :: "decoder \<Rightarrow> providerFlags \<Rightarrow> bool \<Rightarrow> bool \<Rightarrow> string res prog" where
  "providerVPSCreate dec f ipv4 ipv6 = withCloud dec f (\<lambda>p. printing (avCreate (apiVPS p) (vpsOrderOf f ipv4 ipv6)) vpsLine)"

definition providerVPSList :: "decoder \<Rightarrow> providerFlags \<Rightarrow> string res prog" where
  "providerVPSList dec f = withCloud dec f (\<lambda>p. printing (avList (apiVPS p)) (lines vpsLine))"

definition providerVPSDelete :: "decoder \<Rightarrow> providerFlags \<Rightarrow> string \<Rightarrow> string res prog" where
  "providerVPSDelete dec f ident = withCloud dec f (\<lambda>p. silently (avDelete (apiVPS p) ident))"

definition providerVPSExport :: "decoder \<Rightarrow> providerFlags \<Rightarrow> string \<Rightarrow> string res prog" where
  "providerVPSExport dec f ident = withCloud dec f (\<lambda>p. printing (avGet (apiVPS p) ident) (\<lambda>v.
     ExportVPS (pfProvider f) v @ [CHR 0x0A]))"

section \<open>Clusters\<close>

definition k8sOrderOf :: "providerFlags \<Rightarrow> k8sOrder" where
  "k8sOrderOf f = \<lparr>koName = pfName f, koLabel = '''', koLocation = pfLocation f, koVersion = pfVersion f, koNodePlan = pfNodePlan f,
     koNodeCount = pfNodeCount f, koAutoScale = False, koMinNodes = 0, koMaxNodes = 0\<rparr>"

definition clusterLine :: "k8sCluster \<Rightarrow> string" where
  \<open>clusterLine c = sprintf ''[%s] %s (%s) - %d nodes
'' [Str (kcID c), Str (kcName c), Str (kcStatus c), Num (kcNodeCount c)]\<close>

definition providerK8sCreate :: "decoder \<Rightarrow> providerFlags \<Rightarrow> string res prog" where
  "providerK8sCreate dec f = withCloud dec f (\<lambda>p. printing (akCreate (apiK8s p) (k8sOrderOf f)) clusterLine)"

definition providerK8sList :: "decoder \<Rightarrow> providerFlags \<Rightarrow> string res prog" where
  "providerK8sList dec f = withCloud dec f (\<lambda>p. printing (akList (apiK8s p)) (lines clusterLine))"

definition providerK8sDelete :: "decoder \<Rightarrow> providerFlags \<Rightarrow> string \<Rightarrow> string res prog" where
  "providerK8sDelete dec f ident = withCloud dec f (\<lambda>p. silently (akDelete (apiK8s p) ident))"

definition providerK8sKubeconfig :: "decoder \<Rightarrow> providerFlags \<Rightarrow> string \<Rightarrow> string res prog" where
  "providerK8sKubeconfig dec f ident = withCloud dec f (\<lambda>p. printing (akKubeconfig (apiK8s p) ident) id)"

definition providerK8sUpdate :: "decoder \<Rightarrow> providerFlags \<Rightarrow> string \<Rightarrow> string \<Rightarrow> string res prog" where
  \<open>providerK8sUpdate dec f ident version = withCloud dec f (\<lambda>p.
     if version = '''' then fail (Errorf ''--version is required'' [])
     else printing (akUpdate (apiK8s p) ident version) (\<lambda>c.
       sprintf ''[%s] upgraded to %s (%s)
'' [Str (kcID c), Str (kcVersion c), Str (kcStatus c)]))\<close>

definition providerK8sProtection :: "decoder \<Rightarrow> providerFlags \<Rightarrow> string \<Rightarrow> string res prog" where
  \<open>providerK8sProtection dec f ident = withCloud dec f (\<lambda>p. printing (akProtection (apiK8s p) ident) (\<lambda>c.
     sprintf ''[%s] protection toggled (%s)
'' [Str (kcID c), Str (kcStatus c)]))\<close>

definition providerAddonsList :: "decoder \<Rightarrow> providerFlags \<Rightarrow> string \<Rightarrow> string res prog" where
  \<open>providerAddonsList dec f ident = withCloud dec f (\<lambda>p. printing (aaInstalled (apiAddons p) ident) (lines (\<lambda>a.
     sprintf ''[%s] %s (%s) v%s
'' [Str (kaID a), Str (kaName a), Str (kaStatus a), Str (kaVersion a)])))\<close>

definition providerAddonsAvailable :: "decoder \<Rightarrow> providerFlags \<Rightarrow> string res prog" where
  \<open>providerAddonsAvailable dec f = withCloud dec f (\<lambda>p. printing (aaAvailable (apiAddons p)) (lines (\<lambda>a.
     sprintf ''[%s] %s (%s)
'' [Str (kaSlug a), Str (kaName a), Str (kaVersion a)])))\<close>

definition providerAddonsInstall :: "decoder \<Rightarrow> providerFlags \<Rightarrow> string \<Rightarrow> string \<Rightarrow> string res prog" where
  "providerAddonsInstall dec f ident slug = withCloud dec f (\<lambda>p. silently (aaInstall (apiAddons p) ident slug))"

definition providerAddonsUninstall :: "decoder \<Rightarrow> providerFlags \<Rightarrow> string \<Rightarrow> string \<Rightarrow> string res prog" where
  "providerAddonsUninstall dec f ident addon = withCloud dec f (\<lambda>p. silently (aaUninstall (apiAddons p) ident addon))"

definition providerPoolList :: "decoder \<Rightarrow> providerFlags \<Rightarrow> string \<Rightarrow> string res prog" where
  \<open>providerPoolList dec f ident = withCloud dec f (\<lambda>p. printing (apList (apiPools p) ident) (lines (\<lambda>np.
     sprintf ''[%s] %s plan=%s nodes=%d (%s)
'' [Str (kpID np), Str (kpName np), Str (kpPlan np), Num (kpNodes np), Str (kpStatus np)])))\<close>

definition providerPoolAdd :: "decoder \<Rightarrow> providerFlags \<Rightarrow> string \<Rightarrow> string \<Rightarrow> int \<Rightarrow> string res prog" where
  \<open>providerPoolAdd dec f ident plan nodes = withCloud dec f (\<lambda>p.
     printing (apCreate (apiPools p) ident \<lparr>poName = '''', poPlan = plan, poNodeCount = nodes\<rparr>) (\<lambda>np.
       sprintf ''[%s] %s (%d nodes)
'' [Str (kpID np), Str (kpPlan np), Num (kpNodes np)]))\<close>

definition providerPoolScale :: "decoder \<Rightarrow> providerFlags \<Rightarrow> string \<Rightarrow> string \<Rightarrow> int \<Rightarrow> string res prog" where
  "providerPoolScale dec f ident pool nodes = withCloud dec f (\<lambda>p. silently (apScale (apiPools p) ident pool nodes))"

definition providerPoolDelete :: "decoder \<Rightarrow> providerFlags \<Rightarrow> string \<Rightarrow> string \<Rightarrow> string res prog" where
  "providerPoolDelete dec f ident pool = withCloud dec f (\<lambda>p. silently (apDelete (apiPools p) ident pool))"

definition providerK8sLBs :: "decoder \<Rightarrow> providerFlags \<Rightarrow> string \<Rightarrow> string res prog" where
  \<open>providerK8sLBs dec f ident = withCloud dec f (\<lambda>p. printing (apLBs (apiPools p) ident) (lines (\<lambda>lb.
     sprintf ''[%s] %s @ %s
'' [Str (lbID lb), Str (lbName lb), Str (lbIP lb)])))\<close>

section \<open>Load balancers\<close>

definition balancerLine :: "loadBalancer \<Rightarrow> string" where
  \<open>balancerLine lb = sprintf ''[%s] %s @ %s (%s)
'' [Str (lbID lb), Str (lbName lb), Str (lbIP lb), Str (lbStatus lb)]\<close>

definition providerLBCreate :: "decoder \<Rightarrow> providerFlags \<Rightarrow> string res prog" where
  "providerLBCreate dec f = withCloud dec f (\<lambda>p. printing (abCreate (apiLB p)
     \<lparr>loName = pfName f, loLabel = '''', loLocation = pfLocation f, loPlan = pfPlan f, loVPCID = '''', loAlgorithm = ''''\<rparr>) balancerLine)"

definition providerLBList :: "decoder \<Rightarrow> providerFlags \<Rightarrow> string res prog" where
  "providerLBList dec f = withCloud dec f (\<lambda>p. printing (abList (apiLB p)) (lines balancerLine))"

definition providerLBDelete :: "decoder \<Rightarrow> providerFlags \<Rightarrow> string \<Rightarrow> string res prog" where
  "providerLBDelete dec f ident = withCloud dec f (\<lambda>p. silently (abDelete (apiLB p) ident))"

text \<open>The protocol of a listener and all of a health check but its path are left empty.\<close>

definition listenerOf :: "int \<Rightarrow> int \<Rightarrow> listenerOrder" where
  "listenerOf port target = \<lparr>liPort = port, liTargetPort = target, liProtocol = ''''\<rparr>"

definition providerListenerAdd :: "decoder \<Rightarrow> providerFlags \<Rightarrow> string \<Rightarrow> int \<Rightarrow> int \<Rightarrow> string res prog" where
  \<open>providerListenerAdd dec f lb port target = withCloud dec f (\<lambda>p. printing (alCreate (apiListeners p) lb (listenerOf port target)) (\<lambda>l.
     sprintf ''[%s] :%d -> :%d
'' [Str (llID l), Num (llPort l), Num (llTargetPort l)]))\<close>

definition providerListenerUpdate :: "decoder \<Rightarrow> providerFlags \<Rightarrow> string \<Rightarrow> string \<Rightarrow> int \<Rightarrow> int \<Rightarrow> string res prog" where
  "providerListenerUpdate dec f lb listenerID port target = withCloud dec f (\<lambda>p.
     printing (alUpdate (apiListeners p) lb listenerID (listenerOf port target)) (\<lambda>_. ''''))"

definition providerListenerDelete :: "decoder \<Rightarrow> providerFlags \<Rightarrow> string \<Rightarrow> string \<Rightarrow> string res prog" where
  "providerListenerDelete dec f lb listenerID = withCloud dec f (\<lambda>p. silently (alDelete (apiListeners p) lb listenerID))"

definition providerLBHealth :: "decoder \<Rightarrow> providerFlags \<Rightarrow> string \<Rightarrow> string \<Rightarrow> string \<Rightarrow> string res prog" where
  "providerLBHealth dec f lb listenerID path = withCloud dec f (\<lambda>p. silently (alHealth (apiListeners p) lb listenerID
     \<lparr>hkProtocol = '''', hkPort = 0, hkPath = path, hkInterval = 0, hkTimeout = 0, hkRetries = 0\<rparr>))"

definition providerTargetAdd :: "decoder \<Rightarrow> providerFlags \<Rightarrow> string \<Rightarrow> string \<Rightarrow> string \<Rightarrow> string \<Rightarrow> int \<Rightarrow> string res prog" where
  \<open>providerTargetAdd dec f lb listenerID targetType target port = withCloud dec f (\<lambda>p. printing (alAdd (apiListeners p) lb listenerID
     \<lparr>toType = targetType, toTargetID = target, toTargetPort = port, toWeight = 0\<rparr>) (\<lambda>t.
     sprintf ''[%s] %s (%s:%d)
'' [Str (ltID t), Str (ltType t), Str (ltTargetID t), Num (ltPort t)]))\<close>

definition providerTargetList :: "decoder \<Rightarrow> providerFlags \<Rightarrow> string \<Rightarrow> string \<Rightarrow> string res prog" where
  \<open>providerTargetList dec f lb listenerID = withCloud dec f (\<lambda>p. printing (alTargets (apiListeners p) lb listenerID) (lines (\<lambda>t.
     sprintf ''[%s] %s -> %s:%d (%s)
'' [Str (ltID t), Str (ltType t), Str (ltTargetID t), Num (ltPort t), Str (ltStatus t)])))\<close>

definition providerTargetDrain :: "decoder \<Rightarrow> providerFlags \<Rightarrow> string \<Rightarrow> string \<Rightarrow> string \<Rightarrow> string res prog" where
  "providerTargetDrain dec f lb listenerID target = withCloud dec f (\<lambda>p. silently (alDrain (apiListeners p) lb listenerID target))"

definition providerLBResize :: "decoder \<Rightarrow> providerFlags \<Rightarrow> string \<Rightarrow> string \<Rightarrow> string res prog" where
  \<open>providerLBResize dec f lb plan = withCloud dec f (\<lambda>p. printing (abResize (apiLB p) lb plan) (\<lambda>l.
     sprintf ''[%s] resized to %s
'' [Str (lbID l), Str (lbPlan l)]))\<close>

definition providerLBMetrics :: "decoder \<Rightarrow> providerFlags \<Rightarrow> string \<Rightarrow> string res prog" where
  "providerLBMetrics dec f lb = withCloud dec f (\<lambda>p. printing (abMetrics (apiLB p) lb) (\<lambda>m. m @ [CHR 0x0A]))"

definition providerLBProtection :: "decoder \<Rightarrow> providerFlags \<Rightarrow> string \<Rightarrow> string res prog" where
  \<open>providerLBProtection dec f lb = withCloud dec f (\<lambda>p. printing (abProtection (apiLB p) lb) (\<lambda>l.
     sprintf ''[%s] protection toggled
'' [Str (lbID l)]))\<close>

section \<open>DNS and keys\<close>

definition providerZones :: "decoder \<Rightarrow> providerFlags \<Rightarrow> string res prog" where
  \<open>providerZones dec f = withCloud dec f (\<lambda>p. printing (azList (apiDNS p)) (lines (\<lambda>z.
     sprintf ''[%s] %s
'' [Str (dzID z), Str (dzName z)])))\<close>

definition providerRecordAdd :: "decoder \<Rightarrow> providerFlags \<Rightarrow> string \<Rightarrow> string \<Rightarrow> string \<Rightarrow> string \<Rightarrow> string res prog" where
  "providerRecordAdd dec f zone typ name value = withCloud dec f (\<lambda>p. silently (azCreate (apiDNS p) zone
     \<lparr>drID = '''', drType = typ, drName = name, drValue = value, drTTL = 0, drPriority = 0\<rparr>))"

definition providerRecordDelete :: "decoder \<Rightarrow> providerFlags \<Rightarrow> string \<Rightarrow> string \<Rightarrow> string res prog" where
  "providerRecordDelete dec f zone record_id = withCloud dec f (\<lambda>p. silently (azDelete (apiDNS p) zone record_id))"

definition keyLine :: "sshKey \<Rightarrow> string" where
  \<open>keyLine k = sprintf ''[%s] %s (%s)
'' [Str (skID k), Str (skName k), Str (skFingerprint k)]\<close>

definition providerKeyUpload :: "decoder \<Rightarrow> providerFlags \<Rightarrow> string \<Rightarrow> string \<Rightarrow> string res prog" where
  "providerKeyUpload dec f pubKey name = withCloud dec f (\<lambda>p.
     bind (if pubKey = '''' then bind (getenv ''HOME'') (\<lambda>home. Ret (pathJoin [home, ''.ssh'', ''id_ed25519.pub''])) else Ret pubKey) (\<lambda>path.
     tryP (Wrapf ''read key: %w'' []) (readFile (pathClean path)) (\<lambda>content.
       printing (asCreate (apiKeys p) name content) keyLine)))"

definition providerKeyList :: "decoder \<Rightarrow> providerFlags \<Rightarrow> string res prog" where
  \<open>providerKeyList dec f = withCloud dec f (\<lambda>p. printing (asList (apiKeys p)) (\<lambda>ks.
     if ks = [] then ''  No SSH keys found'' @ [CHR 0x0A] else lines keyLine ks))\<close>

definition providerKeyDelete :: "decoder \<Rightarrow> providerFlags \<Rightarrow> string \<Rightarrow> string res prog" where
  "providerKeyDelete dec f ident = withCloud dec f (\<lambda>p. silently (asDelete (apiKeys p) ident))"

section \<open>Vultr alone\<close>

definition getVultrClient :: "providerFlags \<Rightarrow> provider res prog" where
  "getVultrClient f = tryP id (getProvider f) (\<lambda>p.
     if pvName p = ''vultr'' then Ret (Inr p) else fail (Errorf ''requires --provider vultr'' []))"

definition withVultr :: "providerFlags \<Rightarrow> (provider \<Rightarrow> 'a res prog) \<Rightarrow> 'a res prog" where
  "withVultr f body = tryP id (getVultrClient f) body"

definition runFirewallGroupCreate :: "providerFlags \<Rightarrow> string \<Rightarrow> string res prog" where
  \<open>runFirewallGroupCreate f desc = withVultr f (\<lambda>v. printing (CreateFirewallGroup v desc) (\<lambda>g. sprintf ([CHR 0xE2, CHR 0x9C, CHR 0x93] @ '' Group created: %s
'') [Str (fgID g)]))\<close>

definition runFirewallGroupList :: "providerFlags \<Rightarrow> string res prog" where
  \<open>runFirewallGroupList f = withVultr f (\<lambda>v. printing (ListFirewallGroups v) (lines (\<lambda>g.
     sprintf ''%s  %s  instances=%d  rules=%d
'' [Str (fgID g), Str (fgDescription g), Num (fgInstances g), Num (fgRules g)])))\<close>

definition runFirewallGroupDelete :: "providerFlags \<Rightarrow> string \<Rightarrow> string res prog" where
  "runFirewallGroupDelete f ident = withVultr f (\<lambda>v. silently (DeleteFirewallGroup v ident))"

definition runFirewallRuleList :: "providerFlags \<Rightarrow> string \<Rightarrow> string res prog" where
  \<open>runFirewallRuleList f gid = withVultr f (\<lambda>v. printing (ListFirewallRules v gid) (lines (\<lambda>r.
     sprintf ''[%d] %s %s %s/%d port=%s action=%s
'' [Num (frID r), Str (frIPType r), Str (frProtocol r), Str (frSubnet r), Num (frSubnetSize r),
       Str (frPort r), Str (frAction r)])))\<close>

definition runFirewallRuleAdd :: "providerFlags \<Rightarrow> string \<Rightarrow> string res prog" where
  \<open>runFirewallRuleAdd f gid = withVultr f (\<lambda>v. printing (CreateFirewallRule v gid ''v4'' ''tcp'' ''0.0.0.0'' ''22'' ''CLI'' '''' 0) (\<lambda>r.
     sprintf ([CHR 0xE2, CHR 0x9C, CHR 0x93] @ '' Rule created: %d
'') [Num (frID r)]))\<close>

definition runFirewallRuleDelete :: "providerFlags \<Rightarrow> string \<Rightarrow> string \<Rightarrow> string res prog" where
  "runFirewallRuleDelete f gid rule = withVultr f (\<lambda>v. silently (DeleteFirewallRule v gid (atoiVal rule)))"

definition runObjStorageList :: "providerFlags \<Rightarrow> string res prog" where
  \<open>runObjStorageList f = withVultr f (\<lambda>v. printing (ListObjectStorages v) (lines (\<lambda>s.
     sprintf ''%s  %s  %s  s3=%s  status=%s
'' [Str (osID s), Str (osLabel s), Str (osRegion s), Str (osHostname s), Str (osStatus s)])))\<close>

definition runObjStorageClusters :: "providerFlags \<Rightarrow> string res prog" where
  \<open>runObjStorageClusters f = withVultr f (\<lambda>v. printing (ListObjectStorageClusters v) (lines (\<lambda>c.
     sprintf ''[%d] %s  %s
'' [Num (scID c), Str (scRegion c), Str (scHostname c)])))\<close>

text \<open>The cluster is the number of nodes, a flag this command does not have.\<close>

definition runObjStorageCreate :: "providerFlags \<Rightarrow> string res prog" where
  \<open>runObjStorageCreate f = withVultr f (\<lambda>v. printing (CreateObjectStorage v (pfNodeCount f)) (\<lambda>s.
     sprintf ([CHR 0xE2, CHR 0x9C, CHR 0x93] @ '' Object storage created: %s
'') [Str (osID s)] @ sprintf ''  S3 Hostname: %s
'' [Str (osHostname s)]))\<close>

definition runCDNList :: "providerFlags \<Rightarrow> string res prog" where
  \<open>runCDNList f = withVultr f (\<lambda>v. printing (ListCDNPullZones v) (lines (\<lambda>z.
     sprintf ''%s  %s  %s  %s
'' [Str (czID z), Str (czLabel z), Str (czOrigin z), Str (czStatus z)])))\<close>

definition runCDNCreate :: "providerFlags \<Rightarrow> string \<Rightarrow> string \<Rightarrow> string res prog" where
  \<open>runCDNCreate f name origin = withVultr f (\<lambda>v. printing (CreateCDNPullZone v name origin) (\<lambda>z. sprintf ([CHR 0xE2, CHR 0x9C, CHR 0x93] @ '' CDN zone created: %s
'') [Str (czID z)]))\<close>

definition runCDNDelete :: "providerFlags \<Rightarrow> string \<Rightarrow> string res prog" where
  "runCDNDelete f ident = withVultr f (\<lambda>v. silently (DeleteCDNPullZone v ident))"

definition runCDNPurge :: "providerFlags \<Rightarrow> string \<Rightarrow> string res prog" where
  "runCDNPurge f ident = withVultr f (\<lambda>v. silently (PurgeCDNPullZone v ident))"

definition runBlockList :: "providerFlags \<Rightarrow> string res prog" where
  \<open>runBlockList f = withVultr f (\<lambda>v. printing (ListBlockStorages v) (lines (\<lambda>b.
     sprintf ''%s  %s  %dGB  %s  attached=%s
'' [Str (bsID b), Str (bsLabel b), Num (bsSizeGB b), Str (bsRegion b), Str (bsAttachedTo b)])))\<close>

definition runBlockCreate :: "providerFlags \<Rightarrow> string \<Rightarrow> string \<Rightarrow> string \<Rightarrow> string res prog" where
  \<open>runBlockCreate f label region gb = withVultr f (\<lambda>v. printing (CreateBlockStorage v label region (max 10 (atoiVal gb))) (\<lambda>b.
     sprintf ([CHR 0xE2, CHR 0x9C, CHR 0x93] @ '' Block storage created: %s
'') [Str (bsID b)]))\<close>

definition runBlockDelete :: "providerFlags \<Rightarrow> string \<Rightarrow> string res prog" where
  "runBlockDelete f ident = withVultr f (\<lambda>v. silently (DeleteBlockStorage v ident))"

definition runBlockAttach :: "providerFlags \<Rightarrow> string \<Rightarrow> string \<Rightarrow> string res prog" where
  "runBlockAttach f ident inst = withVultr f (\<lambda>v. silently (AttachBlockStorage v ident inst))"

definition runBlockDetach :: "providerFlags \<Rightarrow> string \<Rightarrow> string res prog" where
  "runBlockDetach f ident = withVultr f (\<lambda>v. silently (DetachBlockStorage v ident))"

end
