(* ===== verification/Notify.thy ===== *)
theory Notify imports HttpRest begin

text \<open>
  Notifications (\<open>notify/*.go\<close>, \<open>cmd/sdk-ops/notify.go\<close>): five services a message is sent to, the
  services a configuration enables, and the two commands, which return what they print.
\<close>

record notifyConfig =
  nfSlack :: string
  nfDiscord :: string
  nfTelegramToken :: string
  nfTelegramChat :: string
  nfSMTPHost :: string
  nfSMTPPort :: int
  nfSMTPUser :: string
  nfSMTPPass :: string
  nfSMTPFrom :: string
  nfSMTPTo :: "string list"
  nfWebhook :: string

record smtp =
  smHost :: string
  smPort :: int
  smUser :: string
  smPass :: string
  smFrom :: string
  smTo :: "string list"

datatype notifier = Slack string | Discord string | Telegram string string | SMTP smtp | Webhook string

definition NewSMTP :: "string \<Rightarrow> int \<Rightarrow> string \<Rightarrow> string \<Rightarrow> string \<Rightarrow> string list \<Rightarrow> notifier" where
  "NewSMTP host port user pass sender recipients = SMTP \<lparr>smHost = host, smPort = (if port = 0 then 587 else port), smUser = user,
     smPass = pass, smFrom = sender, smTo = recipients\<rparr>"

definition notifyEnabled :: "notifyConfig \<Rightarrow> bool" where
  "notifyEnabled c \<longleftrightarrow> nfSlack c \<noteq> '''' \<or> nfDiscord c \<noteq> '''' \<or> nfTelegramToken c \<noteq> '''' \<or> nfSMTPHost c \<noteq> '''' \<or> nfWebhook c \<noteq> ''''"

definition BuildNotifiers :: "notifyConfig \<Rightarrow> notifier list" where
  "BuildNotifiers c =
     (if nfSlack c \<noteq> '''' then [Slack (nfSlack c)] else []) @
     (if nfDiscord c \<noteq> '''' then [Discord (nfDiscord c)] else []) @
     (if nfTelegramToken c \<noteq> '''' then [Telegram (nfTelegramToken c) (nfTelegramChat c)] else []) @
     (if nfSMTPHost c \<noteq> '''' then [NewSMTP (nfSMTPHost c) (nfSMTPPort c) (nfSMTPUser c) (nfSMTPPass c) (nfSMTPFrom c) (nfSMTPTo c)] else []) @
     (if nfWebhook c \<noteq> '''' then [Webhook (nfWebhook c)] else [])"

section \<open>Sending\<close>

text \<open>The four services that take a POST with a JSON body; an answer below 400 is a success.\<close>

definition postJSON :: "string \<Rightarrow> string \<Rightarrow> json \<Rightarrow> unit res prog" where
  "postJSON service link payload =
     tryP id (httpDo (Wrapf (service @ '' request: %w'') []) (Wrapf (service @ '' post: %w'') []) ''POST'' link
         [(''Content-Type'', ''application/json'')] (jsonText payload)) (\<lambda>h.
       if haStatus h \<ge> 400 then fail (Errorf (service @ '': HTTP %d'') [Num (int (haStatus h))]) else okP)"

definition slackSend :: "string \<Rightarrow> string \<Rightarrow> string \<Rightarrow> unit res prog" where
  \<open>slackSend link title message =
     postJSON ''slack'' link (JObj [(''text'', JStr (sprintf ''*%s*
%s'' [Str title, Str message]))])\<close>

definition discordSend :: "string \<Rightarrow> string \<Rightarrow> string \<Rightarrow> unit res prog" where
  \<open>discordSend link title message =
     postJSON ''discord'' link (JObj [(''content'', JStr (sprintf ''**%s**
%s'' [Str title, Str message]))])\<close>

definition telegramSend :: "string \<Rightarrow> string \<Rightarrow> string \<Rightarrow> string \<Rightarrow> unit res prog" where
  \<open>telegramSend token chat title message =
     postJSON ''telegram'' (sprintf ''https://api.telegram.org/bot%s/sendMessage'' [Str token])
       (JObj [(''chat_id'', JStr chat), (''parse_mode'', JStr ''Markdown''),
          (''text'', JStr (sprintf ''*%s*
%s'' [Str title, Str message]))])\<close>

definition smtpSend :: "smtp \<Rightarrow> string \<Rightarrow> string \<Rightarrow> unit res prog" where
  \<open>smtpSend s title message =
     Do (SendMail (sprintf ''%s:%d'' [Str (smHost s), Num (smPort s)]) (smUser s) (smPass s) (smFrom s) (smTo s)
         (sprintf (''From: %s'' @ [CHR 0x0D] @ ''
To: %s'' @ [CHR 0x0D] @ ''
Subject: %s'' @ [CHR 0x0D] @ ''
MIME-Version: 1.0'' @ [CHR 0x0D] @ ''
Content-Type: text/plain; charset=UTF-8'' @ [CHR 0x0D] @ ''
'' @ [CHR 0x0D] @ ''
%s'')
            [Str (smFrom s), Str (joinWith '','' (smTo s)), Str (if title = '''' then ''sdk-ops notification'' else title), Str message]))
       (\<lambda>a. case aErr a of Some m \<Rightarrow> fail (Wrapf ''smtp send: %w'' [] (Ext m)) | None \<Rightarrow> okP)\<close>

definition webhookSend :: "string \<Rightarrow> string \<Rightarrow> string \<Rightarrow> unit res prog" where
  "webhookSend link title message =
     postJSON ''webhook'' link (JObj [(''message'', JStr message), (''title'', JStr title)])"

fun notifierSend :: "notifier \<Rightarrow> string \<Rightarrow> string \<Rightarrow> unit res prog" where
  "notifierSend (Slack u) t m = slackSend u t m"
| "notifierSend (Discord u) t m = discordSend u t m"
| "notifierSend (Telegram k c) t m = telegramSend k c t m"
| "notifierSend (SMTP s) t m = smtpSend s t m"
| "notifierSend (Webhook u) t m = webhookSend u t m"

fun typeName :: "notifier \<Rightarrow> string" where
  "typeName (Slack u) = ''*notify.Slack''"
| "typeName (Discord u) = ''*notify.Discord''"
| "typeName (Telegram k c) = ''*notify.Telegram''"
| "typeName (SMTP s) = ''*notify.SMTP''"
| "typeName (Webhook u) = ''*notify.Webhook''"

text \<open>Every notifier is tried; the errors of those that fail.\<close>

primrec SendAll :: "notifier list \<Rightarrow> string \<Rightarrow> string \<Rightarrow> goerr list prog" where
  "SendAll [] t m = Ret []"
| "SendAll (n # ns) t m = bind (notifierSend n t m) (\<lambda>r. bind (SendAll ns t m) (\<lambda>es.
     Ret (case r of Inl e \<Rightarrow> Wrapf ''%s: %w'' [Str (typeName n)] e # es | Inr _ \<Rightarrow> es)))"

section \<open>The commands\<close>

definition notifySend :: "notifyConfig \<Rightarrow> string \<Rightarrow> string \<Rightarrow> string res prog" where
  \<open>notifySend c title message = (let nn = BuildNotifiers c in
     if nn = [] then fail (Errorf ''no notifiers configured. Provide at least one flag (--slack, --discord, --telegram, --email, --webhook)'' [])
     else bind (SendAll nn title message) (\<lambda>errs.
       Ret (Inr (sprintf ''  -> Sent to %d/%d notifiers
'' [Num (int (length nn) - int (length errs)), Num (int (length nn))]))))\<close>

definition notifyTest :: "notifyConfig \<Rightarrow> string res prog" where
  \<open>notifyTest c = (let nn = BuildNotifiers c in
     if nn = [] then fail (Errorf ''no notifiers configured'' [])
     else bind (SendAll nn ''sdk-ops test notification'' ''If you see this, notifications are working correctly.'') (\<lambda>errs.
       if errs \<noteq> [] then fail (Errorf ''%d notifier(s) failed'' [Num (int (length errs))])
       else Ret (Inr (sprintf ''  -> %d/%d notifiers responded OK
'' [Num (int (length nn)), Num (int (length nn))]))))\<close>

section \<open>What the commands report\<close>

text \<open>An answer that takes the message.\<close>

definition accepted :: "req \<times> answer \<Rightarrow> bool" where
  "accepted x = (case x of
     (HttpDo m l h b, a) \<Rightarrow> aSess a = None \<and> aErr a = None \<and> aPick a < 400
   | (_, a) \<Rightarrow> aErr a = None)"

definition isOk :: "'a res \<Rightarrow> bool" where
  "isOk r = (case r of Inl _ \<Rightarrow> False | Inr _ \<Rightarrow> True)"

lemma postJSON_runs: "runs (postJSON s u j) t r \<Longrightarrow>
    \<exists>a b. t = [(HttpDo ''POST'' u [(''Content-Type'', ''application/json'')] b, a)] \<and>
      isOk r = (aSess a = None \<and> aErr a = None \<and> aPick a < 400)"
  by (auto simp: postJSON_def httpDo_def runs_Do tryP_def fail_def okP_def isOk_def
      split: option.splits if_splits)

lemma notifierSend_runs: "runs (notifierSend n t m) u r \<Longrightarrow> \<exists>x. u = [x] \<and> isOk r = accepted x"
proof (cases n)
  case (SMTP s)
  then show "runs (notifierSend n t m) u r \<Longrightarrow> ?thesis"
    by (auto simp: smtpSend_def runs_Do fail_def okP_def isOk_def accepted_def split: option.splits)
qed (force dest: postJSON_runs simp: slackSend_def discordSend_def telegramSend_def webhookSend_def accepted_def)+

lemma SendAll_runs: "runs (SendAll ns t m) u es \<Longrightarrow>
    length u = length ns \<and> length es = length (filter (\<lambda>x. \<not> accepted x) u)"
proof (induction ns arbitrary: u es)
  case (Cons n ns)
  then obtain u1 u2 r es' where u: "u = u1 @ u2" "runs (notifierSend n t m) u1 r" "runs (SendAll ns t m) u2 es'"
    and es: "es = (case r of Inl e \<Rightarrow> Wrapf ''%s: %w'' [Str (typeName n)] e # es' | Inr _ \<Rightarrow> es')"
    by (auto simp: runs_bind)
  from notifierSend_runs [OF u(2)] obtain x where "u1 = [x]" "isOk r = accepted x" by blast
  with Cons.IH [OF u(3)] u(1) es show ?case by (cases r) (auto simp: isOk_def)
qed simp

lemma filter_count: "length xs = length (filter P xs) + length (filter (\<lambda>x. \<not> P x) xs)"
  by (induction xs) auto

text \<open>
  \<open>notify send\<close> sends one message to every service the flags enable, and reports how many of
  them took it. It ends well even when none did: the only error is that nothing is enabled.
\<close>

theorem notify_send_reports:
  assumes "BuildNotifiers c \<noteq> []" and "runs (notifySend c title message) u r"
  shows "length u = length (BuildNotifiers c) \<and>
    r = Inr (sprintf ''  -> Sent to %d/%d notifiers
'' [Num (int (length (filter accepted u))), Num (int (length u))])"
proof -
  from assms obtain es where es: "runs (SendAll (BuildNotifiers c) title message) u es"
    and r: "r = Inr (sprintf ''  -> Sent to %d/%d notifiers
'' [Num (int (length (BuildNotifiers c)) - int (length es)), Num (int (length (BuildNotifiers c)))])"
    by (auto simp: notifySend_def Let_def runs_bind)
  from SendAll_runs [OF es] have n: "length u = length (BuildNotifiers c)"
      "int (length (BuildNotifiers c)) - int (length es) = int (length (filter accepted u))"
    using filter_count [of u accepted] by auto
  show ?thesis unfolding r n(2) by (simp add: n(1))
qed

text \<open>Slack answers with 500 and the webhook cannot be reached: the command still ends well.\<close>

definition demo_notify :: notifyConfig where
  "demo_notify = \<lparr>nfSlack = ''https://s.example'', nfDiscord = '''', nfTelegramToken = '''', nfTelegramChat = '''',
     nfSMTPHost = '''', nfSMTPPort = 587, nfSMTPUser = '''', nfSMTPPass = '''', nfSMTPFrom = '''', nfSMTPTo = [],
     nfWebhook = ''https://w.example''\<rparr>"

definition demo_notify_run :: trace where
  "demo_notify_run = zip (fst (feed (notifySend demo_notify ''t'' ''m'') [http_ok 500 '''', failed ''refused'']))
     [http_ok 500 '''', failed ''refused'']"

lemma demo_notify_run_ok: "runs (notifySend demo_notify ''t'' ''m'') demo_notify_run
    (Inr (sprintf ''  -> Sent to %d/%d notifiers
'' [Num 0, Num 2]))"
  unfolding demo_notify_run_def
  by (rule conjunct1 [OF feed_runs])
     (simp add: notifySend_def BuildNotifiers_def demo_notify_def Let_def slackSend_def webhookSend_def postJSON_def
       httpDo_def tryP_def fail_def okP_def http_ok_def ok_out_def failed_def)

theorem notify_send_reports_witness: "\<exists>u. length u = 2 \<and> filter accepted u = [] \<and>
    runs (notifySend demo_notify ''t'' ''m'') u (Inr (sprintf ''  -> Sent to %d/%d notifiers
'' [Num 0, Num 2]))"
proof -
  have "BuildNotifiers demo_notify \<noteq> []" by (simp add: BuildNotifiers_def demo_notify_def)
  from notify_send_reports [OF this demo_notify_run_ok]
  have "length demo_notify_run = 2" by (simp add: BuildNotifiers_def demo_notify_def)
  moreover have "filter accepted demo_notify_run = []"
    by (simp add: demo_notify_run_def notifySend_def BuildNotifiers_def demo_notify_def Let_def slackSend_def webhookSend_def
       postJSON_def httpDo_def tryP_def fail_def okP_def http_ok_def ok_out_def failed_def accepted_def)
  ultimately show ?thesis using demo_notify_run_ok by blast
qed

end
