(* ===== verification/CloudProps.thy ===== *)
theory CloudProps imports CloudAPI OperatorProps FleetValidateProps begin

text \<open>
  What the clients of the cloud providers guarantee: which rules a synchronised firewall group
  holds, how Civo names and drains what is behind a load balancer, and which servers the
  destruction of a fleet can find.
\<close>

section \<open>Calls of a vendor's package\<close>

lemma runs_vendor: "runs (vendor p call args w) t r \<longleftrightarrow>
    (\<exists>a. t = [(Vendor p call args, a)] \<and> r = (case aErr a of Some m \<Rightarrow> Inl (w (Ext m)) | None \<Rightarrow> Inr (aJson a)))"
  by (auto simp: vendor_def runs_Do fail_def split: option.splits)

lemma vendor_ok: "runs (vendor p call args w) t (Inr j) \<longleftrightarrow>
    (\<exists>a. t = [(Vendor p call args, a)] \<and> aErr a = None \<and> j = aJson a)"
  by (auto simp: runs_vendor split: option.splits)

lemma vendorUnit_ok: "runs (vendorUnit p call args w) t (Inr ()) \<Longrightarrow> map fst t = [Vendor p call args]"
  by (auto simp: vendorUnit_def vendor_ok okP_def elim!: run_tryP_ok)

lemma allreq_vendor [prog_intros]: "P (Vendor p call args) \<Longrightarrow> allreq P (vendor p call args w)"
  by (simp add: vendor_def fail_def split: option.splits)

lemma allreq_vendorUnit [prog_intros]: "P (Vendor p call args) \<Longrightarrow> allreq P (vendorUnit p call args w)"
  unfolding vendorUnit_def by (intro prog_intros)

lemma eachP_requests:
  assumes "\<And>x u. x \<in> set xs \<Longrightarrow> runs (f x) u (Inr ()) \<Longrightarrow> map fst u = g x"
  shows "runs (eachP f xs) t (Inr ()) \<Longrightarrow> map fst t = concat (map g xs)"
  using assms
proof (induction xs arbitrary: t)
  case (Cons a xs)
  from Cons.prems(1) obtain u v where "t = u @ v" "runs (f a) u (Inr ())" "runs (eachP f xs) v (Inr ())"
    by (auto elim: run_tryP_ok)
  with Cons show ?case by simp
qed (simp add: okP_def)

section \<open>The firewall group of Vultr\<close>

definition ruleDeletes :: "provider \<Rightarrow> string \<Rightarrow> firewallRule list \<Rightarrow> req list" where
  "ruleDeletes p gid rules = map (\<lambda>r. Vendor p ''FirewallRule.Delete'' [JStr gid, JNum (frID r)]) rules"

definition ruleCreate :: "provider \<Rightarrow> string \<Rightarrow> entry \<Rightarrow> string \<Rightarrow> req" where
  "ruleCreate p gid e port = Vendor p ''FirewallRule.Create''
     [JStr gid, firewallRuleReq (enIPType e) ''tcp'' (enSubnet e) (enSize e) port ''sdk-ops allowlist'' '''']"

definition ruleCreates :: "provider \<Rightarrow> string \<Rightarrow> entry list \<Rightarrow> req list" where
  "ruleCreates p gid es = concat (map (\<lambda>e. [ruleCreate p gid e ''80'', ruleCreate p gid e ''443'']) es)"

lemma deleteRules_requests: "runs (deleteRules p gid rules) t (Inr ()) \<Longrightarrow> map fst t = ruleDeletes p gid rules"
  unfolding deleteRules_def ruleDeletes_def
  by (drule eachP_requests [where g = "\<lambda>r. [Vendor p ''FirewallRule.Delete'' [JStr gid, JNum (frID r)]]", rotated])
     (auto simp: DeleteFirewallRule_def okP_def elim!: run_tryP_ok dest!: vendorUnit_ok)

lemma createRule_requests: "runs (CreateFirewallRule p gid k c s port n src z) t (Inr x) \<Longrightarrow>
    map fst t = [Vendor p ''FirewallRule.Create'' [JStr gid, firewallRuleReq k c s z port n src]]"
  by (auto simp: CreateFirewallRule_def vendor_ok elim!: run_tryP_ok)

lemma createRules_requests: "runs (createRules p gid es) t (Inr ()) \<Longrightarrow> map fst t = ruleCreates p gid es"
  unfolding createRules_def ruleCreates_def
proof (drule eachP_requests [where g = "\<lambda>e. [ruleCreate p gid e ''80'', ruleCreate p gid e ''443'']", rotated])
  fix e :: entry and u
  assume "runs (eachP (\<lambda>port. tryP (Wrapf ''vultr create firewall rule: %w'' []) (CreateFirewallRule p gid (enIPType e) ''tcp''
      (enSubnet e) port ''sdk-ops allowlist'' '''' (enSize e)) (\<lambda>_. okP)) [''80'', ''443'']) u (Inr ())"
  then have "map fst u = concat (map (\<lambda>port. [ruleCreate p gid e port]) [''80'', ''443''])"
    by (rule eachP_requests [rotated]) (auto simp: ruleCreate_def okP_def elim!: run_tryP_ok dest!: createRule_requests)
  then show "map fst u = [ruleCreate p gid e ''80'', ruleCreate p gid e ''443'']" by simp
qed

text \<open>
  C40: A successful synchronisation deletes every rule the provider listed for the group and then
  creates, in the order of the allowlist, one rule for each of the two ports and every address.
\<close>

theorem vultr_sync_exact:
  assumes "runs (SyncFirewallAllowlist p v4 v6) t (Inr ())"
  shows "\<exists>gid es u a d c. t = u @ (Vendor p ''FirewallRule.List'' [JStr gid, noOptions], a) # d @ c \<and>
    entriesOf (v4 @ v6) = Inr es \<and>
    map fst d = ruleDeletes p gid (map firewallRuleOf (jlist (aJson a))) \<and> map fst c = ruleCreates p gid es"
proof -
  from assms obtain u v gid where u: "t = u @ v" "runs (tryP id (ListFirewallRules p gid) (\<lambda>rules.
      tryP id (deleteRules p gid rules) (\<lambda>_. case entriesOf (v4 @ v6) of Inl e \<Rightarrow> fail e | Inr es \<Rightarrow> createRules p gid es))) v (Inr ())"
    unfolding SyncFirewallAllowlist_def by (rule run_tryP_ok)
  from u(2) obtain l w rules where l: "v = l @ w" "runs (ListFirewallRules p gid) l (Inr rules)" "runs (tryP id (deleteRules p gid rules) (\<lambda>_.
      case entriesOf (v4 @ v6) of Inl e \<Rightarrow> fail e | Inr es \<Rightarrow> createRules p gid es)) w (Inr ())" by (rule run_tryP_ok)
  from l(2) obtain a where a: "l = [(Vendor p ''FirewallRule.List'' [JStr gid, noOptions], a)]" "rules = map firewallRuleOf (jlist (aJson a))"
    by (auto simp: ListFirewallRules_def vendor_ok elim!: run_tryP_ok)
  from l(3) obtain d c where d: "w = d @ c" "runs (deleteRules p gid rules) d (Inr ())"
      "runs (case entriesOf (v4 @ v6) of Inl e \<Rightarrow> fail e | Inr es \<Rightarrow> createRules p gid es) c (Inr ())" by (rule run_then_ok)
  from d(3) obtain es where es: "entriesOf (v4 @ v6) = Inr es" "runs (createRules p gid es) c (Inr ())"
    by (cases "entriesOf (v4 @ v6)") (auto simp: fail_def)
  from deleteRules_requests [OF d(2)] createRules_requests [OF es(2)] es(1) u(1) l(1) a d(1)
  show ?thesis by fastforce
qed

text \<open>A run with one old rule and one address.\<close>

definition demo_sync_client :: provider where
  "demo_sync_client = \<lparr>pvName = ''vultr'', pvKey = ''k'', pvRegion = '''', pvProject = 0\<rparr>"

definition json_answer :: "json \<Rightarrow> answer" where
  "json_answer j = (ok_out '''')\<lparr>aJson := j\<rparr>"

definition demo_sync_answers :: "answer list" where
  "demo_sync_answers = [json_answer (JArr [JObj [(''ID'', JStr ''g1''), (''Description'', JStr ''sdk-ops-allowlist'')]]),
     json_answer (JArr [JObj [(''ID'', JNum 7)]]), json_answer JNull, json_answer (JObj [(''ID'', JNum 8)]), json_answer (JObj [(''ID'', JNum 9)])]"

lemmas sync_defs = SyncFirewallAllowlist_def ensureAllowlistGroup_def ListFirewallGroups_def ListFirewallRules_def
  deleteRules_def DeleteFirewallRule_def createRules_def CreateFirewallRule_def CreateFirewallGroup_def
  vendor_def vendorUnit_def tryP_def fail_def okP_def demo_sync_client_def json_answer_def ok_out_def
  demo_sync_answers_def field_def number_def jfield_def jlist_def jtext_def jint_def allowlistGroupDescription_def
  firewallGroupOf_def firewallRuleOf_def

lemma demo_entries: "entriesOf ([''10.1.2.3/8''] @ []) = Inr [\<lparr>enSubnet = ''10.0.0.0'', enSize = 8, enIPType = ''v4''\<rparr>]"
  by code_simp

lemma demo_description: "trimSpace ''sdk-ops-allowlist'' = ''sdk-ops-allowlist''"
  by code_simp

definition demo_sync_run :: trace where
  "demo_sync_run = zip (fst (feed (SyncFirewallAllowlist demo_sync_client [''10.1.2.3/8''] []) demo_sync_answers)) demo_sync_answers"

lemma demo_sync_run_ok: "runs (SyncFirewallAllowlist demo_sync_client [''10.1.2.3/8''] []) demo_sync_run (Inr ())"
  unfolding demo_sync_run_def
  by (rule conjunct1 [OF feed_runs]) (use demo_entries in \<open>simp add: sync_defs demo_description\<close>)

theorem vultr_sync_exact_witness: "\<exists>t gid es u a d c. runs (SyncFirewallAllowlist demo_sync_client [''10.1.2.3/8''] []) t (Inr ()) \<and>
    t = u @ (Vendor demo_sync_client ''FirewallRule.List'' [JStr gid, noOptions], a) # d @ c \<and>
    entriesOf ([''10.1.2.3/8''] @ []) = Inr es \<and> map fst c = ruleCreates demo_sync_client gid es"
  using vultr_sync_exact [OF demo_sync_run_ok] demo_sync_run_ok by blast

section \<open>What the destruction of a fleet finds\<close>

text \<open>A listing as the client of a provider makes it, in the fields that the destruction reads.\<close>

definition vpsOf :: "cloudVPS \<Rightarrow> vps" where
  "vpsOf v = \<lparr>vId = cvID v, vName = cvName v, vLabel = cvLabel v, vIP = cvIP v\<rparr>"

definition listed_by :: "cloudVPS list res prog \<Rightarrow> answer \<Rightarrow> bool" where
  "listed_by lister a \<longleftrightarrow> (\<exists>u vs. runs lister u (Inr vs) \<and> aVps a = map vpsOf vs)"

lemma aws_names: "runs (awsListVPS p) t (Inr vs) \<Longrightarrow> v \<in> set vs \<Longrightarrow> cvName v = '''' \<and> cvLabel v = ''''"
  by (auto simp: awsListVPS_def awsInstance_def zeroVPS_def elim!: run_tryP_ok)

lemma host_named: "validateProvision pf = Inr names \<Longrightarrow> h \<in> set (pfHosts pf) \<Longrightarrow> hName h \<noteq> ''''"
  using fleet_good_host [of pf h] by (auto simp: validateProvision_iff host_good_def)

text \<open>
  C28: The servers of AWS outlive their fleet. The client of AWS lists its servers with neither name
  nor label, and the destruction looks for the name of a host: no run of it deletes a server
  of AWS.
\<close>

theorem aws_servers_outlive_the_fleet:
  assumes "runs (runDestroy decode path) t r"
    and listed: "\<And>a. (ListVPS p, a) \<in> set t \<Longrightarrow> listed_by (awsListVPS p) a"
  shows "DeleteVPS p i \<notin> fst ` set t"
proof
  assume "DeleteVPS p i \<in> fst ` set t"
  then obtain a where "(DeleteVPS p i, a) \<in> set t" by auto
  from runDestroy_deletes [OF assms(1) this] obtain pf names h where h: "validateProvision pf = Inr names"
    "h \<in> set (pfHosts pf)" "listed_as t p i (hName h)" by metis
  from h(3) obtain b v where v: "(ListVPS p, b) \<in> set t" "v \<in> set (aVps b)" "vName v = hName h \<or> vLabel v = hName h"
    by (auto simp: listed_as_def)
  from listed [OF v(1)] v(2) obtain u vs w where "runs (awsListVPS p) u (Inr vs)" "w \<in> set vs" "v = vpsOf w"
    by (auto simp: listed_by_def)
  with aws_names have "vName v = ''''" "vLabel v = ''''" by (simp_all add: vpsOf_def)
  with v(3) host_named [OF h(1,2)] show False by simp
qed

text \<open>A fleet of one host on AWS, whose only instance is listed and stays.\<close>

definition aws_file :: ProvisionFile where
  "aws_file = demo_file\<lparr>pfHosts := [demo_host\<lparr>hGroup := '''', hHost := '''', hProvider := ''aws''\<rparr>]\<rparr>"

lemma aws_file_accepted: "\<exists>names. validateProvision aws_file = Inr names"
proof -
  have "(case validateProvision aws_file of Inr n \<Rightarrow> True | Inl e \<Rightarrow> False)" by code_simp
  then show ?thesis by (auto split: sum.splits)
qed

definition aws_client :: provider where
  "aws_client = \<lparr>pvName = ''aws'', pvKey = '''', pvRegion = ''us-east-1'', pvProject = 0\<rparr>"

definition aws_listing :: "cloudVPS list" where
  "aws_listing = [zeroVPS\<lparr>cvID := ''i-1'', cvIP := ''10.0.0.9''\<rparr>]"

lemma aws_listing_made: "\<exists>u. runs (awsListVPS aws_client) u (Inr aws_listing)"
proof -
  let ?j = "JObj [(''Reservations'', JArr [JObj [(''Instances'', JArr [JObj [(''InstanceId'', JStr ''i-1''), (''PublicIpAddress'', JStr ''10.0.0.9'')]])]])]"
  have "runs (awsListVPS aws_client) [(Vendor aws_client ''DescribeInstances'' [noOptions], json_answer ?j)] (Inr aws_listing)"
    by (simp add: awsListVPS_def tryP_def vendor_def json_answer_def ok_out_def reserved_def items_def jfield_def jlist_def
      awsInstance_def aws_listing_def field_def jtext_def)
  then show ?thesis by blast
qed

definition aws_destroy_run :: trace where
  "aws_destroy_run = [(ReadFile ''fleet.yaml'', ok_out ''''), (Getenv ''AWS_REGION'', ok_out ''us-east-1''),
     (CloudClient aws_client, ok_out ''''), (ListVPS aws_client, (ok_out '''')\<lparr>aVps := map vpsOf aws_listing\<rparr>)]"

lemma aws_destroy_run_ok: "runs (runDestroy (\<lambda>s. Inr aws_file) ''fleet.yaml'') aws_destroy_run (Inr ())"
proof -
  obtain names where n: "validateProvision aws_file = Inr names" using aws_file_accepted by blast
  have h: "pfHosts aws_file = [demo_host\<lparr>hGroup := '''', hHost := '''', hProvider := ''aws''\<rparr>]"
    by (simp add: aws_file_def)
  have s: "hName demo_host = ''n1''" "hLocation demo_host = ''''" "hProjectID demo_host = 0"
    by (simp_all add: demo_host_def zeroHost_def)
  show ?thesis
    by (simp add: runDestroy_def loadFleet_def readFile_def tryP_def n h destroyHost_def s getInfraProvider_def
        newAWSProvider_def apiKeyFrom_def getenv_def deleteProviderVPS_def askP_def callP_def Let_def
        aws_destroy_run_def aws_client_def aws_listing_def vpsOf_def zeroVPS_def ok_out_def okP_def)
qed

theorem aws_servers_outlive_the_fleet_witness:
  "\<exists>t. runs (runDestroy (\<lambda>s. Inr aws_file) ''fleet.yaml'') t (Inr ()) \<and> ListVPS aws_client \<in> fst ` set t \<and>
     DeleteVPS aws_client ''i-1'' \<notin> fst ` set t"
proof -
  have "listed_by (awsListVPS aws_client) a" if "(ListVPS aws_client, a) \<in> set aws_destroy_run" for a
    using that aws_listing_made by (auto simp: aws_destroy_run_def listed_by_def)
  from aws_servers_outlive_the_fleet [OF aws_destroy_run_ok this, of "''i-1''"] aws_destroy_run_ok
  show ?thesis by (auto simp: aws_destroy_run_def)
qed

section \<open>Listeners of Civo\<close>

lemma itoa_no_colon: "CHR '':'' \<notin> set (itoa n)"
  by (simp add: itoa_def itoa_nat_no is_digit_def)

text \<open>The port of a listener is read back from its id.\<close>

lemma parsePort_listenerID:
  assumes "0 \<le> n" "n \<le> 65535"
  shows "parsePort (civoListenerID lb n) = n"
proof -
  have "takeWhile (\<lambda>c. c \<noteq> CHR '':'') (rev (itoa n) @ CHR '':'' # rev lb) = rev (itoa n)"
    using itoa_no_colon [of n] by (subst takeWhile_append2) auto
  with assms show ?thesis by (simp add: parsePort_def civoListenerID_def atoi_itoa toPort_def)
qed

definition backendUpdate :: "provider \<Rightarrow> string \<Rightarrow> json list \<Rightarrow> req" where
  "backendUpdate q lb bs = Vendor q ''UpdateLoadBalancer'' [JStr lb, jobj [(''Region'', jS ''NYC1''), (''Backends'', jA bs)]]"

lemma backendUpdate_inj: "backendUpdate q lb bs = backendUpdate q' lb' bs' \<longleftrightarrow> q = q' \<and> lb = lb' \<and> bs = bs'"
  by (auto simp: backendUpdate_def jobj_def jA_def jS_def List.map_filter_def)

text \<open>An update sends its list of backends and nothing else.\<close>

definition updates_only :: "string \<Rightarrow> json list \<Rightarrow> req \<Rightarrow> bool" where
  "updates_only lb bs x \<longleftrightarrow> (\<exists>q. x = CloudClient q \<or> x = backendUpdate q lb bs)"

lemma update_requests: "allreq (updates_only lb bs) (updateLBBackends p lb bs)"
proof -
  have "allreq (updates_only lb bs) (inRegions p (\<lambda>q. vendorUnit q ''UpdateLoadBalancer''
      [JStr lb, jobj [(''Region'', jS ''NYC1''), (''Backends'', jA bs)]] id) rs e)" for rs e
    by (induction rs arbitrary: e)
       (auto simp: withRegion_def Let_def updates_only_def backendUpdate_def intro!: prog_intros allreq_bindI split: sum.splits)
  then show ?thesis by (simp add: updateLBBackends_def tryRegions_def)
qed

lemma update_mem:
  assumes "runs (updateLBBackends p lb bs) t r" "(x, a) \<in> set t"
  shows "updates_only lb bs x"
  using allreq_runs [OF update_requests assms(1)] assms(2) by blast

lemma get_not_update: "runs (updateLBBackends p lb bs) t r \<Longrightarrow> (Vendor q ''GetLoadBalancer'' args, a) \<notin> set t"
  using update_mem by (fastforce simp: updates_only_def backendUpdate_def)

lemma update_sends:
  assumes "runs (updateLBBackends p lb bs) t r" "(backendUpdate q lb' bs', a) \<in> set t"
  shows "bs' = bs"
proof -
  from update_mem [OF assms] obtain q' where "backendUpdate q lb' bs' = CloudClient q' \<or> backendUpdate q lb' bs' = backendUpdate q' lb bs"
    unfolding updates_only_def by blast
  moreover have "backendUpdate q lb' bs' \<noteq> CloudClient q'" by (simp add: backendUpdate_def)
  ultimately show ?thesis by (simp add: backendUpdate_inj)
qed

text \<open>The new backend of a listener.\<close>

definition listenerBackend :: "listenerOrder \<Rightarrow> json" where
  "listenerBackend cfg = jobj [(''Protocol'', jS (if liProtocol cfg \<noteq> '''' then liProtocol cfg else ''TCP'')),
     (''SourcePort'', jI (toPort (liPort cfg))), (''TargetPort'', jI (toPort (liTargetPort cfg)))]"

lemma listenerBackend_port: "sourcePort (listenerBackend cfg) = toPort (liPort cfg)"
  by (simp add: listenerBackend_def sourcePort_def number_def jfield_def jobj_def jS_def jI_def jint_def List.map_filter_def)

lemma create_writes:
  assumes "runs (civoCreateLBListener p lb cfg) t (Inr l)"
    and "(Vendor p ''GetLoadBalancer'' [JStr lb], a) \<in> set t" "(backendUpdate q lb bs, e) \<in> set t"
  shows "bs = items (aJson a) ''Backends'' @ [listenerBackend cfg] \<and> llID l = civoListenerID lb (toPort (liPort cfg))"
proof -
  from assms(1) obtain b v u where t: "t = (Vendor p ''GetLoadBalancer'' [JStr lb], b) # u @ v"
    and u: "runs (updateLBBackends p lb (items (aJson b) ''Backends'' @ [listenerBackend cfg])) u (Inr ())"
    and v: "v = []" "llID l = civoListenerID lb (toPort (liPort cfg))"
    by (auto simp: civoCreateLBListener_def getBalancer_def vendor_ok listenerBackend_def Let_def elim!: run_tryP_ok)
  have "b = a" using assms(2) t v(1) get_not_update [OF u] by auto
  moreover have "(backendUpdate q lb bs, e) \<in> set u"
    using assms(3) t v(1) by (auto simp: backendUpdate_def)
  ultimately show ?thesis using update_sends [OF u] v(2) by blast
qed

lemma delete_writes:
  assumes "runs (civoDeleteLBListener p lb listener) t r"
    and "(Vendor p ''GetLoadBalancer'' [JStr lb], a) \<in> set t" "(backendUpdate q lb bs, e) \<in> set t"
  shows "bs = filter (\<lambda>b. sourcePort b \<noteq> parsePort listener) (items (aJson a) ''Backends'')"
proof -
  let ?k = "\<lambda>j. filter (\<lambda>b. sourcePort b \<noteq> parsePort listener) (items j ''Backends'')"
  from assms(1,3) obtain b u where t: "t = (Vendor p ''GetLoadBalancer'' [JStr lb], b) # u"
    and u: "runs (updateLBBackends p lb (?k (aJson b))) u r"
    by (auto simp: civoDeleteLBListener_def getBalancer_def runs_tryP runs_vendor backendUpdate_def split: option.splits)
  have "b = a" using assms(2) t get_not_update [OF u] by auto
  moreover have "(backendUpdate q lb bs, e) \<in> set u" using assms(3) t by (auto simp: backendUpdate_def)
  ultimately show ?thesis using update_sends [OF u] by blast
qed


text \<open>A load balancer with one backend, and a listener on another port.\<close>

definition demo_civo :: provider where
  "demo_civo = \<lparr>pvName = ''civo'', pvKey = ''k'', pvRegion = ''LON1'', pvProject = 0\<rparr>"

definition civo_backend :: json where
  "civo_backend = JObj [(''IP'', JStr ''10.0.0.1''), (''SourcePort'', JNum 80), (''TargetPort'', JNum 8080)]"

definition civo_order :: listenerOrder where
  "civo_order = \<lparr>liPort = 443, liTargetPort = 8443, liProtocol = ''''\<rparr>"

definition civo_run :: "json list \<Rightarrow> json list \<Rightarrow> trace" where
  "civo_run found sent = [(Vendor demo_civo ''GetLoadBalancer'' [JStr ''lb''], json_answer (JObj [(''Backends'', JArr found)])),
     (CloudClient (demo_civo\<lparr>pvRegion := ''NYC1''\<rparr>), ok_out ''''),
     (backendUpdate (demo_civo\<lparr>pvRegion := ''NYC1''\<rparr>) ''lb'' sent, json_answer JNull)]"

lemmas civo_defs = getBalancer_def updateLBBackends_def tryRegions_def civoRegions_def withRegion_def vendor_def vendorUnit_def
  tryP_def callP_def fail_def okP_def Let_def civo_run_def json_answer_def ok_out_def items_def jfield_def jlist_def backendUpdate_def

lemma civo_create_run: "runs (civoCreateLBListener demo_civo ''lb'' civo_order)
    (civo_run [civo_backend] [civo_backend, listenerBackend civo_order])
    (Inr \<lparr>llID = civoListenerID ''lb'' 443, llPort = 443, llTargetPort = 8443, llProtocol = ''TCP''\<rparr>)"
  by (simp add: civoCreateLBListener_def civo_defs listenerBackend_def civo_order_def toPort_def)

lemma civo_delete_run: "runs (civoDeleteLBListener demo_civo ''lb'' (civoListenerID ''lb'' 443))
    (civo_run [civo_backend, listenerBackend civo_order] [civo_backend]) (Inr ())"
proof -
  have k: "filter (\<lambda>b. sourcePort b \<noteq> 443) [civo_backend, listenerBackend civo_order] = [civo_backend]"
    using listenerBackend_port [of civo_order]
    by (simp add: civo_order_def toPort_def) (simp add: civo_backend_def sourcePort_def number_def jfield_def jint_def)
  show ?thesis using k by (simp add: civoDeleteLBListener_def civo_defs parsePort_listenerID)
qed


text \<open>
  Draining one target of a listener drains all: what is written back has no backend of the
  listener's port left.
\<close>

theorem civo_drain_empties_the_listener:
  assumes "runs (civoDrainLBTarget p lb (civoListenerID lb port) target) t r" "(backendUpdate q lb bs, e) \<in> set t"
    and "0 < port" "port \<le> 65535" "b \<in> set bs"
  shows "sourcePort b \<noteq> port"
proof -
  have pp: "parsePort (civoListenerID lb port) = port" using assms(3,4) by (intro parsePort_listenerID) auto
  from assms(1,2) obtain a u where t: "t = (Vendor p ''GetLoadBalancer'' [JStr lb], a) # u"
    and u: "runs (updateLBBackends p lb (filter (\<lambda>b. \<not> drained lb port target b) (items (aJson a) ''Backends''))) u r"
    by (auto simp: civoDrainLBTarget_def getBalancer_def runs_tryP runs_vendor backendUpdate_def pp split: option.splits)
  have "(backendUpdate q lb bs, e) \<in> set u" using assms(2) t by (auto simp: backendUpdate_def)
  from update_sends [OF u this] assms(3,5) show ?thesis by (auto simp: drained_def)
qed

end
