(* ===== verification/WipeProps.thy ===== *)
theory WipeProps imports ServiceProps begin

text \<open>
  When the data of a PostgreSQL cluster may go: the script that wipes it is sent only where the
  fleet file asks for it, on the primary host, and a restore only over an absent data directory.
\<close>

section \<open>Programs that never wipe\<close>

fun keeps_data :: "req \<Rightarrow> bool" where
  "keeps_data (Exec c s) = (s \<noteq> pg_wipe_script)"
| "keeps_data q = True"

lemma keeps_Fmt [simp]: "Fmt f xs \<noteq> pg_wipe_script"
  by (simp add: pg_wipe_script_def)

lemma keeps_Raw: "hd s \<noteq> CHR ''s'' \<or> hd (tl s) \<noteq> CHR ''e'' \<Longrightarrow> Raw s \<noteq> pg_wipe_script"
  by (auto simp: pg_wipe_script_def)

lemma keeps_getenv: "allreq keeps_data (getenv k)"
  by (simp add: getenv_def)

lemmas keeps_steps = prog_intros allreq_branches keeps_getenv

lemma keeps_env: "allreq keeps_data (envOr k d)" "allreq keeps_data (hasS3)" "allreq keeps_data (s3PrefixOr k d)"
    "allreq keeps_data pgS3Region"
  unfolding envOr_def hasS3_def s3PrefixOr_def pgS3Region_def by (intro keeps_steps)+

lemma keeps_source: "allreq keeps_data (source s)"
  unfolding source_def by (cases s) (simp_all, (intro keeps_steps keeps_env)+)

lemma keeps_fields: "allreq keeps_data (ServiceRender.fields xs)"
  by (induction xs) (simp_all, intro keeps_steps keeps_source)

lemma keeps_lines: "allreq keeps_data (envLines ks)" "allreq keeps_data (envHostLines sfx ks)"
  "allreq keeps_data (prefixLine k d)"
  subgoal by (induction ks) (simp_all, intro keeps_steps)
  subgoal by (induction ks) (simp_all, intro keeps_steps)
  subgoal unfolding prefixLine_def by (intro keeps_steps keeps_env)
  done

lemma keeps_bcrypt: "allreq keeps_data (bcryptHash s)"
  unfolding bcryptHash_def by (intro keeps_steps) simp

lemmas keeps_render = keeps_steps keeps_env keeps_fields keeps_bcrypt

lemma keeps_builders:
  "allreq keeps_data (libsqlRenderData p)" "allreq keeps_data (dfRenderData p)" "allreq keeps_data (natsClusterRenderData p)"
  "allreq keeps_data (dfClusterRenderData p)" "allreq keeps_data (valkeyClusterRenderData p)" "allreq keeps_data (pgsqlCNPGRenderData p)"
  "allreq keeps_data (etcdClusterRenderData p)" "allreq keeps_data (crowdsecClusterRenderData p)" "allreq keeps_data (crowdsecBareRenderData h p)"
  "allreq keeps_data (crowdsecDockerizedRenderData h p cfg)" "allreq keeps_data (natsRenderData pf h p cfg)" "allreq keeps_data (etcdRenderData pf h p)"
  "allreq keeps_data (pgRenderData pf h p cfg)" "allreq keeps_data (yugabyteRenderData h p)" "allreq keeps_data (lightBuild pf h p cfg)"
  unfolding libsqlRenderData_def dfRenderData_def natsClusterRenderData_def dfClusterRenderData_def valkeyClusterRenderData_def
    pgsqlCNPGRenderData_def etcdClusterRenderData_def crowdsecClusterRenderData_def crowdsecBareRenderData_def
    crowdsecDockerizedRenderData_def natsRenderData_def etcdRenderData_def pgRenderData_def yugabyteRenderData_def lightBuild_def Let_def
  by (intro keeps_render)+

lemma keeps_buildRenderData: "allreq keeps_data (buildRenderData pf h dirName profile cfg)"
proof -
  have "allreq keeps_data (build pf h p cfg)" if "(m, build) \<in> set renderRules" for m build p
    using that keeps_builders unfolding renderRules_def profOnly_def by auto
  then have d: "allreq keeps_data (case List.find (\<lambda>(m, b). matches m dirName) renderRules of
      Some (m, build) \<Rightarrow> build pf h p cfg | None \<Rightarrow> fail e)" for p e
    by (auto dest!: find_member split: option.splits)
  show ?thesis unfolding buildRenderData_def Let_def by (intro d keeps_steps) simp_all
qed


section \<open>The steps of a deployment\<close>

lemma keeps_close: "allreq keeps_data p \<Longrightarrow> allreq keeps_data (deferClose c p)"
  by (rule allreq_deferClose) simp_all

lemma keeps_writeRemoteFile: "allreq keeps_data (writeRemoteFile c path content)"
  unfolding writeRemoteFile_def by (intro keeps_steps) (simp_all add: keeps_Raw)

lemma keeps_uploadDir: "allreq keeps_data (uploadDir c dir fs rdir)"
  unfolding uploadDir_def by (intro keeps_steps) simp_all

lemma keeps_files: "allreq keeps_data (writeFiles dir xs fs)" "allreq keeps_data (copyCerts certs stage ys)"
  subgoal by (induction xs arbitrary: fs) (simp_all, intro keeps_steps, simp_all)
  subgoal by (induction ys) (simp_all, intro keeps_steps, simp_all)
  done

lemma keeps_single: "allreq keeps_data (maybeWriteSingleVPS dir d name host fs)"
  unfolding maybeWriteSingleVPS_def writeSingleVPSSetup_def Let_def by (intro keeps_steps keeps_files)

lemma keeps_timer: "allreq keeps_data (installTimer c name cadence dir cmd)"
  unfolding installTimer_def by (intro keeps_steps) simp

lemma keeps_expose: "allreq keeps_data (AllowlistExposePort c port proto sc ips)"
  unfolding AllowlistExposePort_def nowP_def by (intro keeps_steps) simp_all

lemmas keeps_ops = keeps_steps keeps_close keeps_env keeps_lines keeps_writeRemoteFile keeps_uploadDir keeps_files keeps_timer keeps_expose

lemma keeps_small_wires:
  "allreq keeps_data (wireCNPGOn c dir)" "allreq keeps_data (wireValkeyOn c dir)" "allreq keeps_data (wirePGDockerOn c dir)"
  "allreq keeps_data (wireDFOn c dir)" "allreq keeps_data (wireCrowdsecClientEnvOn c dir n)" "allreq keeps_data (wireEtcdOn c dir n)"
  unfolding wireCNPGOn_def wireValkeyOn_def wirePGDockerOn_def wireDFOn_def wireCrowdsecClientEnvOn_def wireEtcdOn_def env_script_def
  by (intro keeps_ops; simp)+

lemma keeps_nats: "allreq keeps_data (wireNATSOn c dir n)"
  unfolding wireNATSOn_def uploadNATSCerts_def uploadNATSKeys_def writeNATSEnv_def writeS3Cfg_def installNATSClI_def
    installNATSTimers_def Let_def readFile_def writeFile_def
  by (intro keeps_ops; simp add: keeps_Raw)

lemma keeps_pg_steps:
  "allreq keeps_data (uploadPGCerts c dir n)" "allreq keeps_data (writePGEnv c dir)" "allreq keeps_data (setupPGHost c)"
  "allreq keeps_data (makePGConfigsReadable c dir)" "allreq keeps_data (writePGLocalConf c)" "allreq keeps_data (pgRestoreIfEmpty c dir)"
  "allreq keeps_data (ensurePGDogImage c n)" "allreq keeps_data (installPGTimers c dir b)"
  unfolding uploadPGCerts_def readCert_def writePGEnv_def setupPGHost_def makePGConfigsReadable_def writePGLocalConf_def pgBackrestConf_def
    pgRestoreIfEmpty_def pg_present_script_def pg_repo_script_def pg_restore_script_def ensurePGDogImage_def shipPGDogImage_def installPGTimers_def Let_def
  by (intro keeps_ops; simp add: keeps_Raw)+

lemma keeps_diff: "allreq keeps_data (diffFiles c dir fs xs)"
  by (induction xs) (simp_all split: option.split, auto intro!: keeps_steps simp: deployed_script_def keeps_Raw)

lemma keeps_changed: "allreq keeps_data (serviceConfigChanged c r fs dir n)"
  unfolding serviceConfigChanged_def running_script_def by (intro keeps_steps keeps_diff; simp add: keeps_Raw)

lemma keeps_up: "allreq keeps_data (deployFromRender c pf h n r fs dir b)"
  unfolding deployFromRender_def deployNativeService_def deployViaInit_def exposeServicePorts_def exposeOne_def waitServiceUp_def
    waitPGPrimaryReady_def init_script_def up_script_def Let_def
  by (intro keeps_ops; simp add: keeps_Raw)


lemma keeps_execAll: "(\<And>x. x \<in> set ss \<Longrightarrow> x \<noteq> pg_wipe_script) \<Longrightarrow> allreq keeps_data (execAll c ss)"
  by (induction ss) (simp_all, intro keeps_steps, simp_all)

text \<open>No script of the table of uninstallations wipes the cluster either.\<close>

lemma uninstall_keeps: "x \<in> set (uninstall_scripts name) \<Longrightarrow> x \<noteq> pg_wipe_script"
proof -
  have "list_all (\<lambda>(k, u). list_all (\<lambda>s. hd s \<noteq> CHR ''s'' \<or> hd (tl s) \<noteq> CHR ''e'') (suScript u)) serviceUninstalls"
    by (simp add: serviceUninstalls_def)
  then have "hd s \<noteq> CHR ''s'' \<or> hd (tl s) \<noteq> CHR ''e''" if "(k, u) \<in> set serviceUninstalls" "s \<in> set (suScript u)" for k u s
    using that unfolding list_all_iff by blast
  then have "Raw s \<noteq> pg_wipe_script" if "mget serviceUninstalls name = Some u" "s \<in> set (suScript u)" for u s
    using that mget_in keeps_Raw by metis
  then show "x \<in> set (uninstall_scripts name) \<Longrightarrow> x \<noteq> pg_wipe_script"
    by (auto simp: uninstall_scripts_def split: option.splits) (metis keeps_Fmt, metis)
qed

lemma keeps_cleanup: "allreq keeps_data (cleanupStaleServices c desired)"
proof -
  have u: "allreq keeps_data (uninstallService c name)" for name
    unfolding uninstallService_def remove_script_def
    by (intro keeps_steps keeps_execAll; simp add: keeps_Raw uninstall_keeps)
  have "allreq keeps_data (cleanupEach c desired ns)" for ns
    by (induction ns) (auto intro!: keeps_steps u)
  then show ?thesis unfolding cleanupStaleServices_def list_script_def by (intro keeps_steps; simp add: keeps_Raw)
qed

section \<open>Where a wipe comes from\<close>

definition wipe_asked :: "ProvisionFile \<Rightarrow> ProvisionHost \<Rightarrow> ServiceConfig \<Rightarrow> bool" where
  "wipe_asked pf h cfg \<longleftrightarrow> (scRecreate cfg \<or> pgRecreateWanted pf) \<and> hName (pgPrimaryNode pf) = hName h"

lemma wirePGOn_keeps: "\<not> wipe_asked pf h cfg \<Longrightarrow> allreq keeps_data (wirePGOn c dir n cfg pf h)"
proof -
  assume "\<not> wipe_asked pf h cfg"
  then have g: "((scRecreate cfg \<or> pgRecreateWanted pf) \<and> hName (pgPrimaryNode pf) = hName h) = False"
    unfolding wipe_asked_def by blast
  show ?thesis unfolding wirePGOn_def g if_False by (intro keeps_ops keeps_pg_steps)
qed

lemma wireService_keeps: "name = ''pgsql-cluster'' \<longrightarrow> \<not> wipe_asked pf h cfg \<Longrightarrow> allreq keeps_data (wireService c dir n name cfg pf h)"
  unfolding wireService_def by (simp add: keeps_small_wires keeps_nats wirePGOn_keeps)

lemma deployServiceOn_keeps:
  "name = ''pgsql-cluster'' \<longrightarrow> \<not> wipe_asked pf h cfg \<Longrightarrow> allreq keeps_data (deployServiceOn c pf h name cfg)"
  unfolding deployServiceOn_def Let_def
  by (intro keeps_ops keeps_buildRenderData keeps_single keeps_changed wireService_keeps keeps_up; simp add: keeps_Raw)

lemma deployNamed_keeps:
  assumes "\<And>cfg. mget svcs ''pgsql-cluster'' = Some cfg \<Longrightarrow> \<not> wipe_asked pf h cfg" "mget svcs name \<noteq> None"
  shows "allreq keeps_data (deployNamed c pf h svcs name)"
  using assms unfolding deployNamed_def by (auto intro!: keeps_steps deployServiceOn_keeps)



text \<open>A host that asks for a fresh cluster, where every answer is a success.\<close>

definition pg_host :: ProvisionHost where
  "pg_host = zeroHost\<lparr>hName := ''p1'', hHost := ''10.0.0.1'', hServices := Some [(''pgsql-cluster'', zeroService\<lparr>scRecreate := True\<rparr>)]\<rparr>"

definition pg_file :: ProvisionFile where
  "pg_file = zeroFile\<lparr>pfHosts := [pg_host]\<rparr>"

definition pg_answer :: answer where
  "pg_answer = (ok_out '''')\<lparr>aProfs := [(''lite'', [])]\<rparr>"

lemma pg_services: "servicesOf pg_file pg_host = [(''pgsql-cluster'', zeroService\<lparr>scRecreate := True\<rparr>)]"
  by code_simp

lemma pg_primary: "pgPrimaryNode pg_file = pg_host" "pgNodes pg_file \<noteq> []"
  using pg_services by (simp_all add: pgPrimaryNode_def pgNodes_def pg_file_def mget_Cons)

lemma pg_fields: "aFiles pg_answer = []" "aOut pg_answer = ''''" "aErr pg_answer = None" "aSess pg_answer = None"
    "mget (aProfs pg_answer) ''lite'' = Some []"
  by (simp_all add: pg_answer_def ok_out_def mget_Cons)

lemma pg_steady:
  "steady pg_answer (runU c s w) = Inr ()" "steady pg_answer (callP q) = Inr ()" "steady pg_answer (askP q) = Inr pg_answer"
  "steady pg_answer (connectSSH d) = Inr d" "steady pg_answer (sshRun c s) = ('''', None)"
  by (simp_all add: runU_def callP_def askP_def connectSSH_def sshRun_def runResult_def pg_fields okP_def)

lemma pg_rendered: "\<exists>d. steady pg_answer (buildRenderData pg_file pg_host ''pgsql-cluster'' '''' cfg) = Inr d"
proof -
  have "\<exists>i. List.find (\<lambda>(m, b). matches m ''pgsql-cluster'') renderRules = Some (i, pgRenderData)"
    by (simp add: renderRules_def matches_def hasPrefix_def)
  then show ?thesis
    by (auto simp: buildRenderData_def steady_tryP pg_steady pg_fields orDefault_def pgRenderData_def pg_primary steady_bind)
qed

lemma calls_in_fst: "q \<in> set (calls a p) \<Longrightarrow> q \<in> set (calls a (tryP w p f))"
  by (simp add: calls_tryP)

lemma calls_in_deferReq: "q \<in> set (calls a p) \<Longrightarrow> q \<in> set (calls a (deferReq x p))"
  by (simp add: deferReq_def calls_bind)

lemma pg_wires:
  "Exec c pg_wipe_script \<in> set (calls pg_answer (wireService c svc (hName pg_host) ''pgsql-cluster'' (zeroService\<lparr>scRecreate := True\<rparr>) pg_file pg_host))"
proof -
  have g: "safeName (hName pg_host) = None" by code_simp
  have "Exec c pg_wipe_script \<in> set (calls pg_answer (cleanPGState c pg_file pg_host))"
    unfolding cleanPGState_def g option.case wipe_def runU_def by (intro calls_in_fst) (simp add: calls_bind calls_small)
  then show ?thesis
    by (simp add: wireService_def wirePGOn_def pg_primary g calls_in_fst)
qed

lemma pg_wipes: "Exec c pg_wipe_script \<in> set (calls pg_answer (deployServiceOn c pg_file pg_host ''pgsql-cluster'' (zeroService\<lparr>scRecreate := True\<rparr>)))"
proof -
  let ?n = "''pgsql-cluster''" and ?cfg = "zeroService\<lparr>scRecreate := True\<rparr>"
  have t: "resolveServiceTemplate ?n = Some ?n" "mget cfgFiles ?n = Some [''patroni.yml'', ''pgdog.toml'', ''docker-compose.yml'', ''pgbackrest.conf'']"
    by code_simp+
  have p: "scProfile ?cfg = ''''" by (simp add: zeroService_def)
  obtain d where d: "steady pg_answer (buildRenderData pg_file pg_host ?n '''' ?cfg) = Inr d" using pg_rendered by blast
  have m: "steady pg_answer (maybeWriteSingleVPS l x ?n y []) = Inr []" for l x y by (simp add: maybeWriteSingleVPS_def)
  have s: "\<exists>b. steady pg_answer (serviceConfigChanged c l [] r ?n) = Inr b" for l r
    by (simp add: serviceConfigChanged_def t steady_bind steady_tryP pg_steady) blast
  have u: "steady pg_answer (uploadDir c l [] r) = Inr ()" for l r
    by (simp add: uploadDir_def steady_tryP pg_steady pg_fields steady_small)
  show ?thesis unfolding deployServiceOn_def t option.case Let_def p
  proof (rule calls_in_tryP [OF d], rule calls_in_tryP [OF pg_steady(3)], rule calls_in_deferReq,
      rule calls_in_tryP [OF pg_steady(3)], unfold pg_fields, rule calls_in_tryP [OF m], rule calls_in_tryP [OF pg_steady(1)])
    from s obtain b where "steady pg_answer (serviceConfigChanged c '''' [] (serviceDir ?n) ?n) = Inr b" by blast
    then show "Exec c pg_wipe_script \<in> set (calls pg_answer (tryP id (serviceConfigChanged c '''' [] (serviceDir ?n) ?n) (\<lambda>recreate.
        tryP id (uploadDir c '''' [] (serviceDir ?n)) (\<lambda>_.
        tryP id (wireService c (serviceDir ?n) (hName pg_host) ?n ?cfg pg_file pg_host) (\<lambda>_.
        deployFromRender c pg_file pg_host ?n '''' [] (serviceDir ?n) recreate)))))"
      by (rule calls_in_tryP) (rule calls_in_tryP [OF u], rule calls_in_fst, rule pg_wires)
  qed
qed

lemma pg_run: "\<exists>t r c. runs (applyServicesOn pg_file pg_host) t r \<and> (Exec c pg_wipe_script, pg_answer) \<in> set t"
proof -
  let ?p = "applyServicesOn pg_file pg_host" and ?s = "[(''pgsql-cluster'', zeroService\<lparr>scRecreate := True\<rparr>)]"
  have o: "orderedServiceNames ?s = [''pgsql-cluster'']" by code_simp
  have f: "steady pg_answer (infraConnect ip f) = Inr (sshClient ip (ifUser f) (ifPort f) f)" for ip f
    by (simp add: infraConnect_def steady_tryP pg_steady)
  have w: "Exec c pg_wipe_script \<in> set (calls pg_answer (deployNamed c pg_file pg_host ?s ''pgsql-cluster''))" for c
    unfolding deployNamed_def by (rule calls_in_fst) (simp add: mget_Cons pg_wipes)
  have "\<exists>c. Exec c pg_wipe_script \<in> set (calls pg_answer ?p)"
    unfolding applyServicesOn_def pg_services Let_def withConn_def
    by (simp add: calls_bind calls_tryP f steady_close o) (use w in \<open>blast\<close>)
  then show ?thesis using steady_runs [of ?p pg_answer] by force
qed


section \<open>Where a restore comes from\<close>

text \<open>
  A restore runs only over an absent data directory and from a repository that holds a full
  backup: the answers to both questions come right before it.
\<close>

theorem restore_only_over_nothing:
  assumes "runs (pgRestoreIfEmpty c dir) t r" "(Exec c (pg_restore_script dir), a) \<in> set t"
  shows "\<exists>p q. t = [(Exec c pg_present_script, p), (Exec c pg_repo_script, q), (Exec c (pg_restore_script dir), a)] \<and>
    \<not> containsStr (fst (runResult pg_present_script p)) ''present'' \<and> containsStr (fst (runResult pg_repo_script q)) ''repo-ok''"
proof -
  have d: "pg_restore_script dir \<noteq> pg_present_script" "pg_restore_script dir \<noteq> pg_repo_script"
    by (simp_all add: pg_restore_script_def pg_present_script_def pg_repo_script_def)
  from assms d show ?thesis
    by (auto simp: pgRestoreIfEmpty_def runs_bind runs_sshRun runs_runU okP_def case_prod_unfold split: if_splits) (metis fst_conv)+
qed

end
