(* ===== verification/Templates.thy ===== *)
theory Templates imports ServiceDeploy begin

text \<open>
  The templates of services (\<open>templates/*.go\<close>): the table of templates, the scaffolding of a
  project from one of them, its test, the files a new service gets, and the rendering of a
  directory template, with the command \<open>deploy init\<close> that uses them. The directories that the
  build embeds are a tree (\<open>tree\<close>, its entries in the order of \<open>ReadDir\<close>); parsing and executing
  a template are parameters of the rendering.
\<close>

section \<open>The templates that are texts\<close>

definition htmlNginxConf :: string where
  \<open>htmlNginxConf =
''server {
    listen 80;
    server_name _;
    root /usr/share/nginx/html;
    index index.html;
    location / {
        try_files $uri $uri/ =404;
    }
}''\<close>

definition htmlIndex :: string where
  \<open>htmlIndex =
''<!DOCTYPE html>
<html lang="en">
<head>
    <meta charset="UTF-8">
    <meta name="viewport" content="width=device-width, initial-scale=1.0">
    <title>SDK Ops - Deployed</title>
    <style>
        body { font-family: system-ui, sans-serif; display: flex; justify-content: center; align-items: center; height: 100vh; margin: 0; background: #0f172a; color: #e2e8f0; }
        .card { text-align: center; padding: 2rem; }
        h1 { font-size: 2.5rem; margin-bottom: 0.5rem; }
        p { color: #94a3b8; }
    </style>
</head>
<body>
    <div class="card">
        <h1>Deployed with SDK Ops</h1>
        <p>Static site via sdk-ops deploy push</p>
    </div>
</body>
</html>''\<close>

definition htmlCompose :: string where
  \<open>htmlCompose =
''version: "3.8"
services:
  web:
    image: nginx:alpine
    ports:
      - "80:80"
    volumes:
      - ./nginx.conf:/etc/nginx/conf.d/default.conf:ro
      - ./:/usr/share/nginx/html:ro
''\<close>

definition nodePackageJSON :: string where
  \<open>nodePackageJSON =
''{
  "name": "app",
  "version": "1.0.0",
  "main": "server.js",
  "scripts": {
    "start": "node server.js"
  },
  "dependencies": {
    "express": "^4"
  }
}''\<close>

definition nodeServerJS :: string where
  \<open>nodeServerJS =
''const express = require("express");
const app = express();
const port = process.env.PORT || 3000;

app.get("/", (req, res) => {
  res.json({ status: "ok", service: process.env.SERVICE_NAME || "app" });
});

app.get("/health", (req, res) => {
  res.json({ status: "healthy" });
});

app.listen(port, () => {
  console.log("Listening on port", port);
});''\<close>

definition nodeDockerfile :: string where
  \<open>nodeDockerfile =
''FROM node:20-alpine
WORKDIR /app
COPY package.json ./
RUN npm install --production
COPY . .
EXPOSE 3000
CMD ["node", "server.js"]''\<close>

definition wpCompose :: string where
  \<open>wpCompose =
''version: "3.8"
services:
  db:
    image: mysql:8
    volumes:
      - db_data:/var/lib/mysql
    environment:
      MYSQL_ROOT_PASSWORD: ${MYSQL_ROOT_PASSWORD:-rootpass}
      MYSQL_DATABASE: ${MYSQL_DATABASE:-wordpress}
      MYSQL_USER: ${MYSQL_USER:-wpuser}
      MYSQL_PASSWORD: ${MYSQL_PASSWORD:-wppass}
    restart: always
  wordpress:
    image: wordpress:latest
    ports:
      - "80:80"
    environment:
      WORDPRESS_DB_HOST: db:3306
      WORDPRESS_DB_USER: ${MYSQL_USER:-wpuser}
      WORDPRESS_DB_PASSWORD: ${MYSQL_PASSWORD:-wppass}
      WORDPRESS_DB_NAME: ${MYSQL_DATABASE:-wordpress}
    volumes:
      - wp_data:/var/www/html
    depends_on:
      - db
    restart: always
volumes:
  db_data:
  wp_data:
''\<close>

definition wpServiceYAML :: string where
  \<open>wpServiceYAML =
''name: my-wordpress
# registry: your-registry.example.com
ports:
  - "80:80"
health:
  path: /wp-admin/install.php
  interval: 60
env:
  MYSQL_ROOT_PASSWORD: rootpass
  MYSQL_DATABASE: wordpress
  MYSQL_USER: wpuser
  MYSQL_PASSWORD: wppass
''\<close>

definition ghDeployYAML :: string where
  \<open>ghDeployYAML =
''name: Deploy
on:
  push:
    branches: [main]
jobs:
  deploy:
    runs-on: ubuntu-latest
    steps:
      - uses: actions/checkout@v4
      - name: Install sdk-ops
        run: |
          curl -sSL https://github.com/natuleadan/sdk-ops/releases/latest/download/sdk-ops-linux-amd64 -o /usr/local/bin/sdk-ops
          chmod +x /usr/local/bin/sdk-ops
      - name: Deploy to VPS
        run: |
          echo "${{ secrets.SDK_OPS_SSH_KEY }}" > /tmp/deploy-key
          chmod 600 /tmp/deploy-key
          sdk-ops deploy push . '' @
[CHR 0x5C] @
''
            --node ${{ secrets.SDK_OPS_NODE }} '' @
[CHR 0x5C] @
''
            --user ${{ secrets.SDK_OPS_USER }} '' @
[CHR 0x5C] @
''
            --key /tmp/deploy-key
''\<close>

definition glDeployYAML :: string where
  \<open>glDeployYAML =
''stages:
  - deploy
deploy:
  stage: deploy
  image: alpine:latest
  only:
    - main
  before_script:
    - apk add --no-cache curl openssh-client
    - curl -sSL https://github.com/natuleadan/sdk-ops/releases/latest/download/sdk-ops-linux-amd64 -o /usr/local/bin/sdk-ops
    - chmod +x /usr/local/bin/sdk-ops
    - mkdir -p ~/.ssh
    - chmod 700 ~/.ssh
    - echo "$SDK_OPS_SSH_KEY" > ~/.ssh/deploy-key
    - chmod 600 ~/.ssh/deploy-key
  script:
    - sdk-ops deploy push . --node "$SDK_OPS_NODE" --user "$SDK_OPS_USER" --key ~/.ssh/deploy-key
''\<close>

definition goDockerfile :: string where
  \<open>goDockerfile =
''FROM golang:1.26-alpine AS builder
WORKDIR /src
COPY go.mod ./
RUN go mod tidy
COPY . .
RUN CGO_ENABLED=0 go build -o /app .

FROM alpine:3.20
RUN apk add --no-cache ca-certificates
COPY --from=builder /app /app
EXPOSE 8080
CMD ["/app"]''\<close>

definition goMainGo :: string where
  \<open>goMainGo =
''package main

import (
'' @
[CHR 0x09] @
''"fmt"
'' @
[CHR 0x09] @
''"log"
'' @
[CHR 0x09] @
''"net/http"
'' @
[CHR 0x09] @
''"os"
)

func main() {
'' @
[CHR 0x09] @
''port := os.Getenv("PORT")
'' @
[CHR 0x09] @
''if port == "" {
'' @
[CHR 0x09, CHR 0x09] @
''port = "8080"
'' @
[CHR 0x09] @
''}

'' @
[CHR 0x09] @
''http.HandleFunc("/", func(w http.ResponseWriter, r *http.Request) {
'' @
[CHR 0x09, CHR 0x09] @
''name := os.Getenv("SERVICE_NAME")
'' @
[CHR 0x09, CHR 0x09] @
''if name == "" {
'' @
[CHR 0x09, CHR 0x09, CHR 0x09] @
''name = "app"
'' @
[CHR 0x09, CHR 0x09] @
''}
'' @
[CHR 0x09, CHR 0x09] @
''fmt.Fprintf(w, ''\<close>

definition goGoMod :: string where
  \<open>goGoMod =
''module app

go 1.26
''\<close>

definition nextjsDockerfile :: string where
  \<open>nextjsDockerfile =
''FROM node:20-alpine AS deps
WORKDIR /app
COPY package.json package-lock.json* ./
RUN npm ci --only=production

FROM node:20-alpine AS builder
WORKDIR /app
COPY --from=deps /app/node_modules ./node_modules
COPY . .
RUN npm run build

FROM node:20-alpine AS runner
WORKDIR /app
ENV NODE_ENV=production
COPY --from=builder /app/public ./public
COPY --from=builder /app/.next/standalone ./
COPY --from=builder /app/.next/static ./.next/static
EXPOSE 3000
CMD ["node", "server.js"]''\<close>

definition nextjsPackageJSON :: string where
  \<open>nextjsPackageJSON =
''{
  "name": "app",
  "version": "1.0.0",
  "scripts": {
    "dev": "next dev",
    "build": "next build",
    "start": "next start"
  },
  "dependencies": {
    "next": "^15",
    "react": "^19",
    "react-dom": "^19"
  }
}''\<close>

definition fastapiDockerfile :: string where
  \<open>fastapiDockerfile =
''FROM python:3.12-slim
WORKDIR /app
COPY requirements.txt ./
RUN pip install --no-cache-dir -r requirements.txt
COPY . .
EXPOSE 8000
CMD ["uvicorn", "main:app", "--host", "0.0.0.0", "--port", "8000"]''\<close>

definition fastapiRequirements :: string where
  \<open>fastapiRequirements =
''fastapi>=0.115.0
uvicorn[standard]>=0.32.0''\<close>

definition fastapiMain :: string where
  \<open>fastapiMain =
''from fastapi import FastAPI
from fastapi.responses import JSONResponse

app = FastAPI(title="sdk-ops app")


@app.get("/")
async def root():
    return {"status": "ok", "service": "app"}


@app.get("/health")
async def health():
    return JSONResponse({"status": "healthy"})
''\<close>

definition djangoDockerfile :: string where
  \<open>djangoDockerfile =
''FROM python:3.12-slim
WORKDIR /app
COPY requirements.txt ./
RUN pip install --no-cache-dir -r requirements.txt
COPY . .
EXPOSE 8000
CMD ["gunicorn", "--bind", "0.0.0.0:8000", "project.wsgi"]''\<close>

definition djangoRequirements :: string where
  \<open>djangoRequirements =
''django>=5.1.0
gunicorn>=23.0.0''\<close>

definition djangoManagePy :: string where
  \<open>djangoManagePy =
''#!/usr/bin/env python
"""Django's command-line utility for administrative tasks."""
import os
import sys


def main():
    os.environ.setdefault("DJANGO_SETTINGS_MODULE", "project.settings")
    try:
        from django.core.management import execute_from_command_line
    except ImportError as exc:
        raise ImportError("Couldn't import Django.") from exc
    execute_from_command_line(sys.argv)


if __name__ == "__main__":
    main()
''\<close>

definition djangoSettings :: string where
  \<open>djangoSettings =
''import os
from pathlib import Path

BASE_DIR = Path(__file__).resolve().parent
SECRET_KEY = os.environ.get("DJANGO_SECRET_KEY", "change-me")
DEBUG = os.environ.get("DJANGO_DEBUG", "True").lower() == "true"
ALLOWED_HOSTS = ["*"]
INSTALLED_APPS = ["django.contrib.contenttypes", "django.contrib.staticfiles"]
ROOT_URLCONF = "project.urls"
WSGI_APPLICATION = "project.wsgi.application"
LANGUAGE_CODE = "en-us"
TIME_ZONE = "UTC"
USE_TZ = True
STATIC_URL = "static/"
''\<close>

definition djangoUrls :: string where
  \<open>djangoUrls =
''from django.urls import path
from django.http import JsonResponse


def health(request):
    return JsonResponse({"status": "healthy"})


def root(request):
    return JsonResponse({"status": "ok", "service": "app"})


urlpatterns = [
    path("", root),
    path("health", health),
]
''\<close>

definition djangoWsgi :: string where
  \<open>djangoWsgi =
''import os
from django.core.wsgi import get_wsgi_application
os.environ.setdefault("DJANGO_SETTINGS_MODULE", "project.settings")
application = get_wsgi_application()
''\<close>

section \<open>The table\<close>

record template =
  tmName :: string
  tmDescription :: string
  tmFiles :: files
  tmIsDir :: bool
  tmDirName :: string

definition Templates :: "template dict" where
  \<open>Templates = [
     (''html'', \<lparr>tmName = ''html'', tmDescription = ''Static HTML site with Nginx'',
        tmFiles = [(''docker-compose.yml'', htmlCompose), (''nginx.conf'', htmlNginxConf), (''index.html'', htmlIndex)],
        tmIsDir = False, tmDirName = ''''\<rparr>),
     (''node'', \<lparr>tmName = ''node'', tmDescription = ''Node.js Express app'',
        tmFiles = [(''package.json'', nodePackageJSON), (''server.js'', nodeServerJS), (''Dockerfile'', nodeDockerfile)],
        tmIsDir = False, tmDirName = ''''\<rparr>),
     (''wordpress'', \<lparr>tmName = ''wordpress'', tmDescription = ''WordPress with MySQL'',
        tmFiles = [(''docker-compose.yml'', wpCompose), (''service.yaml'', wpServiceYAML)],
        tmIsDir = False, tmDirName = ''''\<rparr>),
     (''go'', \<lparr>tmName = ''go'', tmDescription = ''Go HTTP server (multi-stage build)'',
        tmFiles = [(''Dockerfile'', goDockerfile), (''main.go'', goMainGo), (''go.mod'', goGoMod)],
        tmIsDir = False, tmDirName = ''''\<rparr>),
     (''nextjs'', \<lparr>tmName = ''nextjs'', tmDescription = ''Next.js app (standalone output)'',
        tmFiles = [(''Dockerfile'', nextjsDockerfile), (''package.json'', nextjsPackageJSON), (''next.config.js'', ''module.exports = { output: "standalone" }''), (''pages/index.jsx'', ''export default function Home() { return <div><h1>Deployed with SDK Ops</h1></div> }''), (''pages/api/health.js'', ''export default function handler(req, res) { res.status(200).json({ status: "healthy" }) }'')],
        tmIsDir = False, tmDirName = ''''\<rparr>),
     (''python-fastapi'', \<lparr>tmName = ''python-fastapi'', tmDescription = ''FastAPI async Python app (uvicorn)'',
        tmFiles = [(''Dockerfile'', fastapiDockerfile), (''requirements.txt'', fastapiRequirements), (''main.py'', fastapiMain)],
        tmIsDir = False, tmDirName = ''''\<rparr>),
     (''django'', \<lparr>tmName = ''django'', tmDescription = ''Django project (gunicorn + settings)'',
        tmFiles = [(''Dockerfile'', djangoDockerfile), (''requirements.txt'', djangoRequirements), (''manage.py'', djangoManagePy), (''project/__init__.py'', ''''), (''project/settings.py'', djangoSettings), (''project/urls.py'', djangoUrls), (''project/wsgi.py'', djangoWsgi)],
        tmIsDir = False, tmDirName = ''''\<rparr>),
     (''pgsql-docker'', \<lparr>tmName = ''pgsql-docker'', tmDescription = ''PostgreSQL 18 + PgDog + 2 replicas + pgbackrest (compose on one VPS)'',
        tmFiles = [],
        tmIsDir = True, tmDirName = ''pgsql-docker''\<rparr>),
     (''df-dockerized'', \<lparr>tmName = ''df-dockerized'', tmDescription = ''Dragonfly KV cluster + 2 replicas + HAProxy TLS'',
        tmFiles = [],
        tmIsDir = True, tmDirName = ''df-dockerized''\<rparr>),
     (''libsql-dockerized'', \<lparr>tmName = ''libsql-dockerized'', tmDescription = ''libSQL (sqld) primary + 2 replicas + HAProxy TLS'',
        tmFiles = [],
        tmIsDir = True, tmDirName = ''libsql-dockerized''\<rparr>),
     (''nats-dockerized'', \<lparr>tmName = ''nats-dockerized'', tmDescription = ''NATS JetStream cluster node (R3, TLS/mTLS, at-rest)'',
        tmFiles = [],
        tmIsDir = True, tmDirName = ''nats-dockerized''\<rparr>),
     (''etcd'', \<lparr>tmName = ''etcd'', tmDescription = (''etcd DCS shared (3-member quorum 2/3) '' @ [CHR 0xE2, CHR 0x80, CHR 0x94] @ '' consensus for Patroni + services''),
        tmFiles = [],
        tmIsDir = True, tmDirName = ''etcd''\<rparr>),
     (''pgsql-bare'', \<lparr>tmName = ''pgsql-bare'', tmDescription = (''PostgreSQL bare-metal '' @ [CHR 0xE2, CHR 0x80, CHR 0x94] @ '' native postgres on the host (no Docker), single instance''),
        tmFiles = [],
        tmIsDir = True, tmDirName = ''pgsql-bare''\<rparr>),
     (''pgsql-cluster'', \<lparr>tmName = ''pgsql-cluster'', tmDescription = ''PostgreSQL HA cluster (Patroni + etcd DCS + PgDog + pgbackrest S3 + DR)'',
        tmFiles = [],
        tmIsDir = True, tmDirName = ''pgsql-cluster''\<rparr>),
     (''yuga-docker'', \<lparr>tmName = ''yuga-docker'', tmDescription = (''YugabyteDB distributed SQL '' @ [CHR 0xE2, CHR 0x80, CHR 0x94] @ '' 3 yugabyted nodes (masters+tservers, RF=3), YSQL+YCQL, backups to S3''),
        tmFiles = [],
        tmIsDir = True, tmDirName = ''yuga-docker''\<rparr>),
     (''yuga-bare'', \<lparr>tmName = ''yuga-bare'', tmDescription = (''YugabyteDB bare-metal '' @ [CHR 0xE2, CHR 0x80, CHR 0x94] @ '' official tarball + yugabyted start on the host (no Docker), YSQL+YCQL, backups to S3''),
        tmFiles = [],
        tmIsDir = True, tmDirName = ''yuga-bare''\<rparr>),
     (''yuga-cluster'', \<lparr>tmName = ''yuga-cluster'', tmDescription = (''YugabyteDB in k3s via the yugabyte-k8s-operator (helm) '' @ [CHR 0xE2, CHR 0x80, CHR 0x94] @ '' RF=3, no host ports, internal service DNS''),
        tmFiles = [],
        tmIsDir = True, tmDirName = ''yuga-cluster''\<rparr>),
     (''nats-cluster'', \<lparr>tmName = ''nats-cluster'', tmDescription = (''NATS JetStream R3 in k3s via the official nats helm chart '' @ [CHR 0xE2, CHR 0x80, CHR 0x94] @ '' JetStream file storage on PVC, internal service DNS''),
        tmFiles = [],
        tmIsDir = True, tmDirName = ''nats-cluster''\<rparr>),
     (''nats-bare'', \<lparr>tmName = ''nats-bare'', tmDescription = (''NATS bare-metal '' @ [CHR 0xE2, CHR 0x80, CHR 0x94] @ '' native nats-server binary + systemd on the host (no Docker), R3 mesh via peer_ip, TLS + JetStream''),
        tmFiles = [],
        tmIsDir = True, tmDirName = ''nats-bare''\<rparr>),
     (''df-cluster'', \<lparr>tmName = ''df-cluster'', tmDescription = (''Dragonfly in k3s via the official dragonflydb operator '' @ [CHR 0xE2, CHR 0x80, CHR 0x94] @ '' primary + replicas with automatic failover, internal service DNS''),
        tmFiles = [],
        tmIsDir = True, tmDirName = ''df-cluster''\<rparr>),
     (''df-bare'', \<lparr>tmName = ''df-bare'', tmDescription = (''Dragonfly bare-metal '' @ [CHR 0xE2, CHR 0x80, CHR 0x94] @ '' native dragonfly binary + systemd (primary + 2 replicas) + native HAProxy TLS''),
        tmFiles = [],
        tmIsDir = True, tmDirName = ''df-bare''\<rparr>),
     (''valkey-cluster'', \<lparr>tmName = ''valkey-cluster'', tmDescription = (''Native Valkey Cluster on k3s '' @ [CHR 0xE2, CHR 0x80, CHR 0x94] @ '' 3 primaries + 3 replicas (6 pods), 16384 hash slots sharded, cluster-native failover (no Sentinel), per-shard S3 backups''),
        tmFiles = [],
        tmIsDir = True, tmDirName = ''valkey-cluster''\<rparr>),
     (''pgsql-cnpg'', \<lparr>tmName = ''pgsql-cnpg'', tmDescription = (''PostgreSQL HA on k3s via CloudNativePG '' @ [CHR 0xE2, CHR 0x80, CHR 0x94] @ '' operator-managed primary + replicas, automatic failover, -rw/-ro services, native S3 backups (barman object store)''),
        tmFiles = [],
        tmIsDir = True, tmDirName = ''pgsql-cnpg''\<rparr>),
     (''etcd-cluster'', \<lparr>tmName = ''etcd-cluster'', tmDescription = (''etcd in k3s via the bitnami helm chart '' @ [CHR 0xE2, CHR 0x80, CHR 0x94] @ '' external DCS for in-cluster services needing etcd''),
        tmFiles = [],
        tmIsDir = True, tmDirName = ''etcd-cluster''\<rparr>),
     (''etcd-bare'', \<lparr>tmName = ''etcd-bare'', tmDescription = (''etcd bare-metal '' @ [CHR 0xE2, CHR 0x80, CHR 0x94] @ '' native etcd binary + systemd on the host (no Docker), 3-member quorum via peer_ip''),
        tmFiles = [],
        tmIsDir = True, tmDirName = ''etcd-bare''\<rparr>),
     (''crowdsec-cluster'', \<lparr>tmName = ''crowdsec-cluster'', tmDescription = (''CrowdSec WAF/IPS in k3s '' @ [CHR 0xE2, CHR 0x80, CHR 0x94] @ '' LAPI + agent via helm, Traefik bouncer plugin (stream / AppSec by profile) and default-deny NetworkPolicies''),
        tmFiles = [],
        tmIsDir = True, tmDirName = ''crowdsec-cluster''\<rparr>),
     (''crowdsec-bare'', \<lparr>tmName = ''crowdsec-bare'', tmDescription = (''CrowdSec bare-metal '' @ [CHR 0xE2, CHR 0x80, CHR 0x94] @ '' native engine + nftables firewall bouncer under systemd (pinned apt repo), standalone or client of a remote LAPI''),
        tmFiles = [],
        tmIsDir = True, tmDirName = ''crowdsec-bare''\<rparr>),
     (''crowdsec-dockerized'', \<lparr>tmName = ''crowdsec-dockerized'', tmDescription = (''CrowdSec in docker + the Traefik bouncer plugin auto-enabled on the sdk-ops host Traefik '' @ [CHR 0xE2, CHR 0x80, CHR 0x94] @ '' L7 WAF for docker fleets, standalone or client of a remote LAPI''),
        tmFiles = [],
        tmIsDir = True, tmDirName = ''crowdsec-dockerized''\<rparr>)]\<close>

section \<open>Embedded directories\<close>

definition nodeName :: "fnode \<Rightarrow> string" where
  "nodeName n = (case n of FNode name exe content \<Rightarrow> name | DNode name mode kids \<Rightarrow> name)"

primrec embeddedDir :: "string list \<Rightarrow> fnode list \<Rightarrow> fnode list option" where
  "embeddedDir [] kids = Some kids"
| "embeddedDir (p # ps) kids = (case List.find (\<lambda>n. nodeName n = p) kids of
     Some (DNode name mode ks) \<Rightarrow> embeddedDir ps ks
   | _ \<Rightarrow> None)"

definition embeddedFile :: "fnode list \<Rightarrow> string \<Rightarrow> string option" where
  "embeddedFile tree path =
     (let parts = splitOn CHR ''/'' path in
      case embeddedDir (butlast parts) tree of None \<Rightarrow> None
      | Some kids \<Rightarrow> (case List.find (\<lambda>n. nodeName n = last parts) kids of
          Some (FNode name exe content) \<Rightarrow> Some content
        | _ \<Rightarrow> None))"

definition missing :: "string \<Rightarrow> goerr" where
  "missing path = Ext (''open '' @ path @ '': file does not exist'')"

text \<open>The mode of a file that is written out: 0700 for a shell script, 0600 for the others.\<close>

definition modeOf :: "string \<Rightarrow> nat" where
  "modeOf name = (if hasSuffix name ''.sh'' then 448 else 384)"

section \<open>Scaffolding\<close>

text \<open>A directory inside the embedded tree can always be read, and so can its files.\<close>

fun scaffoldEntry :: "string \<Rightarrow> fnode \<Rightarrow> unit res prog" where
  "scaffoldEntry dir (FNode name exe content) =
     tryP (Wrapf ''write %s: %w'' [Str name]) (callP (WriteMode (pathJoin [dir, name]) (modeOf name) content)) (\<lambda>_. okP)"
| "scaffoldEntry dir (DNode name mode kids) =
     (let out = pathJoin [dir, name] in
      tryP (Wrapf ''create dir %s: %w'' [Str out]) (callP (MkDir out)) (\<lambda>_.
      eachP (scaffoldEntry out) kids))"

definition scaffoldDir :: "fnode list \<Rightarrow> string \<Rightarrow> string \<Rightarrow> unit res prog" where
  "scaffoldDir tree dirName absDir =
     (case embeddedDir (splitOn CHR ''/'' dirName) tree of
        None \<Rightarrow> fail (Wrapf ''read template dir: %w'' [] (missing dirName))
      | Some kids \<Rightarrow> eachP (scaffoldEntry absDir) kids)"

definition scaffoldFile :: "string \<Rightarrow> string \<times> string \<Rightarrow> unit res prog" where
  "scaffoldFile absDir f =
     (case f of (filename, content) \<Rightarrow>
      let path = pathJoin [absDir, filename]; d = pathDir path in
      tryP (Wrapf ''create dir %s: %w'' [Str d]) (callP (MkDir d)) (\<lambda>_.
      if content = ''''
      then tryP (Wrapf ''create %s: %w'' [Str filename]) (callP (WriteMode (pathClean path) 438 '''')) (\<lambda>_. okP)
      else tryP (Wrapf ''write %s: %w'' [Str filename]) (callP (WriteMode path 384 content)) (\<lambda>_. okP)))"

definition absPath :: "string \<Rightarrow> string res prog" where
  "absPath p = (if isAbs p then Ret (Inr (pathClean p))
     else tryP id (askP Getwd) (\<lambda>a. Ret (Inr (pathJoin [aOut a, p]))))"

definition Scaffold :: "fnode list \<Rightarrow> string \<Rightarrow> string \<Rightarrow> unit res prog" where
  "Scaffold tree name dir =
     (case mget Templates name of
        None \<Rightarrow> bind (mapOrder (keys Templates)) (\<lambda>names.
          fail (Errorf ''unknown template %q (use: %s)'' [Str name, Str (joinWith '', '' names)]))
      | Some t \<Rightarrow>
          tryP id (absPath dir) (\<lambda>absDir.
          tryP (Wrapf ''create dir: %w'' []) (callP (MkDir absDir)) (\<lambda>_.
          if tmIsDir t then scaffoldDir tree (tmDirName t) absDir
          else bind (mapOrder (tmFiles t)) (\<lambda>fs. eachP (scaffoldFile absDir) fs))))"

text \<open>The script is fed to a shell in the directory of the project.\<close>

definition RunTest :: "string \<Rightarrow> string \<Rightarrow> unit res prog" where
  "RunTest name dir =
     (case mget Templates name of
        None \<Rightarrow> fail (Errorf ''unknown template %q'' [Str name])
      | Some t \<Rightarrow>
          if \<not> tmIsDir t then fail (Errorf ''template %q has no test (not a directory template)'' [Str name])
          else let testScript = pathJoin [dir, ''test'', ''test.sh'']; cleanScript = pathClean testScript in
            Do (Stat testScript) (\<lambda>a.
            if aErr a \<noteq> None then fail (Errorf ''test script not found: %s (run deploy init first)'' [Str testScript])
            else if \<not> hasPrefix cleanScript (pathClean dir) then fail (Errorf ''test script path escapes template directory'' [])
            else tryP (Wrapf ''read test script: %w'' []) (readFile cleanScript) (\<lambda>text.
              callP (LocalIn dir ''/bin/sh'' [] text))))"

section \<open>The files of a new service\<close>

definition InitServiceYAML :: "string \<Rightarrow> string \<Rightarrow> unit res prog" where
  \<open>InitServiceYAML dir appName =
     (let path = pathJoin [dir, ''service.yaml''] in
      Do (Stat path) (\<lambda>a. if aErr a = None then okP
        else callP (WriteMode (pathClean path) 384 (sprintf ''name: %s
ports:
  - "80:80"
health:
  path: /
  interval: 30
'' [Str appName]))))\<close>

definition InitCICD :: "string \<Rightarrow> string \<Rightarrow> unit res prog" where
  "InitCICD dir ciType =
     (let go = (\<lambda>content path. tryP id (callP (MkDir (pathDir path))) (\<lambda>_. callP (WriteMode (pathClean path) 384 content))) in
      if ciType = ''github'' then go ghDeployYAML (pathJoin [dir, ''.github'', ''workflows'', ''deploy.yml''])
      else if ciType = ''gitlab'' then go glDeployYAML (pathJoin [dir, ''.gitlab-ci.yml''])
      else fail (Errorf ''unsupported CI: %s (use: github, gitlab)'' [Str ciType]))"

definition ValidateName :: "string \<Rightarrow> goerr option" where
  "ValidateName name = (if containsStr name '' '' then Some (Errorf ''name must not contain spaces'' []) else None)"

text \<open>\<open>deploy init\<close>: the errors of \<open>InitServiceYAML\<close> are only logged.\<close>

definition runDeployInit :: "fnode list \<Rightarrow> string \<Rightarrow> string \<Rightarrow> string \<Rightarrow> bool \<Rightarrow> string \<Rightarrow> unit res prog" where
  "runDeployInit tree tmpl appName ciType tested dir =
     (case ValidateName appName of Some e \<Rightarrow> fail e
      | None \<Rightarrow>
          tryP (Wrapf ''scaffold: %w'' []) (Scaffold tree tmpl dir) (\<lambda>_.
          bind (InitServiceYAML dir appName) (\<lambda>_.
          tryP (Wrapf ''ci init: %w'' []) (if ciType \<noteq> '''' then InitCICD dir ciType else okP) (\<lambda>_.
          tryP (Wrapf ''test failed: %w'' []) (if tested then RunTest tmpl dir else okP) (\<lambda>_. okP)))))"

section \<open>Rendering\<close>

definition skipRender :: "string list" where
  "skipRender = [''profiles.yaml'', ''README.md'', ''bench.md'', ''rps.sh'']"

definition renderVerbatim :: "string list" where
  "renderVerbatim = [''main.go'', ''main.go.txt'', ''go.mod'', ''go.sum'', ''Dockerfile'']"

definition hostport :: "string \<Rightarrow> string" where
  "hostport host = (if containsStr host '':'' then ''['' @ host @ '']'' else host)"

definition templateFuncs :: "(string \<times> (string \<Rightarrow> string)) list" where
  "templateFuncs = [(''hostport'', hostport)]"

text \<open>
  The engine: parsing a text with functions at hand, and executing what was parsed on the
  data, where a missing key is the zero value.
\<close>

record ('t, 'd) engine =
  enParse :: "(string \<times> (string \<Rightarrow> string)) list \<Rightarrow> string \<Rightarrow> string + 't"
  enExecute :: "'t \<Rightarrow> 'd \<Rightarrow> string + string"

definition renderFile :: "('t, 'd) engine \<Rightarrow> 'd \<Rightarrow> string \<Rightarrow> string \<Rightarrow> string res" where
  "renderFile en d name content =
     (if name \<notin> set renderVerbatim \<and> containsStr content ''{{''
      then (case enParse en templateFuncs content of
          Inl e \<Rightarrow> Inl (Wrapf ''parse template %s: %w'' [Str name] (Ext e))
        | Inr t \<Rightarrow> (case enExecute en t d of
            Inl e \<Rightarrow> Inl (Wrapf ''render %s: %w'' [Str name] (Ext e))
          | Inr out \<Rightarrow> Inr out))
      else Inr content)"

fun renderEntry :: "('t, 'd) engine \<Rightarrow> 'd \<Rightarrow> string \<Rightarrow> fnode \<Rightarrow> unit res prog" where
  "renderEntry en d dst (FNode name exe content) =
     (if name \<in> set skipRender then okP
      else case renderFile en d name content of Inl e \<Rightarrow> fail e
      | Inr out \<Rightarrow> let path = pathJoin [dst, name] in
          tryP (Wrapf ''write %s: %w'' [Str path]) (callP (WriteMode path (modeOf name) out)) (\<lambda>_. okP))"
| "renderEntry en d dst (DNode name mode kids) =
     (if name \<in> set skipRender then okP
      else let path = pathJoin [dst, name] in
        tryP (Wrapf ''create dir %s: %w'' [Str path]) (callP (MkDir path)) (\<lambda>_.
        eachP (renderEntry en d path) kids))"

definition renderWalk :: "('t, 'd) engine \<Rightarrow> 'd \<Rightarrow> fnode list \<Rightarrow> string \<Rightarrow> string \<Rightarrow> unit res prog" where
  "renderWalk en d tree dirName dst =
     (case embeddedDir (splitOn CHR ''/'' dirName) tree of
        None \<Rightarrow> fail (Wrapf ''read %s: %w'' [Str dirName] (missing dirName))
      | Some kids \<Rightarrow> eachP (renderEntry en d dst) kids)"

definition RenderTemplate :: "('t, 'd) engine \<Rightarrow> 'd \<Rightarrow> fnode list \<Rightarrow> string \<Rightarrow> string \<Rightarrow> unit res prog" where
  "RenderTemplate en d tree dirName outDir =
     tryP (Wrapf ''create render dir: %w'' []) (callP (MkDir (pathClean outDir))) (\<lambda>_. renderWalk en d tree dirName outDir)"

definition LoadProfiles :: "(string \<Rightarrow> string + rdata dict) \<Rightarrow> fnode list \<Rightarrow> string \<Rightarrow> rdata dict res" where
  "LoadProfiles unmarshal tree dirName =
     (case embeddedFile tree (pathJoin [dirName, ''profiles.yaml'']) of
        None \<Rightarrow> Inl (Wrapf ''read %s/profiles.yaml: %w'' [Str dirName] (missing (pathJoin [dirName, ''profiles.yaml''])))
      | Some text \<Rightarrow> (case unmarshal text of
          Inl e \<Rightarrow> Inl (Wrapf ''parse %s/profiles.yaml: %w'' [Str dirName] (Ext e))
        | Inr profiles \<Rightarrow> Inr profiles))"

end
