(* ===== verification/TemplateProps.thy ===== *)
theory TemplateProps imports Templates DeployProps begin

text \<open>
  What the templates guarantee: the table agrees with the directories the deployment uses, the
  rendered directory holds exactly the files of the template, and two commands that cannot work.
\<close>

section \<open>The table\<close>

text \<open>The directories of \<open>ServiceDeploy\<close> are those of the table, in its order.\<close>

theorem templateDirs_table: "templateDirs = map (\<lambda>(name, t). (name, tmDirName t)) Templates"
  by (simp add: templateDirs_def Templates_def)

text \<open>A template is a directory exactly when it has no files of its own.\<close>

lemma directory_templates: "(name, t) \<in> set Templates \<Longrightarrow> tmIsDir t \<longleftrightarrow> tmFiles t = []"
proof -
  have "list_all (\<lambda>(name, t). tmIsDir t \<longleftrightarrow> tmFiles t = []) Templates" by (simp add: Templates_def)
  then show "(name, t) \<in> set Templates \<Longrightarrow> tmIsDir t \<longleftrightarrow> tmFiles t = []" by (auto simp: list_all_iff)
qed

section \<open>The rendered directory\<close>

text \<open>A file reaches the output when no component of its path is metadata.\<close>

definition outputOf :: "('t, 'd) engine \<Rightarrow> 'd \<Rightarrow> string \<Rightarrow> fnode \<Rightarrow> (string \<times> nat \<times> string) \<Rightarrow> bool" where
  "outputOf en d dst n out \<longleftrightarrow> (\<exists>ps content exe text.
     fileAt n ps content exe \<and> set ps \<inter> set skipRender = {} \<and> renderFile en d (last ps) content = Inr text \<and>
     out = (foldl (\<lambda>p q. pathJoin [p, q]) dst ps, modeOf (last ps), text))"

definition written :: "trace \<Rightarrow> (string \<times> nat \<times> string) set" where
  "written t = {(p, m, c). \<exists>a. (WriteMode p m c, a) \<in> set t}"

lemma written_append [simp]: "written (t @ u) = written t \<union> written u"
  by (auto simp: written_def)

lemma written_eachP:
  assumes "\<And>x u. x \<in> set xs \<Longrightarrow> runs (f x) u (Inr ()) \<Longrightarrow> written u = g x"
  shows "runs (eachP f xs) t (Inr ()) \<Longrightarrow> written t = (\<Union>x \<in> set xs. g x)"
  using assms
proof (induction xs arbitrary: t)
  case (Cons a xs)
  from Cons.prems(1) obtain u v where t: "t = u @ v" and u: "runs (f a) u (Inr ())" and v: "runs (eachP f xs) v (Inr ())"
    by (auto elim: run_tryP_ok)
  have "written u = g a" by (rule Cons.prems(2) [OF _ u]) simp
  moreover have "written v = (\<Union>x \<in> set xs. g x)" by (rule Cons.IH [OF v Cons.prems(2)]) auto
  ultimately show ?case by (simp add: t)
qed (simp add: okP_def written_def)

lemma fileAt_parts: "fileAt n ps content exe \<Longrightarrow> ps \<noteq> []"
  by (cases rule: fileAt.cases) auto

lemma fileAt_FNode: "fileAt (FNode n x s) ps t y \<longleftrightarrow> ps = [n] \<and> t = s \<and> y = x"
  by (auto elim: fileAt_file intro: fileAt.here)

lemma outputs_file:
  "Collect (outputOf en d dst (FNode name exe content)) =
    (case renderFile en d name content of Inl e \<Rightarrow> {}
     | Inr text \<Rightarrow> if name \<in> set skipRender then {} else {(pathJoin [dst, name], modeOf name, text)})"
  by (auto simp: outputOf_def fileAt_FNode split: sum.splits)

lemma outputs_dir:
  "Collect (outputOf en d dst (DNode name mode kids)) =
    (if name \<in> set skipRender then {} else (\<Union>k \<in> set kids. Collect (outputOf en d (pathJoin [dst, name]) k)))"
proof -
  have "outputOf en d dst (DNode name mode kids) out \<longleftrightarrow>
      name \<notin> set skipRender \<and> (\<exists>k \<in> set kids. outputOf en d (pathJoin [dst, name]) k out)" for out
  proof
    assume "outputOf en d dst (DNode name mode kids) out"
    then obtain ps content exe str where f: "fileAt (DNode name mode kids) ps content exe" "set ps \<inter> set skipRender = {}"
      "renderFile en d (last ps) content = Inr str"
      "out = (foldl (\<lambda>p q. pathJoin [p, q]) dst ps, modeOf (last ps), str)" unfolding outputOf_def by blast
    from f(1) obtain k qs where k: "k \<in> set kids" "ps = name # qs" "fileAt k qs content exe" by (auto elim: fileAt_dir)
    with f fileAt_parts [OF k(3)] show "name \<notin> set skipRender \<and> (\<exists>k \<in> set kids. outputOf en d (pathJoin [dst, name]) k out)"
      unfolding outputOf_def by fastforce
  next
    assume "name \<notin> set skipRender \<and> (\<exists>k \<in> set kids. outputOf en d (pathJoin [dst, name]) k out)"
    then obtain k ps content exe str where k: "name \<notin> set skipRender" "k \<in> set kids" "fileAt k ps content exe"
      "set ps \<inter> set skipRender = {}" "renderFile en d (last ps) content = Inr str"
      "out = (foldl (\<lambda>p q. pathJoin [p, q]) (pathJoin [dst, name]) ps, modeOf (last ps), str)" unfolding outputOf_def by blast
    with fileAt.below [OF k(2,3)] fileAt_parts [OF k(3)] show "outputOf en d dst (DNode name mode kids) out"
      unfolding outputOf_def by (intro exI [of _ "name # ps"] exI [of _ content] exI [of _ exe] exI [of _ str]) auto
  qed
  then show ?thesis by auto
qed

lemma renderEntry_writes:
  "runs (renderEntry en d dst n) t (Inr ()) \<Longrightarrow> written t = Collect (outputOf en d dst n)"
proof (induction en d dst n arbitrary: t rule: renderEntry.induct)
  case (1 en d dst name exe content)
  then show ?case unfolding outputs_file
    by (auto simp: okP_def written_def Let_def fail_def callP_def runs_Do elim!: run_tryP_ok split: if_splits sum.splits option.splits)
next
  case (2 en d dst name mode kids)
  show ?case
  proof (cases "name \<in> set skipRender")
    case True
    with 2(2) show ?thesis unfolding outputs_dir by (simp add: okP_def written_def)
  next
    case False
    with 2(2) obtain u v where t: "t = u @ v" and u: "runs (callP (MkDir (pathJoin [dst, name]))) u (Inr ())"
      and v: "runs (eachP (renderEntry en d (pathJoin [dst, name])) kids) v (Inr ())" by (auto simp: Let_def elim: run_tryP_ok)
    from u have "written u = {}" by (auto simp: callP_def runs_Do written_def split: option.splits)
    moreover have "written v = (\<Union>k \<in> set kids. Collect (outputOf en d (pathJoin [dst, name]) k))"
      by (rule written_eachP [OF _ v]) (use 2(1) False in blast)
    ultimately show ?thesis using False unfolding outputs_dir t by simp
  qed
qed

text \<open>
  C37: What a template renders to. A rendering that succeeds writes, below the output directory,
  exactly the files of the template no component of whose path is metadata: each under its own
  path, shell scripts executable and the others readable by their owner, with the text the
  engine made of it, or its own text where it has no marker or is copied verbatim.
\<close>

theorem render_writes_exactly:
  assumes "runs (renderWalk en d tree dirName dst) t (Inr ())"
  shows "\<exists>kids. embeddedDir (splitOn CHR ''/'' dirName) tree = Some kids \<and>
    written t = (\<Union>n \<in> set kids. Collect (outputOf en d dst n))"
proof -
  from assms obtain kids where k: "embeddedDir (splitOn CHR ''/'' dirName) tree = Some kids"
    and e: "runs (eachP (renderEntry en d dst) kids) t (Inr ())"
    by (auto simp: renderWalk_def fail_def split: option.splits)
  have "written t = (\<Union>n \<in> set kids. Collect (outputOf en d dst n))"
    by (rule written_eachP [OF _ e]) (rule renderEntry_writes)
  with k show ?thesis by blast
qed

text \<open>A template of a configuration file, a script and a readme.\<close>

definition demo_engine :: "(string, string) engine" where
  "demo_engine = \<lparr>enParse = \<lambda>fs s. Inr s, enExecute = \<lambda>t d. Inr d\<rparr>"

definition demo_template :: "fnode list" where
  "demo_template = [DNode ''df'' 493 [FNode ''README.md'' False ''r'', FNode ''df.conf'' False ''{{.Port}}'', FNode ''up.sh'' True ''x'']]"

definition demo_render_run :: trace where
  "demo_render_run = [(WriteMode ''/o/df.conf'' 384 ''6379'', ok_out ''''), (WriteMode ''/o/up.sh'' 448 ''x'', ok_out '''')]"

lemma demo_paths: "pathJoin [''/o'', ''df.conf''] = ''/o/df.conf''" "pathJoin [''/o'', ''up.sh''] = ''/o/up.sh''"
    "splitOn CHR ''/'' ''df'' = [''df'']" "modeOf ''df.conf'' = 384" "modeOf ''up.sh'' = 448"
    "containsStr ''{{.Port}}'' ''{{''" "\<not> containsStr ''x'' ''{{''"
  by code_simp+

lemma demo_render_run_ok: "runs (renderWalk demo_engine ''6379'' demo_template ''df'' ''/o'') demo_render_run (Inr ())"
  by (simp add: renderWalk_def demo_paths demo_template_def nodeName_def skipRender_def renderFile_def renderVerbatim_def hasPrefix_def
    demo_engine_def demo_render_run_def tryP_def callP_def okP_def ok_out_def Let_def)

theorem render_writes_exactly_witness:
  "\<exists>t kids. runs (renderWalk demo_engine ''6379'' demo_template ''df'' ''/o'') t (Inr ()) \<and>
     (''/o/df.conf'', 384, ''6379'') \<in> written t \<and> embeddedDir (splitOn CHR ''/'' ''df'') demo_template = Some kids \<and>
     written t = (\<Union>n \<in> set kids. Collect (outputOf demo_engine ''6379'' ''/o'' n))"
proof -
  have "(''/o/df.conf'', 384, ''6379'') \<in> written demo_render_run" by (simp add: written_def demo_render_run_def)
  with render_writes_exactly [OF demo_render_run_ok] demo_render_run_ok show ?thesis by blast
qed

section \<open>Commands that cannot work\<close>

text \<open>
  Without \<open>--template\<close> the command lists the templates, as its help says, and then fails for the
  empty name.
\<close>

theorem init_without_template_fails: "results (\<lambda>r. r \<noteq> Inr ()) (runDeployInit tree '''' appName ciType tested dir)"
proof -
  have "mget Templates '''' = None" by code_simp
  then have "results (\<lambda>r. \<exists>e. r = Inl e) (Scaffold tree '''' dir)"
    by (auto simp: Scaffold_def fail_def intro!: results_bindI [OF results_True])
  then show ?thesis unfolding runDeployInit_def tryP_def
    by (auto simp: fail_def split: option.split intro: results_bindI)
qed

text \<open>A test in the current directory is refused: the script's path does not start with a dot.\<close>

theorem test_here_refused: "results (\<lambda>r. r \<noteq> Inr ()) (RunTest name ''.'')"
proof -
  have "pathClean (pathJoin [''.'', ''test'', ''test.sh'']) = ''test/test.sh''" "pathClean ''.'' = ''.''" by code_simp+
  then show ?thesis by (auto simp: RunTest_def Let_def fail_def hasPrefix_def split: option.splits)
qed

end
