(* ===== verification/SshAuth.thy ===== *)
theory SshAuth imports RunLemmas begin

text \<open>
  How the operator's machine proves itself to a node and what it asks of the node's key
  (\<open>ssh/client.go\<close>, \<open>newSSHClient\<close> of \<open>cmd/sdk-ops/main.go\<close>). \<open>Dial\<close> of \<open>Remote\<close> stands for a whole
  \<open>Connect\<close>; here it is taken apart. The agent, the parser of private keys and of the file of
  known hosts are calls of \<open>golang.org/x/crypto/ssh\<close>.
\<close>

section \<open>The client\<close>

record sshOptions =
  soHost :: string
  soPort :: int
  soUser :: string
  soKey :: string
  soPassword :: string
  soUsePW :: bool
  soInsecure :: bool

datatype sshOption = WithPort int | WithKey string | WithPassword string | WithInsecure

primrec applyOption :: "sshOptions \<Rightarrow> sshOption \<Rightarrow> sshOptions" where
  "applyOption c (WithPort p) = c\<lparr>soPort := p\<rparr>"
| "applyOption c (WithKey k) = c\<lparr>soKey := k\<rparr>"
| "applyOption c (WithPassword p) = c\<lparr>soPassword := p\<rparr>"
| "applyOption c WithInsecure = c\<lparr>soInsecure := True\<rparr>"

text \<open>\<open>os.IsNotExist\<close>: the text of an error of the operating system ends with that of its number.\<close>

definition isNotExist :: "answer \<Rightarrow> bool" where
  "isNotExist a = (case aErr a of None \<Rightarrow> False | Some m \<Rightarrow> hasSuffix m ''no such file or directory'')"

definition homeKey :: "string \<Rightarrow> string \<Rightarrow> string" where
  "homeKey home name = pathJoin [home, ''.ssh'', name]"

definition expandHome :: "string \<Rightarrow> string \<Rightarrow> string" where
  "expandHome home k = (case cutPrefix k ''~/'' of None \<Rightarrow> k | Some rest \<Rightarrow> pathJoin [home, rest])"

definition newClient :: "string \<Rightarrow> string \<Rightarrow> sshOption list \<Rightarrow> sshOptions prog" where
  "newClient host user opts =
     bind (getenv ''HOME'') (\<lambda>home.
     let c0 = foldl applyOption \<lparr>soHost = host, soPort = 22, soUser = user, soKey = homeKey home ''id_ed25519'',
           soPassword = '''', soUsePW = False, soInsecure = False\<rparr> opts;
         c1 = c0\<lparr>soKey := expandHome home (soKey c0)\<rparr> in
     Do (Stat (soKey c1)) (\<lambda>a.
     let c2 = (if isNotExist a then c1\<lparr>soKey := homeKey home ''id_rsa''\<rparr> else c1) in
     Do (Stat (soKey c2)) (\<lambda>b. Ret (if isNotExist b then c2\<lparr>soUsePW := True\<rparr> else c2))))"

text \<open>The global flags \<open>--insecure\<close> and \<open>--password\<close> are arguments.\<close>

definition newSSHClient :: "bool \<Rightarrow> string \<Rightarrow> string \<Rightarrow> string \<Rightarrow> int \<Rightarrow> string \<Rightarrow> sshOptions prog" where
  "newSSHClient insecure password host user port keyPath =
     bind (if password \<noteq> '''' then Ret [WithPassword password]
       else bind (getenv ''SDK_OPS_PASSWORD'') (\<lambda>pw. Ret (if pw \<noteq> '''' then [WithPassword pw] else []))) (\<lambda>pw.
     newClient host user (WithPort port # (if keyPath \<noteq> '''' then [WithKey keyPath] else []) @
       (if insecure then [WithInsecure] else []) @ pw))"

section \<open>The key of the node\<close>

definition strictHostKey :: "bool prog" where
  "strictHostKey = bind (getenv ''SDK_OPS_SSH_STRICT_HOST_KEY'') (\<lambda>v.
     if v = ''true'' then Ret True
     else bind (getenv ''SDK_OPS_SSH_STRICT_HOST_KEY'') (\<lambda>w. Ret (w = ''1'')))"

definition knownHostKeys :: "bool \<Rightarrow> hostPolicy res prog" where
  "knownHostKeys isStrict =
     bind (getenv ''HOME'') (\<lambda>home. let khPath = homeKey home ''known_hosts'' in
     Do (Library ''knownhosts.New'' [khPath]) (\<lambda>a. case aErr a of
         None \<Rightarrow> Ret (Inr (KnownHosts khPath))
       | Some m \<Rightarrow> if isStrict
           then fail (Wrapf ''known_hosts not available: %w (set SDK_OPS_SSH_STRICT_HOST_KEY=false to disable)'' [] (Ext m))
           else Ret (Inr AcceptAny)))"

definition hostKeyCallback :: "sshOptions \<Rightarrow> hostPolicy res prog" where
  "hostKeyCallback c = (if soInsecure c then Ret (Inr AcceptAny) else bind strictHostKey knownHostKeys)"

section \<open>The keys of the operator\<close>

definition agentSocket :: "string \<Rightarrow> string option" where
  "agentSocket authSock =
     (let sockPath = pathClean authSock in
      if authSock = '''' \<or> containsStr authSock ''..'' \<or> sockPath = ''.'' \<or> \<not> hasPrefix sockPath ''/'' \<or> containsStr sockPath ''..''
      then None else Some sockPath)"

definition tryAgentSigners :: "string list prog" where
  "tryAgentSigners =
     bind (getenv ''SSH_AUTH_SOCK'') (\<lambda>authSock. case agentSocket authSock of
       None \<Rightarrow> Ret []
     | Some sockPath \<Rightarrow>
         Do (Library ''net.DialUnix'' [''unix'', sockPath]) (\<lambda>a. if aErr a \<noteq> None then Ret []
         else Do (Library ''agent.Signers'' [sockPath]) (\<lambda>b.
           if aErr b \<noteq> None \<or> aList b = [] then Do (Library ''UnixConn.Close'' [sockPath]) (\<lambda>_. Ret [])
           else Ret (aList b))))"

definition tryPasswordAuth :: "authMethod list res prog" where
  "tryPasswordAuth = tryP (Wrapf ''read password: %w'' []) (askP (Library ''term.ReadPassword'' [])) (\<lambda>a.
     Ret (Inr [Password (aOut a)]))"

definition expandKeyPath :: "string \<Rightarrow> string prog" where
  "expandKeyPath p = (if hasPrefix p ''~/'' then bind (getenv ''HOME'') (\<lambda>home. Ret (expandHome home p)) else Ret p)"

definition tryKeySigner :: "string \<Rightarrow> string res prog" where
  "tryKeySigner p0 =
     bind (expandKeyPath p0) (\<lambda>keyPath.
     tryP (Wrapf ''read key %s: %w'' [Str keyPath]) (readFile (pathClean keyPath)) (\<lambda>key.
     tryP (Wrapf ''parse key %s: %w'' [Str keyPath]) (askP (Library ''ssh.ParsePrivateKey'' [key])) (\<lambda>a.
       Ret (Inr (aOut a)))))"

text \<open>The identities of the agent and the key file make one method, tried in this order.\<close>

definition authMethods :: "sshOptions \<Rightarrow> authMethod list res prog" where
  "authMethods c =
     (if soPassword c \<noteq> '''' then Ret (Inr [Password (soPassword c)])
      else if soUsePW c then tryPasswordAuth
      else bind tryAgentSigners (\<lambda>agents.
        bind (tryKeySigner (soKey c)) (\<lambda>r.
        let signers = agents @ (case r of Inl e \<Rightarrow> [] | Inr s \<Rightarrow> [s]) in
        if signers = [] then fail (Errorf ''no usable auth method (no agent identities and no readable key)'' [])
        else Ret (Inr [PublicKeys signers]))))"

text \<open>\<open>net.JoinHostPort\<close> puts a host with a colon into brackets.\<close>

definition joinHostPort :: "string \<Rightarrow> string \<Rightarrow> string" where
  "joinHostPort host port = (if CHR '':'' \<in> set host then ''['' @ host @ '']:'' @ port else host @ '':'' @ port)"

text \<open>\<open>Connect\<close>, up to the start of the probes of \<open>keepAlive\<close>; the timeout in seconds.\<close>

definition sshConnect :: "sshOptions \<Rightarrow> unit res prog" where
  "sshConnect c =
     tryP id (authMethods c) (\<lambda>auth.
     tryP (Wrapf ''host key callback: %w'' []) (hostKeyCallback c) (\<lambda>pol.
     let addr = joinHostPort (soHost c) (itoa (soPort c)) in
     tryP (Wrapf ''dial %s: %w'' [Str addr])
       (callP (DialSSH \<lparr>scUser = soUser c, scAuth = auth, scHostKeys = pol, scTimeout = 10, scAddr = addr\<rparr>)) (\<lambda>_. okP)))"

section \<open>Keeping a session alive\<close>

text \<open>
  One probe every fifteen seconds, with \<open>fails\<close> failed probes just before: whether the probes
  with these outcomes have closed the connection.
\<close>

fun keepAlive :: "nat \<Rightarrow> bool list \<Rightarrow> bool" where
  "keepAlive fails [] = False"
| "keepAlive fails (ok # oks) =
     (if ok then keepAlive 0 oks else if Suc fails \<ge> 3 then True else keepAlive (Suc fails) oks)"

text \<open>A connection is closed exactly when three probes in a row have failed.\<close>

lemma keepAlive_from:
  "fails < 3 \<Longrightarrow> keepAlive fails oks \<longleftrightarrow> sublist [False, False, False] (replicate fails False @ oks)"
proof (induction fails oks rule: keepAlive.induct)
  case (1 fails)
  then have "fails = 0 \<or> fails = 1 \<or> fails = 2" by arith
  then show ?case by (auto simp: numeral_2_eq_2 sublist_Cons_right)
next
  case (2 fails ok oks)
  then have f: "fails = 0 \<or> fails = 1 \<or> fails = 2" by arith
  show ?case
  proof (cases ok)
    case True
    with 2 f show ?thesis by (auto simp: numeral_2_eq_2 sublist_Cons_right)
  next
    case False
    with 2 f show ?thesis by (auto simp: numeral_2_eq_2 numeral_3_eq_3 sublist_Cons_right)
  qed
qed

theorem keepAlive_closes: "keepAlive 0 oks \<longleftrightarrow> sublist [False, False, False] oks"
  using keepAlive_from [of 0 oks] by simp

section \<open>What a connection accepts\<close>

definition strict_var :: string where
  "strict_var = ''SDK_OPS_SSH_STRICT_HOST_KEY''"

lemma strict_runs:
  assumes "runs strictHostKey t b" "v \<in> {''true'', ''1''}" "\<And>a. (Getenv strict_var, a) \<in> set t \<Longrightarrow> aOut a = v"
  shows b
  using assms by (auto simp: strictHostKey_def strict_var_def runs_bind runs_getenv split: if_splits)

lemma strict_policy:
  assumes "runs (hostKeyCallback c) t (Inr pol)" "\<not> soInsecure c"
    and v: "v \<in> {''true'', ''1''}" "\<And>a. (Getenv strict_var, a) \<in> set t \<Longrightarrow> aOut a = v"
  shows "\<exists>path a. pol = KnownHosts path \<and> (Library ''knownhosts.New'' [path], a) \<in> set t \<and> aErr a = None"
proof -
  from assms(1,2) obtain b u w where t: "t = u @ w" and s: "runs strictHostKey u b" and k: "runs (knownHostKeys b) w (Inr pol)"
    by (auto simp: hostKeyCallback_def runs_bind)
  have b using strict_runs [OF s v(1)] v(2) t by simp
  with k show ?thesis by (auto simp: t knownHostKeys_def runs_bind runs_getenv Let_def runs_Do fail_def split: option.splits)
qed

text \<open>Only the last step of \<open>Connect\<close> dials.\<close>

fun no_dial :: "req \<Rightarrow> bool" where
  "no_dial (DialSSH x) = False"
| "no_dial q = True"

lemma getenv_no_dial [prog_intros]: "allreq no_dial (getenv k)"
  by (simp add: getenv_def)

lemma auth_no_dial: "allreq no_dial (authMethods c)" "allreq no_dial (hostKeyCallback c)"
  unfolding authMethods_def tryPasswordAuth_def tryAgentSigners_def tryKeySigner_def expandKeyPath_def hostKeyCallback_def
    strictHostKey_def knownHostKeys_def Let_def readFile_def
  by (intro prog_intros allreq_branches; simp)+

lemma dialled:
  assumes "runs (sshConnect c) t r" "(DialSSH cfg, a) \<in> set t"
  obtains u v w auth pol where "t = u @ v @ w" "runs (authMethods c) u (Inr auth)" "runs (hostKeyCallback c) v (Inr pol)"
    "scAuth cfg = auth" "scHostKeys cfg = pol" "scUser cfg = soUser c"
proof -
  have d: "\<not> no_dial (DialSSH cfg)" by simp
  have n1: "runs (authMethods c) u s \<Longrightarrow> (DialSSH cfg, a) \<notin> set u" for u s by (rule never_runs [OF auth_no_dial(1) d])
  have n2: "runs (hostKeyCallback c) u s \<Longrightarrow> (DialSSH cfg, a) \<notin> set u" for u s by (rule never_runs [OF auth_no_dial(2) d])
  from assms n1 obtain u v auth where t: "t = u @ v" and u: "runs (authMethods c) u (Inr auth)" and m: "(DialSSH cfg, a) \<in> set v"
    and v: "runs (tryP (Wrapf ''host key callback: %w'' []) (hostKeyCallback c) (\<lambda>pol.
      let addr = joinHostPort (soHost c) (itoa (soPort c)) in
      tryP (Wrapf ''dial %s: %w'' [Str addr])
        (callP (DialSSH \<lparr>scUser = soUser c, scAuth = auth, scHostKeys = pol, scTimeout = 10, scAddr = addr\<rparr>)) (\<lambda>_. okP))) v r"
    unfolding sshConnect_def runs_tryP [of id] by auto
  from v m n2 obtain x y pol where y: "v = x @ y" "runs (hostKeyCallback c) x (Inr pol)" "(DialSSH cfg, a) \<in> set y"
    and w: "runs (let addr = joinHostPort (soHost c) (itoa (soPort c)) in
      tryP (Wrapf ''dial %s: %w'' [Str addr])
        (callP (DialSSH \<lparr>scUser = soUser c, scAuth = auth, scHostKeys = pol, scTimeout = 10, scAddr = addr\<rparr>)) (\<lambda>_. okP)) y r"
    unfolding runs_tryP [of "Wrapf ''host key callback: %w'' []"] by auto
  from w y(3) have "scAuth cfg = auth \<and> scHostKeys cfg = pol \<and> scUser cfg = soUser c"
    by (auto simp: runs_tryP Let_def callP_def runs_Do okP_def fail_def split: option.splits)
  with that [of u x y auth pol] t u y(1,2) show thesis by blast
qed


text \<open>A password that is given is the only proof offered.\<close>

theorem password_alone:
  assumes "runs (sshConnect c) t r" "(DialSSH cfg, a) \<in> set t" "soPassword c \<noteq> ''''"
  shows "scAuth cfg = [Password (soPassword c)]"
proof -
  from dialled [OF assms(1,2)] obtain u auth where "runs (authMethods c) u (Inr auth)" "scAuth cfg = auth" .
  with assms(3) show ?thesis by (simp add: authMethods_def)
qed

text \<open>A strict session and one with a password.\<close>

definition demo_options :: sshOptions where
  "demo_options = \<lparr>soHost = ''10.0.0.1'', soPort = 22, soUser = ''root'', soKey = ''/k'', soPassword = ''pw'', soUsePW = False, soInsecure = False\<rparr>"

definition demo_dial :: sshConfig where
  "demo_dial = \<lparr>scUser = ''root'', scAuth = [Password ''pw''], scHostKeys = KnownHosts (homeKey ''/root'' ''known_hosts''), scTimeout = 10, scAddr = ''10.0.0.1:22''\<rparr>"

definition demo_connect_run :: trace where
  "demo_connect_run = [(Getenv strict_var, ok_out ''true''), (Getenv ''HOME'', ok_out ''/root''),
     (Library ''knownhosts.New'' [homeKey ''/root'' ''known_hosts''], ok_out ''''), (DialSSH demo_dial, ok_out '''')]"

lemma demo_connect_run_ok: "runs (sshConnect demo_options) demo_connect_run (Inr ())"
proof -
  have a: "joinHostPort ''10.0.0.1'' (itoa 22) = ''10.0.0.1:22''" by (simp add: joinHostPort_def itoa_eval)
  show ?thesis
    by (simp add: sshConnect_def demo_options_def authMethods_def hostKeyCallback_def strictHostKey_def knownHostKeys_def tryP_def
      getenv_def demo_connect_run_def strict_var_def Let_def ok_out_def a callP_def okP_def demo_dial_def)
qed


end
