(* ===== verification/LocalConfig.thy ===== *)
theory LocalConfig imports SshAuth begin

text \<open>
  The files the library keeps and reads on the operator's machine: the record of a hardened
  server (\<open>hardening/hconfig.go\<close>), the configuration of a \<open>Server\<close> with its environment variables
  expanded (\<open>ops/config.go\<close>), and the credentials of the providers (\<open>providers/credentials.go\<close>).
  The YAML codecs are parameters.
\<close>

section \<open>Expanding environment variables\<close>

text \<open>\<open>os.Expand\<close> and its helper \<open>getShellName\<close>: the name after a dollar and how many bytes it takes.\<close>

definition specialVar :: "char \<Rightarrow> bool" where
  "specialVar c \<longleftrightarrow> c \<in> set ''*#$@!?-0123456789''"

definition nameChar :: "char \<Rightarrow> bool" where
  "nameChar c = (let n = (of_char c :: nat) in
     c = CHR ''_'' \<or> 48 \<le> n \<and> n \<le> 57 \<or> 97 \<le> n \<and> n \<le> 122 \<or> 65 \<le> n \<and> n \<le> 90)"

definition closingBrace :: "string \<Rightarrow> string \<times> nat" where
  "closingBrace rest =
     (let name = takeWhile (\<lambda>c. c \<noteq> CHR ''}'') rest in
      if length name = length rest then ('''', 1)
      else if name = '''' then ('''', 2) else (name, length name + 2))"

definition getShellName :: "string \<Rightarrow> string \<times> nat" where
  "getShellName s = (case s of [] \<Rightarrow> ('''', 0)
     | c # rest \<Rightarrow>
         if c = CHR ''{'' then (case rest of
             x # y # zs \<Rightarrow> if specialVar x \<and> y = CHR ''}'' then ([x], 3) else closingBrace rest
           | _ \<Rightarrow> closingBrace rest)
         else if specialVar c then ([c], 1)
         else let name = takeWhile nameChar s in (name, length name))"

function expandEnv :: "string \<Rightarrow> string prog" where
  "expandEnv [] = Ret ''''"
| "expandEnv (c # rest) =
     (if c = CHR ''$'' \<and> rest \<noteq> [] then
        (case getShellName rest of (name, w) \<Rightarrow>
          if name = '''' then bind (expandEnv (drop w rest)) (\<lambda>out. Ret (if w > 0 then out else c # out))
          else bind (getenv name) (\<lambda>v. bind (expandEnv (drop w rest)) (\<lambda>out. Ret (v @ out))))
      else bind (expandEnv rest) (\<lambda>out. Ret (c # out)))"
  by pat_completeness auto
termination by (relation "measure length") (auto simp: less_Suc_eq_le)

section \<open>The configuration of a server\<close>

record opsConfig =
  ocHost :: string
  ocUser :: string
  ocSSHKey :: string
  ocSSHPort :: int
  ocMode :: string

definition configModes :: "string list" where
  "configModes = [''k3s'', ''docker'', ''bare'']"

text \<open>The defaults, where \<open>home\<close> is the answer for the home directory.\<close>

definition withDefaults :: "string \<Rightarrow> opsConfig \<Rightarrow> opsConfig" where
  "withDefaults home c = c\<lparr>ocUser := (if ocUser c = '''' then ''root'' else ocUser c),
     ocSSHPort := (if ocSSHPort c = 0 then 22 else ocSSHPort c),
     ocMode := (if ocMode c = '''' then ''k3s'' else ocMode c),
     ocSSHKey := (if ocSSHKey c = '''' then homeKey home ''id_ed25519'' else ocSSHKey c)\<rparr>"

definition loadOpsConfig :: "(string \<Rightarrow> string + opsConfig) \<Rightarrow> string \<Rightarrow> opsConfig res prog" where
  "loadOpsConfig unmarshal path =
     tryP (Wrapf ''read config %s: %w'' [Str path]) (readFile (pathClean path)) (\<lambda>data.
     bind (expandEnv data) (\<lambda>text.
     case unmarshal text of Inl e \<Rightarrow> fail (Wrapf ''parse config: %w'' [] (Ext e))
     | Inr cfg \<Rightarrow>
         if ocHost cfg = '''' then fail (Errorf ''host is required in %s'' [Str path])
         else bind (if ocSSHKey cfg = '''' then getenv ''HOME'' else Ret '''') (\<lambda>home.
           let c = withDefaults home cfg in
           if ocMode c \<notin> set configModes then fail (Errorf ''invalid mode %q: must be k3s, docker, or bare'' [Str (ocMode c)])
           else Ret (Inr c))))"

section \<open>The record of a hardened server\<close>

record nodeInfo =
  niIP :: string
  niHostname :: string
  niOS :: string
  niUser :: string
  niSSHPort :: int
  niSSHKey :: string
  niMode :: string

record hardeningLog =
  hlApplied :: bool
  hlDate :: string
  hlSteps :: "string list"

record hardenedServer =
  hsNode :: nodeInfo
  hsHardening :: hardeningLog

text \<open>A failure to make the directory is logged.\<close>

definition ConfigDir :: "string prog" where
  "ConfigDir = bind (getenv ''HOME'') (\<lambda>home. let dir = pathJoin [home, ''.sdk-ops'', ''servers''] in
     Do (MkDir dir) (\<lambda>_. Ret dir))"

definition ConfigPath :: "string \<Rightarrow> string prog" where
  "ConfigPath ip = bind ConfigDir (\<lambda>dir. Ret (pathJoin [dir, ip @ ''.yaml'']))"

definition SaveServerConfig :: "(hardenedServer \<Rightarrow> string + string) \<Rightarrow> hardenedServer \<Rightarrow> unit res prog" where
  "SaveServerConfig marshal cfg =
     bind nowP (\<lambda>now.
     case marshal (cfg\<lparr>hsHardening := (hsHardening cfg)\<lparr>hlDate := now\<rparr>\<rparr>) of
       Inl e \<Rightarrow> fail (Ext e)
     | Inr data \<Rightarrow> bind (ConfigPath (niIP (hsNode cfg))) (\<lambda>path. callP (WriteMode path 384 data)))"

definition LoadServerConfig :: "(string \<Rightarrow> string + hardenedServer) \<Rightarrow> string \<Rightarrow> hardenedServer res prog" where
  "LoadServerConfig unmarshal ip =
     bind (ConfigPath ip) (\<lambda>path. tryP id (readFile path) (\<lambda>data.
     case unmarshal data of Inl e \<Rightarrow> fail (Ext e) | Inr cfg \<Rightarrow> Ret (Inr cfg)))"

definition ExportConfig :: "string \<Rightarrow> string \<Rightarrow> string \<Rightarrow> string \<Rightarrow> string \<Rightarrow> string \<Rightarrow> int \<Rightarrow> hardenedServer prog" where
  "ExportConfig ip hostname osName user key mode sshPort =
     bind nowP (\<lambda>now. Ret \<lparr>
       hsNode = \<lparr>niIP = ip, niHostname = hostname, niOS = osName, niUser = user, niSSHPort = sshPort, niSSHKey = key, niMode = mode\<rparr>,
       hsHardening = \<lparr>hlApplied = True, hlDate = now,
         hlSteps = [''install_packages'', ''create_user'', ''kernel_tuning'', ''fail2ban'', ''ssh_hardening'', ''nftables'']\<rparr>\<rparr>)"

definition serverConfigText :: "hardenedServer \<Rightarrow> string" where
  "serverConfigText c = (let n = hsNode c; l = hsHardening c in
     sprintf ''  Node: %s (%s)\<newline>'' [Str (niIP n), Str (niHostname n)] @
     sprintf ''  OS:   %s\<newline>'' [Str (niOS n)] @
     sprintf ''  User: %s  Port: %d  Mode: %s\<newline>'' [Str (niUser n), Num (niSSHPort n), Str (niMode n)] @
     sprintf ''  Hardening: %v (%s)\<newline>'' [Str (if hlApplied l then ''true'' else ''false''), Str (hlDate l)])"

section \<open>The credentials of the providers\<close>

record credentials =
  crCubePath :: string
  crHetzner :: string
  crDigitalOcean :: string
  crVultr :: string
  crBunny :: string
  crCloudflare :: string
  crCivo :: string
  crAWSRegion :: string
  crAWSProfile :: string

definition noCredentials :: credentials where
  "noCredentials = \<lparr>crCubePath = '''', crHetzner = '''', crDigitalOcean = '''', crVultr = '''', crBunny = '''', crCloudflare = '''',
     crCivo = '''', crAWSRegion = '''', crAWSProfile = ''''\<rparr>"

definition CredentialsPath :: "string prog" where
  "CredentialsPath = bind (getenv ''HOME'') (\<lambda>home. Ret (pathJoin [home, ''.sdk-ops'', ''credentials.yaml'']))"

text \<open>No file is no credentials.\<close>

definition LoadCredentials :: "(string \<Rightarrow> string + credentials) \<Rightarrow> credentials res prog" where
  "LoadCredentials unmarshal =
     bind CredentialsPath (\<lambda>path. Do (ReadFile (pathClean path)) (\<lambda>a.
       if isNotExist a then Ret (Inr noCredentials)
       else case aErr a of Some m \<Rightarrow> fail (Ext m)
         | None \<Rightarrow> (case unmarshal (aOut a) of Inl e \<Rightarrow> fail (Ext e) | Inr c \<Rightarrow> Ret (Inr c))))"

definition LoadCredentialsFromEnv :: "credentials prog" where
  "LoadCredentialsFromEnv =
     bind (getenv ''HETZNER_API_TOKEN'') (\<lambda>he. bind (getenv ''DIGITALOCEAN_TOKEN'') (\<lambda>dig. bind (getenv ''VULTR_API_KEY'') (\<lambda>vu.
     bind (getenv ''BUNNY_API_KEY'') (\<lambda>bu. bind (getenv ''CF_API_TOKEN'') (\<lambda>cf. bind (getenv ''CIVO_API_KEY'') (\<lambda>ci.
     bind (getenv ''AWS_REGION'') (\<lambda>re. bind (getenv ''AWS_PROFILE'') (\<lambda>pr.
     Ret (noCredentials\<lparr>crHetzner := he, crDigitalOcean := dig, crVultr := vu, crBunny := bu, crCloudflare := cf,
       crCivo := ci, crAWSRegion := re, crAWSProfile := pr\<rparr>)))))))))"

definition SaveCredentials :: "(credentials \<Rightarrow> string + string) \<Rightarrow> credentials \<Rightarrow> unit res prog" where
  "SaveCredentials marshal c =
     (case marshal c of Inl e \<Rightarrow> fail (Ext e)
      | Inr data \<Rightarrow>
          bind CredentialsPath (\<lambda>path.
          tryP id (callP (MkDir (pathDir path))) (\<lambda>_.
          bind CredentialsPath (\<lambda>path2. callP (WriteMode path2 384 data)))))"

section \<open>What a loaded configuration is\<close>

text \<open>
  A loaded configuration is complete: it has a host, a user, a port that is not zero and one of the
  three modes, and fields the file gives are kept.
\<close>

theorem loaded_config_complete:
  assumes "runs (loadOpsConfig unmarshal path) t (Inr c)"
  shows "ocHost c \<noteq> '''' \<and> ocUser c \<noteq> '''' \<and> ocSSHPort c \<noteq> 0 \<and> ocMode c \<in> {''k3s'', ''docker'', ''bare''} \<and>
    (\<exists>d cfg. unmarshal d = Inr cfg \<and> ocHost c = ocHost cfg \<and> (ocUser cfg \<noteq> '''' \<longrightarrow> ocUser c = ocUser cfg) \<and>
      (ocMode cfg \<noteq> '''' \<longrightarrow> ocMode c = ocMode cfg) \<and> (ocSSHPort cfg \<noteq> 0 \<longrightarrow> ocSSHPort c = ocSSHPort cfg))"
proof -
  from assms obtain d u where "runs (case unmarshal d of Inl e \<Rightarrow> fail (Wrapf ''parse config: %w'' [] (Ext e))
     | Inr cfg \<Rightarrow>
         if ocHost cfg = '''' then fail (Errorf ''host is required in %s'' [Str path])
         else bind (if ocSSHKey cfg = '''' then getenv ''HOME'' else Ret '''') (\<lambda>home.
           let c = withDefaults home cfg in
           if ocMode c \<notin> set configModes then fail (Errorf ''invalid mode %q: must be k3s, docker, or bare'' [Str (ocMode c)])
           else Ret (Inr c))) u (Inr c)"
    unfolding loadOpsConfig_def by (elim run_tryP_ok run_bind)
  then obtain cfg home where c: "unmarshal d = Inr cfg" "ocHost cfg \<noteq> ''''" "c = withDefaults home cfg"
      "ocMode (withDefaults home cfg) \<in> set configModes"
    by (auto simp: fail_def runs_bind Let_def split: sum.splits if_splits)
  then show ?thesis by (auto simp: withDefaults_def configModes_def)
qed

text \<open>A text without a dollar is its own expansion, and a variable is read once for each mention.\<close>

lemma expandEnv_plain: "CHR ''$'' \<notin> set s \<Longrightarrow> expandEnv s = Ret s"
  by (induction s) auto

text \<open>A name in braces is replaced by the value of the variable, whatever follows it.\<close>

lemma getShellName_braced:
  assumes "n \<noteq> ''''" "CHR ''}'' \<notin> set n"
  shows "getShellName (''{'' @ n @ ''}'' @ rest) = (n, length n + 2)"
proof -
  have "takeWhile (\<lambda>c. c \<noteq> CHR ''}'') (n @ CHR ''}'' # rest) = n" using assms(2) by (subst takeWhile_append2) auto
  then have c: "closingBrace (n @ CHR ''}'' # rest) = (n, length n + 2)" using assms(1) by (simp add: closingBrace_def)
  obtain x xs where x: "n = x # xs" using assms(1) by (cases n) auto
  show ?thesis
  proof (cases xs)
    case Nil
    with c x show ?thesis by (simp add: getShellName_def)
  next
    case (Cons y ys)
    with c x assms(2) show ?thesis by (auto simp: getShellName_def)
  qed
qed

theorem expandEnv_braced:
  assumes "n \<noteq> ''''" "CHR ''}'' \<notin> set n"
  shows "expandEnv (''${'' @ n @ ''}'' @ rest) = bind (getenv n) (\<lambda>v. bind (expandEnv rest) (\<lambda>out. Ret (v @ out)))"
proof -
  have "drop (length n + 2) (''{'' @ n @ ''}'' @ rest) = rest" by simp
  with getShellName_braced [OF assms, of rest] assms(1) show ?thesis by simp
qed

end
