(* ===== verification/NodeCommands.thy ===== *)
theory NodeCommands imports DeployPush OpsCommands Monitor LocalConfig begin

text \<open>
  Commands on one node and on local keys (\<open>cmd/sdk-ops/node.go\<close>, \<open>key.go\<close>), the rotation of
  secrets and the decryption of a file (\<open>cmd/sdk-ops/deploy.go\<close>), the swap file (\<open>swap.go\<close>) and the
  logs and the status of the cron stack (\<open>ops.go\<close>). A command whose result is what it prints
  returns it.
\<close>

section \<open>Nodes\<close>

definition nodeLine :: "nodeConfig \<Rightarrow> string" where
  "nodeLine n = sprintf ''    %s  user=%s  port=%d'' [Str (ncIP n), Str (ncUser n), Num (ncPort n)] @
     (if ncRole n \<noteq> '''' then ''  role='' @ ncRole n else '''') @
     (if ncArch n \<noteq> '''' then ''  arch='' @ ncArch n else '''') @
     (if ncMode n \<noteq> '''' then ''  mode='' @ ncMode n else '''')"

definition nodeList :: "string list res prog" where
  "nodeList = tryP (Wrapf ''load config: %w'' []) loadNodes (\<lambda>ns. Ret (Inr (
     if ns = [] then [''  No nodes registered. Add one with:'', ''    sdk-ops config add-node <ip> --user root'']
     else ''  Registered nodes:'' # map nodeLine ns)))"

definition onNode :: "string \<Rightarrow> string \<Rightarrow> string \<Rightarrow> int \<Rightarrow> (conn \<Rightarrow> 'a res prog) \<Rightarrow> 'a res prog" where
  "onNode ip user key port body =
     bind (nodeFlagsWithConfig ip user key port) (\<lambda>(u, k, p).
     tryP (Wrapf ''ssh connect: %w'' []) (connectSSH \<lparr>cHost = ip, cUser = u, cPort = p, cKey = k\<rparr>) (\<lambda>c. deferClose c (body c)))"

definition nodeInfoCmd :: "string \<Rightarrow> string \<Rightarrow> string \<Rightarrow> int \<Rightarrow> (nodeStats \<times> runtimeStatus \<times> nodeProcess list) res prog" where
  "nodeInfoCmd ip user key port = onNode ip user key port (\<lambda>c.
     tryP id (GetStats c) (\<lambda>stats.
     bind (GetRuntimeStatus c) (\<lambda>runtime.
     tryP id (GetTopProcesses c 8) (\<lambda>procs. Ret (Inr (stats, runtime, procs))))))"

definition nodeTop :: "string \<Rightarrow> string \<Rightarrow> string \<Rightarrow> int \<Rightarrow> unit res prog" where
  \<open>nodeTop ip user key port = onNode ip user key port (\<lambda>c.
     bind (execP c (Raw ''command -v htop >/dev/null 2>&1 || apt-get install -y -qq htop 2>&1'')) (\<lambda>_.
     tryP (Wrapf ''htop failed: %w'' []) (runPTY c (Raw ''htop'')) (\<lambda>_. okP)))\<close>

definition nodeExec :: "string \<Rightarrow> string \<Rightarrow> string \<Rightarrow> int \<Rightarrow> string list \<Rightarrow> string res prog" where
  "nodeExec ip user key port words = onNode ip user key port (\<lambda>c.
     runE c (Raw (joinWith '' '' words)) (wrapO ''command failed: %w\<newline>%s'' []))"

text \<open>\<open>node exec\<close>: with a group flag every argument belongs to the command.\<close>

definition execRunE :: "string list \<Rightarrow> bool \<Rightarrow> bool \<Rightarrow> bool \<Rightarrow> string \<Rightarrow> string \<Rightarrow> int \<Rightarrow> string res prog" where
  "execRunE args runAll runServers runAgents user key port =
     (if runAll \<or> runServers \<or> runAgents
      then tryP id (execRunAll (joinWith '' '' args) runAll runServers runAgents) (\<lambda>_. Ret (Inr ''''))
      else nodeExec (hd args) user key port (tl args))"

section \<open>Keys\<close>

text \<open>
  The names a key may have; \<open>unicodeName\<close> is what \<open>unicode.IsLetter\<close> and \<open>unicode.IsDigit\<close> say of the
  characters of a text beyond ASCII.
\<close>

definition wordChar :: "char \<Rightarrow> bool" where
  "wordChar c = (let n = (of_char c :: nat) in 48 \<le> n \<and> n \<le> 57 \<or> 97 \<le> n \<and> n \<le> 122 \<or> 65 \<le> n \<and> n \<le> 90 \<or>
     c = CHR ''-'' \<or> c = CHR ''_'' \<or> c = CHR ''.'')"

definition validateFileName :: "(string \<Rightarrow> bool) \<Rightarrow> string \<Rightarrow> bool" where
  "validateFileName unicodeName name \<longleftrightarrow> name \<noteq> '''' \<and>
     list_all (\<lambda>c. wordChar c \<or> (of_char c :: nat) \<ge> 128) name \<and>
     (list_all (\<lambda>c. (of_char c :: nat) < 128) name \<or> unicodeName (filter (\<lambda>c. (of_char c :: nat) \<ge> 128) name))"

definition keyDirOr :: "string \<Rightarrow> string prog" where
  "keyDirOr dir = (if dir = '''' then bind (getenv ''HOME'') (\<lambda>home. Ret (pathJoin [home, ''.sdk-ops'', ''keys''])) else Ret dir)"

text \<open>The directory is made and the path looked at before the name is checked.\<close>

definition keyGenerate :: "(string \<Rightarrow> bool) \<Rightarrow> string \<Rightarrow> string \<Rightarrow> string \<Rightarrow> (string \<times> string) res prog" where
  \<open>keyGenerate unicodeName name keyType dir =
     bind (keyDirOr dir) (\<lambda>keyDir.
     tryP (Wrapf ''create key dir: %w'' []) (callP (MkDir keyDir)) (\<lambda>_.
     let privPath = pathJoin [keyDir, name]; pubPath = privPath @ ''.pub'' in
     Do (Stat privPath) (\<lambda>a.
     if aErr a = None then fail (Errorf ''key %q already exists at %s'' [Str name, Str privPath])
     else if \<not> validateKeyType keyType then fail (Errorf ''unsupported key type: %q (use: ed25519, rsa, ecdsa)'' [Str keyType])
     else if \<not> validateFileName unicodeName name then fail (Errorf ''invalid key name: %q'' [Str name])
     else Do (LocalRun [] '''' ''ssh-keygen'' [''-t'', keyType, ''-f'', privPath, ''-N'', '''', ''-C'', ''sdk-ops '' @ name]) (\<lambda>b.
       case aErr b of Some m \<Rightarrow> fail (Wrapf (''ssh-keygen: %w'' @ [CHR 0x0A] @ ''%s'') [Str (aOut b)] (Ext m))
       | None \<Rightarrow> Ret (Inr (privPath, pubPath))))))\<close>

text \<open>The entries of the directory that are no public keys, each with what is shown beside it.\<close>

definition pubExt :: "string \<Rightarrow> bool" where
  "pubExt name \<longleftrightarrow> CHR ''.'' \<in> set name \<and> rev (takeWhile (\<lambda>c. c \<noteq> CHR ''.'') (rev name)) = ''pub''"

primrec keyRows :: "string \<Rightarrow> fnode list \<Rightarrow> (string \<times> string) list prog" where
  "keyRows keyDir [] = Ret []"
| "keyRows keyDir (n # ns) =
     (case n of
        DNode name mode kids \<Rightarrow> keyRows keyDir ns
      | FNode name exe content \<Rightarrow>
          if pubExt name then keyRows keyDir ns
          else Do (ReadFile (pathClean (pathJoin [keyDir, name @ ''.pub'']))) (\<lambda>a.
            bind (keyRows keyDir ns) (\<lambda>rows. Ret ((name, keyInfo (if aErr a = None then aOut a else '''')) # rows))))"

definition keyList :: "string \<Rightarrow> (string \<times> string) list res prog" where
  "keyList dir =
     bind (keyDirOr dir) (\<lambda>keyDir.
     Do (ReadDir keyDir) (\<lambda>a.
       if isNotExist a then Ret (Inr [])
       else case aErr a of Some m \<Rightarrow> fail (Wrapf ''read dir: %w'' [] (Ext m))
         | None \<Rightarrow> bind (keyRows keyDir (aTree a)) (\<lambda>rows. Ret (Inr rows))))"

definition keyDeploy :: "string \<Rightarrow> string \<Rightarrow> string \<Rightarrow> int \<Rightarrow> string \<Rightarrow> unit res prog" where
  \<open>keyDeploy name server sshUser sshPort dir =
     (if server = '''' then fail (Errorf ''--server is required'' [])
      else bind (keyDirOr dir) (\<lambda>keyDir.
        tryP (Wrapf ''read public key: %w'' []) (readFile (pathClean (pathJoin [keyDir, name @ ''.pub'']))) (\<lambda>pub.
        tryP (Wrapf ''ssh deploy: %w'' []) (callP (LocalRun [] '''' ''ssh''
          [sprintf ''-p%d'' [Num sshPort], sprintf ''%s@%s'' [Str sshUser, Str server],
           sprintf ''mkdir -p ~/.ssh && chmod 700 ~/.ssh && echo '%s' >> ~/.ssh/authorized_keys && chmod 600 ~/.ssh/authorized_keys'' [Str pub]])) (\<lambda>_. okP))))\<close>

section \<open>Secrets\<close>

definition rotateDBCmd :: "conn \<Rightarrow> string \<Rightarrow> string \<Rightarrow> string \<Rightarrow> string res prog" where
  "rotateDBCmd t dbKind newPass containerName = onService t (\<lambda>c.
     if dbKind \<notin> {''postgres'', ''mysql'', ''redis'', ''mongodb''}
     then fail (Errorf ''unsupported db type: %s (use: postgres, mysql, redis, mongodb)'' [Str dbKind])
     else tryP (Wrapf ''rotate db: %w'' []) (RotateDBPassword c dbKind containerName newPass) (\<lambda>pass.
       bind (stateRecord ''database'' containerName (cHost t) dbKind ''docker'' ''ok'' (Some [(''password'', pass)])) (\<lambda>_.
       Ret (Inr pass))))"

definition rotateEnvCmd :: "conn \<Rightarrow> string \<Rightarrow> string \<Rightarrow> string \<Rightarrow> unit res prog" where
  "rotateEnvCmd t envKey envValue serviceName =
     (if envKey = '''' then fail (Errorf ''--name is required (env var name)'' [])
      else onService t (\<lambda>c. tryP (Wrapf ''rotate env: %w'' []) (RotateServiceEnv c serviceName envKey envValue) (\<lambda>_. okP)))"

definition deployEncrypt :: "string \<Rightarrow> string \<Rightarrow> unit res prog" where
  "deployEncrypt path ageKey = (if ageKey = '''' then fail (Errorf ''--age-key is required'' []) else EncryptFile path ageKey)"

definition deployDecrypt :: "string \<Rightarrow> string res prog" where
  "deployDecrypt path = DecryptFile path"

section \<open>Swap\<close>

datatype swapCommand = SwapCreate | SwapUpdate | SwapRemove | SwapShow

definition swapCmd :: "swapCommand \<Rightarrow> string \<Rightarrow> infraFlags \<Rightarrow> unit res prog" where
  "swapCmd x node f = runSwapSimple node f (\<lambda>c. case x of
       SwapCreate \<Rightarrow> ApplySwap c
     | SwapUpdate \<Rightarrow> swapUpdate c
     | SwapRemove \<Rightarrow> RemoveSwap c
     | SwapShow \<Rightarrow> tryP id (SwapStatus c) (\<lambda>_. okP))"

section \<open>The cron stack\<close>

definition sortedOpsComponents :: "string list" where
  "sortedOpsComponents = sort (keys opsComponents)"

definition opsStatusScript :: "opsComponent \<Rightarrow> script" where
  \<open>opsStatusScript k =
     (if ocTimer k = '''' then Raw (''stat -c '%y' '' @ ocScriptPath k @ '' 2>/dev/null || echo missing'')
      else Raw (''ACT=$(systemctl is-active '' @ ocTimer k @ '' 2>/dev/null || echo inactive)
LAST=$(systemctl show -p LastTriggerUSec --value '' @ ocTimer k @
        '' 2>/dev/null || echo never)
LOG=$(tail -1 '' @ ocLogFile k @ '' 2>/dev/null || echo no log)
echo "timer=$ACT last=$LAST"
echo "log: $LOG"''))\<close>

text \<open>The lines shown for a host: one for the file without a timer, each line of the answer for the others.\<close>

primrec opsStatusOn :: "string list \<Rightarrow> conn \<Rightarrow> (string \<times> string) list prog" where
  "opsStatusOn [] c = Ret []"
| "opsStatusOn (name # names) c =
     (case mget opsComponents name of None \<Rightarrow> opsStatusOn names c
      | Some k \<Rightarrow> bind (sshRun c (opsStatusScript k)) (\<lambda>(out, _).
          bind (opsStatusOn names c) (\<lambda>rows.
          Ret (map (\<lambda>l. (name, l)) (if ocTimer k = '''' then [trimSpace out] else splitOn CHR 0x0A (trimSpace out)) @ rows))))"

definition opsStatus :: "(string \<Rightarrow> string + ProvisionFile) \<Rightarrow> string \<Rightarrow> string \<Rightarrow> infraFlags \<Rightarrow> unit res prog" where
  "opsStatus decode path node f = onTargets decode path node f (\<lambda>c pf h. bind (opsStatusOn sortedOpsComponents c) (\<lambda>_. okP))"

definition opsLogs :: "(string \<Rightarrow> string + ProvisionFile) \<Rightarrow> string \<Rightarrow> string \<Rightarrow> infraFlags \<Rightarrow> string \<Rightarrow> int \<Rightarrow> unit res prog" where
  \<open>opsLogs decode path node f component lines =
     (case mget opsComponents component of
        None \<Rightarrow> fail (Errorf ''unknown component %q (allowlist, security, state, traefik, logrotate)'' [Str component])
      | Some k \<Rightarrow> onTargets decode path node f (\<lambda>c pf h.
          bind (sshRun c (Fmt ''sudo tail -n %d %s 2>/dev/null || echo "no log"'' [Num lines, Str (ocLogFile k)])) (\<lambda>_. okP)))\<close>

section \<open>Which login is used\<close>

text \<open>
  The flags \<open>--user\<close> and \<open>--port\<close> of these commands default to \<open>root\<close> and 22, and a flag that
  is set wins over the registry: without flags the registered user and port are never used.
\<close>

theorem registered_login_ignored:
  "user \<noteq> '''' \<Longrightarrow> port \<noteq> 0 \<Longrightarrow> results (\<lambda>(u, k, p). u = user \<and> p = port) (nodeFlagsWithConfig ip user key port)"
  unfolding nodeFlagsWithConfig_def
  by (rule results_bindI [OF results_True])
    (auto simp: fromRegistry_def over_string_def orInt_def split: option.splits intro!: results_bindI [OF results_True])

text \<open>
  \<open>ssh-keygen\<close> runs only for a kind of key it knows and a name of letters, digits and \<open>-_.\<close>.
\<close>

theorem key_generate_guarded:
  "allreq (\<lambda>q. \<forall>env dir args. q = LocalRun env dir ''ssh-keygen'' args \<longrightarrow> validateKeyType keyType \<and> validateFileName unicodeName name)
     (keyGenerate unicodeName name keyType keyDir)"
  by (auto simp: keyGenerate_def keyDirOr_def Let_def getenv_def split: option.splits intro!: prog_intros allreq_Do)

lemma key_name_plain:
  assumes "validateFileName unicodeName name" "c \<in> set name" "(of_char c :: nat) < 128"
  shows "wordChar c"
proof -
  from assms(1,2) have "wordChar c \<or> (of_char c :: nat) \<ge> 128" by (auto simp: validateFileName_def list_all_iff)
  with assms(3) show ?thesis by linarith
qed

end
