(* ===== verification/StatusCommands.thy ===== *)
theory StatusCommands imports Monitor ClusterCommands NodeCommands begin

text \<open>
  The commands that look at the fleet: \<open>state show\<close> and \<open>state sync\<close> (\<open>cmd/sdk-ops/state.go\<close>) with
  the mutex that guards the state file, the dashboard of \<open>status\<close> (\<open>cmd/sdk-ops/status.go\<close>) and of
  \<open>node info\<close> (\<open>monitor/stats.go\<close>) as the texts they print, the subcommands of \<open>cluster\<close>
  (\<open>cmd/sdk-ops/cluster.go\<close>), and the installation of hooks (\<open>hooks/hooks.go\<close>).
\<close>

section \<open>The tracked resources\<close>

definition colorReset :: string where "colorReset = CHR 0x1B # ''[0m''"
definition colorGreen :: string where "colorGreen = CHR 0x1B # ''[32m''"
definition colorYellow :: string where "colorYellow = CHR 0x1B # ''[33m''"
definition colorRed :: string where "colorRed = CHR 0x1B # ''[31m''"
definition colorCyan :: string where "colorCyan = CHR 0x1B # ''[36m''"
definition colorBold :: string where "colorBold = CHR 0x1B # ''[1m''"

definition matchingResources :: "string \<Rightarrow> string \<Rightarrow> resource list \<Rightarrow> resource list" where
  "matchingResources resType node rs =
     filter (\<lambda>r. (resType = '''' \<or> rsType r = resType) \<and> (node = '''' \<or> rsNode r = node)) rs"

definition resourceColor :: "resource \<Rightarrow> string" where
  "resourceColor r = (if rsStatus r \<in> {''unhealthy'', ''error''} then colorRed
     else if rsStatus r = ''warning'' then colorYellow else colorGreen)"

text \<open>
  The rows of \<open>state show\<close>, each with the colour of its status and the version shown.
  \<open>sort.Slice\<close> may leave rows of one type and name in any order.
\<close>

definition stateShow :: "string \<Rightarrow> string \<Rightarrow> (resource \<times> string \<times> string) list res prog" where
  "stateShow resType node =
     tryP (Wrapf ''load state: %w'' []) (askP LoadState) (\<lambda>a.
     bind (mapOrder (matchingResources resType node (aRes a))) (\<lambda>rows.
     Ret (Inr (map (\<lambda>r. (r, resourceColor r, if rsVersion r = '''' then ''-'' else rsVersion r))
       (sort_key rsType (sort_key rsName rows))))))"

section \<open>The synchronisation of all nodes\<close>

text \<open>
  One goroutine per node, all at once. They share a mutex, which a goroutine takes before it
  loads the state file for a record and releases when the record is saved or the load has
  failed: it holds the mutex while its next request is the clock or the save of a record, and
  it waits while its next request is a load and another one holds the mutex.
\<close>

fun holding :: "'a prog \<Rightarrow> bool" where
  "holding (Do Now k) = True"
| "holding (Do (SaveState rs) k) = True"
| "holding p = False"

fun acquiring :: "'a prog \<Rightarrow> bool" where
  "acquiring (Do LoadState k) = True"
| "acquiring p = False"

definition runnable :: "'a prog list \<Rightarrow> nat list" where
  "runnable ps = filter (\<lambda>i. \<not> finished (ps ! i) \<and>
     \<not> (acquiring (ps ! i) \<and> (\<exists>j \<in> set [0..<length ps]. holding (ps ! j)))) [0..<length ps]"

lemma in_runnable: "i \<in> set (runnable ps) \<Longrightarrow> i < length ps \<and> \<not> finished (ps ! i)"
  unfolding runnable_def by simp

lemma pick_in: "is \<noteq> [] \<Longrightarrow> pick is a \<in> set is"
  unfolding pick_def by (rule nth_mem) simp

function (sequential) lockWave :: "'a res prog list \<Rightarrow> 'a list res prog" where
  "lockWave ps =
     (if crash ps \<noteq> None then Ret (Inl (the (crash ps)))
      else if runnable ps = [] then Ret (Inr (outcomes ps))
      else Do (Sched (runnable ps)) (\<lambda>s.
        case ps ! pick (runnable ps) s of
          Do q k \<Rightarrow> Do q (\<lambda>a. lockWave (ps[pick (runnable ps) s := k a]))
        | Ret x \<Rightarrow> Ret (Inr (outcomes ps))))"
  by pat_completeness auto
termination
proof (relation "inv_image (mult subprog) mset")
  show "wf (inv_image (mult subprog) mset)" by (intro wf_inv_image wf_mult wf_subprog)
next
  fix ps :: "'a res prog list" and s a q k
  assume r: "runnable ps \<noteq> []" and k: "ps ! pick (runnable ps) s = Do q k"
  from in_runnable [OF pick_in [OF r]] have "pick (runnable ps) s < length ps" by blast
  moreover have "(k a, ps ! pick (runnable ps) s) \<in> subprog" using k by (auto simp: subprog_def)
  ultimately show "(ps[pick (runnable ps) s := k a], ps) \<in> inv_image (mult subprog) mset" by (simp add: mult_update)
qed

declare lockWave.simps [simp del]

definition syncTask :: "conn \<Rightarrow> nat res prog" where
  "syncTask target = bind (syncSingleNode target) (\<lambda>n. Ret (Inr n))"

definition stateSync :: "string \<Rightarrow> string \<Rightarrow> string \<Rightarrow> int \<Rightarrow> nat res prog" where
  "stateSync node user key port =
     tryP (Wrapf ''load config: %w'' []) loadNodes (\<lambda>ns.
     bind (nodeTargets ns node user key port) (\<lambda>targets.
     if targets = [] then fail (Errorf ''no nodes registered or specified'' [])
     else tryP id (lockWave (map syncTask targets)) (\<lambda>counts. Ret (Inr (sum_list counts)))))"

section \<open>The dashboard\<close>

definition tick :: string where "tick = [CHR 0xE2, CHR 0x9C, CHR 0x93]"
definition cross :: string where "cross = [CHR 0xE2, CHR 0x9C, CHR 0x97]"

text \<open>The text of an error: \<open>%w\<close> stands for the text of the error it wraps.\<close>

fun splitW :: "string \<Rightarrow> string \<times> nat \<times> string" where
  "splitW [] = ([], 0, [])"
| "splitW [c] = ([c], 0, [])"
| "splitW (c # d # cs) =
     (if c = CHR ''%'' \<and> d = CHR ''w'' then ([], 0, cs)
      else if c = CHR ''%'' then (case splitW cs of (a, n, b) \<Rightarrow> (c # d # a, if d = CHR ''%'' then n else Suc n, b))
      else (case splitW (d # cs) of (a, n, b) \<Rightarrow> (c # a, n, b)))"

primrec errText :: "goerr \<Rightarrow> string" where
  "errText (Ext m) = m"
| "errText (Errorf f as) = sprintf f as"
| "errText (Wrapf f as e) = (case splitW f of (a, n, b) \<Rightarrow> sprintf a (take n as) @ errText e @ sprintf b (drop n as))"
| "errText (Panic m) = m"

definition line :: "string \<Rightarrow> string" where "line s = s @ [CHR 0x0A]"

definition statusRenderNodeHeader :: "statusResult \<Rightarrow> string" where
  "statusRenderNodeHeader r =
     (let host = (if strHostname r = '''' then strIP r else strHostname r);
          label = (case strRt r of None \<Rightarrow> '''' | Some rt \<Rightarrow> runtimeLabel rt);
          shown = (if label \<noteq> '''' then sprintf ''%s [%s]'' [Str host, Str label] else host);
          agent = (if strAgent r = ''healthy'' then sprintf ''  %sagent %s%s'' [Str colorGreen, Str tick, Str colorReset]
                   else if strAgent r = ''offline'' then sprintf ''  %sagent %s%s'' [Str colorRed, Str cross, Str colorReset]
                   else sprintf ''  %sagent ?%s'' [Str colorYellow, Str colorReset])
      in line (sprintf ''  %s%s%s'' [Str colorBold, Str (shown @ agent), Str colorReset]))"

definition colorForPct :: "int \<Rightarrow> string" where
  "colorForPct pct = (if pct \<ge> 90 then colorRed else if pct \<ge> 70 then colorYellow else colorGreen)"

definition pctText :: "int \<Rightarrow> string" where
  "pctText pct = sprintf ''%s%d%%%s'' [Str (colorForPct pct), Num pct, Str colorReset]"

definition statusRenderNodeStats :: "statusResult \<Rightarrow> string" where
  "statusRenderNodeStats r = (case strStats r of None \<Rightarrow> '''' | Some s \<Rightarrow>
     line (sprintf ''  CPU:    %s  load: %s'' [Str (pctText (parsePercent (nsCPU s))), Str (nsCPULoad s)]) @
     (if nsMemUsed s \<noteq> '''' \<and> nsMemTotal s \<noteq> ''''
      then line (sprintf ''  Mem:    %s  (%s / %s)'' [Str (pctText (parsePercent (nsMemory s))), Str (nsMemUsed s), Str (nsMemTotal s)]) else '''') @
     (if nsDiskUsed s \<noteq> '''' \<and> nsDiskSize s \<noteq> ''''
      then line (sprintf ''  Disk:   %s  (%s / %s)'' [Str (pctText (parsePercentStr (nsDisk s))), Str (nsDiskUsed s), Str (nsDiskSize s)]) else '''') @
     (if nsKernel s \<noteq> '''' then line (sprintf ''  Kernel: %s'' [Str (nsKernel s)]) else '''') @
     (if nsUptime s \<noteq> '''' then line (sprintf ''  Uptime: %s'' [Str (nsUptime s)]) else ''''))"

definition statusRenderRuntime :: "statusResult \<Rightarrow> string" where
  "statusRenderRuntime r = (case strRt r of None \<Rightarrow> '''' | Some rt \<Rightarrow>
     (if rtDockerVer rt \<noteq> '''' then line (sprintf ''  Docker: %s  (running: %s)'' [Str (rtDockerVer rt), Str (rtDockerOK rt)]) else '''') @
     (if rtK3sVersion rt \<noteq> '''' then line (sprintf ''  k3s:    %s  (running: %s)'' [Str (rtK3sVersion rt), Str (rtK3sRunning rt)]) else ''''))"

fun serviceLines :: "string list \<Rightarrow> string list \<Rightarrow> string" where
  "serviceLines [] sts = ''''"
| "serviceLines (svc # svcs) sts =
     (let (color, icon) = (case sts of [] \<Rightarrow> (colorYellow, ''?'')
            | st # _ \<Rightarrow> if st = ''ok'' then (colorGreen, tick) else (colorRed, cross))
      in line (sprintf ''    %s%s %s%s'' [Str color, Str icon, Str svc, Str colorReset])) @ serviceLines svcs (tl sts)"

definition statusRenderServices :: "statusResult \<Rightarrow> string" where
  "statusRenderServices r =
     (if strServices r \<noteq> [] then line (sprintf ''  Services (%d):'' [Num (int (length (strServices r)))]) @
        serviceLines (strServices r) (strSvcStatuses r)
      else line (sprintf ''  %sServices: none%s'' [Str colorYellow, Str colorReset]))"

definition statusRenderNode :: "statusResult \<Rightarrow> string" where
  "statusRenderNode r = line (sprintf ''  %s--- %s ---%s'' [Str colorCyan, Str (strIP r), Str colorReset]) @
     (case strErr r of
        Some e \<Rightarrow> line (sprintf ''  %s%s %s%s'' [Str colorRed, Str cross, Str (errText e), Str colorReset]) @ line ''''
      | None \<Rightarrow> statusRenderNodeHeader r @ statusRenderNodeStats r @ statusRenderRuntime r @ statusRenderServices r @ line '''')"

definition countLine :: "string \<Rightarrow> nat \<Rightarrow> string \<Rightarrow> string" where
  "countLine color n what = (if n > 0 then line (sprintf ''  %s  %d %s%s'' [Str color, Num (int n), Str what, Str colorReset]) else '''')"

definition statusRenderSummary :: "nat \<Rightarrow> statusCount \<Rightarrow> string" where
  "statusRenderSummary nodes n =
     line (sprintf ''  %s--- Summary ---%s'' [Str colorBold, Str colorReset]) @
     line (sprintf ''  Nodes:    %d total'' [Num (int nodes)]) @
     countLine colorGreen (scHealthy n) ''healthy'' @ countLine colorYellow (scWarn n) ''warning'' @
     countLine colorRed (scCritical n) ''critical'' @
     (if scServices n > 0 then line (sprintf ''  Services: %d total'' [Num (int (scServices n))]) else '''') @ line ''''"

definition statusRenderAll :: "nat \<Rightarrow> statusResult list \<Rightarrow> string" where
  "statusRenderAll nodes rs =
     line '''' @ line (sprintf ''  %ssdk-ops status %s %d node(s)%s'' [Str colorBold, Str [CHR 0xE2, CHR 0x80, CHR 0x94], Num (int nodes), Str colorReset]) @
     line '''' @ concat (map statusRenderNode rs) @ statusRenderSummary nodes (statusCounts rs)"

section \<open>The box of one node\<close>

definition block :: "nat \<Rightarrow> string" where "block n = concat (replicate n [CHR 0xE2, CHR 0x96, CHR 0x88])"
definition shade :: "nat \<Rightarrow> string" where "shade n = concat (replicate n [CHR 0xE2, CHR 0x96, CHR 0x91])"

text \<open>
  The product is that of 64-bit integers. Go's division cuts off towards zero; what is negative
  is then raised to zero.
\<close>

definition barFilled :: "int \<Rightarrow> nat \<Rightarrow> nat" where
  "barFilled pct width = (let n = signed_take_bit 63 (pct * int width) in if n \<le> 0 then 0 else min (nat (n div 100)) width)"

definition bar :: "int \<Rightarrow> nat \<Rightarrow> string" where
  "bar pct width = block (barFilled pct width) @ shade (width - barFilled pct width)"

definition statusIcon :: "string \<Rightarrow> string" where
  "statusIcon status = (if status \<in> {''active'', ''yes'', ''OK''} then ''[OK]'' else ''[X]'')"

definition pad3 :: "string \<Rightarrow> string" where
  "pad3 s = replicate (3 - length s) CHR '' '' @ s"

definition atoiPct :: "string \<Rightarrow> int" where
  "atoiPct s = (case atoi (trimSuffix s ''%'') of None \<Rightarrow> 0 | Some p \<Rightarrow> p)"

text \<open>The box without the table of processes. The bar called CPU is that of the memory.\<close>

definition formatNode :: "nodeStats \<Rightarrow> string" where
  "formatNode s = (let mem = bar (atoiPct (nsMemory s)) 20; disk = bar (atoiPct (nsDisk s)) 20 in
     line '''' @ line (sprintf ''  +- Node: %s (%s)'' [Str (nsHostname s), Str (nsKernel s)]) @
     line (sprintf ''  |- Uptime: %s'' [Str (nsUptime s)]) @
     line (sprintf ''  |- CPU:    %s %s  (%d cores, load: %s)'' [Str mem, Str (pad3 (nsMemory s)), Num (nsCPUCores s), Str (nsCPULoad s)]) @
     line (sprintf ''  |- RAM:    %s %s  (%s / %s)'' [Str mem, Str (pad3 (nsMemory s)), Str (nsMemUsed s), Str (nsMemTotal s)]) @
     line (sprintf ''  |- DISK:   %s %s  (%s / %s)'' [Str disk, Str (pad3 (nsDisk s)), Str (nsDiskUsed s), Str (nsDiskSize s)]) @
     line (sprintf ''  |- NET:    ^ %s  v %s'' [Str (nsNetOut s), Str (nsNetIn s)]))"

definition formatRuntime :: "runtimeStatus \<Rightarrow> string" where
  "formatRuntime rt =
     (if rtK3sVersion rt \<noteq> '''' then line (sprintf ''  |- K3s:    %s v%s  (%s)'' [Str (statusIcon (rtK3sRunning rt)), Str (rtK3sVersion rt), Str (rtK3sRunning rt)]) else '''') @
     (if rtDockerVer rt \<noteq> '''' then line (sprintf ''  |- Docker: %s v%s  (%s)'' [Str (statusIcon (rtDockerOK rt)), Str (rtDockerVer rt), Str (rtDockerOK rt)]) else '''') @
     (if rtK3sRunning rt = ''active'' then line (sprintf ''  |- Pods:   %s running'' [Str (rtPodCount rt)]) else '''')"

section \<open>The subcommands of cluster\<close>

definition kubeListings :: "string dict" where
  "kubeListings = [(''nodes'', ''get nodes -o wide''), (''pods'', ''get pods --all-namespaces''),
     (''services'', ''get services --all-namespaces''), (''deployments'', ''get deployments --all-namespaces''),
     (''ingresses'', ''get ingress --all-namespaces''), (''configmaps'', ''get configmaps --all-namespaces''),
     (''secrets'', ''get secrets --all-namespaces''), (''info'', ''cluster-info''), (''version'', ''version'')]"

datatype clusterCommand =
    KubeListing string "string list"
  | KubeTop
  | KubeLogs string string int bool
  | KubeExec string "string list" string
  | KubeScale string int string
  | KubeApply string
  | KubeDelete string string string
  | KubeDescribe string string string
  | JoinToken
  | RestartK3s
  | KubeEvents string string
  | Cordon string
  | Uncordon string
  | Drain string
  | LabelNode string string
  | UpgradeK3s string
  | EtcdSnapshot
  | CertRotate
  | KubeGet string string string string
  | HelmRepoAdd string string
  | HelmRepoList
  | HelmInstall string string string
  | HelmUpgrade string string string
  | HelmList string
  | NodeSSH string
  | PortForward string string string
  | EtcdRestore string

primrec runClusterCommand :: "clusterCommand \<Rightarrow> conn \<Rightarrow> unit res prog" where
  "runClusterCommand (KubeListing name args) t = (case mget kubeListings name of
     None \<Rightarrow> fail (Errorf ''unknown command %q for %q'' [Str name, Str ''sdk-ops cluster''])
   | Some k \<Rightarrow> runClusterKubectl k t args)"
| "runClusterCommand KubeTop t = runClusterTop t"
| "runClusterCommand (KubeLogs pod ns n follow) t = runClusterLogs pod ns n follow t"
| "runClusterCommand (KubeExec pod args ns) t = runClusterExec pod args ns t"
| "runClusterCommand (KubeScale resource replicas ns) t = runClusterScale resource replicas ns t"
| "runClusterCommand (KubeApply file) t = runClusterApply file t"
| "runClusterCommand (KubeDelete resource name ns) t = runClusterDelete resource name ns t"
| "runClusterCommand (KubeDescribe resource name ns) t = runClusterDescribe resource name ns t"
| "runClusterCommand JoinToken t = tryP id (runClusterToken t) (\<lambda>_. okP)"
| "runClusterCommand RestartK3s t = runClusterRestart t"
| "runClusterCommand (KubeEvents ns kind) t = runClusterEvents ns kind t"
| "runClusterCommand (Cordon node) t = runClusterNodeOp ''cordon'' node t"
| "runClusterCommand (Uncordon node) t = runClusterNodeOp ''uncordon'' node t"
| "runClusterCommand (Drain node) t = runClusterNodeOp ''drain --ignore-daemonsets --delete-emptydir-data'' node t"
| "runClusterCommand (LabelNode node label) t = clusterLabel node label t"
| "runClusterCommand (UpgradeK3s version) t = runClusterUpgrade version t"
| "runClusterCommand EtcdSnapshot t = runClusterEtcdSnapshot t"
| "runClusterCommand CertRotate t = runClusterCertRotate t"
| "runClusterCommand (KubeGet kind name ns format) t = runClusterGet kind name ns format t"
| "runClusterCommand (HelmRepoAdd name url) t = helmRepoAdd name url t"
| "runClusterCommand HelmRepoList t = helmRepoList t"
| "runClusterCommand (HelmInstall name chart ns) t = helmInstall name chart ns t"
| "runClusterCommand (HelmUpgrade name chart ns) t = helmUpgrade name chart ns t"
| "runClusterCommand (HelmList ns) t = helmList ns t"
| "runClusterCommand (NodeSSH name) t = runClusterNodeSSH name t"
| "runClusterCommand (PortForward pod mapping ns) t = runClusterPortForward pod mapping ns t"
| "runClusterCommand (EtcdRestore snapshot) t = runClusterEtcdRestore snapshot t"

section \<open>Hooks\<close>

definition CreateHookLocal :: "string \<Rightarrow> string \<Rightarrow> string \<Rightarrow> unit res prog" where
  "CreateHookLocal name phase content =
     Do (Getenv ''HOME'') (\<lambda>h. case aErr h of Some m \<Rightarrow> fail (Ext m) | None \<Rightarrow>
     let path = pathJoin [aOut h, ''.sdk-ops'', ''hooks'', phase, name] in
     Do (MkDir (pathDir path)) (\<lambda>_.
     tryP (Wrapf ''create hook: %w'' []) (callP (WriteMode (pathClean path) 384 content)) (\<lambda>_. okP)))"

text \<open>A pipe that cannot be opened or written to is part of the answer of the session.\<close>

definition InstallHook :: "conn \<Rightarrow> string \<Rightarrow> string \<Rightarrow> string \<Rightarrow> unit res prog" where
  \<open>InstallHook c name phase content =
     (let dir = sprintf ''/opt/sdk-ops/hooks/%s'' [Str phase]; tmp = sprintf ''/tmp/sdk-hook-%s'' [Str name];
          upload = Fmt ''sudo sh -c 'cat > %s' && sudo chmod +x %s && sudo mv %s %s/'' [Str tmp, Str tmp, Str tmp, Str dir] in
      bind (execP c (Fmt ''sudo mkdir -p %s'' [Str dir])) (\<lambda>_.
      Do (ExecIn c upload content) (\<lambda>a. case aSess a of
        Some m \<Rightarrow> fail (Wrapf ''ssh session: %w'' [] (Ext m))
      | None \<Rightarrow> (case aErr a of None \<Rightarrow> okP
          | Some m \<Rightarrow> fail (Wrapf (''upload hook: %w'' @ [CHR 0x0A] @ ''%s'') [Str (aOut a)] (Ext m))))))\<close>

section \<open>What the displays show\<close>

lemma barFilled_bound: "barFilled pct width \<le> width"
  by (simp add: barFilled_def Let_def)

lemma product_fits:
  fixes p w :: int
  assumes "0 \<le> p" "p \<le> 2 ^ 31" "0 \<le> w" "w \<le> 2 ^ 31"
  shows "signed_take_bit 63 (p * w) = p * w"
proof -
  have "p * w \<le> 2 ^ 31 * 2 ^ 31" using assms by (intro mult_mono) simp_all
  then have "p * w < 2 ^ 63" by simp
  moreover have "- (2 ^ 63) \<le> p * w" by (rule order_trans [OF _ mult_nonneg_nonneg [OF assms(1,3)]]) simp
  ultimately show ?thesis by (intro signed_take_bit_int_eq_self)
qed

text \<open>A bar has its width; within 32 bits it is full from a hundred percent on and empty at none.\<close>

theorem bar_width: "length (bar pct width) = 3 * width"
  using barFilled_bound [of pct width] by (simp add: bar_def block_def shade_def length_concat comp_def sum_list_replicate)

theorem bar_full:
  assumes "100 \<le> pct" "pct \<le> 2 ^ 31" "width \<le> 2 ^ 31"
  shows "bar pct width = block width"
proof -
  have f: "signed_take_bit 63 (pct * int width) = pct * int width" using assms by (intro product_fits) auto
  have "100 * int width \<le> pct * int width" using assms(1) by (intro mult_right_mono) simp_all
  then have "100 * int width div 100 \<le> pct * int width div 100" by (rule zdiv_mono1) simp
  then have w: "int width \<le> pct * int width div 100" by simp
  have "barFilled pct width = width"
  proof (cases "width = 0")
    case False
    with assms(1) have "0 < pct * int width" by simp
    with w show ?thesis by (simp add: barFilled_def f Let_def)
  qed (simp add: barFilled_def Let_def)
  then show ?thesis by (simp add: bar_def shade_def)
qed

theorem bar_empty: "bar 0 width = shade width"
  by (simp add: bar_def barFilled_def block_def)

text \<open>The box of \<open>node info\<close> does not depend on the use of the CPU, and its CPU bar is that of the memory.\<close>

theorem cpu_bar_is_memory: "formatNode (s\<lparr>nsCPU := x\<rparr>) = formatNode s"
  by (simp add: formatNode_def)

text \<open>An agent found healthy under its second address is shown as an agent of which nothing is known.\<close>

theorem second_agent_unknown:
  "strAgent r = ''healthy (agt)'' \<Longrightarrow> statusRenderNodeHeader r = statusRenderNodeHeader (r\<lparr>strAgent := ''''\<rparr>)"
  by (simp add: statusRenderNodeHeader_def)

end
