(* ===== verification/SyncProps.thy ===== *)
theory SyncProps imports StatusCommands DeployProps begin

text \<open>
  What the mutex of \<open>state sync\<close> guarantees: however the goroutines interleave, the state file
  ends as if the resources had been recorded one after the other.
\<close>

section \<open>The state file along a run\<close>

definition stateStep :: "resource list \<Rightarrow> req \<times> answer \<Rightarrow> resource list" where
  "stateStep rs x = (case fst x of SaveState s \<Rightarrow> if aErr (snd x) = None then s else rs | _ \<Rightarrow> rs)"

definition savedOk :: "req \<times> answer \<Rightarrow> bool" where
  "savedOk x \<longleftrightarrow> (\<exists>s. fst x = SaveState s) \<and> aErr (snd x) = None"

primrec stateAfter :: "resource list \<Rightarrow> trace \<Rightarrow> resource list" where
  "stateAfter rs [] = rs"
| "stateAfter rs (x # t) = stateAfter (stateStep rs x) t"

text \<open>A load that succeeds answers with what the file holds.\<close>

primrec stateHonest :: "resource list \<Rightarrow> trace \<Rightarrow> bool" where
  "stateHonest rs [] \<longleftrightarrow> True"
| "stateHonest rs (x # t) \<longleftrightarrow> (fst x = LoadState \<and> aErr (snd x) = None \<longrightarrow> aRes (snd x) = rs) \<and> stateHonest (stateStep rs x) t"

lemma stateStep_idle: "(\<And>s. q \<noteq> SaveState s) \<Longrightarrow> stateStep rs (q, a) = rs \<and> \<not> savedOk (q, a)"
  by (cases q) (auto simp: stateStep_def savedOk_def)

lemma stateStep_save:
  "stateStep rs (SaveState s, a) = (if aErr a = None then s else rs)" "savedOk (SaveState s, a) \<longleftrightarrow> aErr a = None"
  by (auto simp: stateStep_def savedOk_def)

section \<open>Programs that record under the mutex\<close>

text \<open>
  A program is well behaved when, outside the mutex (\<open>None\<close>), it neither asks the clock nor
  saves, and when, after a load that answered \<open>rs\<close> (\<open>Some rs\<close>), it asks the clock and then saves
  \<open>rs\<close> with one more record.
\<close>

primrec locked :: "'a prog \<Rightarrow> resource list option \<Rightarrow> bool" where
  "locked (Ret x) m \<longleftrightarrow> m = None"
| "locked (Do q k) m \<longleftrightarrow> (case m of
     None \<Rightarrow> if q = LoadState then \<forall>a. locked (k a) (if aErr a = None then Some (aRes a) else None)
             else q \<noteq> Now \<and> (\<forall>s. q \<noteq> SaveState s) \<and> (\<forall>a. locked (k a) None)
   | Some rs \<Rightarrow> q = Now \<and> (\<forall>a. locked (k a) (Some rs)) \<or>
       (\<exists>key i. q = SaveState (recordResource key i rs)) \<and> (\<forall>a. locked (k a) None))"

definition stateless :: "req \<Rightarrow> bool" where
  "stateless q \<longleftrightarrow> q \<noteq> LoadState \<and> q \<noteq> Now \<and> (\<forall>s. q \<noteq> SaveState s)"

lemma locked_holding: "locked p m \<Longrightarrow> holding p \<longleftrightarrow> m \<noteq> None"
  by (cases p rule: holding.cases) (auto split: option.splits if_splits)

lemma locked_bind: "locked p m \<Longrightarrow> (\<And>x. locked (f x) None) \<Longrightarrow> locked (bind p f) m"
proof (induction p arbitrary: m)
  case (Do q k)
  have ih: "locked (k a) m \<Longrightarrow> locked (bind (k a) f) m" for a m using Do by blast
  from Do.prems(1) show ?case
    by (cases m; cases "q = LoadState") (auto split del: if_split intro!: ih)
qed simp

lemma locked_stateless: "allreq stateless p \<Longrightarrow> locked p None"
  by (induction p) (auto simp: stateless_def)

lemma locked_record: "locked (stateRecord type name node version runtime status meta) None"
  by (auto simp: stateRecord_def nowP_def)

lemma stateless_basic [prog_intros]:
  "stateless (Dial c)" "stateless (Close c)" "stateless (Exec c s)" "stateless (Getenv v)"
  by (simp_all add: stateless_def)

lemma locked_defer: "locked p None \<Longrightarrow> locked (deferClose c p) None"
  unfolding deferClose_def by (rule locked_bind) (auto simp: stateless_def)

lemma locked_seq: "allreq stateless p \<Longrightarrow> (\<And>x. locked (f x) None) \<Longrightarrow> locked (bind p f) None"
  by (rule locked_bind [OF locked_stateless])

lemma locked_case: "(\<And>x y. locked (f x y) None) \<Longrightarrow> locked (case z of (x, y) \<Rightarrow> f x y) None"
  by (cases z) simp

lemma locked_sum: "(\<And>e. locked (f e) None) \<Longrightarrow> (\<And>x. locked (g x) None) \<Longrightarrow> locked (case z of Inl e \<Rightarrow> f e | Inr x \<Rightarrow> g x) None"
  by (cases z) simp_all

lemma locked_services: "locked (syncServices c ip runtime svcs) None"
proof (induction svcs)
  case (Cons svc svcs)
  have "allreq stateless (ServiceStatus c svc)" by (auto simp: ServiceStatus_def intro!: prog_intros split: prod.splits)
  with Cons show ?case
    unfolding syncServices.simps by (intro locked_seq locked_case locked_bind [OF locked_record] locked_bind [OF Cons]) simp_all
qed simp

lemma locked_databases: "locked (syncDatabases ip lines) None"
  by (induction lines) (auto intro!: locked_bind locked_record split: list.splits)

lemma locked_single: "locked (syncSingleNode c) None"
proof -
  have run: "allreq stateless (sshRun c' s)" for c' s by (intro prog_intros)
  have "allreq stateless (ListServices c')" for c' by (auto simp: ListServices_def intro!: prog_intros)
  then have s: "locked (stateSyncServices c' ip d k) None" for c' ip d k
    unfolding stateSyncServices_def by (intro locked_seq locked_services)
  have d: "locked (stateSyncDatabases c' ip) None" for c' ip
    unfolding stateSyncDatabases_def by (intro locked_seq run locked_case locked_databases)
  have "allreq stateless (connectSSH c)" by (intro prog_intros)
  then show ?thesis
    unfolding syncSingleNode_def
    by (intro locked_seq [of "connectSSH c"] locked_sum locked_defer locked_seq [OF run] locked_case locked_bind [OF s] locked_bind [OF d])
      simp_all
qed

section \<open>The invariant of the goroutines\<close>

text \<open>At most one goroutine holds the mutex, and what it has loaded is what the file holds.\<close>

definition exclusive :: "resource list \<Rightarrow> 'a prog list \<Rightarrow> resource list option list \<Rightarrow> bool" where
  "exclusive rs ps ms \<longleftrightarrow> list_all2 locked ps ms \<and>
     (\<forall>i < length ms. \<forall>x. ms ! i = Some x \<longrightarrow> x = rs \<and> (\<forall>j < length ms. j \<noteq> i \<longrightarrow> ms ! j = None))"

lemma exclusive_step:
  assumes e: "exclusive rs ps ms" and i: "i \<in> set (runnable ps)" and p: "ps ! i = Do q k"
    and h: "q = LoadState \<and> aErr a = None \<longrightarrow> aRes a = rs"
  shows "\<exists>ms'. exclusive (stateStep rs (q, a)) (ps[i := k a]) ms' \<and>
    (if savedOk (q, a) then \<exists>key i. stateStep rs (q, a) = recordResource key i rs else stateStep rs (q, a) = rs)"
proof -
  from e have l: "list_all2 locked ps ms" by (simp add: exclusive_def)
  from i have len: "i < length ps" using in_runnable by blast
  then have lm: "i < length ms" using l by (simp add: list_all2_lengthD [symmetric])
  from l len have li: "locked (Do q k) (ms ! i)" using list_all2_nthD [OF l len] p by simp
  from e have cur: "\<And>j x. j < length ms \<Longrightarrow> ms ! j = Some x \<Longrightarrow> x = rs"
    and one: "\<And>j x j'. j < length ms \<Longrightarrow> ms ! j = Some x \<Longrightarrow> j' < length ms \<Longrightarrow> j' \<noteq> j \<Longrightarrow> ms ! j' = None"
    unfolding exclusive_def by blast+
  have upd: "exclusive rs' (ps[i := k a]) (ms[i := m])" if m: "locked (k a) m" "\<And>x. m = Some x \<Longrightarrow> x = rs'"
      "\<And>j x. m = Some x \<Longrightarrow> j < length ms \<Longrightarrow> j \<noteq> i \<Longrightarrow> ms ! j = None"
      "\<And>j x. j < length ms \<Longrightarrow> j \<noteq> i \<Longrightarrow> ms ! j = Some x \<Longrightarrow> x = rs'" for m rs'
    unfolding exclusive_def
  proof (intro conjI allI impI)
    show "list_all2 locked (ps[i := k a]) (ms[i := m])" by (rule list_all2_update_cong [where xs = ps and ys = ms, OF l m(1)])
  next
    fix i' x assume i': "i' < length (ms[i := m])" "ms[i := m] ! i' = Some x"
    show "x = rs'"
    proof (cases "i' = i")
      case True
      with i' lm have "m = Some x" by simp
      then show ?thesis by (rule m(2))
    next
      case False
      with i' have "i' < length ms" "ms ! i' = Some x" by simp_all
      with False show ?thesis by (intro m(4))
    qed
    fix j assume j: "j < length (ms[i := m])" "j \<noteq> i'"
    show "ms[i := m] ! j = None"
    proof (cases "i' = i")
      case True
      with i' lm have "m = Some x" by simp
      from m(3) [OF this, of j] j True show ?thesis by simp
    next
      case False
      with i' have x: "i' < length ms" "ms ! i' = Some x" by simp_all
      show ?thesis
      proof (cases "j = i")
        case True
        have "m = None"
        proof (rule ccontr)
          assume "m \<noteq> None"
          then obtain y where "m = Some y" by blast
          from m(3) [OF this x(1) False] x(2) show False by simp
        qed
        with True lm show ?thesis by simp
      next
        case False
        with j one [OF x, of j] show ?thesis by simp
      qed
    qed
  qed
  show ?thesis
  proof (cases "ms ! i")
    case (Some x)
    with cur one lm have x: "x = rs" "\<And>j. j < length ms \<Longrightarrow> j \<noteq> i \<Longrightarrow> ms ! j = None" by blast+
    from li Some x(1) consider "q = Now" "locked (k a) (Some rs)" | key r where "q = SaveState (recordResource key r rs)" "locked (k a) None"
      by auto
    then show ?thesis
    proof cases
      case 1
      have "exclusive rs (ps[i := k a]) (ms[i := Some rs])" by (rule upd) (use 1 x in auto)
      with 1(1) stateStep_idle [of q rs a] show ?thesis by auto
    next
      case 2
      have "exclusive (stateStep rs (q, a)) (ps[i := k a]) (ms[i := None])" by (rule upd) (use 2 x in auto)
      with 2(1) show ?thesis by (auto simp: stateStep_save)
    qed
  next
    case None
    have free: "exclusive rs (ps[i := k a]) (ms[i := None])" if "locked (k a) None" by (rule upd) (use that cur in auto)
    show ?thesis
    proof (cases "q = LoadState")
      case True
      have none: "ms ! j = None" if j: "j < length ms" "j \<noteq> i" for j
      proof -
        have lj: "j < length ps" using j l by (simp add: list_all2_lengthD)
        with i p True have "\<not> holding (ps ! j)" by (auto simp: runnable_def)
        with locked_holding [OF list_all2_nthD [OF l lj]] show ?thesis by simp
      qed
      from li None True have la: "locked (k a) (if aErr a = None then Some (aRes a) else None)" by simp
      have "\<exists>ms'. exclusive rs (ps[i := k a]) ms'"
      proof (cases "aErr a")
        case None
        with la h True have "locked (k a) (Some rs)" by simp
        then have "exclusive rs (ps[i := k a]) (ms[i := Some rs])" by (rule upd) (use none in auto)
        then show ?thesis by blast
      next
        case (Some y)
        with la have "locked (k a) None" by simp
        with free show ?thesis by blast
      qed
      with True stateStep_idle [of q rs a] show ?thesis by auto
    next
      case False
      with li None have "locked (k a) None" "\<And>s. q \<noteq> SaveState s" by auto
      with free stateStep_idle [of q rs a] show ?thesis by auto
    qed
  qed
qed

section \<open>The state file after a wave\<close>

definition recordAll :: "(string \<times> resourceInfo) list \<Rightarrow> resource list \<Rightarrow> resource list" where
  "recordAll recs rs = foldl (\<lambda>s (key, i). recordResource key i s) rs recs"

lemma recordAll_simps [simp]:
  "recordAll [] rs = rs" "recordAll ((key, i) # recs) rs = recordAll recs (recordResource key i rs)"
  by (simp_all add: recordAll_def)

lemma recordAll_keys: "fst ` set recs \<union> rsID ` set rs \<subseteq> rsID ` set (recordAll recs rs)"
proof (induction recs arbitrary: rs)
  case (Cons x recs)
  obtain key i where x: "x = (key, i)" by (rule prod.exhaust)
  have "rsID ` set (recordResource key i rs) = insert key (rsID ` set rs)"
    using resources.keys_put [of key i rs] by (metis insert_absorb list.set_map set_append list.simps(15) Un_insert_right empty_set sup_bot_right)
  with Cons.IH [of "recordResource key i rs"] show ?case by (auto simp: x)
qed simp

lemma lockWave_end: "crash ps \<noteq> None \<Longrightarrow> lockWave ps = Ret (Inl (the (crash ps)))"
  "crash ps = None \<Longrightarrow> runnable ps = [] \<Longrightarrow> lockWave ps = Ret (Inr (outcomes ps))"
  by (subst lockWave.simps, simp)+

lemma lockWave_stops: "crash ps \<noteq> None \<or> runnable ps = [] \<Longrightarrow> \<exists>x. lockWave ps = Ret x"
  using lockWave_end [of ps] by blast

lemma lockWave_step:
  assumes "runs (lockWave ps) t r" "crash ps = None" "runnable ps \<noteq> []"
  obtains s q k a t' where "t = (Sched (runnable ps), s) # (q, a) # t'" "ps ! pick (runnable ps) s = Do q k"
    "runs (lockWave (ps[pick (runnable ps) s := k a])) t' r"
proof -
  from assms obtain s t1 where t: "t = (Sched (runnable ps), s) # t1"
    and r: "runs (case ps ! pick (runnable ps) s of
      Do q k \<Rightarrow> Do q (\<lambda>a. lockWave (ps[pick (runnable ps) s := k a])) | Ret x \<Rightarrow> Ret (Inr (outcomes ps))) t1 r"
    by (subst (asm) lockWave.simps) (auto simp: runs_Do)
  have "\<not> finished (ps ! pick (runnable ps) s)" using in_runnable [OF pick_in [OF assms(3)]] by blast
  then obtain q k where p: "ps ! pick (runnable ps) s = Do q k" by (cases "ps ! pick (runnable ps) s") auto
  with r obtain a t' where "t1 = (q, a) # t'" "runs (lockWave (ps[pick (runnable ps) s := k a])) t' r" by (auto simp: runs_Do)
  with t p that show thesis by blast
qed

lemma lockWave_records:
  "runs (lockWave ps) t r \<Longrightarrow> exclusive rs ps ms \<Longrightarrow> stateHonest rs t \<Longrightarrow>
    \<exists>recs. stateAfter rs t = recordAll recs rs \<and> length recs = length (filter savedOk t)"
proof (induction ps arbitrary: t rs ms rule: lockWave.induct)
  case (1 ps)
  show ?case
  proof (cases "crash ps = None \<and> runnable ps \<noteq> []")
    case False
    then obtain x where "lockWave ps = Ret x" using lockWave_stops [of ps] by blast
    with 1(2) have "t = []" by simp
    then show ?thesis by (auto intro: exI [of _ "[]"])
  next
    case True
    then have c: "crash ps = None" "runnable ps \<noteq> []" by simp_all
    obtain s q k a t' where t: "t = (Sched (runnable ps), s) # (q, a) # t'" and p: "ps ! pick (runnable ps) s = Do q k"
      and r: "runs (lockWave (ps[pick (runnable ps) s := k a])) t' r"
      by (rule lockWave_step [OF 1(2) c])
    have sched: "stateStep rs (Sched (runnable ps), s) = rs" "\<not> savedOk (Sched (runnable ps), s)" by (auto simp: stateStep_def savedOk_def)
    from 1(4) have h: "q = LoadState \<and> aErr a = None \<longrightarrow> aRes a = rs" "stateHonest (stateStep rs (q, a)) t'"
      by (auto simp: t sched)
    from exclusive_step [OF 1(3) pick_in [OF c(2)] p h(1)] obtain ms' where e: "exclusive (stateStep rs (q, a)) (ps[pick (runnable ps) s := k a]) ms'"
      and st: "if savedOk (q, a) then \<exists>key i. stateStep rs (q, a) = recordResource key i rs else stateStep rs (q, a) = rs" by blast
    from 1(1) [OF _ c(2) p r e h(2)] c(1) obtain recs where
      recs: "stateAfter (stateStep rs (q, a)) t' = recordAll recs (stateStep rs (q, a))" "length recs = length (filter savedOk t')" by auto
    show ?thesis
    proof (cases "savedOk (q, a)")
      case True
      with st obtain key i where "stateStep rs (q, a) = recordResource key i rs" by auto
      with recs True show ?thesis by (auto simp: t sched intro!: exI [of _ "(key, i) # recs"])
    next
      case False
      with st recs show ?thesis by (auto simp: t sched)
    qed
  qed
qed

lemma exclusive_start: "\<forall>p \<in> set ps. locked p None \<Longrightarrow> exclusive rs ps (map (\<lambda>_. None) ps)"
  by (auto simp: exclusive_def list_all2_conv_all_nth)

lemma locked_tasks: "\<forall>p \<in> set (map syncTask targets). locked p None"
  by (auto simp: syncTask_def intro!: locked_bind [OF locked_single])

text \<open>What comes before the wave leaves the state file alone.\<close>

lemma stateAfter_append: "stateAfter rs (t @ u) = stateAfter (stateAfter rs t) u"
  by (induction t arbitrary: rs) auto

lemma stateHonest_append: "stateHonest rs (t @ u) \<longleftrightarrow> stateHonest rs t \<and> stateHonest (stateAfter rs t) u"
  by (induction t arbitrary: rs) auto

lemma stateless_run:
  assumes "allreq stateless p" "runs p t r"
  shows "stateAfter rs t = rs \<and> filter savedOk t = []"
proof -
  have "\<forall>(q, a) \<in> set t. stateless q" using allreq_runs [OF assms] by blast
  then show ?thesis by (induction t) (auto simp: stateless_def stateStep_idle)
qed

lemma stateSync_parts:
  assumes "runs (stateSync node user key port) t (Inr n)"
  shows "\<exists>u v targets counts. t = u @ v \<and> (\<forall>rs. stateAfter rs u = rs \<and> filter savedOk u = []) \<and>
    runs (lockWave (map syncTask targets)) v (Inr counts)"
proof -
  from assms obtain u w ns where t: "t = u @ w" and u: "runs loadNodes u (Inr ns)"
    and w: "runs (bind (nodeTargets ns node user key port) (\<lambda>targets.
       if targets = [] then fail (Errorf ''no nodes registered or specified'' [])
       else tryP id (lockWave (map syncTask targets)) (\<lambda>counts. Ret (Inr (sum_list counts))))) w (Inr n)"
    unfolding stateSync_def by (elim run_tryP_ok)
  from w obtain u2 v targets where w2: "w = u2 @ v" and u2: "runs (nodeTargets ns node user key port) u2 targets"
    and v: "runs (if targets = [] then fail (Errorf ''no nodes registered or specified'' [])
       else tryP id (lockWave (map syncTask targets)) (\<lambda>counts. Ret (Inr (sum_list counts)))) v (Inr n)"
    by (elim run_bind)
  from v obtain v1 v2 counts where v1: "v = v1 @ v2" "runs (lockWave (map syncTask targets)) v1 (Inr counts)"
    and v2: "runs (Ret (Inr (sum_list counts))) v2 (Inr n)" by (auto split: if_splits elim: run_tryP_ok)
  from v2 have "v2 = []" by simp
  have load: "allreq stateless loadNodes" by (auto simp: loadNodes_def stateless_def split: option.splits)
  have "allreq stateless (nodeTargets ns node user key port)"
    unfolding nodeTargets_def lookupNode_def using load by (auto split: prod.splits intro!: allreq_bindI)
  from stateless_run [OF this u2] stateless_run [OF load u] have "stateAfter rs (u @ u2) = rs \<and> filter savedOk (u @ u2) = []" for rs
    by (simp add: stateAfter_append)
  with v1 t w2 \<open>v2 = []\<close> show ?thesis by (intro exI [of _ "u @ u2"] exI [of _ v1]) auto
qed


text \<open>One node with one database container.\<close>

definition alone :: "trace \<Rightarrow> trace" where
  "alone t = concat (map (\<lambda>x. [(Sched [0], ok_out ''''), x]) t)"

lemma runnable_one: "runnable [p] = (if finished p then [] else [0])"
  by (cases p rule: holding.cases) (auto simp: runnable_def)

lemma lockWave_one: "runs p t (Inr x) \<Longrightarrow> runs (lockWave [p]) (alone t) (Inr [x])"
proof (induction p arbitrary: t)
  case (Ret y)
  then show ?case by (simp add: lockWave_end runnable_one alone_def)
next
  case (Do q k)
  from Do.prems obtain a u where t: "t = (q, a) # u" "runs (k a) u (Inr x)" by (auto simp: runs_Do)
  have "runs (lockWave [k a]) (alone u) (Inr [x])" using Do.IH [of "k a" u] t(2) by blast
  then show ?case by (subst lockWave.simps) (simp add: runnable_one t alone_def runs_Do pick_def)
qed

definition demo_target :: nodeConfig where
  "demo_target = zeroNode\<lparr>ncIP := ''10.0.0.1''\<rparr>"

definition demo_task_run :: trace where
  "demo_task_run = map (\<lambda>q. (q, ok_out ''x'')) (calls (ok_out ''x'') (syncTask (nodeTarget demo_target)))"

lemma demo_task_result: "steady (ok_out ''x'') (syncTask c) = Inr 1"
proof -
  have "goFields (trimSpace ''x'') = [''x'']" "splitOn CHR 0x0A ''x'' = [''x'']" "trimSpace ''x'' = ''x''" by code_simp+
  then show ?thesis
    by (simp add: syncTask_def syncSingleNode_def stateSyncServices_def stateSyncDatabases_def ListServices_def ServiceStatus_def
      stateRecord_def deferClose_def steady_simps runResult_ok)
qed

lemma demo_task_calls:
  "\<exists>a b d e f i. calls (ok_out ''x'') (syncTask c) = [Dial c, Exec c a, Exec c b, Exec c d, Exec c e, LoadState, Now,
     SaveState (recordResource (cHost c @ ''/service/x'') i []), Exec c f, Close c]"
proof -
  have s: "goFields ''x'' = [''x'']" "splitOn CHR 0x0A ''x'' = [''x'']" "trimSpace ''x'' = ''x''" by code_simp+
  have r: "resourceID ip ''service'' ''x'' = ip @ ''/service/x''" for ip
    by (simp add: resourceID_def sprintf_def verb_def show_arg_def)
  have a: "aRes (ok_out ''x'') = []" "aErr (ok_out ''x'') = None" by (simp_all add: ok_out_def)
  have c: "calls (ok_out ''x'') (connectSSH c) = [Dial c]" "calls (ok_out ''x'') (runE c p w) = [Exec c p]" for p w
    by (simp add: connectSSH_def ok_out_def) (simp add: runE_def steady_simps runResult_ok)
  show ?thesis
    by (simp add: syncTask_def syncSingleNode_def stateSyncServices_def stateSyncDatabases_def ListServices_def ServiceStatus_def
      stateRecord_def deferClose_def steady_simps runResult_ok s r a c) blast
qed

definition demo_state_sync :: trace where
  "demo_state_sync = (LoadConfig, (ok_out '''')\<lparr>aNodes := [demo_target]\<rparr>) # alone demo_task_run"

lemma demo_state_sync_ok: "runs (stateSync '''' '''' '''' 0) demo_state_sync (Inr 1)"
proof -
  have "runs (syncTask (nodeTarget demo_target)) demo_task_run (Inr 1)"
    using steady_runs [of "syncTask (nodeTarget demo_target)" "ok_out ''x''"] by (simp add: demo_task_run_def demo_task_result)
  from lockWave_one [OF this] have "runs (lockWave [syncTask (nodeTarget demo_target)]) (alone demo_task_run) (Inr [1])" .
  then have "runs (tryP id (lockWave [syncTask (nodeTarget demo_target)]) (\<lambda>counts. Ret (Inr (sum_list counts)))) (alone demo_task_run) (Inr 1)"
    unfolding runs_tryP by force
  then show ?thesis
    by (simp add: stateSync_def loadNodes_def nodeTargets_def demo_state_sync_def tryP_def runs_Do ok_out_def)
qed


end
